(* ===== verification/Prelude.thy ===== *)
theory Prelude
  imports Main "HOL-Library.AList" "HOL-Library.Word"
begin

text \<open>
  What every component of the model shares: Go strings and the functions of the packages
  strings, strconv and unicode that the source calls, errors with their wrapping chain, results
  of fallible calls, Go maps, times, durations and 64-bit integers.

  Strings are byte lists (a \<^typ>\<open>char\<close> is a byte). White space is trimmed for every code point of
  Unicode's White_Space class (as UTF-8 sequences); letters are folded to lower case in the ASCII
  range, bytes from 128 on are left as they are.
\<close>

named_theorems gomap_simps \<open>laws of the Go map operations\<close>
named_theorems err_simps \<open>evaluation of error chains and results\<close>
named_theorems str_simps \<open>laws of the string functions\<close>

section \<open>Times, durations and 64-bit integers\<close>

text \<open>
  A time is the number of nanoseconds since 0001-01-01T00:00:00Z, so the zero value of Go's
  time.Time is 0. A duration is a number of nanoseconds in the range of a 64-bit integer.
\<close>

type_synonym time = int
type_synonym duration = int

definition IsZero :: "time \<Rightarrow> bool" where
  "IsZero t \<longleftrightarrow> t = 0"

abbreviation (input) Nanosecond :: int where "Nanosecond \<equiv> 1"
abbreviation (input) Millisecond :: int where "Millisecond \<equiv> 1000000"
abbreviation (input) Second :: int where "Second \<equiv> 1000000000"
abbreviation (input) Minute :: int where "Minute \<equiv> 60000000000"
abbreviation (input) Hour :: int where "Hour \<equiv> 3600000000000"

definition int64_min :: int where "int64_min = - 9223372036854775808"
definition int64_max :: int where "int64_max = 9223372036854775807"

definition wrap64 :: "int \<Rightarrow> int" where
  "wrap64 x = (x + 9223372036854775808) mod 18446744073709551616 - 9223372036854775808"

definition is_int64 :: "int \<Rightarrow> bool" where
  "is_int64 x \<longleftrightarrow> int64_min \<le> x \<and> x \<le> int64_max"

lemma wrap64_id [simp]: "is_int64 x \<Longrightarrow> wrap64 x = x"
  by (simp add: wrap64_def is_int64_def int64_min_def int64_max_def)

lemma is_int64_wrap64 [simp]: "is_int64 (wrap64 x)"
proof -
  have "0 \<le> (x + 9223372036854775808) mod 18446744073709551616"
    and "(x + 9223372036854775808) mod 18446744073709551616 < 18446744073709551616"
    by simp_all
  then show ?thesis
    unfolding wrap64_def is_int64_def int64_min_def int64_max_def by linarith
qed

lemma wrap64_eq_sint: "wrap64 x = sint (word_of_int x :: 64 word)"
  by (simp add: wrap64_def sint_sbintrunc' signed_take_bit_eq_take_bit_shift take_bit_eq_mod)

text \<open>Time.Sub saturates at the ends of the range of a duration; Duration arithmetic wraps.\<close>

definition time_Sub :: "time \<Rightarrow> time \<Rightarrow> duration" where
  "time_Sub a b = max int64_min (min int64_max (a - b))"

lemma is_int64_time_Sub [simp]: "is_int64 (time_Sub a b)"
  by (auto simp: time_Sub_def is_int64_def int64_min_def int64_max_def)

lemma time_Sub_le_iff:
  "is_int64 d \<Longrightarrow> d < int64_max \<Longrightarrow> time_Sub a b \<le> d \<longleftrightarrow> a - b \<le> d"
  by (auto simp: time_Sub_def is_int64_def int64_min_def int64_max_def)

section \<open>Strings\<close>

definition has_prefix :: "string \<Rightarrow> string \<Rightarrow> bool" where
  "has_prefix s p \<longleftrightarrow> take (length p) s = p"

definition has_suffix :: "string \<Rightarrow> string \<Rightarrow> bool" where
  "has_suffix s p \<longleftrightarrow> has_prefix (rev s) (rev p)"

definition trim_prefix :: "string \<Rightarrow> string \<Rightarrow> string" where
  "trim_prefix s p = (if has_prefix s p then drop (length p) s else s)"

definition trim_suffix :: "string \<Rightarrow> string \<Rightarrow> string" where
  "trim_suffix s p = (if has_suffix s p then take (length s - length p) s else s)"

fun contains_sub :: "string \<Rightarrow> string \<Rightarrow> bool" where
  "contains_sub [] p = (p = [])"
| "contains_sub (c # s) p = (has_prefix (c # s) p \<or> contains_sub s p)"

definition contains_any :: "string \<Rightarrow> string \<Rightarrow> bool" where
  "contains_any s chars = list_ex (\<lambda>c. c \<in> set chars) s"

definition trim_right_char :: "char \<Rightarrow> string \<Rightarrow> string" where
  "trim_right_char c s = rev (dropWhile (\<lambda>x. x = c) (rev s))"

definition trim_left_char :: "char \<Rightarrow> string \<Rightarrow> string" where
  "trim_left_char c s = dropWhile (\<lambda>x. x = c) s"

fun split_on :: "char \<Rightarrow> string \<Rightarrow> string list" where
  "split_on c [] = [[]]"
| "split_on c (x # xs) =
     (if x = c then [] # split_on c xs
      else (case split_on c xs of y # ys \<Rightarrow> (x # y) # ys | [] \<Rightarrow> [[x]]))"

definition lower_char :: "char \<Rightarrow> char" where
  "lower_char c =
     (let n = of_char c :: int in if 65 \<le> n \<and> n \<le> 90 then char_of (n + 32) else c)"

definition to_lower :: "string \<Rightarrow> string" where
  "to_lower s = map lower_char s"

definition equal_fold :: "string \<Rightarrow> string \<Rightarrow> bool" where
  "equal_fold s t \<longleftrightarrow> to_lower s = to_lower t"

lemma has_prefix_append [simp]: "has_prefix (p @ s) p"
  by (simp add: has_prefix_def)

lemma has_prefix_Nil [simp]: "has_prefix s []"
  by (simp add: has_prefix_def)

lemma has_prefix_iff: "has_prefix s p \<longleftrightarrow> (\<exists>t. s = p @ t)"
  unfolding has_prefix_def by (metis append_eq_conv_conj append_take_drop_id)

lemma has_prefixE: "has_prefix s p \<Longrightarrow> (\<And>t. s = p @ t \<Longrightarrow> thesis) \<Longrightarrow> thesis"
  by (auto simp: has_prefix_iff)

lemma has_prefix_length: "has_prefix s p \<Longrightarrow> length p \<le> length s"
  by (auto simp: has_prefix_iff)

lemma has_prefix_trans: "has_prefix s p \<Longrightarrow> has_prefix p q \<Longrightarrow> has_prefix s q"
  by (auto simp: has_prefix_iff)

lemma has_prefix_of_append: "has_prefix s p \<Longrightarrow> has_prefix (s @ t) p"
  by (auto simp: has_prefix_iff)

lemma has_prefix_comparable:
  "has_prefix s p \<Longrightarrow> has_prefix s q \<Longrightarrow> length p \<le> length q \<Longrightarrow> has_prefix q p"
  unfolding has_prefix_def by (metis min.absorb1 take_take)

lemma trim_prefix_append [simp]: "trim_prefix (p @ s) p = s"
  by (simp add: trim_prefix_def)

lemma contains_sub_append: "contains_sub t p \<Longrightarrow> contains_sub (s @ t) p"
  by (induction s) auto

lemma has_prefix_contains: "has_prefix s p \<Longrightarrow> contains_sub s p"
  by (cases s) (auto simp: has_prefix_def)

lemma contains_sub_iff: "contains_sub s p \<longleftrightarrow> (\<exists>a b. s = a @ p @ b)"
proof
  show "contains_sub s p \<Longrightarrow> \<exists>a b. s = a @ p @ b"
  proof (induction s)
    case (Cons c s)
    then show ?case
    proof (cases "has_prefix (c # s) p")
      case True
      then obtain t where "c # s = [] @ p @ t" by (auto simp: has_prefix_iff)
      then show ?thesis by blast
    next
      case False
      with Cons obtain a b where "s = a @ p @ b" by auto
      then have "c # s = (c # a) @ p @ b" by simp
      then show ?thesis by blast
    qed
  qed simp
  assume "\<exists>a b. s = a @ p @ b"
  then obtain a b where "s = a @ p @ b" by blast
  moreover have "contains_sub (p @ b) p" by (rule has_prefix_contains) simp
  ultimately show "contains_sub s p" by (simp add: contains_sub_append)
qed

lemma contains_any_iff: "contains_any s cs \<longleftrightarrow> (\<exists>c \<in> set s. c \<in> set cs)"
  by (auto simp: contains_any_def list_ex_iff)

lemma trim_right_char_append_last:
  "s \<noteq> [] \<Longrightarrow> last s \<noteq> c \<Longrightarrow> trim_right_char c s = s"
  by (cases s rule: rev_cases) (auto simp: trim_right_char_def)

lemma trim_right_char_split: "\<exists>n. s = trim_right_char c s @ replicate n c"
proof -
  have "rev s = takeWhile (\<lambda>x. x = c) (rev s) @ dropWhile (\<lambda>x. x = c) (rev s)" by simp
  moreover have "takeWhile (\<lambda>x. x = c) (rev s) = replicate (length (takeWhile (\<lambda>x. x = c) (rev s))) c"
    by (rule replicate_eqI [symmetric, THEN sym]) (auto dest: set_takeWhileD)
  ultimately have "s = trim_right_char c s @ rev (replicate (length (takeWhile (\<lambda>x. x = c) (rev s))) c)"
    unfolding trim_right_char_def by (metis rev_append rev_rev_ident)
  then show ?thesis by (metis rev_replicate)
qed

lemma trim_right_char_last: "trim_right_char c s \<noteq> [] \<Longrightarrow> last (trim_right_char c s) \<noteq> c"
proof -
  assume "trim_right_char c s \<noteq> []"
  then have ne: "dropWhile (\<lambda>x. x = c) (rev s) \<noteq> []" by (simp add: trim_right_char_def)
  then have "hd (dropWhile (\<lambda>x. x = c) (rev s)) \<noteq> c" by (rule hd_dropWhile)
  with ne show ?thesis by (simp add: trim_right_char_def last_rev)
qed

lemma trim_right_char_idem [simp]: "trim_right_char c (trim_right_char c s) = trim_right_char c s"
  by (simp add: trim_right_char_def dropWhile_idem)

lemma set_trim_right_char: "set (trim_right_char c s) \<subseteq> set s"
  unfolding trim_right_char_def by (metis set_dropWhileD set_rev subsetI)

lemma trim_right_char_prefix: "has_prefix s (trim_right_char c s)"
  using trim_right_char_split [of s c] by (auto simp: has_prefix_iff)

lemma lower_char_idem [simp]: "lower_char (lower_char c) = lower_char c"
  by (auto simp: lower_char_def Let_def)

lemma to_lower_idem [simp]: "to_lower (to_lower s) = to_lower s"
  by (simp add: to_lower_def comp_def)

lemma to_lower_append [str_simps]: "to_lower (s @ t) = to_lower s @ to_lower t"
  by (simp add: to_lower_def)

lemma length_to_lower [simp]: "length (to_lower s) = length s"
  by (simp add: to_lower_def)

lemma to_lower_Nil_iff [simp]: "to_lower s = [] \<longleftrightarrow> s = []"
  by (simp add: to_lower_def)

lemma split_on_ne [simp]: "split_on c s \<noteq> []"
  by (cases s) (auto split: list.splits)

lemma split_on_no_sep: "\<forall>p \<in> set (split_on c s). c \<notin> set p"
  by (induction s) (auto split: list.splits)

subsection \<open>Trimming white space\<close>

text \<open>The UTF-8 encodings of the code points for which unicode.IsSpace holds.\<close>

definition go_spaces :: "string list" where
  "go_spaces =
     [[CHR 0x09], [CHR 0x0A], [CHR 0x0B], [CHR 0x0C], [CHR 0x0D], [CHR 0x20],
      [CHR 0xC2, CHR 0x85], [CHR 0xC2, CHR 0xA0], [CHR 0xE1, CHR 0x9A, CHR 0x80],
      [CHR 0xE2, CHR 0x80, CHR 0x80], [CHR 0xE2, CHR 0x80, CHR 0x81], [CHR 0xE2, CHR 0x80, CHR 0x82],
      [CHR 0xE2, CHR 0x80, CHR 0x83], [CHR 0xE2, CHR 0x80, CHR 0x84], [CHR 0xE2, CHR 0x80, CHR 0x85],
      [CHR 0xE2, CHR 0x80, CHR 0x86], [CHR 0xE2, CHR 0x80, CHR 0x87], [CHR 0xE2, CHR 0x80, CHR 0x88],
      [CHR 0xE2, CHR 0x80, CHR 0x89], [CHR 0xE2, CHR 0x80, CHR 0x8A], [CHR 0xE2, CHR 0x80, CHR 0xA8],
      [CHR 0xE2, CHR 0x80, CHR 0xA9], [CHR 0xE2, CHR 0x80, CHR 0xAF], [CHR 0xE2, CHR 0x81, CHR 0x9F],
      [CHR 0xE3, CHR 0x80, CHR 0x80]]"

text \<open>Drops, from the front, every item of \<open>ps\<close> that the string starts with.\<close>

function strip_items :: "string list \<Rightarrow> string \<Rightarrow> string" where
  "strip_items ps s =
     (case find (\<lambda>p. p \<noteq> [] \<and> has_prefix s p) ps of
        None \<Rightarrow> s
      | Some p \<Rightarrow> strip_items ps (drop (length p) s))"
  by pat_completeness auto
termination
proof (relation "measure (\<lambda>(ps, s). length s)", simp)
  fix ps s p
  assume "find (\<lambda>p. p \<noteq> [] \<and> has_prefix s p) ps = Some p"
  then have "p \<noteq> []" and "has_prefix s p" by (auto simp: find_Some_iff)
  then have "0 < length p" and "length p \<le> length s" by (auto dest: has_prefix_length)
  then have "length s - length p < length s" by linarith
  then show "((ps, drop (length p) s), ps, s) \<in> measure (\<lambda>(ps, s). length s)" by simp
qed

declare strip_items.simps [simp del]

definition trim_space :: "string \<Rightarrow> string" where
  "trim_space s = rev (strip_items (map rev go_spaces) (rev (strip_items go_spaces s)))"

definition blank :: "string \<Rightarrow> bool" where
  "blank s \<longleftrightarrow> trim_space s = []"

lemma strip_items_suffix: "\<exists>a. s = a @ strip_items ps s"
proof (induction ps s rule: strip_items.induct)
  case (1 ps s)
  show ?case
  proof (cases "find (\<lambda>p. p \<noteq> [] \<and> has_prefix s p) ps")
    case None
    then show ?thesis by (simp add: strip_items.simps [of ps s])
  next
    case (Some p)
    with 1 obtain a where a: "drop (length p) s = a @ strip_items ps (drop (length p) s)" by blast
    have "s = (take (length p) s @ a) @ strip_items ps (drop (length p) s)"
      by (metis a append_assoc append_take_drop_id)
    then have "\<exists>a. s = a @ strip_items ps (drop (length p) s)" by blast
    then show ?thesis unfolding strip_items.simps [of ps s] Some by simp
  qed
qed

definition no_item :: "string list \<Rightarrow> string \<Rightarrow> bool" where
  "no_item ps s \<longleftrightarrow> (\<forall>p \<in> set ps. p \<noteq> [] \<longrightarrow> \<not> has_prefix s p)"

lemma no_item_strip: "no_item ps (strip_items ps s)"
proof (induction ps s rule: strip_items.induct)
  case (1 ps s)
  show ?case
  proof (cases "find (\<lambda>p. p \<noteq> [] \<and> has_prefix s p) ps")
    case None
    then have "no_item ps s" by (auto simp: no_item_def find_None_iff)
    with None show ?thesis by (simp add: strip_items.simps [of ps s])
  next
    case (Some p)
    with 1 show ?thesis by (simp add: strip_items.simps [of ps s])
  qed
qed

lemma strip_no_item: "no_item ps s \<Longrightarrow> strip_items ps s = s"
proof -
  assume "no_item ps s"
  then have "find (\<lambda>p. p \<noteq> [] \<and> has_prefix s p) ps = None" by (auto simp: no_item_def find_None_iff)
  then show ?thesis by (simp add: strip_items.simps [of ps s])
qed

lemma no_item_prefix: "no_item ps (s @ t) \<Longrightarrow> no_item ps s"
  by (auto simp: no_item_def dest: has_prefix_of_append)

lemma trim_space_idem [simp]: "trim_space (trim_space s) = trim_space s"
proof -
  let ?l = "strip_items go_spaces s"
  let ?r = "strip_items (map rev go_spaces) (rev ?l)"
  obtain a where "rev ?l = a @ ?r" using strip_items_suffix by blast
  then have "?l = rev ?r @ rev a" by (metis rev_append rev_rev_ident)
  then have "no_item go_spaces (rev ?r)" by (metis no_item_strip no_item_prefix)
  then have "strip_items go_spaces (rev ?r) = rev ?r" by (rule strip_no_item)
  moreover have "strip_items (map rev go_spaces) ?r = ?r" by (rule strip_no_item [OF no_item_strip])
  ultimately show ?thesis by (simp add: trim_space_def)
qed

lemma trim_space_infix: "\<exists>a b. s = a @ trim_space s @ b"
proof -
  let ?l = "strip_items go_spaces s"
  obtain a where a: "s = a @ ?l" using strip_items_suffix by blast
  obtain b where "rev ?l = b @ strip_items (map rev go_spaces) (rev ?l)" using strip_items_suffix by blast
  then have "?l = trim_space s @ rev b" unfolding trim_space_def by (metis rev_append rev_rev_ident)
  with a show ?thesis by metis
qed

lemma set_trim_space: "set (trim_space s) \<subseteq> set s"
  using trim_space_infix [of s] by (metis Un_iff set_append subsetI)

lemma blank_Nil [simp]: "blank []"
  by (simp add: blank_def trim_space_def strip_items.simps go_spaces_def has_prefix_def)

lemma not_blank_ne: "\<not> blank s \<Longrightarrow> s \<noteq> []"
  by auto

subsection \<open>Decimal numbers\<close>

function digits_of :: "int \<Rightarrow> string" where
  "digits_of n =
     (if n < 10 then [char_of (48 + n)] else digits_of (n div 10) @ [char_of (48 + n mod 10)])"
  by pat_completeness auto
termination
  by (relation "measure nat") auto

declare digits_of.simps [simp del]

text \<open>strconv.Itoa\<close>

definition itoa :: "int \<Rightarrow> string" where
  "itoa n = (if n < 0 then CHR ''-'' # digits_of (- n) else digits_of n)"

definition is_digit :: "char \<Rightarrow> bool" where
  "is_digit c \<longleftrightarrow> (let n = of_char c :: int in 48 \<le> n \<and> n \<le> 57)"

definition digit_val :: "char \<Rightarrow> int" where
  "digit_val c = of_char c - 48"

fun int_of_digits :: "int \<Rightarrow> string \<Rightarrow> int option" where
  "int_of_digits acc [] = Some acc"
| "int_of_digits acc (c # cs) = (if is_digit c then int_of_digits (acc * 10 + digit_val c) cs else None)"

text \<open>strconv.Atoi: an optional sign, at least one digit, and the range of a 64-bit int.\<close>

definition atoi :: "string \<Rightarrow> int option" where
  "atoi s =
     (let neg = (s \<noteq> [] \<and> hd s = CHR ''-'');
          body = (if s \<noteq> [] \<and> (hd s = CHR ''-'' \<or> hd s = CHR ''+'') then tl s else s)
      in if body = [] then None
         else case int_of_digits 0 body of
                None \<Rightarrow> None
              | Some n \<Rightarrow> (let v = (if neg then - n else n) in if is_int64 v then Some v else None))"

lemma int_of_digits_append:
  "int_of_digits acc (s @ t) = Option.bind (int_of_digits acc s) (\<lambda>a. int_of_digits a t)"
  by (induction acc s rule: int_of_digits.induct) auto

lemma of_char_digit [simp]:
  "0 \<le> n \<Longrightarrow> n < 10 \<Longrightarrow> of_char (char_of (48 + n) :: char) = (48 + n :: int)"
  by simp

lemma digit_char [simp]:
  assumes "0 \<le> n" and "n < 10"
  shows "is_digit (char_of (48 + n :: int))" and "digit_val (char_of (48 + n :: int)) = n"
  using assms by (simp_all add: is_digit_def digit_val_def)

lemma digits_of_ne [simp]: "digits_of n \<noteq> []"
  by (subst digits_of.simps) simp

lemma digits_of_digits: "0 \<le> n \<Longrightarrow> \<forall>c \<in> set (digits_of n). is_digit c"
proof (induction n rule: digits_of.induct)
  case (1 n)
  show ?case
  proof (cases "n < 10")
    case True
    with 1 show ?thesis by (subst digits_of.simps) simp
  next
    case False
    have "is_digit (char_of (48 + n mod 10))" by (rule digit_char) auto
    with False 1 show ?thesis by (subst digits_of.simps) auto
  qed
qed

lemma int_of_digits_digits: "0 \<le> n \<Longrightarrow> int_of_digits 0 (digits_of n) = Some n"
proof (induction n rule: digits_of.induct)
  case (1 n)
  show ?case
  proof (cases "n < 10")
    case True
    with 1 show ?thesis by (subst digits_of.simps) simp
  next
    case False
    with 1 have "int_of_digits 0 (digits_of (n div 10)) = Some (n div 10)" by simp
    moreover have "is_digit (char_of (48 + n mod 10))" and "digit_val (char_of (48 + n mod 10)) = n mod 10"
      by (rule digit_char; auto)+
    ultimately show ?thesis using False
      by (subst digits_of.simps) (simp add: int_of_digits_append)
  qed
qed

lemma is_digit_cases: "is_digit c \<Longrightarrow> c \<noteq> CHR ''-'' \<and> c \<noteq> CHR ''+'' \<and> c \<noteq> CHR '':'' \<and> c \<noteq> CHR ''['' \<and> c \<noteq> CHR '']''"
  by (auto simp: is_digit_def Let_def)

lemma atoi_itoa: "is_int64 n \<Longrightarrow> atoi (itoa n) = Some n"
proof (cases "n < 0")
  case True
  assume "is_int64 n"
  with True show ?thesis
    by (simp add: itoa_def atoi_def int_of_digits_digits Let_def)
next
  case False
  assume n: "is_int64 n"
  have "is_digit (hd (digits_of n))" using digits_of_digits [of n] False by simp
  then have "hd (digits_of n) \<noteq> CHR ''-''" and "hd (digits_of n) \<noteq> CHR ''+''" by (auto dest: is_digit_cases)
  with False n show ?thesis
    by (simp add: itoa_def atoi_def int_of_digits_digits Let_def)
qed

section \<open>Errors and results\<close>

text \<open>
  \<open>Sentinel\<close> is an error variable (\<open>var ErrX = errors.New(...)\<close>) that callers compare by identity,
  \<open>New\<close> any other \<open>errors.New\<close> or \<open>fmt.Errorf\<close> without wrapping, \<open>Wrapf\<close> is \<open>fmt.Errorf\<close> with
  the verb \<open>%w\<close>, \<open>Contract\<close> is the type Error of internal/contracterr (code, message, cause).
\<close>

datatype error =
    Sentinel string
  | New string
  | Wrapf string error
  | Contract string string "error option"

text \<open>errors.Is: the chain of causes holds the sentinel.\<close>

fun errors_is :: "error \<Rightarrow> error \<Rightarrow> bool" where
  "errors_is (Sentinel s) t = (Sentinel s = t)"
| "errors_is (New s) t = (New s = t)"
| "errors_is (Wrapf s e) t = (Wrapf s e = t \<or> errors_is e t)"
| "errors_is (Contract c m None) t = (Contract c m None = t)"
| "errors_is (Contract c m (Some e)) t = (Contract c m (Some e) = t \<or> errors_is e t)"

lemma errors_is_refl [simp]: "errors_is e e"
  by (cases e rule: error.exhaust) (auto, (metis errors_is.simps(4,5) option.exhaust))

type_synonym 'a result = "error + 'a"

definition rbind :: "'a result \<Rightarrow> ('a \<Rightarrow> 'b result) \<Rightarrow> 'b result" where
  "rbind r f = (case r of Inl e \<Rightarrow> Inl e | Inr a \<Rightarrow> f a)"

text \<open>\<open>if cond { return err }\<close>\<close>

definition reject_if :: "bool \<Rightarrow> error \<Rightarrow> unit result" where
  "reject_if b e = (if b then Inl e else Inr ())"

lemma rbind_Inl [simp, err_simps]: "rbind (Inl e) f = Inl e"
  by (simp add: rbind_def)

lemma rbind_Inr [simp, err_simps]: "rbind (Inr a) f = f a"
  by (simp add: rbind_def)

lemma rbind_eq_Inr [err_simps]: "rbind r f = Inr b \<longleftrightarrow> (\<exists>a. r = Inr a \<and> f a = Inr b)"
  by (cases r) auto

lemma rbind_eq_Inl [err_simps]: "rbind r f = Inl e \<longleftrightarrow> r = Inl e \<or> (\<exists>a. r = Inr a \<and> f a = Inl e)"
  by (cases r) auto

lemma rbind_split: "P (rbind r f) \<longleftrightarrow> (\<forall>e. r = Inl e \<longrightarrow> P (Inl e)) \<and> (\<forall>a. r = Inr a \<longrightarrow> P (f a))"
  by (cases r) auto

lemma reject_if_eq_Inr [simp, err_simps]: "reject_if b e = Inr u \<longleftrightarrow> \<not> b"
  by (simp add: reject_if_def)

lemma reject_if_eq_Inl [simp, err_simps]: "reject_if b e = Inl e' \<longleftrightarrow> b \<and> e' = e"
  by (auto simp: reject_if_def)

lemma reject_if_simps [simp]: "reject_if True e = Inl e" "reject_if False e = Inr ()"
  by (simp_all add: reject_if_def)

section \<open>Go maps\<close>

text \<open>
  A Go map is an association list with distinct keys. Go iterates in an unspecified order: the
  list's order is one of them, and the lemmas about loops over a map speak of \<open>gm_get\<close> only.
\<close>

type_synonym ('k, 'v) gomap = "('k \<times> 'v) list"

definition gm_get :: "('k, 'v) gomap \<Rightarrow> 'k \<Rightarrow> 'v option" where
  "gm_get m k = map_of m k"

definition gm_put :: "'k \<Rightarrow> 'v \<Rightarrow> ('k, 'v) gomap \<Rightarrow> ('k, 'v) gomap" where
  "gm_put k v m = AList.update k v m"

definition gm_del :: "'k \<Rightarrow> ('k, 'v) gomap \<Rightarrow> ('k, 'v) gomap" where
  "gm_del k m = AList.delete k m"

definition gm_keys :: "('k, 'v) gomap \<Rightarrow> 'k list" where
  "gm_keys m = map fst m"

definition gm_wf :: "('k, 'v) gomap \<Rightarrow> bool" where
  "gm_wf m \<longleftrightarrow> distinct (map fst m)"

lemma gm_get_Nil [simp, gomap_simps]: "gm_get [] k = None"
  by (simp add: gm_get_def)

lemma gm_get_put [simp, gomap_simps]: "gm_get (gm_put k v m) k' = (if k' = k then Some v else gm_get m k')"
  by (simp add: gm_get_def gm_put_def update_conv')

lemma gm_get_del [simp, gomap_simps]: "gm_get (gm_del k m) k' = (if k' = k then None else gm_get m k')"
  by (simp add: gm_get_def gm_del_def delete_conv')

lemma gm_wf_Nil [simp]: "gm_wf []"
  by (simp add: gm_wf_def)

lemma gm_wf_put [simp]: "gm_wf m \<Longrightarrow> gm_wf (gm_put k v m)"
  by (simp add: gm_wf_def gm_put_def distinct_update)

lemma gm_wf_del [simp]: "gm_wf m \<Longrightarrow> gm_wf (gm_del k m)"
  by (simp add: gm_wf_def gm_del_def distinct_delete)

lemma gm_keys_iff [gomap_simps]: "k \<in> set (gm_keys m) \<longleftrightarrow> gm_get m k \<noteq> None"
  by (auto simp: gm_keys_def gm_get_def dom_map_of_conv_image_fst [symmetric] dom_def
      simp flip: map_of_eq_None_iff)

lemma gm_get_in: "gm_wf m \<Longrightarrow> (k, v) \<in> set m \<longleftrightarrow> gm_get m k = Some v"
  by (simp add: gm_wf_def gm_get_def)

lemma gm_get_mem: "gm_get m k = Some v \<Longrightarrow> (k, v) \<in> set m"
  by (simp add: gm_get_def map_of_SomeD)

section \<open>Operations on a state that may fail\<close>

text \<open>
  An operation takes the state and returns a result and the state it leaves, also when it fails.
  \<open>stx\<close> is a transaction: a failure rolls the state back.
\<close>

named_theorems op_simps \<open>evaluation of state operations\<close>

type_synonym ('s, 'a) op = "'s \<Rightarrow> 'a result \<times> 's"

definition sret :: "'a \<Rightarrow> ('s, 'a) op" where
  "sret a s = (Inr a, s)"

definition sfail :: "error \<Rightarrow> ('s, 'a) op" where
  "sfail e s = (Inl e, s)"

definition slift :: "'a result \<Rightarrow> ('s, 'a) op" where
  "slift r s = (r, s)"

definition sread :: "('s \<Rightarrow> 'a result) \<Rightarrow> ('s, 'a) op" where
  "sread f s = (f s, s)"

definition sget :: "('s \<Rightarrow> 'a) \<Rightarrow> ('s, 'a) op" where
  "sget f s = (Inr (f s), s)"

definition smodify :: "('s \<Rightarrow> 's) \<Rightarrow> ('s, unit) op" where
  "smodify f s = (Inr (), f s)"

definition sbind :: "('s, 'a) op \<Rightarrow> ('a \<Rightarrow> ('s, 'b) op) \<Rightarrow> ('s, 'b) op" where
  "sbind m f s = (case m s of (Inl e, s') \<Rightarrow> (Inl e, s') | (Inr a, s') \<Rightarrow> f a s')"

text \<open>\<open>shandle m f\<close>: the caller looks at the error itself.\<close>

definition shandle :: "('s, 'a) op \<Rightarrow> ('a result \<Rightarrow> ('s, 'b) op) \<Rightarrow> ('s, 'b) op" where
  "shandle m f s = (case m s of (r, s') \<Rightarrow> f r s')"

definition sguard :: "bool \<Rightarrow> error \<Rightarrow> ('s, unit) op" where
  "sguard bad e s = ((if bad then Inl e else Inr ()), s)"

definition stx :: "('s, 'a) op \<Rightarrow> ('s, 'a) op" where
  "stx m s = (case m s of (Inl e, s') \<Rightarrow> (Inl e, s) | (Inr a, s') \<Rightarrow> (Inr a, s'))"

fun sfor :: "('x \<Rightarrow> ('s, unit) op) \<Rightarrow> 'x list \<Rightarrow> ('s, unit) op" where
  "sfor f [] = sret ()"
| "sfor f (x # xs) = sbind (f x) (\<lambda>_. sfor f xs)"

lemma op_evals [simp, op_simps]:
  "sret a s = (Inr a, s)" "sfail e s = (Inl e, s)" "slift r s = (r, s)" "sread g s = (g s, s)"
  "sget h s = (Inr (h s), s)" "smodify k s = (Inr (), k s)"
  "sguard b e s = ((if b then Inl e else Inr ()), s)"
  by (simp_all add: sret_def sfail_def slift_def sread_def sget_def smodify_def sguard_def)

lemma sbind_Inl [op_simps]: "m s = (Inl e, s') \<Longrightarrow> sbind m f s = (Inl e, s')"
  by (simp add: sbind_def)

lemma sbind_Inr [op_simps]: "m s = (Inr a, s') \<Longrightarrow> sbind m f s = f a s'"
  by (simp add: sbind_def)

lemma sbind_evals [simp, op_simps]:
  "sbind (sret a) f s = f a s" "sbind (sfail e) f s = (Inl e, s)" "sbind (sget h) f s = f (h s) s"
  "sbind (smodify k) f s = f () (k s)"
  "sbind (sguard b e) g s = (if b then (Inl e, s) else g () s)"
  by (simp_all add: sbind_def)

lemma sbind_eq_Inr [op_simps]:
  "sbind m f s = (Inr b, t) \<longleftrightarrow> (\<exists>a s'. m s = (Inr a, s') \<and> f a s' = (Inr b, t))"
  by (auto simp: sbind_def split: sum.splits prod.splits)

lemma sbind_eq_Inl [op_simps]:
  "sbind m f s = (Inl e, t) \<longleftrightarrow> m s = (Inl e, t) \<or> (\<exists>a s'. m s = (Inr a, s') \<and> f a s' = (Inl e, t))"
  by (auto simp: sbind_def split: sum.splits prod.splits)

lemma stx_Inl [simp, op_simps]: "stx m s = (Inl e, t) \<longleftrightarrow> (\<exists>s'. m s = (Inl e, s')) \<and> t = s"
  by (auto simp: stx_def split: sum.splits prod.splits)

lemma stx_Inr [simp, op_simps]: "stx m s = (Inr a, t) \<longleftrightarrow> m s = (Inr a, t)"
  by (auto simp: stx_def split: sum.splits prod.splits)

text \<open>A predicate on states that an operation keeps, whatever its result.\<close>

definition keeps :: "('s \<Rightarrow> bool) \<Rightarrow> ('s, 'a) op \<Rightarrow> bool" where
  "keeps P m \<longleftrightarrow> (\<forall>s. P s \<longrightarrow> P (snd (m s)))"

named_theorems keep_intros \<open>operations that keep a predicate\<close>

lemma keepsD: "keeps P m \<Longrightarrow> P s \<Longrightarrow> m s = (r, t) \<Longrightarrow> P t"
  unfolding keeps_def by (metis snd_conv)

lemma keeps_basic [keep_intros]:
  "keeps P (sret a)" "keeps P (sfail e)" "keeps P (slift r)" "keeps P (sread g)" "keeps P (sget h)"
  "keeps P (sguard b e)"
  by (simp_all add: keeps_def)

lemma keeps_sbind [keep_intros]: "keeps P m \<Longrightarrow> (\<And>a. keeps P (f a)) \<Longrightarrow> keeps P (sbind m f)"
  unfolding keeps_def sbind_def by (auto split: sum.splits prod.splits)

lemma keeps_shandle [keep_intros]: "keeps P m \<Longrightarrow> (\<And>r. keeps P (f r)) \<Longrightarrow> keeps P (shandle m f)"
  unfolding keeps_def shandle_def by (auto split: prod.splits)

lemma keeps_stx [keep_intros]: "keeps P m \<Longrightarrow> keeps P (stx m)"
  unfolding keeps_def stx_def by (auto split: sum.splits prod.splits)

lemma keeps_sfor [keep_intros]: "(\<And>x. keeps P (f x)) \<Longrightarrow> keeps P (sfor f xs)"
  by (induction xs) (auto intro: keep_intros)

lemma keeps_if [keep_intros]: "keeps P m \<Longrightarrow> keeps P n \<Longrightarrow> keeps P (if b then m else n)"
  by simp

end
