(* ===== verification/NetIP.thy ===== *)
theory NetIP
  imports Prelude
begin

text \<open>
  The functions of Go's packages net and net/netip that the source calls: ParseAddr, ParsePrefix,
  Addr.Unmap, Prefix.Contains and Masked, net.ParseIP, IP.String, IP.IsUnspecified, SplitHostPort
  and JoinHostPort. An IPv4 address is its 32-bit value, an IPv6 address its 128-bit value with a
  zone; the 16-byte form net.IP is the list of its eight 16-bit fields.
\<close>

section \<open>Parsing\<close>

fun ipv4_octet :: "string \<Rightarrow> int option" where
  "ipv4_octet s =
     (if s = [] \<or> (length s > 1 \<and> hd s = CHR ''0'') then None
      else case int_of_digits 0 s of None \<Rightarrow> None | Some n \<Rightarrow> (if n \<le> 255 then Some n else None))"

declare ipv4_octet.simps [simp del]

definition parse_ipv4 :: "string \<Rightarrow> int list option" where
  "parse_ipv4 s =
     (case map ipv4_octet (split_on CHR ''.'' s) of
        [Some a, Some b, Some c, Some d] \<Rightarrow> Some [a, b, c, d]
      | _ \<Rightarrow> None)"

definition hex_val :: "char \<Rightarrow> int option" where
  "hex_val c =
     (let n = of_char c :: int in
      if 48 \<le> n \<and> n \<le> 57 then Some (n - 48)
      else if 97 \<le> n \<and> n \<le> 102 then Some (n - 87)
      else if 65 \<le> n \<and> n \<le> 70 then Some (n - 55)
      else None)"

definition is_hex :: "char \<Rightarrow> bool" where
  "is_hex c \<longleftrightarrow> hex_val c \<noteq> None"

fun hex_value :: "int \<Rightarrow> string \<Rightarrow> int" where
  "hex_value acc [] = acc"
| "hex_value acc (c # cs) = hex_value (acc * 16 + (case hex_val c of Some v \<Rightarrow> v | None \<Rightarrow> 0)) cs"

text \<open>
  The loop of parseIPv6 over at most eight 16-bit fields: the fields read so far, the position of
  the ellipsis, and the text left. An embedded IPv4 address stands for the last two fields.
\<close>

fun ipv6_loop :: "nat \<Rightarrow> int list \<Rightarrow> nat option \<Rightarrow> string \<Rightarrow> (int list \<times> nat option) option" where
  "ipv6_loop 0 fs el s = (if s = [] then Some (fs, el) else None)"
| "ipv6_loop (Suc n) fs el s =
     (let h = takeWhile is_hex s; t = dropWhile is_hex s in
      if h = [] \<or> length h > 4 then None
      else if t \<noteq> [] \<and> hd t = CHR ''.'' then
        (if (el = None \<and> length fs \<noteq> 6) \<or> length fs > 6 then None
         else case parse_ipv4 s of
                Some [a, b, c, d] \<Rightarrow> Some (fs @ [a * 256 + b, c * 256 + d], el)
              | _ \<Rightarrow> None)
      else
        (let fs' = fs @ [hex_value 0 h] in
         case t of
           [] \<Rightarrow> Some (fs', el)
         | c # u \<Rightarrow>
             (if c \<noteq> CHR '':'' \<or> u = [] then None
              else if hd u = CHR '':'' then
                (if el \<noteq> None then None
                 else if tl u = [] then Some (fs', Some (length fs'))
                 else ipv6_loop n fs' (Some (length fs')) (tl u))
              else ipv6_loop n fs' el u)))"

definition expand_ellipsis :: "int list \<times> nat option \<Rightarrow> int list option" where
  "expand_ellipsis r =
     (case r of (fs, el) \<Rightarrow>
        (if length fs < 8 then
           (case el of
              None \<Rightarrow> None
            | Some e \<Rightarrow> Some (take e fs @ replicate (8 - length fs) 0 @ drop e fs))
         else if el = None then Some fs else None))"

definition parse_ipv6_fields :: "string \<Rightarrow> int list option" where
  "parse_ipv6_fields s =
     (if has_prefix s ''::'' then
        (if drop 2 s = [] then Some (replicate 8 0)
         else Option.bind (ipv6_loop 8 [] (Some 0) (drop 2 s)) expand_ellipsis)
      else Option.bind (ipv6_loop 8 [] None s) expand_ellipsis)"

datatype Addr = Addr4 int | Addr6 int string

definition int_of_fields :: "int \<Rightarrow> int list \<Rightarrow> int" where
  "int_of_fields base fs = foldl (\<lambda>a f. a * base + f) 0 fs"

definition parse_ipv6 :: "string \<Rightarrow> Addr option" where
  "parse_ipv6 s =
     (let addr = takeWhile (\<lambda>c. c \<noteq> CHR ''%'') s; rest = dropWhile (\<lambda>c. c \<noteq> CHR ''%'') s in
      if rest \<noteq> [] \<and> tl rest = [] then None
      else map_option (\<lambda>fs. Addr6 (int_of_fields 65536 fs) (tl rest)) (parse_ipv6_fields addr))"

text \<open>netip.ParseAddr: the first of the bytes \<open>.\<close>, \<open>:\<close> and \<open>%\<close> selects the syntax.\<close>

definition ParseAddr :: "string \<Rightarrow> Addr option" where
  "ParseAddr s =
     (case find (\<lambda>c. c = CHR ''.'' \<or> c = CHR '':'' \<or> c = CHR ''%'') s of
        None \<Rightarrow> None
      | Some c \<Rightarrow>
          (if c = CHR ''.'' then map_option (\<lambda>fs. Addr4 (int_of_fields 256 fs)) (parse_ipv4 s)
           else if c = CHR '':'' then parse_ipv6 s
           else None))"

section \<open>Operations on addresses and prefixes\<close>

fun addr_Unmap :: "Addr \<Rightarrow> Addr" where
  "addr_Unmap (Addr4 v) = Addr4 v"
| "addr_Unmap (Addr6 v z) = (if v div 2 ^ 32 = 65535 then Addr4 (v mod 2 ^ 32) else Addr6 v z)"

fun addr_Is4 :: "Addr \<Rightarrow> bool" where
  "addr_Is4 (Addr4 v) = True"
| "addr_Is4 (Addr6 v z) = False"

fun addr_Is4In6 :: "Addr \<Rightarrow> bool" where
  "addr_Is4In6 (Addr4 v) = False"
| "addr_Is4In6 (Addr6 v z) = (v div 2 ^ 32 = 65535)"

fun addr_BitLen :: "Addr \<Rightarrow> int" where
  "addr_BitLen (Addr4 v) = 32"
| "addr_BitLen (Addr6 v z) = 128"

text \<open>A valid netip.Prefix: an address without zone and a number of bits within its length.\<close>

record Prefix =
  pfx_addr :: Addr
  pfx_bits :: nat

fun addr_WithoutZone :: "Addr \<Rightarrow> Addr" where
  "addr_WithoutZone (Addr4 v) = Addr4 v"
| "addr_WithoutZone (Addr6 v z) = Addr6 v []"

definition PrefixFrom :: "Addr \<Rightarrow> nat \<Rightarrow> Prefix" where
  "PrefixFrom a n = \<lparr>pfx_addr = addr_WithoutZone a, pfx_bits = n\<rparr>"

fun prefix_Masked :: "Prefix \<Rightarrow> Prefix" where
  "prefix_Masked p =
     (case pfx_addr p of
        Addr4 v \<Rightarrow> p\<lparr>pfx_addr := Addr4 (v - v mod 2 ^ (32 - pfx_bits p))\<rparr>
      | Addr6 v z \<Rightarrow> p\<lparr>pfx_addr := Addr6 (v - v mod 2 ^ (128 - pfx_bits p)) z\<rparr>)"

fun prefix_Contains :: "Prefix \<Rightarrow> Addr \<Rightarrow> bool" where
  "prefix_Contains p (Addr4 v) =
     (case pfx_addr p of
        Addr4 w \<Rightarrow> v div 2 ^ (32 - pfx_bits p) = w div 2 ^ (32 - pfx_bits p)
      | Addr6 w z \<Rightarrow> False)"
| "prefix_Contains p (Addr6 v zone) =
     (zone = [] \<and>
      (case pfx_addr p of
         Addr4 w \<Rightarrow> False
       | Addr6 w z \<Rightarrow> v div 2 ^ (128 - pfx_bits p) = w div 2 ^ (128 - pfx_bits p)))"

text \<open>
  netip.ParsePrefix: the text after the last slash is the number of bits, one to three digits
  without sign and without a leading zero; an address with a zone is refused.
\<close>

definition prefix_bits_text :: "string \<Rightarrow> int option" where
  "prefix_bits_text s =
     (if s = [] \<or> \<not> list_all is_digit s \<or> (length s > 1 \<and> hd s = CHR ''0'') then None
      else int_of_digits 0 s)"

definition split_last :: "char \<Rightarrow> string \<Rightarrow> (string \<times> string) option" where
  "split_last c s =
     (if c \<in> set s then
        Some (rev (tl (dropWhile (\<lambda>x. x \<noteq> c) (rev s))), rev (takeWhile (\<lambda>x. x \<noteq> c) (rev s)))
      else None)"

definition ParsePrefix :: "string \<Rightarrow> Prefix option" where
  "ParsePrefix s =
     (case split_last CHR ''/'' s of
        None \<Rightarrow> None
      | Some (a, b) \<Rightarrow>
          (case (ParseAddr a, prefix_bits_text b) of
             (Some (Addr4 v), Some n) \<Rightarrow> (if n \<le> 32 then Some (PrefixFrom (Addr4 v) (nat n)) else None)
           | (Some (Addr6 v z), Some n) \<Rightarrow>
               (if z = [] \<and> n \<le> 128 then Some (PrefixFrom (Addr6 v z) (nat n)) else None)
           | _ \<Rightarrow> None))"

section \<open>Printing\<close>

definition ipv4_string :: "int list \<Rightarrow> string" where
  "ipv4_string bs = concat (map (\<lambda>(i, b). (if i = 0 then [] else ''.'') @ digits_of b) (enumerate 0 bs))"

definition hex_digit :: "int \<Rightarrow> char" where
  "hex_digit n = (if n < 10 then char_of (48 + n) else char_of (87 + n))"

function hex_of :: "int \<Rightarrow> string" where
  "hex_of n = (if n < 16 then [hex_digit n] else hex_of (n div 16) @ [hex_digit (n mod 16)])"
  by pat_completeness auto
termination
  by (relation "measure nat") auto

declare hex_of.simps [simp del]

definition zero_run :: "int list \<Rightarrow> nat \<Rightarrow> nat" where
  "zero_run fs i = length (takeWhile (\<lambda>f. f = 0) (drop i fs))"

text \<open>The first longest run of at least two zero fields, as start and length (0 if none).\<close>

definition best_run :: "int list \<Rightarrow> nat \<times> nat" where
  "best_run fs =
     foldl (\<lambda>(s, l) i. if 2 \<le> zero_run fs i \<and> l < zero_run fs i then (i, zero_run fs i) else (s, l))
       (0, 0) [0..<length fs]"

definition join_hex :: "int list \<Rightarrow> string" where
  "join_hex fs = concat (map (\<lambda>(i, f). (if i = 0 then [] else '':'') @ hex_of f) (enumerate 0 fs))"

definition ipv6_string :: "int list \<Rightarrow> string" where
  "ipv6_string fs =
     (case best_run fs of (s, l) \<Rightarrow>
        (if l = 0 then join_hex fs
         else join_hex (take s fs) @ ''::'' @ join_hex (drop (s + l) fs)))"

fun fields_of :: "int \<Rightarrow> nat \<Rightarrow> int \<Rightarrow> int list" where
  "fields_of base 0 v = []"
| "fields_of base (Suc n) v = fields_of base n (v div base) @ [v mod base]"

fun addr_String :: "Addr \<Rightarrow> string" where
  "addr_String (Addr4 v) = ipv4_string (fields_of 256 4 v)"
| "addr_String (Addr6 v z) =
     (if v div 2 ^ 32 = 65535 then ''::ffff:'' @ ipv4_string (fields_of 256 4 (v mod 2 ^ 32))
      else ipv6_string (fields_of 65536 8 v)) @ (if z = [] then [] else CHR ''%'' # z)"

definition prefix_String :: "Prefix \<Rightarrow> string" where
  "prefix_String p = addr_String (pfx_addr p) @ ''/'' @ itoa (int (pfx_bits p))"

section \<open>net.IP\<close>

definition is_v4_mapped :: "int list \<Rightarrow> bool" where
  "is_v4_mapped fs \<longleftrightarrow> take 6 fs = [0, 0, 0, 0, 0, 65535]"

text \<open>net.ParseIP: ParseAddr without zone, in the 16-byte form.\<close>

definition ParseIP :: "string \<Rightarrow> int list option" where
  "ParseIP s =
     (case ParseAddr s of
        Some (Addr4 v) \<Rightarrow> Some ([0, 0, 0, 0, 0, 65535] @ fields_of 65536 2 v)
      | Some (Addr6 v z) \<Rightarrow> (if z = [] then Some (fields_of 65536 8 v) else None)
      | None \<Rightarrow> None)"

definition ip_String :: "int list \<Rightarrow> string" where
  "ip_String fs =
     (if is_v4_mapped fs then ipv4_string [fs ! 6 div 256, fs ! 6 mod 256, fs ! 7 div 256, fs ! 7 mod 256]
      else ipv6_string fs)"

definition ip_IsUnspecified :: "int list \<Rightarrow> bool" where
  "ip_IsUnspecified fs \<longleftrightarrow> fs = [0, 0, 0, 0, 0, 65535, 0, 0] \<or> fs = replicate 8 0"

section \<open>Host and port\<close>

definition JoinHostPort :: "string \<Rightarrow> string \<Rightarrow> string" where
  "JoinHostPort host port =
     (if CHR '':'' \<in> set host then ''['' @ host @ '']:'' @ port else host @ '':'' @ port)"

definition SplitHostPort :: "string \<Rightarrow> (string \<times> string) option" where
  "SplitHostPort s =
     (case split_last CHR '':'' s of
        None \<Rightarrow> None
      | Some (front, port) \<Rightarrow>
          (if s \<noteq> [] \<and> hd s = CHR ''['' then
             (let host = takeWhile (\<lambda>c. c \<noteq> CHR '']'') (tl s) in
              if CHR '']'' \<in> set s \<and> front = ''['' @ host @ '']''
                 \<and> CHR ''['' \<notin> set (tl s) \<and> CHR '']'' \<notin> set port
              then Some (host, port) else None)
           else if CHR '':'' \<in> set front \<or> CHR ''['' \<in> set s \<or> CHR '']'' \<in> set s then None
           else Some (front, port)))"

section \<open>Lemmas\<close>

lemma split_last_append: "c \<notin> set p \<Longrightarrow> split_last c (h @ c # p) = Some (h, p)"
  by (simp add: split_last_def takeWhile_append dropWhile_append)

lemma split_last_None [simp]: "c \<notin> set s \<Longrightarrow> split_last c s = None"
  by (simp add: split_last_def)

lemma Split_Join_HostPort:
  assumes "set host \<inter> {CHR ''['', CHR '']''} = {}"
    and "set port \<inter> {CHR '':'', CHR ''['', CHR '']''} = {}"
  shows "SplitHostPort (JoinHostPort host port) = Some (host, port)"
proof (cases "CHR '':'' \<in> set host")
  case True
  have "split_last CHR '':'' ((''['' @ host @ '']'') @ CHR '':'' # port) = Some (''['' @ host @ '']'', port)"
    using assms(2) by (intro split_last_append) simp
  moreover have "takeWhile (\<lambda>c. c \<noteq> CHR '']'') (host @ CHR '']'' # CHR '':'' # port) = host"
    using assms(1) by (subst takeWhile_append2) auto
  ultimately show ?thesis using True assms by (simp add: JoinHostPort_def SplitHostPort_def)
next
  case False
  have "split_last CHR '':'' (host @ CHR '':'' # port) = Some (host, port)"
    using assms(2) by (intro split_last_append) simp
  moreover have "host @ CHR '':'' # port \<noteq> []" and "hd (host @ CHR '':'' # port) \<noteq> CHR ''[''"
    using assms(1) by (cases host; auto)+
  ultimately show ?thesis using False assms by (simp add: JoinHostPort_def SplitHostPort_def)
qed

lemma prefix_Contains_self: "prefix_Contains p (Addr4 v) \<Longrightarrow> addr_Is4 (pfx_addr p)"
  by (cases "pfx_addr p") auto

lemma addr_Unmap_idem [simp]: "addr_Unmap (addr_Unmap a) = addr_Unmap a"
  by (cases a) auto

lemma div_sub_mod: "(v - v mod d) div d = v div (d :: int)"
  by (cases "d = 0") (simp_all add: minus_mod_eq_mult_div)

text \<open>Masking a prefix does not change the addresses it contains.\<close>

lemma prefix_Contains_Masked: "prefix_Contains (prefix_Masked p) a = prefix_Contains p a"
  by (cases a; cases "pfx_addr p") (auto simp: div_sub_mod)

end
