(* ===== verification/Domain.thy ===== *)
theory Domain
  imports Prelude NetIP
begin

text \<open>
  The data model of internal/domain: the records the store keeps, the string-typed enumerations
  with their Valid methods, the Validate methods, and the routing rules of web proxies.

  Go declares its enumerations as string types and converts freely between them and strings, so
  they are strings here, with one abbreviation per constant. Hashes (SHA-256, bcrypt) are
  arguments of the definitions that use them.
\<close>

section \<open>Enumerations\<close>

type_synonym Protocol = string
abbreviation ProtocolQUIC :: Protocol where "ProtocolQUIC \<equiv> ''quic''"
abbreviation ProtocolTCPTLS :: Protocol where "ProtocolTCPTLS \<equiv> ''tcp_tls''"

definition protocol_Valid :: "Protocol \<Rightarrow> bool" where
  "protocol_Valid p \<longleftrightarrow> p \<in> set [ProtocolQUIC, ProtocolTCPTLS]"

type_synonym Role = string
abbreviation RoleAdmin :: Role where "RoleAdmin \<equiv> ''admin''"
abbreviation RoleUser :: Role where "RoleUser \<equiv> ''user''"

definition role_Valid :: "Role \<Rightarrow> bool" where
  "role_Valid r \<longleftrightarrow> r \<in> set [RoleAdmin, RoleUser]"

type_synonym UserStatus = string
abbreviation UserEnabled :: UserStatus where "UserEnabled \<equiv> ''enabled''"
abbreviation UserDisabled :: UserStatus where "UserDisabled \<equiv> ''disabled''"

type_synonym ClientKind = string
abbreviation ClientKindProvider :: ClientKind where "ClientKindProvider \<equiv> ''provider''"
abbreviation ClientKindConsumer :: ClientKind where "ClientKindConsumer \<equiv> ''consumer''"

definition clientKind_Valid :: "ClientKind \<Rightarrow> bool" where
  "clientKind_Valid k \<longleftrightarrow> k \<in> set [ClientKindProvider, ClientKindConsumer]"

definition NormalizeClientKind :: "ClientKind \<Rightarrow> ClientKind" where
  "NormalizeClientKind k = (if k = [] then ClientKindProvider else k)"

type_synonym ClientStatus = string
abbreviation ClientOffline :: ClientStatus where "ClientOffline \<equiv> ''offline''"
abbreviation ClientOnline :: ClientStatus where "ClientOnline \<equiv> ''online''"
abbreviation ClientAuthFailed :: ClientStatus where "ClientAuthFailed \<equiv> ''auth_failed''"
abbreviation ClientDisabled :: ClientStatus where "ClientDisabled \<equiv> ''disabled''"
abbreviation ClientConnecting :: ClientStatus where "ClientConnecting \<equiv> ''connecting''"
abbreviation ClientDisconnected :: ClientStatus where "ClientDisconnected \<equiv> ''disconnected''"

type_synonym ProxyType = string
abbreviation ProxyTCP :: ProxyType where "ProxyTCP \<equiv> ''tcp''"
abbreviation ProxyUDP :: ProxyType where "ProxyUDP \<equiv> ''udp''"
abbreviation ProxyHTTP :: ProxyType where "ProxyHTTP \<equiv> ''http''"
abbreviation ProxyHTTPS :: ProxyType where "ProxyHTTPS \<equiv> ''https''"
abbreviation ProxyWeb :: ProxyType where "ProxyWeb \<equiv> ''web''"
abbreviation ProxyForward :: ProxyType where "ProxyForward \<equiv> ''forward''"

definition proxyType_Valid :: "ProxyType \<Rightarrow> bool" where
  "proxyType_Valid t \<longleftrightarrow> t \<in> set [ProxyTCP, ProxyUDP, ProxyHTTP, ProxyHTTPS, ProxyWeb, ProxyForward]"

definition proxyType_IsWeb :: "ProxyType \<Rightarrow> bool" where
  "proxyType_IsWeb t \<longleftrightarrow> t = ProxyWeb \<or> t = ProxyHTTP \<or> t = ProxyHTTPS"

type_synonym DomainStatus = string
abbreviation DomainEnabled :: DomainStatus where "DomainEnabled \<equiv> ''enabled''"
abbreviation DomainDisabled :: DomainStatus where "DomainDisabled \<equiv> ''disabled''"

type_synonym DomainEntryProtocol = string
abbreviation DomainEntryHTTP :: DomainEntryProtocol where "DomainEntryHTTP \<equiv> ''http''"
abbreviation DomainEntryHTTPS :: DomainEntryProtocol where "DomainEntryHTTPS \<equiv> ''https''"

definition domainEntryProtocol_Valid :: "DomainEntryProtocol \<Rightarrow> bool" where
  "domainEntryProtocol_Valid p \<longleftrightarrow> p \<in> set [DomainEntryHTTP, DomainEntryHTTPS]"

type_synonym DomainEntryStatus = string
abbreviation DomainEntryEnabled :: DomainEntryStatus where "DomainEntryEnabled \<equiv> ''enabled''"
abbreviation DomainEntryDisabled :: DomainEntryStatus where "DomainEntryDisabled \<equiv> ''disabled''"

type_synonym ProxyStatus = string
abbreviation ProxyEnabled :: ProxyStatus where "ProxyEnabled \<equiv> ''enabled''"
abbreviation ProxyDisabled :: ProxyStatus where "ProxyDisabled \<equiv> ''disabled''"
abbreviation ProxyNeedsConf :: ProxyStatus where "ProxyNeedsConf \<equiv> ''needs_config''"

type_synonym CertificateStatus = string
abbreviation CertificatePending :: CertificateStatus where "CertificatePending \<equiv> ''pending''"
abbreviation CertificateValid :: CertificateStatus where "CertificateValid \<equiv> ''valid''"
abbreviation CertificateExpiringSoon :: CertificateStatus where "CertificateExpiringSoon \<equiv> ''expiring_soon''"
abbreviation CertificateExpired :: CertificateStatus where "CertificateExpired \<equiv> ''expired''"
abbreviation CertificateIssueFailed :: CertificateStatus where "CertificateIssueFailed \<equiv> ''issue_failed''"
abbreviation CertificateRenewalFailed :: CertificateStatus where "CertificateRenewalFailed \<equiv> ''renewal_failed''"
abbreviation CertificateDisabled :: CertificateStatus where "CertificateDisabled \<equiv> ''disabled''"

definition certificateStatus_Valid :: "CertificateStatus \<Rightarrow> bool" where
  "certificateStatus_Valid s \<longleftrightarrow>
     s \<in> set [CertificatePending, CertificateValid, CertificateExpiringSoon, CertificateExpired,
              CertificateIssueFailed, CertificateRenewalFailed, CertificateDisabled]"

type_synonym CertificateServingStatus = string
abbreviation CertificateServingUsable :: CertificateServingStatus where "CertificateServingUsable \<equiv> ''usable''"
abbreviation CertificateServingExpiringSoon :: CertificateServingStatus where "CertificateServingExpiringSoon \<equiv> ''expiring_soon''"
abbreviation CertificateServingExpired :: CertificateServingStatus where "CertificateServingExpired \<equiv> ''expired''"
abbreviation CertificateServingMissing :: CertificateServingStatus where "CertificateServingMissing \<equiv> ''missing''"
abbreviation CertificateServingInvalid :: CertificateServingStatus where "CertificateServingInvalid \<equiv> ''invalid''"

definition certificateServingStatus_Valid :: "CertificateServingStatus \<Rightarrow> bool" where
  "certificateServingStatus_Valid s \<longleftrightarrow>
     s \<in> set [CertificateServingUsable, CertificateServingExpiringSoon, CertificateServingExpired,
              CertificateServingMissing, CertificateServingInvalid]"

definition ServesTLS :: "CertificateServingStatus \<Rightarrow> bool" where
  "ServesTLS s \<longleftrightarrow> s = CertificateServingUsable \<or> s = CertificateServingExpiringSoon"

type_synonym CertificateOperationStatus = string
abbreviation CertificateOperationIdle :: CertificateOperationStatus where "CertificateOperationIdle \<equiv> ''idle''"
abbreviation CertificateOperationIssuing :: CertificateOperationStatus where "CertificateOperationIssuing \<equiv> ''issuing''"
abbreviation CertificateOperationRenewing :: CertificateOperationStatus where "CertificateOperationRenewing \<equiv> ''renewing''"
abbreviation CertificateOperationIssueFailed :: CertificateOperationStatus where "CertificateOperationIssueFailed \<equiv> ''issue_failed''"
abbreviation CertificateOperationRenewalFailed :: CertificateOperationStatus where "CertificateOperationRenewalFailed \<equiv> ''renewal_failed''"

definition certificateOperationStatus_Valid :: "CertificateOperationStatus \<Rightarrow> bool" where
  "certificateOperationStatus_Valid s \<longleftrightarrow>
     s \<in> set [CertificateOperationIdle, CertificateOperationIssuing, CertificateOperationRenewing,
              CertificateOperationIssueFailed, CertificateOperationRenewalFailed]"

type_synonym CertificateProviderType = string
abbreviation CertificateProviderACMEDNS01 :: CertificateProviderType where "CertificateProviderACMEDNS01 \<equiv> ''acme_dns01''"
abbreviation CertificateProviderCloudflareOriginCA :: CertificateProviderType where "CertificateProviderCloudflareOriginCA \<equiv> ''cloudflare_origin_ca''"
abbreviation CertificateProviderFile :: CertificateProviderType where "CertificateProviderFile \<equiv> ''file''"

definition certificateProviderType_Valid :: "CertificateProviderType \<Rightarrow> bool" where
  "certificateProviderType_Valid s \<longleftrightarrow>
     s \<in> set [CertificateProviderACMEDNS01, CertificateProviderCloudflareOriginCA, CertificateProviderFile]"

type_synonym CertificateProviderStatus = string
abbreviation CertificateProviderStatusActive :: CertificateProviderStatus where "CertificateProviderStatusActive \<equiv> ''active''"
abbreviation CertificateProviderStatusRevoked :: CertificateProviderStatus where "CertificateProviderStatusRevoked \<equiv> ''revoked''"
abbreviation CertificateProviderStatusMissingRemote :: CertificateProviderStatus where "CertificateProviderStatusMissingRemote \<equiv> ''missing_remote''"
abbreviation CertificateProviderStatusUnknown :: CertificateProviderStatus where "CertificateProviderStatusUnknown \<equiv> ''unknown''"

definition certificateProviderStatus_Valid :: "CertificateProviderStatus \<Rightarrow> bool" where
  "certificateProviderStatus_Valid s \<longleftrightarrow>
     s \<in> set [CertificateProviderStatusActive, CertificateProviderStatusRevoked,
              CertificateProviderStatusMissingRemote, CertificateProviderStatusUnknown]"

definition BlocksServing :: "CertificateProviderStatus \<Rightarrow> bool" where
  "BlocksServing s \<longleftrightarrow> s = CertificateProviderStatusRevoked \<or> s = CertificateProviderStatusMissingRemote"

type_synonym ProviderCredentialStatus = string
abbreviation ProviderCredentialPending :: ProviderCredentialStatus where "ProviderCredentialPending \<equiv> ''pending''"
abbreviation ProviderCredentialVerified :: ProviderCredentialStatus where "ProviderCredentialVerified \<equiv> ''verified''"
abbreviation ProviderCredentialVerificationFailed :: ProviderCredentialStatus where "ProviderCredentialVerificationFailed \<equiv> ''verification_failed''"
abbreviation ProviderCredentialDisabled :: ProviderCredentialStatus where "ProviderCredentialDisabled \<equiv> ''disabled''"

definition providerCredentialStatus_Valid :: "ProviderCredentialStatus \<Rightarrow> bool" where
  "providerCredentialStatus_Valid s \<longleftrightarrow>
     s \<in> set [ProviderCredentialPending, ProviderCredentialVerified,
              ProviderCredentialVerificationFailed, ProviderCredentialDisabled]"

section \<open>Records\<close>

record Domain =
  Dom_ID :: string
  Dom_UserID :: string
  Dom_Host :: string
  Dom_CertificateID :: string
  Dom_Status :: DomainStatus
  Dom_CreatedAt :: time
  Dom_UpdatedAt :: time

record DomainEntry =
  DEnt_ID :: string
  DEnt_DomainID :: string
  DEnt_Protocol :: DomainEntryProtocol
  DEnt_BindHost :: string
  DEnt_Port :: int
  DEnt_Status :: DomainEntryStatus
  DEnt_CreatedAt :: time
  DEnt_UpdatedAt :: time

record User =
  User_ID :: string
  User_Username :: string
  User_PasswordHash :: string
  User_Role :: Role
  User_Status :: UserStatus
  User_CreatedAt :: time
  User_UpdatedAt :: time

record Client =
  Client_ID :: string
  Client_UserID :: string
  Client_Name :: string
  Client_Kind :: ClientKind
  Client_Status :: ClientStatus
  Client_CredentialHash :: string
  Client_Version :: int
  Client_LastOnlineAt :: "time option"
  Client_LastOfflineAt :: "time option"
  Client_CreatedAt :: time
  Client_UpdatedAt :: time

record ClientEnrollment =
  Enr_ID :: string
  Enr_ClientID :: string
  Enr_SecretHash :: string
  Enr_TokenHash :: string
  Enr_Token :: string
  Enr_ExpiresAt :: time
  Enr_UsedAt :: "time option"
  Enr_CreatedAt :: time
  Enr_UpdatedAt :: time

record Proxy =
  Proxy_ID :: string
  Proxy_UserID :: string
  Proxy_ClientID :: string
  Proxy_Name :: string
  Proxy_Type :: ProxyType
  Proxy_Status :: ProxyStatus
  Proxy_DomainID :: string
  Proxy_PathPrefix :: string
  Proxy_StripPrefix :: bool
  Proxy_UpstreamPathPrefix :: string
  Proxy_EntryBindHost :: string
  Proxy_EntryHost :: string
  Proxy_EntryPort :: int
  Proxy_TargetHost :: string
  Proxy_TargetPort :: int
  Proxy_CertFile :: string
  Proxy_KeyFile :: string
  Proxy_CertificateID :: string
  Proxy_AccessAuthEnabled :: bool
  Proxy_AccessAuthVersion :: int
  Proxy_StatsLegacyAggregate :: bool
  Proxy_Description :: string
  Proxy_CreatedAt :: time
  Proxy_UpdatedAt :: time

record ProxyActivationToken =
  Tok_ID :: string
  Tok_ProxyID :: string
  Tok_AuthVersion :: int
  Tok_TokenHash :: string
  Tok_ExpiresAt :: time
  Tok_UsedAt :: "time option"
  Tok_CreatedAt :: time
  Tok_CreatedBy :: string

record ProxyAccessCredential =
  Cred_ID :: string
  Cred_ProxyID :: string
  Cred_AuthVersion :: int
  Cred_SecretHash :: string
  Cred_CreatedAt :: time
  Cred_LastUsedAt :: "time option"

record ManagedCertificate =
  Cert_ID :: string
  Cert_ProxyID :: string
  Cert_Host :: string
  Cert_Status :: CertificateStatus
  Cert_ServingStatus :: CertificateServingStatus
  Cert_OperationStatus :: CertificateOperationStatus
  Cert_Provider :: string
  Cert_ProviderType :: CertificateProviderType
  Cert_ProviderName :: string
  Cert_CredentialID :: string
  Cert_ProviderStatus :: CertificateProviderStatus
  Cert_CloudflareCertificateID :: string
  Cert_PreviousCloudflareCertificateID :: string
  Cert_Hostnames :: "string list"
  Cert_RequestType :: string
  Cert_RequestedValidity :: int
  Cert_CertFile :: string
  Cert_KeyFile :: string
  Cert_PreviousCertFile :: string
  Cert_PreviousKeyFile :: string
  Cert_NotAfter :: "time option"
  Cert_LastIssuedAt :: "time option"
  Cert_LastRenewedAt :: "time option"
  Cert_LastCheckedAt :: "time option"
  Cert_LastSyncedAt :: "time option"
  Cert_LastAttemptedAt :: "time option"
  Cert_NextAttemptAt :: "time option"
  Cert_FailureCount :: int
  Cert_Fingerprint :: string
  Cert_LastError :: string
  Cert_CreatedAt :: time
  Cert_UpdatedAt :: time

record ProviderCredential =
  PCred_ID :: string
  PCred_Name :: string
  PCred_ProviderType :: CertificateProviderType
  PCred_Scope :: string
  PCred_TokenFingerprint :: string
  PCred_SecretRef :: string
  PCred_Status :: ProviderCredentialStatus
  PCred_LastVerifiedAt :: "time option"
  PCred_LastError :: string
  PCred_CreatedAt :: time
  PCred_UpdatedAt :: time

record AuditEvent =
  Audit_ID :: string
  Audit_ActorUserID :: string
  Audit_ResourceType :: string
  Audit_ResourceID :: string
  Audit_Action :: string
  Audit_Result :: string
  Audit_SourceIP :: string
  Audit_ErrorSummary :: string
  Audit_CreatedAt :: time

section \<open>Zero values\<close>

definition zeroProxy :: Proxy where
  "zeroProxy = \<lparr>Proxy_ID = [], Proxy_UserID = [], Proxy_ClientID = [], Proxy_Name = [], Proxy_Type = [],
     Proxy_Status = [], Proxy_DomainID = [], Proxy_PathPrefix = [], Proxy_StripPrefix = False,
     Proxy_UpstreamPathPrefix = [], Proxy_EntryBindHost = [], Proxy_EntryHost = [], Proxy_EntryPort = 0,
     Proxy_TargetHost = [], Proxy_TargetPort = 0, Proxy_CertFile = [], Proxy_KeyFile = [],
     Proxy_CertificateID = [], Proxy_AccessAuthEnabled = False, Proxy_AccessAuthVersion = 0,
     Proxy_StatsLegacyAggregate = False, Proxy_Description = [], Proxy_CreatedAt = 0, Proxy_UpdatedAt = 0\<rparr>"

definition zeroClient :: Client where
  "zeroClient = \<lparr>Client_ID = [], Client_UserID = [], Client_Name = [], Client_Kind = [], Client_Status = [],
     Client_CredentialHash = [], Client_Version = 0, Client_LastOnlineAt = None, Client_LastOfflineAt = None,
     Client_CreatedAt = 0, Client_UpdatedAt = 0\<rparr>"

definition zeroUser :: User where
  "zeroUser = \<lparr>User_ID = [], User_Username = [], User_PasswordHash = [], User_Role = [], User_Status = [],
     User_CreatedAt = 0, User_UpdatedAt = 0\<rparr>"

definition zeroCertificate :: ManagedCertificate where
  "zeroCertificate = \<lparr>Cert_ID = [], Cert_ProxyID = [], Cert_Host = [], Cert_Status = [], Cert_ServingStatus = [],
     Cert_OperationStatus = [], Cert_Provider = [], Cert_ProviderType = [], Cert_ProviderName = [],
     Cert_CredentialID = [], Cert_ProviderStatus = [], Cert_CloudflareCertificateID = [],
     Cert_PreviousCloudflareCertificateID = [], Cert_Hostnames = [], Cert_RequestType = [],
     Cert_RequestedValidity = 0, Cert_CertFile = [], Cert_KeyFile = [], Cert_PreviousCertFile = [],
     Cert_PreviousKeyFile = [], Cert_NotAfter = None, Cert_LastIssuedAt = None, Cert_LastRenewedAt = None,
     Cert_LastCheckedAt = None, Cert_LastSyncedAt = None, Cert_LastAttemptedAt = None,
     Cert_NextAttemptAt = None, Cert_FailureCount = 0, Cert_Fingerprint = [], Cert_LastError = [],
     Cert_CreatedAt = 0, Cert_UpdatedAt = 0\<rparr>"

section \<open>Host names and bind hosts\<close>

definition valid_label :: "string \<Rightarrow> bool" where
  "valid_label part \<longleftrightarrow>
     \<not> (part = [] \<or> length part > 63) \<and>
     list_all (\<lambda>(index, ch).
         (let n = of_char ch :: int;
              isLetter = (97 \<le> n \<and> n \<le> 122) \<or> (65 \<le> n \<and> n \<le> 90);
              isDigit = 48 \<le> n \<and> n \<le> 57
          in (isLetter \<or> isDigit \<or> ch = CHR ''-'') \<and>
             \<not> (ch = CHR ''-'' \<and> (index = 0 \<or> index = length part - 1))))
       (enumerate 0 part)"

definition validHostname :: "string \<Rightarrow> bool" where
  "validHostname hostname \<longleftrightarrow>
     (if length hostname > 253 then False
      else list_all valid_label (split_on CHR ''.'' hostname))"

definition validCertificateHost :: "string \<Rightarrow> bool" where
  "validCertificateHost host =
     (let h = trim_space host in
      if has_prefix h ''*.'' then validHostname (drop 2 h) else validHostname h)"

definition NormalizeRouteHost :: "string \<Rightarrow> string" where
  "NormalizeRouteHost host = to_lower (trim_space host)"

definition trimIPv6Brackets :: "string \<Rightarrow> string" where
  "trimIPv6Brackets host = trim_suffix (trim_prefix (trim_space host) ''['') '']''"

definition NormalizeBindHost :: "string \<Rightarrow> string" where
  "NormalizeBindHost host =
     (let h = trimIPv6Brackets (trim_space host) in
      if h = [] then []
      else case ParseIP h of Some ip \<Rightarrow> ip_String ip | None \<Rightarrow> to_lower h)"

definition ValidBindHost :: "string \<Rightarrow> bool" where
  "ValidBindHost host =
     (let h = trim_space host in
      if h = [] then True
      else if contains_sub h ''://'' \<or> contains_sub h ''/'' then False
      else (let b = trimIPv6Brackets h in
            if ParseIP b \<noteq> None then True
            else if contains_sub b '':'' then False
            else validHostname b))"

definition IsWildcardBindHost :: "string \<Rightarrow> bool" where
  "IsWildcardBindHost host =
     (let h = NormalizeBindHost host in
      if h = [] then True
      else case ParseIP h of None \<Rightarrow> False | Some ip \<Rightarrow> ip_IsUnspecified ip)"

definition ListenAddress :: "string \<Rightarrow> int \<Rightarrow> string" where
  "ListenAddress host port = JoinHostPort (NormalizeBindHost host) (itoa port)"

definition ParseListenAddress :: "string \<Rightarrow> (string \<times> int) result" where
  "ParseListenAddress address =
     (case SplitHostPort (trim_space address) of
        None \<Rightarrow> Inl (New ''split host port'')
      | Some (host, portText) \<Rightarrow>
          (case atoi portText of
             None \<Rightarrow> Inl (New ''port is invalid'')
           | Some port \<Rightarrow>
               (if port < 0 \<or> port > 65535 then Inl (New ''port is invalid'')
                else Inr (NormalizeBindHost host, port))))"

section \<open>Web routing\<close>

definition ReservedProxyRoutePrefix :: string where
  "ReservedProxyRoutePrefix = ''/.well-known/goginx/''"

definition forbidden_path_bytes :: string where
  "forbidden_path_bytes = [CHR ''?'', CHR ''#'', CHR ''%'', CHR 0x5C, CHR 0x00]"

definition NormalizeProxyRoutePrefix :: "string \<Rightarrow> string result" where
  "NormalizeProxyRoutePrefix v =
     (let value = trim_space v in
      if value = [] \<or> \<not> has_prefix value ''/'' \<or> contains_any value forbidden_path_bytes
         \<or> contains_sub value ''//''
      then Inl (New ''proxy route path prefix is invalid'')
      else Inr (if length value > 1 then trim_right_char CHR ''/'' value else value))"

definition NormalizeProxyUpstreamPathPrefix :: "string \<Rightarrow> string result" where
  "NormalizeProxyUpstreamPathPrefix v =
     (let value = trim_space v in
      if value = [] then Inr ''/''
      else if \<not> has_prefix value ''/'' \<or> contains_any value forbidden_path_bytes
         \<or> contains_sub value ''//''
      then Inl (New ''proxy route upstream path prefix is invalid'')
      else Inr (if length value > 1 then trim_right_char CHR ''/'' value else value))"

definition ProxyRouteMatches :: "string \<Rightarrow> string \<Rightarrow> bool" where
  "ProxyRouteMatches path prefix \<longleftrightarrow>
     prefix = ''/'' \<or> path = prefix \<or> has_prefix path (prefix @ ''/'')"

text \<open>The loop of SelectWebProxy: the selected proxy so far, if any.\<close>

fun select_web_loop :: "string \<Rightarrow> Proxy option \<Rightarrow> Proxy list \<Rightarrow> Proxy option" where
  "select_web_loop path selected [] = selected"
| "select_web_loop path selected (p # ps) =
     (if Proxy_Status p \<noteq> ProxyEnabled \<or> \<not> proxyType_IsWeb (Proxy_Type p)
         \<or> \<not> ProxyRouteMatches path (Proxy_PathPrefix p)
      then select_web_loop path selected ps
      else (case selected of
              None \<Rightarrow> select_web_loop path (Some p) ps
            | Some s \<Rightarrow>
                (if length (Proxy_PathPrefix p) > length (Proxy_PathPrefix s)
                 then select_web_loop path (Some p) ps
                 else select_web_loop path (Some s) ps)))"

definition SelectWebProxy :: "Proxy list \<Rightarrow> string \<Rightarrow> Proxy option" where
  "SelectWebProxy proxies path = select_web_loop path None proxies"

definition ValidProxyRequestPath :: "string \<Rightarrow> string \<Rightarrow> bool" where
  "ValidProxyRequestPath path rawPath =
     (if path = [] \<or> \<not> has_prefix path ''/'' \<or> CHR 0x00 \<in> set path then False
      else (let raw = to_lower rawPath in
            \<not> contains_sub raw ''%2f'' \<and> \<not> contains_sub raw ''%5c'' \<and> \<not> contains_sub raw ''%00''))"

definition RewriteWebProxyPath :: "string \<Rightarrow> string \<Rightarrow> bool \<Rightarrow> string \<Rightarrow> string" where
  "RewriteWebProxyPath path pathPrefix stripPrefix upstreamPathPrefix =
     (if \<not> stripPrefix then path
      else (let remainder = trim_prefix path pathPrefix in
            if remainder = [] then upstreamPathPrefix
            else if upstreamPathPrefix = ''/'' then remainder
            else trim_right_char CHR ''/'' upstreamPathPrefix @ ''/'' @ trim_left_char CHR ''/'' remainder))"

section \<open>Validation\<close>

definition domain_Validate :: "Domain \<Rightarrow> unit result" where
  "domain_Validate d =
     (if blank (Dom_ID d) then Inl (New ''domain id is required'')
      else if blank (Dom_UserID d) then Inl (New ''domain user id is required'')
      else if NormalizeRouteHost (Dom_Host d) = [] \<or> \<not> validHostname (NormalizeRouteHost (Dom_Host d))
      then Inl (New ''domain host is invalid'')
      else if Dom_Status d \<noteq> DomainEnabled \<and> Dom_Status d \<noteq> DomainDisabled
      then Inl (New ''domain status is invalid'')
      else Inr ())"

definition domainEntry_Validate :: "DomainEntry \<Rightarrow> unit result" where
  "domainEntry_Validate e =
     (if blank (DEnt_ID e) \<or> blank (DEnt_DomainID e) then Inl (New ''domain entry identifiers are required'')
      else if \<not> domainEntryProtocol_Valid (DEnt_Protocol e) then Inl (New ''domain entry protocol is invalid'')
      else if \<not> ValidBindHost (DEnt_BindHost e) then Inl (New ''domain entry bind host is invalid'')
      else if DEnt_Port e \<le> 0 \<or> DEnt_Port e > 65535 then Inl (New ''domain entry port is invalid'')
      else if DEnt_Status e \<noteq> DomainEntryEnabled \<and> DEnt_Status e \<noteq> DomainEntryDisabled
      then Inl (New ''domain entry status is invalid'')
      else Inr ())"

definition user_Validate :: "User \<Rightarrow> unit result" where
  "user_Validate u =
     (if blank (User_ID u) then Inl (New ''user id is required'')
      else if blank (User_Username u) then Inl (New ''username is required'')
      else if \<not> role_Valid (User_Role u) then Inl (New ''user role is invalid'')
      else if User_Status u \<noteq> UserEnabled \<and> User_Status u \<noteq> UserDisabled
      then Inl (New ''user status is invalid'')
      else Inr ())"

definition client_Validate :: "Client \<Rightarrow> unit result" where
  "client_Validate c =
     (if blank (Client_ID c) then Inl (New ''client id is required'')
      else if blank (Client_UserID c) then Inl (New ''client user id is required'')
      else if blank (Client_Name c) then Inl (New ''client name is required'')
      else if blank (Client_CredentialHash c) then Inl (New ''client credential hash is required'')
      else if \<not> clientKind_Valid (NormalizeClientKind (Client_Kind c)) then Inl (New ''client kind is invalid'')
      else Inr ())"

definition clientEnrollment_Validate :: "ClientEnrollment \<Rightarrow> unit result" where
  "clientEnrollment_Validate e =
     (if blank (Enr_ID e) then Inl (New ''client enrollment id is required'')
      else if blank (Enr_ClientID e) then Inl (New ''client enrollment client id is required'')
      else if blank (Enr_SecretHash e) then Inl (New ''client enrollment secret hash is required'')
      else if blank (Enr_TokenHash e) then Inl (New ''client enrollment token hash is required'')
      else if blank (Enr_Token e) then Inl (New ''client enrollment token is required'')
      else if IsZero (Enr_ExpiresAt e) then Inl (New ''client enrollment expiry is required'')
      else Inr ())"

definition proxy_Validate :: "Proxy \<Rightarrow> unit result" where
  "proxy_Validate p =
     (if blank (Proxy_ID p) then Inl (New ''proxy id is required'')
      else if blank (Proxy_UserID p) then Inl (New ''proxy user id is required'')
      else if blank (Proxy_ClientID p) then Inl (New ''proxy client id is required'')
      else if blank (Proxy_Name p) then Inl (New ''proxy name is required'')
      else if \<not> proxyType_Valid (Proxy_Type p) then Inl (New ''proxy type is invalid'')
      else if Proxy_EntryPort p < 0 \<or> Proxy_EntryPort p > 65535 then Inl (New ''proxy entry port is invalid'')
      else if Proxy_TargetPort p \<le> 0 \<or> Proxy_TargetPort p > 65535 then Inl (New ''proxy target port is invalid'')
      else if blank (Proxy_TargetHost p) then Inl (New ''proxy target host is required'')
      else if ParseIP (Proxy_TargetHost p) = None \<and> \<not> validHostname (Proxy_TargetHost p)
      then Inl (New ''proxy target host is invalid'')
      else if Proxy_Type p = ProxyWeb then
        (if blank (Proxy_DomainID p) then Inl (New ''web proxy domain id is required'')
         else rbind (NormalizeProxyRoutePrefix (Proxy_PathPrefix p)) (\<lambda>pathPrefix.
           if has_prefix pathPrefix ReservedProxyRoutePrefix
              \<or> pathPrefix = trim_suffix ReservedProxyRoutePrefix ''/''
           then Inl (New ''proxy path prefix is reserved'')
           else rbind (NormalizeProxyUpstreamPathPrefix (Proxy_UpstreamPathPrefix p)) (\<lambda>_. Inr ())))
      else Inr ())"

definition managedCertificate_Validate :: "ManagedCertificate \<Rightarrow> unit result" where
  "managedCertificate_Validate c =
     (if blank (Cert_ID c) then Inl (New ''certificate id is required'')
      else if blank (Cert_Host c) \<or> \<not> validCertificateHost (Cert_Host c) then Inl (New ''certificate host is invalid'')
      else if \<not> certificateStatus_Valid (Cert_Status c) then Inl (New ''certificate status is invalid'')
      else if Cert_ServingStatus c \<noteq> [] \<and> \<not> certificateServingStatus_Valid (Cert_ServingStatus c)
      then Inl (New ''certificate serving status is invalid'')
      else if Cert_OperationStatus c \<noteq> [] \<and> \<not> certificateOperationStatus_Valid (Cert_OperationStatus c)
      then Inl (New ''certificate operation status is invalid'')
      else if Cert_ProviderType c \<noteq> [] \<and> \<not> certificateProviderType_Valid (Cert_ProviderType c)
      then Inl (New ''certificate provider type is invalid'')
      else if Cert_ProviderStatus c \<noteq> [] \<and> \<not> certificateProviderStatus_Valid (Cert_ProviderStatus c)
      then Inl (New ''certificate provider status is invalid'')
      else if Cert_FailureCount c < 0 then Inl (New ''certificate failure count is invalid'')
      else Inr ())"

definition providerCredential_Validate :: "ProviderCredential \<Rightarrow> unit result" where
  "providerCredential_Validate c =
     (if blank (PCred_ID c) then Inl (New ''provider credential id is required'')
      else if blank (PCred_Name c) then Inl (New ''provider credential name is required'')
      else if \<not> certificateProviderType_Valid (PCred_ProviderType c) then Inl (New ''provider credential type is invalid'')
      else if \<not> providerCredentialStatus_Valid (PCred_Status c) then Inl (New ''provider credential status is invalid'')
      else if blank (PCred_SecretRef c) then Inl (New ''provider credential secret ref is required'')
      else Inr ())"

text \<open>HashPassword and CheckPasswordHash over the bcrypt functions of golang.org/x/crypto.\<close>

definition HashPassword :: "(string \<Rightarrow> string result) \<Rightarrow> string \<Rightarrow> string result" where
  "HashPassword bcrypt_generate password =
     (if blank password then Inl (New ''password is required'') else bcrypt_generate password)"

definition CheckPasswordHash :: "(string \<Rightarrow> string \<Rightarrow> bool) \<Rightarrow> string \<Rightarrow> string \<Rightarrow> bool" where
  "CheckPasswordHash bcrypt_matches password hash =
     (if blank password \<or> blank hash then False else bcrypt_matches hash password)"

end
