(* ===== verification/Routing.thy ===== *)
theory Routing
  imports Domain
begin

text \<open>
  The routing rules of web proxies (internal/domain/types.go): what the two prefix normalisers
  return, when a route matches, which of several matching proxies is selected, and where a
  rewritten request path may lose its leading slash.
\<close>

section \<open>Prefixes\<close>

definition normal_prefix :: "string \<Rightarrow> bool" where
  "normal_prefix q \<longleftrightarrow>
     has_prefix q ''/'' \<and> \<not> contains_any q forbidden_path_bytes \<and> \<not> contains_sub q ''//'' \<and>
     (q = ''/'' \<or> last q \<noteq> CHR ''/'')"

lemma contains_sub_prefix: "has_prefix s t \<Longrightarrow> contains_sub t p \<Longrightarrow> contains_sub s p"
  by (metis append_assoc contains_sub_iff has_prefix_iff)

lemma contains_any_prefix: "has_prefix s t \<Longrightarrow> contains_any t cs \<Longrightarrow> contains_any s cs"
  by (auto simp: contains_any_iff has_prefix_iff)

lemma slashes_two: "\<not> contains_sub (t @ replicate n CHR ''/'') ''//'' \<Longrightarrow> n \<le> 1"
proof (rule ccontr)
  assume c: "\<not> contains_sub (t @ replicate n CHR ''/'') ''//''" and "\<not> n \<le> 1"
  then obtain m where "n = Suc (Suc m)" by (metis One_nat_def Suc_le_mono le0 not0_implies_Suc not_less_eq_eq)
  then have "t @ replicate n CHR ''/'' = t @ ''//'' @ replicate m CHR ''/''" by simp
  then have "contains_sub (t @ replicate n CHR ''/'') ''//''" by (metis contains_sub_iff)
  with c show False ..
qed

lemma trim_slash_root:
  assumes "has_prefix v ''/''" and "length v > 1" and "\<not> contains_sub v ''//''"
  shows "has_prefix (trim_right_char CHR ''/'' v) ''/''" (is ?A)
    and "trim_right_char CHR ''/'' v \<noteq> ''/''" (is ?B)
proof -
  let ?t = "trim_right_char CHR ''/'' v"
  obtain n where n: "v = ?t @ replicate n CHR ''/''" using trim_right_char_split by blast
  with assms(3) have n1: "n \<le> 1" by (metis slashes_two)
  have "length v = length ?t + n" using arg_cong [OF n, of length] by simp
  with n1 assms(2) have ne: "?t \<noteq> []" by auto
  from assms(1) obtain r where r: "v = CHR ''/'' # r" by (auto simp: has_prefix_iff)
  with n ne have "hd ?t = CHR ''/''" by (metis hd_append list.sel(1))
  with ne show ?A by (cases ?t) (auto simp: has_prefix_def)
  have "last ?t \<noteq> CHR ''/''" using ne by (rule trim_right_char_last)
  then show ?B by auto
qed

lemma prefix_len1: "has_prefix v ''/'' \<Longrightarrow> \<not> length v > 1 \<Longrightarrow> v = ''/''"
  by (auto simp: has_prefix_iff)

lemma root_last: "q \<noteq> ''/'' \<Longrightarrow> q \<noteq> [] \<Longrightarrow> trim_right_char CHR ''/'' v = q \<Longrightarrow> last q \<noteq> CHR ''/''"
  using trim_right_char_last by blast

lemma normal_prefix_trim:
  assumes "has_prefix v ''/''" and "\<not> contains_any v forbidden_path_bytes" and "\<not> contains_sub v ''//''"
  shows "normal_prefix (if length v > 1 then trim_right_char CHR ''/'' v else v)"
proof (cases "length v > 1")
  case True
  let ?t = "trim_right_char CHR ''/'' v"
  have root: "has_prefix ?t ''/''" and "?t \<noteq> ''/''" using trim_slash_root [OF assms(1) True assms(3)] by auto
  moreover have "has_prefix v ?t" by (rule trim_right_char_prefix)
  with assms have "\<not> contains_any ?t forbidden_path_bytes" and "\<not> contains_sub ?t ''//''"
    by (blast dest: contains_any_prefix contains_sub_prefix)+
  moreover from root have "?t \<noteq> []" by (auto simp: has_prefix_def)
  then have "last ?t \<noteq> CHR ''/''" by (rule trim_right_char_last)
  ultimately show ?thesis using True by (simp add: normal_prefix_def)
next
  case False
  with assms show ?thesis by (auto simp: normal_prefix_def dest: prefix_len1)
qed

lemma normal_prefix_root: "normal_prefix ''/''"
  by (simp add: normal_prefix_def has_prefix_def contains_any_def forbidden_path_bytes_def)

lemma Route_normal: "NormalizeProxyRoutePrefix v = Inr q \<Longrightarrow> normal_prefix q"
  unfolding NormalizeProxyRoutePrefix_def
  by (auto simp: Let_def simp del: One_nat_def split: if_splits dest: normal_prefix_trim)

lemma Upstream_normal: "NormalizeProxyUpstreamPathPrefix v = Inr q \<Longrightarrow> normal_prefix q"
  unfolding NormalizeProxyUpstreamPathPrefix_def
  by (auto simp: Let_def normal_prefix_root simp del: One_nat_def split: if_splits dest: normal_prefix_trim)

lemma normal_prefix_ne: "normal_prefix q \<Longrightarrow> q \<noteq> []"
  by (auto simp: normal_prefix_def has_prefix_def)

lemma normal_trim_right: "normal_prefix q \<Longrightarrow> (if length q > 1 then trim_right_char CHR ''/'' q else q) = q"
  by (cases "q = ''/''") (auto simp: normal_prefix_def normal_prefix_ne intro!: trim_right_char_append_last)

lemma Route_fixed: "normal_prefix q \<Longrightarrow> NormalizeProxyRoutePrefix q = Inr q \<longleftrightarrow> trim_space q = q"
proof
  assume n: "normal_prefix q" and r: "NormalizeProxyRoutePrefix q = Inr q"
  have "length (trim_right_char CHR ''/'' (trim_space q)) \<le> length (trim_space q)"
    by (rule has_prefix_length [OF trim_right_char_prefix])
  with r have "length q \<le> length (trim_space q)"
    by (auto simp: NormalizeProxyRoutePrefix_def Let_def split: if_splits)
  moreover obtain a b where ab: "q = a @ trim_space q @ b" using trim_space_infix by blast
  then have "length q = length a + length (trim_space q) + length b"
    by (metis add.assoc length_append)
  ultimately have "a = []" and "b = []" by auto
  with ab show "trim_space q = q" by simp
next
  assume n: "normal_prefix q" and "trim_space q = q"
  with normal_trim_right [OF n] normal_prefix_ne [OF n] show "NormalizeProxyRoutePrefix q = Inr q"
    by (simp add: NormalizeProxyRoutePrefix_def Let_def normal_prefix_def)
qed

section \<open>Matching by segments\<close>

fun join_with :: "char \<Rightarrow> string list \<Rightarrow> string" where
  "join_with c [] = []"
| "join_with c [s] = s"
| "join_with c (s # t # ss) = s @ c # join_with c (t # ss)"

lemma join_with_Cons: "join_with c ((x # y) # ys) = x # join_with c (y # ys)"
  by (cases ys) auto

lemma join_with_Nil_Cons: "ys \<noteq> [] \<Longrightarrow> join_with c ([] # ys) = c # join_with c ys"
  by (cases ys) auto

lemma join_split [simp]: "join_with c (split_on c s) = s"
  by (induction s) (auto simp: join_with_Cons join_with_Nil_Cons split: list.splits)

lemma split_on_append: "split_on c (a @ c # b) = split_on c a @ split_on c b"
  by (induction a) (auto split: list.splits)

lemma join_with_append:
  "xs \<noteq> [] \<Longrightarrow> ys \<noteq> [] \<Longrightarrow> join_with c (xs @ ys) = join_with c xs @ c # join_with c ys"
  by (induction c xs rule: join_with.induct) (auto simp: neq_Nil_conv)

lemma segments_prefix:
  "path = q \<or> has_prefix path (q @ ''/'') \<longleftrightarrow>
   take (length (split_on CHR ''/'' q)) (split_on CHR ''/'' path) = split_on CHR ''/'' q" (is "?m \<longleftrightarrow> ?t")
proof
  assume ?m
  then show ?t by (auto simp: has_prefix_iff split_on_append)
next
  assume ?t
  then obtain r where r: "split_on CHR ''/'' path = split_on CHR ''/'' q @ r"
    by (metis append_take_drop_id)
  show ?m
  proof (cases r)
    case Nil
    with r show ?thesis by (metis append_Nil2 join_split)
  next
    case (Cons x xs)
    then have "join_with CHR ''/'' (split_on CHR ''/'' q @ r) = q @ CHR ''/'' # join_with CHR ''/'' r"
      by (subst join_with_append) auto
    with r have "path = (q @ ''/'') @ join_with CHR ''/'' r" by (metis append_Cons append_Nil append_assoc join_split)
    then show ?thesis by (metis has_prefix_append)
  qed
qed

section \<open>Selection\<close>

definition web_eligible :: "string \<Rightarrow> Proxy \<Rightarrow> bool" where
  "web_eligible path p \<longleftrightarrow>
     Proxy_Status p = ProxyEnabled \<and> proxyType_IsWeb (Proxy_Type p) \<and> ProxyRouteMatches path (Proxy_PathPrefix p)"

text \<open>The first of the longest: what the loop returns.\<close>

definition longest_first :: "Proxy list \<Rightarrow> Proxy \<Rightarrow> bool" where
  "longest_first ps p \<longleftrightarrow>
     (\<exists>as bs. ps = as @ p # bs \<and>
        (\<forall>q \<in> set as. length (Proxy_PathPrefix q) < length (Proxy_PathPrefix p)) \<and>
        (\<forall>q \<in> set bs. length (Proxy_PathPrefix q) \<le> length (Proxy_PathPrefix p)))"

lemma select_loop_filter:
  "select_web_loop path sel ps = select_web_loop path sel (filter (web_eligible path) ps)"
  by (induction path sel ps rule: select_web_loop.induct) (auto simp: web_eligible_def split: option.splits)

lemma longest_first_keep:
  assumes "longest_first (s # ps) r" and "\<not> length (Proxy_PathPrefix p) > length (Proxy_PathPrefix s)"
  shows "longest_first (s # p # ps) r"
proof -
  from assms(1) obtain as bs where ab: "s # ps = as @ r # bs"
    and "\<forall>q \<in> set as. length (Proxy_PathPrefix q) < length (Proxy_PathPrefix r)"
    and "\<forall>q \<in> set bs. length (Proxy_PathPrefix q) \<le> length (Proxy_PathPrefix r)"
    by (auto simp: longest_first_def)
  with assms(2) show ?thesis
  proof (cases as)
    case Nil
    with ab assms(2) \<open>\<forall>q \<in> set bs. _ q\<close> show ?thesis
      unfolding longest_first_def by (intro exI [of _ "[]"] exI [of _ "p # ps"]) auto
  next
    case (Cons x xs)
    with ab have x: "x = s" "ps = xs @ r # bs" by auto
    with Cons \<open>\<forall>q \<in> set as. _ q\<close> have "length (Proxy_PathPrefix s) < length (Proxy_PathPrefix r)" by simp
    with assms(2) x Cons \<open>\<forall>q \<in> set as. _ q\<close> \<open>\<forall>q \<in> set bs. _ q\<close> show ?thesis
      unfolding longest_first_def by (intro exI [of _ "s # p # xs"] exI [of _ bs]) auto
  qed
qed

lemma longest_first_new:
  assumes "longest_first (p # ps) r" and "length (Proxy_PathPrefix p) > length (Proxy_PathPrefix s)"
  shows "longest_first (s # p # ps) r"
proof -
  from assms(1) obtain as bs where ab: "p # ps = as @ r # bs"
    and as: "\<forall>q \<in> set as. length (Proxy_PathPrefix q) < length (Proxy_PathPrefix r)"
    and bs: "\<forall>q \<in> set bs. length (Proxy_PathPrefix q) \<le> length (Proxy_PathPrefix r)"
    by (auto simp: longest_first_def)
  have "length (Proxy_PathPrefix s) < length (Proxy_PathPrefix r)"
    using ab as assms(2) by (cases as) auto
  with ab as bs show ?thesis
    unfolding longest_first_def by (intro exI [of _ "s # as"] exI [of _ bs]) auto
qed

lemma select_loop_Some:
  "\<forall>q \<in> set ps. web_eligible path q \<Longrightarrow>
   \<exists>r. select_web_loop path (Some s) ps = Some r \<and> longest_first (s # ps) r"
proof (induction ps arbitrary: s)
  case Nil
  have "longest_first [s] s" unfolding longest_first_def by (intro exI [of _ "[]"]) auto
  then show ?case by simp
next
  case (Cons p ps)
  then have e: "web_eligible path p" and es: "\<forall>q \<in> set ps. web_eligible path q" by auto
  show ?case
  proof (cases "length (Proxy_PathPrefix p) > length (Proxy_PathPrefix s)")
    case True
    with e Cons.IH [OF es, of p] show ?thesis by (auto simp: web_eligible_def intro: longest_first_new)
  next
    case False
    with e Cons.IH [OF es, of s] show ?thesis by (auto simp: web_eligible_def intro: longest_first_keep)
  qed
qed

lemma Select_spec:
  "case SelectWebProxy ps path of
     None \<Rightarrow> filter (web_eligible path) ps = []
   | Some r \<Rightarrow> longest_first (filter (web_eligible path) ps) r"
proof -
  have sel: "SelectWebProxy ps path = select_web_loop path None (filter (web_eligible path) ps)"
    by (simp add: SelectWebProxy_def select_loop_filter [of path None ps])
  show ?thesis
  proof (cases "filter (web_eligible path) ps")
    case Nil
    then show ?thesis by (simp add: sel)
  next
    case (Cons p qs)
    have "\<forall>q \<in> set (filter (web_eligible path) ps). web_eligible path q" by simp
    then have e: "\<forall>q \<in> set (p # qs). web_eligible path q" unfolding Cons .
    then have "select_web_loop path None (p # qs) = select_web_loop path (Some p) qs"
      by (simp add: web_eligible_def)
    with e select_loop_Some [of qs path p] Cons sel show ?thesis by auto
  qed
qed

lemma longest_first_mem:
  "longest_first ps r \<Longrightarrow> r \<in> set ps \<and> (\<forall>q \<in> set ps. length (Proxy_PathPrefix q) \<le> length (Proxy_PathPrefix r))"
  by (auto simp: longest_first_def less_imp_le)

lemma Select_None: "SelectWebProxy ps path = None \<longleftrightarrow> (\<forall>p \<in> set ps. \<not> web_eligible path p)"
  using Select_spec [of path ps]
  by (auto simp: filter_empty_conv split: option.splits dest!: longest_first_mem)

lemma Select_Some:
  assumes "SelectWebProxy ps path = Some r"
  shows "r \<in> set ps" and "web_eligible path r"
    and "q \<in> set ps \<Longrightarrow> web_eligible path q \<Longrightarrow> length (Proxy_PathPrefix q) \<le> length (Proxy_PathPrefix r)"
  using assms Select_spec [of path ps] by (auto dest!: longest_first_mem)

text \<open>Two normal prefixes of one length that match one path are the same prefix.\<close>

lemma matches_prefix: "ProxyRouteMatches path r \<Longrightarrow> r \<noteq> ''/'' \<Longrightarrow> has_prefix path r"
  unfolding ProxyRouteMatches_def by (metis append_Nil2 has_prefix_append has_prefix_trans)

lemma normal_prefix_length1: "normal_prefix r \<Longrightarrow> length r = 1 \<Longrightarrow> r = ''/''"
  unfolding normal_prefix_def by (rule prefix_len1) auto

lemma normal_prefix_unique:
  assumes "normal_prefix p" and "normal_prefix q" and len: "length p = length q"
    and "ProxyRouteMatches path p" and "ProxyRouteMatches path q"
  shows "p = q"
proof (cases "length p = 1")
  case True
  with assms show ?thesis using normal_prefix_length1 [of p] normal_prefix_length1 [of q] by simp
next
  case False
  with len have "p \<noteq> ''/''" and "q \<noteq> ''/''" by auto
  with assms(4,5) have "has_prefix path p" and "has_prefix path q" by (blast intro: matches_prefix)+
  with len show ?thesis by (simp add: has_prefix_def)
qed

definition web_enabled :: "Proxy \<Rightarrow> bool" where
  "web_enabled p \<longleftrightarrow> Proxy_Status p = ProxyEnabled \<and> proxyType_IsWeb (Proxy_Type p)"

lemma web_eligible_iff: "web_eligible path p \<longleftrightarrow> web_enabled p \<and> ProxyRouteMatches path (Proxy_PathPrefix p)"
  by (auto simp: web_eligible_def web_enabled_def)

section \<open>Rewriting\<close>

lemma trim_right_normal: "normal_prefix u \<Longrightarrow> u \<noteq> ''/'' \<Longrightarrow> trim_right_char CHR ''/'' u = u"
  using normal_trim_right [of u] normal_prefix_ne [of u] prefix_len1 [of u]
  by (auto simp: normal_prefix_def split: if_splits)

lemma root_iff: "has_prefix s ''/'' \<longleftrightarrow> s \<noteq> [] \<and> hd s = CHR ''/''"
  by (cases s) (auto simp: has_prefix_def)

lemma rooted_append: "has_prefix u ''/'' \<Longrightarrow> has_prefix (u @ v) ''/''"
  by (rule has_prefix_of_append)

lemma Rewrite_rooted:
  assumes q: "normal_prefix q" and u: "normal_prefix u" and path: "has_prefix path ''/''"
    and m: "ProxyRouteMatches path q"
  shows "has_prefix (RewriteWebProxyPath path q strip u) ''/'' \<longleftrightarrow>
     \<not> (strip \<and> q = ''/'' \<and> u = ''/'' \<and> length path > 1 \<and> path ! 1 \<noteq> CHR ''/'')"
proof (cases strip)
  case False
  with path show ?thesis by (simp add: RewriteWebProxyPath_def)
next
  case strip: True
  have root_u: "has_prefix u ''/''" using u by (simp add: normal_prefix_def)
  show ?thesis
  proof (cases "u = ''/''")
    case False
    with u have "trim_right_char CHR ''/'' u = u" by (rule trim_right_normal)
    with strip False root_u show ?thesis
      by (auto simp: RewriteWebProxyPath_def Let_def intro: rooted_append)
  next
    case ur: True
    show ?thesis
    proof (cases "q = ''/''")
      case True
      obtain r where "path = CHR ''/'' # r" using path by (auto simp: has_prefix_iff)
      with strip ur True show ?thesis
        by (cases r) (auto simp: RewriteWebProxyPath_def trim_prefix_def has_prefix_def)
    next
      case False
      with m consider "path = q" | t where "path = q @ CHR ''/'' # t"
        by (auto simp: ProxyRouteMatches_def has_prefix_iff)
      then show ?thesis
      proof cases
        case 1
        then have "trim_prefix path q = []" by (simp add: trim_prefix_def has_prefix_def)
        with False strip root_u show ?thesis by (simp add: RewriteWebProxyPath_def)
      next
        case 2
        with False strip ur show ?thesis by (simp add: RewriteWebProxyPath_def root_iff)
      qed
    qed
  qed
qed

section \<open>Properties\<close>

text \<open>
  C7: SelectWebProxy finds no proxy exactly when no enabled web proxy of the list has a route that
  matches the path; otherwise it returns, among those that match, the first one of greatest prefix
  length.
\<close>

theorem SelectWebProxy_longest_prefix:
  "case SelectWebProxy ps path of
     None \<Rightarrow> filter (web_eligible path) ps = []
   | Some r \<Rightarrow> longest_first (filter (web_eligible path) ps) r"
  by (rule Select_spec)

text \<open>
  With distinct normalised prefixes among the enabled web proxies of a domain, the selected
  proxy does not depend on the order in which the repository lists them.
\<close>

lemma SelectWebProxy_order_independent:
  assumes same: "set ps = set qs"
    and normal: "\<forall>p \<in> set ps. web_enabled p \<longrightarrow> (\<exists>v. NormalizeProxyRoutePrefix v = Inr (Proxy_PathPrefix p))"
    and dist: "inj_on Proxy_PathPrefix {p \<in> set ps. web_enabled p}"
  shows "SelectWebProxy ps path = SelectWebProxy qs path"
proof (cases "SelectWebProxy ps path")
  case None
  with same have "SelectWebProxy qs path = None" by (simp add: Select_None)
  with None show ?thesis by simp
next
  case (Some p)
  then obtain q where q: "SelectWebProxy qs path = Some q"
    using same Select_Some(1,2) [OF Some] by (metis Select_None not_None_eq)
  note P = Select_Some [OF Some] and Q = Select_Some [OF q]
  have len: "length (Proxy_PathPrefix p) = length (Proxy_PathPrefix q)"
    using P(3) [of q] Q(3) [of p] P(1,2) Q(1,2) same by simp
  have "normal_prefix (Proxy_PathPrefix p)" and "normal_prefix (Proxy_PathPrefix q)"
    using normal P(1,2) Q(1,2) same by (auto simp: web_eligible_iff intro: Route_normal)
  with P(2) Q(2) len have "Proxy_PathPrefix p = Proxy_PathPrefix q"
    by (auto simp: web_eligible_iff intro: normal_prefix_unique)
  with dist P(1,2) Q(1,2) same have "p = q" by (auto simp: web_eligible_iff dest: inj_onD)
  with Some q show ?thesis by simp
qed

definition web_proxy :: "string \<Rightarrow> string \<Rightarrow> Proxy" where
  "web_proxy i prefix = zeroProxy \<lparr>Proxy_ID := i, Proxy_Type := ProxyWeb, Proxy_Status := ProxyEnabled,
     Proxy_PathPrefix := prefix\<rparr>"

lemma SelectWebProxy_order_independent_witness:
  "SelectWebProxy [web_proxy ''a'' ''/'', web_proxy ''b'' ''/api''] ''/api/x''
     = SelectWebProxy [web_proxy ''b'' ''/api'', web_proxy ''a'' ''/''] ''/api/x'' \<and>
   SelectWebProxy [web_proxy ''a'' ''/'', web_proxy ''b'' ''/api''] ''/api/x'' = Some (web_proxy ''b'' ''/api'')"
proof
  have n: "NormalizeProxyRoutePrefix ''/'' = Inr ''/''" "NormalizeProxyRoutePrefix ''/api'' = Inr ''/api''"
    by code_simp+
  show "SelectWebProxy [web_proxy ''a'' ''/'', web_proxy ''b'' ''/api''] ''/api/x''
     = SelectWebProxy [web_proxy ''b'' ''/api'', web_proxy ''a'' ''/''] ''/api/x''"
    by (rule SelectWebProxy_order_independent) (auto simp: web_proxy_def zeroProxy_def inj_on_def intro: n)
  show "SelectWebProxy [web_proxy ''a'' ''/'', web_proxy ''b'' ''/api''] ''/api/x'' = Some (web_proxy ''b'' ''/api'')"
    by code_simp
qed

text \<open>
  What NormalizeProxyRoutePrefix accepts is a rooted path without an empty inner segment,
  without query, fragment, escape, backslash or NUL bytes and without a trailing slash (the root
  excepted), and normalising it again returns it unchanged exactly when no white space surrounds
  it: the white space before a trailing slash survives the first pass.
\<close>

lemma NormalizeProxyRoutePrefix_canonical:
  assumes "NormalizeProxyRoutePrefix v = Inr q"
  shows "normal_prefix q \<and> (NormalizeProxyRoutePrefix q = Inr q \<longleftrightarrow> trim_space q = q)"
  using assms Route_normal Route_fixed by blast

lemma NormalizeProxyRoutePrefix_canonical_witness:
  "normal_prefix ''/a '' \<and> NormalizeProxyRoutePrefix ''/a '' \<noteq> Inr ''/a ''"
proof -
  have "NormalizeProxyRoutePrefix ''/a /'' = Inr ''/a ''" by code_simp
  then have "normal_prefix ''/a '' \<and> (NormalizeProxyRoutePrefix ''/a '' = Inr ''/a '' \<longleftrightarrow> trim_space ''/a '' = ''/a '')"
    by (rule NormalizeProxyRoutePrefix_canonical)
  moreover have "trim_space ''/a '' \<noteq> ''/a ''" by code_simp
  ultimately show ?thesis by blast
qed

text \<open>
  C8: a route other than the root matches a request path exactly when the segments of the route
  are the first segments of the path, so /api matches /api and /api/x and not /apix.
\<close>

theorem ProxyRouteMatches_segments:
  "ProxyRouteMatches path q \<longleftrightarrow>
     q = ''/'' \<or>
     take (length (split_on CHR ''/'' q)) (split_on CHR ''/'' path) = split_on CHR ''/'' q"
  using segments_prefix [of path q] by (simp add: ProxyRouteMatches_def)

text \<open>
  A rewritten request path keeps its leading slash, except in one case: the root route with
  StripPrefix onto the root upstream prefix, for any path whose first segment is not empty.
\<close>

lemma RewriteWebProxyPath_leading_slash:
  assumes "NormalizeProxyRoutePrefix v = Inr q" and "NormalizeProxyUpstreamPathPrefix w = Inr u"
    and "ValidProxyRequestPath path raw" and "ProxyRouteMatches path q"
  shows "has_prefix (RewriteWebProxyPath path q strip u) ''/'' \<longleftrightarrow>
     \<not> (strip \<and> q = ''/'' \<and> u = ''/'' \<and> length path > 1 \<and> path ! 1 \<noteq> CHR ''/'')"
  using assms by (intro Rewrite_rooted Route_normal Upstream_normal) (auto simp: ValidProxyRequestPath_def split: if_splits)

lemma RewriteWebProxyPath_leading_slash_witness:
  "has_prefix (RewriteWebProxyPath ''/api/x'' ''/api'' True ''/v1'') ''/'' \<and>
   \<not> has_prefix (RewriteWebProxyPath ''/x'' ''/'' True ''/'') ''/''"
proof
  have n: "NormalizeProxyRoutePrefix ''/'' = Inr ''/''" "NormalizeProxyRoutePrefix ''/api/'' = Inr ''/api''"
    "NormalizeProxyUpstreamPathPrefix '''' = Inr ''/''" "NormalizeProxyUpstreamPathPrefix ''/v1'' = Inr ''/v1''"
    "ValidProxyRequestPath ''/api/x'' ''/api/x''" "ValidProxyRequestPath ''/x'' ''/x''"
    "ProxyRouteMatches ''/api/x'' ''/api''" "ProxyRouteMatches ''/x'' ''/''"
    by code_simp+
  show "has_prefix (RewriteWebProxyPath ''/api/x'' ''/api'' True ''/v1'') ''/''"
    using RewriteWebProxyPath_leading_slash [OF n(2,4,5,7), of True] by simp
  show "\<not> has_prefix (RewriteWebProxyPath ''/x'' ''/'' True ''/'') ''/''"
    using RewriteWebProxyPath_leading_slash [OF n(1,3,6,8), of True] by simp
qed

end
