(* ===== verification/Listener.thy ===== *)
theory Listener
  imports Domain
begin

text \<open>
  The listeners a configuration needs (internal/domain/proxy_entry.go and listener.go): the
  effective entry of a proxy or of a domain entry once the server's defaults are filled in, the
  claim it makes on a network address, and when two claims exclude each other.
\<close>

abbreviation ListenerNetworkTCP :: string where "ListenerNetworkTCP \<equiv> ''tcp''"
abbreviation ListenerNetworkUDP :: string where "ListenerNetworkUDP \<equiv> ''udp''"
abbreviation ListenerProtocolTCP :: string where "ListenerProtocolTCP \<equiv> ''tcp''"
abbreviation ListenerProtocolUDP :: string where "ListenerProtocolUDP \<equiv> ''udp''"
abbreviation ListenerProtocolHTTP :: string where "ListenerProtocolHTTP \<equiv> ''http''"
abbreviation ListenerProtocolHTTPS :: string where "ListenerProtocolHTTPS \<equiv> ''https''"

abbreviation ErrEntryConflict :: error where "ErrEntryConflict \<equiv> Sentinel ''entry conflict''"

record ProxyEntryDefaults =
  Def_TCPBindHost :: string
  Def_HTTPBindHost :: string
  Def_HTTPPort :: int
  Def_HTTPSBindHost :: string
  Def_HTTPSPort :: int

record ProxyEntry =
  Entry_Protocol :: string
  Entry_Network :: string
  Entry_BindHost :: string
  Entry_Port :: int
  Entry_RouteHost :: string

record ListenerClaim =
  Claim_Protocol :: string
  Claim_Network :: string
  Claim_BindHost :: string
  Claim_Port :: int
  Claim_Source :: string
  Claim_ResourceID :: string

definition zeroProxyEntry :: ProxyEntry where
  "zeroProxyEntry = \<lparr>Entry_Protocol = [], Entry_Network = [], Entry_BindHost = [], Entry_Port = 0, Entry_RouteHost = []\<rparr>"

text \<open>The value a Go function returns beside \<open>ok = false\<close> is the zero entry, which no caller reads.\<close>

definition or_default_host :: "string \<Rightarrow> string \<Rightarrow> string" where
  "or_default_host host dflt = (if host = [] then NormalizeBindHost dflt else host)"

definition or_default_port :: "int \<Rightarrow> int \<Rightarrow> int" where
  "or_default_port port dflt = (if port = 0 then dflt else port)"

definition checked_entry :: "ProxyEntry \<Rightarrow> ProxyEntry option" where
  "checked_entry e = (if Entry_Port e \<le> 0 \<or> Entry_Port e > 65535 then None else Some e)"

definition EffectiveProxyEntry :: "Proxy \<Rightarrow> ProxyEntryDefaults \<Rightarrow> ProxyEntry option" where
  "EffectiveProxyEntry proxy defaults =
     (let entry = zeroProxyEntry \<lparr>Entry_BindHost := NormalizeBindHost (Proxy_EntryBindHost proxy),
                                  Entry_Port := Proxy_EntryPort proxy\<rparr>
      in if Proxy_Type proxy = ProxyTCP then
           checked_entry (entry \<lparr>Entry_Protocol := ListenerProtocolTCP, Entry_Network := ListenerNetworkTCP,
             Entry_BindHost := or_default_host (Entry_BindHost entry) (Def_TCPBindHost defaults)\<rparr>)
         else if Proxy_Type proxy = ProxyUDP then
           checked_entry (entry \<lparr>Entry_Protocol := ListenerProtocolUDP, Entry_Network := ListenerNetworkUDP,
             Entry_BindHost := or_default_host (Entry_BindHost entry) (Def_TCPBindHost defaults)\<rparr>)
         else if Proxy_Type proxy = ProxyHTTP then
           checked_entry (entry \<lparr>Entry_Protocol := ListenerProtocolHTTP, Entry_Network := ListenerNetworkTCP,
             Entry_RouteHost := NormalizeRouteHost (Proxy_EntryHost proxy),
             Entry_BindHost := or_default_host (Entry_BindHost entry) (Def_HTTPBindHost defaults),
             Entry_Port := or_default_port (Entry_Port entry) (Def_HTTPPort defaults)\<rparr>)
         else if Proxy_Type proxy = ProxyHTTPS then
           checked_entry (entry \<lparr>Entry_Protocol := ListenerProtocolHTTPS, Entry_Network := ListenerNetworkTCP,
             Entry_RouteHost := NormalizeRouteHost (Proxy_EntryHost proxy),
             Entry_BindHost := or_default_host (Entry_BindHost entry) (Def_HTTPSBindHost defaults),
             Entry_Port := or_default_port (Entry_Port entry) (Def_HTTPSPort defaults)\<rparr>)
         else None)"

definition EffectiveDomainEntry :: "DomainEntry \<Rightarrow> ProxyEntryDefaults \<Rightarrow> ProxyEntry option" where
  "EffectiveDomainEntry entry defaults =
     (let result = zeroProxyEntry \<lparr>Entry_BindHost := NormalizeBindHost (DEnt_BindHost entry),
                                   Entry_Port := DEnt_Port entry, Entry_Network := ListenerNetworkTCP\<rparr>
      in if DEnt_Protocol entry = DomainEntryHTTP then
           checked_entry (result \<lparr>Entry_Protocol := ListenerProtocolHTTP,
             Entry_BindHost := or_default_host (Entry_BindHost result) (Def_HTTPBindHost defaults),
             Entry_Port := or_default_port (Entry_Port result) (Def_HTTPPort defaults)\<rparr>)
         else if DEnt_Protocol entry = DomainEntryHTTPS then
           checked_entry (result \<lparr>Entry_Protocol := ListenerProtocolHTTPS,
             Entry_BindHost := or_default_host (Entry_BindHost result) (Def_HTTPSBindHost defaults),
             Entry_Port := or_default_port (Entry_Port result) (Def_HTTPSPort defaults)\<rparr>)
         else None)"

definition bindHostsConflict :: "string \<Rightarrow> string \<Rightarrow> bool" where
  "bindHostsConflict left right =
     (let l = NormalizeBindHost left; r = NormalizeBindHost right in
      l = r \<or> IsWildcardBindHost l \<or> IsWildcardBindHost r)"

definition shareableListenerProtocol :: "string \<Rightarrow> string \<Rightarrow> bool" where
  "shareableListenerProtocol left right \<longleftrightarrow>
     left = right \<and> (left = ListenerProtocolHTTP \<or> left = ListenerProtocolHTTPS)"

definition claim_Conflicts :: "ListenerClaim \<Rightarrow> ListenerClaim \<Rightarrow> bool" where
  "claim_Conflicts claim other =
     (if Claim_Network claim \<noteq> Claim_Network other \<or> Claim_Port claim \<noteq> Claim_Port other then False
      else if \<not> bindHostsConflict (Claim_BindHost claim) (Claim_BindHost other) then False
      else \<not> shareableListenerProtocol (Claim_Protocol claim) (Claim_Protocol other))"

fun FindListenerConflict :: "ListenerClaim list \<Rightarrow> ListenerClaim \<Rightarrow> ListenerClaim option" where
  "FindListenerConflict [] proposed = None"
| "FindListenerConflict (claim # existing) proposed =
     (if claim_Conflicts claim proposed then Some claim else FindListenerConflict existing proposed)"

definition ListenerClaimForProxy :: "Proxy \<Rightarrow> ProxyEntryDefaults \<Rightarrow> ListenerClaim option" where
  "ListenerClaimForProxy proxy selectedDefaults =
     (case EffectiveProxyEntry proxy selectedDefaults of
        None \<Rightarrow> None
      | Some entry \<Rightarrow>
          Some \<lparr>Claim_Protocol = Entry_Protocol entry, Claim_Network = Entry_Network entry,
                Claim_BindHost = Entry_BindHost entry, Claim_Port = Entry_Port entry,
                Claim_Source = ''proxy '' @ Proxy_ID proxy, Claim_ResourceID = Proxy_ID proxy\<rparr>)"

definition displayBindHost :: "string \<Rightarrow> string" where
  "displayBindHost host = (if NormalizeBindHost host = [] then ''*'' else NormalizeBindHost host)"

text \<open>The type ListenerAdmissionError: its message, and Unwrap, which gives ErrEntryConflict.\<close>

definition admissionError_Error :: "ListenerClaim \<Rightarrow> ListenerClaim \<Rightarrow> string" where
  "admissionError_Error proposed conflict =
     Claim_Protocol proposed @ '' listener on '' @ displayBindHost (Claim_BindHost proposed) @ '':''
     @ itoa (Claim_Port proposed) @ '' conflicts with '' @ Claim_Source conflict"

definition ListenerAdmissionError :: "ListenerClaim \<Rightarrow> ListenerClaim \<Rightarrow> error" where
  "ListenerAdmissionError proposed conflict = Wrapf (admissionError_Error proposed conflict) ErrEntryConflict"

section \<open>Lemmas\<close>

lemma bindHostsConflict_sym: "bindHostsConflict a b = bindHostsConflict b a"
  by (auto simp: bindHostsConflict_def Let_def)

lemma shareable_sym: "shareableListenerProtocol a b = shareableListenerProtocol b a"
  by (auto simp: shareableListenerProtocol_def)

lemma claim_Conflicts_sym: "claim_Conflicts a b = claim_Conflicts b a"
  by (auto simp: claim_Conflicts_def bindHostsConflict_sym shareable_sym)

lemma checked_entry_Some [simp]:
  "checked_entry e = Some e' \<longleftrightarrow> e' = e \<and> 0 < Entry_Port e \<and> Entry_Port e \<le> 65535"
  by (auto simp: checked_entry_def)

lemma FindListenerConflict_None:
  "FindListenerConflict cs p = None \<longleftrightarrow> (\<forall>c \<in> set cs. \<not> claim_Conflicts c p)"
  by (induction cs) auto

lemma FindListenerConflict_Some:
  "FindListenerConflict cs p = Some c \<Longrightarrow> c \<in> set cs \<and> claim_Conflicts c p"
  by (induction cs) (auto split: if_splits)

lemma ListenerAdmissionError_is [simp]: "errors_is (ListenerAdmissionError p c) ErrEntryConflict"
  by (simp add: ListenerAdmissionError_def)

text \<open>Two claims on one address and port, one of them plain TCP or UDP, always conflict.\<close>

lemma claim_Conflicts_same_address:
  assumes "Claim_Network a = Claim_Network b" and "Claim_Port a = Claim_Port b"
    and "NormalizeBindHost (Claim_BindHost a) = NormalizeBindHost (Claim_BindHost b)"
    and "Claim_Protocol a \<noteq> Claim_Protocol b \<or> Claim_Protocol a = ListenerProtocolTCP \<or> Claim_Protocol a = ListenerProtocolUDP"
  shows "claim_Conflicts a b"
  using assms by (auto simp: claim_Conflicts_def bindHostsConflict_def shareableListenerProtocol_def Let_def)

end
