(* ===== verification/Session.thy ===== *)
theory Session
  imports Domain
begin

text \<open>
  The session manager of internal/session/manager.go: the sessions by id, and the latest session
  of every client. Every method holds the manager's mutex, so it is one atomic step; the reading
  of the clock is the argument \<open>now\<close>. A stream opener is an opaque handle.
\<close>

abbreviation ErrSessionNotFound :: error where "ErrSessionNotFound \<equiv> Sentinel ''session not found''"

record HeartbeatStats =
  Hb_ActiveProxies :: int
  Hb_ActiveStreams :: int
  Hb_UploadBytes :: int
  Hb_DownloadBytes :: int
  Hb_ErrorSummary :: string

type_synonym StreamOpener = "int option"

record Session =
  Ses_ID :: string
  Ses_ClientID :: string
  Ses_UserID :: string
  Ses_ClientKind :: ClientKind
  Ses_Protocol :: Protocol
  Ses_Generation :: int
  Ses_ConfigVersion :: int
  Ses_ConnectedAt :: time
  Ses_LastHeartbeat :: time
  Ses_ReplacedAt :: "time option"
  Ses_ClosedAt :: "time option"
  Ses_Stats :: HeartbeatStats
  Ses_StreamOpener :: StreamOpener
  Ses_Persistent :: bool

record RegisterInput =
  Reg_SessionID :: string
  Reg_ClientID :: string
  Reg_UserID :: string
  Reg_ClientKind :: ClientKind
  Reg_Protocol :: Protocol
  Reg_ConfigVersion :: int
  Reg_StreamOpener :: StreamOpener
  Reg_Persistent :: bool

record HeartbeatInput =
  HbIn_SessionID :: string
  HbIn_ConfigVersion :: int
  HbIn_Stats :: HeartbeatStats

record Manager =
  nextGeneration :: int
  byID :: "(string, Session) gomap"
  latestByClient :: "(string, string) gomap"

definition NewManager :: Manager where
  "NewManager = \<lparr>nextGeneration = 0, byID = [], latestByClient = []\<rparr>"

definition zeroStats :: HeartbeatStats where
  "zeroStats = \<lparr>Hb_ActiveProxies = 0, Hb_ActiveStreams = 0, Hb_UploadBytes = 0, Hb_DownloadBytes = 0,
                Hb_ErrorSummary = []\<rparr>"

definition zeroSession :: Session where
  "zeroSession = \<lparr>Ses_ID = [], Ses_ClientID = [], Ses_UserID = [], Ses_ClientKind = [], Ses_Protocol = [],
     Ses_Generation = 0, Ses_ConfigVersion = 0, Ses_ConnectedAt = 0, Ses_LastHeartbeat = 0,
     Ses_ReplacedAt = None, Ses_ClosedAt = None, Ses_Stats = zeroStats, Ses_StreamOpener = None,
     Ses_Persistent = False\<rparr>"

text \<open>\<open>m[k]\<close> of a Go map whose values are sessions: the zero value when the key is missing.\<close>

definition session_at :: "(string, Session) gomap \<Rightarrow> string \<Rightarrow> Session" where
  "session_at m k = (case gm_get m k of Some s \<Rightarrow> s | None \<Rightarrow> zeroSession)"

section \<open>Operations\<close>

definition new_session :: "Manager \<Rightarrow> time \<Rightarrow> RegisterInput \<Rightarrow> Session" where
  "new_session m now input =
     \<lparr>Ses_ID = Reg_SessionID input, Ses_ClientID = Reg_ClientID input, Ses_UserID = Reg_UserID input,
      Ses_ClientKind = NormalizeClientKind (Reg_ClientKind input), Ses_Protocol = Reg_Protocol input,
      Ses_Generation = wrap64 (nextGeneration m + 1), Ses_ConfigVersion = Reg_ConfigVersion input,
      Ses_ConnectedAt = now, Ses_LastHeartbeat = now, Ses_ReplacedAt = None, Ses_ClosedAt = None,
      Ses_Stats = zeroStats, Ses_StreamOpener = Reg_StreamOpener input, Ses_Persistent = Reg_Persistent input\<rparr>"

definition manager_Register :: "time \<Rightarrow> Manager \<Rightarrow> RegisterInput \<Rightarrow> (Session \<times> Session option \<times> Manager) result" where
  "manager_Register now m input =
     (if Reg_SessionID input = [] then Inl (New ''session id is required'')
      else if Reg_ClientID input = [] then Inl (New ''client id is required'')
      else if Reg_UserID input = [] then Inl (New ''user id is required'')
      else if \<not> protocol_Valid (Reg_Protocol input) then Inl (New ''protocol is invalid'')
      else
        (let session = new_session m now input;
             (replaced, ids) =
               (case gm_get (latestByClient m) (Reg_ClientID input) of
                  Some previousID \<Rightarrow>
                    (let previous = (session_at (byID m) previousID) \<lparr>Ses_ReplacedAt := Some now\<rparr>
                     in (Some previous, gm_put previousID previous (byID m)))
                | None \<Rightarrow> (None, byID m))
         in Inr (session, replaced,
              m \<lparr>nextGeneration := wrap64 (nextGeneration m + 1),
                 byID := gm_put (Ses_ID session) session ids,
                 latestByClient := gm_put (Ses_ClientID session) (Ses_ID session) (latestByClient m)\<rparr>)))"

definition manager_Heartbeat :: "time \<Rightarrow> Manager \<Rightarrow> HeartbeatInput \<Rightarrow> (Session \<times> Manager) result" where
  "manager_Heartbeat now m input =
     (case gm_get (byID m) (HbIn_SessionID input) of
        None \<Rightarrow> Inl ErrSessionNotFound
      | Some session \<Rightarrow>
          (if Ses_ReplacedAt session \<noteq> None \<or> Ses_ClosedAt session \<noteq> None
           then Inl (Wrapf ''session is not active'' ErrSessionNotFound)
           else (let session' = session \<lparr>Ses_LastHeartbeat := now,
                                         Ses_ConfigVersion := HbIn_ConfigVersion input,
                                         Ses_Stats := HbIn_Stats input\<rparr>
                 in Inr (session', m \<lparr>byID := gm_put (HbIn_SessionID input) session' (byID m)\<rparr>))))"

definition manager_Close :: "time \<Rightarrow> Manager \<Rightarrow> string \<Rightarrow> (Session \<times> bool \<times> Manager) result" where
  "manager_Close now m sessionID =
     (case gm_get (byID m) sessionID of
        None \<Rightarrow> Inl ErrSessionNotFound
      | Some session \<Rightarrow>
          (if Ses_ReplacedAt session \<noteq> None then Inr (session, False, m)
           else
             (let (session', ids) =
                    (if Ses_ClosedAt session = None
                     then (let closed = session \<lparr>Ses_ClosedAt := Some now\<rparr>
                           in (closed, gm_put sessionID closed (byID m)))
                     else (session, byID m));
                  isLatest = (gm_get (latestByClient m) (Ses_ClientID session') = Some sessionID)
              in Inr (session', isLatest,
                   m \<lparr>byID := ids,
                      latestByClient := (if isLatest then gm_del (Ses_ClientID session') (latestByClient m)
                                         else latestByClient m)\<rparr>))))"

definition manager_Latest :: "Manager \<Rightarrow> string \<Rightarrow> Session option" where
  "manager_Latest m clientID =
     (case gm_get (latestByClient m) clientID of
        None \<Rightarrow> None
      | Some sessionID \<Rightarrow> Some (session_at (byID m) sessionID))"

definition session_active :: "Session \<Rightarrow> bool" where
  "session_active s \<longleftrightarrow> Ses_ReplacedAt s = None \<and> Ses_ClosedAt s = None"

fun snapshot_loop :: "(string, Session) gomap \<Rightarrow> (string \<times> string) list \<Rightarrow> Session list" where
  "snapshot_loop ids [] = []"
| "snapshot_loop ids ((c, sessionID) # rest) =
     (case gm_get ids sessionID of
        None \<Rightarrow> snapshot_loop ids rest
      | Some session \<Rightarrow>
          (if Ses_ReplacedAt session \<noteq> None \<or> Ses_ClosedAt session \<noteq> None
           then snapshot_loop ids rest
           else session # snapshot_loop ids rest))"

definition manager_SnapshotLatest :: "Manager \<Rightarrow> Session list" where
  "manager_SnapshotLatest m = snapshot_loop (byID m) (latestByClient m)"

text \<open>The loop of MarkExpired over the entries of \<open>byID\<close>: the sessions expired so far, and the manager.\<close>

definition session_expired :: "time \<Rightarrow> duration \<Rightarrow> Session \<Rightarrow> bool" where
  "session_expired now timeout current \<longleftrightarrow>
     \<not> (Ses_Persistent current \<or> Ses_ReplacedAt current \<noteq> None \<or> Ses_ClosedAt current \<noteq> None) \<and>
     \<not> time_Sub now (Ses_LastHeartbeat current) \<le> timeout"

definition expire_entry :: "time \<Rightarrow> string \<Rightarrow> Session \<Rightarrow> Manager \<Rightarrow> Manager" where
  "expire_entry now i current m =
     m \<lparr>byID := gm_put i (current \<lparr>Ses_ClosedAt := Some now\<rparr>) (byID m),
        latestByClient := (if gm_get (latestByClient m) (Ses_ClientID current) = Some i
                           then gm_del (Ses_ClientID current) (latestByClient m)
                           else latestByClient m)\<rparr>"

fun expire_loop :: "time \<Rightarrow> duration \<Rightarrow> (string \<times> Session) list \<Rightarrow> Manager \<Rightarrow> Session list \<times> Manager" where
  "expire_loop now timeout [] m = ([], m)"
| "expire_loop now timeout ((i, current) # rest) m =
     (if \<not> session_expired now timeout current then expire_loop now timeout rest m
      else (let (expired, m') = expire_loop now timeout rest (expire_entry now i current m)
            in (current \<lparr>Ses_ClosedAt := Some now\<rparr> # expired, m')))"

definition manager_MarkExpired :: "time \<Rightarrow> Manager \<Rightarrow> duration \<Rightarrow> Session list \<times> Manager" where
  "manager_MarkExpired now m timeout = expire_loop now timeout (byID m) m"

end
