(* ===== verification/SessionInv.thy ===== *)
theory SessionInv
  imports Session
begin

text \<open>
  Correctness of the session manager: the invariant that ties the latest session of a client to
  the one active session it has, its preservation by every method, the abstract view (a map from
  clients to active sessions) that the methods implement, and the interface the callers of
  SessionRegistry rely on.
\<close>

section \<open>Invariant\<close>

type_synonym sessions_view = "string \<Rightarrow> Session option"
type_synonym latest_view = "string \<Rightarrow> string option"

definition keys_ok :: "int \<Rightarrow> sessions_view \<Rightarrow> bool" where
  "keys_ok n B \<longleftrightarrow> (\<forall>i s. B i = Some s \<longrightarrow> Ses_ID s = i \<and> i \<noteq> [] \<and> Ses_Generation s \<le> n)"

definition latest_ok :: "sessions_view \<Rightarrow> latest_view \<Rightarrow> bool" where
  "latest_ok B L \<longleftrightarrow> (\<forall>c i. L c = Some i \<longrightarrow> (\<exists>s. B i = Some s \<and> Ses_ClientID s = c \<and> session_active s))"

definition active_ok :: "sessions_view \<Rightarrow> latest_view \<Rightarrow> bool" where
  "active_ok B L \<longleftrightarrow> (\<forall>i s. B i = Some s \<longrightarrow> session_active s \<longrightarrow> L (Ses_ClientID s) = Some i)"

definition newest_ok :: "sessions_view \<Rightarrow> latest_view \<Rightarrow> bool" where
  "newest_ok B L \<longleftrightarrow>
     (\<forall>c i s j s'. L c = Some i \<longrightarrow> B i = Some s \<longrightarrow> B j = Some s' \<longrightarrow> Ses_ClientID s' = c \<longrightarrow>
        Ses_Generation s' \<le> Ses_Generation s)"

definition session_inv :: "Manager \<Rightarrow> bool" where
  "session_inv m \<longleftrightarrow>
     gm_wf (byID m) \<and> gm_wf (latestByClient m) \<and>
     keys_ok (nextGeneration m) (gm_get (byID m)) \<and>
     latest_ok (gm_get (byID m)) (gm_get (latestByClient m)) \<and>
     active_ok (gm_get (byID m)) (gm_get (latestByClient m)) \<and>
     newest_ok (gm_get (byID m)) (gm_get (latestByClient m)) \<and>
     0 \<le> nextGeneration m \<and> nextGeneration m \<le> int64_max"

lemmas session_view_defs = keys_ok_def latest_ok_def active_ok_def newest_ok_def

lemma gm_get_put_fun: "gm_get (gm_put k v m) = (gm_get m)(k \<mapsto> v)"
  by (rule ext) simp

lemma gm_get_del_fun: "gm_get (gm_del k m) = (gm_get m)(k := None)"
  by (rule ext) simp

lemma session_inv_New [simp]: "session_inv NewManager"
  by (simp add: session_inv_def session_view_defs NewManager_def int64_max_def)

lemma Latest_iff:
  assumes "session_inv m"
  shows "manager_Latest m c = Some s \<longleftrightarrow>
    gm_get (byID m) (Ses_ID s) = Some s \<and> Ses_ClientID s = c \<and> session_active s" (is "?l \<longleftrightarrow> ?r")
proof
  assume ?l
  then obtain i where i: "gm_get (latestByClient m) c = Some i" "s = session_at (byID m) i"
    by (auto simp: manager_Latest_def split: option.splits)
  with assms obtain t where t: "gm_get (byID m) i = Some t" "Ses_ClientID t = c" "session_active t"
    unfolding session_inv_def latest_ok_def by blast
  with i assms show ?r unfolding session_inv_def keys_ok_def by (auto simp: session_at_def)
next
  assume r: ?r
  with assms have "gm_get (latestByClient m) c = Some (Ses_ID s)"
    unfolding session_inv_def active_ok_def by blast
  with r show ?l by (simp add: manager_Latest_def session_at_def)
qed

text \<open>Two changes of the views: a session is updated in place, or loses its activity.\<close>

definition same_key :: "Session \<Rightarrow> Session \<Rightarrow> bool" where
  "same_key s t \<longleftrightarrow> Ses_ID s = Ses_ID t \<and> Ses_ClientID s = Ses_ClientID t \<and> Ses_Generation s = Ses_Generation t"

lemma keys_ok_update: "keys_ok n B \<Longrightarrow> B i = Some s \<Longrightarrow> same_key t s \<Longrightarrow> keys_ok n (B(i \<mapsto> t))"
  by (auto simp: keys_ok_def same_key_def)

lemma newest_ok_update: "newest_ok B L \<Longrightarrow> B i = Some s \<Longrightarrow> same_key t s \<Longrightarrow> newest_ok (B(i \<mapsto> t)) L"
  unfolding newest_ok_def same_key_def by (auto split: if_splits)

lemma latest_okD: "latest_ok B L \<Longrightarrow> L c = Some i \<Longrightarrow> B i = Some s \<Longrightarrow> c = Ses_ClientID s \<and> session_active s"
  unfolding latest_ok_def by fastforce

lemma latest_okE: "latest_ok B L \<Longrightarrow> L c = Some i \<Longrightarrow> \<exists>s. B i = Some s \<and> Ses_ClientID s = c \<and> session_active s"
  unfolding latest_ok_def by blast

lemma latest_ok_update:
  assumes ok: "latest_ok B L" and "B i = Some s" and "same_key t s" and "session_active t = session_active s"
  shows "latest_ok (B(i \<mapsto> t)) L"
  unfolding latest_ok_def
proof (intro allI impI)
  fix c j assume "L c = Some j"
  with assms latest_okE [OF ok this] latest_okD [OF ok this]
  show "\<exists>u. (B(i \<mapsto> t)) j = Some u \<and> Ses_ClientID u = c \<and> session_active u"
    by (cases "j = i") (auto simp: same_key_def)
qed

lemma active_ok_update:
  "active_ok B L \<Longrightarrow> B i = Some s \<Longrightarrow> same_key t s \<Longrightarrow> session_active t = session_active s \<Longrightarrow> active_ok (B(i \<mapsto> t)) L"
  unfolding active_ok_def same_key_def by auto

definition drop_latest :: "latest_view \<Rightarrow> string \<Rightarrow> string \<Rightarrow> latest_view" where
  "drop_latest L c i = (if L c = Some i then L(c := None) else L)"

lemma latest_ok_drop:
  assumes ok: "latest_ok B L" and "B i = Some s"
  shows "latest_ok (B(i \<mapsto> t)) (drop_latest L (Ses_ClientID s) i)"
  unfolding latest_ok_def
proof (intro allI impI)
  fix c j assume l: "drop_latest L (Ses_ClientID s) i c = Some j"
  then have "L c = Some j" by (auto simp: drop_latest_def split: if_splits)
  with assms(2) l latest_okE [OF ok this] latest_okD [OF ok this]
  show "\<exists>u. (B(i \<mapsto> t)) j = Some u \<and> Ses_ClientID u = c \<and> session_active u"
    by (cases "j = i") (auto simp: drop_latest_def split: if_splits)
qed

lemma active_ok_drop:
  assumes ok: "active_ok B L" and "B i = Some s" and "\<not> session_active t"
  shows "active_ok (B(i \<mapsto> t)) (drop_latest L (Ses_ClientID s) i)"
  unfolding active_ok_def
proof (intro allI impI)
  fix j u assume u: "(B(i \<mapsto> t)) j = Some u" "session_active u"
  with assms(3) have "j \<noteq> i" by auto
  with u ok have "L (Ses_ClientID u) = Some j" unfolding active_ok_def by auto
  with \<open>j \<noteq> i\<close> show "drop_latest L (Ses_ClientID s) i (Ses_ClientID u) = Some j" by (auto simp: drop_latest_def)
qed

lemma newest_ok_drop: "newest_ok B L \<Longrightarrow> newest_ok B (drop_latest L c i)"
  unfolding newest_ok_def drop_latest_def by (auto split: if_splits)

lemma drop_latest_gm:
  "gm_get (if gm_get l c = Some i then gm_del c l else l) = drop_latest (gm_get l) c i"
  by (auto simp: drop_latest_def gm_get_del_fun)

lemma inv_update:
  assumes "session_inv m" and "gm_get (byID m) i = Some s" and "same_key t s"
    and "session_active t = session_active s"
  shows "session_inv (m \<lparr>byID := gm_put i t (byID m)\<rparr>)"
  using assms unfolding session_inv_def
  by (simp add: gm_get_put_fun keys_ok_update newest_ok_update latest_ok_update active_ok_update)

lemma inv_deactivate:
  assumes "session_inv m" and "gm_get (byID m) i = Some s" and "same_key t s" and "\<not> session_active t"
  shows "session_inv (m \<lparr>byID := gm_put i t (byID m),
      latestByClient := (if gm_get (latestByClient m) (Ses_ClientID s) = Some i
                         then gm_del (Ses_ClientID s) (latestByClient m) else latestByClient m)\<rparr>)"
  using assms unfolding session_inv_def
  by (simp add: gm_get_put_fun drop_latest_gm keys_ok_update newest_ok_update newest_ok_drop
      latest_ok_drop active_ok_drop del: if_split)

section \<open>Preservation\<close>

lemma wrap_gen: "0 \<le> n \<Longrightarrow> n < int64_max \<Longrightarrow> wrap64 (n + 1) = n + 1"
  by (rule wrap64_id) (auto simp: is_int64_def int64_min_def int64_max_def)

lemma same_key_simps [simp]:
  "same_key (s \<lparr>Ses_ClosedAt := a\<rparr>) s" "same_key (s \<lparr>Ses_ReplacedAt := a\<rparr>) s"
  "same_key (s \<lparr>Ses_LastHeartbeat := t, Ses_ConfigVersion := v, Ses_Stats := h\<rparr>) s"
  by (simp_all add: same_key_def)

lemma session_active_simps [simp]:
  "\<not> session_active (s \<lparr>Ses_ClosedAt := Some a\<rparr>)" "\<not> session_active (s \<lparr>Ses_ReplacedAt := Some a\<rparr>)"
  "session_active (s \<lparr>Ses_LastHeartbeat := t, Ses_ConfigVersion := v, Ses_Stats := h\<rparr>) = session_active s"
  by (simp_all add: session_active_def)

lemma Heartbeat_inv:
  assumes "session_inv m" and "manager_Heartbeat now m inp = Inr (s, m')"
  shows "session_inv m'"
  using assms by (auto simp: manager_Heartbeat_def Let_def split: option.splits if_splits intro: inv_update)

lemma Close_inv:
  assumes inv: "session_inv m" and c: "manager_Close now m i = Inr (s, l, m')"
  shows "session_inv m'"
proof -
  from c obtain t where t: "gm_get (byID m) i = Some t" by (auto simp: manager_Close_def split: option.splits)
  show ?thesis
  proof (cases "Ses_ReplacedAt t \<noteq> None")
    case True
    with c t inv show ?thesis by (auto simp: manager_Close_def)
  next
    case rep: False
    show ?thesis
    proof (cases "Ses_ClosedAt t")
      case None
      with c t rep inv_deactivate [OF inv t, of "t \<lparr>Ses_ClosedAt := Some now\<rparr>"] show ?thesis
        by (auto simp: manager_Close_def Let_def)
    next
      case (Some a)
      then have "\<not> session_active t" by (simp add: session_active_def)
      with inv t have "gm_get (latestByClient m) (Ses_ClientID t) \<noteq> Some i"
        unfolding session_inv_def by (auto dest: latest_okD)
      with c t rep Some inv show ?thesis by (auto simp: manager_Close_def Let_def)
    qed
  qed
qed

lemma expire_entry_inv:
  "session_inv m \<Longrightarrow> gm_get (byID m) i = Some s \<Longrightarrow> session_inv (expire_entry now i s m)"
  unfolding expire_entry_def by (rule inv_deactivate) auto

lemma expire_entry_others: "j \<noteq> i \<Longrightarrow> gm_get (byID (expire_entry now i s m)) j = gm_get (byID m) j"
  by (simp add: expire_entry_def)

lemma expire_loop_inv:
  assumes "session_inv m" and "\<forall>(i, s) \<in> set es. gm_get (byID m) i = Some s" and "distinct (map fst es)"
  shows "session_inv (snd (expire_loop now timeout es m))"
  using assms
proof (induction now timeout es m rule: expire_loop.induct)
  case (2 now timeout i s rest m)
  show ?case
  proof (cases "session_expired now timeout s")
    case False
    with 2 show ?thesis by simp
  next
    case True
    have "session_inv (expire_entry now i s m)" using 2(3,4) by (auto intro: expire_entry_inv)
    moreover have "\<forall>(j, u) \<in> set rest. gm_get (byID (expire_entry now i s m)) j = Some u"
    proof clarify
      fix j u assume "(j, u) \<in> set rest"
      with 2(4,5) have "j \<noteq> i" and "gm_get (byID m) j = Some u" by force+
      then show "gm_get (byID (expire_entry now i s m)) j = Some u" by (simp add: expire_entry_others)
    qed
    ultimately have "session_inv (snd (expire_loop now timeout rest (expire_entry now i s m)))"
      using True 2 by simp
    with True show ?thesis by (simp add: split_beta)
  qed
qed simp

lemma MarkExpired_inv: "session_inv m \<Longrightarrow> session_inv (snd (manager_MarkExpired now m timeout))"
  unfolding manager_MarkExpired_def
  by (rule expire_loop_inv) (auto simp: session_inv_def gm_get_in gm_wf_def)

section \<open>Registration\<close>

text \<open>
  The id of the new session must be unused, or belong to a session of the same client: the map of
  latest sessions of another client would otherwise point to the new session.
\<close>

definition id_usable :: "Manager \<Rightarrow> RegisterInput \<Rightarrow> bool" where
  "id_usable m inp \<longleftrightarrow>
     (case gm_get (byID m) (Reg_SessionID inp) of
        None \<Rightarrow> True
      | Some s \<Rightarrow> Ses_ClientID s = Reg_ClientID inp)"

definition replace_latest :: "time \<Rightarrow> sessions_view \<Rightarrow> latest_view \<Rightarrow> string \<Rightarrow> sessions_view" where
  "replace_latest now B L c =
     (case L c of None \<Rightarrow> B
      | Some i \<Rightarrow> (case B i of None \<Rightarrow> B | Some s \<Rightarrow> B(i \<mapsto> s \<lparr>Ses_ReplacedAt := Some now\<rparr>)))"

lemma Register_views:
  assumes inv: "session_inv m" and r: "manager_Register now m inp = Inr (s, old, m')"
  shows "s = new_session m now inp"
    and "gm_get (byID m') = (replace_latest now (gm_get (byID m)) (gm_get (latestByClient m)) (Reg_ClientID inp))
           (Reg_SessionID inp \<mapsto> s)"
    and "gm_get (latestByClient m') = (gm_get (latestByClient m))(Reg_ClientID inp \<mapsto> Reg_SessionID inp)"
    and "nextGeneration m' = wrap64 (nextGeneration m + 1)"
    and "old = map_option (\<lambda>p. p \<lparr>Ses_ReplacedAt := Some now\<rparr>) (manager_Latest m (Reg_ClientID inp))"
    and "gm_wf (byID m')" and "gm_wf (latestByClient m')" and "Reg_SessionID inp \<noteq> []"
proof -
  have ok: "latest_ok (gm_get (byID m)) (gm_get (latestByClient m))"
    and wf: "gm_wf (byID m)" "gm_wf (latestByClient m)"
    using inv by (simp_all add: session_inv_def)
  note facts = r [unfolded manager_Register_def Let_def]
  show "s = new_session m now inp" and "nextGeneration m' = wrap64 (nextGeneration m + 1)"
    and "gm_get (latestByClient m') = (gm_get (latestByClient m))(Reg_ClientID inp \<mapsto> Reg_SessionID inp)"
    and "gm_wf (byID m')" and "gm_wf (latestByClient m')" and "Reg_SessionID inp \<noteq> []"
    using facts wf
    by (auto simp: gm_get_put_fun new_session_def split: if_splits option.splits)
  show "gm_get (byID m') = (replace_latest now (gm_get (byID m)) (gm_get (latestByClient m)) (Reg_ClientID inp))
           (Reg_SessionID inp \<mapsto> s)"
    using facts latest_okE [OF ok, of "Reg_ClientID inp"]
    by (auto simp: gm_get_put_fun new_session_def replace_latest_def session_at_def
        split: if_splits option.splits)
  show "old = map_option (\<lambda>p. p \<lparr>Ses_ReplacedAt := Some now\<rparr>) (manager_Latest m (Reg_ClientID inp))"
    using facts by (auto simp: manager_Latest_def split: if_splits option.splits)
qed

lemma replace_latest_at:
  "replace_latest now B L c j =
     (if L c = Some j then map_option (\<lambda>s. s \<lparr>Ses_ReplacedAt := Some now\<rparr>) (B j) else B j)"
  by (auto simp: replace_latest_def split: option.splits)

definition registers :: "string \<Rightarrow> string \<Rightarrow> Session \<Rightarrow> int \<Rightarrow> bool" where
  "registers c k s n \<longleftrightarrow>
     Ses_ID s = k \<and> Ses_ClientID s = c \<and> Ses_Generation s = n + 1 \<and> session_active s \<and> k \<noteq> []"

lemma register_keys:
  assumes "keys_ok n B" and "registers c k s n"
  shows "keys_ok (n + 1) ((replace_latest now B L c)(k \<mapsto> s))"
  using assms unfolding keys_ok_def registers_def
  by (auto simp: replace_latest_at split: if_splits) (metis add.commute zle_add1_eq_le order_less_le)+

lemma register_latest:
  assumes ok: "latest_ok B L" and s: "registers c k s n" and usable: "\<And>u. B k = Some u \<Longrightarrow> Ses_ClientID u = c"
  shows "latest_ok ((replace_latest now B L c)(k \<mapsto> s)) (L(c \<mapsto> k))"
  unfolding latest_ok_def
proof (intro allI impI)
  fix c' j assume l: "(L(c \<mapsto> k)) c' = Some j"
  show "\<exists>u. ((replace_latest now B L c)(k \<mapsto> s)) j = Some u \<and> Ses_ClientID u = c' \<and> session_active u"
  proof (cases "c' = c")
    case True
    with l s show ?thesis by (auto simp: registers_def)
  next
    case False
    with l have "L c' = Some j" by simp
    from latest_okE [OF ok this] obtain u where u: "B j = Some u" "Ses_ClientID u = c'" "session_active u" by blast
    with usable False have "j \<noteq> k" by auto
    moreover have "L c \<noteq> Some j" using latest_okD [OF ok _ u(1), of c] u(2) False by auto
    ultimately show ?thesis using u by (simp add: replace_latest_at)
  qed
qed

lemma register_active:
  assumes act: "active_ok B L" and s: "registers c k s n"
  shows "active_ok ((replace_latest now B L c)(k \<mapsto> s)) (L(c \<mapsto> k))"
  unfolding active_ok_def
proof (intro allI impI)
  fix j u assume u: "((replace_latest now B L c)(k \<mapsto> s)) j = Some u" "session_active u"
  show "(L(c \<mapsto> k)) (Ses_ClientID u) = Some j"
  proof (cases "j = k")
    case True
    with u s show ?thesis by (auto simp: registers_def)
  next
    case False
    with u have b: "B j = Some u" "L c \<noteq> Some j"
      by (auto simp: replace_latest_at split: if_splits)
    with u act have l: "L (Ses_ClientID u) = Some j" by (auto simp: active_ok_def)
    with b have "Ses_ClientID u \<noteq> c" by auto
    with l show ?thesis by simp
  qed
qed

lemma replaced_same: "replace_latest now B L c j = Some u \<Longrightarrow> \<exists>v. B j = Some v \<and> same_key u v"
  by (auto simp: replace_latest_at same_key_def split: if_splits)

lemma register_newest:
  assumes new: "newest_ok B L" and ok: "latest_ok B L" and keys: "keys_ok n B" and s: "registers c k s n"
    and usable: "\<And>u. B k = Some u \<Longrightarrow> Ses_ClientID u = c"
  shows "newest_ok ((replace_latest now B L c)(k \<mapsto> s)) (L(c \<mapsto> k))"
  unfolding newest_ok_def
proof (intro allI impI)
  fix c' j u j' u'
  assume l: "(L(c \<mapsto> k)) c' = Some j" and u: "((replace_latest now B L c)(k \<mapsto> s)) j = Some u"
    and u': "((replace_latest now B L c)(k \<mapsto> s)) j' = Some u'" and cl: "Ses_ClientID u' = c'"
  have gen: "Ses_Generation u' \<le> n" if "j' \<noteq> k"
    using that u' keys replaced_same [of now B L c j' u'] by (fastforce simp: keys_ok_def same_key_def)
  show "Ses_Generation u' \<le> Ses_Generation u"
  proof (cases "c' = c")
    case True
    with l u have "u = s" by auto
    with gen u' s show ?thesis by (cases "j' = k") (auto simp: registers_def)
  next
    case False
    with l have l': "L c' = Some j" by simp
    from latest_okE [OF ok this] usable False have jk: "j \<noteq> k" by auto
    from u' cl False s have "j' \<noteq> k" by (auto simp: registers_def)
    with u u' jk obtain v v' where "B j = Some v" "same_key u v" "B j' = Some v'" "same_key u' v'"
      using replaced_same by (metis fun_upd_other)
    with new l' cl show ?thesis unfolding newest_ok_def same_key_def by metis
  qed
qed

lemma Register_inv:
  assumes inv: "session_inv m" and r: "manager_Register now m inp = Inr (s, old, m')"
    and us: "id_usable m inp" and gen: "nextGeneration m < int64_max"
  shows "session_inv m'"
proof -
  note v = Register_views [OF inv r]
  have n: "nextGeneration m' = nextGeneration m + 1" using v(4) inv gen by (simp add: session_inv_def wrap_gen)
  have "Ses_Generation s = wrap64 (nextGeneration m + 1)" using v(1) by (simp add: new_session_def)
  then have reg: "registers (Reg_ClientID inp) (Reg_SessionID inp) s (nextGeneration m)"
    using v(1,4,8) n by (simp add: registers_def new_session_def session_active_def)
  have usable: "\<And>u. gm_get (byID m) (Reg_SessionID inp) = Some u \<Longrightarrow> Ses_ClientID u = Reg_ClientID inp"
    using us by (simp add: id_usable_def)
  show ?thesis
    using inv gen reg usable unfolding session_inv_def v(2,3) n
    by (auto simp: v(6,7) intro: register_keys register_latest register_active register_newest)
qed

section \<open>The abstract view: the active session of every client\<close>

lemma Register_view:
  assumes inv: "session_inv m" and r: "manager_Register now m inp = Inr (s, old, m')"
    and us: "id_usable m inp"
  shows "manager_Latest m' = (manager_Latest m)(Reg_ClientID inp \<mapsto> s)"
proof
  fix c
  note v = Register_views [OF inv r]
  have ok: "latest_ok (gm_get (byID m)) (gm_get (latestByClient m))" using inv by (simp add: session_inv_def)
  show "manager_Latest m' c = ((manager_Latest m)(Reg_ClientID inp \<mapsto> s)) c"
  proof (cases "c = Reg_ClientID inp")
    case True
    then show ?thesis by (simp add: manager_Latest_def v(2,3) session_at_def)
  next
    case False
    show ?thesis
    proof (cases "gm_get (latestByClient m) c")
      case None
      with False show ?thesis by (simp add: manager_Latest_def v(3))
    next
      case (Some j)
      from latest_okE [OF ok this] obtain u where u: "gm_get (byID m) j = Some u" "Ses_ClientID u = c" by blast
      with us False have "j \<noteq> Reg_SessionID inp" by (auto simp: id_usable_def)
      moreover have "gm_get (latestByClient m) (Reg_ClientID inp) \<noteq> Some j"
        using latest_okD [OF ok _ u(1)] u(2) False by auto
      ultimately show ?thesis using False Some u
        by (simp add: manager_Latest_def v(2,3) session_at_def replace_latest_at)
    qed
  qed
qed

lemma Heartbeat_view:
  assumes inv: "session_inv m" and h: "manager_Heartbeat now m inp = Inr (s, m')"
  shows "manager_Latest m' = (manager_Latest m)(Ses_ClientID s \<mapsto> s)" and "manager_Latest m (Ses_ClientID s) \<noteq> None"
    and "Ses_ID s = HbIn_SessionID inp"
proof -
  from h obtain u where u: "gm_get (byID m) (HbIn_SessionID inp) = Some u" "session_active u"
    and s: "s = u \<lparr>Ses_LastHeartbeat := now, Ses_ConfigVersion := HbIn_ConfigVersion inp, Ses_Stats := HbIn_Stats inp\<rparr>"
    and m': "m' = m \<lparr>byID := gm_put (HbIn_SessionID inp) s (byID m)\<rparr>"
    by (auto simp: manager_Heartbeat_def Let_def session_active_def split: option.splits if_splits)
  from inv u(1) show id: "Ses_ID s = HbIn_SessionID inp" by (simp add: s session_inv_def keys_ok_def)
  from inv u have l: "gm_get (latestByClient m) (Ses_ClientID s) = Some (HbIn_SessionID inp)"
    by (auto simp: s session_inv_def active_ok_def)
  then show "manager_Latest m (Ses_ClientID s) \<noteq> None" by (simp add: manager_Latest_def)
  have "gm_get (latestByClient m) c \<noteq> Some (HbIn_SessionID inp)" if "c \<noteq> Ses_ClientID s" for c
    using that inv u(1) by (auto simp: s session_inv_def dest: latest_okD)
  with l show "manager_Latest m' = (manager_Latest m)(Ses_ClientID s \<mapsto> s)"
    by (auto simp: fun_eq_iff m' manager_Latest_def session_at_def split: option.splits)
qed

lemma Close_view:
  assumes inv: "session_inv m" and c: "manager_Close now m i = Inr (s, l, m')"
  shows "l \<longleftrightarrow> (\<exists>t. manager_Latest m (Ses_ClientID s) = Some t \<and> Ses_ID t = i)"
    and "manager_Latest m' = (if l then (manager_Latest m)(Ses_ClientID s := None) else manager_Latest m)"
    and "Ses_ID s = i"
proof -
  from c obtain u where u: "gm_get (byID m) i = Some u" by (auto simp: manager_Close_def split: option.splits)
  with inv have iu: "Ses_ID u = i" by (simp add: session_inv_def keys_ok_def)
  have same: "same_key s u" using c u by (auto simp: manager_Close_def Let_def same_key_def split: if_splits)
  with iu show id: "Ses_ID s = i" by (simp add: same_key_def)
  have inv': "session_inv m'" by (rule Close_inv [OF inv c])
  have "(l \<longleftrightarrow> (\<exists>t. manager_Latest m (Ses_ClientID s) = Some t \<and> Ses_ID t = i)) \<and>
      manager_Latest m' = (if l then (manager_Latest m)(Ses_ClientID s := None) else manager_Latest m)"
  proof (cases "session_active u")
    case True
    with inv u have lat: "gm_get (latestByClient m) (Ses_ClientID u) = Some i"
      unfolding session_inv_def active_ok_def by blast
    with True c u have l: "l" and cl: "Ses_ClientID s = Ses_ClientID u"
      and m': "m' = m \<lparr>byID := gm_put i (u \<lparr>Ses_ClosedAt := Some now\<rparr>) (byID m),
                       latestByClient := gm_del (Ses_ClientID u) (latestByClient m)\<rparr>"
      by (auto simp: manager_Close_def Let_def session_active_def)
    have "gm_get (latestByClient m) c' \<noteq> Some i" if "c' \<noteq> Ses_ClientID u" for c'
      using that inv u by (auto simp: session_inv_def dest: latest_okD)
    then show ?thesis using l cl lat u iu
      by (auto simp: fun_eq_iff m' manager_Latest_def session_at_def split: option.splits)
  next
    case False
    with inv u have nl: "gm_get (latestByClient m) c' \<noteq> Some i" for c'
      unfolding session_inv_def by (auto dest: latest_okD)
    from False c u nl have "\<not> l" and "m' = m"
      by (auto simp: manager_Close_def Let_def session_active_def split: if_splits)
    moreover have "\<not> (\<exists>t. manager_Latest m (Ses_ClientID s) = Some t \<and> Ses_ID t = i)"
      using Latest_iff [OF inv] u False by auto
    ultimately show ?thesis by simp
  qed
  then show "l \<longleftrightarrow> (\<exists>t. manager_Latest m (Ses_ClientID s) = Some t \<and> Ses_ID t = i)"
    and "manager_Latest m' = (if l then (manager_Latest m)(Ses_ClientID s := None) else manager_Latest m)" by blast+
qed

lemma expire_loop_byID:
  assumes "distinct (map fst es)"
  shows "gm_get (byID (snd (expire_loop now timeout es m))) j =
    (case map_of es j of
       Some s \<Rightarrow> if session_expired now timeout s then Some (s \<lparr>Ses_ClosedAt := Some now\<rparr>) else gm_get (byID m) j
     | None \<Rightarrow> gm_get (byID m) j)"
  using assms
proof (induction now timeout es m rule: expire_loop.induct)
  case (2 now timeout i s rest m)
  then have "map_of rest i = None" by (auto simp: map_of_eq_None_iff)
  with 2 show ?case by (auto simp: split_beta expire_entry_def split: option.splits)
qed simp

lemma expire_loop_expired:
  "fst (expire_loop now timeout es m) =
     map (\<lambda>s. s \<lparr>Ses_ClosedAt := Some now\<rparr>) (filter (session_expired now timeout) (map snd es))"
  by (induction now timeout es m rule: expire_loop.induct) (auto simp: split_beta)

lemma MarkExpired_byID:
  assumes "session_inv m"
  shows "gm_get (byID (snd (manager_MarkExpired now m timeout))) j =
     map_option (\<lambda>s. if session_expired now timeout s then s \<lparr>Ses_ClosedAt := Some now\<rparr> else s) (gm_get (byID m) j)"
proof -
  have "distinct (map fst (byID m))" using assms by (simp add: session_inv_def gm_wf_def)
  from expire_loop_byID [OF this, of now timeout m j] show ?thesis
    unfolding manager_MarkExpired_def gm_get_def [of "byID m"] by (simp split: option.splits)
qed

lemma option_eq_by_Some: "(\<And>s. a = Some s \<longleftrightarrow> b = Some s) \<Longrightarrow> a = b"
  by (cases a) (auto, metis not_Some_eq)

lemma MarkExpired_view:
  assumes inv: "session_inv m"
  shows "manager_Latest (snd (manager_MarkExpired now m timeout)) c =
    (case manager_Latest m c of None \<Rightarrow> None
     | Some s \<Rightarrow> if session_expired now timeout s then None else Some s)"
proof (rule option_eq_by_Some)
  let ?m = "snd (manager_MarkExpired now m timeout)"
  have inv': "session_inv ?m" by (rule MarkExpired_inv [OF inv])
  fix s
  have "manager_Latest ?m c = Some s \<longleftrightarrow>
      gm_get (byID m) (Ses_ID s) = Some s \<and> \<not> session_expired now timeout s \<and> Ses_ClientID s = c \<and> session_active s"
    unfolding Latest_iff [OF inv'] MarkExpired_byID [OF inv] by auto (metis session_active_simps(1))
  also have "\<dots> \<longleftrightarrow> manager_Latest m c = Some s \<and> \<not> session_expired now timeout s"
    unfolding Latest_iff [OF inv] by blast
  also have "\<dots> \<longleftrightarrow> (case manager_Latest m c of None \<Rightarrow> None
     | Some s \<Rightarrow> if session_expired now timeout s then None else Some s) = Some s"
    by (auto split: option.splits)
  finally show "manager_Latest ?m c = Some s \<longleftrightarrow> (case manager_Latest m c of None \<Rightarrow> None
     | Some s \<Rightarrow> if session_expired now timeout s then None else Some s) = Some s" .
qed

section \<open>Reachable managers\<close>

inductive session_step :: "Manager \<Rightarrow> Manager \<Rightarrow> bool" where
  step_Register: "manager_Register now m inp = Inr (s, old, m') \<Longrightarrow> id_usable m inp \<Longrightarrow>
     nextGeneration m < int64_max \<Longrightarrow> session_step m m'"
| step_Heartbeat: "manager_Heartbeat now m inp' = Inr (s, m') \<Longrightarrow> session_step m m'"
| step_Close: "manager_Close now m i = Inr (s, l, m') \<Longrightarrow> session_step m m'"
| step_MarkExpired: "manager_MarkExpired now m timeout = (ss, m') \<Longrightarrow> session_step m m'"

inductive session_reachable :: "Manager \<Rightarrow> bool" where
  reach_New: "session_reachable NewManager"
| reach_step: "session_reachable m \<Longrightarrow> session_step m m' \<Longrightarrow> session_reachable m'"

inductive_cases session_stepE: "session_step m m'"

lemma session_step_inv: "session_step m m' \<Longrightarrow> session_inv m \<Longrightarrow> session_inv m'"
proof (induction rule: session_step.induct)
  case (step_MarkExpired now m timeout ss m')
  then show ?case using MarkExpired_inv [of m now timeout] by simp
qed (auto intro: Register_inv Heartbeat_inv Close_inv)

lemma session_reachable_inv: "session_reachable m \<Longrightarrow> session_inv m"
  by (induction rule: session_reachable.induct) (auto intro: session_step_inv)

section \<open>The interface SessionRegistry\<close>

text \<open>
  What the callers of SessionRegistry (internal/session/ports.go) rely on, over an abstract view
  of the registry: the active session of every client.
\<close>

locale session_registry =
  fixes inv :: "'st \<Rightarrow> bool"
    and usable :: "'st \<Rightarrow> RegisterInput \<Rightarrow> bool"
    and register :: "time \<Rightarrow> 'st \<Rightarrow> RegisterInput \<Rightarrow> (Session \<times> Session option \<times> 'st) result"
    and close_session :: "time \<Rightarrow> 'st \<Rightarrow> string \<Rightarrow> (Session \<times> bool \<times> 'st) result"
    and latest :: "'st \<Rightarrow> string \<Rightarrow> Session option"
  assumes register_inv: "inv st \<Longrightarrow> usable st i \<Longrightarrow> register t st i = Inr (s, old, st') \<Longrightarrow> inv st'"
    and register_session: "inv st \<Longrightarrow> register t st i = Inr (s, old, st') \<Longrightarrow>
          Ses_ID s = Reg_SessionID i \<and> Ses_ClientID s = Reg_ClientID i"
    and register_latest: "inv st \<Longrightarrow> usable st i \<Longrightarrow> register t st i = Inr (s, old, st') \<Longrightarrow>
          latest st' = (latest st)(Reg_ClientID i \<mapsto> s)"
    and close_inv: "inv st \<Longrightarrow> close_session t st k = Inr (s, l, st') \<Longrightarrow> inv st'"
    and close_id: "inv st \<Longrightarrow> close_session t st k = Inr (s, l, st') \<Longrightarrow> Ses_ID s = k"
    and close_latest: "inv st \<Longrightarrow> close_session t st k = Inr (s, l, st') \<Longrightarrow>
          (l \<longleftrightarrow> (\<exists>u. latest st (Ses_ClientID s) = Some u \<and> Ses_ID u = k)) \<and>
          latest st' = (if l then (latest st)(Ses_ClientID s := None) else latest st)"
    and close_known: "inv st \<Longrightarrow> latest st c = Some u \<Longrightarrow>
          \<exists>s st'. close_session t st (Ses_ID u) = Inr (s, True, st') \<and> Ses_ClientID s = c"
    and close_latest_id: "inv st \<Longrightarrow> latest st c = Some u \<Longrightarrow> Ses_ClientID u = c"
begin

text \<open>The late close of a connection that a reconnect has replaced leaves the new session alone.\<close>

lemma stale_close:
  assumes "inv st" and "usable st i" and r: "register t st i = Inr (s, old, st1)"
    and c: "close_session t' st1 k = Inr (u, l, st2)" and "k \<noteq> Reg_SessionID i"
  shows "latest st2 (Reg_ClientID i) = Some s"
proof -
  have inv1: "inv st1" using assms register_inv by blast
  have l1: "latest st1 (Reg_ClientID i) = Some s" using assms register_latest by simp
  show ?thesis
  proof (cases "l \<and> Ses_ClientID u = Reg_ClientID i")
    case True
    with close_latest [OF inv1 c] l1 have "Ses_ID s = k" by auto
    with register_session [OF assms(1) r] assms(5) show ?thesis by simp
  next
    case False
    with close_latest [OF inv1 c] l1 show ?thesis by auto
  qed
qed

text \<open>A session that is registered and closed again leaves the client without a session.\<close>

lemma register_close:
  assumes "inv st" and "usable st i" and r: "register t st i = Inr (s, old, st1)"
  shows "\<exists>u st2. close_session t' st1 (Reg_SessionID i) = Inr (u, True, st2) \<and>
     latest st2 = (latest st)(Reg_ClientID i := None)"
proof -
  have inv1: "inv st1" using assms register_inv by blast
  have l1: "latest st1 = (latest st)(Reg_ClientID i \<mapsto> s)" using assms register_latest by simp
  have id: "Ses_ID s = Reg_SessionID i" using register_session [OF assms(1) r] by simp
  from close_known [OF inv1, of "Reg_ClientID i" s t'] l1 id obtain u st2
    where u: "close_session t' st1 (Reg_SessionID i) = Inr (u, True, st2)" "Ses_ClientID u = Reg_ClientID i" by auto
  with close_latest [OF inv1 u(1)] l1 show ?thesis by (auto simp: fun_upd_idem_iff)
qed

end

definition register_usable :: "Manager \<Rightarrow> RegisterInput \<Rightarrow> bool" where
  "register_usable m i \<longleftrightarrow> id_usable m i \<and> nextGeneration m < int64_max"

lemma Close_known:
  assumes inv: "session_inv m" and l: "manager_Latest m c = Some u"
  shows "\<exists>s m'. manager_Close t m (Ses_ID u) = Inr (s, True, m') \<and> Ses_ClientID s = c"
proof -
  from l have u: "gm_get (byID m) (Ses_ID u) = Some u" "Ses_ClientID u = c" "session_active u"
    by (simp_all add: Latest_iff [OF inv])
  with inv have "gm_get (latestByClient m) c = Some (Ses_ID u)" unfolding session_inv_def active_ok_def by blast
  with u show ?thesis by (auto simp: manager_Close_def Let_def session_active_def)
qed

interpretation mgr: session_registry session_inv register_usable manager_Register manager_Close manager_Latest
proof unfold_locales
  fix st i t s old st' assume a: "session_inv st" "register_usable st i" "manager_Register t st i = Inr (s, old, st')"
  then show "session_inv st'" by (auto simp: register_usable_def intro: Register_inv)
  from a show "manager_Latest st' = (manager_Latest st)(Reg_ClientID i \<mapsto> s)"
    by (auto simp: register_usable_def intro!: Register_view)
next
  fix st i t s old st' assume "session_inv st" "manager_Register t st i = Inr (s, old, st')"
  from Register_views(1) [OF this] show "Ses_ID s = Reg_SessionID i \<and> Ses_ClientID s = Reg_ClientID i"
    by (simp add: new_session_def)
next
  fix st t k s l st' assume a: "session_inv st" "manager_Close t st k = Inr (s, l, st')"
  from Close_inv [OF a] show "session_inv st'" .
  from Close_view(3) [OF a] show "Ses_ID s = k" .
  from Close_view(1,2) [OF a]
  show "(l \<longleftrightarrow> (\<exists>u. manager_Latest st (Ses_ClientID s) = Some u \<and> Ses_ID u = k)) \<and>
     manager_Latest st' = (if l then (manager_Latest st)(Ses_ClientID s := None) else manager_Latest st)" by blast
next
  fix st c u t assume a: "session_inv st" "manager_Latest st c = Some u"
  from Close_known [OF a] show "\<exists>s st'. manager_Close t st (Ses_ID u) = Inr (s, True, st') \<and> Ses_ClientID s = c" .
  from a show "Ses_ClientID u = c" by (simp add: Latest_iff)
qed

section \<open>Properties\<close>


definition sample_input :: "string \<Rightarrow> RegisterInput" where
  "sample_input i = \<lparr>Reg_SessionID = i, Reg_ClientID = ''c1'', Reg_UserID = ''u1'', Reg_ClientKind = [],
     Reg_Protocol = ProtocolQUIC, Reg_ConfigVersion = 0, Reg_StreamOpener = None, Reg_Persistent = False\<rparr>"

definition registered :: "time \<Rightarrow> Manager \<Rightarrow> string \<Rightarrow> Manager" where
  "registered now m i = (case manager_Register now m (sample_input i) of Inr (s, old, m') \<Rightarrow> m' | Inl e \<Rightarrow> m)"

definition manager1 :: Manager where "manager1 = registered 5 NewManager ''s1''"
definition manager2 :: Manager where "manager2 = registered 9 manager1 ''s2''"
definition session2 :: Session where "session2 = new_session manager1 9 (sample_input ''s2'')"

lemma register1: "manager_Register 5 NewManager (sample_input ''s1'') =
    Inr (new_session NewManager 5 (sample_input ''s1''), None, manager1)"
  by code_simp

lemma register2: "manager_Register 9 manager1 (sample_input ''s2'') =
    Inr (session2, Some ((new_session NewManager 5 (sample_input ''s1'')) \<lparr>Ses_ReplacedAt := Some 9\<rparr>), manager2)"
  by code_simp

lemma usable1: "register_usable NewManager (sample_input ''s1'')" and usable2: "register_usable manager1 (sample_input ''s2'')"
  by code_simp+

lemma reachable1: "session_reachable manager1"
  using usable1 by (auto simp: register_usable_def intro: reach_step [OF reach_New] step_Register [OF register1])

lemma reachable2: "session_reachable manager2"
  using usable2 by (auto simp: register_usable_def intro: reach_step [OF reachable1] step_Register [OF register2])




text \<open>
  A connection that a reconnect of the same client has displaced cannot take the new session
  away: closing any other session id after the registration, whatever the outcome says, leaves
  the client with the newly registered session.
\<close>

lemma late_close_keeps_new_session:
  assumes "session_reachable m" and "register_usable m inp"
    and "manager_Register now m inp = Inr (s, old, m1)"
    and "manager_Close now' m1 k = Inr (u, l, m2)" and "k \<noteq> Reg_SessionID inp"
  shows "manager_Latest m2 (Reg_ClientID inp) = Some s"
  using mgr.stale_close [OF session_reachable_inv [OF assms(1)] assms(2-5)] .

lemma late_close_keeps_new_session_witness:
  "case manager_Close 12 manager2 ''s1'' of
     Inr (u, l, m) \<Rightarrow> \<not> l \<and> manager_Latest m ''c1'' = Some session2
   | Inl e \<Rightarrow> False"
proof -
  obtain u m where c: "manager_Close 12 manager2 ''s1'' = Inr (u, False, m)"
  proof
    show "manager_Close 12 manager2 ''s1'' =
      Inr ((new_session NewManager 5 (sample_input ''s1'')) \<lparr>Ses_ReplacedAt := Some 9\<rparr>, False, manager2)"
      by code_simp
  qed
  have "manager_Latest m (Reg_ClientID (sample_input ''s2'')) = Some session2"
    by (rule late_close_keeps_new_session [OF reachable1 usable2 register2 c]) (simp add: sample_input_def)
  with c show ?thesis by (simp add: sample_input_def)
qed

text \<open>
  Session ids must not be reused across clients: registering one that another client's session has
  makes Latest return a session of the wrong client.
\<close>

lemma reused_id_breaks_latest:
  "case manager_Register 9 manager1 ((sample_input ''s1'') \<lparr>Reg_ClientID := ''c2''\<rparr>) of
     Inr (s, old, m) \<Rightarrow> map_option Ses_ClientID (manager_Latest m ''c1'') = Some ''c2''
   | Inl e \<Rightarrow> False"
  by code_simp

end
