(* ===== verification/Tables.thy ===== *)
theory Tables
  imports Listener "HOL-Library.List_Lexorder" "HOL-Library.Char_ord" "HOL-Library.Product_Lexorder"
begin

text \<open>
  The tables of internal/store/sqlite and the few SQL statements the repositories use. A table is
  the list of its rows in insertion order. A statement that violates a primary key, a unique index,
  a check or a foreign key fails without an effect; its error is the one translateError builds.
  Foreign keys are on, and a deleted row takes the rows that reference it with it. Values of
  timestamp columns compare as times.
\<close>

abbreviation ErrNotFound :: error where "ErrNotFound \<equiv> Sentinel ''not found''"
abbreviation ErrAlreadyExists :: error where "ErrAlreadyExists \<equiv> Sentinel ''already exists''"
abbreviation ErrConflict :: error where "ErrConflict \<equiv> Sentinel ''conflict''"

text \<open>What the driver reports: no row, or a message.\<close>

datatype sql_error = ErrNoRows | DriverError string

definition translateError :: "sql_error \<Rightarrow> error" where
  "translateError err =
     (case err of
        ErrNoRows \<Rightarrow> ErrNotFound
      | DriverError text \<Rightarrow>
          (let message = to_lower text in
           if contains_sub message ''constraint failed'' \<or> contains_sub message ''unique constraint''
           then Wrapf text ErrAlreadyExists
           else New text))"

definition constraint_error :: error where
  "constraint_error = translateError (DriverError ''constraint failed'')"

record AllowlistEntry =
  Allow_CIDR :: string
  Allow_PortStart :: int
  Allow_PortEnd :: int

record StoreProxyStats =
  SS_ProxyID :: string
  SS_TCPConnections :: int
  SS_TCPUploadBytes :: int
  SS_TCPDownloadBytes :: int
  SS_TCPErrors :: int
  SS_UDPPackets :: int
  SS_UDPUploadBytes :: int
  SS_UDPDownloadBytes :: int
  SS_UDPErrors :: int
  SS_HTTPRequests :: int
  SS_HTTPUploadBytes :: int
  SS_HTTPDownloadBytes :: int
  SS_HTTPErrors :: int
  SS_HTTPStatusCodes :: "(int, int) gomap"

record DB =
  db_users :: "User list"
  db_clients :: "Client list"
  db_enrollments :: "ClientEnrollment list"
  db_domains :: "Domain list"
  db_domain_entries :: "DomainEntry list"
  db_proxies :: "Proxy list"
  db_tokens :: "ProxyActivationToken list"
  db_credentials :: "ProxyAccessCredential list"
  db_certificates :: "ManagedCertificate list"
  db_provider_credentials :: "ProviderCredential list"
  db_audit_events :: "AuditEvent list"
  db_stats :: "StoreProxyStats list"
  db_allowlist :: "AllowlistEntry list"

definition emptyDB :: DB where
  "emptyDB = \<lparr>db_users = [], db_clients = [], db_enrollments = [], db_domains = [], db_domain_entries = [],
     db_proxies = [], db_tokens = [], db_credentials = [], db_certificates = [],
     db_provider_credentials = [], db_audit_events = [], db_stats = [], db_allowlist = []\<rparr>"

section \<open>Statements\<close>

text \<open>\<open>select ... where P\<close> for one row: QueryRow takes the first, and no row is ErrNotFound.\<close>

definition sql_one :: "('r \<Rightarrow> bool) \<Rightarrow> 'r list \<Rightarrow> 'r result" where
  "sql_one P rows = (case find P rows of Some r \<Rightarrow> Inr r | None \<Rightarrow> Inl ErrNotFound)"

definition sql_list :: "('r \<Rightarrow> bool) \<Rightarrow> ('r \<Rightarrow> 'k::linorder) \<Rightarrow> 'r list \<Rightarrow> 'r list" where
  "sql_list P key rows = sort_key key (filter P rows)"

text \<open>\<open>order by key desc limit 1\<close>\<close>

definition sql_last :: "('r \<Rightarrow> bool) \<Rightarrow> ('r \<Rightarrow> 'k::linorder) \<Rightarrow> 'r list \<Rightarrow> 'r result" where
  "sql_last P key rows =
     (case rev (sql_list P key rows) of r # _ \<Rightarrow> Inr r | [] \<Rightarrow> Inl ErrNotFound)"

definition sql_update :: "('r \<Rightarrow> bool) \<Rightarrow> ('r \<Rightarrow> 'r) \<Rightarrow> 'r list \<Rightarrow> 'r list" where
  "sql_update P f rows = map (\<lambda>r. if P r then f r else r) rows"

definition sql_delete :: "('r \<Rightarrow> bool) \<Rightarrow> 'r list \<Rightarrow> 'r list" where
  "sql_delete P rows = filter (\<lambda>r. \<not> P r) rows"

definition sql_affected :: "('r \<Rightarrow> bool) \<Rightarrow> 'r list \<Rightarrow> int" where
  "sql_affected P rows = int (length (filter P rows))"

definition sql_exists :: "('r \<Rightarrow> bool) \<Rightarrow> 'r list \<Rightarrow> bool" where
  "sql_exists P rows = list_ex P rows"

text \<open>resultError: no row affected is ErrNotFound.\<close>

definition resultError :: "int \<Rightarrow> unit result" where
  "resultError count = (if count = 0 then Inl ErrNotFound else Inr ())"

text \<open>An insert or update that keeps the constraints \<open>ok\<close>, or the translated error.\<close>

definition sql_checked :: "bool \<Rightarrow> ('s \<Rightarrow> 's) \<Rightarrow> ('s, unit) op" where
  "sql_checked ok f s = (if ok then (Inr (), f s) else (Inl constraint_error, s))"

lemma sql_one_Inr: "sql_one P rows = Inr r \<Longrightarrow> r \<in> set rows \<and> P r"
  by (auto simp: sql_one_def find_Some_iff in_set_conv_nth split: option.splits)

lemma find_SomeD: "find P xs = Some x \<Longrightarrow> x \<in> set xs \<and> P x"
  by (auto simp: find_Some_iff in_set_conv_nth)

lemma sql_one_Inl: "sql_one P rows = Inl e \<longleftrightarrow> e = ErrNotFound \<and> (\<forall>r \<in> set rows. \<not> P r)"
  by (auto simp: sql_one_def find_None_iff split: option.splits dest: find_SomeD)

lemma set_sql_list [simp]: "set (sql_list P key rows) = {r \<in> set rows. P r}"
  by (auto simp: sql_list_def)

lemma sql_exists_iff: "sql_exists P rows \<longleftrightarrow> (\<exists>r \<in> set rows. P r)"
  by (auto simp: sql_exists_def list_ex_iff)

lemma sql_affected_0: "sql_affected P rows = 0 \<longleftrightarrow> (\<forall>r \<in> set rows. \<not> P r)"
  by (auto simp: sql_affected_def filter_empty_conv)

lemma set_sql_update: "set (sql_update P f rows) = f ` {r \<in> set rows. P r} \<union> {r \<in> set rows. \<not> P r}"
  by (auto simp: sql_update_def image_iff)

lemma set_sql_delete [simp]: "set (sql_delete P rows) = {r \<in> set rows. \<not> P r}"
  by (auto simp: sql_delete_def)

lemma sql_last_Inr:
  assumes "sql_last P key rows = Inr r"
  shows "r \<in> set rows \<and> P r \<and> (\<forall>q \<in> set rows. P q \<longrightarrow> key q \<le> key r)"
proof -
  let ?l = "sql_list P key rows"
  from assms have "rev ?l \<noteq> []" and r: "r = hd (rev ?l)" by (auto simp: sql_last_def split: list.splits)
  then obtain xs where l: "?l = xs @ [r]" by (metis append_butlast_last_id hd_rev rev.simps(1))
  have "sorted (map key ?l)" by (simp add: sql_list_def)
  then have "\<forall>q \<in> set ?l. key q \<le> key r" unfolding l by (auto simp: sorted_append)
  moreover have "r \<in> set ?l" unfolding l by simp
  ultimately show ?thesis by auto
qed

section \<open>Cascades of the foreign keys\<close>

definition drop_proxies :: "(Proxy \<Rightarrow> bool) \<Rightarrow> DB \<Rightarrow> DB" where
  "drop_proxies P db =
     (let gone = map Proxy_ID (filter P (db_proxies db)) in
      db \<lparr>db_proxies := sql_delete P (db_proxies db),
          db_tokens := sql_delete (\<lambda>t. Tok_ProxyID t \<in> set gone) (db_tokens db),
          db_credentials := sql_delete (\<lambda>c. Cred_ProxyID c \<in> set gone) (db_credentials db),
          db_stats := sql_delete (\<lambda>s. SS_ProxyID s \<in> set gone) (db_stats db)\<rparr>)"

definition drop_clients :: "(Client \<Rightarrow> bool) \<Rightarrow> DB \<Rightarrow> DB" where
  "drop_clients P db =
     (let gone = map Client_ID (filter P (db_clients db)) in
      drop_proxies (\<lambda>p. Proxy_ClientID p \<in> set gone)
        (db \<lparr>db_clients := sql_delete P (db_clients db),
             db_enrollments := sql_delete (\<lambda>e. Enr_ClientID e \<in> set gone) (db_enrollments db)\<rparr>))"

definition drop_domains :: "(Domain \<Rightarrow> bool) \<Rightarrow> DB \<Rightarrow> DB" where
  "drop_domains P db =
     (let gone = map Dom_ID (filter P (db_domains db)) in
      db \<lparr>db_domains := sql_delete P (db_domains db),
          db_domain_entries := sql_delete (\<lambda>e. DEnt_DomainID e \<in> set gone) (db_domain_entries db)\<rparr>)"

definition drop_users :: "(User \<Rightarrow> bool) \<Rightarrow> DB \<Rightarrow> DB" where
  "drop_users P db =
     (let gone = map User_ID (filter P (db_users db)) in
      drop_domains (\<lambda>d. Dom_UserID d \<in> set gone)
        (drop_proxies (\<lambda>p. Proxy_UserID p \<in> set gone)
          (drop_clients (\<lambda>c. Client_UserID c \<in> set gone)
            (db \<lparr>db_users := sql_delete P (db_users db)\<rparr>))))"

section \<open>Integrity\<close>

text \<open>What the primary keys, unique indexes and foreign keys guarantee of every database.\<close>

definition has_user :: "DB \<Rightarrow> string \<Rightarrow> bool" where
  "has_user db i = sql_exists (\<lambda>u. User_ID u = i) (db_users db)"

definition has_client :: "DB \<Rightarrow> string \<Rightarrow> bool" where
  "has_client db i = sql_exists (\<lambda>c. Client_ID c = i) (db_clients db)"

definition has_proxy :: "DB \<Rightarrow> string \<Rightarrow> bool" where
  "has_proxy db i = sql_exists (\<lambda>p. Proxy_ID p = i) (db_proxies db)"

definition has_domain :: "DB \<Rightarrow> string \<Rightarrow> bool" where
  "has_domain db i = sql_exists (\<lambda>d. Dom_ID d = i) (db_domains db)"

definition keys_unique :: "DB \<Rightarrow> bool" where
  "keys_unique db \<longleftrightarrow>
     distinct (map User_ID (db_users db)) \<and> distinct (map User_Username (db_users db)) \<and>
     distinct (map Client_ID (db_clients db)) \<and>
     distinct (map Enr_ID (db_enrollments db)) \<and> distinct (map Enr_TokenHash (db_enrollments db)) \<and>
     distinct (map Dom_ID (db_domains db)) \<and> distinct (map (\<lambda>d. to_lower (Dom_Host d)) (db_domains db)) \<and>
     distinct (map DEnt_ID (db_domain_entries db)) \<and>
     distinct (map Proxy_ID (db_proxies db)) \<and>
     distinct (map Tok_ID (db_tokens db)) \<and> distinct (map Tok_TokenHash (db_tokens db)) \<and>
     distinct (map Cred_ID (db_credentials db)) \<and> distinct (map Cred_SecretHash (db_credentials db)) \<and>
     distinct (map Cert_ID (db_certificates db)) \<and>
     distinct (map PCred_ID (db_provider_credentials db)) \<and>
     distinct (map Audit_ID (db_audit_events db)) \<and>
     distinct (map SS_ProxyID (db_stats db))"

definition refs_ok :: "DB \<Rightarrow> bool" where
  "refs_ok db \<longleftrightarrow>
     (\<forall>c \<in> set (db_clients db). has_user db (Client_UserID c)) \<and>
     (\<forall>e \<in> set (db_enrollments db). has_client db (Enr_ClientID e)) \<and>
     (\<forall>d \<in> set (db_domains db). has_user db (Dom_UserID d)) \<and>
     (\<forall>e \<in> set (db_domain_entries db). has_domain db (DEnt_DomainID e)) \<and>
     (\<forall>p \<in> set (db_proxies db). has_user db (Proxy_UserID p) \<and> has_client db (Proxy_ClientID p)) \<and>
     (\<forall>t \<in> set (db_tokens db). has_proxy db (Tok_ProxyID t)) \<and>
     (\<forall>c \<in> set (db_credentials db). has_proxy db (Cred_ProxyID c)) \<and>
     (\<forall>s \<in> set (db_stats db). has_proxy db (SS_ProxyID s))"

end
