(* ===== verification/Store.thy ===== *)
theory Store
  imports Tables
begin

text \<open>
  The repositories of internal/store/sqlite for users, clients, enrollments, domains, domain
  entries and proxies, and the reserved identity of internal/systemclient they protect. A method
  that reads is a function of the database; a method that writes is an operation on it. The flag
  \<open>internal\<close> says whether the context carries the marker of WithInternalMutation, \<open>now\<close> is the
  reading of the clock, and a fresh id of newMigrationID is an argument.
\<close>

section \<open>The system identity\<close>

abbreviation SystemClientID :: string where "SystemClientID \<equiv> ''server-local''"
abbreviation SystemUserID :: string where "SystemUserID \<equiv> ''server-local-system''"
abbreviation SystemUsername :: string where "SystemUsername \<equiv> ''__server_local_system__''"
abbreviation SystemClientName :: string where "SystemClientName \<equiv> ''Server Local''"
abbreviation disabledSecret :: string where "disabledSecret \<equiv> ''system-client-has-no-control-credential''"

definition IsSystemClientID :: "string \<Rightarrow> bool" where
  "IsSystemClientID clientID \<longleftrightarrow> clientID = SystemClientID"

definition IsSystemUserID :: "string \<Rightarrow> bool" where
  "IsSystemUserID userID \<longleftrightarrow> userID = SystemUserID"

definition IsSystemProxy :: "Proxy \<Rightarrow> bool" where
  "IsSystemProxy proxy \<longleftrightarrow> IsSystemClientID (Proxy_ClientID proxy)"

definition ProtectClientMutation :: "string \<Rightarrow> unit result" where
  "ProtectClientMutation clientID =
     reject_if (IsSystemClientID clientID) (Contract ''FORBIDDEN'' ''system client is immutable'' None)"

definition ProtectUserMutation :: "string \<Rightarrow> unit result" where
  "ProtectUserMutation userID =
     reject_if (IsSystemUserID userID) (Contract ''FORBIDDEN'' ''system user is immutable'' None)"

definition ProtectProxyMutation :: "Proxy \<Rightarrow> unit result" where
  "ProtectProxyMutation proxy =
     reject_if (IsSystemProxy proxy)
       (Contract ''FORBIDDEN'' ''system proxy must be managed through the local proxy API'' None)"

definition or_now :: "time \<Rightarrow> time \<Rightarrow> time" where
  "or_now now t = (if IsZero t then now else t)"

section \<open>Users\<close>

definition insert_user :: "User \<Rightarrow> (DB, unit) op" where
  "insert_user u db =
     sql_checked (\<not> sql_exists (\<lambda>r. User_ID r = User_ID u \<or> User_Username r = User_Username u) (db_users db))
       (\<lambda>db. db \<lparr>db_users := db_users db @ [u]\<rparr>) db"

definition users_Create :: "bool \<Rightarrow> time \<Rightarrow> User \<Rightarrow> (DB, unit) op" where
  "users_Create internal now user =
     (if \<not> internal \<and> (IsSystemUserID (User_ID user) \<or> User_Username user = SystemUsername)
      then slift (ProtectUserMutation SystemUserID)
      else sbind (slift (user_Validate user)) (\<lambda>_.
        insert_user (user \<lparr>User_CreatedAt := or_now now (User_CreatedAt user),
                           User_UpdatedAt := or_now now (User_UpdatedAt user)\<rparr>)))"

definition users_ByID :: "DB \<Rightarrow> string \<Rightarrow> User result" where
  "users_ByID db i = sql_one (\<lambda>u. User_ID u = i) (db_users db)"

definition users_ByUsername :: "DB \<Rightarrow> string \<Rightarrow> User result" where
  "users_ByUsername db name = sql_one (\<lambda>u. User_Username u = name) (db_users db)"

definition users_List :: "DB \<Rightarrow> User list" where
  "users_List db = sql_list (\<lambda>_. True) (\<lambda>u. (User_CreatedAt u, User_ID u)) (db_users db)"

definition update_user :: "string \<Rightarrow> (User \<Rightarrow> User) \<Rightarrow> (DB, unit) op" where
  "update_user i f db =
     (resultError (sql_affected (\<lambda>u. User_ID u = i) (db_users db)),
      db \<lparr>db_users := sql_update (\<lambda>u. User_ID u = i) f (db_users db)\<rparr>)"

definition users_SetStatus :: "bool \<Rightarrow> time \<Rightarrow> string \<Rightarrow> UserStatus \<Rightarrow> (DB, unit) op" where
  "users_SetStatus internal now i status =
     sbind (slift (if internal then Inr () else ProtectUserMutation i)) (\<lambda>_.
       update_user i (\<lambda>u. u \<lparr>User_Status := status, User_UpdatedAt := now\<rparr>))"

definition users_SetPassword :: "bool \<Rightarrow> time \<Rightarrow> string \<Rightarrow> string \<Rightarrow> (DB, unit) op" where
  "users_SetPassword internal now i passwordHash =
     sbind (slift (if internal then Inr () else ProtectUserMutation i)) (\<lambda>_.
       update_user i (\<lambda>u. u \<lparr>User_PasswordHash := passwordHash, User_UpdatedAt := now\<rparr>))"

definition delete_user :: "string \<Rightarrow> (DB, unit) op" where
  "delete_user i db =
     (resultError (sql_affected (\<lambda>u. User_ID u = i) (db_users db)), drop_users (\<lambda>u. User_ID u = i) db)"

definition users_Delete :: "bool \<Rightarrow> string \<Rightarrow> (DB, unit) op" where
  "users_Delete internal i =
     sbind (slift (if internal then Inr () else ProtectUserMutation i)) (\<lambda>_. delete_user i)"

section \<open>Clients\<close>

definition insert_client :: "Client \<Rightarrow> (DB, unit) op" where
  "insert_client c db =
     sql_checked (\<not> sql_exists (\<lambda>r. Client_ID r = Client_ID c) (db_clients db) \<and> has_user db (Client_UserID c))
       (\<lambda>db. db \<lparr>db_clients := db_clients db @ [c]\<rparr>) db"

definition clients_Create :: "bool \<Rightarrow> time \<Rightarrow> Client \<Rightarrow> (DB, unit) op" where
  "clients_Create internal now client =
     (if \<not> internal \<and> (IsSystemClientID (Client_ID client) \<or> IsSystemUserID (Client_UserID client))
      then slift (ProtectClientMutation SystemClientID)
      else sbind (slift (client_Validate client)) (\<lambda>_.
        insert_client (client \<lparr>Client_CreatedAt := or_now now (Client_CreatedAt client),
                               Client_UpdatedAt := or_now now (Client_UpdatedAt client),
                               Client_Kind := NormalizeClientKind (Client_Kind client)\<rparr>)))"

text \<open>scanClient: an empty kind reads as provider.\<close>

definition scanClient :: "Client \<Rightarrow> Client" where
  "scanClient c = (if Client_Kind c = [] then c \<lparr>Client_Kind := ClientKindProvider\<rparr> else c)"

definition clients_ByID :: "DB \<Rightarrow> string \<Rightarrow> Client result" where
  "clients_ByID db i = map_sum id scanClient (sql_one (\<lambda>c. Client_ID c = i) (db_clients db))"

definition clients_List :: "DB \<Rightarrow> Client list" where
  "clients_List db = map scanClient (sql_list (\<lambda>_. True) (\<lambda>c. (Client_CreatedAt c, Client_ID c)) (db_clients db))"

definition update_client :: "string \<Rightarrow> (Client \<Rightarrow> Client) \<Rightarrow> (DB, unit) op" where
  "update_client i f db =
     (resultError (sql_affected (\<lambda>c. Client_ID c = i) (db_clients db)),
      db \<lparr>db_clients := sql_update (\<lambda>c. Client_ID c = i) f (db_clients db)\<rparr>)"

definition clients_SetStatus :: "bool \<Rightarrow> time \<Rightarrow> string \<Rightarrow> ClientStatus \<Rightarrow> (DB, unit) op" where
  "clients_SetStatus internal now i status =
     sbind (slift (if internal then Inr () else ProtectClientMutation i)) (\<lambda>_.
       update_client i (\<lambda>c. c \<lparr>Client_Status := status,
         Client_LastOnlineAt := (if status = ClientOnline then Some now else Client_LastOnlineAt c),
         Client_LastOfflineAt := (if status \<in> set [ClientOffline, ClientDisconnected] then Some now
                                  else Client_LastOfflineAt c),
         Client_UpdatedAt := now\<rparr>))"

definition clients_RotateCredential :: "bool \<Rightarrow> time \<Rightarrow> string \<Rightarrow> string \<Rightarrow> (DB, unit) op" where
  "clients_RotateCredential internal now i credentialHash =
     sbind (slift (if internal then Inr () else ProtectClientMutation i)) (\<lambda>_.
       if blank credentialHash then sfail (New ''credential hash is required'')
       else update_client i (\<lambda>c. c \<lparr>Client_CredentialHash := credentialHash,
              Client_Version := Client_Version c + 1, Client_UpdatedAt := now\<rparr>))"

definition delete_client :: "string \<Rightarrow> (DB, unit) op" where
  "delete_client i db =
     (resultError (sql_affected (\<lambda>c. Client_ID c = i) (db_clients db)), drop_clients (\<lambda>c. Client_ID c = i) db)"

definition clients_Delete :: "bool \<Rightarrow> string \<Rightarrow> (DB, unit) op" where
  "clients_Delete internal i =
     sbind (slift (if internal then Inr () else ProtectClientMutation i)) (\<lambda>_. delete_client i)"

section \<open>Client enrollments\<close>

definition insert_enrollment :: "ClientEnrollment \<Rightarrow> (DB, unit) op" where
  "insert_enrollment e db =
     sql_checked (\<not> sql_exists (\<lambda>r. Enr_ID r = Enr_ID e \<or> Enr_TokenHash r = Enr_TokenHash e) (db_enrollments db)
                  \<and> has_client db (Enr_ClientID e))
       (\<lambda>db. db \<lparr>db_enrollments := db_enrollments db @ [e]\<rparr>) db"

definition enrollments_Create :: "time \<Rightarrow> ClientEnrollment \<Rightarrow> (DB, unit) op" where
  "enrollments_Create now enrollment =
     sbind (slift (clientEnrollment_Validate enrollment)) (\<lambda>_.
       insert_enrollment (enrollment \<lparr>Enr_CreatedAt := or_now now (Enr_CreatedAt enrollment),
                                      Enr_UpdatedAt := or_now now (Enr_UpdatedAt enrollment)\<rparr>))"

definition enrollments_ByID :: "DB \<Rightarrow> string \<Rightarrow> ClientEnrollment result" where
  "enrollments_ByID db i = sql_one (\<lambda>e. Enr_ID e = i) (db_enrollments db)"

definition enrollments_LatestReviewableByClientID :: "DB \<Rightarrow> string \<Rightarrow> time \<Rightarrow> ClientEnrollment result" where
  "enrollments_LatestReviewableByClientID db clientID now =
     sql_last (\<lambda>e. Enr_ClientID e = clientID \<and> Enr_Token e \<noteq> [] \<and> Enr_UsedAt e = None \<and> Enr_ExpiresAt e > now)
       (\<lambda>e. (Enr_CreatedAt e, Enr_ID e)) (db_enrollments db)"

definition enrollments_LatestUnusedByClientID :: "DB \<Rightarrow> string \<Rightarrow> ClientEnrollment result" where
  "enrollments_LatestUnusedByClientID db clientID =
     sql_last (\<lambda>e. Enr_ClientID e = clientID \<and> Enr_Token e \<noteq> [] \<and> Enr_UsedAt e = None)
       (\<lambda>e. (Enr_CreatedAt e, Enr_ID e)) (db_enrollments db)"

definition enrollments_MarkUsed :: "string \<Rightarrow> time \<Rightarrow> (DB, unit) op" where
  "enrollments_MarkUsed i usedAt db =
     (let P = (\<lambda>e. Enr_ID e = i \<and> Enr_UsedAt e = None) in
      (resultError (sql_affected P (db_enrollments db)),
       db \<lparr>db_enrollments := sql_update P (\<lambda>e. e \<lparr>Enr_UsedAt := Some usedAt, Enr_UpdatedAt := usedAt\<rparr>)
              (db_enrollments db)\<rparr>))"

section \<open>Domains\<close>

definition domain_free :: "DB \<Rightarrow> Domain \<Rightarrow> bool" where
  "domain_free db d \<longleftrightarrow>
     \<not> sql_exists (\<lambda>r. Dom_ID r = Dom_ID d \<or> to_lower (Dom_Host r) = to_lower (Dom_Host d)) (db_domains db)"

definition insert_domain :: "Domain \<Rightarrow> (DB, unit) op" where
  "insert_domain d db =
     sql_checked (domain_free db d \<and> has_user db (Dom_UserID d))
       (\<lambda>db. db \<lparr>db_domains := db_domains db @ [d]\<rparr>) db"

definition domains_Create :: "time \<Rightarrow> Domain \<Rightarrow> (DB, unit) op" where
  "domains_Create now value =
     sbind (slift (domain_Validate value)) (\<lambda>_.
       insert_domain (value \<lparr>Dom_CreatedAt := or_now now (Dom_CreatedAt value),
                             Dom_UpdatedAt := or_now now (Dom_UpdatedAt value),
                             Dom_Host := NormalizeRouteHost (Dom_Host value)\<rparr>))"

definition domains_ByID :: "DB \<Rightarrow> string \<Rightarrow> Domain result" where
  "domains_ByID db i = sql_one (\<lambda>d. Dom_ID d = i) (db_domains db)"

definition domains_ByHost :: "DB \<Rightarrow> string \<Rightarrow> Domain result" where
  "domains_ByHost db host =
     sql_one (\<lambda>d. to_lower (Dom_Host d) = to_lower (NormalizeRouteHost host)) (db_domains db)"

definition domains_ByCertificateID :: "DB \<Rightarrow> string \<Rightarrow> Domain result" where
  "domains_ByCertificateID db certificateID = sql_one (\<lambda>d. Dom_CertificateID d = certificateID) (db_domains db)"

definition domains_List :: "DB \<Rightarrow> Domain list" where
  "domains_List db = sql_list (\<lambda>_. True) (\<lambda>d. (Dom_Host d, Dom_ID d)) (db_domains db)"

definition domains_ByUserID :: "DB \<Rightarrow> string \<Rightarrow> Domain list" where
  "domains_ByUserID db userID = sql_list (\<lambda>d. Dom_UserID d = userID) (\<lambda>d. (Dom_Host d, Dom_ID d)) (db_domains db)"

definition domains_Update :: "time \<Rightarrow> Domain \<Rightarrow> (DB, unit) op" where
  "domains_Update now value =
     sbind (slift (domain_Validate value)) (\<lambda>_ db.
       (let host = NormalizeRouteHost (Dom_Host value);
            P = (\<lambda>d. Dom_ID d = Dom_ID value);
            f = (\<lambda>d. d \<lparr>Dom_UserID := Dom_UserID value, Dom_Host := host,
                        Dom_CertificateID := Dom_CertificateID value, Dom_Status := Dom_Status value,
                        Dom_UpdatedAt := now\<rparr>)
        in if sql_affected P (db_domains db) = 0 then (Inl ErrNotFound, db)
           else sql_checked
             (\<not> sql_exists (\<lambda>d. Dom_ID d \<noteq> Dom_ID value \<and> to_lower (Dom_Host d) = to_lower host) (db_domains db)
              \<and> has_user db (Dom_UserID value))
             (\<lambda>db. db \<lparr>db_domains := sql_update P f (db_domains db)\<rparr>) db))"

definition domains_SetStatus :: "time \<Rightarrow> string \<Rightarrow> DomainStatus \<Rightarrow> (DB, unit) op" where
  "domains_SetStatus now i status db =
     (resultError (sql_affected (\<lambda>d. Dom_ID d = i) (db_domains db)),
      db \<lparr>db_domains := sql_update (\<lambda>d. Dom_ID d = i) (\<lambda>d. d \<lparr>Dom_Status := status, Dom_UpdatedAt := now\<rparr>)
             (db_domains db)\<rparr>)"

definition domains_Delete :: "string \<Rightarrow> (DB, unit) op" where
  "domains_Delete i db =
     (resultError (sql_affected (\<lambda>d. Dom_ID d = i) (db_domains db)), drop_domains (\<lambda>d. Dom_ID d = i) db)"

section \<open>Domain entries\<close>

definition same_listener :: "string \<Rightarrow> DomainEntryProtocol \<Rightarrow> string \<Rightarrow> int \<Rightarrow> DomainEntry \<Rightarrow> bool" where
  "same_listener domainID protocol bindHost port e \<longleftrightarrow>
     DEnt_DomainID e = domainID \<and> DEnt_Protocol e = protocol \<and>
     to_lower (DEnt_BindHost e) = to_lower bindHost \<and> DEnt_Port e = port"

definition insert_domain_entry :: "DomainEntry \<Rightarrow> (DB, unit) op" where
  "insert_domain_entry e db =
     sql_checked
       (\<not> sql_exists (\<lambda>r. DEnt_ID r = DEnt_ID e
            \<or> same_listener (DEnt_DomainID e) (DEnt_Protocol e) (DEnt_BindHost e) (DEnt_Port e) r)
          (db_domain_entries db) \<and> has_domain db (DEnt_DomainID e))
       (\<lambda>db. db \<lparr>db_domain_entries := db_domain_entries db @ [e]\<rparr>) db"

definition domainEntries_Create :: "time \<Rightarrow> DomainEntry \<Rightarrow> (DB, unit) op" where
  "domainEntries_Create now entry =
     sbind (slift (domainEntry_Validate entry)) (\<lambda>_.
       insert_domain_entry (entry \<lparr>DEnt_CreatedAt := or_now now (DEnt_CreatedAt entry),
                                   DEnt_UpdatedAt := or_now now (DEnt_UpdatedAt entry),
                                   DEnt_BindHost := NormalizeBindHost (DEnt_BindHost entry)\<rparr>))"

definition domainEntries_ByID :: "DB \<Rightarrow> string \<Rightarrow> DomainEntry result" where
  "domainEntries_ByID db i = sql_one (\<lambda>e. DEnt_ID e = i) (db_domain_entries db)"

definition entry_key :: "DomainEntry \<Rightarrow> string \<times> int \<times> string" where
  "entry_key e = (DEnt_Protocol e, DEnt_Port e, DEnt_ID e)"

definition domainEntries_ListByDomainID :: "DB \<Rightarrow> string \<Rightarrow> DomainEntry list" where
  "domainEntries_ListByDomainID db domainID =
     sql_list (\<lambda>e. DEnt_DomainID e = domainID) entry_key (db_domain_entries db)"

definition domainEntries_ListEnabled :: "DB \<Rightarrow> DomainEntry list" where
  "domainEntries_ListEnabled db =
     sql_list (\<lambda>e. DEnt_Status e = DomainEntryEnabled) entry_key (db_domain_entries db)"

text \<open>The join of ByListener, in the order of its rank.\<close>

definition listener_exact :: "string \<Rightarrow> int \<Rightarrow> DomainEntry \<Rightarrow> bool" where
  "listener_exact bindHost port e \<longleftrightarrow> to_lower (DEnt_BindHost e) = to_lower bindHost \<and> DEnt_Port e = port"

definition domainEntries_ByListener ::
    "DB \<Rightarrow> DomainEntryProtocol \<Rightarrow> string \<Rightarrow> int \<Rightarrow> string \<Rightarrow> bool \<Rightarrow> (Domain \<times> DomainEntry) result" where
  "domainEntries_ByListener db protocol bind port routeHost includeDefault =
     (let bindHost = NormalizeBindHost bind;
          host = NormalizeRouteHost routeHost;
          joined = [(d, e). e \<leftarrow> db_domain_entries db, d \<leftarrow> db_domains db, Dom_ID d = DEnt_DomainID e];
          hits = filter (\<lambda>(d, e). DEnt_Protocol e = protocol \<and> DEnt_Status e = DomainEntryEnabled
                   \<and> Dom_Status d = DomainEnabled \<and> to_lower (Dom_Host d) = to_lower host
                   \<and> (listener_exact bindHost port e
                      \<or> (includeDefault \<and> DEnt_BindHost e = [] \<and> (DEnt_Port e = 0 \<or> DEnt_Port e = port)))) joined
      in case sort_key (\<lambda>(d, e). if listener_exact bindHost port e then 0 else 1 :: int) hits of
           [] \<Rightarrow> Inl ErrNotFound
         | (d, e) # _ \<Rightarrow> Inr (d, e))"

definition domainEntries_Update :: "time \<Rightarrow> DomainEntry \<Rightarrow> (DB, unit) op" where
  "domainEntries_Update now entry =
     sbind (slift (domainEntry_Validate entry)) (\<lambda>_ db.
       (let bindHost = NormalizeBindHost (DEnt_BindHost entry);
            P = (\<lambda>e. DEnt_ID e = DEnt_ID entry);
            f = (\<lambda>e. e \<lparr>DEnt_Protocol := DEnt_Protocol entry, DEnt_BindHost := bindHost,
                        DEnt_Port := DEnt_Port entry, DEnt_Status := DEnt_Status entry, DEnt_UpdatedAt := now\<rparr>)
        in case sql_one P (db_domain_entries db) of
             Inl _ \<Rightarrow> (Inl ErrNotFound, db)
           | Inr old \<Rightarrow>
               sql_checked
                 (\<not> sql_exists (\<lambda>r. DEnt_ID r \<noteq> DEnt_ID entry
                      \<and> same_listener (DEnt_DomainID old) (DEnt_Protocol entry) bindHost (DEnt_Port entry) r)
                    (db_domain_entries db))
                 (\<lambda>db. db \<lparr>db_domain_entries := sql_update P f (db_domain_entries db)\<rparr>) db))"

definition domainEntries_Delete :: "string \<Rightarrow> (DB, unit) op" where
  "domainEntries_Delete i db =
     (resultError (sql_affected (\<lambda>e. DEnt_ID e = i) (db_domain_entries db)),
      db \<lparr>db_domain_entries := sql_delete (\<lambda>e. DEnt_ID e = i) (db_domain_entries db)\<rparr>)"

definition domainEntries_DeleteByDomainID :: "string \<Rightarrow> (DB, unit) op" where
  "domainEntries_DeleteByDomainID domainID db =
     (Inr (), db \<lparr>db_domain_entries := sql_delete (\<lambda>e. DEnt_DomainID e = domainID) (db_domain_entries db)\<rparr>)"

end
