(* ===== verification/ProxyStore.thy ===== *)
theory ProxyStore
  imports Store
begin

text \<open>
  The repositories of internal/store/sqlite for proxies, for the activation tokens and credentials
  of a proxy's access gate, for the local allowlist, the statistics and the audit events.
\<close>

section \<open>Writing a proxy\<close>

definition blank_entry :: "Proxy \<Rightarrow> Proxy" where
  "blank_entry p = p \<lparr>Proxy_EntryHost := [], Proxy_CertificateID := [], Proxy_CertFile := [], Proxy_KeyFile := []\<rparr>"

definition normalizeProxyForStore :: "Proxy \<Rightarrow> Proxy result" where
  "normalizeProxyForStore proxy =
     (if Proxy_Type proxy = ProxyWeb then
        rbind (NormalizeProxyRoutePrefix (Proxy_PathPrefix proxy)) (\<lambda>pathPrefix.
        rbind (NormalizeProxyUpstreamPathPrefix (Proxy_UpstreamPathPrefix proxy)) (\<lambda>upstream.
          Inr (blank_entry (proxy \<lparr>Proxy_PathPrefix := pathPrefix, Proxy_UpstreamPathPrefix := upstream,
                 Proxy_EntryBindHost := [], Proxy_EntryPort := 0\<rparr>))))
      else if Proxy_Type proxy \<in> set [ProxyTCP, ProxyUDP, ProxyForward] then
        Inr (blank_entry (proxy \<lparr>Proxy_DomainID := [], Proxy_PathPrefix := [], Proxy_StripPrefix := False,
               Proxy_UpstreamPathPrefix := []\<rparr>))
      else Inr proxy)"

text \<open>The row of a proxy: the columns entry_host, cert_file, key_file and certificate_id are gone.\<close>

definition proxy_row :: "Proxy \<Rightarrow> Proxy" where
  "proxy_row p = blank_entry (p \<lparr>Proxy_EntryBindHost := NormalizeBindHost (Proxy_EntryBindHost p)\<rparr>)"

definition insert_certificate :: "ManagedCertificate \<Rightarrow> (DB, unit) op" where
  "insert_certificate c db =
     sql_checked (\<not> sql_exists (\<lambda>r. Cert_ID r = Cert_ID c) (db_certificates db))
       (\<lambda>db. db \<lparr>db_certificates := db_certificates db @ [c]\<rparr>) db"

definition static_certificate :: "time \<Rightarrow> string \<Rightarrow> string \<Rightarrow> string \<Rightarrow> string \<Rightarrow> ManagedCertificate" where
  "static_certificate now certID host certFile keyFile =
     zeroCertificate \<lparr>Cert_ID := certID, Cert_Host := host, Cert_Status := CertificateValid,
       Cert_ServingStatus := CertificateServingUsable, Cert_Provider := ''file'',
       Cert_ProviderType := ''file'', Cert_ProviderName := ''static'', Cert_CertFile := certFile,
       Cert_KeyFile := keyFile, Cert_CreatedAt := now, Cert_UpdatedAt := now\<rparr>"

definition set_domain_certificate :: "time \<Rightarrow> string \<Rightarrow> string \<Rightarrow> (DB, unit) op" where
  "set_domain_certificate now domainID certID =
     smodify (\<lambda>db. db \<lparr>db_domains := sql_update (\<lambda>d. Dom_ID d = domainID)
        (\<lambda>d. d \<lparr>Dom_CertificateID := certID, Dom_UpdatedAt := now\<rparr>) (db_domains db)\<rparr>)"

text \<open>The domain a legacy web proxy belongs to: an existing one of the same user, or a new one.\<close>

definition legacy_domain :: "time \<Rightarrow> (string \<Rightarrow> string) \<Rightarrow> Proxy \<Rightarrow> string \<Rightarrow> (DB, string) op" where
  "legacy_domain now newID proxy host =
     shandle (sread (\<lambda>db. sql_one (\<lambda>d. to_lower (Dom_Host d) = to_lower host) (db_domains db))) (\<lambda>r.
       case r of
         Inr existing \<Rightarrow>
           (if Dom_UserID existing \<noteq> Proxy_UserID proxy
            then sfail (Wrapf ''domain host belongs to another user'' ErrConflict)
            else sbind (if Proxy_CertificateID proxy \<noteq> [] \<and> Dom_CertificateID existing = []
                        then set_domain_certificate now (Dom_ID existing) (Proxy_CertificateID proxy)
                        else sret ()) (\<lambda>_. sret (Dom_ID existing)))
       | Inl _ \<Rightarrow>
           sbind (insert_domain \<lparr>Dom_ID = newID ''domain'', Dom_UserID = Proxy_UserID proxy, Dom_Host = host,
                    Dom_CertificateID = Proxy_CertificateID proxy, Dom_Status = DomainEnabled,
                    Dom_CreatedAt = now, Dom_UpdatedAt = now\<rparr>)
             (\<lambda>_. sret (newID ''domain'')))"

definition legacy_entry :: "time \<Rightarrow> (string \<Rightarrow> string) \<Rightarrow> string \<Rightarrow> DomainEntryProtocol \<Rightarrow> string \<Rightarrow> int \<Rightarrow> (DB, unit) op" where
  "legacy_entry now newID domainID protocol bindHost port =
     sbind (sget (\<lambda>db. sql_affected (same_listener domainID protocol bindHost port) (db_domain_entries db))) (\<lambda>entryCount.
       if entryCount = 0
       then insert_domain_entry \<lparr>DEnt_ID = newID ''dentry'', DEnt_DomainID = domainID, DEnt_Protocol = protocol,
              DEnt_BindHost = bindHost, DEnt_Port = port, DEnt_Status = DomainEntryEnabled,
              DEnt_CreatedAt = now, DEnt_UpdatedAt = now\<rparr>
       else sret ())"

definition legacy_certificate :: "time \<Rightarrow> (string \<Rightarrow> string) \<Rightarrow> Proxy \<Rightarrow> DomainEntryProtocol \<Rightarrow> string \<Rightarrow> string \<Rightarrow> (DB, unit) op" where
  "legacy_certificate now newID proxy protocol domainID host =
     (if protocol = DomainEntryHTTPS \<and> Proxy_CertificateID proxy = [] \<and> Proxy_CertFile proxy \<noteq> []
         \<and> Proxy_KeyFile proxy \<noteq> []
      then sbind (sget (\<lambda>db. case sql_one (\<lambda>d. Dom_ID d = domainID) (db_domains db) of
                               Inr d \<Rightarrow> Dom_CertificateID d | Inl _ \<Rightarrow> [])) (\<lambda>domainCert.
             if domainCert = []
             then sbind (insert_certificate (static_certificate now (newID ''cert'') host
                           (Proxy_CertFile proxy) (Proxy_KeyFile proxy)))
                    (\<lambda>_. set_domain_certificate now domainID (newID ''cert''))
             else sret ())
      else sret ())"

definition ensureLegacyWebProxyDomain :: "time \<Rightarrow> (string \<Rightarrow> string) \<Rightarrow> Proxy \<Rightarrow> (DB, Proxy) op" where
  "ensureLegacyWebProxyDomain now newID proxy =
     (if Proxy_Type proxy \<noteq> ProxyHTTP \<and> Proxy_Type proxy \<noteq> ProxyHTTPS then sret proxy
      else
        (let host = NormalizeRouteHost (Proxy_EntryHost proxy) in
         if host = [] then sfail (New ''web proxy host is required'')
         else
           sbind (legacy_domain now newID proxy host) (\<lambda>domainID.
             (let protocol = (if Proxy_Type proxy = ProxyHTTPS then DomainEntryHTTPS else DomainEntryHTTP) in
              sbind (legacy_entry now newID domainID protocol (NormalizeBindHost (Proxy_EntryBindHost proxy))
                       (Proxy_EntryPort proxy)) (\<lambda>_.
              sbind (legacy_certificate now newID proxy protocol domainID host) (\<lambda>_.
              sret (blank_entry (proxy \<lparr>Proxy_Type := ProxyWeb, Proxy_DomainID := domainID,
                Proxy_PathPrefix := (if Proxy_PathPrefix proxy = [] then ''/'' else Proxy_PathPrefix proxy),
                Proxy_UpstreamPathPrefix :=
                  (if Proxy_UpstreamPathPrefix proxy = [] then ''/'' else Proxy_UpstreamPathPrefix proxy),
                Proxy_EntryBindHost := [], Proxy_EntryPort := 0\<rparr>))))))))"

definition insert_proxy :: "Proxy \<Rightarrow> (DB, unit) op" where
  "insert_proxy p db =
     sql_checked (\<not> sql_exists (\<lambda>r. Proxy_ID r = Proxy_ID p) (db_proxies db)
                  \<and> has_user db (Proxy_UserID p) \<and> has_client db (Proxy_ClientID p))
       (\<lambda>db. db \<lparr>db_proxies := db_proxies db @ [p]\<rparr>) db"

definition proxies_Create :: "bool \<Rightarrow> time \<Rightarrow> (string \<Rightarrow> string) \<Rightarrow> Proxy \<Rightarrow> (DB, unit) op" where
  "proxies_Create internal now newID input =
     (if \<not> internal \<and> (IsSystemProxy input \<or> IsSystemUserID (Proxy_UserID input))
      then slift (ProtectProxyMutation (zeroProxy \<lparr>Proxy_ClientID := SystemClientID\<rparr>))
      else sbind (ensureLegacyWebProxyDomain now newID input) (\<lambda>converted.
           sbind (slift (normalizeProxyForStore converted)) (\<lambda>proxy.
           sbind (slift (proxy_Validate proxy)) (\<lambda>_.
             insert_proxy (proxy_row (proxy \<lparr>Proxy_CreatedAt := or_now now (Proxy_CreatedAt proxy),
                                             Proxy_UpdatedAt := or_now now (Proxy_UpdatedAt proxy)\<rparr>))))))"

definition protectSystemMutation :: "bool \<Rightarrow> DB \<Rightarrow> string \<Rightarrow> unit result" where
  "protectSystemMutation internal db i =
     (if internal then Inr ()
      else case sql_one (\<lambda>p. Proxy_ID p = i) (db_proxies db) of
             Inl _ \<Rightarrow> Inr ()
           | Inr p \<Rightarrow> ProtectProxyMutation (zeroProxy \<lparr>Proxy_ClientID := Proxy_ClientID p\<rparr>))"

definition update_proxy :: "string \<Rightarrow> (Proxy \<Rightarrow> Proxy) \<Rightarrow> (DB, unit) op" where
  "update_proxy i f db =
     (resultError (sql_affected (\<lambda>p. Proxy_ID p = i) (db_proxies db)),
      db \<lparr>db_proxies := sql_update (\<lambda>p. Proxy_ID p = i) f (db_proxies db)\<rparr>)"

definition proxies_SetStatus :: "bool \<Rightarrow> time \<Rightarrow> string \<Rightarrow> ProxyStatus \<Rightarrow> (DB, unit) op" where
  "proxies_SetStatus internal now i status =
     sbind (sread (\<lambda>db. protectSystemMutation internal db i)) (\<lambda>_.
       update_proxy i (\<lambda>p. p \<lparr>Proxy_Status := status, Proxy_UpdatedAt := now\<rparr>))"

definition proxies_Update :: "bool \<Rightarrow> time \<Rightarrow> Proxy \<Rightarrow> (DB, unit) op" where
  "proxies_Update internal now input =
     (if \<not> internal \<and> (IsSystemProxy input \<or> IsSystemUserID (Proxy_UserID input))
      then slift (ProtectProxyMutation (zeroProxy \<lparr>Proxy_ClientID := SystemClientID\<rparr>))
      else sbind (sread (\<lambda>db. protectSystemMutation internal db (Proxy_ID input))) (\<lambda>_.
           sbind (slift (normalizeProxyForStore input)) (\<lambda>proxy.
           sbind (slift (proxy_Validate proxy)) (\<lambda>_.
             update_proxy (Proxy_ID proxy) (\<lambda>p. p \<lparr>Proxy_Name := Proxy_Name proxy,
               Proxy_Status := Proxy_Status proxy, Proxy_DomainID := Proxy_DomainID proxy,
               Proxy_PathPrefix := Proxy_PathPrefix proxy, Proxy_StripPrefix := Proxy_StripPrefix proxy,
               Proxy_UpstreamPathPrefix := Proxy_UpstreamPathPrefix proxy,
               Proxy_EntryBindHost := NormalizeBindHost (Proxy_EntryBindHost proxy),
               Proxy_EntryPort := Proxy_EntryPort proxy, Proxy_TargetHost := Proxy_TargetHost proxy,
               Proxy_TargetPort := Proxy_TargetPort proxy,
               Proxy_AccessAuthEnabled := Proxy_AccessAuthEnabled proxy,
               Proxy_AccessAuthVersion := Proxy_AccessAuthVersion proxy,
               Proxy_StatsLegacyAggregate := Proxy_StatsLegacyAggregate proxy,
               Proxy_Description := Proxy_Description proxy, Proxy_UpdatedAt := now\<rparr>)))))"

definition delete_proxy :: "string \<Rightarrow> (DB, unit) op" where
  "delete_proxy i db =
     (resultError (sql_affected (\<lambda>p. Proxy_ID p = i) (db_proxies db)), drop_proxies (\<lambda>p. Proxy_ID p = i) db)"

definition proxies_Delete :: "bool \<Rightarrow> string \<Rightarrow> (DB, unit) op" where
  "proxies_Delete internal i =
     sbind (sread (\<lambda>db. protectSystemMutation internal db i)) (\<lambda>_. delete_proxy i)"

section \<open>Reading proxies\<close>

definition proxy_created :: "Proxy \<Rightarrow> time \<times> string" where
  "proxy_created p = (Proxy_CreatedAt p, Proxy_ID p)"

text \<open>\<open>order by length(path_prefix) desc, path_prefix, id\<close>\<close>

definition proxy_by_path :: "Proxy \<Rightarrow> int \<times> string \<times> string" where
  "proxy_by_path p = (- int (length (Proxy_PathPrefix p)), Proxy_PathPrefix p, Proxy_ID p)"

definition proxies_ByID :: "DB \<Rightarrow> string \<Rightarrow> Proxy result" where
  "proxies_ByID db i = sql_one (\<lambda>p. Proxy_ID p = i) (db_proxies db)"

definition proxies_List :: "DB \<Rightarrow> Proxy list" where
  "proxies_List db = sql_list (\<lambda>_. True) proxy_created (db_proxies db)"

definition proxies_ByClientID :: "DB \<Rightarrow> string \<Rightarrow> Proxy list" where
  "proxies_ByClientID db clientID = sql_list (\<lambda>p. Proxy_ClientID p = clientID) proxy_created (db_proxies db)"

definition proxies_ByUserID :: "DB \<Rightarrow> string \<Rightarrow> Proxy list" where
  "proxies_ByUserID db userID = sql_list (\<lambda>p. Proxy_UserID p = userID) proxy_created (db_proxies db)"

definition proxies_ByDomainID :: "DB \<Rightarrow> string \<Rightarrow> Proxy list" where
  "proxies_ByDomainID db domainID = sql_list (\<lambda>p. Proxy_DomainID p = domainID) proxy_by_path (db_proxies db)"

definition proxies_EnabledWebByDomainID :: "DB \<Rightarrow> string \<Rightarrow> Proxy list" where
  "proxies_EnabledWebByDomainID db domainID =
     sql_list (\<lambda>p. Proxy_DomainID p = domainID \<and> Proxy_Status p = ProxyEnabled \<and> Proxy_Type p = ProxyWeb)
       proxy_by_path (db_proxies db)"

definition proxies_ByDomainAndPath :: "DB \<Rightarrow> string \<Rightarrow> string \<Rightarrow> Proxy result" where
  "proxies_ByDomainAndPath db domainID path =
     (case SelectWebProxy (proxies_EnabledWebByDomainID db domainID) path of
        None \<Rightarrow> Inl ErrNotFound
      | Some selected \<Rightarrow> Inr selected)"

definition proxies_EnabledByType :: "DB \<Rightarrow> ProxyType \<Rightarrow> Proxy list" where
  "proxies_EnabledByType db proxyType =
     sql_list (\<lambda>p. Proxy_Type p = proxyType \<and> Proxy_Status p = ProxyEnabled) proxy_created (db_proxies db)"

definition entry_exact :: "string \<Rightarrow> int \<Rightarrow> Proxy \<Rightarrow> bool" where
  "entry_exact bindHost port p \<longleftrightarrow> to_lower (Proxy_EntryBindHost p) = to_lower bindHost \<and> Proxy_EntryPort p = port"

definition proxies_byEntry :: "DB \<Rightarrow> ProxyType \<Rightarrow> string \<Rightarrow> int \<Rightarrow> bool \<Rightarrow> Proxy result" where
  "proxies_byEntry db proxyType bindHost port includeDefault =
     (let hits = filter (\<lambda>p. Proxy_Type p = proxyType
                   \<and> (entry_exact (NormalizeBindHost bindHost) port p
                      \<or> (includeDefault \<and> Proxy_EntryBindHost p = [] \<and> Proxy_EntryPort p = port)))
                 (db_proxies db)
      in case sort_key (\<lambda>p. if entry_exact bindHost port p then 0 else 1 :: int) hits of
           [] \<Rightarrow> Inl ErrNotFound
         | p # _ \<Rightarrow> Inr p)"

definition proxies_ByTCPEntry :: "DB \<Rightarrow> string \<Rightarrow> int \<Rightarrow> bool \<Rightarrow> Proxy result" where
  "proxies_ByTCPEntry db bindHost port includeDefault =
     proxies_byEntry db ProxyTCP (NormalizeBindHost bindHost) port includeDefault"

definition proxies_ByUDPEntry :: "DB \<Rightarrow> string \<Rightarrow> int \<Rightarrow> bool \<Rightarrow> Proxy result" where
  "proxies_ByUDPEntry db bindHost port includeDefault =
     proxies_byEntry db ProxyUDP (NormalizeBindHost bindHost) port includeDefault"

definition proxies_ByTCPEntryPort :: "DB \<Rightarrow> int \<Rightarrow> Proxy result" where
  "proxies_ByTCPEntryPort db port = proxies_ByTCPEntry db [] port True"

definition proxies_ByUDPEntryPort :: "DB \<Rightarrow> int \<Rightarrow> Proxy result" where
  "proxies_ByUDPEntryPort db port = proxies_ByUDPEntry db [] port True"

definition proxies_byDomainRoute :: "DB \<Rightarrow> DomainEntryProtocol \<Rightarrow> string \<Rightarrow> int \<Rightarrow> string \<Rightarrow> bool \<Rightarrow> Proxy result" where
  "proxies_byDomainRoute db protocol bindHost port host includeDefault =
     rbind (domainEntries_ByListener db protocol bindHost port host includeDefault) (\<lambda>(webDomain, _).
       proxies_ByDomainAndPath db (Dom_ID webDomain) ''/'')"

definition proxies_ByHTTPRoute :: "DB \<Rightarrow> string \<Rightarrow> int \<Rightarrow> string \<Rightarrow> bool \<Rightarrow> Proxy result" where
  "proxies_ByHTTPRoute db bindHost port host includeDefault =
     proxies_byDomainRoute db DomainEntryHTTP (NormalizeBindHost bindHost) port (NormalizeRouteHost host) includeDefault"

definition proxies_ByHTTPSRoute :: "DB \<Rightarrow> string \<Rightarrow> int \<Rightarrow> string \<Rightarrow> bool \<Rightarrow> Proxy result" where
  "proxies_ByHTTPSRoute db bindHost port host includeDefault =
     proxies_byDomainRoute db DomainEntryHTTPS (NormalizeBindHost bindHost) port (NormalizeRouteHost host) includeDefault"

definition proxies_ByHTTPHost :: "DB \<Rightarrow> string \<Rightarrow> Proxy result" where
  "proxies_ByHTTPHost db host =
     rbind (sql_one (\<lambda>d. to_lower (Dom_Host d) = to_lower (NormalizeRouteHost host)) (db_domains db)) (\<lambda>d.
       proxies_ByDomainAndPath db (Dom_ID d) ''/'')"

definition proxies_ByHTTPSHost :: "DB \<Rightarrow> string \<Rightarrow> Proxy result" where
  "proxies_ByHTTPSHost db host = proxies_ByHTTPHost db host"

definition proxies_ByCertificateID :: "DB \<Rightarrow> string \<Rightarrow> Proxy result" where
  "proxies_ByCertificateID db certificateID =
     rbind (sql_one (\<lambda>d. Dom_CertificateID d = certificateID) (db_domains db)) (\<lambda>d.
       case proxies_ByDomainID db (Dom_ID d) of
         [] \<Rightarrow> Inl ErrNotFound
       | p # _ \<Rightarrow> Inr p)"

end
