(* ===== verification/AccessStore.thy ===== *)
theory AccessStore
  imports ProxyStore
begin

text \<open>
  The repositories of internal/store/sqlite for the access gate of a proxy (activation tokens and
  access credentials), the local allowlist, the statistics, the provider credentials and the audit
  events.
\<close>

section \<open>Access gate of a proxy\<close>

definition insert_token :: "ProxyActivationToken \<Rightarrow> (DB, unit) op" where
  "insert_token t db =
     sql_checked (\<not> sql_exists (\<lambda>r. Tok_ID r = Tok_ID t \<or> Tok_TokenHash r = Tok_TokenHash t) (db_tokens db)
                  \<and> has_proxy db (Tok_ProxyID t))
       (\<lambda>db. db \<lparr>db_tokens := db_tokens db @ [t]\<rparr>) db"

definition insert_credential :: "ProxyAccessCredential \<Rightarrow> (DB, unit) op" where
  "insert_credential c db =
     sql_checked (\<not> sql_exists (\<lambda>r. Cred_ID r = Cred_ID c \<or> Cred_SecretHash r = Cred_SecretHash c) (db_credentials db)
                  \<and> has_proxy db (Cred_ProxyID c))
       (\<lambda>db. db \<lparr>db_credentials := db_credentials db @ [c]\<rparr>) db"

definition set_proxy :: "string \<Rightarrow> (Proxy \<Rightarrow> Proxy) \<Rightarrow> (DB, unit) op" where
  "set_proxy i f = smodify (\<lambda>db. db \<lparr>db_proxies := sql_update (\<lambda>p. Proxy_ID p = i) f (db_proxies db)\<rparr>)"

definition access_EnableAuthAndCreateActivation :: "time \<Rightarrow> string \<Rightarrow> int \<Rightarrow> ProxyActivationToken \<Rightarrow> (DB, unit) op" where
  "access_EnableAuthAndCreateActivation now proxyID authVersion token =
     stx (sbind (set_proxy proxyID (\<lambda>p. p \<lparr>Proxy_AccessAuthEnabled := True,
                   Proxy_AccessAuthVersion := authVersion, Proxy_UpdatedAt := now\<rparr>)) (\<lambda>_.
          insert_token (token \<lparr>Tok_CreatedAt := or_now now (Tok_CreatedAt token)\<rparr>)))"

definition access_CreateActivationToken :: "time \<Rightarrow> ProxyActivationToken \<Rightarrow> (DB, unit) op" where
  "access_CreateActivationToken now token =
     (if Tok_ID token = [] \<or> Tok_ProxyID token = [] \<or> Tok_TokenHash token = [] \<or> IsZero (Tok_ExpiresAt token)
      then sfail (New ''activation token fields are required'')
      else insert_token (token \<lparr>Tok_CreatedAt := or_now now (Tok_CreatedAt token)\<rparr>))"

definition access_ActivationToken :: "DB \<Rightarrow> string \<Rightarrow> string \<Rightarrow> time \<Rightarrow> ProxyActivationToken result" where
  "access_ActivationToken db proxyID tokenHash now =
     sql_one (\<lambda>t. Tok_ProxyID t = proxyID \<and> Tok_TokenHash t = tokenHash \<and> Tok_ExpiresAt t > now
                \<and> Tok_UsedAt t = None) (db_tokens db)"

definition access_ActivationTokenByHash :: "DB \<Rightarrow> string \<Rightarrow> time \<Rightarrow> ProxyActivationToken result" where
  "access_ActivationTokenByHash db tokenHash now =
     sql_one (\<lambda>t. Tok_TokenHash t = tokenHash \<and> Tok_ExpiresAt t > now \<and> Tok_UsedAt t = None) (db_tokens db)"

definition redeemable :: "string \<Rightarrow> time \<Rightarrow> ProxyActivationToken \<Rightarrow> bool" where
  "redeemable tokenID now t \<longleftrightarrow> Tok_ID t = tokenID \<and> Tok_UsedAt t = None \<and> Tok_ExpiresAt t > now"

definition access_RedeemActivationToken ::
    "string \<Rightarrow> string \<Rightarrow> ProxyAccessCredential \<Rightarrow> time \<Rightarrow> (DB, unit) op" where
  "access_RedeemActivationToken tokenID secretHash credential now =
     stx (sbind (sget (\<lambda>db. sql_affected (redeemable tokenID now) (db_tokens db))) (\<lambda>affected.
          sbind (smodify (\<lambda>db. db \<lparr>db_tokens :=
                   sql_update (redeemable tokenID now) (\<lambda>t. t \<lparr>Tok_UsedAt := Some now\<rparr>) (db_tokens db)\<rparr>)) (\<lambda>_.
          if affected \<noteq> 1 then sfail ErrConflict
          else insert_credential (credential \<lparr>Cred_CreatedAt := or_now now (Cred_CreatedAt credential),
                                              Cred_SecretHash := secretHash\<rparr>))))"

definition credential_matches :: "string \<Rightarrow> int \<Rightarrow> string \<Rightarrow> ProxyAccessCredential \<Rightarrow> bool" where
  "credential_matches proxyID authVersion secretHash c \<longleftrightarrow>
     Cred_ProxyID c = proxyID \<and> Cred_AuthVersion c = authVersion \<and> Cred_SecretHash c = secretHash"

definition access_ValidateAccessCredential :: "string \<Rightarrow> int \<Rightarrow> string \<Rightarrow> time \<Rightarrow> (DB, unit) op" where
  "access_ValidateAccessCredential proxyID authVersion secretHash now db =
     (let P = credential_matches proxyID authVersion secretHash in
      (resultError (sql_affected P (db_credentials db)),
       db \<lparr>db_credentials := sql_update P (\<lambda>c. c \<lparr>Cred_LastUsedAt := Some now\<rparr>) (db_credentials db)\<rparr>))"

definition access_rewriteAccessState :: "time \<Rightarrow> string \<Rightarrow> int \<Rightarrow> bool option \<Rightarrow> (DB, unit) op" where
  "access_rewriteAccessState now proxyID nextVersion enabled =
     stx (sbind (case enabled of
                   None \<Rightarrow> set_proxy proxyID (\<lambda>p. p \<lparr>Proxy_AccessAuthVersion := nextVersion, Proxy_UpdatedAt := now\<rparr>)
                 | Some e \<Rightarrow> set_proxy proxyID (\<lambda>p. p \<lparr>Proxy_AccessAuthEnabled := e,
                               Proxy_AccessAuthVersion := nextVersion, Proxy_UpdatedAt := now\<rparr>)) (\<lambda>_.
          sbind (smodify (\<lambda>db. db \<lparr>db_tokens := sql_delete (\<lambda>t. Tok_ProxyID t = proxyID) (db_tokens db)\<rparr>)) (\<lambda>_.
          smodify (\<lambda>db. db \<lparr>db_credentials := sql_delete (\<lambda>c. Cred_ProxyID c = proxyID) (db_credentials db)\<rparr>))))"

definition access_RevokeAllAccess :: "time \<Rightarrow> string \<Rightarrow> int \<Rightarrow> (DB, unit) op" where
  "access_RevokeAllAccess now proxyID nextVersion = access_rewriteAccessState now proxyID nextVersion None"

definition access_DisableAuth :: "time \<Rightarrow> string \<Rightarrow> int \<Rightarrow> (DB, unit) op" where
  "access_DisableAuth now proxyID nextVersion = access_rewriteAccessState now proxyID nextVersion (Some False)"

section \<open>Local allowlist\<close>

definition DefaultAllowlist :: "AllowlistEntry list" where
  "DefaultAllowlist = [\<lparr>Allow_CIDR = ''127.0.0.1/32'', Allow_PortStart = 0, Allow_PortEnd = 0\<rparr>,
                       \<lparr>Allow_CIDR = ''::1/128'', Allow_PortStart = 0, Allow_PortEnd = 0\<rparr>]"

text \<open>The primary key and the check of the table local_target_allowlist.\<close>

definition allowlist_check :: "AllowlistEntry \<Rightarrow> bool" where
  "allowlist_check e \<longleftrightarrow>
     (Allow_PortStart e = 0 \<and> Allow_PortEnd e = 0) \<or>
     (1 \<le> Allow_PortStart e \<and> Allow_PortStart e \<le> 65535 \<and>
      Allow_PortStart e \<le> Allow_PortEnd e \<and> Allow_PortEnd e \<le> 65535)"

definition insert_allowlist :: "AllowlistEntry \<Rightarrow> (DB, unit) op" where
  "insert_allowlist e db =
     sql_checked (e \<notin> set (db_allowlist db) \<and> allowlist_check e)
       (\<lambda>db. db \<lparr>db_allowlist := db_allowlist db @ [e]\<rparr>) db"

definition allowlist_List :: "DB \<Rightarrow> AllowlistEntry list" where
  "allowlist_List db =
     sql_list (\<lambda>_. True) (\<lambda>e. (Allow_CIDR e, Allow_PortStart e, Allow_PortEnd e)) (db_allowlist db)"

definition allowlist_Replace :: "AllowlistEntry list \<Rightarrow> (DB, unit) op" where
  "allowlist_Replace entries =
     (if entries = [] then sfail (New ''local target allowlist must not be empty'')
      else stx (sbind (smodify (\<lambda>db. db \<lparr>db_allowlist := []\<rparr>)) (\<lambda>_. sfor insert_allowlist entries)))"

definition ensureLocalAllowlistDefaults :: "(DB, unit) op" where
  "ensureLocalAllowlistDefaults =
     stx (sbind (sget (\<lambda>db. length (db_allowlist db))) (\<lambda>count.
          if count > 0 then sret () else sfor insert_allowlist DefaultAllowlist))"

section \<open>Statistics\<close>

definition upsert_stats :: "StoreProxyStats \<Rightarrow> (DB, unit) op" where
  "upsert_stats snapshot db =
     sql_checked (has_proxy db (SS_ProxyID snapshot))
       (\<lambda>db. db \<lparr>db_stats :=
          (if sql_exists (\<lambda>s. SS_ProxyID s = SS_ProxyID snapshot) (db_stats db)
           then sql_update (\<lambda>s. SS_ProxyID s = SS_ProxyID snapshot) (\<lambda>_. snapshot) (db_stats db)
           else db_stats db @ [snapshot])\<rparr>) db"

definition stats_Save :: "StoreProxyStats list \<Rightarrow> (DB, unit) op" where
  "stats_Save snapshots = stx (sfor upsert_stats snapshots)"

definition stats_List :: "DB \<Rightarrow> StoreProxyStats list" where
  "stats_List db = sql_list (\<lambda>_. True) SS_ProxyID (db_stats db)"

section \<open>Provider credentials\<close>

definition insert_provider_credential :: "ProviderCredential \<Rightarrow> (DB, unit) op" where
  "insert_provider_credential c db =
     sql_checked (\<not> sql_exists (\<lambda>r. PCred_ID r = PCred_ID c) (db_provider_credentials db))
       (\<lambda>db. db \<lparr>db_provider_credentials := db_provider_credentials db @ [c]\<rparr>) db"

definition pcreds_Create :: "time \<Rightarrow> ProviderCredential \<Rightarrow> (DB, unit) op" where
  "pcreds_Create now credential =
     sbind (slift (providerCredential_Validate credential)) (\<lambda>_.
       insert_provider_credential (credential \<lparr>PCred_CreatedAt := or_now now (PCred_CreatedAt credential),
         PCred_UpdatedAt := or_now now (PCred_UpdatedAt credential)\<rparr>))"

definition pcreds_ByID :: "DB \<Rightarrow> string \<Rightarrow> ProviderCredential result" where
  "pcreds_ByID db i = sql_one (\<lambda>c. PCred_ID c = i) (db_provider_credentials db)"

definition pcreds_List :: "DB \<Rightarrow> ProviderCredential list" where
  "pcreds_List db = sql_list (\<lambda>_. True) (\<lambda>c. (PCred_CreatedAt c, PCred_ID c)) (db_provider_credentials db)"

definition pcreds_ListByProviderType ::
    "DB \<Rightarrow> CertificateProviderType \<Rightarrow> ProviderCredentialStatus list \<Rightarrow> ProviderCredential list result" where
  "pcreds_ListByProviderType db ptype statuses =
     (let providerType = trim_space ptype in
      if \<not> certificateProviderType_Valid providerType then Inl (New ''provider credential type is invalid'')
      else if list_ex (\<lambda>s. \<not> providerCredentialStatus_Valid s) statuses
      then Inl (New ''provider credential status is invalid'')
      else Inr (sql_list (\<lambda>c. PCred_ProviderType c = providerType \<and> (statuses = [] \<or> PCred_Status c \<in> set statuses))
                  (\<lambda>c. (PCred_CreatedAt c, PCred_ID c)) (db_provider_credentials db)))"

definition update_pcred :: "string \<Rightarrow> (ProviderCredential \<Rightarrow> ProviderCredential) \<Rightarrow> (DB, unit) op" where
  "update_pcred i f db =
     (resultError (sql_affected (\<lambda>c. PCred_ID c = i) (db_provider_credentials db)),
      db \<lparr>db_provider_credentials := sql_update (\<lambda>c. PCred_ID c = i) f (db_provider_credentials db)\<rparr>)"

definition pcreds_Update :: "time \<Rightarrow> ProviderCredential \<Rightarrow> (DB, unit) op" where
  "pcreds_Update now credential =
     sbind (slift (providerCredential_Validate credential)) (\<lambda>_.
       update_pcred (PCred_ID credential) (\<lambda>c. c \<lparr>PCred_Name := PCred_Name credential,
         PCred_ProviderType := PCred_ProviderType credential, PCred_Scope := PCred_Scope credential,
         PCred_TokenFingerprint := PCred_TokenFingerprint credential, PCred_SecretRef := PCred_SecretRef credential,
         PCred_Status := PCred_Status credential, PCred_LastVerifiedAt := PCred_LastVerifiedAt credential,
         PCred_LastError := PCred_LastError credential,
         PCred_UpdatedAt := or_now now (PCred_UpdatedAt credential)\<rparr>))"

definition pcreds_SetStatus :: "time \<Rightarrow> string \<Rightarrow> ProviderCredentialStatus \<Rightarrow> time option \<Rightarrow> string \<Rightarrow> (DB, unit) op" where
  "pcreds_SetStatus now i status lastVerifiedAt lastError =
     update_pcred i (\<lambda>c. c \<lparr>PCred_Status := status, PCred_LastVerifiedAt := lastVerifiedAt,
       PCred_LastError := lastError, PCred_UpdatedAt := now\<rparr>)"

definition pcreds_Delete :: "string \<Rightarrow> (DB, unit) op" where
  "pcreds_Delete i db =
     (resultError (sql_affected (\<lambda>c. PCred_ID c = i) (db_provider_credentials db)),
      db \<lparr>db_provider_credentials := sql_delete (\<lambda>c. PCred_ID c = i) (db_provider_credentials db)\<rparr>)"

section \<open>Audit events\<close>

definition insert_audit :: "AuditEvent \<Rightarrow> (DB, unit) op" where
  "insert_audit e db =
     sql_checked (\<not> sql_exists (\<lambda>r. Audit_ID r = Audit_ID e) (db_audit_events db))
       (\<lambda>db. db \<lparr>db_audit_events := db_audit_events db @ [e]\<rparr>) db"

definition audit_Create :: "time \<Rightarrow> AuditEvent \<Rightarrow> (DB, unit) op" where
  "audit_Create now event =
     (if blank (Audit_ID event) then sfail (New ''audit event id is required'')
      else insert_audit (event \<lparr>Audit_CreatedAt := or_now now (Audit_CreatedAt event)\<rparr>))"

definition audit_ListRecent :: "DB \<Rightarrow> int \<Rightarrow> AuditEvent list" where
  "audit_ListRecent db limit =
     take (nat (if limit \<le> 0 then 50 else limit))
       (rev (sql_list (\<lambda>_. True) (\<lambda>e. (Audit_CreatedAt e, Audit_ID e)) (db_audit_events db)))"

end
