(* ===== verification/CertStore.thy ===== *)
theory CertStore
  imports ProxyStore
begin

text \<open>
  The repository of managed certificates in internal/store/sqlite. The column hostnames holds a
  JSON array: the model keeps the list that encodeStringList writes and decodeStringList reads back.
\<close>

record CertificateSuccess =
  CS_CertFile :: string
  CS_KeyFile :: string
  CS_PreviousCertFile :: string
  CS_PreviousKeyFile :: string
  CS_NotAfter :: time
  CS_ServingStatus :: CertificateServingStatus
  CS_ProviderStatus :: CertificateProviderStatus
  CS_ProviderType :: CertificateProviderType
  CS_ProviderName :: string
  CS_CredentialID :: string
  CS_CloudflareID :: string
  CS_PreviousCloudflareID :: string
  CS_Hostnames :: "string list option"
  CS_RequestType :: string
  CS_RequestedValidity :: int
  CS_Fingerprint :: string
  CS_LastCheckedAt :: time
  CS_LastAttemptedAt :: time
  CS_LastSyncedAt :: "time option"
  CS_CompletedAt :: time

record CertificateFailure =
  CF_Status :: CertificateStatus
  CF_ServingStatus :: CertificateServingStatus
  CF_OperationStatus :: CertificateOperationStatus
  CF_ProviderStatus :: CertificateProviderStatus
  CF_LastError :: string
  CF_LastCheckedAt :: time
  CF_LastAttemptedAt :: time
  CF_LastSyncedAt :: "time option"
  CF_NextAttemptAt :: "time option"
  CF_FailureCount :: int
  CF_CompletedAt :: time

record CertificateHealth =
  CH_ServingStatus :: CertificateServingStatus
  CH_NotAfter :: "time option"
  CH_Fingerprint :: string
  CH_LastError :: string
  CH_CheckedAt :: time

record CertificateProviderSync =
  CPS_ProviderStatus :: CertificateProviderStatus
  CPS_LastError :: string
  CPS_SyncedAt :: time
  CPS_UpdatedAt :: time

record CertificateLifecycleCandidateQuery =
  CQ_Now :: time
  CQ_ACMEBefore :: "time option"
  CQ_OriginCABefore :: "time option"

section \<open>Derived statuses and defaults\<close>

definition servingStatusFromLegacyStatus :: "ManagedCertificate \<Rightarrow> CertificateServingStatus" where
  "servingStatusFromLegacyStatus c =
     (if Cert_CertFile c = [] \<or> Cert_KeyFile c = [] then CertificateServingMissing
      else if Cert_Status c = CertificateValid then CertificateServingUsable
      else if Cert_Status c = CertificateExpiringSoon then CertificateServingExpiringSoon
      else if Cert_Status c = CertificateExpired then CertificateServingExpired
      else CertificateServingMissing)"

definition operationStatusFromCertificateStatus :: "CertificateStatus \<Rightarrow> CertificateOperationStatus" where
  "operationStatusFromCertificateStatus status =
     (if status = CertificateIssueFailed then CertificateOperationIssueFailed
      else if status = CertificateRenewalFailed then CertificateOperationRenewalFailed
      else CertificateOperationIdle)"

definition certificateStatusFromServing :: "CertificateServingStatus \<Rightarrow> CertificateStatus" where
  "certificateStatusFromServing status =
     (if status = CertificateServingUsable then CertificateValid
      else if status = CertificateServingExpiringSoon then CertificateExpiringSoon
      else if status = CertificateServingExpired then CertificateExpired
      else CertificatePending)"

definition or_default :: "string \<Rightarrow> string \<Rightarrow> string" where
  "or_default s dflt = (if s = [] then dflt else s)"

definition applyManagedCertificateDefaults :: "ManagedCertificate \<Rightarrow> ManagedCertificate" where
  "applyManagedCertificateDefaults c0 =
     (let c1 = c0 \<lparr>Cert_ProviderName := or_default (Cert_ProviderName c0) (Cert_Provider c0)\<rparr>;
          c2 = c1 \<lparr>Cert_ProviderType := or_default (Cert_ProviderType c1) CertificateProviderACMEDNS01\<rparr>;
          c3 = c2 \<lparr>Cert_Provider := or_default (Cert_Provider c2) (Cert_ProviderName c2)\<rparr>;
          c4 = c3 \<lparr>Cert_ProviderName := or_default (Cert_ProviderName c3) (Cert_Provider c3)\<rparr>;
          c5 = c4 \<lparr>Cert_ProviderStatus := or_default (Cert_ProviderStatus c4) CertificateProviderStatusUnknown\<rparr>;
          c6 = c5 \<lparr>Cert_ServingStatus := or_default (Cert_ServingStatus c5) (servingStatusFromLegacyStatus c5)\<rparr>;
          c7 = c6 \<lparr>Cert_OperationStatus :=
                     or_default (Cert_OperationStatus c6) (operationStatusFromCertificateStatus (Cert_Status c6))\<rparr>
      in c7 \<lparr>Cert_Fingerprint := to_lower (Cert_Fingerprint c7)\<rparr>)"

definition encodeStringList :: "string list \<Rightarrow> string list" where
  "encodeStringList values = filter (\<lambda>v. v \<noteq> []) (map trim_space values)"

definition providerStatusError :: "CertificateProviderStatus \<Rightarrow> string" where
  "providerStatusError status =
     (if status = CertificateProviderStatusRevoked then ''certificate provider marked active material revoked''
      else if status = CertificateProviderStatusMissingRemote
      then ''certificate provider active material is missing remotely''
      else [])"

fun compact_loop :: "string list \<Rightarrow> string list \<Rightarrow> string list" where
  "compact_loop seen [] = []"
| "compact_loop seen (v # vs) =
     (let value = trim_space v in
      if value = [] \<or> value \<in> set seen then compact_loop seen vs
      else value # compact_loop (value # seen) vs)"

definition compactStrings :: "string list \<Rightarrow> string list" where
  "compactStrings values = compact_loop [] values"

section \<open>Reading\<close>

definition certs_ByID :: "DB \<Rightarrow> string \<Rightarrow> ManagedCertificate result" where
  "certs_ByID db i = map_sum id applyManagedCertificateDefaults (sql_one (\<lambda>c. Cert_ID c = i) (db_certificates db))"

definition certs_ByProxyID :: "DB \<Rightarrow> string \<Rightarrow> ManagedCertificate result" where
  "certs_ByProxyID db proxyID =
     map_sum id applyManagedCertificateDefaults (sql_one (\<lambda>c. Cert_ProxyID c = proxyID) (db_certificates db))"

definition certs_ByHost :: "DB \<Rightarrow> string \<Rightarrow> ManagedCertificate result" where
  "certs_ByHost db host =
     map_sum id applyManagedCertificateDefaults
       (sql_one (\<lambda>c. to_lower (Cert_Host c) = to_lower host) (db_certificates db))"

definition cert_by_host :: "ManagedCertificate \<Rightarrow> string \<times> string" where
  "cert_by_host c = (Cert_Host c, Cert_ID c)"

definition certs_List :: "DB \<Rightarrow> ManagedCertificate list" where
  "certs_List db = map applyManagedCertificateDefaults (sql_list (\<lambda>_. True) cert_by_host (db_certificates db))"

definition certs_ListByProxyIDs :: "DB \<Rightarrow> string list \<Rightarrow> ManagedCertificate list" where
  "certs_ListByProxyIDs db proxyIDs =
     (let ids = compactStrings proxyIDs in
      if ids = [] then []
      else map applyManagedCertificateDefaults
             (sql_list (\<lambda>c. Cert_ProxyID c \<in> set ids) cert_by_host (db_certificates db)))"

definition lifecycle_candidate :: "CertificateLifecycleCandidateQuery \<Rightarrow> time \<Rightarrow> ManagedCertificate \<Rightarrow> bool" where
  "lifecycle_candidate q now c \<longleftrightarrow>
     (case Cert_NotAfter c of
        None \<Rightarrow> False
      | Some notAfter \<Rightarrow>
          (case Cert_NextAttemptAt c of None \<Rightarrow> True | Some next \<Rightarrow> next \<le> now)
          \<and> (Cert_ServingStatus c \<in> set [CertificateServingUsable, CertificateServingExpiringSoon]
             \<or> (Cert_ServingStatus c = [] \<and> Cert_Status c \<in> set [CertificateValid, CertificateExpiringSoon]))
          \<and> ((case CQ_ACMEBefore q of None \<Rightarrow> False
               | Some t \<Rightarrow> Cert_ProviderType c \<noteq> CertificateProviderCloudflareOriginCA \<and> notAfter \<le> t)
             \<or> (case CQ_OriginCABefore q of None \<Rightarrow> False
               | Some t \<Rightarrow> Cert_ProviderType c = CertificateProviderCloudflareOriginCA \<and> notAfter \<le> t)))"

definition certs_ListLifecycleCandidates ::
    "time \<Rightarrow> DB \<Rightarrow> CertificateLifecycleCandidateQuery \<Rightarrow> ManagedCertificate list" where
  "certs_ListLifecycleCandidates clock db q =
     (let now = or_now clock (CQ_Now q) in
      if CQ_ACMEBefore q = None \<and> CQ_OriginCABefore q = None then []
      else map applyManagedCertificateDefaults
             (sql_list (lifecycle_candidate q now)
                (\<lambda>c. ((case Cert_NotAfter c of Some t \<Rightarrow> t | None \<Rightarrow> 0), Cert_Host c)) (db_certificates db)))"

definition certs_ListRenewable :: "time \<Rightarrow> DB \<Rightarrow> time \<Rightarrow> time \<Rightarrow> ManagedCertificate list" where
  "certs_ListRenewable clock db deadline now =
     certs_ListLifecycleCandidates clock db
       \<lparr>CQ_Now = or_now clock now, CQ_ACMEBefore = Some deadline, CQ_OriginCABefore = Some deadline\<rparr>"

section \<open>Writing\<close>

definition certs_Create :: "time \<Rightarrow> ManagedCertificate \<Rightarrow> (DB, unit) op" where
  "certs_Create now input =
     (let c = applyManagedCertificateDefaults input in
      sbind (slift (managedCertificate_Validate c)) (\<lambda>_.
        insert_certificate (c \<lparr>Cert_CreatedAt := or_now now (Cert_CreatedAt c),
          Cert_UpdatedAt := or_now now (Cert_UpdatedAt c),
          Cert_Hostnames := encodeStringList (Cert_Hostnames c)\<rparr>)))"

definition certs_Delete :: "string \<Rightarrow> (DB, unit) op" where
  "certs_Delete i db =
     (resultError (sql_affected (\<lambda>c. Cert_ID c = i) (db_certificates db)),
      db \<lparr>db_certificates := sql_delete (\<lambda>c. Cert_ID c = i) (db_certificates db)\<rparr>)"

definition update_cert :: "string \<Rightarrow> (ManagedCertificate \<Rightarrow> ManagedCertificate) \<Rightarrow> (DB, unit) op" where
  "update_cert i f db =
     (resultError (sql_affected (\<lambda>c. Cert_ID c = i) (db_certificates db)),
      db \<lparr>db_certificates := sql_update (\<lambda>c. Cert_ID c = i) f (db_certificates db)\<rparr>)"

text \<open>The optional assignments of the update statements, in the order they are appended.\<close>

definition success_optional :: "CertificateSuccess \<Rightarrow> time \<Rightarrow> ManagedCertificate \<Rightarrow> ManagedCertificate" where
  "success_optional r completedAt c0 =
     (let c1 = (if CS_ProviderStatus r \<noteq> [] then c0 \<lparr>Cert_ProviderStatus := CS_ProviderStatus r\<rparr> else c0);
          c2 = (if CS_ProviderType r \<noteq> [] then c1 \<lparr>Cert_ProviderType := CS_ProviderType r\<rparr> else c1);
          c3 = (if CS_ProviderName r \<noteq> []
                then c2 \<lparr>Cert_ProviderName := CS_ProviderName r, Cert_Provider := CS_ProviderName r\<rparr> else c2);
          c4 = (if CS_CredentialID r \<noteq> [] then c3 \<lparr>Cert_CredentialID := CS_CredentialID r\<rparr> else c3);
          c5 = (if CS_CloudflareID r \<noteq> [] then c4 \<lparr>Cert_CloudflareCertificateID := CS_CloudflareID r\<rparr> else c4);
          c6 = (if CS_PreviousCloudflareID r \<noteq> []
                then c5 \<lparr>Cert_PreviousCloudflareCertificateID := CS_PreviousCloudflareID r\<rparr> else c5);
          c7 = (case CS_Hostnames r of None \<Rightarrow> c6 | Some hs \<Rightarrow> c6 \<lparr>Cert_Hostnames := encodeStringList hs\<rparr>);
          c8 = (if CS_RequestType r \<noteq> [] then c7 \<lparr>Cert_RequestType := CS_RequestType r\<rparr> else c7);
          c9 = (if CS_RequestedValidity r > 0 then c8 \<lparr>Cert_RequestedValidity := CS_RequestedValidity r\<rparr> else c8);
          c10 = (case CS_LastSyncedAt r of None \<Rightarrow> c9 | Some t \<Rightarrow> c9 \<lparr>Cert_LastSyncedAt := Some t\<rparr>)
      in if CS_PreviousCertFile r = [] \<and> CS_PreviousKeyFile r = []
         then c10 \<lparr>Cert_LastIssuedAt := Some completedAt\<rparr>
         else c10 \<lparr>Cert_LastRenewedAt := Some completedAt\<rparr>)"

definition success_row :: "time \<Rightarrow> CertificateSuccess \<Rightarrow> ManagedCertificate \<Rightarrow> ManagedCertificate" where
  "success_row clock r c =
     (let completedAt = or_now clock (CS_CompletedAt r);
          servingStatus = or_default (CS_ServingStatus r) CertificateServingUsable;
          lastCheckedAt = or_now completedAt (CS_LastCheckedAt r);
          lastAttemptedAt = or_now completedAt (CS_LastAttemptedAt r)
      in success_optional r completedAt
           (c \<lparr>Cert_Status := certificateStatusFromServing servingStatus, Cert_ServingStatus := servingStatus,
              Cert_OperationStatus := CertificateOperationIdle, Cert_CertFile := CS_CertFile r,
              Cert_KeyFile := CS_KeyFile r, Cert_PreviousCertFile := CS_PreviousCertFile r,
              Cert_PreviousKeyFile := CS_PreviousKeyFile r, Cert_NotAfter := Some (CS_NotAfter r),
              Cert_LastCheckedAt := Some lastCheckedAt, Cert_LastAttemptedAt := Some lastAttemptedAt,
              Cert_NextAttemptAt := None, Cert_FailureCount := 0,
              Cert_Fingerprint := to_lower (CS_Fingerprint r), Cert_LastError := [],
              Cert_UpdatedAt := completedAt\<rparr>))"

definition certs_UpdateSuccess :: "time \<Rightarrow> string \<Rightarrow> CertificateSuccess \<Rightarrow> (DB, unit) op" where
  "certs_UpdateSuccess clock i r = update_cert i (success_row clock r)"

definition failure_row :: "time \<Rightarrow> CertificateFailure \<Rightarrow> ManagedCertificate \<Rightarrow> ManagedCertificate" where
  "failure_row clock failure c0 =
     (let completedAt = or_now clock (CF_CompletedAt failure);
          status = or_default (CF_Status failure) CertificateIssueFailed;
          operationStatus = or_default (CF_OperationStatus failure) (operationStatusFromCertificateStatus status);
          lastAttemptedAt = or_now completedAt (CF_LastAttemptedAt failure);
          c1 = c0 \<lparr>Cert_Status := status, Cert_OperationStatus := operationStatus,
                   Cert_LastError := CF_LastError failure, Cert_LastAttemptedAt := Some lastAttemptedAt,
                   Cert_NextAttemptAt := CF_NextAttemptAt failure,
                   Cert_FailureCount := (if CF_FailureCount failure > 0 then CF_FailureCount failure
                                         else Cert_FailureCount c0 + 1),
                   Cert_UpdatedAt := completedAt\<rparr>;
          c2 = (if CF_ServingStatus failure \<noteq> [] then c1 \<lparr>Cert_ServingStatus := CF_ServingStatus failure\<rparr> else c1);
          c3 = (if CF_ProviderStatus failure \<noteq> [] then c2 \<lparr>Cert_ProviderStatus := CF_ProviderStatus failure\<rparr> else c2);
          c4 = (if \<not> IsZero (CF_LastCheckedAt failure)
                then c3 \<lparr>Cert_LastCheckedAt := Some (CF_LastCheckedAt failure)\<rparr> else c3)
      in case CF_LastSyncedAt failure of None \<Rightarrow> c4 | Some t \<Rightarrow> c4 \<lparr>Cert_LastSyncedAt := Some t\<rparr>)"

definition certs_UpdateFailure :: "time \<Rightarrow> string \<Rightarrow> CertificateFailure \<Rightarrow> (DB, unit) op" where
  "certs_UpdateFailure clock i failure = update_cert i (failure_row clock failure)"

definition failed_status :: "CertificateStatus \<Rightarrow> bool" where
  "failed_status s \<longleftrightarrow> s \<in> set [CertificateIssueFailed, CertificateRenewalFailed]"

definition health_row :: "time \<Rightarrow> CertificateHealth \<Rightarrow> ManagedCertificate \<Rightarrow> ManagedCertificate" where
  "health_row clock health c =
     (let checkedAt = or_now clock (CH_CheckedAt health);
          servingStatus = or_default (CH_ServingStatus health) CertificateServingInvalid
      in c \<lparr>Cert_Status := (if failed_status (Cert_Status c) then Cert_Status c
                           else certificateStatusFromServing servingStatus),
           Cert_ServingStatus := servingStatus, Cert_NotAfter := CH_NotAfter health,
           Cert_Fingerprint := to_lower (CH_Fingerprint health),
           Cert_LastError := (if failed_status (Cert_Status c) then Cert_LastError c else CH_LastError health),
           Cert_LastCheckedAt := Some checkedAt, Cert_UpdatedAt := checkedAt\<rparr>)"

definition certs_UpdateHealth :: "time \<Rightarrow> string \<Rightarrow> CertificateHealth \<Rightarrow> (DB, unit) op" where
  "certs_UpdateHealth clock i health = update_cert i (health_row clock health)"

definition sync_row :: "time \<Rightarrow> CertificateProviderSync \<Rightarrow> ManagedCertificate \<Rightarrow> ManagedCertificate" where
  "sync_row clock sync c =
     (let syncedAt = or_now clock (CPS_SyncedAt sync);
          updatedAt = or_now syncedAt (CPS_UpdatedAt sync);
          status = or_default (CPS_ProviderStatus sync) CertificateProviderStatusUnknown;
          lastError = or_default (CPS_LastError sync) (providerStatusError status)
      in c \<lparr>Cert_ProviderStatus := status, Cert_LastSyncedAt := Some syncedAt,
           Cert_LastError := (if lastError \<noteq> [] then lastError
                              else if failed_status (Cert_Status c) then Cert_LastError c else []),
           Cert_UpdatedAt := updatedAt\<rparr>)"

definition certs_UpdateProviderSync :: "time \<Rightarrow> string \<Rightarrow> CertificateProviderSync \<Rightarrow> (DB, unit) op" where
  "certs_UpdateProviderSync clock i sync = update_cert i (sync_row clock sync)"

end
