(* ===== verification/StoreInv.thy ===== *)
theory StoreInv
  imports AccessStore CertStore
begin

text \<open>
  Integrity of the database: every method of every repository keeps the primary keys and unique
  columns distinct and every reference to an existing row, also when it fails half way.
\<close>

definition db_ok :: "DB \<Rightarrow> bool" where
  "db_ok db \<longleftrightarrow> keys_unique db \<and> refs_ok db"

section \<open>Statements and distinct keys\<close>

lemma map_key_update: "(\<And>r. key (f r) = key r) \<Longrightarrow> map key (sql_update P f rows) = map key rows"
  by (simp add: sql_update_def)

lemma exists_key_iff: "sql_exists (\<lambda>r. key r = i) rows \<longleftrightarrow> i \<in> key ` set rows"
  by (auto simp: sql_exists_def list_ex_iff)

lemma key_set_update: "(\<And>r. key (f r) = key r) \<Longrightarrow> key ` set (sql_update P f rows) = key ` set rows"
  using map_key_update [of key f P rows] by (metis set_map)

lemma distinct_key_delete: "distinct (map key rows) \<Longrightarrow> distinct (map key (sql_delete P rows))"
  by (simp add: sql_delete_def distinct_map_filter)

lemma exists_append [simp]: "sql_exists P (rows @ [n]) \<longleftrightarrow> sql_exists P rows \<or> P n"
  by (auto simp: sql_exists_def)

lemma ball_update: "(\<forall>r \<in> set rows. Q r) \<Longrightarrow> (\<And>r. Q r \<Longrightarrow> P r \<Longrightarrow> Q (f r)) \<Longrightarrow> \<forall>r \<in> set (sql_update P f rows). Q r"
  by (auto simp: set_sql_update)

lemma sql_exists_disj: "sql_exists (\<lambda>r. P r \<or> Q r) rows \<longleftrightarrow> sql_exists P rows \<or> sql_exists Q rows"
  by (auto simp: sql_exists_def list_ex_iff)

lemmas has_defs = has_user_def has_client_def has_proxy_def has_domain_def

lemma keeps_checked: "(\<And>s. Q s \<Longrightarrow> P s \<Longrightarrow> P (f s)) \<Longrightarrow> keeps P (\<lambda>s. sql_checked (Q s) f s)"
  by (auto simp: keeps_def sql_checked_def)

section \<open>Inserts\<close>

lemma insert_keeps:
  "keeps db_ok (insert_user u)" "keeps db_ok (insert_client c)" "keeps db_ok (insert_enrollment e)"
  "keeps db_ok (insert_domain d)" "keeps db_ok (insert_domain_entry de)" "keeps db_ok (insert_proxy p)"
  "keeps db_ok (insert_token t)" "keeps db_ok (insert_credential cr)" "keeps db_ok (insert_certificate mc)"
  "keeps db_ok (insert_provider_credential pc)" "keeps db_ok (insert_audit a)" "keeps db_ok (insert_allowlist al)"
proof -
  note defs = db_ok_def keys_unique_def refs_ok_def has_defs sql_exists_disj exists_key_iff
  show "keeps db_ok (insert_user u)" unfolding insert_user_def
    by (rule keeps_checked) (simp add: defs)
  show "keeps db_ok (insert_client c)" unfolding insert_client_def
    by (rule keeps_checked) (simp add: defs)
  show "keeps db_ok (insert_enrollment e)" unfolding insert_enrollment_def
    by (rule keeps_checked) (simp add: defs)
  show "keeps db_ok (insert_domain d)" unfolding insert_domain_def domain_free_def
    by (rule keeps_checked) (simp add: defs)
  show "keeps db_ok (insert_domain_entry de)" unfolding insert_domain_entry_def
    by (rule keeps_checked) (simp add: defs)
  show "keeps db_ok (insert_proxy p)" unfolding insert_proxy_def
    by (rule keeps_checked) (simp add: defs)
  show "keeps db_ok (insert_token t)" unfolding insert_token_def
    by (rule keeps_checked) (simp add: defs)
  show "keeps db_ok (insert_credential cr)" unfolding insert_credential_def
    by (rule keeps_checked) (simp add: defs)
  show "keeps db_ok (insert_certificate mc)" unfolding insert_certificate_def
    by (rule keeps_checked) (simp add: defs)
  show "keeps db_ok (insert_provider_credential pc)" unfolding insert_provider_credential_def
    by (rule keeps_checked) (simp add: defs)
  show "keeps db_ok (insert_audit a)" unfolding insert_audit_def
    by (rule keeps_checked) (simp add: defs)
  show "keeps db_ok (insert_allowlist al)" unfolding insert_allowlist_def
    by (rule keeps_checked) (simp add: defs)
qed

section \<open>Updates in place\<close>

lemma refs_ok_images:
  "refs_ok db \<longleftrightarrow>
     Client_UserID ` set (db_clients db) \<subseteq> User_ID ` set (db_users db) \<and>
     Enr_ClientID ` set (db_enrollments db) \<subseteq> Client_ID ` set (db_clients db) \<and>
     Dom_UserID ` set (db_domains db) \<subseteq> User_ID ` set (db_users db) \<and>
     DEnt_DomainID ` set (db_domain_entries db) \<subseteq> Dom_ID ` set (db_domains db) \<and>
     Proxy_UserID ` set (db_proxies db) \<subseteq> User_ID ` set (db_users db) \<and>
     Proxy_ClientID ` set (db_proxies db) \<subseteq> Client_ID ` set (db_clients db) \<and>
     Tok_ProxyID ` set (db_tokens db) \<subseteq> Proxy_ID ` set (db_proxies db) \<and>
     Cred_ProxyID ` set (db_credentials db) \<subseteq> Proxy_ID ` set (db_proxies db) \<and>
     SS_ProxyID ` set (db_stats db) \<subseteq> Proxy_ID ` set (db_proxies db)"
  unfolding refs_ok_def has_defs exists_key_iff by (simp only: image_subset_iff ball_conj_distrib conj_assoc)

lemmas ok_images = db_ok_def keys_unique_def refs_ok_images key_set_update map_key_update

lemma update_user_keeps:
  "(\<And>u. User_ID (f u) = User_ID u \<and> User_Username (f u) = User_Username u) \<Longrightarrow> keeps db_ok (update_user i f)"
  by (simp add: keeps_def update_user_def ok_images)

lemma update_client_keeps:
  "(\<And>c. Client_ID (f c) = Client_ID c \<and> Client_UserID (f c) = Client_UserID c) \<Longrightarrow> keeps db_ok (update_client i f)"
  by (simp add: keeps_def update_client_def ok_images)

lemma update_proxy_keeps:
  assumes "\<And>p. Proxy_ID (f p) = Proxy_ID p \<and> Proxy_UserID (f p) = Proxy_UserID p \<and> Proxy_ClientID (f p) = Proxy_ClientID p"
  shows "keeps db_ok (update_proxy i f)" and "keeps db_ok (set_proxy i f)"
  using assms by (simp_all add: keeps_def update_proxy_def set_proxy_def ok_images)

lemma update_cert_keeps: "(\<And>c. Cert_ID (f c) = Cert_ID c) \<Longrightarrow> keeps db_ok (update_cert i f)"
  by (simp add: keeps_def update_cert_def ok_images)

lemma update_pcred_keeps: "(\<And>c. PCred_ID (f c) = PCred_ID c) \<Longrightarrow> keeps db_ok (update_pcred i f)"
  by (simp add: keeps_def update_pcred_def ok_images)

lemma MarkUsed_keeps: "keeps db_ok (enrollments_MarkUsed i t)"
  by (simp add: keeps_def enrollments_MarkUsed_def ok_images Let_def)

lemma Validate_keeps: "keeps db_ok (access_ValidateAccessCredential p v h now)"
  by (simp add: keeps_def access_ValidateAccessCredential_def ok_images Let_def)

lemma token_update_keeps:
  "(\<And>t. Tok_ID (f t) = Tok_ID t \<and> Tok_TokenHash (f t) = Tok_TokenHash t \<and> Tok_ProxyID (f t) = Tok_ProxyID t) \<Longrightarrow>
   keeps db_ok (smodify (\<lambda>db. db \<lparr>db_tokens := sql_update P f (db_tokens db)\<rparr>))"
  by (simp add: keeps_def ok_images)

lemma domain_field_keeps:
  assumes "\<And>d. Dom_ID (f d) = Dom_ID d \<and> Dom_UserID (f d) = Dom_UserID d \<and> Dom_Host (f d) = Dom_Host d"
  shows "db_ok db \<Longrightarrow> db_ok (db \<lparr>db_domains := sql_update P f (db_domains db)\<rparr>)"
  using assms by (simp add: ok_images)

section \<open>Deletions and their cascades\<close>

lemma kept_key: "i \<in> key ` A \<Longrightarrow> i \<notin> key ` {x \<in> A. P x} \<Longrightarrow> i \<in> key ` {x \<in> A. \<not> P x}"
  by auto

lemmas ok_elems = db_ok_def keys_unique_def refs_ok_def has_defs exists_key_iff Let_def

lemma drop_proxies_ok: "db_ok db \<Longrightarrow> db_ok (drop_proxies P db)"
  unfolding ok_elems drop_proxies_def by (auto simp: distinct_key_delete intro: kept_key)

lemma drop_domains_ok: "db_ok db \<Longrightarrow> db_ok (drop_domains P db)"
  unfolding ok_elems drop_domains_def by (auto simp: distinct_key_delete intro: kept_key)

lemma drop_clients_ok: "db_ok db \<Longrightarrow> db_ok (drop_clients P db)"
  unfolding ok_elems drop_clients_def drop_proxies_def by (auto simp: distinct_key_delete intro: kept_key)

text \<open>The three cascades of a deleted user leave no reference to it.\<close>

lemma drop_users_tables:
  "db_users (drop_users P db) = sql_delete P (db_users db)"
  "db_clients (drop_users P db) =
     sql_delete (\<lambda>c. Client_UserID c \<in> User_ID ` {u \<in> set (db_users db). P u}) (db_clients db)"
  by (simp_all add: drop_users_def drop_clients_def drop_proxies_def drop_domains_def Let_def)

lemma restrict_users:
  assumes "db_ok a"
    and "\<forall>c \<in> set (db_clients a). Client_UserID c \<notin> User_ID ` {u \<in> set (db_users a). P u}"
    and "\<forall>p \<in> set (db_proxies a). Proxy_UserID p \<notin> User_ID ` {u \<in> set (db_users a). P u}"
    and "\<forall>d \<in> set (db_domains a). Dom_UserID d \<notin> User_ID ` {u \<in> set (db_users a). P u}"
  shows "db_ok (a \<lparr>db_users := sql_delete P (db_users a)\<rparr>)"
proof -
  let ?kept = "User_ID ` {u \<in> set (db_users a). \<not> P u}"
  note kept = kept_key [of _ User_ID "set (db_users a)" P]
  have refs: "refs_ok a" and keys: "keys_unique a" using assms(1) by (simp_all add: db_ok_def)
  have "\<forall>c \<in> set (db_clients a). Client_UserID c \<in> ?kept"
    using assms(2) refs [unfolded refs_ok_def has_defs exists_key_iff] kept by simp
  moreover have "\<forall>p \<in> set (db_proxies a). Proxy_UserID p \<in> ?kept"
    using assms(3) refs [unfolded refs_ok_def has_defs exists_key_iff] kept by simp
  moreover have "\<forall>d \<in> set (db_domains a). Dom_UserID d \<in> ?kept"
    using assms(4) refs [unfolded refs_ok_def has_defs exists_key_iff] kept by simp
  ultimately show ?thesis
    using refs keys unfolding ok_elems by (simp add: distinct_key_delete)
qed

lemma drop_users_ok: "db_ok db \<Longrightarrow> db_ok (drop_users P db)"
proof -
  assume ok: "db_ok db"
  let ?gone = "User_ID ` {u \<in> set (db_users db). P u}"
  let ?a = "drop_domains (\<lambda>d. Dom_UserID d \<in> ?gone) (drop_proxies (\<lambda>p. Proxy_UserID p \<in> ?gone)
              (drop_clients (\<lambda>c. Client_UserID c \<in> ?gone) db))"
  have a: "db_ok ?a" using ok by (intro drop_domains_ok drop_proxies_ok drop_clients_ok)
  have users: "db_users ?a = db_users db"
    by (simp add: drop_clients_def drop_proxies_def drop_domains_def Let_def)
  have eq: "drop_users P db = ?a \<lparr>db_users := sql_delete P (db_users ?a)\<rparr>"
    by (simp add: drop_users_def drop_clients_def drop_proxies_def drop_domains_def Let_def)
  show ?thesis
    unfolding eq
  proof (rule restrict_users [OF a]; unfold users)
    show "\<forall>c \<in> set (db_clients ?a). Client_UserID c \<notin> ?gone"
      by (simp add: drop_clients_def drop_proxies_def drop_domains_def Let_def)
    show "\<forall>p \<in> set (db_proxies ?a). Proxy_UserID p \<notin> ?gone"
      by (simp add: drop_clients_def drop_proxies_def drop_domains_def Let_def)
    show "\<forall>d \<in> set (db_domains ?a). Dom_UserID d \<notin> ?gone"
      by (simp add: drop_clients_def drop_proxies_def drop_domains_def Let_def)
  qed
qed

lemma delete_keeps:
  "keeps db_ok (delete_user i)" "keeps db_ok (delete_client i)" "keeps db_ok (delete_proxy i)"
  "keeps db_ok (domains_Delete i)"
  by (simp_all add: keeps_def delete_user_def delete_client_def delete_proxy_def domains_Delete_def
      drop_users_ok drop_clients_ok drop_proxies_ok drop_domains_ok)

lemma leaf_delete_keeps:
  "keeps db_ok (domainEntries_Delete i)" "keeps db_ok (domainEntries_DeleteByDomainID i)"
  "keeps db_ok (certs_Delete i)" "keeps db_ok (pcreds_Delete i)"
  "keeps db_ok (smodify (\<lambda>db. db \<lparr>db_tokens := sql_delete P (db_tokens db)\<rparr>))"
  "keeps db_ok (smodify (\<lambda>db. db \<lparr>db_credentials := sql_delete Q (db_credentials db)\<rparr>))"
  "keeps db_ok (smodify (\<lambda>db. db \<lparr>db_allowlist := []\<rparr>))"
  by (auto simp: keeps_def domainEntries_Delete_def domainEntries_DeleteByDomainID_def certs_Delete_def
      pcreds_Delete_def ok_elems distinct_key_delete)

section \<open>Updates of unique columns\<close>

lemma distinct_update_one:
  assumes "distinct (map key rows)" and "distinct (map ident rows)"
    and "\<forall>r \<in> set rows. ident r \<noteq> i \<longrightarrow> key r \<noteq> k" and "\<And>r. key (f r) = k"
  shows "distinct (map key (sql_update (\<lambda>r. ident r = i) f rows))"
  using assms(1-3)
proof (induction rows)
  case (Cons r rows)
  let ?upd = "sql_update (\<lambda>r. ident r = i) f rows"
  have IH: "distinct (map key ?upd)" using Cons by simp
  from Cons.prems(2) have new: "ident r \<notin> ident ` set rows" by simp
  show ?case
  proof (cases "ident r = i")
    case True
    with new have "\<forall>x \<in> set rows. ident x \<noteq> i" by (metis image_eqI)
    then have same: "?upd = rows" and "\<forall>x \<in> set rows. key x \<noteq> k"
      using Cons.prems(3) by (auto simp: sql_update_def intro: map_idI)
    then have "k \<notin> key ` set rows" by auto
    moreover from IH have "distinct (map key rows)" unfolding same .
    moreover have "sql_update (\<lambda>r. ident r = i) f (r # rows) = f r # rows"
      using True same by (simp add: sql_update_def)
    ultimately show ?thesis by (simp add: assms(4))
  next
    case False
    have "key r \<notin> key ` set ?upd"
    proof
      assume "key r \<in> key ` set ?upd"
      then obtain x where x: "x \<in> set rows" "key r = key (if ident x = i then f x else x)"
        by (auto simp: sql_update_def)
      moreover from False Cons.prems(3) have "key r \<noteq> k" by simp
      ultimately have "key r = key x" by (auto simp: assms(4) split: if_splits)
      with x(1) Cons.prems(1) show False by auto
    qed
    moreover have "sql_update (\<lambda>r. ident r = i) f (r # rows) = r # ?upd"
      using False by (simp add: sql_update_def)
    ultimately show ?thesis using IH by simp
  qed
qed (simp add: sql_update_def)

lemma domains_Update_keeps: "keeps db_ok (domains_Update now v)"
proof -
  let ?P = "\<lambda>d. Dom_ID d = Dom_ID v"
  let ?f = "\<lambda>d. d \<lparr>Dom_UserID := Dom_UserID v, Dom_Host := NormalizeRouteHost (Dom_Host v),
              Dom_CertificateID := Dom_CertificateID v, Dom_Status := Dom_Status v, Dom_UpdatedAt := now\<rparr>"
  have step: "db_ok (db \<lparr>db_domains := sql_update ?P ?f (db_domains db)\<rparr>)"
    if ok: "db_ok db" and free: "\<not> sql_exists (\<lambda>d. Dom_ID d \<noteq> Dom_ID v \<and>
        to_lower (Dom_Host d) = to_lower (NormalizeRouteHost (Dom_Host v))) (db_domains db)"
      and user: "has_user db (Dom_UserID v)" for db
  proof -
    have "distinct (map (\<lambda>d. to_lower (Dom_Host d)) (sql_update ?P ?f (db_domains db)))"
      using ok free
      by (intro distinct_update_one [where k = "to_lower (NormalizeRouteHost (Dom_Host v))"])
        (auto simp: db_ok_def keys_unique_def sql_exists_iff)
    moreover have "map Dom_ID (sql_update ?P ?f (db_domains db)) = map Dom_ID (db_domains db)"
      by (rule map_key_update) simp
    moreover have "Dom_ID ` set (sql_update ?P ?f (db_domains db)) = Dom_ID ` set (db_domains db)"
      by (rule key_set_update) simp
    moreover have "\<forall>d \<in> set (sql_update ?P ?f (db_domains db)). Dom_UserID d \<in> User_ID ` set (db_users db)"
      using ok user by (auto simp: set_sql_update ok_elems)
    ultimately show ?thesis using ok unfolding ok_elems by simp
  qed
  then show ?thesis
    unfolding domains_Update_def
    by (intro keep_intros) (auto simp: keeps_def Let_def sql_checked_def)
qed

lemma domainEntries_Update_keeps: "keeps db_ok (domainEntries_Update now e)"
  unfolding domainEntries_Update_def
  by (intro keep_intros) (auto simp: keeps_def Let_def sql_checked_def ok_images split: sum.splits)

lemma domains_SetStatus_keeps: "keeps db_ok (domains_SetStatus now i st)"
  by (auto simp: keeps_def domains_SetStatus_def intro: domain_field_keeps)

lemma set_domain_certificate_keeps: "keeps db_ok (set_domain_certificate now i c)"
  by (auto simp: keeps_def set_domain_certificate_def intro: domain_field_keeps)

lemma upsert_stats_keeps: "keeps db_ok (upsert_stats s)"
  unfolding upsert_stats_def
proof (rule keeps_checked)
  fix db assume has: "has_proxy db (SS_ProxyID s)" and ok: "db_ok db"
  let ?P = "\<lambda>x. SS_ProxyID x = SS_ProxyID s"
  have "map SS_ProxyID (sql_update ?P (\<lambda>_. s) (db_stats db)) = map SS_ProxyID (db_stats db)"
    by (simp add: sql_update_def)
  moreover then have "SS_ProxyID ` set (sql_update ?P (\<lambda>_. s) (db_stats db)) = SS_ProxyID ` set (db_stats db)"
    by (metis set_map)
  ultimately show "db_ok (db \<lparr>db_stats := if sql_exists ?P (db_stats db)
      then sql_update ?P (\<lambda>_. s) (db_stats db) else db_stats db @ [s]\<rparr>)"
    using has ok by (auto simp: db_ok_def keys_unique_def refs_ok_images has_defs exists_key_iff)
qed

section \<open>Every method keeps the integrity\<close>

lemmas store_keeps = keep_intros insert_keeps update_user_keeps update_client_keeps update_proxy_keeps
  update_cert_keeps update_pcred_keeps token_update_keeps delete_keeps leaf_delete_keeps MarkUsed_keeps
  set_domain_certificate_keeps upsert_stats_keeps

lemma users_keep:
  "keeps db_ok (users_Create b now u)" "keeps db_ok (users_SetStatus b now i s)"
  "keeps db_ok (users_SetPassword b now i h)" "keeps db_ok (users_Delete b i)"
  unfolding users_Create_def users_SetStatus_def users_SetPassword_def users_Delete_def
  by (intro store_keeps; simp)+

lemma clients_keep:
  "keeps db_ok (clients_Create b now c)" "keeps db_ok (clients_SetStatus b now i s)"
  "keeps db_ok (clients_RotateCredential b now i h)" "keeps db_ok (clients_Delete b i)"
  "keeps db_ok (enrollments_Create now e)"
  unfolding clients_Create_def clients_SetStatus_def clients_RotateCredential_def clients_Delete_def
    enrollments_Create_def
  by (intro store_keeps; simp)+

lemma domains_keep: "keeps db_ok (domains_Create now d)" "keeps db_ok (domainEntries_Create now e)"
  unfolding domains_Create_def domainEntries_Create_def by (intro store_keeps; simp)+

lemma legacy_keeps:
  "keeps db_ok (legacy_domain now newID p host)" "keeps db_ok (legacy_entry now newID did pr bh port)"
  "keeps db_ok (legacy_certificate now newID p pr did host)"
  unfolding legacy_domain_def legacy_entry_def legacy_certificate_def
  by (intro store_keeps; simp split: sum.splits; intro conjI allI impI store_keeps)+

lemma ensureLegacy_keeps: "keeps db_ok (ensureLegacyWebProxyDomain now newID p)"
  unfolding ensureLegacyWebProxyDomain_def Let_def by (intro store_keeps legacy_keeps)

lemma proxies_keep:
  "keeps db_ok (proxies_Create b now newID p)" "keeps db_ok (proxies_SetStatus b now i s)"
  "keeps db_ok (proxies_Update b now p)" "keeps db_ok (proxies_Delete b i)"
  unfolding proxies_Create_def proxies_SetStatus_def proxies_Update_def proxies_Delete_def
  by (intro store_keeps ensureLegacy_keeps; simp)+

lemma access_keep:
  "keeps db_ok (access_EnableAuthAndCreateActivation now i v t)" "keeps db_ok (access_CreateActivationToken now t)"
  "keeps db_ok (access_RedeemActivationToken i h c now)" "keeps db_ok (access_rewriteAccessState now i v e)"
  unfolding access_EnableAuthAndCreateActivation_def access_CreateActivationToken_def
    access_RedeemActivationToken_def access_rewriteAccessState_def
  by (intro store_keeps; simp split: option.splits; intro conjI allI impI store_keeps; simp)+

lemma others_keep:
  "keeps db_ok (allowlist_Replace es)" "keeps db_ok ensureLocalAllowlistDefaults" "keeps db_ok (stats_Save ss)"
  "keeps db_ok (pcreds_Create now pc)" "keeps db_ok (pcreds_Update now pc)"
  "keeps db_ok (pcreds_SetStatus now i st v err)" "keeps db_ok (audit_Create now a)"
  unfolding allowlist_Replace_def ensureLocalAllowlistDefaults_def stats_Save_def pcreds_Create_def pcreds_Update_def
    pcreds_SetStatus_def audit_Create_def
  by (intro store_keeps; simp)+

lemma success_optional_ID [simp]: "Cert_ID (success_optional r t c) = Cert_ID c"
  by (simp add: success_optional_def Let_def split: option.splits)

lemma cert_rows_ID [simp]:
  "Cert_ID (success_row t r c) = Cert_ID c" "Cert_ID (failure_row t f c) = Cert_ID c"
  "Cert_ID (health_row t h c) = Cert_ID c" "Cert_ID (sync_row t s c) = Cert_ID c"
  by (simp_all add: success_row_def failure_row_def health_row_def sync_row_def Let_def split: option.splits)

lemma certs_keep:
  "keeps db_ok (certs_Create now c)" "keeps db_ok (certs_UpdateSuccess now i r)"
  "keeps db_ok (certs_UpdateFailure now i f)" "keeps db_ok (certs_UpdateHealth now i h)"
  "keeps db_ok (certs_UpdateProviderSync now i s)"
  unfolding certs_Create_def certs_UpdateSuccess_def certs_UpdateFailure_def certs_UpdateHealth_def
    certs_UpdateProviderSync_def Let_def
  by (intro store_keeps; simp)+

end
