(* ===== verification/StoreProps.thy ===== *)
theory StoreProps
  imports StoreInv
begin

text \<open>
  What the repositories promise: integrity of the database, one-time activation tokens, complete
  revocation of a proxy's access, and the statistics flush that one deleted proxy blocks.
\<close>


section \<open>Activation tokens\<close>

text \<open>The token with this id, if the table has one, is used.\<close>

definition spent :: "string \<Rightarrow> DB \<Rightarrow> bool" where
  "spent i db \<longleftrightarrow> (\<forall>t \<in> set (db_tokens db). Tok_ID t = i \<longrightarrow> Tok_UsedAt t \<noteq> None)"

lemma spent_not_redeemable: "spent i db \<Longrightarrow> filter (redeemable i now) (db_tokens db) = []"
  by (auto simp: spent_def redeemable_def filter_empty_conv)

lemma Redeem_spent: "spent i db \<Longrightarrow> access_RedeemActivationToken i h c now db = (Inl ErrConflict, db)"
  by (simp add: access_RedeemActivationToken_def stx_def sbind_def sql_affected_def spent_not_redeemable)

lemma insert_credential_tokens: "insert_credential c db = (r, db') \<Longrightarrow> db_tokens db' = db_tokens db"
  by (auto simp: insert_credential_def sql_checked_def split: if_splits)

lemma Redeem_Inr:
  assumes "access_RedeemActivationToken i h c now db = (Inr (), db')"
  shows "db_tokens db' = sql_update (redeemable i now) (\<lambda>t. t \<lparr>Tok_UsedAt := Some now\<rparr>) (db_tokens db)"
    and "sql_affected (redeemable i now) (db_tokens db) = 1"
    and "\<exists>cr. db_credentials db' = db_credentials db @ [cr] \<and> Cred_SecretHash cr = h \<and>
           Cred_ProxyID cr = Cred_ProxyID c \<and> Cred_AuthVersion cr = Cred_AuthVersion c \<and>
           (\<forall>r \<in> set (db_credentials db). Cred_SecretHash r \<noteq> h)"
  using assms
  by (auto simp: access_RedeemActivationToken_def sbind_def insert_credential_def sql_checked_def sql_exists_iff
      split: if_splits)

text \<open>A redemption of any token keeps a used one used.\<close>

lemma spent_update: "spent i db \<Longrightarrow> spent i (db \<lparr>db_tokens := sql_update P (\<lambda>t. t \<lparr>Tok_UsedAt := Some now\<rparr>) (db_tokens db)\<rparr>)"
  by (auto simp: spent_def set_sql_update)

lemma spent_tokens: "db_tokens a = db_tokens b \<Longrightarrow> spent i a = spent i b"
  by (simp add: spent_def)

lemma keeps_spent:
  "keeps (spent i) (access_RedeemActivationToken j h c now)"
  "keeps (spent i) (access_ValidateAccessCredential p v h now)"
  "keeps (spent i) (access_RevokeAllAccess now p v)" "keeps (spent i) (access_DisableAuth now p v)"
proof -
  have ins: "keeps (spent i) (insert_credential c)" for c
    by (auto simp: keeps_def insert_credential_def sql_checked_def spent_def)
  have upd: "keeps (spent i) (smodify (\<lambda>db. db \<lparr>db_tokens :=
      sql_update P (\<lambda>t. t \<lparr>Tok_UsedAt := Some now\<rparr>) (db_tokens db)\<rparr>))" for P
    by (simp add: keeps_def spent_update)
  have del: "keeps (spent i) (smodify (\<lambda>db. db \<lparr>db_tokens := sql_delete P (db_tokens db)\<rparr>))" for P
    by (auto simp: keeps_def spent_def)
  have delc: "keeps (spent i) (smodify (\<lambda>db. db \<lparr>db_credentials := sql_delete P (db_credentials db)\<rparr>))" for P
    by (auto simp: keeps_def spent_def)
  have prox: "keeps (spent i) (set_proxy p f)" for p f
    by (auto simp: keeps_def spent_def set_proxy_def)
  show "keeps (spent i) (access_RedeemActivationToken j h c now)"
    unfolding access_RedeemActivationToken_def by (intro keep_intros ins upd)
  show "keeps (spent i) (access_ValidateAccessCredential p v h now)"
    by (auto simp: keeps_def spent_def access_ValidateAccessCredential_def Let_def)
  show "keeps (spent i) (access_RevokeAllAccess now p v)" and "keeps (spent i) (access_DisableAuth now p v)"
    unfolding access_RevokeAllAccess_def access_DisableAuth_def access_rewriteAccessState_def
    by (intro keep_intros del delc prox; simp add: prox)+
qed

text \<open>
  An activation token is redeemed at most once. After a successful redemption every later one
  of the same token, with whatever secret and at whatever time, is a conflict that changes
  nothing, and this stays so through redemptions of other tokens, validations, revocations and
  disabling of the gate.
\<close>

lemma activation_token_redeemed_once:
  assumes "db_ok db" and "access_RedeemActivationToken i h c now db = (Inr (), db')"
  shows "spent i db' \<and>
    access_RedeemActivationToken i h' c' now' db' = (Inl ErrConflict, db') \<and>
    keeps (spent i) (access_RedeemActivationToken j h'' c'' now'') \<and>
    keeps (spent i) (access_ValidateAccessCredential p v hv now'') \<and>
    keeps (spent i) (access_RevokeAllAccess now'' p v) \<and> keeps (spent i) (access_DisableAuth now'' p v)"
proof -
  have "spent i db'"
    unfolding spent_def Redeem_Inr(1) [OF assms(2)]
  proof (intro ballI impI)
    fix u assume u: "u \<in> set (sql_update (redeemable i now) (\<lambda>t. t \<lparr>Tok_UsedAt := Some now\<rparr>) (db_tokens db))" "Tok_ID u = i"
    have "\<exists>t \<in> set (db_tokens db). redeemable i now t"
      using Redeem_Inr(2) [OF assms(2)] by (metis sql_affected_0 zero_neq_one)
    then obtain t where t: "t \<in> set (db_tokens db)" "redeemable i now t" by blast
    have "distinct (map Tok_ID (db_tokens db))" using assms(1) by (simp add: db_ok_def keys_unique_def)
    then have "x = t" if "x \<in> set (db_tokens db)" "Tok_ID x = i" for x
      using that t by (auto simp: redeemable_def distinct_map dest: inj_onD)
    with u t(2) show "Tok_UsedAt u \<noteq> None" by (auto simp: set_sql_update)
  qed
  then show ?thesis by (simp add: Redeem_spent keeps_spent)
qed

definition sample_user :: User where
  "sample_user = zeroUser \<lparr>User_ID := ''u1'', User_Username := ''ann'', User_Role := RoleUser, User_Status := UserEnabled\<rparr>"

definition sample_client :: Client where
  "sample_client = zeroClient \<lparr>Client_ID := ''c1'', Client_UserID := ''u1'', Client_Name := ''box'',
     Client_Kind := ClientKindProvider, Client_Status := ClientOnline, Client_CredentialHash := ''h''\<rparr>"

definition sample_proxy :: Proxy where
  "sample_proxy = zeroProxy \<lparr>Proxy_ID := ''p1'', Proxy_UserID := ''u1'', Proxy_ClientID := ''c1'', Proxy_Name := ''web'',
     Proxy_Type := ProxyWeb, Proxy_Status := ProxyEnabled, Proxy_DomainID := ''d1'', Proxy_PathPrefix := ''/'',
     Proxy_UpstreamPathPrefix := ''/'', Proxy_TargetHost := ''10.0.0.1'', Proxy_TargetPort := 80,
     Proxy_AccessAuthEnabled := True, Proxy_AccessAuthVersion := 1\<rparr>"

definition sample_token :: ProxyActivationToken where
  "sample_token = \<lparr>Tok_ID = ''t1'', Tok_ProxyID = ''p1'', Tok_AuthVersion = 1, Tok_TokenHash = ''th'',
     Tok_ExpiresAt = 100, Tok_UsedAt = None, Tok_CreatedAt = 10, Tok_CreatedBy = ''u1''\<rparr>"

definition sample_credential :: ProxyAccessCredential where
  "sample_credential = \<lparr>Cred_ID = ''k1'', Cred_ProxyID = ''p1'', Cred_AuthVersion = 1, Cred_SecretHash = [],
     Cred_CreatedAt = 0, Cred_LastUsedAt = None\<rparr>"

definition sample_db :: DB where
  "sample_db = emptyDB \<lparr>db_users := [sample_user], db_clients := [sample_client], db_proxies := [sample_proxy],
     db_tokens := [sample_token]\<rparr>"

definition redeemed_db :: DB where
  "redeemed_db = snd (access_RedeemActivationToken ''t1'' ''sh'' sample_credential 50 sample_db)"

lemma sample_db_ok: "db_ok sample_db"
  by (simp add: db_ok_def keys_unique_def refs_ok_def has_defs sample_db_def emptyDB_def sample_user_def zeroUser_def
      sample_client_def zeroClient_def sample_proxy_def zeroProxy_def sample_token_def sql_exists_def)

lemma sample_redeem: "access_RedeemActivationToken ''t1'' ''sh'' sample_credential 50 sample_db = (Inr (), redeemed_db)"
  by code_simp

lemma activation_token_redeemed_once_witness:
  "access_RedeemActivationToken ''t1'' ''other'' sample_credential 51 redeemed_db = (Inl ErrConflict, redeemed_db)"
  using activation_token_redeemed_once [OF sample_db_ok sample_redeem] by simp

section \<open>Revocation\<close>

lemma rewrite_state:
  "access_rewriteAccessState now p v e db = (r, db') \<Longrightarrow>
     r = Inr () \<and> db_tokens db' = sql_delete (\<lambda>t. Tok_ProxyID t = p) (db_tokens db) \<and>
     db_credentials db' = sql_delete (\<lambda>c. Cred_ProxyID c = p) (db_credentials db)"
  by (auto simp: access_rewriteAccessState_def stx_def sbind_def set_proxy_def split: option.splits)



section \<open>Statistics\<close>

lemma sfor_fails:
  assumes "x \<in> set xs" and "\<And>s. P s \<Longrightarrow> \<exists>e. fst (f x s) = Inl e" and "\<And>y. keeps P (f y)" and "P s"
  shows "\<exists>e. fst (sfor f xs s) = Inl e"
  using assms(1,4)
proof (induction xs arbitrary: s)
  case (Cons y ys)
  obtain r t where f: "f y s = (r, t)" by fastforce
  with Cons.prems(2) assms(3) have t: "P t" by (metis keepsD)
  show ?case
  proof (cases r)
    case (Inl e)
    with f show ?thesis by (simp add: sbind_Inl)
  next
    case (Inr u)
    with f assms(2) Cons.prems have "x \<noteq> y" by fastforce
    with Cons t f Inr show ?thesis by (simp add: sbind_Inr)
  qed
qed simp

text \<open>
  A flush that holds the counters of a proxy the database no longer has fails as a whole and
  saves nothing: one deleted proxy blocks the statistics of all the others, since the memory store
  never forgets a proxy.
\<close>

lemma deleted_proxy_blocks_stats_flush:
  assumes "s \<in> set snapshots" and "\<not> has_proxy db (SS_ProxyID s)"
  shows "(\<exists>e. fst (stats_Save snapshots db) = Inl e) \<and> snd (stats_Save snapshots db) = db"
proof -
  let ?P = "\<lambda>d. \<not> has_proxy d (SS_ProxyID s)"
  have "keeps ?P (upsert_stats y)" for y
    by (auto simp: keeps_def upsert_stats_def sql_checked_def has_proxy_def)
  moreover have "\<exists>e. fst (upsert_stats s d) = Inl e" if "?P d" for d
    using that by (simp add: upsert_stats_def sql_checked_def)
  ultimately obtain e where "fst (sfor upsert_stats snapshots db) = Inl e"
    using sfor_fails [of s snapshots ?P upsert_stats db] assms by blast
  then show ?thesis
    by (cases "sfor upsert_stats snapshots db") (auto simp: stats_Save_def stx_def)
qed

definition sample_stats :: "string \<Rightarrow> StoreProxyStats" where
  "sample_stats i = \<lparr>SS_ProxyID = i, SS_TCPConnections = 1, SS_TCPUploadBytes = 2, SS_TCPDownloadBytes = 3,
     SS_TCPErrors = 0, SS_UDPPackets = 0, SS_UDPUploadBytes = 0, SS_UDPDownloadBytes = 0, SS_UDPErrors = 0,
     SS_HTTPRequests = 0, SS_HTTPUploadBytes = 0, SS_HTTPDownloadBytes = 0, SS_HTTPErrors = 0,
     SS_HTTPStatusCodes = []\<rparr>"

lemma deleted_proxy_blocks_stats_flush_witness:
  "fst (stats_Save [sample_stats ''p1''] sample_db) = Inr () \<and>
   snd (stats_Save [sample_stats ''p1'', sample_stats ''gone''] sample_db) = sample_db"
proof
  show "fst (stats_Save [sample_stats ''p1''] sample_db) = Inr ()" by code_simp
  have "\<not> has_proxy sample_db (SS_ProxyID (sample_stats ''gone''))" by code_simp
  with deleted_proxy_blocks_stats_flush [of "sample_stats ''gone''" "[sample_stats ''p1'', sample_stats ''gone'']" sample_db]
  show "snd (stats_Save [sample_stats ''p1'', sample_stats ''gone''] sample_db) = sample_db" by simp
qed

end
