(* ===== verification/TlsHello.thy ===== *)
theory TlsHello
  imports Prelude
begin

text \<open>
  The ClientHello reader of internal/proxy/https/entry.go, which finds the server name before the
  TLS handshake. Bytes are 8-bit words. A slice or index expression that Go would refuse at run
  time is the value None (a panic), so that a function of the parser is a result or a panic. The
  connection is the list of the bytes that arrive before it ends or the deadline passes.
\<close>

type_synonym byte = "8 word"

definition blen :: "'a list \<Rightarrow> int" where
  "blen xs = int (length xs)"

text \<open>\<open>xs[i]\<close> and \<open>xs[i:j]\<close> with Go's bounds checks (against the length).\<close>

definition go_index :: "'a list \<Rightarrow> int \<Rightarrow> 'a option" where
  "go_index xs i = (if 0 \<le> i \<and> i < blen xs then Some (xs ! nat i) else None)"

definition go_slice :: "'a list \<Rightarrow> int \<Rightarrow> int \<Rightarrow> 'a list option" where
  "go_slice xs i j =
     (if 0 \<le> i \<and> i \<le> j \<and> j \<le> blen xs then Some (take (nat (j - i)) (drop (nat i) xs)) else None)"

text \<open>Sequencing of a computation that may panic or fail.\<close>

type_synonym 'a parsed = "'a result option"

definition pure_or_panic :: "'a option \<Rightarrow> ('a \<Rightarrow> 'b parsed) \<Rightarrow> 'b parsed" where
  "pure_or_panic m f = Option.bind m f"

definition fails :: "string \<Rightarrow> 'a parsed" where
  "fails e = Some (Inl (New e))"

definition be16 :: "byte list \<Rightarrow> int option" where
  "be16 bs = (case bs of a # b # _ \<Rightarrow> Some (uint a * 256 + uint b) | _ \<Rightarrow> None)"

definition string_of_bytes :: "byte list \<Rightarrow> string" where
  "string_of_bytes bs = map (\<lambda>b. char_of (uint b)) bs"

definition tlsHandshakeRecord :: byte where "tlsHandshakeRecord = 22"
definition maxClientHelloSize :: int where "maxClientHelloSize = 1048576"

section \<open>The server name extension\<close>

function server_name_loop :: "byte list \<Rightarrow> string parsed" where
  "server_name_loop names =
     (case names of
        nameType # a # b # rest \<Rightarrow>
          (let nameLength = uint a * 256 + uint b in
           if blen rest < nameLength then fails ''truncated server name''
           else pure_or_panic (go_slice rest 0 nameLength) (\<lambda>raw.
             (let name = string_of_bytes raw in
              if nameType = 0 \<and> name \<noteq> [] then Some (Inr name)
              else pure_or_panic (go_slice rest nameLength (blen rest)) (\<lambda>names'.
                     if length names' < length names then server_name_loop names' else None))))
      | _ \<Rightarrow> fails ''dns server name not found'')"
  by pat_completeness auto
termination
  by (relation "measure length") auto

declare server_name_loop.simps [simp del]

definition parseServerNameExtension :: "byte list \<Rightarrow> string parsed" where
  "parseServerNameExtension extension =
     (if blen extension < 2 then fails ''empty server name extension''
      else pure_or_panic (go_slice extension 0 2) (\<lambda>len.
           pure_or_panic (be16 len) (\<lambda>listLength.
           pure_or_panic (go_slice extension 2 (blen extension)) (\<lambda>names.
             if blen names < listLength then fails ''truncated server name list''
             else pure_or_panic (go_slice names 0 listLength) server_name_loop))))"

function extensions_loop :: "byte list \<Rightarrow> string parsed" where
  "extensions_loop extensions =
     (case extensions of
        t1 # t2 # l1 # l2 # rest \<Rightarrow>
          (let extensionType = uint t1 * 256 + uint t2; extensionLength = uint l1 * 256 + uint l2 in
           if blen rest < extensionLength then fails ''truncated extension''
           else pure_or_panic (go_slice rest 0 extensionLength) (\<lambda>extension.
                pure_or_panic (go_slice rest extensionLength (blen rest)) (\<lambda>extensions'.
                  if extensionType = 0 then parseServerNameExtension extension
                  else if length extensions' < length extensions then extensions_loop extensions' else None)))
      | _ \<Rightarrow> fails ''server name extension not found'')"
  by pat_completeness auto
termination
  by (relation "measure length") auto

declare extensions_loop.simps [simp del]

definition parseServerName :: "byte list \<Rightarrow> string parsed" where
  "parseServerName record =
     (if blen record < 9 then fails ''expected client hello''
      else
       pure_or_panic (go_index record 0) (\<lambda>r0. pure_or_panic (go_index record 5) (\<lambda>r5.
       if r0 \<noteq> tlsHandshakeRecord \<or> r5 \<noteq> 1 then fails ''expected client hello''
       else
       pure_or_panic (go_index record 6) (\<lambda>b6. pure_or_panic (go_index record 7) (\<lambda>b7.
       pure_or_panic (go_index record 8) (\<lambda>b8.
       let hello_length = uint b6 * 65536 + uint b7 * 256 + uint b8 in
       pure_or_panic (go_slice record 9 (blen record)) (\<lambda>all.
       if hello_length > blen all then fails ''truncated client hello''
       else pure_or_panic (go_slice all 0 hello_length) (\<lambda>body.
       if blen body < 34 + 1 then fails ''client hello missing session id''
       else pure_or_panic (go_index body 34) (\<lambda>sid.
       let position = 34 + 1 + uint sid in
       if blen body < position + 2 then fails ''client hello missing cipher suites''
       else pure_or_panic (Option.bind (go_slice body position (position + 2)) be16) (\<lambda>cipherSuiteLength.
       let position = position + 2 + cipherSuiteLength in
       if blen body < position + 1 then fails ''client hello missing compression methods''
       else pure_or_panic (go_index body position) (\<lambda>compression.
       let position = position + 1 + uint compression in
       if blen body < position + 2 then fails ''client hello missing extensions''
       else pure_or_panic (Option.bind (go_slice body position (position + 2)) be16) (\<lambda>extensionsLength.
       let position = position + 2 in
       if blen body < position + extensionsLength then fails ''truncated client hello extensions''
       else pure_or_panic (go_slice body position (position + extensionsLength)) extensions_loop))))))))))))"

section \<open>Reading the records\<close>

text \<open>io.ReadFull: all of the bytes, or an error.\<close>

definition read_full :: "int \<Rightarrow> byte list \<Rightarrow> (byte list \<times> byte list) option" where
  "read_full n inp = (if n \<le> blen inp then Some (take (nat n) inp, drop (nat n) inp) else None)"

text \<open>A record: its header, its body, and what is left of the input.\<close>

definition read_record :: "string \<Rightarrow> byte list \<Rightarrow> (byte list \<times> byte list \<times> byte list) result" where
  "read_record wrong inp =
     (case read_full 5 inp of
        None \<Rightarrow> Inl (New ''unexpected EOF'')
      | Some (header, rest) \<Rightarrow>
          (if hd header \<noteq> tlsHandshakeRecord then Inl (New wrong)
           else (case read_full (uint (header ! 3) * 256 + uint (header ! 4)) rest of
                   None \<Rightarrow> Inl (New ''unexpected EOF'')
                 | Some (body, rest') \<Rightarrow> Inr (header, body, rest'))))"

definition readHandshakeContinuation :: "byte list \<Rightarrow> (byte list \<times> byte list \<times> byte list) result" where
  "readHandshakeContinuation inp = read_record ''expected tls handshake continuation'' inp"

text \<open>The loops that read records until the handshake has \<open>n\<close> bytes.\<close>

lemma read_full_parts: "read_full n inp = Some (a, b) \<Longrightarrow> 0 \<le> n \<Longrightarrow> inp = a @ b \<and> blen a = n"
  by (auto simp: read_full_def blen_def split: if_splits)

lemma read_record_parts:
  assumes "read_record w inp = Inr (header, body, rest)"
  shows "inp = header @ body @ rest \<and> length header = 5 \<and>
     hd header = tlsHandshakeRecord \<and> blen body = uint (header ! 3) * 256 + uint (header ! 4)"
proof -
  from assms obtain r1 where r: "read_full 5 inp = Some (header, r1)" "hd header = tlsHandshakeRecord"
    "read_full (uint (header ! 3) * 256 + uint (header ! 4)) r1 = Some (body, rest)"
    by (auto simp: read_record_def split: option.splits if_splits)
  with read_full_parts [OF r(1)] read_full_parts [OF r(3)] show ?thesis by (auto simp: blen_def)
qed

function read_until :: "int \<Rightarrow> byte list \<Rightarrow> byte list \<Rightarrow> byte list \<Rightarrow> (byte list \<times> byte list \<times> byte list) result" where
  "read_until n prefix handshake inp =
     (if blen handshake < n then
        (case readHandshakeContinuation inp of
           Inl e \<Rightarrow> Inl e
         | Inr (additionalHeader, additionalBody, rest) \<Rightarrow>
             read_until n (prefix @ additionalHeader @ additionalBody) (handshake @ additionalBody) rest)
      else Inr (prefix, handshake, inp))"
  by pat_completeness auto
termination
proof (relation "measure (\<lambda>(n, prefix, handshake, inp). length inp)", simp)
  fix n :: int and prefix handshake inp h b rest :: "byte list" and x y
  assume "readHandshakeContinuation inp = Inr x" and "(h, y) = x" and "(b, rest) = y"
  then have "inp = h @ b @ rest" and "length h = 5"
    using read_record_parts [of _ inp h b rest] by (auto simp: readHandshakeContinuation_def)
  then show "((n, prefix @ h @ b, handshake @ b, rest), n, prefix, handshake, inp)
     \<in> measure (\<lambda>(n, prefix, handshake, inp). length inp)" by simp
qed

declare read_until.simps [simp del]

definition readClientHello :: "byte list \<Rightarrow> (byte list \<times> string \<times> byte list) parsed" where
  "readClientHello inp =
     (case read_record ''expected tls handshake record'' inp of
        Inl e \<Rightarrow> Some (Inl e)
      | Inr (header, body, rest) \<Rightarrow>
          (case read_until 4 (header @ body) body rest of
             Inl e \<Rightarrow> Some (Inl e)
           | Inr (prefix, handshake, rest1) \<Rightarrow>
               pure_or_panic (go_index handshake 0) (\<lambda>h0.
               if h0 \<noteq> 1 then fails ''expected client hello''
               else pure_or_panic (go_index handshake 1) (\<lambda>h1. pure_or_panic (go_index handshake 2) (\<lambda>h2.
                    pure_or_panic (go_index handshake 3) (\<lambda>h3.
                    (let handshakeLength = uint h1 * 65536 + uint h2 * 256 + uint h3 in
                     if handshakeLength > maxClientHelloSize then fails ''client hello too large''
                     else (case read_until (4 + handshakeLength) prefix handshake rest1 of
                             Inl e \<Rightarrow> Some (Inl e)
                           | Inr (prefix', handshake', rest2) \<Rightarrow>
                               (case parseServerName (header @ handshake') of
                                  None \<Rightarrow> None
                                | Some (Inl e) \<Rightarrow> Some (Inl e)
                                | Some (Inr serverName) \<Rightarrow> Some (Inr (prefix', to_lower serverName, rest2)))))))))))"

section \<open>No panic\<close>

text \<open>A computation that returns a result and does not panic.\<close>

lemma pure_or_panic_split:
  "pure_or_panic m f \<noteq> None \<longleftrightarrow> (\<exists>a. m = Some a \<and> f a \<noteq> None)"
  by (cases m) (auto simp: pure_or_panic_def)

lemma go_index_ok: "0 \<le> i \<Longrightarrow> i < blen xs \<Longrightarrow> go_index xs i = Some (xs ! nat i)"
  by (simp add: go_index_def)

lemma go_slice_ok: "0 \<le> i \<Longrightarrow> i \<le> j \<Longrightarrow> j \<le> blen xs \<Longrightarrow>
    go_slice xs i j = Some (take (nat (j - i)) (drop (nat i) xs))"
  by (simp add: go_slice_def)

lemma blen_slice: "go_slice xs i j = Some ys \<Longrightarrow> blen ys = j - i"
  by (auto simp: go_slice_def blen_def split: if_splits)

lemma be16_ok: "2 \<le> blen bs \<Longrightarrow> \<exists>n. be16 bs = Some n \<and> 0 \<le> n \<and> n \<le> 65535"
proof -
  assume "2 \<le> blen bs"
  then obtain a b r where bs: "bs = a # b # r" by (cases bs; cases "tl bs") (auto simp: blen_def)
  have "uint a < 256" and "uint b < 256" using uint_lt2p [of a] uint_lt2p [of b] by simp_all
  then show ?thesis by (auto simp: bs be16_def)
qed

lemma fails_ne [simp]: "fails e \<noteq> None"
  by (simp add: fails_def)

lemma fails_Some: "fails e = Some (Inl (New e))"
  by (simp add: fails_def)

lemma pure_or_panic_Some [simp]: "pure_or_panic (Some a) f = f a"
  by (simp add: pure_or_panic_def)

lemma slices_at:
  assumes "0 \<le> l" and "\<not> blen xs < l"
  shows "go_slice xs 0 l = Some (take (nat l) xs)" and "go_slice xs l (blen xs) = Some (drop (nat l) xs)"
  using assms by (simp_all add: go_slice_def blen_def)

lemma server_name_loop_step:
  "server_name_loop (t # a # b # rest) =
     (let l = uint a * 256 + uint b in
      if blen rest < l then fails ''truncated server name''
      else if t = 0 \<and> string_of_bytes (take (nat l) rest) \<noteq> [] then Some (Inr (string_of_bytes (take (nat l) rest)))
      else server_name_loop (drop (nat l) rest))"
proof -
  have "0 \<le> uint a * 256 + uint b" by simp
  note sl = slices_at [OF this, of rest]
  have len: "length rest - k < Suc (Suc (Suc (length rest)))" for k by simp
  show ?thesis
    by (subst server_name_loop.simps) (simp add: Let_def sl len)
qed

lemma server_name_loop_end: "length names < 3 \<Longrightarrow> server_name_loop names = fails ''dns server name not found''"
  by (subst server_name_loop.simps) (auto split: list.splits)

lemma extensions_loop_step:
  "extensions_loop (t1 # t2 # l1 # l2 # rest) =
     (let l = uint l1 * 256 + uint l2 in
      if blen rest < l then fails ''truncated extension''
      else if uint t1 * 256 + uint t2 = 0 then parseServerNameExtension (take (nat l) rest)
      else extensions_loop (drop (nat l) rest))"
proof -
  have "0 \<le> uint l1 * 256 + uint l2" by simp
  note sl = slices_at [OF this, of rest]
  have len: "length rest - k < Suc (Suc (Suc (Suc (length rest))))" for k by simp
  show ?thesis
    by (subst extensions_loop.simps) (simp add: Let_def sl len)
qed

lemma extensions_loop_end: "length extensions < 4 \<Longrightarrow> extensions_loop extensions = fails ''server name extension not found''"
  by (subst extensions_loop.simps) (auto split: list.splits)

lemma length3_cases: "length xs < 3 \<or> (\<exists>t a b rest. xs = t # a # b # rest)"
  by (cases xs; cases "tl xs"; cases "tl (tl xs)") auto

lemma length4_cases: "length xs < 4 \<or> (\<exists>t a b c rest. xs = t # a # b # c # rest)"
  by (cases xs; cases "tl xs"; cases "tl (tl xs)"; cases "tl (tl (tl xs))") auto

lemma server_name_loop_total: "server_name_loop names \<noteq> None"
proof (induction names rule: length_induct)
  case (1 names)
  then have IH: "length ys < length names \<Longrightarrow> server_name_loop ys \<noteq> None" for ys by blast
  consider "length names < 3" | t a b rest where "names = t # a # b # rest"
    using length3_cases [of names] by blast
  then show ?case
  proof cases
    case 2
    have "server_name_loop (drop (nat l) rest) \<noteq> None" for l by (rule IH) (simp add: 2)
    then show ?thesis by (simp add: 2 server_name_loop_step Let_def fails_Some del: not_None_eq)
  qed (simp add: server_name_loop_end fails_Some)
qed

lemma parseServerNameExtension_total: "parseServerNameExtension e \<noteq> None"
proof (cases "blen e < 2")
  case False
  then have s: "go_slice e 0 2 = Some (take 2 e)" "go_slice e 2 (blen e) = Some (drop 2 e)"
    by (simp_all add: go_slice_def blen_def)
  with False obtain n where n: "be16 (take 2 e) = Some n" "0 \<le> n"
    using be16_ok [of "take 2 e"] by (auto simp: blen_def)
  show ?thesis
  proof (cases "blen (drop 2 e) < n")
    case True
    with False s n show ?thesis by (simp add: parseServerNameExtension_def del: not_None_eq)
  next
    case ok: False
    with False s n slices_at(1) [OF n(2) ok] server_name_loop_total show ?thesis
      by (simp add: parseServerNameExtension_def del: not_None_eq)
  qed
qed (simp add: parseServerNameExtension_def del: not_None_eq)

lemma extensions_loop_total: "extensions_loop es \<noteq> None"
proof (induction es rule: length_induct)
  case (1 es)
  then have IH: "length ys < length es \<Longrightarrow> extensions_loop ys \<noteq> None" for ys by blast
  consider "length es < 4" | t a b c rest where "es = t # a # b # c # rest"
    using length4_cases [of es] by blast
  then show ?case
  proof cases
    case 2
    have "extensions_loop (drop (nat l) rest) \<noteq> None" for l by (rule IH) (simp add: 2)
    then show ?thesis
      by (simp add: 2 extensions_loop_step Let_def fails_Some parseServerNameExtension_total del: not_None_eq)
  qed (simp add: extensions_loop_end fails_Some)
qed

text \<open>The steps of parseServerName, each with the check that makes it safe.\<close>

lemma panic_free_index: "0 \<le> i \<Longrightarrow> \<not> blen xs < i + 1 \<Longrightarrow> (\<And>a. f a \<noteq> None) \<Longrightarrow> pure_or_panic (go_index xs i) f \<noteq> None"
  by (simp add: go_index_def pure_or_panic_def)

lemma panic_free_slice:
  "0 \<le> i \<Longrightarrow> i \<le> j \<Longrightarrow> \<not> blen xs < j \<Longrightarrow> (\<And>ys. f ys \<noteq> None) \<Longrightarrow> pure_or_panic (go_slice xs i j) f \<noteq> None"
  by (simp add: go_slice_def pure_or_panic_def)

lemma panic_free_be16:
  assumes "0 \<le> i" and "\<not> blen xs < i + 2" and f: "\<And>n. 0 \<le> n \<Longrightarrow> f n \<noteq> None"
  shows "pure_or_panic (Option.bind (go_slice xs i (i + 2)) be16) f \<noteq> None"
proof -
  from assms have s: "go_slice xs i (i + 2) = Some (take (nat (i + 2 - i)) (drop (nat i) xs))"
    by (intro go_slice_ok) auto
  have "2 \<le> blen (take (nat (i + 2 - i)) (drop (nat i) xs))" using blen_slice [OF s] by simp
  from be16_ok [OF this] obtain n where "be16 (take (nat (i + 2 - i)) (drop (nat i) xs)) = Some n" "0 \<le> n" by blast
  with s f show ?thesis by (simp add: pure_or_panic_def)
qed

lemma panic_free_if: "(b \<Longrightarrow> x \<noteq> None) \<Longrightarrow> (\<not> b \<Longrightarrow> y \<noteq> None) \<Longrightarrow> (if b then x else y) \<noteq> None"
  by simp

lemma parseServerName_total: "parseServerName record \<noteq> None"
  unfolding parseServerName_def Let_def
  by (intro panic_free_if panic_free_be16 panic_free_index panic_free_slice extensions_loop_total fails_ne;
      (auto simp: blen_def)?)

section \<open>Reading is complete and lossless\<close>

lemma read_until_keeps:
  "read_until n prefix handshake inp = Inr (p, h, r) \<Longrightarrow> p @ r = prefix @ inp \<and> n \<le> blen h"
proof (induction n prefix handshake inp arbitrary: p h r rule: read_until.induct)
  case (1 n prefix handshake inp)
  show ?case
  proof (cases "blen handshake < n")
    case True
    with 1(2) obtain ah ab rest where c: "readHandshakeContinuation inp = Inr (ah, ab, rest)"
      and e: "read_until n (prefix @ ah @ ab) (handshake @ ab) rest = Inr (p, h, r)"
      by (subst (asm) read_until.simps) (auto split: sum.splits)
    then have "inp = ah @ ab @ rest"
      using read_record_parts [of _ inp ah ab rest] by (auto simp: readHandshakeContinuation_def)
    with 1(1) [OF True c refl refl e] show ?thesis by simp
  qed (use 1(2) in \<open>subst (asm) read_until.simps, simp\<close>)
qed

lemma read_full_keeps_mono: "read_until n p h inp = Inr (p', h', r) \<Longrightarrow> \<exists>x. h' = h @ x"
proof (induction n p h inp arbitrary: p' h' r rule: read_until.induct)
  case (1 n prefix handshake inp)
  show ?case
  proof (cases "blen handshake < n")
    case True
    with 1(2) obtain ah ab rest where c: "readHandshakeContinuation inp = Inr (ah, ab, rest)"
      and e: "read_until n (prefix @ ah @ ab) (handshake @ ab) rest = Inr (p', h', r)"
      by (subst (asm) read_until.simps) (auto split: sum.splits)
    from 1(1) [OF True c refl refl e] show ?thesis by auto
  qed (use 1(2) in \<open>subst (asm) read_until.simps, simp\<close>)
qed

text \<open>The reader never panics and loses no byte.\<close>

lemma readClientHello_keeps_input:
  "case readClientHello inp of
     None \<Rightarrow> False
   | Some (Inl e) \<Rightarrow> True
   | Some (Inr (prefix, serverName, rest)) \<Rightarrow> prefix @ rest = inp"
proof (cases "read_record ''expected tls handshake record'' inp")
  case (Inr a)
  obtain header body rest where a: "a = (header, body, rest)" by (cases a)
  with Inr have i: "inp = header @ body @ rest" using read_record_parts by metis
  show ?thesis
  proof (cases "read_until 4 (header @ body) body rest")
    case r1: (Inr b)
    obtain prefix handshake rest1 where b: "b = (prefix, handshake, rest1)" by (cases b)
    with r1 have k1: "prefix @ rest1 = inp" "4 \<le> blen handshake"
      using read_until_keeps [of 4 "header @ body" body rest prefix handshake rest1] by (simp_all add: i)
    then have ix: "go_index handshake 0 = Some (handshake ! 0)" "go_index handshake 1 = Some (handshake ! 1)"
      "go_index handshake 2 = Some (handshake ! 2)" "go_index handshake 3 = Some (handshake ! 3)"
      by (simp_all add: go_index_def)
    define l where "l = uint (handshake ! 1) * 65536 + uint (handshake ! 2) * 256 + uint (handshake ! 3)"
    show ?thesis
    proof (cases "read_until (4 + l) prefix handshake rest1")
      case (Inl e)
      with Inr r1 a b ix show ?thesis
        by (simp add: readClientHello_def l_def fails_Some Let_def)
    next
      case r2: (Inr c)
      obtain prefix' handshake' rest2 where c: "c = (prefix', handshake', rest2)" by (cases c)
      with r2 k1 have k2: "prefix' @ rest2 = inp"
        using read_until_keeps [of "4 + l" prefix handshake rest1 prefix' handshake' rest2] by simp
      obtain p where p: "parseServerName (header @ handshake') = Some p" using parseServerName_total by blast
      show ?thesis
        using Inr r1 a b c r2 ix p k2
        by (cases p) (simp_all add: readClientHello_def l_def fails_Some Let_def)
    qed
  qed (simp add: readClientHello_def Inr a)
qed (simp add: readClientHello_def)

section \<open>The reference encoding of a ClientHello\<close>

text \<open>
  RFC 8446 4.1.2 and RFC 6066 3: the fields of a ClientHello and their encoding, and the records
  that carry it.
\<close>

definition u16 :: "nat \<Rightarrow> byte list" where
  "u16 n = [word_of_nat (n div 256), word_of_nat (n mod 256)]"

definition u24 :: "nat \<Rightarrow> byte list" where
  "u24 n = [word_of_nat (n div 65536), word_of_nat (n div 256 mod 256), word_of_nat (n mod 256)]"

record hello =
  hello_random :: "byte list"    \<comment> \<open>version and random, 34 bytes\<close>
  hello_session :: "byte list"
  hello_ciphers :: "byte list"
  hello_compression :: "byte list"
  hello_before :: "(nat \<times> byte list) list"    \<comment> \<open>extensions before the server name\<close>
  hello_name :: "byte list"
  hello_after :: "(nat \<times> byte list) list"

definition encode_extension :: "nat \<times> byte list \<Rightarrow> byte list" where
  "encode_extension e = u16 (fst e) @ u16 (length (snd e)) @ snd e"

definition encode_sni :: "byte list \<Rightarrow> byte list" where
  "encode_sni n = u16 (length n + 3) @ [0] @ u16 (length n) @ n"

definition encode_extensions :: "hello \<Rightarrow> byte list" where
  "encode_extensions h =
     concat (map encode_extension (hello_before h @ [(0, encode_sni (hello_name h))] @ hello_after h))"

definition encode_body :: "hello \<Rightarrow> byte list" where
  "encode_body h =
     hello_random h @ [word_of_nat (length (hello_session h))] @ hello_session h @
     u16 (length (hello_ciphers h)) @ hello_ciphers h @
     [word_of_nat (length (hello_compression h))] @ hello_compression h @
     u16 (length (encode_extensions h)) @ encode_extensions h"

definition encode_hello :: "hello \<Rightarrow> byte list" where
  "encode_hello h = [1] @ u24 (length (encode_body h)) @ encode_body h"

definition wf_hello :: "hello \<Rightarrow> bool" where
  "wf_hello h \<longleftrightarrow> length (hello_random h) = 34 \<and> length (hello_session h) < 256 \<and>
     length (hello_ciphers h) < 65536 \<and> length (hello_compression h) < 256 \<and>
     length (encode_extensions h) < 65536 \<and> hello_name h \<noteq> [] \<and>
     list_all (\<lambda>e. 0 < fst e \<and> fst e < 65536) (hello_before h)"

definition encode_record :: "byte list \<Rightarrow> byte list" where
  "encode_record f = [22, 3, 1] @ u16 (length f) @ f"

lemma uint_byte: "uint (word_of_nat k :: byte) = int (k mod 256)"
  by (simp add: unsigned_of_nat take_bit_eq_mod)

lemma int_div256: "int (n div 256) * 256 + int (n mod 256) = int n"
  by (metis of_nat_add of_nat_mult of_nat_numeral div_mult_mod_eq)

lemma u16_value: "n < 65536 \<Longrightarrow> uint (hd (u16 n)) * 256 + uint (hd (tl (u16 n))) = int n"
  by (simp add: u16_def uint_byte int_div256)

lemma length_u16 [simp]: "length (u16 n) = 2" by (simp add: u16_def)
lemma length_u24 [simp]: "length (u24 n) = 3" by (simp add: u24_def)

lemma be16_u16: "n < 65536 \<Longrightarrow> be16 (u16 n @ r) = Some (int n)"
  by (simp add: be16_def u16_def uint_byte int_div256)

lemma go_slice_app: "go_slice (a @ b @ c) (blen a) (blen a + blen b) = Some b"
  by (simp add: go_slice_def blen_def)

lemma go_slice_mid: "i = blen a \<Longrightarrow> j = blen a + blen b \<Longrightarrow> go_slice (a @ b @ c) i j = Some b"
  by (simp add: go_slice_app)

lemma go_index_mid: "i = blen a \<Longrightarrow> go_index (a @ [b] @ c) i = Some b"
  by (simp add: go_index_def blen_def)

lemma string_of_bytes_eq_Nil [simp]: "string_of_bytes n = [] \<longleftrightarrow> n = []"
  by (simp add: string_of_bytes_def)

lemma parse_encode_sni:
  assumes "n \<noteq> []" and "length n + 3 < 65536"
  shows "parseServerNameExtension (encode_sni n) = Some (Inr (string_of_bytes n))"
proof -
  define names where "names = [0 :: byte] @ u16 (length n) @ n"
  have e: "encode_sni n = [] @ u16 (length n + 3) @ names" by (simp add: encode_sni_def names_def)
  have b: "blen (encode_sni n) = 2 + blen names" by (simp add: e blen_def)
  have len: "blen names = int (length n + 3)" by (simp add: names_def blen_def)
  have 1: "go_slice (encode_sni n) 0 2 = Some (u16 (length n + 3))"
    unfolding e by (rule go_slice_mid) (simp_all add: blen_def)
  have 2: "go_slice (encode_sni n) 2 (blen (encode_sni n)) = Some names"
    using go_slice_mid [of 2 "u16 (length n + 3)" "blen (encode_sni n)" names "[]"] b by (simp add: e blen_def)
  have 3: "be16 (u16 (length n + 3)) = Some (int (length n + 3))"
    using be16_u16 [OF assms(2), of "[]"] by simp
  have 4: "go_slice names 0 (int (length n + 3)) = Some names"
    using go_slice_mid [of 0 "[]" "int (length n + 3)" names "[]"] len by (simp add: blen_def)
  obtain a c where ac: "u16 (length n) = [a, c]" "uint a * 256 + uint c = int (length n)"
    using u16_value [of "length n"] assms(2) by (simp add: u16_def)
  have 5: "server_name_loop names = Some (Inr (string_of_bytes n))"
    using assms(1) ac by (simp add: names_def server_name_loop_step Let_def blen_def)
  show ?thesis
    using b len 1 2 3 4 5 by (simp add: parseServerNameExtension_def)
qed

lemma extensions_loop_one:
  assumes "fst e < 65536" and "length (snd e) < 65536"
  shows "extensions_loop (encode_extension e @ es) =
     (if fst e = 0 then parseServerNameExtension (snd e) else extensions_loop es)"
proof -
  obtain a b where ab: "u16 (fst e) = [a, b]" "uint a * 256 + uint b = int (fst e)"
    using u16_value [OF assms(1)] by (simp add: u16_def)
  obtain c d where cd: "u16 (length (snd e)) = [c, d]" "uint c * 256 + uint d = int (length (snd e))"
    using u16_value [OF assms(2)] by (simp add: u16_def)
  have "encode_extension e @ es = a # b # c # d # snd e @ es"
    by (simp add: encode_extension_def ab cd)
  then show ?thesis by (simp add: extensions_loop_step ab(2) cd(2) Let_def blen_def)
qed

lemma extensions_loop_skip:
  "list_all (\<lambda>e. 0 < fst e \<and> fst e < 65536) bs \<Longrightarrow> length (concat (map encode_extension bs)) < 65536 \<Longrightarrow>
     extensions_loop (concat (map encode_extension bs) @ es) = extensions_loop es"
proof (induction bs)
  case (Cons b bs)
  have "length (snd b) < 65536" using Cons.prems(2) by (simp add: encode_extension_def)
  with Cons show ?case by (simp add: extensions_loop_one)
qed simp

lemma extensions_loop_encoded:
  assumes "wf_hello h"
  shows "extensions_loop (encode_extensions h) = Some (Inr (string_of_bytes (hello_name h)))"
proof -
  have l: "length (concat (map encode_extension (hello_before h))) < 65536"
    "length (encode_sni (hello_name h)) < 65536" "length (hello_name h) + 3 < 65536"
    using assms by (auto simp: wf_hello_def encode_extensions_def encode_extension_def encode_sni_def)
  then show ?thesis
    using assms unfolding encode_extensions_def
    by (simp add: extensions_loop_skip extensions_loop_one parse_encode_sni wf_hello_def)
qed

lemma u24_value:
  assumes "n < 16777216"
  shows "uint (hd (u24 n)) * 65536 + uint (u24 n ! 1) * 256 + uint (u24 n ! 2) = int n"
proof -
  have "n div 65536 < 256" using assms by (simp add: less_mult_imp_div_less)
  then have "uint (hd (u24 n)) * 65536 + uint (u24 n ! 1) * 256 + uint (u24 n ! 2) =
     int (n div 65536 * 65536 + n div 256 mod 256 * 256 + n mod 256)"
    by (simp add: u24_def uint_byte)
  also have "n div 65536 * 65536 + n div 256 mod 256 * 256 + n mod 256 = n"
  proof -
    have "n div 65536 = n div 256 div 256" by (simp add: div_mult2_eq [symmetric])
    then have "n div 65536 * 256 + n div 256 mod 256 = n div 256" by simp
    then have "(n div 65536 * 256 + n div 256 mod 256) * 256 + n mod 256 = n" by simp
    then show ?thesis by (simp add: algebra_simps)
  qed
  finally show ?thesis .
qed

lemma encode_body_length: "wf_hello h \<Longrightarrow> length (encode_body h) < 200000"
  by (auto simp: wf_hello_def encode_body_def)

lemma parse_encode_body:
  assumes wf: "wf_hello h" and hd: "length header = 5" "hd header = tlsHandshakeRecord"
  shows "parseServerName (header @ encode_hello h) = Some (Inr (string_of_bytes (hello_name h)))"
proof -
  define b where "b = encode_body h"
  obtain x y z where u: "u24 (length b) = [x, y, z]" by (simp add: u24_def)
  have lv: "uint x * 65536 + uint y * 256 + uint z = blen b"
    using u24_value [of "length b"] encode_body_length [OF wf] u by (simp add: b_def blen_def)
  define rd where "rd = header @ encode_hello h"
  have rd: "rd = header @ [1, x, y, z] @ b" by (simp add: rd_def encode_hello_def u [unfolded b_def] b_def)
  have h0: "header ! 0 = tlsHandshakeRecord" using hd by (cases header) simp_all
  have ix: "go_index rd 0 = Some tlsHandshakeRecord" "go_index rd 5 = Some 1" "go_index rd 6 = Some x"
    "go_index rd 7 = Some y" "go_index rd 8 = Some z" "go_slice rd 9 (blen rd) = Some b" "\<not> blen rd < 9"
    using hd by (simp_all add: rd go_index_def go_slice_def blen_def nth_append h0)
  have all0: "go_slice b 0 (blen b) = Some b" by (simp add: go_slice_def blen_def)
  define r where "r = hello_random h"
  define sid where "sid = hello_session h"
  define cs where "cs = hello_ciphers h"
  define cm where "cm = hello_compression h"
  define ex where "ex = encode_extensions h"
  have w: "length r = 34" "length sid < 256" "length cs < 65536" "length cm < 256" "length ex < 65536"
    using wf by (simp_all add: wf_hello_def r_def sid_def cs_def cm_def ex_def)
  have b: "b = r @ [word_of_nat (length sid)] @ sid @ u16 (length cs) @ cs @ [word_of_nat (length cm)] @ cm @
      u16 (length ex) @ ex"
    by (simp add: b_def encode_body_def r_def sid_def cs_def cm_def ex_def)
  have i1: "go_index b 34 = Some (word_of_nat (length sid))"
    unfolding b by (rule go_index_mid) (simp add: w blen_def)
  have i2: "go_slice b (35 + blen sid) (37 + blen sid) = Some (u16 (length cs))"
    using go_slice_mid [of "35 + blen sid" "r @ [word_of_nat (length sid)] @ sid" "37 + blen sid" "u16 (length cs)"
      "cs @ [word_of_nat (length cm)] @ cm @ u16 (length ex) @ ex"] w by (simp add: b blen_def)
  have i3: "go_index b (37 + blen sid + blen cs) = Some (word_of_nat (length cm))"
    using go_index_mid [of "37 + blen sid + blen cs" "r @ [word_of_nat (length sid)] @ sid @ u16 (length cs) @ cs"
      "word_of_nat (length cm)" "cm @ u16 (length ex) @ ex"] w by (simp add: b blen_def)
  have i4: "go_slice b (38 + blen sid + blen cs + blen cm) (40 + blen sid + blen cs + blen cm) = Some (u16 (length ex))"
    using go_slice_mid [of "38 + blen sid + blen cs + blen cm"
      "r @ [word_of_nat (length sid)] @ sid @ u16 (length cs) @ cs @ [word_of_nat (length cm)] @ cm"
      "40 + blen sid + blen cs + blen cm" "u16 (length ex)" "ex"] w by (simp add: b blen_def)
  have i5: "go_slice b (40 + blen sid + blen cs + blen cm) (40 + blen sid + blen cs + blen cm + blen ex) = Some ex"
    using go_slice_mid [of "40 + blen sid + blen cs + blen cm"
      "r @ [word_of_nat (length sid)] @ sid @ u16 (length cs) @ cs @ [word_of_nat (length cm)] @ cm @ u16 (length ex)"
      "40 + blen sid + blen cs + blen cm + blen ex" ex "[]"] w by (simp add: b blen_def)
  have bl: "blen b = 40 + blen sid + blen cs + blen cm + blen ex" using w by (simp add: b blen_def)
  note all = all0 [unfolded bl]
  have nn: "0 \<le> blen sid" "0 \<le> blen cs" "0 \<le> blen cm" "0 \<le> blen ex" by (simp_all add: blen_def)
  have v: "uint (word_of_nat (length sid) :: byte) = blen sid" "uint (word_of_nat (length cm) :: byte) = blen cm"
    "be16 (u16 (length cs)) = Some (blen cs)" "be16 (u16 (length ex)) = Some (blen ex)"
    using w be16_u16 [of "length cs" "[]"] be16_u16 [of "length ex" "[]"] by (simp_all add: uint_byte blen_def)
  have "parseServerName rd = extensions_loop ex"
    unfolding parseServerName_def Let_def
    using nn by (simp add: ix lv [unfolded add.assoc] all [unfolded add.assoc] bl [unfolded add.assoc] i1 v i2 i3 [unfolded add.assoc]
      i4 [unfolded add.assoc] i5 [unfolded add.assoc] add.assoc)
  then show ?thesis by (simp add: rd_def ex_def extensions_loop_encoded [OF wf])
qed

lemma read_record_encoded:
  assumes "length f < 65536"
  shows "read_record w (encode_record f @ rest) = Inr ([22, 3, 1] @ u16 (length f), f, rest)"
proof -
  obtain a b where ab: "u16 (length f) = [a, b]" "uint a * 256 + uint b = int (length f)"
    using u16_value [OF assms] by (simp add: u16_def)
  show ?thesis
    by (simp add: read_record_def read_full_def encode_record_def ab blen_def tlsHandshakeRecord_def)
qed

text \<open>Reading on to a greater length is reading once to that length.\<close>

lemma read_until_split:
  "m \<le> n \<Longrightarrow> rbind (read_until m p h inp) (\<lambda>(p', h', r). read_until n p' h' r) = read_until n p h inp"
proof (induction m p h inp rule: read_until.induct)
  case (1 m p h inp)
  show ?case
  proof (cases "blen h < m")
    case True
    with 1(2) have n: "blen h < n" by simp
    show ?thesis
    proof (cases "readHandshakeContinuation inp")
      case (Inl e)
      with True n show ?thesis by (simp add: rbind_def read_until.simps [of m] read_until.simps [of n p])
    next
      case (Inr x)
      obtain ah ab rest where x: "x = (ah, ab, rest)" by (cases x)
      from 1(1) [OF True Inr, of ah "(ab, rest)" ab rest] 1(2) x
      have "rbind (read_until m (p @ ah @ ab) (h @ ab) rest) (\<lambda>(p', h', r). read_until n p' h' r) =
         read_until n (p @ ah @ ab) (h @ ab) rest" by simp
      with True n Inr x show ?thesis
        by (simp add: read_until.simps [of m p] read_until.simps [of n p])
    qed
  next
    case False
    then show ?thesis by (simp add: read_until.simps [of m])
  qed
qed

lemma read_until_records:
  "list_all (\<lambda>f. 0 < length f \<and> length f < 65536) fs \<Longrightarrow> n = blen (h @ concat fs) \<Longrightarrow>
     read_until n p h (concat (map encode_record fs) @ rest) =
     Inr (p @ concat (map encode_record fs), h @ concat fs, rest)"
proof (induction fs arbitrary: p h)
  case Nil
  then show ?case by (subst read_until.simps) simp
next
  case (Cons f fs)
  define hdr where "hdr = [22, 3, 1 :: byte] @ u16 (length f)"
  have e: "encode_record f = hdr @ f" by (simp add: encode_record_def hdr_def)
  from Cons.prems(1) have r: "readHandshakeContinuation (hdr @ f @ concat (map encode_record fs) @ rest) =
      Inr (hdr, f, concat (map encode_record fs) @ rest)"
    using read_record_encoded [of f _ "concat (map encode_record fs) @ rest"]
    by (simp add: readHandshakeContinuation_def e hdr_def)
  have less: "blen h < n" using Cons.prems by (cases f) (simp_all add: blen_def)
  have "read_until n (p @ hdr @ f) (h @ f) (concat (map encode_record fs) @ rest) =
      Inr ((p @ hdr @ f) @ concat (map encode_record fs), (h @ f) @ concat fs, rest)"
    by (rule Cons.IH) (use Cons.prems in simp_all)
  then show ?case by (subst read_until.simps) (simp add: r less e)
qed

text \<open>
  C39: The server name survives every fragmentation: a well-formed ClientHello (RFC 8446 and
  RFC 6066 encoding, any other extensions around the server name), cut in any way into non-empty
  handshake records, is read back with the same name in lower case, and the prefix that is replayed
  is exactly those records.
\<close>

theorem readClientHello_any_fragmentation:
  assumes wf: "wf_hello h"
    and frags: "concat fs = encode_hello h"
    and sizes: "list_all (\<lambda>f. 0 < length f \<and> length f < 65536) fs"
  shows "readClientHello (concat (map encode_record fs) @ rest) =
    Some (Inr (concat (map encode_record fs), to_lower (string_of_bytes (hello_name h)), rest))"
proof -
  define b where "b = encode_body h"
  obtain x y z where u: "u24 (length b) = [x, y, z]" by (simp add: u24_def)
  have lv: "uint x * 65536 + uint y * 256 + uint z = blen b"
    using u24_value [of "length b"] encode_body_length [OF wf] u by (simp add: b_def blen_def)
  have enc: "encode_hello h = 1 # x # y # z # b" using u by (simp add: encode_hello_def b_def)
  from frags enc obtain f gs where fs: "fs = f # gs" by (cases fs) auto
  define header where "header = [22, 3, 1 :: byte] @ u16 (length f)"
  define recs where "recs = concat (map encode_record gs)"
  have r0: "read_record ''expected tls handshake record'' (concat (map encode_record fs) @ rest) = Inr (header, f, recs @ rest)"
    using sizes read_record_encoded [of f "''expected tls handshake record''" "recs @ rest"]
    by (simp add: fs header_def recs_def)
  have eq: "f @ concat gs = encode_hello h" using frags by (simp add: fs)
  then have n: "4 + blen b = blen (f @ concat gs)" by (simp add: enc blen_def)
  have "list_all (\<lambda>f. 0 < length f \<and> length f < 65536) gs" using sizes by (simp add: fs)
  from read_until_records [OF this n, of "header @ f" rest]
  have full: "read_until (4 + blen b) (header @ f) f (recs @ rest) = Inr (header @ f @ recs, encode_hello h, rest)"
    by (simp only: eq recs_def append_assoc)
  moreover have "rbind (read_until 4 (header @ f) f (recs @ rest)) (\<lambda>(p', h', r). read_until (4 + blen b) p' h' r) =
      read_until (4 + blen b) (header @ f) f (recs @ rest)"
    by (rule read_until_split) (simp add: blen_def)
  ultimately obtain p' h' r where r1: "read_until 4 (header @ f) f (recs @ rest) = Inr (p', h', r)"
    and r2: "read_until (4 + blen b) p' h' r = Inr (header @ f @ recs, encode_hello h, rest)"
    by (cases "read_until 4 (header @ f) f (recs @ rest)") (auto simp: rbind_def)
  have four: "4 \<le> blen h'" using read_until_keeps [OF r1] by simp
  obtain t where t: "encode_hello h = h' @ t" using read_full_keeps_mono [OF r2] by blast
  obtain t' where h': "h' = 1 # x # y # z # t'"
    using four t enc length4_cases [of h'] by (auto simp: blen_def)
  have ix: "go_index h' 0 = Some 1" "go_index h' 1 = Some x" "go_index h' 2 = Some y" "go_index h' 3 = Some z"
    by (simp_all add: h' go_index_def blen_def)
  have small: "\<not> maxClientHelloSize < blen b"
    using encode_body_length [OF wf] by (simp add: maxClientHelloSize_def blen_def b_def)
  have p: "parseServerName (header @ encode_hello h) = Some (Inr (string_of_bytes (hello_name h)))"
    by (rule parse_encode_body [OF wf]) (simp_all add: header_def tlsHandshakeRecord_def)
  have pre: "concat (map encode_record fs) = header @ f @ recs"
    by (simp add: fs header_def recs_def encode_record_def)
  show ?thesis
    unfolding readClientHello_def
    by (simp add: r0 [unfolded pre] r1 ix lv small r2 p pre Let_def del: append_assoc)
qed

definition sample_hello :: hello where
  "sample_hello = \<lparr>hello_random = replicate 34 0, hello_session = [1, 2], hello_ciphers = [0, 1],
     hello_compression = [0], hello_before = [(43, [3])], hello_name = [65, 46, 66], hello_after = [(10, [])]\<rparr>"

lemma readClientHello_any_fragmentation_witness:
  "readClientHello
     (concat (map encode_record [take 3 (encode_hello sample_hello), drop 3 (encode_hello sample_hello)]) @ [9]) =
   Some (Inr (concat (map encode_record [take 3 (encode_hello sample_hello), drop 3 (encode_hello sample_hello)]),
     ''a.b'', [9]))"
proof -
  have 1: "wf_hello sample_hello"
    by (simp add: wf_hello_def sample_hello_def encode_extensions_def encode_extension_def encode_sni_def)
  have 2: "concat [take 3 (encode_hello sample_hello), drop 3 (encode_hello sample_hello)] = encode_hello sample_hello"
    by simp
  have 3: "list_all (\<lambda>f. 0 < length f \<and> length f < 65536)
      [take 3 (encode_hello sample_hello), drop 3 (encode_hello sample_hello)]"
    using encode_body_length [OF 1] by (simp add: encode_hello_def sample_hello_def encode_body_def
      encode_extensions_def encode_extension_def encode_sni_def)
  have 4: "to_lower (string_of_bytes (hello_name sample_hello)) = ''a.b''" by code_simp
  show ?thesis using readClientHello_any_fragmentation [OF 1 2 3, of "[9]"] unfolding 4 .
qed

end
