(* ===== verification/Protocol.thy ===== *)
theory Protocol
  imports TlsHello Domain
begin

text \<open>
  The control protocol of internal/control/protocol.go: the messages, their conversion to and from
  the generated protobuf structs, and the length-prefixed frames of messages, of the multiplexer
  and of datagrams. The protobuf library is a parameter: proto.Marshal and proto.Unmarshal of the
  generated structs, which are the constructors of \<open>pb\<close>.
\<close>

section \<open>Messages\<close>

type_synonym MessageType = string

abbreviation MessageAuthRequest :: MessageType where "MessageAuthRequest \<equiv> ''auth_request''"
abbreviation MessageAuthResponse :: MessageType where "MessageAuthResponse \<equiv> ''auth_response''"
abbreviation MessageHeartbeat :: MessageType where "MessageHeartbeat \<equiv> ''heartbeat''"
abbreviation MessageOpenStream :: MessageType where "MessageOpenStream \<equiv> ''open_stream''"
abbreviation MessageProxySnapshot :: MessageType where "MessageProxySnapshot \<equiv> ''proxy_snapshot''"
abbreviation MessageProxyListRequest :: MessageType where "MessageProxyListRequest \<equiv> ''proxy_list_request''"
abbreviation MessageProxyListResponse :: MessageType where "MessageProxyListResponse \<equiv> ''proxy_list_response''"

record Envelope =
  Env_Type :: MessageType
  Env_Payload :: "byte list"

record AuthRequest =
  AReq_ClientID :: string
  AReq_Credential :: string
  AReq_Nonce :: string
  AReq_Timestamp :: time
  AReq_Version :: string
  AReq_Protocols :: "Protocol list"

record AuthResponse =
  ARsp_Accepted :: bool
  ARsp_SessionID :: string
  ARsp_SelectedProtocol :: Protocol
  ARsp_HeartbeatInterval :: duration
  ARsp_ConfigVersion :: int
  ARsp_Reason :: string

record Heartbeat =
  HB_SessionID :: string
  HB_ClientID :: string
  HB_ObservedAt :: time
  HB_ConfigVersion :: int
  HB_ActiveProxies :: int
  HB_ActiveStreams :: int
  HB_UploadBytes :: int
  HB_DownloadBytes :: int
  HB_ErrorSummary :: string

record ProxySnapshot =
  Snap_Version :: int
  Snap_Proxies :: "Proxy list"

record ProxyListRequest =
  PLReq_ConfigVersion :: int

record ProxyListResponse =
  PLRsp_Version :: int
  PLRsp_Proxies :: "Proxy list"

record OpenStream =
  OS_Kind :: string
  OS_ProxyID :: string
  OS_ConnectionID :: string
  OS_TargetHost :: string
  OS_TargetPort :: int

text \<open>A payload: the dynamic type of \<open>payload any\<close>, and the type argument of DecodePayload.\<close>

datatype Payload =
    PAuthRequest AuthRequest | PAuthResponse AuthResponse | PHeartbeat Heartbeat | POpenStream OpenStream
  | PProxySnapshot ProxySnapshot | PProxyListRequest ProxyListRequest | PProxyListResponse ProxyListResponse

type_synonym MuxFrameType = string

abbreviation MuxFrameOpen :: MuxFrameType where "MuxFrameOpen \<equiv> ''open''"
abbreviation MuxFrameData :: MuxFrameType where "MuxFrameData \<equiv> ''data''"
abbreviation MuxFrameClose :: MuxFrameType where "MuxFrameClose \<equiv> ''close''"
abbreviation MuxFrameReset :: MuxFrameType where "MuxFrameReset \<equiv> ''reset''"

record MuxFrame =
  MF_StreamID :: int
  MF_Type :: MuxFrameType
  MF_Payload :: "byte list"
  MF_Reason :: string

section \<open>The generated structs\<close>

record pbProxy =
  pbp_Id :: string
  pbp_UserId :: string
  pbp_ClientId :: string
  pbp_Name :: string
  pbp_Type :: string
  pbp_Status :: string
  pbp_EntryHost :: string
  pbp_EntryPort :: int
  pbp_TargetHost :: string
  pbp_TargetPort :: int
  pbp_Description :: string
  pbp_CreatedAtUnixNano :: int
  pbp_UpdatedAtUnixNano :: int

text \<open>The messages of controlpb, each with its fields in the order of their numbers.\<close>

datatype pb =
    PbEnvelope int "byte list"
  | PbAuthRequest string string string int string "string list"
  | PbAuthResponse bool string string int int string
  | PbHeartbeat string string int int int int int int string
  | PbOpenStream string string string string int
  | PbProxySnapshot int "pbProxy list"
  | PbProxyListRequest int
  | PbProxyListResponse int "pbProxy list"
  | PbMuxFrame int int "byte list" string

datatype pb_kind = KEnvelope | KAuthRequest | KAuthResponse | KHeartbeat | KOpenStream | KProxySnapshot
  | KProxyListRequest | KProxyListResponse | KMuxFrame

fun kind_of :: "pb \<Rightarrow> pb_kind" where
  "kind_of (PbEnvelope t p) = KEnvelope"
| "kind_of (PbAuthRequest a b c d e f) = KAuthRequest"
| "kind_of (PbAuthResponse a b c d e f) = KAuthResponse"
| "kind_of (PbHeartbeat a b c d e f g h i) = KHeartbeat"
| "kind_of (PbOpenStream a b c d e) = KOpenStream"
| "kind_of (PbProxySnapshot a b) = KProxySnapshot"
| "kind_of (PbProxyListRequest a) = KProxyListRequest"
| "kind_of (PbProxyListResponse a b) = KProxyListResponse"
| "kind_of (PbMuxFrame a b c d) = KMuxFrame"

text \<open>proto.Marshal of a message, and proto.Unmarshal into an empty message of a kind.\<close>

type_synonym marshal = "pb \<Rightarrow> byte list result"
type_synonym unmarshal = "pb_kind \<Rightarrow> byte list \<Rightarrow> pb result"

section \<open>Conversions\<close>

definition wrap32 :: "int \<Rightarrow> int" where
  "wrap32 x = (x + 2147483648) mod 4294967296 - 2147483648"

definition is_int32 :: "int \<Rightarrow> bool" where
  "is_int32 x \<longleftrightarrow> -2147483648 \<le> x \<and> x < 2147483648"

lemma wrap32_id [simp]: "is_int32 x \<Longrightarrow> wrap32 x = x"
  by (simp add: is_int32_def wrap32_def)

text \<open>Time.UnixNano, undefined outside the years it can represent: the int64 wraps.\<close>

definition unix_epoch :: time where "unix_epoch = 62135596800000000000"

definition UnixNano :: "time \<Rightarrow> int" where
  "UnixNano t = wrap64 (t - unix_epoch)"

definition unixNanoTime :: "int \<Rightarrow> time" where
  "unixNanoTime v = (if v = 0 then 0 else unix_epoch + v)"

fun toProtoMessageType :: "MessageType \<Rightarrow> int" where
  "toProtoMessageType t =
     (if t = MessageAuthRequest then 1 else if t = MessageAuthResponse then 2
      else if t = MessageHeartbeat then 3 else if t = MessageOpenStream then 4
      else if t = MessageProxySnapshot then 5 else if t = MessageProxyListRequest then 6
      else if t = MessageProxyListResponse then 7 else 0)"

fun fromProtoMessageType :: "int \<Rightarrow> MessageType" where
  "fromProtoMessageType t =
     (if t = 1 then MessageAuthRequest else if t = 2 then MessageAuthResponse
      else if t = 3 then MessageHeartbeat else if t = 4 then MessageOpenStream
      else if t = 5 then MessageProxySnapshot else if t = 6 then MessageProxyListRequest
      else if t = 7 then MessageProxyListResponse else [])"

fun toProtoMuxFrameType :: "MuxFrameType \<Rightarrow> int" where
  "toProtoMuxFrameType t =
     (if t = MuxFrameOpen then 1 else if t = MuxFrameData then 2 else if t = MuxFrameClose then 3
      else if t = MuxFrameReset then 4 else 0)"

fun fromProtoMuxFrameType :: "int \<Rightarrow> MuxFrameType" where
  "fromProtoMuxFrameType t =
     (if t = 1 then MuxFrameOpen else if t = 2 then MuxFrameData else if t = 3 then MuxFrameClose
      else if t = 4 then MuxFrameReset else [])"

definition authRequestToProto :: "AuthRequest \<Rightarrow> pb" where
  "authRequestToProto r = PbAuthRequest (AReq_ClientID r) (AReq_Credential r) (AReq_Nonce r)
     (UnixNano (AReq_Timestamp r)) (AReq_Version r) (AReq_Protocols r)"

fun authRequestFromProto :: "pb \<Rightarrow> AuthRequest" where
  "authRequestFromProto (PbAuthRequest c cr n t v ps) =
     \<lparr>AReq_ClientID = c, AReq_Credential = cr, AReq_Nonce = n, AReq_Timestamp = unixNanoTime t,
      AReq_Version = v, AReq_Protocols = ps\<rparr>"
| "authRequestFromProto _ = \<lparr>AReq_ClientID = [], AReq_Credential = [], AReq_Nonce = [], AReq_Timestamp = 0,
      AReq_Version = [], AReq_Protocols = []\<rparr>"

definition authResponseToProto :: "AuthResponse \<Rightarrow> pb" where
  "authResponseToProto r = PbAuthResponse (ARsp_Accepted r) (ARsp_SessionID r) (ARsp_SelectedProtocol r)
     (ARsp_HeartbeatInterval r) (ARsp_ConfigVersion r) (ARsp_Reason r)"

fun authResponseFromProto :: "pb \<Rightarrow> AuthResponse" where
  "authResponseFromProto (PbAuthResponse a s p h v r) =
     \<lparr>ARsp_Accepted = a, ARsp_SessionID = s, ARsp_SelectedProtocol = p, ARsp_HeartbeatInterval = h,
      ARsp_ConfigVersion = v, ARsp_Reason = r\<rparr>"
| "authResponseFromProto _ = \<lparr>ARsp_Accepted = False, ARsp_SessionID = [], ARsp_SelectedProtocol = [],
      ARsp_HeartbeatInterval = 0, ARsp_ConfigVersion = 0, ARsp_Reason = []\<rparr>"

definition heartbeatToProto :: "Heartbeat \<Rightarrow> pb" where
  "heartbeatToProto h = PbHeartbeat (HB_SessionID h) (HB_ClientID h) (UnixNano (HB_ObservedAt h))
     (HB_ConfigVersion h) (wrap32 (HB_ActiveProxies h)) (wrap32 (HB_ActiveStreams h))
     (HB_UploadBytes h) (HB_DownloadBytes h) (HB_ErrorSummary h)"

fun heartbeatFromProto :: "pb \<Rightarrow> Heartbeat" where
  "heartbeatFromProto (PbHeartbeat s c t v p st u d e) =
     \<lparr>HB_SessionID = s, HB_ClientID = c, HB_ObservedAt = unixNanoTime t, HB_ConfigVersion = v,
      HB_ActiveProxies = p, HB_ActiveStreams = st, HB_UploadBytes = u, HB_DownloadBytes = d, HB_ErrorSummary = e\<rparr>"
| "heartbeatFromProto _ = \<lparr>HB_SessionID = [], HB_ClientID = [], HB_ObservedAt = 0, HB_ConfigVersion = 0,
      HB_ActiveProxies = 0, HB_ActiveStreams = 0, HB_UploadBytes = 0, HB_DownloadBytes = 0, HB_ErrorSummary = []\<rparr>"

definition openStreamToProto :: "OpenStream \<Rightarrow> pb" where
  "openStreamToProto s = PbOpenStream (OS_Kind s) (OS_ProxyID s) (OS_ConnectionID s) (OS_TargetHost s)
     (wrap32 (OS_TargetPort s))"

fun openStreamFromProto :: "pb \<Rightarrow> OpenStream" where
  "openStreamFromProto (PbOpenStream k p c h t) =
     \<lparr>OS_Kind = k, OS_ProxyID = p, OS_ConnectionID = c, OS_TargetHost = h, OS_TargetPort = t\<rparr>"
| "openStreamFromProto _ =
     \<lparr>OS_Kind = [], OS_ProxyID = [], OS_ConnectionID = [], OS_TargetHost = [], OS_TargetPort = 0\<rparr>"

definition proxyToProto :: "Proxy \<Rightarrow> pbProxy" where
  "proxyToProto p =
     \<lparr>pbp_Id = Proxy_ID p, pbp_UserId = Proxy_UserID p, pbp_ClientId = Proxy_ClientID p, pbp_Name = Proxy_Name p,
      pbp_Type = Proxy_Type p, pbp_Status = Proxy_Status p, pbp_EntryHost = Proxy_EntryHost p,
      pbp_EntryPort = wrap32 (Proxy_EntryPort p), pbp_TargetHost = Proxy_TargetHost p,
      pbp_TargetPort = wrap32 (Proxy_TargetPort p), pbp_Description = Proxy_Description p,
      pbp_CreatedAtUnixNano = UnixNano (Proxy_CreatedAt p), pbp_UpdatedAtUnixNano = UnixNano (Proxy_UpdatedAt p)\<rparr>"

definition proxyFromProto :: "pbProxy \<Rightarrow> Proxy" where
  "proxyFromProto p = zeroProxy
     \<lparr>Proxy_ID := pbp_Id p, Proxy_UserID := pbp_UserId p, Proxy_ClientID := pbp_ClientId p, Proxy_Name := pbp_Name p,
      Proxy_Type := pbp_Type p, Proxy_Status := pbp_Status p, Proxy_EntryHost := pbp_EntryHost p,
      Proxy_EntryPort := pbp_EntryPort p, Proxy_TargetHost := pbp_TargetHost p,
      Proxy_TargetPort := pbp_TargetPort p, Proxy_Description := pbp_Description p,
      Proxy_CreatedAt := unixNanoTime (pbp_CreatedAtUnixNano p),
      Proxy_UpdatedAt := unixNanoTime (pbp_UpdatedAtUnixNano p)\<rparr>"

definition proxySnapshotToProto :: "ProxySnapshot \<Rightarrow> pb" where
  "proxySnapshotToProto s = PbProxySnapshot (Snap_Version s) (map proxyToProto (Snap_Proxies s))"

fun proxySnapshotFromProto :: "pb \<Rightarrow> ProxySnapshot" where
  "proxySnapshotFromProto (PbProxySnapshot v ps) = \<lparr>Snap_Version = v, Snap_Proxies = map proxyFromProto ps\<rparr>"
| "proxySnapshotFromProto _ = \<lparr>Snap_Version = 0, Snap_Proxies = []\<rparr>"

definition proxyListRequestToProto :: "ProxyListRequest \<Rightarrow> pb" where
  "proxyListRequestToProto r = PbProxyListRequest (PLReq_ConfigVersion r)"

fun proxyListRequestFromProto :: "pb \<Rightarrow> ProxyListRequest" where
  "proxyListRequestFromProto (PbProxyListRequest v) = \<lparr>PLReq_ConfigVersion = v\<rparr>"
| "proxyListRequestFromProto _ = \<lparr>PLReq_ConfigVersion = 0\<rparr>"

definition proxyListResponseToProto :: "ProxyListResponse \<Rightarrow> pb" where
  "proxyListResponseToProto r = PbProxyListResponse (PLRsp_Version r) (map proxyToProto (PLRsp_Proxies r))"

fun proxyListResponseFromProto :: "pb \<Rightarrow> ProxyListResponse" where
  "proxyListResponseFromProto (PbProxyListResponse v ps) = \<lparr>PLRsp_Version = v, PLRsp_Proxies = map proxyFromProto ps\<rparr>"
| "proxyListResponseFromProto _ = \<lparr>PLRsp_Version = 0, PLRsp_Proxies = []\<rparr>"

definition muxFrameToProto :: "MuxFrame \<Rightarrow> pb" where
  "muxFrameToProto f = PbMuxFrame (MF_StreamID f) (toProtoMuxFrameType (MF_Type f)) (MF_Payload f) (MF_Reason f)"

fun muxFrameFromProto :: "pb \<Rightarrow> MuxFrame" where
  "muxFrameFromProto (PbMuxFrame i t p r) =
     \<lparr>MF_StreamID = i, MF_Type = fromProtoMuxFrameType t, MF_Payload = p, MF_Reason = r\<rparr>"
| "muxFrameFromProto _ = \<lparr>MF_StreamID = 0, MF_Type = [], MF_Payload = [], MF_Reason = []\<rparr>"

section \<open>Payloads\<close>

text \<open>The struct a payload becomes, and its message type; \<open>marshalPayload\<close> wants the two to agree.\<close>

fun payload_to_proto :: "Payload \<Rightarrow> pb" where
  "payload_to_proto (PAuthRequest v) = authRequestToProto v"
| "payload_to_proto (PAuthResponse v) = authResponseToProto v"
| "payload_to_proto (PHeartbeat v) = heartbeatToProto v"
| "payload_to_proto (POpenStream v) = openStreamToProto v"
| "payload_to_proto (PProxySnapshot v) = proxySnapshotToProto v"
| "payload_to_proto (PProxyListRequest v) = proxyListRequestToProto v"
| "payload_to_proto (PProxyListResponse v) = proxyListResponseToProto v"

fun payload_type :: "Payload \<Rightarrow> MessageType" where
  "payload_type (PAuthRequest v) = MessageAuthRequest"
| "payload_type (PAuthResponse v) = MessageAuthResponse"
| "payload_type (PHeartbeat v) = MessageHeartbeat"
| "payload_type (POpenStream v) = MessageOpenStream"
| "payload_type (PProxySnapshot v) = MessageProxySnapshot"
| "payload_type (PProxyListRequest v) = MessageProxyListRequest"
| "payload_type (PProxyListResponse v) = MessageProxyListResponse"

fun struct_name :: "MessageType \<Rightarrow> string" where
  "struct_name t =
     (if t = MessageAuthRequest then ''AuthRequest'' else if t = MessageAuthResponse then ''AuthResponse''
      else if t = MessageHeartbeat then ''Heartbeat'' else if t = MessageOpenStream then ''OpenStream''
      else if t = MessageProxySnapshot then ''ProxySnapshot'' else if t = MessageProxyListRequest then ''ProxyListRequest''
      else ''ProxyListResponse'')"

definition marshalPayload :: "marshal \<Rightarrow> MessageType \<Rightarrow> Payload \<Rightarrow> byte list result" where
  "marshalPayload marshal messageType payload =
     (if toProtoMessageType messageType = 0 then Inl (New (''unsupported message type '' @ messageType))
      else if payload_type payload \<noteq> messageType then Inl (New (messageType @ '' payload must be '' @ struct_name messageType))
      else marshal (payload_to_proto payload))"

text \<open>
  DecodePayload by its type argument: every type but ProxySnapshot and ProxyListResponse refuses an
  empty payload.
\<close>

definition may_be_empty :: "pb_kind \<Rightarrow> bool" where
  "may_be_empty k \<longleftrightarrow> k = KProxySnapshot \<or> k = KProxyListResponse"

definition decode :: "unmarshal \<Rightarrow> pb_kind \<Rightarrow> byte list \<Rightarrow> (pb \<Rightarrow> 'a) \<Rightarrow> 'a result" where
  "decode unmarshal k bs conv =
     (if \<not> may_be_empty k \<and> bs = [] then Inl (New ''message payload is required'')
      else rbind (unmarshal k bs) (\<lambda>message. Inr (conv message)))"

fun DecodePayload :: "unmarshal \<Rightarrow> pb_kind \<Rightarrow> Envelope \<Rightarrow> Payload result" where
  "DecodePayload u KAuthRequest e = decode u KAuthRequest (Env_Payload e) (\<lambda>m. PAuthRequest (authRequestFromProto m))"
| "DecodePayload u KAuthResponse e = decode u KAuthResponse (Env_Payload e) (\<lambda>m. PAuthResponse (authResponseFromProto m))"
| "DecodePayload u KHeartbeat e = decode u KHeartbeat (Env_Payload e) (\<lambda>m. PHeartbeat (heartbeatFromProto m))"
| "DecodePayload u KOpenStream e = decode u KOpenStream (Env_Payload e) (\<lambda>m. POpenStream (openStreamFromProto m))"
| "DecodePayload u KProxySnapshot e = decode u KProxySnapshot (Env_Payload e) (\<lambda>m. PProxySnapshot (proxySnapshotFromProto m))"
| "DecodePayload u KProxyListRequest e = decode u KProxyListRequest (Env_Payload e) (\<lambda>m. PProxyListRequest (proxyListRequestFromProto m))"
| "DecodePayload u KProxyListResponse e = decode u KProxyListResponse (Env_Payload e) (\<lambda>m. PProxyListResponse (proxyListResponseFromProto m))"
| "DecodePayload u KEnvelope e = Inl (New ''unsupported payload type'')"
| "DecodePayload u KMuxFrame e = Inl (New ''unsupported payload type'')"

section \<open>Frames\<close>

abbreviation maxFrameSize :: int where "maxFrameSize \<equiv> 1048576"
abbreviation maxMuxPayloadSize :: int where "maxMuxPayloadSize \<equiv> 32768"

definition PutUint32 :: "int \<Rightarrow> byte list" where
  "PutUint32 n = map (\<lambda>i. word_of_int (n div 2 ^ i)) [24, 16, 8, 0]"

fun Uint32 :: "byte list \<Rightarrow> int" where
  "Uint32 (a # b # c # d # _) = uint a * 16777216 + uint b * 65536 + uint c * 256 + uint d"
| "Uint32 _ = 0"

text \<open>Every frame is its length and its bytes; what a write sends and what a read leaves.\<close>

definition put_frame :: "string \<Rightarrow> byte list \<Rightarrow> byte list result" where
  "put_frame what encoded =
     (if blen encoded > maxFrameSize then Inl (New (what @ '' frame too large: '' @ itoa (blen encoded)))
      else Inr (PutUint32 (blen encoded) @ encoded))"

definition get_frame :: "string \<Rightarrow> byte list \<Rightarrow> (byte list \<times> byte list) result" where
  "get_frame what inp =
     (case read_full 4 inp of
        None \<Rightarrow> Inl (New ''unexpected EOF'')
      | Some (len, rest) \<Rightarrow>
          (let frameSize = Uint32 len in
           if frameSize = 0 then Inl (New (''empty '' @ what @ '' frame''))
           else if frameSize > maxFrameSize then Inl (New (what @ '' frame too large: '' @ itoa frameSize))
           else (case read_full frameSize rest of
                   None \<Rightarrow> Inl (New ''unexpected EOF'')
                 | Some (frame, rest') \<Rightarrow> Inr (frame, rest'))))"

definition WriteMessage :: "marshal \<Rightarrow> MessageType \<Rightarrow> Payload \<Rightarrow> byte list result" where
  "WriteMessage marshal messageType payload =
     rbind (marshalPayload marshal messageType payload) (\<lambda>protoPayload.
     rbind (marshal (PbEnvelope (toProtoMessageType messageType) protoPayload)) (\<lambda>encodedEnvelope.
     put_frame ''message'' encodedEnvelope))"

fun envelope_of :: "pb \<Rightarrow> Envelope" where
  "envelope_of (PbEnvelope t p) = \<lparr>Env_Type = fromProtoMessageType t, Env_Payload = p\<rparr>"
| "envelope_of _ = \<lparr>Env_Type = [], Env_Payload = []\<rparr>"

definition ReadMessage :: "unmarshal \<Rightarrow> byte list \<Rightarrow> (Envelope \<times> byte list) result" where
  "ReadMessage unmarshal inp =
     rbind (get_frame ''message'' inp) (\<lambda>(frame, rest).
     rbind (unmarshal KEnvelope frame) (\<lambda>envelope.
     rbind (reject_if (Env_Type (envelope_of envelope) = []) (New ''message type is required'')) (\<lambda>_.
     Inr (envelope_of envelope, rest))))"

definition WriteMuxFrame :: "marshal \<Rightarrow> MuxFrame \<Rightarrow> byte list result" where
  "WriteMuxFrame marshal frame =
     (if MF_StreamID frame = 0 \<and> MF_Type frame = MuxFrameOpen then Inl (New ''control mux stream cannot be opened'')
      else if blen (MF_Payload frame) > maxMuxPayloadSize then Inl (New (''mux payload too large: '' @ itoa (blen (MF_Payload frame))))
      else rbind (marshal (muxFrameToProto frame)) (put_frame ''mux''))"

definition ReadMuxFrame :: "unmarshal \<Rightarrow> byte list \<Rightarrow> (MuxFrame \<times> byte list) result" where
  "ReadMuxFrame unmarshal inp =
     rbind (get_frame ''mux'' inp) (\<lambda>(encodedFrame, rest).
     rbind (unmarshal KMuxFrame encodedFrame) (\<lambda>frame.
     let decoded = muxFrameFromProto frame in
     if MF_Type decoded = [] then Inl (New ''mux frame type is required'')
     else if blen (MF_Payload decoded) > maxMuxPayloadSize then Inl (New (''mux payload too large: '' @ itoa (blen (MF_Payload decoded))))
     else Inr (decoded, rest)))"

definition WriteDatagramFrame :: "byte list \<Rightarrow> byte list result" where
  "WriteDatagramFrame payload =
     (if payload = [] then Inl (New ''empty datagram frame'') else put_frame ''datagram'' payload)"

definition ReadDatagramFrame :: "byte list \<Rightarrow> (byte list \<times> byte list) result" where
  "ReadDatagramFrame inp = get_frame ''datagram'' inp"

text \<open>Reading frame after frame until the first error.\<close>

function read_frames :: "byte list \<Rightarrow> byte list list" where
  "read_frames inp =
     (case ReadDatagramFrame inp of
        Inl e \<Rightarrow> []
      | Inr (payload, rest) \<Rightarrow> (if length rest < length inp then payload # read_frames rest else []))"
  by pat_completeness auto
termination by (relation "measure length") auto

declare read_frames.simps [simp del]

lemma div_step: "(n :: int) div (d * 256) * 256 + n div d mod 256 = n div d" if "0 < d"
  using that zdiv_zmult2_eq [of 256 n d] by simp

lemma Uint32_Put:
  assumes "0 \<le> n" and "n < 4294967296"
  shows "Uint32 (PutUint32 n @ xs) = n"
proof -
  define a where "a = n div 16777216"
  define b where "b = n div 65536"
  define c where "c = n div 256"
  have "a \<le> 4294967295 div 16777216" unfolding a_def by (rule zdiv_mono1) (use assms in simp_all)
  then have "a mod 256 = a" using assms(1) by (simp add: a_def pos_imp_zdiv_nonneg_iff)
  moreover have "a * 256 + b mod 256 = b" using div_step [of 65536 n] by (simp add: a_def b_def)
  moreover have "b * 256 + c mod 256 = c" using div_step [of 256 n] by (simp add: b_def c_def)
  moreover have "c * 256 + n mod 256 = n" using div_step [of 1 n] by (simp add: c_def)
  moreover have "Uint32 (PutUint32 n @ xs) = a mod 256 * 16777216 + b mod 256 * 65536 + c mod 256 * 256 + n mod 256"
    by (simp add: PutUint32_def uint_word_of_int a_def b_def c_def)
  ultimately show ?thesis by linarith
qed

lemma length_Put [simp]: "length (PutUint32 n) = 4"
  by (simp add: PutUint32_def)

lemma get_put_frame:
  assumes "put_frame what bs = Inr out" and "bs \<noteq> []"
  shows "get_frame what' (out @ rest) = Inr (bs, rest)"
proof -
  from assms(1) have out: "out = PutUint32 (blen bs) @ bs" and l: "blen bs \<le> maxFrameSize"
    by (auto simp: put_frame_def split: if_splits)
  have r: "read_full 4 (out @ rest) = Some (PutUint32 (blen bs), bs @ rest)"
    by (simp add: read_full_def out blen_def)
  have u: "Uint32 (PutUint32 (blen bs)) = blen bs"
    using Uint32_Put [of "blen bs" "[]"] l by (simp add: blen_def)
  show ?thesis
    using l assms(2) by (simp add: get_frame_def r u Let_def) (simp add: read_full_def blen_def)
qed

section \<open>What survives the wire\<close>

text \<open>
  The documented behaviour of the protobuf library that the protocol relies on: Unmarshal of what
  Marshal made gives the message back, and a field that is not the default takes at least a byte.
\<close>

definition proto_law :: "marshal \<Rightarrow> unmarshal \<Rightarrow> bool" where
  "proto_law marshal unmarshal \<longleftrightarrow>
     (\<forall>m bs. marshal m = Inr bs \<longrightarrow> unmarshal (kind_of m) bs = Inr m) \<and>
     (\<forall>t p. t \<noteq> 0 \<longrightarrow> marshal (PbEnvelope t p) \<noteq> Inr []) \<and>
     (\<forall>i t p r. t \<noteq> 0 \<longrightarrow> marshal (PbMuxFrame i t p r) \<noteq> Inr []) \<and>
     (\<forall>c cr n t v ps. c \<noteq> [] \<longrightarrow> marshal (PbAuthRequest c cr n t v ps) \<noteq> Inr []) \<and>
     (\<forall>a s p h v r. a \<longrightarrow> marshal (PbAuthResponse a s p h v r) \<noteq> Inr [])"

lemma proto_lawD:
  assumes "proto_law marshal unmarshal"
  shows "marshal m = Inr bs \<Longrightarrow> kind_of m = k \<Longrightarrow> unmarshal k bs = Inr m"
    and "marshal (PbEnvelope t p) = Inr bs \<Longrightarrow> t \<noteq> 0 \<Longrightarrow> bs \<noteq> []"
    and "marshal (PbMuxFrame i t p r) = Inr bs \<Longrightarrow> t \<noteq> 0 \<Longrightarrow> bs \<noteq> []"
    and "marshal (PbAuthRequest c cr n tm v ps) = Inr bs \<Longrightarrow> c \<noteq> [] \<Longrightarrow> bs \<noteq> []"
    and "marshal (PbAuthResponse True sid pr hb ver rs) = Inr bs \<Longrightarrow> bs \<noteq> []"
  using assms by (auto simp: proto_law_def)

text \<open>The values the conversions keep: int32 integers, and times other than the zero time and the epoch.\<close>

definition time_exact :: "time \<Rightarrow> bool" where
  "time_exact t \<longleftrightarrow> t \<noteq> unix_epoch \<and> is_int64 (t - unix_epoch)"

definition proxy_exact :: "Proxy \<Rightarrow> bool" where
  "proxy_exact p \<longleftrightarrow> is_int32 (Proxy_EntryPort p) \<and> is_int32 (Proxy_TargetPort p) \<and>
     time_exact (Proxy_CreatedAt p) \<and> time_exact (Proxy_UpdatedAt p) \<and>
     Proxy_DomainID p = [] \<and> Proxy_PathPrefix p = [] \<and> \<not> Proxy_StripPrefix p \<and>
     Proxy_UpstreamPathPrefix p = [] \<and> Proxy_EntryBindHost p = [] \<and> Proxy_CertFile p = [] \<and>
     Proxy_KeyFile p = [] \<and> Proxy_CertificateID p = [] \<and> \<not> Proxy_AccessAuthEnabled p \<and>
     Proxy_AccessAuthVersion p = 0 \<and> \<not> Proxy_StatsLegacyAggregate p"

fun wire_exact :: "Payload \<Rightarrow> bool" where
  "wire_exact (PAuthRequest r) = time_exact (AReq_Timestamp r)"
| "wire_exact (PHeartbeat h) =
     (time_exact (HB_ObservedAt h) \<and> is_int32 (HB_ActiveProxies h) \<and> is_int32 (HB_ActiveStreams h))"
| "wire_exact (POpenStream s) = is_int32 (OS_TargetPort s)"
| "wire_exact (PProxySnapshot s) = list_all proxy_exact (Snap_Proxies s)"
| "wire_exact (PProxyListResponse r) = list_all proxy_exact (PLRsp_Proxies r)"
| "wire_exact _ = True"

lemma time_roundtrip: "time_exact t \<Longrightarrow> unixNanoTime (UnixNano t) = t"
  by (simp add: time_exact_def UnixNano_def unixNanoTime_def)

lemma proxy_roundtrip: "proxy_exact p \<Longrightarrow> proxyFromProto (proxyToProto p) = p"
  by (cases p) (simp add: proxy_exact_def proxyFromProto_def proxyToProto_def time_roundtrip zeroProxy_def)

lemma proxies_roundtrip: "list_all proxy_exact ps \<Longrightarrow> map proxyFromProto (map proxyToProto ps) = ps"
  by (induction ps) (auto simp: proxy_roundtrip)

lemma message_type_roundtrip:
  "toProtoMessageType t \<noteq> 0 \<Longrightarrow> fromProtoMessageType (toProtoMessageType t) = t \<and> t \<noteq> []"
  by (simp split: if_splits)

lemma mux_type_roundtrip:
  "toProtoMuxFrameType t \<noteq> 0 \<Longrightarrow> fromProtoMuxFrameType (toProtoMuxFrameType t) = t \<and> t \<noteq> []"
  by (simp split: if_splits)

lemma decode_marshalled:
  assumes "proto_law marshal unmarshal" and "marshal (payload_to_proto p) = Inr bs" and "wire_exact p"
    and "Env_Payload e = bs"
  shows "DecodePayload unmarshal (kind_of (payload_to_proto p)) e =
     (if bs = [] \<and> \<not> may_be_empty (kind_of (payload_to_proto p))
      then Inl (New ''message payload is required'') else Inr p)"
proof -
  have "unmarshal (kind_of (payload_to_proto p)) bs = Inr (payload_to_proto p)"
    by (rule proto_lawD(1) [OF assms(1,2) refl])
  then show ?thesis
    using assms(3,4)
    by (cases p) (auto simp: decode_def may_be_empty_def time_roundtrip proxies_roundtrip [unfolded map_map o_def]
        authRequestToProto_def authResponseToProto_def heartbeatToProto_def openStreamToProto_def
        proxySnapshotToProto_def proxyListRequestToProto_def proxyListResponseToProto_def o_def)
qed

lemma mux_frame_roundtrip:
  assumes law: "proto_law marshal unmarshal" and w: "WriteMuxFrame marshal f = Inr out"
    and ty: "toProtoMuxFrameType (MF_Type f) \<noteq> 0"
  shows "ReadMuxFrame unmarshal (out @ rest) = Inr (f, rest)"
proof -
  from w obtain bs where m: "marshal (muxFrameToProto f) = Inr bs" and o: "put_frame ''mux'' bs = Inr out"
    and l: "\<not> blen (MF_Payload f) > maxMuxPayloadSize"
    by (auto simp: WriteMuxFrame_def rbind_eq_Inr split: if_splits)
  have ne: "bs \<noteq> []" by (rule proto_lawD(3) [OF law m [unfolded muxFrameToProto_def] ty])
  have u: "unmarshal KMuxFrame bs = Inr (muxFrameToProto f)"
    by (rule proto_lawD(1) [OF law m]) (simp add: muxFrameToProto_def)
  have conv: "muxFrameFromProto (muxFrameToProto f) = f"
    using mux_type_roundtrip [OF ty]
    by (simp add: muxFrameToProto_def del: fromProtoMuxFrameType.simps toProtoMuxFrameType.simps)
  show ?thesis
    using mux_type_roundtrip [OF ty] l
    by (simp add: ReadMuxFrame_def get_put_frame [OF o ne] u conv Let_def)
qed

lemma message_read_back:
  assumes "proto_law marshal unmarshal" and "WriteMessage marshal messageType payload = Inr sent"
    and "wire_exact payload"
  shows "\<exists>ps. marshal (payload_to_proto payload) = Inr ps \<and>
    ReadMessage unmarshal (sent @ rest) = Inr (\<lparr>Env_Type = messageType, Env_Payload = ps\<rparr>, rest) \<and>
    DecodePayload unmarshal (kind_of (payload_to_proto payload)) \<lparr>Env_Type = messageType, Env_Payload = ps\<rparr> =
      (if ps = [] \<and> \<not> may_be_empty (kind_of (payload_to_proto payload))
       then Inl (New ''message payload is required'') else Inr payload)"
proof -
  from assms(2) obtain ps bs where ty: "toProtoMessageType messageType \<noteq> 0"
    and m: "marshal (payload_to_proto payload) = Inr ps"
    and e: "marshal (PbEnvelope (toProtoMessageType messageType) ps) = Inr bs"
    and o: "put_frame ''message'' bs = Inr sent"
    by (auto simp: WriteMessage_def marshalPayload_def rbind_eq_Inr
        simp del: toProtoMessageType.simps struct_name.simps split: if_splits)
  have ne: "bs \<noteq> []" by (rule proto_lawD(2) [OF assms(1) e ty])
  have "unmarshal KEnvelope bs = Inr (PbEnvelope (toProtoMessageType messageType) ps)"
    by (rule proto_lawD(1) [OF assms(1) e]) simp
  then have "ReadMessage unmarshal (sent @ rest) = Inr (\<lparr>Env_Type = messageType, Env_Payload = ps\<rparr>, rest)"
    using message_type_roundtrip [OF ty]
    by (simp add: ReadMessage_def get_put_frame [OF o ne] del: fromProtoMessageType.simps toProtoMessageType.simps)
  with m decode_marshalled [OF assms(1) m assms(3), of "\<lparr>Env_Type = messageType, Env_Payload = ps\<rparr>"]
  show ?thesis by simp
qed

section \<open>Properties\<close>

text \<open>
  C28: every control message survives the wire. What WriteMessage sends, ReadMessage reads back as
  an envelope of the same type and leaves the bytes that follow; and DecodePayload then gives the
  same value, as far as the wire carries it (ports in 32 bits, representable times, the proxy
  fields the protocol has), with one exception: a message whose fields are all default has no
  payload bytes, and every type but the proxy snapshot and the proxy list refuses it.
\<close>

theorem message_roundtrip:
  assumes "proto_law marshal unmarshal" and "WriteMessage marshal messageType payload = Inr sent"
    and "wire_exact payload"
  shows "case ReadMessage unmarshal (sent @ rest) of
      Inl e \<Rightarrow> False
    | Inr (envelope, rest') \<Rightarrow>
        rest' = rest \<and> Env_Type envelope = messageType \<and>
        DecodePayload unmarshal (kind_of (payload_to_proto payload)) envelope =
          (if Env_Payload envelope = [] \<and> \<not> may_be_empty (kind_of (payload_to_proto payload))
           then Inl (New ''message payload is required'') else Inr payload)"
  using message_read_back [OF assms, of rest] by auto

definition sample_open :: OpenStream where
  "sample_open = \<lparr>OS_Kind = ''http'', OS_ProxyID = ''p'', OS_ConnectionID = ''c'', OS_TargetHost = ''127.0.0.1'',
     OS_TargetPort = 8080\<rparr>"

text \<open>A codec that knows one stream request and its envelope.\<close>

definition sample_marshal :: marshal where
  "sample_marshal m =
     (if m = openStreamToProto sample_open then Inr [1, 2, 3]
      else if m = PbEnvelope 4 [1, 2, 3] then Inr [9, 1, 2, 3] else Inl (New ''unknown message''))"

definition sample_unmarshal :: unmarshal where
  "sample_unmarshal k bs =
     (if k = KOpenStream \<and> bs = [1, 2, 3] then Inr (openStreamToProto sample_open)
      else if k = KEnvelope \<and> bs = [9, 1, 2, 3] then Inr (PbEnvelope 4 [1, 2, 3]) else Inl (New ''unknown bytes''))"

lemma sample_codec_law: "proto_law sample_marshal sample_unmarshal"
  by (simp add: proto_law_def sample_marshal_def sample_unmarshal_def openStreamToProto_def)

lemma message_roundtrip_witness:
  "case WriteMessage sample_marshal MessageOpenStream (POpenStream sample_open) of
     Inl e \<Rightarrow> False
   | Inr sent \<Rightarrow>
       (case ReadMessage sample_unmarshal (sent @ [0]) of
          Inl e \<Rightarrow> False
        | Inr (envelope, rest) \<Rightarrow>
            rest = [0] \<and> DecodePayload sample_unmarshal KOpenStream envelope = Inr (POpenStream sample_open))"
proof -
  have w: "WriteMessage sample_marshal MessageOpenStream (POpenStream sample_open) = Inr [0, 0, 0, 4, 9, 1, 2, 3]"
    by (simp add: WriteMessage_def marshalPayload_def sample_marshal_def openStreamToProto_def put_frame_def
        blen_def PutUint32_def)
  have x: "wire_exact (POpenStream sample_open)" by (simp add: sample_open_def is_int32_def)
  have r: "ReadMessage sample_unmarshal ([0, 0, 0, 4, 9, 1, 2, 3] @ [0]) =
      Inr (\<lparr>Env_Type = MessageOpenStream, Env_Payload = [1, 2, 3]\<rparr>, [0])"
    by code_simp
  show ?thesis
    using message_roundtrip [OF sample_codec_law w x, of "[0]"] r w by (simp add: openStreamToProto_def)
qed

text \<open>
  Datagrams keep their boundaries on the stream: reading the concatenated frames of non-empty
  datagrams of at most the frame size gives the same datagrams in the same order.
\<close>

lemma datagram_stream_roundtrip:
  assumes "list_all (\<lambda>p. p \<noteq> [] \<and> blen p \<le> maxFrameSize) payloads"
  shows "\<exists>frames. map WriteDatagramFrame payloads = map Inr frames \<and> read_frames (concat frames) = payloads"
  using assms
proof (induction payloads)
  case Nil
  have "read_frames [] = []" by code_simp
  then show ?case by simp
next
  case (Cons p ps)
  then obtain frames where fs: "map WriteDatagramFrame ps = map Inr frames" "read_frames (concat frames) = ps" by auto
  define f where "f = PutUint32 (blen p) @ p"
  have w: "WriteDatagramFrame p = Inr f"
    using Cons.prems by (simp add: WriteDatagramFrame_def put_frame_def f_def)
  then have "ReadDatagramFrame (f @ concat frames) = Inr (p, concat frames)"
    using Cons.prems get_put_frame [of _ p f] by (simp add: WriteDatagramFrame_def ReadDatagramFrame_def split: if_splits)
  moreover have "length (concat frames) < length (f @ concat frames)" by (simp add: f_def PutUint32_def)
  ultimately have "read_frames (f @ concat frames) = p # ps"
    by (subst read_frames.simps) (simp add: fs(2))
  with fs(1) w show ?case by (intro exI [of _ "f # frames"]) simp
qed

section \<open>Codecs for concrete runs\<close>

text \<open>A codec that knows the messages of a table; one with distinct non-empty encodings obeys the law.\<close>

definition table_marshal :: "(pb \<times> byte list) list \<Rightarrow> marshal" where
  "table_marshal T m = (case map_of T m of Some bs \<Rightarrow> Inr bs | None \<Rightarrow> Inl (New ''unknown message''))"

definition table_unmarshal :: "(pb \<times> byte list) list \<Rightarrow> unmarshal" where
  "table_unmarshal T k bs =
     (case find (\<lambda>(m, b). b = bs \<and> kind_of m = k) T of Some (m, _) \<Rightarrow> Inr m | None \<Rightarrow> Inl (New ''unknown bytes''))"

lemma find_pairD: "find P xs = Some x \<Longrightarrow> x \<in> set xs \<and> P x"
  by (auto simp: find_Some_iff in_set_conv_nth)

lemma table_law:
  assumes "distinct (map snd T)" and "list_all (\<lambda>(m, b). b \<noteq> []) T"
  shows "proto_law (table_marshal T) (table_unmarshal T)"
proof -
  have ne: "bs \<noteq> []" if "table_marshal T m = Inr bs" for m bs
    using that assms(2) by (auto simp: table_marshal_def list_all_iff split: option.splits dest: map_of_SomeD)
  have "table_unmarshal T (kind_of m) bs = Inr m" if "table_marshal T m = Inr bs" for m bs
  proof -
    from that have "(m, bs) \<in> set T" by (auto simp: table_marshal_def split: option.splits dest: map_of_SomeD)
    moreover from this have "find (\<lambda>(n, b). b = bs \<and> kind_of n = kind_of m) T = Some x \<Longrightarrow> x = (m, bs)" for x
      using assms(1) inj_onD [of snd "set T" x "(m, bs)"] by (cases x) (auto simp: distinct_map dest!: find_pairD)
    moreover have "find (\<lambda>(n, b). b = bs \<and> kind_of n = kind_of m) T \<noteq> None"
      using \<open>(m, bs) \<in> set T\<close> by (auto simp: find_None_iff)
    ultimately show ?thesis by (auto simp: table_unmarshal_def)
  qed
  with ne show ?thesis unfolding proto_law_def by blast
qed

end
