(* ===== verification/Control.thy ===== *)
theory Control
  imports Protocol SessionInv StoreProps
begin

text \<open>
  The control plane of internal/control: authentication (auth.go), the life of a control connection
  with its session and the client's status, the consumer's data streams, and the client's side of
  the handshake (transport.go). QUIC, TLS and the streams are not modelled: a handler gets the bytes
  of its stream and gives the messages it sends. SHA-256 is the parameter \<open>sha\<close>.
\<close>

section \<open>Authentication\<close>

abbreviation ErrAuthenticationFailed :: error where "ErrAuthenticationFailed \<equiv> Sentinel ''authentication failed''"
abbreviation ErrProtocolUnavailable :: error where "ErrProtocolUnavailable \<equiv> Sentinel ''protocol unavailable''"

record Authenticator =
  Auth_AllowedProtocols :: "Protocol list"
  Auth_HeartbeatInterval :: duration

record AuthResult =
  AR_Client :: Client
  AR_User :: User
  AR_SelectedProtocol :: Protocol
  AR_HeartbeatInterval :: duration
  AR_ConfigVersion :: int

definition allowedProtocols :: "Authenticator \<Rightarrow> Protocol list" where
  "allowedProtocols auth =
     (if Auth_AllowedProtocols auth \<noteq> [] then Auth_AllowedProtocols auth else [ProtocolQUIC, ProtocolTCPTLS])"

definition heartbeatInterval :: "Authenticator \<Rightarrow> duration" where
  "heartbeatInterval auth =
     (if Auth_HeartbeatInterval auth > 0 then Auth_HeartbeatInterval auth else 15 * Second)"

text \<open>\<open>fmt.Errorf("%w: reason", err)\<close>, and the text of such an error.\<close>

definition because :: "error \<Rightarrow> string \<Rightarrow> error" where
  "because e reason = Wrapf reason e"

fun auth_error_text :: "error \<Rightarrow> string" where
  "auth_error_text (Wrapf reason e) = auth_error_text e @ '': '' @ reason"
| "auth_error_text (Sentinel s) = s"
| "auth_error_text (New s) = s"
| "auth_error_text (Contract c m e) = m"

definition validateTimestamp :: "time \<Rightarrow> time \<Rightarrow> unit result" where
  "validateTimestamp now timestamp =
     (if IsZero timestamp then Inl (because ErrAuthenticationFailed ''timestamp is required'')
      else if timestamp < now - 5 * Minute \<or> timestamp > now + 5 * Minute
        then Inl (because ErrAuthenticationFailed ''timestamp outside allowed window'')
      else Inr ())"

fun selectProtocol :: "Protocol list \<Rightarrow> Protocol list \<Rightarrow> Protocol result" where
  "selectProtocol [] offered = Inl ErrProtocolUnavailable"
| "selectProtocol (candidate # allowed) offered =
     (if \<not> protocol_Valid candidate then selectProtocol allowed offered
      else if candidate \<in> set offered then Inr candidate
      else selectProtocol allowed offered)"

definition Authenticate ::
    "(string \<Rightarrow> string) \<Rightarrow> Authenticator \<Rightarrow> time \<Rightarrow> DB \<Rightarrow> AuthRequest \<Rightarrow> AuthResult result" where
  "Authenticate sha auth now db request =
     (if blank (AReq_ClientID request) \<or> blank (AReq_Credential request)
        then Inl (because ErrAuthenticationFailed ''missing client credentials'')
      else if AReq_Protocols request = [] then Inl (because ErrProtocolUnavailable ''no offered protocols'')
      else rbind (validateTimestamp now (AReq_Timestamp request)) (\<lambda>_.
        (case clients_ByID db (AReq_ClientID request) of
           Inl _ \<Rightarrow> Inl (because ErrAuthenticationFailed ''client lookup failed'')
         | Inr client \<Rightarrow>
             (case users_ByID db (Client_UserID client) of
                Inl _ \<Rightarrow> Inl (because ErrAuthenticationFailed ''user lookup failed'')
              | Inr user \<Rightarrow>
                  (if User_Status user \<noteq> UserEnabled then Inl (because ErrAuthenticationFailed ''user disabled'')
                   else if Client_Status client = ClientDisabled
                     then Inl (because ErrAuthenticationFailed ''client disabled'')
                   else if sha (AReq_Credential request) \<noteq> Client_CredentialHash client
                     then Inl (because ErrAuthenticationFailed ''credential mismatch'')
                   else rbind (selectProtocol (allowedProtocols auth) (AReq_Protocols request)) (\<lambda>selected.
                     Inr \<lparr>AR_Client = client, AR_User = user, AR_SelectedProtocol = selected,
                          AR_HeartbeatInterval = heartbeatInterval auth,
                          AR_ConfigVersion = Client_Version client\<rparr>))))))"

section \<open>Messages of the server\<close>

definition sendProxySnapshot :: "DB \<Rightarrow> string \<Rightarrow> int \<Rightarrow> Payload" where
  "sendProxySnapshot db clientID version =
     PProxySnapshot \<lparr>Snap_Version = version, Snap_Proxies = proxies_ByClientID db clientID\<rparr>"

definition sendProxyList :: "DB \<Rightarrow> string \<Rightarrow> int \<Rightarrow> Payload" where
  "sendProxyList db userID version =
     PProxyListResponse \<lparr>PLRsp_Version = version,
       PLRsp_Proxies = filter (\<lambda>proxy. Proxy_Status proxy = ProxyEnabled) (proxies_ByUserID db userID)\<rparr>"

definition deny :: "string \<Rightarrow> Payload" where
  "deny reason = PAuthResponse \<lparr>ARsp_Accepted = False, ARsp_SessionID = [], ARsp_SelectedProtocol = [],
     ARsp_HeartbeatInterval = 0, ARsp_ConfigVersion = 0, ARsp_Reason = reason\<rparr>"

definition setClientRuntimeStatus :: "time \<Rightarrow> string \<Rightarrow> ClientStatus \<Rightarrow> DB \<Rightarrow> bool \<times> DB" where
  "setClientRuntimeStatus now clientID status db =
     (case clients_ByID db clientID of
        Inl _ \<Rightarrow> (False, db)
      | Inr client \<Rightarrow>
          (if Client_Status client = ClientDisabled then (False, db)
           else (case clients_SetStatus False now clientID status db of
                   (Inl _, db') \<Rightarrow> (False, db')
                 | (Inr _, db') \<Rightarrow> (True, db'))))"

section \<open>A control connection\<close>

text \<open>
  What the world answers to one connection: the clock of the authenticator and of the session
  manager, the new session id, the handle of its stream opener and whether that is the TCP
  multiplexer, and the results of the two writes of the handshake.
\<close>

record ControlEnv =
  ce_now :: time
  ce_clock :: time
  ce_sessionID :: "string result"
  ce_opener :: int
  ce_mux :: bool
  ce_write_auth :: "unit result"
  ce_write_list :: "unit result"

definition register_input :: "ControlEnv \<Rightarrow> string \<Rightarrow> AuthResult \<Rightarrow> RegisterInput" where
  "register_input env sessionID result =
     \<lparr>Reg_SessionID = sessionID, Reg_ClientID = Client_ID (AR_Client result), Reg_UserID = User_ID (AR_User result),
      Reg_ClientKind = NormalizeClientKind (Client_Kind (AR_Client result)), Reg_Protocol = AR_SelectedProtocol result,
      Reg_ConfigVersion = AR_ConfigVersion result, Reg_StreamOpener = Some (ce_opener env), Reg_Persistent = False\<rparr>"

definition is_consumer :: "AuthResult \<Rightarrow> bool" where
  "is_consumer result \<longleftrightarrow> NormalizeClientKind (Client_Kind (AR_Client result)) = ClientKindConsumer"

definition accept :: "AuthResult \<Rightarrow> string \<Rightarrow> Payload" where
  "accept result sessionID = PAuthResponse \<lparr>ARsp_Accepted = True, ARsp_SessionID = sessionID,
     ARsp_SelectedProtocol = AR_SelectedProtocol result, ARsp_HeartbeatInterval = AR_HeartbeatInterval result,
     ARsp_ConfigVersion = AR_ConfigVersion result, ARsp_Reason = []\<rparr>"

definition first_list :: "DB \<Rightarrow> AuthResult \<Rightarrow> Payload" where
  "first_list db result =
     (if is_consumer result then sendProxyList db (User_ID (AR_User result)) (AR_ConfigVersion result)
      else sendProxySnapshot db (Client_ID (AR_Client result)) (AR_ConfigVersion result))"

text \<open>
  handleControl up to its message loop: the messages sent, the authenticated client and its session
  when the connection goes on, the id that the deferred function will close (empty for none), and
  the manager. A QUIC connection registers before it answers, a multiplexed one after its list.
\<close>

definition control_open ::
    "(string \<Rightarrow> string) \<Rightarrow> Authenticator \<Rightarrow> unmarshal \<Rightarrow> ControlEnv \<Rightarrow> byte list \<Rightarrow> DB \<Rightarrow> Manager \<Rightarrow>
     Payload list \<times> (AuthResult \<times> Session) option \<times> string \<times> Manager" where
  "control_open sha auth unmarshal env raw db m =
     (case ReadMessage unmarshal raw of
        Inl _ \<Rightarrow> ([deny ''invalid auth request''], None, [], m)
      | Inr (envelope, _) \<Rightarrow>
      if Env_Type envelope \<noteq> MessageAuthRequest then ([deny ''invalid auth request''], None, [], m)
      else (case DecodePayload unmarshal KAuthRequest envelope of
        Inr (PAuthRequest request) \<Rightarrow>
          (case Authenticate sha auth (ce_now env) db request of
             Inl e \<Rightarrow> ([deny (auth_error_text e)], None, [], m)
           | Inr result \<Rightarrow>
          (case ce_sessionID env of
             Inl _ \<Rightarrow> ([deny ''session id generation failed''], None, [], m)
           | Inr sessionID \<Rightarrow>
          (let input = register_input env sessionID result in
           case (if ce_mux env then Inr (zeroSession \<lparr>Ses_ID := sessionID\<rparr>, [], m)
                 else (case manager_Register (ce_clock env) m input of
                         Inl e \<Rightarrow> Inl e
                       | Inr (reg, _, m') \<Rightarrow> Inr (reg, Ses_ID reg, m'))) of
             Inl e \<Rightarrow> ([deny (auth_error_text e)], None, [], m)
           | Inr (reg, open_id, m1) \<Rightarrow>
          (case ce_write_auth env of
             Inl _ \<Rightarrow> ([accept result (Ses_ID reg)], None, open_id, m1)
           | Inr _ \<Rightarrow>
          (let sent = [accept result (Ses_ID reg), first_list db result] in
           case ce_write_list env of
             Inl _ \<Rightarrow> (sent, None, open_id, m1)
           | Inr _ \<Rightarrow>
               (if ce_mux env then
                  (case manager_Register (ce_clock env) m1 input of
                     Inl _ \<Rightarrow> (sent, None, [], m1)
                   | Inr (reg, _, m2) \<Rightarrow> (sent, Some (result, reg), Ses_ID reg, m2))
                else (sent, Some (result, reg), open_id, m1)))))))
      | _ \<Rightarrow> ([deny ''invalid auth payload''], None, [], m)))"

text \<open>The provider's loop: heartbeats until the first read error. \<open>clock\<close> gives the time of each.\<close>

definition heartbeat_input :: "Heartbeat \<Rightarrow> HeartbeatInput" where
  "heartbeat_input h = \<lparr>HbIn_SessionID = HB_SessionID h, HbIn_ConfigVersion = HB_ConfigVersion h,
     HbIn_Stats = \<lparr>Hb_ActiveProxies = HB_ActiveProxies h, Hb_ActiveStreams = HB_ActiveStreams h,
        Hb_UploadBytes = HB_UploadBytes h, Hb_DownloadBytes = HB_DownloadBytes h, Hb_ErrorSummary = HB_ErrorSummary h\<rparr>\<rparr>"

definition apply_heartbeat :: "unmarshal \<Rightarrow> time \<Rightarrow> Envelope \<Rightarrow> Manager \<Rightarrow> Manager" where
  "apply_heartbeat unmarshal now envelope m =
     (case DecodePayload unmarshal KHeartbeat envelope of
        Inr (PHeartbeat h) \<Rightarrow>
          (case manager_Heartbeat now m (heartbeat_input h) of Inl _ \<Rightarrow> m | Inr (_, m') \<Rightarrow> m')
      | _ \<Rightarrow> m)"

lemma read_frame_shorter: "get_frame w inp = Inr (f, rest) \<Longrightarrow> length rest < length inp"
  by (auto simp: get_frame_def read_full_def Let_def blen_def split: if_splits option.splits)

lemma ReadMessage_shorter: "ReadMessage u inp = Inr (e, rest) \<Longrightarrow> length rest < length inp"
  by (auto simp: ReadMessage_def rbind_eq_Inr dest: read_frame_shorter)

function handleHeartbeats :: "unmarshal \<Rightarrow> (nat \<Rightarrow> time) \<Rightarrow> byte list \<Rightarrow> Manager \<Rightarrow> Manager" where
  "handleHeartbeats unmarshal clock inp m =
     (case ReadMessage unmarshal inp of
        Inl _ \<Rightarrow> m
      | Inr (envelope, rest) \<Rightarrow>
          (if Env_Type envelope \<noteq> MessageHeartbeat then handleHeartbeats unmarshal clock rest m
           else handleHeartbeats unmarshal clock rest
                  (apply_heartbeat unmarshal (clock (length rest)) envelope m)))"
  by pat_completeness auto
termination by (relation "measure (\<lambda>(u, c, inp, m). length inp)") (auto dest: ReadMessage_shorter)

declare handleHeartbeats.simps [simp del]

text \<open>The consumer's loop also answers list requests: the lists it sends, and the manager.\<close>

function handleConsumerControl ::
    "unmarshal \<Rightarrow> (nat \<Rightarrow> time) \<Rightarrow> (nat \<Rightarrow> DB) \<Rightarrow> string \<Rightarrow> int \<Rightarrow> byte list \<Rightarrow> Manager \<Rightarrow> Payload list \<times> Manager" where
  "handleConsumerControl unmarshal clock dbs userID version inp m =
     (case ReadMessage unmarshal inp of
        Inl _ \<Rightarrow> ([], m)
      | Inr (envelope, rest) \<Rightarrow>
          (if Env_Type envelope = MessageHeartbeat then
             handleConsumerControl unmarshal clock dbs userID version rest
               (apply_heartbeat unmarshal (clock (length rest)) envelope m)
           else if Env_Type envelope = MessageProxyListRequest then
             (case handleConsumerControl unmarshal clock dbs userID version rest m of
                (sent, m') \<Rightarrow> (sendProxyList (dbs (length rest)) userID version # sent, m'))
           else handleConsumerControl unmarshal clock dbs userID version rest m))"
  by pat_completeness auto
termination by (relation "measure (\<lambda>(u, c, d, i, v, inp, m). length inp)") (auto dest: ReadMessage_shorter)

declare handleConsumerControl.simps [simp del]

text \<open>The deferred function, in the two steps it takes: closing the session, then the status.\<close>

definition control_close :: "time \<Rightarrow> string \<Rightarrow> bool \<Rightarrow> Manager \<Rightarrow> string option \<times> Manager" where
  "control_close now open_id markedOnline m =
     (if open_id = [] then (None, m)
      else (case manager_Close now m open_id of
              Inl _ \<Rightarrow> (None, m)
            | Inr (closed, latest, m') \<Rightarrow>
                (if markedOnline \<and> latest then Some (Ses_ClientID closed) else None, m')))"

definition control_offline :: "time \<Rightarrow> string option \<Rightarrow> DB \<Rightarrow> DB" where
  "control_offline now client db =
     (case client of None \<Rightarrow> db | Some clientID \<Rightarrow> snd (setClientRuntimeStatus now clientID ClientOffline db))"

text \<open>
  The whole handler with nothing in between: \<open>stream\<close> is the control stream after the handshake,
  \<open>later\<close> the clock of the end.
\<close>

definition handleControl ::
    "(string \<Rightarrow> string) \<Rightarrow> Authenticator \<Rightarrow> unmarshal \<Rightarrow> ControlEnv \<Rightarrow> (nat \<Rightarrow> time) \<Rightarrow> time \<Rightarrow>
     byte list \<Rightarrow> byte list \<Rightarrow> DB \<times> Manager \<Rightarrow> Payload list \<times> DB \<times> Manager" where
  "handleControl sha auth unmarshal env clock later raw stream w =
     (case w of (db, m) \<Rightarrow>
     (case control_open sha auth unmarshal env raw db m of
        (sent, None, open_id, m1) \<Rightarrow> (sent, db, snd (control_close later open_id False m1))
      | (sent, Some (result, reg), open_id, m1) \<Rightarrow>
          (case setClientRuntimeStatus (ce_clock env) (Client_ID (AR_Client result)) ClientOnline db of
             (markedOnline, db1) \<Rightarrow>
               (case (if is_consumer result
                      then handleConsumerControl unmarshal clock (\<lambda>_. db1) (User_ID (AR_User result))
                             (Ses_ConfigVersion reg) stream m1
                      else ([], handleHeartbeats unmarshal clock stream m1)) of
                  (answers, m2) \<Rightarrow>
                    (case control_close later open_id markedOnline m2 of
                       (client, m3) \<Rightarrow> (sent @ answers, control_offline later client db1, m3))))))"

section \<open>The consumer's data streams\<close>

text \<open>
  What handleSDKStream does to the world: it opens a stream of a provider's session, sends a stream
  request on it, and joins the two streams.
\<close>

datatype stream_effect = ProviderOpen int | ProviderSend OpenStream | Bridge

definition proxyTypeToStreamKind :: "ProxyType \<Rightarrow> string" where
  "proxyTypeToStreamKind proxyType =
     (if proxyType_IsWeb proxyType then ''http'' else if proxyType = ProxyUDP then ''udp'' else [])"

definition handleSDKStream ::
    "unmarshal \<Rightarrow> (int \<Rightarrow> unit result) \<Rightarrow> (OpenStream \<Rightarrow> unit result) \<Rightarrow> byte list \<Rightarrow> string \<Rightarrow>
     DB \<Rightarrow> Manager \<Rightarrow> stream_effect list" where
  "handleSDKStream unmarshal open_stream write inp userID db m =
     (case ReadMessage unmarshal inp of
        Inl _ \<Rightarrow> []
      | Inr (envelope, _) \<Rightarrow>
      if Env_Type envelope \<noteq> MessageOpenStream then []
      else (case DecodePayload unmarshal KOpenStream envelope of
        Inr (POpenStream request) \<Rightarrow>
          (case proxies_ByID db (OS_ProxyID request) of
             Inl _ \<Rightarrow> []
           | Inr proxy \<Rightarrow>
               (if Proxy_UserID proxy \<noteq> userID then []
                else if Proxy_Status proxy \<noteq> ProxyEnabled then []
                else (case manager_Latest m (Proxy_ClientID proxy) of
                        None \<Rightarrow> []
                      | Some provider \<Rightarrow>
                          (if Ses_ReplacedAt provider \<noteq> None \<or> Ses_ClosedAt provider \<noteq> None then []
                           else if Ses_ClientKind provider = ClientKindConsumer then []
                           else (case Ses_StreamOpener provider of
                                   None \<Rightarrow> []
                                 | Some opener \<Rightarrow>
                                     ProviderOpen opener #
                                     (case open_stream opener of
                                        Inl _ \<Rightarrow> []
                                      | Inr _ \<Rightarrow>
                                          (let providerOpen =
                                             \<lparr>OS_Kind = proxyTypeToStreamKind (Proxy_Type proxy), OS_ProxyID = Proxy_ID proxy,
                                              OS_ConnectionID = OS_ConnectionID request,
                                              OS_TargetHost = Proxy_TargetHost proxy, OS_TargetPort = Proxy_TargetPort proxy\<rparr>
                                           in ProviderSend providerOpen #
                                              (case write providerOpen of Inl _ \<Rightarrow> [] | Inr _ \<Rightarrow> [Bridge]))))))))
      | _ \<Rightarrow> []))"

section \<open>The client's side\<close>

definition client_request :: "time \<Rightarrow> AuthRequest \<Rightarrow> AuthRequest" where
  "client_request now request =
     (if IsZero (AReq_Timestamp request) then request \<lparr>AReq_Timestamp := now\<rparr> else request)"

text \<open>
  authenticateClient: the request it sends, and what it makes of the bytes of the answer, \<open>None\<close>
  for a connection that was refused.
\<close>

definition authenticateClient ::
    "marshal \<Rightarrow> unmarshal \<Rightarrow> time \<Rightarrow> AuthRequest \<Rightarrow> Protocol \<Rightarrow> byte list \<Rightarrow> (Protocol option \<times> AuthResponse) result" where
  "authenticateClient marshal unmarshal now request protocol answer =
     rbind (WriteMessage marshal MessageAuthRequest (PAuthRequest (client_request now request))) (\<lambda>_.
     rbind (ReadMessage unmarshal answer) (\<lambda>(envelope, _).
     if Env_Type envelope \<noteq> MessageAuthResponse
       then Inl (New (''expected auth response, got '' @ Env_Type envelope))
     else (case DecodePayload unmarshal KAuthResponse envelope of
             Inl e \<Rightarrow> Inl e
           | Inr (PAuthResponse response) \<Rightarrow>
               Inr (if ARsp_Accepted response then Some protocol else None, response)
           | Inr _ \<Rightarrow> Inl (New ''unexpected payload''))))"

definition ReadProxySnapshot :: "unmarshal \<Rightarrow> byte list \<Rightarrow> ProxySnapshot result" where
  "ReadProxySnapshot unmarshal inp =
     rbind (ReadMessage unmarshal inp) (\<lambda>(envelope, _).
     if Env_Type envelope \<noteq> MessageProxySnapshot
       then Inl (New (''expected proxy snapshot, got '' @ Env_Type envelope))
     else (case DecodePayload unmarshal KProxySnapshot envelope of
             Inl e \<Rightarrow> Inl e
           | Inr (PProxySnapshot snapshot) \<Rightarrow> Inr snapshot
           | Inr _ \<Rightarrow> Inl (New ''unexpected payload'')))"

text \<open>
  rewriteHTTPOrigin: the Origin header a target gets. url.Parse is the parameter, giving the scheme
  and the host of what it can parse.
\<close>

definition rewriteHTTPOrigin :: "(string \<Rightarrow> (string \<times> string) option) \<Rightarrow> string \<Rightarrow> string \<Rightarrow> string" where
  "rewriteHTTPOrigin url_Parse origin targetAuthority =
     (if origin = [] then origin
      else (case url_Parse origin of
              None \<Rightarrow> origin
            | Some (scheme, host) \<Rightarrow>
                (if scheme = [] \<or> host = [] then origin
                 else if scheme \<noteq> ''http'' \<and> scheme \<noteq> ''https'' then origin
                 else ''http://'' @ targetAuthority)))"

definition ensureNextProto :: "string list \<Rightarrow> string list" where
  "ensureNextProto nextProtos =
     (if ''go-ginx-control/1'' \<in> set nextProtos then nextProtos else nextProtos @ [''go-ginx-control/1''])"

end
