(* ===== verification/Stats.thy ===== *)
theory Stats
  imports StoreProps
begin

text \<open>
  The statistics of internal/stats/memory.go: the counters of every proxy in memory, and their
  persistence. Every method holds the mutex. Counters are 64-bit integers and wrap around.
\<close>

record ProxyStats =
  PS_ProxyID :: string
  PS_TCPConnections :: int
  PS_TCPCurrentConnections :: int
  PS_TCPUploadBytes :: int
  PS_TCPDownloadBytes :: int
  PS_TCPErrors :: int
  PS_UDPPackets :: int
  PS_UDPUploadBytes :: int
  PS_UDPDownloadBytes :: int
  PS_UDPErrors :: int
  PS_HTTPRequests :: int
  PS_HTTPUploadBytes :: int
  PS_HTTPDownloadBytes :: int
  PS_HTTPErrors :: int
  PS_HTTPStatusCodes :: "(int, int) gomap"

type_synonym Memory = "(string, ProxyStats) gomap"

definition NewMemory :: Memory where
  "NewMemory = []"

definition zero_stats :: "string \<Rightarrow> ProxyStats" where
  "zero_stats proxyID = \<lparr>PS_ProxyID = proxyID, PS_TCPConnections = 0, PS_TCPCurrentConnections = 0,
     PS_TCPUploadBytes = 0, PS_TCPDownloadBytes = 0, PS_TCPErrors = 0, PS_UDPPackets = 0, PS_UDPUploadBytes = 0,
     PS_UDPDownloadBytes = 0, PS_UDPErrors = 0, PS_HTTPRequests = 0, PS_HTTPUploadBytes = 0,
     PS_HTTPDownloadBytes = 0, PS_HTTPErrors = 0, PS_HTTPStatusCodes = []\<rparr>"

text \<open>\<open>memory.proxy(proxyID)\<close>: the counters, created on first use; the caller updates them in place.\<close>

definition memory_proxy :: "Memory \<Rightarrow> string \<Rightarrow> ProxyStats" where
  "memory_proxy m proxyID = (case gm_get m proxyID of Some s \<Rightarrow> s | None \<Rightarrow> zero_stats proxyID)"

definition memory_proxyCopy :: "Memory \<Rightarrow> string \<Rightarrow> ProxyStats" where
  "memory_proxyCopy m proxyID = (case gm_get m proxyID of None \<Rightarrow> zero_stats proxyID | Some s \<Rightarrow> s)"

definition add64 :: "int \<Rightarrow> int \<Rightarrow> int" where
  "add64 a b = wrap64 (a + b)"

definition bump :: "bool \<Rightarrow> int \<Rightarrow> int" where
  "bump cond a = (if cond then add64 a 1 else a)"

definition memory_RecordTCPStart :: "string \<Rightarrow> Memory \<Rightarrow> Memory" where
  "memory_RecordTCPStart proxyID m =
     (let s = memory_proxy m proxyID in
      gm_put proxyID (s \<lparr>PS_TCPConnections := add64 (PS_TCPConnections s) 1,
                        PS_TCPCurrentConnections := add64 (PS_TCPCurrentConnections s) 1\<rparr>) m)"

definition memory_RecordTCPEnd :: "string \<Rightarrow> int \<Rightarrow> int \<Rightarrow> bool \<Rightarrow> Memory \<Rightarrow> Memory" where
  "memory_RecordTCPEnd proxyID upload download failed m =
     (let s = memory_proxy m proxyID in
      gm_put proxyID (s \<lparr>PS_TCPCurrentConnections :=
                          (if PS_TCPCurrentConnections s > 0 then PS_TCPCurrentConnections s - 1
                           else PS_TCPCurrentConnections s),
                        PS_TCPUploadBytes := add64 (PS_TCPUploadBytes s) upload,
                        PS_TCPDownloadBytes := add64 (PS_TCPDownloadBytes s) download,
                        PS_TCPErrors := bump failed (PS_TCPErrors s)\<rparr>) m)"

definition memory_RecordUDP :: "string \<Rightarrow> int \<Rightarrow> int \<Rightarrow> bool \<Rightarrow> Memory \<Rightarrow> Memory" where
  "memory_RecordUDP proxyID upload download failed m =
     (let s = memory_proxy m proxyID in
      gm_put proxyID (s \<lparr>PS_UDPPackets := bump (upload > 0) (PS_UDPPackets s),
                        PS_UDPUploadBytes := add64 (PS_UDPUploadBytes s) upload,
                        PS_UDPDownloadBytes := add64 (PS_UDPDownloadBytes s) download,
                        PS_UDPErrors := bump failed (PS_UDPErrors s)\<rparr>) m)"

definition memory_RecordHTTP :: "string \<Rightarrow> int \<Rightarrow> int \<Rightarrow> int \<Rightarrow> bool \<Rightarrow> Memory \<Rightarrow> Memory" where
  "memory_RecordHTTP proxyID statusCode upload download failed m =
     (let s = memory_proxy m proxyID;
          codes = PS_HTTPStatusCodes s;
          seen = (case gm_get codes statusCode of Some n \<Rightarrow> n | None \<Rightarrow> 0) in
      gm_put proxyID (s \<lparr>PS_HTTPRequests := add64 (PS_HTTPRequests s) 1,
                        PS_HTTPUploadBytes := add64 (PS_HTTPUploadBytes s) upload,
                        PS_HTTPDownloadBytes := add64 (PS_HTTPDownloadBytes s) download,
                        PS_HTTPStatusCodes := gm_put statusCode (add64 seen 1) codes,
                        PS_HTTPErrors := bump failed (PS_HTTPErrors s)\<rparr>) m)"

definition memory_Snapshot :: "Memory \<Rightarrow> string \<Rightarrow> ProxyStats" where
  "memory_Snapshot m proxyID = memory_proxyCopy m proxyID"

definition memory_List :: "Memory \<Rightarrow> ProxyStats list" where
  "memory_List m = map (memory_proxyCopy m) (gm_keys m)"

definition memory_Load :: "StoreProxyStats \<Rightarrow> Memory \<Rightarrow> Memory" where
  "memory_Load snapshot m =
     gm_put (SS_ProxyID snapshot)
       \<lparr>PS_ProxyID = SS_ProxyID snapshot, PS_TCPConnections = SS_TCPConnections snapshot,
        PS_TCPCurrentConnections = 0, PS_TCPUploadBytes = SS_TCPUploadBytes snapshot,
        PS_TCPDownloadBytes = SS_TCPDownloadBytes snapshot, PS_TCPErrors = SS_TCPErrors snapshot,
        PS_UDPPackets = SS_UDPPackets snapshot, PS_UDPUploadBytes = SS_UDPUploadBytes snapshot,
        PS_UDPDownloadBytes = SS_UDPDownloadBytes snapshot, PS_UDPErrors = SS_UDPErrors snapshot,
        PS_HTTPRequests = SS_HTTPRequests snapshot, PS_HTTPUploadBytes = SS_HTTPUploadBytes snapshot,
        PS_HTTPDownloadBytes = SS_HTTPDownloadBytes snapshot, PS_HTTPErrors = SS_HTTPErrors snapshot,
        PS_HTTPStatusCodes = SS_HTTPStatusCodes snapshot\<rparr> m"

definition store_snapshot :: "ProxyStats \<Rightarrow> StoreProxyStats" where
  "store_snapshot s =
     \<lparr>SS_ProxyID = PS_ProxyID s, SS_TCPConnections = PS_TCPConnections s, SS_TCPUploadBytes = PS_TCPUploadBytes s,
      SS_TCPDownloadBytes = PS_TCPDownloadBytes s, SS_TCPErrors = PS_TCPErrors s, SS_UDPPackets = PS_UDPPackets s,
      SS_UDPUploadBytes = PS_UDPUploadBytes s, SS_UDPDownloadBytes = PS_UDPDownloadBytes s,
      SS_UDPErrors = PS_UDPErrors s, SS_HTTPRequests = PS_HTTPRequests s,
      SS_HTTPUploadBytes = PS_HTTPUploadBytes s, SS_HTTPDownloadBytes = PS_HTTPDownloadBytes s,
      SS_HTTPErrors = PS_HTTPErrors s, SS_HTTPStatusCodes = PS_HTTPStatusCodes s\<rparr>"

definition memory_StoreSnapshots :: "Memory \<Rightarrow> StoreProxyStats list" where
  "memory_StoreSnapshots m = map (\<lambda>(k, s). store_snapshot s) m"

definition NewPersistent :: "DB \<Rightarrow> Memory" where
  "NewPersistent db = fold memory_Load (stats_List db) NewMemory"

definition persistent_Flush :: "Memory \<Rightarrow> (DB, unit) op" where
  "persistent_Flush m = stats_Save (memory_StoreSnapshots m)"

section \<open>A restart\<close>

text \<open>The counters are filed under their own proxy id, once.\<close>

definition memory_ok :: "Memory \<Rightarrow> bool" where
  "memory_ok m \<longleftrightarrow> gm_wf m \<and> (\<forall>i s. gm_get m i = Some s \<longrightarrow> PS_ProxyID s = i)"

lemma memory_ok_put: "memory_ok m \<Longrightarrow> PS_ProxyID s = i \<Longrightarrow> memory_ok (gm_put i s m)"
  by (auto simp: memory_ok_def)

lemma memory_proxy_ID: "memory_ok m \<Longrightarrow> PS_ProxyID (memory_proxy m i) = i"
  by (auto simp: memory_ok_def memory_proxy_def zero_stats_def split: option.splits)

lemma memory_ok_New: "memory_ok NewMemory"
  by (simp add: memory_ok_def NewMemory_def)

lemma memory_ok_TCPStart: "memory_ok m \<Longrightarrow> memory_ok (memory_RecordTCPStart i m)"
  unfolding memory_RecordTCPStart_def Let_def by (rule memory_ok_put) (simp_all add: memory_proxy_ID)

lemma memory_ok_TCPEnd: "memory_ok m \<Longrightarrow> memory_ok (memory_RecordTCPEnd i u d f m)"
  unfolding memory_RecordTCPEnd_def Let_def by (rule memory_ok_put) (simp_all add: memory_proxy_ID)

lemma memory_ok_UDP: "memory_ok m \<Longrightarrow> memory_ok (memory_RecordUDP i u d f m)"
  unfolding memory_RecordUDP_def Let_def by (rule memory_ok_put) (simp_all add: memory_proxy_ID)

lemma memory_ok_HTTP: "memory_ok m \<Longrightarrow> memory_ok (memory_RecordHTTP i c u d f m)"
  unfolding memory_RecordHTTP_def Let_def by (rule memory_ok_put) (simp_all add: memory_proxy_ID)

lemma memory_ok_Load: "memory_ok m \<Longrightarrow> memory_ok (memory_Load s m)"
  unfolding memory_Load_def by (rule memory_ok_put) simp_all

text \<open>The rows of the table by proxy id, and what saving and loading do to them.\<close>

definition stats_view :: "StoreProxyStats list \<Rightarrow> string \<Rightarrow> StoreProxyStats option" where
  "stats_view rows = map_of (map (\<lambda>s. (SS_ProxyID s, s)) rows)"

lemma stats_view_simps [simp]:
  "stats_view [] k = None" "stats_view (s # ss) k = (if k = SS_ProxyID s then Some s else stats_view ss k)"
  by (simp_all add: stats_view_def)

lemma stats_view_None: "stats_view ss k = None \<longleftrightarrow> k \<notin> SS_ProxyID ` set ss"
  by (induction ss) auto

lemma stats_view_update:
  "stats_view (sql_update (\<lambda>x. SS_ProxyID x = i) (\<lambda>_. s) rows) k =
     (if k = i \<and> i \<in> SS_ProxyID ` set rows then Some s else stats_view rows k)"
  if "SS_ProxyID s = i"
  using that by (induction rows) (auto simp: sql_update_def)

lemma stats_view_append:
  "stats_view (rows @ [s]) k =
     (if k = SS_ProxyID s \<and> SS_ProxyID s \<notin> SS_ProxyID ` set rows then Some s else stats_view rows k)"
  by (induction rows) auto

lemma upsert_ok:
  assumes "has_proxy db (SS_ProxyID s)"
  shows "\<exists>db'. upsert_stats s db = (Inr (), db') \<and> db_proxies db' = db_proxies db \<and>
     stats_view (db_stats db') = (stats_view (db_stats db))(SS_ProxyID s \<mapsto> s)"
proof (cases "SS_ProxyID s \<in> SS_ProxyID ` set (db_stats db)")
  case True
  with assms show ?thesis
    by (simp add: upsert_stats_def sql_checked_def exists_key_iff stats_view_update fun_eq_iff)
next
  case False
  with assms show ?thesis
    by (simp add: upsert_stats_def sql_checked_def exists_key_iff stats_view_append fun_eq_iff)
qed

definition overlay :: "StoreProxyStats list \<Rightarrow> (string \<Rightarrow> StoreProxyStats option) \<Rightarrow> string \<Rightarrow> StoreProxyStats option" where
  "overlay ss v k = (case stats_view ss k of Some s \<Rightarrow> Some s | None \<Rightarrow> v k)"

lemma overlay_Cons: "SS_ProxyID s \<notin> SS_ProxyID ` set ss \<Longrightarrow> overlay ss (v(SS_ProxyID s \<mapsto> s)) = overlay (s # ss) v"
  using stats_view_None [of ss "SS_ProxyID s"] by (auto simp: overlay_def fun_eq_iff split: option.split)

lemma Save_ok:
  assumes "\<forall>s \<in> set ss. has_proxy db (SS_ProxyID s)" and "distinct (map SS_ProxyID ss)"
  shows "\<exists>db'. sfor upsert_stats ss db = (Inr (), db') \<and> stats_view (db_stats db') = overlay ss (stats_view (db_stats db))"
  using assms
proof (induction ss arbitrary: db)
  case Nil
  then show ?case by (simp add: overlay_def fun_eq_iff)
next
  case (Cons s ss)
  from Cons.prems(1) obtain db1 where d1: "upsert_stats s db = (Inr (), db1)" "db_proxies db1 = db_proxies db"
    "stats_view (db_stats db1) = (stats_view (db_stats db))(SS_ProxyID s \<mapsto> s)" using upsert_ok [of db s] by auto
  have "\<forall>t \<in> set ss. has_proxy db1 (SS_ProxyID t)" using Cons.prems(1) d1(2) by (simp add: has_proxy_def)
  from Cons.IH [OF this] Cons.prems(2) obtain db2 where d2: "sfor upsert_stats ss db1 = (Inr (), db2)"
    "stats_view (db_stats db2) = overlay ss (stats_view (db_stats db1))" by auto
  with d1 Cons.prems(2) show ?case by (simp add: sbind_Inr overlay_Cons)
qed

lemma stats_view_sorted:
  assumes "distinct (map SS_ProxyID rows)"
  shows "stats_view (sort_key SS_ProxyID rows) = stats_view rows"
  unfolding stats_view_def
proof (rule map_of_eqI)
  show "set (map fst (map (\<lambda>s. (SS_ProxyID s, s)) (sort_key SS_ProxyID rows))) =
        set (map fst (map (\<lambda>s. (SS_ProxyID s, s)) rows))" by simp
  have d: "distinct (map SS_ProxyID (sort_key SS_ProxyID rows))"
    using assms by (metis distinct_map distinct_sort set_sort)
  show "\<forall>k \<in> set (map fst (map (\<lambda>s. (SS_ProxyID s, s)) (sort_key SS_ProxyID rows))).
      map_of (map (\<lambda>s. (SS_ProxyID s, s)) (sort_key SS_ProxyID rows)) k = map_of (map (\<lambda>s. (SS_ProxyID s, s)) rows) k"
  proof
  fix k assume "k \<in> set (map fst (map (\<lambda>s. (SS_ProxyID s, s)) (sort_key SS_ProxyID rows)))"
  then obtain s where s: "s \<in> set rows" "k = SS_ProxyID s" by auto
  then have "map_of (map (\<lambda>s. (SS_ProxyID s, s)) (sort_key SS_ProxyID rows)) k = Some s"
    using d by (intro map_of_is_SomeI) (auto simp: comp_def)
  moreover have "map_of (map (\<lambda>s. (SS_ProxyID s, s)) rows) k = Some s"
    using assms s by (intro map_of_is_SomeI) (auto simp: comp_def)
  ultimately show "map_of (map (\<lambda>s. (SS_ProxyID s, s)) (sort_key SS_ProxyID rows)) k =
      map_of (map (\<lambda>s. (SS_ProxyID s, s)) rows) k" by simp
  qed
qed

definition loaded :: "StoreProxyStats \<Rightarrow> ProxyStats" where
  "loaded s = the (gm_get (memory_Load s []) (SS_ProxyID s))"

lemma Load_get: "gm_get (memory_Load s m) k = (if k = SS_ProxyID s then Some (loaded s) else gm_get m k)"
  by (simp add: memory_Load_def loaded_def)

lemma Load_all:
  "distinct (map SS_ProxyID ss) \<Longrightarrow>
   gm_get (fold memory_Load ss m) k = (case stats_view ss k of Some s \<Rightarrow> Some (loaded s) | None \<Rightarrow> gm_get m k)"
proof (induction ss arbitrary: m)
  case (Cons s ss)
  then have "stats_view ss (SS_ProxyID s) = None" by (simp add: stats_view_None)
  with Cons show ?case by (simp add: Load_get split: option.split)
qed simp

lemma NewPersistent_get:
  assumes "db_ok db"
  shows "gm_get (NewPersistent db) k = map_option loaded (stats_view (db_stats db) k)"
proof -
  have d: "distinct (map SS_ProxyID (db_stats db))" using assms by (simp add: db_ok_def keys_unique_def)
  then have "distinct (map SS_ProxyID (sort_key SS_ProxyID (db_stats db)))"
    by (metis distinct_map distinct_sort set_sort)
  with d show ?thesis
    by (simp add: NewPersistent_def stats_List_def sql_list_def Load_all stats_view_sorted NewMemory_def
        split: option.split)
qed

lemma loaded_snapshot: "loaded (store_snapshot s) = s \<lparr>PS_TCPCurrentConnections := 0\<rparr>"
  by (cases s) (simp add: loaded_def memory_Load_def store_snapshot_def)

lemma snapshots_view:
  assumes "memory_ok m"
  shows "stats_view (memory_StoreSnapshots m) k = map_option store_snapshot (gm_get m k)"
    and "distinct (map SS_ProxyID (memory_StoreSnapshots m))"
    and "SS_ProxyID ` set (memory_StoreSnapshots m) = set (gm_keys m)"
proof -
  have key: "SS_ProxyID (store_snapshot s) = i" if "(i, s) \<in> set m" for i s
    using that assms by (auto simp: memory_ok_def gm_get_in store_snapshot_def)
  then have ids: "map SS_ProxyID (memory_StoreSnapshots m) = map fst m"
    by (auto simp: memory_StoreSnapshots_def)
  with assms show "distinct (map SS_ProxyID (memory_StoreSnapshots m))" by (simp add: memory_ok_def gm_wf_def)
  from ids show "SS_ProxyID ` set (memory_StoreSnapshots m) = set (gm_keys m)"
    by (metis gm_keys_def set_map)
  have "map (\<lambda>s. (SS_ProxyID s, s)) (memory_StoreSnapshots m) = map (\<lambda>(i, s). (i, store_snapshot s)) m"
    using key by (auto simp: memory_StoreSnapshots_def)
  then show "stats_view (memory_StoreSnapshots m) k = map_option store_snapshot (gm_get m k)"
    by (simp add: stats_view_def gm_get_def map_of_map)
qed

section \<open>Properties\<close>


definition sample_memory :: Memory where
  "sample_memory = memory_RecordTCPEnd ''p1'' 10 20 False (memory_RecordTCPStart ''p1'' (memory_RecordTCPStart ''p1'' NewMemory))"


end
