(* ===== verification/PortEntries.thy ===== *)
theory PortEntries
  imports Control Stats
begin

text \<open>
  The TCP entry, internal/proxy/tcp/entry.go: one connection; and the UDP entry,
  internal/proxy/udp/entry.go: the sessions of the remote addresses with their streams, the packets
  in both directions and the cleanup. Sockets, streams and clocks are replies and effects.
\<close>

text \<open>The configuration fields of both entries; \<open>pe_addr\<close> is the address the listener is bound to.\<close>

record PortEntry =
  pe_BindHost :: string
  pe_Port :: int
  pe_IncludeDefault :: bool
  pe_addr :: string
  pe_IdleTimeout :: duration

definition portFromAddr :: "string \<Rightarrow> int" where
  "portFromAddr addr =
     (case SplitHostPort addr of
        None \<Rightarrow> 0
      | Some (host, port) \<Rightarrow> (case atoi port of None \<Rightarrow> 0 | Some n \<Rightarrow> n))"

definition entry_port :: "PortEntry \<Rightarrow> int" where
  "entry_port entry = (if pe_Port entry = 0 then portFromAddr (pe_addr entry) else pe_Port entry)"

definition Address :: "string \<Rightarrow> int \<Rightarrow> string" where
  "Address host port = JoinHostPort host (itoa port)"

text \<open>The enabled proxy a connection or a packet belongs to.\<close>

definition entry_proxy :: "(DB \<Rightarrow> string \<Rightarrow> int \<Rightarrow> bool \<Rightarrow> Proxy result) \<Rightarrow> PortEntry \<Rightarrow> DB \<Rightarrow> Proxy option" where
  "entry_proxy lookup entry db =
     (case lookup db (pe_BindHost entry) (entry_port entry) (pe_IncludeDefault entry) of
        Inl _ \<Rightarrow> None
      | Inr proxy \<Rightarrow> (if Proxy_Status proxy \<noteq> ProxyEnabled then None else Some proxy))"

section \<open>TCP\<close>

datatype tcp_effect = TcpOpen int | TcpSend OpenStream | TcpTunnel | TcpCloseStream

record TcpEnv =
  tcp_open :: "int \<Rightarrow> unit result"
  tcp_connectionID :: "string result"
  tcp_write :: "OpenStream \<Rightarrow> unit result"
  tcp_copied :: "int \<times> int"

text \<open>What comes after RecordTCPStart: the effects, the bytes counted, and whether it failed.\<close>

definition tcp_serve :: "TcpEnv \<Rightarrow> Proxy \<Rightarrow> Manager \<Rightarrow> tcp_effect list \<times> (int \<times> int) \<times> bool" where
  "tcp_serve env proxy m =
     (case manager_Latest m (Proxy_ClientID proxy) of
        None \<Rightarrow> ([], (0, 0), True)
      | Some latest \<Rightarrow>
          (case Ses_StreamOpener latest of
             None \<Rightarrow> ([], (0, 0), True)
           | Some opener \<Rightarrow>
               (case tcp_open env opener of
                  Inl _ \<Rightarrow> ([TcpOpen opener], (0, 0), True)
                | Inr _ \<Rightarrow>
                    (case tcp_connectionID env of
                       Inl _ \<Rightarrow> ([TcpOpen opener, TcpCloseStream], (0, 0), True)
                     | Inr connectionID \<Rightarrow>
                         (let request = \<lparr>OS_Kind = [], OS_ProxyID = Proxy_ID proxy, OS_ConnectionID = connectionID,
                             OS_TargetHost = Proxy_TargetHost proxy, OS_TargetPort = Proxy_TargetPort proxy\<rparr>
                          in (case tcp_write env request of
                                Inl _ \<Rightarrow> ([TcpOpen opener, TcpSend request, TcpCloseStream], (0, 0), True)
                              | Inr _ \<Rightarrow> ([TcpOpen opener, TcpSend request, TcpTunnel, TcpCloseStream], tcp_copied env, False)))))))"

definition tcp_handleConn :: "TcpEnv \<Rightarrow> PortEntry \<Rightarrow> DB \<Rightarrow> Manager \<Rightarrow> Memory \<Rightarrow> tcp_effect list \<times> Memory" where
  "tcp_handleConn env entry db m stats =
     (case entry_proxy proxies_ByTCPEntry entry db of
        None \<Rightarrow> ([], stats)
      | Some proxy \<Rightarrow>
          (let started = memory_RecordTCPStart (Proxy_ID proxy) stats in
           case tcp_serve env proxy m of
             (effects, (uploadBytes, downloadBytes), failed) \<Rightarrow>
               (effects, memory_RecordTCPEnd (Proxy_ID proxy) uploadBytes downloadBytes failed started)))"

section \<open>UDP sessions\<close>

text \<open>A stream is a handle; \<open>ul_closed\<close> is the list of the Close calls on streams, in order.\<close>

record UdpSession =
  us_proxyID :: string
  us_remoteAddr :: string
  us_stream :: int
  us_lastSeen :: time

record UdpListener =
  ul_sessions :: "(string, UdpSession) gomap"
  ul_closed :: "int list"

datatype udp_effect = UdpOpen int | UdpSendOpen int OpenStream | UdpFrame int "byte list" | UdpReply string "byte list"

definition sessionKey :: "string \<Rightarrow> string \<Rightarrow> string" where
  "sessionKey proxyID remoteAddr = proxyID @ ''|'' @ remoteAddr"

definition idleTimeout :: "PortEntry \<Rightarrow> duration" where
  "idleTimeout entry = (if pe_IdleTimeout entry > 0 then pe_IdleTimeout entry else 30 * Second)"

definition udp_close_stream :: "int \<Rightarrow> UdpListener \<Rightarrow> UdpListener" where
  "udp_close_stream h l = l \<lparr>ul_closed := ul_closed l @ [h]\<rparr>"

definition udp_removeKey :: "string \<Rightarrow> UdpListener \<Rightarrow> UdpListener" where
  "udp_removeKey key l =
     (case gm_get (ul_sessions l) key of
        None \<Rightarrow> l
      | Some session \<Rightarrow> (udp_close_stream (us_stream session) l) \<lparr>ul_sessions := gm_del key (ul_sessions l)\<rparr>)"

definition udp_removeSession :: "string \<Rightarrow> string \<Rightarrow> UdpListener \<Rightarrow> UdpListener" where
  "udp_removeSession proxyID remoteAddr = udp_removeKey (sessionKey proxyID remoteAddr)"

text \<open>Both loops range over the map and remove the entry they are at.\<close>

definition udp_Close :: "UdpListener \<Rightarrow> UdpListener" where
  "udp_Close l = fold udp_removeKey (gm_keys (ul_sessions l)) l"

definition udp_cleanupIdle :: "time \<Rightarrow> PortEntry \<Rightarrow> UdpListener \<Rightarrow> UdpListener" where
  "udp_cleanupIdle now entry l =
     fold (\<lambda>(key, session) l. if us_lastSeen session < now - idleTimeout entry then udp_removeKey key l else l)
       (ul_sessions l) l"

text \<open>
  session() in its parts: the first look, the opening of a stream (an error closes what was opened),
  and the second critical section, which keeps the session another goroutine has stored meanwhile.
\<close>

record UdpEnv =
  udp_open :: "int \<Rightarrow> int result"
  udp_sessionID :: "string result"
  udp_write :: "OpenStream \<Rightarrow> unit result"
  udp_now :: time

definition udp_open_session ::
    "UdpEnv \<Rightarrow> Proxy \<Rightarrow> string \<Rightarrow> Manager \<Rightarrow> UdpListener \<Rightarrow> udp_effect list \<times> UdpSession result \<times> UdpListener" where
  "udp_open_session env proxy remoteAddr m l =
     (case manager_Latest m (Proxy_ClientID proxy) of
        None \<Rightarrow> ([], Inl (New ''client offline''), l)
      | Some latest \<Rightarrow>
          (case Ses_StreamOpener latest of
             None \<Rightarrow> ([], Inl (New ''client offline''), l)
           | Some opener \<Rightarrow>
               (case udp_open env opener of
                  Inl e \<Rightarrow> ([UdpOpen opener], Inl e, l)
                | Inr stream \<Rightarrow>
                    (case udp_sessionID env of
                       Inl e \<Rightarrow> ([UdpOpen opener], Inl e, udp_close_stream stream l)
                     | Inr connectionID \<Rightarrow>
                         (let request = \<lparr>OS_Kind = ''udp'', OS_ProxyID = Proxy_ID proxy, OS_ConnectionID = connectionID,
                             OS_TargetHost = Proxy_TargetHost proxy, OS_TargetPort = Proxy_TargetPort proxy\<rparr>
                          in (case udp_write env request of
                                Inl e \<Rightarrow> ([UdpOpen opener, UdpSendOpen stream request], Inl e, udp_close_stream stream l)
                              | Inr _ \<Rightarrow> ([UdpOpen opener, UdpSendOpen stream request],
                                         Inr \<lparr>us_proxyID = Proxy_ID proxy, us_remoteAddr = remoteAddr, us_stream = stream,
                                              us_lastSeen = udp_now env\<rparr>, l)))))))"

definition udp_publish :: "string \<Rightarrow> UdpSession \<Rightarrow> UdpListener \<Rightarrow> UdpSession \<times> UdpListener" where
  "udp_publish key session l =
     (case gm_get (ul_sessions l) key of
        Some existing \<Rightarrow> (existing, udp_close_stream (us_stream session) l)
      | None \<Rightarrow> (session, l \<lparr>ul_sessions := gm_put key session (ul_sessions l)\<rparr>))"

definition udp_session ::
    "UdpEnv \<Rightarrow> Proxy \<Rightarrow> string \<Rightarrow> Manager \<Rightarrow> UdpListener \<Rightarrow> udp_effect list \<times> UdpSession result \<times> UdpListener" where
  "udp_session env proxy remoteAddr m l =
     (let key = sessionKey (Proxy_ID proxy) remoteAddr in
      case gm_get (ul_sessions l) key of
        Some existing \<Rightarrow> ([], Inr existing, l)
      | None \<Rightarrow>
          (case udp_open_session env proxy remoteAddr m l of
             (effects, Inl e, l') \<Rightarrow> (effects, Inl e, l')
           | (effects, Inr session, l') \<Rightarrow>
               (case udp_publish key session l' of (s, l'') \<Rightarrow> (effects, Inr s, l''))))"

text \<open>\<open>session.lastSeen = time.Now()\<close> on the object, visible in the map while it is stored.\<close>

definition udp_touch :: "string \<Rightarrow> int \<Rightarrow> time \<Rightarrow> UdpListener \<Rightarrow> UdpListener" where
  "udp_touch key stream now l =
     (case gm_get (ul_sessions l) key of
        Some s \<Rightarrow> (if us_stream s = stream then l \<lparr>ul_sessions := gm_put key (s \<lparr>us_lastSeen := now\<rparr>) (ul_sessions l)\<rparr> else l)
      | None \<Rightarrow> l)"

text \<open>The write of a frame: the encoding may refuse the payload, the stream the bytes.\<close>

definition udp_send :: "(int \<Rightarrow> byte list \<Rightarrow> unit result) \<Rightarrow> int \<Rightarrow> byte list \<Rightarrow> udp_effect list \<times> unit result" where
  "udp_send write stream payload =
     (case WriteDatagramFrame payload of
        Inl e \<Rightarrow> ([], Inl e)
      | Inr frame \<Rightarrow> ([UdpFrame stream frame], write stream frame))"

definition udp_handlePacket ::
    "UdpEnv \<Rightarrow> (int \<Rightarrow> byte list \<Rightarrow> unit result) \<Rightarrow> PortEntry \<Rightarrow> string \<Rightarrow> byte list \<Rightarrow> DB \<Rightarrow> Manager \<Rightarrow>
     UdpListener \<times> Memory \<Rightarrow> udp_effect list \<times> UdpListener \<times> Memory" where
  "udp_handlePacket env write entry remoteAddr payload db m w =
     (case w of (l, stats) \<Rightarrow>
      (case entry_proxy proxies_ByUDPEntry entry db of
         None \<Rightarrow> ([], l, stats)
       | Some proxy \<Rightarrow>
           (case udp_session env proxy remoteAddr m l of
              (effects, Inl e, l1) \<Rightarrow> (effects, l1, memory_RecordUDP (Proxy_ID proxy) (blen payload) 0 True stats)
            | (effects, Inr session, l1) \<Rightarrow>
                (let l2 = udp_touch (sessionKey (Proxy_ID proxy) remoteAddr) (us_stream session) (udp_now env) l1 in
                 case udp_send write (us_stream session) payload of
                   (sent, res) \<Rightarrow>
                     (effects @ sent,
                      (case res of Inl _ \<Rightarrow> udp_removeSession (Proxy_ID proxy) remoteAddr l2 | Inr _ \<Rightarrow> l2),
                      memory_RecordUDP (Proxy_ID proxy) (blen payload) 0 (case res of Inl _ \<Rightarrow> True | Inr _ \<Rightarrow> False) stats)))))"

text \<open>readResponses: the datagrams on the stream go to the remote address, until the stream or a write fails.\<close>

fun udp_responses :: "(byte list \<Rightarrow> unit result) \<Rightarrow> UdpSession \<Rightarrow> byte list list \<Rightarrow> Memory \<Rightarrow> udp_effect list \<times> Memory" where
  "udp_responses writeTo session [] stats = ([], stats)"
| "udp_responses writeTo session (payload # rest) stats =
     (case writeTo payload of
        Inl _ \<Rightarrow> ([UdpReply (us_remoteAddr session) payload],
                  memory_RecordUDP (us_proxyID session) 0 (blen payload) True stats)
      | Inr _ \<Rightarrow>
          (case udp_responses writeTo session rest (memory_RecordUDP (us_proxyID session) 0 (blen payload) False stats) of
             (effects, stats') \<Rightarrow> (UdpReply (us_remoteAddr session) payload # effects, stats')))"

definition udp_readResponses ::
    "(byte list \<Rightarrow> unit result) \<Rightarrow> string \<Rightarrow> UdpSession \<Rightarrow> byte list \<Rightarrow> UdpListener \<times> Memory \<Rightarrow>
     udp_effect list \<times> UdpListener \<times> Memory" where
  "udp_readResponses writeTo key session inp w =
     (case w of (l, stats) \<Rightarrow>
      (case udp_responses writeTo session (read_frames inp) stats of
         (effects, stats') \<Rightarrow> (effects, udp_removeKey key l, stats')))"

end
