(* ===== verification/ListenerRuntime.thy ===== *)
theory ListenerRuntime
  imports PortEntries
begin

text \<open>
  The proxy listeners of the server, internal/daemon/proxy_listeners.go: the listeners the stored
  configuration asks for, their start and stop when it changes, the default listeners of the server
  and the shutdown. A listener is a handle of type \<open>'l\<close> with the entry it was configured with.
  Binding an address and closing a listener are replies of the environment \<open>ln_listen\<close> and
  \<open>ln_close\<close>; \<open>ln_addr\<close> is the address a handle reports, None when it reports none. Go ranges over a
  map in any order: \<open>ln_order\<close> is the order it takes.
\<close>

record ListenerKey =
  LK_Protocol :: string
  LK_BindHost :: string
  LK_Port :: int

text \<open>What the four Listen calls are given.\<close>

record ListenConfig =
  LC_ListenAddress :: string
  LC_EntryBindHost :: string
  LC_EntryPort :: int
  LC_IncludeDefault :: bool

record 'l ListenerEnv =
  ln_listen :: "ListenerKey \<Rightarrow> ListenConfig \<Rightarrow> 'l result"
  ln_close :: "'l \<Rightarrow> unit result"
  ln_addr :: "'l \<Rightarrow> string option"
  ln_order :: "ListenerKey list \<Rightarrow> ListenerKey list"

type_synonym 'l listeners = "(ListenerKey, ListenConfig \<times> 'l) gomap"

record 'l ServerRuntime =
  rt_defaults :: ProxyEntryDefaults
  rt_httpsEntryEnabled :: bool
  rt_defaultHTTPKey :: ListenerKey
  rt_defaultHTTPSKey :: ListenerKey
  rt_tcp :: "'l listeners"
  rt_udp :: "'l listeners"
  rt_http :: "'l listeners"
  rt_https :: "'l listeners"

definition zeroListenerKey :: ListenerKey where
  "zeroListenerKey = \<lparr>LK_Protocol = [], LK_BindHost = [], LK_Port = 0\<rparr>"

definition listenerKey_address :: "ListenerKey \<Rightarrow> string" where
  "listenerKey_address key = ListenAddress (LK_BindHost key) (LK_Port key)"

fun listener_port :: "string option \<Rightarrow> int" where
  "listener_port None = 0"
| "listener_port (Some addr) = portFromAddr addr"

definition withActualPort :: "string option \<Rightarrow> ListenerKey \<Rightarrow> ListenerKey" where
  "withActualPort addr key =
     (let actualPort = listener_port addr in if actualPort > 0 then key \<lparr>LK_Port := actualPort\<rparr> else key)"

definition isDefaultHTTPKey :: "'l ServerRuntime \<Rightarrow> ListenerKey \<Rightarrow> bool" where
  "isDefaultHTTPKey rt key \<longleftrightarrow> key = rt_defaultHTTPKey rt"

definition isDefaultHTTPSKey :: "'l ServerRuntime \<Rightarrow> ListenerKey \<Rightarrow> bool" where
  "isDefaultHTTPSKey rt key \<longleftrightarrow> key = rt_defaultHTTPSKey rt"

section \<open>The desired listeners\<close>

text \<open>A map from keys to the number of proxies or entries behind them.\<close>

record DesiredListeners =
  de_tcp :: "(ListenerKey, int) gomap"
  de_udp :: "(ListenerKey, int) gomap"
  de_http :: "(ListenerKey, int) gomap"
  de_https :: "(ListenerKey, int) gomap"

definition count_key :: "ListenerKey \<Rightarrow> (ListenerKey, int) gomap \<Rightarrow> (ListenerKey, int) gomap" where
  "count_key key m = gm_put key ((case gm_get m key of None \<Rightarrow> 0 | Some n \<Rightarrow> n) + 1) m"

definition key_of_entry :: "ProxyEntry \<Rightarrow> ListenerKey" where
  "key_of_entry entry = \<lparr>LK_Protocol = Entry_Protocol entry, LK_BindHost = Entry_BindHost entry, LK_Port = Entry_Port entry\<rparr>"

definition proxyUsesUnavailableDefault :: "'l ServerRuntime \<Rightarrow> Proxy \<Rightarrow> bool" where
  "proxyUsesUnavailableDefault rt proxy =
     (if Proxy_Type proxy = ProxyHTTP then Proxy_EntryPort proxy = 0 \<and> Def_HTTPPort (rt_defaults rt) = 0
      else if Proxy_Type proxy = ProxyHTTPS then Proxy_EntryPort proxy = 0 \<and> Def_HTTPSPort (rt_defaults rt) = 0
      else False)"

text \<open>One proxy of the loop over all proxies.\<close>

definition desire_proxy :: "'l ServerRuntime \<Rightarrow> Proxy \<Rightarrow> DesiredListeners \<Rightarrow> DesiredListeners result" where
  "desire_proxy rt proxy desired =
     (if Proxy_Status proxy \<noteq> ProxyEnabled then Inr desired
      else if proxyType_IsWeb (Proxy_Type proxy) then Inr desired
      else case EffectiveProxyEntry proxy (rt_defaults rt) of
             None \<Rightarrow> (if proxyUsesUnavailableDefault rt proxy then Inr desired
                     else Inl (New (Proxy_Type proxy @ '' proxy '' @ Proxy_ID proxy @ '' entry listener is invalid'')))
           | Some entry \<Rightarrow>
               (let key = key_of_entry entry in
                if LK_Protocol key = ListenerProtocolTCP then Inr (desired \<lparr>de_tcp := count_key key (de_tcp desired)\<rparr>)
                else if LK_Protocol key = ListenerProtocolUDP then Inr (desired \<lparr>de_udp := count_key key (de_udp desired)\<rparr>)
                else if LK_Protocol key = ListenerProtocolHTTP then Inr (desired \<lparr>de_http := count_key key (de_http desired)\<rparr>)
                else if LK_Protocol key = ListenerProtocolHTTPS then Inr (desired \<lparr>de_https := count_key key (de_https desired)\<rparr>)
                else Inr desired))"

definition desire_entry :: "'l ServerRuntime \<Rightarrow> DB \<Rightarrow> DomainEntry \<Rightarrow> DesiredListeners \<Rightarrow> DesiredListeners result" where
  "desire_entry rt db domainEntry desired =
     (case domains_ByID db (DEnt_DomainID domainEntry) of
        Inl _ \<Rightarrow> Inr desired
      | Inr webDomain \<Rightarrow>
          (if Dom_Status webDomain \<noteq> DomainEnabled then Inr desired
           else case EffectiveDomainEntry domainEntry (rt_defaults rt) of
                  None \<Rightarrow> (if DEnt_Port domainEntry = 0 then Inr desired
                          else Inl (New (''domain entry '' @ DEnt_ID domainEntry @ '' listener is invalid'')))
                | Some entry \<Rightarrow>
                    (let key = key_of_entry entry in
                     if LK_Protocol key = ListenerProtocolHTTP then Inr (desired \<lparr>de_http := count_key key (de_http desired)\<rparr>)
                     else if LK_Protocol key = ListenerProtocolHTTPS then Inr (desired \<lparr>de_https := count_key key (de_https desired)\<rparr>)
                     else Inr desired)))"

fun each_desired :: "('x \<Rightarrow> DesiredListeners \<Rightarrow> DesiredListeners result) \<Rightarrow> 'x list \<Rightarrow> DesiredListeners \<Rightarrow> DesiredListeners result" where
  "each_desired f [] desired = Inr desired"
| "each_desired f (x # xs) desired = rbind (f x desired) (each_desired f xs)"

definition default_desired :: "'l ServerRuntime \<Rightarrow> DesiredListeners" where
  "default_desired rt =
     \<lparr>de_tcp = [], de_udp = [],
      de_http = (if LK_Port (rt_defaultHTTPKey rt) > 0 then gm_put (rt_defaultHTTPKey rt) 0 [] else []),
      de_https = (if rt_httpsEntryEnabled rt \<and> LK_Port (rt_defaultHTTPSKey rt) > 0
                  then gm_put (rt_defaultHTTPSKey rt) 0 [] else [])\<rparr>"

definition desiredProxyListeners :: "'l ServerRuntime \<Rightarrow> DB \<Rightarrow> DesiredListeners result" where
  "desiredProxyListeners rt db =
     rbind (each_desired (desire_proxy rt) (proxies_List db) (default_desired rt)) (\<lambda>desired.
       each_desired (desire_entry rt db) (domainEntries_ListEnabled db) desired)"

section \<open>Starting and stopping\<close>

definition listen_config :: "ListenerKey \<Rightarrow> bool \<Rightarrow> ListenConfig" where
  "listen_config key includeDefault =
     \<lparr>LC_ListenAddress = listenerKey_address key, LC_EntryBindHost = LK_BindHost key, LC_EntryPort = LK_Port key,
      LC_IncludeDefault = includeDefault\<rparr>"

definition isDefaultTCPHost :: "'l ServerRuntime \<Rightarrow> ListenerKey \<Rightarrow> bool" where
  "isDefaultTCPHost rt key \<longleftrightarrow> NormalizeBindHost (LK_BindHost key) = NormalizeBindHost (Def_TCPBindHost (rt_defaults rt))"

definition startTCPListener :: "'l ListenerEnv \<Rightarrow> ListenerKey \<Rightarrow> ('l ServerRuntime, unit) op" where
  "startTCPListener env key rt =
     (let config = listen_config key (isDefaultTCPHost rt key) in
      case ln_listen env key config of
        Inl e \<Rightarrow> (Inl (Wrapf (''listen tcp proxy on '' @ listenerKey_address key) e), rt)
      | Inr listener \<Rightarrow> (Inr (), rt \<lparr>rt_tcp := gm_put key (config, listener) (rt_tcp rt)\<rparr>))"

definition startUDPListener :: "'l ListenerEnv \<Rightarrow> ListenerKey \<Rightarrow> ('l ServerRuntime, unit) op" where
  "startUDPListener env key rt =
     (let config = listen_config key (isDefaultTCPHost rt key) in
      case ln_listen env key config of
        Inl e \<Rightarrow> (Inl (Wrapf (''listen udp proxy on '' @ listenerKey_address key) e), rt)
      | Inr listener \<Rightarrow> (Inr (), rt \<lparr>rt_udp := gm_put key (config, listener) (rt_udp rt)\<rparr>))"

text \<open>The web listeners are stored under the port they got, which SetEntryPort tells them.\<close>

definition startHTTPListener :: "'l ListenerEnv \<Rightarrow> bool \<Rightarrow> ListenerKey \<Rightarrow> ('l ServerRuntime, ListenerKey) op" where
  "startHTTPListener env includeDefaultRoutes key rt =
     (let config = listen_config key includeDefaultRoutes in
      case ln_listen env key config of
        Inl e \<Rightarrow> (Inl (Wrapf (''listen http proxy on '' @ listenerKey_address key) e), rt)
      | Inr server \<Rightarrow>
          (let actualKey = withActualPort (ln_addr env server) key in
           (Inr actualKey,
            rt \<lparr>rt_http := gm_put actualKey (config \<lparr>LC_EntryPort := LK_Port actualKey\<rparr>, server) (rt_http rt)\<rparr>)))"

definition startHTTPSListener :: "'l ListenerEnv \<Rightarrow> bool \<Rightarrow> ListenerKey \<Rightarrow> ('l ServerRuntime, ListenerKey) op" where
  "startHTTPSListener env includeDefaultRoutes key rt =
     (let config = listen_config key includeDefaultRoutes in
      case ln_listen env key config of
        Inl e \<Rightarrow> (Inl (Wrapf (''listen https proxy on '' @ listenerKey_address key) e), rt)
      | Inr listener \<Rightarrow>
          (let actualKey = withActualPort (ln_addr env listener) key in
           (Inr actualKey,
            rt \<lparr>rt_https := gm_put actualKey (config \<lparr>LC_EntryPort := LK_Port actualKey\<rparr>, listener) (rt_https rt)\<rparr>)))"

text \<open>One loop that starts the desired listeners that are not running.\<close>

definition start_one ::
    "('l ServerRuntime \<Rightarrow> 'l listeners) \<Rightarrow> (ListenerKey \<Rightarrow> ('l ServerRuntime, 'a) op) \<Rightarrow> ListenerKey \<Rightarrow> ('l ServerRuntime, unit) op" where
  "start_one running start key rt =
     (case gm_get (running rt) key of
        Some _ \<Rightarrow> (Inr (), rt)
      | None \<Rightarrow> (case start key rt of (Inl e, rt') \<Rightarrow> (Inl e, rt') | (Inr _, rt') \<Rightarrow> (Inr (), rt')))"

definition start_missing ::
    "('l ServerRuntime \<Rightarrow> 'l listeners) \<Rightarrow> (ListenerKey \<Rightarrow> ('l ServerRuntime, 'a) op) \<Rightarrow> ListenerKey list \<Rightarrow> ('l ServerRuntime, unit) op" where
  "start_missing running start = sfor (start_one running start)"

text \<open>One loop that closes the running listeners nobody desires; it ranges over the running ones.\<close>

definition stop_one ::
    "'l ListenerEnv \<Rightarrow> string \<Rightarrow> ('l ServerRuntime \<Rightarrow> 'l listeners)
     \<Rightarrow> (('l listeners \<Rightarrow> 'l listeners) \<Rightarrow> 'l ServerRuntime \<Rightarrow> 'l ServerRuntime)
     \<Rightarrow> (ListenerKey, int) gomap \<Rightarrow> ListenerKey \<Rightarrow> ('l ServerRuntime, unit) op" where
  "stop_one env name running update desired key rt =
     (if gm_get desired key \<noteq> None then (Inr (), rt)
      else case gm_get (running rt) key of
             None \<Rightarrow> (Inr (), rt)
           | Some (config, listener) \<Rightarrow>
               (case ln_close env listener of
                  Inl e \<Rightarrow> (Inl (Wrapf (''close '' @ name @ '' proxy listener '' @ listenerKey_address key) e), rt)
                | Inr _ \<Rightarrow> (Inr (), update (gm_del key) rt)))"

definition stop_extra ::
    "'l ListenerEnv \<Rightarrow> string \<Rightarrow> ('l ServerRuntime \<Rightarrow> 'l listeners)
     \<Rightarrow> (('l listeners \<Rightarrow> 'l listeners) \<Rightarrow> 'l ServerRuntime \<Rightarrow> 'l ServerRuntime)
     \<Rightarrow> (ListenerKey, int) gomap \<Rightarrow> ('l ServerRuntime, unit) op" where
  "stop_extra env name running update desired rt =
     sfor (stop_one env name running update desired) (ln_order env (gm_keys (running rt))) rt"

text \<open>ReconcileProxyListeners reads the store before it takes the lock, and changes the listeners under it.\<close>

definition apply_desired :: "'l ListenerEnv \<Rightarrow> DesiredListeners \<Rightarrow> ('l ServerRuntime, unit) op" where
  "apply_desired env desired =
     sbind (start_missing rt_tcp (startTCPListener env) (ln_order env (gm_keys (de_tcp desired)))) (\<lambda>_.
     sbind (start_missing rt_udp (startUDPListener env) (ln_order env (gm_keys (de_udp desired)))) (\<lambda>_.
     sbind (start_missing rt_http (\<lambda>key rt. startHTTPListener env (isDefaultHTTPKey rt key) key rt)
              (ln_order env (gm_keys (de_http desired)))) (\<lambda>_.
     sbind (start_missing rt_https (\<lambda>key rt. startHTTPSListener env (isDefaultHTTPSKey rt key) key rt)
              (ln_order env (gm_keys (de_https desired)))) (\<lambda>_.
     sbind (stop_extra env ''tcp'' rt_tcp rt_tcp_update (de_tcp desired)) (\<lambda>_.
     sbind (stop_extra env ''udp'' rt_udp rt_udp_update (de_udp desired)) (\<lambda>_.
     sbind (stop_extra env ''http'' rt_http rt_http_update (de_http desired)) (\<lambda>_.
     stop_extra env ''https'' rt_https rt_https_update (de_https desired))))))))"

definition ReconcileProxyListeners :: "'l ListenerEnv \<Rightarrow> DB \<Rightarrow> ('l ServerRuntime, unit) op" where
  "ReconcileProxyListeners env db rt =
     (case desiredProxyListeners rt db of
        Inl e \<Rightarrow> (Inl e, rt)
      | Inr desired \<Rightarrow> apply_desired env desired rt)"

definition startDefaultProxyListeners :: "'l ListenerEnv \<Rightarrow> ('l ServerRuntime, unit) op" where
  "startDefaultProxyListeners env =
     sbind (\<lambda>rt. (case startHTTPListener env True
              \<lparr>LK_Protocol = ListenerProtocolHTTP, LK_BindHost = Def_HTTPBindHost (rt_defaults rt),
               LK_Port = Def_HTTPPort (rt_defaults rt)\<rparr> rt of
              (Inl e, rt') \<Rightarrow> (Inl (Wrapf ''listen default http proxy'' e), rt')
            | (Inr key, rt') \<Rightarrow> (Inr (), rt' \<lparr>rt_defaultHTTPKey := key,
                 rt_defaults := (rt_defaults rt') \<lparr>Def_HTTPBindHost := LK_BindHost key, Def_HTTPPort := LK_Port key\<rparr>\<rparr>))) (\<lambda>_.
     \<lambda>rt. (if \<not> rt_httpsEntryEnabled rt then (Inr (), rt)
           else case startHTTPSListener env True
              \<lparr>LK_Protocol = ListenerProtocolHTTPS, LK_BindHost = Def_HTTPSBindHost (rt_defaults rt),
               LK_Port = Def_HTTPSPort (rt_defaults rt)\<rparr> rt of
              (Inl e, rt') \<Rightarrow> (Inl (Wrapf ''listen default https proxy'' e), rt')
            | (Inr key, rt') \<Rightarrow> (Inr (), rt' \<lparr>rt_defaultHTTPSKey := key,
                 rt_defaults := (rt_defaults rt') \<lparr>Def_HTTPSBindHost := LK_BindHost key, Def_HTTPSPort := LK_Port key\<rparr>\<rparr>)))"

text \<open>Every listener is closed and dropped; errors.Join collects the errors.\<close>

definition close_errors :: "'l ListenerEnv \<Rightarrow> 'l listeners \<Rightarrow> error list" where
  "close_errors env m = [e. (_, _, listener) \<leftarrow> m, e \<leftarrow> (case ln_close env listener of Inl e \<Rightarrow> [e] | Inr _ \<Rightarrow> [])]"

definition closeProxyListeners :: "'l ListenerEnv \<Rightarrow> 'l ServerRuntime \<Rightarrow> error list \<times> 'l ServerRuntime" where
  "closeProxyListeners env rt =
     (close_errors env (rt_tcp rt) @ close_errors env (rt_udp rt) @ close_errors env (rt_http rt) @ close_errors env (rt_https rt),
      rt \<lparr>rt_tcp := [], rt_udp := [], rt_http := [], rt_https := []\<rparr>)"

end
