(* ===== verification/ListenerProps.thy ===== *)
theory ListenerProps
  imports ListenerRuntime
begin

text \<open>
  What ReconcileProxyListeners achieves: the listeners that run afterwards are exactly those the
  stored configuration asks for, and those that were running and are still asked for were not
  touched. The four registries obey one interface, \<open>listener_registry\<close>.
\<close>

lemma start_missing_eqs:
  "start_missing running start [] rt = (Inr (), rt)"
  "start_missing running start (key # keys) rt =
     (case gm_get (running rt) key of
        Some _ \<Rightarrow> start_missing running start keys rt
      | None \<Rightarrow> (case start key rt of
                  (Inl e, rt') \<Rightarrow> (Inl e, rt')
                | (Inr _, rt') \<Rightarrow> start_missing running start keys rt'))"
  by (simp_all add: start_missing_def start_one_def sbind_def split: option.splits sum.splits prod.splits)

text \<open>A later map holds every entry of an earlier one.\<close>

definition extends :: "('k, 'v) gomap \<Rightarrow> ('k, 'v) gomap \<Rightarrow> bool" where
  "extends m m' \<longleftrightarrow> (\<forall>k v. gm_get m k = Some v \<longrightarrow> gm_get m' k = Some v)"

lemma extends_refl [simp]: "extends m m"
  by (simp add: extends_def)

lemma extends_put: "extends (gm_put key v m) m' \<Longrightarrow> gm_get m key = None \<Longrightarrow> extends m m'"
  unfolding extends_def by (metis gm_get_put option.distinct(1))

section \<open>The interface of a registry\<close>

text \<open>
  \<open>good\<close> says for which keys a successful start stores the listener under the very key it was asked
  for.
\<close>

locale listener_registry =
  fixes running :: "'l ServerRuntime \<Rightarrow> 'l listeners"
    and update :: "('l listeners \<Rightarrow> 'l listeners) \<Rightarrow> 'l ServerRuntime \<Rightarrow> 'l ServerRuntime"
    and start :: "ListenerKey \<Rightarrow> ('l ServerRuntime, 'a) op"
    and good :: "ListenerKey \<Rightarrow> bool"
  assumes running_update: "running (update f rt) = f (running rt)"
    and update_update: "update f (update g rt) = update (\<lambda>m. f (g m)) rt"
    and update_cong: "f (running rt) = g (running rt) \<Longrightarrow> update f rt = update g rt"
    and update_id: "update (\<lambda>m. m) rt = rt"
    and start_stores: "start key rt = (Inr a, rt') \<Longrightarrow> good key \<Longrightarrow> \<exists>v. rt' = update (\<lambda>_. gm_put key v (running rt)) rt"
    and start_Inl: "start key rt = (Inl e, rt') \<Longrightarrow> rt' = rt"
begin

lemma update_same: "f (running rt) = running rt \<Longrightarrow> update f rt = rt"
  using update_cong [of f rt "\<lambda>m. m"] update_id by simp

lemma start_Inr: "start key rt = (Inr a, rt') \<Longrightarrow> good key \<Longrightarrow> \<exists>v. rt' = update (gm_put key v) rt"
  using start_stores update_cong by metis

text \<open>Whatever the result, a listener that was running is still running.\<close>

lemma start_keeps:
  assumes "start_missing running start keys rt = (r, rt')" and "\<forall>key \<in> set keys. good key"
  shows "\<exists>f. rt' = update f rt \<and> extends (running rt) (f (running rt))"
  using assms
proof (induction keys arbitrary: rt)
  case Nil
  then show ?case using update_same [of "\<lambda>m. m" rt] by (auto simp: start_missing_eqs intro!: exI [of _ "\<lambda>m. m"])
next
  case (Cons key keys)
  show ?case
  proof (cases "gm_get (running rt) key")
    case (Some v)
    with Cons.prems have "start_missing running start keys rt = (r, rt')"
      by (simp add: start_missing_eqs)
    with Cons show ?thesis by simp
  next
    case None
    obtain s rt1 where s: "start key rt = (s, rt1)" by fastforce
    show ?thesis
    proof (cases s)
      case (Inl e)
      with s None Cons.prems have "rt' = rt"
        using start_Inl [of key rt e rt1] by (auto simp: start_missing_eqs)
      then show ?thesis using update_same [of "\<lambda>m. m" rt] by (auto intro!: exI [of _ "\<lambda>m. m"])
    next
      case (Inr a)
      with s Cons.prems(2) obtain v where rt1: "rt1 = update (gm_put key v) rt" using start_Inr by fastforce
      from s Inr None Cons.prems have "start_missing running start keys rt1 = (r, rt')"
        by (simp add: start_missing_eqs)
      with Cons.IH [of rt1] Cons.prems(2) obtain f where rt': "rt' = update f rt1"
        and kept: "extends (running rt1) (f (running rt1))" by auto
      have "extends (running rt) (f (gm_put key v (running rt)))"
        using kept None by (auto simp: rt1 running_update intro: extends_put)
      then show ?thesis by (intro exI [of _ "\<lambda>m. f (gm_put key v m)"]) (simp add: rt' rt1 update_update)
    qed
  qed
qed

lemma start_runs:
  assumes "start_missing running start keys rt = (Inr u, rt')" and "\<forall>key \<in> set keys. good key"
  shows "\<exists>f. rt' = update f rt \<and> extends (running rt) (f (running rt)) \<and>
    (\<forall>k. gm_get (f (running rt)) k \<noteq> None \<longleftrightarrow> gm_get (running rt) k \<noteq> None \<or> k \<in> set keys)"
  using assms
proof (induction keys arbitrary: rt)
  case Nil
  then show ?case using update_same [of "\<lambda>m. m" rt] by (auto simp: start_missing_eqs intro!: exI [of _ "\<lambda>m. m"])
next
  case (Cons key keys)
  show ?case
  proof (cases "gm_get (running rt) key")
    case (Some v)
    with Cons.prems have "start_missing running start keys rt = (Inr u, rt')"
      by (simp add: start_missing_eqs)
    with Cons.IH [of rt] Cons.prems(2) obtain f where rt': "rt' = update f rt"
      and old: "extends (running rt) (f (running rt))"
      and new: "\<forall>k. gm_get (f (running rt)) k \<noteq> None \<longleftrightarrow> gm_get (running rt) k \<noteq> None \<or> k \<in> set keys" by auto
    have "\<forall>k. gm_get (f (running rt)) k \<noteq> None \<longleftrightarrow> gm_get (running rt) k \<noteq> None \<or> k \<in> set (key # keys)"
      using new Some by auto
    with rt' old show ?thesis by (intro exI [of _ f] conjI) assumption+
  next
    case None
    from Cons.prems(1) None obtain a rt1 where s: "start key rt = (Inr a, rt1)"
      and rest: "start_missing running start keys rt1 = (Inr u, rt')"
      by (auto simp: start_missing_eqs split: sum.splits prod.splits)
    from s Cons.prems(2) obtain v where rt1: "rt1 = update (gm_put key v) rt" using start_Inr by fastforce
    from rest Cons.IH [of rt1] Cons.prems(2) obtain f where rt': "rt' = update f rt1"
      and old: "extends (running rt1) (f (running rt1))"
      and new: "\<forall>k. gm_get (f (running rt1)) k \<noteq> None \<longleftrightarrow> gm_get (running rt1) k \<noteq> None \<or> k \<in> set keys" by auto
    let ?f = "\<lambda>m. f (gm_put key v m)"
    have "rt' = update ?f rt" by (simp add: rt' rt1 update_update)
    moreover have "extends (running rt) (?f (running rt))"
      using old None by (auto simp: rt1 running_update intro: extends_put)
    moreover have "\<forall>k. gm_get (?f (running rt)) k \<noteq> None \<longleftrightarrow> gm_get (running rt) k \<noteq> None \<or> k \<in> set (key # keys)"
      using new by (auto simp: rt1 running_update)
    ultimately show ?thesis by blast
  qed
qed

lemma stop_one_step:
  assumes "stop_one env name running update desired key rt = (Inr u, rt')"
  shows "\<exists>f. rt' = update f rt \<and>
    (\<forall>k. gm_get (f (running rt)) k = (if k = key \<and> gm_get desired k = None then None else gm_get (running rt) k))"
proof (cases "gm_get desired key \<noteq> None \<or> gm_get (running rt) key = None")
  case True
  with assms have "rt' = rt" by (auto simp: stop_one_def split: if_splits)
  then show ?thesis using True update_same [of "\<lambda>m. m" rt] by (auto intro!: exI [of _ "\<lambda>m. m"])
next
  case False
  with assms have "rt' = update (gm_del key) rt"
    by (auto simp: stop_one_def split: if_splits option.splits sum.splits)
  with False show ?thesis by (intro exI [of _ "gm_del key"]) simp
qed

lemma stop_all:
  assumes "sfor (stop_one env name running update desired) keys rt = (Inr u, rt')"
  shows "\<exists>f. rt' = update f rt \<and>
    (\<forall>k. gm_get (f (running rt)) k = (if k \<in> set keys \<and> gm_get desired k = None then None else gm_get (running rt) k))"
  using assms
proof (induction keys arbitrary: rt)
  case Nil
  then show ?case using update_same [of "\<lambda>m. m" rt] by (auto intro!: exI [of _ "\<lambda>m. m"])
next
  case (Cons key keys)
  then obtain rt1 where s: "stop_one env name running update desired key rt = (Inr (), rt1)"
    and rest: "sfor (stop_one env name running update desired) keys rt1 = (Inr u, rt')"
    by (auto simp: sbind_eq_Inr)
  from stop_one_step [OF s] obtain f where f: "rt1 = update f rt"
    "\<forall>k. gm_get (f (running rt)) k = (if k = key \<and> gm_get desired k = None then None else gm_get (running rt) k)" by auto
  from Cons.IH [OF rest] obtain g where g: "rt' = update g rt1"
    "\<forall>k. gm_get (g (running rt1)) k = (if k \<in> set keys \<and> gm_get desired k = None then None else gm_get (running rt1) k)"
    by auto
  have "\<forall>k. gm_get (g (f (running rt))) k =
      (if k \<in> set (key # keys) \<and> gm_get desired k = None then None else gm_get (running rt) k)"
    using f g by (auto simp: running_update)
  then show ?case by (intro exI [of _ "\<lambda>m. g (f m)"]) (simp add: f(1) g(1) update_update)
qed

text \<open>The loop over the running keys leaves the desired ones.\<close>

lemma stop_extra_exact:
  assumes "stop_extra env name running update desired rt = (Inr u, rt')"
    and "set (ln_order env (gm_keys (running rt))) = set (gm_keys (running rt))"
  shows "\<exists>f. rt' = update f rt \<and>
    (\<forall>k. gm_get (f (running rt)) k = (if gm_get desired k = None then None else gm_get (running rt) k))"
proof -
  from assms(1) stop_all obtain f where f: "rt' = update f rt"
    "\<forall>k. gm_get (f (running rt)) k = (if k \<in> set (ln_order env (gm_keys (running rt))) \<and> gm_get desired k = None
       then None else gm_get (running rt) k)" unfolding stop_extra_def by blast
  have "gm_get (f (running rt)) k = (if gm_get desired k = None then None else gm_get (running rt) k)" for k
    using f(2) [rule_format, of k] assms(2) gm_keys_iff [of k "running rt"] by (auto split: if_splits)
  with f(1) show ?thesis by blast
qed

end

text \<open>A web listener that got the port it was asked for, or reports no port.\<close>

definition binds_as_asked :: "'l ListenerEnv \<Rightarrow> ListenerKey \<Rightarrow> bool" where
  "binds_as_asked env key \<longleftrightarrow>
     (\<forall>includeDefault l. ln_listen env key (listen_config key includeDefault) = Inr l \<longrightarrow>
        withActualPort (ln_addr env l) key = key)"

interpretation tcp: listener_registry rt_tcp rt_tcp_update "startTCPListener env" "\<lambda>_. True" for env
  by unfold_locales
    (auto simp: startTCPListener_def Let_def split: sum.splits)

interpretation udp: listener_registry rt_udp rt_udp_update "startUDPListener env" "\<lambda>_. True" for env
  by unfold_locales
    (auto simp: startUDPListener_def Let_def split: sum.splits)

interpretation http: listener_registry rt_http rt_http_update
    "\<lambda>key rt. startHTTPListener env (isDefaultHTTPKey rt key) key rt" "binds_as_asked env" for env
  by unfold_locales
    (auto simp: startHTTPListener_def Let_def binds_as_asked_def split: sum.splits)

interpretation https: listener_registry rt_https rt_https_update
    "\<lambda>key rt. startHTTPSListener env (isDefaultHTTPSKey rt key) key rt" "binds_as_asked env" for env
  by unfold_locales
    (auto simp: startHTTPSListener_def Let_def binds_as_asked_def split: sum.splits)

section \<open>What is desired\<close>

lemma count_key_get [simp]: "gm_get (count_key key m) k \<noteq> None \<longleftrightarrow> k = key \<or> gm_get m k \<noteq> None"
  by (simp add: count_key_def)

lemma each_desired_inv:
  assumes "each_desired f xs d = Inr d'"
    and "\<And>x d d'. x \<in> set xs \<Longrightarrow> f x d = Inr d' \<Longrightarrow> has d' \<longleftrightarrow> has d \<or> asks x"
  shows "has d' \<longleftrightarrow> has d \<or> (\<exists>x \<in> set xs. asks x)"
  using assms
proof (induction xs arbitrary: d)
  case (Cons x xs)
  then obtain d1 where "f x d = Inr d1" and rest: "each_desired f xs d1 = Inr d'" by (auto simp: rbind_eq_Inr)
  with Cons.prems(2) have "has d1 \<longleftrightarrow> has d \<or> asks x" by auto
  moreover have "has d' \<longleftrightarrow> has d1 \<or> (\<exists>y \<in> set xs. asks y)"
    using rest Cons.prems(2) by (intro Cons.IH) auto
  ultimately show ?case by auto
qed simp

definition asks_listener :: "ProxyEntryDefaults \<Rightarrow> string \<Rightarrow> ListenerKey \<Rightarrow> Proxy \<Rightarrow> bool" where
  "asks_listener defaults protocol key proxy \<longleftrightarrow>
     Proxy_Status proxy = ProxyEnabled \<and> \<not> proxyType_IsWeb (Proxy_Type proxy) \<and>
     (\<exists>entry. EffectiveProxyEntry proxy defaults = Some entry \<and> Entry_Protocol entry = protocol \<and> key = key_of_entry entry)"

definition asks_web_listener :: "DB \<Rightarrow> ProxyEntryDefaults \<Rightarrow> string \<Rightarrow> ListenerKey \<Rightarrow> DomainEntry \<Rightarrow> bool" where
  "asks_web_listener db defaults protocol key domainEntry \<longleftrightarrow>
     (\<exists>webDomain entry. domains_ByID db (DEnt_DomainID domainEntry) = Inr webDomain \<and> Dom_Status webDomain = DomainEnabled \<and>
        EffectiveDomainEntry domainEntry defaults = Some entry \<and> Entry_Protocol entry = protocol \<and> key = key_of_entry entry)"

lemma desire_proxy_has:
  assumes "desire_proxy rt proxy d = Inr d'"
  shows "gm_get (de_tcp d') k \<noteq> None \<longleftrightarrow> gm_get (de_tcp d) k \<noteq> None \<or> asks_listener (rt_defaults rt) ListenerProtocolTCP k proxy"
    and "gm_get (de_udp d') k \<noteq> None \<longleftrightarrow> gm_get (de_udp d) k \<noteq> None \<or> asks_listener (rt_defaults rt) ListenerProtocolUDP k proxy"
    and "gm_get (de_http d') k \<noteq> None \<longleftrightarrow> gm_get (de_http d) k \<noteq> None \<or> asks_listener (rt_defaults rt) ListenerProtocolHTTP k proxy"
    and "gm_get (de_https d') k \<noteq> None \<longleftrightarrow> gm_get (de_https d) k \<noteq> None \<or> asks_listener (rt_defaults rt) ListenerProtocolHTTPS k proxy"
  using assms
  by (auto simp: desire_proxy_def asks_listener_def key_of_entry_def Let_def count_key_def split: if_splits option.splits)

lemma desire_entry_has:
  assumes "desire_entry rt db e d = Inr d'"
  shows "de_tcp d' = de_tcp d" and "de_udp d' = de_udp d"
    and "gm_get (de_http d') k \<noteq> None \<longleftrightarrow> gm_get (de_http d) k \<noteq> None \<or> asks_web_listener db (rt_defaults rt) ListenerProtocolHTTP k e"
    and "gm_get (de_https d') k \<noteq> None \<longleftrightarrow> gm_get (de_https d) k \<noteq> None \<or> asks_web_listener db (rt_defaults rt) ListenerProtocolHTTPS k e"
  using assms
  by (auto simp: desire_entry_def asks_web_listener_def key_of_entry_def Let_def count_key_def split: if_splits option.splits sum.splits)

lemma asks_listener_web [simp]:
  "\<not> asks_listener defaults ListenerProtocolHTTP key p" "\<not> asks_listener defaults ListenerProtocolHTTPS key p"
  by (auto simp: asks_listener_def EffectiveProxyEntry_def proxyType_IsWeb_def Let_def split: if_splits)

lemma asks_port: "asks_web_listener db defaults protocol key e \<Longrightarrow> LK_Port key > 0"
  by (auto simp: asks_web_listener_def EffectiveDomainEntry_def key_of_entry_def Let_def split: if_splits)

lemma desired_has:
  assumes "desiredProxyListeners rt db = Inr d"
    and "\<And>p d d'. desire_proxy rt p d = Inr d' \<Longrightarrow> has d' \<longleftrightarrow> has d \<or> A p"
    and "\<And>e d d'. desire_entry rt db e d = Inr d' \<Longrightarrow> has d' \<longleftrightarrow> has d \<or> B e"
  shows "has d \<longleftrightarrow> has (default_desired rt) \<or> (\<exists>p \<in> set (db_proxies db). A p) \<or>
    (\<exists>e \<in> set (db_domain_entries db). DEnt_Status e = DomainEntryEnabled \<and> B e)"
proof -
  from assms(1) obtain d1 where p: "each_desired (desire_proxy rt) (proxies_List db) (default_desired rt) = Inr d1"
    and e: "each_desired (desire_entry rt db) (domainEntries_ListEnabled db) d1 = Inr d"
    by (auto simp: desiredProxyListeners_def rbind_eq_Inr)
  have "has d1 \<longleftrightarrow> has (default_desired rt) \<or> (\<exists>p \<in> set (proxies_List db). A p)"
    by (rule each_desired_inv [OF p]) (rule assms(2))
  moreover have "has d \<longleftrightarrow> has d1 \<or> (\<exists>e \<in> set (domainEntries_ListEnabled db). B e)"
    by (rule each_desired_inv [OF e]) (rule assms(3))
  ultimately show ?thesis by (auto simp: proxies_List_def domainEntries_ListEnabled_def)
qed

lemma desired_iff:
  assumes "desiredProxyListeners rt db = Inr d"
  shows "gm_get (de_tcp d) key \<noteq> None \<longleftrightarrow>
      (\<exists>p \<in> set (db_proxies db). asks_listener (rt_defaults rt) ListenerProtocolTCP key p)"
    and "gm_get (de_udp d) key \<noteq> None \<longleftrightarrow>
      (\<exists>p \<in> set (db_proxies db). asks_listener (rt_defaults rt) ListenerProtocolUDP key p)"
    and "gm_get (de_http d) key \<noteq> None \<longleftrightarrow> (key = rt_defaultHTTPKey rt \<and> LK_Port key > 0) \<or>
      (\<exists>e \<in> set (db_domain_entries db). DEnt_Status e = DomainEntryEnabled
         \<and> asks_web_listener db (rt_defaults rt) ListenerProtocolHTTP key e)"
    and "gm_get (de_https d) key \<noteq> None \<longleftrightarrow> (rt_httpsEntryEnabled rt \<and> key = rt_defaultHTTPSKey rt \<and> LK_Port key > 0) \<or>
      (\<exists>e \<in> set (db_domain_entries db). DEnt_Status e = DomainEntryEnabled
         \<and> asks_web_listener db (rt_defaults rt) ListenerProtocolHTTPS key e)"
proof -
  have "gm_get (de_tcp d) key \<noteq> None \<longleftrightarrow> gm_get (de_tcp (default_desired rt)) key \<noteq> None \<or>
      (\<exists>p \<in> set (db_proxies db). asks_listener (rt_defaults rt) ListenerProtocolTCP key p) \<or>
      (\<exists>e \<in> set (db_domain_entries db). DEnt_Status e = DomainEntryEnabled \<and> False)"
    by (rule desired_has [OF assms, where has = "\<lambda>d. gm_get (de_tcp d) key \<noteq> None"])
      (erule desire_proxy_has, simp add: desire_entry_has)
  then show "gm_get (de_tcp d) key \<noteq> None \<longleftrightarrow>
      (\<exists>p \<in> set (db_proxies db). asks_listener (rt_defaults rt) ListenerProtocolTCP key p)"
    by (auto simp: default_desired_def)
  have "gm_get (de_udp d) key \<noteq> None \<longleftrightarrow> gm_get (de_udp (default_desired rt)) key \<noteq> None \<or>
      (\<exists>p \<in> set (db_proxies db). asks_listener (rt_defaults rt) ListenerProtocolUDP key p) \<or>
      (\<exists>e \<in> set (db_domain_entries db). DEnt_Status e = DomainEntryEnabled \<and> False)"
    by (rule desired_has [OF assms, where has = "\<lambda>d. gm_get (de_udp d) key \<noteq> None"])
      (erule desire_proxy_has, simp add: desire_entry_has)
  then show "gm_get (de_udp d) key \<noteq> None \<longleftrightarrow>
      (\<exists>p \<in> set (db_proxies db). asks_listener (rt_defaults rt) ListenerProtocolUDP key p)"
    by (auto simp: default_desired_def)
  have "gm_get (de_http d) key \<noteq> None \<longleftrightarrow> gm_get (de_http (default_desired rt)) key \<noteq> None \<or>
      (\<exists>p \<in> set (db_proxies db). asks_listener (rt_defaults rt) ListenerProtocolHTTP key p) \<or>
      (\<exists>e \<in> set (db_domain_entries db). DEnt_Status e = DomainEntryEnabled \<and> asks_web_listener db (rt_defaults rt) ListenerProtocolHTTP key e)"
    by (rule desired_has [OF assms, where has = "\<lambda>d. gm_get (de_http d) key \<noteq> None"])
      (erule desire_proxy_has, erule desire_entry_has)
  then show "gm_get (de_http d) key \<noteq> None \<longleftrightarrow> (key = rt_defaultHTTPKey rt \<and> LK_Port key > 0) \<or>
      (\<exists>e \<in> set (db_domain_entries db). DEnt_Status e = DomainEntryEnabled
         \<and> asks_web_listener db (rt_defaults rt) ListenerProtocolHTTP key e)"
    by (auto simp: default_desired_def)
  have "gm_get (de_https d) key \<noteq> None \<longleftrightarrow> gm_get (de_https (default_desired rt)) key \<noteq> None \<or>
      (\<exists>p \<in> set (db_proxies db). asks_listener (rt_defaults rt) ListenerProtocolHTTPS key p) \<or>
      (\<exists>e \<in> set (db_domain_entries db). DEnt_Status e = DomainEntryEnabled \<and> asks_web_listener db (rt_defaults rt) ListenerProtocolHTTPS key e)"
    by (rule desired_has [OF assms, where has = "\<lambda>d. gm_get (de_https d) key \<noteq> None"])
      (erule desire_proxy_has, erule desire_entry_has)
  then show "gm_get (de_https d) key \<noteq> None \<longleftrightarrow> (rt_httpsEntryEnabled rt \<and> key = rt_defaultHTTPSKey rt \<and> LK_Port key > 0) \<or>
      (\<exists>e \<in> set (db_domain_entries db). DEnt_Status e = DomainEntryEnabled
         \<and> asks_web_listener db (rt_defaults rt) ListenerProtocolHTTPS key e)"
    by (auto simp: default_desired_def)
qed

lemma desired_web_port:
  assumes "desiredProxyListeners rt db = Inr d"
  shows "gm_get (de_http d) key \<noteq> None \<Longrightarrow> LK_Port key > 0"
    and "gm_get (de_https d) key \<noteq> None \<Longrightarrow> LK_Port key > 0"
  using desired_iff(3,4) [OF assms, of key] asks_port by auto

section \<open>Reconciling\<close>

text \<open>One registry: start what is missing, then stop what nobody asks for.\<close>

definition settled :: "(ListenerKey, int) gomap \<Rightarrow> 'l listeners \<Rightarrow> 'l listeners \<Rightarrow> bool" where
  "settled desired before after \<longleftrightarrow>
     (\<forall>key. gm_get after key \<noteq> None \<longleftrightarrow> gm_get desired key \<noteq> None) \<and>
     (\<forall>key v. gm_get before key = Some v \<longrightarrow> gm_get desired key \<noteq> None \<longrightarrow> gm_get after key = Some v)"

lemma settledI:
  assumes "extends before m" and "\<forall>k. gm_get m k \<noteq> None \<longleftrightarrow> gm_get before k \<noteq> None \<or> k \<in> set keys"
    and "\<forall>k. gm_get after k = (if gm_get desired k = None then None else gm_get m k)"
    and "set keys = set (gm_keys desired)"
  shows "settled desired before after"
proof -
  have "k \<in> set keys \<longleftrightarrow> gm_get desired k \<noteq> None" for k
    using assms(4) gm_keys_iff [of k desired] by simp
  with assms(1-3) show ?thesis unfolding settled_def extends_def by (auto split: if_splits)
qed

text \<open>What the environment promises: a loop over a map visits every key, and the port asked for is the one bound.\<close>

definition listeners_law :: "'l ListenerEnv \<Rightarrow> bool" where
  "listeners_law env \<longleftrightarrow>
     (\<forall>keys. set (ln_order env keys) = set keys) \<and> (\<forall>key. LK_Port key > 0 \<longrightarrow> binds_as_asked env key)"

lemma apply_desired_settles:
  assumes run: "apply_desired env d rt = (Inr u, rt')" and law: "listeners_law env"
    and ports: "\<forall>key. gm_get (de_http d) key \<noteq> None \<or> gm_get (de_https d) key \<noteq> None \<longrightarrow> LK_Port key > 0"
  shows "settled (de_tcp d) (rt_tcp rt) (rt_tcp rt') \<and> settled (de_udp d) (rt_udp rt) (rt_udp rt') \<and>
    settled (de_http d) (rt_http rt) (rt_http rt') \<and> settled (de_https d) (rt_https rt) (rt_https rt') \<and>
    rt_defaults rt' = rt_defaults rt \<and> rt_defaultHTTPKey rt' = rt_defaultHTTPKey rt \<and>
    rt_defaultHTTPSKey rt' = rt_defaultHTTPSKey rt \<and> rt_httpsEntryEnabled rt' = rt_httpsEntryEnabled rt"
proof -
  have order: "set (ln_order env keys) = set keys" for keys using law by (simp add: listeners_law_def)
  have good: "\<forall>key \<in> set (ln_order env (gm_keys (de_http d))). binds_as_asked env key"
    "\<forall>key \<in> set (ln_order env (gm_keys (de_https d))). binds_as_asked env key"
    using law ports by (auto simp: listeners_law_def gm_keys_iff)
  from run obtain r1 r2 r3 r4 r5 r6 r7 where
    steps: "start_missing rt_tcp (startTCPListener env) (ln_order env (gm_keys (de_tcp d))) rt = (Inr (), r1)"
      "start_missing rt_udp (startUDPListener env) (ln_order env (gm_keys (de_udp d))) r1 = (Inr (), r2)"
      "start_missing rt_http (\<lambda>key rt. startHTTPListener env (isDefaultHTTPKey rt key) key rt)
         (ln_order env (gm_keys (de_http d))) r2 = (Inr (), r3)"
      "start_missing rt_https (\<lambda>key rt. startHTTPSListener env (isDefaultHTTPSKey rt key) key rt)
         (ln_order env (gm_keys (de_https d))) r3 = (Inr (), r4)"
      "stop_extra env ''tcp'' rt_tcp rt_tcp_update (de_tcp d) r4 = (Inr (), r5)"
      "stop_extra env ''udp'' rt_udp rt_udp_update (de_udp d) r5 = (Inr (), r6)"
      "stop_extra env ''http'' rt_http rt_http_update (de_http d) r6 = (Inr (), r7)"
      "stop_extra env ''https'' rt_https rt_https_update (de_https d) r7 = (Inr u, rt')"
    unfolding apply_desired_def by (auto simp: sbind_eq_Inr)
  from tcp.start_runs [OF steps(1)] obtain f1 where f1: "r1 = rt_tcp_update f1 rt" "extends (rt_tcp rt) (f1 (rt_tcp rt))"
    "\<forall>k. gm_get (f1 (rt_tcp rt)) k \<noteq> None \<longleftrightarrow> gm_get (rt_tcp rt) k \<noteq> None \<or> k \<in> set (ln_order env (gm_keys (de_tcp d)))" by auto
  from udp.start_runs [OF steps(2)] obtain f2 where f2: "r2 = rt_udp_update f2 r1" "extends (rt_udp r1) (f2 (rt_udp r1))"
    "\<forall>k. gm_get (f2 (rt_udp r1)) k \<noteq> None \<longleftrightarrow> gm_get (rt_udp r1) k \<noteq> None \<or> k \<in> set (ln_order env (gm_keys (de_udp d)))" by auto
  from http.start_runs [OF steps(3) good(1)] obtain f3 where f3: "r3 = rt_http_update f3 r2" "extends (rt_http r2) (f3 (rt_http r2))"
    "\<forall>k. gm_get (f3 (rt_http r2)) k \<noteq> None \<longleftrightarrow> gm_get (rt_http r2) k \<noteq> None \<or> k \<in> set (ln_order env (gm_keys (de_http d)))" by auto
  from https.start_runs [OF steps(4) good(2)] obtain f4 where f4: "r4 = rt_https_update f4 r3" "extends (rt_https r3) (f4 (rt_https r3))"
    "\<forall>k. gm_get (f4 (rt_https r3)) k \<noteq> None \<longleftrightarrow> gm_get (rt_https r3) k \<noteq> None \<or> k \<in> set (ln_order env (gm_keys (de_https d)))" by auto
  from tcp.stop_extra_exact [OF steps(5) order] obtain g1 where g1: "r5 = rt_tcp_update g1 r4"
    "\<forall>k. gm_get (g1 (rt_tcp r4)) k = (if gm_get (de_tcp d) k = None then None else gm_get (rt_tcp r4) k)" by auto
  from udp.stop_extra_exact [OF steps(6) order] obtain g2 where g2: "r6 = rt_udp_update g2 r5"
    "\<forall>k. gm_get (g2 (rt_udp r5)) k = (if gm_get (de_udp d) k = None then None else gm_get (rt_udp r5) k)" by auto
  from http.stop_extra_exact [OF steps(7) order] obtain g3 where g3: "r7 = rt_http_update g3 r6"
    "\<forall>k. gm_get (g3 (rt_http r6)) k = (if gm_get (de_http d) k = None then None else gm_get (rt_http r6) k)" by auto
  from https.stop_extra_exact [OF steps(8) order] obtain g4 where g4: "rt' = rt_https_update g4 r7"
    "\<forall>k. gm_get (g4 (rt_https r7)) k = (if gm_get (de_https d) k = None then None else gm_get (rt_https r7) k)" by auto
  note eqs = f1(1) f2(1) f3(1) f4(1) g1(1) g2(1) g3(1) g4(1)
  have "settled (de_tcp d) (rt_tcp rt) (rt_tcp rt')"
    by (rule settledI [OF f1(2,3) _ order]) (use g1(2) in \<open>simp add: eqs\<close>)
  moreover have "settled (de_udp d) (rt_udp r1) (rt_udp rt')"
    by (rule settledI [OF f2(2,3) _ order]) (use g2(2) in \<open>simp add: eqs\<close>)
  moreover have "settled (de_http d) (rt_http r2) (rt_http rt')"
    by (rule settledI [OF f3(2,3) _ order]) (use g3(2) in \<open>simp add: eqs\<close>)
  moreover have "settled (de_https d) (rt_https r3) (rt_https rt')"
    by (rule settledI [OF f4(2,3) _ order]) (use g4(2) in \<open>simp add: eqs\<close>)
  ultimately show ?thesis by (simp add: eqs)
qed

lemma stop_never_fails:
  assumes "\<forall>l. ln_close env l = Inr ()"
  shows "stop_extra env name running update desired rt \<noteq> (Inl e, rt')"
proof -
  have "sfor (stop_one env name running update desired) keys rt \<noteq> (Inl e, rt')" for keys
    using assms by (induction keys arbitrary: rt)
      (auto simp: sbind_eq_Inl stop_one_def split: if_splits option.splits)
  then show ?thesis by (simp add: stop_extra_def)
qed

definition keeps_running :: "'l ServerRuntime \<Rightarrow> 'l ServerRuntime \<Rightarrow> bool" where
  "keeps_running rt rt' \<longleftrightarrow> extends (rt_tcp rt) (rt_tcp rt') \<and> extends (rt_udp rt) (rt_udp rt') \<and>
     extends (rt_http rt) (rt_http rt') \<and> extends (rt_https rt) (rt_https rt')"

lemma extends_trans: "extends a b \<Longrightarrow> extends b c \<Longrightarrow> extends a c"
  by (simp add: extends_def)

lemma keeps_running_trans: "keeps_running a b \<Longrightarrow> keeps_running b c \<Longrightarrow> keeps_running a c"
  unfolding keeps_running_def by (blast intro: extends_trans)

lemma starts_keep_running:
  assumes "\<forall>key \<in> set keys. binds_as_asked env key"
  shows "start_missing rt_tcp (startTCPListener env) keys rt = (r, rt') \<Longrightarrow> keeps_running rt rt'"
    and "start_missing rt_udp (startUDPListener env) keys rt = (r, rt') \<Longrightarrow> keeps_running rt rt'"
    and "start_missing rt_http (\<lambda>key rt. startHTTPListener env (isDefaultHTTPKey rt key) key rt) keys rt = (r, rt') \<Longrightarrow> keeps_running rt rt'"
    and "start_missing rt_https (\<lambda>key rt. startHTTPSListener env (isDefaultHTTPSKey rt key) key rt) keys rt = (r, rt') \<Longrightarrow> keeps_running rt rt'"
  using tcp.start_keeps [of env keys rt r rt'] udp.start_keeps [of env keys rt r rt']
    http.start_keeps [of env keys rt r rt'] https.start_keeps [of env keys rt r rt'] assms
  by (auto simp: keeps_running_def)

lemma reconcile_Inl_keeps:
  assumes run: "apply_desired env d rt = (Inl e, rt')" and law: "listeners_law env" and close: "\<forall>l. ln_close env l = Inr ()"
    and ports: "\<forall>key. gm_get (de_http d) key \<noteq> None \<or> gm_get (de_https d) key \<noteq> None \<longrightarrow> LK_Port key > 0"
  shows "keeps_running rt rt'"
proof -
  have order: "set (ln_order env keys) = set keys" for keys using law by (simp add: listeners_law_def)
  have "\<forall>key \<in> set (ln_order env (gm_keys (de_http d))). binds_as_asked env key"
    "\<forall>key \<in> set (ln_order env (gm_keys (de_https d))). binds_as_asked env key"
    using law ports by (auto simp: listeners_law_def gm_keys_iff)
  note web = starts_keep_running(3) [OF this(1)] starts_keep_running(4) [OF this(2)]
  have port: "start_missing rt_tcp (startTCPListener env) keys a = (r, b) \<Longrightarrow> keeps_running a b"
    "start_missing rt_udp (startUDPListener env) keys a = (r, b) \<Longrightarrow> keeps_running a b" for keys a b and r :: "unit result"
    using tcp.start_keeps [of env keys a r b] udp.start_keeps [of env keys a r b] by (auto simp: keeps_running_def)
  show ?thesis
    using run stop_never_fails [OF close] unfolding apply_desired_def
    by (auto simp: sbind_eq_Inl dest!: port web intro: keeps_running_trans)
qed

text \<open>
  C21: After a successful ReconcileProxyListeners the server listens exactly where the stored
  configuration asks it to: a TCP or UDP address is bound if and only if it is the effective entry
  (with the server's defaults filled in) of some enabled proxy of that type, and a web address if
  and only if it is the default listener or the entry of an enabled domain entry of an enabled
  domain. A listener that was running and is still asked for is the same listener: it was neither
  closed nor bound again. The hypothesis on the environment is that Go's loops over a map visit
  every key and that a socket bound to a port greater than 0 reports that port.
\<close>

theorem reconcile_serves_configuration:
  assumes "ReconcileProxyListeners env db rt = (Inr u, rt')" and "listeners_law env"
  shows "(gm_get (rt_tcp rt') key \<noteq> None \<longleftrightarrow>
        (\<exists>p \<in> set (db_proxies db). Proxy_Status p = ProxyEnabled \<and> Proxy_Type p = ProxyTCP \<and>
           map_option key_of_entry (EffectiveProxyEntry p (rt_defaults rt)) = Some key)) \<and>
     (gm_get (rt_udp rt') key \<noteq> None \<longleftrightarrow>
        (\<exists>p \<in> set (db_proxies db). Proxy_Status p = ProxyEnabled \<and> Proxy_Type p = ProxyUDP \<and>
           map_option key_of_entry (EffectiveProxyEntry p (rt_defaults rt)) = Some key)) \<and>
     (gm_get (rt_http rt') key \<noteq> None \<longleftrightarrow>
        key = rt_defaultHTTPKey rt \<and> LK_Port key > 0 \<or>
        (\<exists>e \<in> set (db_domain_entries db). DEnt_Status e = DomainEntryEnabled \<and> DEnt_Protocol e = DomainEntryHTTP \<and>
           (\<exists>d. domains_ByID db (DEnt_DomainID e) = Inr d \<and> Dom_Status d = DomainEnabled) \<and>
           map_option key_of_entry (EffectiveDomainEntry e (rt_defaults rt)) = Some key)) \<and>
     (gm_get (rt_https rt') key \<noteq> None \<longleftrightarrow>
        rt_httpsEntryEnabled rt \<and> key = rt_defaultHTTPSKey rt \<and> LK_Port key > 0 \<or>
        (\<exists>e \<in> set (db_domain_entries db). DEnt_Status e = DomainEntryEnabled \<and> DEnt_Protocol e = DomainEntryHTTPS \<and>
           (\<exists>d. domains_ByID db (DEnt_DomainID e) = Inr d \<and> Dom_Status d = DomainEnabled) \<and>
           map_option key_of_entry (EffectiveDomainEntry e (rt_defaults rt)) = Some key)) \<and>
     (\<forall>running \<in> {rt_tcp, rt_udp, rt_http, rt_https}. \<forall>l. gm_get (running rt) key = Some l \<longrightarrow>
        gm_get (running rt') key = Some l \<or> gm_get (running rt') key = None)"
proof -
  from assms(1) obtain d where d: "desiredProxyListeners rt db = Inr d" and run: "apply_desired env d rt = (Inr u, rt')"
    by (auto simp: ReconcileProxyListeners_def split: sum.splits)
  have "\<forall>key. gm_get (de_http d) key \<noteq> None \<or> gm_get (de_https d) key \<noteq> None \<longrightarrow> LK_Port key > 0"
    using desired_web_port [OF d] by blast
  note settled = apply_desired_settles [OF run assms(2) this]
  have tcp: "asks_listener (rt_defaults rt) ListenerProtocolTCP key p \<longleftrightarrow> Proxy_Status p = ProxyEnabled \<and>
      Proxy_Type p = ProxyTCP \<and> map_option key_of_entry (EffectiveProxyEntry p (rt_defaults rt)) = Some key" for p
    by (auto simp: asks_listener_def EffectiveProxyEntry_def proxyType_IsWeb_def Let_def split: if_splits)
  have udp: "asks_listener (rt_defaults rt) ListenerProtocolUDP key p \<longleftrightarrow> Proxy_Status p = ProxyEnabled \<and>
      Proxy_Type p = ProxyUDP \<and> map_option key_of_entry (EffectiveProxyEntry p (rt_defaults rt)) = Some key" for p
    by (auto simp: asks_listener_def EffectiveProxyEntry_def proxyType_IsWeb_def Let_def split: if_splits)
  have http: "asks_web_listener db (rt_defaults rt) ListenerProtocolHTTP key e \<longleftrightarrow> DEnt_Protocol e = DomainEntryHTTP \<and>
      (\<exists>d. domains_ByID db (DEnt_DomainID e) = Inr d \<and> Dom_Status d = DomainEnabled) \<and>
      map_option key_of_entry (EffectiveDomainEntry e (rt_defaults rt)) = Some key" for e
    by (auto simp: asks_web_listener_def EffectiveDomainEntry_def Let_def split: if_splits)
  have https: "asks_web_listener db (rt_defaults rt) ListenerProtocolHTTPS key e \<longleftrightarrow> DEnt_Protocol e = DomainEntryHTTPS \<and>
      (\<exists>d. domains_ByID db (DEnt_DomainID e) = Inr d \<and> Dom_Status d = DomainEnabled) \<and>
      map_option key_of_entry (EffectiveDomainEntry e (rt_defaults rt)) = Some key" for e
    by (auto simp: asks_web_listener_def EffectiveDomainEntry_def Let_def split: if_splits)
  note asks = desired_iff [OF d, of key, unfolded tcp udp http https]
  have runs: "(gm_get (running rt') key \<noteq> None) = (gm_get desired key \<noteq> None) \<and>
      (\<forall>l. gm_get (running rt) key = Some l \<longrightarrow> gm_get (running rt') key = Some l \<or> gm_get (running rt') key = None)"
    if "settled desired (running rt) (running rt')" for running and desired :: "(ListenerKey, int) gomap"
    using that unfolding settled_def by (metis option.exhaust)
  have four: "(gm_get (rt_tcp rt') key \<noteq> None) = (gm_get (de_tcp d) key \<noteq> None)"
    "(gm_get (rt_udp rt') key \<noteq> None) = (gm_get (de_udp d) key \<noteq> None)"
    "(gm_get (rt_http rt') key \<noteq> None) = (gm_get (de_http d) key \<noteq> None)"
    "(gm_get (rt_https rt') key \<noteq> None) = (gm_get (de_https d) key \<noteq> None)"
    using settled runs by blast+
  have "\<forall>l. gm_get (running rt) key = Some l \<longrightarrow> gm_get (running rt') key = Some l \<or> gm_get (running rt') key = None"
    if "running \<in> {rt_tcp, rt_udp, rt_http, rt_https}" for running
    using that settled runs by blast
  then show ?thesis unfolding four asks by (auto simp: conj_assoc)
qed

section \<open>A concrete configuration\<close>

definition sample_listener_env :: "int ListenerEnv" where
  "sample_listener_env = \<lparr>ln_listen = (\<lambda>key config. Inr (LK_Port key)), ln_close = (\<lambda>l. Inr ()), ln_addr = (\<lambda>l. None),
     ln_order = rev\<rparr>"

definition sample_runtime :: "int ServerRuntime" where
  "sample_runtime = \<lparr>
     rt_defaults = \<lparr>Def_TCPBindHost = ''127.0.0.1'', Def_HTTPBindHost = [], Def_HTTPPort = 80, Def_HTTPSBindHost = [], Def_HTTPSPort = 443\<rparr>,
     rt_httpsEntryEnabled = False,
     rt_defaultHTTPKey = zeroListenerKey, rt_defaultHTTPSKey = zeroListenerKey, rt_tcp = [], rt_udp = [], rt_http = [], rt_https = []\<rparr>"

definition sample_tcp_proxy :: "string \<Rightarrow> int \<Rightarrow> Proxy" where
  "sample_tcp_proxy i port = zeroProxy \<lparr>Proxy_ID := i, Proxy_Type := ProxyTCP, Proxy_Status := ProxyEnabled,
     Proxy_EntryPort := port\<rparr>"

definition listening_key :: "int \<Rightarrow> ListenerKey" where
  "listening_key port = \<lparr>LK_Protocol = ListenerProtocolTCP, LK_BindHost = ''127.0.0.1'', LK_Port = port\<rparr>"

definition one_proxy_db :: DB where
  "one_proxy_db = emptyDB \<lparr>db_proxies := [sample_tcp_proxy ''p'' 9000]\<rparr>"

definition two_proxies_db :: DB where
  "two_proxies_db = emptyDB \<lparr>db_proxies := [sample_tcp_proxy ''p'' 9000, sample_tcp_proxy ''q'' 9001]\<rparr>"

definition desired_for :: "int list \<Rightarrow> DesiredListeners" where
  "desired_for ports = \<lparr>de_tcp = map (\<lambda>p. (listening_key p, 1)) ports, de_udp = [], de_http = [], de_https = []\<rparr>"

definition running_on :: "int list \<Rightarrow> int ServerRuntime" where
  "running_on ports = sample_runtime \<lparr>
     rt_tcp := map (\<lambda>p. (listening_key p, listen_config (listening_key p) True, p)) ports\<rparr>"

lemma sample_listener_law: "listeners_law sample_listener_env"
  by (simp add: listeners_law_def binds_as_asked_def sample_listener_env_def withActualPort_def)

lemma sample_desired:
  "desiredProxyListeners sample_runtime one_proxy_db = Inr (desired_for [9000])"
  "desiredProxyListeners sample_runtime two_proxies_db = Inr (desired_for [9000, 9001])"
  by code_simp+

lemma sample_applied:
  "apply_desired sample_listener_env (desired_for [9000, 9001]) sample_runtime = (Inr (), running_on [9001, 9000])"
  "apply_desired sample_listener_env (desired_for [9000]) (running_on [9001, 9000]) = (Inr (), running_on [9000])"
  by code_simp+

theorem reconcile_serves_configuration_witness:
  "ReconcileProxyListeners sample_listener_env two_proxies_db sample_runtime = (Inr (), running_on [9001, 9000]) \<and>
   gm_get (rt_tcp (running_on [9001, 9000])) (listening_key 9001) \<noteq> None \<and>
   gm_get (rt_udp (running_on [9001, 9000])) (listening_key 9001) = None"
proof -
  have run: "ReconcileProxyListeners sample_listener_env two_proxies_db sample_runtime = (Inr (), running_on [9001, 9000])"
    by (simp add: ReconcileProxyListeners_def sample_desired sample_applied)
  have asked: "map_option key_of_entry (EffectiveProxyEntry (sample_tcp_proxy ''q'' 9001) (rt_defaults sample_runtime)) =
      Some (listening_key 9001)" by code_simp
  note exact = reconcile_serves_configuration [OF run sample_listener_law, of "listening_key 9001"]
  have "sample_tcp_proxy ''q'' 9001 \<in> set (db_proxies two_proxies_db)" "Proxy_Status (sample_tcp_proxy ''q'' 9001) = ProxyEnabled"
    "Proxy_Type (sample_tcp_proxy ''q'' 9001) = ProxyTCP" and tcp: "\<forall>p \<in> set (db_proxies two_proxies_db). Proxy_Type p \<noteq> ProxyUDP"
    by (simp_all add: two_proxies_db_def sample_tcp_proxy_def)
  then have "gm_get (rt_tcp (running_on [9001, 9000])) (listening_key 9001) \<noteq> None"
    using asked by (intro conjunct1 [OF exact, THEN iffD2] bexI [of _ "sample_tcp_proxy ''q'' 9001"] conjI)
  moreover have "gm_get (rt_udp (running_on [9001, 9000])) (listening_key 9001) = None"
    using conjunct1 [OF conjunct2 [OF exact]] tcp by blast
  ultimately show ?thesis using run by (intro conjI)
qed

text \<open>
  The store is read before the lock is taken. A reconcile that read the older configuration and
  gets the lock last undoes the newer one: the listener of the proxy \<open>q\<close>, which is stored and
  enabled and whose reconcile succeeded, is closed again.
\<close>

lemma stale_reconcile_undoes_newer:
  "\<exists>old new rt1 rt2.
     desiredProxyListeners sample_runtime one_proxy_db = Inr old \<and>
     desiredProxyListeners sample_runtime two_proxies_db = Inr new \<and>
     apply_desired sample_listener_env new sample_runtime = (Inr (), rt1) \<and>
     gm_get (rt_tcp rt1) (listening_key 9001) \<noteq> None \<and>
     apply_desired sample_listener_env old rt1 = (Inr (), rt2) \<and>
     gm_get (rt_tcp rt2) (listening_key 9001) = None"
proof -
  have up: "gm_get (rt_tcp (running_on [9001, 9000])) (listening_key 9001) \<noteq> None" by code_simp
  have down: "gm_get (rt_tcp (running_on [9000])) (listening_key 9001) = None" by code_simp
  show ?thesis
    by (rule exI, rule exI, rule exI, rule exI, rule conjI [OF sample_desired(1)], rule conjI [OF sample_desired(2)],
        rule conjI [OF sample_applied(1)], rule conjI [OF up], rule conjI [OF sample_applied(2)], rule down)
qed

end
