(* ===== verification/LocalProxy.thy ===== *)
theory LocalProxy
  imports AccessStore NetIP
begin

text \<open>
  The target policy of server-local proxies (internal/localproxy): the allowlist as normalised
  prefixes with port ranges, its replacement through the repository, the check of a target and the
  dialer that applies it. The policy's atomic pointer is its snapshot; None is the nil pointer.
\<close>

abbreviation ErrTargetDenied :: error where "ErrTargetDenied \<equiv> Sentinel ''local target is not allowed''"

record normalizedEntry =
  ne_value :: AllowlistEntry
  ne_prefix :: Prefix

section \<open>Normalisation\<close>

definition parsePrefix :: "string \<Rightarrow> Prefix result" where
  "parsePrefix s =
     (let value = trim_space s in
      case ParseAddr value of
        Some a \<Rightarrow> (let address = addr_Unmap a in Inr (PrefixFrom address (nat (addr_BitLen address))))
      | None \<Rightarrow>
          (case ParsePrefix value of
             None \<Rightarrow> Inl (New ''CIDR must be an IP address or prefix'')
           | Some prefix \<Rightarrow>
               (let address = addr_Unmap (pfx_addr prefix);
                    bits = int (pfx_bits prefix) -
                      (if addr_Is4 address \<and> addr_Is4In6 (pfx_addr prefix) then 96 else 0)
                in if bits < 0 \<or> bits > addr_BitLen address
                   then Inl (New ''CIDR prefix length is invalid'')
                   else Inr (prefix_Masked (PrefixFrom address (nat bits))))))"

definition valid_ports :: "AllowlistEntry \<Rightarrow> bool" where
  "valid_ports e \<longleftrightarrow>
     (Allow_PortStart e = 0 \<and> Allow_PortEnd e = 0) \<or>
     \<not> (Allow_PortStart e \<le> 0 \<or> Allow_PortStart e > 65535 \<or> Allow_PortEnd e \<le> 0 \<or> Allow_PortEnd e > 65535
        \<or> Allow_PortStart e > Allow_PortEnd e)"

definition entry_dedup_key :: "AllowlistEntry \<Rightarrow> string" where
  "entry_dedup_key v = Allow_CIDR v @ '':'' @ itoa (Allow_PortStart v) @ '':'' @ itoa (Allow_PortEnd v)"

text \<open>The format \<open>%05d\<close>.\<close>

definition pad5 :: "int \<Rightarrow> string" where
  "pad5 n = (let s = itoa n in replicate (5 - length s) CHR ''0'' @ s)"

definition entry_sort_key :: "normalizedEntry \<Rightarrow> string" where
  "entry_sort_key e =
     Allow_CIDR (ne_value e) @ '':'' @ pad5 (Allow_PortStart (ne_value e)) @ '':'' @ pad5 (Allow_PortEnd (ne_value e))"

definition normal_value :: "Prefix \<Rightarrow> AllowlistEntry \<Rightarrow> AllowlistEntry" where
  "normal_value prefix entry =
     \<lparr>Allow_CIDR = prefix_String prefix, Allow_PortStart = Allow_PortStart entry, Allow_PortEnd = Allow_PortEnd entry\<rparr>"

fun normalize_loop :: "string list \<Rightarrow> AllowlistEntry list \<Rightarrow> normalizedEntry list result" where
  "normalize_loop seen [] = Inr []"
| "normalize_loop seen (entry # rest) =
     (case parsePrefix (Allow_CIDR entry) of
        Inl e \<Rightarrow> Inl (Wrapf ''allowlist entry'' e)
      | Inr prefix \<Rightarrow>
          (if \<not> valid_ports entry then Inl (New ''allowlist entry: invalid port range'')
           else if entry_dedup_key (normal_value prefix entry) \<in> set seen then normalize_loop seen rest
           else rbind (normalize_loop (entry_dedup_key (normal_value prefix entry) # seen) rest) (\<lambda>result.
                  Inr (\<lparr>ne_value = normal_value prefix entry, ne_prefix = prefix\<rparr> # result))))"

definition normalizeEntries :: "AllowlistEntry list \<Rightarrow> normalizedEntry list result" where
  "normalizeEntries entries =
     (if entries = [] then Inl (New ''allowlist must contain at least one entry'')
      else rbind (normalize_loop [] entries) (\<lambda>result. Inr (sort_key entry_sort_key result)))"

section \<open>The policy\<close>

type_synonym policySnapshot = "normalizedEntry list option"

definition target_match :: "Addr \<Rightarrow> int \<Rightarrow> normalizedEntry \<Rightarrow> bool" where
  "target_match address port entry \<longleftrightarrow>
     prefix_Contains (ne_prefix entry) address \<and>
     (Allow_PortStart (ne_value entry) = 0 \<or>
      (port \<ge> Allow_PortStart (ne_value entry) \<and> port \<le> Allow_PortEnd (ne_value entry)))"

definition policy_ValidateTarget :: "policySnapshot \<Rightarrow> string \<Rightarrow> int \<Rightarrow> unit result" where
  "policy_ValidateTarget snapshot host port =
     (case snapshot of
        None \<Rightarrow> Inl (Wrapf ''policy is unavailable'' ErrTargetDenied)
      | Some entries \<Rightarrow>
          (case ParseAddr (trim_space host) of
             None \<Rightarrow> Inl (Wrapf ''host must be an IP address'' ErrTargetDenied)
           | Some a \<Rightarrow>
               (let address = addr_Unmap a in
                if port \<le> 0 \<or> port > 65535 then Inl (Wrapf ''port is invalid'' ErrTargetDenied)
                else if list_ex (target_match address port) entries then Inr ()
                else Inl (Wrapf ''target does not match the allowlist'' ErrTargetDenied))))"

definition policy_Snapshot :: "policySnapshot \<Rightarrow> AllowlistEntry list" where
  "policy_Snapshot snapshot = (case snapshot of None \<Rightarrow> [] | Some current \<Rightarrow> map ne_value current)"

text \<open>LoadPolicy and Replace over the two methods of AllowlistRepository.\<close>

definition LoadPolicy :: "('st \<Rightarrow> AllowlistEntry list) \<Rightarrow> 'st \<Rightarrow> policySnapshot result" where
  "LoadPolicy list_entries st =
     (case normalizeEntries (list_entries st) of
        Inl e \<Rightarrow> Inl (Wrapf ''load local target allowlist'' e)
      | Inr normalized \<Rightarrow> Inr (Some normalized))"

definition policy_Replace ::
    "(AllowlistEntry list \<Rightarrow> ('st, unit) op) \<Rightarrow> AllowlistEntry list \<Rightarrow> ('st \<times> policySnapshot, unit) op" where
  "policy_Replace replace input s =
     (case s of (st, snapshot) \<Rightarrow>
        (case normalizeEntries input of
           Inl e \<Rightarrow> (Inl e, (st, snapshot))
         | Inr normalized \<Rightarrow>
             (case replace (map ne_value normalized) st of
                (Inl e, st') \<Rightarrow> (Inl e, (st', snapshot))
              | (Inr u, st') \<Rightarrow> (Inr (), (st', Some normalized)))))"

definition dialer_DialContext ::
    "policySnapshot \<Rightarrow> (string \<Rightarrow> 'conn result) \<Rightarrow> string \<Rightarrow> 'conn result" where
  "dialer_DialContext policy dial address =
     (case SplitHostPort address of
        None \<Rightarrow> Inl (New ''split host port'')
      | Some (host, rawPort) \<Rightarrow>
          (case atoi rawPort of
             None \<Rightarrow> Inl (New ''strconv.Atoi'')
           | Some port \<Rightarrow> rbind (policy_ValidateTarget policy host port) (\<lambda>_. dial address)))"

section \<open>Lemmas\<close>

definition made_from :: "normalizedEntry \<Rightarrow> AllowlistEntry \<Rightarrow> bool" where
  "made_from n e \<longleftrightarrow> parsePrefix (Allow_CIDR e) = Inr (ne_prefix n) \<and> valid_ports e \<and>
     ne_value n = normal_value (ne_prefix n) e"

lemma normalize_loop_ConsE:
  assumes "normalize_loop seen (e # es) = Inr ns"
  obtains (dup) "normalize_loop seen es = Inr ns"
  | (new) n rest where "normalize_loop (entry_dedup_key (ne_value n) # seen) es = Inr rest" and "ns = n # rest"
      and "made_from n e" and "entry_dedup_key (ne_value n) \<notin> set seen"
proof -
  from assms obtain p where p: "parsePrefix (Allow_CIDR e) = Inr p" "valid_ports e"
    by (auto split: sum.splits if_splits)
  let ?n = "\<lparr>ne_value = normal_value p e, ne_prefix = p\<rparr>"
  show thesis
  proof (cases "entry_dedup_key (normal_value p e) \<in> set seen")
    case True
    with p assms dup show thesis by simp
  next
    case False
    with p assms obtain rest where "normalize_loop (entry_dedup_key (ne_value ?n) # seen) es = Inr rest" "ns = ?n # rest"
      by (auto simp: rbind_eq_Inr)
    moreover have "made_from ?n e" using p by (simp add: made_from_def)
    ultimately show thesis using new [of ?n rest] False by simp
  qed
qed

lemma normalize_loop_sound: "normalize_loop seen es = Inr ns \<Longrightarrow> n \<in> set ns \<Longrightarrow> \<exists>e \<in> set es. made_from n e"
proof (induction es arbitrary: seen ns)
  case (Cons e es)
  from Cons.prems(1) show ?case
  proof (cases rule: normalize_loop_ConsE)
    case dup
    from Cons.IH [OF dup Cons.prems(2)] show ?thesis by auto
  next
    case (new m rest)
    with Cons.prems(2) Cons.IH [OF new(1)] show ?thesis by auto
  qed
qed simp

lemma normalize_loop_keys:
  "normalize_loop seen es = Inr ns \<Longrightarrow>
   distinct (map (\<lambda>n. entry_dedup_key (ne_value n)) ns) \<and>
   (\<forall>n \<in> set ns. entry_dedup_key (ne_value n) \<notin> set seen)"
proof (induction es arbitrary: seen ns)
  case (Cons e es)
  from Cons.prems show ?case
  proof (cases rule: normalize_loop_ConsE)
    case dup
    from Cons.IH [OF dup] show ?thesis .
  next
    case (new m rest)
    with Cons.IH [OF new(1)] show ?thesis by auto
  qed
qed simp

lemma normalizeEntries_Inr:
  assumes "normalizeEntries es = Inr ns"
  obtains xs where "es \<noteq> []" and "normalize_loop [] es = Inr xs" and "ns = sort_key entry_sort_key xs"
  using assms by (auto simp: normalizeEntries_def rbind_eq_Inr split: if_splits)

lemma normalizeEntries_sound:
  assumes "normalizeEntries es = Inr ns" and "n \<in> set ns"
  shows "\<exists>e \<in> set es. made_from n e"
  using assms(1)
proof (rule normalizeEntries_Inr)
  fix xs assume xs: "normalize_loop [] es = Inr xs" and "ns = sort_key entry_sort_key xs"
  with assms(2) have "n \<in> set xs" by simp
  with xs show ?thesis by (rule normalize_loop_sound)
qed

lemma normalizeEntries_storable:
  assumes "normalizeEntries es = Inr ns"
  shows "ns \<noteq> [] \<and> (\<forall>n \<in> set ns. allowlist_check (ne_value n)) \<and> distinct (map ne_value ns)"
proof -
  from assms obtain xs where es: "es \<noteq> []" and xs: "normalize_loop [] es = Inr xs" and ns: "ns = sort_key entry_sort_key xs"
    by (rule normalizeEntries_Inr)
  have "xs \<noteq> []" using es xs by (cases es) (auto simp: rbind_eq_Inr split: sum.splits if_splits)
  then have "ns \<noteq> []" using ns by (metis length_0_conv length_sort)
  moreover have "\<forall>n \<in> set xs. allowlist_check (ne_value n)"
    using normalize_loop_sound [OF xs] by (fastforce simp: made_from_def normal_value_def valid_ports_def allowlist_check_def)
  moreover have "distinct (map ne_value xs)"
    using normalize_loop_keys [OF xs] by (auto simp: distinct_map inj_on_def)
  then have "distinct (map ne_value ns)" using ns by (metis distinct_map distinct_sort set_sort)
  ultimately show ?thesis using ns by simp
qed

section \<open>The interface AllowlistRepository\<close>

locale allowlist_repository =
  fixes list_entries :: "'st \<Rightarrow> AllowlistEntry list"
    and replace :: "AllowlistEntry list \<Rightarrow> ('st, unit) op"
  assumes replace_error: "replace es st = (Inl e, st') \<Longrightarrow> st' = st"
    and replace_list: "replace es st = (Inr u, st') \<Longrightarrow> set (list_entries st') = set es"
    and replace_accepts: "es \<noteq> [] \<Longrightarrow> \<forall>e \<in> set es. allowlist_check e \<Longrightarrow> distinct es \<Longrightarrow>
          \<exists>st'. replace es st = (Inr (), st')"
begin

text \<open>A replacement is published exactly when it is persisted, and fails only on bad input.\<close>

lemma replace_publishes:
  assumes "policy_Replace replace input (st, snapshot) = (r, (st', snapshot'))"
  shows "case r of
      Inl e \<Rightarrow> st' = st \<and> snapshot' = snapshot \<and> normalizeEntries input = Inl e
    | Inr _ \<Rightarrow> set (policy_Snapshot snapshot') = set (list_entries st') \<and>
               (\<exists>ns. normalizeEntries input = Inr ns \<and> snapshot' = Some ns)"
proof (cases "normalizeEntries input")
  case (Inl e)
  with assms show ?thesis by (auto simp: policy_Replace_def)
next
  case (Inr ns)
  from normalizeEntries_storable [OF Inr] replace_accepts [of "map ne_value ns" st]
  obtain st1 where s: "replace (map ne_value ns) st = (Inr (), st1)" by auto
  from replace_list [OF s] have "set (list_entries st1) = ne_value ` set ns" by simp
  with Inr s assms show ?thesis by (auto simp: policy_Replace_def policy_Snapshot_def)
qed

end

lemma insert_allowlist_all:
  "distinct es \<Longrightarrow> \<forall>e \<in> set es. allowlist_check e \<Longrightarrow> set es \<inter> set (db_allowlist db) = {} \<Longrightarrow>
   sfor insert_allowlist es db = (Inr (), db \<lparr>db_allowlist := db_allowlist db @ es\<rparr>)"
proof (induction es arbitrary: db)
  case (Cons e es)
  then have "insert_allowlist e db = (Inr (), db \<lparr>db_allowlist := db_allowlist db @ [e]\<rparr>)"
    by (simp add: insert_allowlist_def sql_checked_def)
  with Cons show ?case by (auto simp: sbind_Inr)
qed simp

lemma insert_allowlist_set:
  "sfor insert_allowlist es db = (Inr u, db') \<Longrightarrow> set (db_allowlist db') = set (db_allowlist db) \<union> set es"
proof (induction es arbitrary: db)
  case (Cons e es)
  then show ?case by (auto simp: sbind_eq_Inr insert_allowlist_def sql_checked_def split: if_splits)
qed simp

interpretation allow: allowlist_repository allowlist_List allowlist_Replace
proof unfold_locales
  fix es :: "AllowlistEntry list" and db db' :: DB and e
  assume "allowlist_Replace es db = (Inl e, db')"
  then show "db' = db" by (auto simp: allowlist_Replace_def split: if_splits)
next
  fix es :: "AllowlistEntry list" and db db' :: DB and u
  assume "allowlist_Replace es db = (Inr u, db')"
  then show "set (allowlist_List db') = set es"
    by (auto simp: allowlist_Replace_def allowlist_List_def dest!: insert_allowlist_set split: if_splits)
next
  fix es :: "AllowlistEntry list" and db :: DB
  assume "es \<noteq> []" and "\<forall>e \<in> set es. allowlist_check e" and "distinct es"
  then show "\<exists>db'. allowlist_Replace es db = (Inr (), db')"
    by (simp add: allowlist_Replace_def insert_allowlist_all)
qed

section \<open>Properties\<close>


definition net_entry :: AllowlistEntry where
  "net_entry = \<lparr>Allow_CIDR = ''10.1.2.3/8'', Allow_PortStart = 80, Allow_PortEnd = 90\<rparr>"


text \<open>
  C18: the server-local dialer reaches a target only through the allowlist. When the policy holds
  what normalizeEntries makes of the entries and dialing is attempted at all, the host is an IP
  address, the port is in range, and some entry covers the address (an IPv4-mapped one as IPv4)
  and the port.
\<close>

theorem dial_only_allowed_targets:
  assumes "normalizeEntries entries = Inr ns" and "dialer_DialContext (Some ns) dial address = Inr conn"
  shows "dial address = Inr conn \<and>
    (\<exists>host rawPort port a e prefix.
       SplitHostPort address = Some (host, rawPort) \<and> atoi rawPort = Some port \<and> 0 < port \<and> port \<le> 65535 \<and>
       ParseAddr (trim_space host) = Some a \<and> e \<in> set entries \<and> parsePrefix (Allow_CIDR e) = Inr prefix \<and>
       prefix_Contains prefix (addr_Unmap a) \<and>
       (Allow_PortStart e = 0 \<or> Allow_PortStart e \<le> port \<and> port \<le> Allow_PortEnd e))"
proof -
  from assms(2) obtain host rawPort port a n where
    "SplitHostPort address = Some (host, rawPort)" "atoi rawPort = Some port" "0 < port" "port \<le> 65535"
    "ParseAddr (trim_space host) = Some a" and n: "n \<in> set ns" "target_match (addr_Unmap a) port n"
    and "dial address = Inr conn"
    by (auto simp: dialer_DialContext_def policy_ValidateTarget_def rbind_eq_Inr Let_def list_ex_iff
        split: option.splits if_splits)
  with normalizeEntries_sound [OF assms(1) n(1)] show ?thesis by (fastforce simp: target_match_def made_from_def normal_value_def)
qed

lemma dial_only_allowed_targets_witness:
  "case normalizeEntries [net_entry] of
     Inl e \<Rightarrow> False
   | Inr ns \<Rightarrow> dialer_DialContext (Some ns) (\<lambda>a. Inr a) ''10.9.9.9:80'' = Inr ''10.9.9.9:80'' \<and>
       (\<exists>e \<in> {net_entry}. Allow_PortStart e \<le> 80 \<and> 80 \<le> Allow_PortEnd e) \<and>
       dialer_DialContext (Some ns) (\<lambda>a. Inr a) ''10.9.9.9:91'' \<noteq> Inr ''10.9.9.9:91''"
proof -
  obtain ns where ns: "normalizeEntries [net_entry] = Inr ns"
    and d: "dialer_DialContext (Some ns) (\<lambda>a. Inr a) ''10.9.9.9:80'' = Inr ''10.9.9.9:80''"
    and n: "dialer_DialContext (Some ns) (\<lambda>a. Inr a) ''10.9.9.9:91'' \<noteq> Inr ''10.9.9.9:91''"
  proof
    let ?ns = "[\<lparr>ne_value = \<lparr>Allow_CIDR = ''10.0.0.0/8'', Allow_PortStart = 80, Allow_PortEnd = 90\<rparr>,
        ne_prefix = \<lparr>pfx_addr = Addr4 167772160, pfx_bits = 8\<rparr>\<rparr>]"
    show "normalizeEntries [net_entry] = Inr ?ns" by code_simp
    show "dialer_DialContext (Some ?ns) (\<lambda>a. Inr a) ''10.9.9.9:80'' = Inr ''10.9.9.9:80''" by code_simp
    show "dialer_DialContext (Some ?ns) (\<lambda>a. Inr a) ''10.9.9.9:91'' \<noteq> Inr ''10.9.9.9:91''" by code_simp
  qed
  have "SplitHostPort ''10.9.9.9:80'' = Some (''10.9.9.9'', ''80'')" and "atoi ''80'' = Some 80" by code_simp+
  with dial_only_allowed_targets [OF ns d] have "\<exists>e \<in> {net_entry}. Allow_PortStart e = 0 \<or> Allow_PortStart e \<le> 80 \<and> 80 \<le> Allow_PortEnd e"
    by auto
  then show ?thesis using ns d n by (simp add: net_entry_def)
qed

end
