(* ===== verification/HttpMessages.thy ===== *)
theory HttpMessages
  imports TlsHello NetIP
begin

text \<open>
  What the web entries use of HTTP messages: cookies as net/http reads them, removeCookie and the
  body limit of internal/proxy/https/entry.go, the WebSocket upgrade test of
  internal/proxy/tunnel/tunnel.go, the streaming test, and the small address helpers of the two
  entries. A header field that occurs several times is the list of its values.
\<close>

section \<open>Cookies\<close>

text \<open>textproto.TrimString and strings.Cut.\<close>

definition ascii_space :: "char \<Rightarrow> bool" where
  "ascii_space c \<longleftrightarrow> c = CHR '' '' \<or> c = CHR 0x09 \<or> c = CHR 0x0A \<or> c = CHR 0x0D"

definition trim_left :: "string \<Rightarrow> string" where
  "trim_left s = dropWhile ascii_space s"

definition trim_right :: "string \<Rightarrow> string" where
  "trim_right s = rev (dropWhile ascii_space (rev s))"

definition TrimString :: "string \<Rightarrow> string" where
  "TrimString s = trim_right (trim_left s)"

definition cut_at :: "char \<Rightarrow> string \<Rightarrow> string \<times> string" where
  "cut_at c s = (takeWhile (\<lambda>x. x \<noteq> c) s, drop 1 (dropWhile (\<lambda>x. x \<noteq> c) s))"

text \<open>The token characters of RFC 9110 5.6.2.\<close>

definition is_alnum :: "char \<Rightarrow> bool" where
  "is_alnum c \<longleftrightarrow> (let n = of_char c :: int in 48 \<le> n \<and> n \<le> 57 \<or> 65 \<le> n \<and> n \<le> 90 \<or> 97 \<le> n \<and> n \<le> 122)"

definition is_tchar :: "char \<Rightarrow> bool" where
  "is_tchar c \<longleftrightarrow> is_alnum c \<or> c \<in> set (CHR 0x27 # CHR 0x60 # ''!#$%&*+-.^_|~'')"

definition isToken :: "string \<Rightarrow> bool" where
  "isToken s \<longleftrightarrow> s \<noteq> [] \<and> list_all is_tchar s"

definition validCookieValueByte :: "char \<Rightarrow> bool" where
  "validCookieValueByte c \<longleftrightarrow> (let n = of_char c :: int in 32 \<le> n \<and> n < 127 \<and> n \<noteq> 34 \<and> n \<noteq> 59 \<and> n \<noteq> 92)"

definition parseCookieValue :: "string \<Rightarrow> string option" where
  "parseCookieValue raw =
     (let v = (if 1 < length raw \<and> hd raw = CHR 0x22 \<and> last raw = CHR 0x22 then butlast (tl raw) else raw)
      in if list_all validCookieValueByte v then Some v else None)"

type_synonym cookie = "string \<times> string"

definition parse_cookie_part :: "string \<Rightarrow> cookie option" where
  "parse_cookie_part p =
     (let part = TrimString p in
      if part = [] then None
      else (let (n, v) = cut_at CHR ''='' part; name = TrimString n in
            if \<not> isToken name then None
            else map_option (Pair name) (parseCookieValue v)))"

definition readCookies :: "string list \<Rightarrow> cookie list" where
  "readCookies header =
     concat (map (\<lambda>line. List.map_filter parse_cookie_part (split_on CHR '';'' (TrimString line))) header)"

text \<open>\<open>request.Cookie(name)\<close>: the first cookie of that name.\<close>

definition request_Cookie :: "string list \<Rightarrow> string \<Rightarrow> cookie option" where
  "request_Cookie header name =
     (if name = [] then None else List.find (\<lambda>c. fst c = name) (readCookies header))"

fun join_with :: "string \<Rightarrow> string list \<Rightarrow> string" where
  "join_with sep [] = []"
| "join_with sep [x] = x"
| "join_with sep (x # y # xs) = x @ sep @ join_with sep (y # xs)"

definition cookie_text :: "cookie \<Rightarrow> string" where
  "cookie_text c = fst c @ ''='' @ snd c"

definition removeCookie :: "string list \<Rightarrow> string \<Rightarrow> string list" where
  "removeCookie header name =
     (let values = map cookie_text (filter (\<lambda>c. fst c \<noteq> name) (readCookies header))
      in if values = [] then [] else [join_with ''; '' values])"

subsection \<open>The rewritten header is read back without the removed cookie\<close>

lemma tchar_plain: "is_tchar c \<Longrightarrow> \<not> ascii_space c \<and> c \<noteq> CHR ''='' \<and> c \<noteq> CHR '';''"
  by (auto simp: is_tchar_def ascii_space_def is_alnum_def Let_def)

lemma trim_left_id: "s = [] \<or> \<not> ascii_space (hd s) \<Longrightarrow> trim_left s = s"
  by (cases s) (auto simp: trim_left_def)

lemma trim_right_snoc: "trim_right (s @ [c]) = (if ascii_space c then trim_right s else s @ [c])"
  by (simp add: trim_right_def)

lemma trim_right_Nil [simp]: "trim_right [] = []"
  by (simp add: trim_right_def)

lemma trim_right_append: "trim_right b \<noteq> [] \<Longrightarrow> trim_right (a @ b) = a @ trim_right b"
proof (induction b rule: rev_induct)
  case (snoc c b)
  have "trim_right (a @ b @ [c]) = trim_right ((a @ b) @ [c])" by simp
  with snoc show ?case by (simp only: trim_right_snoc) (simp split: if_splits)
qed simp

lemma trim_right_tok: "\<not> ascii_space c \<Longrightarrow> trim_right (a @ c # b) = a @ c # trim_right b"
proof (induction b rule: rev_induct)
  case Nil
  then show ?case using trim_right_snoc [of a c] trim_right_Nil by simp
next
  case (snoc d b)
  have e: "a @ c # b @ [d] = (a @ c # b) @ [d]" by simp
  from snoc show ?case unfolding e trim_right_snoc by (simp add: trim_right_snoc)
qed

lemma set_trim_right: "set (trim_right s) \<subseteq> set s"
  by (induction s rule: rev_induct) (auto simp: trim_right_snoc)

lemma trim_right_idem [simp]: "trim_right (trim_right s) = trim_right s"
  by (induction s rule: rev_induct) (auto simp: trim_right_snoc)

text \<open>A cookie that can be sent: a token, and bytes a value may have.\<close>

definition cookie_ok :: "cookie \<Rightarrow> bool" where
  "cookie_ok c \<longleftrightarrow> isToken (fst c) \<and> list_all validCookieValueByte (snd c)"

lemma cookie_plain:
  assumes "cookie_ok c"
  shows "CHR '';'' \<notin> set (cookie_text c)" and "fst c \<noteq> []" and "\<not> ascii_space (hd (fst c))"
    and "CHR ''='' \<notin> set (fst c)" and "CHR 0x22 \<notin> set (snd c)" and "\<forall>x \<in> set (fst c). \<not> ascii_space x"
proof -
  have t: "\<forall>x \<in> set (fst c). \<not> ascii_space x \<and> x \<noteq> CHR ''='' \<and> x \<noteq> CHR '';''" and ne: "fst c \<noteq> []"
    using assms tchar_plain by (auto simp: cookie_ok_def isToken_def list_all_iff)
  have v: "\<forall>x \<in> set (snd c). x \<noteq> CHR 0x22 \<and> x \<noteq> CHR '';''"
    using assms by (auto simp: cookie_ok_def list_all_iff validCookieValueByte_def Let_def)
  show "CHR '';'' \<notin> set (cookie_text c)" using t v by (auto simp: cookie_text_def)
  show "fst c \<noteq> []" by (rule ne)
  show "\<not> ascii_space (hd (fst c))" using t ne by simp
  show "CHR ''='' \<notin> set (fst c)" using t by blast
  show "CHR 0x22 \<notin> set (snd c)" using v by blast
  show "\<forall>x \<in> set (fst c). \<not> ascii_space x" using t by blast
qed

lemma cut_at_append: "c \<notin> set a \<Longrightarrow> cut_at c (a @ c # b) = (a, b)"
  by (simp add: cut_at_def takeWhile_append2 dropWhile_append2 [symmetric] dropWhile_append)

lemma TrimString_cookie:
  assumes "cookie_ok c" and "list_all ascii_space pad"
  shows "TrimString (pad @ cookie_text c) = fst c @ ''='' @ trim_right (snd c)"
proof -
  have "trim_left (pad @ cookie_text c) = cookie_text c"
    using assms(2) cookie_plain(2,3) [OF assms(1)]
    by (cases "fst c") (auto simp: trim_left_def cookie_text_def dropWhile_append2 list_all_iff)
  moreover have "trim_right (cookie_text c) = fst c @ ''='' @ trim_right (snd c)"
    using trim_right_tok [of "CHR ''=''" "fst c" "snd c"] by (simp add: cookie_text_def ascii_space_def)
  ultimately show ?thesis by (simp add: TrimString_def)
qed

lemma TrimString_token: "\<forall>x \<in> set s. \<not> ascii_space x \<Longrightarrow> TrimString s = s"
  by (cases s rule: rev_cases) (auto simp: TrimString_def trim_left_id trim_right_snoc hd_append)

lemma parse_cookie_text:
  assumes ok: "cookie_ok c" and pad: "list_all ascii_space pad"
  shows "parse_cookie_part (pad @ cookie_text c) = Some (fst c, trim_right (snd c))"
proof -
  note p = cookie_plain [OF ok]
  have q: "CHR 0x22 \<notin> set (trim_right (snd c))" using p(5) set_trim_right by blast
  have "list_all validCookieValueByte (trim_right (snd c))"
    using ok set_trim_right by (fastforce simp: cookie_ok_def list_all_iff)
  moreover have "\<not> (1 < length (trim_right (snd c)) \<and> hd (trim_right (snd c)) = CHR 0x22 \<and> last (trim_right (snd c)) = CHR 0x22)"
    using q by (metis list.set_sel(1) list.size(3) not_one_less_zero)
  ultimately have v: "parseCookieValue (trim_right (snd c)) = Some (trim_right (snd c))"
    by (auto simp: parseCookieValue_def Let_def)
  show ?thesis
    using ok cut_at_append [OF p(4)] p(2) TrimString_token [OF p(6)] v
    by (simp add: parse_cookie_part_def TrimString_cookie [OF ok pad] cookie_ok_def)
qed

lemma split_on_cons: "c \<notin> set a \<Longrightarrow> split_on c (a @ c # b) = a # split_on c b"
  by (induction a) auto

lemma split_on_single: "c \<notin> set a \<Longrightarrow> split_on c a = [a]"
  by (induction a) auto

lemma join_not_blank: "list_all cookie_ok cs \<Longrightarrow> cs \<noteq> [] \<Longrightarrow> trim_right (pad @ join_with sep (map cookie_text cs)) \<noteq> []"
proof -
  assume ok: "list_all cookie_ok cs" and ne: "cs \<noteq> []"
  then obtain c ds where cs: "cs = c # ds" by (cases cs) auto
  then have "\<not> ascii_space (hd (fst c))" "fst c \<noteq> []" using ok cookie_plain(2,3) [of c] by auto
  then obtain x n where n: "fst c = x # n" "\<not> ascii_space x" by (cases "fst c") auto
  obtain r where "join_with sep (map cookie_text cs) = x # r"
    using n by (cases ds) (auto simp: cs cookie_text_def)
  then show ?thesis using trim_right_tok [OF n(2), of pad r] by simp
qed

lemma read_joined:
  "list_all cookie_ok cs \<Longrightarrow> cs \<noteq> [] \<Longrightarrow> list_all ascii_space pad \<Longrightarrow>
     List.map_filter parse_cookie_part (split_on CHR '';'' (trim_right (pad @ join_with ''; '' (map cookie_text cs)))) =
     map (\<lambda>c. (fst c, trim_right (snd c))) cs"
proof (induction cs arbitrary: pad)
  case (Cons c ds)
  then have ok: "cookie_ok c" by simp
  have semi: "CHR '';'' \<notin> set pad" using Cons.prems(3) by (auto simp: list_all_iff ascii_space_def)
  show ?case
  proof (cases ds)
    case Nil
    have "trim_right (pad @ cookie_text c) = pad @ cookie_text (fst c, trim_right (snd c))"
      using trim_right_tok [of "CHR ''=''" "pad @ fst c" "snd c"] by (simp add: cookie_text_def ascii_space_def)
    moreover have ok': "cookie_ok (fst c, trim_right (snd c))"
      using ok set_trim_right by (fastforce simp: cookie_ok_def list_all_iff)
    ultimately show ?thesis
      using parse_cookie_text [OF ok' Cons.prems(3)] cookie_plain(1) [OF ok'] semi
      by (simp add: Nil split_on_single map_filter_simps)
  next
    case (Cons d es)
    define rest where "rest = join_with ''; '' (map cookie_text ds)"
    have ne: "ds \<noteq> []" and okd: "list_all cookie_ok ds" using Cons Cons.prems by auto
    have "trim_right (pad @ join_with ''; '' (map cookie_text (c # ds))) =
        (pad @ cookie_text c) @ CHR '';'' # trim_right ('' '' @ rest)"
      using trim_right_append [of "'' '' @ rest" "pad @ cookie_text c @ '';''"]
        join_not_blank [OF okd ne, of "'' ''" "''; ''"]
      by (simp add: Cons rest_def)
    then have "List.map_filter parse_cookie_part (split_on CHR '';'' (trim_right (pad @ join_with ''; '' (map cookie_text (c # ds))))) =
       (fst c, trim_right (snd c)) # List.map_filter parse_cookie_part (split_on CHR '';'' (trim_right ('' '' @ rest)))"
      using parse_cookie_text [OF ok Cons.prems(3)] cookie_plain(1) [OF ok] semi
        split_on_cons [of "CHR '';''" "pad @ cookie_text c" "trim_right ('' '' @ rest)"]
      by (simp add: map_filter_simps)
    also have "List.map_filter parse_cookie_part (split_on CHR '';'' (trim_right ('' '' @ rest))) =
       map (\<lambda>c. (fst c, trim_right (snd c))) ds"
      unfolding rest_def by (rule Cons.IH [OF okd ne]) (simp add: ascii_space_def)
    finally show ?thesis by simp
  qed
qed simp

lemma parse_cookie_ok: "parse_cookie_part p = Some c \<Longrightarrow> cookie_ok c"
  by (auto simp: parse_cookie_part_def Let_def cookie_ok_def parseCookieValue_def split: if_splits prod.splits)

lemma readCookies_ok: "list_all cookie_ok (readCookies h)"
  by (auto simp: readCookies_def list_all_iff map_filter_def parse_cookie_ok)

lemma readCookies_removeCookie:
  "readCookies (removeCookie h name) =
     map (\<lambda>c. (fst c, trim_right (snd c))) (filter (\<lambda>c. fst c \<noteq> name) (readCookies h))"
proof -
  define cs where "cs = filter (\<lambda>c. fst c \<noteq> name) (readCookies h)"
  have ok: "list_all cookie_ok cs" using readCookies_ok [of h] by (auto simp: cs_def list_all_iff)
  show ?thesis
  proof (cases cs)
    case (Cons c ds)
    then have ne: "cs \<noteq> []" by simp
    from ok Cons have okc: "cookie_ok c" by simp
    have "trim_left (join_with ''; '' (map cookie_text cs)) = join_with ''; '' (map cookie_text cs)"
      using cookie_plain(2,3) [OF okc] by (cases ds; cases "fst c") (auto simp: Cons trim_left_def cookie_text_def)
    with read_joined [OF ok ne, of "[]"] ne show ?thesis
      by (simp add: removeCookie_def Let_def cs_def [symmetric] readCookies_def [of "[_]"] TrimString_def)
  qed (simp add: removeCookie_def Let_def cs_def [symmetric] readCookies_def [of "[]"])
qed

section \<open>Header tests\<close>

text \<open>
  IsWebSocketUpgrade gets the first Upgrade value (Header.Get, empty when missing) and all
  Connection values.
\<close>

definition IsWebSocketUpgrade :: "string list \<Rightarrow> string list \<Rightarrow> bool" where
  "IsWebSocketUpgrade upgrade connection \<longleftrightarrow>
     equal_fold (case upgrade of [] \<Rightarrow> [] | u # _ \<Rightarrow> u) ''websocket'' \<and>
     list_ex (\<lambda>value. list_ex (\<lambda>token. equal_fold (trim_space token) ''upgrade'') (split_on CHR '','' value)) connection"

record Response =
  Rsp_StatusCode :: int
  Rsp_ContentType :: string
  Rsp_ContentLength :: int
  Rsp_TransferEncoding :: "string list"
  Rsp_TransferEncodingHeader :: string

definition isChunkedResponse :: "Response option \<Rightarrow> bool" where
  "isChunkedResponse response =
     (case response of
        None \<Rightarrow> False
      | Some r \<Rightarrow> list_ex (\<lambda>value. equal_fold value ''chunked'') (Rsp_TransferEncoding r) \<or>
                  equal_fold (Rsp_TransferEncodingHeader r) ''chunked'')"

definition isStreamingHTTPResponse :: "Response option \<Rightarrow> bool" where
  "isStreamingHTTPResponse response =
     (case response of
        None \<Rightarrow> False
      | Some r \<Rightarrow> (if contains_sub (to_lower (Rsp_ContentType r)) ''text/event-stream'' then True
                   else Rsp_ContentLength r < 0 \<and> isChunkedResponse response))"

section \<open>Addresses\<close>

definition hostWithoutPort :: "string \<Rightarrow> string" where
  "hostWithoutPort host =
     (if contains_sub host '':'' then (case SplitHostPort host of Some (value, _) \<Rightarrow> value | None \<Rightarrow> host) else host)"

definition remoteIP :: "string \<Rightarrow> string" where
  "remoteIP address = (case SplitHostPort address of Some (host, _) \<Rightarrow> host | None \<Rightarrow> address)"

section \<open>Bodies\<close>

text \<open>
  An io.Reader is the chunks it has yet to deliver; a Read with a buffer of \<open>n\<close> bytes gets at most
  \<open>n\<close> bytes of the next chunk, possibly none, and an end-of-file once there are no more.
\<close>

type_synonym source = "byte list list"

abbreviation EOF :: error where "EOF \<equiv> Sentinel ''EOF''"
abbreviation errHTTPBodyTooLarge :: error where "errHTTPBodyTooLarge \<equiv> Sentinel ''http body too large''"
abbreviation maxHTTPBodyBytes :: int where "maxHTTPBodyBytes \<equiv> 33554432"

fun source_Read :: "int \<Rightarrow> source \<Rightarrow> (byte list \<times> error option) \<times> source" where
  "source_Read n [] = (([], Some EOF), [])"
| "source_Read n (c # cs) =
     (if blen c \<le> n then ((c, None), cs) else ((take (nat n) c, None), drop (nat n) c # cs))"

record maxBytesReadCloser =
  mb_reader :: source
  mb_remaining :: int

definition maxBytes_Read :: "int \<Rightarrow> maxBytesReadCloser \<Rightarrow> (byte list \<times> error option) \<times> maxBytesReadCloser" where
  "maxBytes_Read n reader =
     (if n = 0 then (([], None), reader)
      else if mb_remaining reader \<le> 0 then
        (case source_Read 1 (mb_reader reader) of
           ((probe, err), src) \<Rightarrow>
             ((if probe \<noteq> [] then ([], Some errHTTPBodyTooLarge) else ([], err)), reader \<lparr>mb_reader := src\<rparr>))
      else
        (let n = (if n > mb_remaining reader then mb_remaining reader else n) in
         case source_Read n (mb_reader reader) of
           ((p, err), src) \<Rightarrow>
             ((p, err), reader \<lparr>mb_reader := src, mb_remaining := mb_remaining reader - blen p\<rparr>)))"

text \<open>A caller that reads with the given buffer sizes until an error, and what it has then.\<close>

fun read_with :: "(int \<Rightarrow> 'r \<Rightarrow> (byte list \<times> error option) \<times> 'r) \<Rightarrow> int list \<Rightarrow> 'r \<Rightarrow> byte list \<times> error option" where
  "read_with rd [] r = ([], None)"
| "read_with rd (n # ns) r =
     (case rd n r of
        ((p, Some e), r') \<Rightarrow> (p, Some e)
      | ((p, None), r') \<Rightarrow> (let (q, e) = read_with rd ns r' in (p @ q, e)))"

text \<open>prefixedConn.Read: the replayed prefix first, then the connection.\<close>

record prefixedConn =
  pc_prefix :: "byte list"
  pc_conn :: source

definition prefixed_Read :: "int \<Rightarrow> prefixedConn \<Rightarrow> (byte list \<times> error option) \<times> prefixedConn" where
  "prefixed_Read n conn =
     (if pc_prefix conn \<noteq> [] then
        ((take (nat n) (pc_prefix conn), None), conn \<lparr>pc_prefix := drop (nat n) (pc_prefix conn)\<rparr>)
      else (case source_Read n (pc_conn conn) of (r, src) \<Rightarrow> (r, conn \<lparr>pc_conn := src\<rparr>)))"

text \<open>How many reads of the source are surely enough.\<close>

definition weight :: "source \<Rightarrow> nat" where
  "weight src = length src + length (concat src)"

lemma source_Read_cases:
  assumes "1 \<le> n"
  shows "case source_Read n src of
      ((p, Some e), src') \<Rightarrow> src = [] \<and> src' = [] \<and> p = [] \<and> e = EOF
    | ((p, None), src') \<Rightarrow> concat src = p @ concat src' \<and> blen p \<le> n \<and> weight src' < weight src"
  using assms by (cases src) (auto simp: blen_def weight_def min_def)

lemma read_limited:
  "list_all (\<lambda>n. 1 \<le> n) ns \<Longrightarrow> 0 \<le> l \<Longrightarrow> weight src < length ns \<Longrightarrow>
     read_with maxBytes_Read ns \<lparr>mb_reader = src, mb_remaining = l\<rparr> =
       (if blen (concat src) \<le> l then (concat src, Some EOF)
        else (take (nat l) (concat src), Some errHTTPBodyTooLarge))"
proof (induction ns arbitrary: src l)
  case (Cons n ns)
  then have n: "1 \<le> n" and ns: "list_all (\<lambda>n. 1 \<le> n) ns" by auto
  show ?case
  proof (cases "l \<le> 0")
    case True
    with Cons.prems have l: "l = 0" by simp
    show ?thesis
    proof (cases src)
      case Nil
      with n l show ?thesis by (simp add: maxBytes_Read_def blen_def)
    next
      case (Cons c cs)
      show ?thesis
      proof (cases c)
        case Nil
        have w: "weight cs < length ns" using Cons.prems(3) by (simp add: Cons Nil weight_def)
        have "maxBytes_Read n \<lparr>mb_reader = src, mb_remaining = l\<rparr> = (([], None), \<lparr>mb_reader = cs, mb_remaining = 0\<rparr>)"
          using n by (simp add: maxBytes_Read_def l Cons Nil blen_def)
        then show ?thesis using Cons.IH [OF ns _ w, of 0] by (simp add: l Cons Nil)
      next
        case b: (Cons b bs)
        have "fst (maxBytes_Read n \<lparr>mb_reader = src, mb_remaining = l\<rparr>) = ([], Some errHTTPBodyTooLarge)"
          using n by (auto simp: maxBytes_Read_def l Cons b blen_def)
        then obtain r where "maxBytes_Read n \<lparr>mb_reader = src, mb_remaining = l\<rparr> = (([], Some errHTTPBodyTooLarge), r)"
          by (metis prod.collapse)
        then show ?thesis by (simp add: l Cons b blen_def)
      qed
    qed
  next
    case False
    define k where "k = (if n > l then l else n)"
    have k: "1 \<le> k" "k \<le> l" using False n by (auto simp: k_def)
    obtain p e src' where r: "source_Read k src = ((p, e), src')" by (metis prod.exhaust)
    have m: "maxBytes_Read n \<lparr>mb_reader = src, mb_remaining = l\<rparr> = ((p, e), \<lparr>mb_reader = src', mb_remaining = l - blen p\<rparr>)"
      using False n r by (auto simp: maxBytes_Read_def k_def Let_def split: if_splits)
    show ?thesis
    proof (cases e)
      case (Some x)
      with source_Read_cases [OF k(1), of src] r have "src = []" "p = []" "x = EOF" by auto
      with Some m Cons.prems(2) show ?thesis by (simp add: blen_def)
    next
      case None
      with source_Read_cases [OF k(1), of src] r
      have c: "concat src = p @ concat src'" "blen p \<le> k" "weight src' < weight src" by auto
      then have w: "weight src' < length ns" and l': "0 \<le> l - blen p" using Cons.prems(3) k by auto
      have "nat l = length p + nat (l - blen p)" using l' by (simp add: blen_def)
      then show ?thesis
        using Cons.IH [OF ns l' w] m c None by (auto simp: blen_def)
    qed
  qed
qed simp

lemma read_prefixed:
  "list_all (\<lambda>n. 1 \<le> n) ns \<Longrightarrow> length p + weight src < length ns \<Longrightarrow>
     read_with prefixed_Read ns \<lparr>pc_prefix = p, pc_conn = src\<rparr> = (p @ concat src, Some EOF)"
proof (induction ns arbitrary: p src)
  case (Cons n ns)
  then have n: "1 \<le> n" and ns: "list_all (\<lambda>n. 1 \<le> n) ns" by auto
  show ?case
  proof (cases "p = []")
    case True
    obtain q e src' where r: "source_Read n src = ((q, e), src')" by (metis prod.exhaust)
    have m: "prefixed_Read n \<lparr>pc_prefix = p, pc_conn = src\<rparr> = ((q, e), \<lparr>pc_prefix = [], pc_conn = src'\<rparr>)"
      by (simp add: prefixed_Read_def True r)
    show ?thesis
    proof (cases e)
      case (Some x)
      with source_Read_cases [OF n, of src] r m True show ?thesis by auto
    next
      case None
      with source_Read_cases [OF n, of src] r
      have c: "concat src = q @ concat src'" "weight src' < weight src" by auto
      then have "length ([] :: byte list) + weight src' < length ns" using Cons.prems(2) True by simp
      from Cons.IH [OF ns this] m c None True show ?thesis by simp
    qed
  next
    case False
    have m: "prefixed_Read n \<lparr>pc_prefix = p, pc_conn = src\<rparr> =
        ((take (nat n) p, None), \<lparr>pc_prefix = drop (nat n) p, pc_conn = src\<rparr>)"
      using False by (simp add: prefixed_Read_def)
    have "length (drop (nat n) p) + weight src < length ns"
      using Cons.prems(2) n False by (cases p) auto
    from Cons.IH [OF ns this] m show ?thesis by simp
  qed
qed simp

section \<open>Properties\<close>

text \<open>
  The request body limit. Whatever chunks the body arrives in and whatever (positive) buffer
  sizes the forwarding code reads it with, it gets the whole body and an end-of-file when the body
  has at most the remaining number of bytes, and otherwise exactly that many bytes and then the
  error that becomes status 413; a reader of enough reads always gets to one of the two.
\<close>

lemma request_body_limit:
  assumes "list_all (\<lambda>n. 1 \<le> n) sizes" and "length chunks + length (concat chunks) < length sizes"
  shows "read_with maxBytes_Read sizes \<lparr>mb_reader = chunks, mb_remaining = maxHTTPBodyBytes\<rparr> =
     (if blen (concat chunks) \<le> maxHTTPBodyBytes then (concat chunks, Some EOF)
      else (take (nat maxHTTPBodyBytes) (concat chunks), Some errHTTPBodyTooLarge))"
  using read_limited [OF assms(1), of maxHTTPBodyBytes chunks] assms(2) by (simp add: weight_def)

lemma request_body_limit_witness:
  "read_with maxBytes_Read [1, 4, 2, 1, 1, 9, 9, 9, 9]
     \<lparr>mb_reader = [[1, 2], [], [3, 4, 5]], mb_remaining = maxHTTPBodyBytes\<rparr> = ([1, 2, 3, 4, 5], Some EOF)"
  using request_body_limit [of "[1, 4, 2, 1, 1, 9, 9, 9, 9]" "[[1, 2], [], [3, 4, 5]]"] by (simp add: blen_def)

text \<open>
  C27: reading the server name ahead of the handshake never panics and is invisible to TLS.
  Whatever the client sends, the reader returns an error or a name; and the TLS server, which then
  reads the prefixed connection with any buffer sizes while the rest arrives in any chunks, gets
  exactly the bytes the client sent.
\<close>

theorem tls_sees_every_byte:
  assumes "list_all (\<lambda>n. 1 \<le> n) sizes" and "length sent + length chunks < length sizes"
  shows "case readClientHello sent of
      None \<Rightarrow> False
    | Some (Inl e) \<Rightarrow> True
    | Some (Inr (prefix, serverName, rest)) \<Rightarrow>
        concat chunks = rest \<longrightarrow>
        read_with prefixed_Read sizes \<lparr>pc_prefix = prefix, pc_conn = chunks\<rparr> = (sent, Some EOF)"
proof (cases "readClientHello sent")
  case None
  then show ?thesis using readClientHello_keeps_input [of sent] by simp
next
  case (Some r)
  show ?thesis
  proof (cases r)
    case (Inr a)
    obtain prefix name rest where a: "a = (prefix, name, rest)" by (cases a)
    with Some Inr have sent: "prefix @ rest = sent" using readClientHello_keeps_input [of sent] by simp
    then have "length prefix + weight chunks < length sizes" if "concat chunks = rest"
      using that assms(2) by (auto simp: weight_def)
    from read_prefixed [OF assms(1) this] sent show ?thesis by (simp add: Some Inr a)
  qed (simp add: Some)
qed

definition hello_bytes :: "byte list" where
  "hello_bytes = encode_record (encode_hello sample_hello)"

lemma tls_sees_every_byte_witness:
  "case readClientHello (hello_bytes @ [7, 8]) of
     None \<Rightarrow> False
   | Some (Inl e) \<Rightarrow> True
   | Some (Inr (prefix, serverName, rest)) \<Rightarrow>
       concat [[7 :: byte], [], [8]] = rest \<longrightarrow>
       read_with prefixed_Read (replicate (length (hello_bytes @ [7, 8]) + 4) 5) \<lparr>pc_prefix = prefix, pc_conn = [[7], [], [8]]\<rparr> =
         (hello_bytes @ [7, 8], Some EOF)"
proof -
  have 1: "list_all (\<lambda>n. 1 \<le> n) (replicate (length (hello_bytes @ [7, 8]) + 4) (5 :: int))"
    by (simp add: list_all_iff)
  have 2: "length (hello_bytes @ [7, 8]) + length [[7 :: byte], [], [8]] <
      length (replicate (length (hello_bytes @ [7, 8]) + 4) (5 :: int))" by simp
  show ?thesis by (rule tls_sees_every_byte [OF 1 2])
qed

end
