(* ===== verification/WebEntry.thy ===== *)
theory WebEntry
  imports HttpMessages Protocol Routing Listener Session Stats
begin

text \<open>
  The web entries: a connection of internal/proxy/https/entry.go from its first byte to the
  response, with the access gate and the activation page, and a request of
  internal/proxy/http/entry.go. What the world answers (clock, random values, the client's stream,
  the target's response) is a record of replies, given to the handler; what the handler does to
  the world is the list of its effects, in order. The database is the state.
\<close>

record Request =
  Req_Method :: string
  Req_Host :: string
  Req_Path :: string
  Req_RawPath :: string
  Req_RequestURI :: string
  Req_ContentLength :: int
  Req_Cookie :: "string list"
  Req_Upgrade :: "string list"
  Req_Connection :: "string list"

text \<open>
  The replies: two readings of the clock, hashAccessValue (the hexadecimal SHA-256), the results of
  newAccessSecret, newAccessID and the connection id, of opening the client's stream, of writing
  the stream request and the HTTP request on it, and of reading the response; for the HTTP entry
  also the hijacking of the connection and the byte counts of the copies.
\<close>

record Env =
  env_now :: time
  env_later :: time
  env_sha :: "string \<Rightarrow> string"
  env_secret :: string
  env_accessID :: string
  env_connectionID :: "string result"
  env_open :: "int \<Rightarrow> unit result"
  env_write_open :: "OpenStream \<Rightarrow> unit result"
  env_write_request :: "Request \<Rightarrow> unit result"
  env_read_response :: "Response result"
  env_hijack :: "unit result"
  env_body_read :: int
  env_tunnel :: "int \<times> int"
  env_copied :: "int \<times> error option"

datatype effect =
    Reply int string
  | AccessReply int string "(string \<times> string) list"
  | Redirect string int
  | Open int
  | SendOpen OpenStream
  | SendRequest Request
  | Relay Response
  | Tunnel Response

definition line :: "string \<Rightarrow> string" where
  "line s = s @ [CHR 0x0A]"

text \<open>The fields of an entry that its handlers use.\<close>

record EntryConfig =
  Ent_BindHost :: string
  Ent_Port :: int
  Ent_IncludeDefaultRoutes :: bool

section \<open>The access gate\<close>

definition accessCookieName :: "(string \<Rightarrow> string) \<Rightarrow> string \<Rightarrow> string" where
  "accessCookieName sha proxyID = ''goginx-access-'' @ take 12 (sha proxyID)"

definition authenticateAccessRequest :: "Env \<Rightarrow> Request \<Rightarrow> Proxy \<Rightarrow> (DB, Request) op" where
  "authenticateAccessRequest env request proxy =
     (case request_Cookie (Req_Cookie request) (accessCookieName (env_sha env) (Proxy_ID proxy)) of
        None \<Rightarrow> sfail (New ''access cookie is missing'')
      | Some (name, val) \<Rightarrow>
          (if val = [] then sfail (New ''access cookie is missing'')
           else sbind (access_ValidateAccessCredential (Proxy_ID proxy) (Proxy_AccessAuthVersion proxy)
                         (env_sha env val) (env_now env)) (\<lambda>_.
                sret (request \<lparr>Req_Cookie := removeCookie (Req_Cookie request) name\<rparr>))))"

abbreviation activation_prefix :: string where
  "activation_prefix \<equiv> ''/.well-known/goginx/activate/''"

definition isAccessActivationPath :: "string \<Rightarrow> bool" where
  "isAccessActivationPath path = has_prefix path activation_prefix"

definition unavailable :: effect where
  "unavailable = Reply 404 (line ''activation link unavailable'')"

definition activation_page :: string where
  "activation_page = ''<!doctype html><meta charset=utf-8><title>Activate access</title><form method=post><button type=submit>Activate access</button></form>''"

text \<open>The Set-Cookie header is the cookie's name, value and path; its flags are constant.\<close>

definition set_cookie :: "string \<Rightarrow> string \<Rightarrow> string \<Rightarrow> string" where
  "set_cookie name val path = name @ ''='' @ val @ ''; Path='' @ path @ ''; HttpOnly; Secure; SameSite=Lax''"

definition handleAccessActivation :: "Env \<Rightarrow> Request \<Rightarrow> Domain \<Rightarrow> DB \<Rightarrow> effect list \<times> DB" where
  "handleAccessActivation env request webDomain db =
     (let tokenValue = trim_prefix (Req_Path request) activation_prefix in
      if tokenValue = [] \<or> contains_sub tokenValue ''/'' then ([unavailable], db)
      else (case access_ActivationTokenByHash db (env_sha env tokenValue) (env_now env) of
        Inl _ \<Rightarrow> ([unavailable], db)
      | Inr token \<Rightarrow>
          (case proxies_ByID db (Tok_ProxyID token) of
             Inl _ \<Rightarrow> ([unavailable], db)
           | Inr proxy \<Rightarrow>
               (if Proxy_DomainID proxy \<noteq> Dom_ID webDomain \<or> \<not> Proxy_AccessAuthEnabled proxy \<or>
                   Tok_AuthVersion token \<noteq> Proxy_AccessAuthVersion proxy then ([unavailable], db)
                else if Req_Method request \<noteq> ''POST'' then ([AccessReply 200 activation_page []], db)
                else if env_secret env = [] then ([Reply 500 (line ''access secret generation failed'')], db)
                else if env_accessID env = [] then ([Reply 500 (line ''access credential generation failed'')], db)
                else
                  (let credential = \<lparr>Cred_ID = env_accessID env, Cred_ProxyID = Proxy_ID proxy,
                         Cred_AuthVersion = Proxy_AccessAuthVersion proxy, Cred_SecretHash = [],
                         Cred_CreatedAt = 0, Cred_LastUsedAt = None\<rparr> in
                   case access_RedeemActivationToken (Tok_ID token) (env_sha env (env_secret env)) credential
                          (env_later env) db of
                     (Inl _, db') \<Rightarrow> ([unavailable], db')
                   | (Inr _, db') \<Rightarrow>
                       (let cookiePath = (if Proxy_PathPrefix proxy = [] then ''/'' else Proxy_PathPrefix proxy) in
                        ([AccessReply 303 []
                            [(''Set-Cookie'', set_cookie (accessCookieName (env_sha env) (Proxy_ID proxy)) (env_secret env) cookiePath),
                             (''Location'', cookiePath)]], db')))))))"

section \<open>The HTTPS entry\<close>

text \<open>The part of handleTerminatedConn after the request is routed and let through.\<close>

definition https_forward :: "Env \<Rightarrow> Manager \<Rightarrow> Proxy \<Rightarrow> Request \<Rightarrow> effect list" where
  "https_forward env mgr proxy request =
     (case env_connectionID env of
        Inl _ \<Rightarrow> [Reply 500 (line ''request id failed'')]
      | Inr connectionID \<Rightarrow>
          (case Option.bind (manager_Latest mgr (Proxy_ClientID proxy)) Ses_StreamOpener of
             None \<Rightarrow> [Reply 503 (line ''client offline'')]
           | Some opener \<Rightarrow>
               Open opener #
               (case env_open env opener of
                  Inl _ \<Rightarrow> [Reply 502 (line ''open proxy stream failed'')]
                | Inr _ \<Rightarrow>
                    (let os = \<lparr>OS_Kind = ''http'', OS_ProxyID = Proxy_ID proxy, OS_ConnectionID = connectionID,
                               OS_TargetHost = Proxy_TargetHost proxy, OS_TargetPort = Proxy_TargetPort proxy\<rparr> in
                     SendOpen os #
                     (case env_write_open env os of
                        Inl _ \<Rightarrow> [Reply 502 (line ''write proxy stream failed'')]
                      | Inr _ \<Rightarrow>
                          SendRequest request #
                          (case env_write_request env request of
                             Inl e \<Rightarrow> (if errors_is e errHTTPBodyTooLarge
                                       then [Reply 413 (line ''request body too large'')]
                                       else [Reply 502 (line ''write proxy request failed'')])
                           | Inr _ \<Rightarrow>
                               (case env_read_response env of
                                  Inl _ \<Rightarrow> [Reply 502 (line ''read proxy response failed'')]
                                | Inr response \<Rightarrow>
                                    (if IsWebSocketUpgrade (Req_Upgrade request) (Req_Connection request) \<and>
                                        Rsp_StatusCode response = 101
                                     then [Tunnel response] else [Relay response]))))))))"

definition handleTerminatedConn :: "Env \<Rightarrow> Manager \<Rightarrow> Domain \<Rightarrow> Request \<Rightarrow> DB \<Rightarrow> effect list \<times> DB" where
  "handleTerminatedConn env mgr webDomain request db =
     (if Req_ContentLength request > maxHTTPBodyBytes then ([Reply 413 (line ''request body too large'')], db)
      else if isAccessActivationPath (Req_Path request) then handleAccessActivation env request webDomain db
      else if \<not> ValidProxyRequestPath (Req_Path request) (Req_RawPath request)
        then ([Reply 400 (line ''invalid request path'')], db)
      else (case proxies_ByDomainAndPath db (Dom_ID webDomain) (Req_Path request) of
              Inl _ \<Rightarrow> ([Reply 404 (line ''proxy not found'')], db)
            | Inr proxy \<Rightarrow>
                (if Proxy_Status proxy \<noteq> ProxyEnabled then ([Reply 404 (line ''proxy not found'')], db)
                 else (case (if Proxy_AccessAuthEnabled proxy then authenticateAccessRequest env request proxy
                             else sret request) db of
                         (Inl _, db') \<Rightarrow> ([Reply 401 (line ''access activation required'')], db')
                       | (Inr request', db') \<Rightarrow>
                           (https_forward env mgr proxy
                              (request' \<lparr>Req_Path := RewriteWebProxyPath (Req_Path request') (Proxy_PathPrefix proxy)
                                            (Proxy_StripPrefix proxy) (Proxy_UpstreamPathPrefix proxy),
                                          Req_RawPath := []\<rparr>), db')))))"

text \<open>
  A connection: the server name, the domain it is served for, its certificate, and then the
  request that the TLS server reads from the prefixed connection. The TLS server with the HTTP
  parser on top of it, and the certificate resolver, are parameters. An error before the handshake
  closes the connection without a reply.
\<close>

definition https_handleConn ::
    "(string \<Rightarrow> Domain \<Rightarrow> DB \<Rightarrow> 'cert result) \<Rightarrow> ('cert \<Rightarrow> byte list \<Rightarrow> Request result) \<Rightarrow>
     EntryConfig \<Rightarrow> Env \<Rightarrow> Manager \<Rightarrow> byte list \<Rightarrow> DB \<Rightarrow> (effect list \<times> DB) option" where
  "https_handleConn certificateForDomain tls_request entry env mgr sent db =
     map_option (\<lambda>r. case r of
        Inl _ \<Rightarrow> ([], db)
      | Inr (prefix, serverName, rest) \<Rightarrow>
          (if serverName = [] then ([], db)
           else (case domainEntries_ByListener db DomainEntryHTTPS (Ent_BindHost entry) (Ent_Port entry) serverName
                        (Ent_IncludeDefaultRoutes entry) of
                   Inl _ \<Rightarrow> ([], db)
                 | Inr (webDomain, _) \<Rightarrow>
                     (if Dom_Status webDomain \<noteq> DomainEnabled then ([], db)
                      else (case certificateForDomain serverName webDomain db of
                              Inl _ \<Rightarrow> ([], db)
                            | Inr certificate \<Rightarrow>
                                (case tls_request certificate (prefix @ rest) of
                                   Inl _ \<Rightarrow> ([], db)
                                 | Inr request \<Rightarrow> handleTerminatedConn env mgr webDomain request db))))))
       (readClientHello sent)"

section \<open>The HTTP entry\<close>

definition httpsRedirectURL :: "DB \<Rightarrow> Domain \<Rightarrow> Request \<Rightarrow> string option" where
  "httpsRedirectURL db webDomain request =
     (case List.find (\<lambda>e. DEnt_Protocol e = DomainEntryHTTPS \<and> DEnt_Status e = DomainEntryEnabled)
             (domainEntries_ListByDomainID db (Dom_ID webDomain)) of
        None \<Rightarrow> None
      | Some httpsEntry \<Rightarrow>
          (let host = (if DEnt_Port httpsEntry > 0 \<and> DEnt_Port httpsEntry \<noteq> 443
                       then JoinHostPort (Dom_Host webDomain) (itoa (DEnt_Port httpsEntry))
                       else Dom_Host webDomain)
           in Some (''https://'' @ host @ Req_RequestURI request)))"

text \<open>
  A run of the part of ServeHTTP that is counted: its effects, and the arguments of the deferred
  RecordHTTP.
\<close>

record Counted =
  ct_effects :: "effect list"
  ct_status :: int
  ct_failed :: bool
  ct_upload :: int
  ct_download :: int

definition count_error :: "effect list \<Rightarrow> int \<Rightarrow> int \<Rightarrow> string \<Rightarrow> Counted" where
  "count_error done upload status body =
     \<lparr>ct_effects = done @ [Reply status body], ct_status = status, ct_failed = True, ct_upload = upload, ct_download = 0\<rparr>"

definition http_forward :: "Env \<Rightarrow> Manager \<Rightarrow> Proxy \<Rightarrow> Request \<Rightarrow> Counted" where
  "http_forward env mgr proxy request =
     (case env_connectionID env of
        Inl _ \<Rightarrow> count_error [] 0 500 ''request id failed''
      | Inr requestID \<Rightarrow>
          (case Option.bind (manager_Latest mgr (Proxy_ClientID proxy)) Ses_StreamOpener of
             None \<Rightarrow> count_error [] 0 503 ''client offline''
           | Some opener \<Rightarrow>
               (case env_open env opener of
                  Inl _ \<Rightarrow> count_error [Open opener] 0 502 ''open proxy stream failed''
                | Inr _ \<Rightarrow>
                    (let os = \<lparr>OS_Kind = ''http'', OS_ProxyID = Proxy_ID proxy, OS_ConnectionID = requestID,
                               OS_TargetHost = Proxy_TargetHost proxy, OS_TargetPort = Proxy_TargetPort proxy\<rparr>;
                         opened = [Open opener, SendOpen os] in
                     case env_write_open env os of
                       Inl _ \<Rightarrow> count_error opened 0 502 ''write proxy stream failed''
                     | Inr _ \<Rightarrow>
                         (let upload = env_body_read env; sent = opened @ [SendRequest request] in
                          case env_write_request env request of
                            Inl _ \<Rightarrow> count_error sent upload 502 ''write proxy request failed''
                          | Inr _ \<Rightarrow>
                              (case env_read_response env of
                                 Inl _ \<Rightarrow> count_error sent upload 502 ''read proxy response failed''
                               | Inr response \<Rightarrow>
                                   (if IsWebSocketUpgrade (Req_Upgrade request) (Req_Connection request) \<and>
                                       Rsp_StatusCode response = 101 then
                                      (case env_hijack env of
                                         Inl _ \<Rightarrow> \<lparr>ct_effects = sent, ct_status = 101, ct_failed = False,
                                                   ct_upload = upload, ct_download = 0\<rparr>
                                       | Inr _ \<Rightarrow> \<lparr>ct_effects = sent @ [Tunnel response], ct_status = 101, ct_failed = False,
                                                   ct_upload = add64 upload (fst (env_tunnel env)),
                                                   ct_download = snd (env_tunnel env)\<rparr>)
                                    else
                                      \<lparr>ct_effects = sent @ [Relay response], ct_status = Rsp_StatusCode response,
                                       ct_failed = (snd (env_copied env) \<noteq> None \<or> Rsp_StatusCode response \<ge> 500),
                                       ct_upload = upload, ct_download = fst (env_copied env)\<rparr>)))))))"

definition ServeHTTP :: "EntryConfig \<Rightarrow> Env \<Rightarrow> Manager \<Rightarrow> DB \<Rightarrow> Request \<Rightarrow> Memory \<Rightarrow> effect list \<times> Memory" where
  "ServeHTTP entry env mgr db request stats =
     (let host = hostWithoutPort (Req_Host request) in
      case domainEntries_ByListener db DomainEntryHTTP (Ent_BindHost entry) (Ent_Port entry) host
             (Ent_IncludeDefaultRoutes entry) of
        Inl _ \<Rightarrow> ([Reply 404 ''proxy not found''], stats)
      | Inr (webDomain, _) \<Rightarrow>
          (if Dom_Status webDomain \<noteq> DomainEnabled then ([Reply 404 ''proxy not found''], stats)
           else if \<not> ValidProxyRequestPath (Req_Path request) (Req_RawPath request)
             then ([Reply 400 ''invalid request path''], stats)
           else (case proxies_ByDomainAndPath db (Dom_ID webDomain) (Req_Path request) of
                   Inl _ \<Rightarrow> ([Reply 404 ''proxy not found''], stats)
                 | Inr proxy \<Rightarrow>
                     (if Proxy_Status proxy \<noteq> ProxyEnabled then ([Reply 404 ''proxy not found''], stats)
                      else if Proxy_AccessAuthEnabled proxy then
                        (case httpsRedirectURL db webDomain request of
                           Some url \<Rightarrow> ([Redirect url 308], stats)
                         | None \<Rightarrow> ([Reply 403 ''https required''], stats))
                      else
                        (let c = http_forward env mgr proxy
                               (request \<lparr>Req_Path := RewriteWebProxyPath (Req_Path request) (Proxy_PathPrefix proxy)
                                             (Proxy_StripPrefix proxy) (Proxy_UpstreamPathPrefix proxy),
                                         Req_RawPath := []\<rparr>)
                         in (ct_effects c,
                             memory_RecordHTTP (Proxy_ID proxy) (ct_status c) (ct_upload c) (ct_download c)
                               (ct_failed c) stats))))))"

end
