(* ===== verification/WebProps.thy ===== *)
theory WebProps
  imports WebEntry StoreProps
begin

text \<open>
  The properties of the web entries: what passes the access gate, what an activation link gives,
  and what the plain HTTP entry forwards and counts.
\<close>

section \<open>Effects\<close>

lemma https_forward_sends:
  "SendRequest r \<in> set (https_forward env mgr proxy request) \<Longrightarrow> r = request"
  "SendOpen os \<in> set (https_forward env mgr proxy request) \<Longrightarrow>
     OS_ProxyID os = Proxy_ID proxy \<and> OS_TargetHost os = Proxy_TargetHost proxy \<and> OS_TargetPort os = Proxy_TargetPort proxy"
  by (auto simp: https_forward_def Let_def split: sum.splits option.splits if_splits)

lemma forward_opens_first:
  "SendRequest r \<in> set (https_forward env mgr proxy request) \<Longrightarrow>
     \<exists>os. SendOpen os \<in> set (https_forward env mgr proxy request)"
  by (auto simp: https_forward_def Let_def split: sum.splits option.splits if_splits)

lemma activation_sends_nothing:
  "handleAccessActivation env request webDomain db = (effects, db') \<Longrightarrow>
     SendRequest r \<notin> set effects \<and> SendOpen os \<notin> set effects"
  by (auto simp: handleAccessActivation_def unavailable_def Let_def split: sum.splits if_splits prod.splits)

lemma authenticate_ok:
  assumes "authenticateAccessRequest env request proxy db = (Inr request', db')"
  shows "\<exists>val c. request_Cookie (Req_Cookie request) (accessCookieName (env_sha env) (Proxy_ID proxy)) =
       Some (accessCookieName (env_sha env) (Proxy_ID proxy), val) \<and>
     c \<in> set (db_credentials db) \<and> credential_matches (Proxy_ID proxy) (Proxy_AccessAuthVersion proxy) (env_sha env val) c \<and>
     request' = request \<lparr>Req_Cookie := removeCookie (Req_Cookie request) (accessCookieName (env_sha env) (Proxy_ID proxy))\<rparr>"
proof -
  let ?n = "accessCookieName (env_sha env) (Proxy_ID proxy)"
  from assms obtain name val where c: "request_Cookie (Req_Cookie request) ?n = Some (name, val)"
    and v: "fst (access_ValidateAccessCredential (Proxy_ID proxy) (Proxy_AccessAuthVersion proxy) (env_sha env val) (env_now env) db) = Inr ()"
    and r: "request' = request \<lparr>Req_Cookie := removeCookie (Req_Cookie request) name\<rparr>"
    by (auto simp: authenticateAccessRequest_def sbind_eq_Inr split: option.splits if_splits)
  have "name = ?n"
    using c by (auto simp: request_Cookie_def find_Some_iff split: if_splits) (metis fst_conv)
  moreover from v obtain c where "c \<in> set (db_credentials db)"
    "credential_matches (Proxy_ID proxy) (Proxy_AccessAuthVersion proxy) (env_sha env val) c"
    by (auto simp: access_ValidateAccessCredential_def Let_def sql_affected_def resultError_def filter_empty_conv split: if_splits)
  ultimately show ?thesis using c r by blast
qed

lemma removed_cookie_gone: "name \<notin> fst ` set (readCookies (removeCookie h name))"
  by (auto simp: readCookies_removeCookie)

section \<open>The gate\<close>

text \<open>
  C19: the access gate of the HTTPS entry. A request reaches a client's stream only when the path is
  routed to an enabled proxy of the domain, and then with that proxy's target, whatever the request
  says. When the proxy is protected, the request carried the proxy's access cookie and its hash is
  the secret of a stored credential of that proxy and of its current auth version; and the cookie
  is not in the request that is forwarded, while the other cookies are.
\<close>

theorem https_gate:
  assumes "handleTerminatedConn env mgr webDomain request db = (effects, db')"
    and "SendRequest sent \<in> set effects"
  shows "\<exists>proxy os. proxies_ByDomainAndPath db (Dom_ID webDomain) (Req_Path request) = Inr proxy \<and>
    Proxy_Status proxy = ProxyEnabled \<and> SendOpen os \<in> set effects \<and>
    OS_ProxyID os = Proxy_ID proxy \<and> OS_TargetHost os = Proxy_TargetHost proxy \<and> OS_TargetPort os = Proxy_TargetPort proxy \<and>
    (if Proxy_AccessAuthEnabled proxy then
       (\<exists>val c. request_Cookie (Req_Cookie request) (accessCookieName (env_sha env) (Proxy_ID proxy)) =
            Some (accessCookieName (env_sha env) (Proxy_ID proxy), val) \<and>
          c \<in> set (db_credentials db) \<and>
          credential_matches (Proxy_ID proxy) (Proxy_AccessAuthVersion proxy) (env_sha env val) c) \<and>
       map fst (readCookies (Req_Cookie sent)) =
         filter (\<lambda>n. n \<noteq> accessCookieName (env_sha env) (Proxy_ID proxy)) (map fst (readCookies (Req_Cookie request)))
     else Req_Cookie sent = Req_Cookie request)"
proof -
  from assms obtain proxy where p: "proxies_ByDomainAndPath db (Dom_ID webDomain) (Req_Path request) = Inr proxy"
    and en: "Proxy_Status proxy = ProxyEnabled"
    and rest: "(case (if Proxy_AccessAuthEnabled proxy then authenticateAccessRequest env request proxy else sret request) db of
         (Inl _, db') \<Rightarrow> ([Reply 401 (line ''access activation required'')], db')
       | (Inr request', db') \<Rightarrow>
           (https_forward env mgr proxy
              (request' \<lparr>Req_Path := RewriteWebProxyPath (Req_Path request') (Proxy_PathPrefix proxy)
                            (Proxy_StripPrefix proxy) (Proxy_UpstreamPathPrefix proxy), Req_RawPath := []\<rparr>), db')) = (effects, db')"
    unfolding handleTerminatedConn_def
    by (auto dest: activation_sends_nothing split: if_splits sum.splits)
  obtain request' where a: "fst ((if Proxy_AccessAuthEnabled proxy then authenticateAccessRequest env request proxy else sret request) db) = Inr request'"
    and eff: "effects = https_forward env mgr proxy
        (request' \<lparr>Req_Path := RewriteWebProxyPath (Req_Path request') (Proxy_PathPrefix proxy)
                            (Proxy_StripPrefix proxy) (Proxy_UpstreamPathPrefix proxy), Req_RawPath := []\<rparr>)"
    using rest assms(2) by (auto split: sum.splits prod.splits if_splits)
  have cookie: "Req_Cookie sent = Req_Cookie request'"
    using assms(2) unfolding eff by (auto dest!: https_forward_sends(1))
  obtain os where os: "SendOpen os \<in> set effects" using forward_opens_first assms(2) eff by metis
  have tgt: "OS_ProxyID os = Proxy_ID proxy \<and> OS_TargetHost os = Proxy_TargetHost proxy \<and> OS_TargetPort os = Proxy_TargetPort proxy"
    using https_forward_sends(2) os eff by simp
  show ?thesis
  proof (cases "Proxy_AccessAuthEnabled proxy")
    case True
    with a obtain d where "authenticateAccessRequest env request proxy db = (Inr request', d)"
      by (metis prod.collapse)
    from authenticate_ok [OF this] obtain val c where
      v: "request_Cookie (Req_Cookie request) (accessCookieName (env_sha env) (Proxy_ID proxy)) =
        Some (accessCookieName (env_sha env) (Proxy_ID proxy), val)" "c \<in> set (db_credentials db)"
        "credential_matches (Proxy_ID proxy) (Proxy_AccessAuthVersion proxy) (env_sha env val) c"
      and r: "request' = request \<lparr>Req_Cookie := removeCookie (Req_Cookie request) (accessCookieName (env_sha env) (Proxy_ID proxy))\<rparr>"
      by blast
    have "map fst (readCookies (Req_Cookie sent)) =
         filter (\<lambda>n. n \<noteq> accessCookieName (env_sha env) (Proxy_ID proxy)) (map fst (readCookies (Req_Cookie request)))"
      using cookie r by (simp add: readCookies_removeCookie filter_map o_def)
    with p en os tgt True v show ?thesis by (intro exI [of _ proxy] exI [of _ os]) auto
  next
    case False
    with a cookie p en os tgt show ?thesis by auto
  qed
qed

text \<open>A stand-in for SHA-256 of the right length, and a world in which everything works.\<close>

definition sample_sha :: "string \<Rightarrow> string" where
  "sample_sha s = s @ replicate (64 - length s) CHR ''0''"

definition sample_env :: Env where
  "sample_env = \<lparr>env_now = 50, env_later = 51, env_sha = sample_sha, env_secret = ''s3cret'', env_accessID = ''k1'',
     env_connectionID = Inr ''conn'', env_open = (\<lambda>_. Inr ()), env_write_open = (\<lambda>_. Inr ()),
     env_write_request = (\<lambda>_. Inr ()),
     env_read_response = Inr \<lparr>Rsp_StatusCode = 200, Rsp_ContentType = ''text/plain'', Rsp_ContentLength = 2,
        Rsp_TransferEncoding = [], Rsp_TransferEncodingHeader = []\<rparr>,
     env_hijack = Inr (), env_body_read = 0, env_tunnel = (0, 0), env_copied = (2, None)\<rparr>"

definition sample_request :: Request where
  "sample_request = \<lparr>Req_Method = ''GET'', Req_Host = ''a.example'', Req_Path = ''/x'', Req_RawPath = [],
     Req_RequestURI = ''/x'', Req_ContentLength = 0,
     Req_Cookie = [''a=1; goginx-access-p10000000000=s3cret''], Req_Upgrade = [], Req_Connection = []\<rparr>"

definition sample_domain :: Domain where
  "sample_domain = \<lparr>Dom_ID = ''d1'', Dom_UserID = ''u1'', Dom_Host = ''a.example'', Dom_CertificateID = [],
     Dom_Status = DomainEnabled, Dom_CreatedAt = 1, Dom_UpdatedAt = 1\<rparr>"

definition sample_manager :: Manager where
  "sample_manager = snd (snd (the (case manager_Register 5 NewManager
      \<lparr>Reg_SessionID = ''s1'', Reg_ClientID = ''c1'', Reg_UserID = ''u1'', Reg_ClientKind = ClientKindProvider,
       Reg_Protocol = ProtocolQUIC, Reg_ConfigVersion = 0, Reg_StreamOpener = Some 7, Reg_Persistent = False\<rparr> of
      Inr r \<Rightarrow> Some r | Inl e \<Rightarrow> None)))"

definition gate_db :: DB where
  "gate_db = emptyDB \<lparr>db_users := [sample_user], db_clients := [sample_client], db_domains := [sample_domain],
     db_proxies := [sample_proxy], db_tokens := [sample_token \<lparr>Tok_TokenHash := sample_sha ''tok''\<rparr>],
     db_credentials := [sample_credential \<lparr>Cred_SecretHash := sample_sha ''s3cret''\<rparr>]\<rparr>"

definition sent_requests :: "effect list \<Rightarrow> Request list" where
  "sent_requests es = concat (map (\<lambda>e. case e of SendRequest r \<Rightarrow> [r] | _ \<Rightarrow> []) es)"

lemma https_gate_witness:
  "case handleTerminatedConn sample_env sample_manager sample_domain sample_request gate_db of
     (effects, db') \<Rightarrow>
       (\<exists>sent. SendRequest sent \<in> set effects \<and>
          map fst (readCookies (Req_Cookie sent)) = [''a''])"
proof -
  let ?r = "handleTerminatedConn sample_env sample_manager sample_domain sample_request gate_db"
  define sent where "sent = sample_request \<lparr>Req_Cookie := [''a=1'']\<rparr>"
  have e: "?r = (fst ?r, snd ?r)" by simp
  have m: "SendRequest sent \<in> set (fst ?r)" unfolding sent_def by code_simp
  have p: "proxies_ByDomainAndPath gate_db (Dom_ID sample_domain) (Req_Path sample_request) = Inr sample_proxy" by code_simp
  have a: "Proxy_AccessAuthEnabled sample_proxy" by code_simp
  have c: "filter (\<lambda>n. n \<noteq> accessCookieName (env_sha sample_env) (Proxy_ID sample_proxy))
      (map fst (readCookies (Req_Cookie sample_request))) = [''a'']" by code_simp
  have q: "map fst (readCookies (Req_Cookie sent)) = [''a'']"
  proof -
    from https_gate [OF e m] obtain proxy where
      "proxies_ByDomainAndPath gate_db (Dom_ID sample_domain) (Req_Path sample_request) = Inr proxy"
      "Proxy_AccessAuthEnabled proxy \<Longrightarrow> map fst (readCookies (Req_Cookie sent)) =
         filter (\<lambda>n. n \<noteq> accessCookieName (env_sha sample_env) (Proxy_ID proxy))
           (map fst (readCookies (Req_Cookie sample_request)))"
      by metis
    with p a c show ?thesis by simp
  qed
  have "\<exists>sent. SendRequest sent \<in> set (fst ?r) \<and> map fst (readCookies (Req_Cookie sent)) = [''a'']"
    by (rule exI, rule conjI, rule m, rule q)
  then show ?thesis unfolding case_prod_beta .
qed

section \<open>Activation\<close>

lemma spent_sql_update:
  assumes "distinct (map Tok_TokenHash rows)" and "t \<in> set rows" and "Tok_TokenHash t = h" and "P t"
  shows "\<forall>u \<in> set (sql_update P (\<lambda>t. t \<lparr>Tok_UsedAt := Some now\<rparr>) rows). Tok_TokenHash u = h \<longrightarrow> Tok_UsedAt u \<noteq> None"
proof (intro ballI impI)
  fix u assume u: "u \<in> set (sql_update P (\<lambda>t. t \<lparr>Tok_UsedAt := Some now\<rparr>) rows)" "Tok_TokenHash u = h"
  have "x = t" if "x \<in> set rows" "Tok_TokenHash x = h" for x
    using that assms(1-3) by (auto simp: distinct_map dest: inj_onD)
  with u assms(4) show "Tok_UsedAt u \<noteq> None" by (auto simp: set_sql_update)
qed

lemma validate_result:
  "fst (access_ValidateAccessCredential p v h t db) =
     (if \<exists>c \<in> set (db_credentials db). credential_matches p v h c then Inr () else Inl ErrNotFound)"
  by (auto simp: access_ValidateAccessCredential_def Let_def sql_affected_def resultError_def filter_empty_conv)

text \<open>
  C20: an activation link grants exactly what it names, once. When the activation page answers with
  the cookie, the request was a POST with an unused, unexpired token of a protected proxy of this
  very domain and of its current auth version; from then on the new secret validates for that
  proxy and that version, and nothing else validates that did not before; and every later request
  with the same link, whatever its method, domain and time, is told that the link is unavailable
  and changes nothing.
\<close>

theorem activation_grants_once:
  assumes "db_ok db" and "handleAccessActivation env request webDomain db = (effects, db')"
    and "AccessReply 303 [] headers \<in> set effects"
  shows "\<exists>token proxy.
    token \<in> set (db_tokens db) \<and> Tok_TokenHash token = env_sha env (trim_prefix (Req_Path request) activation_prefix) \<and>
    Tok_UsedAt token = None \<and> Tok_ExpiresAt token > env_now env \<and>
    proxy \<in> set (db_proxies db) \<and> Proxy_ID proxy = Tok_ProxyID token \<and> Proxy_DomainID proxy = Dom_ID webDomain \<and>
    Proxy_AccessAuthEnabled proxy \<and> Tok_AuthVersion token = Proxy_AccessAuthVersion proxy \<and> Req_Method request = ''POST'' \<and>
    (\<forall>p v h t. fst (access_ValidateAccessCredential p v h t db') =
       (if p = Proxy_ID proxy \<and> v = Proxy_AccessAuthVersion proxy \<and> h = env_sha env (env_secret env) then Inr ()
        else fst (access_ValidateAccessCredential p v h t db))) \<and>
    handleAccessActivation (env' \<lparr>env_sha := env_sha env\<rparr>) (request' \<lparr>Req_Path := Req_Path request\<rparr>) webDomain' db' =
      ([unavailable], db')"
proof -
  define val where "val = trim_prefix (Req_Path request) activation_prefix"
  from assms(2,3) obtain token proxy cr where tok: "access_ActivationTokenByHash db (env_sha env val) (env_now env) = Inr token"
    and prox: "proxies_ByID db (Tok_ProxyID token) = Inr proxy"
    and cond: "Proxy_DomainID proxy = Dom_ID webDomain" "Proxy_AccessAuthEnabled proxy"
      "Tok_AuthVersion token = Proxy_AccessAuthVersion proxy" "Req_Method request = ''POST''"
    and red: "access_RedeemActivationToken (Tok_ID token) (env_sha env (env_secret env)) cr (env_later env) db = (Inr (), db')"
    and cr: "Cred_ProxyID cr = Proxy_ID proxy" "Cred_AuthVersion cr = Proxy_AccessAuthVersion proxy"
    by (auto simp: handleAccessActivation_def unavailable_def Let_def val_def [symmetric]
        split: if_splits sum.splits prod.splits)
  have t: "token \<in> set (db_tokens db)" "Tok_TokenHash token = env_sha env val" "Tok_ExpiresAt token > env_now env"
    "Tok_UsedAt token = None"
    using sql_one_Inr [OF tok [unfolded access_ActivationTokenByHash_def]] by auto
  have p: "proxy \<in> set (db_proxies db)" "Proxy_ID proxy = Tok_ProxyID token"
    using sql_one_Inr [OF prox [unfolded proxies_ByID_def]] by auto
  have rd: "redeemable (Tok_ID token) (env_later env) token"
  proof -
    from Redeem_Inr(2) [OF red] obtain x where x: "x \<in> set (db_tokens db)" "redeemable (Tok_ID token) (env_later env) x"
      by (metis sql_affected_0 zero_neq_one)
    have "distinct (map Tok_ID (db_tokens db))" using assms(1) by (simp add: db_ok_def keys_unique_def)
    with x t(1) have "x = token" by (auto simp: redeemable_def distinct_map dest: inj_onD)
    with x show ?thesis by simp
  qed
  have dis: "distinct (map Tok_TokenHash (db_tokens db))" using assms(1) by (simp add: db_ok_def keys_unique_def)
  have "access_ActivationTokenByHash db' (env_sha env val) now = Inl ErrNotFound" for now
    using spent_sql_update [OF dis t(1,2), of "redeemable (Tok_ID token) (env_later env)" "env_later env", OF rd]
    by (simp add: access_ActivationTokenByHash_def sql_one_Inl Redeem_Inr(1) [OF red])
  then have once: "handleAccessActivation (env' \<lparr>env_sha := env_sha env\<rparr>) (request' \<lparr>Req_Path := Req_Path request\<rparr>) webDomain' db' =
      ([unavailable], db')"
    by (simp add: handleAccessActivation_def Let_def val_def [symmetric])
  obtain c where c: "db_credentials db' = db_credentials db @ [c]" "Cred_SecretHash c = env_sha env (env_secret env)"
    "Cred_ProxyID c = Proxy_ID proxy" "Cred_AuthVersion c = Proxy_AccessAuthVersion proxy"
    using Redeem_Inr(3) [OF red] cr by auto
  have "fst (access_ValidateAccessCredential p v h t db') =
       (if p = Proxy_ID proxy \<and> v = Proxy_AccessAuthVersion proxy \<and> h = env_sha env (env_secret env) then Inr ()
        else fst (access_ValidateAccessCredential p v h t db))" for p v h t
    by (auto simp: validate_result c credential_matches_def)
  with t p cond once show ?thesis unfolding val_def by blast
qed

definition activation_request :: Request where
  "activation_request = sample_request \<lparr>Req_Method := ''POST'', Req_Path := ''/.well-known/goginx/activate/tok''\<rparr>"

definition before_db :: DB where
  "before_db = gate_db \<lparr>db_credentials := []\<rparr>"

lemma before_db_ok: "db_ok before_db"
  by (simp add: db_ok_def keys_unique_def refs_ok_def has_defs before_db_def gate_db_def emptyDB_def sample_user_def zeroUser_def
      sample_client_def zeroClient_def sample_proxy_def zeroProxy_def sample_token_def sample_domain_def sql_exists_def)

lemma activation_grants_once_witness:
  "case handleAccessActivation sample_env activation_request sample_domain before_db of
     (effects, db') \<Rightarrow>
       fst (access_ValidateAccessCredential ''p1'' 1 (sample_sha ''s3cret'') 60 db') = Inr () \<and>
       handleAccessActivation (sample_env \<lparr>env_now := 52\<rparr>) activation_request sample_domain db' = ([unavailable], db')"
proof -
  let ?r = "handleAccessActivation sample_env activation_request sample_domain before_db"
  define headers where "headers = [(''Set-Cookie'', set_cookie (accessCookieName sample_sha ''p1'') ''s3cret'' ''/''), (''Location'', ''/'')]"
  have e: "?r = (fst ?r, snd ?r)" by simp
  have m: "AccessReply 303 [] headers \<in> set (fst ?r)" unfolding headers_def by code_simp
  have u: "proxy = sample_proxy" if "proxy \<in> set (db_proxies before_db)" for proxy
    using that by (simp add: before_db_def gate_db_def)
  have i: "Proxy_ID sample_proxy = ''p1''" "Proxy_AccessAuthVersion sample_proxy = 1"
    by (simp_all add: sample_proxy_def)
  have s: "env_sha sample_env (env_secret sample_env) = sample_sha ''s3cret''"
    "sample_env \<lparr>env_now := 52, env_sha := env_sha sample_env\<rparr> = sample_env \<lparr>env_now := 52\<rparr>"
    "activation_request \<lparr>Req_Path := Req_Path activation_request\<rparr> = activation_request"
    by (simp_all add: sample_env_def)
  from activation_grants_once [OF before_db_ok e m, of "sample_env \<lparr>env_now := 52\<rparr>" activation_request sample_domain] u i s
  have "fst (access_ValidateAccessCredential ''p1'' 1 (sample_sha ''s3cret'') 60 (snd ?r)) = Inr () \<and>
     handleAccessActivation (sample_env \<lparr>env_now := 52\<rparr>) activation_request sample_domain (snd ?r) = ([unavailable], snd ?r)"
    by fastforce
  then show ?thesis by (simp add: case_prod_beta)
qed

section \<open>The HTTP entry\<close>

lemma http_forward_sends:
  "SendRequest r \<in> set (ct_effects (http_forward env mgr proxy request)) \<Longrightarrow> r = request"
  "SendOpen os \<in> set (ct_effects (http_forward env mgr proxy request)) \<Longrightarrow>
     OS_ProxyID os = Proxy_ID proxy \<and> OS_TargetHost os = Proxy_TargetHost proxy \<and> OS_TargetPort os = Proxy_TargetPort proxy"
  by (auto simp: http_forward_def count_error_def Let_def split: sum.splits option.splits if_splits)

text \<open>
  Every way through the counted part ends in one of these: a reply of the entry itself with the
  status that is counted, or the response of the target with its status, or a hijack that failed.
\<close>

lemma http_forward_status:
  "(\<exists>body. last (ct_effects (http_forward env mgr proxy request)) = Reply (ct_status (http_forward env mgr proxy request)) body
      \<and> ct_failed (http_forward env mgr proxy request) \<and> ct_status (http_forward env mgr proxy request) \<ge> 500) \<or>
   (\<exists>rsp. env_read_response env = Inr rsp \<and> ct_status (http_forward env mgr proxy request) = Rsp_StatusCode rsp)"
  by (auto simp: http_forward_def count_error_def Let_def split: sum.splits option.splits if_splits)

text \<open>
  The plain HTTP entry never carries a protected proxy's traffic, and counts every request it
  forwards exactly once. If a request is sent to a client, its proxy is enabled, routed by the
  path and not protected, the stream names that proxy and its target, and the statistics are the
  ones before with a single RecordHTTP for that proxy; when nothing is sent and the reply is the
  entry's routing answer, the statistics do not change.
\<close>

lemma http_entry_routes_and_counts:
  assumes "ServeHTTP entry env mgr db request stats = (effects, stats')"
  shows "(stats' = stats \<and> (\<exists>e. effects = [e] \<and> (case e of Reply s b \<Rightarrow> s \<in> {400, 403, 404} | Redirect u s \<Rightarrow> s = 308 | _ \<Rightarrow> False))) \<or>
    (\<exists>proxy webDomain de status failed upload download.
       domainEntries_ByListener db DomainEntryHTTP (Ent_BindHost entry) (Ent_Port entry)
         (hostWithoutPort (Req_Host request)) (Ent_IncludeDefaultRoutes entry) = Inr (webDomain, de) \<and>
       proxies_ByDomainAndPath db (Dom_ID webDomain) (Req_Path request) = Inr proxy \<and>
       Proxy_Status proxy = ProxyEnabled \<and> \<not> Proxy_AccessAuthEnabled proxy \<and>
       (\<forall>os. SendOpen os \<in> set effects \<longrightarrow> OS_ProxyID os = Proxy_ID proxy \<and>
          OS_TargetHost os = Proxy_TargetHost proxy \<and> OS_TargetPort os = Proxy_TargetPort proxy) \<and>
       stats' = memory_RecordHTTP (Proxy_ID proxy) status upload download failed stats \<and>
       ((\<exists>body. last effects = Reply status body \<and> failed \<and> status \<ge> 500) \<or>
        (\<exists>rsp. env_read_response env = Inr rsp \<and> status = Rsp_StatusCode rsp)))"
proof (cases "domainEntries_ByListener db DomainEntryHTTP (Ent_BindHost entry) (Ent_Port entry)
         (hostWithoutPort (Req_Host request)) (Ent_IncludeDefaultRoutes entry)")
  case (Inl e)
  with assms show ?thesis by (auto simp: ServeHTTP_def Let_def)
next
  case (Inr x)
  obtain webDomain de where x: "x = (webDomain, de)" by (cases x)
  show ?thesis
  proof (cases "Dom_Status webDomain = DomainEnabled \<and> ValidProxyRequestPath (Req_Path request) (Req_RawPath request)")
    case False
    with assms Inr x show ?thesis by (auto simp: ServeHTTP_def Let_def split: if_splits)
  next
    case ok: True
    show ?thesis
    proof (cases "proxies_ByDomainAndPath db (Dom_ID webDomain) (Req_Path request)")
      case (Inl e)
      with assms Inr x ok show ?thesis by (auto simp: ServeHTTP_def Let_def)
    next
      case p: (Inr proxy)
      show ?thesis
      proof (cases "Proxy_Status proxy = ProxyEnabled \<and> \<not> Proxy_AccessAuthEnabled proxy")
        case False
        with assms Inr x ok p show ?thesis by (auto simp: ServeHTTP_def Let_def split: if_splits option.splits)
      next
        case True
        define c where "c = http_forward env mgr proxy
            (request \<lparr>Req_Path := RewriteWebProxyPath (Req_Path request) (Proxy_PathPrefix proxy)
                          (Proxy_StripPrefix proxy) (Proxy_UpstreamPathPrefix proxy), Req_RawPath := []\<rparr>)"
        have e: "effects = ct_effects c"
          "stats' = memory_RecordHTTP (Proxy_ID proxy) (ct_status c) (ct_upload c) (ct_download c) (ct_failed c) stats"
          using assms Inr x ok p True by (auto simp: ServeHTTP_def Let_def c_def)
        have "\<forall>os. SendOpen os \<in> set effects \<longrightarrow> OS_ProxyID os = Proxy_ID proxy \<and>
          OS_TargetHost os = Proxy_TargetHost proxy \<and> OS_TargetPort os = Proxy_TargetPort proxy"
          using http_forward_sends(2) e(1) unfolding c_def by blast
        moreover have "(\<exists>body. last effects = Reply (ct_status c) body \<and> ct_failed c \<and> ct_status c \<ge> 500) \<or>
            (\<exists>rsp. env_read_response env = Inr rsp \<and> ct_status c = Rsp_StatusCode rsp)"
          unfolding e(1) c_def by (rule http_forward_status)
        ultimately show ?thesis using Inr x p True e(2) by (intro disjI2) blast
      qed
    qed
  qed
qed

definition http_entry :: EntryConfig where
  "http_entry = \<lparr>Ent_BindHost = [], Ent_Port = 80, Ent_IncludeDefaultRoutes = True\<rparr>"

definition http_db :: DB where
  "http_db = gate_db \<lparr>db_proxies := [sample_proxy \<lparr>Proxy_AccessAuthEnabled := False\<rparr>],
     db_domain_entries := [\<lparr>DEnt_ID = ''e1'', DEnt_DomainID = ''d1'', DEnt_Protocol = DomainEntryHTTP, DEnt_BindHost = [],
       DEnt_Port = 80, DEnt_Status = DomainEntryEnabled, DEnt_CreatedAt = 1, DEnt_UpdatedAt = 1\<rparr>]\<rparr>"

lemma http_entry_routes_and_counts_witness:
  "case ServeHTTP http_entry sample_env sample_manager http_db sample_request [] of
     (effects, stats) \<Rightarrow> \<exists>status upload download failed.
        stats = memory_RecordHTTP ''p1'' status upload download failed []"
proof -
  let ?r = "ServeHTTP http_entry sample_env sample_manager http_db sample_request []"
  have e: "?r = (fst ?r, snd ?r)" by simp
  have n: "length (fst ?r) = 4" by code_simp
  have d: "(case domainEntries_ByListener http_db DomainEntryHTTP (Ent_BindHost http_entry) (Ent_Port http_entry)
         (hostWithoutPort (Req_Host sample_request)) (Ent_IncludeDefaultRoutes http_entry) of
       Inr (d, e) \<Rightarrow> Dom_ID d = ''d1'' | Inl _ \<Rightarrow> False)" by code_simp
  have p: "(case proxies_ByDomainAndPath http_db ''d1'' (Req_Path sample_request) of
       Inr x \<Rightarrow> Proxy_ID x = ''p1'' | Inl _ \<Rightarrow> False)" by code_simp
  from http_entry_routes_and_counts [OF e] show ?thesis
  proof (elim disjE exE conjE)
    fix x assume "fst ?r = [x]"
    with n show ?thesis by simp
  next
    fix proxy webDomain de status failed upload download rsp body
    assume "domainEntries_ByListener http_db DomainEntryHTTP (Ent_BindHost http_entry) (Ent_Port http_entry)
         (hostWithoutPort (Req_Host sample_request)) (Ent_IncludeDefaultRoutes http_entry) = Inr (webDomain, de)"
      and q: "proxies_ByDomainAndPath http_db (Dom_ID webDomain) (Req_Path sample_request) = Inr proxy"
      and s: "snd ?r = memory_RecordHTTP (Proxy_ID proxy) status upload download failed []"
    with d have "Dom_ID webDomain = ''d1''" by simp
    with p q have i: "Proxy_ID proxy = ''p1''" by simp
    have "\<exists>status upload download failed. snd ?r = memory_RecordHTTP ''p1'' status upload download failed []"
      using s unfolding i by blast
    then show ?thesis unfolding case_prod_beta .
    then show ?thesis .
  qed
qed

end
