(* ===== verification/ControlProps.thy ===== *)
theory ControlProps
  imports Control
begin

text \<open>
  The properties of the control plane: who is authenticated, what a connection leaves behind, what
  a consumer can reach, and that the two sides of the handshake agree.
\<close>

section \<open>Authentication\<close>

definition usable_protocol :: "AuthRequest \<Rightarrow> Protocol \<Rightarrow> bool" where
  "usable_protocol request p \<longleftrightarrow> protocol_Valid p \<and> p \<in> set (AReq_Protocols request)"

lemma selectProtocol_find:
  "selectProtocol allowed (AReq_Protocols request) = Inr p \<longleftrightarrow> List.find (usable_protocol request) allowed = Some p"
  by (induction allowed) (auto simp: usable_protocol_def)

text \<open>
  C29: the server accepts exactly the requests it should. Authentication succeeds with a result if and
  only if client id and credential are not blank, the timestamp is set and at most five minutes from
  the server's clock on either side, the client and its user are stored, the user is enabled and the
  client not disabled, the credential's hash is the stored one, and the selected protocol is the
  first of the server's allowed ones that is valid and offered; the result then is that client, that
  user, that protocol, the configured interval and the client's version.
\<close>

theorem authenticate_exactly:
  "Authenticate sha auth now db request = Inr result \<longleftrightarrow>
     \<not> blank (AReq_ClientID request) \<and> \<not> blank (AReq_Credential request) \<and>
     AReq_Timestamp request \<noteq> 0 \<and> \<bar>AReq_Timestamp request - now\<bar> \<le> 5 * Minute \<and>
     clients_ByID db (AReq_ClientID request) = Inr (AR_Client result) \<and>
     users_ByID db (Client_UserID (AR_Client result)) = Inr (AR_User result) \<and>
     User_Status (AR_User result) = UserEnabled \<and> Client_Status (AR_Client result) \<noteq> ClientDisabled \<and>
     sha (AReq_Credential request) = Client_CredentialHash (AR_Client result) \<and>
     List.find (usable_protocol request) (allowedProtocols auth) = Some (AR_SelectedProtocol result) \<and>
     AR_HeartbeatInterval result = heartbeatInterval auth \<and> AR_ConfigVersion result = Client_Version (AR_Client result)"
    (is "?l \<longleftrightarrow> ?r")
proof -
  have t: "validateTimestamp now (AReq_Timestamp request) = Inr () \<longleftrightarrow>
      AReq_Timestamp request \<noteq> 0 \<and> \<bar>AReq_Timestamp request - now\<bar> \<le> 5 * Minute"
    by (auto simp: validateTimestamp_def IsZero_def)
  have p: "List.find (usable_protocol request) (allowedProtocols auth) = Some q \<Longrightarrow> AReq_Protocols request \<noteq> []" for q
    by (auto simp: find_Some_iff usable_protocol_def)
  show ?thesis
  proof
    assume ?l
    then show ?r
      by (auto simp: Authenticate_def rbind_eq_Inr t [simplified] selectProtocol_find split: if_splits sum.splits)
  next
    assume r: ?r
    then have v: "validateTimestamp now (AReq_Timestamp request) = Inr ()"
      and sel: "selectProtocol (allowedProtocols auth) (AReq_Protocols request) = Inr (AR_SelectedProtocol result)"
      using t selectProtocol_find by blast+
    from r v sel p show ?l
      by (cases result) (simp add: Authenticate_def)
  qed
qed

section \<open>Opening a connection\<close>

text \<open>A connection either registers no session and leaves the manager alone, or registers its client's.\<close>

definition registers_session ::
    "(string \<Rightarrow> string) \<Rightarrow> Authenticator \<Rightarrow> ControlEnv \<Rightarrow> DB \<Rightarrow> Manager \<Rightarrow> AuthResult \<Rightarrow> Session \<Rightarrow> Manager \<Rightarrow> bool" where
  "registers_session sha auth env db m result reg m1 \<longleftrightarrow>
     (\<exists>request sid old. Authenticate sha auth (ce_now env) db request = Inr result \<and> ce_sessionID env = Inr sid \<and>
        manager_Register (ce_clock env) m (register_input env sid result) = Inr (reg, old, m1))"

lemma control_open_cases:
  assumes "control_open sha auth u env raw db m = (sent, go, open_id, m1)"
  shows "(go = None \<and> open_id = [] \<and> m1 = m) \<or>
    (\<exists>result reg. registers_session sha auth env db m result reg m1 \<and> open_id = Ses_ID reg \<and>
       (go = None \<or> go = Some (result, reg)))"
  using assms
  by (auto simp: control_open_def registers_session_def Let_def
      split: sum.splits if_splits prod.splits Payload.splits; blast)

lemma Register_session:
  assumes "manager_Register now m input = Inr (reg, old, m1)"
  shows "Ses_ID reg = Reg_SessionID input" "Ses_ClientID reg = Reg_ClientID input" "Reg_SessionID input \<noteq> []"
  using assms by (auto simp: manager_Register_def new_session_def Let_def split: if_splits option.splits)

section \<open>Heartbeats keep who is connected\<close>

definition ids :: "Manager \<Rightarrow> string \<Rightarrow> string option" where
  "ids m c = map_option Ses_ID (manager_Latest m c)"

lemma apply_heartbeat_ids:
  assumes "session_inv m"
  shows "session_inv (apply_heartbeat u now e m) \<and> ids (apply_heartbeat u now e m) = ids m"
proof (cases "apply_heartbeat u now e m = m")
  case False
  then obtain h s m' where h: "manager_Heartbeat now m (heartbeat_input h) = Inr (s, m')" and e: "apply_heartbeat u now e m = m'"
    by (auto simp: apply_heartbeat_def split: sum.splits Payload.splits)
  note v = Heartbeat_view [OF assms h]
  from v(2) obtain t where t: "manager_Latest m (Ses_ClientID s) = Some t" by blast
  have "session_active t" "gm_get (byID m) (Ses_ID t) = Some t" "Ses_ClientID t = Ses_ClientID s"
    using t by (simp_all add: Latest_iff [OF assms])
  moreover have "\<exists>w. gm_get (byID m) (Ses_ID s) = Some w \<and> session_active w \<and> Ses_ClientID w = Ses_ClientID s"
    using h v(3) by (auto simp: manager_Heartbeat_def Let_def session_active_def split: option.splits if_splits)
  ultimately have "Ses_ID t = Ses_ID s"
    using assms unfolding session_inv_def active_ok_def by (metis option.inject)
  then have "ids m' = ids m" using t by (auto simp: ids_def v(1) fun_eq_iff)
  moreover have "session_inv m'" using Heartbeat_inv [OF assms h] .
  ultimately show ?thesis by (simp add: e)
qed (simp add: assms)

lemma handleHeartbeats_ids:
  "session_inv m \<Longrightarrow> session_inv (handleHeartbeats u clock inp m) \<and> ids (handleHeartbeats u clock inp m) = ids m"
proof (induction u clock inp m rule: handleHeartbeats.induct)
  case (1 u clock inp m)
  show ?case
  proof (cases "ReadMessage u inp")
    case (Inl e)
    with 1(3) show ?thesis by (simp add: handleHeartbeats.simps)
  next
    case (Inr x)
    obtain e rest where x: "x = (e, rest)" by (cases x)
    show ?thesis
    proof (cases "Env_Type e = MessageHeartbeat")
      case False
      with 1(1) [OF Inr x [symmetric] False 1(3)] Inr x show ?thesis by (simp add: handleHeartbeats.simps [of u clock inp])
    next
      case True
      from apply_heartbeat_ids [OF 1(3)] 1(2) [OF Inr x [symmetric]] True Inr x
      show ?thesis by (simp add: handleHeartbeats.simps [of u clock inp])
    qed
  qed
qed

lemma handleConsumerControl_ids:
  "session_inv m \<Longrightarrow> session_inv (snd (handleConsumerControl u clock dbs i v inp m)) \<and>
     ids (snd (handleConsumerControl u clock dbs i v inp m)) = ids m"
proof (induction u clock dbs i v inp m rule: handleConsumerControl.induct)
  case (1 u clock dbs i v inp m)
  show ?case
  proof (cases "ReadMessage u inp")
    case (Inl e)
    with 1(4) show ?thesis by (simp add: handleConsumerControl.simps)
  next
    case (Inr x)
    obtain e rest where x: "x = (e, rest)" by (cases x)
    note eq = handleConsumerControl.simps [of u clock dbs i v inp m]
    consider "Env_Type e = MessageHeartbeat" | "Env_Type e = MessageProxyListRequest"
      | "Env_Type e \<noteq> MessageHeartbeat" "Env_Type e \<noteq> MessageProxyListRequest" by blast
    then show ?thesis
    proof cases
      case 1
      from apply_heartbeat_ids [OF "1.prems"] "1.IH"(1) [OF Inr x [symmetric]] 1 Inr x
      show ?thesis by (simp add: eq)
    next
      case 2
      with "1.IH"(2) [OF Inr x [symmetric] _ _ "1.prems"] Inr x show ?thesis by (simp add: eq case_prod_beta)
    next
      case 3
      with "1.IH"(3) [OF Inr x [symmetric] _ _ "1.prems"] Inr x show ?thesis by (simp add: eq)
    qed
  qed
qed

section \<open>Closing a connection\<close>

lemma closes_session:
  assumes inv: "session_inv m" and l: "ids m c = Some k"
  obtains m' where "control_close t k b m = (if b then Some c else None, m')" "session_inv m'" "ids m' = (ids m)(c := None)"
proof -
  from l obtain s where s: "manager_Latest m c = Some s" "Ses_ID s = k" by (auto simp: ids_def)
  from Close_known [OF inv s(1), of t] s(2) obtain r m' where r: "manager_Close t m k = Inr (r, True, m')" "Ses_ClientID r = c"
    by auto
  from s(1) have "gm_get (byID m) k = Some s" using s(2) by (simp add: Latest_iff [OF inv])
  then have "k \<noteq> []" using inv by (auto simp: session_inv_def keys_ok_def)
  then have "control_close t k b m = (if b then Some c else None, m')" by (simp add: control_close_def r)
  moreover have "ids m' = (ids m)(c := None)"
    using Close_view(2) [OF inv r(1)] r(2) by (auto simp: ids_def fun_eq_iff)
  ultimately show ?thesis using that Close_inv [OF inv r(1)] by blast
qed

definition only_status_changed :: "DB \<Rightarrow> string \<Rightarrow> ClientStatus \<Rightarrow> DB \<Rightarrow> bool" where
  "only_status_changed db i status db' \<longleftrightarrow>
     (\<exists>c. clients_ByID db' i = Inr c \<and> Client_Status c = status) \<and>
     (\<forall>j. j \<noteq> i \<longrightarrow> clients_ByID db' j = clients_ByID db j)"

lemma find_sql_update_other: "(\<And>r. P r \<Longrightarrow> \<not> Q r) \<Longrightarrow> (\<And>r. P r \<Longrightarrow> \<not> Q (f r)) \<Longrightarrow> find Q (sql_update P f rows) = find Q rows"
  by (induction rows) (auto simp: sql_update_def)

lemma find_sql_update_same: "(\<And>r. P r \<Longrightarrow> P (f r)) \<Longrightarrow> find P (sql_update P f rows) = map_option f (find P rows)"
  by (induction rows) (auto simp: sql_update_def)

lemma scanClient_simps [simp]: "Client_Status (scanClient c) = Client_Status c"
  by (simp add: scanClient_def)

lemma setClientRuntimeStatus_known:
  assumes c: "clients_ByID db i = Inr c" and e: "Client_Status c \<noteq> ClientDisabled"
  shows "if IsSystemClientID i then setClientRuntimeStatus now i status db = (False, db)
    else \<exists>db'. setClientRuntimeStatus now i status db = (True, db') \<and> only_status_changed db i status db'"
proof (cases "IsSystemClientID i")
  case True
  with c e show ?thesis
    by (simp add: setClientRuntimeStatus_def clients_SetStatus_def ProtectClientMutation_def reject_if_def slift_def sbind_def)
next
  case False
  from c obtain r where r: "find (\<lambda>c. Client_ID c = i) (db_clients db) = Some r"
    by (auto simp: clients_ByID_def sql_one_def split: option.splits)
  then have "sql_affected (\<lambda>c. Client_ID c = i) (db_clients db) \<noteq> 0" by (auto simp: sql_affected_0 dest: find_SomeD)
  then have "\<exists>f. (\<forall>x. Client_ID (f x) = Client_ID x \<and> Client_Status (f x) = status) \<and>
      setClientRuntimeStatus now i status db =
        (True, db \<lparr>db_clients := sql_update (\<lambda>c. Client_ID c = i) f (db_clients db)\<rparr>)"
    using c e False
    apply (simp add: setClientRuntimeStatus_def clients_SetStatus_def ProtectClientMutation_def reject_if_def slift_def
        sbind_def update_client_def resultError_def)
    apply (rule exI, rule conjI)
     prefer 2
     apply (rule refl)
    by simp
  then obtain f where f: "\<And>x. Client_ID (f x) = Client_ID x" "\<And>x. Client_Status (f x) = status"
    and s: "setClientRuntimeStatus now i status db =
        (True, db \<lparr>db_clients := sql_update (\<lambda>c. Client_ID c = i) f (db_clients db)\<rparr>)" by blast
  have "only_status_changed db i status (db \<lparr>db_clients := sql_update (\<lambda>c. Client_ID c = i) f (db_clients db)\<rparr>)"
    using r by (auto simp: only_status_changed_def clients_ByID_def sql_one_def find_sql_update_same find_sql_update_other f)
  with False s show ?thesis by simp
qed

lemma clients_ByID_id: "clients_ByID db i = Inr c \<Longrightarrow> Client_ID c = i"
  by (cases "sql_one (\<lambda>c. Client_ID c = i) (db_clients db)") (auto simp: clients_ByID_def scanClient_def dest: sql_one_Inr)

lemma online_then_offline:
  assumes known: "clients_ByID db c = Inr client" "Client_Status client \<noteq> ClientDisabled"
    and st: "setClientRuntimeStatus now c ClientOnline db = (online, db1)"
  shows "control_offline later (if online then Some c else None) db1 = db \<or>
    only_status_changed db c ClientOffline (control_offline later (if online then Some c else None) db1)"
proof (cases online)
  case False
  with setClientRuntimeStatus_known [OF known, of now ClientOnline] st show ?thesis
    by (auto simp: control_offline_def split: if_splits)
next
  case True
  with setClientRuntimeStatus_known [OF known, of now ClientOnline] st
  have ns: "\<not> IsSystemClientID c" and on: "only_status_changed db c ClientOnline db1" by (auto split: if_splits)
  then obtain w where w: "clients_ByID db1 c = Inr w" "Client_Status w \<noteq> ClientDisabled"
    by (auto simp: only_status_changed_def)
  from setClientRuntimeStatus_known [OF w, of later ClientOffline] ns True on show ?thesis
    by (auto simp: control_offline_def only_status_changed_def)
qed


section \<open>The handshake\<close>

lemma request_arrives:
  assumes law: "proto_law marshal unmarshal" and cid: "AReq_ClientID request \<noteq> []"
    and ts: "time_exact (AReq_Timestamp request)"
    and w: "WriteMessage marshal MessageAuthRequest (PAuthRequest request) = Inr sent"
  obtains e where "ReadMessage unmarshal (sent @ rest) = Inr (e, rest)" "Env_Type e = MessageAuthRequest"
    "DecodePayload unmarshal KAuthRequest e = Inr (PAuthRequest request)"
proof -
  from message_read_back [OF law w, of rest] ts obtain ps
    where m: "marshal (authRequestToProto request) = Inr ps"
      and r: "ReadMessage unmarshal (sent @ rest) = Inr (\<lparr>Env_Type = MessageAuthRequest, Env_Payload = ps\<rparr>, rest)"
      and d: "DecodePayload unmarshal KAuthRequest \<lparr>Env_Type = MessageAuthRequest, Env_Payload = ps\<rparr> =
        (if ps = [] then Inl (New ''message payload is required'') else Inr (PAuthRequest request))"
    by (auto simp: authRequestToProto_def may_be_empty_def simp del: DecodePayload.simps)
  have "ps \<noteq> []" by (rule proto_lawD(4) [OF law m [unfolded authRequestToProto_def] cid])
  with r d that show ?thesis by simp
qed

lemma response_arrives:
  assumes law: "proto_law marshal unmarshal"
    and w: "WriteMessage marshal MessageAuthResponse (PAuthResponse response) = Inr sent"
  obtains e where "ReadMessage unmarshal (sent @ rest) = Inr (e, rest)" "Env_Type e = MessageAuthResponse"
    "DecodePayload unmarshal KAuthResponse e = Inr (PAuthResponse response) \<or>
     (\<not> ARsp_Accepted response \<and> (\<exists>err. DecodePayload unmarshal KAuthResponse e = Inl err))"
proof -
  from message_read_back [OF law w, of rest] obtain ps
    where m: "marshal (authResponseToProto response) = Inr ps"
      and r: "ReadMessage unmarshal (sent @ rest) = Inr (\<lparr>Env_Type = MessageAuthResponse, Env_Payload = ps\<rparr>, rest)"
      and d: "DecodePayload unmarshal KAuthResponse \<lparr>Env_Type = MessageAuthResponse, Env_Payload = ps\<rparr> =
        (if ps = [] then Inl (New ''message payload is required'') else Inr (PAuthResponse response))"
    by (auto simp: authResponseToProto_def may_be_empty_def simp del: DecodePayload.simps)
  have "ps \<noteq> []" if "ARsp_Accepted response"
    using proto_lawD(5) [OF law] m that by (simp add: authResponseToProto_def)
  with r d that show ?thesis by (cases "ps = []") auto
qed

text \<open>The first message the server sends for a request that arrived, and what it means.\<close>

definition opened_for :: "(string \<Rightarrow> string) \<Rightarrow> Authenticator \<Rightarrow> ControlEnv \<Rightarrow> DB \<Rightarrow> AuthRequest \<Rightarrow> AuthResponse \<Rightarrow> bool" where
  "opened_for sha auth env db request response \<longleftrightarrow>
     (\<exists>result. Authenticate sha auth (ce_now env) db request = Inr result \<and>
        ce_sessionID env = Inr (ARsp_SessionID response) \<and>
        ARsp_SelectedProtocol response = AR_SelectedProtocol result \<and>
        ARsp_HeartbeatInterval response = AR_HeartbeatInterval result \<and>
        ARsp_ConfigVersion response = AR_ConfigVersion result)"

lemma control_open_answer:
  assumes "ReadMessage u raw = Inr (e, rest)" "Env_Type e = MessageAuthRequest"
    and "DecodePayload u KAuthRequest e = Inr (PAuthRequest request)"
    and "control_open sha auth u env raw db m = (first # others, go, open_id, m1)"
  shows "\<exists>response. first = PAuthResponse response \<and>
    (ARsp_Accepted response \<longrightarrow> opened_for sha auth env db request response)"
proof (cases "Authenticate sha auth (ce_now env) db request")
  case (Inl err)
  then show ?thesis using assms(4) by (auto simp: control_open_def assms(1-3) deny_def simp del: DecodePayload.simps)
next
  case (Inr result)
  show ?thesis
  proof (cases "ce_sessionID env")
    case (Inl err)
    then show ?thesis using assms(4) Inr by (auto simp: control_open_def assms(1-3) deny_def simp del: DecodePayload.simps)
  next
    case sid: (Inr sid)
    have id: "Ses_ID reg = sid" if "manager_Register t m (register_input env sid result) = Inr (reg, old, m')" for t reg old m'
      using Register_session(1) [OF that] by (simp add: register_input_def)
    have acc: "\<exists>response. accept result sid = PAuthResponse response \<and>
        (ARsp_Accepted response \<longrightarrow> opened_for sha auth env db request response)"
      by (simp add: accept_def opened_for_def Inr sid)
    have "first = accept result sid \<or> (\<exists>e. first = deny e)"
      using assms(4) unfolding control_open_def assms(1)
      by (cases "ce_mux env"; cases "manager_Register (ce_clock env) m (register_input env sid result)";
          cases "ce_write_auth env"; cases "ce_write_list env";
          simp add: assms(2,3) Inr sid Let_def del: DecodePayload.simps split: prod.splits; auto simp: id)
    then show ?thesis using acc by (auto simp: deny_def)
  qed
qed

text \<open>
  C31: the client believes it is connected exactly when the server said so, and to what the server
  decided. Let the client send its request over the wire to a server that opens the connection with
  some answers, and let the first answer travel back: it is an authentication response; if it accepts,
  then the server's authentication of exactly the client's request succeeded and the client gets its
  connection with the session id, protocol, heartbeat interval and configuration version that the
  server chose; if it refuses, the client gets no connection.
\<close>

theorem handshake_agrees:
  assumes law: "proto_law marshal unmarshal"
    and cid: "AReq_ClientID request \<noteq> []" and ts: "time_exact (AReq_Timestamp (client_request now request))"
    and w: "WriteMessage marshal MessageAuthRequest (PAuthRequest (client_request now request)) = Inr sent"
    and o: "control_open sha auth unmarshal env (sent @ rest) db m = (first # others, go, open_id, m1)"
    and r: "WriteMessage marshal MessageAuthResponse first = Inr reply"
  shows "\<exists>response. first = PAuthResponse response \<and>
    (if ARsp_Accepted response
     then opened_for sha auth env db (client_request now request) response \<and>
       authenticateClient marshal unmarshal now request protocol (reply @ rest') = Inr (Some protocol, response)
     else \<forall>p v. authenticateClient marshal unmarshal now request protocol (reply @ rest') \<noteq> Inr (Some p, v))"
proof -
  have "AReq_ClientID (client_request now request) \<noteq> []" using cid by (simp add: client_request_def)
  from request_arrives [OF law this ts w, of rest] obtain e
    where "ReadMessage unmarshal (sent @ rest) = Inr (e, rest)" "Env_Type e = MessageAuthRequest"
      "DecodePayload unmarshal KAuthRequest e = Inr (PAuthRequest (client_request now request))" .
  from control_open_answer [OF this o] obtain response
    where f: "first = PAuthResponse response"
      and a: "ARsp_Accepted response \<Longrightarrow> opened_for sha auth env db (client_request now request) response" by blast
  from response_arrives [OF law r [unfolded f], of rest'] obtain e'
    where "ReadMessage unmarshal (reply @ rest') = Inr (e', rest')" "Env_Type e' = MessageAuthResponse"
      "DecodePayload unmarshal KAuthResponse e' = Inr (PAuthResponse response) \<or>
       (\<not> ARsp_Accepted response \<and> (\<exists>err. DecodePayload unmarshal KAuthResponse e' = Inl err))" .
  then show ?thesis
    using f a w by (auto simp: authenticateClient_def simp del: DecodePayload.simps)
qed

section \<open>A concrete connection\<close>

definition sample_request :: AuthRequest where
  "sample_request = \<lparr>AReq_ClientID = ''c1'', AReq_Credential = ''k'', AReq_Nonce = ''n'', AReq_Timestamp = unix_epoch + 10,
     AReq_Version = ''1'', AReq_Protocols = [''tcp_tls'', ''quic'']\<rparr>"

definition sample_auth :: Authenticator where
  "sample_auth = \<lparr>Auth_AllowedProtocols = [], Auth_HeartbeatInterval = 0\<rparr>"

definition sample_connection :: ControlEnv where
  "sample_connection = \<lparr>ce_now = unix_epoch + 20, ce_clock = 30, ce_sessionID = Inr ''s1'', ce_opener = 1, ce_mux = False,
     ce_write_auth = Inr (), ce_write_list = Inr ()\<rparr>"

definition sample_response :: AuthResponse where
  "sample_response = \<lparr>ARsp_Accepted = True, ARsp_SessionID = ''s1'', ARsp_SelectedProtocol = ''quic'',
     ARsp_HeartbeatInterval = 15 * Second, ARsp_ConfigVersion = 0, ARsp_Reason = []\<rparr>"

definition sample_table :: "(pb \<times> byte list) list" where
  "sample_table = [(authRequestToProto sample_request, [1]), (PbEnvelope 1 [1], [2]),
     (authResponseToProto sample_response, [3]), (PbEnvelope 2 [3], [4])]"

abbreviation (input) sample_codec :: marshal where "sample_codec \<equiv> table_marshal sample_table"
abbreviation (input) sample_decoder :: unmarshal where "sample_decoder \<equiv> table_unmarshal sample_table"

lemma sample_table_law: "proto_law sample_codec sample_decoder"
  by (rule table_law) (simp_all add: sample_table_def)

lemma sample_sent: "WriteMessage sample_codec MessageAuthRequest (PAuthRequest (client_request 7 sample_request)) = Inr [0, 0, 0, 1, 2]"
  by code_simp

definition sample_opened :: Manager where
  "sample_opened = \<lparr>nextGeneration = 1,
     byID = [(''s1'', \<lparr>Ses_ID = ''s1'', Ses_ClientID = ''c1'', Ses_UserID = ''u1'', Ses_ClientKind = ClientKindProvider,
       Ses_Protocol = ''quic'', Ses_Generation = 1, Ses_ConfigVersion = 0, Ses_ConnectedAt = 30, Ses_LastHeartbeat = 30,
       Ses_ReplacedAt = None, Ses_ClosedAt = None, Ses_Stats = zeroStats, Ses_StreamOpener = Some 1, Ses_Persistent = False\<rparr>)],
     latestByClient = [(''c1'', ''s1'')]\<rparr>"

lemma sample_open: "control_open (\<lambda>_. ''h'') sample_auth sample_decoder sample_connection [0, 0, 0, 1, 2] sample_db NewManager =
   ([PAuthResponse sample_response, sendProxySnapshot sample_db ''c1'' 0],
    Some (\<lparr>AR_Client = sample_client, AR_User = sample_user, AR_SelectedProtocol = ''quic'',
           AR_HeartbeatInterval = 15 * Second, AR_ConfigVersion = 0\<rparr>, session_at (byID sample_opened) ''s1''),
    ''s1'', sample_opened)"
  by code_simp


lemma handshake_agrees_witness:
  "authenticateClient sample_codec sample_decoder 7 sample_request ''quic'' ([0, 0, 0, 1, 4] @ [9]) =
     Inr (Some ''quic'', sample_response)"
proof -
  have r: "WriteMessage sample_codec MessageAuthResponse (PAuthResponse sample_response) = Inr [0, 0, 0, 1, 4]"
    by code_simp
  have c: "AReq_ClientID sample_request \<noteq> []" "time_exact (AReq_Timestamp (client_request 7 sample_request))"
    by code_simp+
  have a: "ARsp_Accepted sample_response" by (simp add: sample_response_def)
  obtain go where o: "control_open (\<lambda>_. ''h'') sample_auth sample_decoder sample_connection ([0, 0, 0, 1, 2] @ [])
      sample_db NewManager = ([PAuthResponse sample_response, sendProxySnapshot sample_db ''c1'' 0], go, ''s1'', sample_opened)"
    unfolding append_Nil2 sample_open by blast
  from handshake_agrees [OF sample_table_law c sample_sent o r, of "''quic''" "[9]"] a
  show ?thesis by (simp del: append.simps)
qed

section \<open>The consumer's streams\<close>

text \<open>What has to hold for a consumer of \<open>userID\<close> to reach \<open>proxy\<close> through the session \<open>opener\<close> belongs to.\<close>

definition may_reach :: "string \<Rightarrow> DB \<Rightarrow> Manager \<Rightarrow> OpenStream \<Rightarrow> Proxy \<Rightarrow> int \<Rightarrow> bool" where
  "may_reach userID db m request proxy opener \<longleftrightarrow>
     proxies_ByID db (OS_ProxyID request) = Inr proxy \<and> Proxy_UserID proxy = userID \<and> Proxy_Status proxy = ProxyEnabled \<and>
     (\<exists>provider. manager_Latest m (Proxy_ClientID proxy) = Some provider \<and> session_active provider \<and>
        Ses_ClientKind provider \<noteq> ClientKindConsumer \<and> Ses_StreamOpener provider = Some opener)"

definition asked :: "unmarshal \<Rightarrow> byte list \<Rightarrow> OpenStream \<Rightarrow> bool" where
  "asked u inp request \<longleftrightarrow> (\<exists>e rest. ReadMessage u inp = Inr (e, rest) \<and> Env_Type e = MessageOpenStream \<and>
     DecodePayload u KOpenStream e = Inr (POpenStream request))"

lemma handleSDKStream_effects:
  assumes "handleSDKStream u open_stream write inp userID db m \<noteq> []"
  shows "\<exists>request proxy opener. asked u inp request \<and> may_reach userID db m request proxy opener"
  using assms
  by (auto simp: handleSDKStream_def asked_def may_reach_def session_active_def Let_def simp del: DecodePayload.simps
      split: sum.splits prod.splits if_splits Payload.splits option.splits)

definition provider_request :: "OpenStream \<Rightarrow> Proxy \<Rightarrow> OpenStream" where
  "provider_request request proxy =
     \<lparr>OS_Kind = proxyTypeToStreamKind (Proxy_Type proxy), OS_ProxyID = Proxy_ID proxy,
      OS_ConnectionID = OS_ConnectionID request, OS_TargetHost = Proxy_TargetHost proxy,
      OS_TargetPort = Proxy_TargetPort proxy\<rparr>"

lemma handleSDKStream_reach:
  assumes "asked u inp request" and "may_reach userID db m request proxy opener"
  shows "handleSDKStream u open_stream write inp userID db m =
    ProviderOpen opener #
      (case open_stream opener of Inl _ \<Rightarrow> []
       | Inr _ \<Rightarrow> ProviderSend (provider_request request proxy) #
           (case write (provider_request request proxy) of Inl _ \<Rightarrow> [] | Inr _ \<Rightarrow> [Bridge]))"
  using assms
  by (auto simp: handleSDKStream_def asked_def may_reach_def session_active_def provider_request_def Let_def
      simp del: DecodePayload.simps split: sum.splits)

text \<open>
  C32: a consumer reaches exactly its user's live proxies, and only their configured targets. The
  server opens a stream of a provider for a consumer if and only if the bytes of the consumer's
  stream ask for a proxy that is stored, belongs to the consumer's user and is enabled, and whose
  client has an active session that is not a consumer's; the stream is opened on that session, the
  request it sends names the stored target of the proxy and its stream kind, whatever target the
  consumer asked for, and the two streams are joined only after that request was written.
\<close>

theorem sdk_stream_authorized:
  "(ProviderOpen opener \<in> set (handleSDKStream u open_stream write inp userID db m) \<longleftrightarrow>
      (\<exists>request proxy. asked u inp request \<and> may_reach userID db m request proxy opener)) \<and>
   (ProviderSend out \<in> set (handleSDKStream u open_stream write inp userID db m) \<longleftrightarrow>
      (\<exists>request proxy op. asked u inp request \<and> may_reach userID db m request proxy op \<and> open_stream op = Inr () \<and>
         out = provider_request request proxy)) \<and>
   (Bridge \<in> set (handleSDKStream u open_stream write inp userID db m) \<longleftrightarrow>
      (\<exists>request proxy op. asked u inp request \<and> may_reach userID db m request proxy op \<and> open_stream op = Inr () \<and>
         write (provider_request request proxy) = Inr ()))"
proof (cases "handleSDKStream u open_stream write inp userID db m = []")
  case True
  then have "\<not> (asked u inp request \<and> may_reach userID db m request proxy op)" for request proxy op
    using handleSDKStream_reach [of u inp request userID db m proxy op open_stream "write"] by auto
  with True show ?thesis by auto
next
  case False
  from handleSDKStream_effects [OF this] obtain request proxy op
    where a: "asked u inp request" and r: "may_reach userID db m request proxy op" by blast
  have uniq: "request' = request \<and> proxy' = proxy \<and> op' = op"
    if "asked u inp request'" "may_reach userID db m request' proxy' op'" for request' proxy' op'
    using that a r by (auto simp: asked_def may_reach_def simp del: DecodePayload.simps)
  have ex: "(\<exists>request' proxy' op'. asked u inp request' \<and> may_reach userID db m request' proxy' op' \<and> P request' proxy' op')
      \<longleftrightarrow> P request proxy op" for P
    using uniq a r by blast
  show ?thesis
    using ex [of "\<lambda>_ _ o'. o' = opener"] ex [of "\<lambda>r p o'. open_stream o' = Inr () \<and> out = provider_request r p"]
      ex [of "\<lambda>r p o'. open_stream o' = Inr () \<and> write (provider_request r p) = Inr ()"]
    by (auto simp: handleSDKStream_reach [OF a r] split: sum.splits)
qed

section \<open>The deferred status\<close>

text \<open>
  The deferred function closes the session and then sets the status in two steps. A client that
  reconnects in between: its first connection is open and the client online, the connection closes
  its session, the second one opens and sets the status, and then the first sets it.
\<close>

definition second_connection :: ControlEnv where
  "second_connection = sample_connection \<lparr>ce_sessionID := Inr ''s2'', ce_clock := 60, ce_opener := 2\<rparr>"

definition handleControl_first :: "DB \<times> Manager" where
  "handleControl_first = (snd (setClientRuntimeStatus 30 ''c1'' ClientOnline sample_db), sample_opened)"

definition reconnect_interleaved :: "DB \<times> Manager" where
  "reconnect_interleaved =
     (case handleControl_first of (db1, m1) \<Rightarrow>
      case control_close 50 ''s1'' True m1 of (late, m2) \<Rightarrow>
      case control_open (\<lambda>_. ''h'') sample_auth sample_decoder second_connection [0, 0, 0, 1, 2] db1 m2 of
        (_, _, _, m3) \<Rightarrow>
      case setClientRuntimeStatus 60 ''c1'' ClientOnline db1 of (_, db3) \<Rightarrow> (control_offline 70 late db3, m3))"

text \<open>
  The status of a reconnecting client can be lost. There is an interleaving of two connections of
  one client, the deferred function of the first with the whole opening of the second, after which
  the client has an active session with an open connection and is nevertheless stored as offline.
\<close>

theorem reconnect_leaves_client_offline:
  "ids (snd reconnect_interleaved) ''c1'' = Some ''s2'' \<and>
   map_option session_active (manager_Latest (snd reconnect_interleaved) ''c1'') = Some True \<and>
   map_sum id Client_Status (clients_ByID (fst reconnect_interleaved) ''c1'') = Inr ClientOffline"
  by code_simp

end
