(* ===== verification/Mux.thy ===== *)
theory Mux
  imports Protocol
begin

text \<open>
  The stream multiplexer of the TLS transport, internal/control/mux.go: many streams over one
  connection of frames. One end of the connection is a record; its streams live in a list of
  objects, because callers keep a pointer to a stream after the multiplexer has forgotten its id.
  Every method is a function of that record; a method that would block gives \<open>None\<close>. What
  writing a frame to the connection returns is the argument \<open>conn\<close>.
\<close>

section \<open>State\<close>

record MuxStream =
  St_ID :: int
  St_Inbound :: "byte list list"
  St_ReadBuf :: "byte list"
  St_Closed :: bool

record Mux =
  mx_started :: bool
  mx_closed :: bool
  mx_nextID :: int
  mx_localID :: int
  mx_streams :: "(int, nat) gomap"
  mx_objects :: "MuxStream list"
  mx_accept :: "nat list"
  mx_sent :: "MuxFrame list"

abbreviation errMuxClosed :: error where "errMuxClosed \<equiv> New ''tcp tls mux closed''"
abbreviation ErrClosedPipe :: error where "ErrClosedPipe \<equiv> New ''io: read/write on closed pipe''"
abbreviation maxMuxStreams :: int where "maxMuxStreams \<equiv> 256"

text \<open>The capacities of the channels.\<close>

abbreviation acceptCapacity :: int where "acceptCapacity \<equiv> 128"
abbreviation inboundCapacity :: int where "inboundCapacity \<equiv> 32"

definition newMuxStream :: "int \<Rightarrow> MuxStream" where
  "newMuxStream i = \<lparr>St_ID = i, St_Inbound = [], St_ReadBuf = [], St_Closed = False\<rparr>"

definition newTCPTLSMux :: "int \<Rightarrow> Mux" where
  "newTCPTLSMux nextID =
     \<lparr>mx_started = False, mx_closed = False, mx_nextID = nextID, mx_localID = nextID mod 2, mx_streams = [(0, 0)],
      mx_objects = [newMuxStream 0], mx_accept = [], mx_sent = []\<rparr>"

section \<open>Streams\<close>

definition mux_stream :: "Mux \<Rightarrow> int \<Rightarrow> nat option" where
  "mux_stream m i = gm_get (mx_streams m) i"

definition stream_object :: "Mux \<Rightarrow> nat \<Rightarrow> MuxStream" where
  "stream_object m r = mx_objects m ! r"

definition put_object :: "nat \<Rightarrow> MuxStream \<Rightarrow> Mux \<Rightarrow> Mux" where
  "put_object r s m = m \<lparr>mx_objects := (mx_objects m)[r := s]\<rparr>"

text \<open>A new object under its id, and its pointer.\<close>

definition add_stream :: "int \<Rightarrow> Mux \<Rightarrow> nat \<times> Mux" where
  "add_stream i m =
     (let r = length (mx_objects m)
      in (r, m \<lparr>mx_streams := gm_put i r (mx_streams m), mx_objects := mx_objects m @ [newMuxStream i]\<rparr>))"

definition mux_removeStream :: "int \<Rightarrow> Mux \<Rightarrow> Mux" where
  "mux_removeStream i m = (if i = 0 then m else m \<lparr>mx_streams := gm_del i (mx_streams m)\<rparr>)"

definition stream_finish :: "nat \<Rightarrow> Mux \<Rightarrow> Mux" where
  "stream_finish r m = put_object r ((stream_object m r) \<lparr>St_Closed := True\<rparr>) m"

definition stream_remoteClose :: "nat \<Rightarrow> Mux \<Rightarrow> Mux" where
  "stream_remoteClose r m = mux_removeStream (St_ID (stream_object m r)) (stream_finish r m)"

definition mux_ControlStream :: "Mux \<Rightarrow> nat option" where
  "mux_ControlStream m = mux_stream m 0"

definition mux_Start :: "Mux \<Rightarrow> Mux" where
  "mux_Start m = (if mx_started m \<or> mx_closed m then m else m \<lparr>mx_started := True\<rparr>)"

definition mux_closeAll :: "Mux \<Rightarrow> Mux" where
  "mux_closeAll m =
     (if mx_closed m then m
      else fold (\<lambda>(i, r). stream_remoteClose r) (mx_streams m) (m \<lparr>mx_closed := True, mx_streams := []\<rparr>))"

definition mux_writeFrame :: "(MuxFrame \<Rightarrow> unit result) \<Rightarrow> MuxFrame \<Rightarrow> Mux \<Rightarrow> unit result \<times> Mux" where
  "mux_writeFrame conn frame m =
     (if mx_closed m then (Inl errMuxClosed, m)
      else (case conn frame of
              Inl e \<Rightarrow> (Inl e, m)
            | Inr _ \<Rightarrow> (Inr (), m \<lparr>mx_sent := mx_sent m @ [frame]\<rparr>)))"

section \<open>Opening and accepting\<close>

text \<open>The loop over the ids, a uint64; it need not end on a map that holds every id of a parity.\<close>

partial_function (option) mux_nextAvailableStreamID :: "(int, nat) gomap \<Rightarrow> int \<Rightarrow> (int \<times> int) option" where
  "mux_nextAvailableStreamID streams nextID =
     (if gm_get streams nextID = None then Some (nextID, (nextID + 2) mod 18446744073709551616)
      else mux_nextAvailableStreamID streams ((nextID + 2) mod 18446744073709551616))"

declare mux_nextAvailableStreamID.simps [code]

definition control_frame :: "int \<Rightarrow> MuxFrameType \<Rightarrow> string \<Rightarrow> MuxFrame" where
  "control_frame i ty reason = \<lparr>MF_StreamID = i, MF_Type = ty, MF_Payload = [], MF_Reason = reason\<rparr>"

definition data_frame :: "int \<Rightarrow> byte list \<Rightarrow> MuxFrame" where
  "data_frame i payload = \<lparr>MF_StreamID = i, MF_Type = MuxFrameData, MF_Payload = payload, MF_Reason = []\<rparr>"

definition mux_OpenStream :: "(MuxFrame \<Rightarrow> unit result) \<Rightarrow> Mux \<Rightarrow> (nat result \<times> Mux) option" where
  "mux_OpenStream conn m =
     (if mx_closed m then Some (Inl errMuxClosed, m)
      else if \<not> mx_started m then None
      else if int (length (mx_streams m)) \<ge> maxMuxStreams then Some (Inl (New ''too many mux streams''), m)
      else (case mux_nextAvailableStreamID (mx_streams m) (mx_nextID m) of
              None \<Rightarrow> None
            | Some (streamID, nextID) \<Rightarrow>
                (case add_stream streamID (m \<lparr>mx_nextID := nextID\<rparr>) of
                   (r, m1) \<Rightarrow>
                     Some (case mux_writeFrame conn (control_frame streamID MuxFrameOpen []) m1 of
                             (Inl e, m2) \<Rightarrow> (Inl e, mux_removeStream streamID m2)
                           | (Inr _, m2) \<Rightarrow> (Inr r, m2)))))"

text \<open>Of a pending stream and a closed multiplexer, the select takes either: \<open>closed_first\<close>.\<close>

definition mux_AcceptStream :: "bool \<Rightarrow> Mux \<Rightarrow> (nat result \<times> Mux) option" where
  "mux_AcceptStream closed_first m =
     (case mx_accept m of
        [] \<Rightarrow> (if mx_closed m then Some (Inl errMuxClosed, m) else None)
      | r # rs \<Rightarrow>
          (if mx_closed m \<and> closed_first then Some (Inl errMuxClosed, m)
           else Some (Inr r, m \<lparr>mx_accept := rs\<rparr>)))"

section \<open>The read loop\<close>

definition mux_handleOpen :: "(MuxFrame \<Rightarrow> unit result) \<Rightarrow> int \<Rightarrow> Mux \<Rightarrow> Mux" where
  "mux_handleOpen conn streamID m =
     (if streamID = 0 \<or> streamID mod 2 = mx_localID m
        then snd (mux_writeFrame conn (control_frame streamID MuxFrameReset ''invalid stream id'') m)
      else if mx_closed m \<or> int (length (mx_streams m)) \<ge> maxMuxStreams then m
      else if mux_stream m streamID \<noteq> None
        then snd (mux_writeFrame conn (control_frame streamID MuxFrameReset ''duplicate stream id'') m)
      else (case add_stream streamID m of
              (r, m1) \<Rightarrow>
                (if int (length (mx_accept m1)) < acceptCapacity then m1 \<lparr>mx_accept := mx_accept m1 @ [r]\<rparr>
                 else snd (mux_writeFrame conn (control_frame streamID MuxFrameReset ''accept queue full'')
                             (stream_remoteClose r (mux_removeStream streamID m1))))))"

text \<open>deliver blocks the read loop while the stream's channel is full and the stream open.\<close>

definition stream_deliver :: "byte list \<Rightarrow> MuxStream \<Rightarrow> MuxStream option" where
  "stream_deliver payload s =
     (if St_Closed s then Some s
      else if int (length (St_Inbound s)) < inboundCapacity then Some (s \<lparr>St_Inbound := St_Inbound s @ [payload]\<rparr>)
      else None)"

definition mux_handleFrame :: "(MuxFrame \<Rightarrow> unit result) \<Rightarrow> MuxFrame \<Rightarrow> Mux \<Rightarrow> Mux option" where
  "mux_handleFrame conn frame m =
     (if MF_Type frame = MuxFrameOpen then Some (mux_handleOpen conn (MF_StreamID frame) m)
      else if MF_Type frame = MuxFrameData then
        (case mux_stream m (MF_StreamID frame) of
           None \<Rightarrow> Some m
         | Some r \<Rightarrow> map_option (\<lambda>s. put_object r s m) (stream_deliver (MF_Payload frame) (stream_object m r)))
      else if MF_Type frame = MuxFrameClose \<or> MF_Type frame = MuxFrameReset then
        (case mux_stream m (MF_StreamID frame) of None \<Rightarrow> Some m | Some r \<Rightarrow> Some (stream_remoteClose r m))
      else Some m)"

text \<open>
  The whole loop over what arrives on the connection: \<open>None\<close> when it blocks before the input ends,
  otherwise the state after the first read error, with everything closed.
\<close>

lemma ReadMuxFrame_shorter: "ReadMuxFrame u inp = Inr (f, rest) \<Longrightarrow> length rest < length inp"
  by (auto simp: ReadMuxFrame_def get_frame_def read_full_def rbind_eq_Inr Let_def blen_def split: if_splits option.splits)

function mux_readLoop :: "unmarshal \<Rightarrow> (MuxFrame \<Rightarrow> unit result) \<Rightarrow> byte list \<Rightarrow> Mux \<Rightarrow> Mux option" where
  "mux_readLoop u conn inp m =
     (case ReadMuxFrame u inp of
        Inl _ \<Rightarrow> Some (mux_closeAll m)
      | Inr (frame, rest) \<Rightarrow>
          (case mux_handleFrame conn frame m of None \<Rightarrow> None | Some m' \<Rightarrow> mux_readLoop u conn rest m'))"
  by pat_completeness auto
termination by (relation "measure (\<lambda>(u, c, inp, m). length inp)") (auto dest: ReadMuxFrame_shorter)

declare mux_readLoop.simps [simp del]

section \<open>Reading and writing a stream\<close>

text \<open>
  Read with a buffer of \<open>n\<close> bytes, \<open>None\<close> for EOF. When both a payload is waiting and the stream is
  finished, the select takes either branch: the relation has both outcomes.
\<close>

inductive stream_Read :: "int \<Rightarrow> MuxStream \<Rightarrow> byte list option \<Rightarrow> MuxStream \<Rightarrow> bool" for n :: int where
  read_buffered: "St_ReadBuf s \<noteq> [] \<Longrightarrow>
     stream_Read n s (Some (take (nat n) (St_ReadBuf s))) (s \<lparr>St_ReadBuf := drop (nat n) (St_ReadBuf s)\<rparr>)"
| read_receive: "St_ReadBuf s = [] \<Longrightarrow> St_Inbound s = p # ps \<Longrightarrow>
     stream_Read n (s \<lparr>St_ReadBuf := p, St_Inbound := ps\<rparr>) out s' \<Longrightarrow> stream_Read n s out s'"
| read_eof: "St_ReadBuf s = [] \<Longrightarrow> St_Closed s \<Longrightarrow> stream_Read n s None s"

inductive_cases stream_ReadE: "stream_Read n s out s'"

text \<open>Write: the payloads of the frames, the number of bytes written and the error.\<close>

definition split_payload :: "byte list \<Rightarrow> byte list \<times> byte list" where
  "split_payload p =
     (if blen p \<le> maxMuxPayloadSize then (p, []) else (take (nat maxMuxPayloadSize) p, drop (nat maxMuxPayloadSize) p))"

lemma split_payload: "split_payload p = (a, b) \<Longrightarrow> p \<noteq> [] \<Longrightarrow> p = a @ b \<and> a \<noteq> [] \<and> blen a \<le> maxMuxPayloadSize \<and> length b < length p"
  by (auto simp: split_payload_def blen_def split: if_splits)

function stream_write_loop ::
    "(MuxFrame \<Rightarrow> unit result) \<Rightarrow> nat \<Rightarrow> byte list \<Rightarrow> int \<Rightarrow> Mux \<Rightarrow> (int \<times> error option) \<times> Mux" where
  "stream_write_loop conn r p written m =
     (if p = [] then ((written, None), m)
      else if St_Closed (stream_object m r) then ((written, Some ErrClosedPipe), m)
      else (case split_payload p of
              (chunk, rest) \<Rightarrow>
                (case mux_writeFrame conn (data_frame (St_ID (stream_object m r)) chunk) m of
                   (Inl e, m') \<Rightarrow> ((written, Some e), m')
                 | (Inr _, m') \<Rightarrow> stream_write_loop conn r rest (written + blen chunk) m')))"
  by pat_completeness auto
termination
  by (relation "measure (\<lambda>(c, r, p, w, m). length p)") (auto dest: split_payload [OF sym])

declare stream_write_loop.simps [simp del]

definition stream_Write ::
    "(MuxFrame \<Rightarrow> unit result) \<Rightarrow> nat \<Rightarrow> byte list \<Rightarrow> Mux \<Rightarrow> (int \<times> error option) \<times> Mux" where
  "stream_Write conn r p m =
     (if St_Closed (stream_object m r) then ((0, Some ErrClosedPipe), m) else stream_write_loop conn r p 0 m)"

definition stream_Close :: "(MuxFrame \<Rightarrow> unit result) \<Rightarrow> nat \<Rightarrow> Mux \<Rightarrow> Mux" where
  "stream_Close conn r m =
     (let i = St_ID (stream_object m r)
      in mux_removeStream i (stream_finish r (snd (mux_writeFrame conn (control_frame i MuxFrameClose []) m))))"

end
