(* ===== verification/MuxProps.thy ===== *)
theory MuxProps
  imports Mux
begin

text \<open>
  Correctness of the stream multiplexer: the invariant of one end under every interleaving of its
  callers with the frames of the peer, the order of the bytes of each stream, the search for a
  free id, and the way of a Write through the connection to the peer.
\<close>

section \<open>A stream as a buffer of bytes\<close>

text \<open>
  What the multiplexer relies on in a stream: a payload goes to the end of what is pending, a read
  takes it from the front. Over any run of the two nothing is lost, repeated or reordered.
\<close>

datatype 'c pipe_event = Put 'c | Got 'c

locale byte_pipe =
  fixes put :: "'c list \<Rightarrow> 'b \<Rightarrow> 'b option"
    and get :: "'b \<Rightarrow> 'c list \<Rightarrow> 'b \<Rightarrow> bool"
    and pending :: "'b \<Rightarrow> 'c list"
    and open_for :: "'b \<Rightarrow> bool"
  assumes put_pending: "open_for b \<Longrightarrow> put p b = Some b' \<Longrightarrow> pending b' = pending b @ p \<and> open_for b'"
    and get_pending: "get b out b' \<Longrightarrow> pending b = out @ pending b' \<and> open_for b' = open_for b"
begin

inductive pipe_run :: "'b \<Rightarrow> 'c list pipe_event list \<Rightarrow> 'b \<Rightarrow> bool" where
  pipe_done: "pipe_run b [] b"
| pipe_put: "put p b = Some b' \<Longrightarrow> pipe_run b' es b'' \<Longrightarrow> pipe_run b (Put p # es) b''"
| pipe_get: "get b out b' \<Longrightarrow> pipe_run b' es b'' \<Longrightarrow> pipe_run b (Got out # es) b''"

lemma pipe_order:
  "pipe_run b es b' \<Longrightarrow> open_for b \<Longrightarrow>
     pending b @ concat [p. Put p \<leftarrow> es] = concat [p. Got p \<leftarrow> es] @ pending b'"
proof (induction rule: pipe_run.induct)
  case (pipe_put p b b' es b'')
  with put_pending [OF pipe_put.prems pipe_put.hyps(1)] show ?case by simp
next
  case (pipe_get b out b' es b'')
  with get_pending [OF pipe_get.hyps(1)] show ?case by simp
qed simp

end

definition content :: "MuxStream \<Rightarrow> byte list" where
  "content s = St_ReadBuf s @ concat (St_Inbound s)"

lemma stream_Read_content:
  "stream_Read n s out s' \<Longrightarrow> 
     content s = (case out of Some bs \<Rightarrow> bs | None \<Rightarrow> []) @ content s' \<and>
     St_ID s' = St_ID s \<and> St_Closed s' = St_Closed s \<and> length (St_Inbound s') \<le> length (St_Inbound s)"
  by (induction rule: stream_Read.induct) (auto simp: content_def)

interpretation mux_pipe: byte_pipe stream_deliver "\<lambda>s out s'. \<exists>n. stream_Read n s (Some out) s'" content "\<lambda>s. \<not> St_Closed s"
proof
  fix s p s' assume "\<not> St_Closed s" "stream_deliver p s = Some s'"
  then show "content s' = content s @ p \<and> \<not> St_Closed s'"
    by (auto simp: stream_deliver_def content_def split: if_splits)
next
  fix s out s' assume "\<exists>n. stream_Read n s (Some out) s'"
  then show "content s = out @ content s' \<and> (\<not> St_Closed s') = (\<not> St_Closed s)"
    by (auto dest: stream_Read_content)
qed

section \<open>The invariant of one end\<close>

definition uint64 :: "int \<Rightarrow> bool" where
  "uint64 n \<longleftrightarrow> 0 \<le> n \<and> n < 18446744073709551616"

definition entry_ok :: "Mux \<Rightarrow> int \<Rightarrow> nat \<Rightarrow> bool" where
  "entry_ok m i r \<longleftrightarrow> r < length (mx_objects m) \<and> St_ID (stream_object m r) = i \<and>
     (i \<noteq> 0 \<longrightarrow> \<not> St_Closed (stream_object m r))"

definition mux_inv :: "Mux \<Rightarrow> bool" where
  "mux_inv m \<longleftrightarrow>
     gm_wf (mx_streams m) \<and> length (mx_streams m) \<le> 256 \<and>
     (\<forall>i r. mux_stream m i = Some r \<longrightarrow> entry_ok m i r) \<and>
     (if mx_closed m then mx_streams m = [] else mux_stream m 0 = Some 0) \<and>
     (\<forall>s \<in> set (mx_objects m). length (St_Inbound s) \<le> 32) \<and>
     length (mx_accept m) \<le> 128 \<and>
     (\<forall>r \<in> set (mx_accept m). r < length (mx_objects m) \<and> St_ID (stream_object m r) mod 2 \<noteq> mx_localID m) \<and>
     mx_nextID m mod 2 = mx_localID m \<and> uint64 (mx_nextID m)"

lemma mux_invD:
  assumes "mux_inv m"
  shows "gm_wf (mx_streams m)" "length (mx_streams m) \<le> 256" "mux_stream m i = Some r \<Longrightarrow> entry_ok m i r"
    "mx_closed m \<Longrightarrow> mx_streams m = []" "\<not> mx_closed m \<Longrightarrow> mux_stream m 0 = Some 0" "length (mx_accept m) \<le> 128"
    "s \<in> set (mx_objects m) \<Longrightarrow> length (St_Inbound s) \<le> 32" "mx_nextID m mod 2 = mx_localID m \<and> uint64 (mx_nextID m)"
    "r \<in> set (mx_accept m) \<Longrightarrow> r < length (mx_objects m) \<and> St_ID (stream_object m r) mod 2 \<noteq> mx_localID m"
  using assms by (auto simp: mux_inv_def split: if_splits)

lemma mux_inv_new: "uint64 n \<Longrightarrow> mux_inv (newTCPTLSMux n)"
  by (auto simp: mux_inv_def newTCPTLSMux_def mux_stream_def entry_ok_def stream_object_def newMuxStream_def gm_wf_def gm_get_def
      split: if_splits)

definition content_of :: "Mux \<Rightarrow> nat \<Rightarrow> byte list" where
  "content_of m r = (if r < length (mx_objects m) then content (stream_object m r) else [])"

text \<open>The steps that keep the invariant and move no byte of any stream.\<close>

definition moves_nothing :: "Mux \<Rightarrow> Mux \<Rightarrow> bool" where
  "moves_nothing m m' \<longleftrightarrow> mux_inv m' \<and> (\<forall>r. content_of m' r = content_of m r)"

lemma moves_nothing_refl: "mux_inv m \<Longrightarrow> moves_nothing m m"
  by (simp add: moves_nothing_def)

lemma moves_nothing_trans: "moves_nothing m m' \<Longrightarrow> moves_nothing m' m'' \<Longrightarrow> moves_nothing m m''"
  by (simp add: moves_nothing_def)

lemma moves_nothing_same:
  assumes "mux_inv m" and "mx_closed m' = mx_closed m" "mx_streams m' = mx_streams m" "mx_objects m' = mx_objects m"
    "mx_localID m' = mx_localID m"
    "uint64 (mx_nextID m) \<Longrightarrow> uint64 (mx_nextID m') \<and> mx_nextID m' mod 2 = mx_nextID m mod 2"
    "set (mx_accept m') \<subseteq> set (mx_accept m)" "length (mx_accept m') \<le> length (mx_accept m)"
  shows "moves_nothing m m'"
  using assms unfolding moves_nothing_def mux_inv_def content_of_def mux_stream_def entry_ok_def stream_object_def
  by (auto split: if_splits)

lemma Start_moves: "mux_inv m \<Longrightarrow> moves_nothing m (mux_Start m)"
  by (rule moves_nothing_same) (simp_all add: mux_Start_def)

lemma writeFrame_moves: "mux_inv m \<Longrightarrow> moves_nothing m (snd (mux_writeFrame conn f m))"
  by (rule moves_nothing_same) (simp_all add: mux_writeFrame_def split: sum.splits)

lemma Accept_moves: "mux_inv m \<Longrightarrow> mux_AcceptStream b m = Some (res, m') \<Longrightarrow> moves_nothing m m'"
  by (rule moves_nothing_same) (auto simp: mux_AcceptStream_def split: list.splits if_splits)

lemma length_del: "length (gm_del k m) \<le> length m"
  by (simp add: gm_del_def AList.delete_eq)

lemma removeStream_moves: "mux_inv m \<Longrightarrow> moves_nothing m (mux_removeStream i m)"
  using length_del [of i "mx_streams m"]
  by (auto simp: moves_nothing_def mux_inv_def mux_removeStream_def mux_stream_def entry_ok_def stream_object_def content_of_def)

lemma finish_remove_moves:
  assumes inv: "mux_inv m" and r: "r < length (mx_objects m)"
  shows "moves_nothing m (mux_removeStream (St_ID (stream_object m r)) (stream_finish r m))"
proof -
  let ?s = "(stream_object m r) \<lparr>St_Closed := True\<rparr>" and ?i = "St_ID (stream_object m r)"
  let ?m = "mux_removeStream ?i (stream_finish r m)"
  have obj: "stream_object ?m q = (if q = r then ?s else stream_object m q)" for q
    using r by (simp add: mux_removeStream_def stream_finish_def put_object_def stream_object_def nth_list_update)
  have len: "length (mx_objects ?m) = length (mx_objects m)"
    by (simp add: mux_removeStream_def stream_finish_def put_object_def)
  have st: "mx_streams ?m = (if ?i = 0 then mx_streams m else gm_del ?i (mx_streams m))"
    by (simp add: mux_removeStream_def stream_finish_def put_object_def)
  have same: "mx_closed ?m = mx_closed m" "mx_accept ?m = mx_accept m" "mx_localID ?m = mx_localID m" "mx_nextID ?m = mx_nextID m"
    by (simp_all add: mux_removeStream_def stream_finish_def put_object_def)
  have set: "set (mx_objects ?m) \<subseteq> insert ?s (set (mx_objects m))"
    by (simp add: mux_removeStream_def stream_finish_def put_object_def set_update_subset_insert)
  have mem: "stream_object m r \<in> set (mx_objects m)" using r by (simp add: stream_object_def)
  have "entry_ok ?m i q" if "mux_stream ?m i = Some q" for i q
  proof -
    have e: "mux_stream m i = Some q" "i \<noteq> ?i \<or> i = 0"
      using that by (auto simp: mux_stream_def st split: if_splits)
    with mux_invD(3) [OF inv e(1)] show ?thesis by (auto simp: entry_ok_def obj len)
  qed
  moreover have "mux_stream ?m 0 = Some 0" if "\<not> mx_closed m"
    using mux_invD(5) [OF inv that] by (simp add: mux_stream_def st)
  moreover have "\<forall>s \<in> set (mx_objects ?m). length (St_Inbound s) \<le> 32" using set mux_invD(7) [OF inv] mem by auto
  moreover have "mx_streams ?m = []" if "mx_closed m" using mux_invD(4) [OF inv that] by (simp add: st gm_del_def)
  moreover have "gm_wf (mx_streams ?m)" "length (mx_streams ?m) \<le> 256"
    using mux_invD(1,2) [OF inv] length_del [of ?i "mx_streams m"] by (simp_all add: st)
  ultimately have "mux_inv ?m"
    using mux_invD(6,8,9) [OF inv] unfolding mux_inv_def by (auto simp: same len obj)
  moreover have "content_of ?m q = content_of m q" for q by (simp add: content_of_def len obj content_def)
  ultimately show ?thesis by (simp add: moves_nothing_def)
qed

lemma remoteClose_moves: "mux_inv m \<Longrightarrow> r < length (mx_objects m) \<Longrightarrow> moves_nothing m (stream_remoteClose r m)"
  using finish_remove_moves by (simp add: stream_remoteClose_def)

lemma Close_moves:
  assumes "mux_inv m" and "r < length (mx_objects m)"
  shows "moves_nothing m (stream_Close conn r m)"
proof -
  let ?m = "snd (mux_writeFrame conn (control_frame (St_ID (stream_object m r)) MuxFrameClose []) m)"
  have o: "mx_objects ?m = mx_objects m" by (simp add: mux_writeFrame_def split: sum.splits)
  then have "stream_object ?m r = stream_object m r" by (simp add: stream_object_def)
  moreover have "moves_nothing m ?m" by (rule writeFrame_moves [OF assms(1)])
  ultimately show ?thesis
    using finish_remove_moves [of ?m r] assms(2) o moves_nothing_trans [of m ?m]
    by (simp add: stream_Close_def Let_def moves_nothing_def)
qed

lemma remoteClose_length [simp]: "length (mx_objects (stream_remoteClose r m)) = length (mx_objects m)"
  by (simp add: stream_remoteClose_def mux_removeStream_def stream_finish_def put_object_def)

lemma fold_remoteClose_moves:
  "mux_inv m \<Longrightarrow> \<forall>(i, r) \<in> set xs. r < length (mx_objects m) \<Longrightarrow>
     moves_nothing m (fold (\<lambda>(i, r). stream_remoteClose r) xs m)"
proof (induction xs arbitrary: m)
  case Nil
  then show ?case by (simp add: moves_nothing_refl)
next
  case (Cons x xs)
  obtain i r where x: "x = (i, r)" by (cases x)
  have m: "moves_nothing m (stream_remoteClose r m)" using Cons.prems x by (auto intro: remoteClose_moves)
  then have "moves_nothing (stream_remoteClose r m) (fold (\<lambda>(i, r). stream_remoteClose r) xs (stream_remoteClose r m))"
    using Cons.prems by (intro Cons.IH) (auto simp: moves_nothing_def)
  with m show ?case by (simp add: x moves_nothing_trans)
qed

lemma closeAll_moves:
  assumes "mux_inv m"
  shows "moves_nothing m (mux_closeAll m)"
proof (cases "mx_closed m")
  case True
  then show ?thesis using assms by (simp add: mux_closeAll_def moves_nothing_refl)
next
  case False
  let ?m = "m \<lparr>mx_closed := True, mx_streams := []\<rparr>"
  have m: "moves_nothing m ?m"
    using assms by (auto simp: moves_nothing_def mux_inv_def mux_stream_def stream_object_def content_of_def gm_wf_def)
  have "r < length (mx_objects ?m)" if "(i, r) \<in> set (mx_streams m)" for i r
    using that mux_invD(1) [OF assms] mux_invD(3) [OF assms, of i r]
    by (simp add: gm_get_in mux_stream_def entry_ok_def)
  then have "moves_nothing ?m (fold (\<lambda>(i, r). stream_remoteClose r) (mx_streams m) ?m)"
    using m by (intro fold_remoteClose_moves) (auto simp: moves_nothing_def)
  with m False show ?thesis by (simp add: mux_closeAll_def moves_nothing_trans)
qed

lemma length_put_new: "gm_get m k = None \<Longrightarrow> length (gm_put k v m) = Suc (length m)"
  by (induction m) (auto simp: gm_get_def gm_put_def split: if_splits)

lemma add_stream_moves:
  assumes inv: "mux_inv m" and new: "mux_stream m i = None" and up: "\<not> mx_closed m"
    and room: "length (mx_streams m) < 256" and a: "add_stream i m = (r, m')"
  shows "moves_nothing m m'" and "r = length (mx_objects m)" and "stream_object m' r = newMuxStream i"
    and "mx_streams m' = gm_put i r (mx_streams m)" and "length (mx_objects m') = Suc r"
    and "mx_accept m' = mx_accept m" and "mx_localID m' = mx_localID m" and "mx_closed m' = mx_closed m" and "i \<noteq> 0"
proof -
  note d = a [unfolded add_stream_def Let_def]
  show r: "r = length (mx_objects m)" and st: "mx_streams m' = gm_put i r (mx_streams m)" and len: "length (mx_objects m') = Suc r"
    and same: "mx_accept m' = mx_accept m" "mx_localID m' = mx_localID m" "mx_closed m' = mx_closed m"
    and ob: "stream_object m' r = newMuxStream i"
    using d by (auto simp: stream_object_def)
  show i0: "i \<noteq> 0" using mux_invD(5) [OF inv up] new by auto
  have old: "stream_object m' q = stream_object m q" if "q < length (mx_objects m)" for q
    using d that by (auto simp: stream_object_def nth_append)
  have next': "mx_nextID m' = mx_nextID m" using d by auto
  have set: "set (mx_objects m') = insert (newMuxStream i) (set (mx_objects m))" using d by auto
  have "entry_ok m' j q" if "mux_stream m' j = Some q" for j q
  proof (cases "j = i")
    case True
    with that st have "q = r" by (simp add: mux_stream_def)
    with True ob len show ?thesis by (simp add: entry_ok_def newMuxStream_def)
  next
    case False
    with that st have "mux_stream m j = Some q" by (simp add: mux_stream_def)
    from mux_invD(3) [OF inv this] old len r show ?thesis by (simp add: entry_ok_def)
  qed
  moreover have "mux_stream m' 0 = Some 0" using mux_invD(5) [OF inv up] i0 st by (simp add: mux_stream_def)
  moreover have "length (mx_streams m') \<le> 256" using room new st by (simp add: length_put_new mux_stream_def)
  ultimately have "mux_inv m'"
    using mux_invD(1,6,8,9) [OF inv] mux_invD(7) [OF inv] up old len r
    unfolding mux_inv_def by (simp add: st same next' set newMuxStream_def less_Suc_eq)
  moreover have "content_of m' q = content_of m q" for q
    using old [of q] len r ob by (auto simp: content_of_def less_Suc_eq content_def newMuxStream_def)
  ultimately show "moves_nothing m m'" by (simp add: moves_nothing_def)
qed

section \<open>The search for an id\<close>

definition id_candidate :: "int \<Rightarrow> nat \<Rightarrow> int" where
  "id_candidate n j = (n + 2 * int j) mod 18446744073709551616"

lemma id_candidate_parity: "id_candidate n j mod 2 = n mod 2" "(id_candidate n j + 2) mod 18446744073709551616 mod 2 = n mod 2"
  by (simp_all add: id_candidate_def mod_mod_cancel mod_simps)

lemma id_candidate_inj:
  assumes "j < 9223372036854775808" "k < 9223372036854775808" "id_candidate n j = id_candidate n k"
  shows "j = k"
proof -
  from assms(3) have "18446744073709551616 dvd (n + 2 * int j) - (n + 2 * int k)"
    unfolding id_candidate_def mod_eq_dvd_iff .
  then obtain c where c: "(n + 2 * int j) - (n + 2 * int k) = 18446744073709551616 * c" by blast
  with assms(1,2) have "c = 0" by linarith
  with c show ?thesis by simp
qed

lemma nextAvailable_finds:
  "gm_get streams (id_candidate n j) = None \<Longrightarrow> 0 \<le> n \<Longrightarrow> n < 18446744073709551616 \<Longrightarrow>
     \<exists>k \<le> j. gm_get streams (id_candidate n k) = None \<and>
       mux_nextAvailableStreamID streams n =
         Some (id_candidate n k, (id_candidate n k + 2) mod 18446744073709551616)"
proof (induction j arbitrary: n)
  case 0
  then show ?case by (simp add: id_candidate_def mux_nextAvailableStreamID.simps)
next
  case (Suc j)
  show ?case
  proof (cases "gm_get streams n = None")
    case True
    then show ?thesis using Suc.prems by (intro exI [of _ 0]) (simp add: id_candidate_def mux_nextAvailableStreamID.simps)
  next
    case False
    have step: "id_candidate ((n + 2) mod 18446744073709551616) k = id_candidate n (Suc k)" for k
      by (simp add: id_candidate_def mod_simps algebra_simps)
    from Suc.IH [of "(n + 2) mod 18446744073709551616"] Suc.prems(1) obtain k where
      "k \<le> j" "gm_get streams (id_candidate n (Suc k)) = None"
      "mux_nextAvailableStreamID streams ((n + 2) mod 18446744073709551616) =
         Some (id_candidate n (Suc k), (id_candidate n (Suc k) + 2) mod 18446744073709551616)"
      by (auto simp: step)
    moreover have "mux_nextAvailableStreamID streams n = mux_nextAvailableStreamID streams ((n + 2) mod 18446744073709551616)"
      by (subst mux_nextAvailableStreamID.simps) (simp add: False del: not_None_eq)
    ultimately show ?thesis by (intro exI [of _ "Suc k"]) simp
  qed
qed

lemma nextAvailable_returns:
  assumes "0 \<le> n" "n < 18446744073709551616" and len: "length streams < 9223372036854775808"
  shows "\<exists>k \<le> length streams. gm_get streams (id_candidate n k) = None \<and>
    mux_nextAvailableStreamID streams n = Some (id_candidate n k, (id_candidate n k + 2) mod 18446744073709551616)"
proof -
  have "\<exists>j \<le> length streams. gm_get streams (id_candidate n j) = None"
  proof (rule ccontr)
    assume "\<not> ?thesis"
    then have "id_candidate n ` {..length streams} \<subseteq> set (gm_keys streams)" by (auto simp: gm_keys_iff)
    then have "card (id_candidate n ` {..length streams}) \<le> length streams"
      by (metis List.finite_set card_length card_mono gm_keys_def le_trans length_map)
    moreover have "inj_on (id_candidate n) {..length streams}"
      using len by (auto intro!: inj_onI id_candidate_inj)
    ultimately show False by (simp add: card_image)
  qed
  then obtain j where "j \<le> length streams" "gm_get streams (id_candidate n j) = None" by blast
  with nextAvailable_finds [OF this(2) assms(1,2)] show ?thesis by (meson le_trans)
qed

section \<open>The methods\<close>

lemma OpenStream_moves:
  assumes inv: "mux_inv m" and o: "mux_OpenStream conn m = Some (res, m')"
  shows "moves_nothing m m'"
proof (cases "mx_closed m \<or> int (length (mx_streams m)) \<ge> maxMuxStreams")
  case True
  with o have "m' = m" by (auto simp: mux_OpenStream_def split: if_splits)
  with inv show ?thesis by (simp add: moves_nothing_refl)
next
  case False
  with o have up: "\<not> mx_closed m" and room: "length (mx_streams m) < 256" by (auto simp: mux_OpenStream_def split: if_splits)
  have u: "uint64 (mx_nextID m)" using mux_invD(8) [OF inv] by simp
  with nextAvailable_returns [of "mx_nextID m" "mx_streams m"] room obtain k where
    free: "mux_stream m (id_candidate (mx_nextID m) k) = None"
    and n: "mux_nextAvailableStreamID (mx_streams m) (mx_nextID m) =
      Some (id_candidate (mx_nextID m) k, (id_candidate (mx_nextID m) k + 2) mod 18446744073709551616)"
    by (auto simp: uint64_def mux_stream_def)
  let ?i = "id_candidate (mx_nextID m) k"
  let ?m = "m \<lparr>mx_nextID := (?i + 2) mod 18446744073709551616\<rparr>"
  have m: "moves_nothing m ?m"
    by (rule moves_nothing_same [OF inv]) (simp_all add: id_candidate_parity uint64_def)
  obtain r m1 where a: "add_stream ?i ?m = (r, m1)" by (cases "add_stream ?i ?m") blast
  have inv': "mux_inv ?m" using m by (simp add: moves_nothing_def)
  have m1: "moves_nothing ?m m1"
    by (rule add_stream_moves(1) [OF inv' _ _ _ a]) (use free up room in \<open>simp_all add: mux_stream_def\<close>)
  have w: "moves_nothing m1 (snd (mux_writeFrame conn (control_frame ?i MuxFrameOpen []) m1))"
    using m1 by (intro writeFrame_moves) (simp add: moves_nothing_def)
  have "m' = snd (mux_writeFrame conn (control_frame ?i MuxFrameOpen []) m1) \<or>
      m' = mux_removeStream ?i (snd (mux_writeFrame conn (control_frame ?i MuxFrameOpen []) m1))"
    using o False n a by (auto simp: mux_OpenStream_def split: if_splits prod.splits sum.splits)
  then have "moves_nothing m1 m'"
  proof
    assume "m' = snd (mux_writeFrame conn (control_frame ?i MuxFrameOpen []) m1)"
    with w show ?thesis by simp
  next
    let ?w = "snd (mux_writeFrame conn (control_frame ?i MuxFrameOpen []) m1)"
    have "mux_inv ?w" using w by (simp add: moves_nothing_def)
    moreover assume "m' = mux_removeStream ?i ?w"
    ultimately show ?thesis using moves_nothing_trans [OF w removeStream_moves] by simp
  qed
  with moves_nothing_trans [OF m moves_nothing_trans [OF m1]] show ?thesis by simp
qed

lemma handleOpen_moves:
  assumes inv: "mux_inv m"
  shows "moves_nothing m (mux_handleOpen conn i m)"
proof (cases "i = 0 \<or> i mod 2 = mx_localID m \<or> mx_closed m \<or> int (length (mx_streams m)) \<ge> maxMuxStreams \<or> mux_stream m i \<noteq> None")
  case True
  with inv show ?thesis
    by (auto simp: mux_handleOpen_def writeFrame_moves moves_nothing_refl)
next
  case False
  obtain r m1 where a: "add_stream i m = (r, m1)" by (cases "add_stream i m") blast
  from False have "mux_stream m i = None" "\<not> mx_closed m" "length (mx_streams m) < 256" by auto
  note f = add_stream_moves [OF inv this a]
  then have inv1: "mux_inv m1" by (simp add: moves_nothing_def)
  show ?thesis
  proof (cases "int (length (mx_accept m1)) < acceptCapacity")
    case True
    have "moves_nothing m1 (m1 \<lparr>mx_accept := mx_accept m1 @ [r]\<rparr>)"
      using inv1 True False f(3,5,7)
      by (auto simp: moves_nothing_def mux_inv_def mux_stream_def stream_object_def entry_ok_def content_of_def newMuxStream_def
          split: if_splits)
    with f(1) True False a show ?thesis by (simp add: mux_handleOpen_def moves_nothing_trans)
  next
    case False': False
    let ?m2 = "stream_remoteClose r (mux_removeStream i m1)"
    have "moves_nothing m1 (mux_removeStream i m1)" by (rule removeStream_moves [OF inv1])
    moreover have "mx_objects (mux_removeStream i m1) = mx_objects m1" by (simp add: mux_removeStream_def)
    ultimately have "moves_nothing m1 ?m2"
      using f(5) remoteClose_moves [of "mux_removeStream i m1" r] moves_nothing_trans by (auto simp: moves_nothing_def)
    then have "moves_nothing m ?m2" and "mux_inv ?m2" using f(1) moves_nothing_trans by (auto simp: moves_nothing_def)
    with False False' a show ?thesis
      using moves_nothing_trans [OF _ writeFrame_moves [OF \<open>mux_inv ?m2\<close>]] by (simp add: mux_handleOpen_def)
  qed
qed

lemma write_loop_moves:
  "mux_inv m \<Longrightarrow> moves_nothing m (snd (stream_write_loop conn r p w m))"
proof (induction conn r p w m rule: stream_write_loop.induct)
  case (1 conn r p w m)
  note eq = stream_write_loop.simps [of conn r p w m]
  show ?case
  proof (cases "p = [] \<or> St_Closed (stream_object m r)")
    case True
    with 1(2) show ?thesis by (auto simp: eq moves_nothing_refl)
  next
    case False
    obtain chunk rest where s: "split_payload p = (chunk, rest)" by (cases "split_payload p") blast
    let ?f = "data_frame (St_ID (stream_object m r)) chunk"
    have m: "moves_nothing m (snd (mux_writeFrame conn ?f m))" by (rule writeFrame_moves [OF 1(2)])
    show ?thesis
    proof (cases "mux_writeFrame conn ?f m")
      case (Pair res m')
      show ?thesis
      proof (cases res)
        case (Inl e)
        with False s Pair m show ?thesis by (simp add: eq)
      next
        case (Inr u)
        from m Pair have "moves_nothing m m'" "mux_inv m'" by (simp_all add: moves_nothing_def)
        with False s Pair Inr 1(1) [OF _ _ s [symmetric] Pair [symmetric] Inr] show ?thesis
          by (auto simp: eq intro: moves_nothing_trans)
      qed
    qed
  qed
qed

lemma Write_moves: "mux_inv m \<Longrightarrow> moves_nothing m (snd (stream_Write conn r p m))"
  by (simp add: stream_Write_def write_loop_moves moves_nothing_refl)

section \<open>All interleavings\<close>

text \<open>
  The steps of one end: a method of a caller, or a frame of the peer, each with any answer of the
  connection. The labels say what was delivered to a stream and what was read from it.
\<close>

datatype mux_event = Delivered nat "byte list" | WasRead nat "byte list" | WasEOF nat | Quiet

definition frame_event :: "Mux \<Rightarrow> MuxFrame \<Rightarrow> mux_event" where
  "frame_event m f =
     (case mux_stream m (MF_StreamID f) of
        Some r \<Rightarrow> (if MF_Type f = MuxFrameData \<and> \<not> St_Closed (stream_object m r) then Delivered r (MF_Payload f) else Quiet)
      | None \<Rightarrow> Quiet)"

inductive mux_step :: "Mux \<Rightarrow> mux_event \<Rightarrow> Mux \<Rightarrow> bool" where
  step_start: "mux_step m Quiet (mux_Start m)"
| step_open: "mux_OpenStream conn m = Some (res, m') \<Longrightarrow> mux_step m Quiet m'"
| step_accept: "mux_AcceptStream b m = Some (res, m') \<Longrightarrow> mux_step m Quiet m'"
| step_frame: "mux_handleFrame conn f m = Some m' \<Longrightarrow> mux_step m (frame_event m f) m'"
| step_read: "r < length (mx_objects m) \<Longrightarrow> stream_Read n (stream_object m r) (Some bs) s' \<Longrightarrow>
    mux_step m (WasRead r bs) (put_object r s' m)"
| step_eof: "r < length (mx_objects m) \<Longrightarrow> stream_Read n (stream_object m r) None s' \<Longrightarrow>
    mux_step m (WasEOF r) (put_object r s' m)"
| step_write: "r < length (mx_objects m) \<Longrightarrow> mux_step m Quiet (snd (stream_Write conn r p m))"
| step_close: "r < length (mx_objects m) \<Longrightarrow> mux_step m Quiet (stream_Close conn r m)"
| step_close_all: "mux_step m Quiet (mux_closeAll m)"

inductive mux_run :: "Mux \<Rightarrow> mux_event list \<Rightarrow> Mux \<Rightarrow> bool" where
  run_nil: "mux_run m [] m"
| run_step: "mux_step m e m' \<Longrightarrow> mux_run m' es m'' \<Longrightarrow> mux_run m (e # es) m''"

definition delivered :: "nat \<Rightarrow> mux_event list \<Rightarrow> byte list" where
  "delivered r es = concat (map (\<lambda>e. case e of Delivered q p \<Rightarrow> if q = r then p else [] | _ \<Rightarrow> []) es)"

definition was_read :: "nat \<Rightarrow> mux_event list \<Rightarrow> byte list" where
  "was_read r es = concat (map (\<lambda>e. case e of WasRead q p \<Rightarrow> if q = r then p else [] | _ \<Rightarrow> []) es)"

lemma delivered_simps [simp]:
  "delivered r [] = []" "delivered r (Delivered q p # es) = (if q = r then p else []) @ delivered r es"
  "delivered r (WasRead q p # es) = delivered r es" "delivered r (WasEOF q # es) = delivered r es"
  "delivered r (Quiet # es) = delivered r es"
  by (simp_all add: delivered_def)

lemma was_read_simps [simp]:
  "was_read r [] = []" "was_read r (WasRead q p # es) = (if q = r then p else []) @ was_read r es"
  "was_read r (Delivered q p # es) = was_read r es" "was_read r (WasEOF q # es) = was_read r es"
  "was_read r (Quiet # es) = was_read r es"
  by (simp_all add: was_read_def)

text \<open>One object changes, everything else stays.\<close>

lemma put_object_inv:
  assumes inv: "mux_inv m" and r: "r < length (mx_objects m)"
    and s: "St_ID s = St_ID (stream_object m r)" "St_Closed s = St_Closed (stream_object m r)" "length (St_Inbound s) \<le> 32"
  shows "mux_inv (put_object r s m)" and "content_of (put_object r s m) q = (if q = r then content s else content_of m q)"
proof -
  let ?m = "put_object r s m"
  have obj: "stream_object ?m q = (if q = r then s else stream_object m q)" for q
    using r by (simp add: put_object_def stream_object_def nth_list_update)
  have same: "mx_closed ?m = mx_closed m" "mx_accept ?m = mx_accept m" "mx_localID ?m = mx_localID m" "mx_nextID ?m = mx_nextID m"
    "mx_streams ?m = mx_streams m" "length (mx_objects ?m) = length (mx_objects m)" "mux_stream ?m i = mux_stream m i" for i
    by (simp_all add: put_object_def mux_stream_def)
  have "set (mx_objects ?m) \<subseteq> insert s (set (mx_objects m))" by (simp add: put_object_def set_update_subset_insert)
  then have "\<forall>t \<in> set (mx_objects ?m). length (St_Inbound t) \<le> 32" using mux_invD(7) [OF inv] s(3) by auto
  then show "mux_inv ?m"
    using inv s unfolding mux_inv_def same by (auto simp: entry_ok_def obj same)
  show "content_of ?m q = (if q = r then content s else content_of m q)" using r by (auto simp: content_of_def same obj)
qed

definition event_effect :: "mux_event \<Rightarrow> Mux \<Rightarrow> Mux \<Rightarrow> nat \<Rightarrow> bool" where
  "event_effect e m m' r \<longleftrightarrow> content_of m r @ delivered r [e] = was_read r [e] @ content_of m' r"

lemma quiet_effect: "moves_nothing m m' \<Longrightarrow> mux_inv m' \<and> event_effect Quiet m m' r"
  by (simp add: moves_nothing_def event_effect_def)

lemma handleFrame_effect:
  assumes inv: "mux_inv m" and f: "mux_handleFrame conn f m = Some m'"
  shows "mux_inv m' \<and> event_effect (frame_event m f) m m' r"
proof (cases "MF_Type f = MuxFrameData")
  case True
  show ?thesis
  proof (cases "mux_stream m (MF_StreamID f)")
    case None
    with True f inv show ?thesis by (auto simp: mux_handleFrame_def frame_event_def event_effect_def)
  next
    case (Some q)
    then have q: "q < length (mx_objects m)" using mux_invD(3) [OF inv] by (simp add: entry_ok_def)
    from True Some f obtain s where d: "stream_deliver (MF_Payload f) (stream_object m q) = Some s" and m': "m' = put_object q s m"
      by (auto simp: mux_handleFrame_def)
    have "stream_object m q \<in> set (mx_objects m)" using q by (simp add: stream_object_def)
    then have l: "length (St_Inbound (stream_object m q)) \<le> 32" by (rule mux_invD(7) [OF inv])
    from d l have k: "St_ID s = St_ID (stream_object m q)" "St_Closed s = St_Closed (stream_object m q)" "length (St_Inbound s) \<le> 32"
      by (auto simp: stream_deliver_def split: if_splits)
    have c: "content s = content (stream_object m q) @ (if St_Closed (stream_object m q) then [] else MF_Payload f)"
      using mux_pipe.put_pending [OF _ d] d by (auto simp: stream_deliver_def split: if_splits)
    show ?thesis
      using put_object_inv [OF inv q k] c q True Some by (simp add: m' event_effect_def frame_event_def content_of_def)
  qed
next
  case False
  have "moves_nothing m m'"
    using False f inv mux_invD(3) [OF inv]
    by (auto simp: mux_handleFrame_def handleOpen_moves moves_nothing_refl entry_ok_def intro!: remoteClose_moves
        split: if_splits option.splits)
  moreover have "frame_event m f = Quiet" using False by (simp add: frame_event_def split: option.splits)
  ultimately show ?thesis by (simp add: quiet_effect)
qed

lemma step_effect: "mux_step m e m' \<Longrightarrow> mux_inv m \<Longrightarrow> mux_inv m' \<and> event_effect e m m' r"
proof (induction rule: mux_step.induct)
  case (step_read q m n bs s')
  then have "stream_object m q \<in> set (mx_objects m)" by (simp add: stream_object_def)
  from mux_invD(7) [OF step_read.prems this] put_object_inv [OF step_read.prems step_read.hyps(1)] stream_Read_content [OF step_read.hyps(2)]
  show ?case using step_read.hyps(1) by (auto simp: event_effect_def content_of_def)
next
  case (step_eof q m n s')
  then have "stream_object m q \<in> set (mx_objects m)" by (simp add: stream_object_def)
  from mux_invD(7) [OF step_eof.prems this] put_object_inv [OF step_eof.prems step_eof.hyps(1)] stream_Read_content [OF step_eof.hyps(2)]
  show ?case using step_eof.hyps(1) by (auto simp: event_effect_def content_of_def)
next
  case (step_frame conn f m m')
  then show ?case by (simp add: handleFrame_effect)
qed (auto intro!: quiet_effect intro: Start_moves OpenStream_moves Accept_moves Write_moves Close_moves closeAll_moves)

lemma run_effect: "mux_run m es m' \<Longrightarrow> mux_inv m \<Longrightarrow> mux_inv m' \<and> content_of m r @ delivered r es = was_read r es @ content_of m' r"
proof (induction rule: mux_run.induct)
  case (run_step m e m' es m'')
  from step_effect [OF run_step.hyps(1) run_step.prems, of r] have "mux_inv m'" "event_effect e m m' r" by auto
  with run_step.IH show ?case by (cases e) (auto simp: event_effect_def, metis append_assoc)
qed simp

lemma content_of_new: "content_of (newTCPTLSMux n) r = []"
  by (simp add: content_of_def newTCPTLSMux_def stream_object_def newMuxStream_def content_def)

section \<open>Properties of one end\<close>

text \<open>
  C38: the search for a stream id always ends. On every map the multiplexer can hold (fewer entries
  than half of the ids) the loop of nextAvailableStreamID returns within one step more than the map
  has entries, also when the counter wraps around: an id that is not in use, of the parity of the
  counter, and the following counter of the same parity.
\<close>

theorem nextAvailableStreamID_terminates:
  assumes "0 \<le> n" "n < 18446744073709551616" "length streams < 9223372036854775808"
  shows "\<exists>k i nx. k \<le> length streams \<and> mux_nextAvailableStreamID streams n = Some (i, nx) \<and>
    i = (n + 2 * int k) mod 18446744073709551616 \<and> gm_get streams i = None \<and> i mod 2 = n mod 2 \<and> nx mod 2 = n mod 2"
  using nextAvailable_returns [OF assms] id_candidate_parity [of n] unfolding id_candidate_def by metis

lemma nextAvailableStreamID_terminates_witness:
  "\<exists>i nx. mux_nextAvailableStreamID [(18446744073709551614, 1), (0, 0)] 18446744073709551614 = Some (i, nx) \<and> i mod 2 = 0"
proof -
  have "0 \<le> (18446744073709551614 :: int)" "18446744073709551614 < (18446744073709551616 :: int)"
    "length [(18446744073709551614 :: int, 1 :: nat), (0, 0)] < 9223372036854775808" by simp_all
  from nextAvailableStreamID_terminates [OF this] obtain k i nx where
    "mux_nextAvailableStreamID [(18446744073709551614, 1 :: nat), (0, 0)] 18446744073709551614 = Some (i, nx)"
    "i mod 2 = (18446744073709551614 :: int) mod 2" by (elim exE conjE)
  then show ?thesis by (intro exI conjI) (assumption, simp)
qed


text \<open>
  C33: streams are reliable while they are open. Under every interleaving of callers and frames, from
  a new connection on, for every stream: the payloads delivered to it are, in their order and byte
  for byte, what its reader has read followed by what is still buffered. Nothing of another stream
  gets in, nothing is repeated, reordered or dropped by the multiplexer.
\<close>

theorem streams_deliver_in_order:
  assumes "mux_run (newTCPTLSMux n) es m" and "0 \<le> n" and "n < 18446744073709551616"
  shows "delivered r es = was_read r es @ content_of m r"
  using run_effect [OF assms(1), of r] mux_inv_new [of n] assms(2,3) by (simp add: uint64_def content_of_new)

section \<open>A concrete run\<close>

text \<open>The peer opens stream 2, sends two payloads and closes it; then the accepted stream is read.\<close>

definition answers_all :: "MuxFrame \<Rightarrow> unit result" where "answers_all f = Inr ()"

definition mux_opened :: Mux where "mux_opened = mux_handleOpen answers_all 2 (mux_Start (newTCPTLSMux 1))"
definition mux_data :: Mux where "mux_data = the (mux_handleFrame answers_all (data_frame 2 [7, 8]) mux_opened)"
definition mux_data2 :: Mux where "mux_data2 = the (mux_handleFrame answers_all (data_frame 2 [9]) mux_data)"
definition mux_hungup :: Mux where "mux_hungup = the (mux_handleFrame answers_all (control_frame 2 MuxFrameClose []) mux_data2)"

lemma sample_frames:
  "mux_handleFrame answers_all (control_frame 2 MuxFrameOpen []) (mux_Start (newTCPTLSMux 1)) = Some mux_opened"
  "mux_handleFrame answers_all (data_frame 2 [7, 8]) mux_opened = Some mux_data"
  "mux_handleFrame answers_all (data_frame 2 [9]) mux_data = Some mux_data2"
  "mux_handleFrame answers_all (control_frame 2 MuxFrameClose []) mux_data2 = Some mux_hungup"
  by code_simp+

lemma sample_events:
  "frame_event (mux_Start (newTCPTLSMux 1)) (control_frame 2 MuxFrameOpen []) = Quiet"
  "frame_event mux_opened (data_frame 2 [7, 8]) = Delivered 1 [7, 8]"
  "frame_event mux_data (data_frame 2 [9]) = Delivered 1 [9]"
  "frame_event mux_data2 (control_frame 2 MuxFrameClose []) = Quiet"
  by code_simp+

lemma sample_data_object: "stream_object mux_data2 1 = \<lparr>St_ID = 2, St_Inbound = [[7, 8], [9]], St_ReadBuf = [], St_Closed = False\<rparr>"
  and sample_hungup_object: "stream_object mux_hungup 1 = \<lparr>St_ID = 2, St_Inbound = [[7, 8], [9]], St_ReadBuf = [], St_Closed = True\<rparr>"
  and sample_lengths: "length (mx_objects mux_data2) = 2" "length (mx_objects mux_hungup) = 2"
  by code_simp+

lemma sample_run: "mux_run (newTCPTLSMux 1) [Quiet, Quiet, Delivered 1 [7, 8], Delivered 1 [9]] mux_data2"
  by (rule run_step [OF step_start run_step [OF step_frame [OF sample_frames(1), unfolded sample_events]
      run_step [OF step_frame [OF sample_frames(2), unfolded sample_events]
      run_step [OF step_frame [OF sample_frames(3), unfolded sample_events] run_nil]]]])

lemma sample_read:
  "mux_step mux_data2 (WasRead 1 [7]) (put_object 1 \<lparr>St_ID = 2, St_Inbound = [[9]], St_ReadBuf = [8], St_Closed = False\<rparr> mux_data2)"
proof -
  have "stream_Read 1 \<lparr>St_ID = 2, St_Inbound = [[7, 8], [9]], St_ReadBuf = [], St_Closed = False\<rparr> (Some [7])
      \<lparr>St_ID = 2, St_Inbound = [[9]], St_ReadBuf = [8], St_Closed = False\<rparr>"
  proof (rule read_receive)
    show "stream_Read 1 (\<lparr>St_ID = 2, St_Inbound = [[7, 8], [9]], St_ReadBuf = [], St_Closed = False\<rparr>
        \<lparr>St_ReadBuf := [7, 8], St_Inbound := [[9]]\<rparr>) (Some [7]) \<lparr>St_ID = 2, St_Inbound = [[9]], St_ReadBuf = [8], St_Closed = False\<rparr>"
      using read_buffered [of "\<lparr>St_ID = 2, St_Inbound = [[9]], St_ReadBuf = [7, 8], St_Closed = False\<rparr>" 1] by simp
  qed simp_all
  then have "stream_Read 1 (stream_object mux_data2 1) (Some [7])
      \<lparr>St_ID = 2, St_Inbound = [[9]], St_ReadBuf = [8], St_Closed = False\<rparr>"
    unfolding sample_data_object .
  then show ?thesis by (rule step_read [rotated]) (simp add: sample_lengths)
qed

lemma run_append: "mux_run m es m' \<Longrightarrow> mux_step m' e m'' \<Longrightarrow> mux_run m (es @ [e]) m''"
  by (induction rule: mux_run.induct) (auto intro: mux_run.intros)


lemma streams_deliver_in_order_witness:
  "\<exists>m. mux_run (newTCPTLSMux 1) [Quiet, Quiet, Delivered 1 [7, 8], Delivered 1 [9], WasRead 1 [7]] m \<and> content_of m 1 = [8, 9]"
proof -
  from run_append [OF sample_run sample_read]
  have r: "mux_run (newTCPTLSMux 1) [Quiet, Quiet, Delivered 1 [7, 8], Delivered 1 [9], WasRead 1 [7]]
      (put_object 1 \<lparr>St_ID = 2, St_Inbound = [[9]], St_ReadBuf = [8], St_Closed = False\<rparr> mux_data2)" by simp
  from streams_deliver_in_order [OF this, of 1] have "content_of (put_object 1
      \<lparr>St_ID = 2, St_Inbound = [[9]], St_ReadBuf = [8], St_Closed = False\<rparr> mux_data2) 1 = [8, 9]" by simp
  with r show ?thesis by blast
qed

text \<open>
  The end of a stream may come before its data. There is a run in which the peer opens a stream,
  sends three bytes and closes it, all of which arrives, and the reader gets EOF as its first result
  although the three bytes were delivered and wait in the stream: the select of Read takes any ready
  branch.
\<close>

theorem eof_may_overtake_data:
  "\<exists>m. mux_run (newTCPTLSMux 1) [Quiet, Quiet, Delivered 1 [7, 8], Delivered 1 [9], Quiet, WasEOF 1] m \<and>
     content_of m 1 = [7, 8, 9]"
proof -
  have r: "mux_run (newTCPTLSMux 1) [Quiet, Quiet, Delivered 1 [7, 8], Delivered 1 [9], Quiet] mux_hungup"
    using run_append [OF sample_run] step_frame [OF sample_frames(4)] unfolding sample_events by simp
  have e: "mux_step mux_hungup (WasEOF 1) (put_object 1 (stream_object mux_hungup 1) mux_hungup)"
  proof (rule step_eof)
    show "1 < length (mx_objects mux_hungup)" by (simp add: sample_lengths)
    show "stream_Read 1 (stream_object mux_hungup 1) None (stream_object mux_hungup 1)"
      unfolding sample_hungup_object by (rule read_eof) simp_all
  qed
  have "content_of (put_object 1 (stream_object mux_hungup 1) mux_hungup) 1 = [7, 8, 9]" by code_simp
  with run_append [OF r e] show ?thesis by auto
qed

section \<open>From one end to the other\<close>

text \<open>The connection that frames what it can: the answer of WriteMuxFrame, and the bytes it sends.\<close>

definition wire_conn :: "marshal \<Rightarrow> MuxFrame \<Rightarrow> unit result" where
  "wire_conn marshal f = map_sum id (\<lambda>_. ()) (WriteMuxFrame marshal f)"

definition wire_bytes :: "marshal \<Rightarrow> MuxFrame list \<Rightarrow> byte list" where
  "wire_bytes marshal fs = concat (map (\<lambda>f. case WriteMuxFrame marshal f of Inr bs \<Rightarrow> bs | Inl _ \<Rightarrow> []) fs)"

fun handle_frames :: "(MuxFrame \<Rightarrow> unit result) \<Rightarrow> MuxFrame list \<Rightarrow> Mux \<Rightarrow> Mux option" where
  "handle_frames conn [] m = Some m"
| "handle_frames conn (f # fs) m = (case mux_handleFrame conn f m of None \<Rightarrow> None | Some m' \<Rightarrow> handle_frames conn fs m')"

definition sendable :: "marshal \<Rightarrow> MuxFrame \<Rightarrow> bool" where
  "sendable marshal f \<longleftrightarrow> toProtoMuxFrameType (MF_Type f) \<noteq> 0 \<and> wire_conn marshal f = Inr ()"

lemma readLoop_frames:
  assumes law: "proto_law marshal u"
  shows "list_all (sendable marshal) fs \<Longrightarrow> handle_frames conn fs m = Some m' \<Longrightarrow>
    mux_readLoop u conn (wire_bytes marshal fs @ rest) m = mux_readLoop u conn rest m'"
proof (induction fs arbitrary: m)
  case Nil
  then show ?case by (simp add: wire_bytes_def)
next
  case (Cons f fs)
  then obtain bs where w: "WriteMuxFrame marshal f = Inr bs" and ty: "toProtoMuxFrameType (MF_Type f) \<noteq> 0"
    by (auto simp: sendable_def wire_conn_def map_sum_def split: sum.splits)
  from Cons.prems(2) obtain m1 where h: "mux_handleFrame conn f m = Some m1" "handle_frames conn fs m1 = Some m'"
    by (auto split: option.splits)
  have "wire_bytes marshal (f # fs) @ rest = bs @ wire_bytes marshal fs @ rest" by (simp add: wire_bytes_def w)
  moreover have "mux_readLoop u conn (bs @ wire_bytes marshal fs @ rest) m = mux_readLoop u conn (wire_bytes marshal fs @ rest) m1"
    by (subst mux_readLoop.simps) (simp add: mux_frame_roundtrip [OF law w ty] h(1))
  ultimately show ?case using Cons.IH [OF _ h(2)] Cons.prems(1) by simp
qed

lemma writeFrame_ok:
  "mux_writeFrame conn f m = (Inr u, m') \<Longrightarrow> conn f = Inr () \<and> m' = m \<lparr>mx_sent := mx_sent m @ [f]\<rparr>"
  by (auto simp: mux_writeFrame_def split: if_splits sum.splits)

lemma write_loop_sent:
  "stream_write_loop conn r p w m = ((n, None), m') \<Longrightarrow>
     \<exists>chunks. p = concat chunks \<and> n = w + blen p \<and> length chunks * 32768 < length p + 32768 \<and>
       mx_sent m' = mx_sent m @ map (data_frame (St_ID (stream_object m r))) chunks \<and>
       (\<forall>c \<in> set chunks. conn (data_frame (St_ID (stream_object m r)) c) = Inr ())"
proof (induction conn r p w m rule: stream_write_loop.induct)
  case (1 conn r p w m)
  note eq = stream_write_loop.simps [of conn r p w m]
  show ?case
  proof (cases "p = []")
    case True
    with 1(2) show ?thesis
      by (intro exI [of _ "[]"]) (simp add: stream_write_loop.simps [of conn r "[]"] blen_def)
  next
    case False
    obtain chunk rest where s: "split_payload p = (chunk, rest)" by (cases "split_payload p") blast
    let ?i = "St_ID (stream_object m r)"
    from False 1(2) s obtain u m1 where up: "\<not> St_Closed (stream_object m r)"
      and wf: "mux_writeFrame conn (data_frame ?i chunk) m = (Inr u, m1)"
      and l: "stream_write_loop conn r rest (w + blen chunk) m1 = ((n, None), m')"
      by (auto simp: eq split: if_splits prod.splits sum.splits)
    note m1 = writeFrame_ok [OF wf]
    then have o: "stream_object m1 r = stream_object m r" by (simp add: stream_object_def)
    from 1(1) [OF False up s [symmetric] wf [symmetric] refl l] obtain chunks where
      c: "rest = concat chunks" "n = w + blen chunk + blen rest" "length chunks * 32768 < length rest + 32768"
        "mx_sent m' = mx_sent m1 @ map (data_frame ?i) chunks" "\<forall>c \<in> set chunks. conn (data_frame ?i c) = Inr ()"
      unfolding o by blast
    have p: "p = chunk @ rest" using split_payload [OF s False] by simp
    have "length (chunk # chunks) * 32768 < length p + 32768"
    proof (cases "rest = []")
      case True
      with c(3) have "length chunks = 0" by simp
      with False show ?thesis by simp
    next
      case False
      with s have "length p = 32768 + length rest" by (auto simp: split_payload_def blen_def split: if_splits)
      with c(3) show ?thesis by simp
    qed
    with c p m1 show ?thesis by (intro exI [of _ "chunk # chunks"]) (auto simp: blen_def)
  qed
qed

lemma deliver_chunks:
  assumes "mux_stream m i = Some r" and "r < length (mx_objects m)" and "\<not> St_Closed (stream_object m r)"
    and "length (St_Inbound (stream_object m r)) + length chunks \<le> 32"
  shows "handle_frames conn (map (data_frame i) chunks) m =
    Some (put_object r ((stream_object m r) \<lparr>St_Inbound := St_Inbound (stream_object m r) @ chunks\<rparr>) m)"
  using assms
proof (induction chunks arbitrary: m)
  case Nil
  then show ?case by (simp add: put_object_def stream_object_def)
next
  case (Cons c cs)
  let ?s = "(stream_object m r) \<lparr>St_Inbound := St_Inbound (stream_object m r) @ [c]\<rparr>"
  have h: "mux_handleFrame conn (data_frame i c) m = Some (put_object r ?s m)"
    using Cons.prems by (simp add: mux_handleFrame_def data_frame_def stream_deliver_def)
  have o: "stream_object (put_object r ?s m) r = ?s" using Cons.prems(2) by (simp add: put_object_def stream_object_def)
  have "handle_frames conn (map (data_frame i) cs) (put_object r ?s m) =
      Some (put_object r (?s \<lparr>St_Inbound := St_Inbound ?s @ cs\<rparr>) (put_object r ?s m))"
    using Cons.IH [of "put_object r ?s m"] Cons.prems unfolding o by (simp add: put_object_def mux_stream_def)
  then show ?case using h by (simp add: put_object_def)
qed

lemma OpenStream_ok:
  assumes inv: "mux_inv m" and o: "mux_OpenStream conn m = Some (Inr r, m')"
  obtains i where "stream_object m' r = newMuxStream i" "i \<noteq> 0" "i mod 2 = mx_localID m"
    "mx_sent m' = mx_sent m @ [control_frame i MuxFrameOpen []]" "conn (control_frame i MuxFrameOpen []) = Inr ()"
proof -
  from o have up: "\<not> mx_closed m" and room: "length (mx_streams m) < 256" by (auto simp: mux_OpenStream_def split: if_splits)
  have u: "uint64 (mx_nextID m)" "mx_nextID m mod 2 = mx_localID m" using mux_invD(8) [OF inv] by simp_all
  with nextAvailable_returns [of "mx_nextID m" "mx_streams m"] room obtain k where
    free: "mux_stream m (id_candidate (mx_nextID m) k) = None"
    and n: "mux_nextAvailableStreamID (mx_streams m) (mx_nextID m) =
      Some (id_candidate (mx_nextID m) k, (id_candidate (mx_nextID m) k + 2) mod 18446744073709551616)"
    by (auto simp: uint64_def mux_stream_def)
  let ?i = "id_candidate (mx_nextID m) k"
  let ?m = "m \<lparr>mx_nextID := (?i + 2) mod 18446744073709551616\<rparr>"
  obtain q m1 where a: "add_stream ?i ?m = (q, m1)" by (cases "add_stream ?i ?m") blast
  then have new: "stream_object m1 q = newMuxStream ?i" "mx_sent m1 = mx_sent m" by (auto simp: add_stream_def stream_object_def Let_def)
  have "?i \<noteq> 0" using free mux_invD(5) [OF inv up] by auto
  from o n a up room obtain v where q: "r = q" and w: "mux_writeFrame conn (control_frame ?i MuxFrameOpen []) m1 = (Inr v, m')"
    by (auto simp: mux_OpenStream_def split: if_splits prod.splits sum.splits)
  note ok = writeFrame_ok [OF w]
  show ?thesis
    using that [of ?i] new ok q u(2) \<open>?i \<noteq> 0\<close> by (simp add: stream_object_def id_candidate_parity)
qed

text \<open>
  What one end writes into a stream it opened, the other end can read from the stream it accepts.
  Let one end open a stream and write at most a megabyte to it, everything accepted by the
  connection, and let the other end have room for a stream and not know the id. Then its read loop,
  on the bytes of the frames the first end sent and whatever follows them, accepts exactly one new
  stream, with the id of the first end's, whose content is exactly the bytes written, changes the
  content of no other stream, and goes on with what follows.
\<close>

theorem open_and_write_arrive:
  assumes law: "proto_law marshal u" and inva: "mux_inv a" and invb: "mux_inv b"
    and o: "mux_OpenStream (wire_conn marshal) a = Some (Inr r, a1)"
    and w: "stream_Write (wire_conn marshal) r p a1 = ((n, None), a2)" and size: "blen p \<le> 1048576"
    and room: "\<not> mx_closed b" "length (mx_streams b) < 256" "length (mx_accept b) < 128" "mx_localID a \<noteq> mx_localID b"
      "mux_stream b (St_ID (stream_object a1 r)) = None"
  shows "n = blen p \<and>
    (\<exists>sent b' r'. mx_sent a2 = mx_sent a @ sent \<and>
       mux_readLoop u conn (wire_bytes marshal sent @ rest) b = mux_readLoop u conn rest b' \<and>
       mx_accept b' = mx_accept b @ [r'] \<and> St_ID (stream_object b' r') = St_ID (stream_object a1 r) \<and>
       content_of b' r' = p \<and> (\<forall>q. q \<noteq> r' \<longrightarrow> content_of b' q = content_of b q))"
proof -
  from OpenStream_ok [OF inva o] obtain i where so: "stream_object a1 r = newMuxStream i" and i: "i \<noteq> 0" "i mod 2 = mx_localID a"
    and s1: "mx_sent a1 = mx_sent a @ [control_frame i MuxFrameOpen []]"
    and c1: "wire_conn marshal (control_frame i MuxFrameOpen []) = Inr ()" .
  from w so obtain chunks where p: "p = concat chunks" and n: "n = blen p" and cl: "length chunks * 32768 < length p + 32768"
    and s2: "mx_sent a2 = mx_sent a1 @ map (data_frame i) chunks"
    and c2: "\<forall>c \<in> set chunks. wire_conn marshal (data_frame i c) = Inr ()"
    using write_loop_sent [of "wire_conn marshal" r p 0 a1 n a2] by (auto simp: stream_Write_def newMuxStream_def split: if_splits)
  have few: "length chunks \<le> 32" using cl size by (simp add: blen_def)
  let ?sent = "control_frame i MuxFrameOpen [] # map (data_frame i) chunks"
  have ok: "list_all (sendable marshal) ?sent"
    using c1 c2 by (auto simp: sendable_def control_frame_def data_frame_def list_all_iff)
  obtain q b1 where a: "add_stream i b = (q, b1)" by (cases "add_stream i b") blast
  have "mux_stream b i = None" using room(5) so by (simp add: newMuxStream_def)
  note f = add_stream_moves [OF invb this room(1,2) a]
  let ?b2 = "b1 \<lparr>mx_accept := mx_accept b1 @ [q]\<rparr>"
  have open': "mux_handleFrame conn (control_frame i MuxFrameOpen []) b = Some ?b2"
    using room i a f(6) \<open>mux_stream b i = None\<close> by (simp add: mux_handleFrame_def mux_handleOpen_def control_frame_def)
  have sb: "mux_stream ?b2 i = Some q" "q < length (mx_objects ?b2)" "stream_object ?b2 q = newMuxStream i"
    using f(3,4,5) by (simp_all add: mux_stream_def stream_object_def)
  let ?b3 = "put_object q ((newMuxStream i) \<lparr>St_Inbound := chunks\<rparr>) ?b2"
  have "handle_frames conn (map (data_frame i) chunks) ?b2 = Some ?b3"
    using deliver_chunks [OF sb(1,2), of chunks] few sb(3) by (simp add: newMuxStream_def)
  then have "handle_frames conn ?sent b = Some ?b3" using open' by simp
  from readLoop_frames [OF law ok this, of rest]
  have "mux_readLoop u conn (wire_bytes marshal ?sent @ rest) b = mux_readLoop u conn rest ?b3" .
  moreover have "stream_object ?b3 q = (newMuxStream i) \<lparr>St_Inbound := chunks\<rparr>" and len: "length (mx_objects ?b3) = Suc q"
    using f(5) by (simp_all add: put_object_def stream_object_def)
  moreover from this have "content_of ?b3 q = p" by (simp add: content_of_def content_def newMuxStream_def p)
  moreover have "content_of ?b3 t = content_of b t" if "t \<noteq> q" for t
  proof -
    have "stream_object ?b3 t = stream_object b1 t" using that by (simp add: put_object_def stream_object_def)
    then have "content_of ?b3 t = content_of b1 t" using len f(5) by (simp add: content_of_def)
    then show ?thesis using f(1) by (simp add: moves_nothing_def)
  qed
  moreover have "mx_sent a2 = mx_sent a @ ?sent" by (simp add: s1 s2)
  moreover have "mx_accept ?b3 = mx_accept b @ [q]" using f(6) by (simp add: put_object_def)
  moreover have "St_ID (stream_object a1 r) = i" by (simp add: so newMuxStream_def)
  ultimately show ?thesis using n
    by (intro conjI exI [of _ ?sent] exI [of _ ?b3] exI [of _ q]) (simp_all add: newMuxStream_def)
qed

definition frame_table :: "(pb \<times> byte list) list" where
  "frame_table = [(muxFrameToProto (control_frame 1 MuxFrameOpen []), [1]), (muxFrameToProto (data_frame 1 [7, 8]), [2])]"

lemma frame_table_law: "proto_law (table_marshal frame_table) (table_unmarshal frame_table)"
  by (rule table_law) (simp_all add: frame_table_def)

definition near_end :: Mux where "near_end = mux_Start (newTCPTLSMux 1)"
definition near_open :: Mux where "near_open = snd (the (mux_OpenStream (wire_conn (table_marshal frame_table)) near_end))"
definition near_sent :: Mux where "near_sent = snd (stream_Write (wire_conn (table_marshal frame_table)) 1 [7, 8] near_open)"

lemma near_runs:
  "mux_OpenStream (wire_conn (table_marshal frame_table)) near_end = Some (Inr 1, near_open)"
  "stream_Write (wire_conn (table_marshal frame_table)) 1 [7, 8] near_open = ((2, None), near_sent)"
  by code_simp+

lemma open_and_write_arrive_witness:
  "\<exists>sent b' r'. mx_sent near_sent = sent \<and>
     mux_readLoop (table_unmarshal frame_table) answers_all (wire_bytes (table_marshal frame_table) sent @ []) (newTCPTLSMux 2) =
       mux_readLoop (table_unmarshal frame_table) answers_all [] b' \<and> mx_accept b' = [r'] \<and> content_of b' r' = [7, 8]"
proof -
  have a: "mux_inv near_end"
    using Start_moves [OF mux_inv_new [of 1]] by (simp add: near_end_def moves_nothing_def uint64_def)
  have b: "mux_inv (newTCPTLSMux 2)" by (rule mux_inv_new) (simp add: uint64_def)
  have side: "\<not> mx_closed (newTCPTLSMux 2)" "length (mx_streams (newTCPTLSMux 2)) < 256"
    "length (mx_accept (newTCPTLSMux 2)) < 128" "mx_localID near_end \<noteq> mx_localID (newTCPTLSMux 2)"
    "mux_stream (newTCPTLSMux 2) (St_ID (stream_object near_open 1)) = None"
    "mx_accept (newTCPTLSMux 2) = []" "mx_sent near_end = []"
    by (simp add: newTCPTLSMux_def, simp add: newTCPTLSMux_def, simp add: newTCPTLSMux_def, code_simp+)
  have size: "blen [7, 8 :: byte] \<le> 1048576" by (simp add: blen_def)
  from open_and_write_arrive [OF frame_table_law a b near_runs size side(1-5), of answers_all "[]"] side(6,7)
  show ?thesis by (metis append_Nil)
qed

end
