(* ===== verification/Tunnel.thy ===== *)
theory Tunnel
  imports HttpMessages
begin

text \<open>
  The byte tunnel of internal/proxy/tunnel/tunnel.go: the two copies of CopyBidirectional as a step
  relation, the reader that first drains a buffer, and the normalisation of an upgrade request.
\<close>

section \<open>Readers and requests\<close>

text \<open>WithBufferedReader: the bytes read ahead come first, then the connection's.\<close>

record BufferedConn =
  bc_buffered :: "byte list"
  bc_conn :: "byte list"

definition buffered_Read :: "int \<Rightarrow> BufferedConn \<Rightarrow> byte list \<times> BufferedConn" where
  "buffered_Read n c =
     (if bc_buffered c \<noteq> [] then (take (nat n) (bc_buffered c), c \<lparr>bc_buffered := drop (nat n) (bc_buffered c)\<rparr>)
      else (take (nat n) (bc_conn c), c \<lparr>bc_conn := drop (nat n) (bc_conn c)\<rparr>))"

lemma buffered_Read_content:
  "buffered_Read n c = (p, c') \<Longrightarrow> bc_buffered c @ bc_conn c = p @ bc_buffered c' @ bc_conn c'"
  by (auto simp: buffered_Read_def split: if_splits)

text \<open>The parts of an upgrade request that change.\<close>

record UpgradeRequest =
  UR_Proto :: string
  UR_ProtoMajor :: int
  UR_ProtoMinor :: int
  UR_Upgrade :: "string list"
  UR_Connection :: "string list"

definition NormalizeWebSocketRequest :: "'a UpgradeRequest_scheme \<Rightarrow> 'a UpgradeRequest_scheme" where
  "NormalizeWebSocketRequest r =
     r \<lparr>UR_Proto := ''HTTP/1.1'', UR_ProtoMajor := 1, UR_ProtoMinor := 1, UR_Upgrade := [''websocket''],
        UR_Connection := [''Upgrade'']\<rparr>"

lemma Normalize_is_upgrade:
  "IsWebSocketUpgrade (UR_Upgrade (NormalizeWebSocketRequest r)) (UR_Connection (NormalizeWebSocketRequest r))"
  by (simp add: NormalizeWebSocketRequest_def) code_simp

section \<open>The two copies\<close>

text \<open>
  \<open>cp_left\<close> and \<open>cp_right\<close> are the bytes the two sides still send before they end; the goroutine
  that ends first closes both sides, and a copy on closed sides ends with what it has. With
  \<open>faults\<close> a copy may also end on an error of its own.
\<close>

record Copy =
  cp_left :: "byte list"
  cp_right :: "byte list"
  cp_toRight :: "byte list"
  cp_toLeft :: "byte list"
  cp_closed :: bool
  cp_doneLR :: bool
  cp_doneRL :: bool

definition start_copy :: "byte list \<Rightarrow> byte list \<Rightarrow> Copy" where
  "start_copy l r = \<lparr>cp_left = l, cp_right = r, cp_toRight = [], cp_toLeft = [], cp_closed = False,
     cp_doneLR = False, cp_doneRL = False\<rparr>"

inductive CopyBidirectional :: "bool \<Rightarrow> Copy \<Rightarrow> Copy \<Rightarrow> bool" for faults :: bool where
  copy_right: "\<not> cp_doneLR c \<Longrightarrow> \<not> cp_closed c \<Longrightarrow> cp_left c = p @ rest \<Longrightarrow>
    CopyBidirectional faults c (c \<lparr>cp_left := rest, cp_toRight := cp_toRight c @ p\<rparr>)"
| copy_left: "\<not> cp_doneRL c \<Longrightarrow> \<not> cp_closed c \<Longrightarrow> cp_right c = p @ rest \<Longrightarrow>
    CopyBidirectional faults c (c \<lparr>cp_right := rest, cp_toLeft := cp_toLeft c @ p\<rparr>)"
| end_right: "\<not> cp_doneLR c \<Longrightarrow> cp_left c = [] \<or> cp_closed c \<or> faults \<Longrightarrow>
    CopyBidirectional faults c (c \<lparr>cp_doneLR := True, cp_closed := True\<rparr>)"
| end_left: "\<not> cp_doneRL c \<Longrightarrow> cp_right c = [] \<or> cp_closed c \<or> faults \<Longrightarrow>
    CopyBidirectional faults c (c \<lparr>cp_doneRL := True, cp_closed := True\<rparr>)"

inductive copy_run :: "bool \<Rightarrow> Copy \<Rightarrow> Copy \<Rightarrow> bool" for faults :: bool where
  copy_refl: "copy_run faults c c"
| copy_step: "CopyBidirectional faults c c' \<Longrightarrow> copy_run faults c' c'' \<Longrightarrow> copy_run faults c c''"

definition copy_inv :: "bool \<Rightarrow> byte list \<Rightarrow> byte list \<Rightarrow> Copy \<Rightarrow> bool" where
  "copy_inv faults l r c \<longleftrightarrow>
     l = cp_toRight c @ cp_left c \<and> r = cp_toLeft c @ cp_right c \<and>
     (cp_doneLR c \<or> cp_doneRL c \<longrightarrow> cp_closed c) \<and>
     (cp_closed c \<and> \<not> faults \<longrightarrow> cp_left c = [] \<or> cp_right c = [])"

lemma copy_step_inv: "CopyBidirectional faults c c' \<Longrightarrow> copy_inv faults l r c \<Longrightarrow> copy_inv faults l r c'"
  by (induction rule: CopyBidirectional.induct) (auto simp: copy_inv_def)

lemma copy_run_inv: "copy_run faults c c' \<Longrightarrow> copy_inv faults l r c \<Longrightarrow> copy_inv faults l r c'"
  by (induction rule: copy_run.induct) (auto intro: copy_step_inv)

lemma start_copy_inv: "copy_inv faults l r (start_copy l r)"
  by (simp add: copy_inv_def start_copy_def)

text \<open>Both counts are returned when both copies are done.\<close>

definition copy_counts :: "Copy \<Rightarrow> int \<times> int" where
  "copy_counts c = (blen (cp_toRight c), blen (cp_toLeft c))"

text \<open>
  What arrives on either side is a prefix of what the other side sent, and without
  errors at least one of the two directions arrives completely.
\<close>

lemma copies_are_prefixes:
  assumes "copy_run faults (start_copy l r) c"
  shows "\<exists>lost_l lost_r. l = cp_toRight c @ lost_l \<and> r = cp_toLeft c @ lost_r \<and>
    (cp_doneLR c \<and> \<not> faults \<longrightarrow> lost_l = [] \<or> lost_r = [])"
  using copy_run_inv [OF assms start_copy_inv] by (auto simp: copy_inv_def)

text \<open>
  But not both: a side that ends its sending direction first (a half close) loses everything the
  other side has not sent by then.
\<close>

lemma half_close_loses_answer:
  "\<exists>c. copy_run False (start_copy [1] [2, 3]) c \<and> cp_doneLR c \<and> cp_doneRL c \<and> cp_toRight c = [1] \<and> cp_toLeft c = []"
proof -
  let ?c1 = "(start_copy [1] [2, 3]) \<lparr>cp_left := [], cp_toRight := [1]\<rparr>"
  let ?c2 = "?c1 \<lparr>cp_doneLR := True, cp_closed := True\<rparr>"
  let ?c3 = "?c2 \<lparr>cp_doneRL := True, cp_closed := True\<rparr>"
  have s1: "CopyBidirectional False (start_copy [1] [2, 3]) ?c1"
    using copy_right [of "start_copy [1] [2, 3]" "[1]" "[]" False] by (simp add: start_copy_def)
  have s2: "CopyBidirectional False ?c1 ?c2" by (rule end_right) (simp_all add: start_copy_def)
  have s3: "CopyBidirectional False ?c2 ?c3" by (rule end_left) (simp_all add: start_copy_def)
  have "copy_run False (start_copy [1] [2, 3]) ?c3"
    by (rule copy_step [OF s1 copy_step [OF s2 copy_step [OF s3 copy_refl]]])
  moreover have "cp_doneLR ?c3" "cp_doneRL ?c3" "cp_toRight ?c3 = [1]" "cp_toLeft ?c3 = []"
    by (simp_all add: start_copy_def)
  ultimately show ?thesis by blast
qed

end
