(* ===== verification/Target.thy ===== *)
theory Target
  imports Control Tunnel
begin

text \<open>
  The far end of a data stream, in internal/control/transport.go: a client (or the server itself,
  for its local proxies) serves the stream requests of the server by dialling the target. HTTP
  parsing and the transport are parameters; what a handler does is the list of its effects.
\<close>

record Inbound = UpgradeRequest +
  In_RequestURI :: string
  In_URLScheme :: string
  In_URLHost :: string
  In_Host :: string
  In_Origin :: string

text \<open>
  The replies: http.ReadRequest on the bytes of the stream, the dialer, url.Parse, the transport's
  RoundTrip, and for an upgrade the write of the request, the response and its write.
\<close>

record TargetEnv =
  te_ReadRequest :: "byte list \<Rightarrow> Inbound option"
  te_dial :: "string \<Rightarrow> string \<Rightarrow> unit result"
  te_url_Parse :: "string \<Rightarrow> (string \<times> string) option"
  te_RoundTrip :: "Inbound \<Rightarrow> Response result"
  te_write_request :: "unit result"
  te_ReadResponse :: "Response result"
  te_write_response :: "unit result"

datatype target_effect =
    TDial string string
  | TSend Inbound
  | TRoundTrip Inbound
  | TRespond Response
  | TBadGateway
  | TTunnel
  | TDatagrams

definition target_address :: "OpenStream \<Rightarrow> string" where
  "target_address request = JoinHostPort (OS_TargetHost request) (itoa (OS_TargetPort request))"

definition handleTCPStreamWithDialer :: "TargetEnv \<Rightarrow> OpenStream \<Rightarrow> target_effect list" where
  "handleTCPStreamWithDialer env request =
     TDial ''tcp'' (target_address request) #
       (case te_dial env ''tcp'' (target_address request) of Inl _ \<Rightarrow> [] | Inr _ \<Rightarrow> [TTunnel])"

text \<open>The request as the target gets it.\<close>

definition to_target :: "TargetEnv \<Rightarrow> string \<Rightarrow> Inbound \<Rightarrow> Inbound" where
  "to_target env authority inbound =
     inbound \<lparr>In_RequestURI := [], In_URLScheme := ''http'', In_URLHost := authority, In_Host := authority,
              In_Origin := rewriteHTTPOrigin (te_url_Parse env) (In_Origin inbound) authority\<rparr>"

definition handleHTTPUpgradeStreamWithDialer :: "TargetEnv \<Rightarrow> Inbound \<Rightarrow> string \<Rightarrow> target_effect list" where
  "handleHTTPUpgradeStreamWithDialer env inbound targetAuthority =
     (let upgraded = NormalizeWebSocketRequest inbound in
      TDial ''tcp'' targetAuthority #
      (case te_dial env ''tcp'' targetAuthority of
         Inl _ \<Rightarrow> [TBadGateway]
       | Inr _ \<Rightarrow>
           TSend upgraded #
           (case te_write_request env of
              Inl _ \<Rightarrow> [TBadGateway]
            | Inr _ \<Rightarrow>
                (case te_ReadResponse env of
                   Inl _ \<Rightarrow> [TBadGateway]
                 | Inr response \<Rightarrow>
                     TRespond response #
                     (case te_write_response env of
                        Inl _ \<Rightarrow> []
                      | Inr _ \<Rightarrow> (if Rsp_StatusCode response \<noteq> 101 then [] else [TTunnel]))))))"

definition handleHTTPStreamWithDialer :: "TargetEnv \<Rightarrow> byte list \<Rightarrow> OpenStream \<Rightarrow> target_effect list" where
  "handleHTTPStreamWithDialer env inp request =
     (case te_ReadRequest env inp of
        None \<Rightarrow> []
      | Some parsed \<Rightarrow>
          (let targetAuthority = target_address request;
               inbound = to_target env targetAuthority parsed in
           if IsWebSocketUpgrade (UR_Upgrade inbound) (UR_Connection inbound)
           then handleHTTPUpgradeStreamWithDialer env inbound targetAuthority
           else TRoundTrip inbound #
                (case te_RoundTrip env inbound of Inl _ \<Rightarrow> [TBadGateway] | Inr response \<Rightarrow> [TRespond response])))"

text \<open>
  The datagrams of a UDP stream: the frames of the stream go to the target until a frame or a write
  fails, and the datagrams of the target become frames until a write fails.
\<close>

fun udp_to_target :: "(byte list \<Rightarrow> unit result) \<Rightarrow> byte list list \<Rightarrow> byte list list" where
  "udp_to_target send [] = []"
| "udp_to_target send (p # ps) = p # (case send p of Inl _ \<Rightarrow> [] | Inr _ \<Rightarrow> udp_to_target send ps)"

fun udp_from_target :: "byte list list \<Rightarrow> byte list" where
  "udp_from_target [] = []"
| "udp_from_target (p # ps) = (case WriteDatagramFrame p of Inl _ \<Rightarrow> [] | Inr frame \<Rightarrow> frame @ udp_from_target ps)"

definition handleUDPStreamWithDialer ::
    "TargetEnv \<Rightarrow> (byte list \<Rightarrow> unit result) \<Rightarrow> byte list \<Rightarrow> byte list list \<Rightarrow> OpenStream \<Rightarrow>
     target_effect list \<times> byte list list \<times> byte list" where
  "handleUDPStreamWithDialer env send inp answers request =
     (case te_dial env ''udp'' (target_address request) of
        Inl _ \<Rightarrow> ([TDial ''udp'' (target_address request)], [], [])
      | Inr _ \<Rightarrow> ([TDial ''udp'' (target_address request), TDatagrams],
                  udp_to_target send (read_frames inp), udp_from_target answers))"

text \<open>ServeProxyStream: the effects, and for a UDP stream the datagrams and the bytes sent back.\<close>

definition ServeProxyStream ::
    "unmarshal \<Rightarrow> TargetEnv \<Rightarrow> (byte list \<Rightarrow> unit result) \<Rightarrow> byte list list \<Rightarrow> byte list \<Rightarrow>
     target_effect list \<times> byte list list \<times> byte list" where
  "ServeProxyStream unmarshal env send answers inp =
     (case ReadMessage unmarshal inp of
        Inl _ \<Rightarrow> ([], [], [])
      | Inr (envelope, rest) \<Rightarrow>
      if Env_Type envelope \<noteq> MessageOpenStream then ([], [], [])
      else (case DecodePayload unmarshal KOpenStream envelope of
        Inr (POpenStream request) \<Rightarrow>
          (if OS_Kind request = ''http'' then (handleHTTPStreamWithDialer env rest request, [], [])
           else if OS_Kind request = ''udp'' then handleUDPStreamWithDialer env send rest answers request
           else (handleTCPStreamWithDialer env request, [], []))
      | _ \<Rightarrow> ([], [], [])))"

section \<open>Only the configured target\<close>

text \<open>The addresses and the requests of a list of effects.\<close>

fun effect_addresses :: "target_effect \<Rightarrow> string list" where
  "effect_addresses (TDial network address) = [address]"
| "effect_addresses (TSend r) = [In_Host r, In_URLHost r]"
| "effect_addresses (TRoundTrip r) = [In_Host r, In_URLHost r]"
| "effect_addresses _ = []"

fun effect_origin :: "target_effect \<Rightarrow> string option" where
  "effect_origin (TSend r) = Some (In_Origin r)"
| "effect_origin (TRoundTrip r) = Some (In_Origin r)"
| "effect_origin _ = None"

lemma NormalizeWebSocketRequest_fields [simp]:
  "In_Host (NormalizeWebSocketRequest r) = In_Host r" "In_URLHost (NormalizeWebSocketRequest r) = In_URLHost r"
  "In_Origin (NormalizeWebSocketRequest r) = In_Origin r"
  by (simp_all add: NormalizeWebSocketRequest_def)

lemma upgrade_effects:
  "e \<in> set (handleHTTPUpgradeStreamWithDialer env r authority) \<Longrightarrow> In_Host r = authority \<Longrightarrow> In_URLHost r = authority \<Longrightarrow>
     set (effect_addresses e) \<subseteq> {authority} \<and> (effect_origin e = None \<or> effect_origin e = Some (In_Origin r))"
  by (auto simp: handleHTTPUpgradeStreamWithDialer_def Let_def split: sum.splits if_splits)

lemma http_effects:
  assumes "e \<in> set (handleHTTPStreamWithDialer env inp request)"
  shows "set (effect_addresses e) \<subseteq> {target_address request} \<and>
    (effect_origin e = None \<or> (\<exists>parsed. te_ReadRequest env inp = Some parsed \<and>
       effect_origin e = Some (rewriteHTTPOrigin (te_url_Parse env) (In_Origin parsed) (target_address request))))"
proof -
  from assms obtain parsed where p: "te_ReadRequest env inp = Some parsed" 
    by (cases "te_ReadRequest env inp") (auto simp: handleHTTPStreamWithDialer_def)
  let ?r = "to_target env (target_address request) parsed"
  have r: "In_Host ?r = target_address request" "In_URLHost ?r = target_address request"
    "In_Origin ?r = rewriteHTTPOrigin (te_url_Parse env) (In_Origin parsed) (target_address request)"
    by (simp_all add: to_target_def)
  show ?thesis
  proof (cases "IsWebSocketUpgrade (UR_Upgrade ?r) (UR_Connection ?r)")
    case True
    with assms p have "e \<in> set (handleHTTPUpgradeStreamWithDialer env ?r (target_address request))"
      by (simp add: handleHTTPStreamWithDialer_def Let_def)
    from upgrade_effects [OF this r(1,2)] p r(3) show ?thesis by auto
  next
    case False
    with assms p have "e = TRoundTrip ?r \<or> e = TBadGateway \<or> (\<exists>x. e = TRespond x)"
      by (auto simp: handleHTTPStreamWithDialer_def Let_def split: sum.splits)
    then show ?thesis using p r by auto
  qed
qed

lemma tcp_udp_effects:
  "e \<in> set (handleTCPStreamWithDialer env request) \<Longrightarrow> set (effect_addresses e) \<subseteq> {target_address request} \<and> effect_origin e = None"
  "e \<in> set (fst (handleUDPStreamWithDialer env send inp answers request)) \<Longrightarrow>
     set (effect_addresses e) \<subseteq> {target_address request} \<and> effect_origin e = None"
  by (auto simp: handleTCPStreamWithDialer_def handleUDPStreamWithDialer_def split: sum.splits)

lemma datagrams_to_target:
  "\<forall>p \<in> set ps. send p = Inr () \<Longrightarrow> udp_to_target send ps = ps"
  by (induction ps) auto

end
