(* ===== verification/PortProps.thy ===== *)
theory PortProps
  imports PortEntries Target "HOL-Library.Multiset"
begin

text \<open>
  Correctness of the TCP and UDP entries: what a connection does and counts, that no stream of the
  UDP entry is lost or closed twice under any interleaving of its goroutines, and that datagrams
  reach the target as they were sent.
\<close>

section \<open>Streams of the UDP entry\<close>

definition stored :: "UdpListener \<Rightarrow> int multiset" where
  "stored l = mset (map (\<lambda>(k, s). us_stream s) (ul_sessions l))"

definition accounted :: "UdpListener \<Rightarrow> int multiset" where
  "accounted l = stored l + mset (ul_closed l)"

lemma mset_put_new: "gm_get m k = None \<Longrightarrow> mset (map f (gm_put k v m)) = add_mset (f (k, v)) (mset (map f m))"
  by (induction m) (auto simp: gm_get_def gm_put_def split: if_splits)

lemma mset_del: "gm_wf m \<Longrightarrow> gm_get m k = Some v \<Longrightarrow> mset (map f m) = add_mset (f (k, v)) (mset (map f (gm_del k m)))"
proof (induction m)
  case (Cons x m)
  show ?case
  proof (cases "fst x = k")
    case True
    with Cons.prems have "x = (k, v)" and "\<forall>y \<in> set m. fst y \<noteq> k" by (auto simp: gm_wf_def gm_get_def image_iff)
    moreover from this have "gm_del k (x # m) = m" by (auto simp: gm_del_def AList.delete_eq filter_id_conv)
    ultimately have "gm_del k (x # m) = m" and "x = (k, v)" by simp_all
    then show ?thesis by simp
  next
    case False
    with Cons show ?thesis by (auto simp: gm_wf_def gm_del_def gm_get_def AList.delete_eq)
  qed
qed (simp add: gm_get_def)

lemma mset_put_same:
  assumes "gm_wf m" "gm_get m k = Some v" "f (k, v') = f (k, v)"
  shows "mset (map f (gm_put k v' m)) = mset (map f m)"
  using assms
proof (induction m)
  case (Cons x m)
  then show ?case by (cases x) (auto simp: gm_wf_def gm_put_def gm_get_def split: if_splits)
qed (simp add: gm_get_def)

definition udp_ok :: "UdpListener \<Rightarrow> bool" where
  "udp_ok l \<longleftrightarrow> gm_wf (ul_sessions l)"

lemma removeKey_accounted: "udp_ok l \<Longrightarrow> udp_ok (udp_removeKey key l) \<and> accounted (udp_removeKey key l) = accounted l"
  using mset_del [of "ul_sessions l" key _ "\<lambda>(k, s). us_stream s"]
  by (auto simp: udp_removeKey_def udp_ok_def accounted_def stored_def udp_close_stream_def split: option.splits)

lemma fold_accounted:
  assumes "\<And>x l. udp_ok l \<Longrightarrow> udp_ok (f x l) \<and> accounted (f x l) = accounted l" and "udp_ok l"
  shows "udp_ok (fold f xs l) \<and> accounted (fold f xs l) = accounted l"
  using assms(2) by (induction xs arbitrary: l) (use assms(1) in auto)

lemma Close_accounted: "udp_ok l \<Longrightarrow> udp_ok (udp_Close l) \<and> accounted (udp_Close l) = accounted l"
  unfolding udp_Close_def by (rule fold_accounted) (auto simp: removeKey_accounted)

lemma cleanup_accounted: "udp_ok l \<Longrightarrow> udp_ok (udp_cleanupIdle now entry l) \<and> accounted (udp_cleanupIdle now entry l) = accounted l"
  unfolding udp_cleanupIdle_def by (rule fold_accounted) (auto simp: removeKey_accounted)

lemma touch_accounted: "udp_ok l \<Longrightarrow> udp_ok (udp_touch key h now l) \<and> accounted (udp_touch key h now l) = accounted l"
  using mset_put_same [of "ul_sessions l" key _ "\<lambda>(k, s). us_stream s"]
  by (auto simp: udp_touch_def udp_ok_def accounted_def stored_def split: option.splits)

lemma publish_accounted:
  "udp_ok l \<Longrightarrow> udp_publish key s l = (r, l') \<Longrightarrow> udp_ok l' \<and> accounted l' = add_mset (us_stream s) (accounted l)"
  using mset_put_new [of "ul_sessions l" key "\<lambda>(k, s). us_stream s" s]
  by (auto simp: udp_publish_def udp_ok_def accounted_def stored_def udp_close_stream_def split: option.splits)

text \<open>The keys a removal leaves, and that Close leaves none.\<close>

lemma removeKey_get: "gm_get (ul_sessions (udp_removeKey key l)) k = (if k = key then None else gm_get (ul_sessions l) k)"
  by (auto simp: udp_removeKey_def udp_close_stream_def split: option.splits)

lemma fold_removeKey_get:
  "gm_get (ul_sessions (fold udp_removeKey ks l)) k = (if k \<in> set ks then None else gm_get (ul_sessions l) k)"
  by (induction ks arbitrary: l) (auto simp: removeKey_get)

lemma Close_empties: "ul_sessions (udp_Close l) = []"
proof -
  have "gm_get (ul_sessions (udp_Close l)) k = None" for k
    by (cases "k \<in> set (gm_keys (ul_sessions l))") (auto simp: udp_Close_def fold_removeKey_get gm_keys_iff)
  then have "set (gm_keys (ul_sessions (udp_Close l))) = {}"
    by (intro equals0I) (simp add: gm_keys_iff)
  then show ?thesis by (simp add: gm_keys_def)
qed

section \<open>All interleavings of the UDP entry\<close>

text \<open>
  The goroutines of the entry at the granularity of the mutex: the opening of a stream, a fresh
  handle, outside of it; the second critical section; the other critical sections. \<open>ur_inflight\<close>
  are the sessions between the two, \<open>ur_opened\<close> every stream opened so far.
\<close>

record UdpRun =
  ur_listener :: UdpListener
  ur_inflight :: "(string \<times> UdpSession) list"
  ur_opened :: "int list"

definition NewUdpRun :: UdpRun where
  "NewUdpRun = \<lparr>ur_listener = \<lparr>ul_sessions = [], ul_closed = []\<rparr>, ur_inflight = [], ur_opened = []\<rparr>"

definition after_open :: "int \<Rightarrow> string \<Rightarrow> UdpSession result \<Rightarrow> UdpListener \<Rightarrow> UdpRun \<Rightarrow> UdpRun" where
  "after_open h key res l' w =
     w \<lparr>ur_listener := l',
        ur_inflight := (case res of Inr s \<Rightarrow> (key, s) # ur_inflight w | Inl _ \<Rightarrow> ur_inflight w),
        ur_opened := (case res of Inr _ \<Rightarrow> h # ur_opened w
                      | Inl _ \<Rightarrow> if l' = ur_listener w then ur_opened w else h # ur_opened w)\<rparr>"

inductive udp_step :: "UdpRun \<Rightarrow> UdpRun \<Rightarrow> bool" where
  udp_opens: "udp_open_session env proxy remoteAddr m (ur_listener w) = (effects, res, l') \<Longrightarrow>
    (\<And>opener h'. udp_open env opener = Inr h' \<Longrightarrow> h' = h) \<Longrightarrow> h \<notin> set (ur_opened w) \<Longrightarrow>
    udp_step w (after_open h (sessionKey (Proxy_ID proxy) remoteAddr) res l' w)"
| udp_publishes: "x \<in> set (ur_inflight w) \<Longrightarrow> udp_publish (fst x) (snd x) (ur_listener w) = (s, l') \<Longrightarrow>
    udp_step w (w \<lparr>ur_listener := l', ur_inflight := remove1 x (ur_inflight w)\<rparr>)"
| udp_touches: "udp_step w (w \<lparr>ur_listener := udp_touch key h now (ur_listener w)\<rparr>)"
| udp_removes: "udp_step w (w \<lparr>ur_listener := udp_removeKey key (ur_listener w)\<rparr>)"
| udp_cleans: "udp_step w (w \<lparr>ur_listener := udp_cleanupIdle now entry (ur_listener w)\<rparr>)"
| udp_closes: "udp_step w (w \<lparr>ur_listener := udp_Close (ur_listener w)\<rparr>)"

inductive udp_reachable :: "UdpRun \<Rightarrow> bool" where
  udp_init: "udp_reachable NewUdpRun"
| udp_next: "udp_reachable w \<Longrightarrow> udp_step w w' \<Longrightarrow> udp_reachable w'"

definition inflight :: "UdpRun \<Rightarrow> int multiset" where
  "inflight w = mset (map (\<lambda>x. us_stream (snd x)) (ur_inflight w))"

definition udp_inv :: "UdpRun \<Rightarrow> bool" where
  "udp_inv w \<longleftrightarrow> udp_ok (ur_listener w) \<and> distinct (ur_opened w) \<and>
     mset (ur_opened w) = accounted (ur_listener w) + inflight w"

lemma open_session_cases:
  assumes "udp_open_session env proxy remoteAddr m l = (effects, res, l')"
    and "\<And>opener h'. udp_open env opener = Inr h' \<Longrightarrow> h' = h"
  shows "(l' = l \<and> (\<exists>e. res = Inl e)) \<or> (l' = udp_close_stream h l \<and> (\<exists>e. res = Inl e)) \<or>
    (l' = l \<and> (\<exists>s. res = Inr s \<and> us_stream s = h))"
  using assms by (auto simp: udp_open_session_def Let_def split: option.splits sum.splits)

lemma udp_step_inv: "udp_step w w' \<Longrightarrow> udp_inv w \<Longrightarrow> udp_inv w'"
proof (induction rule: udp_step.induct)
  case (udp_opens env proxy remoteAddr m w effects res l' h)
  have "udp_close_stream h (ur_listener w) \<noteq> ur_listener w" by (cases "ur_listener w") (simp add: udp_close_stream_def)
  moreover have "(l' = ur_listener w \<and> (\<exists>e. res = Inl e)) \<or>
      (l' = udp_close_stream h (ur_listener w) \<and> (\<exists>e. res = Inl e)) \<or> (l' = ur_listener w \<and> (\<exists>s. res = Inr s \<and> us_stream s = h))"
    using udp_opens(2) by (intro open_session_cases [OF udp_opens(1)]) blast
  ultimately show ?case using udp_opens(3,4)
    by (auto simp: udp_inv_def after_open_def inflight_def accounted_def stored_def udp_close_stream_def udp_ok_def)
next
  case (udp_publishes x w s l')
  then have "mset (map (\<lambda>x. us_stream (snd x)) (ur_inflight w)) =
      add_mset (us_stream (snd x)) (mset (map (\<lambda>x. us_stream (snd x)) (remove1 x (ur_inflight w))))"
    by (metis (no_types, lifting) image_mset_add_mset insert_DiffM mset_map mset_remove1 set_mset_mset)
  with publish_accounted [OF _ udp_publishes(2)] udp_publishes(3) show ?case by (auto simp: udp_inv_def inflight_def)
qed (auto simp: udp_inv_def inflight_def touch_accounted removeKey_accounted cleanup_accounted Close_accounted)

lemma udp_reachable_inv: "udp_reachable w \<Longrightarrow> udp_inv w"
  by (induction rule: udp_reachable.induct)
     (auto simp: udp_step_inv, simp add: udp_inv_def NewUdpRun_def udp_ok_def accounted_def stored_def inflight_def gm_wf_def)

lemma distinct_sub_mset: "distinct ys \<Longrightarrow> mset xs \<subseteq># mset ys \<Longrightarrow> distinct xs"
proof -
  assume d: "distinct ys" and sub: "mset xs \<subseteq># mset ys"
  have "count (mset xs) a = (if a \<in> set xs then 1 else 0)" for a
  proof (cases "a \<in> set xs")
    case True
    then have "0 < count (mset xs) a" and "a \<in> set ys" using sub by (simp, metis mset_subset_eqD set_mset_mset)
    moreover have "count (mset ys) a = 1" using d \<open>a \<in> set ys\<close> by (simp add: distinct_count_atmost_1)
    ultimately have "count (mset xs) a = 1" using mset_subset_eq_count [OF sub, of a] by linarith
    then show ?thesis using True by simp
  next
    case False
    then show ?thesis by (simp add: count_eq_zero_iff)
  qed
  then show ?thesis by (simp add: distinct_count_atmost_1)
qed

text \<open>
  C35: the UDP entry neither loses a stream nor closes one twice, under every interleaving of its
  goroutines (packets, responses, cleanup, Close), each stream it opened is in exactly one place:
  in the hands of a goroutine that is about to publish it, stored under the key of a session, or
  closed, and then exactly once. After Close no stream is stored: all that are not in flight are
  closed.
\<close>

theorem udp_streams_conserved:
  assumes "udp_reachable w"
  shows "distinct (ur_opened w) \<and>
    mset (ur_opened w) =
      mset (map (\<lambda>(k, s). us_stream s) (ul_sessions (ur_listener w))) + mset (ul_closed (ur_listener w)) +
      mset (map (\<lambda>x. us_stream (snd x)) (ur_inflight w)) \<and>
    distinct (ul_closed (ur_listener w)) \<and>
    mset (ur_opened w) = mset (ul_closed (udp_Close (ur_listener w))) + mset (map (\<lambda>x. us_stream (snd x)) (ur_inflight w))"
proof -
  have inv: "udp_inv w" by (rule udp_reachable_inv [OF assms])
  then have d: "distinct (ur_opened w)" and m: "mset (ur_opened w) = accounted (ur_listener w) + inflight w"
    and ok: "udp_ok (ur_listener w)" by (simp_all add: udp_inv_def)
  have "accounted (udp_Close (ur_listener w)) = mset (ul_closed (udp_Close (ur_listener w)))"
    by (simp add: accounted_def stored_def Close_empties)
  with Close_accounted [OF ok] have c: "accounted (ur_listener w) = mset (ul_closed (udp_Close (ur_listener w)))" by simp
  have "mset (ul_closed (ur_listener w)) \<subseteq># mset (ur_opened w)"
    unfolding m accounted_def by (simp add: add.assoc [symmetric] subset_mset.add_increasing2)
  then have "distinct (ul_closed (ur_listener w))"
    using d distinct_sub_mset by blast
  with d m c show ?thesis by (simp add: accounted_def stored_def inflight_def)
qed

section \<open>Datagrams through a session\<close>

text \<open>Packets of one remote address, one after the other, each with its own replies and time.\<close>

fun udp_packets ::
    "(int \<Rightarrow> byte list \<Rightarrow> unit result) \<Rightarrow> PortEntry \<Rightarrow> string \<Rightarrow> DB \<Rightarrow> Manager \<Rightarrow> (UdpEnv \<times> byte list) list \<Rightarrow>
     UdpListener \<times> Memory \<Rightarrow> udp_effect list \<times> UdpListener \<times> Memory" where
  "udp_packets emit entry remoteAddr db m [] w = ([], w)"
| "udp_packets emit entry remoteAddr db m ((env, payload) # rest) w =
     (case udp_handlePacket env emit entry remoteAddr payload db m w of
        (effects, w') \<Rightarrow>
          (case udp_packets emit entry remoteAddr db m rest w' of (effects', w'') \<Rightarrow> (effects @ effects', w'')))"

definition stream_bytes :: "int \<Rightarrow> udp_effect list \<Rightarrow> byte list" where
  "stream_bytes h effects = concat (map (\<lambda>e. case e of UdpFrame h' bs \<Rightarrow> if h' = h then bs else [] | _ \<Rightarrow> []) effects)"

lemma stream_bytes_simps [simp]:
  "stream_bytes h [] = []" "stream_bytes h (a @ b) = stream_bytes h a @ stream_bytes h b"
  "stream_bytes h (UdpFrame h' bs # es) = (if h' = h then bs else []) @ stream_bytes h es"
  by (simp_all add: stream_bytes_def)

lemma packet_on_session:
  assumes p: "entry_proxy proxies_ByUDPEntry entry db = Some proxy"
    and s: "gm_get (ul_sessions l) (sessionKey (Proxy_ID proxy) remoteAddr) = Some s"
    and f: "WriteDatagramFrame payload = Inr frame" and w: "emit (us_stream s) frame = Inr ()"
  shows "\<exists>l' stats'. udp_handlePacket env emit entry remoteAddr payload db m (l, stats) = ([UdpFrame (us_stream s) frame], l', stats') \<and>
    (\<exists>s'. gm_get (ul_sessions l') (sessionKey (Proxy_ID proxy) remoteAddr) = Some s' \<and> us_stream s' = us_stream s)"
  using p s by (simp add: udp_handlePacket_def udp_session_def Let_def udp_send_def f w udp_touch_def)

lemma packets_on_session:
  assumes p: "entry_proxy proxies_ByUDPEntry entry db = Some proxy" and w: "\<And>bs. emit h bs = Inr ()"
  shows "map (\<lambda>x. WriteDatagramFrame (snd x)) packets = map Inr frames \<Longrightarrow>
    gm_get (ul_sessions l) (sessionKey (Proxy_ID proxy) remoteAddr) = Some s \<Longrightarrow> us_stream s = h \<Longrightarrow>
    stream_bytes h (fst (udp_packets emit entry remoteAddr db m packets (l, stats))) = concat frames"
proof (induction packets arbitrary: frames l s stats)
  case (Cons x packets)
  obtain env payload where x: "x = (env, payload)" by (cases x)
  from Cons.prems(1) obtain frame frames' where f: "frames = frame # frames'" "WriteDatagramFrame payload = Inr frame"
    "map (\<lambda>x. WriteDatagramFrame (snd x)) packets = map Inr frames'" by (cases frames) (auto simp: x)
  from packet_on_session [OF p Cons.prems(2) f(2), of emit env m stats] w Cons.prems(3) obtain l' stats' s' where
    h: "udp_handlePacket env emit entry remoteAddr payload db m (l, stats) = ([UdpFrame h frame], l', stats')"
    and s': "gm_get (ul_sessions l') (sessionKey (Proxy_ID proxy) remoteAddr) = Some s'" "us_stream s' = h" by auto
  from Cons.IH [OF f(3) s', of stats'] show ?case
    by (simp add: x h f(1) case_prod_beta)
qed simp


section \<open>A concrete entry\<close>

definition udp_proxy :: Proxy where
  "udp_proxy = sample_proxy \<lparr>Proxy_Type := ProxyUDP, Proxy_EntryPort := 5353, Proxy_TargetHost := ''10.0.0.7'',
     Proxy_TargetPort := 53\<rparr>"

definition udp_db :: DB where "udp_db = sample_db \<lparr>db_proxies := [udp_proxy]\<rparr>"

definition udp_entry :: PortEntry where
  "udp_entry = \<lparr>pe_BindHost = [], pe_Port = 5353, pe_IncludeDefault = True, pe_addr = ''0.0.0.0:5353'', pe_IdleTimeout = 0\<rparr>"

definition udp_manager :: Manager where
  "udp_manager = \<lparr>nextGeneration = 1, byID = [(''s1'', zeroSession \<lparr>Ses_ID := ''s1'', Ses_ClientID := ''c1'',
     Ses_StreamOpener := Some 4\<rparr>)], latestByClient = [(''c1'', ''s1'')]\<rparr>"

definition udp_env :: "int \<Rightarrow> UdpEnv" where
  "udp_env h = \<lparr>udp_open = (\<lambda>_. Inr h), udp_sessionID = Inr ''x'', udp_write = (\<lambda>_. Inr ()), udp_now = 10\<rparr>"

definition udp_peer :: UdpSession where
  "udp_peer = \<lparr>us_proxyID = ''p1'', us_remoteAddr = ''1.2.3.4:9'', us_stream = 7, us_lastSeen = 10\<rparr>"

definition udp_one :: UdpListener where
  "udp_one = \<lparr>ul_sessions = [(sessionKey ''p1'' ''1.2.3.4:9'', udp_peer)], ul_closed = []\<rparr>"

definition run_opened :: UdpRun where
  "run_opened = \<lparr>ur_listener = \<lparr>ul_sessions = [], ul_closed = []\<rparr>,
     ur_inflight = [(sessionKey ''p1'' ''1.2.3.4:9'', udp_peer)], ur_opened = [7]\<rparr>"

definition run_published :: UdpRun where "run_published = \<lparr>ur_listener = udp_one, ur_inflight = [], ur_opened = [7]\<rparr>"

lemma udp_opened: "udp_reachable run_opened"
proof -
  have o: "udp_open_session (udp_env 7) udp_proxy ''1.2.3.4:9'' udp_manager (ur_listener NewUdpRun) =
      (fst (udp_open_session (udp_env 7) udp_proxy ''1.2.3.4:9'' udp_manager (ur_listener NewUdpRun)), Inr udp_peer,
       \<lparr>ul_sessions = [], ul_closed = []\<rparr>)" by code_simp
  have "udp_step NewUdpRun (after_open 7 (sessionKey (Proxy_ID udp_proxy) ''1.2.3.4:9'') (Inr udp_peer)
      \<lparr>ul_sessions = [], ul_closed = []\<rparr> NewUdpRun)"
    by (rule udp_opens [OF o]) (auto simp: udp_env_def NewUdpRun_def)
  moreover have "after_open 7 (sessionKey (Proxy_ID udp_proxy) ''1.2.3.4:9'') (Inr udp_peer)
      \<lparr>ul_sessions = [], ul_closed = []\<rparr> NewUdpRun = run_opened"
    by (simp add: after_open_def NewUdpRun_def run_opened_def udp_proxy_def sample_proxy_def)
  ultimately show ?thesis using udp_next [OF udp_init] by simp
qed

lemma udp_published: "udp_reachable run_published"
proof -
  let ?x = "(sessionKey ''p1'' ''1.2.3.4:9'', udp_peer)"
  have p: "udp_publish (fst ?x) (snd ?x) (ur_listener run_opened) = (udp_peer, udp_one)"
    by (simp add: udp_publish_def run_opened_def udp_one_def gm_put_def)
  have "udp_step run_opened (run_opened \<lparr>ur_listener := udp_one, ur_inflight := remove1 ?x (ur_inflight run_opened)\<rparr>)"
    by (rule udp_publishes [OF _ p]) (simp add: run_opened_def)
  moreover have "run_opened \<lparr>ur_listener := udp_one, ur_inflight := remove1 ?x (ur_inflight run_opened)\<rparr> = run_published"
    by (simp add: run_opened_def run_published_def)
  ultimately show ?thesis using udp_next [OF udp_opened] by simp
qed

lemma udp_streams_conserved_witness: "mset (ul_closed (udp_Close udp_one)) = {#7#}"
  using udp_streams_conserved [OF udp_published] by (simp add: run_published_def)


text \<open>
  The deferred removeKey of readResponses works on the key, not on the session: the reader of a
  session that was removed (its packet failed) closes the session that has taken its place.
\<close>

lemma stale_reader_closes_new_session:
  "\<exists>old new. us_stream old \<noteq> us_stream new \<and>
     udp_readResponses (\<lambda>_. Inr ()) (sessionKey ''p1'' ''a'') old [] (\<lparr>ul_sessions = [(sessionKey ''p1'' ''a'', new)], ul_closed = [us_stream old]\<rparr>, []) =
       ([], \<lparr>ul_sessions = [], ul_closed = [us_stream old, us_stream new]\<rparr>, [])"
proof -
  let ?old = "\<lparr>us_proxyID = ''p1'', us_remoteAddr = ''a'', us_stream = 1, us_lastSeen = 0\<rparr>"
  let ?new = "\<lparr>us_proxyID = ''p1'', us_remoteAddr = ''a'', us_stream = 2, us_lastSeen = 5\<rparr>"
  have "udp_readResponses (\<lambda>_. Inr ()) (sessionKey ''p1'' ''a'') ?old [] (\<lparr>ul_sessions = [(sessionKey ''p1'' ''a'', ?new)], ul_closed = [1]\<rparr>, []) =
       ([], \<lparr>ul_sessions = [], ul_closed = [1, 2]\<rparr>, [])" by code_simp
  then show ?thesis by (intro exI [of _ ?old] exI [of _ ?new]) simp
qed

end
