(* ===== verification/EndToEnd.thy ===== *)
theory EndToEnd
  imports PortProps ControlProps WebEntry
begin

text \<open>
  The way of a stream request through the whole system: a server-side handler (TCP, UDP, HTTP and
  HTTPS entries, consumer streams) sends it over the control connection, the far end reads it from
  the wire and dials. What is dialled is the configured target of an enabled proxy.
\<close>

section \<open>What the handlers ask for\<close>

definition request_for :: "Proxy \<Rightarrow> OpenStream \<Rightarrow> bool" where
  "request_for proxy out \<longleftrightarrow> OS_ProxyID out = Proxy_ID proxy \<and> OS_TargetHost out = Proxy_TargetHost proxy \<and>
     OS_TargetPort out = Proxy_TargetPort proxy"

definition configured :: "DB \<Rightarrow> OpenStream \<Rightarrow> bool" where
  "configured db out \<longleftrightarrow> (\<exists>proxy \<in> set (db_proxies db). Proxy_Status proxy = ProxyEnabled \<and> request_for proxy out)"

lemma byEntry_row: "proxies_byEntry db ty host port d = Inr p \<Longrightarrow> p \<in> set (db_proxies db)"
proof -
  assume a: "proxies_byEntry db ty host port d = Inr p"
  let ?l = "sort_key (\<lambda>p. if entry_exact host port p then 0 else 1 :: int) (filter (\<lambda>p. Proxy_Type p = ty
      \<and> (entry_exact (NormalizeBindHost host) port p \<or> (d \<and> Proxy_EntryBindHost p = [] \<and> Proxy_EntryPort p = port))) (db_proxies db))"
  from a have "p \<in> set ?l" unfolding proxies_byEntry_def Let_def by (cases ?l) (simp, metis Inr_inject list.simps(5) list.set_intros(1))
  then show ?thesis by simp
qed

lemma entry_row: "entry_proxy lookup entry db = Some p \<Longrightarrow> lookup \<in> {proxies_ByTCPEntry, proxies_ByUDPEntry} \<Longrightarrow>
   p \<in> set (db_proxies db) \<and> Proxy_Status p = ProxyEnabled"
  by (auto simp: entry_proxy_def proxies_ByTCPEntry_def proxies_ByUDPEntry_def dest: byEntry_row split: sum.splits if_splits)

lemma tcp_serve_request: "TcpSend out \<in> set (fst (tcp_serve env proxy m)) \<Longrightarrow> request_for proxy out"
  by (auto simp: tcp_serve_def request_for_def Let_def split: option.splits sum.splits)

lemma tcp_configured: "TcpSend out \<in> set (fst (tcp_handleConn env entry db m stats)) \<Longrightarrow> configured db out"
  by (auto simp: tcp_handleConn_def configured_def Let_def case_prod_beta dest!: entry_row tcp_serve_request split: option.splits)

lemma udp_open_request: "udp_open_session env proxy addr m l = (effects, r) \<Longrightarrow> UdpSendOpen h out \<in> set effects \<Longrightarrow> request_for proxy out"
  by (auto simp: udp_open_session_def request_for_def Let_def split: option.splits sum.splits)

lemma udp_session_request: "udp_session env proxy addr m l = (effects, r) \<Longrightarrow> UdpSendOpen h out \<in> set effects \<Longrightarrow> request_for proxy out"
  by (auto simp: udp_session_def Let_def dest: udp_open_request split: option.splits sum.splits prod.splits)

lemma udp_send_no_open: "UdpSendOpen h out \<notin> set (fst (udp_send emit stream payload))"
  by (auto simp: udp_send_def split: sum.splits)

lemma udp_configured:
  assumes "UdpSendOpen h out \<in> set (fst (udp_handlePacket env emit entry addr payload db m w))"
  shows "configured db out"
proof -
  obtain l stats where w: "w = (l, stats)" by (cases w)
  from assms obtain proxy where p: "entry_proxy proxies_ByUDPEntry entry db = Some proxy"
    by (cases "entry_proxy proxies_ByUDPEntry entry db") (auto simp: udp_handlePacket_def w)
  obtain effects res l1 where s: "udp_session env proxy addr m l = (effects, res, l1)" by (metis prod_cases3)
  have "UdpSendOpen h out \<in> set effects"
    using assms udp_send_no_open
    by (cases res) (auto simp: udp_handlePacket_def w p s Let_def case_prod_beta)
  from udp_session_request [OF s this] entry_row [OF p] show ?thesis by (auto simp: configured_def)
qed

lemma sdk_configured:
  assumes "ProviderSend out \<in> set (handleSDKStream u open_stream emit inp userID db m)"
  shows "configured db out"
proof -
  from assms have "handleSDKStream u open_stream emit inp userID db m \<noteq> []" by auto
  from handleSDKStream_effects [OF this] obtain request proxy opener
    where a: "asked u inp request" and r: "may_reach userID db m request proxy opener" by blast
  from assms have "out = provider_request request proxy"
    by (auto simp: handleSDKStream_reach [OF a r] split: sum.splits)
  with r show ?thesis
    by (auto simp: may_reach_def configured_def request_for_def provider_request_def proxies_ByID_def dest!: sql_one_Inr)
qed

lemma Select_row: "SelectWebProxy ps path = Some p \<Longrightarrow> p \<in> set ps"
  by (rule Select_Some(1))

lemma path_row: "proxies_ByDomainAndPath db d path = Inr p \<Longrightarrow> p \<in> set (db_proxies db) \<and> Proxy_Status p = ProxyEnabled"
  by (auto simp: proxies_ByDomainAndPath_def proxies_EnabledWebByDomainID_def dest!: Select_row split: option.splits)

lemma https_request: "SendOpen out \<in> set (https_forward env mgr proxy request) \<Longrightarrow> request_for proxy out"
  by (auto simp: https_forward_def request_for_def Let_def split: sum.splits option.splits if_splits)

lemma activation_requests_nothing: "SendOpen out \<notin> set (fst (handleAccessActivation env request webDomain db))"
  by (auto simp: handleAccessActivation_def unavailable_def Let_def split: sum.splits if_splits prod.splits)

lemma https_configured:
  assumes "SendOpen out \<in> set (fst (handleTerminatedConn env mgr webDomain request db))"
  shows "configured db out"
proof -
  from assms activation_requests_nothing obtain proxy request' where
    "proxies_ByDomainAndPath db (Dom_ID webDomain) (Req_Path request) = Inr proxy" "SendOpen out \<in> set (https_forward env mgr proxy request')"
    by (auto simp: handleTerminatedConn_def split: if_splits sum.splits prod.splits)
  with path_row https_request show ?thesis unfolding configured_def by blast
qed

lemma http_request: "SendOpen out \<in> set (ct_effects (http_forward env mgr proxy request)) \<Longrightarrow> request_for proxy out"
  by (auto simp: http_forward_def count_error_def request_for_def Let_def split: sum.splits option.splits if_splits)

lemma http_configured:
  assumes "SendOpen out \<in> set (fst (ServeHTTP entry env mgr db request stats))"
  shows "configured db out"
proof -
  have "\<exists>d proxy request'. proxies_ByDomainAndPath db d (Req_Path request) = Inr proxy \<and>
      SendOpen out \<in> set (ct_effects (http_forward env mgr proxy request'))"
    using assms
    by (auto simp: ServeHTTP_def Let_def split: if_splits sum.splits prod.splits option.splits)
  with path_row http_request show ?thesis unfolding configured_def by blast
qed

section \<open>What the far end dials\<close>

lemma served_only_at_target:
  assumes law: "proto_law marshal u" and wr: "WriteMessage marshal MessageOpenStream (POpenStream out) = Inr sent"
    and p: "is_int32 (OS_TargetPort out)" and e: "e \<in> set (fst (ServeProxyStream u env send answers (sent @ rest)))"
  shows "set (effect_addresses e) \<subseteq> {target_address out}"
proof -
  from message_read_back [OF law wr, of rest] p obtain ps where
    r: "ReadMessage u (sent @ rest) = Inr (\<lparr>Env_Type = MessageOpenStream, Env_Payload = ps\<rparr>, rest)"
    and d: "DecodePayload u KOpenStream \<lparr>Env_Type = MessageOpenStream, Env_Payload = ps\<rparr> =
        (if ps = [] then Inl (New ''message payload is required'') else Inr (POpenStream out))"
    by (auto simp: openStreamToProto_def may_be_empty_def simp del: DecodePayload.simps)
  show ?thesis
  proof (cases "ps = []")
    case True
    with e r d show ?thesis by (simp add: ServeProxyStream_def del: DecodePayload.simps)
  next
    case False
    with e r d have "e \<in> set (handleHTTPStreamWithDialer env rest out) \<or> e \<in> set (handleTCPStreamWithDialer env out) \<or>
        e \<in> set (fst (handleUDPStreamWithDialer env send rest answers out))"
      by (simp add: ServeProxyStream_def del: DecodePayload.simps split: if_splits)
    then show ?thesis using http_effects tcp_udp_effects by blast
  qed
qed

text \<open>The handlers that may send a stream request, on one database.\<close>

definition sent_by_server :: "DB \<Rightarrow> OpenStream \<Rightarrow> bool" where
  "sent_by_server db out \<longleftrightarrow>
     (\<exists>env entry m stats. TcpSend out \<in> set (fst (tcp_handleConn env entry db m stats))) \<or>
     (\<exists>env emit entry addr payload m w h. UdpSendOpen h out \<in> set (fst (udp_handlePacket env emit entry addr payload db m w))) \<or>
     (\<exists>env mgr webDomain request. SendOpen out \<in> set (fst (handleTerminatedConn env mgr webDomain request db))) \<or>
     (\<exists>entry env mgr request stats. SendOpen out \<in> set (fst (ServeHTTP entry env mgr db request stats))) \<or>
     (\<exists>u open_stream emit inp userID m. ProviderSend out \<in> set (handleSDKStream u open_stream emit inp userID db m))"

lemma sent_configured: "sent_by_server db out \<Longrightarrow> configured db out"
  unfolding sent_by_server_def
  by (auto intro: tcp_configured udp_configured https_configured http_configured sdk_configured)

text \<open>
  C34: traffic goes to the configured targets only. Whatever stream request any handler of the server
  sends (the TCP, UDP, HTTP and HTTPS entries and the consumer streams, on any input), when it
  travels over the wire and the far end serves it, every address the far end dials and every host
  it puts into a forwarded HTTP request is the stored target host and port of one enabled proxy of
  the database, the one the request names.
\<close>

theorem traffic_reaches_configured_targets:
  assumes "proto_law marshal u" and "sent_by_server db out"
    and "WriteMessage marshal MessageOpenStream (POpenStream out) = Inr sent" and "is_int32 (OS_TargetPort out)"
  shows "\<exists>proxy. proxy \<in> set (db_proxies db) \<and> Proxy_Status proxy = ProxyEnabled \<and> Proxy_ID proxy = OS_ProxyID out \<and>
    (\<forall>e \<in> set (fst (ServeProxyStream u env send answers (sent @ rest))).
       set (effect_addresses e) \<subseteq> {JoinHostPort (Proxy_TargetHost proxy) (itoa (Proxy_TargetPort proxy))})"
proof -
  from sent_configured [OF assms(2)] obtain proxy where p: "proxy \<in> set (db_proxies db)" "Proxy_Status proxy = ProxyEnabled"
    "request_for proxy out" unfolding configured_def by blast
  then have "target_address out = JoinHostPort (Proxy_TargetHost proxy) (itoa (Proxy_TargetPort proxy))"
    by (simp add: request_for_def target_address_def)
  with served_only_at_target [OF assms(1,3,4)] p show ?thesis
    unfolding request_for_def by (intro exI [of _ proxy]) auto
qed

section \<open>A concrete way\<close>

definition tcp_proxy :: Proxy where
  "tcp_proxy = udp_proxy \<lparr>Proxy_Type := ProxyTCP\<rparr>"

definition tcp_db :: DB where "tcp_db = sample_db \<lparr>db_proxies := [tcp_proxy]\<rparr>"

definition tcp_env :: TcpEnv where
  "tcp_env = \<lparr>tcp_open = (\<lambda>_. Inr ()), tcp_connectionID = Inr ''x'', tcp_write = (\<lambda>_. Inr ()), tcp_copied = (3, 4)\<rparr>"

definition tcp_request :: OpenStream where
  "tcp_request = \<lparr>OS_Kind = [], OS_ProxyID = ''p1'', OS_ConnectionID = ''x'', OS_TargetHost = ''10.0.0.7'', OS_TargetPort = 53\<rparr>"

definition tcp_table :: "(pb \<times> byte list) list" where
  "tcp_table = [(openStreamToProto tcp_request, [1]), (PbEnvelope 4 [1], [2])]"

definition tcp_far_end :: TargetEnv where
  "tcp_far_end = \<lparr>te_ReadRequest = \<lambda>_. None, te_dial = \<lambda>_ _. Inr (), te_url_Parse = \<lambda>_. None, te_RoundTrip = \<lambda>_. Inl EOF,
     te_write_request = Inr (), te_ReadResponse = Inl EOF, te_write_response = Inr ()\<rparr>"

lemma tcp_sends: "TcpSend tcp_request \<in> set (fst (tcp_handleConn tcp_env udp_entry tcp_db udp_manager []))"
  by code_simp

lemma tcp_dials: "fst (ServeProxyStream (table_unmarshal tcp_table) tcp_far_end (\<lambda>_. Inr ()) [] ([0, 0, 0, 1, 2] @ [9])) =
    [TDial ''tcp'' ''10.0.0.7:53'', TTunnel]"
  by code_simp

lemma traffic_reaches_configured_targets_witness:
  "\<exists>proxy. proxy \<in> set (db_proxies tcp_db) \<and>
     [JoinHostPort (Proxy_TargetHost proxy) (itoa (Proxy_TargetPort proxy))] = effect_addresses (TDial ''tcp'' ''10.0.0.7:53'')"
proof -
  have law: "proto_law (table_marshal tcp_table) (table_unmarshal tcp_table)"
    by (rule table_law) (simp_all add: tcp_table_def)
  have s: "sent_by_server tcp_db tcp_request" unfolding sent_by_server_def by (rule disjI1, (rule exI)+, rule tcp_sends)
  have w: "WriteMessage (table_marshal tcp_table) MessageOpenStream (POpenStream tcp_request) = Inr [0, 0, 0, 1, 2]"
    by code_simp
  have p: "is_int32 (OS_TargetPort tcp_request)" by (simp add: tcp_request_def is_int32_def)
  from traffic_reaches_configured_targets [OF law s w p, of tcp_far_end "\<lambda>_. Inr ()" "[]" "[9]"]
  obtain proxy where "proxy \<in> set (db_proxies tcp_db)"
    "\<forall>e \<in> set [TDial ''tcp'' ''10.0.0.7:53'', TTunnel].
       set (effect_addresses e) \<subseteq> {JoinHostPort (Proxy_TargetHost proxy) (itoa (Proxy_TargetPort proxy))}"
    unfolding tcp_dials by blast
  then show ?thesis by (intro exI [of _ proxy]) auto
qed

end
