(* ===== verification/CertDisk.thy ===== *)
theory CertDisk
  imports CertStore HttpMessages
begin

text \<open>
  The certificate files of internal/proxy/https/certificates.go: paths, the replacement of the active
  pair of a host, and the health of a pair on disk. The file system is a map from paths to files;
  \<open>fc\<close> says which call fails with which error, and the list \<open>dk_past\<close> records every state the disk
  went through, which is what a crash leaves behind. Parsing a pair, verifying a host name and
  SHA-256 are parameters.
\<close>

section \<open>Errors as text\<close>

fun error_text :: "error \<Rightarrow> string" where
  "error_text (Sentinel s) = s"
| "error_text (New s) = s"
| "error_text (Wrapf s e) = s @ '': '' @ error_text e"
| "error_text (Contract code message None) = (if blank message then code else message)"
| "error_text (Contract code message (Some e)) = (if blank message then error_text e else message)"

definition SafeCertificateError :: "error \<Rightarrow> string" where
  "SafeCertificateError err =
     map (\<lambda>c. if c = CHR 0x0A \<or> c = CHR 0x0D then CHR '' '' else c) (take 512 (error_text err))"

section \<open>Paths\<close>

text \<open>filepath.Clean, Join and Rel on slash-separated paths; Rel for two absolute clean paths.\<close>

fun clean_parts :: "bool \<Rightarrow> string list \<Rightarrow> string list \<Rightarrow> string list" where
  "clean_parts rooted done_rev [] = rev done_rev"
| "clean_parts rooted done_rev (p # ps) =
     (if p = [] \<or> p = ''.'' then clean_parts rooted done_rev ps
      else if p = ''..'' then
        (case done_rev of
           [] \<Rightarrow> (if rooted then clean_parts rooted [] ps else clean_parts rooted [p] ps)
         | q # qs \<Rightarrow> (if q = ''..'' then clean_parts rooted (p # done_rev) ps else clean_parts rooted qs ps))
      else clean_parts rooted (p # done_rev) ps)"

definition filepath_Clean :: "string \<Rightarrow> string" where
  "filepath_Clean path =
     (let rooted = has_prefix path ''/'';
          parts = clean_parts rooted [] (split_on CHR ''/'' path)
      in if rooted then ''/'' @ join_with ''/'' parts else if parts = [] then ''.'' else join_with ''/'' parts)"

definition filepath_Join :: "string list \<Rightarrow> string" where
  "filepath_Join elems =
     (let es = filter (\<lambda>e. e \<noteq> []) elems in if es = [] then [] else filepath_Clean (join_with ''/'' es))"

fun rel_parts :: "string list \<Rightarrow> string list \<Rightarrow> string list" where
  "rel_parts (b # bs) (t # ts) = (if b = t then rel_parts bs ts else replicate (length (b # bs)) ''..'' @ t # ts)"
| "rel_parts [] ts = ts"
| "rel_parts bs [] = replicate (length bs) ''..''"

definition path_parts :: "string \<Rightarrow> string list" where
  "path_parts path = filter (\<lambda>p. p \<noteq> []) (split_on CHR ''/'' path)"

definition filepath_Rel :: "string \<Rightarrow> string \<Rightarrow> string" where
  "filepath_Rel base target =
     (let parts = rel_parts (path_parts base) (path_parts target) in if parts = [] then ''.'' else join_with ''/'' parts)"

definition filepath_IsAbs :: "string \<Rightarrow> bool" where
  "filepath_IsAbs path \<longleftrightarrow> has_prefix path ''/''"

section \<open>The disk\<close>

abbreviation ErrNotExist :: error where "ErrNotExist \<equiv> Sentinel ''file does not exist''"

record File =
  file_content :: "byte list"
  file_modTime :: time
  file_symlink :: bool

type_synonym files = "(string, File) gomap"

record Disk =
  dk_files :: files
  dk_past :: "files list"

datatype FsCall =
    FsLstat string | FsStat string | FsReadFile string | FsEvalSymlinks string | FsAbs string
  | FsMkdirAll string | FsCreateTemp string | FsWrite string | FsClose string | FsChmod string
  | FsRemove string | FsRename string string | FsSync string

definition fs_call :: "(FsCall \<Rightarrow> error option) \<Rightarrow> FsCall \<Rightarrow> (Disk, unit) op" where
  "fs_call fc call d = (case fc call of Some e \<Rightarrow> (Inl e, d) | None \<Rightarrow> (Inr (), d))"

definition fs_change :: "(files \<Rightarrow> files) \<Rightarrow> Disk \<Rightarrow> Disk" where
  "fs_change f d = \<lparr>dk_files = f (dk_files d), dk_past = dk_past d @ [f (dk_files d)]\<rparr>"

definition os_Stat :: "(FsCall \<Rightarrow> error option) \<Rightarrow> string \<Rightarrow> (Disk, File) op" where
  "os_Stat fc path d =
     (case fc (FsStat path) of
        Some e \<Rightarrow> (Inl e, d)
      | None \<Rightarrow> (case gm_get (dk_files d) path of None \<Rightarrow> (Inl ErrNotExist, d) | Some f \<Rightarrow> (Inr f, d)))"

definition os_ReadFile :: "(FsCall \<Rightarrow> error option) \<Rightarrow> string \<Rightarrow> (Disk, byte list) op" where
  "os_ReadFile fc path d =
     (case fc (FsReadFile path) of
        Some e \<Rightarrow> (Inl e, d)
      | None \<Rightarrow> (case gm_get (dk_files d) path of
                  None \<Rightarrow> (Inl ErrNotExist, d)
                | Some f \<Rightarrow> (Inr (file_content f), d)))"

definition os_Remove :: "(FsCall \<Rightarrow> error option) \<Rightarrow> string \<Rightarrow> (Disk, unit) op" where
  "os_Remove fc path d =
     (case fc (FsRemove path) of
        Some e \<Rightarrow> (Inl e, d)
      | None \<Rightarrow> (case gm_get (dk_files d) path of
                  None \<Rightarrow> (Inl ErrNotExist, d)
                | Some f \<Rightarrow> (Inr (), fs_change (gm_del path) d)))"

text \<open>Rename replaces its target in one step.\<close>

definition os_Rename :: "(FsCall \<Rightarrow> error option) \<Rightarrow> string \<Rightarrow> string \<Rightarrow> (Disk, unit) op" where
  "os_Rename fc old new d =
     (case fc (FsRename old new) of
        Some e \<Rightarrow> (Inl e, d)
      | None \<Rightarrow> (case gm_get (dk_files d) old of
                  None \<Rightarrow> (Inl ErrNotExist, d)
                | Some f \<Rightarrow> (Inr (), fs_change (\<lambda>m. gm_put new f (gm_del old m)) d)))"

definition os_WriteFile :: "(FsCall \<Rightarrow> error option) \<Rightarrow> string \<Rightarrow> byte list \<Rightarrow> time \<Rightarrow> (Disk, unit) op" where
  "os_WriteFile fc path content now =
     sbind (fs_call fc (FsWrite path)) (\<lambda>_.
       smodify (fs_change (gm_put path \<lparr>file_content = content, file_modTime = now, file_symlink = False\<rparr>)))"

section \<open>Storing a pair\<close>

text \<open>writeTempPair: \<open>tempCert\<close> and \<open>tempKey\<close> are the names CreateTemp picks in the directory.\<close>

definition write_temp :: "(FsCall \<Rightarrow> error option) \<Rightarrow> string \<Rightarrow> byte list \<Rightarrow> time \<Rightarrow> (Disk, unit) op" where
  "write_temp fc temp content now =
     sbind (fs_call fc (FsCreateTemp temp)) (\<lambda>_.
     sbind (smodify (fs_change (gm_put temp \<lparr>file_content = [], file_modTime = now, file_symlink = False\<rparr>))) (\<lambda>_.
     sbind (os_WriteFile fc temp content now) (\<lambda>_.
     sbind (fs_call fc (FsClose temp)) (\<lambda>_.
     fs_call fc (FsChmod temp)))))"

definition writeTempPair ::
    "(FsCall \<Rightarrow> error option) \<Rightarrow> string \<Rightarrow> string \<Rightarrow> byte list \<Rightarrow> byte list \<Rightarrow> time \<Rightarrow> (Disk, unit) op" where
  "writeTempPair fc tempCert tempKey certPEM keyPEM now =
     sbind (write_temp fc tempCert certPEM now) (\<lambda>_. write_temp fc tempKey keyPEM now)"

definition fileExists :: "(FsCall \<Rightarrow> error option) \<Rightarrow> string \<Rightarrow> (Disk, bool) op" where
  "fileExists fc path =
     shandle (os_Stat fc path) (\<lambda>r. case r of
       Inr _ \<Rightarrow> sret True
     | Inl e \<Rightarrow> (if errors_is e ErrNotExist then sret False else sfail e))"

definition bothFilesExist :: "(FsCall \<Rightarrow> error option) \<Rightarrow> string \<Rightarrow> string \<Rightarrow> (Disk, bool) op" where
  "bothFilesExist fc certFile keyFile =
     sbind (fileExists fc certFile) (\<lambda>certExists.
     sbind (fileExists fc keyFile) (\<lambda>keyExists.
       if certExists \<noteq> keyExists then sfail (New ''active certificate pair is incomplete'') else sret certExists))"

definition remove_if_present :: "(FsCall \<Rightarrow> error option) \<Rightarrow> string \<Rightarrow> (Disk, unit) op" where
  "remove_if_present fc path =
     shandle (os_Remove fc path) (\<lambda>r. case r of
       Inr _ \<Rightarrow> sret ()
     | Inl e \<Rightarrow> (if errors_is e ErrNotExist then sret () else sfail e))"

text \<open>A call whose error is ignored.\<close>

definition ignoring :: "('s, 'a) op \<Rightarrow> ('s, unit) op" where
  "ignoring m = shandle m (\<lambda>_. sret ())"

definition retire_active :: "(FsCall \<Rightarrow> error option) \<Rightarrow> string \<Rightarrow> string \<Rightarrow> string \<Rightarrow> string \<Rightarrow> (Disk, unit) op" where
  "retire_active fc certFile keyFile previousCert previousKey =
     sbind (remove_if_present fc previousCert) (\<lambda>_.
     sbind (remove_if_present fc previousKey) (\<lambda>_.
     sbind (os_Rename fc certFile previousCert) (\<lambda>_.
     shandle (os_Rename fc keyFile previousKey) (\<lambda>r. case r of
       Inr _ \<Rightarrow> sret ()
     | Inl e \<Rightarrow> sbind (ignoring (os_Rename fc previousCert certFile)) (\<lambda>_. sfail e)))))"

definition activate_temp ::
    "(FsCall \<Rightarrow> error option) \<Rightarrow> bool \<Rightarrow> string \<Rightarrow> string \<Rightarrow> string \<Rightarrow> string \<Rightarrow> string \<Rightarrow> string \<Rightarrow> (Disk, unit) op" where
  "activate_temp fc hasActive certFile keyFile previousCert previousKey tempCert tempKey =
     sbind (os_Rename fc tempCert certFile) (\<lambda>_.
     shandle (os_Rename fc tempKey keyFile) (\<lambda>r. case r of
       Inr _ \<Rightarrow> sret ()
     | Inl e \<Rightarrow>
         sbind (ignoring (os_Remove fc certFile)) (\<lambda>_.
         sbind (if hasActive
                then sbind (ignoring (os_Rename fc previousCert certFile)) (\<lambda>_.
                       ignoring (os_Rename fc previousKey keyFile))
                else sret ()) (\<lambda>_. sfail e))))"

definition replaceActivePair ::
    "(FsCall \<Rightarrow> error option) \<Rightarrow> string \<Rightarrow> string \<Rightarrow> string \<Rightarrow> string \<Rightarrow> string \<Rightarrow> string \<Rightarrow> (Disk, unit) op" where
  "replaceActivePair fc certFile keyFile previousCert previousKey tempCert tempKey =
     sbind (bothFilesExist fc certFile keyFile) (\<lambda>hasActive.
     sbind (if hasActive then retire_active fc certFile keyFile previousCert previousKey else sret ()) (\<lambda>_.
       activate_temp fc hasActive certFile keyFile previousCert previousKey tempCert tempKey))"

section \<open>Certificates\<close>

text \<open>crypto/tls and crypto/x509, and the path functions that ask the operating system.\<close>

record Leaf =
  Leaf_NotAfter :: time
  Leaf_Raw :: "byte list"

record TlsCertificate =
  Tls_Chain :: "byte list list"
  Tls_Key :: "byte list"
  Tls_Leaf :: "Leaf option"

record CertEnv =
  ce_fc :: "FsCall \<Rightarrow> error option"
  ce_EvalSymlinks :: "string \<Rightarrow> string"
  ce_Abs :: "string \<Rightarrow> string"
  ce_X509KeyPair :: "byte list \<Rightarrow> byte list \<Rightarrow> TlsCertificate result"
  ce_ParseCertificate :: "byte list \<Rightarrow> Leaf result"
  ce_VerifyHostname :: "Leaf \<Rightarrow> string \<Rightarrow> unit result"
  ce_SHA256 :: "byte list \<Rightarrow> string"
  ce_temp :: "string \<Rightarrow> string \<Rightarrow> string"

record ValidatedCertificate =
  VC_Certificate :: TlsCertificate
  VC_Leaf :: Leaf
  VC_NotAfter :: time
  VC_Fingerprint :: string

definition LeafFingerprint :: "CertEnv \<Rightarrow> Leaf \<Rightarrow> string" where
  "LeafFingerprint env leaf = ce_SHA256 env (Leaf_Raw leaf)"

text \<open>InspectCertificatePair; with an error it returns the status invalid.\<close>

definition InspectCertificatePair ::
    "CertEnv \<Rightarrow> string \<Rightarrow> byte list \<Rightarrow> byte list \<Rightarrow> time \<Rightarrow> duration \<Rightarrow> (ValidatedCertificate \<times> CertificateServingStatus) result" where
  "InspectCertificatePair env rawHost certPEM keyPEM now renewalWindow =
     (let host = to_lower (trim_space rawHost) in
      if host = [] then Inl (New ''certificate host is required'')
      else rbind (ce_X509KeyPair env certPEM keyPEM) (\<lambda>certificate.
        if Tls_Chain certificate = [] then Inl (New ''certificate chain is empty'')
        else rbind (ce_ParseCertificate env (hd (Tls_Chain certificate))) (\<lambda>leaf.
             rbind (ce_VerifyHostname env leaf host) (\<lambda>_.
               (let status = (if \<not> Leaf_NotAfter leaf > now then CertificateServingExpired
                              else if renewalWindow > 0 \<and> \<not> Leaf_NotAfter leaf > now + renewalWindow
                              then CertificateServingExpiringSoon else CertificateServingUsable)
                in Inr (\<lparr>VC_Certificate = certificate\<lparr>Tls_Leaf := Some leaf\<rparr>, VC_Leaf = leaf, VC_NotAfter = Leaf_NotAfter leaf,
                         VC_Fingerprint = LeafFingerprint env leaf\<rparr>, status))))))"

definition ValidateCertificatePair ::
    "CertEnv \<Rightarrow> string \<Rightarrow> byte list \<Rightarrow> byte list \<Rightarrow> time \<Rightarrow> ValidatedCertificate result" where
  "ValidateCertificatePair env host certPEM keyPEM now =
     rbind (InspectCertificatePair env host certPEM keyPEM now 0) (\<lambda>(validated, servingStatus).
       if servingStatus = CertificateServingExpired then Inl (New ''certificate is expired'') else Inr validated)"

definition wildcard_host :: "string \<Rightarrow> string \<Rightarrow> string" where
  "wildcard_host label rawHost =
     (let host = to_lower (trim_space rawHost) in
      if has_prefix host ''*.'' \<and> length host > 2 then label @ drop 2 host else host)"

definition certificateValidationHost :: "string \<Rightarrow> string" where
  "certificateValidationHost host = wildcard_host ''wildcard-validation.'' host"

definition certificateStorageName :: "string \<Rightarrow> string" where
  "certificateStorageName host = wildcard_host ''_wildcard.'' host"

record StoredCertificateFiles =
  SCF_CertFile :: string
  SCF_KeyFile :: string
  SCF_PreviousCertFile :: string
  SCF_PreviousKeyFile :: string
  SCF_NotAfter :: time
  SCF_Fingerprint :: string

text \<open>ManagedCertificateStorage.Store; the temporary files are removed at the end whatever happened.\<close>

definition storage_Store ::
    "CertEnv \<Rightarrow> string \<Rightarrow> time \<Rightarrow> string \<Rightarrow> byte list \<Rightarrow> byte list \<Rightarrow> (Disk, StoredCertificateFiles) op" where
  "storage_Store env certificateDir now rawHost certPEM keyPEM =
     (if blank certificateDir then sfail (New ''certificate dir is required'')
      else let host = to_lower (trim_space rawHost) in
        if host = [] then sfail (New ''certificate host is required'')
        else sbind (slift (ValidateCertificatePair env (certificateValidationHost host) certPEM keyPEM now)) (\<lambda>parsed.
          let dir = filepath_Join [certificateDir, ''managed'', certificateStorageName host];
              certFile = filepath_Join [dir, ''active.crt'']; keyFile = filepath_Join [dir, ''active.key''];
              previousCert = filepath_Join [dir, ''previous.crt'']; previousKey = filepath_Join [dir, ''previous.key''];
              tempCert = ce_temp env dir ''.crt''; tempKey = ce_temp env dir ''.key''
          in sbind (fs_call (ce_fc env) (FsMkdirAll dir)) (\<lambda>_.
             sbind (writeTempPair (ce_fc env) tempCert tempKey certPEM keyPEM now) (\<lambda>_.
             shandle (replaceActivePair (ce_fc env) certFile keyFile previousCert previousKey tempCert tempKey) (\<lambda>r.
             sbind (ignoring (os_Remove (ce_fc env) tempKey)) (\<lambda>_.
             sbind (ignoring (os_Remove (ce_fc env) tempCert)) (\<lambda>_.
             slift (rbind r (\<lambda>_. Inr \<lparr>SCF_CertFile = certFile, SCF_KeyFile = keyFile, SCF_PreviousCertFile = previousCert,
                SCF_PreviousKeyFile = previousKey, SCF_NotAfter = VC_NotAfter parsed, SCF_Fingerprint = VC_Fingerprint parsed\<rparr>))))))))) "

section \<open>Health of a pair\<close>

record CertificateMaterialHealth =
  MH_ServingStatus :: CertificateServingStatus
  MH_NotAfter :: "time option"
  MH_Fingerprint :: string
  MH_ErrorSummary :: string
  MH_Certificate :: "TlsCertificate option"

definition health_Usable :: "CertificateMaterialHealth \<Rightarrow> bool" where
  "health_Usable health \<longleftrightarrow> ServesTLS (MH_ServingStatus health) \<and> MH_Certificate health \<noteq> None"

definition safeHealthError :: "CertificateServingStatus \<Rightarrow> error \<Rightarrow> string" where
  "safeHealthError status err =
     (let message = to_lower (error_text err) in
      if status = CertificateServingMissing \<or> errors_is err ErrNotExist then ''certificate file is missing''
      else if contains_sub message ''symlink'' then ''certificate file symlinks are not allowed''
      else if contains_sub message ''must be under'' then ''certificate file is outside certificate directory''
      else if contains_sub message ''permission'' \<or> contains_sub message ''access is denied''
      then ''certificate file cannot be read''
      else SafeCertificateError err)"

definition certificateHealthError :: "CertificateServingStatus \<Rightarrow> error \<Rightarrow> CertificateMaterialHealth" where
  "certificateHealthError status err =
     \<lparr>MH_ServingStatus = status, MH_NotAfter = None, MH_Fingerprint = [], MH_ErrorSummary = safeHealthError status err,
      MH_Certificate = None\<rparr>"

definition statusFromFileError :: "error \<Rightarrow> CertificateServingStatus" where
  "statusFromFileError err = (if errors_is err ErrNotExist then CertificateServingMissing else CertificateServingInvalid)"

definition fs_reply :: "CertEnv \<Rightarrow> FsCall \<Rightarrow> 'a \<Rightarrow> 'a result" where
  "fs_reply env call value = (case ce_fc env call of Some e \<Rightarrow> Inl e | None \<Rightarrow> Inr value)"

definition resolveCertificateFile :: "CertEnv \<Rightarrow> files \<Rightarrow> string \<Rightarrow> string \<Rightarrow> string result" where
  "resolveCertificateFile env disk path certificateDir =
     rbind (case ce_fc env (FsLstat path) of
              Some e \<Rightarrow> Inl e
            | None \<Rightarrow> (case gm_get disk path of None \<Rightarrow> Inl ErrNotExist | Some f \<Rightarrow> Inr f)) (\<lambda>info.
     if file_symlink info then Inl (New ''certificate file symlinks are not allowed'')
     else rbind (fs_reply env (FsEvalSymlinks path) (ce_EvalSymlinks env path)) (\<lambda>evaluated.
          rbind (fs_reply env (FsAbs evaluated) (ce_Abs env evaluated)) (\<lambda>resolved.
          if blank certificateDir then Inr resolved
          else rbind (fs_reply env (FsEvalSymlinks certificateDir) (ce_EvalSymlinks env certificateDir)) (\<lambda>evaluatedDir.
               rbind (fs_reply env (FsAbs evaluatedDir) (ce_Abs env evaluatedDir)) (\<lambda>dir.
               (let relative = filepath_Rel dir resolved in
                if relative = ''.'' \<or> has_prefix relative ''..'' \<or> filepath_IsAbs relative
                then Inl (New (''certificate file must be under '' @ dir)) else Inr resolved))))))"

definition read_file :: "CertEnv \<Rightarrow> files \<Rightarrow> string \<Rightarrow> byte list result" where
  "read_file env disk path = fst (os_ReadFile (ce_fc env) path \<lparr>dk_files = disk, dk_past = []\<rparr>)"

definition certificate_pair_files :: "CertEnv \<Rightarrow> files \<Rightarrow> string \<Rightarrow> string \<Rightarrow> string \<Rightarrow> (byte list \<times> byte list) result" where
  "certificate_pair_files env disk certPath keyPath certificateDir =
     rbind (resolveCertificateFile env disk certPath certificateDir) (\<lambda>certFile.
     rbind (resolveCertificateFile env disk keyPath certificateDir) (\<lambda>keyFile.
     rbind (read_file env disk certFile) (\<lambda>certPEM.
     rbind (read_file env disk keyFile) (\<lambda>keyPEM. Inr (certPEM, keyPEM)))))"

definition CheckCertificateFiles ::
    "CertEnv \<Rightarrow> files \<Rightarrow> time \<Rightarrow> string \<Rightarrow> string \<Rightarrow> string \<Rightarrow> string \<Rightarrow> duration \<Rightarrow> time \<Rightarrow> CertificateMaterialHealth" where
  "CheckCertificateFiles env disk clock host certPath keyPath certificateDir renewalWindow givenNow =
     (let now = or_now clock givenNow in
      if blank certPath \<or> blank keyPath
      then certificateHealthError CertificateServingMissing (New ''certificate active material is missing'')
      else case certificate_pair_files env disk certPath keyPath certificateDir of
             Inl e \<Rightarrow> certificateHealthError (statusFromFileError e) e
           | Inr (certPEM, keyPEM) \<Rightarrow>
               (case InspectCertificatePair env host certPEM keyPEM now renewalWindow of
                  Inl e \<Rightarrow> \<lparr>MH_ServingStatus = CertificateServingInvalid, MH_NotAfter = None, MH_Fingerprint = [],
                            MH_ErrorSummary = SafeCertificateError e, MH_Certificate = None\<rparr>
                | Inr (validated, servingStatus) \<Rightarrow>
                    \<lparr>MH_ServingStatus = servingStatus, MH_NotAfter = Some (VC_NotAfter validated),
                     MH_Fingerprint = VC_Fingerprint validated,
                     MH_ErrorSummary = (if servingStatus = CertificateServingExpired then ''certificate is expired'' else []),
                     MH_Certificate = (if servingStatus = CertificateServingExpired then None
                                       else Some (VC_Certificate validated))\<rparr>))"

end
