(* ===== verification/CertDiskProps.thy ===== *)
theory CertDiskProps
  imports CertDisk
begin

text \<open>
  The replacement of a certificate pair on disk: at no moment, and so after no crash, does the active
  pair mix the certificate of one issue with the key of another.
\<close>

type_synonym active_pair = "File option \<times> File option"

definition pair_at :: "string \<Rightarrow> string \<Rightarrow> files \<Rightarrow> active_pair" where
  "pair_at cert key m = (gm_get m cert, gm_get m key)"

text \<open>The states an operation went through, seen at two paths, all lie in a set.\<close>

definition went_through :: "string \<Rightarrow> string \<Rightarrow> active_pair set \<Rightarrow> Disk \<Rightarrow> Disk \<Rightarrow> bool" where
  "went_through cert key S d d' \<longleftrightarrow>
     (\<exists>ms. dk_past d' = dk_past d @ ms \<and> (\<forall>m \<in> set ms. pair_at cert key m \<in> S))"

lemma went_refl [simp]: "went_through cert key S d d"
  by (simp add: went_through_def)

lemma went_trans: "went_through cert key S d e \<Longrightarrow> went_through cert key S e f \<Longrightarrow> went_through cert key S d f"
  unfolding went_through_def by (elim exE conjE, rule exI [of _ "_ @ _"]) auto

lemma went_change [simp]: "went_through cert key S d (fs_change f d) \<longleftrightarrow> pair_at cert key (f (dk_files d)) \<in> S"
  by (auto simp: went_through_def fs_change_def)

lemma files_change [simp]: "dk_files (fs_change f d) = f (dk_files d)"
  by (simp add: fs_change_def)

section \<open>The calls\<close>

lemma rename_cases:
  obtains (failed) e where "os_Rename fc old new d = (Inl e, d)"
  | (moved) f where "fc (FsRename old new) = None" "gm_get (dk_files d) old = Some f"
      "os_Rename fc old new d = (Inr (), fs_change (\<lambda>m. gm_put new f (gm_del old m)) d)"
  by (cases "fc (FsRename old new)"; cases "gm_get (dk_files d) old") (auto simp: os_Rename_def)

lemma remove_cases:
  obtains (failed) e where "os_Remove fc path d = (Inl e, d)"
      "fc (FsRemove path) \<noteq> None \<or> e = ErrNotExist \<and> gm_get (dk_files d) path = None"
  | (removed) f where "gm_get (dk_files d) path = Some f" "os_Remove fc path d = (Inr (), fs_change (gm_del path) d)"
  by (cases "fc (FsRemove path)"; cases "gm_get (dk_files d) path") (auto simp: os_Remove_def)

lemma remove_if_present_effect:
  assumes "remove_if_present fc path d = (r, d')"
  shows "(d' = d \<or> d' = fs_change (gm_del path) d) \<and> (r = Inr () \<longrightarrow> gm_get (dk_files d') path = None \<or> fc (FsRemove path) \<noteq> None)"
  by (rule remove_cases [of fc path d]) (use assms in \<open>auto simp: remove_if_present_def shandle_def split: if_splits\<close>)

lemma ignoring_eq: "ignoring m d = (Inr (), snd (m d))"
  by (simp add: ignoring_def shandle_def split: prod.splits)

lemma rename_effect:
  assumes "os_Rename fc old new d = (r, d')"
  shows "(\<exists>e. r = Inl e) \<and> d' = d \<or>
     (\<exists>f. r = Inr () \<and> gm_get (dk_files d) old = Some f \<and> d' = fs_change (\<lambda>m. gm_put new f (gm_del old m)) d)"
  by (rule rename_cases [of fc old new d]) (use assms in auto)

text \<open>An injected fault is not the answer "file does not exist": that one the disk gives.\<close>

definition plain_faults :: "(FsCall \<Rightarrow> error option) \<Rightarrow> bool" where
  "plain_faults fc \<longleftrightarrow> (\<forall>call e. fc call = Some e \<longrightarrow> \<not> errors_is e ErrNotExist)"

lemma bothFilesExist_effect:
  assumes "plain_faults fc" "bothFilesExist fc certFile keyFile d = (r, d')"
  shows "d' = d \<and> (\<forall>b. r = Inr b \<longrightarrow> (b \<longleftrightarrow> gm_get (dk_files d) certFile \<noteq> None) \<and> (b \<longleftrightarrow> gm_get (dk_files d) keyFile \<noteq> None))"
  using assms
  by (cases "fc (FsStat certFile)"; cases "fc (FsStat keyFile)")
    (auto simp: plain_faults_def bothFilesExist_def fileExists_def sbind_def shandle_def os_Stat_def split: option.splits if_splits)

section \<open>The stages of a replacement\<close>

text \<open>The pairs a reader may see: incomplete, the old pair or the new pair.\<close>

definition unmixed :: "active_pair \<Rightarrow> active_pair \<Rightarrow> active_pair set" where
  "unmixed old new = {p. fst p = None \<or> snd p = None \<or> p = old \<or> p = new}"

lemma unmixed_simps [simp]:
  "(None, k) \<in> unmixed old new" "(c, None) \<in> unmixed old new" "old \<in> unmixed old new" "new \<in> unmixed old new"
  by (simp_all add: unmixed_def)

lemma retire_active_safe:
  assumes dist: "distinct [certFile, keyFile, previousCert, previousKey]"
    and at: "pair_at certFile keyFile (dk_files d) = (Some c, Some k)"
    and faults: "plain_faults fc"
    and run: "retire_active fc certFile keyFile previousCert previousKey d = (r, d')"
  shows "went_through certFile keyFile (unmixed (Some c, Some k) new) d d'"
    and "r = Inr () \<Longrightarrow> pair_at certFile keyFile (dk_files d') = (None, None) \<and>
      pair_at previousCert previousKey (dk_files d') = (Some c, Some k) \<and>
      (\<forall>p. p \<notin> {certFile, keyFile, previousCert, previousKey} \<longrightarrow> gm_get (dk_files d') p = gm_get (dk_files d) p)"
proof -
  have ne: "certFile \<noteq> keyFile" "certFile \<noteq> previousCert" "certFile \<noteq> previousKey" "keyFile \<noteq> previousCert"
    "keyFile \<noteq> previousKey" "previousCert \<noteq> previousKey"
    "keyFile \<noteq> certFile" "previousCert \<noteq> certFile" "previousKey \<noteq> certFile" "previousCert \<noteq> keyFile"
    "previousKey \<noteq> keyFile" "previousKey \<noteq> previousCert"
    using dist by auto
  have at': "gm_get (dk_files d) certFile = Some c" "gm_get (dk_files d) keyFile = Some k"
    using at by (simp_all add: pair_at_def)
  note defs = retire_active_def remove_if_present_def sbind_def shandle_def ignoring_def os_Remove_def os_Rename_def
    went_through_def fs_change_def pair_at_def
  show "went_through certFile keyFile (unmixed (Some c, Some k) new) d d'"
    using run by (auto simp: defs ne at' unmixed_def split: option.splits if_splits sum.splits)
  show "r = Inr () \<Longrightarrow> pair_at certFile keyFile (dk_files d') = (None, None) \<and>
      pair_at previousCert previousKey (dk_files d') = (Some c, Some k) \<and>
      (\<forall>p. p \<notin> {certFile, keyFile, previousCert, previousKey} \<longrightarrow> gm_get (dk_files d') p = gm_get (dk_files d) p)"
    using run by (auto simp: defs ne at' split: option.splits if_splits sum.splits)
qed

lemma activate_temp_safe:
  assumes dist: "distinct [certFile, keyFile, previousCert, previousKey, tempCert, tempKey]"
    and gone: "pair_at certFile keyFile (dk_files d) = (None, None)"
    and old: "hasActive \<Longrightarrow> pair_at previousCert previousKey (dk_files d) = old"
    and new: "pair_at tempCert tempKey (dk_files d) = new"
    and removes: "fc (FsRemove certFile) = None"
    and run: "activate_temp fc hasActive certFile keyFile previousCert previousKey tempCert tempKey d = (r, d')"
  shows "went_through certFile keyFile (unmixed old new) d d'"
    and "r = Inr () \<Longrightarrow> pair_at certFile keyFile (dk_files d') = new \<and>
      pair_at previousCert previousKey (dk_files d') = pair_at previousCert previousKey (dk_files d)"
proof -
  have ne: "certFile \<noteq> keyFile" "certFile \<noteq> previousCert" "certFile \<noteq> previousKey" "keyFile \<noteq> previousCert"
    "keyFile \<noteq> previousKey" "previousCert \<noteq> previousKey"
    "keyFile \<noteq> certFile" "previousCert \<noteq> certFile" "previousKey \<noteq> certFile" "previousCert \<noteq> keyFile"
    "previousKey \<noteq> keyFile" "previousKey \<noteq> previousCert"
    and nt: "certFile \<noteq> tempCert" "tempCert \<noteq> certFile" "certFile \<noteq> tempKey" "tempKey \<noteq> certFile"
      "keyFile \<noteq> tempCert" "tempCert \<noteq> keyFile" "keyFile \<noteq> tempKey" "tempKey \<noteq> keyFile"
      "previousCert \<noteq> tempCert" "tempCert \<noteq> previousCert" "previousCert \<noteq> tempKey" "tempKey \<noteq> previousCert"
      "previousKey \<noteq> tempCert" "tempCert \<noteq> previousKey" "previousKey \<noteq> tempKey" "tempKey \<noteq> previousKey"
      "tempCert \<noteq> tempKey" "tempKey \<noteq> tempCert"
    using dist by auto
  have gone': "gm_get (dk_files d) certFile = None" "gm_get (dk_files d) keyFile = None"
    using gone by (simp_all add: pair_at_def)
  note defs = activate_temp_def sbind_def shandle_def ignoring_def os_Remove_def os_Rename_def
    went_through_def fs_change_def pair_at_def
  show "went_through certFile keyFile (unmixed old new) d d'"
    using run old new by (auto simp: defs ne nt gone' removes unmixed_def split: option.splits if_splits sum.splits)
  show "r = Inr () \<Longrightarrow> pair_at certFile keyFile (dk_files d') = new \<and>
      pair_at previousCert previousKey (dk_files d') = pair_at previousCert previousKey (dk_files d)"
    using run old new by (auto simp: defs ne nt gone' removes split: option.splits if_splits sum.splits)
qed

section \<open>The replacement\<close>

lemma replaceActivePair_safe:
  assumes dist: "distinct [certFile, keyFile, previousCert, previousKey, tempCert, tempKey]"
    and faults: "plain_faults fc" and removes: "fc (FsRemove certFile) = None"
    and old: "pair_at certFile keyFile (dk_files d) = old" and new: "pair_at tempCert tempKey (dk_files d) = new"
    and run: "replaceActivePair fc certFile keyFile previousCert previousKey tempCert tempKey d = (r, d')"
  shows "went_through certFile keyFile (unmixed old new) d d' \<and>
    (r = Inr () \<longrightarrow> pair_at certFile keyFile (dk_files d') = new \<and>
      (fst old \<noteq> None \<longrightarrow> pair_at previousCert previousKey (dk_files d') = old))"
proof -
  have dist4: "distinct [certFile, keyFile, previousCert, previousKey]" using dist by auto
  obtain both d0 where b: "bothFilesExist fc certFile keyFile d = (both, d0)" by fastforce
  note eff = bothFilesExist_effect [OF faults b]
  show ?thesis
  proof (cases both)
    case (Inl e)
    then show ?thesis using run b eff by (auto simp: replaceActivePair_def sbind_def)
  next
    case (Inr hasActive)
    show ?thesis
    proof (cases hasActive)
      case False
      then have gone: "pair_at certFile keyFile (dk_files d) = (None, None)" using eff Inr by (auto simp: pair_at_def)
      have act: "activate_temp fc False certFile keyFile previousCert previousKey tempCert tempKey d = (r, d')"
        using run b eff Inr False by (simp add: replaceActivePair_def sbind_def)
      have "False \<Longrightarrow> pair_at previousCert previousKey (dk_files d) = old" by simp
      from activate_temp_safe [OF dist gone this new removes act] gone old show ?thesis by auto
    next
      case True
      then obtain c k where at: "pair_at certFile keyFile (dk_files d) = (Some c, Some k)"
        using eff Inr by (auto simp: pair_at_def)
      have o: "old = (Some c, Some k)" using old at by simp
      obtain r1 d1 where ret: "retire_active fc certFile keyFile previousCert previousKey d = (r1, d1)" by fastforce
      note stage1 = retire_active_safe [OF dist4 at faults ret, folded o]
      show ?thesis
      proof (cases r1)
        case (Inl e)
        then have "d' = d1" "r = Inl e" using run b eff Inr True ret by (simp_all add: replaceActivePair_def sbind_def)
        then show ?thesis using stage1(1) by simp
      next
        case R1: (Inr u)
        then have act: "activate_temp fc True certFile keyFile previousCert previousKey tempCert tempKey d1 = (r, d')"
          using run b eff Inr True ret by (simp add: replaceActivePair_def sbind_def)
        have now: "pair_at certFile keyFile (dk_files d1) = (None, None)"
          and prev: "pair_at previousCert previousKey (dk_files d1) = old"
          and rest: "\<And>p. p \<notin> {certFile, keyFile, previousCert, previousKey} \<Longrightarrow> gm_get (dk_files d1) p = gm_get (dk_files d) p"
          using stage1(2) R1 by auto
        have new1: "pair_at tempCert tempKey (dk_files d1) = new"
          using new dist rest [of tempCert] rest [of tempKey] by (auto simp: pair_at_def)
        note stage2 = activate_temp_safe [OF dist now prev new1 removes act]
        show ?thesis
          using went_trans [OF stage1(1) stage2(1)] stage2(2) prev by auto
      qed
    qed
  qed
qed

lemma replaceActivePair_succeeds:
  assumes dist: "distinct [certFile, keyFile, previousCert, previousKey, tempCert, tempKey]"
    and nofault: "\<forall>call. fc call = None"
    and temps: "gm_get (dk_files d) tempCert \<noteq> None" "gm_get (dk_files d) tempKey \<noteq> None"
    and paired: "gm_get (dk_files d) certFile = None \<longleftrightarrow> gm_get (dk_files d) keyFile = None"
  shows "fst (replaceActivePair fc certFile keyFile previousCert previousKey tempCert tempKey d) = Inr ()"
proof -
  obtain a b where t: "gm_get (dk_files d) tempCert = Some a" "gm_get (dk_files d) tempKey = Some b" using temps by auto
  note defs = replaceActivePair_def bothFilesExist_def fileExists_def os_Stat_def activate_temp_def retire_active_def
    remove_if_present_def sbind_def shandle_def os_Remove_def os_Rename_def fs_change_def ignoring_def
  show ?thesis
  proof (cases "gm_get (dk_files d) certFile")
    case None
    then show ?thesis using dist nofault t paired by (auto simp: defs)
  next
    case (Some c)
    then obtain k where k: "gm_get (dk_files d) keyFile = Some k" using paired by auto
    then show ?thesis
      using dist nofault t Some
      by (cases "gm_get (dk_files d) previousCert"; cases "gm_get (dk_files d) previousKey")
        (auto simp: defs)
  qed
qed

text \<open>
  C22: Replacing the active certificate and key files of a host (replaceActivePair of
  internal/proxy/https/certificates.go) never exposes a mixed pair. Whatever calls to the file system
  fail, as long as the new certificate can be removed again, in every state the directory passes
  through, so also after a crash at any point, the active pair is missing a file, or is the pair from
  before the call, or is the new pair. If the call succeeds, the new pair is active and the pair from
  before is kept under the previous names; and it does succeed when no call fails, both temporary
  files are there and the active pair is complete or absent.\<close>

theorem active_pair_never_mixed:
  assumes "distinct [certFile, keyFile, previousCert, previousKey, tempCert, tempKey]"
    and "plain_faults fc" and "fc (FsRemove certFile) = None"
    and "replaceActivePair fc certFile keyFile previousCert previousKey tempCert tempKey d = (r, d')"
    and "old = (gm_get (dk_files d) certFile, gm_get (dk_files d) keyFile)"
    and "new = (gm_get (dk_files d) tempCert, gm_get (dk_files d) tempKey)"
  shows "(\<exists>ms. dk_past d' = dk_past d @ ms \<and>
      (\<forall>m \<in> set ms. gm_get m certFile = None \<or> gm_get m keyFile = None \<or>
         (gm_get m certFile, gm_get m keyFile) \<in> {old, new})) \<and>
    (r = Inr () \<longrightarrow> (gm_get (dk_files d') certFile, gm_get (dk_files d') keyFile) = new \<and>
      (fst old \<noteq> None \<longrightarrow> (gm_get (dk_files d') previousCert, gm_get (dk_files d') previousKey) = old)) \<and>
    ((\<forall>call. fc call = None) \<and> fst new \<noteq> None \<and> snd new \<noteq> None \<and> (fst old = None \<longleftrightarrow> snd old = None) \<longrightarrow>
      r = Inr ())"
proof (intro conjI impI)
  have "pair_at certFile keyFile (dk_files d) = old" "pair_at tempCert tempKey (dk_files d) = new"
    by (simp_all add: pair_at_def assms)
  note safe = replaceActivePair_safe [OF assms(1-3) this assms(4)]
  then obtain ms where "dk_past d' = dk_past d @ ms" "\<forall>m \<in> set ms. pair_at certFile keyFile m \<in> unmixed old new"
    by (auto simp: went_through_def)
  then show "\<exists>ms. dk_past d' = dk_past d @ ms \<and>
      (\<forall>m \<in> set ms. gm_get m certFile = None \<or> gm_get m keyFile = None \<or>
         (gm_get m certFile, gm_get m keyFile) \<in> {old, new})"
    by (intro exI [of _ ms]) (simp add: pair_at_def unmixed_def)
  show "r = Inr () \<Longrightarrow> (gm_get (dk_files d') certFile, gm_get (dk_files d') keyFile) = new"
    and "r = Inr () \<Longrightarrow> fst old \<noteq> None \<Longrightarrow>
      (gm_get (dk_files d') previousCert, gm_get (dk_files d') previousKey) = old"
    using safe by (simp_all add: pair_at_def)
  show "r = Inr ()"
    if "(\<forall>call. fc call = None) \<and> fst new \<noteq> None \<and> snd new \<noteq> None \<and> (fst old = None \<longleftrightarrow> snd old = None)"
    using replaceActivePair_succeeds [where fc = fc and d = d, OF assms(1) conjunct1 [OF that]] that assms(4-6) by auto
qed

definition demo_file :: "nat \<Rightarrow> File" where
  "demo_file n = \<lparr>file_content = [of_nat n], file_modTime = int n, file_symlink = False\<rparr>"

definition demo_disk :: Disk where
  "demo_disk = \<lparr>dk_files = [(''active.crt'', demo_file 1), (''active.key'', demo_file 2),
     (''new.crt'', demo_file 3), (''new.key'', demo_file 4)], dk_past = []\<rparr>"

text \<open>The second rename of the new pair fails.\<close>

definition key_fault :: "FsCall \<Rightarrow> error option" where
  "key_fault call = (if call = FsRename ''new.key'' ''active.key'' then Some (New ''disk full'') else None)"

definition demo_replace :: "(FsCall \<Rightarrow> error option) \<Rightarrow> unit result \<times> Disk" where
  "demo_replace fc =
     replaceActivePair fc ''active.crt'' ''active.key'' ''previous.crt'' ''previous.key'' ''new.crt'' ''new.key'' demo_disk"

lemma plain_key_fault: "plain_faults key_fault"
  by (simp add: plain_faults_def key_fault_def)

theorem active_pair_never_mixed_witness:
  "(\<exists>ms. dk_past (snd (demo_replace key_fault)) = ms \<and>
      (\<forall>m \<in> set ms. gm_get m ''active.crt'' = None \<or> gm_get m ''active.key'' = None \<or>
         (gm_get m ''active.crt'', gm_get m ''active.key'') \<in>
           {(Some (demo_file 1), Some (demo_file 2)), (Some (demo_file 3), Some (demo_file 4))})) \<and>
   fst (demo_replace (\<lambda>_. None)) = Inr ()"
proof -
  have d: "distinct [''active.crt'', ''active.key'', ''previous.crt'', ''previous.key'', ''new.crt'', ''new.key'']"
    by simp
  have files: "gm_get (dk_files demo_disk) ''active.crt'' = Some (demo_file 1)" "gm_get (dk_files demo_disk) ''active.key'' = Some (demo_file 2)"
    "gm_get (dk_files demo_disk) ''new.crt'' = Some (demo_file 3)" "gm_get (dk_files demo_disk) ''new.key'' = Some (demo_file 4)"
    "dk_past demo_disk = []"
    by (simp_all add: demo_disk_def gm_get_def)
  have k: "key_fault (FsRemove ''active.crt'') = None" by (simp add: key_fault_def)
  have run: "replaceActivePair fc ''active.crt'' ''active.key'' ''previous.crt'' ''previous.key'' ''new.crt'' ''new.key'' demo_disk =
    (fst (demo_replace fc), snd (demo_replace fc))" for fc
    by (simp add: demo_replace_def)
  show ?thesis
    using active_pair_never_mixed [OF d plain_key_fault k run refl refl]
      active_pair_never_mixed [OF d _ _ run refl refl, of "\<lambda>_. None"]
    by (simp add: files plain_faults_def)
qed

text \<open>
  When the very first rename of the new pair fails, the pair that was active is not brought back: the
  host is left without active material although the pair under the previous names is complete. Only a
  failure of the second rename is rolled back.\<close>

lemma first_rename_failure_loses_active_pair:
  "let fc = (\<lambda>call. if call = FsRename ''new.crt'' ''active.crt'' then Some (New ''disk full'') else None);
       d' = snd (demo_replace fc)
   in fst (demo_replace fc) = Inl (New ''disk full'') \<and>
      gm_get (dk_files d') ''active.crt'' = None \<and> gm_get (dk_files d') ''active.key'' = None \<and>
      gm_get (dk_files d') ''previous.crt'' = Some (demo_file 1) \<and> gm_get (dk_files d') ''previous.key'' = Some (demo_file 2)"
  by code_simp

lemma second_rename_failure_is_rolled_back:
  "gm_get (dk_files (snd (demo_replace key_fault))) ''active.crt'' = Some (demo_file 1) \<and>
   gm_get (dk_files (snd (demo_replace key_fault))) ''active.key'' = Some (demo_file 2)"
  by code_simp

end
