(* ===== verification/CertResolver.thy ===== *)
theory CertResolver
  imports CertDisk ProxyStore
begin

text \<open>
  CertificateResolver of internal/proxy/https/certificates.go: which files serve a host name, and the
  cache of parsed pairs. The cache is the state; the database, the disk and the clock reading are read.
\<close>

record cachedResolvedCertificate =
  crc_certFile :: string
  crc_keyFile :: string
  crc_certModTime :: time
  crc_keyModTime :: time
  crc_certificate :: TlsCertificate

type_synonym cert_cache = "(string, cachedResolvedCertificate) gomap"

record CertificateResolver =
  cr_store :: "DB option"
  cr_certificateDir :: string

definition resolver_Reload :: "string \<Rightarrow> cert_cache \<Rightarrow> cert_cache" where
  "resolver_Reload host cache = gm_del (to_lower (trim_space host)) cache"

type_synonym active_files = "string \<times> string \<times> ManagedCertificate option"

abbreviation provider_unavailable :: error where
  "provider_unavailable \<equiv> New ''certificate provider marked active material unavailable''"

definition legacy_active_files :: "DB option \<Rightarrow> string \<Rightarrow> string \<Rightarrow> string \<Rightarrow> string \<Rightarrow> active_files result" where
  "legacy_active_files store host certFile keyFile legacyProxyID =
     (if certFile \<noteq> [] \<or> keyFile \<noteq> []
      then (if certFile = [] \<or> keyFile = []
            then Inl (New ''static certificate and key files must both be configured'')
            else Inr (certFile, keyFile, None))
      else case store of
             None \<Rightarrow> Inr ([], [], None)
           | Some db \<Rightarrow>
               (case certs_ByHost db host of
                  Inl e \<Rightarrow> if errors_is e ErrNotFound then Inr ([], [], None) else Inl e
                | Inr managed \<Rightarrow>
                    if legacyProxyID \<noteq> [] \<and> Cert_ProxyID managed \<noteq> [] \<and> Cert_ProxyID managed \<noteq> legacyProxyID
                    then Inr ([], [], None)
                    else if Cert_ProviderType managed = CertificateProviderCloudflareOriginCA \<and>
                            BlocksServing (Cert_ProviderStatus managed)
                    then Inl provider_unavailable
                    else Inr (Cert_CertFile managed, Cert_KeyFile managed, Some managed)))"

definition resolver_activeFiles ::
    "CertificateResolver \<Rightarrow> string \<Rightarrow> string \<Rightarrow> string \<Rightarrow> string \<Rightarrow> string \<Rightarrow> active_files result" where
  "resolver_activeFiles r host certificateID certFile keyFile legacyProxyID =
     (let legacy = legacy_active_files (cr_store r) host certFile keyFile legacyProxyID in
      if blank certificateID then legacy
      else case cr_store r of
             None \<Rightarrow> legacy
           | Some db \<Rightarrow>
               (case certs_ByID db certificateID of
                  Inl e \<Rightarrow> if errors_is e ErrNotFound then legacy else Inl e
                | Inr managed \<Rightarrow>
                    if BlocksServing (Cert_ProviderStatus managed) then Inl provider_unavailable
                    else Inr (Cert_CertFile managed, Cert_KeyFile managed, Some managed)))"

text \<open>A file error of the resolver carries only the safe summary of its health.\<close>

definition health_failure :: "'a result \<Rightarrow> 'a result" where
  "health_failure r = map_sum (\<lambda>e. New (MH_ErrorSummary (certificateHealthError (statusFromFileError e) e))) id r"

definition stat_file :: "CertEnv \<Rightarrow> files \<Rightarrow> string \<Rightarrow> File result" where
  "stat_file env disk path = fst (os_Stat (ce_fc env) path \<lparr>dk_files = disk, dk_past = []\<rparr>)"

definition located_pair :: "CertEnv \<Rightarrow> files \<Rightarrow> string \<Rightarrow> string \<Rightarrow> string \<Rightarrow> (string \<times> string \<times> File \<times> File) result" where
  "located_pair env disk certificateDir certPath keyPath =
     rbind (resolveCertificateFile env disk certPath certificateDir) (\<lambda>certFile.
     rbind (resolveCertificateFile env disk keyPath certificateDir) (\<lambda>keyFile.
     rbind (stat_file env disk certFile) (\<lambda>certInfo.
     rbind (stat_file env disk keyFile) (\<lambda>keyInfo. Inr (certFile, keyFile, certInfo, keyInfo)))))"

definition cached_health :: "CertEnv \<Rightarrow> TlsCertificate \<Rightarrow> Leaf \<Rightarrow> CertificateMaterialHealth" where
  "cached_health env certificate leaf =
     \<lparr>MH_ServingStatus = CertificateServingUsable, MH_NotAfter = Some (Leaf_NotAfter leaf),
      MH_Fingerprint = LeafFingerprint env leaf, MH_ErrorSummary = [], MH_Certificate = Some certificate\<rparr>"

text \<open>The cached pair, when the files are the ones it was read from and its leaf has not expired.\<close>

definition cache_matches :: "cachedResolvedCertificate \<Rightarrow> string \<Rightarrow> string \<Rightarrow> File \<Rightarrow> File \<Rightarrow> bool" where
  "cache_matches c certFile keyFile certInfo keyInfo \<longleftrightarrow>
     crc_certFile c = certFile \<and> crc_keyFile c = keyFile \<and>
     crc_certModTime c = file_modTime certInfo \<and> crc_keyModTime c = file_modTime keyInfo"

definition fresh_certificate ::
    "CertEnv \<Rightarrow> files \<Rightarrow> string \<Rightarrow> time \<Rightarrow> string \<Rightarrow> string \<Rightarrow> string \<Rightarrow> File \<Rightarrow> File \<Rightarrow> cert_cache \<Rightarrow>
     (TlsCertificate \<times> CertificateMaterialHealth) result \<times> cert_cache" where
  "fresh_certificate env disk certificateDir now host certFile keyFile certInfo keyInfo cache =
     (let health = CheckCertificateFiles env disk now host certFile keyFile certificateDir 0 now in
      if \<not> health_Usable health
      then (Inl (New (if MH_ErrorSummary health = [] then ''certificate active material is not usable''
                      else MH_ErrorSummary health)), cache)
      else let certificate = the (MH_Certificate health) in
        (Inr (certificate, health),
         gm_put host \<lparr>crc_certFile = certFile, crc_keyFile = keyFile, crc_certModTime = file_modTime certInfo,
           crc_keyModTime = file_modTime keyInfo, crc_certificate = certificate\<rparr> cache))"

definition resolver_fileCertificate ::
    "CertEnv \<Rightarrow> files \<Rightarrow> string \<Rightarrow> time \<Rightarrow> string \<Rightarrow> string \<Rightarrow> string \<Rightarrow> cert_cache \<Rightarrow>
     (TlsCertificate \<times> CertificateMaterialHealth) result \<times> cert_cache" where
  "resolver_fileCertificate env disk certificateDir now host certPath keyPath cache =
     (case health_failure (located_pair env disk certificateDir certPath keyPath) of
        Inl e \<Rightarrow> (Inl e, cache)
      | Inr (certFile, keyFile, certInfo, keyInfo) \<Rightarrow>
          (let fresh = fresh_certificate env disk certificateDir now host certFile keyFile certInfo keyInfo in
           case gm_get cache host of
             None \<Rightarrow> fresh cache
           | Some c \<Rightarrow>
               if \<not> cache_matches c certFile keyFile certInfo keyInfo then fresh cache
               else case Tls_Leaf (crc_certificate c) of
                      None \<Rightarrow> fresh (gm_del host cache)
                    | Some leaf \<Rightarrow>
                        if Leaf_NotAfter leaf > now
                        then (Inr (crc_certificate c, cached_health env (crc_certificate c) leaf), cache)
                        else fresh (gm_del host cache)))"

definition serve_files ::
    "CertEnv \<Rightarrow> files \<Rightarrow> string \<Rightarrow> time \<Rightarrow> string \<Rightarrow> active_files result \<Rightarrow> cert_cache \<Rightarrow> TlsCertificate result \<times> cert_cache" where
  "serve_files env disk certificateDir now host active cache =
     (case active of
        Inl e \<Rightarrow> (Inl e, cache)
      | Inr (certFile, keyFile, _) \<Rightarrow>
          (if certFile = [] \<or> keyFile = [] then (Inl (New ''certificate active material is missing''), cache)
           else case resolver_fileCertificate env disk certificateDir now host certFile keyFile cache of
                  (Inl e, cache') \<Rightarrow> (Inl e, cache')
                | (Inr (certificate, _), cache') \<Rightarrow> (Inr certificate, cache')))"

definition CertificateForDomain ::
    "CertEnv \<Rightarrow> CertificateResolver \<Rightarrow> files \<Rightarrow> time \<Rightarrow> string \<Rightarrow> Domain \<Rightarrow> cert_cache \<Rightarrow> TlsCertificate result \<times> cert_cache" where
  "CertificateForDomain env r disk now rawHost webDomain cache =
     (let host = to_lower (trim_space rawHost) in
      serve_files env disk (cr_certificateDir r) now host
        (resolver_activeFiles r host (Dom_CertificateID webDomain) [] [] []) cache)"

definition resolver_Certificate ::
    "CertEnv \<Rightarrow> CertificateResolver \<Rightarrow> files \<Rightarrow> time \<Rightarrow> string \<Rightarrow> Proxy \<Rightarrow> cert_cache \<Rightarrow> TlsCertificate result \<times> cert_cache" where
  "resolver_Certificate env r disk now rawHost proxy cache =
     (let host = to_lower (trim_space rawHost);
          bound = (case cr_store r of
                     None \<Rightarrow> None
                   | Some db \<Rightarrow> if blank (Proxy_DomainID proxy) then None
                                else case domains_ByID db (Proxy_DomainID proxy) of Inl e \<Rightarrow> None | Inr d \<Rightarrow> Some d)
      in case bound of
           Some webDomain \<Rightarrow> CertificateForDomain env r disk now rawHost webDomain cache
         | None \<Rightarrow>
             serve_files env disk (cr_certificateDir r) now host
               (resolver_activeFiles r host (Proxy_CertificateID proxy) (Proxy_CertFile proxy) (Proxy_KeyFile proxy) (Proxy_ID proxy))
               cache)"

section \<open>The caches a resolver can have\<close>

text \<open>Between two calls the database, the disk and the clock may be anything.\<close>

inductive resolver_reaches :: "CertEnv \<Rightarrow> cert_cache \<Rightarrow> bool" for env where
  started: "resolver_reaches env []"
| reloaded: "resolver_reaches env cache \<Longrightarrow> resolver_reaches env (resolver_Reload host cache)"
| for_domain: "resolver_reaches env cache \<Longrightarrow>
    CertificateForDomain env r disk now host webDomain cache = (res, cache') \<Longrightarrow> resolver_reaches env cache'"
| for_proxy: "resolver_reaches env cache \<Longrightarrow>
    resolver_Certificate env r disk now host proxy cache = (res, cache') \<Longrightarrow> resolver_reaches env cache'"

definition certificate_for :: "CertEnv \<Rightarrow> string \<Rightarrow> TlsCertificate \<Rightarrow> bool" where
  "certificate_for env host certificate \<longleftrightarrow>
     (\<exists>leaf. Tls_Leaf certificate = Some leaf \<and> Tls_Chain certificate \<noteq> [] \<and>
        ce_ParseCertificate env (hd (Tls_Chain certificate)) = Inr leaf \<and> ce_VerifyHostname env leaf host = Inr ())"

definition unexpired :: "time \<Rightarrow> TlsCertificate \<Rightarrow> bool" where
  "unexpired now certificate \<longleftrightarrow> (\<forall>leaf. Tls_Leaf certificate = Some leaf \<longrightarrow> Leaf_NotAfter leaf > now)"

definition cache_valid :: "CertEnv \<Rightarrow> cert_cache \<Rightarrow> bool" where
  "cache_valid env cache \<longleftrightarrow> (\<forall>host c. gm_get cache host = Some c \<longrightarrow> certificate_for env host (crc_certificate c))"

lemma cache_valid_simps [simp]:
  "cache_valid env []"
  "cache_valid env cache \<Longrightarrow> cache_valid env (gm_del host cache)"
  "cache_valid env cache \<Longrightarrow> certificate_for env host (crc_certificate c) \<Longrightarrow> cache_valid env (gm_put host c cache)"
  by (auto simp: cache_valid_def)

definition caseless :: "string \<Rightarrow> bool" where
  "caseless p \<longleftrightarrow> (\<forall>c \<in> set p. \<not> (97 \<le> (of_char c :: int) \<and> of_char c \<le> (122 :: int)))"

lemma lower_char_caseless: "\<not> (97 \<le> (of_char c :: int) \<and> of_char c \<le> (122 :: int)) \<Longrightarrow> lower_char x = c \<Longrightarrow> x = c"
  by (auto simp: lower_char_def Let_def split: if_splits)

lemma map_lower_caseless: "caseless p \<Longrightarrow> map lower_char t = p \<Longrightarrow> t = p"
  by (induction t arbitrary: p) (auto simp: caseless_def intro: lower_char_caseless [OF _ refl])

lemma no_item_to_lower: "\<forall>p \<in> set ps. caseless p \<Longrightarrow> no_item ps s \<Longrightarrow> no_item ps (to_lower s)"
  unfolding no_item_def has_prefix_def to_lower_def by (metis length_map map_lower_caseless take_map)

lemma go_spaces_caseless: "\<forall>p \<in> set go_spaces. caseless p" "\<forall>p \<in> set (map rev go_spaces). caseless p"
proof -
  show "\<forall>p \<in> set go_spaces. caseless p" by code_simp
  then show "\<forall>p \<in> set (map rev go_spaces). caseless p" by (simp add: caseless_def)
qed

lemma trim_space_fixed:
  assumes "no_item go_spaces s" "no_item (map rev go_spaces) (rev s)"
  shows "trim_space s = s"
  using assms by (simp add: trim_space_def strip_no_item)

lemma trim_space_no_item:
  "no_item go_spaces (trim_space s)" "no_item (map rev go_spaces) (rev (trim_space s))"
proof -
  let ?l = "strip_items go_spaces s"
  let ?r = "strip_items (map rev go_spaces) (rev ?l)"
  obtain a where "rev ?l = a @ ?r" using strip_items_suffix by blast
  then have "?l = rev ?r @ rev a" by (metis rev_append rev_rev_ident)
  then show "no_item go_spaces (trim_space s)" unfolding trim_space_def by (metis no_item_strip no_item_prefix)
  show "no_item (map rev go_spaces) (rev (trim_space s))"
    unfolding trim_space_def by (simp add: no_item_strip)
qed

text \<open>A normalised host name stays itself when it is normalised again.\<close>

lemma trim_lower_trim [simp]: "trim_space (to_lower (trim_space s)) = to_lower (trim_space s)"
  by (rule trim_space_fixed)
    (use trim_space_no_item no_item_to_lower go_spaces_caseless in \<open>auto simp: to_lower_def rev_map\<close>)

lemma inspect_certificate_for:
  assumes "InspectCertificatePair env host certPEM keyPEM now w = Inr (v, status)" "host = to_lower (trim_space h0)"
  shows "certificate_for env host (VC_Certificate v)" "status \<noteq> CertificateServingExpired \<Longrightarrow> unexpired now (VC_Certificate v)"
  using assms(1)
  by (auto simp: InspectCertificatePair_def Let_def rbind_eq_Inr certificate_for_def unexpired_def assms(2) split: if_splits)

lemma check_certificate_for:
  assumes "health_Usable (CheckCertificateFiles env disk now host certFile keyFile dir w now)" "host = to_lower (trim_space h0)"
  shows "certificate_for env host (the (MH_Certificate (CheckCertificateFiles env disk now host certFile keyFile dir w now)))"
    and "unexpired now (the (MH_Certificate (CheckCertificateFiles env disk now host certFile keyFile dir w now)))"
  using assms(1) inspect_certificate_for [OF _ assms(2)]
  by (auto simp: CheckCertificateFiles_def Let_def health_Usable_def certificateHealthError_def or_now_def
      split: if_splits sum.splits prod.splits)

lemma fresh_certificate_for:
  assumes "fresh_certificate env disk dir now host certFile keyFile ci ki cache = (r, cache')"
    and "cache_valid env cache" "host = to_lower (trim_space h0)"
  shows "cache_valid env cache' \<and> (\<forall>x. r = Inr x \<longrightarrow> certificate_for env host (fst x) \<and> unexpired now (fst x))"
  using assms check_certificate_for [OF _ assms(3)]
  by (auto simp: fresh_certificate_def Let_def split: if_splits)

lemma file_certificate_for:
  assumes "resolver_fileCertificate env disk dir now host certPath keyPath cache = (r, cache')"
    and "cache_valid env cache" "host = to_lower (trim_space h0)"
  shows "cache_valid env cache' \<and> (\<forall>x. r = Inr x \<longrightarrow> certificate_for env host (fst x) \<and> unexpired now (fst x))"
proof (cases "health_failure (located_pair env disk dir certPath keyPath)")
  case (Inl e)
  then show ?thesis using assms by (auto simp: resolver_fileCertificate_def)
next
  case (Inr x)
  obtain certFile keyFile ci ki where x: "x = (certFile, keyFile, ci, ki)" by (cases x)
  show ?thesis
  proof (cases "fresh_certificate env disk dir now host certFile keyFile ci ki cache = (r, cache') \<or>
      fresh_certificate env disk dir now host certFile keyFile ci ki (gm_del host cache) = (r, cache')")
    case True
    then show ?thesis using fresh_certificate_for [OF _ _ assms(3)] assms(2) by (elim disjE) auto
  next
    case False
    then obtain c leaf where c: "gm_get cache host = Some c" "Tls_Leaf (crc_certificate c) = Some leaf" "Leaf_NotAfter leaf > now"
      and r: "r = Inr (crc_certificate c, cached_health env (crc_certificate c) leaf)" "cache' = cache"
      using assms(1) Inr x by (auto simp: resolver_fileCertificate_def Let_def split: option.splits if_splits)
    then show ?thesis using assms(2) by (auto simp: cache_valid_def unexpired_def)
  qed
qed

lemma serve_files_for:
  assumes "serve_files env disk dir now host active cache = (r, cache')"
    and "cache_valid env cache" "host = to_lower (trim_space h0)"
  shows "cache_valid env cache' \<and> (\<forall>c. r = Inr c \<longrightarrow> certificate_for env host c \<and> unexpired now c)"
  using assms(1,2) file_certificate_for [OF _ _ assms(3)]
  by (auto simp: serve_files_def split: sum.splits if_splits prod.splits)

lemma for_domain_valid:
  assumes "CertificateForDomain env r disk now host d cache = (res, cache')" "cache_valid env cache"
  shows "cache_valid env cache' \<and>
    (\<forall>c. res = Inr c \<longrightarrow> certificate_for env (to_lower (trim_space host)) c \<and> unexpired now c)"
  using serve_files_for [OF assms(1) [unfolded CertificateForDomain_def Let_def] assms(2) refl] .

lemma for_proxy_valid:
  assumes "resolver_Certificate env r disk now host proxy cache = (res, cache')" "cache_valid env cache"
  shows "cache_valid env cache' \<and>
    (\<forall>c. res = Inr c \<longrightarrow> certificate_for env (to_lower (trim_space host)) c \<and> unexpired now c)"
  using assms(1) for_domain_valid [OF _ assms(2)] serve_files_for [OF _ assms(2) refl]
  by (auto simp: resolver_Certificate_def Let_def split: option.splits)

lemma reaches_cache_valid: "resolver_reaches env cache \<Longrightarrow> cache_valid env cache"
  by (induction rule: resolver_reaches.induct)
    (auto simp: resolver_Reload_def dest: for_domain_valid for_proxy_valid)

text \<open>
  C23: Whatever the resolver of TLS certificates was asked before, and however database, disk and clock
  changed meanwhile, a certificate it serves (CertificateForDomain and Certificate of
  internal/proxy/https/certificates.go), from its cache or from the files, has a parsed leaf that is
  valid for the requested host name and not expired; and a domain bound to a managed certificate is
  never served when the provider marked that certificate revoked or missing.\<close>

theorem served_certificate_is_valid:
  assumes "resolver_reaches env cache"
    and "CertificateForDomain env r disk now host d cache = (Inr certificate, cache') \<or>
         resolver_Certificate env r disk now host proxy cache = (Inr certificate, cache')"
  shows "(\<exists>leaf. Tls_Leaf certificate = Some leaf \<and> ce_ParseCertificate env (hd (Tls_Chain certificate)) = Inr leaf \<and>
      ce_VerifyHostname env leaf (to_lower (trim_space host)) = Inr () \<and> Leaf_NotAfter leaf > now) \<and>
    (\<forall>db managed. CertificateForDomain env r disk now host d cache = (Inr certificate, cache') \<and>
       cr_store r = Some db \<and> \<not> blank (Dom_CertificateID d) \<and> certs_ByID db (Dom_CertificateID d) = Inr managed \<longrightarrow>
       \<not> BlocksServing (Cert_ProviderStatus managed))"
proof
  have "certificate_for env (to_lower (trim_space host)) certificate \<and> unexpired now certificate"
    using assms(2) for_domain_valid for_proxy_valid reaches_cache_valid [OF assms(1)] by blast
  then show "\<exists>leaf. Tls_Leaf certificate = Some leaf \<and> ce_ParseCertificate env (hd (Tls_Chain certificate)) = Inr leaf \<and>
      ce_VerifyHostname env leaf (to_lower (trim_space host)) = Inr () \<and> Leaf_NotAfter leaf > now"
    by (auto simp: certificate_for_def unexpired_def)
  show "\<forall>db managed. CertificateForDomain env r disk now host d cache = (Inr certificate, cache') \<and>
       cr_store r = Some db \<and> \<not> blank (Dom_CertificateID d) \<and> certs_ByID db (Dom_CertificateID d) = Inr managed \<longrightarrow>
       \<not> BlocksServing (Cert_ProviderStatus managed)"
    by (auto simp: CertificateForDomain_def Let_def resolver_activeFiles_def serve_files_def)
qed

section \<open>A resolver with one host\<close>

text \<open>A certificate is the text of its host name; the file system has no symbolic links.\<close>

definition sample_cert_env :: CertEnv where
  "sample_cert_env =
     \<lparr>ce_fc = (\<lambda>_. None), ce_EvalSymlinks = (\<lambda>p. p), ce_Abs = (\<lambda>p. p),
      ce_X509KeyPair = (\<lambda>c k. if c = [] then Inl (New ''no PEM data'') else Inr \<lparr>Tls_Chain = [c], Tls_Key = k, Tls_Leaf = None\<rparr>),
      ce_ParseCertificate = (\<lambda>b. Inr \<lparr>Leaf_NotAfter = 100, Leaf_Raw = b\<rparr>),
      ce_VerifyHostname = (\<lambda>l h. if Leaf_Raw l = map of_char h then Inr () else Inl (New ''wrong host'')),
      ce_SHA256 = (\<lambda>b. ''sha''), ce_temp = (\<lambda>d suffix. d @ ''/temp'' @ suffix)\<rparr>"

definition sample_cert_files :: files where
  "sample_cert_files =
     [(''/c/a.crt'', \<lparr>file_content = map of_char ''a.io'', file_modTime = 1, file_symlink = False\<rparr>),
      (''/c/a.key'', \<lparr>file_content = [1], file_modTime = 1, file_symlink = False\<rparr>)]"

definition sample_resolver :: CertificateResolver where
  "sample_resolver = \<lparr>cr_store = None, cr_certificateDir = ''/c''\<rparr>"

definition sample_bound_proxy :: Proxy where
  "sample_bound_proxy = zeroProxy\<lparr>Proxy_CertFile := ''/c/a.crt'', Proxy_KeyFile := ''/c/a.key''\<rparr>"

definition sample_certificate :: TlsCertificate where
  "sample_certificate = \<lparr>Tls_Chain = [map of_char ''a.io''], Tls_Key = [1],
     Tls_Leaf = Some \<lparr>Leaf_NotAfter = 100, Leaf_Raw = map of_char ''a.io''\<rparr>\<rparr>"

definition sample_cert_cache :: cert_cache where
  "sample_cert_cache = [(''a.io'', \<lparr>crc_certFile = ''/c/a.crt'', crc_keyFile = ''/c/a.key'', crc_certModTime = 1,
     crc_keyModTime = 1, crc_certificate = sample_certificate\<rparr>)]"

lemma sample_first_request:
  "resolver_Certificate sample_cert_env sample_resolver sample_cert_files 50 '' A.io'' sample_bound_proxy [] =
     (Inr sample_certificate, sample_cert_cache)"
  by code_simp

lemma sample_cached_request:
  "resolver_Certificate sample_cert_env sample_resolver sample_cert_files 60 ''a.io'' sample_bound_proxy sample_cert_cache =
     (Inr sample_certificate, sample_cert_cache)"
  by code_simp

text \<open>An expired pair is neither served from the cache nor from the files.\<close>

lemma sample_expired_request:
  "resolver_Certificate sample_cert_env sample_resolver sample_cert_files 100 ''a.io'' sample_bound_proxy sample_cert_cache =
     (Inl (New ''certificate is expired''), [])"
  by code_simp

theorem served_certificate_is_valid_witness:
  "resolver_reaches sample_cert_env sample_cert_cache \<and>
   (\<exists>leaf. Tls_Leaf sample_certificate = Some leaf \<and>
      ce_VerifyHostname sample_cert_env leaf (to_lower (trim_space ''a.io'')) = Inr () \<and> Leaf_NotAfter leaf > 60)"
proof
  show reach: "resolver_reaches sample_cert_env sample_cert_cache"
    by (rule for_proxy [OF started sample_first_request])
  show "\<exists>leaf. Tls_Leaf sample_certificate = Some leaf \<and>
      ce_VerifyHostname sample_cert_env leaf (to_lower (trim_space ''a.io'')) = Inr () \<and> Leaf_NotAfter leaf > 60"
    using conjunct1 [OF served_certificate_is_valid [OF reach disjI2 [OF sample_cached_request]]] by blast
qed

end
