(* ===== verification/CertManager.thy ===== *)
theory CertManager
  imports CertResolver AccessStore
begin

text \<open>
  internal/certmanager: when a managed certificate is due, whether a provider is ready, and the issue,
  renewal, rotation, synchronisation and revocation of certificates. The state is the database, the disk
  and the locks of the operations that run; the ACME issuer, the Origin CA client, the generation of
  keys and the secret store answer as the fields of \<open>CertService\<close> say. One clock reading serves a call.
\<close>

section \<open>The scheduler\<close>

record LifecycleScheduler =
  LS_RenewalWindow :: duration
  LS_OriginCARotationWindow :: duration

definition second :: duration where "second = 1000000000"
definition minute :: duration where "minute = 60 * second"
definition hour :: duration where "hour = 60 * minute"

definition WindowFor :: "LifecycleScheduler \<Rightarrow> CertificateProviderType \<Rightarrow> duration" where
  "WindowFor scheduler providerType =
     (if providerType = CertificateProviderCloudflareOriginCA \<and> LS_OriginCARotationWindow scheduler > 0
      then LS_OriginCARotationWindow scheduler else LS_RenewalWindow scheduler)"

definition scheduler_ServingStatus ::
    "LifecycleScheduler \<Rightarrow> time \<Rightarrow> CertificateProviderType \<Rightarrow> time \<Rightarrow> CertificateServingStatus" where
  "scheduler_ServingStatus scheduler notAfter providerType now =
     (let window = WindowFor scheduler providerType in
      if \<not> notAfter > now then CertificateServingExpired
      else if window > 0 \<and> \<not> notAfter > now + window then CertificateServingExpiringSoon
      else CertificateServingUsable)"

definition IsDue :: "LifecycleScheduler \<Rightarrow> ManagedCertificate \<Rightarrow> time \<Rightarrow> bool" where
  "IsDue scheduler certificate now =
     (case Cert_NotAfter certificate of
        None \<Rightarrow> False
      | Some notAfter \<Rightarrow>
          (let window = WindowFor scheduler (Cert_ProviderType certificate) in
           if window \<le> 0 then False else \<not> notAfter > now + window))"

text \<open>\<open>for i := 1; i < failureCount && delay < time.Hour; i++ { delay *= 2 }\<close>\<close>

function backoff_loop :: "int \<Rightarrow> int \<Rightarrow> duration \<Rightarrow> duration" where
  "backoff_loop i failureCount delay =
     (if i < failureCount \<and> delay < hour then backoff_loop (i + 1) failureCount (delay * 2) else delay)"
  by auto
termination by (relation "measure (\<lambda>(i, n, d). nat (n - i))") auto

declare backoff_loop.simps [simp del]

definition NextAttemptAt :: "time \<Rightarrow> int \<Rightarrow> time option \<Rightarrow> time" where
  "NextAttemptAt now failureCount0 notAfter =
     (let failureCount = (if failureCount0 < 1 then 1 else failureCount0);
          delay0 = backoff_loop 1 failureCount minute;
          delay1 = (if delay0 > hour then hour else delay0);
          delay = (case notAfter of
                     None \<Rightarrow> delay1
                   | Some t \<Rightarrow> (let remaining = t - now in
                       if remaining > 0 \<and> remaining \<le> 24 * hour \<and> delay1 > 5 * minute then 5 * minute else delay1))
      in now + delay)"

definition MaxLookahead :: "LifecycleScheduler \<Rightarrow> duration" where
  "MaxLookahead scheduler = max (LS_OriginCARotationWindow scheduler) (LS_RenewalWindow scheduler)"

definition CandidateQuery :: "LifecycleScheduler \<Rightarrow> time \<Rightarrow> CertificateLifecycleCandidateQuery" where
  "CandidateQuery scheduler now =
     \<lparr>CQ_Now = now,
      CQ_ACMEBefore = (if LS_RenewalWindow scheduler > 0 then Some (now + LS_RenewalWindow scheduler) else None),
      CQ_OriginCABefore = (if LS_OriginCARotationWindow scheduler > 0 then Some (now + LS_OriginCARotationWindow scheduler)
                           else None)\<rparr>"

section \<open>The service\<close>

record ACMEProviderSettings =
  ACME_Enabled :: bool
  ACME_DirectoryURL :: string
  ACME_AccountEmail :: string
  ACME_TermsAccepted :: bool
  ACME_RenewalWindow :: duration
  ACME_DNSProvider :: string
  ACME_DNSProviderTokenEnv :: string

record OriginCAProviderSettings =
  OCA_Enabled :: bool
  OCA_SecretStorePath :: string
  OCA_DefaultRequestType :: string
  OCA_RequestedValidity :: int
  OCA_RotationWindow :: duration

record IssueRequest =
  IR_Host :: string
  IR_AccountEmail :: string
  IR_DirectoryURL :: string
  IR_TermsAccepted :: bool

record IssuedCertificate =
  IC_CertPEM :: "byte list"
  IC_KeyPEM :: "byte list"
  IC_NotAfter :: time

record OriginCACreateRequest =
  OCR_CSR :: "byte list"
  OCR_Hostnames :: "string list"
  OCR_RequestType :: string
  OCR_RequestedValidity :: int

record OriginCACertificate =
  OC_ID :: string
  OC_CertificatePEM :: "byte list"
  OC_Hostnames :: "string list"
  OC_RequestType :: string
  OC_RequestedValidity :: int
  OC_ExpiresOn :: "time option"
  OC_RevokedAt :: "time option"
  OC_Status :: string

record OriginCAClient =
  oc_Create :: "string \<Rightarrow> OriginCACreateRequest \<Rightarrow> OriginCACertificate result"
  oc_Get :: "string \<Rightarrow> string \<Rightarrow> OriginCACertificate result"
  oc_Revoke :: "string \<Rightarrow> string \<Rightarrow> unit result"
  oc_VerifyToken :: "string \<Rightarrow> unit result"

text \<open>\<open>sv_ctxErr\<close> is the error of a context that is done; \<open>sv_BuildCSR\<close> makes a key and its request.\<close>

record CertService =
  sv_hasStore :: bool
  sv_Issuer :: "(IssueRequest \<Rightarrow> IssuedCertificate result) option"
  sv_DNSProvider :: bool
  sv_OriginCAClient :: OriginCAClient
  sv_SecretStore :: "(string \<Rightarrow> string result) option"
  sv_certificateDir :: string
  sv_certEnv :: CertEnv
  sv_Settings :: ACMEProviderSettings
  sv_OriginCASettings :: OriginCAProviderSettings
  sv_NewID :: "string result option"
  sv_now :: time
  sv_Getenv :: "string \<Rightarrow> string"
  sv_ctxErr :: "error option"
  sv_newKey :: "string list \<Rightarrow> string \<Rightarrow> (byte list \<times> byte list) result"

record CertWorld =
  cw_db :: DB
  cw_disk :: Disk
  cw_locks :: "string list"

definition in_db :: "(DB, 'a) op \<Rightarrow> (CertWorld, 'a) op" where
  "in_db m w = (case m (cw_db w) of (r, db) \<Rightarrow> (r, w\<lparr>cw_db := db\<rparr>))"

definition in_disk :: "(Disk, 'a) op \<Rightarrow> (CertWorld, 'a) op" where
  "in_disk m w = (case m (cw_disk w) of (r, d) \<Rightarrow> (r, w\<lparr>cw_disk := d\<rparr>))"

definition ask_db :: "(DB \<Rightarrow> 'a result) \<Rightarrow> (CertWorld, 'a) op" where
  "ask_db f w = (f (cw_db w), w)"

abbreviation ErrProviderCredentialDisabled :: error where
  "ErrProviderCredentialDisabled \<equiv> Sentinel ''provider credential is disabled''"
abbreviation ErrProviderCredentialVerificationFailed :: error where
  "ErrProviderCredentialVerificationFailed \<equiv> Sentinel ''provider credential verification failed''"
abbreviation ErrOperationBusy :: error where
  "ErrOperationBusy \<equiv> Sentinel ''certificate operation already in progress''"
abbreviation ErrOriginCACertificateMissing :: error where
  "ErrOriginCACertificateMissing \<equiv> Sentinel ''cloudflare origin ca certificate is missing''"
abbreviation store_required :: error where "store_required \<equiv> New ''store is required''"

definition with_store :: "CertService \<Rightarrow> (CertWorld, 'a) op \<Rightarrow> (CertWorld, 'a) op" where
  "with_store service m = (if sv_hasStore service then m else sfail store_required)"

definition service_scheduler :: "CertService \<Rightarrow> LifecycleScheduler" where
  "service_scheduler service =
     \<lparr>LS_RenewalWindow = ACME_RenewalWindow (sv_Settings service),
      LS_OriginCARotationWindow = OCA_RotationWindow (sv_OriginCASettings service)\<rparr>"

definition cert_defaultString :: "string \<Rightarrow> string \<Rightarrow> string" where
  "cert_defaultString value fallback = (if \<not> blank value then trim_space value else trim_space fallback)"

definition certificateOperationKey :: "string \<Rightarrow> string \<Rightarrow> string" where
  "certificateOperationKey proxyID host = trim_space proxyID @ [CHR 0x00] @ to_lower (trim_space host)"

text \<open>acquireOperationLock, the operation, and the deferred release.\<close>

definition with_operation_lock :: "CertService \<Rightarrow> string \<Rightarrow> (CertWorld, 'a) op \<Rightarrow> (CertWorld, 'a) op" where
  "with_operation_lock service rawKey m w =
     (let key = trim_space rawKey in
      case sv_ctxErr service of
        Some e \<Rightarrow> (Inl e, w)
      | None \<Rightarrow>
          (if key = [] then (Inl (New ''certificate operation key is required''), w)
           else if key \<in> set (cw_locks w) then (Inl ErrOperationBusy, w)
           else case m (w\<lparr>cw_locks := key # cw_locks w\<rparr>) of
                  (r, w') \<Rightarrow> (r, w'\<lparr>cw_locks := removeAll key (cw_locks w')\<rparr>)))"

section \<open>Readiness\<close>

record ProviderReadiness =
  PR_ProviderType :: CertificateProviderType
  PR_Ready :: bool
  PR_MissingRequirements :: "string list"
  PR_TokenEnvName :: string

definition service_ProviderReadiness :: "CertService \<Rightarrow> CertificateProviderType \<Rightarrow> ProviderReadiness" where
  "service_ProviderReadiness service givenType =
     (let providerType = or_default givenType CertificateProviderACMEDNS01;
          settings = sv_Settings service;
          tokenEnv = (if providerType = CertificateProviderACMEDNS01 then trim_space (ACME_DNSProviderTokenEnv settings) else []);
          bare = (sv_Issuer service = None \<and> \<not> sv_DNSProvider service);
          missing =
            (if providerType = CertificateProviderACMEDNS01
             then (if \<not> ACME_Enabled settings \<and> bare then [''acme_disabled''] else []) @
                  (if blank (ACME_AccountEmail settings) then [''account_email_missing''] else []) @
                  (if \<not> ACME_TermsAccepted settings then [''terms_not_accepted''] else []) @
                  (if tokenEnv \<noteq> [] \<and> (ACME_Enabled settings \<or> bare) \<and> blank (sv_Getenv service tokenEnv)
                   then [''dns_token_missing''] else [])
             else if providerType = CertificateProviderCloudflareOriginCA
             then (if \<not> OCA_Enabled (sv_OriginCASettings service) then [''origin_ca_disabled''] else []) @
                  (if sv_SecretStore service = None then [''credential_missing''] else [])
             else [])
      in \<lparr>PR_ProviderType = providerType, PR_Ready = (missing = []), PR_MissingRequirements = missing,
          PR_TokenEnvName = tokenEnv\<rparr>)"

abbreviation provider_not_ready :: error where
  "provider_not_ready \<equiv> New ''certificate provider is not ready''"

definition requireProviderReady :: "CertService \<Rightarrow> CertificateProviderType \<Rightarrow> unit result" where
  "requireProviderReady service providerType =
     reject_if (\<not> PR_Ready (service_ProviderReadiness service providerType)) provider_not_ready"

section \<open>Results of a provider\<close>

abbreviation OriginCARequestTypeECC :: string where "OriginCARequestTypeECC \<equiv> ''origin-ecc''"
abbreviation OriginCARequestTypeRSA :: string where "OriginCARequestTypeRSA \<equiv> ''origin-rsa''"

definition validateACMESuccess :: "CertificateSuccess \<Rightarrow> unit result" where
  "validateACMESuccess r =
     reject_if (CS_CredentialID r \<noteq> [] \<or> CS_CloudflareID r \<noteq> [] \<or>
                (case CS_Hostnames r of None \<Rightarrow> False | Some hs \<Rightarrow> hs \<noteq> []) \<or>
                CS_RequestType r \<noteq> [] \<or> CS_RequestedValidity r > 0)
       (New ''acme dns-01 certificate result contains origin ca metadata'')"

definition validateOriginCASuccess :: "CertificateSuccess \<Rightarrow> unit result" where
  "validateOriginCASuccess r =
     (let hostnames = (case CS_Hostnames r of None \<Rightarrow> [] | Some hs \<Rightarrow> hs) in
      if blank (CS_CredentialID r) then Inl (New ''origin ca credential id is required'')
      else if blank (CS_CloudflareID r) then Inl (New ''origin ca cloudflare certificate id is required'')
      else if hostnames = [] \<or> list_ex blank hostnames then Inl (New ''origin ca hostnames are required'')
      else if CS_RequestType r \<noteq> OriginCARequestTypeECC \<and> CS_RequestType r \<noteq> OriginCARequestTypeRSA
      then Inl (New ''origin ca request type is invalid'')
      else if CS_RequestedValidity r \<le> 0 then Inl (New ''origin ca requested validity is required'')
      else if CS_ProviderStatus r \<noteq> CertificateProviderStatusActive
      then Inl (New ''origin ca provider status must be active for success'')
      else Inr ())"

definition validateProviderSuccess :: "CertificateSuccess \<Rightarrow> unit result" where
  "validateProviderSuccess r =
     (if CS_ProviderType r = [] then Inl (New ''certificate provider type is required'')
      else if \<not> certificateProviderType_Valid (CS_ProviderType r) then Inl (New ''certificate provider type is invalid'')
      else if blank (CS_CertFile r) \<or> blank (CS_KeyFile r) then Inl (New ''certificate active material paths are required'')
      else if IsZero (CS_NotAfter r) then Inl (New ''certificate not_after is required'')
      else if blank (CS_ProviderName r) then Inl (New ''certificate provider name is required'')
      else if CS_ProviderType r = CertificateProviderACMEDNS01 then validateACMESuccess r
      else if CS_ProviderType r = CertificateProviderCloudflareOriginCA then validateOriginCASuccess r
      else Inl (New (''unsupported certificate provider '' @ CS_ProviderType r)))"

fun normalize_hostnames_loop :: "string list \<Rightarrow> string list \<Rightarrow> string list" where
  "normalize_hostnames_loop seen [] = []"
| "normalize_hostnames_loop seen (v # vs) =
     (let value = to_lower (trim_space v) in
      if value = [] \<or> value \<in> set seen then normalize_hostnames_loop seen vs
      else value # normalize_hostnames_loop (value # seen) vs)"

definition normalizeOriginCAHostnames :: "string list \<Rightarrow> string list" where
  "normalizeOriginCAHostnames values = normalize_hostnames_loop [] values"

definition BuildOriginCACSR :: "CertService \<Rightarrow> string list \<Rightarrow> string \<Rightarrow> (byte list \<times> byte list) result" where
  "BuildOriginCACSR service hostnames0 requestType0 =
     (let hostnames = normalizeOriginCAHostnames hostnames0;
          requestType = (if blank requestType0 then OriginCARequestTypeECC else requestType0)
      in if hostnames = [] then Inl (New ''origin ca hostnames are required'')
         else if requestType = OriginCARequestTypeECC \<or> requestType = OriginCARequestTypeRSA
         then sv_newKey service hostnames requestType
         else Inl (New (''unsupported origin ca request type '' @ [CHR 0x22] @ requestType @ [CHR 0x22])))"

end
