(* ===== verification/CertOperations.thy ===== *)
theory CertOperations
  imports CertManager
begin

text \<open>
  The operations of internal/certmanager/service.go: records, credentials, failures, the two issuing
  providers, registered files, and the controller of internal/daemon/certificate_controller.go that
  renews what is due.
\<close>

section \<open>Credentials\<close>

definition RejectOriginCAServiceKey :: "string \<Rightarrow> unit result" where
  "RejectOriginCAServiceKey material =
     reject_if (has_prefix (trim_space material) ''v1.0-'')
       (New ''origin ca service keys are deprecated; use a cloudflare api token'')"

definition readSecretToken :: "CertService \<Rightarrow> ProviderCredential \<Rightarrow> bool \<Rightarrow> string result" where
  "readSecretToken service credential allowVerificationFailed =
     (if PCred_ProviderType credential \<noteq> CertificateProviderCloudflareOriginCA
      then Inl (New ''provider credential is not for cloudflare origin ca'')
      else if PCred_Status credential = ProviderCredentialDisabled then Inl ErrProviderCredentialDisabled
      else if PCred_Status credential = ProviderCredentialVerificationFailed \<and> \<not> allowVerificationFailed
      then Inl ErrProviderCredentialVerificationFailed
      else case sv_SecretStore service of
             None \<Rightarrow> Inl (New ''provider secret store is required'')
           | Some read \<Rightarrow>
               rbind (read (PCred_SecretRef credential)) (\<lambda>token.
               rbind (RejectOriginCAServiceKey token) (\<lambda>_. Inr token)))"

definition credentialToken :: "CertService \<Rightarrow> string \<Rightarrow> DB \<Rightarrow> string result" where
  "credentialToken service credentialID db =
     (if \<not> sv_hasStore service then Inl store_required
      else rbind (pcreds_ByID db credentialID) (\<lambda>credential. readSecretToken service credential False))"

definition resolveCredentialID :: "CertService \<Rightarrow> string \<Rightarrow> DB \<Rightarrow> string result" where
  "resolveCredentialID service requested0 db =
     (let requested = trim_space requested0 in
      if requested \<noteq> [] then Inr requested
      else if \<not> sv_hasStore service then Inl store_required
      else rbind (pcreds_ListByProviderType db CertificateProviderCloudflareOriginCA
                    [ProviderCredentialPending, ProviderCredentialVerified]) (\<lambda>credentials.
           case credentials of
             [] \<Rightarrow> Inl (New ''cloudflare origin ca credential is required'')
           | [c] \<Rightarrow> Inr (PCred_ID c)
           | _ \<Rightarrow> Inl (New ''cloudflare origin ca credential id is required when multiple credentials exist'')))"

definition VerifyProviderCredential :: "CertService \<Rightarrow> string \<Rightarrow> (CertWorld, unit) op" where
  "VerifyProviderCredential service credentialID =
     with_store service
       (sbind (ask_db (\<lambda>db. pcreds_ByID db credentialID)) (\<lambda>credential.
        if PCred_Status credential = ProviderCredentialDisabled then sfail ErrProviderCredentialDisabled
        else let now = sv_now service;
                 verified = rbind (readSecretToken service credential True) (oc_VerifyToken (sv_OriginCAClient service))
             in case verified of
                  Inl e \<Rightarrow>
                    sbind (ignoring (in_db (pcreds_SetStatus now (PCred_ID credential) ProviderCredentialVerificationFailed
                                       (Some now) (SafeCertificateError e)))) (\<lambda>_. sfail e)
                | Inr _ \<Rightarrow> in_db (pcreds_SetStatus now (PCred_ID credential) ProviderCredentialVerified (Some now) [])))"

section \<open>Certificate records\<close>

definition newCertificateID :: "CertService \<Rightarrow> string result" where
  "newCertificateID service =
     (case sv_NewID service of
        Some r \<Rightarrow> r
      | None \<Rightarrow> Inr (''cert_'' @ itoa (sv_now service - 62135596800 * second)))"

definition zeroCertificate :: ManagedCertificate where
  "zeroCertificate =
     \<lparr>Cert_ID = [], Cert_ProxyID = [], Cert_Host = [], Cert_Status = [], Cert_ServingStatus = [], Cert_OperationStatus = [],
      Cert_Provider = [], Cert_ProviderType = [], Cert_ProviderName = [], Cert_CredentialID = [], Cert_ProviderStatus = [],
      Cert_CloudflareCertificateID = [], Cert_PreviousCloudflareCertificateID = [], Cert_Hostnames = [],
      Cert_RequestType = [], Cert_RequestedValidity = 0, Cert_CertFile = [], Cert_KeyFile = [],
      Cert_PreviousCertFile = [], Cert_PreviousKeyFile = [], Cert_NotAfter = None, Cert_LastIssuedAt = None,
      Cert_LastRenewedAt = None, Cert_LastCheckedAt = None, Cert_LastSyncedAt = None, Cert_LastAttemptedAt = None,
      Cert_NextAttemptAt = None, Cert_FailureCount = 0, Cert_Fingerprint = [], Cert_LastError = [], Cert_CreatedAt = 0,
      Cert_UpdatedAt = 0\<rparr>"

text \<open>The record the caller means, when there is one: by identity, or else by the proxy it was made for.\<close>

definition find_certificate :: "string \<Rightarrow> string \<Rightarrow> DB \<Rightarrow> ManagedCertificate option result" where
  "find_certificate certificateID proxyID db =
     (let found = (\<lambda>r. case r of Inr c \<Rightarrow> Inr (Some c)
                               | Inl e \<Rightarrow> if errors_is e ErrNotFound then Inr None else Inl e)
      in if \<not> blank certificateID then found (certs_ByID db certificateID)
         else if \<not> blank proxyID then found (certs_ByProxyID db proxyID)
         else Inr None)"

definition new_certificate ::
    "CertService \<Rightarrow> string \<Rightarrow> string \<Rightarrow> string \<Rightarrow> CertificateProviderType \<Rightarrow> string \<Rightarrow> string \<Rightarrow> ManagedCertificate" where
  "new_certificate service i proxyID host providerType providerName credentialID =
     zeroCertificate\<lparr>Cert_ID := i, Cert_ProxyID := proxyID, Cert_Host := host, Cert_Status := CertificatePending,
       Cert_Provider := (if providerName = [] then ''cloudflare'' else providerName), Cert_ProviderType := providerType,
       Cert_ProviderName := providerName, Cert_CredentialID := credentialID,
       Cert_ProviderStatus := CertificateProviderStatusUnknown, Cert_CreatedAt := sv_now service,
       Cert_UpdatedAt := sv_now service\<rparr>"

definition create_certificate ::
    "CertService \<Rightarrow> string \<Rightarrow> string \<Rightarrow> string \<Rightarrow> CertificateProviderType \<Rightarrow> string \<Rightarrow> string \<Rightarrow>
     (CertWorld, ManagedCertificate) op" where
  "create_certificate service certificateID proxyID host providerType providerName credentialID =
     sbind (slift (if blank certificateID then newCertificateID service else Inr (trim_space certificateID))) (\<lambda>i.
       let certificate = new_certificate service i proxyID host providerType providerName credentialID
       in sbind (in_db (certs_Create (sv_now service) certificate)) (\<lambda>_. sret certificate))"

definition ensureCertificateRecordByIdentity ::
    "CertService \<Rightarrow> string \<Rightarrow> string \<Rightarrow> string \<Rightarrow> CertificateProviderType \<Rightarrow> string \<Rightarrow> string \<Rightarrow> ManagedCertificate option \<Rightarrow>
     (CertWorld, ManagedCertificate) op" where
  "ensureCertificateRecordByIdentity service certificateID proxyID host providerType providerName credentialID existing =
     (let look_up = sbind (ask_db (find_certificate certificateID proxyID)) (\<lambda>found. case found of
            Some c \<Rightarrow> sret c
          | None \<Rightarrow> create_certificate service certificateID proxyID host providerType providerName credentialID)
      in case existing of
           None \<Rightarrow> look_up
         | Some c \<Rightarrow> if Cert_ID c \<noteq> [] then sret c else look_up)"

section \<open>Failures\<close>

definition operationStatusFromFailure :: "CertificateStatus \<Rightarrow> CertificateOperationStatus" where
  "operationStatusFromFailure status =
     (if status = CertificateRenewalFailed then CertificateOperationRenewalFailed else CertificateOperationIssueFailed)"

definition providerStatusAfterFailure :: "ManagedCertificate \<Rightarrow> CertificateProviderStatus" where
  "providerStatusAfterFailure certificate =
     (if Cert_ProviderType certificate = CertificateProviderCloudflareOriginCA
      then (if Cert_ProviderStatus certificate = CertificateProviderStatusRevoked \<or>
               Cert_ProviderStatus certificate = CertificateProviderStatusMissingRemote
            then Cert_ProviderStatus certificate else CertificateProviderStatusUnknown)
      else Cert_ProviderStatus certificate)"

definition providerStatusAfterSyncError :: "ManagedCertificate \<Rightarrow> CertificateProviderStatus" where
  "providerStatusAfterSyncError certificate =
     (if BlocksServing (Cert_ProviderStatus certificate) then Cert_ProviderStatus certificate
      else CertificateProviderStatusUnknown)"

definition activeHealth :: "CertService \<Rightarrow> files \<Rightarrow> string \<Rightarrow> ManagedCertificate \<Rightarrow> CertificateMaterialHealth" where
  "activeHealth service disk host certificate =
     (if Cert_CertFile certificate = [] \<or> Cert_KeyFile certificate = []
      then \<lparr>MH_ServingStatus = CertificateServingMissing, MH_NotAfter = None, MH_Fingerprint = [],
            MH_ErrorSummary = ''certificate active material is missing'', MH_Certificate = None\<rparr>
      else CheckCertificateFiles (sv_certEnv service) disk (sv_now service) host (Cert_CertFile certificate)
             (Cert_KeyFile certificate) (sv_certificateDir service)
             (WindowFor (service_scheduler service) (Cert_ProviderType certificate)) (sv_now service))"

definition failure_record ::
    "CertService \<Rightarrow> ManagedCertificate \<Rightarrow> CertificateMaterialHealth \<Rightarrow> CertificateStatus \<Rightarrow> error \<Rightarrow> CertificateFailure" where
  "failure_record service certificate health failureStatus cause =
     (let now = sv_now service; failureCount = Cert_FailureCount certificate + 1 in
      \<lparr>CF_Status = failureStatus, CF_ServingStatus = MH_ServingStatus health,
       CF_OperationStatus = operationStatusFromFailure failureStatus,
       CF_ProviderStatus = providerStatusAfterFailure certificate, CF_LastError = SafeCertificateError cause,
       CF_LastCheckedAt = now, CF_LastAttemptedAt = now, CF_LastSyncedAt = None,
       CF_NextAttemptAt = Some (NextAttemptAt now failureCount (Cert_NotAfter certificate)),
       CF_FailureCount = failureCount, CF_CompletedAt = now\<rparr>)"

definition recordFailure ::
    "CertService \<Rightarrow> ManagedCertificate \<Rightarrow> string \<Rightarrow> CertificateStatus \<Rightarrow> error \<Rightarrow> (CertWorld, unit) op" where
  "recordFailure service certificate host failureStatus cause w =
     (let now = sv_now service; health = activeHealth service (dk_files (cw_disk w)) host certificate in
      sbind (ignoring (in_db (certs_UpdateHealth now (Cert_ID certificate)
               \<lparr>CH_ServingStatus = MH_ServingStatus health, CH_NotAfter = MH_NotAfter health,
                CH_Fingerprint = MH_Fingerprint health, CH_LastError = MH_ErrorSummary health, CH_CheckedAt = now\<rparr>)))
        (\<lambda>_. in_db (certs_UpdateFailure now (Cert_ID certificate)
                 (failure_record service certificate health failureStatus cause))) w)"

definition cleanupUnusableInitialIssue :: "ManagedCertificate \<Rightarrow> (CertWorld, unit) op" where
  "cleanupUnusableInitialIssue certificate =
     (if \<not> blank (Cert_ProxyID certificate) then sret ()
      else if \<not> blank (Cert_CertFile certificate) \<or> \<not> blank (Cert_KeyFile certificate) then sret ()
      else if \<not> blank (Cert_CloudflareCertificateID certificate) then sret ()
      else in_db (certs_Delete (Cert_ID certificate)))"

definition acme_failed ::
    "CertService \<Rightarrow> ManagedCertificate \<Rightarrow> string \<Rightarrow> CertificateStatus \<Rightarrow> error \<Rightarrow> (CertWorld, 'a) op" where
  "acme_failed service certificate host failureStatus e =
     sbind (ignoring (recordFailure service certificate host failureStatus e)) (\<lambda>_. sfail e)"

definition origin_failed ::
    "CertService \<Rightarrow> ManagedCertificate \<Rightarrow> string \<Rightarrow> CertificateStatus \<Rightarrow> error \<Rightarrow> (CertWorld, 'a) op" where
  "origin_failed service certificate host failureStatus e =
     sbind (ignoring (recordFailure service certificate host failureStatus e)) (\<lambda>_.
     sbind (ignoring (cleanupUnusableInitialIssue certificate)) (\<lambda>_. sfail e))"

section \<open>Issuing\<close>

text \<open>A step whose error is recorded before it is returned.\<close>

definition or_failed :: "(error \<Rightarrow> (CertWorld, 'b) op) \<Rightarrow> (CertWorld, 'a) op \<Rightarrow> ('a \<Rightarrow> (CertWorld, 'b) op) \<Rightarrow> (CertWorld, 'b) op" where
  "or_failed failed m f = shandle m (\<lambda>r. case r of Inl e \<Rightarrow> failed e | Inr a \<Rightarrow> f a)"

definition store_issued ::
    "CertService \<Rightarrow> string \<Rightarrow> byte list \<Rightarrow> byte list \<Rightarrow> (CertWorld, StoredCertificateFiles) op" where
  "store_issued service host certPEM keyPEM =
     in_disk (storage_Store (sv_certEnv service) (sv_certificateDir service) (sv_now service) host certPEM keyPEM)"

definition finish_issue :: "(error \<Rightarrow> (CertWorld, ManagedCertificate) op) \<Rightarrow> CertService \<Rightarrow> string \<Rightarrow> CertificateSuccess \<Rightarrow>
    (CertWorld, ManagedCertificate) op" where
  "finish_issue failed service i success =
     or_failed failed (slift (validateProviderSuccess success)) (\<lambda>_.
       sbind (in_db (certs_UpdateSuccess (sv_now service) i success)) (\<lambda>_. ask_db (\<lambda>db. certs_ByID db i)))"

definition acme_success :: "CertService \<Rightarrow> string \<Rightarrow> StoredCertificateFiles \<Rightarrow> CertificateSuccess" where
  "acme_success service providerName stored =
     (let now = sv_now service in
      \<lparr>CS_CertFile = SCF_CertFile stored, CS_KeyFile = SCF_KeyFile stored,
       CS_PreviousCertFile = SCF_PreviousCertFile stored, CS_PreviousKeyFile = SCF_PreviousKeyFile stored,
       CS_NotAfter = SCF_NotAfter stored,
       CS_ServingStatus = scheduler_ServingStatus (service_scheduler service) (SCF_NotAfter stored) CertificateProviderACMEDNS01 now,
       CS_ProviderStatus = CertificateProviderStatusUnknown, CS_ProviderType = CertificateProviderACMEDNS01,
       CS_ProviderName = providerName, CS_CredentialID = [], CS_CloudflareID = [], CS_PreviousCloudflareID = [],
       CS_Hostnames = None, CS_RequestType = [], CS_RequestedValidity = 0, CS_Fingerprint = SCF_Fingerprint stored,
       CS_LastCheckedAt = now, CS_LastAttemptedAt = now, CS_LastSyncedAt = None, CS_CompletedAt = now\<rparr>)"

definition acme_locked ::
    "CertService \<Rightarrow> (IssueRequest \<Rightarrow> IssuedCertificate result) \<Rightarrow> string \<Rightarrow> string \<Rightarrow> string \<Rightarrow> ManagedCertificate option \<Rightarrow>
     CertificateStatus \<Rightarrow> (CertWorld, ManagedCertificate) op" where
  "acme_locked service issuer certificateID proxyID host existing failureStatus =
     (let settings = sv_Settings service; providerName = cert_defaultString (ACME_DNSProvider settings) ''cloudflare'' in
      sbind (ensureCertificateRecordByIdentity service certificateID proxyID host CertificateProviderACMEDNS01
               providerName [] existing) (\<lambda>certificate.
        let failed = acme_failed service certificate host failureStatus in
        or_failed failed (slift (issuer \<lparr>IR_Host = host, IR_AccountEmail = ACME_AccountEmail settings,
                                  IR_DirectoryURL = ACME_DirectoryURL settings,
                                  IR_TermsAccepted = ACME_TermsAccepted settings\<rparr>)) (\<lambda>issued.
        or_failed failed (store_issued service host (IC_CertPEM issued) (IC_KeyPEM issued)) (\<lambda>stored.
          finish_issue failed service (Cert_ID certificate) (acme_success service providerName stored)))))"

definition issueACMEForIdentity ::
    "CertService \<Rightarrow> string \<Rightarrow> string \<Rightarrow> string \<Rightarrow> ManagedCertificate option \<Rightarrow> CertificateStatus \<Rightarrow>
     (CertWorld, ManagedCertificate) op" where
  "issueACMEForIdentity service certificateID proxyID rawHost existing failureStatus =
     (case sv_Issuer service of
        None \<Rightarrow> sfail (New ''issuer is required'')
      | Some issuer \<Rightarrow>
          (if \<not> sv_DNSProvider service then sfail (New ''dns challenge provider is required'')
           else let host = to_lower (trim_space rawHost) in
             if host = [] then sfail (New ''certificate host is required'')
             else with_operation_lock service (certificateOperationKey host host)
                    (acme_locked service issuer certificateID proxyID host existing failureStatus)))"

definition issueACMEForCertificate ::
    "CertService \<Rightarrow> ManagedCertificate \<Rightarrow> CertificateStatus \<Rightarrow> (CertWorld, ManagedCertificate) op" where
  "issueACMEForCertificate service certificate failureStatus =
     with_store service
       (let host = to_lower (trim_space (Cert_Host certificate)) in
        if host = [] then sfail (New ''certificate host is required'')
        else issueACMEForIdentity service (Cert_ID certificate) (Cert_ProxyID certificate) host (Some certificate) failureStatus)"

definition proxyCertificateHost :: "DB \<Rightarrow> Proxy \<Rightarrow> string result" where
  "proxyCertificateHost db proxy =
     (let entryHost = to_lower (trim_space (Proxy_EntryHost proxy)) in
      if proxyType_IsWeb (Proxy_Type proxy)
      then let domainHost = (if blank (Proxy_DomainID proxy) then []
                             else case domains_ByID db (Proxy_DomainID proxy) of
                                    Inl _ \<Rightarrow> [] | Inr d \<Rightarrow> to_lower (trim_space (Dom_Host d)))
           in if domainHost \<noteq> [] then Inr domainHost
              else if entryHost \<noteq> [] then Inr entryHost
              else Inl (New ''web proxy domain host is required'')
      else if Proxy_Type proxy \<noteq> ProxyHTTPS then Inl (New ''managed certificates require a web or https proxy'')
      else if entryHost = [] then Inl (New ''https proxy host is required'') else Inr entryHost)"

definition issueACMEForProxy ::
    "CertService \<Rightarrow> Proxy \<Rightarrow> ManagedCertificate option \<Rightarrow> CertificateStatus \<Rightarrow> (CertWorld, ManagedCertificate) op" where
  "issueACMEForProxy service proxy existing failureStatus =
     sbind (ask_db (\<lambda>db. proxyCertificateHost db proxy)) (\<lambda>host.
       issueACMEForIdentity service (case existing of None \<Rightarrow> [] | Some c \<Rightarrow> Cert_ID c) (Proxy_ID proxy) host existing failureStatus)"

definition issueACME :: "CertService \<Rightarrow> string \<Rightarrow> CertificateStatus \<Rightarrow> (CertWorld, ManagedCertificate) op" where
  "issueACME service proxyID failureStatus =
     with_store service (sbind (ask_db (\<lambda>db. proxies_ByID db proxyID)) (\<lambda>proxy.
       issueACMEForProxy service proxy None failureStatus))"

section \<open>Cloudflare Origin CA\<close>

record ManagedCertificateRequest =
  MCR_ProxyID :: string
  MCR_ProviderType :: CertificateProviderType
  MCR_CredentialID :: string
  MCR_Hostnames :: "string list"
  MCR_RequestType :: string
  MCR_RequestedValidity :: int

definition origin_request_type :: "CertService \<Rightarrow> ManagedCertificateRequest \<Rightarrow> string" where
  "origin_request_type service request =
     or_default (cert_defaultString (MCR_RequestType request) (OCA_DefaultRequestType (sv_OriginCASettings service)))
       OriginCARequestTypeECC"

definition origin_validity :: "CertService \<Rightarrow> ManagedCertificateRequest \<Rightarrow> int" where
  "origin_validity service request =
     (let asked = MCR_RequestedValidity request; configured = OCA_RequestedValidity (sv_OriginCASettings service) in
      if asked > 0 then asked else if configured > 0 then configured else 5475)"

text \<open>The metadata of a success: the remote answer where it has it, the request otherwise.\<close>

definition origin_success ::
    "ManagedCertificate \<Rightarrow> OriginCACertificate \<Rightarrow> string \<Rightarrow> string list \<Rightarrow> string \<Rightarrow> int \<Rightarrow> CertificateSuccess" where
  "origin_success certificate remote credentialID hostnames requestType validity =
     \<lparr>CS_CertFile = ''pending.crt'', CS_KeyFile = ''pending.key'', CS_PreviousCertFile = [], CS_PreviousKeyFile = [],
      CS_NotAfter = 0, CS_ServingStatus = [], CS_ProviderStatus = CertificateProviderStatusActive,
      CS_ProviderType = CertificateProviderCloudflareOriginCA, CS_ProviderName = ''cloudflare'',
      CS_CredentialID = credentialID, CS_CloudflareID = OC_ID remote,
      CS_PreviousCloudflareID =
        (if Cert_CloudflareCertificateID certificate \<noteq> [] \<and> Cert_CloudflareCertificateID certificate \<noteq> OC_ID remote
         then Cert_CloudflareCertificateID certificate else []),
      CS_Hostnames = Some (if OC_Hostnames remote \<noteq> [] then OC_Hostnames remote else hostnames),
      CS_RequestType = or_default (OC_RequestType remote) requestType,
      CS_RequestedValidity = (if OC_RequestedValidity remote > 0 then OC_RequestedValidity remote else validity),
      CS_Fingerprint = [], CS_LastCheckedAt = 0, CS_LastAttemptedAt = 0, CS_LastSyncedAt = None, CS_CompletedAt = 0\<rparr>"

definition origin_stored :: "CertService \<Rightarrow> StoredCertificateFiles \<Rightarrow> CertificateSuccess \<Rightarrow> CertificateSuccess" where
  "origin_stored service stored success =
     (let now = sv_now service in
      success\<lparr>CS_CertFile := SCF_CertFile stored, CS_KeyFile := SCF_KeyFile stored,
        CS_PreviousCertFile := SCF_PreviousCertFile stored, CS_PreviousKeyFile := SCF_PreviousKeyFile stored,
        CS_NotAfter := SCF_NotAfter stored,
        CS_ServingStatus := scheduler_ServingStatus (service_scheduler service) (SCF_NotAfter stored)
          CertificateProviderCloudflareOriginCA now,
        CS_Fingerprint := SCF_Fingerprint stored, CS_LastCheckedAt := now, CS_LastAttemptedAt := now,
        CS_LastSyncedAt := Some now, CS_CompletedAt := now\<rparr>)"

text \<open>The first validation is given \<open>NotAfter = now\<close> and no previous id; validateOriginCASuccess reads neither.\<close>

definition origin_remote ::
    "CertService \<Rightarrow> ManagedCertificateRequest \<Rightarrow> string \<Rightarrow> string list \<Rightarrow> DB \<Rightarrow>
     (OriginCACertificate \<times> byte list) result" where
  "origin_remote service request credentialID hostnames db =
     rbind (BuildOriginCACSR service hostnames (origin_request_type service request)) (\<lambda>(csrPEM, keyPEM).
     rbind (credentialToken service credentialID db) (\<lambda>token.
     rbind (oc_Create (sv_OriginCAClient service) token
              \<lparr>OCR_CSR = csrPEM, OCR_Hostnames = hostnames, OCR_RequestType = origin_request_type service request,
               OCR_RequestedValidity = origin_validity service request\<rparr>) (\<lambda>remote.
       if OC_CertificatePEM remote = [] then Inl (New ''cloudflare origin ca response missing certificate'')
       else Inr (remote, keyPEM))))"

definition origin_locked ::
    "CertService \<Rightarrow> string \<Rightarrow> string \<Rightarrow> string \<Rightarrow> ManagedCertificateRequest \<Rightarrow> ManagedCertificate option \<Rightarrow>
     CertificateStatus \<Rightarrow> (CertWorld, ManagedCertificate) op" where
  "origin_locked service certificateID proxyID host request existing failureStatus =
     sbind (ask_db (resolveCredentialID service (MCR_CredentialID request))) (\<lambda>credentialID.
     sbind (ensureCertificateRecordByIdentity service certificateID proxyID host CertificateProviderCloudflareOriginCA
              ''cloudflare'' credentialID existing) (\<lambda>certificate.
       let failed = origin_failed service certificate host failureStatus;
           hostnames = normalizeOriginCAHostnames (host # MCR_Hostnames request)
       in or_failed failed (ask_db (origin_remote service request credentialID hostnames)) (\<lambda>(remote, keyPEM).
          let success = origin_success certificate remote credentialID hostnames (origin_request_type service request)
                          (origin_validity service request)
          in or_failed failed (slift (validateOriginCASuccess success)) (\<lambda>_.
             or_failed failed (store_issued service host (OC_CertificatePEM remote) keyPEM) (\<lambda>stored.
               finish_issue failed service (Cert_ID certificate) (origin_stored service stored success))))))"

definition issueOriginCAForIdentity ::
    "CertService \<Rightarrow> string \<Rightarrow> string \<Rightarrow> string \<Rightarrow> ManagedCertificateRequest \<Rightarrow> ManagedCertificate option \<Rightarrow>
     CertificateStatus \<Rightarrow> (CertWorld, ManagedCertificate) op" where
  "issueOriginCAForIdentity service certificateID proxyID rawHost request existing failureStatus =
     (if \<not> OCA_Enabled (sv_OriginCASettings service) then sfail (New ''cloudflare origin ca is disabled'')
      else let host = to_lower (trim_space rawHost) in
        if host = [] then sfail (New ''certificate host is required'')
        else with_operation_lock service (certificateOperationKey host host)
               (origin_locked service certificateID proxyID host request existing failureStatus))"

definition issueOriginCAForProxy ::
    "CertService \<Rightarrow> Proxy \<Rightarrow> ManagedCertificateRequest \<Rightarrow> ManagedCertificate option \<Rightarrow> CertificateStatus \<Rightarrow>
     (CertWorld, ManagedCertificate) op" where
  "issueOriginCAForProxy service proxy request existing failureStatus =
     sbind (ask_db (\<lambda>db. proxyCertificateHost db proxy)) (\<lambda>host.
       issueOriginCAForIdentity service (case existing of None \<Rightarrow> [] | Some c \<Rightarrow> Cert_ID c) (Proxy_ID proxy) host
         request existing failureStatus)"

definition issueOriginCA ::
    "CertService \<Rightarrow> ManagedCertificateRequest \<Rightarrow> CertificateStatus \<Rightarrow> (CertWorld, ManagedCertificate) op" where
  "issueOriginCA service request failureStatus =
     with_store service
       (if \<not> OCA_Enabled (sv_OriginCASettings service) then sfail (New ''cloudflare origin ca is disabled'')
        else sbind (ask_db (\<lambda>db. proxies_ByID db (MCR_ProxyID request))) (\<lambda>proxy.
             issueOriginCAForProxy service proxy request None failureStatus))"

definition rotateOriginCACertificate :: "CertService \<Rightarrow> ManagedCertificate \<Rightarrow> (CertWorld, ManagedCertificate) op" where
  "rotateOriginCACertificate service certificate =
     with_store service
       (issueOriginCAForIdentity service (Cert_ID certificate) (Cert_ProxyID certificate) (Cert_Host certificate)
          \<lparr>MCR_ProxyID = Cert_ProxyID certificate, MCR_ProviderType = CertificateProviderCloudflareOriginCA,
           MCR_CredentialID = Cert_CredentialID certificate, MCR_Hostnames = Cert_Hostnames certificate,
           MCR_RequestType = Cert_RequestType certificate, MCR_RequestedValidity = Cert_RequestedValidity certificate\<rparr>
          (Some certificate) CertificateRenewalFailed)"

definition provider_sync :: "CertificateProviderStatus \<Rightarrow> string \<Rightarrow> time \<Rightarrow> CertificateProviderSync" where
  "provider_sync status lastError now =
     \<lparr>CPS_ProviderStatus = status, CPS_LastError = lastError, CPS_SyncedAt = now, CPS_UpdatedAt = now\<rparr>"

text \<open>What an answer of the Origin CA says of the certificate.\<close>

definition synced_status :: "ManagedCertificate \<Rightarrow> OriginCACertificate result \<Rightarrow> CertificateProviderStatus \<times> string" where
  "synced_status certificate remote =
     (case remote of
        Inl e \<Rightarrow>
          if errors_is e ErrOriginCACertificateMissing
          then (CertificateProviderStatusMissingRemote, providerStatusError CertificateProviderStatusMissingRemote)
          else (providerStatusAfterSyncError certificate, SafeCertificateError e)
      | Inr r \<Rightarrow>
          if OC_RevokedAt r \<noteq> None \<or> equal_fold (OC_Status r) ''revoked''
          then (CertificateProviderStatusRevoked, providerStatusError CertificateProviderStatusRevoked)
          else (CertificateProviderStatusActive, []))"

definition syncOriginCACertificate :: "CertService \<Rightarrow> ManagedCertificate \<Rightarrow> (CertWorld, ManagedCertificate) op" where
  "syncOriginCACertificate service certificate =
     with_store service
       (let now = sv_now service; i = Cert_ID certificate in
        if Cert_ProviderType certificate \<noteq> CertificateProviderCloudflareOriginCA
        then sfail (New ''certificate is not managed by cloudflare origin ca'')
        else shandle (ask_db (credentialToken service (Cert_CredentialID certificate))) (\<lambda>token. case token of
          Inl e \<Rightarrow>
            sbind (ignoring (in_db (certs_UpdateProviderSync now i
              (provider_sync (providerStatusAfterSyncError certificate) (SafeCertificateError e) now)))) (\<lambda>_. sfail e)
        | Inr t \<Rightarrow>
            let remote = oc_Get (sv_OriginCAClient service) t (Cert_CloudflareCertificateID certificate);
                (status, lastError) = synced_status certificate remote
            in sbind (in_db (certs_UpdateProviderSync now i (provider_sync status lastError now))) (\<lambda>_.
               sbind (ask_db (\<lambda>db. certs_ByID db i)) (\<lambda>updated.
               case remote of
                 Inl e \<Rightarrow> if errors_is e ErrOriginCACertificateMissing then sret updated else sfail e
               | Inr _ \<Rightarrow> sret updated))))"

record OriginCARevokeRequest =
  RR_CertificateID :: string
  RR_ProxyID :: string
  RR_Host :: string
  RR_CloudflareCertificateID :: string

definition revokeOriginCACertificate ::
    "CertService \<Rightarrow> ManagedCertificate \<Rightarrow> OriginCARevokeRequest \<Rightarrow> (CertWorld, ManagedCertificate) op" where
  "revokeOriginCACertificate service certificate request =
     with_store service
       (let host = to_lower (trim_space (RR_Host request));
            cloudflareID = trim_space (RR_CloudflareCertificateID request);
            active = (cloudflareID = Cert_CloudflareCertificateID certificate);
            previous = (cloudflareID = Cert_PreviousCloudflareCertificateID certificate \<and>
                        Cert_PreviousCloudflareCertificateID certificate \<noteq> []);
            now = sv_now service; i = Cert_ID certificate
        in if host = [] \<or> host \<noteq> to_lower (trim_space (Cert_Host certificate))
           then sfail (New ''revoke confirmation host does not match certificate'')
           else if cloudflareID = [] then sfail (New ''cloudflare certificate id confirmation is required'')
           else if \<not> active \<and> \<not> previous
           then sfail (New ''revoke confirmation cloudflare certificate id does not match active or previous certificate'')
           else sbind (ask_db (credentialToken service (Cert_CredentialID certificate))) (\<lambda>token.
                sbind (slift (oc_Revoke (sv_OriginCAClient service) token cloudflareID)) (\<lambda>_.
                sbind (if active
                       then in_db (certs_UpdateProviderSync now i (provider_sync CertificateProviderStatusRevoked
                              (providerStatusError CertificateProviderStatusRevoked) now))
                       else sret ()) (\<lambda>_. ask_db (\<lambda>db. certs_ByID db i)))))"

section \<open>The providers\<close>

text \<open>providerFor and the methods of acmeDNS01Provider and cloudflareOriginCAProvider.\<close>

datatype CertProvider = AcmeDNS01Provider | CloudflareOriginCAProvider

definition providerFor :: "CertificateProviderType \<Rightarrow> CertProvider result" where
  "providerFor givenType =
     (let providerType = or_default givenType CertificateProviderACMEDNS01 in
      if providerType = CertificateProviderACMEDNS01 then Inr AcmeDNS01Provider
      else if providerType = CertificateProviderCloudflareOriginCA then Inr CloudflareOriginCAProvider
      else Inl (New (''unsupported certificate provider '' @ providerType)))"

fun provider_Issue ::
    "CertProvider \<Rightarrow> CertService \<Rightarrow> ManagedCertificateRequest \<Rightarrow> CertificateStatus \<Rightarrow> (CertWorld, ManagedCertificate) op" where
  "provider_Issue AcmeDNS01Provider service request failureStatus = issueACME service (MCR_ProxyID request) failureStatus"
| "provider_Issue CloudflareOriginCAProvider service request failureStatus = issueOriginCA service request failureStatus"

fun provider_Renew :: "CertProvider \<Rightarrow> CertService \<Rightarrow> ManagedCertificate \<Rightarrow> (CertWorld, ManagedCertificate) op" where
  "provider_Renew AcmeDNS01Provider service certificate = issueACMEForCertificate service certificate CertificateRenewalFailed"
| "provider_Renew CloudflareOriginCAProvider service certificate = rotateOriginCACertificate service certificate"

fun provider_Sync :: "CertProvider \<Rightarrow> CertService \<Rightarrow> ManagedCertificate \<Rightarrow> (CertWorld, ManagedCertificate) op" where
  "provider_Sync AcmeDNS01Provider service certificate =
     sfail (New ''provider sync is not supported for acme dns-01 certificates'')"
| "provider_Sync CloudflareOriginCAProvider service certificate = syncOriginCACertificate service certificate"

fun provider_Revoke ::
    "CertProvider \<Rightarrow> CertService \<Rightarrow> ManagedCertificate \<Rightarrow> OriginCARevokeRequest \<Rightarrow> (CertWorld, ManagedCertificate) op" where
  "provider_Revoke AcmeDNS01Provider service certificate request =
     sfail (New ''provider revoke is not supported for acme dns-01 certificates'')"
| "provider_Revoke CloudflareOriginCAProvider service certificate request = revokeOriginCACertificate service certificate request"

definition RenewCertificate :: "CertService \<Rightarrow> ManagedCertificate \<Rightarrow> (CertWorld, ManagedCertificate) op" where
  "RenewCertificate service certificate =
     sbind (slift (providerFor (Cert_ProviderType certificate))) (\<lambda>provider. provider_Renew provider service certificate)"

definition SyncOriginCACertificate :: "CertService \<Rightarrow> ManagedCertificate \<Rightarrow> (CertWorld, ManagedCertificate) op" where
  "SyncOriginCACertificate service certificate =
     sbind (slift (providerFor (Cert_ProviderType certificate))) (\<lambda>provider. provider_Sync provider service certificate)"

definition RevokeOriginCACertificate ::
    "CertService \<Rightarrow> ManagedCertificate \<Rightarrow> OriginCARevokeRequest \<Rightarrow> (CertWorld, ManagedCertificate) op" where
  "RevokeOriginCACertificate service certificate request =
     sbind (slift (providerFor (Cert_ProviderType certificate))) (\<lambda>provider.
       provider_Revoke provider service certificate request)"

section \<open>Entry points\<close>

definition by_proxy :: "CertService \<Rightarrow> string \<Rightarrow> (ManagedCertificate \<Rightarrow> (CertWorld, ManagedCertificate) op) \<Rightarrow>
    (CertWorld, ManagedCertificate) op" where
  "by_proxy service proxyID m = with_store service (sbind (ask_db (\<lambda>db. certs_ByProxyID db proxyID)) m)"

definition service_Renew :: "CertService \<Rightarrow> string \<Rightarrow> (CertWorld, ManagedCertificate) op" where
  "service_Renew service proxyID = by_proxy service proxyID (RenewCertificate service)"

definition service_RotateOriginCA :: "CertService \<Rightarrow> string \<Rightarrow> (CertWorld, ManagedCertificate) op" where
  "service_RotateOriginCA service proxyID = by_proxy service proxyID (rotateOriginCACertificate service)"

definition service_SyncOriginCA :: "CertService \<Rightarrow> string \<Rightarrow> (CertWorld, ManagedCertificate) op" where
  "service_SyncOriginCA service proxyID = by_proxy service proxyID (SyncOriginCACertificate service)"

definition service_Status :: "CertService \<Rightarrow> string \<Rightarrow> (CertWorld, ManagedCertificate) op" where
  "service_Status service proxyID = by_proxy service proxyID sret"

text \<open>The bound certificate of a proxy goes before the certificate that was made for it.\<close>

definition resolveCertificate :: "CertService \<Rightarrow> string \<Rightarrow> string \<Rightarrow> DB \<Rightarrow> ManagedCertificate result" where
  "resolveCertificate service certificateID proxyID db =
     (if \<not> sv_hasStore service then Inl store_required
      else if \<not> blank certificateID then certs_ByID db certificateID
      else if \<not> blank proxyID
      then (case proxies_ByID db proxyID of
              Inl _ \<Rightarrow> certs_ByProxyID db proxyID
            | Inr proxy \<Rightarrow>
                if blank (Proxy_CertificateID proxy) then certs_ByProxyID db proxyID
                else case certs_ByID db (Proxy_CertificateID proxy) of
                       Inr certificate \<Rightarrow> Inr certificate
                     | Inl _ \<Rightarrow> certs_ByProxyID db proxyID)
      else Inl (New ''certificate id or proxy id is required''))"

definition RenewByID :: "CertService \<Rightarrow> string \<Rightarrow> string \<Rightarrow> (CertWorld, ManagedCertificate) op" where
  "RenewByID service certificateID proxyID =
     sbind (ask_db (resolveCertificate service certificateID proxyID)) (RenewCertificate service)"

definition RotateOriginCAByID :: "CertService \<Rightarrow> string \<Rightarrow> string \<Rightarrow> (CertWorld, ManagedCertificate) op" where
  "RotateOriginCAByID service certificateID proxyID =
     sbind (ask_db (resolveCertificate service certificateID proxyID)) (rotateOriginCACertificate service)"

definition SyncOriginCAByID :: "CertService \<Rightarrow> string \<Rightarrow> string \<Rightarrow> (CertWorld, ManagedCertificate) op" where
  "SyncOriginCAByID service certificateID proxyID =
     sbind (ask_db (resolveCertificate service certificateID proxyID)) (SyncOriginCACertificate service)"

definition service_RevokeOriginCA :: "CertService \<Rightarrow> OriginCARevokeRequest \<Rightarrow> (CertWorld, ManagedCertificate) op" where
  "service_RevokeOriginCA service request =
     with_store service
       (sbind (ask_db (resolveCertificate service (RR_CertificateID request) (RR_ProxyID request))) (\<lambda>certificate.
          RevokeOriginCACertificate service certificate request))"

definition IssueWithProvider :: "CertService \<Rightarrow> ManagedCertificateRequest \<Rightarrow> (CertWorld, ManagedCertificate) op" where
  "IssueWithProvider service request0 =
     (let request = request0\<lparr>MCR_ProviderType := or_default (MCR_ProviderType request0) CertificateProviderACMEDNS01\<rparr> in
      sbind (slift (requireProviderReady service (MCR_ProviderType request))) (\<lambda>_.
      sbind (slift (providerFor (MCR_ProviderType request))) (\<lambda>provider.
        provider_Issue provider service request CertificateIssueFailed)))"

definition zeroManagedRequest :: ManagedCertificateRequest where
  "zeroManagedRequest = \<lparr>MCR_ProxyID = [], MCR_ProviderType = [], MCR_CredentialID = [], MCR_Hostnames = [],
     MCR_RequestType = [], MCR_RequestedValidity = 0\<rparr>"

definition service_Issue :: "CertService \<Rightarrow> string \<Rightarrow> (CertWorld, ManagedCertificate) op" where
  "service_Issue service proxyID =
     IssueWithProvider service (zeroManagedRequest\<lparr>MCR_ProxyID := proxyID, MCR_ProviderType := CertificateProviderACMEDNS01\<rparr>)"

record CertificateIssueRequest =
  CIR_CertificateID :: string
  CIR_Host :: string
  CIR_ProviderType :: CertificateProviderType
  CIR_CredentialID :: string
  CIR_Hostnames :: "string list"
  CIR_RequestType :: string
  CIR_RequestedValidity :: int
  CIR_CertFile :: string
  CIR_KeyFile :: string

definition file_success :: "time \<Rightarrow> string \<Rightarrow> string \<Rightarrow> CertificateMaterialHealth \<Rightarrow> CertificateSuccess" where
  "file_success now certFile keyFile health =
     \<lparr>CS_CertFile = certFile, CS_KeyFile = keyFile, CS_PreviousCertFile = [], CS_PreviousKeyFile = [],
      CS_NotAfter = (case MH_NotAfter health of None \<Rightarrow> now | Some t \<Rightarrow> t),
      CS_ServingStatus = or_default (MH_ServingStatus health) CertificateServingMissing,
      CS_ProviderStatus = CertificateProviderStatusActive, CS_ProviderType = CertificateProviderFile,
      CS_ProviderName = CertificateProviderFile, CS_CredentialID = [], CS_CloudflareID = [], CS_PreviousCloudflareID = [],
      CS_Hostnames = None, CS_RequestType = [], CS_RequestedValidity = 0, CS_Fingerprint = MH_Fingerprint health,
      CS_LastCheckedAt = now, CS_LastAttemptedAt = now, CS_LastSyncedAt = None, CS_CompletedAt = now\<rparr>"

definition registerFileCertificate ::
    "CertService \<Rightarrow> string \<Rightarrow> string \<Rightarrow> string \<Rightarrow> string \<Rightarrow> string \<Rightarrow> (CertWorld, ManagedCertificate) op" where
  "registerFileCertificate service certificateID proxyID rawHost rawCert rawKey w =
     (let host = to_lower (trim_space rawHost); certFile = trim_space rawCert; keyFile = trim_space rawKey;
          now = sv_now service in
      if host = [] then (Inl (New ''certificate host is required''), w)
      else if certFile = [] \<or> keyFile = [] then (Inl (New ''file certificate requires both cert file and key file''), w)
      else let health = CheckCertificateFiles (sv_certEnv service) (dk_files (cw_disk w)) now host certFile keyFile
                          (sv_certificateDir service) (WindowFor (service_scheduler service) CertificateProviderFile) now
           in sbind (ensureCertificateRecordByIdentity service certificateID proxyID host CertificateProviderFile
                       CertificateProviderFile [] None) (\<lambda>certificate.
              sbind (in_db (certs_UpdateSuccess now (Cert_ID certificate) (file_success now certFile keyFile health))) (\<lambda>_.
              sbind (if health_Usable health then sret ()
                     else in_db (certs_UpdateHealth now (Cert_ID certificate)
                            \<lparr>CH_ServingStatus = or_default (MH_ServingStatus health) CertificateServingMissing,
                             CH_NotAfter = MH_NotAfter health, CH_Fingerprint = MH_Fingerprint health,
                             CH_LastError = cert_defaultString (MH_ErrorSummary health)
                               ''certificate active material is not usable'', CH_CheckedAt = now\<rparr>)) (\<lambda>_.
                ask_db (\<lambda>db. certs_ByID db (Cert_ID certificate))))) w)"

text \<open>The host and the proxy of the record that an identity names.\<close>

definition request_host :: "CertificateIssueRequest \<Rightarrow> DB \<Rightarrow> string result" where
  "request_host request db =
     (let host = to_lower (trim_space (CIR_Host request)) in
      if host = [] \<and> \<not> blank (CIR_CertificateID request)
      then rbind (certs_ByID db (CIR_CertificateID request)) (\<lambda>c. Inr (to_lower (trim_space (Cert_Host c))))
      else Inr host)"

definition request_proxy :: "CertificateIssueRequest \<Rightarrow> DB \<Rightarrow> string result" where
  "request_proxy request db =
     (if blank (CIR_CertificateID request) then Inr []
      else case certs_ByID db (CIR_CertificateID request) of
             Inr c \<Rightarrow> Inr (Cert_ProxyID c)
           | Inl e \<Rightarrow> if errors_is e ErrNotFound then Inr [] else Inl e)"

definition IssueCertificate :: "CertService \<Rightarrow> CertificateIssueRequest \<Rightarrow> (CertWorld, ManagedCertificate) op" where
  "IssueCertificate service request =
     with_store service
       (sbind (ask_db (request_host request)) (\<lambda>host.
        if host = [] then sfail (New ''certificate host is required'')
        else let providerType = or_default (CIR_ProviderType request) CertificateProviderACMEDNS01;
                 certificateID = CIR_CertificateID request in
          sbind (ask_db (request_proxy request)) (\<lambda>proxyID.
          if providerType = CertificateProviderACMEDNS01
          then sbind (slift (requireProviderReady service providerType)) (\<lambda>_.
               issueACMEForIdentity service certificateID proxyID host None CertificateIssueFailed)
          else if providerType = CertificateProviderCloudflareOriginCA
          then sbind (slift (requireProviderReady service providerType)) (\<lambda>_.
               issueOriginCAForIdentity service certificateID proxyID host
                 (zeroManagedRequest\<lparr>MCR_ProviderType := providerType, MCR_CredentialID := CIR_CredentialID request,
                    MCR_Hostnames := CIR_Hostnames request, MCR_RequestType := CIR_RequestType request,
                    MCR_RequestedValidity := CIR_RequestedValidity request\<rparr>) None CertificateIssueFailed)
          else if providerType = CertificateProviderFile
          then registerFileCertificate service certificateID proxyID host (CIR_CertFile request) (CIR_KeyFile request)
          else sfail (New (''unsupported certificate provider '' @ providerType)))))"

definition CertificateCoversHost :: "CertService \<Rightarrow> files \<Rightarrow> ManagedCertificate \<Rightarrow> string \<Rightarrow> unit result" where
  "CertificateCoversHost service disk certificate rawHost =
     (let host = to_lower (trim_space rawHost) in
      if host = [] then Inl (New ''certificate host is required'')
      else if blank (Cert_CertFile certificate) \<or> blank (Cert_KeyFile certificate)
      then Inl (New ''certificate active material is missing'')
      else let health = CheckCertificateFiles (sv_certEnv service) disk (sv_now service) host (Cert_CertFile certificate)
                          (Cert_KeyFile certificate) (sv_certificateDir service) 0 (sv_now service)
           in if MH_ServingStatus health = CertificateServingInvalid
              then Inl (New (if MH_ErrorSummary health = [] then ''certificate does not cover host '' @ host
                             else MH_ErrorSummary health))
              else Inr ())"

section \<open>Static files of old proxies\<close>

definition legacy_file_host :: "Proxy \<Rightarrow> DB \<Rightarrow> string" where
  "legacy_file_host proxy db =
     (let host = to_lower (trim_space (Proxy_EntryHost proxy)) in
      if host = [] \<and> proxyType_IsWeb (Proxy_Type proxy) \<and> \<not> blank (Proxy_DomainID proxy)
      then (case domains_ByID db (Proxy_DomainID proxy) of Inl _ \<Rightarrow> [] | Inr d \<Rightarrow> to_lower (trim_space (Dom_Host d)))
      else host)"

definition bind_file_certificate :: "CertService \<Rightarrow> Proxy \<Rightarrow> ManagedCertificate \<Rightarrow> (CertWorld, unit) op" where
  "bind_file_certificate service proxy certificate =
     (let now = sv_now service in
      if proxyType_IsWeb (Proxy_Type proxy) \<and> \<not> blank (Proxy_DomainID proxy)
      then sbind (ask_db (\<lambda>db. domains_ByID db (Proxy_DomainID proxy))) (\<lambda>d.
             if blank (Dom_CertificateID d)
             then in_db (domains_Update now (d\<lparr>Dom_CertificateID := Cert_ID certificate\<rparr>)) else sret ())
      else sbind (ask_db (\<lambda>db. proxies_ByID db (Proxy_ID proxy))) (\<lambda>bound.
             in_db (proxies_Update False now (bound\<lparr>Proxy_CertificateID := Cert_ID certificate\<rparr>))))"

definition migrate_proxy :: "CertService \<Rightarrow> Proxy \<Rightarrow> string \<Rightarrow> (CertWorld, unit) op" where
  "migrate_proxy service proxy host =
     sbind (registerFileCertificate service [] (Proxy_ID proxy) host (Proxy_CertFile proxy) (Proxy_KeyFile proxy)) (\<lambda>certificate.
     sbind (bind_file_certificate service proxy certificate) (\<lambda>_.
     sbind (ask_db (\<lambda>db. proxies_ByID db (Proxy_ID proxy))) (\<lambda>bound.
       in_db (proxies_Update False (sv_now service) (bound\<lparr>Proxy_CertFile := [], Proxy_KeyFile := []\<rparr>)))))"

fun migrate_loop :: "CertService \<Rightarrow> int \<Rightarrow> Proxy list \<Rightarrow> CertWorld \<Rightarrow> (int \<times> error option) \<times> CertWorld" where
  "migrate_loop service migrated [] w = ((migrated, None), w)"
| "migrate_loop service migrated (proxy # proxies) w =
     (let host = legacy_file_host proxy (cw_db w) in
      if \<not> blank (Proxy_CertificateID proxy) \<or> (blank (Proxy_CertFile proxy) \<and> blank (Proxy_KeyFile proxy)) \<or> host = []
      then migrate_loop service migrated proxies w
      else case migrate_proxy service proxy host w of
             (Inl e, w') \<Rightarrow> ((migrated, Some e), w')
           | (Inr _, w') \<Rightarrow> migrate_loop service (migrated + 1) proxies w')"

definition MigrateLegacyFileCertificates :: "CertService \<Rightarrow> CertWorld \<Rightarrow> (int \<times> error option) \<times> CertWorld" where
  "MigrateLegacyFileCertificates service w =
     (if \<not> sv_hasStore service then ((0, Some store_required), w)
      else migrate_loop service 0 (proxies_List (cw_db w)) w)"

section \<open>The controller\<close>

text \<open>
  managedCertificateController: \<open>running\<close> holds the keys of the renewals in progress; one pass renews
  the candidates one after the other.
\<close>

record CertController =
  cc_renewalWindow :: duration
  cc_originCARotationWindow :: duration

definition controller_scheduler :: "CertController \<Rightarrow> LifecycleScheduler" where
  "controller_scheduler c =
     \<lparr>LS_RenewalWindow = cc_renewalWindow c, LS_OriginCARotationWindow = cc_originCARotationWindow c\<rparr>"

definition controller_start :: "string \<Rightarrow> string list \<Rightarrow> bool \<times> string list" where
  "controller_start key running = (if key \<in> set running then (False, running) else (True, key # running))"

definition controller_finish :: "string \<Rightarrow> string list \<Rightarrow> string list" where
  "controller_finish key running = removeAll key running"

text \<open>The result of the renewal is dropped.\<close>

definition renewOne ::
    "CertService \<Rightarrow> ManagedCertificate \<Rightarrow> string list \<times> CertWorld \<Rightarrow> string list \<times> CertWorld" where
  "renewOne service certificate st =
     (let key = certificateOperationKey (Cert_ProxyID certificate) (Cert_Host certificate);
          (started, running) = controller_start key (fst st)
      in if \<not> started then st
         else (controller_finish key running, snd (RenewCertificate service certificate (snd st))))"

definition renew_loop ::
    "CertService \<Rightarrow> LifecycleScheduler \<Rightarrow> time \<Rightarrow> ManagedCertificate list \<Rightarrow> string list \<times> CertWorld \<Rightarrow>
     string list \<times> CertWorld" where
  "renew_loop service scheduler now cs st =
     fold (\<lambda>c st. if IsDue scheduler c now then renewOne service c st else st) cs st"

definition RenewDue ::
    "CertController \<Rightarrow> CertService \<Rightarrow> string list \<times> CertWorld \<Rightarrow> string list \<times> CertWorld" where
  "RenewDue controller service st =
     (if cc_renewalWindow controller \<le> 0 \<and> cc_originCARotationWindow controller \<le> 0 then st
      else let scheduler = controller_scheduler controller; now = sv_now service in
        renew_loop service scheduler now
          (certs_ListLifecycleCandidates now (cw_db (snd st)) (CandidateQuery scheduler now)) st)"

end
