(* ===== verification/CertManagerProps.thy ===== *)
theory CertManagerProps
  imports CertOperations StoreInv
begin

text \<open>
  What the certificate manager guarantees: the waiting time after a failure, what a failed renewal leaves
  alone, and that a pass of the controller attempts every certificate that is due.
\<close>

section \<open>The waiting time\<close>

lemma backoff_loop_minutes:
  "backoff_loop 1 n minute =
     (if n \<le> 1 then minute else if n = 2 then 2 * minute else if n = 3 then 4 * minute
      else if n = 4 then 8 * minute else if n = 5 then 16 * minute else if n = 6 then 32 * minute else 64 * minute)"
  by (simp add: backoff_loop.simps [of 1 n] backoff_loop.simps [of 2 n] backoff_loop.simps [of 3 n]
      backoff_loop.simps [of 4 n] backoff_loop.simps [of 5 n] backoff_loop.simps [of 6 n] backoff_loop.simps [of 7 n]
      minute_def hour_def second_def)

lemma power_at_least_64: "7 \<le> n \<Longrightarrow> (64::int) \<le> 2 ^ nat (n - 1)"
proof -
  assume "7 \<le> n"
  then have "(2::int) ^ 6 \<le> 2 ^ nat (n - 1)" by (intro power_increasing) auto
  then show ?thesis by simp
qed

lemma capped_delay: "min (backoff_loop 1 n minute) hour = minute * min (2 ^ nat (n - 1)) 60"
proof (cases "7 \<le> n")
  case True
  then show ?thesis
    unfolding backoff_loop_minutes using power_at_least_64 [OF True] by (simp add: minute_def hour_def second_def)
next
  case False
  then consider "n \<le> 1" | "n = 2" | "n = 3" | "n = 4" | "n = 5" | "n = 6" by linarith
  then show ?thesis unfolding backoff_loop_minutes by cases (simp_all add: minute_def hour_def second_def)
qed

lemma first_delay: "(if backoff_loop 1 (if n < 1 then 1 else n) minute > hour then hour
    else backoff_loop 1 (if n < 1 then 1 else n) minute) = minute * min (2 ^ nat (n - 1)) 60"
proof -
  have "minute * min (2 ^ nat ((if n < 1 then 1 else n) - 1)) 60 = minute * min (2 ^ nat (n - 1)) 60" by simp
  then show ?thesis using capped_delay [of "if n < 1 then 1 else n"] by (simp only: min_def not_le [symmetric]) presburger
qed

lemma NextAttemptAt_eq:
  "NextAttemptAt now n notAfter =
     now + (let wait = minute * min (2 ^ nat (n - 1)) 60 in
            case notAfter of
              None \<Rightarrow> wait
            | Some t \<Rightarrow> if 0 < t - now \<and> t - now \<le> 24 * hour \<and> wait > 5 * minute then 5 * minute else wait)"
  unfolding NextAttemptAt_def Let_def first_delay by (rule refl)

text \<open>
  C26: After its n-th failure in a row a certificate is tried again (NextAttemptAt of
  internal/certmanager/scheduler.go) 2^(n-1) minutes later, at most one hour later, and at most five
  minutes later when the certificate expires within a day; never earlier than one minute later.\<close>

theorem retry_backoff:
  "NextAttemptAt now n None = now + minute * min (2 ^ nat (n - 1)) 60 \<and>
   now + minute \<le> NextAttemptAt now n notAfter \<and> NextAttemptAt now n notAfter \<le> now + hour \<and>
   (case notAfter of None \<Rightarrow> True
    | Some t \<Rightarrow> \<not> (now < t \<and> t \<le> now + 24 * hour \<and> NextAttemptAt now n notAfter > now + 5 * minute))"
proof -
  have pos: "(1::int) \<le> 2 ^ nat (n - 1)" by simp
  have "NextAttemptAt now n None = now + minute * min (2 ^ nat (n - 1)) 60" by (simp add: NextAttemptAt_eq)
  moreover have "now + minute \<le> NextAttemptAt now n notAfter" "NextAttemptAt now n notAfter \<le> now + hour"
    using pos by (auto simp: NextAttemptAt_eq minute_def hour_def second_def Let_def min_def split: option.split)
  moreover have "case notAfter of None \<Rightarrow> True
    | Some t \<Rightarrow> \<not> (now < t \<and> t \<le> now + 24 * hour \<and> NextAttemptAt now n notAfter > now + 5 * minute)"
    by (auto simp: NextAttemptAt_eq Let_def split: option.split)
  ultimately show ?thesis by blast
qed

section \<open>What the operations do to the table\<close>

definition row_update :: "string \<Rightarrow> (ManagedCertificate \<Rightarrow> ManagedCertificate) \<Rightarrow> DB \<Rightarrow> DB" where
  "row_update i f db = db\<lparr>db_certificates := sql_update (\<lambda>c. Cert_ID c = i) f (db_certificates db)\<rparr>"

lemma update_cert_eq:
  "update_cert i f db = (resultError (sql_affected (\<lambda>c. Cert_ID c = i) (db_certificates db)), row_update i f db)"
  by (simp add: update_cert_def row_update_def)

lemma row_update_comp:
  "(\<And>c. Cert_ID (f c) = Cert_ID c) \<Longrightarrow> row_update i g (row_update i f db) = row_update i (g \<circ> f) db"
  by (simp add: row_update_def sql_update_def)

text \<open>The row after a recorded failure.\<close>

definition failed_row :: "CertService \<Rightarrow> ManagedCertificate \<Rightarrow> ManagedCertificate \<Rightarrow> ManagedCertificate \<Rightarrow> bool" where
  "failed_row service c r r' \<longleftrightarrow>
     Cert_ID r' = Cert_ID r \<and> Cert_CertFile r' = Cert_CertFile r \<and> Cert_KeyFile r' = Cert_KeyFile r \<and>
     Cert_Host r' = Cert_Host r \<and> Cert_ProviderType r' = Cert_ProviderType r \<and>
     Cert_ProviderStatus r' = (if providerStatusAfterFailure c = [] then Cert_ProviderStatus r
                               else providerStatusAfterFailure c) \<and>
     Cert_LastAttemptedAt r' = Some (or_now (sv_now service) (sv_now service)) \<and>
     Cert_NextAttemptAt r' = Some (NextAttemptAt (sv_now service) (Cert_FailureCount c + 1) (Cert_NotAfter c))"

lemma failure_rows:
  "failed_row service c r
     (failure_row (sv_now service) (failure_record service c health fs e) (health_row (sv_now service) hu r))"
  by (simp add: failed_row_def failure_row_def failure_record_def health_row_def Let_def or_now_def)

lemma recordFailure_effect:
  obtains f where "\<And>r. failed_row service c r (f r)"
    "snd (recordFailure service c host fs e w) = w\<lparr>cw_db := row_update (Cert_ID c) f (cw_db w)\<rparr>"
proof (rule that)
  let ?health = "activeHealth service (dk_files (cw_disk w)) host c"
  let ?hu = "\<lparr>CH_ServingStatus = MH_ServingStatus ?health, CH_NotAfter = MH_NotAfter ?health,
    CH_Fingerprint = MH_Fingerprint ?health, CH_LastError = MH_ErrorSummary ?health, CH_CheckedAt = sv_now service\<rparr>"
  let ?f = "failure_row (sv_now service) (failure_record service c ?health fs e) \<circ> health_row (sv_now service) ?hu"
  show "failed_row service c r (?f r)" for r
    using failure_rows by simp
  show "snd (recordFailure service c host fs e w) = w\<lparr>cw_db := row_update (Cert_ID c) ?f (cw_db w)\<rparr>"
    by (simp add: recordFailure_def Let_def ignoring_def shandle_def sbind_def in_db_def certs_UpdateHealth_def
        certs_UpdateFailure_def update_cert_eq row_update_comp)
qed

section \<open>How a renewal ends\<close>

text \<open>An attempt that ran to its end leaves the row of the certificate failed or renewed.\<close>

inductive attempt ::
    "CertService \<Rightarrow> ManagedCertificate \<Rightarrow> CertWorld \<Rightarrow> ManagedCertificate result \<Rightarrow> CertWorld \<Rightarrow> bool"
  for service c w where
  failed: "cw_db w1 = cw_db w \<Longrightarrow> cw_locks w1 = cw_locks w \<Longrightarrow> (\<And>r. failed_row service c r (f r)) \<Longrightarrow>
    attempt service c w (Inl e) (w1\<lparr>cw_db := row_update (Cert_ID c) f (cw_db w)\<rparr>)"
| renewed: "cw_db w1 = cw_db w \<Longrightarrow> cw_locks w1 = cw_locks w \<Longrightarrow>
    CS_LastAttemptedAt success = sv_now service \<Longrightarrow> CS_CompletedAt success = sv_now service \<Longrightarrow>
    db' = row_update (Cert_ID c) (success_row (sv_now service) success) (cw_db w) \<Longrightarrow>
    r = (if sql_affected (\<lambda>r. Cert_ID r = Cert_ID c) (db_certificates (cw_db w)) = 0 then Inl ErrNotFound
         else certs_ByID db' (Cert_ID c)) \<Longrightarrow>
    attempt service c w r (w1\<lparr>cw_db := db'\<rparr>)"

text \<open>A first issue without material may drop the record again; a renewal may also be refused at once.\<close>

inductive renewal ::
    "CertService \<Rightarrow> ManagedCertificate \<Rightarrow> CertWorld \<Rightarrow> ManagedCertificate result \<Rightarrow> CertWorld \<Rightarrow> bool"
  for service c w where
  refused: "renewal service c w (Inl e) w"
| attempted: "attempt service c w r w' \<Longrightarrow> renewal service c w r w'"
| dropped: "attempt service c w r w' \<Longrightarrow> blank (Cert_CertFile c) \<Longrightarrow>
    renewal service c w r (w'\<lparr>cw_db := (cw_db w')\<lparr>db_certificates :=
      sql_delete (\<lambda>r. Cert_ID r = Cert_ID c) (db_certificates (cw_db w'))\<rparr>\<rparr>)"

lemma attempt_locks: "attempt service c w r w' \<Longrightarrow> cw_locks w' = cw_locks w"
  by (induction rule: attempt.induct) auto

lemma renewal_locks: "renewal service c w r w' \<Longrightarrow> cw_locks w' = cw_locks w"
  by (induction rule: renewal.induct) (auto dest: attempt_locks)

lemma locks_then_db [simp]: "w\<lparr>cw_locks := l, cw_db := d\<rparr> = w\<lparr>cw_db := d, cw_locks := l\<rparr>"
  by (cases w) simp

lemma attempt_move:
  "attempt service c (w\<lparr>cw_locks := l\<rparr>) r w' \<Longrightarrow> attempt service c w r (w'\<lparr>cw_locks := cw_locks w\<rparr>)"
proof (induction rule: attempt.induct)
  case (failed w1 f e)
  from attempt.failed [of "w1\<lparr>cw_locks := cw_locks w\<rparr>" w service c f e] failed show ?case by simp
next
  case (renewed w1 success db' r)
  from attempt.renewed [of "w1\<lparr>cw_locks := cw_locks w\<rparr>" w success service db' c r] renewed show ?case by simp
qed

lemma renewal_move:
  "renewal service c (w\<lparr>cw_locks := l\<rparr>) r w' \<Longrightarrow> renewal service c w r (w'\<lparr>cw_locks := cw_locks w\<rparr>)"
proof (induction rule: renewal.induct)
  case (refused e)
  then show ?case using renewal.refused [of service c w e] by simp
next
  case (attempted r w')
  then show ?case by (intro renewal.attempted attempt_move)
next
  case (dropped r w')
  from renewal.dropped [OF attempt_move [OF dropped(1)] dropped(2)] show ?case by simp
qed

lemma with_operation_lock_cases:
  obtains (refused) e where "with_operation_lock service rawKey m w = (Inl e, w)"
      "sv_ctxErr service \<noteq> None \<or> trim_space rawKey = [] \<or> trim_space rawKey \<in> set (cw_locks w)"
  | (ran) r w' where "trim_space rawKey \<notin> set (cw_locks w)"
      "m (w\<lparr>cw_locks := trim_space rawKey # cw_locks w\<rparr>) = (r, w')"
      "with_operation_lock service rawKey m w = (r, w'\<lparr>cw_locks := removeAll (trim_space rawKey) (cw_locks w')\<rparr>)"
proof (cases "sv_ctxErr service = None \<and> trim_space rawKey \<noteq> [] \<and> trim_space rawKey \<notin> set (cw_locks w)")
  case True
  obtain r w' where "m (w\<lparr>cw_locks := trim_space rawKey # cw_locks w\<rparr>) = (r, w')" by fastforce
  then show thesis using True ran by (auto simp: with_operation_lock_def Let_def)
next
  case False
  then obtain e where "with_operation_lock service rawKey m w = (Inl e, w)"
    by (cases "sv_ctxErr service"; cases "trim_space rawKey = []") (auto simp: with_operation_lock_def Let_def)
  then show thesis using refused False by blast
qed

lemma locked_attempt:
  assumes "with_operation_lock service rawKey m w = (r, w')"
    and "\<And>v. attempt service c v (fst (m v)) (snd (m v))"
    and "sv_ctxErr service = None" "trim_space rawKey \<noteq> []" "trim_space rawKey \<notin> set (cw_locks w)"
  shows "attempt service c w r w'"
proof (cases rule: with_operation_lock_cases [of service rawKey m w])
  case (refused e)
  then show ?thesis using assms by auto
next
  case (ran r1 w1)
  then have a: "attempt service c (w\<lparr>cw_locks := trim_space rawKey # cw_locks w\<rparr>) r w1" and r: "r1 = r"
    and w': "w' = w1\<lparr>cw_locks := removeAll (trim_space rawKey) (cw_locks w1)\<rparr>"
    using assms(1) assms(2) [of "w\<lparr>cw_locks := trim_space rawKey # cw_locks w\<rparr>"] by auto
  have "removeAll (trim_space rawKey) (cw_locks w1) = cw_locks w" using attempt_locks [OF a] ran(1) by simp
  then show ?thesis using attempt_move [OF a] w' by simp
qed

lemma locked_renewal:
  assumes "with_operation_lock service rawKey m w = (r, w')"
    and "\<And>v. renewal service c v (fst (m v)) (snd (m v))"
  shows "renewal service c w r w'"
proof (cases rule: with_operation_lock_cases [of service rawKey m w])
  case (refused e)
  then show ?thesis using assms renewal.refused by auto
next
  case (ran r1 w1)
  then have a: "renewal service c (w\<lparr>cw_locks := trim_space rawKey # cw_locks w\<rparr>) r w1" and r: "r1 = r"
    and w': "w' = w1\<lparr>cw_locks := removeAll (trim_space rawKey) (cw_locks w1)\<rparr>"
    using assms(1) assms(2) [of "w\<lparr>cw_locks := trim_space rawKey # cw_locks w\<rparr>"] by auto
  have "removeAll (trim_space rawKey) (cw_locks w1) = cw_locks w" using renewal_locks [OF a] ran(1) by simp
  then show ?thesis using renewal_move [OF a] w' by simp
qed

section \<open>The two providers\<close>

lemma acme_failed_attempt:
  assumes "cw_db w1 = cw_db w" "cw_locks w1 = cw_locks w" "acme_failed service c host fs e w1 = (r :: ManagedCertificate result, w')"
  shows "attempt service c w r w'"
proof -
  obtain f where f: "\<And>r. failed_row service c r (f r)"
    "snd (recordFailure service c host fs e w1) = w1\<lparr>cw_db := row_update (Cert_ID c) f (cw_db w1)\<rparr>"
    using recordFailure_effect [of service c host fs e w1] by blast
  then have "r = Inl e" "w' = w1\<lparr>cw_db := row_update (Cert_ID c) f (cw_db w)\<rparr>"
    using assms by (auto simp: acme_failed_def ignoring_def shandle_def sbind_def split: prod.splits)
  then show ?thesis using attempt.failed [of w1 w service c f e] assms f(1) by simp
qed

lemma origin_failed_renewal:
  assumes "cw_db w1 = cw_db w" "cw_locks w1 = cw_locks w" "origin_failed service c host fs e w1 = (r, w')"
  shows "renewal service c w r w'"
proof -
  obtain u v where run: "acme_failed service c host fs e w1 = (Inl e :: ManagedCertificate result, v)" "recordFailure service c host fs e w1 = (u, v)"
    by (cases "recordFailure service c host fs e w1") (auto simp: acme_failed_def ignoring_def shandle_def sbind_def)
  note att = acme_failed_attempt [where w = w, OF assms(1,2) run(1)]
  have r: "r = Inl e" "w' = snd (cleanupUnusableInitialIssue c v)"
    using assms(3) run by (auto simp: origin_failed_def ignoring_def shandle_def sbind_def split: prod.splits)
  then consider "w' = v" | "blank (Cert_CertFile c)"
      "w' = v\<lparr>cw_db := (cw_db v)\<lparr>db_certificates := sql_delete (\<lambda>r. Cert_ID r = Cert_ID c) (db_certificates (cw_db v))\<rparr>\<rparr>"
    by (auto simp: cleanupUnusableInitialIssue_def in_db_def certs_Delete_def split: if_splits)
  then show ?thesis
  proof cases
    case 1
    then show ?thesis using renewal.attempted att r by simp
  next
    case 2
    then show ?thesis using renewal.dropped [OF att] r by simp
  qed
qed

lemma store_issued_frame: "cw_db (snd (store_issued service host c k w)) = cw_db w \<and>
    cw_locks (snd (store_issued service host c k w)) = cw_locks w"
  by (auto simp: store_issued_def in_disk_def split: prod.splits)

lemma finish_issue_attempt:
  assumes "cw_db w1 = cw_db w" "cw_locks w1 = cw_locks w"
    and "CS_LastAttemptedAt success = sv_now service" "CS_CompletedAt success = sv_now service"
    and "validateProviderSuccess success = Inr u"
  shows "attempt service c w (fst (finish_issue failed service (Cert_ID c) success w1))
           (snd (finish_issue failed service (Cert_ID c) success w1))"
proof -
  let ?db' = "row_update (Cert_ID c) (success_row (sv_now service) success) (cw_db w)"
  have "finish_issue failed service (Cert_ID c) success w1 =
     ((if sql_affected (\<lambda>r. Cert_ID r = Cert_ID c) (db_certificates (cw_db w)) = 0 then Inl ErrNotFound
       else certs_ByID ?db' (Cert_ID c)), w1\<lparr>cw_db := ?db'\<rparr>)"
    using assms by (simp add: finish_issue_def or_failed_def shandle_def sbind_def in_db_def certs_UpdateSuccess_def
        update_cert_eq ask_db_def resultError_def)
  then show ?thesis
    using attempt.renewed [of w1 w success service ?db' c] assms by simp
qed

lemma ensure_existing: "Cert_ID c \<noteq> [] \<Longrightarrow>
    ensureCertificateRecordByIdentity service cid pid host pt pn cred (Some c) = sret c"
  by (simp add: ensureCertificateRecordByIdentity_def)

lemma attempt_pair: "attempt service c w (fst p) (snd p) \<Longrightarrow> p = (r, w') \<Longrightarrow> attempt service c w r w'"
  by simp

lemma finish_issue_acme_attempt:
  assumes "cw_db w1 = cw_db w" "cw_locks w1 = cw_locks w"
    and "CS_LastAttemptedAt success = sv_now service" "CS_CompletedAt success = sv_now service"
  shows "attempt service c w (fst (finish_issue (acme_failed service c host fs) service (Cert_ID c) success w1))
           (snd (finish_issue (acme_failed service c host fs) service (Cert_ID c) success w1))"
proof (cases "validateProviderSuccess success")
  case (Inl e)
  then have "finish_issue (acme_failed service c host fs) service (Cert_ID c) success w1 = acme_failed service c host fs e w1"
    by (simp add: finish_issue_def or_failed_def shandle_def)
  then show ?thesis using acme_failed_attempt [OF assms(1,2)] by (metis prod.collapse)
next
  case (Inr u)
  then show ?thesis by (rule finish_issue_attempt [OF assms])
qed

lemma acme_locked_attempt:
  assumes "Cert_ID c \<noteq> []"
  shows "attempt service c w (fst (acme_locked service issuer cid pid host (Some c) fs w))
           (snd (acme_locked service issuer cid pid host (Some c) fs w))"
proof -
  let ?fail = "acme_failed service c host fs"
  let ?name = "cert_defaultString (ACME_DNSProvider (sv_Settings service)) ''cloudflare''"
  define reply where "reply = issuer \<lparr>IR_Host = host, IR_AccountEmail = ACME_AccountEmail (sv_Settings service),
    IR_DirectoryURL = ACME_DirectoryURL (sv_Settings service), IR_TermsAccepted = ACME_TermsAccepted (sv_Settings service)\<rparr>"
  have run: "acme_locked service issuer cid pid host (Some c) fs w =
    or_failed ?fail (slift reply) (\<lambda>issued. or_failed ?fail (store_issued service host (IC_CertPEM issued) (IC_KeyPEM issued))
      (\<lambda>stored. finish_issue ?fail service (Cert_ID c) (acme_success service ?name stored))) w"
    by (simp add: acme_locked_def Let_def ensure_existing [OF assms] reply_def sbind_def sret_def)
  show ?thesis
  proof (cases reply)
    case (Inl e)
    then have "acme_locked service issuer cid pid host (Some c) fs w = ?fail e w"
      using run by (simp add: or_failed_def shandle_def)
    then show ?thesis using acme_failed_attempt [of w w] by (metis prod.collapse)
  next
    case (Inr issued)
    obtain s w1 where st: "store_issued service host (IC_CertPEM issued) (IC_KeyPEM issued) w = (s, w1)" by fastforce
    then have same: "cw_db w1 = cw_db w" "cw_locks w1 = cw_locks w"
      using store_issued_frame [of service host "IC_CertPEM issued" "IC_KeyPEM issued" w] by simp_all
    show ?thesis
    proof (cases s)
      case (Inl e)
      then have "acme_locked service issuer cid pid host (Some c) fs w = ?fail e w1"
        using run Inr st by (simp add: or_failed_def shandle_def)
      then show ?thesis using acme_failed_attempt [OF same] by (metis prod.collapse)
    next
      case (Inr stored)
      then have "acme_locked service issuer cid pid host (Some c) fs w =
          finish_issue ?fail service (Cert_ID c) (acme_success service ?name stored) w1"
        using run \<open>reply = Inr issued\<close> st by (simp add: or_failed_def shandle_def)
      then show ?thesis
        using finish_issue_acme_attempt [OF same, of "acme_success service ?name stored" service c host fs]
        by (simp add: acme_success_def Let_def)
    qed
  qed
qed

lemma finish_issue_origin_renewal:
  assumes "cw_db w1 = cw_db w" "cw_locks w1 = cw_locks w"
    and "CS_LastAttemptedAt success = sv_now service" "CS_CompletedAt success = sv_now service"
  shows "renewal service c w (fst (finish_issue (origin_failed service c host fs) service (Cert_ID c) success w1))
           (snd (finish_issue (origin_failed service c host fs) service (Cert_ID c) success w1))"
proof (cases "validateProviderSuccess success")
  case (Inl e)
  then have "finish_issue (origin_failed service c host fs) service (Cert_ID c) success w1 = origin_failed service c host fs e w1"
    by (simp add: finish_issue_def or_failed_def shandle_def)
  then show ?thesis using origin_failed_renewal [OF assms(1,2)] by (metis prod.collapse)
next
  case (Inr u)
  then show ?thesis by (intro renewal.attempted finish_issue_attempt [OF assms])
qed

lemma origin_locked_renewal:
  assumes "Cert_ID c \<noteq> []"
  shows "renewal service c w (fst (origin_locked service cid pid host request (Some c) fs w))
           (snd (origin_locked service cid pid host request (Some c) fs w))"
proof (cases "resolveCredentialID service (MCR_CredentialID request) (cw_db w)")
  case (Inl e)
  then have "origin_locked service cid pid host request (Some c) fs w = (Inl e, w)"
    by (simp add: origin_locked_def ask_db_def sbind_def)
  then show ?thesis using renewal.refused by simp
next
  case (Inr cred)
  let ?fail = "origin_failed service c host fs :: error \<Rightarrow> (CertWorld, ManagedCertificate) op"
  let ?hs = "normalizeOriginCAHostnames (host # MCR_Hostnames request)"
  define reply where "reply = origin_remote service request cred ?hs (cw_db w)"
  define suc where "suc = (\<lambda>remote. origin_success c remote cred ?hs (origin_request_type service request) (origin_validity service request))"
  have run: "origin_locked service cid pid host request (Some c) fs w =
    or_failed ?fail (slift reply) (\<lambda>(remote, keyPEM). or_failed ?fail (slift (validateOriginCASuccess (suc remote))) (\<lambda>_.
      or_failed ?fail (store_issued service host (OC_CertificatePEM remote) keyPEM)
      (\<lambda>stored. finish_issue ?fail service (Cert_ID c) (origin_stored service stored (suc remote))))) w"
    by (simp add: origin_locked_def Let_def ensure_existing [OF assms] reply_def suc_def ask_db_def sbind_def sret_def Inr
        or_failed_def shandle_def)
  have failed: "renewal service c w (fst (?fail e w1)) (snd (?fail e w1))" if "cw_db w1 = cw_db w" "cw_locks w1 = cw_locks w" for e w1
    by (rule origin_failed_renewal [OF that prod.collapse [symmetric]])
  show ?thesis
  proof (cases reply)
    case (Inl e)
    then show ?thesis using run failed [of w e] by (simp add: or_failed_def shandle_def)
  next
    case (Inr x)
    obtain remote keyPEM where x: "x = (remote, keyPEM)" by (cases x)
    show ?thesis
    proof (cases "validateOriginCASuccess (suc remote)")
      case (Inl e)
      then show ?thesis using run failed [of w e] Inr x by (simp add: or_failed_def shandle_def)
    next
      case valid: (Inr u)
      obtain s w1 where st: "store_issued service host (OC_CertificatePEM remote) keyPEM w = (s, w1)" by fastforce
      then have same: "cw_db w1 = cw_db w" "cw_locks w1 = cw_locks w"
        using store_issued_frame [of service host "OC_CertificatePEM remote" keyPEM w] by simp_all
      show ?thesis
      proof (cases s)
        case (Inl e)
        then show ?thesis using run failed [OF same, of e] Inr x valid st by (simp add: or_failed_def shandle_def)
      next
        case stored: (Inr stored)
        then have "origin_locked service cid pid host request (Some c) fs w =
            finish_issue ?fail service (Cert_ID c) (origin_stored service stored (suc remote)) w1"
          using run Inr x valid st by (simp add: or_failed_def shandle_def)
        then show ?thesis
          using finish_issue_origin_renewal [OF same, of "origin_stored service stored (suc remote)" service c host fs]
          by (simp add: origin_stored_def Let_def)
      qed
    qed
  qed
qed

lemma issueACME_renewal:
  assumes "Cert_ID c \<noteq> []"
  shows "renewal service c w (fst (issueACMEForIdentity service cid pid host (Some c) fs w))
           (snd (issueACMEForIdentity service cid pid host (Some c) fs w))"
  by (auto simp: issueACMEForIdentity_def Let_def intro: renewal.refused split: option.splits)
    (rule locked_renewal, simp, rule renewal.attempted, rule acme_locked_attempt [OF assms])+

lemma RenewCertificate_renewal:
  assumes "Cert_ID c \<noteq> []"
  shows "renewal service c w (fst (RenewCertificate service c w)) (snd (RenewCertificate service c w))"
proof -
  have "renewal service c w (fst (issueACMEForCertificate service c fs w)) (snd (issueACMEForCertificate service c fs w))" for fs
    using issueACME_renewal [OF assms] renewal.refused by (auto simp: issueACMEForCertificate_def with_store_def Let_def)
  moreover have "renewal service c w (fst (rotateOriginCACertificate service c w)) (snd (rotateOriginCACertificate service c w))"
    unfolding rotateOriginCACertificate_def with_store_def issueOriginCAForIdentity_def Let_def
    by (auto intro: renewal.refused)
      (rule locked_renewal, simp, rule origin_locked_renewal [OF assms])
  ultimately show ?thesis
    by (auto simp: RenewCertificate_def providerFor_def Let_def sbind_def intro: renewal.refused)
qed

section \<open>A failed renewal\<close>

lemma find_map_if: "(\<And>r. P (f r) = P r) \<Longrightarrow> find P (map (\<lambda>r. if P r then f r else r) rows) = map_option f (find P rows)"
  by (induction rows) auto

lemma certs_ByID_row_update:
  assumes "\<And>r. Cert_ID (f r) = Cert_ID r"
  shows "certs_ByID (row_update i f db) i =
    (case find (\<lambda>r. Cert_ID r = i) (db_certificates db) of
       None \<Rightarrow> Inl ErrNotFound | Some r \<Rightarrow> Inr (applyManagedCertificateDefaults (f r)))"
  using find_map_if [of "\<lambda>r. Cert_ID r = i" f "db_certificates db"] assms
  by (auto simp: certs_ByID_def row_update_def sql_one_def sql_update_def split: option.splits)

lemma defaults_simps [simp]:
  "Cert_ID (applyManagedCertificateDefaults c) = Cert_ID c"
  "Cert_CertFile (applyManagedCertificateDefaults c) = Cert_CertFile c"
  "Cert_KeyFile (applyManagedCertificateDefaults c) = Cert_KeyFile c"
  "Cert_Host (applyManagedCertificateDefaults c) = Cert_Host c"
  "Cert_ProxyID (applyManagedCertificateDefaults c) = Cert_ProxyID c"
  "Cert_ProviderStatus (applyManagedCertificateDefaults c) =
     or_default (Cert_ProviderStatus c) CertificateProviderStatusUnknown"
  "Cert_LastAttemptedAt (applyManagedCertificateDefaults c) = Cert_LastAttemptedAt c"
  by (simp_all add: applyManagedCertificateDefaults_def Let_def)

text \<open>What the resolver reads of the certificate with an identity.\<close>

definition bound_files :: "DB \<Rightarrow> string \<Rightarrow> (string \<times> string \<times> bool) result" where
  "bound_files db i =
     map_sum id (\<lambda>c. (Cert_CertFile c, Cert_KeyFile c, BlocksServing (Cert_ProviderStatus c))) (certs_ByID db i)"

lemma serves_by_bound_files:
  assumes "bound_files db (Dom_CertificateID d) = bound_files db' (Dom_CertificateID d)"
    and "bound_files db (Dom_CertificateID d) = Inr x" and "\<not> blank (Dom_CertificateID d)"
  shows "CertificateForDomain env \<lparr>cr_store = Some db', cr_certificateDir = dir\<rparr> disk now host d cache =
     CertificateForDomain env \<lparr>cr_store = Some db, cr_certificateDir = dir\<rparr> disk now host d cache"
  using assms
  by (cases "certs_ByID db (Dom_CertificateID d)"; cases "certs_ByID db' (Dom_CertificateID d)")
    (auto simp: bound_files_def CertificateForDomain_def resolver_activeFiles_def serve_files_def Let_def)

lemma blocks_default: "BlocksServing (or_default s CertificateProviderStatusUnknown) = BlocksServing s"
  by (simp add: BlocksServing_def or_default_def)

lemma blocks_after_failure: "BlocksServing (providerStatusAfterFailure c) = BlocksServing (Cert_ProviderStatus c)"
  by (simp add: providerStatusAfterFailure_def BlocksServing_def)

lemma failed_row_status:
  assumes "failed_row service (applyManagedCertificateDefaults r) r r'"
  shows "BlocksServing (Cert_ProviderStatus (applyManagedCertificateDefaults r')) =
    BlocksServing (Cert_ProviderStatus (applyManagedCertificateDefaults r))"
proof -
  let ?c = "applyManagedCertificateDefaults r"
  have "Cert_ProviderStatus r' = Cert_ProviderStatus r \<or> Cert_ProviderStatus r' = providerStatusAfterFailure ?c"
    using assms unfolding failed_row_def by presburger
  then have "BlocksServing (Cert_ProviderStatus r') = BlocksServing (Cert_ProviderStatus r)"
  proof
    assume "Cert_ProviderStatus r' = providerStatusAfterFailure ?c"
    then show ?thesis using blocks_after_failure [of ?c] by (simp only: defaults_simps blocks_default)
  qed simp
  then show ?thesis by (simp only: defaults_simps blocks_default)
qed

lemma failed_renewal_bound_files:
  assumes c: "certs_ByID (cw_db w) (Cert_ID c) = Inr c" and id: "Cert_ID c \<noteq> []" and material: "\<not> blank (Cert_CertFile c)"
    and run: "RenewCertificate service c w = (Inl e, w')"
  shows "bound_files (cw_db w') (Cert_ID c) = bound_files (cw_db w) (Cert_ID c)"
proof -
  obtain r where r: "find (\<lambda>r. Cert_ID r = Cert_ID c) (db_certificates (cw_db w)) = Some r"
    "applyManagedCertificateDefaults r = c"
  proof (cases "find (\<lambda>r. Cert_ID r = Cert_ID c) (db_certificates (cw_db w))")
    case None
    then show ?thesis using c by (simp add: certs_ByID_def sql_one_def)
  next
    case (Some r)
    then show ?thesis using c that [of r] by (simp add: certs_ByID_def sql_one_def)
  qed
  have present: "sql_affected (\<lambda>r. Cert_ID r = Cert_ID c) (db_certificates (cw_db w)) \<noteq> 0"
    using find_SomeD [OF r(1)] unfolding sql_affected_0 by blast
  have old: "bound_files (cw_db w) (Cert_ID c) = Inr (Cert_CertFile r, Cert_KeyFile r, BlocksServing (Cert_ProviderStatus c))"
    using c r(2) by (auto simp: bound_files_def)
  have att: "bound_files (cw_db v) (Cert_ID c) = bound_files (cw_db w) (Cert_ID c)"
    if "attempt service c w (Inl e) v" for v
    using that
  proof cases
    case (failed w1 f)
    have "Cert_ID (f x) = Cert_ID x" for x using failed(4) by (simp add: failed_row_def)
    then show ?thesis
      using failed(1) failed(4) [of r] failed_row_status [of service r "f r"] r old
      by (simp add: bound_files_def certs_ByID_row_update failed_row_def)
  next
    case (renewed w1 success db')
    then show ?thesis using present r(1) by (auto simp: certs_ByID_row_update)
  qed
  have "renewal service c w (Inl e) w'"
    using RenewCertificate_renewal [OF id, of service w] run by simp
  then show ?thesis by cases (use att material in auto)
qed


section \<open>A pass of the controller\<close>

text \<open>The certificate was tried at that time: it is renewed, or waits between a minute and an hour.\<close>

definition tried_row :: "time \<Rightarrow> ManagedCertificate \<Rightarrow> bool" where
  "tried_row now r \<longleftrightarrow> Cert_LastAttemptedAt r = Some now \<and>
     (Cert_OperationStatus r = CertificateOperationIdle \<and> Cert_FailureCount r = 0 \<or>
      (\<exists>t. Cert_NextAttemptAt r = Some t \<and> now + minute \<le> t \<and> t \<le> now + hour))"

definition other_rows :: "string \<Rightarrow> DB \<Rightarrow> ManagedCertificate set" where
  "other_rows i db = {r \<in> set (db_certificates db). Cert_ID r \<noteq> i}"

lemma or_now_same [simp]: "or_now t t = t"
  by (simp add: or_now_def)

lemma NextAttemptAt_bounds: "now + minute \<le> NextAttemptAt now n t" "NextAttemptAt now n t \<le> now + hour"
proof -
  have "(1::int) \<le> 2 ^ nat (n - 1)" by simp
  then show "now + minute \<le> NextAttemptAt now n t" "NextAttemptAt now n t \<le> now + hour"
    by (auto simp: NextAttemptAt_eq minute_def hour_def second_def Let_def min_def split: option.split)
qed

lemma failed_row_tried: "failed_row service c r r' \<Longrightarrow> tried_row (sv_now service) r'"
  using NextAttemptAt_bounds [of "sv_now service"] by (auto simp: failed_row_def tried_row_def)

lemma success_optional_rest [simp]:
  "Cert_LastAttemptedAt (success_optional r t c) = Cert_LastAttemptedAt c"
  "Cert_OperationStatus (success_optional r t c) = Cert_OperationStatus c"
  "Cert_FailureCount (success_optional r t c) = Cert_FailureCount c"
  by (simp_all add: success_optional_def Let_def split: option.splits)

lemma success_row_tried:
  "CS_LastAttemptedAt success = now \<Longrightarrow> CS_CompletedAt success = now \<Longrightarrow> tried_row now (success_row now success r)"
  by (simp add: tried_row_def success_row_def Let_def)

lemma other_rows_update [simp]: "(\<And>r. Cert_ID (f r) = Cert_ID r) \<Longrightarrow> other_rows i (row_update i f db) = other_rows i db"
  by (auto simp: other_rows_def row_update_def set_sql_update)

lemma attempt_effect:
  assumes "attempt service c w r w'"
  shows "other_rows (Cert_ID c) (cw_db w') = other_rows (Cert_ID c) (cw_db w)"
    and "q \<in> set (db_certificates (cw_db w)) \<Longrightarrow> Cert_ID q = Cert_ID c \<Longrightarrow>
      \<exists>q' \<in> set (db_certificates (cw_db w')). Cert_ID q' = Cert_ID c \<and> tried_row (sv_now service) q'"
proof -
  obtain f w1 where f: "\<And>x. Cert_ID (f x) = Cert_ID x \<and> tried_row (sv_now service) (f x)"
    and w': "w' = w1\<lparr>cw_db := row_update (Cert_ID c) f (cw_db w)\<rparr>"
    using assms
  proof cases
    case (failed w1 f e)
    have "Cert_ID (f x) = Cert_ID x \<and> tried_row (sv_now service) (f x)" for x
      using failed(5) [of x] failed_row_tried by (auto simp: failed_row_def)
    from that [OF this failed(2)] show ?thesis .
  next
    case (renewed w1 success db')
    have rows: "Cert_ID (success_row (sv_now service) success x) = Cert_ID x \<and>
        tried_row (sv_now service) (success_row (sv_now service) success x)" for x
      using success_row_tried renewed(4,5) by simp
    from that [OF rows renewed(1) [unfolded renewed(6)]] show ?thesis .
  qed
  show "other_rows (Cert_ID c) (cw_db w') = other_rows (Cert_ID c) (cw_db w)" using w' f by simp
  show "\<exists>q' \<in> set (db_certificates (cw_db w')). Cert_ID q' = Cert_ID c \<and> tried_row (sv_now service) q'"
    if "q \<in> set (db_certificates (cw_db w))" "Cert_ID q = Cert_ID c"
    using that w' f by (auto simp: row_update_def set_sql_update intro!: bexI [of _ "f q"])
qed

lemma renewal_effect: "renewal service c w r w' \<Longrightarrow> other_rows (Cert_ID c) (cw_db w') = other_rows (Cert_ID c) (cw_db w)"
proof (induction rule: renewal.induct)
  case (dropped r w')
  then show ?case using attempt_effect(1) by (auto simp: other_rows_def)
qed (use attempt_effect(1) in auto)

text \<open>A service that can run the ACME issuer.\<close>

definition acme_ready :: "CertService \<Rightarrow> bool" where
  "acme_ready service \<longleftrightarrow> sv_hasStore service \<and> sv_Issuer service \<noteq> None \<and> sv_DNSProvider service \<and> sv_ctxErr service = None"

definition acme_certificate :: "ManagedCertificate \<Rightarrow> bool" where
  "acme_certificate c \<longleftrightarrow>
     (Cert_ProviderType c = [] \<or> Cert_ProviderType c = CertificateProviderACMEDNS01) \<and> \<not> blank (Cert_Host c)"

lemma strip_items_keeps: "c \<in> set s \<Longrightarrow> \<forall>p \<in> set ps. c \<notin> set p \<Longrightarrow> c \<in> set (strip_items ps s)"
proof (induction ps s rule: strip_items.induct)
  case (1 ps s)
  show ?case
  proof (cases "find (\<lambda>p. p \<noteq> [] \<and> has_prefix s p) ps")
    case None
    then show ?thesis using 1(2) by (simp add: strip_items.simps [of ps s])
  next
    case (Some p)
    then have p: "p \<in> set ps" "take (length p) s = p" by (auto dest!: find_SomeD simp: has_prefix_def)
    have "c \<in> set (take (length p) s) \<union> set (drop (length p) s)" using 1(2) by (metis append_take_drop_id set_append)
    then have "c \<in> set (drop (length p) s)" using 1(3) p by auto
    then show ?thesis using 1(1) [OF Some] 1(3) Some by (simp add: strip_items.simps [of ps s])
  qed
qed

lemma nul_no_space: "\<forall>p \<in> set go_spaces. CHR 0x00 \<notin> set p" "\<forall>p \<in> set (map rev go_spaces). CHR 0x00 \<notin> set p"
proof -
  show "\<forall>p \<in> set go_spaces. CHR 0x00 \<notin> set p" by code_simp
  then show "\<forall>p \<in> set (map rev go_spaces). CHR 0x00 \<notin> set p" by simp
qed

lemma trim_not_empty_key: "trim_space (certificateOperationKey p h) \<noteq> []"
proof -
  have "CHR 0x00 \<in> set (certificateOperationKey p h)" by (simp add: certificateOperationKey_def)
  then have "CHR 0x00 \<in> set (trim_space (certificateOperationKey p h))"
    unfolding trim_space_def by (simp add: strip_items_keeps nul_no_space)
  then show ?thesis by auto
qed

lemma RenewCertificate_attempt:
  assumes "acme_ready service" "acme_certificate c" "Cert_ID c \<noteq> []" "cw_locks w = []"
  shows "attempt service c w (fst (RenewCertificate service c w)) (snd (RenewCertificate service c w))"
proof -
  obtain issuer where some: "sv_Issuer service = Some issuer" using assms(1) by (auto simp: acme_ready_def)
  let ?host = "to_lower (trim_space (Cert_Host c))"
  have host: "?host \<noteq> []" using assms(2) by (simp add: acme_certificate_def blank_def)
  have run: "RenewCertificate service c w =
      with_operation_lock service (certificateOperationKey ?host ?host)
        (acme_locked service issuer (Cert_ID c) (Cert_ProxyID c) ?host (Some c) CertificateRenewalFailed) w"
    using assms(1,2) host some
    by (auto simp: RenewCertificate_def sbind_def providerFor_def Let_def or_default_def acme_certificate_def acme_ready_def
        issueACMEForCertificate_def with_store_def issueACMEForIdentity_def)
  show ?thesis
    unfolding run
    by (rule locked_attempt [OF prod.collapse [symmetric] acme_locked_attempt])
      (use assms trim_not_empty_key in \<open>auto simp: acme_ready_def\<close>)
qed

lemma renewOne_frame:
  assumes "fst st = []" "cw_locks (snd st) = []" "Cert_ID c \<noteq> []"
  shows "fst (renewOne service c st) = []" "cw_locks (snd (renewOne service c st)) = []"
    and "other_rows (Cert_ID c) (cw_db (snd (renewOne service c st))) = other_rows (Cert_ID c) (cw_db (snd st))"
  using assms renewal_locks [OF RenewCertificate_renewal [OF assms(3)]]
    renewal_effect [OF RenewCertificate_renewal [OF assms(3)]]
  by (simp_all add: renewOne_def Let_def controller_start_def controller_finish_def)

lemma renewOne_tries:
  assumes "fst st = []" "cw_locks (snd st) = []" "Cert_ID c \<noteq> []" "acme_ready service" "acme_certificate c"
    and "q \<in> set (db_certificates (cw_db (snd st)))" "Cert_ID q = Cert_ID c"
  shows "\<exists>q' \<in> set (db_certificates (cw_db (snd (renewOne service c st)))). Cert_ID q' = Cert_ID c \<and> tried_row (sv_now service) q'"
proof -
  have "snd (renewOne service c st) = snd (RenewCertificate service c (snd st))"
    using assms(1) by (simp add: renewOne_def Let_def controller_start_def)
  then show ?thesis
    using attempt_effect(2) [OF RenewCertificate_attempt [OF assms(4,5,3,2)] assms(6,7)] by simp
qed

lemma renew_loop_frame:
  assumes "\<forall>c \<in> set cs. Cert_ID c \<noteq> []" "fst st = []" "cw_locks (snd st) = []"
  shows "fst (renew_loop service sch now cs st) = [] \<and> cw_locks (snd (renew_loop service sch now cs st)) = [] \<and>
    (i \<notin> Cert_ID ` set cs \<longrightarrow> {r \<in> set (db_certificates (cw_db (snd (renew_loop service sch now cs st)))). Cert_ID r = i} =
       {r \<in> set (db_certificates (cw_db (snd st))). Cert_ID r = i})"
  using assms
proof (induction cs arbitrary: st)
  case Nil
  then show ?case by (simp add: renew_loop_def)
next
  case (Cons c cs)
  define st1 where "st1 = (if IsDue sch c now then renewOne service c st else st)"
  have loop: "renew_loop service sch now (c # cs) st = renew_loop service sch now cs st1"
    by (simp add: renew_loop_def st1_def)
  have st1: "fst st1 = []" "cw_locks (snd st1) = []"
    "other_rows (Cert_ID c) (cw_db (snd st1)) = other_rows (Cert_ID c) (cw_db (snd st))"
    using renewOne_frame [of st c service] Cons(2-4) by (auto simp: st1_def)
  have "{r \<in> set (db_certificates (cw_db (snd st1))). Cert_ID r = i} =
      {r \<in> set (db_certificates (cw_db (snd st))). Cert_ID r = i}" if "i \<noteq> Cert_ID c"
    using st1(3) that unfolding other_rows_def by blast
  then show ?case using Cons(1) [of st1] Cons(2) st1(1,2) unfolding loop by auto
qed

lemma renew_loop_tries:
  assumes ids: "\<forall>c \<in> set cs. Cert_ID c \<noteq> []" and st: "fst st = []" "cw_locks (snd st) = []" and "distinct (map Cert_ID cs)"
    and c: "c \<in> set cs" "IsDue sch c now" "acme_ready service" "acme_certificate c"
    and q: "q \<in> set (db_certificates (cw_db (snd st)))" "Cert_ID q = Cert_ID c"
  shows "\<exists>q' \<in> set (db_certificates (cw_db (snd (renew_loop service sch now cs st)))).
    Cert_ID q' = Cert_ID c \<and> tried_row (sv_now service) q'"
proof -
  obtain xs ys where cs: "cs = xs @ c # ys" using split_list [OF c(1)] by blast
  have out: "Cert_ID c \<notin> Cert_ID ` set xs" "Cert_ID c \<notin> Cert_ID ` set ys" using assms(4) cs by auto
  define s1 where "s1 = renew_loop service sch now xs st"
  define s2 where "s2 = renewOne service c s1"
  have loop: "renew_loop service sch now cs st = renew_loop service sch now ys s2"
    using c(2) by (simp add: renew_loop_def cs s1_def s2_def)
  have f1: "fst s1 = []" "cw_locks (snd s1) = []"
    "{r \<in> set (db_certificates (cw_db (snd s1))). Cert_ID r = Cert_ID c} =
     {r \<in> set (db_certificates (cw_db (snd st))). Cert_ID r = Cert_ID c}"
    using renew_loop_frame [of xs st service sch now "Cert_ID c"] ids st out(1) cs by (auto simp: s1_def)
  then have "q \<in> set (db_certificates (cw_db (snd s1)))" using q by blast
  then have tried: "\<exists>q' \<in> set (db_certificates (cw_db (snd s2))). Cert_ID q' = Cert_ID c \<and> tried_row (sv_now service) q'"
    unfolding s2_def using renewOne_tries f1(1,2) ids cs c(3,4) q(2) by simp
  have f2: "fst s2 = []" "cw_locks (snd s2) = []"
    using renewOne_frame [OF f1(1,2), of c service] ids cs by (auto simp: s2_def)
  have "{r \<in> set (db_certificates (cw_db (snd (renew_loop service sch now ys s2)))). Cert_ID r = Cert_ID c} =
      {r \<in> set (db_certificates (cw_db (snd s2))). Cert_ID r = Cert_ID c}"
    using renew_loop_frame [of ys s2 service sch now "Cert_ID c"] ids f2 out(2) cs by auto
  then show ?thesis using tried unfolding loop by blast
qed


section \<open>Expired certificates\<close>

text \<open>
  The store offers only certificates whose serving status is usable or expiring_soon. A failed attempt
  after the end of the validity records the status expired, and no later pass of the controller renews
  the certificate, also when the issuer is back.\<close>

lemma expired_certificate_is_no_candidate:
  "Cert_ServingStatus c = CertificateServingExpired \<Longrightarrow> \<not> lifecycle_candidate q now c"
  by (simp add: lifecycle_candidate_def split: option.splits)

text \<open>With no window for the Origin CA its certificates are due in the window of ACME, but never listed.\<close>

lemma origin_certificates_without_window:
  assumes "LS_OriginCARotationWindow scheduler \<le> 0" and "Cert_ProviderType c = CertificateProviderCloudflareOriginCA"
  shows "\<not> lifecycle_candidate (CandidateQuery scheduler now) t c"
    and "0 < LS_RenewalWindow scheduler \<Longrightarrow> Cert_NotAfter c = Some now \<Longrightarrow> IsDue scheduler c now"
  using assms by (auto simp: lifecycle_candidate_def CandidateQuery_def IsDue_def WindowFor_def split: option.splits)

section \<open>A small installation\<close>

definition sample_service :: "time \<Rightarrow> IssuedCertificate result \<Rightarrow> CertService" where
  "sample_service now reply =
     \<lparr>sv_hasStore = True, sv_Issuer = Some (\<lambda>_. reply), sv_DNSProvider = True,
      sv_OriginCAClient = \<lparr>oc_Create = (\<lambda>_ _. Inl (New ''offline'')), oc_Get = (\<lambda>_ _. Inl (New ''offline'')),
        oc_Revoke = (\<lambda>_ _. Inl (New ''offline'')), oc_VerifyToken = (\<lambda>_. Inl (New ''offline''))\<rparr>,
      sv_SecretStore = None, sv_certificateDir = ''/c'', sv_certEnv = sample_cert_env,
      sv_Settings = \<lparr>ACME_Enabled = True, ACME_DirectoryURL = [], ACME_AccountEmail = ''ops'', ACME_TermsAccepted = True,
        ACME_RenewalWindow = 10, ACME_DNSProvider = [], ACME_DNSProviderTokenEnv = []\<rparr>,
      sv_OriginCASettings = \<lparr>OCA_Enabled = False, OCA_SecretStorePath = [], OCA_DefaultRequestType = [],
        OCA_RequestedValidity = 0, OCA_RotationWindow = 0\<rparr>,
      sv_NewID = None, sv_now = now, sv_Getenv = (\<lambda>_. []), sv_ctxErr = None, sv_newKey = (\<lambda>_ _. Inl (New ''no key''))\<rparr>"

definition offline_issuer :: "time \<Rightarrow> CertService" where
  "offline_issuer now = sample_service now (Inl (New ''issuer offline''))"

definition sample_managed :: ManagedCertificate where
  "sample_managed = zeroCertificate\<lparr>Cert_ID := ''cert'', Cert_Host := ''a.io'', Cert_Status := CertificateValid,
     Cert_ServingStatus := CertificateServingUsable, Cert_OperationStatus := CertificateOperationIdle,
     Cert_Provider := ''acme'', Cert_ProviderType := CertificateProviderACMEDNS01, Cert_ProviderName := ''acme'',
     Cert_ProviderStatus := CertificateProviderStatusUnknown, Cert_CertFile := ''/c/a.crt'', Cert_KeyFile := ''/c/a.key'',
     Cert_NotAfter := Some 100\<rparr>"

definition sample_world :: CertWorld where
  "sample_world = \<lparr>cw_db = emptyDB\<lparr>db_certificates := [sample_managed]\<rparr>,
     cw_disk = \<lparr>dk_files = sample_cert_files, dk_past = []\<rparr>, cw_locks = []\<rparr>"

definition sample_controller :: CertController where
  "sample_controller = \<lparr>cc_renewalWindow = 10, cc_originCARotationWindow = 0\<rparr>"

definition sample_bound_domain :: Domain where
  "sample_bound_domain = \<lparr>Dom_ID = ''d'', Dom_UserID = ''u'', Dom_Host = ''a.io'', Dom_CertificateID = ''cert'',
     Dom_Status = DomainEnabled, Dom_CreatedAt = 0, Dom_UpdatedAt = 0\<rparr>"

lemma sample_found: "certs_ByID (cw_db sample_world) ''cert'' = Inr sample_managed"
  by code_simp

lemma sample_renewal_fails:
  "fst (RenewCertificate (offline_issuer 95) sample_managed sample_world) = Inl (New ''issuer offline'')"
  by code_simp

lemma sample_served:
  "CertificateForDomain sample_cert_env \<lparr>cr_store = Some (cw_db sample_world), cr_certificateDir = ''/c''\<rparr>
     sample_cert_files 95 ''a.io'' sample_bound_domain [] = (Inr sample_certificate, sample_cert_cache)"
  by code_simp



text \<open>The issuer is offline until the certificate expires; when it is back, no pass tries the certificate.\<close>

lemma expired_certificate_is_stuck:
  defines "w \<equiv> snd (RenewDue sample_controller (offline_issuer 100) ([], sample_world))"
  shows "\<forall>r \<in> set (db_certificates (cw_db w)). Cert_ServingStatus r = CertificateServingExpired"
    and "RenewDue sample_controller service ([], w) = ([], w)"
proof -
  have "list_all (\<lambda>r. Cert_ServingStatus r = CertificateServingExpired) (db_certificates (cw_db w))"
    unfolding w_def by code_simp
  then show rows: "\<forall>r \<in> set (db_certificates (cw_db w)). Cert_ServingStatus r = CertificateServingExpired"
    by (simp add: list_all_iff)
  have "filter (lifecycle_candidate q now) (db_certificates (cw_db w)) = []" for q now
    using rows expired_certificate_is_no_candidate by (auto simp: filter_empty_conv)
  then show "RenewDue sample_controller service ([], w) = ([], w)"
    by (simp add: RenewDue_def Let_def certs_ListLifecycleCandidates_def sql_list_def renew_loop_def)
qed

end
