(* ===== verification/AdminPolicies.thy ===== *)
theory AdminPolicies
  imports CertOperations LocalProxy
begin

text \<open>
  What the administration services of internal/admin share: the environment and the state, the audit
  recorder, the validation of inputs, and the three policies (listener admission, certificate binding,
  proxy access). The state is the world of the certificate manager (with the database and the disk), the
  state of the listeners, the policy of the local proxies and the number of random values drawn; a contract
  error keeps code, message and cause, not the table of field messages.
\<close>

record 'r AdminState =
  as_world :: CertWorld
  as_rt :: 'r
  as_policy :: policySnapshot
  as_draws :: int

record JoinServiceDefaults =
  JD_Host :: string
  JD_Source :: string
  JD_ServerAddress :: string
  JD_ServerTLSAddress :: string
  JD_EnrollmentURL :: string
  JD_LegacyAdminEnrollmentURL :: string
  JD_ServerName :: string
  JD_ServerCAFile :: string

text \<open>
  \<open>ad_hex k n\<close> is the k-th random value, n bytes in hexadecimal, and \<open>ad_storeID k\<close> what newMigrationID
  makes of it for a prefix; \<open>ad_reconcile\<close> is the listener reconciler, if there is one; \<open>ad_SHA256\<close> is
  the hexadecimal digest; the two operations on secrets are those of the provider's secret store, which
  \<open>sv_SecretStore\<close> of the certificate service says to be there.
\<close>

record 'r AdminEnv =
  ad_now :: time
  ad_hex :: "int \<Rightarrow> int \<Rightarrow> string"
  ad_storeID :: "int \<Rightarrow> string \<Rightarrow> string"
  ad_claims :: "ListenerClaim list"
  ad_defaults :: ProxyEntryDefaults
  ad_reconcile :: "(DB \<Rightarrow> ('r, unit) op) option"
  ad_certs :: CertService
  ad_secretWrite :: "string \<Rightarrow> string \<Rightarrow> (Disk, string) op"
  ad_secretDelete :: "string \<Rightarrow> (Disk, unit) op"
  ad_SHA256 :: "string \<Rightarrow> string"
  ad_bcrypt :: "string \<Rightarrow> string result"
  ad_hasPolicy :: bool
  ad_join :: JoinServiceDefaults

type_synonym ('r, 'a) admin = "('r AdminState, 'a) op"

abbreviation as_db :: "'r AdminState \<Rightarrow> DB" where "as_db s \<equiv> cw_db (as_world s)"

definition in_world :: "(CertWorld, 'a) op \<Rightarrow> ('r, 'a) admin" where
  "in_world m s = (case m (as_world s) of (r, w) \<Rightarrow> (r, s\<lparr>as_world := w\<rparr>))"

definition in_store :: "(DB, 'a) op \<Rightarrow> ('r, 'a) admin" where
  "in_store m = in_world (in_db m)"

definition look :: "(DB \<Rightarrow> 'a result) \<Rightarrow> ('r, 'a) admin" where
  "look f s = (f (as_db s), s)"

definition needs_store :: "'r AdminEnv \<Rightarrow> ('r, 'a) admin \<Rightarrow> ('r, 'a) admin" where
  "needs_store env m = (if sv_hasStore (ad_certs env) then m else sfail store_required)"

section \<open>Contract errors\<close>

definition Validation :: "(string \<times> string) list \<Rightarrow> error" where
  "Validation messages = Contract ''VALIDATION_FAILED'' ''validation failed'' None"

definition Conflict :: "string \<Rightarrow> error option \<Rightarrow> error" where
  "Conflict message cause = Contract ''CONFLICT'' (if blank message then ''resource conflict'' else message) cause"

definition Unsupported :: "string \<Rightarrow> error" where
  "Unsupported message = Contract ''UNSUPPORTED'' (if blank message then ''operation is not supported'' else message) None"

definition Forbidden :: "string \<Rightarrow> error" where
  "Forbidden message = Contract ''FORBIDDEN'' message None"

definition CertificateIncompatible :: "string \<Rightarrow> error" where
  "CertificateIncompatible message =
     Contract ''CERTIFICATE_INCOMPATIBLE'' (if blank message then ''certificate is incompatible'' else message) None"

definition ConfirmationRequired :: "string \<Rightarrow> error" where
  "ConfirmationRequired message =
     Contract ''CONFIRMATION_REQUIRED'' (if blank message then ''confirmation is required'' else message) None"

definition EntryConflict :: "string \<Rightarrow> error \<Rightarrow> error" where
  "EntryConflict message cause = Contract ''ENTRY_CONFLICT'' message (Some cause)"

text \<open>The code of the first contract error in the chain, which is what errors.As finds.\<close>

fun contract_code :: "error \<Rightarrow> string option" where
  "contract_code (Contract c m e) = Some c"
| "contract_code (Wrapf s e) = contract_code e"
| "contract_code _ = None"

section \<open>Random values\<close>

definition draw :: "'r AdminEnv \<Rightarrow> int \<Rightarrow> ('r, string) admin" where
  "draw env bytes s = (Inr (ad_hex env (as_draws s) bytes), s\<lparr>as_draws := as_draws s + 1\<rparr>)"

definition newID :: "'r AdminEnv \<Rightarrow> string \<Rightarrow> ('r, string) admin" where
  "newID env prefix = sbind (draw env 8) (\<lambda>h. sret (prefix @ ''_'' @ h))"

definition newCredential :: "'r AdminEnv \<Rightarrow> ('r, string) admin" where
  "newCredential env = draw env 16"

text \<open>A value for the ids that a repository makes for the rows it adds.\<close>

definition draw_ids :: "'r AdminEnv \<Rightarrow> ('r, string \<Rightarrow> string) admin" where
  "draw_ids env s = (Inr (ad_storeID env (as_draws s)), s\<lparr>as_draws := as_draws s + 1\<rparr>)"

definition id_or_new :: "'r AdminEnv \<Rightarrow> string \<Rightarrow> string \<Rightarrow> ('r, string) admin" where
  "id_or_new env given prefix = (if blank given then newID env prefix else sret given)"

section \<open>The audit recorder\<close>

definition audit_RecordResult ::
    "'r AdminEnv \<Rightarrow> string \<Rightarrow> string \<Rightarrow> string \<Rightarrow> string \<Rightarrow> string \<Rightarrow> string \<Rightarrow> ('r, unit) admin" where
  "audit_RecordResult env actorID resourceType resourceID action result errorSummary =
     needs_store env (sbind (newID env ''audit'') (\<lambda>i.
       in_store (audit_Create (ad_now env)
         \<lparr>Audit_ID = i, Audit_ActorUserID = (if blank actorID then ''system'' else actorID),
          Audit_ResourceType = resourceType, Audit_ResourceID = resourceID, Audit_Action = action, Audit_Result = result,
          Audit_SourceIP = [], Audit_ErrorSummary = errorSummary, Audit_CreatedAt = 0\<rparr>)))"

definition audit_Record :: "'r AdminEnv \<Rightarrow> string \<Rightarrow> string \<Rightarrow> string \<Rightarrow> string \<Rightarrow> ('r, unit) admin" where
  "audit_Record env actorID resourceType resourceID action =
     audit_RecordResult env actorID resourceType resourceID action ''success'' []"

text \<open>The result and the error summary that finishAudit records for an operation that ended with \<open>r\<close>.\<close>

definition audit_outcome :: "'a result \<Rightarrow> string \<times> string" where
  "audit_outcome r =
     (case r of
        Inr _ \<Rightarrow> (''success'', [])
      | Inl e \<Rightarrow>
          (case contract_code e of
             None \<Rightarrow> (''failure'', ''INTERNAL'')
           | Some code \<Rightarrow>
               if blank code then (''failure'', ''INTERNAL'')
               else (if code = ''FORBIDDEN'' then ''forbidden'' else ''failure'', code)))"

definition finishAudit ::
    "'r AdminEnv \<Rightarrow> string \<Rightarrow> string \<Rightarrow> string \<Rightarrow> string \<Rightarrow> ('r, 'a) admin \<Rightarrow> ('r, 'a) admin" where
  "finishAudit env actorID resourceType resourceID action m =
     shandle m (\<lambda>r. let (result, summary) = audit_outcome r in
       shandle (audit_RecordResult env actorID resourceType resourceID action result summary) (\<lambda>audit.
         slift (case r of Inl e \<Rightarrow> Inl e | Inr a \<Rightarrow> (case audit of Inl e \<Rightarrow> Inl e | Inr _ \<Rightarrow> Inr a))))"

definition recordRejectedAudit ::
    "'r AdminEnv \<Rightarrow> string \<Rightarrow> string \<Rightarrow> string \<Rightarrow> string \<Rightarrow> error \<Rightarrow> ('r, unit) admin" where
  "recordRejectedAudit env actorID resourceType resourceID action e =
     ignoring (finishAudit env actorID resourceType resourceID action (sfail e :: ('r, unit) admin))"

text \<open>A protected resource: the attempt is audited as rejected and refused.\<close>

definition protected ::
    "'r AdminEnv \<Rightarrow> string \<Rightarrow> string \<Rightarrow> string \<Rightarrow> string \<Rightarrow> unit result \<Rightarrow> ('r, unit) admin" where
  "protected env actorID resourceType resourceID action check =
     (case check of
        Inr _ \<Rightarrow> sret ()
      | Inl e \<Rightarrow> sbind (recordRejectedAudit env actorID resourceType resourceID action e) (\<lambda>_. sfail e))"

text \<open>\<open>return value, service.Audit.Record(...)\<close>\<close>

definition audited :: "'r AdminEnv \<Rightarrow> string \<Rightarrow> string \<Rightarrow> string \<Rightarrow> string \<Rightarrow> 'a \<Rightarrow> ('r, 'a) admin" where
  "audited env actorID resourceType resourceID action value =
     sbind (audit_Record env actorID resourceType resourceID action) (\<lambda>_. sret value)"

section \<open>Listener admission\<close>

definition proxyRequiresListenerAdmission :: "ProxyType \<Rightarrow> bool" where
  "proxyRequiresListenerAdmission proxyType \<longleftrightarrow> proxyType = ProxyTCP \<or> proxyType = ProxyUDP"

definition findActiveRouteConflict :: "'r AdminEnv \<Rightarrow> DB \<Rightarrow> ProxyEntry \<Rightarrow> string \<Rightarrow> Proxy option" where
  "findActiveRouteConflict env db proposed ignoreProxyID =
     (if Entry_Protocol proposed \<noteq> ListenerProtocolHTTP \<and> Entry_Protocol proposed \<noteq> ListenerProtocolHTTPS then None
      else find (\<lambda>proxy. Proxy_ID proxy \<noteq> ignoreProxyID \<and>
             (case EffectiveProxyEntry proxy (ad_defaults env) of
                None \<Rightarrow> False
              | Some e \<Rightarrow> Entry_Protocol e = Entry_Protocol proposed \<and> Entry_Port e = Entry_Port proposed \<and>
                  NormalizeBindHost (Entry_BindHost e) = NormalizeBindHost (Entry_BindHost proposed) \<and>
                  NormalizeRouteHost (Entry_RouteHost e) = NormalizeRouteHost (Entry_RouteHost proposed)))
             (proxies_EnabledByType db (Entry_Protocol proposed)))"

definition findActiveWebRouteConflict :: "DB \<Rightarrow> Proxy \<Rightarrow> string \<Rightarrow> Proxy option" where
  "findActiveWebRouteConflict db proposed ignoreProxyID =
     find (\<lambda>proxy. Proxy_ID proxy \<noteq> ignoreProxyID \<and> Proxy_PathPrefix proxy = Proxy_PathPrefix proposed)
       (proxies_EnabledWebByDomainID db (Proxy_DomainID proposed))"

definition activeListenerClaims :: "'r AdminEnv \<Rightarrow> DB \<Rightarrow> string \<Rightarrow> ListenerClaim list" where
  "activeListenerClaims env db ignoreProxyID =
     ad_claims env @
     List.map_filter (\<lambda>proxy. ListenerClaimForProxy proxy (ad_defaults env))
       (filter (\<lambda>proxy. \<not> (Proxy_ID proxy = ignoreProxyID \<or> Proxy_Status proxy \<noteq> ProxyEnabled)) (proxies_List db))"

definition web_admission :: "DB \<Rightarrow> Proxy \<Rightarrow> string \<Rightarrow> unit result" where
  "web_admission db webProxy ignoreProxyID =
     (case findActiveWebRouteConflict db webProxy ignoreProxyID of
        None \<Rightarrow> Inr ()
      | Some conflict \<Rightarrow>
          Inl (EntryConflict (''domain path '' @ Proxy_PathPrefix webProxy @ '' conflicts with proxy '' @ Proxy_ID conflict)
                 ErrEntryConflict))"

definition listener_admission :: "'r AdminEnv \<Rightarrow> DB \<Rightarrow> Proxy \<Rightarrow> string \<Rightarrow> unit result" where
  "listener_admission env db proxy ignoreProxyID =
     (case EffectiveProxyEntry proxy (ad_defaults env) of
        None \<Rightarrow> Inr ()
      | Some entry \<Rightarrow>
          (case findActiveRouteConflict env db entry ignoreProxyID of
             Some conflict \<Rightarrow>
               Inl (EntryConflict (Entry_Protocol entry @ '' route '' @ Entry_RouteHost entry @ '' on '' @
                      displayBindHost (Entry_BindHost entry) @ '':'' @ itoa (Entry_Port entry) @
                      '' conflicts with proxy '' @ Proxy_ID conflict) ErrEntryConflict)
           | None \<Rightarrow>
               (case ListenerClaimForProxy proxy (ad_defaults env) of
                  None \<Rightarrow> Inr ()
                | Some proposed \<Rightarrow>
                    (case FindListenerConflict (activeListenerClaims env db ignoreProxyID) proposed of
                       None \<Rightarrow> Inr ()
                     | Some conflict \<Rightarrow> Inl (ListenerAdmissionError proposed conflict)))))"

definition EnsureAdmission :: "'r AdminEnv \<Rightarrow> Proxy \<Rightarrow> string \<Rightarrow> DB \<Rightarrow> unit result" where
  "EnsureAdmission env proxy ignoreProxyID db =
     (if Proxy_Status proxy \<noteq> ProxyEnabled then Inr ()
      else if proxyType_IsWeb (Proxy_Type proxy)
      then (if Proxy_Type proxy = ProxyWeb then web_admission db proxy ignoreProxyID
            else case domains_ByHost db (Proxy_EntryHost proxy) of
                   Inl e \<Rightarrow> if errors_is e ErrNotFound then Inr () else Inl e
                 | Inr webDomain \<Rightarrow>
                     web_admission db (proxy\<lparr>Proxy_Type := ProxyWeb, Proxy_DomainID := Dom_ID webDomain,
                       Proxy_PathPrefix := ''/''\<rparr>) ignoreProxyID)
      else if \<not> proxyRequiresListenerAdmission (Proxy_Type proxy) then Inr ()
      else listener_admission env db proxy ignoreProxyID)"

definition ReconcileListeners :: "'r AdminEnv \<Rightarrow> ('r, unit) admin" where
  "ReconcileListeners env s =
     (case ad_reconcile env of
        None \<Rightarrow> (Inr (), s)
      | Some reconcile \<Rightarrow>
          (case reconcile (as_db s) (as_rt s) of
             (Inl e, rt) \<Rightarrow> (Inl (EntryConflict ''proxy listener reconcile failed'' e), s\<lparr>as_rt := rt\<rparr>)
           | (Inr _, rt) \<Rightarrow> (Inr (), s\<lparr>as_rt := rt\<rparr>)))"

text \<open>Reconcile, and when it fails undo the mutation, reconcile again and return the first error.\<close>

definition reconcile_or_undo :: "'r AdminEnv \<Rightarrow> (DB, unit) op \<Rightarrow> ('r, unit) admin" where
  "reconcile_or_undo env undo =
     shandle (ReconcileListeners env) (\<lambda>r. case r of
       Inr _ \<Rightarrow> sret ()
     | Inl e \<Rightarrow>
         sbind (ignoring (in_store undo)) (\<lambda>_. sbind (ignoring (ReconcileListeners env)) (\<lambda>_. sfail e)))"

section \<open>Proxy access\<close>

text \<open>The proxy as the caller goes on with it: its version is the new one when access was revoked.\<close>

definition RevokeIfEnabled :: "'r AdminEnv \<Rightarrow> Proxy \<Rightarrow> ('r, Proxy) admin" where
  "RevokeIfEnabled env proxy =
     (if \<not> Proxy_AccessAuthEnabled proxy then sret proxy
      else let nextVersion = Proxy_AccessAuthVersion proxy + 1 in
        sbind (in_store (access_RevokeAllAccess (ad_now env) (Proxy_ID proxy) nextVersion)) (\<lambda>_.
          sret (proxy\<lparr>Proxy_AccessAuthVersion := nextVersion\<rparr>)))"

definition RevokeForDomain :: "'r AdminEnv \<Rightarrow> string \<Rightarrow> ('r, unit) admin" where
  "RevokeForDomain env domainID =
     (if blank domainID \<or> \<not> sv_hasStore (ad_certs env) then sret ()
      else sbind (sget (\<lambda>s. proxies_ByDomainID (as_db s) domainID))
             (sfor (\<lambda>proxy. sbind (RevokeIfEnabled env proxy) (\<lambda>_. sret ()))))"

definition DomainHasEnabledHTTPSEntry :: "DB \<Rightarrow> string \<Rightarrow> bool" where
  "DomainHasEnabledHTTPSEntry db domainID =
     list_ex (\<lambda>entry. DEnt_Protocol entry = DomainEntryHTTPS \<and> DEnt_Status entry = DomainEntryEnabled)
       (domainEntries_ListByDomainID db domainID)"

section \<open>Certificate binding\<close>

definition hostnameMatchesPattern :: "string \<Rightarrow> string \<Rightarrow> bool" where
  "hostnameMatchesPattern host rawPattern =
     (let pattern = to_lower (trim_space rawPattern) in
      if pattern = [] then False
      else if pattern = host then True
      else if has_prefix pattern ''*.''
      then (let suffix = drop 1 pattern in
            if \<not> has_suffix host suffix then False
            else let label = take (length host - length suffix) host in label \<noteq> [] \<and> CHR ''.'' \<notin> set label)
      else False)"

definition hostnameWithinCertificate :: "ManagedCertificate \<Rightarrow> string \<Rightarrow> bool" where
  "hostnameWithinCertificate certificate rawHost =
     (let host = to_lower (trim_space rawHost) in
      host \<noteq> [] \<and> list_ex (hostnameMatchesPattern host) (Cert_Host certificate # Cert_Hostnames certificate))"

definition ValidateBinding :: "DB \<Rightarrow> string \<Rightarrow> string \<Rightarrow> unit result" where
  "ValidateBinding db certificateID rawHost =
     (case certs_ByID db certificateID of
        Inl e \<Rightarrow> if errors_is e ErrNotFound
                 then Inl (Validation [(''certificateId'', ''certificate was not found'')]) else Inl e
      | Inr certificate \<Rightarrow>
          (let host = to_lower (trim_space rawHost) in
           if host = [] then Inl (Validation [(''host'', ''domain host is required'')])
           else if \<not> hostnameWithinCertificate certificate host
           then Inl (CertificateIncompatible (''certificate does not cover domain host '' @ host))
           else Inr ()))"

definition file_request :: "string \<Rightarrow> string \<Rightarrow> string \<Rightarrow> CertificateIssueRequest" where
  "file_request host certFile keyFile =
     \<lparr>CIR_CertificateID = [], CIR_Host = host, CIR_ProviderType = CertificateProviderFile, CIR_CredentialID = [], CIR_Hostnames = [],
      CIR_RequestType = [], CIR_RequestedValidity = 0, CIR_CertFile = certFile, CIR_KeyFile = keyFile\<rparr>"

definition ResolveProxySelection ::
    "'r AdminEnv \<Rightarrow> ProxyType \<Rightarrow> string \<Rightarrow> string \<Rightarrow> bool \<Rightarrow> string \<Rightarrow> string \<Rightarrow> string \<Rightarrow> string \<Rightarrow> ('r, string) admin" where
  "ResolveProxySelection env proxyType proxyID rawCertificateID certificateIDSet entryHost rawCertFile rawKeyFile actorID =
     (if proxyType \<noteq> ProxyHTTPS \<and> proxyType \<noteq> ProxyWeb then sret []
      else let certificateID = trim_space rawCertificateID; host = to_lower (trim_space entryHost);
               certFile = trim_space rawCertFile; keyFile = trim_space rawKeyFile in
        if certificateID \<noteq> []
        then sbind (look (\<lambda>db. ValidateBinding db certificateID host)) (\<lambda>_. sret certificateID)
        else if certFile = [] \<and> keyFile = []
        then (if certificateIDSet \<or> blank proxyID then sret []
              else shandle (look (\<lambda>db. proxies_ByID db proxyID)) (\<lambda>r.
                     sret (case r of Inr existing \<Rightarrow> Proxy_CertificateID existing | Inl _ \<Rightarrow> [])))
        else sbind (in_world (IssueCertificate (ad_certs env) (file_request host certFile keyFile))) (\<lambda>certificate.
             sbind (ignoring (audit_Record env actorID ''certificate'' (Cert_ID certificate) ''migrate_file_certificate''))
               (\<lambda>_. sret (Cert_ID certificate))))"

text \<open>The first proxy of the domain that has the certificate; a domain without proxies gives the zero proxy.\<close>

definition ProxyBoundToCertificate :: "DB \<Rightarrow> string \<Rightarrow> Proxy option result" where
  "ProxyBoundToCertificate db certificateID =
     (case domains_ByCertificateID db certificateID of
        Inl e \<Rightarrow> if errors_is e ErrNotFound then Inr None else Inl e
      | Inr webDomain \<Rightarrow>
          Inr (Some (case proxies_ByDomainID db (Dom_ID webDomain) of [] \<Rightarrow> zeroProxy | proxy # _ \<Rightarrow> proxy)))"

definition UnbindDomain :: "'r AdminEnv \<Rightarrow> Domain \<Rightarrow> ('r, unit) admin" where
  "UnbindDomain env given =
     (let webDomain = given\<lparr>Dom_CertificateID := []\<rparr> in
      sbind (in_store (domains_Update (ad_now env) webDomain)) (\<lambda>_.
      sbind (sget (\<lambda>s. proxies_ByDomainID (as_db s) (Dom_ID webDomain)))
        (sfor (\<lambda>proxy.
           if Proxy_Status proxy = ProxyEnabled
           then in_store (proxies_Update False (ad_now env)
                  (proxy\<lparr>Proxy_Status := ProxyNeedsConf, Proxy_CertificateID := []\<rparr>))
           else sret ()))))"

definition UnbindProxy :: "'r AdminEnv \<Rightarrow> Proxy \<Rightarrow> ('r, unit) admin" where
  "UnbindProxy env proxy =
     (if blank (Proxy_DomainID proxy)
      then in_store (proxies_Update False (ad_now env)
             (proxy\<lparr>Proxy_CertificateID := [], Proxy_CertFile := [], Proxy_KeyFile := []\<rparr>))
      else sbind (look (\<lambda>db. domains_ByID db (Proxy_DomainID proxy))) (UnbindDomain env))"

definition BoundDomain :: "DB \<Rightarrow> Domain \<Rightarrow> ManagedCertificate result" where
  "BoundDomain db webDomain =
     (if blank (Dom_CertificateID webDomain) then Inl ErrNotFound else certs_ByID db (Dom_CertificateID webDomain))"

definition BoundProxy :: "DB \<Rightarrow> Proxy \<Rightarrow> ManagedCertificate result" where
  "BoundProxy db proxy =
     (let by_proxy = certs_ByProxyID db (Proxy_ID proxy);
          by_certificate =
            (if blank (Proxy_CertificateID proxy) then by_proxy
             else case certs_ByID db (Proxy_CertificateID proxy) of
                    Inr certificate \<Rightarrow> Inr certificate
                  | Inl e \<Rightarrow> if errors_is e ErrNotFound then by_proxy else Inl e)
      in if blank (Proxy_DomainID proxy) then by_certificate
         else case domains_ByID db (Proxy_DomainID proxy) of
                Inr webDomain \<Rightarrow> BoundDomain db webDomain
              | Inl e \<Rightarrow> if errors_is e ErrNotFound then by_certificate else Inl e)"

definition CertificateServable :: "'r AdminEnv \<Rightarrow> files \<Rightarrow> ManagedCertificate \<Rightarrow> bool" where
  "CertificateServable env disk certificate =
     (if BlocksServing (Cert_ProviderStatus certificate) \<or> blank (Cert_CertFile certificate) \<or> blank (Cert_KeyFile certificate)
      then False
      else ServesTLS (MH_ServingStatus (CheckCertificateFiles (sv_certEnv (ad_certs env)) disk (ad_now env)
             (Cert_Host certificate) (Cert_CertFile certificate) (Cert_KeyFile certificate)
             (sv_certificateDir (ad_certs env)) 0 (ad_now env))))"

definition removeManagedFile :: "CertEnv \<Rightarrow> string \<Rightarrow> string \<Rightarrow> (Disk, unit) op" where
  "removeManagedFile env certificateDir rawPath =
     (let path = trim_space rawPath in
      if path = [] then sret ()
      else case fs_reply env (FsAbs certificateDir) (ce_Abs env certificateDir) of
             Inl _ \<Rightarrow> sret ()
           | Inr absDir \<Rightarrow>
               (case fs_reply env (FsAbs path) (ce_Abs env path) of
                  Inl _ \<Rightarrow> sret ()
                | Inr absPath \<Rightarrow>
                    (let relative = filepath_Rel absDir absPath in
                     if relative = ''.'' \<or> has_prefix relative ''..'' \<or> filepath_IsAbs relative then sret ()
                     else ignoring (os_Remove (ce_fc env) absPath))))"

definition CleanupManagedFiles :: "CertService \<Rightarrow> ManagedCertificate \<Rightarrow> (Disk, unit) op" where
  "CleanupManagedFiles service certificate =
     (let certificateDir = trim_space (sv_certificateDir service) in
      if certificateDir = [] then sret ()
      else sfor (removeManagedFile (sv_certEnv service) certificateDir)
             [Cert_CertFile certificate, Cert_KeyFile certificate, Cert_PreviousCertFile certificate,
              Cert_PreviousKeyFile certificate])"

end
