(* ===== verification/AdminProxies.thy ===== *)
theory AdminProxies
  imports AdminPolicies
begin

text \<open>
  ProxyService of internal/admin/proxy_service.go, with the input checks of shared.go it uses: create,
  update, enable, disable and delete a proxy, and the operations on the access gate of a proxy. Every
  operation is the whole method, with its early returns in order; an operation that changes what is
  served reconciles the listeners and undoes its change when that fails, the way the method does.
\<close>

section \<open>Input\<close>

record CreateProxyInput =
  CPI_ID :: string
  CPI_UserID :: string
  CPI_ClientID :: string
  CPI_Name :: string
  CPI_Type :: ProxyType
  CPI_DomainID :: string
  CPI_PathPrefix :: string
  CPI_StripPrefix :: bool
  CPI_UpstreamPathPrefix :: string
  CPI_EntryBindHost :: string
  CPI_EntryHost :: string
  CPI_EntryPort :: int
  CPI_TargetHost :: string
  CPI_TargetPort :: int
  CPI_CertFile :: string
  CPI_KeyFile :: string
  CPI_CertificateID :: string
  CPI_Description :: string
  CPI_ActorID :: string

record UpdateProxyInput =
  UPI_ID :: string
  UPI_Type :: ProxyType
  UPI_Name :: string
  UPI_DomainID :: string
  UPI_DomainIDSet :: bool
  UPI_PathPrefix :: string
  UPI_PathPrefixSet :: bool
  UPI_StripPrefix :: bool
  UPI_StripPrefixSet :: bool
  UPI_UpstreamPathPrefix :: string
  UPI_UpstreamPathPrefixSet :: bool
  UPI_EntryBindHost :: string
  UPI_EntryHost :: string
  UPI_EntryPort :: int
  UPI_TargetHost :: string
  UPI_TargetPort :: int
  UPI_CertFile :: string
  UPI_KeyFile :: string
  UPI_CertificateID :: string
  UPI_CertificateIDSet :: bool
  UPI_Description :: string
  UPI_ActorID :: string

record ProxyActivationResult =
  PAR_URL :: string
  PAR_ExpiresAt :: time

text \<open>The table of field messages is a list of pairs; a check fails when it is not empty.\<close>

definition field_if :: "bool \<Rightarrow> string \<Rightarrow> string \<Rightarrow> (string \<times> string) list" where
  "field_if bad field message = (if bad then [(field, message)] else [])"

definition rejected :: "(string \<times> string) list \<Rightarrow> unit result" where
  "rejected messages = reject_if (messages \<noteq> []) (Validation messages)"

definition collectProxyEntryFieldErrors ::
    "ProxyType \<Rightarrow> string \<Rightarrow> string \<Rightarrow> int \<Rightarrow> string \<Rightarrow> string \<Rightarrow> (string \<times> string) list" where
  "collectProxyEntryFieldErrors proxyType entryBindHost entryHost entryPort certFile keyFile =
     field_if (\<not> blank entryBindHost \<and> \<not> ValidBindHost entryBindHost) ''entryBindHost'' ''proxy entry bind host is invalid'' @
     (if proxyType = ProxyTCP \<or> proxyType = ProxyUDP
      then field_if (entryPort \<le> 0 \<or> entryPort > 65535) ''entryPort'' (proxyType @ '' proxy entry port is required'')
      else if proxyType = ProxyHTTP \<or> proxyType = ProxyHTTPS
      then (if blank entryHost then [(''entryHost'', proxyType @ '' proxy route host is required'')]
            else field_if (\<not> ValidBindHost entryHost) ''entryHost'' (proxyType @ '' proxy route host is invalid'')) @
           field_if (entryPort < 0 \<or> entryPort > 65535) ''entryPort'' (proxyType @ '' proxy entry port is invalid'')
      else []) @
     (if proxyType = ProxyHTTPS \<and> blank certFile \<noteq> blank keyFile
      then [(''certFile'', ''https proxy cert file and key file must be provided together''),
            (''keyFile'', ''https proxy cert file and key file must be provided together'')]
      else [])"

definition validateProxyEntryFields ::
    "ProxyType \<Rightarrow> string \<Rightarrow> string \<Rightarrow> int \<Rightarrow> string \<Rightarrow> string \<Rightarrow> unit result" where
  "validateProxyEntryFields proxyType entryBindHost entryHost entryPort certFile keyFile =
     rejected (collectProxyEntryFieldErrors proxyType entryBindHost entryHost entryPort certFile keyFile)"

definition validateCreateProxyInput :: "CreateProxyInput \<Rightarrow> unit result" where
  "validateCreateProxyInput input =
     rejected
      (field_if (blank (CPI_UserID input)) ''userId'' ''user id is required'' @
       field_if (blank (CPI_ClientID input)) ''clientId'' ''client id is required'' @
       field_if (blank (CPI_Name input)) ''name'' ''proxy name is required'' @
       field_if (\<not> proxyType_Valid (CPI_Type input)) ''type'' ''proxy type is invalid'' @
       field_if (blank (CPI_TargetHost input)) ''targetHost'' ''proxy target host is required'' @
       field_if (CPI_TargetPort input \<le> 0 \<or> CPI_TargetPort input > 65535) ''targetPort'' ''proxy target port is invalid'' @
       collectProxyEntryFieldErrors (CPI_Type input) (CPI_EntryBindHost input) (CPI_EntryHost input) (CPI_EntryPort input)
         (CPI_CertFile input) (CPI_KeyFile input))"

definition validateUpdateProxyInput :: "UpdateProxyInput \<Rightarrow> unit result" where
  "validateUpdateProxyInput input =
     rejected
      (field_if (blank (UPI_ID input)) ''id'' ''proxy id is required'' @
       field_if (blank (UPI_Name input)) ''name'' ''proxy name is required'' @
       field_if (blank (UPI_TargetHost input)) ''targetHost'' ''proxy target host is required'' @
       field_if (UPI_TargetPort input \<le> 0 \<or> UPI_TargetPort input > 65535) ''targetPort'' ''proxy target port is invalid'' @
       field_if (UPI_Type input \<noteq> [] \<and> \<not> proxyType_Valid (UPI_Type input)) ''type'' ''proxy type is invalid'' @
       (if proxyType_Valid (UPI_Type input)
        then collectProxyEntryFieldErrors (UPI_Type input) (UPI_EntryBindHost input) (UPI_EntryHost input)
               (UPI_EntryPort input) (UPI_CertFile input) (UPI_KeyFile input)
        else []))"

abbreviation forward_unsupported :: error where
  "forward_unsupported \<equiv> Unsupported ''forward proxy is not supported in this management batch''"

text \<open>An error of a check on one field, with the text of its cause as the message.\<close>

definition as_field :: "string \<Rightarrow> 'a result \<Rightarrow> 'a result" where
  "as_field field r = (case r of Inl e \<Rightarrow> Inl (Validation [(field, error_text e)]) | Inr a \<Rightarrow> Inr a)"

section \<open>Create\<close>

definition web_proxy_of :: "CreateProxyInput \<Rightarrow> string \<Rightarrow> string \<Rightarrow> string \<Rightarrow> string \<Rightarrow> Proxy" where
  "web_proxy_of input proxyID domainID normalized upstream =
     zeroProxy\<lparr>Proxy_ID := proxyID, Proxy_UserID := CPI_UserID input, Proxy_ClientID := CPI_ClientID input,
       Proxy_Name := CPI_Name input, Proxy_Type := ProxyWeb, Proxy_Status := ProxyEnabled, Proxy_DomainID := domainID,
       Proxy_PathPrefix := normalized, Proxy_StripPrefix := CPI_StripPrefix input, Proxy_UpstreamPathPrefix := upstream,
       Proxy_TargetHost := CPI_TargetHost input, Proxy_TargetPort := CPI_TargetPort input,
       Proxy_Description := CPI_Description input\<rparr>"

definition insert_new_proxy :: "'r AdminEnv \<Rightarrow> bool \<Rightarrow> Proxy \<Rightarrow> ('r, unit) admin" where
  "insert_new_proxy env internal proxy =
     sbind (draw_ids env) (\<lambda>ids. in_store (proxies_Create internal (ad_now env) ids proxy))"

definition createWebProxy :: "'r AdminEnv \<Rightarrow> CreateProxyInput \<Rightarrow> string \<Rightarrow> ('r, Proxy) admin" where
  "createWebProxy env input givenID =
     (if blank (CPI_DomainID input) then sfail (Validation [(''domainId'', ''domain id is required'')])
      else sbind (look (\<lambda>db. domains_ByID db (CPI_DomainID input))) (\<lambda>webDomain.
        if Dom_UserID webDomain \<noteq> CPI_UserID input
        then sfail (Conflict ''domain does not belong to proxy user'' None)
        else sbind (slift (as_field ''pathPrefix''
               (NormalizeProxyRoutePrefix (or_default (CPI_PathPrefix input) ''/'')))) (\<lambda>normalized.
             sbind (slift (as_field ''upstreamPathPrefix''
               (NormalizeProxyUpstreamPathPrefix (CPI_UpstreamPathPrefix input)))) (\<lambda>upstream.
             sbind (id_or_new env givenID ''proxy'') (\<lambda>proxyID.
             let proxy = web_proxy_of input proxyID (Dom_ID webDomain) normalized upstream in
             sbind (slift (as_field ''proxy'' (proxy_Validate proxy))) (\<lambda>_.
             sbind (look (EnsureAdmission env proxy [])) (\<lambda>_.
             shandle (insert_new_proxy env False proxy) (\<lambda>r. case r of
               Inl e \<Rightarrow> sfail (if errors_is e ErrAlreadyExists
                               then Conflict ''domain path is already used by another proxy'' (Some e) else e)
             | Inr _ \<Rightarrow> audited env (CPI_ActorID input) ''proxy'' proxyID ''create_web_proxy'' proxy))))))))"

definition create_action :: "ProxyType \<Rightarrow> string" where
  "create_action proxyType =
     (if proxyType = ProxyTCP then ''create_tcp_proxy'' else if proxyType = ProxyHTTP then ''create_http_proxy''
      else if proxyType = ProxyHTTPS then ''create_https_proxy''
      else if proxyType = ProxyUDP then ''create_udp_proxy'' else ''create_proxy'')"

definition entry_proxy_of :: "CreateProxyInput \<Rightarrow> string \<Rightarrow> string \<Rightarrow> Proxy" where
  "entry_proxy_of input proxyID certificateID =
     zeroProxy\<lparr>Proxy_ID := proxyID, Proxy_UserID := CPI_UserID input, Proxy_ClientID := CPI_ClientID input,
       Proxy_Name := CPI_Name input, Proxy_Type := CPI_Type input, Proxy_Status := ProxyEnabled,
       Proxy_EntryBindHost := CPI_EntryBindHost input, Proxy_EntryHost := CPI_EntryHost input,
       Proxy_EntryPort := CPI_EntryPort input, Proxy_TargetHost := CPI_TargetHost input,
       Proxy_TargetPort := CPI_TargetPort input, Proxy_CertificateID := certificateID,
       Proxy_Description := CPI_Description input\<rparr>"

definition create_entry_proxy :: "'r AdminEnv \<Rightarrow> CreateProxyInput \<Rightarrow> string \<Rightarrow> ('r, Proxy) admin" where
  "create_entry_proxy env input proxyID =
     sbind (ResolveProxySelection env (CPI_Type input) [] (CPI_CertificateID input) True (CPI_EntryHost input)
       (CPI_CertFile input) (CPI_KeyFile input) (CPI_ActorID input)) (\<lambda>certificateID.
     let proxy = entry_proxy_of input proxyID certificateID in
     sbind (look (EnsureAdmission env proxy [])) (\<lambda>_.
     sbind (insert_new_proxy env False proxy) (\<lambda>_.
     sbind (reconcile_or_undo env (proxies_Delete False proxyID)) (\<lambda>_.
     audited env (CPI_ActorID input) ''proxy'' proxyID (create_action (CPI_Type input)) proxy))))"

definition CreateProxy :: "'r AdminEnv \<Rightarrow> CreateProxyInput \<Rightarrow> ('r, Proxy) admin" where
  "CreateProxy env input =
     needs_store env
      (sbind (slift (validateCreateProxyInput input)) (\<lambda>_.
       if CPI_Type input = ProxyForward then sfail forward_unsupported
       else sbind (id_or_new env (CPI_ID input) ''proxy'') (\<lambda>proxyID.
         sbind (look (\<lambda>db. users_ByID db (CPI_UserID input))) (\<lambda>_.
         sbind (look (\<lambda>db. clients_ByID db (CPI_ClientID input))) (\<lambda>client.
         sbind (protected env (CPI_ActorID input) ''proxy'' proxyID ''create_proxy''
                  (reject_if (IsSystemClientID (Client_ID client))
                     (Forbidden ''system proxies must be created through the local proxy API''))) (\<lambda>_.
         if Client_UserID client \<noteq> CPI_UserID input then sfail (Conflict ''client does not belong to proxy user'' None)
         else if NormalizeClientKind (Client_Kind client) \<noteq> ClientKindProvider
         then sfail (Validation [(''clientId'', ''client cannot provide proxy service'')])
         else if CPI_Type input = ProxyWeb \<or> proxyType_IsWeb (CPI_Type input) \<and> \<not> blank (CPI_DomainID input)
         then sbind (createWebProxy env input proxyID) (\<lambda>proxy.
              sbind (reconcile_or_undo env (proxies_Delete False (Proxy_ID proxy))) (\<lambda>_. sret proxy))
         else create_entry_proxy env input proxyID))))))"

section \<open>Update\<close>

definition type_change_rejected :: "Proxy \<Rightarrow> ProxyType \<Rightarrow> bool" where
  "type_change_rejected existing given \<longleftrightarrow>
     given \<noteq> [] \<and> given \<noteq> Proxy_Type existing \<and>
     \<not> (proxyType_IsWeb (Proxy_Type existing) \<and> (given = ProxyHTTP \<or> given = ProxyHTTPS \<or> given = ProxyWeb))"

text \<open>Domain and path of a web proxy; the flag says whether they changed.\<close>

definition update_domain :: "UpdateProxyInput \<Rightarrow> Proxy \<Rightarrow> ('r, Proxy \<times> bool) admin" where
  "update_domain input existing =
     (if UPI_DomainIDSet input \<and> \<not> blank (UPI_DomainID input) \<and> UPI_DomainID input \<noteq> Proxy_DomainID existing
      then sbind (look (\<lambda>db. domains_ByID db (UPI_DomainID input))) (\<lambda>webDomain.
             if Dom_UserID webDomain \<noteq> Proxy_UserID existing
             then sfail (Conflict ''domain does not belong to proxy user'' None)
             else sret (existing\<lparr>Proxy_DomainID := Dom_ID webDomain\<rparr>, True))
      else sret (existing, False))"

definition update_path :: "UpdateProxyInput \<Rightarrow> Proxy \<times> bool \<Rightarrow> (Proxy \<times> bool) result" where
  "update_path input p =
     (case p of (existing, identityChanged) \<Rightarrow>
        if UPI_PathPrefixSet input \<and> \<not> blank (UPI_PathPrefix input)
        then rbind (as_field ''pathPrefix'' (NormalizeProxyRoutePrefix (UPI_PathPrefix input))) (\<lambda>normalized.
               if normalized \<noteq> Proxy_PathPrefix existing
               then Inr (existing\<lparr>Proxy_PathPrefix := normalized\<rparr>, True)
               else Inr (existing, identityChanged))
        else Inr (existing, identityChanged))"

definition update_prefixes :: "UpdateProxyInput \<Rightarrow> Proxy \<Rightarrow> Proxy result" where
  "update_prefixes input existing0 =
     (let existing = (if UPI_StripPrefixSet input then existing0\<lparr>Proxy_StripPrefix := UPI_StripPrefix input\<rparr> else existing0)
      in if UPI_UpstreamPathPrefixSet input
         then rbind (as_field ''upstreamPathPrefix'' (NormalizeProxyUpstreamPathPrefix (UPI_UpstreamPathPrefix input)))
                (\<lambda>upstream. Inr (existing\<lparr>Proxy_UpstreamPathPrefix := upstream\<rparr>))
         else Inr existing)"

text \<open>A new host for the domain of the proxy; the credentials of its proxies are revoked with it.\<close>

definition after_host_change :: "'r AdminEnv \<Rightarrow> Domain \<Rightarrow> Proxy \<Rightarrow> ('r, Proxy) admin" where
  "after_host_change env webDomain existing =
     sbind (RevokeForDomain env (Dom_ID webDomain)) (\<lambda>_.
       if Proxy_AccessAuthEnabled existing
       then sbind (look (\<lambda>db. proxies_ByID db (Proxy_ID existing))) (\<lambda>reloaded.
              sret (existing\<lparr>Proxy_AccessAuthVersion := Proxy_AccessAuthVersion reloaded\<rparr>))
       else sret existing)"

definition update_host :: "'r AdminEnv \<Rightarrow> UpdateProxyInput \<Rightarrow> Proxy \<Rightarrow> ('r, Proxy) admin" where
  "update_host env input existing =
     (if blank (UPI_EntryHost input) \<or> blank (Proxy_DomainID existing) then sret existing
      else sbind (look (\<lambda>db. domains_ByID db (Proxy_DomainID existing))) (\<lambda>previous.
        let nextHost = NormalizeRouteHost (UPI_EntryHost input); webDomain = previous\<lparr>Dom_Host := nextHost\<rparr> in
        sbind (slift (as_field ''entryHost'' (domain_Validate webDomain))) (\<lambda>_.
        sbind (if Dom_CertificateID webDomain \<noteq> []
               then look (\<lambda>db. ValidateBinding db (Dom_CertificateID webDomain) (Dom_Host webDomain))
               else sret ()) (\<lambda>_.
        sbind (in_store (domains_Update (ad_now env) webDomain)) (\<lambda>_.
        if nextHost \<noteq> Dom_Host previous then after_host_change env webDomain existing else sret existing)))))"

definition update_certificate :: "'r AdminEnv \<Rightarrow> UpdateProxyInput \<Rightarrow> Proxy \<Rightarrow> ('r, unit) admin" where
  "update_certificate env input existing =
     (if UPI_CertificateIDSet input \<and> \<not> blank (Proxy_DomainID existing)
      then sbind (look (\<lambda>db. domains_ByID db (Proxy_DomainID existing))) (\<lambda>webDomain.
           sbind (if UPI_CertificateID input = [] then sret ()
                  else look (\<lambda>db. ValidateBinding db (UPI_CertificateID input) (Dom_Host webDomain))) (\<lambda>_.
           in_store (domains_Update (ad_now env) (webDomain\<lparr>Dom_CertificateID := UPI_CertificateID input\<rparr>))))
      else sret ())"

definition update_web_proxy :: "'r AdminEnv \<Rightarrow> UpdateProxyInput \<Rightarrow> Proxy \<Rightarrow> ('r, Proxy) admin" where
  "update_web_proxy env input existing =
     sbind (update_domain input existing) (\<lambda>moved.
     sbind (slift (update_path input moved)) (\<lambda>(routed, identityChanged).
     sbind (slift (update_prefixes input routed)) (\<lambda>prefixed.
     sbind (update_host env input prefixed) (\<lambda>hosted.
     sbind (update_certificate env input hosted) (\<lambda>_.
     if identityChanged then RevokeIfEnabled env hosted else sret hosted)))))"

definition update_entry_proxy :: "'r AdminEnv \<Rightarrow> UpdateProxyInput \<Rightarrow> Proxy \<Rightarrow> ('r, Proxy) admin" where
  "update_entry_proxy env input given =
     (let existing = given\<lparr>Proxy_EntryBindHost := UPI_EntryBindHost input, Proxy_EntryHost := UPI_EntryHost input,
                           Proxy_EntryPort := UPI_EntryPort input\<rparr> in
      sbind (slift (validateProxyEntryFields (Proxy_Type existing) (Proxy_EntryBindHost existing)
               (Proxy_EntryHost existing) (Proxy_EntryPort existing) (UPI_CertFile input) (UPI_KeyFile input))) (\<lambda>_.
      sbind (ResolveProxySelection env (Proxy_Type existing) (Proxy_ID existing) (UPI_CertificateID input)
               (UPI_CertificateIDSet input) (Proxy_EntryHost existing) (UPI_CertFile input) (UPI_KeyFile input)
               (UPI_ActorID input)) (\<lambda>certificateID.
      let bound = existing\<lparr>Proxy_CertificateID := certificateID, Proxy_CertFile := [], Proxy_KeyFile := []\<rparr> in
      sbind (look (EnsureAdmission env bound (Proxy_ID bound))) (\<lambda>_. sret bound))))"

definition UpdateProxy :: "'r AdminEnv \<Rightarrow> UpdateProxyInput \<Rightarrow> ('r, Proxy) admin" where
  "UpdateProxy env input =
     needs_store env
      (sbind (slift (validateUpdateProxyInput input)) (\<lambda>_.
       sbind (look (\<lambda>db. proxies_ByID db (UPI_ID input))) (\<lambda>previous.
       sbind (protected env (UPI_ActorID input) ''proxy'' (UPI_ID input) ''update_proxy'' (ProtectProxyMutation previous)) (\<lambda>_.
       if type_change_rejected previous (UPI_Type input) then sfail (Validation [(''type'', ''proxy type is immutable'')])
       else if Proxy_Type previous = ProxyForward then sfail forward_unsupported
       else let named = previous\<lparr>Proxy_Name := UPI_Name input, Proxy_TargetHost := UPI_TargetHost input,
                          Proxy_TargetPort := UPI_TargetPort input, Proxy_Description := UPI_Description input\<rparr> in
         sbind (if proxyType_IsWeb (Proxy_Type named) then update_web_proxy env input named
                else update_entry_proxy env input named) (\<lambda>existing.
         sbind (look (EnsureAdmission env existing (Proxy_ID existing))) (\<lambda>_.
         sbind (in_store (proxies_Update False (ad_now env) existing)) (\<lambda>_.
         sbind (reconcile_or_undo env (proxies_Update False (ad_now env) previous)) (\<lambda>_.
         audited env (UPI_ActorID input) ''proxy'' (Proxy_ID existing) ''update_proxy'' existing))))))))"

section \<open>Status and deletion\<close>

definition EnableProxy :: "'r AdminEnv \<Rightarrow> string \<Rightarrow> string \<Rightarrow> ('r, unit) admin" where
  "EnableProxy env proxyID actorID =
     needs_store env
      (if blank proxyID then sfail (Validation [(''id'', ''proxy id is required'')])
       else sbind (look (\<lambda>db. proxies_ByID db proxyID)) (\<lambda>proxy.
         sbind (protected env actorID ''proxy'' proxyID ''enable_proxy'' (ProtectProxyMutation proxy)) (\<lambda>_.
         if Proxy_Type proxy = ProxyForward then sfail forward_unsupported
         else sbind (look (EnsureAdmission env (proxy\<lparr>Proxy_Status := ProxyEnabled\<rparr>) (Proxy_ID proxy))) (\<lambda>_.
              sbind (in_store (proxies_SetStatus False (ad_now env) proxyID ProxyEnabled)) (\<lambda>_.
              sbind (reconcile_or_undo env (proxies_SetStatus False (ad_now env) proxyID ProxyDisabled)) (\<lambda>_.
              audit_Record env actorID ''proxy'' proxyID ''enable_proxy''))))))"

definition DisableProxy :: "'r AdminEnv \<Rightarrow> string \<Rightarrow> string \<Rightarrow> ('r, unit) admin" where
  "DisableProxy env proxyID actorID =
     needs_store env
      (if blank proxyID then sfail (Validation [(''id'', ''proxy id is required'')])
       else sbind (look (\<lambda>db. proxies_ByID db proxyID)) (\<lambda>proxy.
         sbind (protected env actorID ''proxy'' proxyID ''disable_proxy'' (ProtectProxyMutation proxy)) (\<lambda>_.
         sbind (in_store (proxies_SetStatus False (ad_now env) proxyID ProxyDisabled)) (\<lambda>_.
         sbind (ReconcileListeners env) (\<lambda>_.
         audit_Record env actorID ''proxy'' proxyID ''disable_proxy'')))))"

definition DeleteProxy :: "'r AdminEnv \<Rightarrow> string \<Rightarrow> string \<Rightarrow> ('r, unit) admin" where
  "DeleteProxy env proxyID actorID =
     needs_store env
      (if blank proxyID then sfail (Validation [(''id'', ''proxy id is required'')])
       else sbind (look (\<lambda>db. proxies_ByID db proxyID)) (\<lambda>proxy.
         sbind (protected env actorID ''proxy'' proxyID ''delete_proxy'' (ProtectProxyMutation proxy)) (\<lambda>_.
         if Proxy_Status proxy \<noteq> ProxyDisabled then sfail (Conflict ''proxy must be disabled before delete'' None)
         else sbind (in_store (proxies_Delete False proxyID)) (\<lambda>_.
              sbind (ReconcileListeners env) (\<lambda>_.
              audit_Record env actorID ''proxy'' proxyID ''delete_proxy'')))))"

section \<open>The access gate\<close>

definition proxyActivationURL :: "Domain \<Rightarrow> string \<Rightarrow> string" where
  "proxyActivationURL webDomain token = ''https://'' @ Dom_Host webDomain @ ''/.well-known/goginx/activate/'' @ token"

definition activation_token ::
    "'r AdminEnv \<Rightarrow> string \<Rightarrow> int \<Rightarrow> string \<Rightarrow> string \<Rightarrow> string \<Rightarrow> ProxyActivationToken" where
  "activation_token env proxyID authVersion tokenID tokenValue actorID =
     \<lparr>Tok_ID = tokenID, Tok_ProxyID = proxyID, Tok_AuthVersion = authVersion, Tok_TokenHash = ad_SHA256 env tokenValue,
      Tok_ExpiresAt = ad_now env + 10 * minute, Tok_UsedAt = None, Tok_CreatedAt = 0, Tok_CreatedBy = actorID\<rparr>"

text \<open>What both operations that make a link do once their checks have passed.\<close>

definition issue_activation ::
    "'r AdminEnv \<Rightarrow> string \<Rightarrow> string \<Rightarrow> string \<Rightarrow> Domain \<Rightarrow> int \<Rightarrow> (ProxyActivationToken \<Rightarrow> (DB, unit) op) \<Rightarrow>
     ('r, ProxyActivationResult) admin" where
  "issue_activation env actorID proxyID action webDomain authVersion save =
     sbind (newCredential env) (\<lambda>tokenValue.
     sbind (newID env ''activation'') (\<lambda>tokenID.
     sbind (in_store (save (activation_token env proxyID authVersion tokenID tokenValue actorID))) (\<lambda>_.
     audited env actorID ''proxy'' proxyID action
       \<lparr>PAR_URL = proxyActivationURL webDomain tokenValue, PAR_ExpiresAt = ad_now env + 10 * minute\<rparr>)))"

definition EnableProxyAccessAuthAndCreateActivation ::
    "'r AdminEnv \<Rightarrow> string \<Rightarrow> string \<Rightarrow> ('r, ProxyActivationResult) admin" where
  "EnableProxyAccessAuthAndCreateActivation env proxyID actorID =
     sbind (look (\<lambda>db. proxies_ByID db proxyID)) (\<lambda>proxy.
     sbind (protected env actorID ''proxy'' proxyID ''enable_proxy_access_auth'' (ProtectProxyMutation proxy)) (\<lambda>_.
     if \<not> proxyType_IsWeb (Proxy_Type proxy) \<or> blank (Proxy_DomainID proxy)
     then sfail (Validation [(''proxyId'', ''access authentication requires a web proxy with a domain'')])
     else sbind (look (\<lambda>db. domains_ByID db (Proxy_DomainID proxy))) (\<lambda>webDomain.
       sbind (look (\<lambda>db. reject_if (\<not> DomainHasEnabledHTTPSEntry db (Dom_ID webDomain))
                (Conflict ''domain has no enabled HTTPS entry'' None))) (\<lambda>_.
       shandle (look (\<lambda>db. BoundDomain db webDomain)) (\<lambda>r. case r of
         Inl e \<Rightarrow> sfail (if errors_is e ErrNotFound
                         then Conflict ''domain certificate is not bound or not serving TLS'' None else e)
       | Inr certificate \<Rightarrow>
           (if \<not> ServesTLS (Cert_ServingStatus certificate)
            then sfail (Conflict ''domain certificate is not serving TLS'' None)
            else let authVersion = Proxy_AccessAuthVersion proxy + 1 in
              issue_activation env actorID proxyID ''enable_proxy_access_auth'' webDomain authVersion
                (access_EnableAuthAndCreateActivation (ad_now env) proxyID authVersion)))))))"

definition CreateProxyActivationLink :: "'r AdminEnv \<Rightarrow> string \<Rightarrow> string \<Rightarrow> ('r, ProxyActivationResult) admin" where
  "CreateProxyActivationLink env proxyID actorID =
     sbind (look (\<lambda>db. proxies_ByID db proxyID)) (\<lambda>proxy.
     sbind (protected env actorID ''proxy'' proxyID ''create_proxy_activation'' (ProtectProxyMutation proxy)) (\<lambda>_.
     if \<not> Proxy_AccessAuthEnabled proxy then sfail (Conflict ''proxy access authentication is disabled'' None)
     else sbind (look (\<lambda>db. domains_ByID db (Proxy_DomainID proxy))) (\<lambda>webDomain.
       issue_activation env actorID proxyID ''create_proxy_activation'' webDomain (Proxy_AccessAuthVersion proxy)
         (access_CreateActivationToken (ad_now env)))))"

definition rewrite_access ::
    "'r AdminEnv \<Rightarrow> string \<Rightarrow> string \<Rightarrow> string \<Rightarrow> (string \<Rightarrow> int \<Rightarrow> (DB, unit) op) \<Rightarrow> ('r, unit) admin" where
  "rewrite_access env proxyID actorID action change =
     sbind (look (\<lambda>db. proxies_ByID db proxyID)) (\<lambda>proxy.
     sbind (protected env actorID ''proxy'' proxyID action (ProtectProxyMutation proxy)) (\<lambda>_.
     sbind (in_store (change proxyID (Proxy_AccessAuthVersion proxy + 1))) (\<lambda>_.
     audit_Record env actorID ''proxy'' proxyID action)))"

definition RevokeAllProxyAccess :: "'r AdminEnv \<Rightarrow> string \<Rightarrow> string \<Rightarrow> ('r, unit) admin" where
  "RevokeAllProxyAccess env proxyID actorID =
     rewrite_access env proxyID actorID ''revoke_proxy_access'' (access_RevokeAllAccess (ad_now env))"

definition DisableProxyAccessAuth :: "'r AdminEnv \<Rightarrow> string \<Rightarrow> string \<Rightarrow> ('r, unit) admin" where
  "DisableProxyAccessAuth env proxyID actorID =
     rewrite_access env proxyID actorID ''disable_proxy_access_auth'' (access_DisableAuth (ad_now env))"

end
