(* ===== verification/AdminDomains.thy ===== *)
theory AdminDomains
  imports AdminProxies
begin

text \<open>
  DomainService of internal/admin/domain_service.go (domains, their entries and their certificate) and
  UserService of user_service.go.
\<close>

section \<open>Domains\<close>

record CreateDomainInput =
  CDI_ID :: string
  CDI_UserID :: string
  CDI_Host :: string
  CDI_CertificateID :: string
  CDI_ActorID :: string

record UpdateDomainInput =
  UDI_ID :: string
  UDI_Host :: string
  UDI_CertificateID :: string
  UDI_CertificateIDSet :: bool
  UDI_ActorID :: string

record CreateDomainEntryInput =
  CEI_ID :: string
  CEI_DomainID :: string
  CEI_Protocol :: DomainEntryProtocol
  CEI_BindHost :: string
  CEI_Port :: int
  CEI_ActorID :: string

record UpdateDomainEntryInput =
  UEI_ID :: string
  UEI_BindHost :: string
  UEI_Port :: int
  UEI_Status :: DomainEntryStatus
  UEI_ActorID :: string

definition bind_if_set :: "string \<Rightarrow> string \<Rightarrow> ('r, unit) admin" where
  "bind_if_set certificateID host =
     (if certificateID \<noteq> [] then look (\<lambda>db. ValidateBinding db certificateID host) else sret ())"

definition CreateDomain :: "'r AdminEnv \<Rightarrow> CreateDomainInput \<Rightarrow> ('r, Domain) admin" where
  "CreateDomain env input =
     needs_store env
      (let host = NormalizeRouteHost (CDI_Host input) in
       sbind (slift (rejected
         (field_if (blank (CDI_UserID input)) ''userId'' ''user id is required'' @
          field_if (host = []) ''host'' ''domain host is required''))) (\<lambda>_.
       sbind (look (\<lambda>db. users_ByID db (CDI_UserID input))) (\<lambda>_.
       sbind (id_or_new env (CDI_ID input) ''domain'') (\<lambda>domainID.
       sbind (bind_if_set (CDI_CertificateID input) host) (\<lambda>_.
       let value = \<lparr>Dom_ID = domainID, Dom_UserID = CDI_UserID input, Dom_Host = host,
                    Dom_CertificateID = CDI_CertificateID input, Dom_Status = DomainEnabled,
                    Dom_CreatedAt = 0, Dom_UpdatedAt = 0\<rparr> in
       sbind (in_store (domains_Create (ad_now env) value)) (\<lambda>_.
       sbind (reconcile_or_undo env (domains_Delete domainID)) (\<lambda>_.
       audited env (CDI_ActorID input) ''domain'' domainID ''create_domain'' value)))))))"

definition updated_domain :: "UpdateDomainInput \<Rightarrow> Domain \<Rightarrow> Domain" where
  "updated_domain input previous =
     (let hosted = (if blank (UDI_Host input) then previous
                    else previous\<lparr>Dom_Host := NormalizeRouteHost (UDI_Host input)\<rparr>)
      in if UDI_CertificateIDSet input then hosted\<lparr>Dom_CertificateID := UDI_CertificateID input\<rparr> else hosted)"

text \<open>The revocation that follows a change of the host; when it fails the old row is written back.\<close>

definition revoke_or_undo :: "'r AdminEnv \<Rightarrow> Domain \<Rightarrow> ('r, unit) admin" where
  "revoke_or_undo env previous =
     shandle (RevokeForDomain env (Dom_ID previous)) (\<lambda>r. case r of
       Inr _ \<Rightarrow> sret ()
     | Inl e \<Rightarrow> sbind (ignoring (in_store (domains_Update (ad_now env) previous))) (\<lambda>_. sfail e))"

definition UpdateDomain :: "'r AdminEnv \<Rightarrow> UpdateDomainInput \<Rightarrow> ('r, Domain) admin" where
  "UpdateDomain env input =
     needs_store env
      (sbind (look (\<lambda>db. domains_ByID db (UDI_ID input))) (\<lambda>previous.
       let existing = updated_domain input previous in
       sbind (bind_if_set (Dom_CertificateID existing) (Dom_Host existing)) (\<lambda>_.
       sbind (slift (as_field ''domain'' (domain_Validate existing))) (\<lambda>_.
       sbind (in_store (domains_Update (ad_now env) existing)) (\<lambda>_.
       sbind (if Dom_Host existing \<noteq> Dom_Host previous then revoke_or_undo env previous else sret ()) (\<lambda>_.
       sbind (reconcile_or_undo env (domains_Update (ad_now env) previous)) (\<lambda>_.
       audited env (UDI_ActorID input) ''domain'' (Dom_ID existing) ''update_domain'' existing)))))))"

definition set_domain_status :: "'r AdminEnv \<Rightarrow> DomainStatus \<Rightarrow> string \<Rightarrow> string \<Rightarrow> string \<Rightarrow> ('r, unit) admin" where
  "set_domain_status env status action domainID actorID =
     needs_store env
      (sbind (in_store (domains_SetStatus (ad_now env) domainID status)) (\<lambda>_.
       sbind (ReconcileListeners env) (\<lambda>_.
       audit_Record env actorID ''domain'' domainID action)))"

definition EnableDomain :: "'r AdminEnv \<Rightarrow> string \<Rightarrow> string \<Rightarrow> ('r, unit) admin" where
  "EnableDomain env = set_domain_status env DomainEnabled ''enable_domain''"

definition DisableDomain :: "'r AdminEnv \<Rightarrow> string \<Rightarrow> string \<Rightarrow> ('r, unit) admin" where
  "DisableDomain env = set_domain_status env DomainDisabled ''disable_domain''"

definition DeleteDomain :: "'r AdminEnv \<Rightarrow> string \<Rightarrow> string \<Rightarrow> ('r, unit) admin" where
  "DeleteDomain env domainID actorID =
     needs_store env
      (sbind (look (\<lambda>db. domains_ByID db domainID)) (\<lambda>webDomain.
       if Dom_Status webDomain \<noteq> DomainDisabled then sfail (Conflict ''domain must be disabled before delete'' None)
       else sbind (look (\<lambda>db. reject_if (list_ex (\<lambda>proxy. Proxy_Status proxy = ProxyEnabled) (proxies_ByDomainID db domainID))
              (Conflict ''domain has enabled proxies; disable or move proxies before deleting the domain'' None))) (\<lambda>_.
            sbind (in_store (domainEntries_DeleteByDomainID domainID)) (\<lambda>_.
            sbind (in_store (domains_Delete domainID)) (\<lambda>_.
            sbind (ReconcileListeners env) (\<lambda>_.
            audit_Record env actorID ''domain'' domainID ''delete_domain''))))))"

abbreviation https_needs_certificate :: error where
  "https_needs_certificate \<equiv> Conflict ''https domain entry requires a bound certificate'' None"

definition CreateDomainEntry :: "'r AdminEnv \<Rightarrow> CreateDomainEntryInput \<Rightarrow> ('r, DomainEntry) admin" where
  "CreateDomainEntry env input =
     needs_store env
      (sbind (look (\<lambda>db. domains_ByID db (CEI_DomainID input))) (\<lambda>webDomain.
       if \<not> domainEntryProtocol_Valid (CEI_Protocol input)
       then sfail (Validation [(''protocol'', ''domain entry protocol is invalid'')])
       else if CEI_Protocol input = DomainEntryHTTPS \<and> blank (Dom_CertificateID webDomain) then sfail https_needs_certificate
       else sbind (id_or_new env (CEI_ID input) ''dentry'') (\<lambda>entryID.
         let entry = \<lparr>DEnt_ID = entryID, DEnt_DomainID = CEI_DomainID input, DEnt_Protocol = CEI_Protocol input,
                      DEnt_BindHost = NormalizeBindHost (CEI_BindHost input), DEnt_Port = CEI_Port input,
                      DEnt_Status = DomainEntryEnabled, DEnt_CreatedAt = 0, DEnt_UpdatedAt = 0\<rparr> in
         sbind (slift (as_field ''entry'' (domainEntry_Validate entry))) (\<lambda>_.
         sbind (in_store (domainEntries_Create (ad_now env) entry)) (\<lambda>_.
         sbind (reconcile_or_undo env (domainEntries_Delete entryID)) (\<lambda>_.
         audited env (CEI_ActorID input) ''domain_entry'' entryID ''create_domain_entry'' entry))))))"

definition updated_entry :: "UpdateDomainEntryInput \<Rightarrow> DomainEntry \<Rightarrow> DomainEntry" where
  "updated_entry input previous =
     (let bound = (if UEI_BindHost input \<noteq> [] \<or> UEI_Port input \<noteq> 0
                   then previous\<lparr>DEnt_BindHost := NormalizeBindHost (UEI_BindHost input),
                          DEnt_Port := (if UEI_Port input \<noteq> 0 then UEI_Port input else DEnt_Port previous)\<rparr>
                   else previous)
      in if UEI_Status input \<noteq> [] then bound\<lparr>DEnt_Status := UEI_Status input\<rparr> else bound)"

definition https_entry_certified :: "DomainEntry \<Rightarrow> DB \<Rightarrow> unit result" where
  "https_entry_certified entry db =
     (if DEnt_Protocol entry = DomainEntryHTTPS \<and> DEnt_Status entry = DomainEntryEnabled
      then rbind (domains_ByID db (DEnt_DomainID entry)) (\<lambda>webDomain.
             reject_if (blank (Dom_CertificateID webDomain)) https_needs_certificate)
      else Inr ())"

definition UpdateDomainEntry :: "'r AdminEnv \<Rightarrow> UpdateDomainEntryInput \<Rightarrow> ('r, DomainEntry) admin" where
  "UpdateDomainEntry env input =
     needs_store env
      (sbind (look (\<lambda>db. domainEntries_ByID db (UEI_ID input))) (\<lambda>previous.
       let existing = updated_entry input previous in
       sbind (look (https_entry_certified existing)) (\<lambda>_.
       sbind (slift (as_field ''entry'' (domainEntry_Validate existing))) (\<lambda>_.
       sbind (in_store (domainEntries_Update (ad_now env) existing)) (\<lambda>_.
       sbind (reconcile_or_undo env (domainEntries_Update (ad_now env) previous)) (\<lambda>_.
       audited env (UEI_ActorID input) ''domain_entry'' (DEnt_ID existing) ''update_domain_entry'' existing))))))"

definition DeleteDomainEntry :: "'r AdminEnv \<Rightarrow> string \<Rightarrow> string \<Rightarrow> ('r, unit) admin" where
  "DeleteDomainEntry env entryID actorID =
     needs_store env
      (sbind (in_store (domainEntries_Delete entryID)) (\<lambda>_.
       sbind (ReconcileListeners env) (\<lambda>_.
       audit_Record env actorID ''domain_entry'' entryID ''delete_domain_entry'')))"

definition BindDomainCertificate :: "'r AdminEnv \<Rightarrow> string \<Rightarrow> string \<Rightarrow> string \<Rightarrow> ('r, Domain) admin" where
  "BindDomainCertificate env domainID certificateID actorID =
     needs_store env
      (sbind (look (\<lambda>db. domains_ByID db domainID)) (\<lambda>webDomain.
       sbind (look (\<lambda>db. ValidateBinding db certificateID (Dom_Host webDomain))) (\<lambda>_.
       let bound = webDomain\<lparr>Dom_CertificateID := certificateID\<rparr> in
       sbind (in_store (domains_Update (ad_now env) bound)) (\<lambda>_.
       sbind (ReconcileListeners env) (\<lambda>_.
       audited env actorID ''domain'' (Dom_ID bound) ''bind_certificate'' bound)))))"

definition UnbindDomainCertificate :: "'r AdminEnv \<Rightarrow> string \<Rightarrow> string \<Rightarrow> ('r, Domain) admin" where
  "UnbindDomainCertificate env domainID actorID =
     needs_store env
      (sbind (look (\<lambda>db. domains_ByID db domainID)) (\<lambda>webDomain.
       if blank (Dom_CertificateID webDomain) then sret webDomain
       else sbind (UnbindDomain env webDomain) (\<lambda>_.
         let unbound = webDomain\<lparr>Dom_CertificateID := []\<rparr> in
         sbind (ReconcileListeners env) (\<lambda>_.
         audited env actorID ''domain'' (Dom_ID unbound) ''unbind_certificate'' unbound))))"

section \<open>Users\<close>

record CreateUserInput =
  CUI_ID :: string
  CUI_Username :: string
  CUI_Password :: string
  CUI_Role :: Role
  CUI_ActorID :: string

definition validateCreateUserInput :: "CreateUserInput \<Rightarrow> unit result" where
  "validateCreateUserInput input =
     rejected (field_if (blank (CUI_Username input)) ''username'' ''username is required'' @
               field_if (CUI_Role input \<noteq> [] \<and> \<not> role_Valid (CUI_Role input)) ''role'' ''role is invalid'')"

definition validateSetUserPassword :: "string \<Rightarrow> string \<Rightarrow> unit result" where
  "validateSetUserPassword userID password =
     rejected (field_if (blank userID) ''id'' ''user id is required'' @
               field_if (blank password) ''password'' ''password is required'')"

definition new_user :: "CreateUserInput \<Rightarrow> string \<Rightarrow> string \<Rightarrow> User" where
  "new_user input userID passwordHash =
     \<lparr>User_ID = userID, User_Username = CUI_Username input, User_PasswordHash = passwordHash,
      User_Role = or_default (CUI_Role input) RoleUser, User_Status = UserEnabled,
      User_CreatedAt = 0, User_UpdatedAt = 0\<rparr>"

definition CreateUser :: "'r AdminEnv \<Rightarrow> CreateUserInput \<Rightarrow> ('r, User) admin" where
  "CreateUser env input =
     needs_store env
      (sbind (slift (validateCreateUserInput input)) (\<lambda>_.
       sbind (id_or_new env (CUI_ID input) ''user'') (\<lambda>userID.
       sbind (protected env (CUI_ActorID input) ''user'' userID ''create_user'' (ProtectUserMutation userID)) (\<lambda>_.
       if CUI_Username input = SystemUsername then sfail (Forbidden ''system username is reserved'')
       else sbind (slift (if blank (CUI_Password input) then Inr []
                          else HashPassword (ad_bcrypt env) (CUI_Password input))) (\<lambda>passwordHash.
         let user = new_user input userID passwordHash in
         sbind (in_store (users_Create False (ad_now env) user)) (\<lambda>_.
         audited env (CUI_ActorID input) ''user'' userID ''create_user'' user))))))"

definition set_user_status :: "'r AdminEnv \<Rightarrow> UserStatus \<Rightarrow> string \<Rightarrow> string \<Rightarrow> string \<Rightarrow> ('r, unit) admin" where
  "set_user_status env status action userID actorID =
     needs_store env
      (sbind (protected env actorID ''user'' userID action (ProtectUserMutation userID)) (\<lambda>_.
       sbind (in_store (users_SetStatus False (ad_now env) userID status)) (\<lambda>_.
       audit_Record env actorID ''user'' userID action)))"

definition DisableUser :: "'r AdminEnv \<Rightarrow> string \<Rightarrow> string \<Rightarrow> ('r, unit) admin" where
  "DisableUser env = set_user_status env UserDisabled ''disable_user''"

definition EnableUser :: "'r AdminEnv \<Rightarrow> string \<Rightarrow> string \<Rightarrow> ('r, unit) admin" where
  "EnableUser env = set_user_status env UserEnabled ''enable_user''"

definition SetUserPassword :: "'r AdminEnv \<Rightarrow> string \<Rightarrow> string \<Rightarrow> string \<Rightarrow> ('r, unit) admin" where
  "SetUserPassword env userID password actorID =
     needs_store env
      (sbind (protected env actorID ''user'' userID ''set_user_password'' (ProtectUserMutation userID)) (\<lambda>_.
       sbind (slift (validateSetUserPassword userID password)) (\<lambda>_.
       sbind (slift (as_field ''password'' (HashPassword (ad_bcrypt env) password))) (\<lambda>passwordHash.
       sbind (in_store (users_SetPassword False (ad_now env) userID passwordHash)) (\<lambda>_.
       audit_Record env actorID ''user'' userID ''set_user_password'')))))"

definition user_in_use :: "string \<Rightarrow> DB \<Rightarrow> unit result" where
  "user_in_use userID db =
     (if list_ex (\<lambda>client. Client_UserID client = userID) (clients_List db)
      then Inl (Conflict ''user has clients; disable and delete client resources before deleting the user'' None)
      else reject_if (list_ex (\<lambda>proxy. Proxy_UserID proxy = userID) (proxies_List db))
             (Conflict ''user has proxies; disable and delete proxy resources before deleting the user'' None))"

definition DeleteUser :: "'r AdminEnv \<Rightarrow> string \<Rightarrow> string \<Rightarrow> ('r, unit) admin" where
  "DeleteUser env userID actorID =
     needs_store env
      (if blank userID then sfail (Validation [(''id'', ''user id is required'')])
       else sbind (protected env actorID ''user'' userID ''delete_user'' (ProtectUserMutation userID)) (\<lambda>_.
         sbind (look (\<lambda>db. users_ByID db userID)) (\<lambda>_.
         sbind (look (user_in_use userID)) (\<lambda>_.
         sbind (in_store (users_Delete False userID)) (\<lambda>_.
         audit_Record env actorID ''user'' userID ''delete_user'')))))"

end
