(* ===== verification/AdminCertificates.thy ===== *)
theory AdminCertificates
  imports AdminDomains
begin

text \<open>
  CertificateService of internal/admin/certificate_service.go and ProviderCredentialService of
  provider_credential_service.go, over the certificate manager of CertOperations.
\<close>

section \<open>Certificates\<close>

record CertificateInput =
  CIN_CertificateID :: string
  CIN_ProxyID :: string
  CIN_ProviderType :: CertificateProviderType
  CIN_CredentialID :: string
  CIN_RequestType :: string
  CIN_RequestedValidity :: int
  CIN_ActorID :: string

record CreateCertificateInput =
  CCI_Host :: string
  CCI_ProviderType :: CertificateProviderType
  CCI_CredentialID :: string
  CCI_RequestType :: string
  CCI_RequestedValidity :: int
  CCI_CertFile :: string
  CCI_KeyFile :: string
  CCI_ActorID :: string

record DeleteCertificateInput =
  DCI_CertificateID :: string
  DCI_ConfirmHost :: string
  DCI_ConfirmCertificateID :: string
  DCI_ActorID :: string

record DeleteCertificateResult =
  DCR_CertificateID :: string
  DCR_AffectedProxyIDs :: "string list"
  DCR_RequiredConfirm :: bool

definition providerReadinessError :: "error \<Rightarrow> error" where
  "providerReadinessError e =
     (if errors_is e provider_not_ready
      then Contract ''PROVIDER_NOT_READY'' ''certificate provider is not ready'' None else e)"

definition or_not_ready :: "('r, 'a) admin \<Rightarrow> ('r, 'a) admin" where
  "or_not_ready m =
     shandle m (\<lambda>r. slift (case r of Inl e \<Rightarrow> Inl (providerReadinessError e) | Inr a \<Rightarrow> Inr a))"

definition reissue_request :: "CertificateInput \<Rightarrow> ManagedCertificate \<Rightarrow> CertificateIssueRequest" where
  "reissue_request input existing =
     \<lparr>CIR_CertificateID = CIN_CertificateID input, CIR_Host = Cert_Host existing,
      CIR_ProviderType = or_default (CIN_ProviderType input) (Cert_ProviderType existing),
      CIR_CredentialID = or_default (CIN_CredentialID input) (Cert_CredentialID existing), CIR_Hostnames = [],
      CIR_RequestType = or_default (CIN_RequestType input) (Cert_RequestType existing),
      CIR_RequestedValidity = (if CIN_RequestedValidity input = 0 then Cert_RequestedValidity existing
                               else CIN_RequestedValidity input),
      CIR_CertFile = [], CIR_KeyFile = []\<rparr>"

definition issue_with_provider :: "CertificateInput \<Rightarrow> ManagedCertificateRequest" where
  "issue_with_provider input =
     zeroManagedRequest\<lparr>MCR_ProxyID := CIN_ProxyID input, MCR_ProviderType := CIN_ProviderType input,
       MCR_CredentialID := CIN_CredentialID input, MCR_RequestType := CIN_RequestType input,
       MCR_RequestedValidity := CIN_RequestedValidity input\<rparr>"

definition issue_action :: "CertificateProviderType \<Rightarrow> string" where
  "issue_action providerType =
     (if providerType = CertificateProviderCloudflareOriginCA then ''issue_cloudflare_origin_certificate''
      else ''issue_managed_certificate'')"

definition IssueManagedCertificate :: "'r AdminEnv \<Rightarrow> CertificateInput \<Rightarrow> ('r, ManagedCertificate) admin" where
  "IssueManagedCertificate env input =
     (if \<not> blank (CIN_CertificateID input)
      then needs_store env
        (sbind (look (\<lambda>db. certs_ByID db (CIN_CertificateID input))) (\<lambda>existing.
         let request = reissue_request input existing in
         sbind (or_not_ready (in_world (IssueCertificate (ad_certs env) request))) (\<lambda>certificate.
         audited env (CIN_ActorID input) ''certificate'' (Cert_ID certificate) (issue_action (CIR_ProviderType request))
           certificate)))
      else sbind (or_not_ready (in_world (IssueWithProvider (ad_certs env) (issue_with_provider input)))) (\<lambda>certificate.
           audited env (CIN_ActorID input) ''certificate'' (Cert_ID certificate) (issue_action (CIN_ProviderType input))
             certificate))"

definition CertificateProviderReadiness :: "'r AdminEnv \<Rightarrow> ProviderReadiness list" where
  "CertificateProviderReadiness env =
     (if sv_hasStore (ad_certs env)
      then map (service_ProviderReadiness (ad_certs env)) [CertificateProviderACMEDNS01, CertificateProviderCloudflareOriginCA]
      else [])"

definition certificate_action ::
    "'r AdminEnv \<Rightarrow> string \<Rightarrow> string \<Rightarrow> (CertWorld, ManagedCertificate) op \<Rightarrow> ('r, ManagedCertificate) admin" where
  "certificate_action env actorID action m =
     sbind (in_world m) (\<lambda>certificate.
       audited env actorID ''certificate'' (Cert_ID certificate) action certificate)"

definition RenewManagedCertificate :: "'r AdminEnv \<Rightarrow> CertificateInput \<Rightarrow> ('r, ManagedCertificate) admin" where
  "RenewManagedCertificate env input =
     certificate_action env (CIN_ActorID input) ''renew_managed_certificate''
       (RenewByID (ad_certs env) (CIN_CertificateID input) (CIN_ProxyID input))"

definition admin_RotateOriginCACertificate :: "'r AdminEnv \<Rightarrow> CertificateInput \<Rightarrow> ('r, ManagedCertificate) admin" where
  "admin_RotateOriginCACertificate env input =
     certificate_action env (CIN_ActorID input) ''rotate_cloudflare_origin_certificate''
       (RotateOriginCAByID (ad_certs env) (CIN_CertificateID input) (CIN_ProxyID input))"

definition admin_SyncOriginCACertificate :: "'r AdminEnv \<Rightarrow> CertificateInput \<Rightarrow> ('r, ManagedCertificate) admin" where
  "admin_SyncOriginCACertificate env input =
     certificate_action env (CIN_ActorID input) ''sync_cloudflare_origin_certificate''
       (SyncOriginCAByID (ad_certs env) (CIN_CertificateID input) (CIN_ProxyID input))"

definition admin_RevokeOriginCACertificate ::
    "'r AdminEnv \<Rightarrow> OriginCARevokeRequest \<Rightarrow> string \<Rightarrow> ('r, ManagedCertificate) admin" where
  "admin_RevokeOriginCACertificate env request actorID =
     certificate_action env actorID ''revoke_cloudflare_origin_certificate'' (service_RevokeOriginCA (ad_certs env) request)"

definition create_request :: "CreateCertificateInput \<Rightarrow> string \<Rightarrow> CertificateProviderType \<Rightarrow> CertificateIssueRequest" where
  "create_request input host providerType =
     \<lparr>CIR_CertificateID = [], CIR_Host = host, CIR_ProviderType = providerType, CIR_CredentialID = CCI_CredentialID input,
      CIR_Hostnames = [], CIR_RequestType = CCI_RequestType input, CIR_RequestedValidity = CCI_RequestedValidity input,
      CIR_CertFile = CCI_CertFile input, CIR_KeyFile = CCI_KeyFile input\<rparr>"

definition CreateCertificate :: "'r AdminEnv \<Rightarrow> CreateCertificateInput \<Rightarrow> ('r, ManagedCertificate) admin" where
  "CreateCertificate env input =
     (let host = to_lower (trim_space (CCI_Host input));
          providerType = or_default (CCI_ProviderType input) CertificateProviderACMEDNS01;
          pair = ''file certificate requires both cert file and key file'' in
      if host = [] then sfail (Validation [(''host'', ''certificate host is required'')])
      else if \<not> certificateProviderType_Valid providerType
      then sfail (Validation [(''providerType'', ''certificate provider type is invalid'')])
      else if providerType = CertificateProviderFile \<and> (blank (CCI_CertFile input) \<or> blank (CCI_KeyFile input))
      then sfail (Validation [(''certFile'', pair), (''keyFile'', pair)])
      else sbind (or_not_ready (in_world (IssueCertificate (ad_certs env) (create_request input host providerType))))
        (\<lambda>certificate. audited env (CCI_ActorID input) ''certificate'' (Cert_ID certificate)
          (if providerType = CertificateProviderFile then ''create_file_certificate''
           else if providerType = CertificateProviderCloudflareOriginCA then ''create_cloudflare_origin_certificate''
           else ''create_managed_certificate'') certificate))"

definition deleteConfirmationMatches :: "ManagedCertificate \<Rightarrow> DeleteCertificateInput \<Rightarrow> bool" where
  "deleteConfirmationMatches certificate input \<longleftrightarrow>
     (equal_fold (trim_space (DCI_ConfirmCertificateID input)) (trim_space (Cert_ID certificate)) \<and>
      \<not> blank (DCI_ConfirmCertificateID input)) \<or>
     (let confirmHost = to_lower (trim_space (DCI_ConfirmHost input)) in
      confirmHost \<noteq> [] \<and> confirmHost = to_lower (trim_space (Cert_Host certificate)))"

text \<open>The unbinding, the deletion, the removal of the files, and what follows them.\<close>

definition delete_certificate ::
    "'r AdminEnv \<Rightarrow> DeleteCertificateInput \<Rightarrow> string \<Rightarrow> ManagedCertificate \<Rightarrow> Proxy option \<Rightarrow> bool \<Rightarrow>
     ('r, DeleteCertificateResult) admin" where
  "delete_certificate env input certificateID certificate boundProxy requireConfirm =
     sbind (case boundProxy of None \<Rightarrow> sret () | Some proxy \<Rightarrow> UnbindProxy env proxy) (\<lambda>_.
     sbind (in_store (certs_Delete certificateID)) (\<lambda>_.
     sbind (in_world (in_disk (CleanupManagedFiles (ad_certs env) certificate))) (\<lambda>_.
     sbind (ReconcileListeners env) (\<lambda>_.
     audited env (DCI_ActorID input) ''certificate'' certificateID ''delete_managed_certificate''
       \<lparr>DCR_CertificateID = certificateID,
        DCR_AffectedProxyIDs = (case boundProxy of None \<Rightarrow> [] | Some proxy \<Rightarrow> [Proxy_ID proxy]),
        DCR_RequiredConfirm = requireConfirm\<rparr>))))"

definition DeleteCertificate :: "'r AdminEnv \<Rightarrow> DeleteCertificateInput \<Rightarrow> ('r, DeleteCertificateResult) admin" where
  "DeleteCertificate env input =
     needs_store env
      (let certificateID = trim_space (DCI_CertificateID input) in
       if certificateID = [] then sfail (Validation [(''id'', ''certificate id is required'')])
       else sbind (look (\<lambda>db. certs_ByID db certificateID)) (\<lambda>certificate.
         sbind (look (\<lambda>db. ProxyBoundToCertificate db certificateID)) (\<lambda>boundProxy.
         sbind (sget (\<lambda>s. CertificateServable env (dk_files (cw_disk (as_world s))) certificate)) (\<lambda>servable.
         let requireConfirm = boundProxy \<noteq> None \<and> servable in
         if requireConfirm \<and> \<not> deleteConfirmationMatches certificate input
         then sfail (ConfirmationRequired
                ''certificate is bound to a proxy and currently serving; confirm deletion with a matching host or certificate id'')
         else delete_certificate env input certificateID certificate boundProxy requireConfirm))))"

definition BindCertificate :: "'r AdminEnv \<Rightarrow> string \<Rightarrow> string \<Rightarrow> string \<Rightarrow> ('r, Proxy) admin" where
  "BindCertificate env proxyID certificateID actorID =
     needs_store env
      (if blank proxyID then sfail (Validation [(''proxyId'', ''proxy id is required'')])
       else if blank certificateID then sfail (Validation [(''certificateId'', ''certificate id is required'')])
       else sbind (look (\<lambda>db. proxies_ByID db proxyID)) (\<lambda>proxy.
         if \<not> proxyType_IsWeb (Proxy_Type proxy) \<or> blank (Proxy_DomainID proxy)
         then sfail (Validation [(''type'', ''certificate binding requires a web proxy with domain'')])
         else sbind (look (\<lambda>db. domains_ByID db (Proxy_DomainID proxy))) (\<lambda>webDomain.
           sbind (look (\<lambda>db. ValidateBinding db certificateID (Dom_Host webDomain))) (\<lambda>_.
           sbind (in_store (domains_Update (ad_now env) (webDomain\<lparr>Dom_CertificateID := certificateID\<rparr>))) (\<lambda>_.
           sbind (ReconcileListeners env) (\<lambda>_.
           audited env actorID ''domain'' (Dom_ID webDomain) ''bind_certificate''
             (proxy\<lparr>Proxy_CertificateID := certificateID\<rparr>)))))))"

definition UnbindCertificate :: "'r AdminEnv \<Rightarrow> string \<Rightarrow> string \<Rightarrow> ('r, Proxy) admin" where
  "UnbindCertificate env proxyID actorID =
     needs_store env
      (if blank proxyID then sfail (Validation [(''proxyId'', ''proxy id is required'')])
       else sbind (look (\<lambda>db. proxies_ByID db proxyID)) (\<lambda>proxy.
         if blank (Proxy_DomainID proxy) then sret proxy
         else sbind (look (\<lambda>db. domains_ByID db (Proxy_DomainID proxy))) (\<lambda>webDomain.
           if blank (Dom_CertificateID webDomain) then sret proxy
           else sbind (UnbindDomain env webDomain) (\<lambda>_.
                sbind (ReconcileListeners env) (\<lambda>_.
                audited env actorID ''domain'' (Dom_ID webDomain) ''unbind_certificate'' proxy)))))"

definition ManagedCertificateStatus :: "'r AdminEnv \<Rightarrow> string \<Rightarrow> ('r, ManagedCertificate) admin" where
  "ManagedCertificateStatus env proxyID = in_world (service_Status (ad_certs env) proxyID)"

section \<open>Provider credentials\<close>

record ProviderCredentialInput =
  PCI_ID :: string
  PCI_Name :: string
  PCI_Scope :: string
  PCI_Token :: string
  PCI_ActorID :: string

abbreviation credential_storage_unavailable :: error where
  "credential_storage_unavailable \<equiv> Unsupported
     ''cloudflare origin ca credential storage is not configured; enable origin_ca_enabled and set origin_ca_secret_store_path''"

definition providerCredentialVerificationError :: "error \<Rightarrow> error" where
  "providerCredentialVerificationError e =
     (if errors_is e ErrProviderCredentialDisabled then Conflict ''provider credential is disabled'' (Some e)
      else let message = SafeCertificateError e in
        Conflict (''provider credential verification failed: '' @
          (if blank message then ''provider credential verification failed'' else message)) (Some e))"

definition TokenFingerprint :: "'r AdminEnv \<Rightarrow> string \<Rightarrow> string" where
  "TokenFingerprint env material = ad_SHA256 env (trim_space material)"

text \<open>The token is not a service key, there is a secret store, and the token is written to it.\<close>

definition write_token :: "'r AdminEnv \<Rightarrow> string \<Rightarrow> string \<Rightarrow> ('r, string) admin" where
  "write_token env credentialID token =
     in_world (in_disk (ad_secretWrite env credentialID (trim_space token)))"

definition token_accepted :: "'r AdminEnv \<Rightarrow> string \<Rightarrow> unit result" where
  "token_accepted env token =
     rbind (as_field ''token'' (RejectOriginCAServiceKey token)) (\<lambda>_.
       reject_if (sv_SecretStore (ad_certs env) = None) credential_storage_unavailable)"

definition new_credential :: "'r AdminEnv \<Rightarrow> ProviderCredentialInput \<Rightarrow> string \<Rightarrow> string \<Rightarrow> ProviderCredential" where
  "new_credential env input credentialID secretRef =
     \<lparr>PCred_ID = credentialID, PCred_Name = PCI_Name input, PCred_ProviderType = CertificateProviderCloudflareOriginCA,
      PCred_Scope = PCI_Scope input, PCred_TokenFingerprint = TokenFingerprint env (PCI_Token input),
      PCred_SecretRef = secretRef, PCred_Status = ProviderCredentialPending, PCred_LastVerifiedAt = None,
      PCred_LastError = [], PCred_CreatedAt = ad_now env, PCred_UpdatedAt = ad_now env\<rparr>"

definition CreateProviderCredential :: "'r AdminEnv \<Rightarrow> ProviderCredentialInput \<Rightarrow> ('r, ProviderCredential) admin" where
  "CreateProviderCredential env input =
     needs_store env
      (if blank (PCI_Name input) then sfail (Validation [(''name'', ''credential name is required'')])
       else if blank (PCI_Token input) then sfail (Validation [(''token'', ''cloudflare api token is required'')])
       else sbind (slift (token_accepted env (PCI_Token input))) (\<lambda>_.
         sbind (id_or_new env (trim_space (PCI_ID input)) ''cfcred'') (\<lambda>credentialID.
         sbind (write_token env credentialID (PCI_Token input)) (\<lambda>secretRef.
         let credential = new_credential env input credentialID secretRef in
         shandle (in_store (pcreds_Create (ad_now env) credential)) (\<lambda>r. case r of
           Inl e \<Rightarrow> sbind (ignoring (in_world (in_disk (ad_secretDelete env secretRef)))) (\<lambda>_. sfail e)
         | Inr _ \<Rightarrow> audited env (PCI_ActorID input) ''provider_credential'' credentialID ''create_provider_credential''
                      credential)))))"

definition replace_token :: "'r AdminEnv \<Rightarrow> string \<Rightarrow> ProviderCredential \<Rightarrow> ('r, ProviderCredential) admin" where
  "replace_token env token credential =
     (if blank token then sret credential
      else sbind (slift (token_accepted env token)) (\<lambda>_.
           sbind (write_token env (PCred_ID credential) token) (\<lambda>secretRef.
           sret (credential\<lparr>PCred_SecretRef := secretRef, PCred_TokenFingerprint := TokenFingerprint env token,
             PCred_Status := ProviderCredentialPending, PCred_LastVerifiedAt := None, PCred_LastError := []\<rparr>))))"

definition UpdateProviderCredential :: "'r AdminEnv \<Rightarrow> ProviderCredentialInput \<Rightarrow> ('r, ProviderCredential) admin" where
  "UpdateProviderCredential env input =
     needs_store env
      (let credentialID = trim_space (PCI_ID input) in
       if credentialID = [] then sfail (Validation [(''id'', ''credential id is required'')])
       else sbind (look (\<lambda>db. pcreds_ByID db credentialID)) (\<lambda>credential.
         let named = (if blank (PCI_Name input) then credential else credential\<lparr>PCred_Name := PCI_Name input\<rparr>) in
         sbind (replace_token env (PCI_Token input) (named\<lparr>PCred_Scope := PCI_Scope input\<rparr>)) (\<lambda>replaced.
         let updated = replaced\<lparr>PCred_UpdatedAt := ad_now env\<rparr> in
         sbind (in_store (pcreds_Update (ad_now env) updated)) (\<lambda>_.
         audited env (PCI_ActorID input) ''provider_credential'' (PCred_ID updated) ''update_provider_credential'' updated))))"

text \<open>The method returns the credential also when the verification failed; the result here is the error.\<close>

definition admin_VerifyProviderCredential :: "'r AdminEnv \<Rightarrow> string \<Rightarrow> string \<Rightarrow> ('r, ProviderCredential) admin" where
  "admin_VerifyProviderCredential env credentialID actorID =
     needs_store env
      (if sv_SecretStore (ad_certs env) = None then sfail credential_storage_unavailable
       else shandle (in_world (VerifyProviderCredential (ad_certs env) credentialID)) (\<lambda>verified.
         sbind (look (\<lambda>db. pcreds_ByID db credentialID)) (\<lambda>credential.
         shandle (audit_Record env actorID ''provider_credential'' (PCred_ID credential) ''verify_provider_credential'') (\<lambda>audit.
         slift (case verified of
                  Inl e \<Rightarrow> Inl (providerCredentialVerificationError e)
                | Inr _ \<Rightarrow> (case audit of Inl e \<Rightarrow> Inl e | Inr _ \<Rightarrow> Inr credential))))))"

definition DisableProviderCredential :: "'r AdminEnv \<Rightarrow> string \<Rightarrow> string \<Rightarrow> ('r, ProviderCredential) admin" where
  "DisableProviderCredential env credentialID actorID =
     needs_store env
      (sbind (in_store (pcreds_SetStatus (ad_now env) credentialID ProviderCredentialDisabled None [])) (\<lambda>_.
       sbind (look (\<lambda>db. pcreds_ByID db credentialID)) (\<lambda>credential.
       audited env actorID ''provider_credential'' (PCred_ID credential) ''disable_provider_credential'' credential)))"

definition DeleteProviderCredential :: "'r AdminEnv \<Rightarrow> string \<Rightarrow> string \<Rightarrow> ('r, unit) admin" where
  "DeleteProviderCredential env rawID actorID =
     needs_store env
      (let credentialID = trim_space rawID in
       if credentialID = [] then sfail (Validation [(''id'', ''credential id is required'')])
       else sbind (look (\<lambda>db. pcreds_ByID db credentialID)) (\<lambda>credential.
         sbind (look (\<lambda>db. reject_if (list_ex (\<lambda>c. Cert_CredentialID c = PCred_ID credential) (certs_List db))
           (Conflict ''provider credential is used by managed certificates; update or remove those certificates before deleting it'' None))) (\<lambda>_.
         sbind (if sv_SecretStore (ad_certs env) = None then sret ()
                else ignoring (in_world (in_disk (ad_secretDelete env (PCred_SecretRef credential))))) (\<lambda>_.
         sbind (in_store (pcreds_Delete credentialID)) (\<lambda>_.
         audit_Record env actorID ''provider_credential'' (PCred_ID credential) ''delete_provider_credential'')))))"

end
