(* ===== verification/Enrollment.thy ===== *)
theory Enrollment
  imports Store
begin

text \<open>
  Join tokens: internal/enrollment/token.go, the white space rule of internal/jointoken, the handler of
  internal/enrollmentapi, and the parts of internal/config they use. The encoding of a payload as JSON is a
  parameter (\<open>js_Marshal\<close> and \<open>js_Unmarshal\<close>, with SHA-256 in hexadecimal); base64 is written out.
\<close>

section \<open>base64.RawURLEncoding\<close>

definition b64_alphabet :: string where
  "b64_alphabet = ''ABCDEFGHIJKLMNOPQRSTUVWXYZabcdefghijklmnopqrstuvwxyz0123456789-_''"

definition b64_char :: "int \<Rightarrow> char" where
  "b64_char n = b64_alphabet ! nat n"

definition byte_of :: "char \<Rightarrow> int" where
  "byte_of c = int (of_char c)"

definition char_of_byte :: "int \<Rightarrow> char" where
  "char_of_byte n = char_of (nat n)"

text \<open>Three bytes are four digits of six bits; one or two bytes at the end are two or three digits.\<close>

fun b64_encode :: "string \<Rightarrow> string" where
  "b64_encode [] = []"
| "b64_encode [a] = [b64_char (byte_of a div 4), b64_char (byte_of a mod 4 * 16)]"
| "b64_encode [a, b] =
     [b64_char (byte_of a div 4), b64_char (byte_of a mod 4 * 16 + byte_of b div 16), b64_char (byte_of b mod 16 * 4)]"
| "b64_encode (a # b # c # rest) =
     b64_char (byte_of a div 4) # b64_char (byte_of a mod 4 * 16 + byte_of b div 16) #
     b64_char (byte_of b mod 16 * 4 + byte_of c div 64) # b64_char (byte_of c mod 64) # b64_encode rest"

fun index_from :: "int \<Rightarrow> string \<Rightarrow> char \<Rightarrow> int option" where
  "index_from n [] c = None"
| "index_from n (x # xs) c = (if x = c then Some n else index_from (n + 1) xs c)"

definition b64_digit :: "char \<Rightarrow> int option" where
  "b64_digit c = index_from 0 b64_alphabet c"

fun b64_digits :: "string \<Rightarrow> int list option" where
  "b64_digits [] = Some []"
| "b64_digits (c # cs) =
     (case b64_digit c of
        None \<Rightarrow> None
      | Some d \<Rightarrow> (case b64_digits cs of None \<Rightarrow> None | Some ds \<Rightarrow> Some (d # ds)))"

text \<open>A single digit that is left is an error; bits that do not fill a byte are dropped.\<close>

fun b64_bytes :: "int list \<Rightarrow> string option" where
  "b64_bytes [] = Some []"
| "b64_bytes [d] = None"
| "b64_bytes [d, e] = Some [char_of_byte (d * 4 + e div 16)]"
| "b64_bytes [d, e, f] = Some [char_of_byte (d * 4 + e div 16), char_of_byte (e mod 16 * 16 + f div 4)]"
| "b64_bytes (d # e # f # g # rest) =
     map_option (\<lambda>s. char_of_byte (d * 4 + e div 16) # char_of_byte (e mod 16 * 16 + f div 4) #
       char_of_byte (f mod 4 * 64 + g) # s) (b64_bytes rest)"

text \<open>DecodeString skips line ends.\<close>

definition b64_decode :: "string \<Rightarrow> string result" where
  "b64_decode s =
     (case b64_digits (filter (\<lambda>c. c \<noteq> CHR 0x0A \<and> c \<noteq> CHR 0x0D) s) of
        None \<Rightarrow> Inl (New ''illegal base64 data'')
      | Some ds \<Rightarrow> (case b64_bytes ds of None \<Rightarrow> Inl (New ''illegal base64 data'') | Some r \<Rightarrow> Inr r))"

section \<open>White space in a token\<close>

text \<open>The number counts the bytes of a white space character that are still to be dropped.\<close>

fun drop_spaces :: "nat \<Rightarrow> string \<Rightarrow> string" where
  "drop_spaces k [] = []"
| "drop_spaces (Suc k) (c # cs) = drop_spaces k cs"
| "drop_spaces 0 (c # cs) =
     (case find (has_prefix (c # cs)) go_spaces of
        Some p \<Rightarrow> drop_spaces (length p - 1) cs
      | None \<Rightarrow> c # drop_spaces 0 cs)"

definition jointoken_Normalize :: "string \<Rightarrow> string" where
  "jointoken_Normalize token = drop_spaces 0 token"

section \<open>Client configuration\<close>

record Reconnect =
  RC_InitialDelay :: duration
  RC_MaxDelay :: duration

record ClientConfig =
  CC_ServerAddress :: string
  CC_ServerTLSAddress :: string
  CC_ServerName :: string
  CC_ServerCAFile :: string
  CC_ClientID :: string
  CC_Credential :: string
  CC_AllowedProtocols :: "Protocol list"
  CC_Reconnect :: Reconnect
  CC_LogMaxSizeMB :: int
  CC_LogMaxBackups :: int
  CC_LogRetentionDays :: int
  CC_LogCompress :: bool

record LogRotation =
  LR_MaxSizeMB :: int
  LR_MaxBackups :: int
  LR_RetentionDays :: int
  LR_Compress :: bool

definition DefaultLogRotation :: LogRotation where
  "DefaultLogRotation = \<lparr>LR_MaxSizeMB = 50, LR_MaxBackups = 10, LR_RetentionDays = 7, LR_Compress = True\<rparr>"

definition DefaultClient :: ClientConfig where
  "DefaultClient =
     \<lparr>CC_ServerAddress = [], CC_ServerTLSAddress = [], CC_ServerName = [], CC_ServerCAFile = [], CC_ClientID = [],
      CC_Credential = [], CC_AllowedProtocols = [ProtocolQUIC, ProtocolTCPTLS],
      CC_Reconnect = \<lparr>RC_InitialDelay = Second, RC_MaxDelay = 30 * Second\<rparr>,
      CC_LogMaxSizeMB = LR_MaxSizeMB DefaultLogRotation, CC_LogMaxBackups = LR_MaxBackups DefaultLogRotation,
      CC_LogRetentionDays = LR_RetentionDays DefaultLogRotation, CC_LogCompress = LR_Compress DefaultLogRotation\<rparr>"

section \<open>Tokens\<close>

abbreviation TokenPrefix :: string where "TokenPrefix \<equiv> ''goginx_join_''"

record TokenPayload =
  TP_Version :: int
  TP_EnrollmentID :: string
  TP_Secret :: string
  TP_EnrollmentURL :: string
  TP_ServerAddress :: string
  TP_ServerTLSAddress :: string
  TP_ServerName :: string
  TP_CAPEM :: string
  TP_ClientID :: string
  TP_Credential :: string
  TP_AllowedProtocols :: "Protocol list"
  TP_Reconnect :: Reconnect
  TP_ExpiresAt :: time

record TokenCodec =
  js_Marshal :: "TokenPayload \<Rightarrow> string result"
  js_Unmarshal :: "string \<Rightarrow> TokenPayload result"
  js_SHA256 :: "string \<Rightarrow> string"

definition zeroTokenPayload :: TokenPayload where
  "zeroTokenPayload =
     \<lparr>TP_Version = 0, TP_EnrollmentID = [], TP_Secret = [], TP_EnrollmentURL = [], TP_ServerAddress = [],
      TP_ServerTLSAddress = [], TP_ServerName = [], TP_CAPEM = [], TP_ClientID = [], TP_Credential = [],
      TP_AllowedProtocols = [], TP_Reconnect = \<lparr>RC_InitialDelay = 0, RC_MaxDelay = 0\<rparr>, TP_ExpiresAt = 0\<rparr>"

definition EncodeToken :: "TokenCodec \<Rightarrow> TokenPayload \<Rightarrow> string result" where
  "EncodeToken codec payload =
     rbind (js_Marshal codec (payload\<lparr>TP_Version := 1\<rparr>)) (\<lambda>content. Inr (TokenPrefix @ b64_encode content))"

definition tokenPayload_Validate :: "TokenPayload \<Rightarrow> unit result" where
  "tokenPayload_Validate payload =
     (if blank (TP_EnrollmentID payload) then Inl (New ''enrollment id is required'')
      else if blank (TP_Secret payload) then Inl (New ''enrollment secret is required'')
      else if blank (TP_EnrollmentURL payload) then Inl (New ''enrollment url is required'')
      else if blank (TP_ServerAddress payload) then Inl (New ''server address is required'')
      else if blank (TP_ServerName payload) then Inl (New ''server name is required'')
      else if blank (TP_CAPEM payload) then Inl (New ''ca pem is required'')
      else if blank (TP_ClientID payload) then Inl (New ''client id is required'')
      else if blank (TP_Credential payload) then Inl (New ''client credential is required'')
      else if TP_AllowedProtocols payload = [] then Inl (New ''allowed protocols are required'')
      else if IsZero (TP_ExpiresAt payload) then Inl (New ''enrollment expiry is required'')
      else Inr ())"

definition DecodeToken :: "TokenCodec \<Rightarrow> string \<Rightarrow> TokenPayload result" where
  "DecodeToken codec token =
     (let raw = jointoken_Normalize token in
      if \<not> has_prefix raw TokenPrefix then Inl (New ''join token has invalid prefix'')
      else rbind (b64_decode (drop (length TokenPrefix) raw)) (\<lambda>content.
           rbind (js_Unmarshal codec content) (\<lambda>payload.
           if TP_Version payload \<noteq> 1 then Inl (New ''join token version is unsupported'')
           else rbind (tokenPayload_Validate payload) (\<lambda>_. Inr payload))))"

definition HashSecret :: "TokenCodec \<Rightarrow> string \<Rightarrow> string" where
  "HashSecret codec secret = js_SHA256 codec secret"

definition HashToken :: "TokenCodec \<Rightarrow> string \<Rightarrow> string" where
  "HashToken codec token = js_SHA256 codec (jointoken_Normalize token)"

section \<open>Redemption\<close>

record RedeemResponse =
  RR_ServerAddress :: string
  RR_ServerTLSAddress :: string
  RR_ServerName :: string
  RR_CAPEM :: string
  RR_ClientID :: string
  RR_Credential :: string
  RR_AllowedProtocols :: "Protocol list"
  RR_Reconnect :: Reconnect

definition redeem_response :: "TokenPayload \<Rightarrow> RedeemResponse" where
  "redeem_response payload =
     \<lparr>RR_ServerAddress = TP_ServerAddress payload, RR_ServerTLSAddress = TP_ServerTLSAddress payload,
      RR_ServerName = TP_ServerName payload, RR_CAPEM = TP_CAPEM payload, RR_ClientID = TP_ClientID payload,
      RR_Credential = TP_Credential payload, RR_AllowedProtocols = TP_AllowedProtocols payload,
      RR_Reconnect = TP_Reconnect payload\<rparr>"

definition redeemable_record :: "TokenCodec \<Rightarrow> time \<Rightarrow> string \<Rightarrow> TokenPayload \<Rightarrow> ClientEnrollment \<Rightarrow> unit result" where
  "redeemable_record codec now token payload record =
     (if Enr_UsedAt record \<noteq> None then Inl (Wrapf ''enrollment token already used'' ErrConflict)
      else if \<not> Enr_ExpiresAt record > now \<or> TP_ExpiresAt payload < now
      then Inl (Wrapf ''enrollment token expired'' ErrNotFound)
      else if Enr_SecretHash record \<noteq> HashSecret codec (TP_Secret payload)
      then Inl (Wrapf ''enrollment secret mismatch'' ErrNotFound)
      else if Enr_TokenHash record \<noteq> HashToken codec token
      then Inl (Wrapf ''enrollment token mismatch'' ErrNotFound)
      else Inr ())"

definition Redeem :: "TokenCodec \<Rightarrow> time \<Rightarrow> string \<Rightarrow> (DB, RedeemResponse) op" where
  "Redeem codec now token =
     sbind (slift (DecodeToken codec token)) (\<lambda>payload.
     sbind (sread (\<lambda>db. enrollments_ByID db (TP_EnrollmentID payload))) (\<lambda>record.
     sbind (slift (redeemable_record codec now token payload record)) (\<lambda>_.
     sbind (enrollments_MarkUsed (Enr_ID record) now) (\<lambda>_.
     sret (redeem_response payload)))))"

definition ConfigFromResponse :: "RedeemResponse \<Rightarrow> string \<Rightarrow> ClientConfig" where
  "ConfigFromResponse response caFile =
     DefaultClient\<lparr>CC_ServerAddress := RR_ServerAddress response, CC_ServerTLSAddress := RR_ServerTLSAddress response,
       CC_ServerName := RR_ServerName response, CC_ServerCAFile := caFile, CC_ClientID := RR_ClientID response,
       CC_Credential := RR_Credential response, CC_AllowedProtocols := RR_AllowedProtocols response,
       CC_Reconnect := RR_Reconnect response\<rparr>"

definition HTTPStatusForError :: "error \<Rightarrow> int" where
  "HTTPStatusForError e =
     (if errors_is e ErrConflict then 409 else if errors_is e ErrNotFound then 401 else 400)"

text \<open>
  The handler of the enrollment server: the method, the body as the JSON decoder reads it, and the answer
  as a status with the response or with the code of an error.
\<close>

definition enrollHandler ::
    "TokenCodec \<Rightarrow> time \<Rightarrow> string \<Rightarrow> string result \<Rightarrow> DB \<Rightarrow> (int \<times> (string + RedeemResponse)) \<times> DB" where
  "enrollHandler codec now method body db =
     (if method \<noteq> ''POST'' then ((405, Inl ''METHOD_NOT_ALLOWED''), db)
      else case body of
             Inl e \<Rightarrow> ((400, Inl ''BAD_REQUEST''), db)
           | Inr token \<Rightarrow>
               (case Redeem codec now token db of
                  (Inl e, db') \<Rightarrow> ((HTTPStatusForError e, Inl ''UNAUTHENTICATED''), db')
                | (Inr response, db') \<Rightarrow> ((200, Inr response), db')))"

end
