(* ===== verification/AdminClients.thy ===== *)
theory AdminClients
  imports AdminCertificates Enrollment
begin

text \<open>
  ClientService of internal/admin/client_service.go (clients, their credentials and their join tokens) and
  LocalService of local_service.go (the proxies of the server itself and the allowlist of their targets).
\<close>

section \<open>Clients\<close>

record CreateClientInput =
  CKI_ID :: string
  CKI_UserID :: string
  CKI_Name :: string
  CKI_Kind :: ClientKind
  CKI_Credential :: string
  CKI_ActorID :: string

record CreateClientJoinInput =
  CJI_ID :: string
  CJI_UserID :: string
  CJI_Name :: string
  CJI_ActorID :: string
  CJI_EnrollmentURL :: string
  CJI_ServerAddress :: string
  CJI_ServerTLSAddress :: string
  CJI_ServerName :: string
  CJI_ServerCAFile :: string
  CJI_AllowedProtocols :: "Protocol list"
  CJI_Reconnect :: Reconnect
  CJI_TTL :: duration

record JoinTokenResult =
  JTR_Client :: Client
  JTR_Token :: string
  JTR_ExpiresAt :: time

abbreviation unavailableJoinTokenError :: error where
  "unavailableJoinTokenError \<equiv> Conflict ''join token is not available; generate a new join token'' None"

definition validateCreateClientInput :: "CreateClientInput \<Rightarrow> unit result" where
  "validateCreateClientInput input =
     rejected
      (field_if (blank (CKI_UserID input)) ''userId'' ''user id is required'' @
       field_if (blank (CKI_Name input)) ''name'' ''client name is required'' @
       field_if (\<not> clientKind_Valid (NormalizeClientKind (CKI_Kind input))) ''kind'' ''client kind is invalid'')"

definition new_client :: "'r AdminEnv \<Rightarrow> CreateClientInput \<Rightarrow> string \<Rightarrow> Client" where
  "new_client env input clientID =
     zeroClient\<lparr>Client_ID := clientID, Client_UserID := CKI_UserID input, Client_Name := CKI_Name input,
       Client_Kind := NormalizeClientKind (CKI_Kind input), Client_Status := ClientOffline,
       Client_CredentialHash := ad_SHA256 env (CKI_Credential input)\<rparr>"

definition CreateClient :: "'r AdminEnv \<Rightarrow> CreateClientInput \<Rightarrow> ('r, Client) admin" where
  "CreateClient env input =
     needs_store env
      (sbind (slift (validateCreateClientInput input)) (\<lambda>_.
       if blank (CKI_Credential input) then sfail (Validation [(''credential'', ''credential is required'')])
       else sbind (id_or_new env (CKI_ID input) ''client'') (\<lambda>clientID.
         sbind (protected env (CKI_ActorID input) ''client'' clientID ''create_client'' (ProtectClientMutation clientID)) (\<lambda>_.
         if IsSystemUserID (CKI_UserID input) then sfail (Forbidden ''system user cannot own regular clients'')
         else sbind (look (\<lambda>db. users_ByID db (CKI_UserID input))) (\<lambda>_.
           let client = new_client env input clientID in
           sbind (in_store (clients_Create False (ad_now env) client)) (\<lambda>_.
           audited env (CKI_ActorID input) ''client'' clientID ''create_client'' client))))))"

text \<open>The client with its hash blanked, and the credential.\<close>

definition CreateClientWithCredential :: "'r AdminEnv \<Rightarrow> CreateClientInput \<Rightarrow> ('r, Client \<times> string) admin" where
  "CreateClientWithCredential env input =
     sbind (if blank (CKI_Credential input) then newCredential env else sret (CKI_Credential input)) (\<lambda>credential.
     sbind (CreateClient env (input\<lparr>CKI_Credential := credential\<rparr>)) (\<lambda>client.
     sret (client\<lparr>Client_CredentialHash := []\<rparr>, credential)))"

section \<open>Join tokens\<close>

definition ControlTLSCAFile :: string where
  "ControlTLSCAFile = ''data/certs/control-ca.crt''"

definition or_blank :: "string \<Rightarrow> string \<Rightarrow> string" where
  "or_blank value dflt = (if blank value then dflt else value)"

text \<open>The input with the defaults of the service filled in.\<close>

definition join_defaults :: "JoinServiceDefaults \<Rightarrow> CreateClientJoinInput \<Rightarrow> CreateClientJoinInput" where
  "join_defaults dflt input =
     input\<lparr>CJI_TTL := (if CJI_TTL input \<le> 0 then Hour else CJI_TTL input),
       CJI_AllowedProtocols := (if CJI_AllowedProtocols input = [] then CC_AllowedProtocols DefaultClient
                                else CJI_AllowedProtocols input),
       CJI_Reconnect := (if RC_InitialDelay (CJI_Reconnect input) \<le> 0 \<or> RC_MaxDelay (CJI_Reconnect input) \<le> 0
                         then CC_Reconnect DefaultClient else CJI_Reconnect input),
       CJI_EnrollmentURL := or_blank (CJI_EnrollmentURL input) (JD_EnrollmentURL dflt),
       CJI_ServerAddress := or_blank (CJI_ServerAddress input) (JD_ServerAddress dflt),
       CJI_ServerTLSAddress := or_blank (CJI_ServerTLSAddress input) (JD_ServerTLSAddress dflt),
       CJI_ServerName := or_blank (CJI_ServerName input) (JD_ServerName dflt),
       CJI_ServerCAFile := or_blank (CJI_ServerCAFile input) (JD_ServerCAFile dflt)\<rparr>"

definition server_fields :: "string \<Rightarrow> string \<Rightarrow> string \<Rightarrow> unit result" where
  "server_fields enrollmentURL serverAddress serverName =
     (if blank enrollmentURL then Inl (Validation [(''enrollmentUrl'', ''enrollment url is required'')])
      else if blank serverAddress then Inl (Validation [(''serverAddress'', ''server address is required'')])
      else if blank serverName then Inl (Validation [(''serverName'', ''server name is required'')])
      else Inr ())"

definition read_CA :: "'r AdminEnv \<Rightarrow> string \<Rightarrow> ('r, string) admin" where
  "read_CA env serverCAFile =
     shandle (in_world (in_disk (os_ReadFile (ce_fc (sv_certEnv (ad_certs env))) (or_blank serverCAFile ControlTLSCAFile))))
       (\<lambda>r. case r of
          Inl e \<Rightarrow> sfail (if errors_is e ErrNotExist
                          then Validation [(''serverCAFile'', ''server CA file was not found'')] else e)
        | Inr content \<Rightarrow> sret (string_of_bytes content))"

definition enrollment_record :: "TokenCodec \<Rightarrow> TokenPayload \<Rightarrow> string \<Rightarrow> ClientEnrollment" where
  "enrollment_record codec payload token =
     \<lparr>Enr_ID = TP_EnrollmentID payload, Enr_ClientID = TP_ClientID payload,
      Enr_SecretHash = HashSecret codec (TP_Secret payload), Enr_TokenHash = HashToken codec token, Enr_Token = token,
      Enr_ExpiresAt = TP_ExpiresAt payload, Enr_UsedAt = None, Enr_CreatedAt = 0, Enr_UpdatedAt = 0\<rparr>"

definition join_payload ::
    "CreateClientJoinInput \<Rightarrow> string \<Rightarrow> string \<Rightarrow> string \<Rightarrow> string \<Rightarrow> string \<Rightarrow> time \<Rightarrow> TokenPayload" where
  "join_payload input enrollmentID secret caPEM clientID credential expiresAt =
     \<lparr>TP_Version = 0, TP_EnrollmentID = enrollmentID, TP_Secret = secret, TP_EnrollmentURL = CJI_EnrollmentURL input,
      TP_ServerAddress = CJI_ServerAddress input, TP_ServerTLSAddress = CJI_ServerTLSAddress input,
      TP_ServerName = CJI_ServerName input, TP_CAPEM = caPEM, TP_ClientID = clientID, TP_Credential = credential,
      TP_AllowedProtocols = CJI_AllowedProtocols input, TP_Reconnect = CJI_Reconnect input, TP_ExpiresAt = expiresAt\<rparr>"

definition client_of_join :: "CreateClientJoinInput \<Rightarrow> CreateClientInput" where
  "client_of_join input =
     \<lparr>CKI_ID = CJI_ID input, CKI_UserID = CJI_UserID input, CKI_Name = CJI_Name input, CKI_Kind = [],
      CKI_Credential = [], CKI_ActorID = CJI_ActorID input\<rparr>"

definition CreateClientJoin ::
    "'r AdminEnv \<Rightarrow> TokenCodec \<Rightarrow> CreateClientJoinInput \<Rightarrow> ('r, Client \<times> string) admin" where
  "CreateClientJoin env codec given =
     needs_store env
      (let input = join_defaults (ad_join env) given in
       sbind (slift (server_fields (CJI_EnrollmentURL input) (CJI_ServerAddress input) (CJI_ServerName input))) (\<lambda>_.
       sbind (read_CA env (CJI_ServerCAFile input)) (\<lambda>caPEM.
       sbind (CreateClientWithCredential env (client_of_join input)) (\<lambda>(client, credential).
       sbind (newID env ''join'') (\<lambda>enrollmentID.
       sbind (newCredential env) (\<lambda>secret.
       let payload = join_payload input enrollmentID secret caPEM (Client_ID client) credential
                       (ad_now env + CJI_TTL input) in
       sbind (slift (EncodeToken codec payload)) (\<lambda>token.
       sbind (in_store (enrollments_Create (ad_now env) (enrollment_record codec payload token))) (\<lambda>_.
       audited env (CJI_ActorID input) ''client'' (Client_ID client) ''create_client_join'' (client, token)))))))))"

definition usesLegacyAdminEnrollmentURL :: "JoinServiceDefaults \<Rightarrow> string \<Rightarrow> bool" where
  "usesLegacyAdminEnrollmentURL dflt enrollmentURL \<longleftrightarrow>
     (let current = trim_space (JD_EnrollmentURL dflt); legacy = trim_space (JD_LegacyAdminEnrollmentURL dflt) in
      current \<noteq> [] \<and> legacy \<noteq> [] \<and> current \<noteq> legacy \<and> trim_space enrollmentURL = legacy)"

definition tokenUsesLegacyAdminEnrollmentURL :: "JoinServiceDefaults \<Rightarrow> TokenCodec \<Rightarrow> string \<Rightarrow> string \<Rightarrow> bool" where
  "tokenUsesLegacyAdminEnrollmentURL dflt codec token clientID =
     (case DecodeToken codec token of
        Inl _ \<Rightarrow> False
      | Inr payload \<Rightarrow> TP_ClientID payload = clientID \<and> usesLegacyAdminEnrollmentURL dflt (TP_EnrollmentURL payload))"

definition defaultJoinTokenPayload :: "'r AdminEnv \<Rightarrow> ('r, TokenPayload) admin" where
  "defaultJoinTokenPayload env =
     (let dflt = ad_join env in
      sbind (slift (server_fields (JD_EnrollmentURL dflt) (JD_ServerAddress dflt) (JD_ServerName dflt))) (\<lambda>_.
      sbind (read_CA env (JD_ServerCAFile dflt)) (\<lambda>caPEM.
      sret (zeroTokenPayload\<lparr>TP_EnrollmentURL := JD_EnrollmentURL dflt, TP_ServerAddress := JD_ServerAddress dflt,
        TP_ServerTLSAddress := JD_ServerTLSAddress dflt, TP_ServerName := JD_ServerName dflt, TP_CAPEM := caPEM,
        TP_AllowedProtocols := CC_AllowedProtocols DefaultClient, TP_Reconnect := CC_Reconnect DefaultClient\<rparr>))))"

text \<open>What the last unused token of the client still says, when it can be read and is the client's.\<close>

definition base_payload :: "JoinServiceDefaults \<Rightarrow> TokenCodec \<Rightarrow> Client \<Rightarrow> ClientEnrollment \<Rightarrow> TokenPayload" where
  "base_payload dflt codec client latest =
     (case DecodeToken codec (Enr_Token latest) of
        Inl _ \<Rightarrow> zeroTokenPayload
      | Inr decoded \<Rightarrow>
          (if TP_ClientID decoded \<noteq> Client_ID client then zeroTokenPayload
           else if usesLegacyAdminEnrollmentURL dflt (TP_EnrollmentURL decoded)
           then decoded\<lparr>TP_EnrollmentURL := JD_EnrollmentURL dflt\<rparr> else decoded))"

definition token_lifetime :: "ClientEnrollment \<Rightarrow> duration" where
  "token_lifetime latest =
     (let ttl = time_Sub (Enr_ExpiresAt latest) (Enr_CreatedAt latest) in if ttl \<le> 0 then Hour else ttl)"

definition reset_basis ::
    "'r AdminEnv \<Rightarrow> TokenCodec \<Rightarrow> Client \<Rightarrow> time \<Rightarrow> bool \<Rightarrow> DB \<Rightarrow> (TokenPayload \<times> duration) result" where
  "reset_basis env codec client now allowActive db =
     (case enrollments_LatestUnusedByClientID db (Client_ID client) of
        Inl e \<Rightarrow> if errors_is e ErrNotFound then Inr (zeroTokenPayload, Hour) else Inl e
      | Inr latest \<Rightarrow>
          (if Enr_ExpiresAt latest > now \<and> \<not> allowActive then Inl unavailableJoinTokenError
           else Inr (base_payload (ad_join env) codec client latest, token_lifetime latest)))"

definition resetClientJoinToken ::
    "'r AdminEnv \<Rightarrow> TokenCodec \<Rightarrow> Client \<Rightarrow> string \<Rightarrow> time \<Rightarrow> bool \<Rightarrow> ('r, JoinTokenResult) admin" where
  "resetClientJoinToken env codec client actorID now allowActive =
     sbind (look (reset_basis env codec client now allowActive)) (\<lambda>(found, ttl).
     sbind (if TP_EnrollmentURL found = [] then defaultJoinTokenPayload env else sret found) (\<lambda>basePayload.
     sbind (newCredential env) (\<lambda>credential.
     sbind (newCredential env) (\<lambda>secret.
     sbind (newID env ''join'') (\<lambda>enrollmentID.
     let expiresAt = now + ttl;
         payload = basePayload\<lparr>TP_EnrollmentID := enrollmentID, TP_Secret := secret, TP_ClientID := Client_ID client,
                     TP_Credential := credential, TP_ExpiresAt := expiresAt\<rparr> in
     sbind (slift (EncodeToken codec payload)) (\<lambda>token.
     sbind (in_store (clients_RotateCredential False (ad_now env) (Client_ID client) (ad_SHA256 env credential))) (\<lambda>_.
     sbind (in_store (enrollments_Create (ad_now env) (enrollment_record codec payload token))) (\<lambda>_.
     audited env actorID ''client'' (Client_ID client) ''reset_client_join_token''
       \<lparr>JTR_Client = client\<lparr>Client_CredentialHash := []\<rparr>, JTR_Token = token, JTR_ExpiresAt = expiresAt\<rparr>))))))))"

abbreviation client_id_required :: error where
  "client_id_required \<equiv> Validation [(''id'', ''client id is required'')]"

definition ReviewClientJoinToken :: "'r AdminEnv \<Rightarrow> TokenCodec \<Rightarrow> string \<Rightarrow> string \<Rightarrow> ('r, JoinTokenResult) admin" where
  "ReviewClientJoinToken env codec clientID actorID =
     needs_store env
      (if blank clientID then sfail client_id_required
       else sbind (protected env actorID ''client'' clientID ''review_client_join_token'' (ProtectClientMutation clientID)) (\<lambda>_.
         sbind (look (\<lambda>db. clients_ByID db clientID)) (\<lambda>client.
         let now = ad_now env in
         shandle (look (\<lambda>db. enrollments_LatestReviewableByClientID db clientID now)) (\<lambda>r. case r of
           Inl e \<Rightarrow> if errors_is e ErrNotFound then resetClientJoinToken env codec client actorID now False else sfail e
         | Inr record \<Rightarrow>
             if tokenUsesLegacyAdminEnrollmentURL (ad_join env) codec (Enr_Token record) (Client_ID client)
             then resetClientJoinToken env codec client actorID now True
             else audited env actorID ''client'' (Client_ID client) ''review_client_join_token''
                    \<lparr>JTR_Client = client, JTR_Token = Enr_Token record, JTR_ExpiresAt = Enr_ExpiresAt record\<rparr>))))"

section \<open>Status, deletion and rotation\<close>

definition client_change ::
    "'r AdminEnv \<Rightarrow> string \<Rightarrow> string \<Rightarrow> string \<Rightarrow> ('r, unit) admin \<Rightarrow> ('r, unit) admin" where
  "client_change env action clientID actorID m =
     needs_store env
      (if blank clientID then sfail client_id_required
       else sbind (protected env actorID ''client'' clientID action (ProtectClientMutation clientID)) (\<lambda>_.
         sbind m (\<lambda>_. audit_Record env actorID ''client'' clientID action)))"

definition EnableClient :: "'r AdminEnv \<Rightarrow> string \<Rightarrow> string \<Rightarrow> ('r, unit) admin" where
  "EnableClient env clientID actorID =
     client_change env ''enable_client'' clientID actorID
       (in_store (clients_SetStatus False (ad_now env) clientID ClientOffline))"

definition DisableClient :: "'r AdminEnv \<Rightarrow> string \<Rightarrow> string \<Rightarrow> ('r, unit) admin" where
  "DisableClient env clientID actorID =
     client_change env ''disable_client'' clientID actorID
       (in_store (clients_SetStatus False (ad_now env) clientID ClientDisabled))"

definition DeleteClient :: "'r AdminEnv \<Rightarrow> string \<Rightarrow> string \<Rightarrow> ('r, unit) admin" where
  "DeleteClient env clientID actorID =
     client_change env ''delete_client'' clientID actorID
       (sbind (look (\<lambda>db. clients_ByID db clientID)) (\<lambda>_.
        sbind (look (\<lambda>db. reject_if (list_ex (\<lambda>proxy. Proxy_Status proxy = ProxyEnabled) (proxies_ByClientID db clientID))
          (Conflict ''client has enabled proxies; disable proxies before deleting the client'' None))) (\<lambda>_.
        in_store (clients_Delete False clientID))))"

definition RotateClientCredential :: "'r AdminEnv \<Rightarrow> string \<Rightarrow> string \<Rightarrow> ('r, Client \<times> string) admin" where
  "RotateClientCredential env clientID actorID =
     needs_store env
      (if blank clientID then sfail client_id_required
       else sbind (protected env actorID ''client'' clientID ''rotate_client_credential'' (ProtectClientMutation clientID)) (\<lambda>_.
         sbind (look (\<lambda>db. clients_ByID db clientID)) (\<lambda>_.
         sbind (newCredential env) (\<lambda>credential.
         sbind (in_store (clients_RotateCredential False (ad_now env) clientID (ad_SHA256 env credential))) (\<lambda>_.
         sbind (look (\<lambda>db. clients_ByID db clientID)) (\<lambda>client.
         audited env actorID ''client'' (Client_ID client) ''rotate_client_credential''
           (client\<lparr>Client_CredentialHash := []\<rparr>, credential)))))))"

section \<open>Proxies of the server itself\<close>

record LocalProxyInput =
  LPI_ID :: string
  LPI_Name :: string
  LPI_Type :: ProxyType
  LPI_EntryBindHost :: string
  LPI_EntryPort :: int
  LPI_TargetHost :: string
  LPI_TargetPort :: int
  LPI_Description :: string

definition localProxyFromInput :: "LocalProxyInput \<Rightarrow> Proxy" where
  "localProxyFromInput input =
     zeroProxy\<lparr>Proxy_ID := LPI_ID input, Proxy_UserID := SystemUserID, Proxy_ClientID := SystemClientID,
       Proxy_Name := LPI_Name input, Proxy_Type := LPI_Type input, Proxy_Status := ProxyEnabled,
       Proxy_EntryBindHost := LPI_EntryBindHost input, Proxy_EntryPort := LPI_EntryPort input,
       Proxy_TargetHost := LPI_TargetHost input, Proxy_TargetPort := LPI_TargetPort input,
       Proxy_Description := LPI_Description input\<rparr>"

definition validateInput :: "'r AdminEnv \<Rightarrow> policySnapshot \<Rightarrow> LocalProxyInput \<Rightarrow> bool \<Rightarrow> unit result" where
  "validateInput env policy input requireID =
     (if \<not> sv_hasStore (ad_certs env) \<or> \<not> ad_hasPolicy env then Inl (New ''local proxy service dependencies are required'')
      else if requireID \<and> blank (LPI_ID input) then Inl (Validation [(''id'', ''proxy id is required'')])
      else if LPI_Type input \<noteq> ProxyTCP \<and> LPI_Type input \<noteq> ProxyUDP
      then Inl (Validation [(''type'', ''local proxy type must be tcp or udp'')])
      else rbind (as_field ''target'' (policy_ValidateTarget policy (LPI_TargetHost input) (LPI_TargetPort input))) (\<lambda>_.
        let proxy = localProxyFromInput input in
        as_field ''proxy'' (proxy_Validate
          (if blank (Proxy_ID proxy) then proxy\<lparr>Proxy_ID := ''validation-only''\<rparr> else proxy))))"

definition systemProxy :: "'r AdminEnv \<Rightarrow> string \<Rightarrow> ('r, Proxy) admin" where
  "systemProxy env proxyID =
     needs_store env
      (sbind (look (\<lambda>db. proxies_ByID db proxyID)) (\<lambda>proxy.
       if \<not> IsSystemProxy proxy then sfail (Forbidden ''proxy is not a server-local proxy'') else sret proxy))"

definition LocalAllowlist :: "'r AdminEnv \<Rightarrow> 'r AdminState \<Rightarrow> AllowlistEntry list" where
  "LocalAllowlist env s = (if ad_hasPolicy env then policy_Snapshot (as_policy s) else [])"

definition in_policy :: "(DB \<times> policySnapshot, 'a) op \<Rightarrow> ('r, 'a) admin" where
  "in_policy m s =
     (case m (as_db s, as_policy s) of
        (r, db, policy) \<Rightarrow> (r, s\<lparr>as_world := (as_world s)\<lparr>cw_db := db\<rparr>, as_policy := policy\<rparr>))"

definition ReplaceLocalAllowlist ::
    "'r AdminEnv \<Rightarrow> string \<Rightarrow> AllowlistEntry list \<Rightarrow> ('r, AllowlistEntry list) admin" where
  "ReplaceLocalAllowlist env actorID input =
     finishAudit env actorID ''local_allowlist'' SystemClientID ''replace_local_allowlist''
      (if \<not> ad_hasPolicy env then sfail (New ''local target policy is required'')
       else shandle (in_policy (policy_Replace allowlist_Replace input)) (\<lambda>r. case r of
         Inl e \<Rightarrow> sfail (Contract ''VALIDATION_FAILED'' ''invalid local target allowlist'' None)
       | Inr _ \<Rightarrow> sget (\<lambda>s. policy_Snapshot (as_policy s))))"

definition CreateLocalProxy :: "'r AdminEnv \<Rightarrow> string \<Rightarrow> LocalProxyInput \<Rightarrow> ('r, Proxy) admin" where
  "CreateLocalProxy env actorID given =
     sbind (id_or_new env (LPI_ID given) ''local-proxy'') (\<lambda>proxyID.
     let input = given\<lparr>LPI_ID := proxyID\<rparr>; proxy = localProxyFromInput input in
     finishAudit env actorID ''proxy'' proxyID ''create_local_proxy''
      (sbind (sget as_policy) (\<lambda>policy.
       sbind (slift (validateInput env policy input False)) (\<lambda>_.
       sbind (look (EnsureAdmission env proxy [])) (\<lambda>_.
       sbind (insert_new_proxy env True proxy) (\<lambda>_.
       sbind (reconcile_or_undo env (proxies_Delete True proxyID)) (\<lambda>_. sret proxy)))))))"

definition UpdateLocalProxy :: "'r AdminEnv \<Rightarrow> string \<Rightarrow> LocalProxyInput \<Rightarrow> ('r, Proxy) admin" where
  "UpdateLocalProxy env actorID given =
     finishAudit env actorID ''proxy'' (LPI_ID given) ''update_local_proxy''
      (if blank (LPI_ID given) then sfail (Validation [(''id'', ''proxy id is required'')])
       else sbind (systemProxy env (LPI_ID given)) (\<lambda>existing.
         let input = given\<lparr>LPI_Type := or_default (LPI_Type given) (Proxy_Type existing)\<rparr> in
         if LPI_Type input \<noteq> Proxy_Type existing then sfail (Validation [(''type'', ''proxy type is immutable'')])
         else sbind (sget as_policy) (\<lambda>policy.
           sbind (slift (validateInput env policy input True)) (\<lambda>_.
           let updated = (localProxyFromInput input)\<lparr>Proxy_Status := Proxy_Status existing,
                 Proxy_CreatedAt := Proxy_CreatedAt existing, Proxy_UpdatedAt := Proxy_UpdatedAt existing\<rparr> in
           sbind (look (EnsureAdmission env updated (Proxy_ID updated))) (\<lambda>_.
           sbind (in_store (proxies_Update True (ad_now env) updated)) (\<lambda>_.
           sbind (reconcile_or_undo env (proxies_Update True (ad_now env) existing)) (\<lambda>_. sret updated)))))))"

definition EnableLocalProxy :: "'r AdminEnv \<Rightarrow> string \<Rightarrow> string \<Rightarrow> ('r, unit) admin" where
  "EnableLocalProxy env actorID proxyID =
     finishAudit env actorID ''proxy'' proxyID ''enable_local_proxy''
      (sbind (systemProxy env proxyID) (\<lambda>proxy.
       sbind (look (EnsureAdmission env (proxy\<lparr>Proxy_Status := ProxyEnabled\<rparr>) (Proxy_ID proxy))) (\<lambda>_.
       sbind (in_store (proxies_SetStatus True (ad_now env) proxyID ProxyEnabled)) (\<lambda>_.
       reconcile_or_undo env (proxies_SetStatus True (ad_now env) proxyID ProxyDisabled)))))"

definition DisableLocalProxy :: "'r AdminEnv \<Rightarrow> string \<Rightarrow> string \<Rightarrow> ('r, unit) admin" where
  "DisableLocalProxy env actorID proxyID =
     finishAudit env actorID ''proxy'' proxyID ''disable_local_proxy''
      (sbind (systemProxy env proxyID) (\<lambda>_.
       sbind (in_store (proxies_SetStatus True (ad_now env) proxyID ProxyDisabled)) (\<lambda>_.
       reconcile_or_undo env (proxies_SetStatus True (ad_now env) proxyID ProxyEnabled))))"

definition DeleteLocalProxy :: "'r AdminEnv \<Rightarrow> string \<Rightarrow> string \<Rightarrow> ('r, unit) admin" where
  "DeleteLocalProxy env actorID proxyID =
     finishAudit env actorID ''proxy'' proxyID ''delete_local_proxy''
      (sbind (systemProxy env proxyID) (\<lambda>proxy.
       if Proxy_Status proxy \<noteq> ProxyDisabled then sfail (Conflict ''local proxy must be disabled before delete'' None)
       else sbind (in_store (proxies_Delete True proxyID)) (\<lambda>_. ReconcileListeners env)))"

end
