(* ===== verification/AdminCommands.thy ===== *)
theory AdminCommands
  imports AdminClients
begin

text \<open>
  The command boundary of the administration: one constructor per operation of the facades in
  internal/admin/facade.go and services.go that changes state, the run of a command, and the states a
  sequence of commands reaches.
\<close>

datatype AdminCommand =
    CmdCreateUser CreateUserInput
  | CmdDisableUser string string
  | CmdEnableUser string string
  | CmdSetUserPassword string string string
  | CmdDeleteUser string string
  | CmdCreateClient CreateClientInput
  | CmdCreateClientWithCredential CreateClientInput
  | CmdCreateClientJoin CreateClientJoinInput
  | CmdReviewClientJoinToken string string
  | CmdEnableClient string string
  | CmdDisableClient string string
  | CmdDeleteClient string string
  | CmdRotateClientCredential string string
  | CmdCreateDomain CreateDomainInput
  | CmdUpdateDomain UpdateDomainInput
  | CmdEnableDomain string string
  | CmdDisableDomain string string
  | CmdDeleteDomain string string
  | CmdCreateDomainEntry CreateDomainEntryInput
  | CmdUpdateDomainEntry UpdateDomainEntryInput
  | CmdDeleteDomainEntry string string
  | CmdBindDomainCertificate string string string
  | CmdUnbindDomainCertificate string string
  | CmdCreateProxy CreateProxyInput
  | CmdUpdateProxy UpdateProxyInput
  | CmdEnableProxy string string
  | CmdDisableProxy string string
  | CmdDeleteProxy string string
  | CmdEnableProxyAccessAuth string string
  | CmdCreateProxyActivationLink string string
  | CmdRevokeAllProxyAccess string string
  | CmdDisableProxyAccessAuth string string
  | CmdIssueManagedCertificate CertificateInput
  | CmdRenewManagedCertificate CertificateInput
  | CmdCreateCertificate CreateCertificateInput
  | CmdDeleteCertificate DeleteCertificateInput
  | CmdBindCertificate string string string
  | CmdUnbindCertificate string string
  | CmdRotateOriginCACertificate CertificateInput
  | CmdSyncOriginCACertificate CertificateInput
  | CmdRevokeOriginCACertificate OriginCARevokeRequest string
  | CmdCreateProviderCredential ProviderCredentialInput
  | CmdUpdateProviderCredential ProviderCredentialInput
  | CmdVerifyProviderCredential string string
  | CmdDisableProviderCredential string string
  | CmdDeleteProviderCredential string string
  | CmdReplaceLocalAllowlist string "AllowlistEntry list"
  | CmdCreateLocalProxy string LocalProxyInput
  | CmdUpdateLocalProxy string LocalProxyInput
  | CmdEnableLocalProxy string string
  | CmdDisableLocalProxy string string
  | CmdDeleteLocalProxy string string

definition discard :: "('s, 'a) op \<Rightarrow> ('s, unit) op" where
  "discard m = sbind m (\<lambda>_. sret ())"

fun run_command :: "'r AdminEnv \<Rightarrow> TokenCodec \<Rightarrow> AdminCommand \<Rightarrow> ('r, unit) admin" where
  "run_command env codec (CmdCreateUser i) = discard (CreateUser env i)"
| "run_command env codec (CmdDisableUser u a) = DisableUser env u a"
| "run_command env codec (CmdEnableUser u a) = EnableUser env u a"
| "run_command env codec (CmdSetUserPassword u p a) = SetUserPassword env u p a"
| "run_command env codec (CmdDeleteUser u a) = DeleteUser env u a"
| "run_command env codec (CmdCreateClient i) = discard (CreateClient env i)"
| "run_command env codec (CmdCreateClientWithCredential i) = discard (CreateClientWithCredential env i)"
| "run_command env codec (CmdCreateClientJoin i) = discard (CreateClientJoin env codec i)"
| "run_command env codec (CmdReviewClientJoinToken c a) = discard (ReviewClientJoinToken env codec c a)"
| "run_command env codec (CmdEnableClient c a) = EnableClient env c a"
| "run_command env codec (CmdDisableClient c a) = DisableClient env c a"
| "run_command env codec (CmdDeleteClient c a) = DeleteClient env c a"
| "run_command env codec (CmdRotateClientCredential c a) = discard (RotateClientCredential env c a)"
| "run_command env codec (CmdCreateDomain i) = discard (CreateDomain env i)"
| "run_command env codec (CmdUpdateDomain i) = discard (UpdateDomain env i)"
| "run_command env codec (CmdEnableDomain d a) = EnableDomain env d a"
| "run_command env codec (CmdDisableDomain d a) = DisableDomain env d a"
| "run_command env codec (CmdDeleteDomain d a) = DeleteDomain env d a"
| "run_command env codec (CmdCreateDomainEntry i) = discard (CreateDomainEntry env i)"
| "run_command env codec (CmdUpdateDomainEntry i) = discard (UpdateDomainEntry env i)"
| "run_command env codec (CmdDeleteDomainEntry e a) = DeleteDomainEntry env e a"
| "run_command env codec (CmdBindDomainCertificate d c a) = discard (BindDomainCertificate env d c a)"
| "run_command env codec (CmdUnbindDomainCertificate d a) = discard (UnbindDomainCertificate env d a)"
| "run_command env codec (CmdCreateProxy i) = discard (CreateProxy env i)"
| "run_command env codec (CmdUpdateProxy i) = discard (UpdateProxy env i)"
| "run_command env codec (CmdEnableProxy p a) = EnableProxy env p a"
| "run_command env codec (CmdDisableProxy p a) = DisableProxy env p a"
| "run_command env codec (CmdDeleteProxy p a) = DeleteProxy env p a"
| "run_command env codec (CmdEnableProxyAccessAuth p a) = discard (EnableProxyAccessAuthAndCreateActivation env p a)"
| "run_command env codec (CmdCreateProxyActivationLink p a) = discard (CreateProxyActivationLink env p a)"
| "run_command env codec (CmdRevokeAllProxyAccess p a) = RevokeAllProxyAccess env p a"
| "run_command env codec (CmdDisableProxyAccessAuth p a) = DisableProxyAccessAuth env p a"
| "run_command env codec (CmdIssueManagedCertificate i) = discard (IssueManagedCertificate env i)"
| "run_command env codec (CmdRenewManagedCertificate i) = discard (RenewManagedCertificate env i)"
| "run_command env codec (CmdCreateCertificate i) = discard (CreateCertificate env i)"
| "run_command env codec (CmdDeleteCertificate i) = discard (DeleteCertificate env i)"
| "run_command env codec (CmdBindCertificate p c a) = discard (BindCertificate env p c a)"
| "run_command env codec (CmdUnbindCertificate p a) = discard (UnbindCertificate env p a)"
| "run_command env codec (CmdRotateOriginCACertificate i) = discard (admin_RotateOriginCACertificate env i)"
| "run_command env codec (CmdSyncOriginCACertificate i) = discard (admin_SyncOriginCACertificate env i)"
| "run_command env codec (CmdRevokeOriginCACertificate r a) = discard (admin_RevokeOriginCACertificate env r a)"
| "run_command env codec (CmdCreateProviderCredential i) = discard (CreateProviderCredential env i)"
| "run_command env codec (CmdUpdateProviderCredential i) = discard (UpdateProviderCredential env i)"
| "run_command env codec (CmdVerifyProviderCredential c a) = discard (admin_VerifyProviderCredential env c a)"
| "run_command env codec (CmdDisableProviderCredential c a) = discard (DisableProviderCredential env c a)"
| "run_command env codec (CmdDeleteProviderCredential c a) = DeleteProviderCredential env c a"
| "run_command env codec (CmdReplaceLocalAllowlist a es) = discard (ReplaceLocalAllowlist env a es)"
| "run_command env codec (CmdCreateLocalProxy a i) = discard (CreateLocalProxy env a i)"
| "run_command env codec (CmdUpdateLocalProxy a i) = discard (UpdateLocalProxy env a i)"
| "run_command env codec (CmdEnableLocalProxy a p) = EnableLocalProxy env a p"
| "run_command env codec (CmdDisableLocalProxy a p) = DisableLocalProxy env a p"
| "run_command env codec (CmdDeleteLocalProxy a p) = DeleteLocalProxy env a p"

fun is_local :: "AdminCommand \<Rightarrow> bool" where
  "is_local (CmdCreateLocalProxy a i) = True"
| "is_local (CmdUpdateLocalProxy a i) = True"
| "is_local (CmdEnableLocalProxy a p) = True"
| "is_local (CmdDisableLocalProxy a p) = True"
| "is_local (CmdDeleteLocalProxy a p) = True"
| "is_local c = False"

end
