(* ===== verification/AdminKeeps.thy ===== *)
theory AdminKeeps
  imports AdminCommands
begin

text \<open>
  What a predicate on the database needs to survive every administration command. The locales list the
  methods of the store that the commands call, as laws (each method keeps the predicate); the lemmas go
  once through the certificate manager, the policies and the services, and end in one lemma per locale
  on \<open>run_command\<close>. The status of a proxy row that is loaded, changed and written back is carried by a
  rule for the value of an operation.
\<close>

section \<open>Keeping a predicate, and the value of an operation\<close>

lemma keeps_option [keep_intros]:
  "keeps P a \<Longrightarrow> (\<And>x. keeps P (f x)) \<Longrightarrow> keeps P (case v of None \<Rightarrow> a | Some x \<Rightarrow> f x)"
  by (cases v) auto

lemma keeps_sum [keep_intros]:
  "(\<And>e. keeps P (f e)) \<Longrightarrow> (\<And>x. keeps P (g x)) \<Longrightarrow> keeps P (case v of Inl e \<Rightarrow> f e | Inr x \<Rightarrow> g x)"
  by (cases v) auto

lemma keeps_prod [keep_intros]: "(\<And>x y. keeps P (f x y)) \<Longrightarrow> keeps P (case v of (x, y) \<Rightarrow> f x y)"
  by (cases v) auto

lemma keeps_ignoring [keep_intros]: "keeps P m \<Longrightarrow> keeps P (ignoring m)"
  unfolding ignoring_def by (intro keep_intros)

lemma keeps_discard [keep_intros]: "keeps P m \<Longrightarrow> keeps P (discard m)"
  unfolding discard_def by (intro keep_intros)

lemma keeps_branch: "(b \<Longrightarrow> keeps P m) \<Longrightarrow> (\<not> b \<Longrightarrow> keeps P n) \<Longrightarrow> keeps P (if b then m else n)"
  by simp

lemma keeps_sfor_set: "(\<And>x. x \<in> set xs \<Longrightarrow> keeps P (f x)) \<Longrightarrow> keeps P (sfor f xs)"
  by (induction xs) (auto intro: keep_intros)

definition yields :: "('s \<Rightarrow> bool) \<Rightarrow> ('a \<Rightarrow> bool) \<Rightarrow> ('s, 'a) op \<Rightarrow> bool" where
  "yields P Q m \<longleftrightarrow> (\<forall>s. P s \<longrightarrow> P (snd (m s)) \<and> (\<forall>a. fst (m s) = Inr a \<longrightarrow> Q a))"

named_theorems yield_intros \<open>operations that keep a predicate and return a value with a property\<close>

lemma yields_keeps: "yields P Q m \<Longrightarrow> keeps P m"
  by (simp add: yields_def keeps_def)

lemma keeps_yields: "keeps P m \<Longrightarrow> yields P (\<lambda>_. True) m"
  by (simp add: yields_def keeps_def)

lemma yields_weaken: "yields P Q m \<Longrightarrow> (\<And>a. Q a \<Longrightarrow> R a) \<Longrightarrow> yields P R m"
  by (simp add: yields_def)

lemma yields_basic [yield_intros]:
  "Q a \<Longrightarrow> yields P Q (sret a)" "yields P Q (sfail e)" "(\<And>a. r = Inr a \<Longrightarrow> Q a) \<Longrightarrow> yields P Q (slift r)"
  by (auto simp: yields_def)

lemma yields_bind:
  assumes "yields P Q m" and "\<And>a. Q a \<Longrightarrow> yields P R (f a)"
  shows "yields P R (sbind m f)"
  unfolding yields_def
proof (intro allI impI)
  fix s assume "P s"
  with assms(1) show "P (snd (sbind m f s)) \<and> (\<forall>a. fst (sbind m f s) = Inr a \<longrightarrow> R a)"
    by (cases "m s"; cases "fst (m s)") (use assms(2) in \<open>force simp: yields_def sbind_def\<close>)+
qed

lemma keeps_bind_value: "yields P Q m \<Longrightarrow> (\<And>a. Q a \<Longrightarrow> keeps P (f a)) \<Longrightarrow> keeps P (sbind m f)"
  using yields_bind [of P Q m "\<lambda>_. True" f] keeps_yields yields_keeps by blast

lemma yields_after [yield_intros]: "keeps P m \<Longrightarrow> (\<And>a. yields P R (f a)) \<Longrightarrow> yields P R (sbind m f)"
  by (rule yields_bind [OF keeps_yields])

lemma yields_if [yield_intros]: "(b \<Longrightarrow> yields P Q m) \<Longrightarrow> (\<not> b \<Longrightarrow> yields P Q n) \<Longrightarrow> yields P Q (if b then m else n)"
  by simp

text \<open>A predicate on the database, of the two larger states.\<close>

lemma keeps_in_db: "keeps P m \<Longrightarrow> keeps (\<lambda>w. P (cw_db w)) (in_db m)"
  by (simp add: keeps_def in_db_def case_prod_beta)

lemma keeps_world_rest:
  "keeps (\<lambda>w. P (cw_db w)) (in_disk d)" "keeps (\<lambda>w. P (cw_db w)) (ask_db f)"
  unfolding keeps_def in_disk_def ask_db_def by (auto split: prod.splits)

lemma keeps_with_store: "keeps P m \<Longrightarrow> keeps P (with_store service m)"
  unfolding with_store_def by (intro keep_intros)

lemma keeps_with_lock:
  "keeps (\<lambda>w. P (cw_db w)) m \<Longrightarrow> keeps (\<lambda>w. P (cw_db w)) (with_operation_lock service key m)"
  by (simp add: keeps_def with_operation_lock_def Let_def case_prod_beta split: option.splits)

lemma keeps_or_failed: "(\<And>e. keeps P (failed e)) \<Longrightarrow> keeps P m \<Longrightarrow> (\<And>a. keeps P (f a)) \<Longrightarrow> keeps P (or_failed failed m f)"
  unfolding or_failed_def by (intro keep_intros)

lemmas world_intros = keep_intros keeps_in_db keeps_world_rest keeps_with_store keeps_with_lock keeps_or_failed

lemma keeps_in_world: "keeps (\<lambda>w. P (cw_db w)) m \<Longrightarrow> keeps (\<lambda>s. P (as_db s)) (in_world m)"
  by (simp add: keeps_def in_world_def case_prod_beta)

lemma keeps_in_store: "keeps P m \<Longrightarrow> keeps (\<lambda>s. P (as_db s)) (in_store m)"
  unfolding in_store_def by (intro keeps_in_world keeps_in_db)

lemma keeps_admin_rest:
  "keeps (\<lambda>s. P (as_db s)) (look f)" "keeps (\<lambda>s. P (as_db s)) (draw env n)"
  "keeps (\<lambda>s. P (as_db s)) (draw_ids env)" "keeps (\<lambda>s. P (as_db s)) (ReconcileListeners env)"
  unfolding keeps_def look_def draw_def draw_ids_def ReconcileListeners_def
  by (auto split: prod.splits option.splits sum.splits)

lemma keeps_needs_store: "keeps P m \<Longrightarrow> keeps P (needs_store env m)"
  unfolding needs_store_def by (intro keep_intros)

lemma keeps_ids:
  "keeps (\<lambda>s. P (as_db s)) (newID env prefix)" "keeps (\<lambda>s. P (as_db s)) (newCredential env)"
  "keeps (\<lambda>s. P (as_db s)) (id_or_new env given prefix)"
  unfolding id_or_new_def newID_def newCredential_def by (intro keep_intros keeps_admin_rest)+

lemmas admin_intros = keep_intros keeps_in_store keeps_in_world keeps_admin_rest keeps_needs_store keeps_ids

section \<open>Sequences of commands\<close>

text \<open>The clock, the randomness and the settings may differ from command to command.\<close>

fun run_commands :: "TokenCodec \<Rightarrow> ('r AdminEnv \<times> AdminCommand) list \<Rightarrow> 'r AdminState \<Rightarrow> 'r AdminState" where
  "run_commands codec [] s = s"
| "run_commands codec ((env, c) # rest) s = run_commands codec rest (snd (run_command env codec c s))"

lemma keeps_run_commands:
  "\<forall>(env, c) \<in> set cs. keeps P (run_command env codec c) \<Longrightarrow> P s \<Longrightarrow> P (run_commands codec cs s)"
  by (induction cs arbitrary: s) (auto simp: keeps_def)

end
