(* ===== verification/AdminLaws.thy ===== *)
theory AdminLaws
  imports AdminKeeps
begin

text \<open>
  The locales of the methods of the store. \<open>quiet_store\<close>: the methods that leave the users, clients and
  proxies that are there alone; \<open>removing_store\<close>: also those that delete them or stop a proxy;
  \<open>guarded_store\<close>: also the methods on them without the marker of an internal
  mutation, which is all that the commands for other resources than the local proxies use; \<open>full_store\<close>:
  also the methods on proxies with it. \<open>fit\<close> is what the predicate
  knows of a row, and \<open>declared\<close> what it knows of its status.
\<close>

locale quiet_store =
  fixes P :: "DB \<Rightarrow> bool"
  assumes user_laws:
      "keeps P (users_Create False now u)"
      "us \<in> {UserEnabled, UserDisabled} \<Longrightarrow> keeps P (users_SetStatus False now i us)"
      "keeps P (users_SetPassword False now i h)"
    and client_laws:
      "Client_Status c = ClientOffline \<Longrightarrow> keeps P (clients_Create False now c)"
      "cs \<in> {ClientOffline, ClientDisabled} \<Longrightarrow> keeps P (clients_SetStatus False now i cs)"
      "keeps P (clients_RotateCredential False now i h)" "keeps P (enrollments_Create now en)"
    and domain_laws:
      "keeps P (domains_Create now d)" "keeps P (domains_Update now d)"
      "ds \<in> {DomainEnabled, DomainDisabled} \<Longrightarrow> keeps P (domains_SetStatus now i ds)" "keeps P (domains_Delete i)"
      "keeps P (domainEntries_Create now de)" "keeps P (domainEntries_Update now de)" "keeps P (domainEntries_Delete i)"
      "keeps P (domainEntries_DeleteByDomainID i)"
    and access_laws:
      "keeps P (access_EnableAuthAndCreateActivation now i v t)" "keeps P (access_CreateActivationToken now t)"
      "keeps P (access_rewriteAccessState now i v e)"
    and other_laws:
      "keeps P (allowlist_Replace es)" "keeps P (audit_Create now a)" "keeps P (pcreds_Create now pc)"
      "keeps P (pcreds_Update now pc)" "providerCredentialStatus_Valid st \<Longrightarrow> keeps P (pcreds_SetStatus now i st lv er)" "keeps P (pcreds_Delete i)"
      "keeps P (certs_Create now mc)" "keeps P (certs_UpdateSuccess now i r)" "keeps P (certs_UpdateFailure now i f)"
      "keeps P (certs_UpdateHealth now i hl)" "keeps P (certs_UpdateProviderSync now i sy)" "keeps P (certs_Delete i)"

locale removing_store = quiet_store +
  fixes fit :: "Proxy \<Rightarrow> bool"
  assumes delete_laws: "keeps P (users_Delete False i)" "keeps P (clients_Delete False i)" "keeps P (proxies_Delete False i)"
    and row_laws: "P db \<Longrightarrow> p \<in> set (db_proxies db) \<Longrightarrow> fit p"
    and stop_laws:
      "keeps P (proxies_SetStatus False now i ProxyDisabled)"
      "fit p \<Longrightarrow> keeps P (proxies_Update False now (p\<lparr>Proxy_Status := ProxyNeedsConf, Proxy_CertificateID := []\<rparr>))"

locale guarded_store = removing_store +
  fixes declared :: "ProxyStatus \<Rightarrow> bool"
  assumes declared_laws: "declared ProxyEnabled" "declared ProxyDisabled" "declared ProxyNeedsConf"
    and fit_declared: "fit p \<longleftrightarrow> declared (Proxy_Status p)"
    and proxy_laws:
      "declared (Proxy_Status p) \<Longrightarrow> keeps P (proxies_Create False now ids p)"
      "declared (Proxy_Status p) \<Longrightarrow> keeps P (proxies_Update False now p)"
      "declared ps \<Longrightarrow> keeps P (proxies_SetStatus False now i ps)"

locale full_store = guarded_store +
  assumes internal_laws:
      "declared (Proxy_Status p) \<Longrightarrow> keeps P (proxies_Create True now ids p)"
      "declared (Proxy_Status p) \<Longrightarrow> keeps P (proxies_Update True now p)"
      "declared ps \<Longrightarrow> keeps P (proxies_SetStatus True now i ps)"
      "keeps P (proxies_Delete True i)"

section \<open>The certificate manager\<close>

context quiet_store
begin

abbreviation keepsW :: "(CertWorld, 'a) op \<Rightarrow> bool" where
  "keepsW m \<equiv> keeps (\<lambda>w. P (cw_db w)) m"

abbreviation keepsA :: "('r, 'a) admin \<Rightarrow> bool" where
  "keepsA m \<equiv> keeps (\<lambda>s. P (as_db s)) m"

lemma keepsW_failures:
  "keepsW (recordFailure service c host st e)" "keepsW (cleanupUnusableInitialIssue c)"
  "keepsW (acme_failed service c host st e)" "keepsW (origin_failed service c host st e)"
proof -
  have "keepsW (sbind (ignoring (in_db (certs_UpdateHealth now i h))) (\<lambda>_. in_db (certs_UpdateFailure now i f)))"
    for now i h f by (intro world_intros other_laws)
  then show failure: "keepsW (recordFailure service c host st e)" for service c host st e
    unfolding recordFailure_def Let_def keeps_def by blast
  show cleanup: "keepsW (cleanupUnusableInitialIssue c)" for c
    unfolding cleanupUnusableInitialIssue_def by (intro world_intros other_laws)
  show "keepsW (acme_failed service c host st e)" "keepsW (origin_failed service c host st e)"
    unfolding acme_failed_def origin_failed_def by (intro world_intros failure cleanup)+
qed

lemma keepsW_records:
  "keepsW (create_certificate service i pid host pt pn cid)"
  "keepsW (ensureCertificateRecordByIdentity service i pid host pt pn cid existing)"
proof -
  show create: "keepsW (create_certificate service i pid host pt pn cid)" for service i pid host pt pn cid
    unfolding create_certificate_def Let_def by (intro world_intros other_laws)
  show "keepsW (ensureCertificateRecordByIdentity service i pid host pt pn cid existing)"
    unfolding ensureCertificateRecordByIdentity_def Let_def by (intro world_intros create)
qed

lemma keepsW_store_issued: "keepsW (store_issued service host c k)"
  unfolding store_issued_def by (intro world_intros)

lemma keepsW_finish_issue: "(\<And>e. keepsW (failed e)) \<Longrightarrow> keepsW (finish_issue failed service i success)"
  unfolding finish_issue_def by (intro world_intros other_laws)

lemmas issue_intros = world_intros keepsW_failures keepsW_records keepsW_store_issued keepsW_finish_issue

lemma keepsW_acme:
  "keepsW (acme_locked service issuer i pid host existing st)"
  "keepsW (issueACMEForIdentity service i pid host existing st)"
  unfolding issueACMEForIdentity_def acme_locked_def Let_def by (intro issue_intros)+

lemma keepsW_acme_entry:
  "keepsW (issueACMEForCertificate service c st)" "keepsW (issueACMEForProxy service p existing st)"
  "keepsW (issueACME service pid st)"
  unfolding issueACMEForCertificate_def issueACME_def issueACMEForProxy_def Let_def
  by (intro issue_intros keepsW_acme)+

lemma keepsW_origin:
  "keepsW (origin_locked service i pid host request existing st)"
  "keepsW (issueOriginCAForIdentity service i pid host request existing st)"
  unfolding issueOriginCAForIdentity_def origin_locked_def Let_def by (intro issue_intros)+

lemma keepsW_origin_entry:
  "keepsW (issueOriginCAForProxy service p request existing st)" "keepsW (issueOriginCA service request st)"
  "keepsW (rotateOriginCACertificate service c)"
  unfolding issueOriginCA_def issueOriginCAForProxy_def rotateOriginCACertificate_def
  by (intro issue_intros keepsW_origin)+

lemma keepsW_remote:
  "keepsW (syncOriginCACertificate service c)" "keepsW (revokeOriginCACertificate service c request)"
  "keepsW (VerifyProviderCredential service i)"
  unfolding syncOriginCACertificate_def revokeOriginCACertificate_def VerifyProviderCredential_def Let_def
  by (intro world_intros other_laws; simp add: providerCredentialStatus_Valid_def)+

lemma keepsW_providers:
  "keepsW (provider_Issue pr service request st)" "keepsW (provider_Renew pr service c)"
  "keepsW (provider_Sync pr service c)" "keepsW (provider_Revoke pr service c rq)"
  by (cases pr; simp; intro keep_intros keepsW_acme_entry keepsW_origin_entry keepsW_remote)+

lemma keepsW_by_provider:
  "keepsW (RenewCertificate service c)" "keepsW (SyncOriginCACertificate service c)"
  "keepsW (RevokeOriginCACertificate service c rq)"
  unfolding RenewCertificate_def SyncOriginCACertificate_def RevokeOriginCACertificate_def
  by (intro keep_intros keepsW_providers)+

lemma keepsW_entry:
  "keepsW (RenewByID service i pid)" "keepsW (RotateOriginCAByID service i pid)" "keepsW (SyncOriginCAByID service i pid)"
  "keepsW (service_RevokeOriginCA service rq)" "keepsW (IssueWithProvider service mr)"
  unfolding RenewByID_def RotateOriginCAByID_def SyncOriginCAByID_def service_RevokeOriginCA_def IssueWithProvider_def Let_def
  by (intro world_intros keepsW_by_provider keepsW_origin_entry keepsW_providers)+

lemma keepsW_register: "keepsW (registerFileCertificate service i pid host cf kf)"
proof -
  have "keepsW (sbind (ensureCertificateRecordByIdentity service i pid h pt pn cid existing) (\<lambda>certificate.
      sbind (in_db (certs_UpdateSuccess now (Cert_ID certificate) r)) (\<lambda>_.
      sbind (if b then sret () else in_db (certs_UpdateHealth now (Cert_ID certificate) hl)) (\<lambda>_.
        ask_db (\<lambda>db. certs_ByID db (Cert_ID certificate))))))" for h pt pn cid existing now r b hl
    by (intro issue_intros other_laws)
  note * = this [unfolded keeps_def, rule_format]
  show ?thesis unfolding keeps_def registerFileCertificate_def Let_def by (auto intro: *)
qed

lemma keepsW_IssueCertificate: "keepsW (IssueCertificate service request)"
  unfolding IssueCertificate_def Let_def by (intro world_intros keepsW_acme keepsW_origin keepsW_register)

end

end
