(* ===== verification/AdminGuards.thy ===== *)
theory AdminGuards
  imports AdminLaws
begin

text \<open>
  The administration services inside the locales of \<open>AdminLaws\<close>: every command for users, clients,
  domains, proxies, certificates and credentials keeps what the guarded methods of the store keep, and the
  commands for the local proxies keep what the internal ones keep as well.
\<close>

text \<open>What the parts of an update leave of the proxy as it was.\<close>

definition same_row :: "Proxy \<Rightarrow> Proxy \<Rightarrow> bool" where
  "same_row p q \<longleftrightarrow> Proxy_Status q = Proxy_Status p \<and> Proxy_ID q = Proxy_ID p \<and> Proxy_Type q = Proxy_Type p \<and>
     Proxy_EntryBindHost q = Proxy_EntryBindHost p"

section \<open>Audit, policies and the services that leave proxies alone\<close>

context quiet_store
begin

lemma keepsA_audit:
  "keepsA (audit_RecordResult env a rt i act r e)" "keepsA (audit_Record env a rt i act)"
  unfolding audit_Record_def audit_RecordResult_def by (intro admin_intros other_laws)+

lemma keepsA_finishAudit: "keepsA m \<Longrightarrow> keepsA (finishAudit env a rt i act m)"
  unfolding finishAudit_def Let_def by (intro admin_intros keepsA_audit)

lemma keepsA_protected: "keepsA (protected env a rt i act check)"
  unfolding protected_def recordRejectedAudit_def by (intro admin_intros keepsA_finishAudit)

lemma keepsA_audited: "keepsA (audited env a rt i act v)"
  unfolding audited_def by (intro admin_intros keepsA_audit)

lemma keepsA_undo: "keeps P undo \<Longrightarrow> keepsA (reconcile_or_undo env undo)"
  unfolding reconcile_or_undo_def by (intro admin_intros)

lemma keepsA_revoke: "keepsA (RevokeIfEnabled env p)" "keepsA (RevokeForDomain env i)"
  unfolding RevokeForDomain_def RevokeIfEnabled_def Let_def access_RevokeAllAccess_def
  by (intro admin_intros access_laws)+

lemma keepsA_ResolveProxySelection: "keepsA (ResolveProxySelection env t i ci cs eh cf kf a)"
  unfolding ResolveProxySelection_def Let_def by (intro admin_intros keepsW_IssueCertificate keepsA_audit)

lemmas service_intros = admin_intros keepsA_audit keepsA_finishAudit keepsA_protected keepsA_audited keepsA_undo keepsA_revoke
  keepsA_ResolveProxySelection

section \<open>The parts of an update\<close>

abbreviation yieldsA :: "('a \<Rightarrow> bool) \<Rightarrow> ('r, 'a) admin \<Rightarrow> bool" where
  "yieldsA Q m \<equiv> yields (\<lambda>s. P (as_db s)) Q m"

lemma update_path_status: "update_path i (p, b) = Inr (q, c) \<Longrightarrow> same_row p q"
  by (auto simp: update_path_def same_row_def rbind_eq_Inr split: if_splits)

lemma update_prefixes_status: "update_prefixes i p = Inr q \<Longrightarrow> same_row p q"
  by (auto simp: update_prefixes_def same_row_def Let_def rbind_eq_Inr split: if_splits)

lemma same_row_trans: "same_row p q \<Longrightarrow> same_row q r \<Longrightarrow> same_row p r"
  by (simp add: same_row_def)

lemma yieldsA_domain: "yieldsA (\<lambda>(q, b). same_row p q) (update_domain i p)"
  unfolding update_domain_def by (intro yield_intros service_intros; simp add: same_row_def)

lemma yieldsA_revoke: "yieldsA (same_row p) (RevokeIfEnabled env p)"
  unfolding RevokeIfEnabled_def Let_def access_RevokeAllAccess_def by (intro yield_intros service_intros access_laws; simp add: same_row_def)

lemma yieldsA_host: "yieldsA (same_row p) (update_host env i p)"
  unfolding update_host_def after_host_change_def Let_def
  by (intro yield_intros service_intros domain_laws; simp add: same_row_def)

lemma keepsA_update_certificate: "keepsA (update_certificate env i p)"
  unfolding update_certificate_def by (intro service_intros domain_laws)

lemma yieldsA_web: "yieldsA (same_row p) (update_web_proxy env i p)"
  unfolding update_web_proxy_def
proof (rule yields_bind [OF yieldsA_domain], clarsimp)
  fix q b assume q: "same_row p q"
  show "yieldsA (same_row p) (sbind (slift (update_path i (q, b))) (\<lambda>(routed, identityChanged).
      sbind (slift (update_prefixes i routed)) (\<lambda>prefixed.
      sbind (update_host env i prefixed) (\<lambda>hosted.
      sbind (update_certificate env i hosted) (\<lambda>_.
      if identityChanged then RevokeIfEnabled env hosted else sret hosted)))))"
  proof (rule yields_bind [where Q = "\<lambda>(r, c). same_row p r"], rule yields_basic)
    fix a assume "update_path i (q, b) = Inr a"
    then show "case a of (r, c) \<Rightarrow> same_row p r" using q by (cases a) (auto dest: update_path_status intro: same_row_trans)
  next
    fix a :: "Proxy \<times> bool" assume "case a of (r, c) \<Rightarrow> same_row p r"
    then obtain r c where a: "a = (r, c)" and r: "same_row p r" by (cases a) simp
    have prefixed: "yieldsA (same_row p) (slift (update_prefixes i r))"
      using r by (intro yield_intros) (auto dest: update_prefixes_status intro: same_row_trans)
    have hosted: "yieldsA (same_row p) (update_host env i h)" if "same_row p h" for h
      using yieldsA_host [of h env i] that by (auto intro: yields_weaken same_row_trans)
    have last: "yieldsA (same_row p) (RevokeIfEnabled env h)" if "same_row p h" for h
      using yieldsA_revoke [of h env] that by (auto intro: yields_weaken same_row_trans)
    show "yieldsA (same_row p) (case a of (routed, identityChanged) \<Rightarrow>
      sbind (slift (update_prefixes i routed)) (\<lambda>prefixed.
      sbind (update_host env i prefixed) (\<lambda>hosted.
      sbind (update_certificate env i hosted) (\<lambda>_.
      if identityChanged then RevokeIfEnabled env hosted else sret hosted))))"
      unfolding a prod.case
      by (rule yields_bind [OF prefixed], rule yields_bind, erule hosted,
          intro yield_intros keepsA_update_certificate last; assumption)
  qed
qed

lemma yieldsA_entry: "yieldsA (\<lambda>q. Proxy_Status q = Proxy_Status p) (update_entry_proxy env i p)"
  unfolding update_entry_proxy_def Let_def by (intro yield_intros service_intros; simp)

section \<open>Services\<close>

lemma keepsA_bind_if_set: "keepsA (bind_if_set c h)"
  unfolding bind_if_set_def by (intro service_intros)

lemma keepsA_domains:
  "keepsA (CreateDomain env i1)" "keepsA (UpdateDomain env i2)" "keepsA (EnableDomain env d a)"
  "keepsA (DisableDomain env d a)" "keepsA (DeleteDomain env d a)" "keepsA (CreateDomainEntry env i3)"
  "keepsA (UpdateDomainEntry env i4)" "keepsA (DeleteDomainEntry env e a)" "keepsA (BindDomainCertificate env d c a)"
  unfolding CreateDomain_def UpdateDomain_def revoke_or_undo_def EnableDomain_def DisableDomain_def set_domain_status_def
    DeleteDomain_def CreateDomainEntry_def UpdateDomainEntry_def DeleteDomainEntry_def BindDomainCertificate_def Let_def
  by (intro service_intros keepsA_bind_if_set domain_laws; simp)+

lemma keepsA_users:
  "keepsA (CreateUser env i1)" "keepsA (DisableUser env u a)" "keepsA (EnableUser env u a)"
  "keepsA (SetUserPassword env u p a)"
  unfolding CreateUser_def DisableUser_def EnableUser_def set_user_status_def SetUserPassword_def Let_def
  by (intro service_intros user_laws; simp)+

lemma keepsA_read_CA: "keepsA (read_CA env f)"
  unfolding read_CA_def by (intro admin_intros keeps_world_rest)

lemma keepsA_client_change: "keepsA m \<Longrightarrow> keepsA (client_change env act i a m)"
  unfolding client_change_def by (intro service_intros)

lemma keepsA_CreateClient: "keepsA (CreateClient env i)" "keepsA (CreateClientWithCredential env i)"
  unfolding CreateClientWithCredential_def CreateClient_def Let_def
  by (intro service_intros client_laws; simp add: new_client_def)+

lemma keepsA_join_tokens:
  "keepsA (CreateClientJoin env codec i1)" "keepsA (resetClientJoinToken env codec c a now b)"
  unfolding CreateClientJoin_def resetClientJoinToken_def defaultJoinTokenPayload_def Let_def
  by (intro service_intros keepsA_read_CA keepsA_CreateClient client_laws)+

lemma keepsA_clients:
  "keepsA (ReviewClientJoinToken env codec c a)" "keepsA (EnableClient env c a)" "keepsA (DisableClient env c a)"
  "keepsA (RotateClientCredential env c a)"
  unfolding ReviewClientJoinToken_def EnableClient_def DisableClient_def RotateClientCredential_def Let_def
  by (intro service_intros keepsA_join_tokens keepsA_client_change client_laws; simp)+

lemma keepsA_access:
  "keepsA (EnableProxyAccessAuthAndCreateActivation env p a)" "keepsA (CreateProxyActivationLink env p a)"
  "keepsA (RevokeAllProxyAccess env p a)" "keepsA (DisableProxyAccessAuth env p a)"
  unfolding EnableProxyAccessAuthAndCreateActivation_def CreateProxyActivationLink_def issue_activation_def
    RevokeAllProxyAccess_def DisableProxyAccessAuth_def rewrite_access_def access_RevokeAllAccess_def access_DisableAuth_def
    Let_def
  by (intro service_intros access_laws)+

lemma keepsA_certificates:
  "keepsA (IssueManagedCertificate env i1)" "keepsA (RenewManagedCertificate env i2)" "keepsA (CreateCertificate env i3)"
  "keepsA (BindCertificate env p c a)" "keepsA (admin_RotateOriginCACertificate env i4)"
  "keepsA (admin_SyncOriginCACertificate env i5)" "keepsA (admin_RevokeOriginCACertificate env r a)"
  unfolding IssueManagedCertificate_def RenewManagedCertificate_def CreateCertificate_def BindCertificate_def
    admin_RotateOriginCACertificate_def admin_SyncOriginCACertificate_def admin_RevokeOriginCACertificate_def
    certificate_action_def or_not_ready_def Let_def
  by (intro service_intros keepsW_IssueCertificate keepsW_entry domain_laws)+

lemma keepsA_credentials:
  "keepsA (CreateProviderCredential env i1)" "keepsA (UpdateProviderCredential env i2)"
  "keepsA (admin_VerifyProviderCredential env c a)" "keepsA (DisableProviderCredential env c a)"
  "keepsA (DeleteProviderCredential env c a)"
  unfolding CreateProviderCredential_def UpdateProviderCredential_def replace_token_def write_token_def
    admin_VerifyProviderCredential_def DisableProviderCredential_def DeleteProviderCredential_def Let_def
  by (intro service_intros keeps_world_rest keepsW_remote other_laws; simp add: providerCredentialStatus_Valid_def)+

lemma keepsA_policy: "keepsA (ReplaceLocalAllowlist env a es)"
proof -
  have "keepsA (in_policy (policy_Replace allowlist_Replace es))"
    using other_laws(1) by (simp add: keeps_def in_policy_def policy_Replace_def case_prod_beta split: sum.splits)
  then show ?thesis unfolding ReplaceLocalAllowlist_def by (intro service_intros)
qed

end

section \<open>Deletions, and commands that stop proxies\<close>

text \<open>The commands that may write a proxy as enabled.\<close>

fun writes_proxy :: "AdminCommand \<Rightarrow> bool" where
  "writes_proxy (CmdCreateProxy i) = True"
| "writes_proxy (CmdUpdateProxy i) = True"
| "writes_proxy (CmdEnableProxy p a) = True"
| "writes_proxy (CmdDeleteCertificate i) = True"
| "writes_proxy (CmdCreateLocalProxy a l) = True"
| "writes_proxy (CmdUpdateLocalProxy a l) = True"
| "writes_proxy (CmdEnableLocalProxy a p) = True"
| "writes_proxy (CmdDisableLocalProxy a p) = True"
| "writes_proxy (CmdDeleteLocalProxy a p) = True"
| "writes_proxy c = False"

context removing_store
begin

lemma yieldsA_proxies: "yieldsA (\<lambda>ps. \<forall>p \<in> set ps. fit p) (sget (\<lambda>s. proxies_ByDomainID (as_db s) i))"
  using row_laws by (auto simp: yields_def proxies_ByDomainID_def)

lemma keepsA_UnbindDomain: "keepsA (UnbindDomain env d)"
  unfolding UnbindDomain_def Let_def
  by (intro service_intros domain_laws keeps_bind_value [OF yieldsA_proxies] keeps_sfor_set stop_laws) simp

lemma keepsA_unbinding:
  "keepsA (UnbindDomainCertificate env d a)" "keepsA (UnbindCertificate env p a)"
  unfolding UnbindDomainCertificate_def UnbindCertificate_def Let_def by (intro service_intros keepsA_UnbindDomain)+

lemma keepsA_deletions:
  "keepsA (DeleteUser env u a)" "keepsA (DeleteClient env c a)" "keepsA (DeleteProxy env p a)"
  unfolding DeleteUser_def DeleteClient_def DeleteProxy_def
  by (intro service_intros keepsA_client_change delete_laws)+

lemma keepsA_DisableProxy: "keepsA (DisableProxy env p a)"
  unfolding DisableProxy_def by (intro service_intros stop_laws)

lemma keepsA_quiet_command: "\<not> writes_proxy c \<Longrightarrow> keepsA (run_command env codec c)"
  by (cases c; simp only: writes_proxy.simps not_True_eq_False run_command.simps;
      intro keep_intros keepsA_users keepsA_deletions keepsA_CreateClient keepsA_join_tokens keepsA_clients keepsA_domains
        keepsA_unbinding keepsA_DisableProxy keepsA_access keepsA_certificates keepsA_credentials keepsA_policy)

end

section \<open>Commands on users, clients and proxies that are there\<close>

context guarded_store
begin

lemma row_status: "P db \<Longrightarrow> p \<in> set (db_proxies db) \<Longrightarrow> declared (Proxy_Status p)"
  using row_laws fit_declared by blast

abbreviation row_declared :: "Proxy \<Rightarrow> bool" where
  "row_declared p \<equiv> declared (Proxy_Status p)"

lemma yieldsA_proxy: "yieldsA row_declared (look (\<lambda>db. proxies_ByID db i))"
  using row_status by (auto simp: yields_def look_def proxies_ByID_def dest!: sql_one_Inr)

lemma yieldsA_bound:
  "yieldsA (\<lambda>found. case found of None \<Rightarrow> True | Some p \<Rightarrow> row_declared p \<or> p = zeroProxy)
     (look (\<lambda>db. ProxyBoundToCertificate db i))"
  using row_status
  by (auto simp: yields_def look_def ProxyBoundToCertificate_def proxies_ByDomainID_def
    split: sum.splits if_splits list.splits) (metis list.set_intros(1) mem_Collect_eq set_sql_list)

lemma proxies_Update_zero: "keeps P (proxies_Update False now (zeroProxy\<lparr>Proxy_CertificateID := [], Proxy_CertFile := [], Proxy_KeyFile := []\<rparr>))"
  by (simp add: keeps_def proxies_Update_def zeroProxy_def normalizeProxyForStore_def proxy_Validate_def
    protectSystemMutation_def ProtectProxyMutation_def reject_if_def sbind_def split: sum.splits prod.splits)

lemma keepsA_UnbindProxy: "row_declared p \<or> p = zeroProxy \<Longrightarrow> keepsA (UnbindProxy env p)"
  unfolding UnbindProxy_def by (intro service_intros keepsA_UnbindDomain; auto intro: proxies_Update_zero proxy_laws)

lemma keepsA_DeleteCertificate: "keepsA (DeleteCertificate env i)"
proof -
  have delete: "keepsA (delete_certificate env i c mc found b)"
    if "case found of None \<Rightarrow> True | Some p \<Rightarrow> row_declared p \<or> p = zeroProxy" for c mc found b
  proof -
    have "keepsA (case found of None \<Rightarrow> sret () | Some p \<Rightarrow> UnbindProxy env p)"
      using that by (cases found) (auto intro: keepsA_UnbindProxy keep_intros)
    then show ?thesis unfolding delete_certificate_def
      by (rule keeps_sbind) (intro service_intros keeps_world_rest other_laws)
  qed
  show ?thesis unfolding DeleteCertificate_def Let_def
    by (intro service_intros keeps_bind_value [OF yieldsA_bound] delete)
qed

lemma keepsA_insert: "row_declared p \<Longrightarrow> keepsA (insert_new_proxy env False p)"
  unfolding insert_new_proxy_def by (intro service_intros proxy_laws)

lemma keepsA_CreateProxy: "keepsA (CreateProxy env i)"
  unfolding CreateProxy_def createWebProxy_def create_entry_proxy_def Let_def
  by (intro service_intros keepsA_insert delete_laws; simp add: declared_laws web_proxy_of_def entry_proxy_of_def)

lemma keepsA_proxy_status: "keepsA (EnableProxy env p a)"
  unfolding EnableProxy_def by (intro service_intros proxy_laws; simp add: declared_laws)

lemma keepsA_UpdateProxy: "keepsA (UpdateProxy env i)"
  unfolding UpdateProxy_def Let_def
proof (intro keeps_needs_store keeps_sbind [OF keeps_basic(3)] keeps_bind_value [OF yieldsA_proxy])
  fix previous assume declared: "row_declared previous"
  let ?named = "previous\<lparr>Proxy_Name := UPI_Name i, Proxy_TargetHost := UPI_TargetHost i,
                   Proxy_TargetPort := UPI_TargetPort i, Proxy_Description := UPI_Description i\<rparr>"
  have parts: "yieldsA row_declared (if proxyType_IsWeb (Proxy_Type ?named) then update_web_proxy env i ?named
      else update_entry_proxy env i ?named)"
    by (intro yields_if yields_weaken [OF yieldsA_web] yields_weaken [OF yieldsA_entry])
      (use declared in \<open>simp_all add: same_row_def\<close>)
  show "keepsA (sbind (protected env (UPI_ActorID i) ''proxy'' (UPI_ID i) ''update_proxy'' (ProtectProxyMutation previous)) (\<lambda>_.
       if type_change_rejected previous (UPI_Type i) then sfail (Validation [(''type'', ''proxy type is immutable'')])
       else if Proxy_Type previous = ProxyForward then sfail forward_unsupported
       else sbind (if proxyType_IsWeb (Proxy_Type ?named) then update_web_proxy env i ?named
                else update_entry_proxy env i ?named) (\<lambda>existing.
         sbind (look (EnsureAdmission env existing (Proxy_ID existing))) (\<lambda>_.
         sbind (in_store (proxies_Update False (ad_now env) existing)) (\<lambda>_.
         sbind (reconcile_or_undo env (proxies_Update False (ad_now env) previous)) (\<lambda>_.
         audited env (UPI_ActorID i) ''proxy'' (Proxy_ID existing) ''update_proxy'' existing))))))"
    by (intro keeps_if keeps_basic keeps_sbind [OF keepsA_protected] keeps_bind_value [OF parts] service_intros proxy_laws declared)
qed

text \<open>The command can change the proxies of the server itself only when it is one of theirs.\<close>

lemma keepsA_command: "\<not> is_local c \<Longrightarrow> keepsA (run_command env codec c)"
proof (cases "writes_proxy c")
  case True
  assume "\<not> is_local c"
  with True show ?thesis
    by (cases c; simp only: writes_proxy.simps is_local.simps not_True_eq_False run_command.simps;
        intro keep_intros keepsA_CreateProxy keepsA_UpdateProxy keepsA_proxy_status keepsA_DeleteCertificate)
qed (rule keepsA_quiet_command)

end

context full_store
begin

lemma yieldsA_systemProxy: "yieldsA row_declared (systemProxy env i)"
  unfolding systemProxy_def needs_store_def
  by (intro yield_intros yields_bind [OF yieldsA_proxy]; simp)

lemma keepsA_local_proxies:
  "keepsA (CreateLocalProxy env a i1)" "keepsA (UpdateLocalProxy env a i2)" "keepsA (EnableLocalProxy env a p)"
  "keepsA (DisableLocalProxy env a p)" "keepsA (DeleteLocalProxy env a p)"
  unfolding CreateLocalProxy_def UpdateLocalProxy_def EnableLocalProxy_def DisableLocalProxy_def DeleteLocalProxy_def
    insert_new_proxy_def Let_def
  by (intro keepsA_finishAudit keeps_if keeps_bind_value [OF yieldsA_systemProxy] service_intros internal_laws;
      simp add: declared_laws localProxyFromInput_def)+

lemma keepsA_every_command: "keepsA (run_command env codec c)"
proof (cases "is_local c")
  case True
  then show ?thesis
    by (cases c; simp only: is_local.simps run_command.simps; intro keep_intros keepsA_local_proxies)
next
  case False
  then show ?thesis by (rule keepsA_command)
qed

end

end
