(* ===== verification/AdminFrames.thy ===== *)
theory AdminFrames
  imports AdminGuards StoreInv
begin

text \<open>
  Which methods of the store leave the tables of the users, the clients and the proxies alone, and which
  change no more of the proxies than the state of their access gate.
\<close>

definition identity_tables :: "User list \<times> Client list \<times> Proxy list \<Rightarrow> DB \<Rightarrow> bool" where
  "identity_tables t db \<longleftrightarrow> (db_users db, db_clients db, db_proxies db) = t"

lemma frame_statements:
  "keeps (identity_tables t) (insert_enrollment e)" "keeps (identity_tables t) (insert_domain d)"
  "keeps (identity_tables t) (insert_domain_entry de)" "keeps (identity_tables t) (insert_token tok)"
  "keeps (identity_tables t) (insert_certificate mc)" "keeps (identity_tables t) (insert_provider_credential pc)"
  "keeps (identity_tables t) (insert_audit a)" "keeps (identity_tables t) (insert_allowlist al)"
  "keeps (identity_tables t) (update_cert i f4)" "keeps (identity_tables t) (update_pcred i f5)"
  "keeps (identity_tables t) (domains_SetStatus now i ds)" "keeps (identity_tables t) (domains_Delete i)"
  "keeps (identity_tables t) (domainEntries_Delete i)" "keeps (identity_tables t) (domainEntries_DeleteByDomainID i)"
  "keeps (identity_tables t) (certs_Delete i)" "keeps (identity_tables t) (pcreds_Delete i)"
  "keeps (identity_tables t) (set_domain_certificate now i c)"
  "keeps (identity_tables t) (smodify (\<lambda>db. db\<lparr>db_tokens := f1 db\<rparr>))"
  "keeps (identity_tables t) (smodify (\<lambda>db. db\<lparr>db_credentials := f2 db\<rparr>))"
  "keeps (identity_tables t) (smodify (\<lambda>db. db\<lparr>db_allowlist := f3 db\<rparr>))"
  by (simp_all add: keeps_def identity_tables_def insert_enrollment_def insert_domain_def insert_domain_entry_def
    insert_token_def insert_certificate_def insert_provider_credential_def insert_audit_def insert_allowlist_def
    update_cert_def update_pcred_def domains_SetStatus_def domains_Delete_def drop_domains_def domainEntries_Delete_def
    domainEntries_DeleteByDomainID_def certs_Delete_def pcreds_Delete_def set_domain_certificate_def sql_checked_def Let_def)

lemmas frame_intros = keep_intros frame_statements

lemma frame_domains:
  "keeps (identity_tables t) (domains_Create now d)" "keeps (identity_tables t) (domains_Update now d)"
  "keeps (identity_tables t) (domainEntries_Create now de)" "keeps (identity_tables t) (domainEntries_Update now de)"
proof -
  show "keeps (identity_tables t) (domains_Create now d)" "keeps (identity_tables t) (domainEntries_Create now de)"
    unfolding domains_Create_def domainEntries_Create_def by (intro frame_intros)+
  show "keeps (identity_tables t) (domains_Update now d)" unfolding domains_Update_def
    by (intro frame_intros) (simp add: keeps_def Let_def sql_checked_def identity_tables_def)
  show "keeps (identity_tables t) (domainEntries_Update now de)" unfolding domainEntries_Update_def
    by (intro frame_intros) (simp add: keeps_def Let_def sql_checked_def identity_tables_def split: sum.splits)
qed

lemma frame_rest:
  "keeps (identity_tables t) (enrollments_Create now en)" "keeps (identity_tables t) (access_CreateActivationToken now tok)"
  "keeps (identity_tables t) (allowlist_Replace es)" "keeps (identity_tables t) (audit_Create now a)"
  "keeps (identity_tables t) (pcreds_Create now pc)" "keeps (identity_tables t) (pcreds_Update now pc)"
  "keeps (identity_tables t) (pcreds_SetStatus now i st lv er)"
  "keeps (identity_tables t) (certs_Create now mc)" "keeps (identity_tables t) (certs_UpdateSuccess now i r)"
  "keeps (identity_tables t) (certs_UpdateFailure now i f)" "keeps (identity_tables t) (certs_UpdateHealth now i hl)"
  "keeps (identity_tables t) (certs_UpdateProviderSync now i sy)"
  unfolding enrollments_Create_def access_CreateActivationToken_def allowlist_Replace_def audit_Create_def pcreds_Create_def
    pcreds_Update_def pcreds_SetStatus_def certs_Create_def certs_UpdateSuccess_def certs_UpdateFailure_def
    certs_UpdateHealth_def certs_UpdateProviderSync_def Let_def
  by (intro frame_intros)+

lemma frame_legacy:
  "keeps (identity_tables t) (legacy_domain now ids p host)" "keeps (identity_tables t) (legacy_entry now ids did pr bh port)"
  "keeps (identity_tables t) (legacy_certificate now ids p pr did host)"
  unfolding legacy_domain_def legacy_entry_def legacy_certificate_def by (intro frame_intros)+

lemmas frame_laws = frame_domains frame_statements frame_rest frame_legacy

lemma keeps_by_frame:
  assumes "\<And>t. keeps (identity_tables t) m"
    and "\<And>db db'. db_users db' = db_users db \<Longrightarrow> db_clients db' = db_clients db \<Longrightarrow> db_proxies db' = db_proxies db \<Longrightarrow> P db \<Longrightarrow> P db'"
  shows "keeps P m"
  unfolding keeps_def
proof (intro allI impI)
  fix s assume "P s"
  have "identity_tables (db_users s, db_clients s, db_proxies s) s" by (simp add: identity_tables_def)
  with assms(1) have "identity_tables (db_users s, db_clients s, db_proxies s) (snd (m s))" by (simp add: keeps_def)
  with \<open>P s\<close> show "P (snd (m s))" using assms(2) by (auto simp: identity_tables_def)
qed

section \<open>The access gate\<close>

text \<open>The rows without what the operations on the access gate write.\<close>

definition gate_blind :: "Proxy \<Rightarrow> Proxy" where
  "gate_blind p = p\<lparr>Proxy_AccessAuthEnabled := False, Proxy_AccessAuthVersion := 0, Proxy_UpdatedAt := 0\<rparr>"

definition gate_tables :: "User list \<times> Client list \<times> Proxy list \<Rightarrow> DB \<Rightarrow> bool" where
  "gate_tables t db \<longleftrightarrow> (db_users db, db_clients db, map gate_blind (db_proxies db)) = t"

lemma gate_set_proxy: "(\<And>p. gate_blind (f p) = gate_blind p) \<Longrightarrow> keeps (gate_tables t) (set_proxy i f)"
  by (auto simp: keeps_def set_proxy_def gate_tables_def sql_update_def)

lemma gate_frame: "(\<And>t. keeps (identity_tables t) m) \<Longrightarrow> keeps (gate_tables t) m"
  by (erule keeps_by_frame) (simp add: gate_tables_def)

lemma gate_access:
  "keeps (gate_tables t) (access_EnableAuthAndCreateActivation now i v tok)"
  "keeps (gate_tables t) (access_rewriteAccessState now i v e)"
  unfolding access_EnableAuthAndCreateActivation_def access_rewriteAccessState_def
  by (intro keep_intros gate_set_proxy gate_frame frame_statements; simp add: gate_blind_def)+

lemma keeps_by_gate:
  assumes "\<And>t. keeps (gate_tables t) m"
    and "\<And>db db'. db_users db' = db_users db \<Longrightarrow> db_clients db' = db_clients db \<Longrightarrow>
      map gate_blind (db_proxies db') = map gate_blind (db_proxies db) \<Longrightarrow> P db \<Longrightarrow> P db'"
  shows "keeps P m"
  unfolding keeps_def
proof (intro allI impI)
  fix s assume "P s"
  have "gate_tables (db_users s, db_clients s, map gate_blind (db_proxies s)) s" by (simp add: gate_tables_def)
  with assms(1) have "gate_tables (db_users s, db_clients s, map gate_blind (db_proxies s)) (snd (m s))"
    by (simp add: keeps_def)
  with \<open>P s\<close> show "P (snd (m s))" using assms(2) by (auto simp: gate_tables_def)
qed

section \<open>The methods on proxies, branch by branch\<close>

text \<open>The row that Update writes over an old one.\<close>

definition row_over :: "time \<Rightarrow> Proxy \<Rightarrow> Proxy \<Rightarrow> Proxy" where
  "row_over now n p = p\<lparr>Proxy_Name := Proxy_Name n,
               Proxy_Status := Proxy_Status n, Proxy_DomainID := Proxy_DomainID n,
               Proxy_PathPrefix := Proxy_PathPrefix n, Proxy_StripPrefix := Proxy_StripPrefix n,
               Proxy_UpstreamPathPrefix := Proxy_UpstreamPathPrefix n,
               Proxy_EntryBindHost := NormalizeBindHost (Proxy_EntryBindHost n),
               Proxy_EntryPort := Proxy_EntryPort n, Proxy_TargetHost := Proxy_TargetHost n,
               Proxy_TargetPort := Proxy_TargetPort n,
               Proxy_AccessAuthEnabled := Proxy_AccessAuthEnabled n,
               Proxy_AccessAuthVersion := Proxy_AccessAuthVersion n,
               Proxy_StatsLegacyAggregate := Proxy_StatsLegacyAggregate n,
               Proxy_Description := Proxy_Description n, Proxy_UpdatedAt := now\<rparr>"

lemma row_over_simps [simp]:
  "Proxy_ID (row_over now n p) = Proxy_ID p" "Proxy_ClientID (row_over now n p) = Proxy_ClientID p"
  "Proxy_UserID (row_over now n p) = Proxy_UserID p" "Proxy_Type (row_over now n p) = Proxy_Type p"
  "Proxy_Status (row_over now n p) = Proxy_Status n" "Proxy_EntryPort (row_over now n p) = Proxy_EntryPort n"
  "Proxy_EntryBindHost (row_over now n p) = NormalizeBindHost (Proxy_EntryBindHost n)"
  by (simp_all add: row_over_def)

lemma normalized_simps:
  assumes "normalizeProxyForStore p = Inr n"
  shows "Proxy_ID n = Proxy_ID p" "Proxy_ClientID n = Proxy_ClientID p" "Proxy_UserID n = Proxy_UserID p"
    "Proxy_Type n = Proxy_Type p" "Proxy_Status n = Proxy_Status p"
  using assms by (auto simp: normalizeProxyForStore_def blank_entry_def rbind_eq_Inr split: if_splits)

lemma SetStatus_cases:
  "snd (proxies_SetStatus b now i ps db) = db \<or>
   (protectSystemMutation b db i = Inr () \<and>
    snd (proxies_SetStatus b now i ps db) =
      db\<lparr>db_proxies := sql_update (\<lambda>p. Proxy_ID p = i) (\<lambda>p. p\<lparr>Proxy_Status := ps, Proxy_UpdatedAt := now\<rparr>) (db_proxies db)\<rparr>)"
  by (cases "protectSystemMutation b db i") (simp_all add: proxies_SetStatus_def sbind_def update_proxy_def)

lemma Update_cases:
  "snd (proxies_Update b now p db) = db \<or>
   (\<exists>n. normalizeProxyForStore p = Inr n \<and> protectSystemMutation b db (Proxy_ID p) = Inr () \<and>
    snd (proxies_Update b now p db) =
      db\<lparr>db_proxies := sql_update (\<lambda>q. Proxy_ID q = Proxy_ID p) (row_over now n) (db_proxies db)\<rparr>)"
proof (cases "protectSystemMutation b db (Proxy_ID p)")
  case (Inr u)
  show ?thesis
  proof (cases "normalizeProxyForStore p")
    case (Inr n)
    note id = normalized_simps(1) [OF Inr]
    show ?thesis using Inr \<open>protectSystemMutation b db (Proxy_ID p) = Inr u\<close>
      by (cases "proxy_Validate n") (simp_all add: proxies_Update_def sbind_def update_proxy_def row_over_def [abs_def] id)
  qed (simp add: proxies_Update_def sbind_def Inr)
qed (simp add: proxies_Update_def sbind_def)

lemma Delete_cases:
  "snd (proxies_Delete b i db) = db \<or>
   (protectSystemMutation b db i = Inr () \<and> snd (proxies_Delete b i db) = drop_proxies (\<lambda>p. Proxy_ID p = i) db)"
  by (cases "protectSystemMutation b db i") (simp_all add: proxies_Delete_def sbind_def delete_proxy_def)

text \<open>The row that Create adds, or nothing; the domains it converts an old type into are other tables.\<close>

lemma Create_cases:
  "(\<exists>db' q n. snd (proxies_Create b now ids p db) = db'\<lparr>db_proxies := db_proxies db @ [n]\<rparr> \<and>
      db_users db' = db_users db \<and> db_clients db' = db_clients db \<and>
      fst (ensureLegacyWebProxyDomain now ids p db) = Inr q \<and>
      (\<exists>m. normalizeProxyForStore q = Inr m \<and> proxy_Validate m = Inr () \<and>
         n = proxy_row (m\<lparr>Proxy_CreatedAt := or_now now (Proxy_CreatedAt m), Proxy_UpdatedAt := or_now now (Proxy_UpdatedAt m)\<rparr>)) \<and>
      \<not> (\<not> b \<and> (IsSystemProxy p \<or> IsSystemUserID (Proxy_UserID p))) \<and> n \<notin> set (db_proxies db) \<and>
      Proxy_ID n \<notin> Proxy_ID ` set (db_proxies db)) \<or>
   (db_users (snd (proxies_Create b now ids p db)) = db_users db \<and>
    db_clients (snd (proxies_Create b now ids p db)) = db_clients db \<and>
    db_proxies (snd (proxies_Create b now ids p db)) = db_proxies db)"
proof (cases "\<not> b \<and> (IsSystemProxy p \<or> IsSystemUserID (Proxy_UserID p))")
  case False
  obtain r db' where legacy: "ensureLegacyWebProxyDomain now ids p db = (r, db')" by fastforce
  have "keeps (identity_tables t) (ensureLegacyWebProxyDomain now ids p)" for t
    unfolding ensureLegacyWebProxyDomain_def Let_def by (intro keep_intros frame_legacy)
  from keepsD [OF this _ legacy, of "(db_users db, db_clients db, db_proxies db)"]
  have frame: "db_users db' = db_users db" "db_clients db' = db_clients db" "db_proxies db' = db_proxies db"
    by (auto simp: identity_tables_def)
  show ?thesis
  proof (cases r)
    case (Inl e)
    then show ?thesis using False legacy frame by (simp add: proxies_Create_def sbind_def)
  next
    case (Inr q)
    show ?thesis
    proof (cases "normalizeProxyForStore q")
      case (Inl e)
      then show ?thesis using False legacy frame \<open>r = Inr q\<close> by (simp add: proxies_Create_def sbind_def)
    next
      case m: (Inr m)
      let ?n = "proxy_row (m\<lparr>Proxy_CreatedAt := or_now now (Proxy_CreatedAt m), Proxy_UpdatedAt := or_now now (Proxy_UpdatedAt m)\<rparr>)"
      show ?thesis
      proof (cases "proxy_Validate m = Inr () \<and> fst (insert_proxy ?n db') = Inr ()")
        case True
        then have "snd (proxies_Create b now ids p db) = db'\<lparr>db_proxies := db_proxies db @ [?n]\<rparr>"
          "Proxy_ID ?n \<notin> Proxy_ID ` set (db_proxies db)"
          using False legacy frame \<open>r = Inr q\<close> m
          by (auto simp: proxies_Create_def sbind_def insert_proxy_def sql_checked_def sql_exists_iff split: if_splits)
        then show ?thesis using False legacy frame \<open>r = Inr q\<close> m True by (intro disjI1 exI [of _ db'] exI [of _ q] exI [of _ ?n]) auto
      next
        case other: False
        then show ?thesis using False legacy frame \<open>r = Inr q\<close> m
          by (cases "proxy_Validate m") (auto simp: proxies_Create_def sbind_def insert_proxy_def sql_checked_def split: if_splits)
      qed
    qed
  qed
qed (simp add: proxies_Create_def)

end
