(* ===== verification/AdminSamples.thy ===== *)
theory AdminSamples
  imports AdminKeeps ListenerProps CertResolver
begin

text \<open>
  A small installation for the concrete instances of the theorems on the administration: the system
  identity, a user with a client, no proxy, and listeners on a machine where every address can be bound.
\<close>

definition admin_service :: CertService where
  "admin_service =
     \<lparr>sv_hasStore = True, sv_Issuer = None, sv_DNSProvider = False,
      sv_OriginCAClient = \<lparr>oc_Create = (\<lambda>_ _. Inl (New ''offline'')), oc_Get = (\<lambda>_ _. Inl (New ''offline'')),
        oc_Revoke = (\<lambda>_ _. Inl (New ''offline'')), oc_VerifyToken = (\<lambda>_. Inl (New ''offline''))\<rparr>,
      sv_SecretStore = None, sv_certificateDir = ''/c'', sv_certEnv = sample_cert_env,
      sv_Settings = \<lparr>ACME_Enabled = False, ACME_DirectoryURL = [], ACME_AccountEmail = [], ACME_TermsAccepted = False,
        ACME_RenewalWindow = 0, ACME_DNSProvider = [], ACME_DNSProviderTokenEnv = []\<rparr>,
      sv_OriginCASettings = \<lparr>OCA_Enabled = False, OCA_SecretStorePath = [], OCA_DefaultRequestType = [],
        OCA_RequestedValidity = 0, OCA_RotationWindow = 0\<rparr>,
      sv_NewID = None, sv_now = 1000, sv_Getenv = (\<lambda>_. []), sv_ctxErr = None, sv_newKey = (\<lambda>_ _. Inl (New ''no key''))\<rparr>"

text \<open>Every random value has its number in it; the digest of a text is the text.\<close>

definition admin_env :: "int ServerRuntime AdminEnv" where
  "admin_env =
     \<lparr>ad_now = 1000, ad_hex = (\<lambda>k n. ''x'' @ itoa k), ad_storeID = (\<lambda>k prefix. prefix @ itoa k), ad_claims = [],
      ad_defaults = rt_defaults sample_runtime, ad_reconcile = Some (ReconcileProxyListeners sample_listener_env),
      ad_certs = admin_service, ad_secretWrite = (\<lambda>_ _. sfail (New ''no secrets'')), ad_secretDelete = (\<lambda>_. sret ()),
      ad_SHA256 = (\<lambda>s. s), ad_bcrypt = (\<lambda>p. Inr p), ad_hasPolicy = True,
      ad_join = \<lparr>JD_Host = [], JD_Source = [], JD_ServerAddress = ''s.io:7000'', JD_ServerTLSAddress = [],
        JD_EnrollmentURL = ''https://s.io/enroll'', JD_LegacyAdminEnrollmentURL = [], JD_ServerName = ''s.io'',
        JD_ServerCAFile = ''/c/a.crt''\<rparr>\<rparr>"

definition system_user :: User where
  "system_user = zeroUser\<lparr>User_ID := SystemUserID, User_Username := SystemUsername, User_Role := RoleUser,
     User_Status := UserDisabled\<rparr>"

definition system_client :: Client where
  "system_client = zeroClient\<lparr>Client_ID := SystemClientID, Client_UserID := SystemUserID, Client_Name := SystemClientName,
     Client_Kind := ClientKindProvider, Client_Status := ClientOnline, Client_CredentialHash := disabledSecret\<rparr>"

definition ann :: User where
  "ann = zeroUser\<lparr>User_ID := ''u1'', User_Username := ''ann'', User_Role := RoleUser, User_Status := UserEnabled\<rparr>"

definition box :: Client where
  "box = zeroClient\<lparr>Client_ID := ''c1'', Client_UserID := ''u1'', Client_Name := ''box'', Client_Kind := ClientKindProvider,
     Client_Status := ClientOffline, Client_CredentialHash := ''h''\<rparr>"

definition admin_db :: DB where
  "admin_db = emptyDB\<lparr>db_users := [system_user, ann], db_clients := [system_client, box]\<rparr>"

definition admin_start :: "int ServerRuntime AdminState" where
  "admin_start = \<lparr>as_world = \<lparr>cw_db = admin_db, cw_disk = \<lparr>dk_files = sample_cert_files, dk_past = []\<rparr>, cw_locks = []\<rparr>,
     as_rt = sample_runtime, as_policy = None, as_draws = 0\<rparr>"

definition tcp_input :: "string \<Rightarrow> int \<Rightarrow> CreateProxyInput" where
  "tcp_input i port =
     \<lparr>CPI_ID = i, CPI_UserID = ''u1'', CPI_ClientID = ''c1'', CPI_Name = ''ssh'', CPI_Type = ProxyTCP, CPI_DomainID = [],
      CPI_PathPrefix = [], CPI_StripPrefix = False, CPI_UpstreamPathPrefix = [], CPI_EntryBindHost = [],
      CPI_EntryHost = [], CPI_EntryPort = port, CPI_TargetHost = ''10.0.0.5'', CPI_TargetPort = 22, CPI_CertFile = [],
      CPI_KeyFile = [], CPI_CertificateID = [], CPI_Description = [], CPI_ActorID = ''u1''\<rparr>"

definition admin_codec :: TokenCodec where
  "admin_codec = \<lparr>js_Marshal = (\<lambda>p. Inl (New ''no json'')), js_Unmarshal = (\<lambda>s. Inl (New ''no json'')), js_SHA256 = (\<lambda>s. s)\<rparr>"

text \<open>Two proxies on one port: the second is refused; then the first is disabled and deleted.\<close>

definition sample_commands :: "AdminCommand list" where
  "sample_commands =
     [CmdCreateProxy (tcp_input ''p1'' 9000), CmdCreateProxy (tcp_input ''p2'' 9000), CmdCreateProxy (tcp_input ''p3'' 9001),
      CmdDisableProxy ''p1'' ''u1'', CmdEnableProxy ''p1'' ''u1'', CmdDisableProxy ''p1'' ''u1'', CmdDeleteProxy ''p1'' ''u1'']"

definition sample_prefix :: "nat \<Rightarrow> int ServerRuntime AdminState" where
  "sample_prefix n = run_commands admin_codec (map (\<lambda>c. (admin_env, c)) (take n sample_commands)) admin_start"

end
