(* ===== verification/AdminTypes.thy ===== *)
theory AdminTypes
  imports AdminGuards AdminSamples StoreInv
begin

text \<open>
  The type of the database that the administration commands work on: the columns that hold an enumeration
  hold one of its constants, ports are ports, and keys and references are those of \<open>db_ok\<close>. Every sequence
  of commands keeps it, whatever the commands answer.
\<close>

definition user_typed :: "User \<Rightarrow> bool" where
  "user_typed u \<longleftrightarrow> \<not> blank (User_ID u) \<and> role_Valid (User_Role u) \<and> User_Status u \<in> set [UserEnabled, UserDisabled]"

definition client_typed :: "Client \<Rightarrow> bool" where
  "client_typed c \<longleftrightarrow> \<not> blank (Client_ID c) \<and> clientKind_Valid (Client_Kind c) \<and>
     Client_Status c \<in> set [ClientOnline, ClientOffline, ClientDisconnected, ClientDisabled]"

definition domain_typed :: "Domain \<Rightarrow> bool" where
  "domain_typed d \<longleftrightarrow> Dom_Host d \<noteq> [] \<and> Dom_Status d \<in> set [DomainEnabled, DomainDisabled]"

definition entry_typed :: "DomainEntry \<Rightarrow> bool" where
  "entry_typed e \<longleftrightarrow> domainEntryProtocol_Valid (DEnt_Protocol e) \<and>
     DEnt_Status e \<in> set [DomainEntryEnabled, DomainEntryDisabled]"

definition declared_status :: "ProxyStatus \<Rightarrow> bool" where
  "declared_status s \<longleftrightarrow> s \<in> set [ProxyEnabled, ProxyDisabled, ProxyNeedsConf]"

definition proxy_typed :: "Proxy \<Rightarrow> bool" where
  "proxy_typed p \<longleftrightarrow> \<not> blank (Proxy_ID p) \<and> Proxy_Type p \<in> set [ProxyTCP, ProxyUDP, ProxyWeb, ProxyForward] \<and>
     declared_status (Proxy_Status p) \<and> 0 \<le> Proxy_EntryPort p \<and> Proxy_EntryPort p \<le> 65535 \<and>
     0 < Proxy_TargetPort p \<and> Proxy_TargetPort p \<le> 65535"

definition credential_typed :: "ProviderCredential \<Rightarrow> bool" where
  "credential_typed c \<longleftrightarrow> certificateProviderType_Valid (PCred_ProviderType c) \<and> providerCredentialStatus_Valid (PCred_Status c)"

definition rows_typed :: "DB \<Rightarrow> bool" where
  "rows_typed db \<longleftrightarrow>
     list_all user_typed (db_users db) \<and> list_all client_typed (db_clients db) \<and>
     list_all domain_typed (db_domains db) \<and> list_all entry_typed (db_domain_entries db) \<and>
     list_all proxy_typed (db_proxies db) \<and> list_all (\<lambda>c. 0 \<le> Cert_FailureCount c) (db_certificates db) \<and>
     list_all credential_typed (db_provider_credentials db)"

section \<open>Statements\<close>

lemma all_update: "list_all Q rows \<Longrightarrow> (\<And>r. P r \<Longrightarrow> Q r \<Longrightarrow> Q (f r)) \<Longrightarrow> list_all Q (sql_update P f rows)"
  by (auto simp: sql_update_def list_all_iff)

lemma all_delete: "list_all Q rows \<Longrightarrow> list_all Q (sql_delete P rows)"
  by (auto simp: sql_delete_def list_all_iff)

lemma checked_typed:
  "(\<And>s. rows_typed s \<Longrightarrow> rows_typed (f s)) \<Longrightarrow> keeps rows_typed (\<lambda>s. sql_checked (Q s) f s)"
  by (auto simp: keeps_def sql_checked_def)

lemma keeps_valid: "(\<And>a. r = Inr a \<Longrightarrow> keeps P (f a)) \<Longrightarrow> keeps P (sbind (slift r) f)"
  by (cases r) (auto simp: keeps_def sbind_def)

lemma drops_typed:
  "rows_typed db \<Longrightarrow> rows_typed (drop_proxies P1 db)" "rows_typed db \<Longrightarrow> rows_typed (drop_domains P2 db)"
  "rows_typed db \<Longrightarrow> rows_typed (drop_clients P3 db)" "rows_typed db \<Longrightarrow> rows_typed (drop_users P4 db)"
  by (auto simp: rows_typed_def drop_proxies_def drop_domains_def drop_clients_def drop_users_def Let_def intro!: all_delete)

lemma typed_inserts:
  "user_typed u \<Longrightarrow> keeps rows_typed (insert_user u)" "client_typed c \<Longrightarrow> keeps rows_typed (insert_client c)"
  "keeps rows_typed (insert_enrollment e)" "domain_typed d \<Longrightarrow> keeps rows_typed (insert_domain d)"
  "entry_typed de \<Longrightarrow> keeps rows_typed (insert_domain_entry de)" "proxy_typed p \<Longrightarrow> keeps rows_typed (insert_proxy p)"
  "keeps rows_typed (insert_token t)" "0 \<le> Cert_FailureCount mc \<Longrightarrow> keeps rows_typed (insert_certificate mc)"
  "credential_typed pc \<Longrightarrow> keeps rows_typed (insert_provider_credential pc)" "keeps rows_typed (insert_audit a)"
  "keeps rows_typed (insert_allowlist al)"
  by (auto simp: keeps_def insert_user_def insert_client_def insert_enrollment_def insert_domain_def
    insert_domain_entry_def insert_proxy_def insert_token_def insert_certificate_def insert_provider_credential_def
    insert_audit_def insert_allowlist_def sql_checked_def rows_typed_def)

lemma typed_updates:
  "(\<And>u. user_typed u \<Longrightarrow> user_typed (f1 u)) \<Longrightarrow> keeps rows_typed (update_user i f1)"
  "(\<And>c. client_typed c \<Longrightarrow> client_typed (f2 c)) \<Longrightarrow> keeps rows_typed (update_client i f2)"
  "(\<And>p. proxy_typed p \<Longrightarrow> proxy_typed (f3 p)) \<Longrightarrow> keeps rows_typed (update_proxy i f3)"
  "(\<And>p. proxy_typed p \<Longrightarrow> proxy_typed (f3 p)) \<Longrightarrow> keeps rows_typed (set_proxy i f3)"
  "(\<And>c. 0 \<le> Cert_FailureCount c \<Longrightarrow> 0 \<le> Cert_FailureCount (f4 c)) \<Longrightarrow> keeps rows_typed (update_cert i f4)"
  "(\<And>c. credential_typed c \<Longrightarrow> credential_typed (f5 c)) \<Longrightarrow> keeps rows_typed (update_pcred i f5)"
  by (simp_all add: keeps_def update_user_def update_client_def update_proxy_def set_proxy_def update_cert_def
    update_pcred_def rows_typed_def all_update)

lemma typed_deletes:
  "keeps rows_typed (delete_user i)" "keeps rows_typed (delete_client i)" "keeps rows_typed (delete_proxy i)"
  "keeps rows_typed (domains_Delete i)" "keeps rows_typed (domainEntries_Delete i)"
  "keeps rows_typed (domainEntries_DeleteByDomainID i)" "keeps rows_typed (certs_Delete i)" "keeps rows_typed (pcreds_Delete i)"
  "keeps rows_typed (smodify (\<lambda>db. db\<lparr>db_tokens := f1 db\<rparr>))" "keeps rows_typed (smodify (\<lambda>db. db\<lparr>db_credentials := f2 db\<rparr>))"
  "keeps rows_typed (smodify (\<lambda>db. db\<lparr>db_allowlist := f3 db\<rparr>))"
  by (simp_all add: keeps_def delete_user_def delete_client_def delete_proxy_def domains_Delete_def drops_typed)
    (auto simp: domainEntries_Delete_def domainEntries_DeleteByDomainID_def certs_Delete_def pcreds_Delete_def rows_typed_def
      intro!: all_delete)

lemmas typed_intros = keep_intros typed_inserts typed_updates typed_deletes

section \<open>The methods of the store\<close>

lemma typed_users:
  "keeps rows_typed (users_Create b now u)"
  "us \<in> {UserEnabled, UserDisabled} \<Longrightarrow> keeps rows_typed (users_SetStatus b now i us)"
  "keeps rows_typed (users_SetPassword b now i h)" "keeps rows_typed (users_Delete b i)"
  unfolding users_Create_def users_SetStatus_def users_SetPassword_def users_Delete_def
  by ((rule typed_intros keeps_valid)+; auto simp: user_typed_def user_Validate_def split: if_splits)+

lemma typed_clients:
  "Client_Status c = ClientOffline \<Longrightarrow> keeps rows_typed (clients_Create b now c)"
  "cs \<in> {ClientOffline, ClientDisabled} \<Longrightarrow> keeps rows_typed (clients_SetStatus b now i cs)"
  "keeps rows_typed (clients_RotateCredential b now i h)" "keeps rows_typed (clients_Delete b i)"
  "keeps rows_typed (enrollments_Create now e)"
  unfolding clients_Create_def clients_SetStatus_def clients_RotateCredential_def clients_Delete_def enrollments_Create_def
  by ((rule typed_intros keeps_valid)+; auto simp: client_typed_def client_Validate_def split: if_splits)+

lemma domain_valid_host: "domain_Validate d = Inr () \<Longrightarrow> NormalizeRouteHost (Dom_Host d) \<noteq> [] \<and> Dom_Status d \<in> {DomainEnabled, DomainDisabled}"
  by (auto simp: domain_Validate_def split: if_splits)

lemma typed_domain_row:
  "(\<And>d. domain_typed d \<Longrightarrow> domain_typed (f d)) \<Longrightarrow> rows_typed db \<Longrightarrow>
   rows_typed (db\<lparr>db_domains := sql_update P f (db_domains db)\<rparr>)"
  by (simp add: rows_typed_def all_update)

lemma typed_entry_row:
  "(\<And>e. entry_typed e \<Longrightarrow> entry_typed (f e)) \<Longrightarrow> rows_typed db \<Longrightarrow>
   rows_typed (db\<lparr>db_domain_entries := sql_update P f (db_domain_entries db)\<rparr>)"
  by (simp add: rows_typed_def all_update)

lemma typed_domains_Create: "keeps rows_typed (domains_Create now d)"
  unfolding domains_Create_def
  by (rule keeps_valid, rule typed_inserts) (auto dest: domain_valid_host simp: domain_typed_def)

lemma typed_domains_Update: "keeps rows_typed (domains_Update now d)"
  unfolding domains_Update_def
proof (rule keeps_valid)
  fix a assume "domain_Validate d = Inr a"
  then have "NormalizeRouteHost (Dom_Host d) \<noteq> []" "Dom_Status d \<in> {DomainEnabled, DomainDisabled}"
    by (auto dest: domain_valid_host)
  then show "keeps rows_typed (\<lambda>db. let host = NormalizeRouteHost (Dom_Host d); P = \<lambda>r. Dom_ID r = Dom_ID d;
      f = \<lambda>r. r\<lparr>Dom_UserID := Dom_UserID d, Dom_Host := host, Dom_CertificateID := Dom_CertificateID d,
              Dom_Status := Dom_Status d, Dom_UpdatedAt := now\<rparr>
      in if sql_affected P (db_domains db) = 0 then (Inl ErrNotFound, db)
         else sql_checked (\<not> sql_exists (\<lambda>r. Dom_ID r \<noteq> Dom_ID d \<and> to_lower (Dom_Host r) = to_lower host) (db_domains db) \<and>
                has_user db (Dom_UserID d)) (\<lambda>db. db\<lparr>db_domains := sql_update P f (db_domains db)\<rparr>) db)"
    by (auto simp: keeps_def Let_def sql_checked_def domain_typed_def intro!: typed_domain_row)
qed

lemma typed_domains_SetStatus:
  "ds \<in> {DomainEnabled, DomainDisabled} \<Longrightarrow> keeps rows_typed (domains_SetStatus now i ds)"
  by (auto simp: keeps_def domains_SetStatus_def domain_typed_def intro!: typed_domain_row)

lemma typed_entries_Create: "keeps rows_typed (domainEntries_Create now e)"
  unfolding domainEntries_Create_def
  by (rule keeps_valid, rule typed_inserts) (auto simp: entry_typed_def domainEntry_Validate_def split: if_splits)

lemma typed_entries_Update: "keeps rows_typed (domainEntries_Update now e)"
proof -
  have "rows_typed (snd (domainEntries_Update now e db))" if "rows_typed db" for db
  proof (cases "domainEntry_Validate e")
    case (Inr u)
    then have e: "domainEntryProtocol_Valid (DEnt_Protocol e)" "DEnt_Status e \<in> {DomainEntryEnabled, DomainEntryDisabled}"
      by (auto simp: domainEntry_Validate_def split: if_splits)
    show ?thesis using that Inr e
      by (auto simp: domainEntries_Update_def sbind_def Let_def sql_checked_def entry_typed_def
        intro!: typed_entry_row split: sum.splits)
  qed (use that in \<open>simp add: domainEntries_Update_def sbind_def\<close>)
  then show ?thesis by (simp add: keeps_def)
qed

lemma typed_access:
  "keeps rows_typed (access_EnableAuthAndCreateActivation now i v t)" "keeps rows_typed (access_CreateActivationToken now t)"
  "keeps rows_typed (access_rewriteAccessState now i v e)"
  unfolding access_EnableAuthAndCreateActivation_def access_CreateActivationToken_def access_rewriteAccessState_def
  by (intro typed_intros; simp add: proxy_typed_def)+

lemma typed_others:
  "keeps rows_typed (allowlist_Replace es)" "keeps rows_typed (audit_Create now a)"
  unfolding allowlist_Replace_def audit_Create_def by (intro typed_intros)+

lemma typed_credentials:
  "keeps rows_typed (pcreds_Create now pc)" "keeps rows_typed (pcreds_Update now pc)"
  "providerCredentialStatus_Valid st \<Longrightarrow> keeps rows_typed (pcreds_SetStatus now i st lv er)"
  unfolding pcreds_Create_def pcreds_Update_def pcreds_SetStatus_def
  by ((rule typed_intros keeps_valid)+; auto simp: credential_typed_def providerCredential_Validate_def split: if_splits)+

lemma optional_failures [simp]: "Cert_FailureCount (success_optional r t c) = Cert_FailureCount c"
  by (simp add: success_optional_def Let_def split: option.splits)

lemma defaults_failures [simp]: "Cert_FailureCount (applyManagedCertificateDefaults c) = Cert_FailureCount c"
  by (simp add: applyManagedCertificateDefaults_def Let_def)

lemma typed_certificates:
  "keeps rows_typed (certs_Create now mc)" "keeps rows_typed (certs_UpdateSuccess now i r)"
  "keeps rows_typed (certs_UpdateFailure now i f)" "keeps rows_typed (certs_UpdateHealth now i hl)"
  "keeps rows_typed (certs_UpdateProviderSync now i sy)"
proof -
  show "keeps rows_typed (certs_Create now mc)" unfolding certs_Create_def Let_def
    by (rule keeps_valid, rule typed_inserts) (auto simp: managedCertificate_Validate_def split: if_splits)
  show "keeps rows_typed (certs_UpdateSuccess now i r)" "keeps rows_typed (certs_UpdateHealth now i hl)"
    "keeps rows_typed (certs_UpdateProviderSync now i sy)"
    unfolding certs_UpdateSuccess_def certs_UpdateHealth_def certs_UpdateProviderSync_def
    by (rule typed_updates; simp add: success_row_def health_row_def sync_row_def Let_def)+
  show "keeps rows_typed (certs_UpdateFailure now i f)" unfolding certs_UpdateFailure_def
    by (rule typed_updates) (simp add: failure_row_def Let_def split: option.splits)
qed

section \<open>Proxies\<close>

text \<open>What is left of the types of the interface once the store has converted the old ones.\<close>

definition converted :: "Proxy \<Rightarrow> Proxy \<Rightarrow> bool" where
  "converted p q \<longleftrightarrow> Proxy_Type q \<noteq> ProxyHTTP \<and> Proxy_Type q \<noteq> ProxyHTTPS \<and> Proxy_Status q = Proxy_Status p \<and>
     (Proxy_Type p \<noteq> ProxyHTTP \<and> Proxy_Type p \<noteq> ProxyHTTPS \<longrightarrow> q = p)"

lemma typed_set_domain_certificate: "keeps rows_typed (set_domain_certificate now i c)"
  by (auto simp: set_domain_certificate_def keeps_def domain_typed_def intro!: typed_domain_row)

lemma typed_legacy:
  "host \<noteq> [] \<Longrightarrow> keeps rows_typed (legacy_domain now ids p host)"
  "domainEntryProtocol_Valid pr \<Longrightarrow> keeps rows_typed (legacy_entry now ids did pr bh port)"
  "keeps rows_typed (legacy_certificate now ids p pr did host)"
  unfolding legacy_domain_def legacy_entry_def legacy_certificate_def
  by (intro typed_intros typed_set_domain_certificate;
      simp add: domain_typed_def entry_typed_def static_certificate_def Domain.zeroCertificate_def)+

lemma typed_ensureLegacy: "yields rows_typed (converted p) (ensureLegacyWebProxyDomain now ids p)"
  unfolding ensureLegacyWebProxyDomain_def Let_def
  by (intro yield_intros typed_legacy; auto simp: converted_def blank_entry_def domainEntryProtocol_Valid_def)

lemma normalized_type: "normalizeProxyForStore p = Inr q \<Longrightarrow> Proxy_Type q = Proxy_Type p \<and> Proxy_Status q = Proxy_Status p"
  by (auto simp: normalizeProxyForStore_def blank_entry_def rbind_eq_Inr split: if_splits)

lemma valid_proxy_typed:
  assumes "proxy_Validate p = Inr ()" "Proxy_Type p \<noteq> ProxyHTTP" "Proxy_Type p \<noteq> ProxyHTTPS" "declared_status (Proxy_Status p)"
  shows "proxy_typed p"
  using assms by (auto simp: proxy_Validate_def proxy_typed_def proxyType_Valid_def split: if_splits)

lemma typed_proxies_Create: "declared_status (Proxy_Status p) \<Longrightarrow> keeps rows_typed (proxies_Create b now ids p)"
  unfolding proxies_Create_def
proof (intro keeps_if keeps_basic keeps_bind_value [OF typed_ensureLegacy] keeps_valid)
  fix q n u
  assume declared: "declared_status (Proxy_Status p)" and q: "converted p q"
    and n: "normalizeProxyForStore q = Inr n" and u: "proxy_Validate n = Inr u"
  have "proxy_typed n" using q normalized_type [OF n] u declared by (intro valid_proxy_typed) (auto simp: converted_def)
  then show "keeps rows_typed (insert_proxy (proxy_row (n\<lparr>Proxy_CreatedAt := or_now now (Proxy_CreatedAt n),
      Proxy_UpdatedAt := or_now now (Proxy_UpdatedAt n)\<rparr>)))"
    by (intro typed_inserts) (simp add: proxy_row_def blank_entry_def proxy_typed_def)
qed

lemma typed_proxies_Update: "declared_status (Proxy_Status p) \<Longrightarrow> keeps rows_typed (proxies_Update b now p)"
  unfolding proxies_Update_def
proof (intro keeps_if keeps_basic(3) keeps_sbind [OF keeps_basic(4)] keeps_valid)
  fix n u
  assume declared: "declared_status (Proxy_Status p)" and n: "normalizeProxyForStore p = Inr n" and u: "proxy_Validate n = Inr u"
  have ports: "0 \<le> Proxy_EntryPort n" "Proxy_EntryPort n \<le> 65535" "0 < Proxy_TargetPort n" "Proxy_TargetPort n \<le> 65535"
    using u by (auto simp: proxy_Validate_def split: if_splits)
  show "keeps rows_typed (update_proxy (Proxy_ID n) (\<lambda>p. p\<lparr>Proxy_Name := Proxy_Name n,
               Proxy_Status := Proxy_Status n, Proxy_DomainID := Proxy_DomainID n,
               Proxy_PathPrefix := Proxy_PathPrefix n, Proxy_StripPrefix := Proxy_StripPrefix n,
               Proxy_UpstreamPathPrefix := Proxy_UpstreamPathPrefix n,
               Proxy_EntryBindHost := NormalizeBindHost (Proxy_EntryBindHost n),
               Proxy_EntryPort := Proxy_EntryPort n, Proxy_TargetHost := Proxy_TargetHost n,
               Proxy_TargetPort := Proxy_TargetPort n,
               Proxy_AccessAuthEnabled := Proxy_AccessAuthEnabled n,
               Proxy_AccessAuthVersion := Proxy_AccessAuthVersion n,
               Proxy_StatsLegacyAggregate := Proxy_StatsLegacyAggregate n,
               Proxy_Description := Proxy_Description n, Proxy_UpdatedAt := now\<rparr>))"
    using ports declared normalized_type [OF n] by (intro typed_updates) (simp add: proxy_typed_def)
qed

lemma typed_proxies_rest:
  "declared_status ps \<Longrightarrow> keeps rows_typed (proxies_SetStatus b now i ps)" "keeps rows_typed (proxies_Delete b i)"
  unfolding proxies_SetStatus_def proxies_Delete_def by (intro typed_intros; simp add: proxy_typed_def)+

section \<open>Every command keeps the type\<close>

definition well_typed :: "DB \<Rightarrow> bool" where
  "well_typed db \<longleftrightarrow> db_ok db \<and> rows_typed db"

lemma keeps_well_typed: "keeps db_ok m \<Longrightarrow> keeps rows_typed m \<Longrightarrow> keeps well_typed m"
  by (simp add: keeps_def well_typed_def)

lemma typed_row_status: "well_typed db \<Longrightarrow> p \<in> set (db_proxies db) \<Longrightarrow> declared_status (Proxy_Status p)"
  by (auto simp: well_typed_def rows_typed_def proxy_typed_def list_all_iff)

lemmas method_typed = typed_users typed_clients typed_domains_Create typed_domains_Update typed_domains_SetStatus
  typed_entries_Create typed_entries_Update typed_deletes typed_access typed_others typed_credentials typed_certificates
  typed_proxies_Create typed_proxies_Update typed_proxies_rest

lemmas method_ok = users_keep clients_keep domains_keep domains_Update_keeps domains_SetStatus_keeps delete_keeps
  domainEntries_Update_keeps leaf_delete_keeps access_keep others_keep certs_keep proxies_keep

interpretation well_typed: full_store well_typed "\<lambda>p. declared_status (Proxy_Status p)" declared_status
  by (unfold_locales; (intro keeps_well_typed method_typed method_ok; simp)?)
    (auto dest: typed_row_status simp: declared_status_def)


lemma admin_db_typed: "well_typed admin_db"
  unfolding well_typed_def
proof
  show "db_ok admin_db"
    by (simp add: db_ok_def keys_unique_def refs_ok_def has_defs admin_db_def emptyDB_def system_user_def ann_def
        zeroUser_def system_client_def box_def zeroClient_def sql_exists_def)
  show "rows_typed admin_db" by code_simp
qed


end
