(* ===== verification/AdminSystem.thy ===== *)
theory AdminSystem
  imports AdminFrames AdminTypes
begin

text \<open>
  The identity of the server itself: the reserved user, the reserved client and the proxies of that client.
  No command but those for the local proxies changes them; the state of the access gate aside, which means
  nothing for a proxy that is not a web proxy.
\<close>

definition system_rows :: "DB \<Rightarrow> User list \<times> Client list \<times> Proxy list" where
  "system_rows db =
     (filter (\<lambda>u. IsSystemUserID (User_ID u)) (db_users db), filter (\<lambda>c. IsSystemClientID (Client_ID c)) (db_clients db),
      map gate_blind (filter IsSystemProxy (db_proxies db)))"

text \<open>The rows belong to the system user, as EnsureSystemClient and the local commands write them.\<close>

definition owned :: "User list \<times> Client list \<times> Proxy list \<Rightarrow> bool" where
  "owned rows \<longleftrightarrow> (case rows of (us, cs, ps) \<Rightarrow>
     list_all (\<lambda>c. Client_UserID c = SystemUserID) cs \<and> list_all (\<lambda>p. Proxy_UserID p = SystemUserID) ps)"

definition system_kept :: "User list \<times> Client list \<times> Proxy list \<Rightarrow> DB \<Rightarrow> bool" where
  "system_kept rows db \<longleftrightarrow> db_ok db \<and> system_rows db = rows \<and> owned rows"

definition rows_kept :: "User list \<times> Client list \<times> Proxy list \<Rightarrow> DB \<Rightarrow> bool" where
  "rows_kept rows db \<longleftrightarrow> system_rows db = rows \<and> owned rows"

lemma gate_blind_client [simp]: "IsSystemProxy (gate_blind p) = IsSystemProxy p" "Proxy_UserID (gate_blind p) = Proxy_UserID p"
  "Proxy_ClientID (gate_blind p) = Proxy_ClientID p"
  by (simp_all add: gate_blind_def IsSystemProxy_def)

lemma map_gate_blind_filter: "map gate_blind (filter IsSystemProxy ps) = filter IsSystemProxy (map gate_blind ps)"
  by (simp add: filter_map comp_def)

lemma rows_by_frame: "(\<And>t. keeps (identity_tables t) m) \<Longrightarrow> keeps (rows_kept rows) m"
  by (erule keeps_by_frame) (simp add: rows_kept_def system_rows_def)

lemma rows_by_gate: "(\<And>t. keeps (gate_tables t) m) \<Longrightarrow> keeps (rows_kept rows) m"
  by (erule keeps_by_gate) (simp add: rows_kept_def system_rows_def map_gate_blind_filter)

section \<open>Statements on rows that are not the system's\<close>

lemma filter_update_other:
  "(\<And>r. r \<in> set rows \<Longrightarrow> P r \<Longrightarrow> \<not> Q r \<and> \<not> Q (f r)) \<Longrightarrow> filter Q (sql_update P f rows) = filter Q rows"
  by (induction rows) (auto simp: sql_update_def)

lemma filter_delete_other: "(\<And>r. r \<in> set rows \<Longrightarrow> P r \<Longrightarrow> \<not> Q r) \<Longrightarrow> filter Q (sql_delete P rows) = filter Q rows"
  by (induction rows) (auto simp: sql_delete_def)

lemma kept_inserts:
  "\<not> IsSystemUserID (User_ID u) \<Longrightarrow> keeps (rows_kept rows) (insert_user u)"
  "\<not> IsSystemClientID (Client_ID c) \<Longrightarrow> keeps (rows_kept rows) (insert_client c)"
  "\<not> IsSystemProxy p \<Longrightarrow> keeps (rows_kept rows) (insert_proxy p)"
  by (auto simp: keeps_def insert_user_def insert_client_def insert_proxy_def sql_checked_def rows_kept_def system_rows_def)

lemma kept_updates:
  "\<not> IsSystemUserID i \<Longrightarrow> (\<And>u. User_ID (f1 u) = User_ID u) \<Longrightarrow> keeps (rows_kept rows) (update_user i f1)"
  "\<not> IsSystemClientID i \<Longrightarrow> (\<And>c. Client_ID (f2 c) = Client_ID c) \<Longrightarrow> keeps (rows_kept rows) (update_client i f2)"
  by (auto simp: keeps_def update_user_def update_client_def rows_kept_def system_rows_def intro!: filter_update_other)

lemma kept_drop_proxies:
  "(\<And>p. p \<in> set (db_proxies db) \<Longrightarrow> P p \<Longrightarrow> \<not> IsSystemProxy p) \<Longrightarrow> system_rows (drop_proxies P db) = system_rows db"
  by (simp add: system_rows_def drop_proxies_def Let_def filter_delete_other)

lemma kept_drop_clients:
  assumes "\<And>c. c \<in> set (db_clients db) \<Longrightarrow> P c \<Longrightarrow> \<not> IsSystemClientID (Client_ID c)"
  shows "system_rows (drop_clients P db) = system_rows db"
proof -
  have "system_rows (drop_clients P db) =
      system_rows (db\<lparr>db_clients := sql_delete P (db_clients db),
        db_enrollments := sql_delete (\<lambda>e. Enr_ClientID e \<in> set (map Client_ID (filter P (db_clients db)))) (db_enrollments db)\<rparr>)"
    unfolding drop_clients_def Let_def by (rule kept_drop_proxies) (use assms in \<open>auto simp: IsSystemProxy_def\<close>)
  then show ?thesis using assms by (simp add: system_rows_def filter_delete_other)
qed

lemma system_owner:
  "owned (system_rows db) \<Longrightarrow> c \<in> set (db_clients db) \<Longrightarrow> IsSystemClientID (Client_ID c) \<Longrightarrow> Client_UserID c = SystemUserID"
  "owned (system_rows db) \<Longrightarrow> p \<in> set (db_proxies db) \<Longrightarrow> IsSystemProxy p \<Longrightarrow> Proxy_UserID p = SystemUserID"
  by (auto simp: owned_def system_rows_def list_all_iff)

lemma kept_deletes:
  "\<not> IsSystemClientID i \<Longrightarrow> keeps (rows_kept rows) (delete_client i)"
  by (auto simp: keeps_def delete_client_def rows_kept_def intro!: kept_drop_clients)

lemma kept_delete_user:
  assumes "\<not> IsSystemUserID i"
  shows "keeps (rows_kept rows) (delete_user i)"
proof -
  have "system_rows (drop_users (\<lambda>u. User_ID u = i) db) = system_rows db" if owned: "owned (system_rows db)" for db
  proof -
    let ?gone = "set (map User_ID (filter (\<lambda>u. User_ID u = i) (db_users db)))"
    let ?a = "db\<lparr>db_users := sql_delete (\<lambda>u. User_ID u = i) (db_users db)\<rparr>"
    let ?b = "drop_clients (\<lambda>c. Client_UserID c \<in> ?gone) ?a"
    have system: "SystemUserID \<notin> ?gone" using assms by (auto simp: IsSystemUserID_def)
    have a: "system_rows ?a = system_rows db"
      using assms by (simp add: system_rows_def) (rule filter_delete_other, auto)
    have b: "system_rows ?b = system_rows ?a"
      by (rule kept_drop_clients) (use system_owner(1) [OF owned] system in auto)
    have "owned (system_rows ?b)" unfolding b a by (rule owned)
    from system_owner(2) [OF this] have c: "system_rows (drop_proxies (\<lambda>p. Proxy_UserID p \<in> ?gone) ?b) = system_rows ?b"
      using system by (intro kept_drop_proxies) metis
    have "system_rows (drop_users (\<lambda>u. User_ID u = i) db) = system_rows (drop_proxies (\<lambda>p. Proxy_UserID p \<in> ?gone) ?b)"
      unfolding drop_users_def Let_def by (simp add: drop_domains_def Let_def system_rows_def)
    then show ?thesis unfolding c b a .
  qed
  then show ?thesis unfolding keeps_def delete_user_def rows_kept_def snd_conv by metis
qed

section \<open>Methods on proxies\<close>

text \<open>Without the marker of an internal mutation the row behind the identity is not the system's.\<close>

lemma unprotected_row:
  assumes protect: "protectSystemMutation False db i = Inr u" and ok: "db_ok db"
    and p: "p \<in> set (db_proxies db)" "Proxy_ID p = i"
  shows "\<not> IsSystemProxy p"
proof -
  have distinct: "distinct (map Proxy_ID (db_proxies db))" using ok by (simp add: db_ok_def keys_unique_def)
  have "sql_one (\<lambda>p. Proxy_ID p = i) (db_proxies db) = Inr p"
  proof (cases "sql_one (\<lambda>p. Proxy_ID p = i) (db_proxies db)")
    case (Inl e)
    then show ?thesis using p by (simp add: sql_one_Inl)
  next
    case (Inr q)
    from sql_one_Inr [OF Inr] have "q \<in> set (db_proxies db)" "Proxy_ID q = i" by simp_all
    with distinct p have "q = p" by (simp add: distinct_map inj_on_def)
    with Inr show ?thesis by simp
  qed
  with protect show ?thesis
    by (simp add: protectSystemMutation_def ProtectProxyMutation_def reject_if_def IsSystemProxy_def split: if_splits)
qed

lemma kept_rows_update:
  assumes "\<And>p. p \<in> set (db_proxies db) \<Longrightarrow> Proxy_ID p = i \<Longrightarrow> \<not> IsSystemProxy p"
    and "\<And>p. Proxy_ClientID (f p) = Proxy_ClientID p"
  shows "system_rows (db\<lparr>db_proxies := sql_update (\<lambda>p. Proxy_ID p = i) f (db_proxies db)\<rparr>) = system_rows db"
  using assms by (simp add: system_rows_def) (subst filter_update_other, auto simp: IsSystemProxy_def)

lemma kept_method:
  assumes "keeps db_ok m" and "\<And>db. db_ok db \<Longrightarrow> system_rows (snd (m db)) = system_rows db"
  shows "keeps (system_kept rows) m"
  using assms by (simp add: keeps_def system_kept_def)

lemma kept_proxy_methods:
  "keeps (system_kept rows) (proxies_SetStatus False now i ps)" "keeps (system_kept rows) (proxies_Delete False i)"
  "keeps (system_kept rows) (proxies_Update False now p)"
proof -
  show "keeps (system_kept rows) (proxies_SetStatus False now i ps)"
  proof (rule kept_method [OF proxies_keep(2)])
    fix db assume "db_ok db"
    show "system_rows (snd (proxies_SetStatus False now i ps db)) = system_rows db"
      using SetStatus_cases [of False now i ps db] unprotected_row [OF _ \<open>db_ok db\<close>, of i]
      by (elim disjE conjE) (simp_all add: kept_rows_update)
  qed
  show "keeps (system_kept rows) (proxies_Delete False i)"
  proof (rule kept_method [OF proxies_keep(4)])
    fix db assume "db_ok db"
    show "system_rows (snd (proxies_Delete False i db)) = system_rows db"
      using Delete_cases [of False i db] unprotected_row [OF _ \<open>db_ok db\<close>, of i]
      by (elim disjE conjE) (simp_all add: kept_drop_proxies)
  qed
  show "keeps (system_kept rows) (proxies_Update False now p)"
  proof (rule kept_method [OF proxies_keep(3)])
    fix db assume "db_ok db"
    show "system_rows (snd (proxies_Update False now p db)) = system_rows db"
      using Update_cases [of False now p db] unprotected_row [OF _ \<open>db_ok db\<close>, of "Proxy_ID p"]
      by (elim disjE exE conjE) (simp_all add: kept_rows_update)
  qed
qed

lemma converted_client: "yields (rows_kept rows) (\<lambda>q. Proxy_ClientID q = Proxy_ClientID p) (ensureLegacyWebProxyDomain now ids p)"
  unfolding ensureLegacyWebProxyDomain_def Let_def
  by (intro yield_intros rows_by_frame frame_legacy; simp add: blank_entry_def)

lemma kept_proxies_Create: "keeps (rows_kept rows) (proxies_Create False now ids p)"
proof (cases "IsSystemProxy p \<or> IsSystemUserID (Proxy_UserID p)")
  case False
  then have "keeps (rows_kept rows) (sbind (ensureLegacyWebProxyDomain now ids p) (\<lambda>converted.
      sbind (slift (normalizeProxyForStore converted)) (\<lambda>proxy.
      sbind (slift (proxy_Validate proxy)) (\<lambda>_.
        insert_proxy (proxy_row (proxy\<lparr>Proxy_CreatedAt := or_now now (Proxy_CreatedAt proxy),
          Proxy_UpdatedAt := or_now now (Proxy_UpdatedAt proxy)\<rparr>))))))"
    by (intro keeps_bind_value [OF converted_client] keeps_valid kept_inserts)
      (auto simp: normalizeProxyForStore_def blank_entry_def proxy_row_def rbind_eq_Inr IsSystemProxy_def split: if_splits)
  with False show ?thesis by (simp add: proxies_Create_def)
qed (simp add: proxies_Create_def keep_intros)

section \<open>No command but the local ones\<close>

lemma keeps_system_kept: "keeps db_ok m \<Longrightarrow> keeps (rows_kept rows) m \<Longrightarrow> keeps (system_kept rows) m"
  by (simp add: keeps_def system_kept_def rows_kept_def)

lemma kept_users:
  "keeps (rows_kept rows) (users_Create False now u)" "keeps (rows_kept rows) (users_SetStatus False now i us)"
  "keeps (rows_kept rows) (users_SetPassword False now i h)" "keeps (rows_kept rows) (users_Delete False i)"
  unfolding users_Create_def users_SetStatus_def users_SetPassword_def users_Delete_def ProtectUserMutation_def reject_if_def
  by (intro keeps_branch keeps_basic(3) keeps_valid kept_inserts kept_updates kept_delete_user; auto split: if_splits)+

lemma kept_clients:
  "keeps (rows_kept rows) (clients_Create False now c)" "keeps (rows_kept rows) (clients_SetStatus False now i cs)"
  "keeps (rows_kept rows) (clients_RotateCredential False now i h)" "keeps (rows_kept rows) (clients_Delete False i)"
  unfolding clients_Create_def clients_SetStatus_def clients_RotateCredential_def clients_Delete_def
    ProtectClientMutation_def reject_if_def
  by (intro keeps_branch keeps_basic(2,3) keeps_valid kept_inserts kept_updates kept_deletes; auto split: if_splits)+

lemma kept_access:
  "keeps (rows_kept rows) (access_EnableAuthAndCreateActivation now i v t)"
  "keeps (rows_kept rows) (access_rewriteAccessState now i v e)"
  by (rule rows_by_gate, rule gate_access)+

lemmas system_laws = kept_users kept_clients kept_proxies_Create kept_access

interpretation system: guarded_store "system_kept rows" "\<lambda>_. True" "\<lambda>_. True"
  by unfold_locales
    (simp; fail | rule kept_proxy_methods | (rule keeps_system_kept, (rule method_ok; simp), (rule system_laws | (rule rows_by_frame, rule frame_laws))))+

text \<open>
  C6: No sequence of administration commands, the five for local proxies aside, changes the identity of the
  server itself: the reserved user, the reserved client and the proxies of that client are the rows they
  were, up to the state of an access gate that such a proxy does not have.
\<close>
theorem commands_keep_system_identity:
  assumes "db_ok (as_db s)" and "owned (system_rows (as_db s))" and "\<forall>(env, c) \<in> set cs. \<not> is_local c"
  shows "system_rows (as_db (run_commands codec cs s)) = system_rows (as_db s)"
proof -
  have "system_kept (system_rows (as_db s)) (as_db (run_commands codec cs s))"
  proof (rule keeps_run_commands)
    show "\<forall>(env, c) \<in> set cs. keeps (\<lambda>t. system_kept (system_rows (as_db s)) (as_db t)) (run_command env codec c)"
      using assms(3) system.keepsA_command by blast
  qed (use assms in \<open>simp add: system_kept_def\<close>)
  then show ?thesis by (simp add: system_kept_def)
qed

theorem commands_keep_system_identity_witness:
  "system_rows (as_db (sample_prefix 7)) = ([system_user], [system_client], [])"
proof -
  have "db_ok (as_db admin_start)" using admin_db_typed by (simp add: admin_start_def well_typed_def)
  moreover have start: "system_rows (as_db admin_start) = ([system_user], [system_client], [])"
    by (simp add: system_rows_def admin_start_def admin_db_def emptyDB_def system_user_def ann_def zeroUser_def
        system_client_def box_def zeroClient_def IsSystemUserID_def IsSystemClientID_def)
  moreover have "owned ([system_user], [system_client], [])" by (simp add: owned_def system_client_def zeroClient_def)
  moreover have "\<forall>(env, c) \<in> set (map (\<lambda>c. (admin_env, c)) (take 7 sample_commands)). \<not> is_local c"
    by (simp add: sample_commands_def)
  ultimately show ?thesis
    using commands_keep_system_identity [of admin_start "map (\<lambda>c. (admin_env, c)) (take 7 sample_commands)" admin_codec]
    by (simp only: sample_prefix_def simp_thms)
qed

end
