(* ===== verification/AdminAdmission.thy ===== *)
theory AdminAdmission
  imports AdminFrames AdminTypes
begin

text \<open>
  Listener admission is sound: however the administration is used, no two enabled TCP or UDP proxies claim
  listeners that exclude each other, nor one that a listener of the server itself excludes. The claims are
  those that admission compares; what has to be known of the input is that a bind host, once normalised,
  stays as it is, because the store normalises what admission has normalised already.
\<close>

definition port_claim :: "ProxyEntryDefaults \<Rightarrow> Proxy \<Rightarrow> ListenerClaim option" where
  "port_claim defaults p = (if Proxy_Status p = ProxyEnabled then ListenerClaimForProxy p defaults else None)"

definition clear_of :: "ProxyEntryDefaults \<Rightarrow> ListenerClaim \<Rightarrow> Proxy \<Rightarrow> bool" where
  "clear_of defaults c q = (case port_claim defaults q of None \<Rightarrow> True | Some d \<Rightarrow> \<not> claim_Conflicts d c)"

definition claims_clear :: "ProxyEntryDefaults \<Rightarrow> ListenerClaim list \<Rightarrow> Proxy list \<Rightarrow> bool" where
  "claims_clear defaults fixed rows =
     list_all (\<lambda>p. case port_claim defaults p of
        None \<Rightarrow> True
      | Some c \<Rightarrow> list_all (\<lambda>k. \<not> claim_Conflicts k c) fixed \<and>
                  list_all (\<lambda>q. Proxy_ID q = Proxy_ID p \<or> clear_of defaults c q) rows) rows"

definition settled_host :: "string \<Rightarrow> bool" where
  "settled_host h = (NormalizeBindHost (NormalizeBindHost h) = NormalizeBindHost h)"

definition stored_host :: "Proxy \<Rightarrow> bool" where
  "stored_host p = (NormalizeBindHost (Proxy_EntryBindHost p) = Proxy_EntryBindHost p)"

definition admitted :: "ProxyEntryDefaults \<Rightarrow> ListenerClaim list \<Rightarrow> DB \<Rightarrow> bool" where
  "admitted defaults fixed db \<longleftrightarrow> well_typed db \<and> list_all stored_host (db_proxies db) \<and>
     claims_clear defaults fixed (db_proxies db)"

section \<open>Rows that claim no more than before\<close>

lemma claims_clearD:
  assumes "claims_clear defaults fixed rows" "p \<in> set rows" "port_claim defaults p = Some c"
  shows "\<forall>k \<in> set fixed. \<not> claim_Conflicts k c"
    and "q \<in> set rows \<Longrightarrow> Proxy_ID q \<noteq> Proxy_ID p \<Longrightarrow> port_claim defaults q = Some d \<Longrightarrow> \<not> claim_Conflicts d c"
proof -
  from assms have row: "list_all (\<lambda>k. \<not> claim_Conflicts k c) fixed"
      "list_all (\<lambda>q. Proxy_ID q = Proxy_ID p \<or> clear_of defaults c q) rows"
    by (auto simp: claims_clear_def list_all_iff [of _ rows] split: option.splits)
  then show "\<forall>k \<in> set fixed. \<not> claim_Conflicts k c" by (simp add: list_all_iff)
  assume "q \<in> set rows" "Proxy_ID q \<noteq> Proxy_ID p" "port_claim defaults q = Some d"
  with row(2) show "\<not> claim_Conflicts d c" by (auto simp: list_all_iff clear_of_def)
qed

lemma claims_clearI:
  assumes "\<And>p c. p \<in> set rows \<Longrightarrow> port_claim defaults p = Some c \<Longrightarrow> \<forall>k \<in> set fixed. \<not> claim_Conflicts k c"
    and "\<And>p q c d. p \<in> set rows \<Longrightarrow> q \<in> set rows \<Longrightarrow> Proxy_ID q \<noteq> Proxy_ID p \<Longrightarrow>
      port_claim defaults p = Some c \<Longrightarrow> port_claim defaults q = Some d \<Longrightarrow> \<not> claim_Conflicts d c"
  shows "claims_clear defaults fixed rows"
  using assms by (auto simp: claims_clear_def clear_of_def list_all_iff split: option.splits)

text \<open>The claim of an old row, or the claim of the one row that admission has let through.\<close>

definition claimed_before :: "ProxyEntryDefaults \<Rightarrow> Proxy list \<Rightarrow> Proxy \<Rightarrow> bool" where
  "claimed_before defaults rows p \<longleftrightarrow>
     (\<exists>q \<in> set rows. Proxy_ID q = Proxy_ID p \<and> port_claim defaults q = port_claim defaults p)"

lemma clear_covered:
  assumes clear: "claims_clear defaults fixed rows"
    and covered: "\<And>p. p \<in> set rows' \<Longrightarrow> port_claim defaults p = None \<or> claimed_before defaults rows p"
  shows "claims_clear defaults fixed rows'"
proof (rule claims_clearI)
  fix p c assume p: "p \<in> set rows'" "port_claim defaults p = Some c"
  with covered obtain p' where p': "p' \<in> set rows" "Proxy_ID p' = Proxy_ID p" "port_claim defaults p' = Some c"
    unfolding claimed_before_def by fastforce
  show "\<forall>k \<in> set fixed. \<not> claim_Conflicts k c" using claims_clearD(1) [OF clear p'(1,3)] .
  fix q d assume q: "q \<in> set rows'" "Proxy_ID q \<noteq> Proxy_ID p" "port_claim defaults q = Some d"
  with covered obtain q' where "q' \<in> set rows" "Proxy_ID q' = Proxy_ID q" "port_claim defaults q' = Some d"
    unfolding claimed_before_def by fastforce
  with q p' show "\<not> claim_Conflicts d c" using claims_clearD(2) [OF clear p'(1,3)] by metis
qed

lemma clear_added:
  assumes clear: "claims_clear defaults fixed rows"
    and covered: "\<And>p. p \<in> set rows' \<Longrightarrow> port_claim defaults p = None \<or> claimed_before defaults rows p \<or>
      (Proxy_ID p = i \<and> port_claim defaults p = Some x)"
    and free: "\<forall>k \<in> set fixed. \<not> claim_Conflicts k x"
      "\<And>q d. q \<in> set rows \<Longrightarrow> Proxy_ID q \<noteq> i \<Longrightarrow> port_claim defaults q = Some d \<Longrightarrow> \<not> claim_Conflicts d x"
  shows "claims_clear defaults fixed rows'"
proof (rule claims_clearI)
  have source: "(\<exists>p' \<in> set rows. Proxy_ID p' = Proxy_ID p \<and> port_claim defaults p' = Some c) \<or> (Proxy_ID p = i \<and> c = x)"
    if "p \<in> set rows'" "port_claim defaults p = Some c" for p c
    using covered [OF that(1)] that(2) unfolding claimed_before_def by force
  fix p c assume p: "p \<in> set rows'" "port_claim defaults p = Some c"
  show "\<forall>k \<in> set fixed. \<not> claim_Conflicts k c"
    using source [OF p] claims_clearD(1) [OF clear] free(1) by blast
  fix q d assume q: "q \<in> set rows'" "Proxy_ID q \<noteq> Proxy_ID p" "port_claim defaults q = Some d"
  from source [OF p] source [OF q(1,3)] show "\<not> claim_Conflicts d c"
  proof (elim disjE bexE conjE)
    fix p' q' assume "p' \<in> set rows" "Proxy_ID p' = Proxy_ID p" "port_claim defaults p' = Some c"
      "q' \<in> set rows" "Proxy_ID q' = Proxy_ID q" "port_claim defaults q' = Some d"
    then show ?thesis using claims_clearD(2) [OF clear, of p' c q' d] q(2) by simp
  next
    fix p' assume "p' \<in> set rows" "Proxy_ID p' = Proxy_ID p" "port_claim defaults p' = Some c" "Proxy_ID q = i" "d = x"
    then show ?thesis using free(2) [of p' c] q(2) by (simp add: claim_Conflicts_sym)
  next
    fix q' assume "q' \<in> set rows" "Proxy_ID q' = Proxy_ID q" "port_claim defaults q' = Some d" "Proxy_ID p = i" "c = x"
    then show ?thesis using free(2) [of q' d] q(2) by simp
  next
    assume "Proxy_ID p = i" "Proxy_ID q = i" then show ?thesis using q(2) by simp
  qed
qed

section \<open>What admission checks\<close>

lemma typed_claims:
  "Proxy_Type p \<noteq> ProxyTCP \<Longrightarrow> Proxy_Type p \<noteq> ProxyUDP \<Longrightarrow> Proxy_Type p \<noteq> ProxyHTTP \<Longrightarrow> Proxy_Type p \<noteq> ProxyHTTPS \<Longrightarrow>
   port_claim defaults p = None"
  by (simp add: port_claim_def ListenerClaimForProxy_def EffectiveProxyEntry_def Let_def)

lemma admission_clears:
  assumes "EnsureAdmission env x ignore db = Inr ()" and "Proxy_Type x = ProxyTCP \<or> Proxy_Type x = ProxyUDP"
    and "port_claim (ad_defaults env) x = Some c"
  shows "\<forall>k \<in> set (ad_claims env). \<not> claim_Conflicts k c"
    and "q \<in> set (db_proxies db) \<Longrightarrow> Proxy_ID q \<noteq> ignore \<Longrightarrow> port_claim (ad_defaults env) q = Some d \<Longrightarrow> \<not> claim_Conflicts d c"
proof -
  from assms(3) have enabled: "Proxy_Status x = ProxyEnabled" and claim: "ListenerClaimForProxy x (ad_defaults env) = Some c"
    by (simp_all add: port_claim_def split: if_splits)
  from claim obtain e where "EffectiveProxyEntry x (ad_defaults env) = Some e"
    by (auto simp: ListenerClaimForProxy_def split: option.splits)
  with assms(1,2) enabled claim have "FindListenerConflict (activeListenerClaims env db ignore) c = None"
    by (auto simp: EnsureAdmission_def listener_admission_def proxyType_IsWeb_def proxyRequiresListenerAdmission_def
        split: option.splits)
  then have clear: "\<forall>k \<in> set (activeListenerClaims env db ignore). \<not> claim_Conflicts k c"
    by (simp add: FindListenerConflict_None)
  then show "\<forall>k \<in> set (ad_claims env). \<not> claim_Conflicts k c" by (simp add: activeListenerClaims_def)
  assume "q \<in> set (db_proxies db)" "Proxy_ID q \<noteq> ignore" "port_claim (ad_defaults env) q = Some d"
  then have "ListenerClaimForProxy q (ad_defaults env) = Some d" "\<not> (Proxy_ID q = ignore \<or> Proxy_Status q \<noteq> ProxyEnabled)"
    "q \<in> set (proxies_List db)"
    by (auto simp: port_claim_def proxies_List_def split: if_splits)
  then have "d \<in> set (activeListenerClaims env db ignore)"
    unfolding activeListenerClaims_def List.map_filter_def by force
  with clear show "\<not> claim_Conflicts d c" by blast
qed

section \<open>The methods of the store\<close>

lemma admitted_by_frame: "keeps well_typed m \<Longrightarrow> (\<And>t. keeps (identity_tables t) m) \<Longrightarrow> keeps (admitted defaults fixed) m"
proof -
  assume typed: "keeps well_typed m" and frame: "\<And>t. keeps (identity_tables t) m"
  have "keeps (\<lambda>db. list_all stored_host (db_proxies db) \<and> claims_clear defaults fixed (db_proxies db)) m"
    by (rule keeps_by_frame [OF frame]) simp
  with typed show ?thesis by (simp add: keeps_def admitted_def)
qed

text \<open>A method whose rows are hosts as stored and claim no more than the old ones.\<close>

lemma admitted_covered:
  assumes "well_typed db'" and "admitted defaults fixed db"
    and "\<And>p. p \<in> set (db_proxies db') \<Longrightarrow>
      stored_host p \<and> (port_claim defaults p = None \<or> claimed_before defaults (db_proxies db) p)"
  shows "admitted defaults fixed db'"
  using assms clear_covered [of defaults fixed "db_proxies db" "db_proxies db'"]
  by (auto simp: admitted_def list_all_iff)

lemma claimed_self: "p \<in> set rows \<Longrightarrow> claimed_before defaults rows p"
  by (auto simp: claimed_before_def)

lemma admitted_host: "admitted defaults fixed db \<Longrightarrow> p \<in> set (db_proxies db) \<Longrightarrow> stored_host p"
  by (simp add: admitted_def list_all_iff)

lemma gate_blind_fields [simp]:
  "Proxy_ID (gate_blind p) = Proxy_ID p" "Proxy_Type (gate_blind p) = Proxy_Type p" "Proxy_Status (gate_blind p) = Proxy_Status p"
  "Proxy_EntryBindHost (gate_blind p) = Proxy_EntryBindHost p" "Proxy_EntryHost (gate_blind p) = Proxy_EntryHost p"
  "Proxy_EntryPort (gate_blind p) = Proxy_EntryPort p"
  by (simp_all add: gate_blind_def)

lemma gate_blind_claim: "port_claim defaults (gate_blind p) = port_claim defaults p" "stored_host (gate_blind p) = stored_host p"
    "Proxy_ID (gate_blind p) = Proxy_ID p"
  unfolding port_claim_def ListenerClaimForProxy_def EffectiveProxyEntry_def stored_host_def gate_blind_fields by simp_all

lemma admitted_by_gate:
  assumes typed: "keeps well_typed m" and gate: "\<And>t. keeps (gate_tables t) m"
  shows "keeps (admitted defaults fixed) m"
  unfolding keeps_def
proof (intro allI impI)
  fix db assume db: "admitted defaults fixed db"
  then have "well_typed (snd (m db))" using typed by (simp add: keeps_def admitted_def)
  then show "admitted defaults fixed (snd (m db))"
  proof (rule admitted_covered [OF _ db])
    fix p assume p: "p \<in> set (db_proxies (snd (m db)))"
    have "map gate_blind (db_proxies (snd (m db))) = map gate_blind (db_proxies db)"
      using gate [of "(db_users db, db_clients db, map gate_blind (db_proxies db))"] by (simp add: keeps_def gate_tables_def)
    then have "gate_blind p \<in> gate_blind ` set (db_proxies db)" using p by (metis image_eqI set_map)
    then obtain q where q: "q \<in> set (db_proxies db)" "gate_blind p = gate_blind q" by auto
    then have "port_claim defaults q = port_claim defaults p" "stored_host q = stored_host p" "Proxy_ID q = Proxy_ID p"
      by (metis gate_blind_claim)+
    with q(1) show "stored_host p \<and> (port_claim defaults p = None \<or> claimed_before defaults (db_proxies db) p)"
      using admitted_host [OF db] by (auto simp: claimed_before_def)
  qed
qed

lemma rows_of_users:
  "db_proxies (snd (users_Create b now u db)) = db_proxies db" "db_proxies (snd (users_SetStatus b now i us db)) = db_proxies db"
  "db_proxies (snd (users_SetPassword b now i h db)) = db_proxies db"
  "db_proxies (snd (clients_Create b now c db)) = db_proxies db" "db_proxies (snd (clients_SetStatus b now i cs db)) = db_proxies db"
  "db_proxies (snd (clients_RotateCredential b now i h db)) = db_proxies db"
  by (simp_all add: users_Create_def users_SetStatus_def users_SetPassword_def clients_Create_def clients_SetStatus_def
    clients_RotateCredential_def sbind_def insert_user_def insert_client_def update_user_def update_client_def
    sql_checked_def split: sum.splits)

lemma admitted_same_rows:
  assumes "keeps well_typed m" and "\<And>db. set (db_proxies (snd (m db))) \<subseteq> set (db_proxies db)"
  shows "keeps (admitted defaults fixed) m"
  unfolding keeps_def
proof (intro allI impI)
  fix db assume db: "admitted defaults fixed db"
  then have "well_typed (snd (m db))" using assms(1) by (simp add: keeps_def admitted_def)
  then show "admitted defaults fixed (snd (m db))"
    by (rule admitted_covered [OF _ db]) (use assms(2) [of db] admitted_host [OF db] claimed_self in auto)
qed

lemma rows_of_drops:
  "set (db_proxies (drop_proxies P1 db)) \<subseteq> set (db_proxies db)" "db_proxies (drop_domains P2 db) = db_proxies db"
  "set (db_proxies (drop_clients P3 db)) \<subseteq> set (db_proxies db)" "set (db_proxies (drop_users P4 db)) \<subseteq> set (db_proxies db)"
  by (auto simp: drop_proxies_def drop_domains_def drop_clients_def drop_users_def Let_def)

lemma rows_of_deletes:
  "set (db_proxies (snd (users_Delete b i db))) \<subseteq> set (db_proxies db)"
  "set (db_proxies (snd (clients_Delete b i db))) \<subseteq> set (db_proxies db)"
  "set (db_proxies (snd (proxies_Delete b i db))) \<subseteq> set (db_proxies db)"
proof -
  show "set (db_proxies (snd (users_Delete b i db))) \<subseteq> set (db_proxies db)"
    using rows_of_drops(4) [of "\<lambda>u. User_ID u = i" db] by (auto simp: users_Delete_def delete_user_def sbind_def split: sum.splits)
  show "set (db_proxies (snd (clients_Delete b i db))) \<subseteq> set (db_proxies db)"
    using rows_of_drops(3) [of "\<lambda>c. Client_ID c = i" db] by (auto simp: clients_Delete_def delete_client_def sbind_def split: sum.splits)
  show "set (db_proxies (snd (proxies_Delete b i db))) \<subseteq> set (db_proxies db)"
    using Delete_cases [of b i db] rows_of_drops(1) [of "\<lambda>p. Proxy_ID p = i" db] by fastforce
qed

section \<open>Proxies\<close>

lemma rows_without_claim: "Proxy_Status p \<noteq> ProxyEnabled \<Longrightarrow> port_claim defaults p = None"
  by (simp add: port_claim_def)

text \<open>Of a TCP or UDP proxy the claim is made by its identity, host, port and status alone.\<close>

lemma port_claim_cong:
  assumes "Proxy_Type p = ProxyTCP \<or> Proxy_Type p = ProxyUDP" "Proxy_Type q = Proxy_Type p" "Proxy_ID q = Proxy_ID p"
    "Proxy_Status q = Proxy_Status p" "Proxy_EntryPort q = Proxy_EntryPort p"
    "NormalizeBindHost (Proxy_EntryBindHost q) = NormalizeBindHost (Proxy_EntryBindHost p)"
  shows "port_claim defaults q = port_claim defaults p"
proof -
  have "EffectiveProxyEntry q defaults = EffectiveProxyEntry p defaults"
    using assms by (auto simp: EffectiveProxyEntry_def Let_def)
  then show ?thesis unfolding port_claim_def ListenerClaimForProxy_def assms(3,4) by simp
qed

lemma normalized_entry:
  assumes "normalizeProxyForStore p = Inr n" "Proxy_Type p = ProxyTCP \<or> Proxy_Type p = ProxyUDP"
  shows "Proxy_EntryPort n = Proxy_EntryPort p" "Proxy_EntryBindHost n = Proxy_EntryBindHost p"
  using assms by (auto simp: normalizeProxyForStore_def blank_entry_def)

lemma normalized_bind_host:
  "normalizeProxyForStore p = Inr n \<Longrightarrow> Proxy_EntryBindHost n = Proxy_EntryBindHost p \<or> Proxy_EntryBindHost n = []"
  by (auto simp: normalizeProxyForStore_def blank_entry_def rbind_eq_Inr split: if_splits)

lemma NormalizeBindHost_Nil [simp]: "NormalizeBindHost [] = []"
  by code_simp

lemma typed_type:
  assumes "well_typed db" "p \<in> set (db_proxies db)"
  shows "Proxy_Type p \<in> {ProxyTCP, ProxyUDP, ProxyWeb, ProxyForward}" "\<not> blank (Proxy_ID p)"
  using assms by (auto simp: well_typed_def rows_typed_def proxy_typed_def list_all_iff)

lemma unique_row:
  assumes "well_typed db" "p \<in> set (db_proxies db)" "q \<in> set (db_proxies db)" "Proxy_ID q = Proxy_ID p"
  shows "q = p"
  using assms by (auto simp: well_typed_def db_ok_def keys_unique_def distinct_map dest: inj_onD)

lemma no_claim_type:
  "Proxy_Type p \<in> {ProxyTCP, ProxyUDP, ProxyWeb, ProxyForward} \<Longrightarrow> port_claim defaults p = Some c \<Longrightarrow>
   Proxy_Type p = ProxyTCP \<or> Proxy_Type p = ProxyUDP"
  by (auto simp: port_claim_def ListenerClaimForProxy_def EffectiveProxyEntry_def Let_def split: if_splits)

text \<open>Create: the proxy was admitted as it is, whatever row it names as its own.\<close>

lemma create_admitted:
  assumes db: "admitted (ad_defaults env) (ad_claims env) db"
    and x: "declared_status (Proxy_Status x)" "settled_host (Proxy_EntryBindHost x)"
    and admission: "Proxy_Type x = ProxyTCP \<or> Proxy_Type x = ProxyUDP \<Longrightarrow> EnsureAdmission env x [] db = Inr ()"
  shows "admitted (ad_defaults env) (ad_claims env) (snd (proxies_Create b now ids x db))"
proof -
  let ?db = "snd (proxies_Create b now ids x db)" and ?claim = "port_claim (ad_defaults env)"
  have typed: "well_typed ?db"
    using db well_typed.proxy_laws(1) well_typed.internal_laws(1) x(1) by (cases b) (auto simp: keeps_def admitted_def)
  from Create_cases [of b now ids x db] show ?thesis
  proof (elim disjE exE conjE)
    assume "db_proxies ?db = db_proxies db"
    then show ?thesis using db typed by (simp add: admitted_def)
  next
    fix db' q n m
    assume rows: "?db = db'\<lparr>db_proxies := db_proxies db @ [n]\<rparr>" and q: "fst (ensureLegacyWebProxyDomain now ids x db) = Inr q"
      and m: "normalizeProxyForStore q = Inr m"
      and n: "n = proxy_row (m\<lparr>Proxy_CreatedAt := or_now now (Proxy_CreatedAt m), Proxy_UpdatedAt := or_now now (Proxy_UpdatedAt m)\<rparr>)"
    note fields = normalized_simps [OF m]
    have web_or_same: "q = x \<or> (Proxy_Type q \<noteq> ProxyTCP \<and> Proxy_Type q \<noteq> ProxyUDP \<and> Proxy_EntryBindHost q = [])"
      using q by (auto simp: ensureLegacyWebProxyDomain_def Let_def sbind_def blank_entry_def split: if_splits sum.splits prod.splits)
    have row: "Proxy_ID n = Proxy_ID q" "Proxy_Type n = Proxy_Type q" "Proxy_Status n = Proxy_Status q"
      "Proxy_EntryPort n = Proxy_EntryPort m" "Proxy_EntryBindHost n = NormalizeBindHost (Proxy_EntryBindHost m)"
      using fields by (simp_all add: n proxy_row_def blank_entry_def)
    have host: "stored_host n"
      using web_or_same normalized_bind_host [OF m] x(2) by (auto simp: stored_host_def row(5) settled_host_def)
    have typed_n: "n \<in> set (db_proxies ?db)" by (simp add: rows)
    have claim: "?claim n = None \<or> ((Proxy_Type x = ProxyTCP \<or> Proxy_Type x = ProxyUDP) \<and> Proxy_ID n = Proxy_ID x \<and> ?claim n = ?claim x)"
    proof (cases "?claim n")
      case (Some c)
      with no_claim_type typed_type(1) [OF typed typed_n] have type: "Proxy_Type n = ProxyTCP \<or> Proxy_Type n = ProxyUDP" by blast
      with row(2) web_or_same have "q = x" by auto
      with type row(2) have x_type: "Proxy_Type x = ProxyTCP \<or> Proxy_Type x = ProxyUDP" by simp
      have "?claim n = ?claim x"
        by (rule port_claim_cong [OF x_type])
          (use row fields normalized_entry [OF m] x(2) \<open>q = x\<close> x_type in \<open>simp_all add: settled_host_def\<close>)
      then show ?thesis using x_type row(1) \<open>q = x\<close> by simp
    qed simp
    show ?thesis
    proof (cases "?claim n")
      case None
      show ?thesis
        by (rule admitted_covered [OF typed db]) (use None host in \<open>auto simp: rows admitted_host [OF db] intro: claimed_self\<close>)
    next
      case (Some c)
      with claim have x': "Proxy_Type x = ProxyTCP \<or> Proxy_Type x = ProxyUDP" "Proxy_ID n = Proxy_ID x" "?claim x = Some c"
        by auto
      note free = admission_clears [OF admission [OF x'(1)] x'(1,3)]
      have "blank []" by code_simp
      then have ids: "Proxy_ID r \<noteq> []" if "r \<in> set (db_proxies db)" for r
        using typed_type(2) [of db r] db that by (auto simp: admitted_def)
      have "claims_clear (ad_defaults env) (ad_claims env) (db_proxies ?db)"
        by (rule clear_added [where i = "Proxy_ID n" and x = c and rows = "db_proxies db"])
          (use db free ids Some in \<open>auto simp: admitted_def rows intro: claimed_self\<close>)
      then show ?thesis using typed host db by (simp add: admitted_def rows)
    qed
  qed
qed

text \<open>Enable: the row itself, enabled, was admitted beside the others.\<close>

lemma enable_admitted:
  assumes db: "admitted (ad_defaults env) (ad_claims env) db" and p: "p \<in> set (db_proxies db)"
    and admission: "EnsureAdmission env (p\<lparr>Proxy_Status := ProxyEnabled\<rparr>) (Proxy_ID p) db = Inr ()"
  shows "admitted (ad_defaults env) (ad_claims env) (snd (proxies_SetStatus b now (Proxy_ID p) ProxyEnabled db))"
proof -
  let ?db = "snd (proxies_SetStatus b now (Proxy_ID p) ProxyEnabled db)" and ?claim = "port_claim (ad_defaults env)"
  let ?x = "p\<lparr>Proxy_Status := ProxyEnabled\<rparr>"
  have typed: "well_typed ?db"
    using db well_typed.proxy_laws(3) well_typed.internal_laws(3) by (cases b) (auto simp: keeps_def admitted_def declared_status_def)
  from SetStatus_cases [of b now "Proxy_ID p" ProxyEnabled db] show ?thesis
  proof (elim disjE conjE)
    assume rows: "?db = db\<lparr>db_proxies := sql_update (\<lambda>q. Proxy_ID q = Proxy_ID p)
        (\<lambda>q. q\<lparr>Proxy_Status := ProxyEnabled, Proxy_UpdatedAt := now\<rparr>) (db_proxies db)\<rparr>"
    let ?n = "p\<lparr>Proxy_Status := ProxyEnabled, Proxy_UpdatedAt := now\<rparr>"
    have sources: "r = ?n \<or> (r \<in> set (db_proxies db) \<and> Proxy_ID r \<noteq> Proxy_ID p)" if "r \<in> set (db_proxies ?db)" for r
      using that unique_row [of db p] db p by (auto simp: rows set_sql_update admitted_def)
    have hosts: "stored_host r" if "r \<in> set (db_proxies ?db)" for r
      using sources [OF that] admitted_host [OF db] p by (auto simp: stored_host_def)
    have same: "?claim ?n = ?claim ?x" if "Proxy_Type p = ProxyTCP \<or> Proxy_Type p = ProxyUDP"
      using that by (intro port_claim_cong) auto
    show ?thesis
    proof (cases "?claim ?n")
      case None
      show ?thesis
        by (rule admitted_covered [OF typed db]) (use hosts sources None in \<open>auto intro: claimed_self\<close>)
    next
      case (Some c)
      have "Proxy_Type p \<in> {ProxyTCP, ProxyUDP, ProxyWeb, ProxyForward}"
        using typed_type(1) [of db p] db p by (simp add: admitted_def)
      then have type: "Proxy_Type p = ProxyTCP \<or> Proxy_Type p = ProxyUDP" using no_claim_type [of ?n, OF _ Some] by simp
      have x: "Proxy_Type ?x = ProxyTCP \<or> Proxy_Type ?x = ProxyUDP" "?claim ?x = Some c"
        using type same [OF type] Some by simp_all
      note free = admission_clears [OF admission x]
      have covered: "?claim r = None \<or> claimed_before (ad_defaults env) (db_proxies db) r \<or> (Proxy_ID r = Proxy_ID p \<and> ?claim r = Some c)"
        if "r \<in> set (db_proxies ?db)" for r using sources [OF that] Some claimed_self by auto
      have "claims_clear (ad_defaults env) (ad_claims env) (db_proxies ?db)"
        by (rule clear_added [OF _ covered]) (use db free in \<open>simp_all add: admitted_def\<close>)
      then show ?thesis using typed hosts by (simp add: admitted_def list_all_iff)
    qed
  qed (use db in simp)
qed

text \<open>Update: the new row, which belongs to an old one, was admitted when it can claim a listener.\<close>

lemma written_row:
  assumes "normalizeProxyForStore q = Inr n" "Proxy_Type p = Proxy_Type q" "Proxy_ID p = Proxy_ID q"
    and "settled_host (Proxy_EntryBindHost q)" "Proxy_Type q = ProxyTCP \<or> Proxy_Type q = ProxyUDP"
  shows "port_claim defaults (row_over now n p) = port_claim defaults q"
  using assms normalized_simps [OF assms(1)] normalized_entry [OF assms(1,5)]
  by (intro port_claim_cong) (auto simp: settled_host_def)

lemma written_host:
  "normalizeProxyForStore q = Inr n \<Longrightarrow> settled_host (Proxy_EntryBindHost q) \<Longrightarrow> stored_host (row_over now n p)"
  by (auto simp: stored_host_def settled_host_def dest: normalized_bind_host)

lemma update_admitted:
  assumes db: "admitted (ad_defaults env) (ad_claims env) db" and p: "p \<in> set (db_proxies db)"
    and q: "Proxy_ID q = Proxy_ID p" "Proxy_Type q = Proxy_Type p" "declared_status (Proxy_Status q)"
      "settled_host (Proxy_EntryBindHost q)"
    and admission: "Proxy_Type q = ProxyTCP \<or> Proxy_Type q = ProxyUDP \<Longrightarrow> EnsureAdmission env q (Proxy_ID q) db = Inr ()"
  shows "admitted (ad_defaults env) (ad_claims env) (snd (proxies_Update b now q db))"
proof -
  let ?db = "snd (proxies_Update b now q db)" and ?claim = "port_claim (ad_defaults env)"
  have typed: "well_typed ?db"
    using db well_typed.proxy_laws(2) well_typed.internal_laws(2) q(3) by (cases b) (auto simp: keeps_def admitted_def)
  from Update_cases [of b now q db] show ?thesis
  proof (elim disjE exE conjE)
    fix n assume n: "normalizeProxyForStore q = Inr n"
      and rows: "?db = db\<lparr>db_proxies := sql_update (\<lambda>r. Proxy_ID r = Proxy_ID q) (row_over now n) (db_proxies db)\<rparr>"
    let ?n = "row_over now n p"
    have sources: "r = ?n \<or> (r \<in> set (db_proxies db) \<and> Proxy_ID r \<noteq> Proxy_ID p)" if "r \<in> set (db_proxies ?db)" for r
      using that unique_row [of db p] db p q(1) by (auto simp: rows set_sql_update admitted_def)
    have hosts: "stored_host r" if "r \<in> set (db_proxies ?db)" for r
      using sources [OF that] admitted_host [OF db] written_host [OF n q(4)] by auto
    show ?thesis
    proof (cases "?claim ?n")
      case None
      show ?thesis
        by (rule admitted_covered [OF typed db]) (use hosts sources None in \<open>auto intro: claimed_self\<close>)
    next
      case (Some c)
      have "Proxy_Type p \<in> {ProxyTCP, ProxyUDP, ProxyWeb, ProxyForward}"
        using typed_type(1) [of db p] db p by (simp add: admitted_def)
      then have type: "Proxy_Type q = ProxyTCP \<or> Proxy_Type q = ProxyUDP" using no_claim_type [of ?n, OF _ Some] q(2) by simp
      have "?claim q = Some c" using written_row [OF n _ _ q(4) type, of p] q Some by simp
      note free = admission_clears [OF admission [OF type] type this]
      have covered: "?claim r = None \<or> claimed_before (ad_defaults env) (db_proxies db) r \<or> (Proxy_ID r = Proxy_ID p \<and> ?claim r = Some c)"
        if "r \<in> set (db_proxies ?db)" for r using sources [OF that] Some claimed_self by auto
      have "claims_clear (ad_defaults env) (ad_claims env) (db_proxies ?db)"
        by (rule clear_added [OF _ covered]) (use db free q(1) in \<open>simp_all add: admitted_def\<close>)
      then show ?thesis using typed hosts by (simp add: admitted_def list_all_iff)
    qed
  qed (use db in simp)
qed

text \<open>Undoing an update: what is written back is a row of the old database.\<close>

lemma undo_admitted:
  assumes db: "admitted defaults fixed db" and p: "p \<in> set (db_proxies db)" and declared: "declared_status (Proxy_Status q)"
    and q: "Proxy_ID q = Proxy_ID p" "Proxy_Type q = Proxy_Type p"
    and db1: "db1 = snd (proxies_Update b now q db)" "admitted defaults fixed db1"
  shows "admitted defaults fixed (snd (proxies_Update b now p db1))"
proof -
  let ?db = "snd (proxies_Update b now p db1)"
  have typed_p: "well_typed db" "declared_status (Proxy_Status p)"
    using db p typed_row_status by (auto simp: admitted_def)
  have typed: "well_typed ?db"
    using db1(2) typed_p(2) well_typed.proxy_laws(2) well_typed.internal_laws(2) by (cases b) (auto simp: keeps_def admitted_def)
  have type: "Proxy_Type p \<in> {ProxyTCP, ProxyUDP, ProxyWeb, ProxyForward}" using typed_type(1) typed_p(1) p by blast
  have settled: "settled_host (Proxy_EntryBindHost p)" using admitted_host [OF db p] by (simp add: stored_host_def settled_host_def)
  from Update_cases [of b now p db1] show ?thesis
  proof (elim disjE exE conjE)
    fix n assume n: "normalizeProxyForStore p = Inr n"
      and rows: "?db = db1\<lparr>db_proxies := sql_update (\<lambda>r. Proxy_ID r = Proxy_ID p) (row_over now n) (db_proxies db1)\<rparr>"
    have others: "r \<in> set (db_proxies db) \<or> Proxy_ID r = Proxy_ID p \<and> Proxy_Type r = Proxy_Type p" if "r \<in> set (db_proxies db1)" for r
    proof -
      have same: "Proxy_Type r' = Proxy_Type p" if "r' \<in> set (db_proxies db)" "Proxy_ID r' = Proxy_ID p" for r'
        using unique_row [OF typed_p(1) p that] by simp
      from Update_cases [of b now q db] that show ?thesis
        by (elim disjE exE conjE) (auto simp: db1(1) set_sql_update q(1) intro: same)
    qed
    have row: "stored_host r \<and> (port_claim defaults r = None \<or> claimed_before defaults (db_proxies db) r)"
      if "r \<in> set (db_proxies ?db)" for r
    proof (cases "Proxy_ID r = Proxy_ID p")
      case True
      with that obtain r1 where r1: "r1 \<in> set (db_proxies db1)" "Proxy_ID r1 = Proxy_ID p" "r = row_over now n r1"
        by (auto simp: rows set_sql_update)
      have "Proxy_Type r1 = Proxy_Type p" using others [OF r1(1)] unique_row [OF typed_p(1) p _ r1(2)] by auto
      then have "port_claim defaults r = None \<or> port_claim defaults r = port_claim defaults p"
        using written_row [OF n _ r1(2) settled, of defaults now] no_claim_type [of r] type r1(3) by (cases "port_claim defaults r") auto
      then show ?thesis using written_host [OF n settled] r1(3) p True by (auto simp: claimed_before_def)
    next
      case False
      with that others have "r \<in> set (db_proxies db)" by (auto simp: rows set_sql_update)
      then show ?thesis using admitted_host [OF db] claimed_self by blast
    qed
    have "claims_clear defaults fixed (db_proxies ?db)"
      by (rule clear_covered [of _ _ "db_proxies db"]) (use row db in \<open>auto simp: admitted_def\<close>)
    then show ?thesis using row typed by (simp add: admitted_def list_all_iff)
  qed (use db1 in simp)
qed

section \<open>Methods that cannot add a claim\<close>

lemma admitted_stops:
  assumes typed: "keeps well_typed m"
    and rows: "\<And>db r. admitted defaults fixed db \<Longrightarrow> r \<in> set (db_proxies (snd (m db))) \<Longrightarrow>
      r \<in> set (db_proxies db) \<or> (Proxy_Status r \<noteq> ProxyEnabled \<and> stored_host r)"
  shows "keeps (admitted defaults fixed) m"
  unfolding keeps_def
proof (intro allI impI)
  fix db assume db: "admitted defaults fixed db"
  then have "well_typed (snd (m db))" using typed by (simp add: keeps_def admitted_def)
  then show "admitted defaults fixed (snd (m db))"
    by (rule admitted_covered [OF _ db]) (use rows [OF db] admitted_host [OF db] claimed_self rows_without_claim in blast)
qed

lemma admitted_status:
  assumes "ps \<in> {ProxyDisabled, ProxyNeedsConf}"
  shows "keeps (admitted defaults fixed) (proxies_SetStatus b now i ps)"
proof (rule admitted_stops)
  show "keeps well_typed (proxies_SetStatus b now i ps)"
    using assms well_typed.proxy_laws(3) [of ps] well_typed.internal_laws(3) [of ps] by (cases b) (auto simp: declared_status_def)
  fix db r assume db: "admitted defaults fixed db" and r: "r \<in> set (db_proxies (snd (proxies_SetStatus b now i ps db)))"
  show "r \<in> set (db_proxies db) \<or> (Proxy_Status r \<noteq> ProxyEnabled \<and> stored_host r)"
    using SetStatus_cases [of b now i ps db] r assms admitted_host [OF db]
    by (auto simp: set_sql_update stored_host_def)
qed

lemma admitted_needs_conf:
  assumes "Proxy_Status p = ProxyNeedsConf" "settled_host (Proxy_EntryBindHost p)"
  shows "keeps (admitted defaults fixed) (proxies_Update b now p)"
proof (rule admitted_stops)
  show "keeps well_typed (proxies_Update b now p)"
    using assms(1) well_typed.proxy_laws(2) [of p] well_typed.internal_laws(2) [of p] by (cases b) (auto simp: declared_status_def)
  fix db r assume db: "admitted defaults fixed db" and r: "r \<in> set (db_proxies (snd (proxies_Update b now p db)))"
  from Update_cases [of b now p db] r show "r \<in> set (db_proxies db) \<or> (Proxy_Status r \<noteq> ProxyEnabled \<and> stored_host r)"
    by (elim disjE exE conjE) (auto simp: set_sql_update normalized_simps assms written_host)
qed

lemmas admitted_laws = admitted_status
  admitted_same_rows [OF well_typed.user_laws(1)] admitted_same_rows [OF well_typed.user_laws(2)]
  admitted_same_rows [OF well_typed.user_laws(3)] admitted_same_rows [OF well_typed.client_laws(1)]
  admitted_same_rows [OF well_typed.client_laws(2)] admitted_same_rows [OF well_typed.client_laws(3)]
  admitted_same_rows [OF well_typed.delete_laws(1)] admitted_same_rows [OF well_typed.delete_laws(2)]
  admitted_same_rows [OF well_typed.delete_laws(3)] admitted_same_rows [OF well_typed.internal_laws(4)]
  admitted_by_gate [OF well_typed.access_laws(1) gate_access(1)] admitted_by_gate [OF well_typed.access_laws(3) gate_access(2)]

lemmas typed_laws = well_typed.client_laws(4) well_typed.domain_laws well_typed.access_laws well_typed.other_laws

interpretation admission: removing_store "admitted defaults fixed" "\<lambda>p. settled_host (Proxy_EntryBindHost p)"
  by unfold_locales
    ((rule admitted_laws; simp add: rows_of_users rows_of_deletes; fail)
     | (rule admitted_by_frame, (rule typed_laws; assumption?), rule frame_laws; fail)
     | (rule admitted_needs_conf; simp; fail)
     | (drule (1) admitted_host, simp add: stored_host_def settled_host_def))+

end
