(* ===== verification/AdminClaims.thy ===== *)
theory AdminClaims
  imports AdminAdmission
begin

text \<open>
  The commands that write a proxy as enabled, one after the other, and with them every sequence of
  commands: the listeners of enabled TCP and UDP proxies never exclude each other.
\<close>

section \<open>Steps of an operation at a state\<close>

abbreviation inv :: "'r AdminEnv \<Rightarrow> 'r AdminState \<Rightarrow> bool" where
  "inv env s \<equiv> admitted (ad_defaults env) (ad_claims env) (as_db s)"

abbreviation keepsI :: "'r AdminEnv \<Rightarrow> ('r, 'a) admin \<Rightarrow> bool" where
  "keepsI env m \<equiv> keeps (\<lambda>s. admitted (ad_defaults env) (ad_claims env) (as_db s)) m"

lemma stays_look:
  "P s \<Longrightarrow> (\<And>a. f (as_db s) = Inr a \<Longrightarrow> P (snd (g a s))) \<Longrightarrow> P (snd (sbind (look f) g s))"
  by (cases "f (as_db s)") (simp_all add: sbind_def look_def)

lemma stays_slift: "P s \<Longrightarrow> (\<And>a. r = Inr a \<Longrightarrow> P (snd (f a s))) \<Longrightarrow> P (snd (sbind (slift r) f s))"
  by (cases r) (simp_all add: sbind_def)

lemma stays_then: "P (snd (m s)) \<Longrightarrow> (\<And>a. keeps P (g a)) \<Longrightarrow> P (snd (sbind m g s))"
  by (cases "m s"; cases "fst (m s)") (auto simp: sbind_def keeps_def)

lemma stays_if: "(b \<Longrightarrow> P (snd (m s))) \<Longrightarrow> (\<not> b \<Longrightarrow> P (snd (n s))) \<Longrightarrow> P (snd ((if b then m else n) s))"
  by simp

lemma stays_needs_store: "P s \<Longrightarrow> P (snd (m s)) \<Longrightarrow> P (snd (needs_store env m s))"
  by (simp add: needs_store_def)

lemma stays_protected:
  assumes "inv env s" and "check = Inr () \<Longrightarrow> inv env (snd (f () s))"
  shows "inv env (snd (sbind (protected env a rt i act check) f s))"
proof (cases check)
  case (Inl e)
  have "sbind (protected env a rt i act check) f s =
      sbind (recordRejectedAudit env a rt i act e) (\<lambda>_. sfail e) s"
    by (simp add: Inl protected_def sbind_def split: prod.splits sum.splits)
  moreover have "keepsI env (sbind (recordRejectedAudit env a rt i act e) (\<lambda>_. sfail e))"
    unfolding recordRejectedAudit_def by (intro admission.service_intros)
  ultimately show ?thesis using assms(1) unfolding keeps_def by metis
qed (use assms(2) in \<open>simp add: protected_def\<close>)

lemma as_db_in_store [simp]: "as_db (snd (in_store m s)) = snd (m (as_db s))"
  by (simp add: in_store_def in_world_def in_db_def split: prod.splits)

lemma as_db_Reconcile [simp]: "as_db (snd (ReconcileListeners env s)) = as_db s"
  by (simp add: ReconcileListeners_def split: option.splits prod.splits sum.splits)

lemma reconcile_or_undo_db:
  "as_db (snd (reconcile_or_undo env undo s)) = as_db s \<or> as_db (snd (reconcile_or_undo env undo s)) = snd (undo (as_db s))"
proof (cases "ReconcileListeners env s")
  case (Pair r s1)
  then have db: "as_db s1 = as_db s" using as_db_Reconcile [of env s] by simp
  show ?thesis
  proof (cases r)
    case (Inl e)
    obtain r2 s2 where undo: "in_store undo s1 = (r2, s2)" by fastforce
    obtain r3 s3 where again: "ReconcileListeners env s2 = (r3, s3)" by fastforce
    have "as_db s2 = snd (undo (as_db s))" using as_db_in_store [of undo s1] undo db by simp
    moreover have "as_db s3 = as_db s2" using as_db_Reconcile [of env s2] again by simp
    ultimately show ?thesis using Pair Inl undo again
      by (simp add: reconcile_or_undo_def shandle_def ignoring_def sbind_def)
  qed (use Pair db in \<open>simp add: reconcile_or_undo_def shandle_def\<close>)
qed

lemma insert_new_proxy_db:
  "\<exists>ids. as_db (snd (insert_new_proxy env b p s)) = snd (proxies_Create b (ad_now env) ids p (as_db s))"
  by (rule exI [of _ "ad_storeID env (as_draws s)"]) (simp add: insert_new_proxy_def draw_ids_def sbind_def)

section \<open>Create\<close>

lemma keepsI_admitted_insert:
  assumes "declared_status (Proxy_Status p)" "settled_host (Proxy_EntryBindHost p)" and "\<And>u. keepsI env (R u)"
  shows "keepsI env (sbind (look (EnsureAdmission env p [])) (\<lambda>_. sbind (insert_new_proxy env b p) R))"
  unfolding keeps_def
proof (intro allI impI, rule stays_look)
  fix s a assume s: "inv env s" and "EnsureAdmission env p [] (as_db s) = Inr a"
  moreover obtain ids where "as_db (snd (insert_new_proxy env b p s)) = snd (proxies_Create b (ad_now env) ids p (as_db s))"
    using insert_new_proxy_db by blast
  ultimately have "inv env (snd (insert_new_proxy env b p s))" using create_admitted [OF s assms(1,2)] by simp
  then show "inv env (snd (sbind (insert_new_proxy env b p) R s))" by (rule stays_then) (rule assms(3))
qed

lemma keepsI_web_insert:
  assumes "declared_status (Proxy_Status p)" "settled_host (Proxy_EntryBindHost p)"
    and "Proxy_Type p \<noteq> ProxyTCP" "Proxy_Type p \<noteq> ProxyUDP"
  shows "keepsI env (insert_new_proxy env b p)"
  unfolding keeps_def
proof (intro allI impI)
  fix s assume s: "inv env s"
  obtain ids where "as_db (snd (insert_new_proxy env b p s)) = snd (proxies_Create b (ad_now env) ids p (as_db s))"
    using insert_new_proxy_db by blast
  then show "inv env (snd (insert_new_proxy env b p s))" using create_admitted [OF s assms(1,2)] assms(3,4) by auto
qed

lemma settled_Nil [simp]: "settled_host []"
  by (simp add: settled_host_def)

lemma keepsI_CreateProxy: "settled_host (CPI_EntryBindHost i) \<Longrightarrow> keepsI env (CreateProxy env i)"
  unfolding CreateProxy_def createWebProxy_def create_entry_proxy_def Let_def
  by (intro keepsI_admitted_insert keepsI_web_insert admission.service_intros admission.delete_laws;
      simp add: declared_status_def web_proxy_of_def entry_proxy_of_def zeroProxy_def)

lemma keepsI_CreateLocalProxy: "settled_host (LPI_EntryBindHost i) \<Longrightarrow> keepsI env (CreateLocalProxy env a i)"
  unfolding CreateLocalProxy_def Let_def
  by (intro admission.keepsA_finishAudit keepsI_admitted_insert admission.service_intros admitted_laws;
      simp add: declared_status_def localProxyFromInput_def zeroProxy_def rows_of_deletes)

section \<open>Enable and disable\<close>

lemma row_of_ID: "proxies_ByID db i = Inr p \<Longrightarrow> p \<in> set (db_proxies db) \<and> Proxy_ID p = i"
  by (auto simp: proxies_ByID_def dest: sql_one_Inr)

lemma stays_systemProxy:
  assumes "inv env s" and "\<And>p. p \<in> set (db_proxies (as_db s)) \<Longrightarrow> Proxy_ID p = i \<Longrightarrow> inv env (snd (g p s))"
  shows "inv env (snd (sbind (systemProxy env i) g s))"
proof (cases "sv_hasStore (ad_certs env)")
  case True
  then show ?thesis using assms row_of_ID [of "as_db s" i]
    by (cases "proxies_ByID (as_db s) i") (auto simp: systemProxy_def needs_store_def sbind_def look_def)
qed (use assms(1) in \<open>simp add: systemProxy_def needs_store_def sbind_def\<close>)

lemma stays_enable:
  assumes s: "inv env s" and p: "p \<in> set (db_proxies (as_db s))" "Proxy_ID p = i" and rest: "\<And>u. keepsI env (R u)"
  shows "inv env (snd (sbind (look (EnsureAdmission env (p\<lparr>Proxy_Status := ProxyEnabled\<rparr>) (Proxy_ID p)))
    (\<lambda>_. sbind (in_store (proxies_SetStatus b now i ProxyEnabled)) R) s))"
proof (rule stays_look [where P = "inv env", OF s], rule stays_then [OF _ rest])
  fix a assume "EnsureAdmission env (p\<lparr>Proxy_Status := ProxyEnabled\<rparr>) (Proxy_ID p) (as_db s) = Inr a"
  then show "inv env (snd (in_store (proxies_SetStatus b now i ProxyEnabled) s))"
    using enable_admitted [OF s p(1), of b now] p(2) by simp
qed

lemma keepsI_enable_tail:
  "inv env s \<Longrightarrow> p \<in> set (db_proxies (as_db s)) \<Longrightarrow> Proxy_ID p = i \<Longrightarrow>
   inv env (snd (sbind (look (EnsureAdmission env (p\<lparr>Proxy_Status := ProxyEnabled\<rparr>) (Proxy_ID p))) (\<lambda>_.
     sbind (in_store (proxies_SetStatus False (ad_now env) i ProxyEnabled)) (\<lambda>_.
     sbind (reconcile_or_undo env (proxies_SetStatus False (ad_now env) i ProxyDisabled)) (\<lambda>_.
     audit_Record env a ''proxy'' i ''enable_proxy''))) s))"
  by (rule stays_enable, assumption+) (intro admission.service_intros admitted_status, simp)

lemma keepsI_EnableProxy: "keepsI env (EnableProxy env i a)"
  unfolding keeps_def EnableProxy_def
  by (intro allI impI, rule stays_needs_store [where P = "inv env"], assumption,
    rule stays_if [where P = "inv env"], simp,
    rule stays_look [where P = "inv env"], assumption, rule stays_protected, assumption,
    rule stays_if [where P = "inv env"], simp,
    rule keepsI_enable_tail, assumption, simp_all add: row_of_ID)

lemma keepsI_EnableLocalProxy: "keepsI env (EnableLocalProxy env a i)"
  unfolding EnableLocalProxy_def
proof (rule admission.keepsA_finishAudit, unfold keeps_def, intro allI impI, rule stays_systemProxy, assumption)
  fix s p assume s: "inv env s" and p: "p \<in> set (db_proxies (as_db s))" "Proxy_ID p = i"
  show "inv env (snd (sbind (look (EnsureAdmission env (p\<lparr>Proxy_Status := ProxyEnabled\<rparr>) (Proxy_ID p))) (\<lambda>_.
       sbind (in_store (proxies_SetStatus True (ad_now env) i ProxyEnabled)) (\<lambda>_.
       reconcile_or_undo env (proxies_SetStatus True (ad_now env) i ProxyDisabled))) s))"
    by (intro stays_enable [OF s p]) (intro admission.service_intros admitted_status, simp)
qed

text \<open>What a disable that cannot be reconciled writes back is the old status when the proxy was enabled.\<close>

lemma SetStatus_rows:
  "r \<in> set (db_proxies (snd (proxies_SetStatus b now i ps db))) \<Longrightarrow>
   r \<in> set (db_proxies db) \<or> (\<exists>q \<in> set (db_proxies db). Proxy_ID q = i \<and> r = q\<lparr>Proxy_Status := ps, Proxy_UpdatedAt := now\<rparr>)"
  using SetStatus_cases [of b now i ps db] by (auto simp: set_sql_update)

lemma restore_admitted:
  assumes db: "admitted defaults fixed db" and p: "p \<in> set (db_proxies db)" "Proxy_Status p = ProxyEnabled"
    and db1: "db1 = snd (proxies_SetStatus b now (Proxy_ID p) ProxyDisabled db)"
  shows "admitted defaults fixed (snd (proxies_SetStatus b now (Proxy_ID p) ProxyEnabled db1))"
proof -
  let ?db = "snd (proxies_SetStatus b now (Proxy_ID p) ProxyEnabled db1)"
  have typed: "well_typed db" using db by (simp add: admitted_def)
  have step: "well_typed d \<Longrightarrow> well_typed (snd (proxies_SetStatus b now (Proxy_ID p) ps d))" if "declared_status ps" for ps d
    using well_typed.proxy_laws(3) [OF that] well_typed.internal_laws(3) [OF that] by (cases b) (auto simp: keeps_def)
  have typed': "well_typed ?db" unfolding db1 by (intro step typed; simp add: declared_status_def)
  have claim: "port_claim defaults (q\<lparr>Proxy_Status := ProxyEnabled, Proxy_UpdatedAt := t\<rparr>) = None \<or>
      port_claim defaults (q\<lparr>Proxy_Status := ProxyEnabled, Proxy_UpdatedAt := t\<rparr>) = port_claim defaults q"
    if "Proxy_Status q = ProxyEnabled" "Proxy_Type q \<in> {ProxyTCP, ProxyUDP, ProxyWeb, ProxyForward}" for q t
    using that port_claim_cong [of q "q\<lparr>Proxy_Status := ProxyEnabled, Proxy_UpdatedAt := t\<rparr>" defaults]
      typed_claims [of "q\<lparr>Proxy_Status := ProxyEnabled, Proxy_UpdatedAt := t\<rparr>" defaults] by auto
  show ?thesis
  proof (rule admitted_covered [OF typed' db])
    fix r assume r: "r \<in> set (db_proxies ?db)"
    from SetStatus_rows [OF r] show "stored_host r \<and> (port_claim defaults r = None \<or> claimed_before defaults (db_proxies db) r)"
    proof (elim disjE bexE conjE)
      assume "r \<in> set (db_proxies db1)"
      from SetStatus_rows [OF this [unfolded db1]] show ?thesis
        using admitted_host [OF db] claimed_self by (auto simp: stored_host_def rows_without_claim)
    next
      fix q1 assume q1: "q1 \<in> set (db_proxies db1)" "Proxy_ID q1 = Proxy_ID p"
        and r_eq: "r = q1\<lparr>Proxy_Status := ProxyEnabled, Proxy_UpdatedAt := now\<rparr>"
      from SetStatus_rows [OF q1(1) [unfolded db1]] have "r = p\<lparr>Proxy_Status := ProxyEnabled, Proxy_UpdatedAt := now\<rparr>"
        using q1(2) r_eq by (auto simp: r_eq dest: unique_row [OF typed p(1)])
      then show ?thesis using claim [OF p(2) typed_type(1) [OF typed p(1)], of now] admitted_host [OF db p(1)] p
        by (auto simp: stored_host_def claimed_before_def)
    qed
  qed
qed

lemma finishAudit_at: "finishAudit env a rt i act m s = finishAudit env a rt i act (slift (fst (m s))) (snd (m s))"
  by (simp add: finishAudit_def shandle_def split: prod.splits)

lemma stays_finishAudit: "inv env (snd (m s)) \<Longrightarrow> inv env (snd (finishAudit env a rt i act m s))"
proof -
  assume m: "inv env (snd (m s))"
  have "keepsI env (finishAudit env a rt i act (slift (fst (m s))))"
    by (intro admission.keepsA_finishAudit keep_intros)
  with m show ?thesis unfolding finishAudit_at [of env a rt i act m s] by (simp add: keeps_def)
qed

lemma keepsI_DisableLocalProxy:
  assumes s: "inv env s" and enabled: "\<forall>p \<in> set (db_proxies (as_db s)). Proxy_ID p = i \<longrightarrow> Proxy_Status p = ProxyEnabled"
  shows "inv env (snd (DisableLocalProxy env a i s))"
  unfolding DisableLocalProxy_def
proof (rule stays_finishAudit, rule stays_systemProxy [OF s])
  fix p assume p: "p \<in> set (db_proxies (as_db s))" "Proxy_ID p = i"
  obtain r s1 where off: "in_store (proxies_SetStatus True (ad_now env) i ProxyDisabled) s = (r, s1)" by fastforce
  then have s1: "as_db s1 = snd (proxies_SetStatus True (ad_now env) i ProxyDisabled (as_db s))"
    using as_db_in_store [of "proxies_SetStatus True (ad_now env) i ProxyDisabled" s] by simp
  then have inv1: "inv env s1" using s admitted_status [of ProxyDisabled] by (simp add: keeps_def)
  have "inv env (snd (reconcile_or_undo env (proxies_SetStatus True (ad_now env) i ProxyEnabled) s1))"
    using reconcile_or_undo_db [of env "proxies_SetStatus True (ad_now env) i ProxyEnabled" s1] inv1
      restore_admitted [OF s p(1), of "as_db s1" True "ad_now env"] enabled p s1 by auto
  then show "inv env (snd (sbind (in_store (proxies_SetStatus True (ad_now env) i ProxyDisabled)) (\<lambda>_.
     reconcile_or_undo env (proxies_SetStatus True (ad_now env) i ProxyEnabled)) s))"
    using off inv1 by (cases r) (simp_all add: sbind_def)
qed

section \<open>Update\<close>

text \<open>The services that stand between the look at a web proxy and its update keep the type of its row.\<close>

definition typed_as :: "string \<Rightarrow> ProxyType \<Rightarrow> DB \<Rightarrow> bool" where
  "typed_as i t db = list_all (\<lambda>p. Proxy_ID p = i \<longrightarrow> Proxy_Type p = t) (db_proxies db)"

lemma typed_as_gate: "typed_as i t db = list_all (\<lambda>p. Proxy_ID p = i \<longrightarrow> Proxy_Type p = t) (map gate_blind (db_proxies db))"
  by (simp add: typed_as_def list_all_iff)

lemma typed_as_keeps:
  "(\<And>u. keeps (identity_tables u) m) \<Longrightarrow> keeps (typed_as i t) m"
  "(\<And>u. keeps (gate_tables u) m) \<Longrightarrow> keeps (typed_as i t) m"
  "(\<And>db. db_proxies (snd (m db)) = db_proxies db) \<Longrightarrow> keeps (typed_as i t) m"
  by (erule keeps_by_frame keeps_by_gate; simp only: typed_as_gate)+ (simp add: keeps_def typed_as_def)

lemma keeps_both: "keeps P m \<Longrightarrow> keeps Q m \<Longrightarrow> keeps (\<lambda>s. P s \<and> Q s) m"
  by (simp add: keeps_def)

lemmas admission_laws = admission.user_laws admission.client_laws admission.domain_laws admission.access_laws admission.other_laws

interpretation web_row: quiet_store "\<lambda>db. admitted defaults fixed db \<and> typed_as i t db"
  by unfold_locales (rule keeps_both, rule admission_laws; (assumption)?;
    ((rule typed_as_keeps(3), simp add: rows_of_users; fail) | (rule typed_as_keeps(1), rule frame_laws; fail)
     | (rule typed_as_keeps(2), rule gate_access; fail)))+

lemma web_rewrite:
  assumes q: "Proxy_ID q = i" "Proxy_Type q = ProxyWeb" "declared_status (Proxy_Status q)" "settled_host (Proxy_EntryBindHost q)"
  shows "keeps (\<lambda>db. admitted (ad_defaults env) (ad_claims env) db \<and> typed_as i ProxyWeb db) (proxies_Update b now q)"
  unfolding keeps_def
proof (intro allI impI, elim conjE)
  fix db assume db: "admitted (ad_defaults env) (ad_claims env) db" and web: "typed_as i ProxyWeb db"
  have typed: "well_typed (snd (proxies_Update b now q db))"
    using db well_typed.proxy_laws(2) [of q] well_typed.internal_laws(2) [of q] q(3) by (cases b) (auto simp: keeps_def admitted_def)
  have sources: "r \<in> set (db_proxies db) \<or>
      (\<exists>n p. normalizeProxyForStore q = Inr n \<and> p \<in> set (db_proxies db) \<and> Proxy_ID p = i \<and> r = row_over now n p)"
    if "r \<in> set (db_proxies (snd (proxies_Update b now q db)))" for r
    using Update_cases [of b now q db] that q(1) by (elim disjE exE conjE) (auto simp: set_sql_update)
  have type: "Proxy_Type p = ProxyWeb" if "p \<in> set (db_proxies db)" "Proxy_ID p = i" for p
    using web that by (simp add: typed_as_def list_all_iff)
  have "admitted (ad_defaults env) (ad_claims env) (snd (proxies_Update b now q db))"
  proof (rule admitted_covered [OF typed db])
    fix r assume "r \<in> set (db_proxies (snd (proxies_Update b now q db)))"
    from sources [OF this] show "stored_host r \<and>
        (port_claim (ad_defaults env) r = None \<or> claimed_before (ad_defaults env) (db_proxies db) r)"
    proof (elim disjE exE conjE)
      assume "r \<in> set (db_proxies db)" then show ?thesis using admitted_host [OF db] claimed_self by blast
    next
      fix n p assume n: "normalizeProxyForStore q = Inr n" and p: "p \<in> set (db_proxies db)" "Proxy_ID p = i" and r: "r = row_over now n p"
      have "Proxy_Type r = ProxyWeb" using type [OF p] r by simp
      then show ?thesis using written_host [OF n q(4), of now p] r typed_claims [of r "ad_defaults env"] by simp
    qed
  qed
  moreover have "typed_as i ProxyWeb (snd (proxies_Update b now q db))"
    unfolding typed_as_def list_all_iff
  proof (intro ballI impI)
    fix r assume "r \<in> set (db_proxies (snd (proxies_Update b now q db)))" "Proxy_ID r = i"
    from sources [OF this(1)] this(2) show "Proxy_Type r = ProxyWeb" by (elim disjE exE conjE) (simp_all add: type)
  qed
  ultimately show "admitted (ad_defaults env) (ad_claims env) (snd (proxies_Update b now q db)) \<and>
      typed_as i ProxyWeb (snd (proxies_Update b now q db))" ..
qed

text \<open>What follows once the new row of a proxy is known.\<close>

definition store_update :: "'r AdminEnv \<Rightarrow> UpdateProxyInput \<Rightarrow> Proxy \<Rightarrow> Proxy \<Rightarrow> ('r, Proxy) admin" where
  "store_update env input previous existing =
     sbind (look (EnsureAdmission env existing (Proxy_ID existing))) (\<lambda>_.
     sbind (in_store (proxies_Update False (ad_now env) existing)) (\<lambda>_.
     sbind (reconcile_or_undo env (proxies_Update False (ad_now env) previous)) (\<lambda>_.
     audited env (UPI_ActorID input) ''proxy'' (Proxy_ID existing) ''update_proxy'' existing)))"

lemma stays_web_update:
  assumes s: "inv env s" and p: "p \<in> set (db_proxies (as_db s))" "Proxy_Type p = ProxyWeb" and named: "same_row p named"
  shows "inv env (snd (sbind (update_web_proxy env input named) (store_update env input p) s))"
proof -
  let ?P = "\<lambda>db. admitted (ad_defaults env) (ad_claims env) db \<and> typed_as (Proxy_ID p) ProxyWeb db"
  have typed: "well_typed (as_db s)" using s by (simp add: admitted_def)
  have row: "declared_status (Proxy_Status p)" "settled_host (Proxy_EntryBindHost p)"
    using typed_row_status [OF typed p(1)] admitted_host [OF s p(1)] by (simp_all add: stored_host_def settled_host_def)
  have "keeps (\<lambda>s. ?P (as_db s)) (sbind (update_web_proxy env input named) (store_update env input p))"
    by (rule keeps_bind_value [OF web_row.yieldsA_web], unfold store_update_def)
      (intro web_row.service_intros web_rewrite; use row p(2) named in \<open>simp add: same_row_def\<close>)
  moreover have "?P (as_db s)"
    using s p unique_row [OF typed p(1)] by (auto simp: typed_as_def list_all_iff)
  ultimately show ?thesis by (simp add: keeps_def)
qed

lemma entry_update_result:
  assumes "Proxy_Type p = ProxyTCP \<or> Proxy_Type p = ProxyUDP"
  shows "(\<exists>e. update_entry_proxy env input p s = (Inl e, s)) \<or>
    (\<exists>q. update_entry_proxy env input p s = (Inr q, s) \<and> Proxy_ID q = Proxy_ID p \<and> Proxy_Type q = Proxy_Type p \<and>
       Proxy_Status q = Proxy_Status p \<and> Proxy_EntryBindHost q = UPI_EntryBindHost input)"
proof -
  let ?e = "p\<lparr>Proxy_EntryBindHost := UPI_EntryBindHost input, Proxy_EntryHost := UPI_EntryHost input,
      Proxy_EntryPort := UPI_EntryPort input\<rparr>"
  let ?q = "?e\<lparr>Proxy_CertificateID := [], Proxy_CertFile := [], Proxy_KeyFile := []\<rparr>"
  have none: "ResolveProxySelection env (Proxy_Type p) i c b h cf kf a = sret []" for i c b h cf kf a
    using assms by (auto simp: ResolveProxySelection_def)
  have "update_entry_proxy env input p s =
      (case validateProxyEntryFields (Proxy_Type p) (UPI_EntryBindHost input) (UPI_EntryHost input) (UPI_EntryPort input)
              (UPI_CertFile input) (UPI_KeyFile input) of
         Inl e \<Rightarrow> (Inl e, s)
       | Inr u \<Rightarrow> (case EnsureAdmission env ?q (Proxy_ID p) (as_db s) of Inl e \<Rightarrow> (Inl e, s) | Inr v \<Rightarrow> (Inr ?q, s)))"
    by (simp add: update_entry_proxy_def Let_def none sbind_def look_def split: sum.splits)
  then show ?thesis by (simp split: sum.splits)
qed

text \<open>An admitted row is written over an old one, and the old one is put back when the listeners refuse it.\<close>

lemma stays_row_update:
  assumes s: "inv env s" and p: "p \<in> set (db_proxies (as_db s))"
    and q: "Proxy_ID q = Proxy_ID p" "Proxy_Type q = Proxy_Type p" "Proxy_Status q = Proxy_Status p"
      "settled_host (Proxy_EntryBindHost q)" and rest: "\<And>u. keepsI env (R u)"
  shows "inv env (snd (sbind (look (EnsureAdmission env q (Proxy_ID q))) (\<lambda>_.
    sbind (in_store (proxies_Update b now q)) (\<lambda>_. sbind (reconcile_or_undo env (proxies_Update b now p)) R)) s))"
proof (rule stays_look [where P = "inv env", OF s])
  fix a assume admission: "EnsureAdmission env q (Proxy_ID q) (as_db s) = Inr a"
  have declared: "declared_status (Proxy_Status q)" using s p typed_row_status by (auto simp: q(3) admitted_def)
  obtain r s1 where upd: "in_store (proxies_Update b now q) s = (r, s1)" by fastforce
  then have s1: "as_db s1 = snd (proxies_Update b now q (as_db s))"
    using as_db_in_store [of "proxies_Update b now q" s] by simp
  have inv1: "inv env s1" using update_admitted [OF s p q(1,2) declared q(4)] admission s1 by simp
  obtain r2 s2 where undo: "reconcile_or_undo env (proxies_Update b now p) s1 = (r2, s2)" by fastforce
  have "inv env s2"
    using reconcile_or_undo_db [of env "proxies_Update b now p" s1] undo inv1
      undo_admitted [OF s p declared q(1,2) s1] by auto
  with rest inv1 undo show "inv env (snd (sbind (in_store (proxies_Update b now q)) (\<lambda>_.
      sbind (reconcile_or_undo env (proxies_Update b now p)) R) s))"
    by (cases r; cases r2) (auto simp: sbind_def upd keeps_def)
qed

lemma stays_entry_update:
  assumes s: "inv env s" and p: "p \<in> set (db_proxies (as_db s))" "Proxy_Type p = ProxyTCP \<or> Proxy_Type p = ProxyUDP"
    and named: "same_row p named" and host: "settled_host (UPI_EntryBindHost input)"
  shows "inv env (snd (sbind (update_entry_proxy env input named) (store_update env input p) s))"
proof -
  have fields: "Proxy_ID named = Proxy_ID p" "Proxy_Type named = Proxy_Type p" "Proxy_Status named = Proxy_Status p"
    using named by (simp_all add: same_row_def)
  with p(2) have type: "Proxy_Type named = ProxyTCP \<or> Proxy_Type named = ProxyUDP" by simp
  from entry_update_result [OF type, of env input s] show ?thesis
  proof (elim disjE exE conjE)
    fix e assume "update_entry_proxy env input named s = (Inl e, s)" then show ?thesis using s by (simp add: sbind_def)
  next
    fix q assume q: "update_entry_proxy env input named s = (Inr q, s)" "Proxy_ID q = Proxy_ID named"
      "Proxy_Type q = Proxy_Type named" "Proxy_Status q = Proxy_Status named" "Proxy_EntryBindHost q = UPI_EntryBindHost input"
    have "inv env (snd (store_update env input p q s))"
      unfolding store_update_def
      by (rule stays_row_update [OF s p(1)]; (simp add: q fields host; fail)?) (intro admission.service_intros)
    then show ?thesis by (simp add: sbind_def q(1))
  qed
qed

lemma UpdateProxy_with_store_update:
  "UpdateProxy env input =
     needs_store env
      (sbind (slift (validateUpdateProxyInput input)) (\<lambda>_.
       sbind (look (\<lambda>db. proxies_ByID db (UPI_ID input))) (\<lambda>previous.
       sbind (protected env (UPI_ActorID input) ''proxy'' (UPI_ID input) ''update_proxy'' (ProtectProxyMutation previous)) (\<lambda>_.
       if type_change_rejected previous (UPI_Type input) then sfail (Validation [(''type'', ''proxy type is immutable'')])
       else if Proxy_Type previous = ProxyForward then sfail forward_unsupported
       else let named = previous\<lparr>Proxy_Name := UPI_Name input, Proxy_TargetHost := UPI_TargetHost input,
                          Proxy_TargetPort := UPI_TargetPort input, Proxy_Description := UPI_Description input\<rparr> in
         sbind (if proxyType_IsWeb (Proxy_Type named) then update_web_proxy env input named
                else update_entry_proxy env input named) (store_update env input previous)))))"
  unfolding UpdateProxy_def store_update_def [abs_def] ..

lemma stays_update:
  assumes s: "inv env s" and p: "p \<in> set (db_proxies (as_db s))" "Proxy_Type p \<noteq> ProxyForward"
    and host: "settled_host (UPI_EntryBindHost input)" and named: "same_row p named"
  shows "inv env (snd (sbind (if proxyType_IsWeb (Proxy_Type named) then update_web_proxy env input named
           else update_entry_proxy env input named) (store_update env input p) s))"
proof -
  have type: "Proxy_Type named = Proxy_Type p" using named by (simp add: same_row_def)
  have "Proxy_Type p \<in> {ProxyTCP, ProxyUDP, ProxyWeb, ProxyForward}" using s typed_type(1) [OF _ p(1)] by (simp add: admitted_def)
  with p(2) have "Proxy_Type p = ProxyWeb \<or> Proxy_Type p = ProxyTCP \<or> Proxy_Type p = ProxyUDP" by blast
  then show ?thesis
  proof
    assume web: "Proxy_Type p = ProxyWeb"
    then show ?thesis using stays_web_update [OF s p(1) web named, of input] by (simp add: type proxyType_IsWeb_def)
  next
    assume entry: "Proxy_Type p = ProxyTCP \<or> Proxy_Type p = ProxyUDP"
    then show ?thesis using stays_entry_update [OF s p(1) entry named host] by (auto simp: type proxyType_IsWeb_def)
  qed
qed

lemma keepsI_UpdateProxy: "settled_host (UPI_EntryBindHost input) \<Longrightarrow> keepsI env (UpdateProxy env input)"
  unfolding keeps_def UpdateProxy_with_store_update Let_def
  by (intro allI impI, rule stays_needs_store [where P = "inv env"], assumption,
    rule stays_slift [where P = "inv env"], assumption,
    rule stays_look [where P = "inv env"], assumption, rule stays_protected, assumption,
    rule stays_if [where P = "inv env"], simp, rule stays_if [where P = "inv env"], simp,
    rule stays_update, assumption, simp_all add: row_of_ID same_row_def)

lemma stays_value: "P s \<Longrightarrow> (\<And>a. P (snd (g a s))) \<Longrightarrow> P (snd (sbind (sget f) g s))"
  by (simp add: sbind_def sget_def)

lemma keepsI_UpdateLocalProxy: "settled_host (LPI_EntryBindHost input) \<Longrightarrow> keepsI env (UpdateLocalProxy env a input)"
  unfolding keeps_def UpdateLocalProxy_def Let_def
proof (intro allI impI, rule stays_finishAudit, rule stays_if [where P = "inv env"], simp, rule stays_systemProxy, assumption,
    rule stays_if [where P = "inv env"], simp, rule stays_value [where P = "inv env"], assumption,
    rule stays_slift [where P = "inv env"], assumption)
  fix s p policy u
  assume host: "settled_host (LPI_EntryBindHost input)" and s: "inv env s"
    and p: "p \<in> set (db_proxies (as_db s))" "Proxy_ID p = LPI_ID input"
    and type: "\<not> LPI_Type (input\<lparr>LPI_Type := or_default (LPI_Type input) (Proxy_Type p)\<rparr>) \<noteq> Proxy_Type p"
  let ?q = "localProxyFromInput (input\<lparr>LPI_Type := or_default (LPI_Type input) (Proxy_Type p)\<rparr>)\<lparr>Proxy_Status := Proxy_Status p,
      Proxy_CreatedAt := Proxy_CreatedAt p, Proxy_UpdatedAt := Proxy_UpdatedAt p\<rparr>"
  show "inv env (snd (sbind (look (EnsureAdmission env ?q (Proxy_ID ?q))) (\<lambda>_.
      sbind (in_store (proxies_Update True (ad_now env) ?q)) (\<lambda>_.
      sbind (reconcile_or_undo env (proxies_Update True (ad_now env) p)) (\<lambda>_. sret ?q))) s))"
    by (rule stays_row_update [OF s p(1)])
      (use type host p(2) in \<open>simp_all add: localProxyFromInput_def zeroProxy_def keeps_basic\<close>)
qed

lemma keepsI_DeleteLocalProxy: "keepsI env (DeleteLocalProxy env a i)"
  unfolding DeleteLocalProxy_def systemProxy_def
  by (intro admission.keepsA_finishAudit admission.service_intros admitted_laws; simp add: rows_of_deletes)

section \<open>The deletion of a certificate\<close>

text \<open>It may write a proxy back as it is, but for its certificate.\<close>

lemma rewrite_admitted:
  assumes db: "admitted defaults fixed db" and p: "p \<in> set (db_proxies db)"
    and q: "same_row p q" "Proxy_EntryPort q = Proxy_EntryPort p"
  shows "admitted defaults fixed (snd (proxies_Update b now q db))"
proof -
  have typed: "well_typed db" using db by (simp add: admitted_def)
  have declared: "declared_status (Proxy_Status q)" using typed_row_status [OF typed p] q(1) by (simp add: same_row_def)
  have typed': "well_typed (snd (proxies_Update b now q db))"
    using typed well_typed.proxy_laws(2) [OF declared] well_typed.internal_laws(2) [OF declared] by (cases b) (auto simp: keeps_def)
  have settled: "settled_host (Proxy_EntryBindHost q)"
    using admitted_host [OF db p] q(1) by (simp add: stored_host_def settled_host_def same_row_def)
  show ?thesis
  proof (rule admitted_covered [OF typed' db])
    fix r assume r: "r \<in> set (db_proxies (snd (proxies_Update b now q db)))"
    from Update_cases [of b now q db] r have "r \<in> set (db_proxies db) \<or>
        (\<exists>n. normalizeProxyForStore q = Inr n \<and> r = row_over now n p)"
      using q(1) by (elim disjE exE conjE) (auto simp: set_sql_update same_row_def dest: unique_row [OF typed p])
    then show "stored_host r \<and> (port_claim defaults r = None \<or> claimed_before defaults (db_proxies db) r)"
    proof (elim disjE exE conjE)
      assume "r \<in> set (db_proxies db)" then show ?thesis using admitted_host [OF db] claimed_self by blast
    next
      fix n assume n: "normalizeProxyForStore q = Inr n" and r: "r = row_over now n p"
      have "port_claim defaults r = None \<or> port_claim defaults r = port_claim defaults p"
      proof (cases "Proxy_Type p = ProxyTCP \<or> Proxy_Type p = ProxyUDP")
        case True
        have "port_claim defaults r = port_claim defaults q" unfolding r
          by (rule written_row [OF n _ _ settled]) (use q True in \<open>auto simp: same_row_def\<close>)
        moreover have "port_claim defaults q = port_claim defaults p"
          by (rule port_claim_cong [OF True]) (use q in \<open>auto simp: same_row_def\<close>)
        ultimately show ?thesis by simp
      next
        case False
        then show ?thesis using no_claim_type [of r defaults] typed_type(1) [OF typed p] by (cases "port_claim defaults r") (auto simp: r)
      qed
      then show ?thesis using written_host [OF n settled, of now p] p r by (auto simp: claimed_before_def)
    qed
  qed
qed

lemma keeps_noop: "(\<And>s. snd (m s) = s) \<Longrightarrow> keeps P m"
  by (simp add: keeps_def)

lemma admission_zero:
  "keeps (admitted defaults fixed) (proxies_Update False now (zeroProxy\<lparr>Proxy_CertificateID := [], Proxy_CertFile := [], Proxy_KeyFile := []\<rparr>))"
  by (rule keeps_noop) (simp add: proxies_Update_def zeroProxy_def normalizeProxyForStore_def proxy_Validate_def
    protectSystemMutation_def ProtectProxyMutation_def reject_if_def sbind_def split: sum.splits prod.splits)

lemma stays_UnbindProxy:
  assumes s: "inv env s" and p: "p \<in> set (db_proxies (as_db s)) \<or> p = zeroProxy"
  shows "inv env (snd (UnbindProxy env p s))"
proof (cases "blank (Proxy_DomainID p)")
  case True
  from p have "inv env (snd (in_store (proxies_Update False (ad_now env)
      (p\<lparr>Proxy_CertificateID := [], Proxy_CertFile := [], Proxy_KeyFile := []\<rparr>)) s))"
  proof
    assume row: "p \<in> set (db_proxies (as_db s))"
    show ?thesis unfolding as_db_in_store by (rule rewrite_admitted [OF s row]) (simp_all add: same_row_def)
  next
    assume zero: "p = zeroProxy"
    then show ?thesis unfolding as_db_in_store zero using admission_zero s by (simp add: keeps_def)
  qed
  with True show ?thesis by (simp add: UnbindProxy_def)
next
  case False
  have "keepsI env (UnbindProxy env p)"
    unfolding UnbindProxy_def if_not_P [OF False] by (intro admission.service_intros admission.keepsA_UnbindDomain)
  with s show ?thesis by (simp add: keeps_def)
qed

lemma bound_row: "ProxyBoundToCertificate db i = Inr (Some p) \<Longrightarrow> p \<in> set (db_proxies db) \<or> p = zeroProxy"
proof -
  assume "ProxyBoundToCertificate db i = Inr (Some p)"
  then obtain d where "p = (case proxies_ByDomainID db d of [] \<Rightarrow> zeroProxy | q # _ \<Rightarrow> q)"
    by (auto simp: ProxyBoundToCertificate_def split: sum.splits if_splits)
  moreover have "set (proxies_ByDomainID db d) \<subseteq> set (db_proxies db)" by (auto simp: proxies_ByDomainID_def)
  ultimately show ?thesis by (cases "proxies_ByDomainID db d") auto
qed

lemma stays_delete_certificate:
  assumes s: "inv env s" and found: "\<And>p. found = Some p \<Longrightarrow> p \<in> set (db_proxies (as_db s)) \<or> p = zeroProxy"
  shows "inv env (snd (delete_certificate env input i c found b s))"
  unfolding delete_certificate_def
proof (rule stays_then [where P = "inv env"])
  show "inv env (snd ((case found of None \<Rightarrow> sret () | Some p \<Rightarrow> UnbindProxy env p) s))"
    using s found by (cases found) (simp_all add: stays_UnbindProxy)
  fix u
  show "keepsI env (sbind (in_store (certs_Delete i)) (\<lambda>_. sbind (in_world (in_disk (CleanupManagedFiles (ad_certs env) c))) (\<lambda>_.
      sbind (ReconcileListeners env) (\<lambda>_. audited env (DCI_ActorID input) ''certificate'' i ''delete_managed_certificate''
       \<lparr>DCR_CertificateID = i, DCR_AffectedProxyIDs = (case found of None \<Rightarrow> [] | Some proxy \<Rightarrow> [Proxy_ID proxy]),
        DCR_RequiredConfirm = b\<rparr>))))"
    by (intro admission.service_intros keeps_world_rest admission.other_laws)
qed

lemma keepsI_DeleteCertificate: "keepsI env (DeleteCertificate env input)"
  unfolding keeps_def DeleteCertificate_def Let_def
  by (intro allI impI, rule stays_needs_store [where P = "inv env"], assumption,
    rule stays_if [where P = "inv env"], simp,
    rule stays_look [where P = "inv env"], assumption, rule stays_look [where P = "inv env"], assumption,
    rule stays_value [where P = "inv env"], assumption,
    rule stays_if [where P = "inv env"], simp, rule stays_delete_certificate, assumption, rule bound_row, simp)

section \<open>Every command\<close>

text \<open>
  What is asked of a command: the bind host that it brings, once normalised, stays as it is, and a server-local
  proxy that is disabled was enabled (the undo of that operation writes it as enabled without an admission).
\<close>

definition proxy_on :: "string \<Rightarrow> DB \<Rightarrow> bool" where
  "proxy_on i db = list_all (\<lambda>p. Proxy_ID p = i \<longrightarrow> Proxy_Status p = ProxyEnabled) (db_proxies db)"

fun allowed :: "AdminCommand \<Rightarrow> 'r AdminState \<Rightarrow> bool" where
  "allowed (CmdCreateProxy i) s = settled_host (CPI_EntryBindHost i)"
| "allowed (CmdUpdateProxy i) s = settled_host (UPI_EntryBindHost i)"
| "allowed (CmdCreateLocalProxy a i) s = settled_host (LPI_EntryBindHost i)"
| "allowed (CmdUpdateLocalProxy a i) s = settled_host (LPI_EntryBindHost i)"
| "allowed (CmdDisableLocalProxy a i) s = proxy_on i (as_db s)"
| "allowed c s = True"

fun allowed_run :: "TokenCodec \<Rightarrow> ('r AdminEnv \<times> AdminCommand) list \<Rightarrow> 'r AdminState \<Rightarrow> bool" where
  "allowed_run codec [] s = True"
| "allowed_run codec ((env, c) # rest) s = (allowed c s \<and> allowed_run codec rest (snd (run_command env codec c s)))"

lemma inv_command:
  assumes s: "inv env s" and allowed: "allowed c s"
  shows "inv env (snd (run_command env codec c s))"
proof (cases "writes_proxy c")
  case False
  have "keepsI env (run_command env codec c)" by (rule admission.keepsA_quiet_command [OF False])
  with s show ?thesis by (simp add: keeps_def)
next
  case True
  have disable: "inv env (snd (DisableLocalProxy env a i s))" if "proxy_on i (as_db s)" for a i
    by (rule keepsI_DisableLocalProxy [OF s]) (use that in \<open>simp add: proxy_on_def list_all_iff\<close>)
  have lift: "inv env (snd (m s))" if "keepsI env m" for m :: "(_, unit) admin" using that s by (simp add: keeps_def)
  from True allowed show ?thesis
    by (cases c; simp only: writes_proxy.simps not_True_eq_False run_command.simps allowed.simps)
      (rule lift, intro keep_intros keepsI_CreateProxy keepsI_UpdateProxy keepsI_EnableProxy keepsI_DeleteCertificate
         keepsI_CreateLocalProxy keepsI_UpdateLocalProxy keepsI_EnableLocalProxy keepsI_DeleteLocalProxy; assumption
       | rule disable; assumption)+
qed

lemma inv_commands:
  "\<forall>(env, c) \<in> set cs. ad_defaults env = defaults \<and> ad_claims env = fixed \<Longrightarrow> allowed_run codec cs s \<Longrightarrow>
   admitted defaults fixed (as_db s) \<Longrightarrow> admitted defaults fixed (as_db (run_commands codec cs s))"
proof (induction cs arbitrary: s)
  case (Cons ec cs)
  obtain env c where ec: "ec = (env, c)" by fastforce
  have "inv env (snd (run_command env codec c s))"
    using inv_command [of env s c codec] Cons.prems by (simp add: ec)
  then show ?case using Cons by (simp add: ec)
qed simp

text \<open>
  C4: Listener admission is sound under use: as long as the settings for listeners stay the same, after any
  sequence of administration commands no enabled TCP or UDP proxy claims a listener that conflicts with one
  of the server itself or with that of another enabled proxy. The start has to be so, with typed rows and
  bind hosts as the store writes them, and every command allowed: its bind host settled by one
  normalisation, and no server-local proxy disabled that is not enabled.
\<close>
theorem commands_keep_claims_clear:
  assumes "\<forall>(env, c) \<in> set cs. ad_defaults env = defaults \<and> ad_claims env = fixed" and "allowed_run codec cs s"
    and "well_typed (as_db s)" and "list_all stored_host (db_proxies (as_db s))"
    and "claims_clear defaults fixed (db_proxies (as_db s))"
  shows "claims_clear defaults fixed (db_proxies (as_db (run_commands codec cs s)))"
  using inv_commands [OF assms(1,2)] assms(3-5) by (simp add: admitted_def)

theorem commands_keep_claims_clear_witness:
  "claims_clear (ad_defaults admin_env) [] (db_proxies (as_db (sample_prefix 7)))"
proof -
  have settled: "settled_host []" by simp
  have envs: "\<forall>(env, c) \<in> set (map (\<lambda>c. (admin_env, c)) (take 7 sample_commands)).
      ad_defaults env = ad_defaults admin_env \<and> ad_claims env = []"
    by (auto simp: admin_env_def)
  have "allowed_run admin_codec (map (\<lambda>c. (admin_env, c)) (take 7 sample_commands)) admin_start"
    by (simp add: sample_commands_def settled tcp_input_def)
  moreover have "well_typed (as_db admin_start)" using admin_db_typed by (simp add: admin_start_def)
  moreover have "db_proxies (as_db admin_start) = []" by (simp add: admin_start_def admin_db_def emptyDB_def)
  ultimately show ?thesis
    using commands_keep_claims_clear [OF envs] by (simp add: sample_prefix_def claims_clear_def)
qed

section \<open>Why the two conditions are needed\<close>

lemma NormalizeBindHost_not_settled:
  "NormalizeBindHost ''[[a]]'' = ''[a]''" "NormalizeBindHost ''[a]'' = ''a''" "\<not> settled_host ''[[a]]''"
  by code_simp+

text \<open>
  Two proxies for one port, the first of them disabled and on the server itself: to disable it again, when the
  listeners cannot be reconciled, leaves both enabled.
\<close>

definition rival :: "string \<Rightarrow> string \<Rightarrow> string \<Rightarrow> ProxyStatus \<Rightarrow> Proxy" where
  "rival i user client st = zeroProxy\<lparr>Proxy_ID := i, Proxy_UserID := user, Proxy_ClientID := client, Proxy_Name := i,
     Proxy_Type := ProxyTCP, Proxy_Status := st, Proxy_EntryPort := 9000, Proxy_TargetHost := ''10.0.0.5'', Proxy_TargetPort := 22\<rparr>"

definition rivals :: "ProxyStatus \<Rightarrow> DB" where
  "rivals st = admin_db\<lparr>db_proxies := [rival ''l1'' SystemUserID SystemClientID st, rival ''p1'' ''u1'' ''c1'' ProxyEnabled]\<rparr>"

definition failing_env :: "int ServerRuntime AdminEnv" where
  "failing_env = admin_env\<lparr>ad_reconcile := Some (\<lambda>_. sfail (New ''address already in use''))\<rparr>"

definition rival_state :: "int ServerRuntime AdminState" where
  "rival_state = admin_start\<lparr>as_world := (as_world admin_start)\<lparr>cw_db := rivals ProxyDisabled\<rparr>\<rparr>"

lemma disable_undo_skips_admission:
  "claims_clear (ad_defaults failing_env) (ad_claims failing_env) (db_proxies (as_db rival_state)) \<and>
   \<not> claims_clear (ad_defaults failing_env) (ad_claims failing_env)
       (db_proxies (as_db (snd (DisableLocalProxy failing_env ''admin'' ''l1'' rival_state))))"
proof
  show "claims_clear (ad_defaults failing_env) (ad_claims failing_env) (db_proxies (as_db rival_state))" by code_simp
  show "\<not> claims_clear (ad_defaults failing_env) (ad_claims failing_env)
       (db_proxies (as_db (snd (DisableLocalProxy failing_env ''admin'' ''l1'' rival_state))))" by code_simp
qed

end
