(* ===== verification/SecretStore.thy ===== *)
theory SecretStore
  imports CertDisk
begin

text \<open>
  FileSecretStore of internal/certmanager/secret_store.go: the secrets of the certificate providers as
  files of one directory, on the disk of CertDisk. \<open>ctxErr\<close> is the error of a context that is done, and
  \<open>ce_temp\<close> the name that os.CreateTemp picks for a directory and a pattern. Syncing the directory has no
  effect on the contents and is left out.
\<close>

section \<open>Strings as bytes\<close>

definition bytes_of_string :: "string \<Rightarrow> byte list" where
  "bytes_of_string s = map (\<lambda>c. word_of_int (of_char c)) s"

lemma of_char_bounds: "0 \<le> (of_char c :: int)" "(of_char c :: int) < 256"
proof -
  have eq: "(of_char c :: int) = int (of_char c :: nat)" by (simp only: of_nat_of_char)
  have "(of_char c :: nat) < 256" using nat_of_char_less_256 [of c] by simp
  then show "0 \<le> (of_char c :: int)" "(of_char c :: int) < 256" unfolding eq by simp_all
qed

lemma string_of_bytes_of_string [simp]: "string_of_bytes (bytes_of_string s) = s"
  by (induction s) (simp_all add: string_of_bytes_def bytes_of_string_def uint_word_of_int of_char_bounds)

section \<open>Names\<close>

definition safe_char :: "char \<Rightarrow> bool" where
  "safe_char c \<longleftrightarrow> (let n = of_char c :: int in
     97 \<le> n \<and> n \<le> 122 \<or> 65 \<le> n \<and> n \<le> 90 \<or> 48 \<le> n \<and> n \<le> 57 \<or> c = CHR ''-'' \<or> c = CHR ''_'')"

definition safeSecretName :: "string \<Rightarrow> string result" where
  "safeSecretName rawID =
     (let credentialID = trim_space rawID in
      if credentialID = [] then Inl (New ''credential id is required'')
      else case find (\<lambda>c. \<not> safe_char c) credentialID of
             Some c \<Rightarrow> Inl (New (''credential id contains unsupported character '' @ [c]))
           | None \<Rightarrow> Inr credentialID)"

definition filepath_Base :: "string \<Rightarrow> string" where
  "filepath_Base path =
     (if path = [] then ''.''
      else let parts = filter (\<lambda>p. p \<noteq> []) (split_on CHR ''/'' path) in if parts = [] then ''/'' else last parts)"

definition secret_dir :: "CertEnv \<Rightarrow> string \<Rightarrow> string result" where
  "secret_dir env dir =
     (if blank dir then Inl (New ''secret store path is required'') else fs_reply env (FsAbs dir) (ce_Abs env dir))"

definition secret_resolve :: "CertEnv \<Rightarrow> string \<Rightarrow> string \<Rightarrow> string result" where
  "secret_resolve env dir secretRef =
     (if blank secretRef then Inl (New ''secret ref is required'')
      else if filepath_Base secretRef \<noteq> secretRef \<or> contains_sub secretRef ''..'' then Inl (New ''secret ref is invalid'')
      else rbind (secret_dir env dir) (\<lambda>d. Inr (filepath_Join [d, secretRef])))"

section \<open>Write, read, delete\<close>

definition put_file :: "string \<Rightarrow> byte list \<Rightarrow> time \<Rightarrow> (Disk, unit) op" where
  "put_file path content now =
     smodify (fs_change (gm_put path \<lparr>file_content = content, file_modTime = now, file_symlink = False\<rparr>))"

text \<open>A step on the temporary file; when it fails the file is removed and its error returned.\<close>

definition or_remove :: "(FsCall \<Rightarrow> error option) \<Rightarrow> string \<Rightarrow> (Disk, unit) op \<Rightarrow> (Disk, unit) op" where
  "or_remove fc temp m =
     shandle m (\<lambda>r. case r of Inr _ \<Rightarrow> sret () | Inl e \<Rightarrow> sbind (ignoring (os_Remove fc temp)) (\<lambda>_. sfail e))"

definition fill_and_rename ::
    "(FsCall \<Rightarrow> error option) \<Rightarrow> string \<Rightarrow> string \<Rightarrow> string \<Rightarrow> time \<Rightarrow> (Disk, unit) op" where
  "fill_and_rename fc temp target material now =
     sbind (or_remove fc temp (fs_call fc (FsChmod temp))) (\<lambda>_.
     sbind (or_remove fc temp (os_WriteFile fc temp (bytes_of_string material) now)) (\<lambda>_.
     sbind (or_remove fc temp (fs_call fc (FsSync temp))) (\<lambda>_.
     sbind (or_remove fc temp (fs_call fc (FsClose temp))) (\<lambda>_.
     or_remove fc temp (os_Rename fc temp target)))))"

definition secret_Write ::
    "CertEnv \<Rightarrow> error option \<Rightarrow> time \<Rightarrow> string \<Rightarrow> string \<Rightarrow> string \<Rightarrow> (Disk, string) op" where
  "secret_Write env ctxErr now storeDir credentialID material =
     (case ctxErr of
        Some e \<Rightarrow> sfail e
      | None \<Rightarrow>
          (if blank material then sfail (New ''secret material is required'')
           else sbind (slift (safeSecretName credentialID)) (\<lambda>name.
             sbind (slift (secret_dir env storeDir)) (\<lambda>dir.
             sbind (fs_call (ce_fc env) (FsMkdirAll dir)) (\<lambda>_.
             let temp = ce_temp env dir (name @ ''-*.tmp''); secretRef = name @ ''.secret'' in
             sbind (fs_call (ce_fc env) (FsCreateTemp temp)) (\<lambda>_.
             sbind (put_file temp [] now) (\<lambda>_.
             sbind (fill_and_rename (ce_fc env) temp (filepath_Join [dir, secretRef]) material now) (\<lambda>_.
             sret secretRef))))))))"

definition secret_Read :: "CertEnv \<Rightarrow> error option \<Rightarrow> string \<Rightarrow> string \<Rightarrow> (Disk, string) op" where
  "secret_Read env ctxErr storeDir secretRef =
     (case ctxErr of
        Some e \<Rightarrow> sfail e
      | None \<Rightarrow>
          sbind (slift (secret_resolve env storeDir secretRef)) (\<lambda>path.
          shandle (os_ReadFile (ce_fc env) path) (\<lambda>r. case r of
            Inl e \<Rightarrow> sfail (if errors_is e ErrNotExist then New ''secret material is missing'' else e)
          | Inr content \<Rightarrow>
              (let material = trim_space (string_of_bytes content) in
               if material = [] then sfail (New ''secret material is empty'') else sret material))))"

definition secret_Delete :: "CertEnv \<Rightarrow> error option \<Rightarrow> string \<Rightarrow> string \<Rightarrow> (Disk, unit) op" where
  "secret_Delete env ctxErr storeDir secretRef =
     (case ctxErr of
        Some e \<Rightarrow> sfail e
      | None \<Rightarrow>
          sbind (slift (secret_resolve env storeDir secretRef)) (\<lambda>path.
          shandle (os_Remove (ce_fc env) path) (\<lambda>r. case r of
            Inr _ \<Rightarrow> sret ()
          | Inl e \<Rightarrow> if errors_is e ErrNotExist then sret () else sfail e)))"

end
