(* ===== verification/DomainMigration.thy ===== *)
theory DomainMigration
  imports AccessStore
begin

text \<open>
  The migrations that run when the store is opened, internal/store/sqlite/domain_migration.go and the
  data parts of \<open>migrate\<close> in sqlite.go: the proxies for HTTP and HTTPS of older installations and their
  path routes become domains, domain entries and web proxies; the certificates get their lifecycle and
  provider columns; certificate files of proxies become certificates of domains. The tables and columns are
  there from the start, so that the statements that create them have no counterpart. A legacy row is a row
  of the table proxies with the columns it had.
\<close>

section \<open>The legacy tables\<close>

record legacyRouteRow =
  Rt_ID :: string
  Rt_ProxyID :: string
  Rt_ClientID :: string
  Rt_PathPrefix :: string
  Rt_StripPrefix :: bool
  Rt_UpstreamPathPrefix :: string
  Rt_TargetHost :: string
  Rt_TargetPort :: int
  Rt_Status :: string
  Rt_CreatedAt :: time
  Rt_UpdatedAt :: time

record legacyPathOwner =
  Own_ProxyID :: string
  Own_ClientID :: string
  Own_TargetHost :: string
  Own_TargetPort :: int
  Own_Strip :: bool
  Own_Upstream :: string
  Own_Source :: string

text \<open>
  The database beside what only a migration sees: the table proxy_routes (empty when there is none), the
  flag domain_path_routing_v1, whether proxies has its legacy columns, and the number of random draws.
\<close>

record MigrationState =
  mg_db :: DB
  mg_routes :: "legacyRouteRow list"
  mg_flag :: "string option"
  mg_legacyColumns :: bool
  mg_draws :: nat

text \<open>The clock and what the random bytes of the n-th draw make of a prefix.\<close>

record MigrationEnv =
  me_now :: time
  me_newID :: "nat \<Rightarrow> string \<Rightarrow> string"

definition on_db :: "(DB, 'a) op \<Rightarrow> (MigrationState, 'a) op" where
  "on_db m st = (case m (mg_db st) of (r, db) \<Rightarrow> (r, st\<lparr>mg_db := db\<rparr>))"

definition newMigrationID :: "MigrationEnv \<Rightarrow> string \<Rightarrow> (MigrationState, string) op" where
  "newMigrationID env prefix st = (Inr (me_newID env (mg_draws st) prefix), st\<lparr>mg_draws := mg_draws st + 1\<rparr>)"

definition legacy_web :: "Proxy \<Rightarrow> bool" where
  "legacy_web p \<longleftrightarrow> Proxy_Type p = ProxyHTTP \<or> Proxy_Type p = ProxyHTTPS"

definition legacy_rows :: "DB \<Rightarrow> Proxy list" where
  "legacy_rows db = sql_list legacy_web proxy_created (db_proxies db)"

text \<open>\<open>order by length(path_prefix) desc, path_prefix, id\<close>\<close>

definition route_order :: "legacyRouteRow \<Rightarrow> int \<times> string \<times> string" where
  "route_order r = (- int (length (Rt_PathPrefix r)), Rt_PathPrefix r, Rt_ID r)"

definition queryLegacyProxyRoutes :: "legacyRouteRow list \<Rightarrow> string \<Rightarrow> legacyRouteRow list" where
  "queryLegacyProxyRoutes routes proxyID = sql_list (\<lambda>r. Rt_ProxyID r = proxyID) route_order routes"

definition samePathBackend :: "legacyPathOwner \<Rightarrow> legacyPathOwner \<Rightarrow> bool" where
  "samePathBackend a b \<longleftrightarrow> Own_ClientID a = Own_ClientID b \<and> Own_TargetHost a = Own_TargetHost b \<and>
     Own_TargetPort a = Own_TargetPort b \<and> Own_Strip a = Own_Strip b \<and> Own_Upstream a = Own_Upstream b"

section \<open>Collecting the domains\<close>

record domainAgg =
  Agg_ID :: string
  Agg_UserID :: string
  Agg_Host :: string
  Agg_CertificateID :: string
  Agg_Status :: DomainStatus
  Agg_CreatedAt :: time
  Agg_UpdatedAt :: time
  Agg_entries :: "(string, DomainEntry) gomap"
  Agg_pathOwners :: "(string, legacyPathOwner) gomap"

type_synonym domainsByHost = "(string, domainAgg) gomap"

definition migration_conflict :: "string \<Rightarrow> error" where
  "migration_conflict what = New (''domain path migration conflict: '' @ what)"

definition new_domainAgg :: "string \<Rightarrow> string \<Rightarrow> Proxy \<Rightarrow> domainAgg" where
  "new_domainAgg i host proxy =
     \<lparr>Agg_ID = i, Agg_UserID = Proxy_UserID proxy, Agg_Host = host, Agg_CertificateID = [], Agg_Status = DomainEnabled,
      Agg_CreatedAt = Proxy_CreatedAt proxy, Agg_UpdatedAt = Proxy_UpdatedAt proxy, Agg_entries = [], Agg_pathOwners = []\<rparr>"

definition legacy_protocol :: "Proxy \<Rightarrow> DomainEntryProtocol" where
  "legacy_protocol proxy = (if Proxy_Type proxy = ProxyHTTPS then DomainEntryHTTPS else DomainEntryHTTP)"

definition entryKey :: "Proxy \<Rightarrow> string" where
  "entryKey proxy = legacy_protocol proxy @ ''|'' @ NormalizeBindHost (Proxy_EntryBindHost proxy) @ ''|'' @ itoa (Proxy_EntryPort proxy)"

text \<open>The entry of the proxy: a new one, disabled with its proxy, or one that an enabled proxy enables.\<close>

definition collect_entry :: "MigrationEnv \<Rightarrow> Proxy \<Rightarrow> domainAgg \<Rightarrow> (MigrationState, domainAgg) op" where
  "collect_entry env proxy agg =
     (case gm_get (Agg_entries agg) (entryKey proxy) of
        None \<Rightarrow>
          sbind (newMigrationID env ''dentry'') (\<lambda>i. sret (agg\<lparr>Agg_entries := gm_put (entryKey proxy)
            \<lparr>DEnt_ID = i, DEnt_DomainID = Agg_ID agg, DEnt_Protocol = legacy_protocol proxy,
             DEnt_BindHost = NormalizeBindHost (Proxy_EntryBindHost proxy), DEnt_Port = Proxy_EntryPort proxy,
             DEnt_Status = (if Proxy_Status proxy \<noteq> ProxyEnabled then DomainEntryDisabled else DomainEntryEnabled),
             DEnt_CreatedAt = Proxy_CreatedAt proxy, DEnt_UpdatedAt = Proxy_UpdatedAt proxy\<rparr> (Agg_entries agg)\<rparr>))
      | Some entry \<Rightarrow>
          if Proxy_Status proxy = ProxyEnabled
          then sret (agg\<lparr>Agg_entries := gm_put (entryKey proxy) (entry\<lparr>DEnt_Status := DomainEntryEnabled\<rparr>) (Agg_entries agg)\<rparr>)
          else sret agg)"

definition parentOwner :: "Proxy \<Rightarrow> legacyPathOwner" where
  "parentOwner proxy =
     \<lparr>Own_ProxyID = Proxy_ID proxy, Own_ClientID = Proxy_ClientID proxy, Own_TargetHost = Proxy_TargetHost proxy,
      Own_TargetPort = Proxy_TargetPort proxy, Own_Strip = False, Own_Upstream = ''/'', Own_Source = ''parent:'' @ Proxy_ID proxy\<rparr>"

definition routeOwner :: "legacyRouteRow \<Rightarrow> legacyPathOwner" where
  "routeOwner route =
     \<lparr>Own_ProxyID = Rt_ID route, Own_ClientID = Rt_ClientID route, Own_TargetHost = Rt_TargetHost route,
      Own_TargetPort = Rt_TargetPort route, Own_Strip = Rt_StripPrefix route, Own_Upstream = Rt_UpstreamPathPrefix route,
      Own_Source = ''route:'' @ Rt_ID route\<rparr>"

text \<open>A path of a host belongs to the first that claims it; another claim has to name the same backend.\<close>

definition claim_path :: "string \<Rightarrow> legacyPathOwner \<Rightarrow> domainAgg \<Rightarrow> domainAgg result" where
  "claim_path path owner agg =
     (case gm_get (Agg_pathOwners agg) path of
        Some existing \<Rightarrow>
          if \<not> samePathBackend existing owner
          then Inl (migration_conflict (''host '' @ Agg_Host agg @ '' path '' @ path @ '' maps to different backends''))
          else Inr agg
      | None \<Rightarrow> Inr (agg\<lparr>Agg_pathOwners := gm_put path owner (Agg_pathOwners agg)\<rparr>))"

fun claim_routes :: "legacyRouteRow list \<Rightarrow> domainAgg \<Rightarrow> domainAgg result" where
  "claim_routes [] agg = Inr agg"
| "claim_routes (route # routes) agg =
     (case NormalizeProxyRoutePrefix (Rt_PathPrefix route) of
        Inl e \<Rightarrow> Inl (Wrapf (''domain path migration conflict: route '' @ Rt_ID route @ '' invalid path'') e)
      | Inr pathPrefix \<Rightarrow> rbind (claim_path pathPrefix (routeOwner route) agg) (claim_routes routes))"

definition bind_agg_certificate :: "Proxy \<Rightarrow> domainAgg \<Rightarrow> domainAgg result" where
  "bind_agg_certificate proxy agg =
     (if Proxy_CertificateID proxy \<noteq> []
      then if Agg_CertificateID agg \<noteq> [] \<and> Agg_CertificateID agg \<noteq> Proxy_CertificateID proxy
           then Inl (migration_conflict (''host '' @ Agg_Host agg @ '' has multiple certificate bindings''))
           else Inr (agg\<lparr>Agg_CertificateID := Proxy_CertificateID proxy\<rparr>)
      else Inr agg)"

text \<open>One pass of the loop over the legacy proxies.\<close>

definition collect_proxy :: "MigrationEnv \<Rightarrow> Proxy \<Rightarrow> domainsByHost \<Rightarrow> (MigrationState, domainsByHost) op" where
  "collect_proxy env proxy domains =
     (let host = NormalizeRouteHost (Proxy_EntryHost proxy) in
      if host = [] then sfail (migration_conflict (''proxy '' @ Proxy_ID proxy @ '' missing entry host''))
      else sbind (case gm_get domains host of
                    Some agg \<Rightarrow> sret agg
                  | None \<Rightarrow> sbind (newMigrationID env ''domain'') (\<lambda>i. sret (new_domainAgg i host proxy))) (\<lambda>agg.
        if Agg_UserID agg \<noteq> Proxy_UserID proxy
        then sfail (migration_conflict (''host '' @ host @ '' owned by multiple users''))
        else sbind (slift (bind_agg_certificate proxy agg)) (\<lambda>bound.
             sbind (collect_entry env proxy bound) (\<lambda>entered.
             sbind (slift (claim_path ''/'' (parentOwner proxy) entered)) (\<lambda>parented.
             sbind (sget (\<lambda>st. queryLegacyProxyRoutes (mg_routes st) (Proxy_ID proxy))) (\<lambda>routes.
             sbind (slift (claim_routes routes parented)) (\<lambda>routed.
               sret (gm_put host routed domains))))))))"

fun collect_proxies :: "MigrationEnv \<Rightarrow> Proxy list \<Rightarrow> domainsByHost \<Rightarrow> (MigrationState, domainsByHost) op" where
  "collect_proxies env [] domains = sret domains"
| "collect_proxies env (proxy # proxies) domains =
     sbind (collect_proxy env proxy domains) (collect_proxies env proxies)"

section \<open>Writing the new rows\<close>

definition agg_domain :: "domainAgg \<Rightarrow> Domain" where
  "agg_domain agg = \<lparr>Dom_ID = Agg_ID agg, Dom_UserID = Agg_UserID agg, Dom_Host = Agg_Host agg,
     Dom_CertificateID = Agg_CertificateID agg, Dom_Status = Agg_Status agg, Dom_CreatedAt = Agg_CreatedAt agg,
     Dom_UpdatedAt = Agg_UpdatedAt agg\<rparr>"

definition insert_domains :: "domainsByHost \<Rightarrow> (MigrationState, unit) op" where
  "insert_domains domains =
     sfor (\<lambda>(_, agg). sbind (on_db (insert_domain (agg_domain agg))) (\<lambda>_.
             sfor (\<lambda>(_, entry). on_db (insert_domain_entry entry)) (Agg_entries agg))) domains"

definition next_auth_version :: "Proxy \<Rightarrow> int" where
  "next_auth_version proxy = (if Proxy_AccessAuthEnabled proxy then Proxy_AccessAuthVersion proxy + 1 else Proxy_AccessAuthVersion proxy)"

text \<open>The parent as the update leaves it; the columns of older databases that it does not name stay.\<close>

definition web_parent :: "time \<Rightarrow> domainAgg \<Rightarrow> string \<Rightarrow> int \<Rightarrow> Proxy \<Rightarrow> Proxy" where
  "web_parent now agg upstream nextAuthVersion p =
     p\<lparr>Proxy_Type := ProxyWeb, Proxy_DomainID := Agg_ID agg, Proxy_PathPrefix := ''/'', Proxy_StripPrefix := False,
       Proxy_UpstreamPathPrefix := upstream, Proxy_EntryBindHost := [], Proxy_EntryPort := 0,
       Proxy_AccessAuthVersion := nextAuthVersion, Proxy_StatsLegacyAggregate := True, Proxy_UpdatedAt := now\<rparr>"

definition web_route :: "Proxy \<Rightarrow> domainAgg \<Rightarrow> string \<Rightarrow> string \<Rightarrow> legacyRouteRow \<Rightarrow> Proxy" where
  "web_route proxy agg pathPrefix upstreamPrefix route =
     zeroProxy\<lparr>Proxy_ID := Rt_ID route, Proxy_UserID := Proxy_UserID proxy, Proxy_ClientID := Rt_ClientID route,
       Proxy_Name := Proxy_Name proxy @ '' '' @ pathPrefix, Proxy_Type := ProxyWeb,
       Proxy_Status := (if Rt_Status route = ''disabled'' \<or> Proxy_Status proxy \<noteq> ProxyEnabled then ProxyDisabled else ProxyEnabled),
       Proxy_DomainID := Agg_ID agg, Proxy_PathPrefix := pathPrefix, Proxy_StripPrefix := Rt_StripPrefix route,
       Proxy_UpstreamPathPrefix := upstreamPrefix, Proxy_TargetHost := Rt_TargetHost route,
       Proxy_TargetPort := Rt_TargetPort route, Proxy_AccessAuthEnabled := Proxy_AccessAuthEnabled proxy,
       Proxy_AccessAuthVersion := (if Proxy_AccessAuthEnabled proxy then 1 else 0),
       Proxy_Description := ''migrated from proxy route '' @ Rt_ID route,
       Proxy_CreatedAt := Rt_CreatedAt route, Proxy_UpdatedAt := Rt_UpdatedAt route\<rparr>"

definition revoke_legacy_access :: "Proxy \<Rightarrow> (MigrationState, unit) op" where
  "revoke_legacy_access proxy =
     (if Proxy_AccessAuthEnabled proxy
      then sbind (on_db (smodify (\<lambda>db. db\<lparr>db_tokens := sql_delete (\<lambda>t. Tok_ProxyID t = Proxy_ID proxy) (db_tokens db)\<rparr>))) (\<lambda>_.
           on_db (smodify (\<lambda>db. db\<lparr>db_credentials := sql_delete (\<lambda>c. Cred_ProxyID c = Proxy_ID proxy) (db_credentials db)\<rparr>)))
      else sret ())"

definition convert_route :: "Proxy \<Rightarrow> domainAgg \<Rightarrow> legacyRouteRow \<Rightarrow> (MigrationState, unit) op" where
  "convert_route proxy agg route =
     sbind (slift (NormalizeProxyRoutePrefix (Rt_PathPrefix route))) (\<lambda>pathPrefix.
     sbind (slift (NormalizeProxyUpstreamPathPrefix (Rt_UpstreamPathPrefix route))) (\<lambda>upstreamPrefix.
       on_db (insert_proxy (web_route proxy agg pathPrefix upstreamPrefix route))))"

definition convert_proxy :: "MigrationEnv \<Rightarrow> domainsByHost \<Rightarrow> Proxy \<Rightarrow> (MigrationState, unit) op" where
  "convert_proxy env domains proxy =
     (case gm_get domains (NormalizeRouteHost (Proxy_EntryHost proxy)) of
        None \<Rightarrow> sfail (New ''invalid memory address or nil pointer dereference'')
      | Some agg \<Rightarrow>
          sbind (slift (NormalizeProxyUpstreamPathPrefix ''/'')) (\<lambda>upstream.
          sbind (revoke_legacy_access proxy) (\<lambda>_.
          sbind (on_db (smodify (\<lambda>db. db\<lparr>db_proxies := sql_update (\<lambda>p. Proxy_ID p = Proxy_ID proxy)
                   (web_parent (me_now env) agg upstream (next_auth_version proxy)) (db_proxies db)\<rparr>))) (\<lambda>_.
          sbind (sget (\<lambda>st. queryLegacyProxyRoutes (mg_routes st) (Proxy_ID proxy))) (\<lambda>routes.
          sbind (sfor (convert_route proxy agg) routes) (\<lambda>_.
          smodify (\<lambda>st. st\<lparr>mg_routes := sql_delete (\<lambda>r. Rt_ProxyID r = Proxy_ID proxy) (mg_routes st)\<rparr>)))))))"

text \<open>The first query reads the legacy columns and fails where they are gone.\<close>

definition convertLegacyWebProxies :: "MigrationEnv \<Rightarrow> (MigrationState, unit) op" where
  "convertLegacyWebProxies env =
     stx (sbind (sread (\<lambda>st. if mg_legacyColumns st then Inr (legacy_rows (mg_db st))
                               else Inl (New ''no such column: entry_host''))) (\<lambda>legacyProxies.
       if legacyProxies = [] then sret ()
       else sbind (collect_proxies env legacyProxies []) (\<lambda>domains.
            sbind (insert_domains domains) (\<lambda>_.
            sfor (convert_proxy env domains) legacyProxies))))"

definition domainPathRoutingMigrated :: "MigrationState \<Rightarrow> bool" where
  "domainPathRoutingMigrated st =
     (case mg_flag st of
        None \<Rightarrow> sql_affected legacy_web (db_proxies (mg_db st)) = 0
      | Some value \<Rightarrow> value = ''done'')"

definition migrateDomainPathRouting :: "MigrationEnv \<Rightarrow> (MigrationState, unit) op" where
  "migrateDomainPathRouting env =
     sbind (sget domainPathRoutingMigrated) (\<lambda>migrated.
     sbind (if migrated then sret ()
            else sbind (convertLegacyWebProxies env) (\<lambda>_. smodify (\<lambda>st. st\<lparr>mg_flag := Some ''done''\<rparr>))) (\<lambda>_.
     smodify (\<lambda>st. st\<lparr>mg_routes := []\<rparr>)))"

section \<open>Certificates\<close>

text \<open>The columns for the lifecycle of a certificate, from its old status.\<close>

definition lifecycle_columns :: "ManagedCertificate \<Rightarrow> ManagedCertificate" where
  "lifecycle_columns c =
     c\<lparr>Cert_ServingStatus :=
          (if Cert_ServingStatus c \<noteq> [] then Cert_ServingStatus c
           else if Cert_CertFile c = [] \<or> Cert_KeyFile c = [] then CertificateServingMissing
           else if Cert_Status c = CertificateValid then CertificateServingUsable
           else if Cert_Status c = CertificateExpiringSoon then CertificateServingExpiringSoon
           else if Cert_Status c = CertificateExpired then CertificateServingExpired
           else CertificateServingMissing),
       Cert_OperationStatus :=
          (if Cert_OperationStatus c \<noteq> [] then Cert_OperationStatus c
           else if Cert_Status c = CertificateIssueFailed then CertificateOperationIssueFailed
           else if Cert_Status c = CertificateRenewalFailed then CertificateOperationRenewalFailed
           else CertificateOperationIdle)\<rparr>"

definition addManagedCertificateLifecycleColumns :: "(DB, unit) op" where
  "addManagedCertificateLifecycleColumns =
     smodify (\<lambda>db. db\<lparr>db_certificates := map lifecycle_columns (db_certificates db)\<rparr>)"

definition provider_columns :: "ManagedCertificate \<Rightarrow> ManagedCertificate" where
  "provider_columns c =
     c\<lparr>Cert_ProviderType := (if Cert_ProviderType c = [] then CertificateProviderACMEDNS01 else Cert_ProviderType c),
       Cert_ProviderName := (if Cert_ProviderName c = [] then (if Cert_Provider c \<noteq> [] then Cert_Provider c else ''cloudflare'')
                             else Cert_ProviderName c),
       Cert_ProviderStatus := (if Cert_ProviderStatus c = [] then CertificateProviderStatusUnknown else Cert_ProviderStatus c)\<rparr>"

definition addManagedCertificateProviderColumns :: "(DB, unit) op" where
  "addManagedCertificateProviderColumns =
     smodify (\<lambda>db. db\<lparr>db_certificates := map provider_columns (db_certificates db)\<rparr>)"

text \<open>The unique index on the certificate of a proxy, where there is that column.\<close>

definition certificates_unique :: "Proxy list \<Rightarrow> bool" where
  "certificates_unique rows = distinct (filter (\<lambda>c. c \<noteq> []) (map Proxy_CertificateID rows))"

definition certificate_index_error :: error where
  "certificate_index_error = New ''UNIQUE constraint failed: proxies.certificate_id''"

definition migrateProxyCertificateBinding :: "(MigrationState, unit) op" where
  "migrateProxyCertificateBinding =
     sread (\<lambda>st. reject_if (mg_legacyColumns st \<and> \<not> certificates_unique (db_proxies (mg_db st))) certificate_index_error)"

text \<open>The certificate that names a proxy becomes the certificate of the proxy.\<close>

definition bind_proxy_certificate :: "ManagedCertificate list \<Rightarrow> Proxy \<Rightarrow> Proxy" where
  "bind_proxy_certificate certificates p =
     (case find (\<lambda>c. Cert_ProxyID c = Proxy_ID p) certificates of
        Some c \<Rightarrow> (if Proxy_CertificateID p = [] then p\<lparr>Proxy_CertificateID := Cert_ID c\<rparr> else p)
      | None \<Rightarrow> p)"

definition migrateBindProxyCertificates :: "(MigrationState, unit) op" where
  "migrateBindProxyCertificates st =
     (let rows = map (bind_proxy_certificate (db_certificates (mg_db st))) (db_proxies (mg_db st)) in
      if \<not> mg_legacyColumns st then (Inr (), st)
      else if \<not> certificates_unique rows then (Inl certificate_index_error, st)
      else (Inr (), st\<lparr>mg_db := (mg_db st)\<lparr>db_proxies := rows\<rparr>\<rparr>))"

text \<open>The certificate files of a proxy become a certificate, bound to the domain unless it has one.\<close>

definition promote_domain :: "DB \<Rightarrow> Proxy \<Rightarrow> string \<Rightarrow> string" where
  "promote_domain db p host =
     (if Proxy_DomainID p = [] \<and> host \<noteq> []
      then (case sql_one (\<lambda>d. to_lower (Dom_Host d) = to_lower host) (db_domains db) of Inr d \<Rightarrow> Dom_ID d | Inl _ \<Rightarrow> [])
      else Proxy_DomainID p)"

definition promote_files :: "MigrationEnv \<Rightarrow> Proxy \<Rightarrow> string \<Rightarrow> string \<Rightarrow> (MigrationState, unit) op" where
  "promote_files env p domainID host =
     (if host = [] then sret ()
      else sbind (newMigrationID env ''cert'') (\<lambda>certID.
           sbind (on_db (insert_certificate (static_certificate (me_now env) certID host (Proxy_CertFile p) (Proxy_KeyFile p)))) (\<lambda>_.
           if domainID = [] then sret ()
           else on_db (smodify (\<lambda>db. db\<lparr>db_domains := sql_update (\<lambda>d. Dom_ID d = domainID \<and> Dom_CertificateID d = [])
                  (\<lambda>d. d\<lparr>Dom_CertificateID := certID, Dom_UpdatedAt := me_now env\<rparr>) (db_domains db)\<rparr>)))))"

definition promote_proxy :: "MigrationEnv \<Rightarrow> Proxy \<Rightarrow> (MigrationState, unit) op" where
  "promote_proxy env p =
     (let host = NormalizeRouteHost (Proxy_EntryHost p) in
      sbind (sget (\<lambda>st. promote_domain (mg_db st) p host)) (\<lambda>domainID.
      sbind (sget (\<lambda>st. sql_one (\<lambda>d. Dom_ID d = domainID) (db_domains (mg_db st)))) (\<lambda>found.
      if domainID \<noteq> [] \<and> (case found of Inr d \<Rightarrow> \<not> blank (Dom_CertificateID d) | Inl _ \<Rightarrow> False) then sret ()
      else promote_files env p domainID
             (if domainID \<noteq> [] \<and> host = []
              then (case found of Inr d \<Rightarrow> NormalizeRouteHost (Dom_Host d) | Inl _ \<Rightarrow> []) else host))))"

definition has_files :: "Proxy \<Rightarrow> bool" where
  "has_files p \<longleftrightarrow> Proxy_CertFile p \<noteq> [] \<and> Proxy_KeyFile p \<noteq> []"

definition promoteLegacyProxyFileCertificates :: "MigrationEnv \<Rightarrow> (MigrationState, unit) op" where
  "promoteLegacyProxyFileCertificates env =
     sbind (sget (\<lambda>st. filter has_files (db_proxies (mg_db st)))) (sfor (promote_proxy env))"

definition dropProxyWebLegacyColumns :: "MigrationEnv \<Rightarrow> (MigrationState, unit) op" where
  "dropProxyWebLegacyColumns env =
     sbind (sget mg_legacyColumns) (\<lambda>hasLegacy.
     if \<not> hasLegacy then sret ()
     else sbind (promoteLegacyProxyFileCertificates env) (\<lambda>_.
          smodify (\<lambda>st. st\<lparr>mg_legacyColumns := False,
            mg_db := (mg_db st)\<lparr>db_proxies := map blank_entry (db_proxies (mg_db st))\<rparr>\<rparr>)))"

text \<open>The order of migrate.\<close>

definition migrate :: "MigrationEnv \<Rightarrow> (MigrationState, unit) op" where
  "migrate env =
     sbind (on_db addManagedCertificateLifecycleColumns) (\<lambda>_.
     sbind (on_db addManagedCertificateProviderColumns) (\<lambda>_.
     sbind migrateProxyCertificateBinding (\<lambda>_.
     sbind migrateBindProxyCertificates (\<lambda>_.
     sbind (migrateDomainPathRouting env) (\<lambda>_.
     sbind (dropProxyWebLegacyColumns env) (\<lambda>_.
     on_db ensureLocalAllowlistDefaults))))))"

end
