(* ===== verification/MigrationProps.thy ===== *)
theory MigrationProps
  imports DomainMigration StoreInv NetIP
begin

text \<open>
  What the migration to domains keeps: every legacy proxy and route is served under its host and path by the
  backend it had, no path of a new domain has two backends, access that was granted before is revoked, and a
  second run finds nothing to do.
\<close>

section \<open>The key of an entry\<close>

lemma digits_inj: "0 \<le> m \<Longrightarrow> 0 \<le> n \<Longrightarrow> digits_of m = digits_of n \<Longrightarrow> m = n"
  by (metis int_of_digits_digits option.inject)

lemma not_digit: "\<not> is_digit CHR ''-''" "\<not> is_digit CHR ''|''"
  by code_simp+

lemma digits_no_sign: "0 \<le> n \<Longrightarrow> digits_of n \<noteq> CHR ''-'' # s"
  using digits_of_digits [of n] not_digit by auto

lemma itoa_inj: "itoa m = itoa n \<longleftrightarrow> m = n"
proof
  assume same: "itoa m = itoa n"
  consider "m < 0" "n < 0" | "m < 0" "0 \<le> n" | "0 \<le> m" "n < 0" | "0 \<le> m" "0 \<le> n" by linarith
  then show "m = n"
  proof cases
    case 1 then show ?thesis using same digits_inj [of "- m" "- n"] by (simp add: itoa_def)
  next
    case 2 then show ?thesis using same digits_no_sign [OF 2(2)] by (simp add: itoa_def) metis
  next
    case 3 then show ?thesis using same digits_no_sign [OF 3(1)] by (simp add: itoa_def)
  next
    case 4 then show ?thesis using same digits_inj [OF 4] by (simp add: itoa_def)
  qed
qed simp

lemma itoa_no_bar: "CHR ''|'' \<notin> set (itoa n)"
  using digits_of_digits [of n] digits_of_digits [of "- n"] not_digit by (auto simp: itoa_def)

lemma entryKey_same:
  assumes "entryKey p = entryKey q"
  shows "legacy_protocol p = legacy_protocol q" "Proxy_EntryPort p = Proxy_EntryPort q"
    "NormalizeBindHost (Proxy_EntryBindHost p) = NormalizeBindHost (Proxy_EntryBindHost q)"
proof -
  have split: "split_last CHR ''|'' (entryKey r) =
      Some (legacy_protocol r @ ''|'' @ NormalizeBindHost (Proxy_EntryBindHost r), itoa (Proxy_EntryPort r))" for r
    using split_last_append [OF itoa_no_bar, of "legacy_protocol r @ ''|'' @ NormalizeBindHost (Proxy_EntryBindHost r)"]
    by (simp add: entryKey_def)
  from split [of p] split [of q] assms have front:
      "legacy_protocol p @ ''|'' @ NormalizeBindHost (Proxy_EntryBindHost p) =
       legacy_protocol q @ ''|'' @ NormalizeBindHost (Proxy_EntryBindHost q)"
    and "itoa (Proxy_EntryPort p) = itoa (Proxy_EntryPort q)" by auto
  then show "Proxy_EntryPort p = Proxy_EntryPort q" by (simp add: itoa_inj)
  from front show "legacy_protocol p = legacy_protocol q"
    "NormalizeBindHost (Proxy_EntryBindHost p) = NormalizeBindHost (Proxy_EntryBindHost q)"
    by (auto simp: legacy_protocol_def split: if_splits)
qed

section \<open>The collected domains\<close>

text \<open>A domain only grows while the proxies are collected.\<close>

definition entry_grows :: "DomainEntry \<Rightarrow> DomainEntry \<Rightarrow> bool" where
  "entry_grows e e' \<longleftrightarrow> e' = e \<or> e' = e\<lparr>DEnt_Status := DomainEntryEnabled\<rparr>"

definition agg_grows :: "domainAgg \<Rightarrow> domainAgg \<Rightarrow> bool" where
  "agg_grows a b \<longleftrightarrow> Agg_ID b = Agg_ID a \<and> Agg_UserID b = Agg_UserID a \<and> Agg_Host b = Agg_Host a \<and> Agg_Status b = Agg_Status a \<and>
     (\<forall>k o'. gm_get (Agg_pathOwners a) k = Some o' \<longrightarrow> gm_get (Agg_pathOwners b) k = Some o') \<and>
     (\<forall>k e. gm_get (Agg_entries a) k = Some e \<longrightarrow> (\<exists>e'. gm_get (Agg_entries b) k = Some e' \<and> entry_grows e e'))"

definition grows :: "domainsByHost \<Rightarrow> domainsByHost \<Rightarrow> bool" where
  "grows m m' \<longleftrightarrow> (\<forall>h a. gm_get m h = Some a \<longrightarrow> (\<exists>b. gm_get m' h = Some b \<and> agg_grows a b))"

lemma agg_grows_refl [simp]: "agg_grows a a"
  by (auto simp: agg_grows_def entry_grows_def)

lemma entry_grows_trans: "entry_grows a b \<Longrightarrow> entry_grows b c \<Longrightarrow> entry_grows a c"
  by (auto simp: entry_grows_def)

lemma agg_grows_trans:
  assumes "agg_grows a b" "agg_grows b c" shows "agg_grows a c"
  unfolding agg_grows_def
proof (intro conjI allI impI)
  fix k e assume "gm_get (Agg_entries a) k = Some e"
  then obtain e1 where "gm_get (Agg_entries b) k = Some e1" "entry_grows e e1" using assms(1) unfolding agg_grows_def by blast
  moreover from this(1) obtain e2 where "gm_get (Agg_entries c) k = Some e2" "entry_grows e1 e2"
    using assms(2) unfolding agg_grows_def by blast
  ultimately show "\<exists>e'. gm_get (Agg_entries c) k = Some e' \<and> entry_grows e e'" using entry_grows_trans by blast
qed (use assms in \<open>simp_all add: agg_grows_def\<close>)

lemma grows_refl [simp]: "grows m m"
  by (simp add: grows_def)

lemma grows_trans: "grows m m' \<Longrightarrow> grows m' m'' \<Longrightarrow> grows m m''"
  unfolding grows_def using agg_grows_trans by blast

text \<open>What the collection has to say of one legacy proxy.\<close>

definition entry_of :: "Proxy \<Rightarrow> string \<Rightarrow> DomainEntry \<Rightarrow> bool" where
  "entry_of p i e \<longleftrightarrow> DEnt_DomainID e = i \<and> DEnt_Protocol e = legacy_protocol p \<and>
     DEnt_BindHost e = NormalizeBindHost (Proxy_EntryBindHost p) \<and> DEnt_Port e = Proxy_EntryPort p \<and>
     (Proxy_Status p = ProxyEnabled \<longrightarrow> DEnt_Status e = DomainEntryEnabled)"

definition claims :: "domainAgg \<Rightarrow> string \<Rightarrow> legacyPathOwner \<Rightarrow> bool" where
  "claims agg path owner \<longleftrightarrow> (\<exists>o'. gm_get (Agg_pathOwners agg) path = Some o' \<and> samePathBackend o' owner)"

definition collected :: "legacyRouteRow list \<Rightarrow> Proxy \<Rightarrow> domainAgg \<Rightarrow> bool" where
  "collected routes p agg \<longleftrightarrow> Agg_UserID agg = Proxy_UserID p \<and>
     (\<exists>e. gm_get (Agg_entries agg) (entryKey p) = Some e \<and> entry_of p (Agg_ID agg) e) \<and>
     claims agg ''/'' (parentOwner p) \<and>
     (\<forall>r \<in> set (queryLegacyProxyRoutes routes (Proxy_ID p)). \<exists>path.
        NormalizeProxyRoutePrefix (Rt_PathPrefix r) = Inr path \<and> claims agg path (routeOwner r))"

definition agg_ok :: "string \<Rightarrow> domainAgg \<Rightarrow> bool" where
  "agg_ok h agg \<longleftrightarrow> Agg_Host agg = h \<and> Agg_Status agg = DomainEnabled \<and>
     (\<forall>k e. gm_get (Agg_entries agg) k = Some e \<longrightarrow> (\<exists>p. k = entryKey p \<and> e = e\<lparr>DEnt_DomainID := Agg_ID agg,
        DEnt_Protocol := legacy_protocol p, DEnt_BindHost := NormalizeBindHost (Proxy_EntryBindHost p),
        DEnt_Port := Proxy_EntryPort p\<rparr>))"

definition domains_ok :: "domainsByHost \<Rightarrow> bool" where
  "domains_ok m \<longleftrightarrow> gm_wf m \<and> (\<forall>h a. gm_get m h = Some a \<longrightarrow> agg_ok h a \<and> gm_wf (Agg_entries a))"

lemma claims_grows: "agg_grows a b \<Longrightarrow> claims a path owner \<Longrightarrow> claims b path owner"
  unfolding agg_grows_def claims_def by blast

lemma entry_of_grows: "entry_of p i e \<Longrightarrow> entry_grows e e' \<Longrightarrow> entry_of p i e'"
  by (auto simp: entry_of_def entry_grows_def)

lemma collected_grows: "agg_grows a b \<Longrightarrow> collected routes p a \<Longrightarrow> collected routes p b"
proof -
  assume g: "agg_grows a b" and c: "collected routes p a"
  have ids: "Agg_ID b = Agg_ID a" "Agg_UserID b = Agg_UserID a" using g by (simp_all add: agg_grows_def)
  from c obtain e where "gm_get (Agg_entries a) (entryKey p) = Some e" "entry_of p (Agg_ID a) e" by (auto simp: collected_def)
  moreover from this(1) g obtain e' where "gm_get (Agg_entries b) (entryKey p) = Some e'" "entry_grows e e'"
    unfolding agg_grows_def by blast
  ultimately have "\<exists>e. gm_get (Agg_entries b) (entryKey p) = Some e \<and> entry_of p (Agg_ID b) e"
    using entry_of_grows ids by auto
  with c claims_grows [OF g] show ?thesis unfolding collected_def ids(2) by blast
qed

section \<open>The collection\<close>

lemma samePathBackend_refl [simp]: "samePathBackend a a"
  by (simp add: samePathBackend_def)

definition same_tables :: "MigrationState \<Rightarrow> MigrationState \<Rightarrow> bool" where
  "same_tables st st' \<longleftrightarrow> mg_db st' = mg_db st \<and> mg_routes st' = mg_routes st"

lemma same_tables_trans: "same_tables a b \<Longrightarrow> same_tables b c \<Longrightarrow> same_tables a c"
  by (simp add: same_tables_def)

lemma claim_path_effect:
  assumes "claim_path path owner agg = Inr agg'"
  shows "agg_grows agg agg'" "claims agg' path owner" "Agg_entries agg' = Agg_entries agg"
  using assms by (auto simp: claim_path_def agg_grows_def claims_def entry_grows_def split: option.splits if_splits)

lemma agg_ok_fields: "agg_ok h a \<Longrightarrow> Agg_ID b = Agg_ID a \<Longrightarrow> Agg_Host b = Agg_Host a \<Longrightarrow> Agg_Status b = Agg_Status a \<Longrightarrow>
    Agg_entries b = Agg_entries a \<Longrightarrow> agg_ok h b"
  by (simp add: agg_ok_def)

lemma agg_grows_fields: "agg_grows a b \<Longrightarrow> Agg_ID b = Agg_ID a \<and> Agg_UserID b = Agg_UserID a \<and> Agg_Host b = Agg_Host a \<and> Agg_Status b = Agg_Status a"
  by (simp add: agg_grows_def)

lemma claim_routes_effect:
  "claim_routes routes agg = Inr agg' \<Longrightarrow> agg_grows agg agg' \<and> Agg_entries agg' = Agg_entries agg \<and>
   (\<forall>r \<in> set routes. \<exists>path. NormalizeProxyRoutePrefix (Rt_PathPrefix r) = Inr path \<and> claims agg' path (routeOwner r))"
proof (induction routes arbitrary: agg)
  case (Cons r routes)
  then obtain path agg1 where path: "NormalizeProxyRoutePrefix (Rt_PathPrefix r) = Inr path"
    and one: "claim_path path (routeOwner r) agg = Inr agg1" and rest: "claim_routes routes agg1 = Inr agg'"
    by (auto simp: rbind_eq_Inr split: sum.splits)
  note step = claim_path_effect [OF one] and later = Cons.IH [OF rest]
  have "claims agg' path (routeOwner r)" using claims_grows later step(2) by blast
  moreover have "agg_grows agg agg'" using agg_grows_trans step(1) later by blast
  ultimately show ?case using path later step(3) by auto
qed simp

lemma bind_agg_certificate_effect:
  assumes "bind_agg_certificate p agg = Inr agg'"
  shows "agg_grows agg agg'" "Agg_entries agg' = Agg_entries agg"
  using assms by (auto simp: bind_agg_certificate_def agg_grows_def entry_grows_def split: if_splits)

lemma collect_entry_effect:
  assumes "collect_entry env p agg st = (Inr agg', st')" and ok: "agg_ok h agg" "gm_wf (Agg_entries agg)"
  shows "same_tables st st'" "agg_grows agg agg'" "agg_ok h agg'" "gm_wf (Agg_entries agg')"
    "\<exists>e. gm_get (Agg_entries agg') (entryKey p) = Some e \<and> entry_of p (Agg_ID agg') e"
proof -
  have "same_tables st st' \<and> agg_grows agg agg' \<and> agg_ok h agg' \<and> gm_wf (Agg_entries agg') \<and>
    (\<exists>e. gm_get (Agg_entries agg') (entryKey p) = Some e \<and> entry_of p (Agg_ID agg') e)"
  proof (cases "gm_get (Agg_entries agg) (entryKey p)")
    case None
    let ?i = "me_newID env (mg_draws st) ''dentry''"
    have st': "st' = st\<lparr>mg_draws := mg_draws st + 1\<rparr>" and agg': "agg' = agg\<lparr>Agg_entries := gm_put (entryKey p)
            \<lparr>DEnt_ID = ?i, DEnt_DomainID = Agg_ID agg, DEnt_Protocol = legacy_protocol p,
             DEnt_BindHost = NormalizeBindHost (Proxy_EntryBindHost p), DEnt_Port = Proxy_EntryPort p,
             DEnt_Status = (if Proxy_Status p \<noteq> ProxyEnabled then DomainEntryDisabled else DomainEntryEnabled),
             DEnt_CreatedAt = Proxy_CreatedAt p, DEnt_UpdatedAt = Proxy_UpdatedAt p\<rparr> (Agg_entries agg)\<rparr>"
      using assms(1) None by (simp_all add: collect_entry_def newMigrationID_def sbind_def)
    have "same_tables st st'" by (simp add: st' same_tables_def)
    moreover have "agg_grows agg agg'" using None by (auto simp: agg' agg_grows_def entry_grows_def)
    moreover have "agg_ok h agg'"
      using ok(1) by (auto simp: agg' agg_ok_def)
    moreover have "gm_wf (Agg_entries agg')" using ok(2) by (simp add: agg')
    moreover have "gm_get (Agg_entries agg') (entryKey p) \<noteq> None" by (simp add: agg')
    moreover have "entry_of p (Agg_ID agg') (the (gm_get (Agg_entries agg') (entryKey p)))" by (simp add: agg' entry_of_def)
    ultimately show ?thesis by force
  next
    case (Some e)
    then obtain q where q: "entryKey p = entryKey q" and e: "e = e\<lparr>DEnt_DomainID := Agg_ID agg, DEnt_Protocol := legacy_protocol q,
        DEnt_BindHost := NormalizeBindHost (Proxy_EntryBindHost q), DEnt_Port := Proxy_EntryPort q\<rparr>"
      using ok(1) unfolding agg_ok_def by blast
    have fields: "DEnt_DomainID e = Agg_ID agg" "DEnt_Protocol e = legacy_protocol p"
      "DEnt_BindHost e = NormalizeBindHost (Proxy_EntryBindHost p)" "DEnt_Port e = Proxy_EntryPort p"
      using entryKey_same [OF q] by (subst e, simp)+
    have st': "st' = st" and agg': "agg' = (if Proxy_Status p = ProxyEnabled
        then agg\<lparr>Agg_entries := gm_put (entryKey p) (e\<lparr>DEnt_Status := DomainEntryEnabled\<rparr>) (Agg_entries agg)\<rparr> else agg)"
      using assms(1) Some by (auto simp: collect_entry_def split: if_splits)
    have "agg_grows agg agg'" using Some by (auto simp: agg' agg_grows_def entry_grows_def)
    moreover have "agg_ok h agg'"
    proof (cases "Proxy_Status p = ProxyEnabled")
      case True
      show ?thesis unfolding agg_ok_def
      proof (intro conjI allI impI)
        fix k x assume x: "gm_get (Agg_entries agg') k = Some x"
        show "\<exists>p. k = entryKey p \<and> x = x\<lparr>DEnt_DomainID := Agg_ID agg', DEnt_Protocol := legacy_protocol p,
            DEnt_BindHost := NormalizeBindHost (Proxy_EntryBindHost p), DEnt_Port := Proxy_EntryPort p\<rparr>"
        proof (cases "k = entryKey p")
          case True
          then show ?thesis using x fields \<open>Proxy_Status p = ProxyEnabled\<close> by (intro exI [of _ p]) (auto simp: agg')
        qed (use x ok(1) \<open>Proxy_Status p = ProxyEnabled\<close> in \<open>auto simp: agg' agg_ok_def\<close>)
      qed (use ok(1) True in \<open>simp_all add: agg' agg_ok_def\<close>)
    qed (use ok(1) in \<open>simp add: agg'\<close>)
    moreover have "gm_wf (Agg_entries agg')" using ok(2) by (simp add: agg')
    moreover have "\<exists>e. gm_get (Agg_entries agg') (entryKey p) = Some e \<and> entry_of p (Agg_ID agg') e"
      using Some fields by (auto simp: agg' entry_of_def)
    ultimately show ?thesis by (simp add: st' same_tables_def)
  qed
  then show "same_tables st st'" "agg_grows agg agg'" "agg_ok h agg'" "gm_wf (Agg_entries agg')"
    "\<exists>e. gm_get (Agg_entries agg') (entryKey p) = Some e \<and> entry_of p (Agg_ID agg') e" by blast+
qed

text \<open>The aggregate a proxy starts from: that of its host, or a new one.\<close>

definition host_agg :: "MigrationEnv \<Rightarrow> string \<Rightarrow> Proxy \<Rightarrow> domainsByHost \<Rightarrow> (MigrationState, domainAgg) op" where
  "host_agg env host p domains =
     (case gm_get domains host of
        Some agg \<Rightarrow> sret agg
      | None \<Rightarrow> sbind (newMigrationID env ''domain'') (\<lambda>i. sret (new_domainAgg i host p)))"

lemma host_agg_effect:
  assumes "host_agg env host p m st = (Inr agg, st')" and ok: "domains_ok m"
  shows "same_tables st st'" "agg_ok host agg" "gm_wf (Agg_entries agg)" "\<And>a. gm_get m host = Some a \<Longrightarrow> agg = a"
  using assms by (auto simp: host_agg_def same_tables_def newMigrationID_def sbind_def new_domainAgg_def agg_ok_def
    domains_ok_def split: option.splits)

lemma collect_proxy_effect:
  assumes run: "collect_proxy env p m st = (Inr m', st')" and ok: "domains_ok m"
  shows "same_tables st st'" "grows m m'" "domains_ok m'"
    "\<exists>agg. gm_get m' (NormalizeRouteHost (Proxy_EntryHost p)) = Some agg \<and> collected (mg_routes st) p agg"
proof -
  let ?h = "NormalizeRouteHost (Proxy_EntryHost p)"
  from run obtain agg s1 bound entered s2 parented routed where
      start: "host_agg env ?h p m st = (Inr agg, s1)" and user: "Agg_UserID agg = Proxy_UserID p"
    and bound: "bind_agg_certificate p agg = Inr bound"
    and entered: "collect_entry env p bound s1 = (Inr entered, s2)"
    and parented: "claim_path ''/'' (parentOwner p) entered = Inr parented"
    and routed: "claim_routes (queryLegacyProxyRoutes (mg_routes s2) (Proxy_ID p)) parented = Inr routed"
    and out: "m' = gm_put ?h routed m" "st' = s2"
    unfolding collect_proxy_def Let_def host_agg_def [symmetric] by (auto simp: sbind_eq_Inr split: if_splits)
  note a = host_agg_effect [OF start ok] and b = bind_agg_certificate_effect [OF bound]
  have bound_ok: "agg_ok ?h bound" "gm_wf (Agg_entries bound)"
    using agg_ok_fields [OF a(2)] agg_grows_fields [OF b(1)] b(2) a(3) by auto
  note e = collect_entry_effect [OF entered bound_ok] and c = claim_path_effect [OF parented]
    and r = claim_routes_effect [OF routed]
  have later: "agg_grows entered routed" using agg_grows_trans [OF c(1)] r by blast
  have from_start: "agg_grows agg routed" using agg_grows_trans [OF b(1) agg_grows_trans [OF e(2) later]] .
  have entries: "Agg_entries routed = Agg_entries entered" using c(3) r by simp
  have routed_ok: "agg_ok ?h routed" "gm_wf (Agg_entries routed)"
    using agg_ok_fields [OF e(3)] agg_grows_fields [OF later] entries e(4) by auto
  have tables: "same_tables st s2" using same_tables_trans [OF a(1) e(1)] .
  then show "same_tables st st'" by (simp add: out)
  show "grows m m'" using from_start a(4) by (auto simp: out grows_def)
  show "domains_ok m'" using ok routed_ok by (auto simp: out domains_ok_def)
  have "collected (mg_routes st) p routed"
    unfolding collected_def
  proof (intro conjI)
    show "Agg_UserID routed = Proxy_UserID p" using user agg_grows_fields [OF from_start] by simp
    show "\<exists>x. gm_get (Agg_entries routed) (entryKey p) = Some x \<and> entry_of p (Agg_ID routed) x"
      using e(5) entries agg_grows_fields [OF later] by simp
    show "claims routed ''/'' (parentOwner p)" using claims_grows [OF _ c(2)] r by blast
    show "\<forall>x \<in> set (queryLegacyProxyRoutes (mg_routes st) (Proxy_ID p)). \<exists>path.
        NormalizeProxyRoutePrefix (Rt_PathPrefix x) = Inr path \<and> claims routed path (routeOwner x)"
      using r tables by (simp add: same_tables_def)
  qed
  then show "\<exists>agg. gm_get m' ?h = Some agg \<and> collected (mg_routes st) p agg" by (auto simp: out)
qed

definition all_collected :: "legacyRouteRow list \<Rightarrow> Proxy list \<Rightarrow> domainsByHost \<Rightarrow> bool" where
  "all_collected routes ps m \<longleftrightarrow> (\<forall>p \<in> set ps. \<exists>agg.
     gm_get m (NormalizeRouteHost (Proxy_EntryHost p)) = Some agg \<and> collected routes p agg)"

lemma collect_proxies_effect:
  "collect_proxies env ps m st = (Inr m', st') \<Longrightarrow> domains_ok m \<Longrightarrow>
   same_tables st st' \<and> grows m m' \<and> domains_ok m' \<and> all_collected (mg_routes st) ps m'"
proof (induction ps arbitrary: m st)
  case (Cons p ps)
  then obtain m1 s1 where one: "collect_proxy env p m st = (Inr m1, s1)" and rest: "collect_proxies env ps m1 s1 = (Inr m', st')"
    by (auto simp: sbind_eq_Inr)
  note step = collect_proxy_effect [OF one Cons.prems(2)]
  have later: "same_tables s1 st'" "grows m1 m'" "domains_ok m'" "all_collected (mg_routes s1) ps m'"
    using Cons.IH [OF rest step(3)] by auto
  obtain agg where agg: "gm_get m1 (NormalizeRouteHost (Proxy_EntryHost p)) = Some agg" "collected (mg_routes st) p agg"
    using step(4) by blast
  with later(2) obtain agg' where "gm_get m' (NormalizeRouteHost (Proxy_EntryHost p)) = Some agg'" "agg_grows agg agg'"
    unfolding grows_def by blast
  with agg(2) have "all_collected (mg_routes st) (p # ps) m'"
    using collected_grows later(4) step(1) by (auto simp: all_collected_def same_tables_def)
  then show ?case using same_tables_trans [OF step(1) later(1)] grows_trans [OF step(2) later(2)] later(3) by blast
qed (simp add: same_tables_def all_collected_def)

section \<open>The new rows\<close>

lemma on_db_Inr: "on_db m st = (Inr a, st') \<longleftrightarrow> (\<exists>db. m (mg_db st) = (Inr a, db) \<and> st' = st\<lparr>mg_db := db\<rparr>)"
  by (auto simp: on_db_def split: prod.splits)

lemma sql_checked_Inr: "sql_checked ok f s = (Inr (), t) \<longleftrightarrow> ok \<and> t = f s"
  by (auto simp: sql_checked_def)

lemma insert_entries_effect:
  "sfor (\<lambda>(_, entry). on_db (insert_domain_entry entry)) es st = (Inr (), st') \<Longrightarrow>
   st' = st\<lparr>mg_db := (mg_db st)\<lparr>db_domain_entries := db_domain_entries (mg_db st) @ map snd es\<rparr>\<rparr>"
proof (induction es arbitrary: st)
  case (Cons e es)
  obtain k x where e: "e = (k, x)" by fastforce
  from Cons.prems obtain s1 where one: "on_db (insert_domain_entry x) st = (Inr (), s1)"
    and rest: "sfor (\<lambda>(_, entry). on_db (insert_domain_entry entry)) es s1 = (Inr (), st')"
    by (auto simp: e sbind_eq_Inr)
  from one have "s1 = st\<lparr>mg_db := (mg_db st)\<lparr>db_domain_entries := db_domain_entries (mg_db st) @ [x]\<rparr>\<rparr>"
    by (auto simp: on_db_Inr insert_domain_entry_def sql_checked_Inr)
  then show ?case using Cons.IH [OF rest] by (simp add: e)
qed simp

lemma insert_domains_effect:
  "insert_domains m st = (Inr (), st') \<Longrightarrow>
   st' = st\<lparr>mg_db := (mg_db st)\<lparr>db_domains := db_domains (mg_db st) @ map (agg_domain \<circ> snd) m,
     db_domain_entries := db_domain_entries (mg_db st) @ concat (map (map snd \<circ> Agg_entries \<circ> snd) m)\<rparr>\<rparr>"
  unfolding insert_domains_def
proof (induction m arbitrary: st)
  case (Cons x m)
  obtain h a where x: "x = (h, a)" by fastforce
  let ?one = "\<lambda>(_, agg). sbind (on_db (insert_domain (agg_domain agg))) (\<lambda>_.
      sfor (\<lambda>(_, entry). on_db (insert_domain_entry entry)) (Agg_entries agg))"
  from Cons.prems obtain s1 s2 where dom: "on_db (insert_domain (agg_domain a)) st = (Inr (), s1)"
    and entries: "sfor (\<lambda>(_, entry). on_db (insert_domain_entry entry)) (Agg_entries a) s1 = (Inr (), s2)"
    and rest: "sfor ?one m s2 = (Inr (), st')"
    by (auto simp: x sbind_eq_Inr)
  from dom have "s1 = st\<lparr>mg_db := (mg_db st)\<lparr>db_domains := db_domains (mg_db st) @ [agg_domain a]\<rparr>\<rparr>"
    by (auto simp: on_db_Inr insert_domain_def sql_checked_Inr)
  then show ?case using Cons.IH [OF rest] insert_entries_effect [OF entries] by (simp add: x)
qed simp

text \<open>What becomes of a legacy proxy and of a route of it.\<close>

definition new_parent :: "MigrationEnv \<Rightarrow> domainAgg \<Rightarrow> Proxy \<Rightarrow> Proxy" where
  "new_parent env agg p = web_parent (me_now env) agg ''/'' (next_auth_version p) p"

definition new_route :: "Proxy \<Rightarrow> domainAgg \<Rightarrow> legacyRouteRow \<Rightarrow> Proxy \<Rightarrow> bool" where
  "new_route p agg r q \<longleftrightarrow> (\<exists>path upstream. NormalizeProxyRoutePrefix (Rt_PathPrefix r) = Inr path \<and>
     NormalizeProxyUpstreamPathPrefix (Rt_UpstreamPathPrefix r) = Inr upstream \<and> q = web_route p agg path upstream r)"

lemma new_ids [simp]: "Proxy_ID (new_parent env agg p) = Proxy_ID p" "new_route p agg r q \<Longrightarrow> Proxy_ID q = Rt_ID r"
  by (auto simp: new_parent_def web_parent_def new_route_def web_route_def zeroProxy_def)

lemma distinct_after:
  "distinct (map f (xs @ [q])) \<longrightarrow> distinct (map f ((xs @ [q]) @ qs)) \<Longrightarrow> f q \<notin> f ` set xs \<Longrightarrow>
   distinct (map f xs) \<longrightarrow> distinct (map f (xs @ q # qs))"
  by simp

lemma convert_routes_effect:
  "sfor (convert_route p agg) rs st = (Inr (), st') \<Longrightarrow>
   \<exists>qs. list_all2 (new_route p agg) rs qs \<and>
     st' = st\<lparr>mg_db := (mg_db st)\<lparr>db_proxies := db_proxies (mg_db st) @ qs\<rparr>\<rparr> \<and>
     (distinct (map Proxy_ID (db_proxies (mg_db st))) \<longrightarrow> distinct (map Proxy_ID (db_proxies (mg_db st) @ qs)))"
proof (induction rs arbitrary: st)
  case (Cons r rs)
  then obtain s1 where one: "convert_route p agg r st = (Inr (), s1)" and rest: "sfor (convert_route p agg) rs s1 = (Inr (), st')"
    by (auto simp: sbind_eq_Inr)
  from one obtain path upstream where norm: "NormalizeProxyRoutePrefix (Rt_PathPrefix r) = Inr path"
      "NormalizeProxyUpstreamPathPrefix (Rt_UpstreamPathPrefix r) = Inr upstream"
    and ins: "on_db (insert_proxy (web_route p agg path upstream r)) st = (Inr (), s1)"
    by (auto simp: sbind_eq_Inr convert_route_def)
  let ?q = "web_route p agg path upstream r"
  from ins have s1: "s1 = st\<lparr>mg_db := (mg_db st)\<lparr>db_proxies := db_proxies (mg_db st) @ [?q]\<rparr>\<rparr>"
    and fresh: "Proxy_ID ?q \<notin> Proxy_ID ` set (db_proxies (mg_db st))"
    by (auto simp: on_db_Inr insert_proxy_def sql_checked_Inr sql_exists_iff)
  have rows: "db_proxies (mg_db s1) = db_proxies (mg_db st) @ [?q]" by (simp add: s1)
  from Cons.IH [OF rest] obtain qs where qs: "list_all2 (new_route p agg) rs qs"
    "st' = s1\<lparr>mg_db := (mg_db s1)\<lparr>db_proxies := db_proxies (mg_db s1) @ qs\<rparr>\<rparr>"
    "distinct (map Proxy_ID (db_proxies (mg_db s1))) \<longrightarrow> distinct (map Proxy_ID (db_proxies (mg_db s1) @ qs))" by blast
  have "new_route p agg r ?q" unfolding new_route_def using norm by blast
  moreover have "distinct (map Proxy_ID (db_proxies (mg_db st))) \<longrightarrow> distinct (map Proxy_ID (db_proxies (mg_db st) @ ?q # qs))"
    by (rule distinct_after [OF qs(3) [unfolded rows] fresh])
  moreover have "st' = st\<lparr>mg_db := (mg_db st)\<lparr>db_proxies := db_proxies (mg_db st) @ ?q # qs\<rparr>\<rparr>" using qs(2) by (simp add: s1)
  ultimately show ?case using qs(1) by blast
qed simp

section \<open>The conversion of the proxies\<close>

lemma upstream_root: "NormalizeProxyUpstreamPathPrefix ''/'' = Inr ''/''"
  by code_simp

text \<open>What the conversion of one proxy does to the rows.\<close>

definition converts :: "MigrationEnv \<Rightarrow> domainAgg \<Rightarrow> Proxy \<Rightarrow> MigrationState \<Rightarrow> MigrationState \<Rightarrow> Proxy list \<Rightarrow> bool" where
  "converts env agg p st st' qs \<longleftrightarrow>
     list_all2 (new_route p agg) (queryLegacyProxyRoutes (mg_routes st) (Proxy_ID p)) qs \<and>
     db_proxies (mg_db st') = sql_update (\<lambda>x. Proxy_ID x = Proxy_ID p) (web_parent (me_now env) agg ''/'' (next_auth_version p))
       (db_proxies (mg_db st)) @ qs \<and>
     (distinct (map Proxy_ID (db_proxies (mg_db st))) \<longrightarrow> distinct (map Proxy_ID (db_proxies (mg_db st')))) \<and>
     mg_routes st' = sql_delete (\<lambda>r. Rt_ProxyID r = Proxy_ID p) (mg_routes st) \<and>
     db_domains (mg_db st') = db_domains (mg_db st) \<and> db_domain_entries (mg_db st') = db_domain_entries (mg_db st) \<and>
     set (db_tokens (mg_db st')) = {t \<in> set (db_tokens (mg_db st)). Proxy_AccessAuthEnabled p \<longrightarrow> Tok_ProxyID t \<noteq> Proxy_ID p} \<and>
     set (db_credentials (mg_db st')) = {c \<in> set (db_credentials (mg_db st)). Proxy_AccessAuthEnabled p \<longrightarrow> Cred_ProxyID c \<noteq> Proxy_ID p}"

lemma web_parent_ID [simp]: "Proxy_ID (web_parent now agg u v x) = Proxy_ID x"
  by (simp add: web_parent_def)

lemma convert_proxy_effect:
  assumes run: "convert_proxy env m p st = (Inr (), st')" and agg: "gm_get m (NormalizeRouteHost (Proxy_EntryHost p)) = Some agg"
  shows "\<exists>qs. converts env agg p st st' qs"
proof -
  let ?upd = "\<lambda>db. db\<lparr>db_proxies := sql_update (\<lambda>x. Proxy_ID x = Proxy_ID p)
      (web_parent (me_now env) agg ''/'' (next_auth_version p)) (db_proxies db)\<rparr>"
  from run obtain s1 s3 where revoked: "revoke_legacy_access p st = (Inr (), s1)"
    and routes: "sfor (convert_route p agg) (queryLegacyProxyRoutes (mg_routes s1) (Proxy_ID p)) (s1\<lparr>mg_db := ?upd (mg_db s1)\<rparr>) = (Inr (), s3)"
    and out: "st' = s3\<lparr>mg_routes := sql_delete (\<lambda>r. Rt_ProxyID r = Proxy_ID p) (mg_routes s3)\<rparr>"
    by (auto simp: convert_proxy_def agg upstream_root sbind_eq_Inr on_db_def)
  have s1: "mg_routes s1 = mg_routes st" "db_proxies (mg_db s1) = db_proxies (mg_db st)" "db_domains (mg_db s1) = db_domains (mg_db st)"
      "db_domain_entries (mg_db s1) = db_domain_entries (mg_db st)"
      "set (db_tokens (mg_db s1)) = {t \<in> set (db_tokens (mg_db st)). Proxy_AccessAuthEnabled p \<longrightarrow> Tok_ProxyID t \<noteq> Proxy_ID p}"
      "set (db_credentials (mg_db s1)) = {c \<in> set (db_credentials (mg_db st)). Proxy_AccessAuthEnabled p \<longrightarrow> Cred_ProxyID c \<noteq> Proxy_ID p}"
    using revoked by (auto simp: revoke_legacy_access_def sbind_def on_db_def split: if_splits)
  obtain qs where qs: "list_all2 (new_route p agg) (queryLegacyProxyRoutes (mg_routes s1) (Proxy_ID p)) qs"
    "s3 = (s1\<lparr>mg_db := ?upd (mg_db s1)\<rparr>)\<lparr>mg_db := (?upd (mg_db s1))\<lparr>db_proxies := db_proxies (?upd (mg_db s1)) @ qs\<rparr>\<rparr>"
    "distinct (map Proxy_ID (db_proxies (?upd (mg_db s1)))) \<longrightarrow> distinct (map Proxy_ID (db_proxies (?upd (mg_db s1)) @ qs))"
    using convert_routes_effect [OF routes] by auto
  have ids: "map Proxy_ID (db_proxies (?upd (mg_db s1))) = map Proxy_ID (db_proxies (mg_db st))"
    by (simp add: s1 map_key_update)
  have "distinct (map Proxy_ID (db_proxies (mg_db st))) \<longrightarrow> distinct (map Proxy_ID (db_proxies (mg_db st')))"
    using qs(3) unfolding ids by (simp add: out qs(2))
  then have "converts env agg p st st' qs"
    using qs(1) s1 unfolding converts_def by (simp add: out qs(2))
  then show ?thesis by blast
qed

lemma routes_after_delete:
  "i \<noteq> j \<Longrightarrow> queryLegacyProxyRoutes (sql_delete (\<lambda>r. Rt_ProxyID r = i) routes) j = queryLegacyProxyRoutes routes j"
  by (simp add: queryLegacyProxyRoutes_def sql_list_def sql_delete_def)
    (metis (mono_tags, lifting) filter_cong)

text \<open>A row that the conversion writes for a legacy proxy.\<close>

definition new_row :: "MigrationEnv \<Rightarrow> domainsByHost \<Rightarrow> legacyRouteRow list \<Rightarrow> Proxy \<Rightarrow> Proxy \<Rightarrow> bool" where
  "new_row env m routes p q \<longleftrightarrow> (\<exists>agg. gm_get m (NormalizeRouteHost (Proxy_EntryHost p)) = Some agg \<and>
     (q = new_parent env agg p \<or> (\<exists>r \<in> set (queryLegacyProxyRoutes routes (Proxy_ID p)). new_route p agg r q)))"

definition all_new :: "MigrationEnv \<Rightarrow> domainsByHost \<Rightarrow> legacyRouteRow list \<Rightarrow> Proxy \<Rightarrow> Proxy list \<Rightarrow> bool" where
  "all_new env m routes p rows \<longleftrightarrow> (\<exists>agg. gm_get m (NormalizeRouteHost (Proxy_EntryHost p)) = Some agg \<and> new_parent env agg p \<in> set rows \<and>
     (\<forall>r \<in> set (queryLegacyProxyRoutes routes (Proxy_ID p)). \<exists>q \<in> set rows. new_route p agg r q))"

definition converted_from :: "MigrationEnv \<Rightarrow> domainsByHost \<Rightarrow> Proxy list \<Rightarrow> MigrationState \<Rightarrow> MigrationState \<Rightarrow> bool" where
  "converted_from env m ps st st' \<longleftrightarrow>
     (\<forall>x \<in> set (db_proxies (mg_db st)). Proxy_ID x \<notin> Proxy_ID ` set ps \<longrightarrow> x \<in> set (db_proxies (mg_db st'))) \<and>
     (\<forall>p \<in> set ps. all_new env m (mg_routes st) p (db_proxies (mg_db st'))) \<and>
     (\<forall>x \<in> set (db_proxies (mg_db st')). (x \<in> set (db_proxies (mg_db st)) \<and> Proxy_ID x \<notin> Proxy_ID ` set ps) \<or>
        (\<exists>p \<in> set ps. new_row env m (mg_routes st) p x)) \<and>
     db_domains (mg_db st') = db_domains (mg_db st) \<and> db_domain_entries (mg_db st') = db_domain_entries (mg_db st) \<and>
     (\<forall>t \<in> set (db_tokens (mg_db st')). t \<in> set (db_tokens (mg_db st)) \<and>
        (\<forall>p \<in> set ps. Proxy_AccessAuthEnabled p \<longrightarrow> Tok_ProxyID t \<noteq> Proxy_ID p)) \<and>
     (\<forall>c \<in> set (db_credentials (mg_db st')). c \<in> set (db_credentials (mg_db st)) \<and>
        (\<forall>p \<in> set ps. Proxy_AccessAuthEnabled p \<longrightarrow> Cred_ProxyID c \<noteq> Proxy_ID p))"

lemma list_all2_ex: "list_all2 R xs ys \<Longrightarrow> x \<in> set xs \<Longrightarrow> \<exists>y \<in> set ys. R x y"
  by (induction rule: list_all2_induct) auto

lemma list_all2_ex_left: "list_all2 R xs ys \<Longrightarrow> y \<in> set ys \<Longrightarrow> \<exists>x \<in> set xs. R x y"
  by (induction rule: list_all2_induct) auto

lemma same_ID_row: "distinct (map Proxy_ID rows) \<Longrightarrow> p \<in> set rows \<Longrightarrow> x \<in> set rows \<Longrightarrow> Proxy_ID x = Proxy_ID p \<Longrightarrow> x = p"
  by (auto simp: distinct_map dest: inj_onD)

lemma convert_all:
  "sfor (convert_proxy env m) ps st = (Inr (), st') \<Longrightarrow> distinct (map Proxy_ID ps) \<Longrightarrow>
   \<forall>p \<in> set ps. p \<in> set (db_proxies (mg_db st)) \<and> gm_get m (NormalizeRouteHost (Proxy_EntryHost p)) \<noteq> None \<Longrightarrow>
   distinct (map Proxy_ID (db_proxies (mg_db st))) \<Longrightarrow> converted_from env m ps st st'"
proof (induction ps arbitrary: st)
  case (Cons p ps)
  from Cons.prems(1) obtain s1 where one: "convert_proxy env m p st = (Inr (), s1)" and rest: "sfor (convert_proxy env m) ps s1 = (Inr (), st')"
    by (auto simp: sbind_eq_Inr)
  obtain agg where agg: "gm_get m (NormalizeRouteHost (Proxy_EntryHost p)) = Some agg" using Cons.prems(3) by auto
  obtain qs where step: "converts env agg p st s1 qs" using convert_proxy_effect [OF one agg] by blast
  have rows: "db_proxies (mg_db s1) = sql_update (\<lambda>x. Proxy_ID x = Proxy_ID p) (web_parent (me_now env) agg ''/'' (next_auth_version p))
       (db_proxies (mg_db st)) @ qs"
    and routes: "list_all2 (new_route p agg) (queryLegacyProxyRoutes (mg_routes st) (Proxy_ID p)) qs"
    and left: "mg_routes s1 = sql_delete (\<lambda>r. Rt_ProxyID r = Proxy_ID p) (mg_routes st)"
    using step by (simp_all add: converts_def)
  have keys: "distinct (map Proxy_ID (db_proxies (mg_db s1)))" using step Cons.prems(4) unfolding converts_def by blast
  have p_row: "p \<in> set (db_proxies (mg_db st))" using Cons.prems(3) by simp
  have other: "Proxy_ID q \<noteq> Proxy_ID p" if "q \<in> set ps" for q using that Cons.prems(2) by (metis distinct.simps(2) image_eqI list.set_map list.simps(9))
  have in_s1: "x \<in> set (db_proxies (mg_db s1)) \<longleftrightarrow> x = new_parent env agg p \<or> x \<in> set qs \<or>
      (x \<in> set (db_proxies (mg_db st)) \<and> Proxy_ID x \<noteq> Proxy_ID p)" for x
    using same_ID_row [OF Cons.prems(4) p_row] p_row by (auto simp: rows set_sql_update new_parent_def)
  have kept: "\<forall>q \<in> set ps. q \<in> set (db_proxies (mg_db s1)) \<and> gm_get m (NormalizeRouteHost (Proxy_EntryHost q)) \<noteq> None"
    using Cons.prems(3) other in_s1 by auto
  have fresh: "Proxy_ID x \<notin> Proxy_ID ` set ps" if "x = new_parent env agg p \<or> x \<in> set qs" for x
  proof
    assume "Proxy_ID x \<in> Proxy_ID ` set ps"
    then obtain q where q: "q \<in> set ps" "Proxy_ID x = Proxy_ID q" by auto
    then have "x = q" using same_ID_row [OF keys] kept that in_s1 by metis
    have "x \<in> set qs" using that other [OF q(1)] q(2) by (metis new_ids(1))
    moreover have "q \<in> set (db_proxies (mg_db st))" using Cons.prems(3) q(1) by simp
    ultimately show False using keys \<open>x = q\<close> unfolding rows
      by (auto simp: map_key_update)
  qed
  have routes_q: "queryLegacyProxyRoutes (mg_routes s1) (Proxy_ID q) = queryLegacyProxyRoutes (mg_routes st) (Proxy_ID q)"
    if "q \<in> set ps" for q unfolding left by (rule routes_after_delete) (use other [OF that] in simp)
  note later = Cons.IH [OF rest _ kept keys]
  have IH: "converted_from env m ps s1 st'" using later Cons.prems(2) by simp
  note parts = IH [unfolded converted_from_def]
  show ?case unfolding converted_from_def
  proof (intro conjI ballI)
    show "Proxy_ID x \<notin> Proxy_ID ` set (p # ps) \<longrightarrow> x \<in> set (db_proxies (mg_db st'))" if "x \<in> set (db_proxies (mg_db st))" for x
      using parts that in_s1 by simp
    show "all_new env m (mg_routes st) q (db_proxies (mg_db st'))" if "q \<in> set (p # ps)" for q
    proof (cases "q = p")
      case True
      have stays: "x \<in> set (db_proxies (mg_db st'))" if "x = new_parent env agg p \<or> x \<in> set qs" for x
        using parts fresh [OF that] that in_s1 by blast
      show ?thesis unfolding all_new_def True using agg stays list_all2_ex [OF routes] by blast
    next
      case False
      with that have "q \<in> set ps" by simp
      then show ?thesis using parts routes_q by (simp add: all_new_def)
    qed
    show "(x \<in> set (db_proxies (mg_db st)) \<and> Proxy_ID x \<notin> Proxy_ID ` set (p # ps)) \<or> (\<exists>q \<in> set (p # ps). new_row env m (mg_routes st) q x)"
      if "x \<in> set (db_proxies (mg_db st'))" for x
    proof -
      have "(x \<in> set (db_proxies (mg_db s1)) \<and> Proxy_ID x \<notin> Proxy_ID ` set ps) \<or> (\<exists>q \<in> set ps. new_row env m (mg_routes s1) q x)"
        using parts that by blast
      moreover have "new_row env m (mg_routes st) q x" if "q \<in> set ps" "new_row env m (mg_routes s1) q x" for q
        using that routes_q by (simp add: new_row_def)
      moreover have "new_row env m (mg_routes st) p x" if "x = new_parent env agg p \<or> x \<in> set qs"
        using that agg list_all2_ex_left [OF routes] by (auto simp: new_row_def)
      ultimately show ?thesis using in_s1 by auto
    qed
  qed (use parts step in \<open>auto simp: converts_def\<close>)
qed (simp add: converted_from_def)

section \<open>The migration as a whole\<close>

lemma insert_domains_ids:
  "insert_domains m st = (Inr (), st') \<Longrightarrow> distinct (map Dom_ID (db_domains (mg_db st))) \<Longrightarrow> distinct (map Dom_ID (db_domains (mg_db st')))"
  unfolding insert_domains_def
proof (induction m arbitrary: st)
  case (Cons x m)
  obtain h a where x: "x = (h, a)" by fastforce
  let ?one = "\<lambda>(_, agg). sbind (on_db (insert_domain (agg_domain agg))) (\<lambda>_.
      sfor (\<lambda>(_, entry). on_db (insert_domain_entry entry)) (Agg_entries agg))"
  from Cons.prems(1) obtain s1 s2 where dom: "on_db (insert_domain (agg_domain a)) st = (Inr (), s1)"
    and entries: "sfor (\<lambda>(_, entry). on_db (insert_domain_entry entry)) (Agg_entries a) s1 = (Inr (), s2)"
    and rest: "sfor ?one m s2 = (Inr (), st')"
    by (auto simp: x sbind_eq_Inr)
  from dom Cons.prems(2) have "distinct (map Dom_ID (db_domains (mg_db s1)))"
    by (auto simp: on_db_Inr insert_domain_def sql_checked_Inr domain_free_def sql_exists_iff)
  then show ?case using Cons.IH [OF rest] insert_entries_effect [OF entries] by simp
qed simp

lemma legacy_rows_set: "set (legacy_rows db) = {p \<in> set (db_proxies db). legacy_web p}"
  by (simp add: legacy_rows_def)

lemma legacy_rows_distinct: "distinct (map Proxy_ID (db_proxies db)) \<Longrightarrow> distinct (map Proxy_ID (legacy_rows db))"
proof -
  assume "distinct (map Proxy_ID (db_proxies db))"
  then have "distinct (map Proxy_ID (filter legacy_web (db_proxies db)))" by (rule distinct_map_filter)
  then show ?thesis unfolding legacy_rows_def sql_list_def
    by (metis distinct_map distinct_sort set_sort)
qed

definition agg_stored :: "DB \<Rightarrow> domainAgg \<Rightarrow> bool" where
  "agg_stored db agg \<longleftrightarrow> agg_domain agg \<in> set (db_domains db) \<and> (\<forall>k e. gm_get (Agg_entries agg) k = Some e \<longrightarrow> e \<in> set (db_domain_entries db))"

lemma migration_structure:
  assumes run: "convertLegacyWebProxies env st = (Inr (), st')" and keys: "db_ok (mg_db st)"
  shows "\<exists>m. domains_ok m \<and> all_collected (mg_routes st) (legacy_rows (mg_db st)) m \<and>
    (\<exists>s2. db_proxies (mg_db s2) = db_proxies (mg_db st) \<and> db_tokens (mg_db s2) = db_tokens (mg_db st) \<and>
      db_credentials (mg_db s2) = db_credentials (mg_db st) \<and> mg_routes s2 = mg_routes st \<and>
      converted_from env m (legacy_rows (mg_db st)) s2 st') \<and>
    (\<forall>h agg. gm_get m h = Some agg \<longrightarrow> agg_stored (mg_db st') agg) \<and> distinct (map Dom_ID (db_domains (mg_db st')))"
proof (cases "legacy_rows (mg_db st) = []")
  case True
  then have "st' = st" using run by (auto simp: convertLegacyWebProxies_def stx_def sbind_def split: if_splits)
  then show ?thesis using keys
    by (intro exI [of _ "[]"] conjI exI [of _ st])
      (simp_all add: True domains_ok_def all_collected_def converted_from_def db_ok_def keys_unique_def)
next
  case False
  let ?L = "legacy_rows (mg_db st)"
  from run False obtain m s1 s2 where coll: "collect_proxies env ?L [] st = (Inr m, s1)"
    and ins: "insert_domains m s1 = (Inr (), s2)" and conv: "sfor (convert_proxy env m) ?L s2 = (Inr (), st')"
    by (auto simp: convertLegacyWebProxies_def stx_def sbind_eq_Inr split: prod.splits sum.splits if_splits)
  note c = collect_proxies_effect [OF coll] and i = insert_domains_effect [OF ins]
  have m: "same_tables st s1" "domains_ok m" "all_collected (mg_routes st) ?L m"
    using c by (simp_all add: domains_ok_def)
  have s2: "db_proxies (mg_db s2) = db_proxies (mg_db st)" "db_tokens (mg_db s2) = db_tokens (mg_db st)"
      "db_credentials (mg_db s2) = db_credentials (mg_db st)" "mg_routes s2 = mg_routes st"
    using i m(1) by (simp_all add: same_tables_def)
  have ids: "distinct (map Proxy_ID (db_proxies (mg_db st)))" "distinct (map Dom_ID (db_domains (mg_db st)))"
    using keys by (simp_all add: db_ok_def keys_unique_def)
  have conv': "converted_from env m ?L s2 st'"
    by (rule convert_all [OF conv]) (use ids m(3) in \<open>auto simp: legacy_rows_distinct legacy_rows_set s2 all_collected_def\<close>)
  have doms: "db_domains (mg_db st') = db_domains (mg_db s2)" "db_domain_entries (mg_db st') = db_domain_entries (mg_db s2)"
    using conv' by (simp_all add: converted_from_def)
  have "agg_stored (mg_db st') agg" if "gm_get m h = Some agg" for h agg
  proof -
    have "(h, agg) \<in> set m" using that by (rule gm_get_mem)
    then show ?thesis using i gm_get_mem [of "Agg_entries agg"] by (force simp: agg_stored_def doms)
  qed
  moreover have "distinct (map Dom_ID (db_domains (mg_db st')))"
    unfolding doms by (rule insert_domains_ids [OF ins]) (use ids m(1) in \<open>simp add: same_tables_def\<close>)
  ultimately show ?thesis using m(2,3) s2 conv' by blast
qed

section \<open>Properties\<close>

text \<open>A web proxy of a domain that serves a path with the backend of a legacy owner.\<close>

definition has_backend :: "legacyPathOwner \<Rightarrow> Proxy \<Rightarrow> bool" where
  "has_backend own q \<longleftrightarrow> Proxy_ClientID q = Own_ClientID own \<and> Proxy_TargetHost q = Own_TargetHost own \<and>
     Proxy_TargetPort q = Own_TargetPort own \<and> Proxy_StripPrefix q = Own_Strip own \<and>
     NormalizeProxyUpstreamPathPrefix (Own_Upstream own) = Inr (Proxy_UpstreamPathPrefix q)"

definition migrated_to :: "DB \<Rightarrow> Domain \<Rightarrow> string \<Rightarrow> legacyPathOwner \<Rightarrow> ProxyStatus \<Rightarrow> bool" where
  "migrated_to db d path own st \<longleftrightarrow> (\<exists>q \<in> set (db_proxies db). Proxy_ID q = Own_ProxyID own \<and> Proxy_Type q = ProxyWeb \<and>
     Proxy_DomainID q = Dom_ID d \<and> Proxy_PathPrefix q = path \<and> has_backend own q \<and> Proxy_Status q = st)"

definition route_status :: "Proxy \<Rightarrow> legacyRouteRow \<Rightarrow> ProxyStatus" where
  "route_status p r = (if Rt_Status r = ''disabled'' \<or> Proxy_Status p \<noteq> ProxyEnabled then ProxyDisabled else ProxyEnabled)"

lemma parent_backend: "has_backend (parentOwner p) (new_parent env agg p)"
  by (simp add: has_backend_def parentOwner_def new_parent_def web_parent_def upstream_root)

lemma web_route_fields [simp]:
  "Proxy_ID (web_route p agg path u r) = Rt_ID r" "Proxy_Type (web_route p agg path u r) = ProxyWeb"
  "Proxy_DomainID (web_route p agg path u r) = Agg_ID agg" "Proxy_PathPrefix (web_route p agg path u r) = path"
  "Proxy_Status (web_route p agg path u r) = route_status p r" "Proxy_ClientID (web_route p agg path u r) = Rt_ClientID r"
  "Proxy_TargetHost (web_route p agg path u r) = Rt_TargetHost r" "Proxy_TargetPort (web_route p agg path u r) = Rt_TargetPort r"
  "Proxy_StripPrefix (web_route p agg path u r) = Rt_StripPrefix r" "Proxy_UpstreamPathPrefix (web_route p agg path u r) = u"
  by (simp_all add: web_route_def route_status_def)

lemma new_route_fields:
  assumes "new_route p agg r q"
  shows "NormalizeProxyRoutePrefix (Rt_PathPrefix r) = Inr (Proxy_PathPrefix q)" "has_backend (routeOwner r) q"
    "Proxy_ID q = Rt_ID r" "Proxy_Type q = ProxyWeb" "Proxy_DomainID q = Agg_ID agg" "Proxy_Status q = route_status p r"
proof -
  obtain path u where q: "NormalizeProxyRoutePrefix (Rt_PathPrefix r) = Inr path"
      "NormalizeProxyUpstreamPathPrefix (Rt_UpstreamPathPrefix r) = Inr u" "q = web_route p agg path u r"
    using assms unfolding new_route_def by blast
  show "NormalizeProxyRoutePrefix (Rt_PathPrefix r) = Inr (Proxy_PathPrefix q)" unfolding q(3) web_route_fields by (rule q(1))
  show "has_backend (routeOwner r) q" unfolding q(3) has_backend_def routeOwner_def web_route_fields legacyPathOwner.simps
    by (intro conjI refl q(2))
  show "Proxy_ID q = Rt_ID r" "Proxy_Type q = ProxyWeb" "Proxy_DomainID q = Agg_ID agg" "Proxy_Status q = route_status p r"
    unfolding q(3) web_route_fields by (rule refl)+
qed

text \<open>
  C11: The migration keeps what a legacy proxy served: when it succeeds, there is an enabled domain of the same
  user for the host of every proxy of type http or https, with the listener of the proxy among its entries,
  enabled if the proxy is; the proxy itself serves the root path of that domain, and each of its routes its
  own path, with the client, the target, the stripping and the upstream prefix they had.
\<close>
theorem migration_keeps_backends:
  assumes "convertLegacyWebProxies env st = (Inr (), st')" and "db_ok (mg_db st)"
    and "p \<in> set (db_proxies (mg_db st))" and "legacy_web p"
  shows "\<exists>d \<in> set (db_domains (mg_db st')). Dom_Host d = NormalizeRouteHost (Proxy_EntryHost p) \<and> Dom_UserID d = Proxy_UserID p \<and>
    Dom_Status d = DomainEnabled \<and> (\<exists>e \<in> set (db_domain_entries (mg_db st')). entry_of p (Dom_ID d) e) \<and>
    migrated_to (mg_db st') d ''/'' (parentOwner p) (Proxy_Status p) \<and>
    (\<forall>r \<in> set (queryLegacyProxyRoutes (mg_routes st) (Proxy_ID p)). \<exists>path.
       NormalizeProxyRoutePrefix (Rt_PathPrefix r) = Inr path \<and> migrated_to (mg_db st') d path (routeOwner r) (route_status p r))"
proof -
  from migration_structure [OF assms(1,2)] obtain m s2 where m: "domains_ok m" "all_collected (mg_routes st) (legacy_rows (mg_db st)) m"
    and s2: "mg_routes s2 = mg_routes st" and conv: "converted_from env m (legacy_rows (mg_db st)) s2 st'"
    and stored: "\<forall>h agg. gm_get m h = Some agg \<longrightarrow> agg_stored (mg_db st') agg" by blast
  have p: "p \<in> set (legacy_rows (mg_db st))" using assms(3,4) by (simp add: legacy_rows_set)
  let ?h = "NormalizeRouteHost (Proxy_EntryHost p)"
  obtain agg where agg: "gm_get m ?h = Some agg" and coll: "collected (mg_routes st) p agg"
    using m(2) p by (auto simp: all_collected_def)
  have ok: "agg_ok ?h agg" using m(1) agg by (simp add: domains_ok_def)
  have dom: "agg_domain agg \<in> set (db_domains (mg_db st'))" using stored agg by (auto simp: agg_stored_def)
  have entries: "\<forall>k e. gm_get (Agg_entries agg) k = Some e \<longrightarrow> e \<in> set (db_domain_entries (mg_db st'))"
    using stored agg unfolding agg_stored_def by blast
  obtain e where "gm_get (Agg_entries agg) (entryKey p) = Some e" "entry_of p (Agg_ID agg) e"
    using coll unfolding collected_def by blast
  with entries have e: "e \<in> set (db_domain_entries (mg_db st'))" "entry_of p (Agg_ID agg) e" by blast+
  have new: "new_parent env agg p \<in> set (db_proxies (mg_db st'))"
    "\<forall>r \<in> set (queryLegacyProxyRoutes (mg_routes st) (Proxy_ID p)). \<exists>q \<in> set (db_proxies (mg_db st')). new_route p agg r q"
    using conv p agg s2 by (auto simp: converted_from_def all_new_def)
  have parent: "migrated_to (mg_db st') (agg_domain agg) ''/'' (parentOwner p) (Proxy_Status p)"
    unfolding migrated_to_def
    by (rule bexI [OF _ new(1)]) (simp add: parent_backend, simp add: new_parent_def web_parent_def agg_domain_def parentOwner_def)
  have routes: "\<exists>path. NormalizeProxyRoutePrefix (Rt_PathPrefix r) = Inr path \<and>
      migrated_to (mg_db st') (agg_domain agg) path (routeOwner r) (route_status p r)"
    if r: "r \<in> set (queryLegacyProxyRoutes (mg_routes st) (Proxy_ID p))" for r
  proof -
    obtain q where q: "q \<in> set (db_proxies (mg_db st'))" "new_route p agg r q" using new(2) r by blast
    note f = new_route_fields [OF q(2)]
    have "migrated_to (mg_db st') (agg_domain agg) (Proxy_PathPrefix q) (routeOwner r) (route_status p r)"
      unfolding migrated_to_def by (rule bexI [OF _ q(1)]) (use f in \<open>simp add: agg_domain_def routeOwner_def\<close>)
    with f(1) show ?thesis by blast
  qed
  have "Dom_Host (agg_domain agg) = ?h \<and> Dom_UserID (agg_domain agg) = Proxy_UserID p \<and> Dom_Status (agg_domain agg) = DomainEnabled"
    using ok coll by (simp add: agg_domain_def agg_ok_def collected_def)
  then show ?thesis using dom e parent routes by (intro bexI [OF _ dom]) (auto simp: agg_domain_def)
qed

lemma same_agg:
  assumes stored: "\<forall>h agg. gm_get m h = Some agg \<longrightarrow> agg_stored db agg" and ids: "distinct (map Dom_ID (db_domains db))"
    and ok: "domains_ok m" and a: "gm_get m h1 = Some a1" "gm_get m h2 = Some a2" "Agg_ID a1 = Agg_ID a2"
  shows "a1 = a2"
proof -
  have "agg_domain a1 \<in> set (db_domains db)" "agg_domain a2 \<in> set (db_domains db)"
    using stored a by (auto simp: agg_stored_def)
  moreover have "inj_on Dom_ID (set (db_domains db))" using ids by (simp add: distinct_map)
  moreover have "Dom_ID (agg_domain a1) = Dom_ID (agg_domain a2)" using a(3) by (simp add: agg_domain_def)
  ultimately have "agg_domain a1 = agg_domain a2" by (simp only: inj_on_def Ball_def)
  then have "Agg_Host a1 = Agg_Host a2" by (simp add: agg_domain_def)
  moreover have "Agg_Host a1 = h1" "Agg_Host a2 = h2" using ok a by (auto simp: domains_ok_def agg_ok_def)
  ultimately show ?thesis using a by simp
qed

lemma claimed_backend:
  assumes "new_row env m routes p q" and "all_collected routes ps m" and "p \<in> set ps"
  shows "\<exists>agg own. gm_get m (NormalizeRouteHost (Proxy_EntryHost p)) = Some agg \<and> Proxy_DomainID q = Agg_ID agg \<and>
    claims agg (Proxy_PathPrefix q) own \<and> has_backend own q"
proof -
  obtain agg where agg: "gm_get m (NormalizeRouteHost (Proxy_EntryHost p)) = Some agg" "collected routes p agg"
    using assms(2,3) unfolding all_collected_def by blast
  have q: "q = new_parent env agg p \<or> (\<exists>r \<in> set (queryLegacyProxyRoutes routes (Proxy_ID p)). new_route p agg r q)"
    using assms(1) agg(1) unfolding new_row_def by auto
  from q show ?thesis
  proof (elim disjE bexE)
    assume q: "q = new_parent env agg p"
    have "Proxy_DomainID q = Agg_ID agg" "Proxy_PathPrefix q = ''/''" by (simp_all add: q new_parent_def web_parent_def)
    then show ?thesis using agg parent_backend [of p env agg] q by (auto simp: collected_def)
  next
    fix r assume r: "r \<in> set (queryLegacyProxyRoutes routes (Proxy_ID p))" "new_route p agg r q"
    note f = new_route_fields [OF r(2)]
    obtain path where "NormalizeProxyRoutePrefix (Rt_PathPrefix r) = Inr path" "claims agg path (routeOwner r)"
      using agg(2) r(1) unfolding collected_def by blast
    with f(1) have "claims agg (Proxy_PathPrefix q) (routeOwner r)" by (metis sum.inject(2))
    then show ?thesis using agg(1) f(2,5) by blast
  qed
qed

text \<open>
  C12: After a successful migration no path of a domain has two backends, so that it does not matter which of
  several web proxies with the same path a request is given to: client, target, stripping and upstream
  prefix are the same. Before the migration no other proxy may belong to a domain.
\<close>
theorem migration_paths_unambiguous:
  assumes "convertLegacyWebProxies env st = (Inr (), st')" and "db_ok (mg_db st)"
    and "\<forall>x \<in> set (db_proxies (mg_db st)). \<not> legacy_web x \<longrightarrow> Proxy_DomainID x = []"
    and "q1 \<in> set (db_proxies (mg_db st'))" "q2 \<in> set (db_proxies (mg_db st'))"
    and "Proxy_DomainID q1 = Proxy_DomainID q2" "Proxy_DomainID q1 \<noteq> []" "Proxy_PathPrefix q1 = Proxy_PathPrefix q2"
  shows "Proxy_ClientID q1 = Proxy_ClientID q2 \<and> Proxy_TargetHost q1 = Proxy_TargetHost q2 \<and>
    Proxy_TargetPort q1 = Proxy_TargetPort q2 \<and> Proxy_StripPrefix q1 = Proxy_StripPrefix q2 \<and>
    Proxy_UpstreamPathPrefix q1 = Proxy_UpstreamPathPrefix q2"
proof -
  let ?L = "legacy_rows (mg_db st)"
  from migration_structure [OF assms(1,2)] obtain m s2 where ok: "domains_ok m" and coll: "all_collected (mg_routes st) ?L m"
    and s2: "db_proxies (mg_db s2) = db_proxies (mg_db st)" "mg_routes s2 = mg_routes st" and conv: "converted_from env m ?L s2 st'"
    and stored: "\<forall>h agg. gm_get m h = Some agg \<longrightarrow> agg_stored (mg_db st') agg"
    and ids: "distinct (map Dom_ID (db_domains (mg_db st')))" by blast
  have claimed: "\<exists>h agg own. gm_get m h = Some agg \<and> Proxy_DomainID q = Agg_ID agg \<and>
      claims agg (Proxy_PathPrefix q) own \<and> has_backend own q"
    if q: "q \<in> set (db_proxies (mg_db st'))" "Proxy_DomainID q \<noteq> []" for q
  proof -
    have "(q \<in> set (db_proxies (mg_db st)) \<and> Proxy_ID q \<notin> Proxy_ID ` set ?L) \<or> (\<exists>p \<in> set ?L. new_row env m (mg_routes st) p q)"
      using conv q(1) unfolding converted_from_def s2 by blast
    moreover have "\<not> (q \<in> set (db_proxies (mg_db st)) \<and> Proxy_ID q \<notin> Proxy_ID ` set ?L)"
      using assms(3) q(2) by (auto simp: legacy_rows_set)
    ultimately show ?thesis using claimed_backend [OF _ coll] by blast
  qed
  obtain h1 a1 o1 where q1: "gm_get m h1 = Some a1" "Proxy_DomainID q1 = Agg_ID a1" "claims a1 (Proxy_PathPrefix q1) o1" "has_backend o1 q1"
    using claimed [OF assms(4,7)] by blast
  obtain h2 a2 o2 where q2: "gm_get m h2 = Some a2" "Proxy_DomainID q2 = Agg_ID a2" "claims a2 (Proxy_PathPrefix q2) o2" "has_backend o2 q2"
    using claimed [OF assms(5)] assms(6,7) by auto
  have "a1 = a2" by (rule same_agg [OF stored ids ok q1(1) q2(1)]) (use q1(2) q2(2) assms(6) in simp)
  then have "samePathBackend o1 o2" using q1(3) q2(3) assms(8) by (auto simp: claims_def samePathBackend_def)
  then show ?thesis using q1(4) q2(4) by (auto simp: has_backend_def samePathBackend_def)
qed

text \<open>
  C13: The migration revokes the access that was granted before: of a legacy proxy with an access gate it
  deletes every activation token and every credential, so that no secret is valid for any version, and its
  row asks for a version that no cookie has seen.
\<close>
theorem migration_revokes_access:
  assumes "convertLegacyWebProxies env st = (Inr (), st')" and "db_ok (mg_db st)"
    and "p \<in> set (db_proxies (mg_db st))" "legacy_web p" "Proxy_AccessAuthEnabled p"
  shows "(\<forall>t \<in> set (db_tokens (mg_db st')). Tok_ProxyID t \<noteq> Proxy_ID p) \<and>
    fst (access_ValidateAccessCredential (Proxy_ID p) version secretHash now (mg_db st')) = Inl ErrNotFound \<and>
    (\<exists>q \<in> set (db_proxies (mg_db st')). Proxy_ID q = Proxy_ID p \<and> Proxy_AccessAuthEnabled q \<and>
       Proxy_AccessAuthVersion q = Proxy_AccessAuthVersion p + 1)"
proof -
  from migration_structure [OF assms(1,2)] obtain m s2 where conv: "converted_from env m (legacy_rows (mg_db st)) s2 st'" by blast
  have p: "p \<in> set (legacy_rows (mg_db st))" using assms(3,4) by (simp add: legacy_rows_set)
  have "\<forall>c \<in> set (db_credentials (mg_db st')). Cred_ProxyID c \<noteq> Proxy_ID p"
    using conv p assms(5) unfolding converted_from_def by blast
  then have "sql_affected (credential_matches (Proxy_ID p) version secretHash) (db_credentials (mg_db st')) = 0"
    by (auto simp: sql_affected_0 credential_matches_def)
  then have "fst (access_ValidateAccessCredential (Proxy_ID p) version secretHash now (mg_db st')) = Inl ErrNotFound"
    by (simp add: access_ValidateAccessCredential_def Let_def resultError_def)
  moreover have "\<forall>t \<in> set (db_tokens (mg_db st')). Tok_ProxyID t \<noteq> Proxy_ID p"
    using conv p assms(5) unfolding converted_from_def by blast
  moreover obtain agg where "new_parent env agg p \<in> set (db_proxies (mg_db st'))"
    using conv p unfolding converted_from_def all_new_def by blast
  moreover have "Proxy_AccessAuthEnabled (new_parent env agg p)" "Proxy_AccessAuthVersion (new_parent env agg p) = Proxy_AccessAuthVersion p + 1"
    using assms(5) by (simp_all add: new_parent_def web_parent_def next_auth_version_def)
  ultimately show ?thesis by (metis new_ids(1))
qed

section \<open>A legacy installation\<close>

text \<open>
  A host with a proxy for HTTP, one for HTTPS with an access gate, and a route of the second.
\<close>

definition legacy_user :: User where
  "legacy_user = zeroUser\<lparr>User_ID := ''u1'', User_Username := ''ann'', User_Role := RoleUser, User_Status := UserEnabled\<rparr>"

definition legacy_client :: "string \<Rightarrow> Client" where
  "legacy_client i = zeroClient\<lparr>Client_ID := i, Client_UserID := ''u1'', Client_Name := i, Client_Status := ClientOffline\<rparr>"

definition legacy_proxy :: "string \<Rightarrow> ProxyType \<Rightarrow> int \<Rightarrow> bool \<Rightarrow> Proxy" where
  "legacy_proxy i t port gate =
     zeroProxy\<lparr>Proxy_ID := i, Proxy_UserID := ''u1'', Proxy_ClientID := ''c1'', Proxy_Name := i, Proxy_Type := t,
       Proxy_Status := ProxyEnabled, Proxy_EntryHost := ''Shop.io'', Proxy_EntryPort := port, Proxy_TargetHost := ''10.0.0.5'',
       Proxy_TargetPort := 8080, Proxy_AccessAuthEnabled := gate, Proxy_AccessAuthVersion := (if gate then 3 else 0)\<rparr>"

definition legacy_route :: legacyRouteRow where
  "legacy_route = \<lparr>Rt_ID = ''r1'', Rt_ProxyID = ''b'', Rt_ClientID = ''c2'', Rt_PathPrefix = ''/api/'', Rt_StripPrefix = True,
     Rt_UpstreamPathPrefix = ''/'', Rt_TargetHost = ''10.0.0.6'', Rt_TargetPort = 9090, Rt_Status = ''enabled'',
     Rt_CreatedAt = 0, Rt_UpdatedAt = 0\<rparr>"

definition legacy_cookie :: ProxyAccessCredential where
  "legacy_cookie = \<lparr>Cred_ID = ''k1'', Cred_ProxyID = ''b'', Cred_AuthVersion = 3, Cred_SecretHash = ''h'', Cred_CreatedAt = 0,
     Cred_LastUsedAt = None\<rparr>"

definition legacy_state :: MigrationState where
  "legacy_state = \<lparr>mg_db = emptyDB\<lparr>db_users := [legacy_user], db_clients := [legacy_client ''c1'', legacy_client ''c2''],
       db_proxies := [legacy_proxy ''a'' ProxyHTTP 80 False, legacy_proxy ''b'' ProxyHTTPS 443 True], db_credentials := [legacy_cookie]\<rparr>,
     mg_routes = [legacy_route], mg_flag = None, mg_legacyColumns = True, mg_draws = 0\<rparr>"

definition migration_env :: MigrationEnv where
  "migration_env = \<lparr>me_now = 1000, me_newID = (\<lambda>n prefix. prefix @ ''-'' @ itoa (int n))\<rparr>"

definition migrated_state :: MigrationState where
  "migrated_state = snd (convertLegacyWebProxies migration_env legacy_state)"

lemma legacy_run: "convertLegacyWebProxies migration_env legacy_state = (Inr (), migrated_state)"
proof -
  have "fst (convertLegacyWebProxies migration_env legacy_state) = Inr ()" by code_simp
  then show ?thesis by (simp add: migrated_state_def prod_eq_iff)
qed

lemma legacy_db_ok: "db_ok (mg_db legacy_state)"
  by (simp add: db_ok_def keys_unique_def refs_ok_def has_defs legacy_state_def emptyDB_def legacy_user_def zeroUser_def
    legacy_client_def zeroClient_def legacy_proxy_def zeroProxy_def legacy_cookie_def sql_exists_def)

lemma legacy_members:
  "legacy_proxy ''b'' ProxyHTTPS 443 True \<in> set (db_proxies (mg_db legacy_state))" "legacy_web (legacy_proxy ''b'' ProxyHTTPS 443 True)"
  "Proxy_AccessAuthEnabled (legacy_proxy ''b'' ProxyHTTPS 443 True)" "NormalizeRouteHost (Proxy_EntryHost (legacy_proxy ''b'' ProxyHTTPS 443 True)) = ''shop.io''"
  by (simp_all add: legacy_state_def legacy_web_def legacy_proxy_def) code_simp

theorem migration_keeps_backends_witness:
  "\<exists>d \<in> set (db_domains (mg_db migrated_state)). Dom_Host d = ''shop.io'' \<and>
     migrated_to (mg_db migrated_state) d ''/'' (parentOwner (legacy_proxy ''b'' ProxyHTTPS 443 True)) ProxyEnabled \<and>
     migrated_to (mg_db migrated_state) d ''/api'' (routeOwner legacy_route) ProxyEnabled"
proof -
  let ?p = "legacy_proxy ''b'' ProxyHTTPS 443 True"
  have routes: "queryLegacyProxyRoutes (mg_routes legacy_state) (Proxy_ID ?p) = [legacy_route]" by code_simp
  have path: "NormalizeProxyRoutePrefix (Rt_PathPrefix legacy_route) = Inr ''/api''" by code_simp
  have status: "Proxy_Status ?p = ProxyEnabled" "route_status ?p legacy_route = ProxyEnabled" by code_simp+
  from migration_keeps_backends [OF legacy_run legacy_db_ok legacy_members(1,2)] show ?thesis
    unfolding routes status legacy_members(4) by (elim bexE conjE, intro bexI conjI) (auto simp: path status)
qed

theorem migration_revokes_access_witness:
  "fst (access_ValidateAccessCredential ''b'' 3 ''h'' 0 (mg_db legacy_state)) = Inr () \<and>
   fst (access_ValidateAccessCredential ''b'' 3 ''h'' 0 (mg_db migrated_state)) = Inl ErrNotFound"
proof
  show "fst (access_ValidateAccessCredential ''b'' 3 ''h'' 0 (mg_db legacy_state)) = Inr ()" by code_simp
  have "Proxy_ID (legacy_proxy ''b'' ProxyHTTPS 443 True) = ''b''" by code_simp
  with migration_revokes_access [OF legacy_run legacy_db_ok legacy_members(1,2,3), of 3 "''h''" 0]
  show "fst (access_ValidateAccessCredential ''b'' 3 ''h'' 0 (mg_db migrated_state)) = Inl ErrNotFound" by simp
qed

text \<open>Both parents serve the root path of the domain; they have the same backend.\<close>

definition migrated_root :: "string \<Rightarrow> Proxy" where
  "migrated_root i = hd (filter (\<lambda>q. Proxy_ID q = i) (db_proxies (mg_db migrated_state)))"

theorem migration_paths_unambiguous_witness:
  "Proxy_TargetHost (migrated_root ''a'') = Proxy_TargetHost (migrated_root ''b'')"
proof -
  have alone: "\<forall>x \<in> set (db_proxies (mg_db legacy_state)). \<not> legacy_web x \<longrightarrow> Proxy_DomainID x = []" by code_simp
  have rows: "migrated_root ''a'' \<in> set (db_proxies (mg_db migrated_state))" "migrated_root ''b'' \<in> set (db_proxies (mg_db migrated_state))"
    by code_simp+
  have same: "Proxy_DomainID (migrated_root ''a'') = Proxy_DomainID (migrated_root ''b'')" "Proxy_DomainID (migrated_root ''a'') \<noteq> []"
    "Proxy_PathPrefix (migrated_root ''a'') = Proxy_PathPrefix (migrated_root ''b'')" by code_simp+
  show ?thesis using migration_paths_unambiguous [OF legacy_run legacy_db_ok alone rows same] by simp
qed

text \<open>
  The access gate is not part of the backend that the migration compares. The proxy for HTTP and that for
  HTTPS become two web proxies of the root path, and the one without the gate is found first: HTTPS requests
  that needed a credential before are served without one.
\<close>

lemma migration_drops_gate:
  "case proxies_ByDomainAndPath (mg_db migrated_state) (Proxy_DomainID (migrated_root ''b'')) ''/account'' of
     Inl e \<Rightarrow> False
   | Inr q \<Rightarrow> Proxy_ID q = ''a'' \<and> \<not> Proxy_AccessAuthEnabled q"
  by code_simp

section \<open>Opening the store again\<close>

lemma sbind_values [simp]: "sbind (sget h) f s = f (h s) s" "sbind (sret a) g s = g a s"
  by (simp_all add: sbind_def)

lemma allowlist_filled:
  assumes "ensureLocalAllowlistDefaults db = (Inr (), db')"
  shows "db_allowlist db' \<noteq> []"
proof (cases "db_allowlist db = []")
  case True
  then have "sfor insert_allowlist DefaultAllowlist db = (Inr (), db')"
    using assms by (auto simp: ensureLocalAllowlistDefaults_def stx_def split: prod.splits sum.splits)
  then show ?thesis
    by (auto simp: DefaultAllowlist_def sbind_eq_Inr insert_allowlist_def sql_checked_Inr)
qed (use assms in \<open>simp add: ensureLocalAllowlistDefaults_def stx_def\<close>)

lemma allowlist_kept: "db_allowlist db \<noteq> [] \<Longrightarrow> ensureLocalAllowlistDefaults db = (Inr (), db)"
  by (simp add: ensureLocalAllowlistDefaults_def stx_def)

lemma allowlist_frame: "db_proxies (snd (ensureLocalAllowlistDefaults db)) = db_proxies db"
proof -
  have "db_proxies (snd (sfor insert_allowlist es d)) = db_proxies d" for es d
    by (induction es arbitrary: d) (auto simp: sbind_def insert_allowlist_def sql_checked_def split: prod.splits sum.splits)
  then show ?thesis by (simp add: ensureLocalAllowlistDefaults_def stx_def split: prod.splits sum.splits) (metis snd_conv)
qed

text \<open>What the first opening has settled.\<close>

definition migrated :: "MigrationState \<Rightarrow> bool" where
  "migrated st \<longleftrightarrow> \<not> mg_legacyColumns st \<and> domainPathRoutingMigrated st \<and> mg_routes st = [] \<and> db_allowlist (mg_db st) \<noteq> []"

lemma blank_entry_type: "legacy_web (blank_entry p) = legacy_web p"
  by (simp add: legacy_web_def blank_entry_def)

lemma affected_map: "(\<And>x. P (f x) = P x) \<Longrightarrow> sql_affected P (map f rows) = sql_affected P rows"
  by (simp add: sql_affected_def filter_map o_def)

lemma promote_rows:
  "promote_proxy env p st = (r, st') \<Longrightarrow> db_proxies (mg_db st') = db_proxies (mg_db st) \<and> mg_flag st' = mg_flag st \<and> mg_routes st' = mg_routes st"
proof -
  have files: "db_proxies (mg_db (snd (promote_files env p i h s))) = db_proxies (mg_db s) \<and>
      mg_flag (snd (promote_files env p i h s)) = mg_flag s \<and> mg_routes (snd (promote_files env p i h s)) = mg_routes s" for i h s
    by (simp add: promote_files_def newMigrationID_def sbind_def on_db_def insert_certificate_def sql_checked_def split: prod.splits)
  assume "promote_proxy env p st = (r, st')"
  then have "st' = st \<or> (\<exists>i h. st' = snd (promote_files env p i h st))"
    by (auto simp: promote_proxy_def Let_def split: if_splits) (metis snd_conv)+
  then show ?thesis using files by auto
qed

lemma promote_all_rows:
  "sfor (promote_proxy env) ps st = (r, st') \<Longrightarrow> db_proxies (mg_db st') = db_proxies (mg_db st) \<and> mg_flag st' = mg_flag st \<and> mg_routes st' = mg_routes st"
proof (induction ps arbitrary: st)
  case (Cons p ps)
  obtain r1 s1 where one: "promote_proxy env p st = (r1, s1)" by fastforce
  show ?case
  proof (cases r1)
    case (Inl e)
    then show ?thesis using Cons.prems one promote_rows [OF one] by (auto simp: sbind_def)
  next
    case (Inr u)
    then have "sfor (promote_proxy env) ps s1 = (r, st')" using Cons.prems one by (simp add: sbind_def)
    from Cons.IH [OF this] promote_rows [OF one] show ?thesis by simp
  qed
qed simp

lemma routing_migrated:
  assumes "migrateDomainPathRouting env st = (Inr (), st')"
  shows "domainPathRoutingMigrated st'" "mg_routes st' = []"
  using assms by (auto simp: migrateDomainPathRouting_def sbind_eq_Inr domainPathRoutingMigrated_def split: if_splits option.splits)

lemma migrate_settles: "migrate env st = (Inr (), st') \<Longrightarrow> migrated st'"
proof -
  assume "migrate env st = (Inr (), st')"
  then obtain s1 s2 s3 where routing: "migrateDomainPathRouting env s1 = (Inr (), s2)"
    and drop: "dropProxyWebLegacyColumns env s2 = (Inr (), s3)"
    and allow: "on_db ensureLocalAllowlistDefaults s3 = (Inr (), st')"
    unfolding migrate_def by (auto simp: sbind_eq_Inr simp del: sbind_evals)
  note r = routing_migrated [OF routing]
  have "\<not> mg_legacyColumns s3 \<and> domainPathRoutingMigrated s3 \<and> mg_routes s3 = []"
  proof (cases "mg_legacyColumns s2")
    case True
    then obtain s where prom: "sfor (promote_proxy env) (filter has_files (db_proxies (mg_db s2))) s2 = (Inr (), s)"
      and s3: "s3 = s\<lparr>mg_legacyColumns := False, mg_db := (mg_db s)\<lparr>db_proxies := map blank_entry (db_proxies (mg_db s))\<rparr>\<rparr>"
      using drop by (auto simp: dropProxyWebLegacyColumns_def promoteLegacyProxyFileCertificates_def sbind_eq_Inr)
    show ?thesis using promote_all_rows [OF prom] r
      by (simp add: s3 domainPathRoutingMigrated_def affected_map blank_entry_type split: option.splits)
  qed (use drop r in \<open>simp add: dropProxyWebLegacyColumns_def\<close>)
  moreover obtain db where db: "ensureLocalAllowlistDefaults (mg_db s3) = (Inr (), db)" "st' = s3\<lparr>mg_db := db\<rparr>"
    using allow by (auto simp: on_db_Inr)
  moreover have "db_proxies db = db_proxies (mg_db s3)"
    using allowlist_frame [of "mg_db s3"] db(1) by simp
  ultimately show ?thesis using allowlist_filled [OF db(1)]
    by (simp add: migrated_def domainPathRoutingMigrated_def split: option.splits)
qed

lemma settled_columns:
  "Cert_ServingStatus c \<noteq> [] \<Longrightarrow> Cert_OperationStatus c \<noteq> [] \<Longrightarrow> lifecycle_columns c = c"
  "Cert_ProviderType c \<noteq> [] \<Longrightarrow> Cert_ProviderName c \<noteq> [] \<Longrightarrow> Cert_ProviderStatus c \<noteq> [] \<Longrightarrow> provider_columns c = c"
  by (simp_all add: lifecycle_columns_def provider_columns_def)

lemma columns_settled:
  "lifecycle_columns (provider_columns (lifecycle_columns c)) = provider_columns (lifecycle_columns c)"
  "provider_columns (provider_columns c) = provider_columns c"
proof -
  have "Cert_ServingStatus (lifecycle_columns c) \<noteq> []" "Cert_OperationStatus (lifecycle_columns c) \<noteq> []"
    unfolding lifecycle_columns_def by simp_all
  then show "lifecycle_columns (provider_columns (lifecycle_columns c)) = provider_columns (lifecycle_columns c)"
    by (intro settled_columns(1)) (simp_all add: provider_columns_def)
  show "provider_columns (provider_columns c) = provider_columns c"
    by (rule settled_columns(2)) (simp_all add: provider_columns_def)
qed

definition with_columns :: "MigrationState \<Rightarrow> MigrationState" where
  "with_columns st = st\<lparr>mg_db := (mg_db st)\<lparr>db_certificates := map (provider_columns \<circ> lifecycle_columns) (db_certificates (mg_db st))\<rparr>\<rparr>"

lemma migrated_again: "migrated st \<Longrightarrow> migrate env st = (Inr (), with_columns st)"
proof -
  assume st: "migrated st"
  have same: "st\<lparr>mg_routes := []\<rparr> = st" using st by (simp add: migrated_def)
  show ?thesis using st
    by (simp add: migrate_def migrated_def addManagedCertificateLifecycleColumns_def addManagedCertificateProviderColumns_def
      on_db_def sbind_def migrateProxyCertificateBinding_def reject_if_def migrateBindProxyCertificates_def
      migrateDomainPathRouting_def domainPathRoutingMigrated_def dropProxyWebLegacyColumns_def allowlist_kept with_columns_def
      split: option.splits)
qed

lemma with_columns_twice: "with_columns (with_columns st) = with_columns st"
  by (simp add: with_columns_def o_def columns_settled)

lemma with_columns_migrated: "migrated st \<Longrightarrow> migrated (with_columns st)"
  by (simp add: migrated_def with_columns_def domainPathRoutingMigrated_def split: option.splits)

text \<open>
  Opening a store that was opened before changes nothing of what it serves: once the migrations have
  succeeded, the second run succeeds, whatever the clock and the random numbers are, and fills in at most the
  empty columns of certificates; a third run finds nothing at all to write.
\<close>
lemma migrate_settles_at_once:
  assumes "migrate env st = (Inr (), st1)"
  shows "migrate env' st1 = (Inr (), with_columns st1) \<and> migrate env'' (with_columns st1) = (Inr (), with_columns st1)"
proof -
  have st1: "migrated st1" by (rule migrate_settles [OF assms])
  show ?thesis
    using migrated_again [OF st1, of env'] migrated_again [OF with_columns_migrated [OF st1], of env'']
    by (simp only: with_columns_twice simp_thms)
qed

lemma legacy_opens: "fst (migrate migration_env legacy_state) = Inr ()"
  by code_simp

lemma migrate_settles_at_once_witness:
  "\<exists>st1. migrate migration_env legacy_state = (Inr (), st1) \<and> migrate (migration_env\<lparr>me_now := 5000\<rparr>) st1 = (Inr (), with_columns st1)"
proof -
  obtain st1 where st1: "migrate migration_env legacy_state = (Inr (), st1)"
    using legacy_opens by (metis prod.collapse)
  with migrate_settles_at_once [OF st1] show ?thesis by blast
qed

section \<open>Integrity\<close>

lemma keeps_on_db: "keeps P m \<Longrightarrow> keeps (\<lambda>st. P (mg_db st)) (on_db m)"
  by (simp add: keeps_def on_db_def case_prod_beta)

lemma keeps_newMigrationID: "keeps (\<lambda>st. P (mg_db st)) (newMigrationID env prefix)"
  by (simp add: keeps_def newMigrationID_def)

lemma keeps_read: "keeps P (sread f)"
  by (simp add: keeps_def)

lemma keeps_tables: "(\<And>st. mg_db (f st) = mg_db st) \<Longrightarrow> keeps (\<lambda>st. P (mg_db st)) (smodify f)"
  by (simp add: keeps_def)

lemma rows_keep_ok:
  assumes "\<And>p. Proxy_ID (f p) = Proxy_ID p \<and> Proxy_UserID (f p) = Proxy_UserID p \<and> Proxy_ClientID (f p) = Proxy_ClientID p"
  shows "db_ok db \<Longrightarrow> db_ok (db\<lparr>db_proxies := map f (db_proxies db)\<rparr>)"
    "db_ok db \<Longrightarrow> db_ok (db\<lparr>db_proxies := sql_update P f (db_proxies db)\<rparr>)"
proof -
  have "map f rows = sql_update (\<lambda>_. True) f rows" for rows by (simp add: sql_update_def)
  then show "db_ok db \<Longrightarrow> db_ok (db\<lparr>db_proxies := map f (db_proxies db)\<rparr>)" using assms by (simp add: ok_images)
  show "db_ok db \<Longrightarrow> db_ok (db\<lparr>db_proxies := sql_update P f (db_proxies db)\<rparr>)" using assms by (simp add: ok_images)
qed

lemma certificates_keep_ok: "(\<And>c. Cert_ID (f c) = Cert_ID c) \<Longrightarrow> db_ok db \<Longrightarrow> db_ok (db\<lparr>db_certificates := map f (db_certificates db)\<rparr>)"
  by (simp add: db_ok_def keys_unique_def refs_ok_def has_defs o_def)

lemma keeps_maybe: "keeps P a \<Longrightarrow> (\<And>x. keeps P (f x)) \<Longrightarrow> keeps P (case v of None \<Rightarrow> a | Some x \<Rightarrow> f x)"
  by (cases v) simp_all

lemma keeps_collect_entry: "keeps (\<lambda>st. P (mg_db st)) (collect_entry env p agg)"
  unfolding collect_entry_def by (intro keep_intros keeps_maybe keeps_newMigrationID)

lemma keeps_collect_proxy: "keeps (\<lambda>st. P (mg_db st)) (collect_proxy env p m)"
proof -
  have start: "keeps (\<lambda>st. P (mg_db st)) (host_agg env h p m)" for h
    unfolding host_agg_def by (intro keep_intros keeps_maybe keeps_newMigrationID)
  show ?thesis unfolding collect_proxy_def Let_def host_agg_def [symmetric]
    by (intro keep_intros start keeps_collect_entry)
qed

lemma keeps_collect: "keeps (\<lambda>st. P (mg_db st)) (collect_proxies env ps m)"
proof (induction ps arbitrary: m)
  case (Cons p ps) then show ?case unfolding collect_proxies.simps by (intro keeps_sbind keeps_collect_proxy)
qed (simp add: keeps_basic)

lemma keeps_pair: "(\<And>x y. keeps P (f x y)) \<Longrightarrow> keeps P (case v of (x, y) \<Rightarrow> f x y)"
  by (cases v) simp

lemma keeps_insert_domains: "keeps (\<lambda>st. db_ok (mg_db st)) (insert_domains m)"
  unfolding insert_domains_def by (intro keep_intros keeps_pair keeps_on_db insert_keeps)

lemma keeps_convert: "keeps (\<lambda>st. db_ok (mg_db st)) (convert_proxy env m p)"
proof -
  have rows: "keeps db_ok (smodify (\<lambda>db. db\<lparr>db_proxies := sql_update P (web_parent now agg u v) (db_proxies db)\<rparr>))" for P now agg u v
    unfolding keeps_def op_evals snd_conv by (intro allI impI rows_keep_ok) (simp_all add: web_parent_def)
  have access: "keeps db_ok (smodify (\<lambda>db. db\<lparr>db_tokens := sql_delete P (db_tokens db)\<rparr>))"
    "keeps db_ok (smodify (\<lambda>db. db\<lparr>db_credentials := sql_delete Q (db_credentials db)\<rparr>))" for P Q
    by (auto simp: keeps_def db_ok_def keys_unique_def refs_ok_def has_defs distinct_key_delete)
  have routes: "keeps (\<lambda>st. db_ok (mg_db st)) (convert_route p agg r)" for agg r
    unfolding convert_route_def by (intro keep_intros keeps_on_db insert_keeps)
  have revoke: "keeps (\<lambda>st. db_ok (mg_db st)) (revoke_legacy_access p)"
    unfolding revoke_legacy_access_def by (intro keep_intros keeps_on_db access)
  show ?thesis unfolding convert_proxy_def
    by (intro keep_intros keeps_maybe keeps_on_db rows routes revoke keeps_tables; simp)
qed

lemma keeps_routing: "keeps (\<lambda>st. db_ok (mg_db st)) (migrateDomainPathRouting env)"
proof -
  have "keeps (\<lambda>st. db_ok (mg_db st)) (convertLegacyWebProxies env)"
    unfolding convertLegacyWebProxies_def
    by (intro keep_intros keeps_collect keeps_insert_domains keeps_convert)
  then show ?thesis unfolding migrateDomainPathRouting_def by (intro keep_intros keeps_tables; simp)
qed

lemma keeps_drop_columns: "keeps (\<lambda>st. db_ok (mg_db st)) (dropProxyWebLegacyColumns env)"
proof -
  have domains: "keeps db_ok (smodify (\<lambda>db. db\<lparr>db_domains := sql_update P (\<lambda>d. d\<lparr>Dom_CertificateID := c, Dom_UpdatedAt := t\<rparr>) (db_domains db)\<rparr>))"
    for P c t unfolding keeps_def op_evals snd_conv by (intro allI impI domain_field_keeps) simp_all
  have files: "keeps (\<lambda>st. db_ok (mg_db st)) (promote_files env p i h)" for p i h
    unfolding promote_files_def by (intro keep_intros keeps_newMigrationID keeps_on_db insert_keeps domains)
  have "keeps (\<lambda>st. db_ok (mg_db st)) (promoteLegacyProxyFileCertificates env)"
    unfolding promoteLegacyProxyFileCertificates_def promote_proxy_def Let_def by (intro keep_intros files)
  moreover have "keeps (\<lambda>st. db_ok (mg_db st)) (smodify (\<lambda>st. st\<lparr>mg_legacyColumns := False,
      mg_db := (mg_db st)\<lparr>db_proxies := map blank_entry (db_proxies (mg_db st))\<rparr>\<rparr>))"
    unfolding keeps_def by (simp, intro allI impI rows_keep_ok) (simp_all add: blank_entry_def)
  ultimately show ?thesis unfolding dropProxyWebLegacyColumns_def by (intro keep_intros)
qed

lemma keeps_allowlist: "keeps db_ok ensureLocalAllowlistDefaults"
  unfolding ensureLocalAllowlistDefaults_def by (intro keep_intros insert_keeps)

lemma keeps_bind_certificates: "keeps (\<lambda>st. db_ok (mg_db st)) migrateBindProxyCertificates"
  unfolding keeps_def migrateBindProxyCertificates_def Let_def
  by (auto intro!: rows_keep_ok simp: bind_proxy_certificate_def split: option.splits)

lemma migrate_keeps_ok: "keeps (\<lambda>st. db_ok (mg_db st)) (migrate env)"
proof -
  have "keeps db_ok addManagedCertificateLifecycleColumns" "keeps db_ok addManagedCertificateProviderColumns"
    unfolding keeps_def addManagedCertificateLifecycleColumns_def addManagedCertificateProviderColumns_def op_evals snd_conv
    by (auto intro!: certificates_keep_ok simp: lifecycle_columns_def provider_columns_def)
  then show ?thesis unfolding migrate_def migrateProxyCertificateBinding_def
    by (intro keep_intros keeps_on_db keeps_bind_certificates keeps_routing keeps_drop_columns keeps_allowlist keeps_read)
qed

end
