(* ===== verification/AdminQuery.thy ===== *)
theory AdminQuery
  imports CertManager Stats Session
begin

text \<open>
  The read side of the administration, internal/adminquery: the dashboard, the lists with their
  filters, orders and pages, and the details of one row. A query reads the database, the latest
  sessions, the counters in memory and, for the health of a certificate, its files. The service is
  built with a store (internal/daemon/server.go), so the tests for a missing store are not taken.
  \<open>sort.Slice\<close> promises no order of rows that compare equal: its choice is the field \<open>qe_Sort\<close>,
  which answers a comparison of positions with the new order of the positions.
\<close>

abbreviation ProxyOnline :: ProxyStatus where "ProxyOnline \<equiv> ''online''"
abbreviation ProxyOffline :: ProxyStatus where "ProxyOffline \<equiv> ''offline''"

section \<open>Inputs and pages\<close>

record PageInput =
  PgIn_Page :: int
  PgIn_PageSize :: int

record SortInput =
  Sort_Field :: string
  Sort_Direction :: string

record PageInfo =
  PI_Page :: int
  PI_PageSize :: int
  PI_TotalCount :: int
  PI_TotalPages :: int
  PI_HasNext :: bool
  PI_HasPrev :: bool

record 'f ListInput =
  LI_Page :: PageInput
  LI_Filter :: 'f
  LI_Sort :: SortInput

record ('i, 'f) ListPage =
  LP_Items :: "'i list"
  LP_TotalCount :: int
  LP_PageInfo :: PageInfo
  LP_Filter :: 'f
  LP_Sort :: SortInput

record UserFilter =
  UF_Query :: string
  UF_Role :: string
  UF_Status :: string

record ClientFilter =
  CF_Query :: string
  CF_UserID :: string
  CF_Status :: string
  CF_Online :: "bool option"

record ProxyFilter =
  PF_Query :: string
  PF_UserID :: string
  PF_ClientID :: string
  PF_Type :: string
  PF_Status :: string

record CertificateFilter =
  CeF_Query :: string
  CeF_Status :: string

record AuditFilter =
  AF_Query :: string
  AF_ActorType :: string
  AF_ActorID :: string
  AF_ResourceType :: string
  AF_Action :: string
  AF_Result :: string

record DomainFilter =
  DF_Query :: string
  DF_UserID :: string
  DF_Status :: string

section \<open>Rows\<close>

record DashboardSummary =
  DS_OnlineClientCount :: int
  DS_EnabledProxyCount :: int
  DS_ActiveTCPConnectionCount :: int
  DS_CumulativeUploadBytes :: int
  DS_CumulativeDownloadBytes :: int
  DS_CumulativeTCPErrorCount :: int
  DS_CumulativeUDPErrorCount :: int
  DS_CumulativeHTTPErrorCount :: int

record UserListItem =
  UI_ID :: string
  UI_Username :: string
  UI_Role :: Role
  UI_Status :: UserStatus
  UI_ClientCount :: int
  UI_ProxyCount :: int
  UI_UploadBytes :: int
  UI_DownloadBytes :: int
  UI_LastActivityAt :: "time option"
  UI_HasPasswordHash :: bool
  UI_CreatedAt :: time
  UI_UpdatedAt :: time

record ClientRuntime =
  CR_Online :: bool
  CR_Protocol :: Protocol
  CR_ConnectedAt :: "time option"
  CR_LastHeartbeat :: "time option"
  CR_ConfigVersion :: int
  CR_ActiveProxies :: int
  CR_ActiveStreams :: int
  CR_UploadBytes :: int
  CR_DownloadBytes :: int
  CR_ErrorSummary :: string

record ClientListItem =
  CI_ID :: string
  CI_UserID :: string
  CI_Name :: string
  CI_IsSystem :: bool
  CI_Status :: ClientStatus
  CI_Version :: int
  CI_LastOnlineAt :: "time option"
  CI_LastOfflineAt :: "time option"
  CI_Runtime :: ClientRuntime
  CI_CreatedAt :: time
  CI_UpdatedAt :: time

type_synonym CertificateDeletionRisk = string
abbreviation CertificateDeletionRiskLow :: CertificateDeletionRisk where
  "CertificateDeletionRiskLow \<equiv> ''low''"
abbreviation CertificateDeletionRiskRequiresStrongConfirmation :: CertificateDeletionRisk where
  "CertificateDeletionRiskRequiresStrongConfirmation \<equiv> ''requires_strong_confirmation''"

record ManagedCertificateSummary =
  MS_ProxyID :: string
  MS_CertificateID :: string
  MS_BoundProxyID :: string
  MS_BoundDomainID :: string
  MS_Referenced :: bool
  MS_Servable :: bool
  MS_DeletionRisk :: CertificateDeletionRisk
  MS_Host :: string
  MS_Status :: CertificateStatus
  MS_ServingStatus :: CertificateServingStatus
  MS_OperationStatus :: CertificateOperationStatus
  MS_ProviderType :: CertificateProviderType
  MS_ProviderName :: string
  MS_CredentialID :: string
  MS_ProviderStatus :: CertificateProviderStatus
  MS_CloudflareCertificateID :: string
  MS_Hostnames :: "string list"
  MS_RequestType :: string
  MS_RequestedValidity :: int
  MS_LastSyncedAt :: "time option"
  MS_DeploymentHints :: "string list"
  MS_NotAfter :: "time option"
  MS_LastIssuedAt :: "time option"
  MS_LastRenewedAt :: "time option"
  MS_LastCheckedAt :: "time option"
  MS_LastAttemptedAt :: "time option"
  MS_NextAttemptAt :: "time option"
  MS_FailureCount :: int
  MS_Fingerprint :: string
  MS_LastError :: string
  MS_CreatedAt :: time
  MS_UpdatedAt :: time

record ProviderCredentialSummary =
  PCS_ID :: string
  PCS_Name :: string
  PCS_ProviderType :: CertificateProviderType
  PCS_Scope :: string
  PCS_TokenFingerprint :: string
  PCS_Status :: ProviderCredentialStatus
  PCS_LastVerifiedAt :: "time option"
  PCS_LastError :: string
  PCS_CreatedAt :: time
  PCS_UpdatedAt :: time

record ProxyTypeConfig =
  PTC_DomainID :: string
  PTC_PathPrefix :: string
  PTC_StripPrefix :: bool
  PTC_UpstreamPathPrefix :: string
  PTC_EntryBindHost :: string
  PTC_EntryHost :: string
  PTC_EntryPort :: int
  PTC_TargetHost :: string
  PTC_TargetPort :: int
  PTC_CertFile :: string
  PTC_KeyFile :: string
  PTC_CertificateID :: string

record ProxySummary =
  PSum_ID :: string
  PSum_Name :: string
  PSum_IsSystem :: bool
  PSum_Type :: ProxyType
  PSum_Status :: ProxyStatus
  PSum_Description :: string
  PSum_RuntimeStatus :: ProxyStatus
  PSum_EntryBindHost :: string
  PSum_EntryHost :: string
  PSum_EntryPort :: int
  PSum_TargetHost :: string
  PSum_TargetPort :: int
  PSum_ActiveTCPConnections :: int

text \<open>ProxyListItem and ProxyDetail have the same fields.\<close>

record ProxyListItem =
  PX_ID :: string
  PX_UserID :: string
  PX_ClientID :: string
  PX_Name :: string
  PX_IsSystem :: bool
  PX_Type :: ProxyType
  PX_Status :: ProxyStatus
  PX_Description :: string
  PX_RuntimeStatus :: ProxyStatus
  PX_ActiveTCPConnections :: int
  PX_UploadBytes :: int
  PX_DownloadBytes :: int
  PX_TCPErrorCount :: int
  PX_UDPErrorCount :: int
  PX_HTTPErrorCount :: int
  PX_AccessAuthEnabled :: bool
  PX_AccessAuthVersion :: int
  PX_Config :: ProxyTypeConfig
  PX_Certificate :: "ManagedCertificateSummary option"
  PX_CreatedAt :: time
  PX_UpdatedAt :: time

type_synonym ProxyDetail = ProxyListItem

record ClientDetail =
  CD_ID :: string
  CD_UserID :: string
  CD_Name :: string
  CD_IsSystem :: bool
  CD_Status :: ClientStatus
  CD_Version :: int
  CD_LastOnlineAt :: "time option"
  CD_LastOfflineAt :: "time option"
  CD_Runtime :: ClientRuntime
  CD_ManagedProxies :: "ProxySummary list"
  CD_CreatedAt :: time
  CD_UpdatedAt :: time

record AuditListItem =
  AI_ID :: string
  AI_ActorType :: string
  AI_ActorID :: string
  AI_ResourceType :: string
  AI_ResourceID :: string
  AI_Action :: string
  AI_Result :: string
  AI_CreatedAt :: time

record DomainListItem =
  DI_ID :: string
  DI_UserID :: string
  DI_Host :: string
  DI_CertificateID :: string
  DI_Status :: DomainStatus
  DI_ProxyCount :: int
  DI_HTTPEntryCount :: int
  DI_HTTPSEntryCount :: int
  DI_Certificate :: "ManagedCertificateSummary option"
  DI_CreatedAt :: time
  DI_UpdatedAt :: time

text \<open>DomainEntryItem has the fields of the entry itself.\<close>

record DomainDetail =
  DD_Item :: DomainListItem
  DD_Entries :: "DomainEntry list"
  DD_Proxies :: "ProxyListItem list"

section \<open>The service\<close>

record QueryService =
  QS_Store :: DB
  QS_Sessions :: "Session list option"
  QS_Stats :: "Memory option"
  QS_CertificateDir :: string
  QS_RenewalWindow :: duration
  QS_OriginCARotationWindow :: duration

record QueryEnv =
  qe_Cert :: CertEnv
  qe_Disk :: files
  qe_Now :: time
  qe_Sort :: "(nat \<Rightarrow> nat \<Rightarrow> bool) \<Rightarrow> nat \<Rightarrow> nat list"

definition sort_Slice :: "QueryEnv \<Rightarrow> ('a \<Rightarrow> 'a \<Rightarrow> bool) \<Rightarrow> 'a list \<Rightarrow> 'a list" where
  "sort_Slice env before items = map ((!) items) (qe_Sort env (\<lambda>i j. before (items ! i) (items ! j)) (length items))"

definition latestSessions :: "QueryService \<Rightarrow> Session list" where
  "latestSessions service = (case QS_Sessions service of None \<Rightarrow> [] | Some snapshot \<Rightarrow> snapshot)"

definition statsByProxy :: "QueryService \<Rightarrow> (string, ProxyStats) gomap" where
  "statsByProxy service =
     (case QS_Stats service of
        None \<Rightarrow> []
      | Some memory \<Rightarrow> fold (\<lambda>proxyStats byProxy. gm_put (PS_ProxyID proxyStats) proxyStats byProxy) (memory_List memory) [])"

text \<open>\<open>statsByProxy[id]\<close> and \<open>latestByClient[id]\<close>: the zero value where the key is missing.\<close>

definition stats_at :: "(string, ProxyStats) gomap \<Rightarrow> string \<Rightarrow> ProxyStats" where
  "stats_at byProxy proxyID = (case gm_get byProxy proxyID of None \<Rightarrow> zero_stats [] | Some s \<Rightarrow> s)"

definition latestByClientID :: "Session list \<Rightarrow> (string, Session) gomap" where
  "latestByClientID sessions = fold (\<lambda>current byClient. gm_put (Ses_ClientID current) current byClient) sessions []"

definition uploadBytes :: "ProxyStats \<Rightarrow> int" where
  "uploadBytes s = add64 (add64 (PS_TCPUploadBytes s) (PS_UDPUploadBytes s)) (PS_HTTPUploadBytes s)"

definition downloadBytes :: "ProxyStats \<Rightarrow> int" where
  "downloadBytes s = add64 (add64 (PS_TCPDownloadBytes s) (PS_UDPDownloadBytes s)) (PS_HTTPDownloadBytes s)"

section \<open>Pages\<close>

definition normalizePage :: "PageInput \<Rightarrow> PageInput" where
  "normalizePage input0 =
     (let input1 = (if PgIn_Page input0 \<le> 0 then input0 \<lparr>PgIn_Page := 1\<rparr> else input0);
          input2 = (if PgIn_PageSize input1 \<le> 0 then input1 \<lparr>PgIn_PageSize := 25\<rparr> else input1)
      in if PgIn_PageSize input2 > 100 then input2 \<lparr>PgIn_PageSize := 100\<rparr> else input2)"

definition normalizeSort :: "SortInput \<Rightarrow> string \<Rightarrow> string \<Rightarrow> SortInput" where
  "normalizeSort input0 field direction =
     (let input1 = (if blank (Sort_Field input0) then input0 \<lparr>Sort_Field := field\<rparr> else input0);
          input2 = (if blank (Sort_Direction input1) then input1 \<lparr>Sort_Direction := direction\<rparr> else input1);
          input3 = input2 \<lparr>Sort_Direction := to_lower (Sort_Direction input2)\<rparr>
      in if Sort_Direction input3 \<noteq> ''desc'' then input3 \<lparr>Sort_Direction := ''asc''\<rparr> else input3)"

definition pageSlice :: "'a list \<Rightarrow> PageInput \<Rightarrow> 'a list \<times> PageInfo" where
  "pageSlice items input0 =
     (let input = normalizePage input0;
          size = PgIn_PageSize input;
          totalCount = int (length items);
          totalPages0 = (if totalCount mod size \<noteq> 0 then totalCount div size + 1 else totalCount div size);
          totalPages = (if totalPages0 = 0 then 1 else totalPages0);
          page = (if PgIn_Page input > totalPages then totalPages else PgIn_Page input);
          start = min ((page - 1) * size) totalCount;
          end' = min (start + size) totalCount
      in (take (nat (end' - start)) (drop (nat start) items),
          \<lparr>PI_Page = page, PI_PageSize = size, PI_TotalCount = totalCount, PI_TotalPages = totalPages,
           PI_HasNext = page < totalPages, PI_HasPrev = page > 1\<rparr>))"

text \<open>The end of every list: order, cut the page, answer with the filter and the order used.\<close>

definition list_page ::
    "QueryEnv \<Rightarrow> (SortInput \<Rightarrow> 'i \<Rightarrow> 'i \<Rightarrow> bool) \<Rightarrow> string \<Rightarrow> string \<Rightarrow> 'f ListInput \<Rightarrow> 'i list \<Rightarrow> ('i, 'f) ListPage" where
  "list_page env before field direction input items =
     (let order = normalizeSort (LI_Sort input) field direction;
          (paged, info) = pageSlice (sort_Slice env (before order) items) (LI_Page input)
      in \<lparr>LP_Items = paged, LP_TotalCount = int (length items), LP_PageInfo = info, LP_Filter = LI_Filter input,
          LP_Sort = order\<rparr>)"

section \<open>Filters\<close>

definition query_matches :: "string \<Rightarrow> string list \<Rightarrow> bool" where
  "query_matches query0 texts =
     (let query = to_lower (trim_space query0) in
      query = [] \<or> list_ex (\<lambda>field. contains_sub (to_lower field) query) texts)"

definition field_matches :: "string \<Rightarrow> string \<Rightarrow> bool" where
  "field_matches wanted actual \<longleftrightarrow> \<not> (wanted \<noteq> [] \<and> actual \<noteq> wanted)"

definition matchesUserFilter :: "UserListItem \<Rightarrow> UserFilter \<Rightarrow> bool" where
  "matchesUserFilter item f =
     (if \<not> field_matches (UF_Role f) (UI_Role item) then False
      else if \<not> field_matches (UF_Status f) (UI_Status item) then False
      else query_matches (UF_Query f) [UI_Username item, UI_ID item])"

definition matchesClientFilter :: "ClientListItem \<Rightarrow> ClientFilter \<Rightarrow> bool" where
  "matchesClientFilter item f =
     (if \<not> field_matches (CF_UserID f) (CI_UserID item) then False
      else if \<not> field_matches (CF_Status f) (CI_Status item) then False
      else if (case CF_Online f of None \<Rightarrow> False | Some online \<Rightarrow> CR_Online (CI_Runtime item) \<noteq> online) then False
      else query_matches (CF_Query f) [CI_Name item, CI_ID item])"

definition matchesProxyFilter :: "ProxyListItem \<Rightarrow> ProxyFilter \<Rightarrow> bool" where
  "matchesProxyFilter item f =
     (if \<not> field_matches (PF_UserID f) (PX_UserID item) then False
      else if \<not> field_matches (PF_ClientID f) (PX_ClientID item) then False
      else if \<not> field_matches (PF_Type f) (PX_Type item) then False
      else if \<not> field_matches (PF_Status f) (PX_Status item) then False
      else query_matches (PF_Query f) [PX_Name item, PX_ID item])"

definition matchesCertificateFilter :: "ManagedCertificateSummary \<Rightarrow> CertificateFilter \<Rightarrow> bool" where
  "matchesCertificateFilter item f =
     (if CeF_Status f \<noteq> [] \<and> MS_Status item \<noteq> CeF_Status f \<and> MS_ServingStatus item \<noteq> CeF_Status f \<and>
         MS_OperationStatus item \<noteq> CeF_Status f \<and> MS_ProviderStatus item \<noteq> CeF_Status f then False
      else query_matches (CeF_Query f) [MS_Host item, MS_ProxyID item])"

definition matchesAuditFilter :: "AuditListItem \<Rightarrow> AuditFilter \<Rightarrow> bool" where
  "matchesAuditFilter item f =
     (if \<not> field_matches (AF_ActorType f) (AI_ActorType item) then False
      else if \<not> field_matches (AF_ActorID f) (AI_ActorID item) then False
      else if \<not> field_matches (AF_ResourceType f) (AI_ResourceType item) then False
      else if \<not> field_matches (AF_Action f) (AI_Action item) then False
      else if \<not> field_matches (AF_Result f) (AI_Result item) then False
      else query_matches (AF_Query f) [AI_ResourceID item, AI_Action item, AI_ActorID item])"

definition matchesDomainFilter :: "Domain \<Rightarrow> DomainFilter \<Rightarrow> bool" where
  "matchesDomainFilter webDomain f =
     (if \<not> field_matches (DF_UserID f) (Dom_UserID webDomain) then False
      else if \<not> field_matches (DF_Status f) (Dom_Status webDomain) then False
      else query_matches (DF_Query f) [Dom_Host webDomain, Dom_ID webDomain])"

section \<open>Orders\<close>

definition directed :: "SortInput \<Rightarrow> bool \<Rightarrow> bool" where
  "directed order before = (if Sort_Direction order = ''desc'' then \<not> before else before)"

definition timePtrBefore :: "time option \<Rightarrow> time option \<Rightarrow> bool" where
  "timePtrBefore left right =
     (case left of
        None \<Rightarrow> right \<noteq> None
      | Some l \<Rightarrow> (case right of None \<Rightarrow> False | Some r \<Rightarrow> l < r))"

definition sortUsers :: "SortInput \<Rightarrow> UserListItem \<Rightarrow> UserListItem \<Rightarrow> bool" where
  "sortUsers order left right =
     directed order
       (if Sort_Field order = ''createdAt'' then UI_CreatedAt left < UI_CreatedAt right
        else if Sort_Field order = ''clientCount'' then UI_ClientCount left < UI_ClientCount right
        else UI_Username left < UI_Username right)"

definition sortClients :: "SortInput \<Rightarrow> ClientListItem \<Rightarrow> ClientListItem \<Rightarrow> bool" where
  "sortClients order left right =
     directed order
       (if Sort_Field order = ''status'' then CI_Status left < CI_Status right
        else if Sort_Field order = ''updatedAt'' then CI_UpdatedAt left < CI_UpdatedAt right
        else CI_Name left < CI_Name right)"

definition sortProxies :: "SortInput \<Rightarrow> ProxyListItem \<Rightarrow> ProxyListItem \<Rightarrow> bool" where
  "sortProxies order left right =
     directed order
       (if Sort_Field order = ''type'' then PX_Type left < PX_Type right
        else if Sort_Field order = ''status'' then PX_Status left < PX_Status right
        else if Sort_Field order = ''updatedAt'' then PX_UpdatedAt left < PX_UpdatedAt right
        else PX_Name left < PX_Name right)"

definition sortCertificates :: "SortInput \<Rightarrow> ManagedCertificateSummary \<Rightarrow> ManagedCertificateSummary \<Rightarrow> bool" where
  "sortCertificates order left right =
     directed order
       (if Sort_Field order = ''status'' then MS_ServingStatus left < MS_ServingStatus right
        else if Sort_Field order = ''notAfter'' then timePtrBefore (MS_NotAfter left) (MS_NotAfter right)
        else MS_Host left < MS_Host right)"

definition sortAudit :: "SortInput \<Rightarrow> AuditListItem \<Rightarrow> AuditListItem \<Rightarrow> bool" where
  "sortAudit order left right =
     directed order
       (if Sort_Field order = ''action'' then AI_Action left < AI_Action right
        else AI_CreatedAt left < AI_CreatedAt right)"

text \<open>
  sortDomains exchanges in place: for every \<open>i\<close> and every later \<open>j\<close>, the two rows change places when
  \<open>less(j, i)\<close> agrees with the direction.
\<close>

definition domainLess :: "SortInput \<Rightarrow> DomainListItem \<Rightarrow> DomainListItem \<Rightarrow> bool" where
  "domainLess order left right =
     (if Sort_Field order = ''status'' then
        (if DI_Status left = DI_Status right then DI_Host left < DI_Host right else DI_Status left < DI_Status right)
      else if Sort_Field order = ''createdAt'' then
        (if DI_CreatedAt left = DI_CreatedAt right then DI_Host left < DI_Host right
         else DI_CreatedAt left < DI_CreatedAt right)
      else DI_Host left < DI_Host right)"

function exchange_inner :: "('a \<Rightarrow> 'a \<Rightarrow> bool) \<Rightarrow> bool \<Rightarrow> nat \<Rightarrow> nat \<Rightarrow> 'a list \<Rightarrow> 'a list" where
  "exchange_inner before asc i j items =
     (if j < length items
      then exchange_inner before asc i (j + 1)
             (if before (items ! j) (items ! i) = asc then items[i := items ! j, j := items ! i] else items)
      else items)"
  by auto
termination by (relation "measure (\<lambda>(before, asc, i, j, items). length items - j)") (auto split: if_splits)

declare exchange_inner.simps [simp del]

fun exchange_outer :: "('a \<Rightarrow> 'a \<Rightarrow> bool) \<Rightarrow> bool \<Rightarrow> nat list \<Rightarrow> 'a list \<Rightarrow> 'a list" where
  "exchange_outer before asc [] items = items"
| "exchange_outer before asc (i # is) items =
     exchange_outer before asc is (exchange_inner before asc i (i + 1) items)"

definition sortDomains :: "SortInput \<Rightarrow> DomainListItem list \<Rightarrow> DomainListItem list" where
  "sortDomains order items =
     exchange_outer (domainLess order) (Sort_Direction order \<noteq> ''desc'') [0..<length items] items"

section \<open>Certificates\<close>

definition deploymentHints :: "CertificateProviderType \<Rightarrow> string list" where
  "deploymentHints providerType =
     (if providerType \<noteq> CertificateProviderCloudflareOriginCA then []
      else [''Use this certificate only for Cloudflare to origin TLS.'',
            ''DNS should be proxied and SSL mode should be Full (strict) or equivalent.'',
            ''Direct browser connections to the origin will not trust Cloudflare Origin CA certificates.''])"

definition certificateSummary :: "ManagedCertificate \<Rightarrow> ManagedCertificateSummary" where
  "certificateSummary certificate =
     \<lparr>MS_ProxyID = Cert_ProxyID certificate, MS_CertificateID = Cert_ID certificate, MS_BoundProxyID = [],
      MS_BoundDomainID = [], MS_Referenced = False, MS_Servable = False, MS_DeletionRisk = [],
      MS_Host = Cert_Host certificate, MS_Status = Cert_Status certificate,
      MS_ServingStatus = Cert_ServingStatus certificate, MS_OperationStatus = Cert_OperationStatus certificate,
      MS_ProviderType = Cert_ProviderType certificate, MS_ProviderName = Cert_ProviderName certificate,
      MS_CredentialID = Cert_CredentialID certificate, MS_ProviderStatus = Cert_ProviderStatus certificate,
      MS_CloudflareCertificateID = Cert_CloudflareCertificateID certificate, MS_Hostnames = Cert_Hostnames certificate,
      MS_RequestType = Cert_RequestType certificate, MS_RequestedValidity = Cert_RequestedValidity certificate,
      MS_LastSyncedAt = Cert_LastSyncedAt certificate,
      MS_DeploymentHints = deploymentHints (Cert_ProviderType certificate), MS_NotAfter = Cert_NotAfter certificate,
      MS_LastIssuedAt = Cert_LastIssuedAt certificate, MS_LastRenewedAt = Cert_LastRenewedAt certificate,
      MS_LastCheckedAt = Cert_LastCheckedAt certificate, MS_LastAttemptedAt = Cert_LastAttemptedAt certificate,
      MS_NextAttemptAt = Cert_NextAttemptAt certificate, MS_FailureCount = Cert_FailureCount certificate,
      MS_Fingerprint = Cert_Fingerprint certificate, MS_LastError = Cert_LastError certificate,
      MS_CreatedAt = Cert_CreatedAt certificate, MS_UpdatedAt = Cert_UpdatedAt certificate\<rparr>"

definition certificateInvalid :: "ManagedCertificateSummary option \<Rightarrow> bool" where
  "certificateInvalid certificate =
     (case certificate of
        None \<Rightarrow> True
      | Some c \<Rightarrow> \<not> ServesTLS (MS_ServingStatus c) \<or> BlocksServing (MS_ProviderStatus c))"

definition certificateLifecycleFailed :: "CertificateStatus \<Rightarrow> bool" where
  "certificateLifecycleFailed status \<longleftrightarrow> status = CertificateIssueFailed \<or> status = CertificateRenewalFailed"

definition query_certificateStatusFromServing :: "CertificateServingStatus \<Rightarrow> CertificateStatus" where
  "query_certificateStatusFromServing status =
     (if status = CertificateServingUsable then CertificateValid
      else if status = CertificateServingExpiringSoon then CertificateExpiringSoon
      else if status = CertificateServingExpired then CertificateExpired
      else CertificatePending)"

text \<open>The serving and the operation status have a default where the row has none.\<close>

definition summary_defaults :: "ManagedCertificateSummary \<Rightarrow> ManagedCertificateSummary" where
  "summary_defaults summary0 =
     (let summary1 = (if MS_ServingStatus summary0 = [] then summary0 \<lparr>MS_ServingStatus := CertificateServingMissing\<rparr>
                      else summary0)
      in if MS_OperationStatus summary1 = [] then summary1 \<lparr>MS_OperationStatus := CertificateOperationIdle\<rparr>
         else summary1)"

definition query_scheduler :: "QueryService \<Rightarrow> LifecycleScheduler" where
  "query_scheduler service =
     \<lparr>LS_RenewalWindow = QS_RenewalWindow service, LS_OriginCARotationWindow = QS_OriginCARotationWindow service\<rparr>"

definition query_health :: "QueryEnv \<Rightarrow> QueryService \<Rightarrow> ManagedCertificate \<Rightarrow> CertificateMaterialHealth" where
  "query_health env service certificate =
     CheckCertificateFiles (qe_Cert env) (qe_Disk env) (qe_Now env) (Cert_Host certificate) (Cert_CertFile certificate)
       (Cert_KeyFile certificate) (QS_CertificateDir service)
       (WindowFor (query_scheduler service) (Cert_ProviderType certificate)) (qe_Now env)"

definition managedCertificateSummary :: "QueryEnv \<Rightarrow> QueryService \<Rightarrow> ManagedCertificate \<Rightarrow> ManagedCertificateSummary" where
  "managedCertificateSummary env service certificate =
     (let summary0 = summary_defaults (certificateSummary certificate) in
      if Cert_CertFile certificate = [] \<or> Cert_KeyFile certificate = [] then summary0
      else
        (let health = query_health env service certificate;
             failed = certificateLifecycleFailed (Cert_Status certificate);
             summary1 = summary0 \<lparr>MS_ServingStatus := MH_ServingStatus health\<rparr>;
             summary2 = (if \<not> failed then summary1 \<lparr>MS_Status := query_certificateStatusFromServing (MH_ServingStatus health)\<rparr>
                         else summary1);
             summary3 = summary2 \<lparr>MS_NotAfter := MH_NotAfter health, MS_Fingerprint := MH_Fingerprint health,
                                   MS_LastCheckedAt := Some (qe_Now env)\<rparr>;
             summary4 = (if \<not> ServesTLS (MH_ServingStatus health) \<and> MH_ErrorSummary health \<noteq> [] \<and>
                            (\<not> failed \<or> MS_LastError summary3 = [])
                         then summary3 \<lparr>MS_LastError := MH_ErrorSummary health\<rparr> else summary3)
         in if BlocksServing (Cert_ProviderStatus certificate)
            then summary4 \<lparr>MS_LastError := ''certificate provider marked active material unavailable''\<rparr>
            else summary4))"

definition applyCertificateReferenceFields ::
    "QueryService \<Rightarrow> ManagedCertificateSummary \<Rightarrow> Domain option \<Rightarrow> ManagedCertificateSummary" where
  "applyCertificateReferenceFields service summary0 boundDomain =
     (let referenced = boundDomain \<noteq> None;
          summary1 = summary0 \<lparr>MS_Referenced := referenced\<rparr>;
          summary2 =
            (case boundDomain of
               None \<Rightarrow> summary1
             | Some webDomain \<Rightarrow>
                 (let summary = summary1 \<lparr>MS_BoundDomainID := Dom_ID webDomain\<rparr> in
                  case proxies_ByDomainID (QS_Store service) (Dom_ID webDomain) of
                    [] \<Rightarrow> summary
                  | proxy # _ \<Rightarrow>
                      (let bound = summary \<lparr>MS_BoundProxyID := Proxy_ID proxy\<rparr> in
                       if blank (MS_ProxyID bound) then bound \<lparr>MS_ProxyID := Proxy_ID proxy\<rparr> else bound)));
          summary3 = summary2 \<lparr>MS_Servable := \<not> certificateInvalid (Some summary2)\<rparr>
      in if referenced \<and> MS_Servable summary3
         then summary3 \<lparr>MS_DeletionRisk := CertificateDeletionRiskRequiresStrongConfirmation\<rparr>
         else summary3 \<lparr>MS_DeletionRisk := CertificateDeletionRiskLow\<rparr>)"

definition certificateSummaryForProxy ::
    "Proxy \<Rightarrow> ManagedCertificateSummary option \<Rightarrow> ManagedCertificateSummary option" where
  "certificateSummaryForProxy proxy managed =
     (if \<not> proxyType_IsWeb (Proxy_Type proxy) then managed else map_option summary_defaults managed)"

text \<open>The summary of the certificate a domain binds.\<close>

definition boundCertificateSummary ::
    "QueryEnv \<Rightarrow> QueryService \<Rightarrow> ManagedCertificate \<Rightarrow> Domain \<Rightarrow> ManagedCertificateSummary" where
  "boundCertificateSummary env service certificate webDomain =
     applyCertificateReferenceFields service (managedCertificateSummary env service certificate) (Some webDomain)"

definition certificateByProxyID ::
    "QueryEnv \<Rightarrow> QueryService \<Rightarrow> Proxy \<Rightarrow> ManagedCertificateSummary option result" where
  "certificateByProxyID env service proxy =
     (let db = QS_Store service;
          fallback = (case certs_ByProxyID db (Proxy_ID proxy) of
             Inl err \<Rightarrow> (if errors_is err ErrNotFound then Inr (certificateSummaryForProxy proxy None) else Inl err)
           | Inr certificate \<Rightarrow>
               Inr (certificateSummaryForProxy proxy (Some (managedCertificateSummary env service certificate))))
      in if \<not> proxyType_IsWeb (Proxy_Type proxy) then Inr (certificateSummaryForProxy proxy None)
         else if blank (Proxy_DomainID proxy) then fallback
         else case domains_ByID db (Proxy_DomainID proxy) of
                Inl _ \<Rightarrow> fallback
              | Inr webDomain \<Rightarrow>
                  (if blank (Dom_CertificateID webDomain) then fallback
                   else case certs_ByID db (Dom_CertificateID webDomain) of
                          Inr certificate \<Rightarrow> Inr (Some (boundCertificateSummary env service certificate webDomain))
                        | Inl certErr \<Rightarrow> (if errors_is certErr ErrNotFound then fallback else Inl certErr)))"

definition legacyCertificates ::
    "QueryEnv \<Rightarrow> QueryService \<Rightarrow> ManagedCertificate list \<Rightarrow> (string, ManagedCertificateSummary) gomap" where
  "legacyCertificates env service certificates =
     fold (\<lambda>certificate byProxy.
             if \<not> blank (Cert_ProxyID certificate)
             then gm_put (Cert_ProxyID certificate) (managedCertificateSummary env service certificate) byProxy
             else byProxy) certificates []"

definition certificatesByProxy :: "QueryEnv \<Rightarrow> QueryService \<Rightarrow> (string, ManagedCertificateSummary) gomap" where
  "certificatesByProxy env service =
     (let db = QS_Store service;
          certificates = certs_List db;
          certificateByID = fold (\<lambda>certificate m. gm_put (Cert_ID certificate) certificate m) certificates []
      in fold (\<lambda>webDomain byProxy.
                 if blank (Dom_CertificateID webDomain) then byProxy
                 else case gm_get certificateByID (Dom_CertificateID webDomain) of
                        None \<Rightarrow> byProxy
                      | Some certificate \<Rightarrow>
                          fold (\<lambda>proxy. gm_put (Proxy_ID proxy) (boundCertificateSummary env service certificate webDomain))
                            (proxies_ByDomainID db (Dom_ID webDomain)) byProxy)
           (domains_List db) (legacyCertificates env service certificates))"

fun certificatesByProxyIDs_loop ::
    "QueryEnv \<Rightarrow> QueryService \<Rightarrow> Proxy list \<Rightarrow> (string, ManagedCertificateSummary) gomap
     \<Rightarrow> (string, ManagedCertificateSummary) gomap result" where
  "certificatesByProxyIDs_loop env service [] byProxy = Inr byProxy"
| "certificatesByProxyIDs_loop env service (proxy # proxies) byProxy =
     rbind (certificateByProxyID env service proxy) (\<lambda>summary.
     certificatesByProxyIDs_loop env service proxies
       (case summary of None \<Rightarrow> byProxy | Some s \<Rightarrow> gm_put (Proxy_ID proxy) s byProxy))"

definition certificatesByProxyIDs ::
    "QueryEnv \<Rightarrow> QueryService \<Rightarrow> Proxy list \<Rightarrow> (string, ManagedCertificateSummary) gomap result" where
  "certificatesByProxyIDs env service proxies = certificatesByProxyIDs_loop env service proxies []"

end
