(* ===== verification/QueryOps.thy ===== *)
theory QueryOps
  imports AdminQuery
begin

text \<open>
  The queries of internal/adminquery over the pieces of AdminQuery: the dashboard, the lists and the
  details of users, clients, proxies, certificates, provider credentials, audit events and domains.
\<close>

section \<open>Items\<close>

definition zeroRuntime :: ClientRuntime where
  "zeroRuntime = \<lparr>CR_Online = False, CR_Protocol = [], CR_ConnectedAt = None, CR_LastHeartbeat = None,
     CR_ConfigVersion = 0, CR_ActiveProxies = 0, CR_ActiveStreams = 0, CR_UploadBytes = 0, CR_DownloadBytes = 0,
     CR_ErrorSummary = []\<rparr>"

definition clientListItemFromDomain :: "Client \<Rightarrow> Session \<Rightarrow> ClientListItem" where
  "clientListItemFromDomain client runtimeSession =
     (let item = \<lparr>CI_ID = Client_ID client, CI_UserID = Client_UserID client, CI_Name = Client_Name client,
            CI_IsSystem = IsSystemClientID (Client_ID client), CI_Status = Client_Status client,
            CI_Version = Client_Version client, CI_LastOnlineAt = Client_LastOnlineAt client,
            CI_LastOfflineAt = Client_LastOfflineAt client, CI_Runtime = zeroRuntime,
            CI_CreatedAt = Client_CreatedAt client, CI_UpdatedAt = Client_UpdatedAt client\<rparr>
      in if Ses_ID runtimeSession = [] then item
         else (if CI_Status item \<noteq> ClientDisabled then item \<lparr>CI_Status := ClientOnline\<rparr> else item)
           \<lparr>CI_Runtime :=
              \<lparr>CR_Online = True, CR_Protocol = Ses_Protocol runtimeSession,
               CR_ConnectedAt = Some (Ses_ConnectedAt runtimeSession),
               CR_LastHeartbeat = Some (Ses_LastHeartbeat runtimeSession),
               CR_ConfigVersion = Ses_ConfigVersion runtimeSession,
               CR_ActiveProxies = Hb_ActiveProxies (Ses_Stats runtimeSession),
               CR_ActiveStreams = Hb_ActiveStreams (Ses_Stats runtimeSession),
               CR_UploadBytes = Hb_UploadBytes (Ses_Stats runtimeSession),
               CR_DownloadBytes = Hb_DownloadBytes (Ses_Stats runtimeSession),
               CR_ErrorSummary = Hb_ErrorSummary (Ses_Stats runtimeSession)\<rparr>\<rparr>)"

text \<open>The status of a proxy at run time; the list and the summary differ in the test of its certificate.\<close>

definition list_runtime_status :: "Proxy \<Rightarrow> Session \<Rightarrow> ManagedCertificateSummary option \<Rightarrow> ProxyStatus" where
  "list_runtime_status proxy runtimeSession certificate =
     (if Proxy_Status proxy = ProxyEnabled then
        (if proxyType_IsWeb (Proxy_Type proxy) \<and> certificateInvalid certificate \<and> certificate \<noteq> None then ProxyNeedsConf
         else if Ses_ID runtimeSession = [] then ProxyOffline
         else ProxyOnline)
      else Proxy_Status proxy)"

definition summary_runtime_status :: "Proxy \<Rightarrow> Session \<Rightarrow> ManagedCertificateSummary option \<Rightarrow> ProxyStatus" where
  "summary_runtime_status proxy runtimeSession certificate =
     (if Proxy_Status proxy = ProxyEnabled then
        (if proxyType_IsWeb (Proxy_Type proxy) \<and> certificateInvalid certificate then ProxyNeedsConf
         else if Ses_ID runtimeSession = [] then ProxyOffline
         else ProxyOnline)
      else Proxy_Status proxy)"

definition proxyListItemFromDomain ::
    "Proxy \<Rightarrow> Session \<Rightarrow> ProxyStats \<Rightarrow> ManagedCertificateSummary option \<Rightarrow> ProxyListItem" where
  "proxyListItemFromDomain proxy runtimeSession proxyStats certificate =
     \<lparr>PX_ID = Proxy_ID proxy, PX_UserID = Proxy_UserID proxy, PX_ClientID = Proxy_ClientID proxy,
      PX_Name = Proxy_Name proxy, PX_IsSystem = IsSystemProxy proxy, PX_Type = Proxy_Type proxy,
      PX_Status = Proxy_Status proxy, PX_Description = Proxy_Description proxy,
      PX_RuntimeStatus = list_runtime_status proxy runtimeSession certificate,
      PX_ActiveTCPConnections = PS_TCPCurrentConnections proxyStats, PX_UploadBytes = uploadBytes proxyStats,
      PX_DownloadBytes = downloadBytes proxyStats, PX_TCPErrorCount = PS_TCPErrors proxyStats,
      PX_UDPErrorCount = PS_UDPErrors proxyStats, PX_HTTPErrorCount = PS_HTTPErrors proxyStats,
      PX_AccessAuthEnabled = Proxy_AccessAuthEnabled proxy, PX_AccessAuthVersion = Proxy_AccessAuthVersion proxy,
      PX_Config =
        \<lparr>PTC_DomainID = Proxy_DomainID proxy, PTC_PathPrefix = Proxy_PathPrefix proxy,
         PTC_StripPrefix = Proxy_StripPrefix proxy, PTC_UpstreamPathPrefix = Proxy_UpstreamPathPrefix proxy,
         PTC_EntryBindHost = Proxy_EntryBindHost proxy, PTC_EntryHost = Proxy_EntryHost proxy,
         PTC_EntryPort = Proxy_EntryPort proxy, PTC_TargetHost = Proxy_TargetHost proxy,
         PTC_TargetPort = Proxy_TargetPort proxy, PTC_CertFile = [], PTC_KeyFile = [],
         PTC_CertificateID = (case certificate of None \<Rightarrow> [] | Some c \<Rightarrow> MS_CertificateID c)\<rparr>,
      PX_Certificate = certificate, PX_CreatedAt = Proxy_CreatedAt proxy, PX_UpdatedAt = Proxy_UpdatedAt proxy\<rparr>"

definition proxySummaryFromDomain ::
    "Proxy \<Rightarrow> Session \<Rightarrow> ProxyStats \<Rightarrow> ManagedCertificateSummary option \<Rightarrow> ProxySummary" where
  "proxySummaryFromDomain proxy runtimeSession proxyStats certificate =
     \<lparr>PSum_ID = Proxy_ID proxy, PSum_Name = Proxy_Name proxy, PSum_IsSystem = IsSystemProxy proxy,
      PSum_Type = Proxy_Type proxy, PSum_Status = Proxy_Status proxy, PSum_Description = Proxy_Description proxy,
      PSum_RuntimeStatus = summary_runtime_status proxy runtimeSession certificate,
      PSum_EntryBindHost = Proxy_EntryBindHost proxy, PSum_EntryHost = Proxy_EntryHost proxy,
      PSum_EntryPort = Proxy_EntryPort proxy, PSum_TargetHost = Proxy_TargetHost proxy,
      PSum_TargetPort = Proxy_TargetPort proxy, PSum_ActiveTCPConnections = PS_TCPCurrentConnections proxyStats\<rparr>"

definition providerCredentialSummary :: "ProviderCredential \<Rightarrow> ProviderCredentialSummary" where
  "providerCredentialSummary credential =
     \<lparr>PCS_ID = PCred_ID credential, PCS_Name = PCred_Name credential,
      PCS_ProviderType = PCred_ProviderType credential, PCS_Scope = PCred_Scope credential,
      PCS_TokenFingerprint = PCred_TokenFingerprint credential, PCS_Status = PCred_Status credential,
      PCS_LastVerifiedAt = PCred_LastVerifiedAt credential, PCS_LastError = PCred_LastError credential,
      PCS_CreatedAt = PCred_CreatedAt credential, PCS_UpdatedAt = PCred_UpdatedAt credential\<rparr>"

section \<open>Dashboard\<close>

definition dashboard_add :: "(string, ProxyStats) gomap \<Rightarrow> Proxy \<Rightarrow> DashboardSummary \<Rightarrow> DashboardSummary" where
  "dashboard_add stats proxy summary =
     (let proxyStats = stats_at stats (Proxy_ID proxy);
          on = (Proxy_Status proxy = ProxyEnabled \<or> Proxy_Status proxy = ProxyOnline) in
      summary
        \<lparr>DS_EnabledProxyCount := (if on then add64 (DS_EnabledProxyCount summary) 1 else DS_EnabledProxyCount summary),
         DS_ActiveTCPConnectionCount := add64 (DS_ActiveTCPConnectionCount summary) (PS_TCPCurrentConnections proxyStats),
         DS_CumulativeUploadBytes := add64 (DS_CumulativeUploadBytes summary) (uploadBytes proxyStats),
         DS_CumulativeDownloadBytes := add64 (DS_CumulativeDownloadBytes summary) (downloadBytes proxyStats),
         DS_CumulativeTCPErrorCount := add64 (DS_CumulativeTCPErrorCount summary) (PS_TCPErrors proxyStats),
         DS_CumulativeUDPErrorCount := add64 (DS_CumulativeUDPErrorCount summary) (PS_UDPErrors proxyStats),
         DS_CumulativeHTTPErrorCount := add64 (DS_CumulativeHTTPErrorCount summary) (PS_HTTPErrors proxyStats)\<rparr>)"

definition query_DashboardSummary :: "QueryService \<Rightarrow> DashboardSummary" where
  "query_DashboardSummary service =
     fold (dashboard_add (statsByProxy service)) (proxies_List (QS_Store service))
       \<lparr>DS_OnlineClientCount = int (length (latestSessions service)), DS_EnabledProxyCount = 0,
        DS_ActiveTCPConnectionCount = 0, DS_CumulativeUploadBytes = 0, DS_CumulativeDownloadBytes = 0,
        DS_CumulativeTCPErrorCount = 0, DS_CumulativeUDPErrorCount = 0, DS_CumulativeHTTPErrorCount = 0\<rparr>"

section \<open>Users\<close>

text \<open>\<open>m[k] += v\<close> on a map of integers.\<close>

definition gm_add :: "string \<Rightarrow> int \<Rightarrow> (string, int) gomap \<Rightarrow> (string, int) gomap" where
  "gm_add k v m = gm_put k (add64 (case gm_get m k of None \<Rightarrow> 0 | Some n \<Rightarrow> n) v) m"

definition gm_int :: "(string, int) gomap \<Rightarrow> string \<Rightarrow> int" where
  "gm_int m k = (case gm_get m k of None \<Rightarrow> 0 | Some n \<Rightarrow> n)"

definition mergeLastActivity :: "string \<Rightarrow> time option \<Rightarrow> (string, time) gomap \<Rightarrow> (string, time) gomap" where
  "mergeLastActivity userID value target =
     (case value of
        None \<Rightarrow> target
      | Some t \<Rightarrow>
          (case gm_get target userID of
             None \<Rightarrow> gm_put userID t target
           | Some existing \<Rightarrow> (if existing < t then gm_put userID t target else target)))"

definition lastActivityByUser :: "Client list \<Rightarrow> (string, time) gomap" where
  "lastActivityByUser clients =
     fold (\<lambda>client target. mergeLastActivity (Client_UserID client) (Client_LastOfflineAt client)
                             (mergeLastActivity (Client_UserID client) (Client_LastOnlineAt client) target)) clients []"

definition user_items :: "QueryService \<Rightarrow> UserListItem list" where
  "user_items service =
     (let db = QS_Store service;
          clients = clients_List db;
          proxies = proxies_List db;
          stats = statsByProxy service;
          clientCountByUser = fold (\<lambda>client. gm_add (Client_UserID client) 1) clients [];
          proxyCountByUser = fold (\<lambda>proxy. gm_add (Proxy_UserID proxy) 1) proxies [];
          uploadByUser = fold (\<lambda>proxy. gm_add (Proxy_UserID proxy) (uploadBytes (stats_at stats (Proxy_ID proxy)))) proxies [];
          downloadByUser = fold (\<lambda>proxy. gm_add (Proxy_UserID proxy) (downloadBytes (stats_at stats (Proxy_ID proxy)))) proxies [];
          lastActivity = lastActivityByUser clients
      in map (\<lambda>user.
           \<lparr>UI_ID = User_ID user, UI_Username = User_Username user, UI_Role = User_Role user, UI_Status = User_Status user,
            UI_ClientCount = gm_int clientCountByUser (User_ID user),
            UI_ProxyCount = gm_int proxyCountByUser (User_ID user),
            UI_UploadBytes = gm_int uploadByUser (User_ID user), UI_DownloadBytes = gm_int downloadByUser (User_ID user),
            UI_LastActivityAt = gm_get lastActivity (User_ID user),
            UI_HasPasswordHash = (User_PasswordHash user \<noteq> []),
            UI_CreatedAt = User_CreatedAt user, UI_UpdatedAt = User_UpdatedAt user\<rparr>)
         (filter (\<lambda>user. \<not> IsSystemUserID (User_ID user)) (users_List db)))"

definition query_ListUsers :: "QueryEnv \<Rightarrow> QueryService \<Rightarrow> UserFilter ListInput \<Rightarrow> (UserListItem, UserFilter) ListPage" where
  "query_ListUsers env service input =
     list_page env sortUsers ''username'' ''asc'' input
       (filter (\<lambda>item. matchesUserFilter item (LI_Filter input)) (user_items service))"

definition allUsersInput :: "UserFilter ListInput" where
  "allUsersInput = \<lparr>LI_Page = \<lparr>PgIn_Page = 1, PgIn_PageSize = 1000000\<rparr>,
     LI_Filter = \<lparr>UF_Query = [], UF_Role = [], UF_Status = []\<rparr>, LI_Sort = \<lparr>Sort_Field = [], Sort_Direction = []\<rparr>\<rparr>"

definition query_UserDetail :: "QueryEnv \<Rightarrow> QueryService \<Rightarrow> string \<Rightarrow> UserListItem result" where
  "query_UserDetail env service userID =
     (if IsSystemUserID userID then Inl ErrNotFound
      else rbind (users_ByID (QS_Store service) userID) (\<lambda>user.
           case find (\<lambda>item. UI_ID item = userID) (LP_Items (query_ListUsers env service allUsersInput)) of
             Some item \<Rightarrow> Inr (item \<lparr>UI_CreatedAt := User_CreatedAt user, UI_UpdatedAt := User_UpdatedAt user\<rparr>)
           | None \<Rightarrow> Inl ErrNotFound))"

section \<open>Clients\<close>

definition latest_of :: "QueryService \<Rightarrow> string \<Rightarrow> Session" where
  "latest_of service clientID = session_at (latestByClientID (latestSessions service)) clientID"

definition client_items :: "QueryService \<Rightarrow> ClientListItem list" where
  "client_items service =
     map (\<lambda>client. clientListItemFromDomain client (latest_of service (Client_ID client))) (clients_List (QS_Store service))"

definition query_ListClients ::
    "QueryEnv \<Rightarrow> QueryService \<Rightarrow> ClientFilter ListInput \<Rightarrow> (ClientListItem, ClientFilter) ListPage" where
  "query_ListClients env service input =
     list_page env sortClients ''name'' ''asc'' input
       (filter (\<lambda>item. matchesClientFilter item (LI_Filter input)) (client_items service))"

definition query_ClientDetail :: "QueryEnv \<Rightarrow> QueryService \<Rightarrow> string \<Rightarrow> ClientDetail result" where
  "query_ClientDetail env service clientID =
     (let db = QS_Store service in
      rbind (clients_ByID db clientID) (\<lambda>client.
      (let proxies = proxies_ByClientID db clientID in
      rbind (certificatesByProxyIDs env service proxies) (\<lambda>certificates.
        (let managedProxies = map (\<lambda>proxy.
               proxySummaryFromDomain proxy (latest_of service (Proxy_ClientID proxy))
                 (stats_at (statsByProxy service) (Proxy_ID proxy))
                 (certificateSummaryForProxy proxy (gm_get certificates (Proxy_ID proxy)))) proxies;
             item = clientListItemFromDomain client (latest_of service clientID)
         in Inr \<lparr>CD_ID = CI_ID item, CD_UserID = CI_UserID item, CD_Name = CI_Name item, CD_IsSystem = CI_IsSystem item,
              CD_Status = CI_Status item, CD_Version = CI_Version item, CD_LastOnlineAt = CI_LastOnlineAt item,
              CD_LastOfflineAt = CI_LastOfflineAt item, CD_Runtime = CI_Runtime item,
              CD_ManagedProxies = sort_Slice env (\<lambda>l r. PSum_Name l < PSum_Name r) managedProxies,
              CD_CreatedAt = Client_CreatedAt client, CD_UpdatedAt = Client_UpdatedAt client\<rparr>)))))"

section \<open>Proxies\<close>

definition proxy_items :: "QueryEnv \<Rightarrow> QueryService \<Rightarrow> ProxyListItem list" where
  "proxy_items env service =
     (let certificates = certificatesByProxy env service in
      map (\<lambda>proxy. proxyListItemFromDomain proxy (latest_of service (Proxy_ClientID proxy))
                     (stats_at (statsByProxy service) (Proxy_ID proxy))
                     (certificateSummaryForProxy proxy (gm_get certificates (Proxy_ID proxy))))
        (proxies_List (QS_Store service)))"

definition query_ListProxies ::
    "QueryEnv \<Rightarrow> QueryService \<Rightarrow> ProxyFilter ListInput \<Rightarrow> (ProxyListItem, ProxyFilter) ListPage" where
  "query_ListProxies env service input =
     list_page env sortProxies ''name'' ''asc'' input
       (filter (\<lambda>item. matchesProxyFilter item (LI_Filter input)) (proxy_items env service))"

definition query_ProxyDetail :: "QueryEnv \<Rightarrow> QueryService \<Rightarrow> string \<Rightarrow> ProxyDetail result" where
  "query_ProxyDetail env service proxyID =
     rbind (proxies_ByID (QS_Store service) proxyID) (\<lambda>proxy.
     rbind (certificateByProxyID env service proxy) (\<lambda>certificate.
       (let item = proxyListItemFromDomain proxy (latest_of service (Proxy_ClientID proxy))
                     (stats_at (statsByProxy service) (Proxy_ID proxy)) certificate;
            config = PX_Config item;
            config' = (if PTC_DomainID config \<noteq> [] then
                 (case domains_ByID (QS_Store service) (PTC_DomainID config) of
                    Inl _ \<Rightarrow> config
                  | Inr webDomain \<Rightarrow>
                      (let named = config \<lparr>PTC_EntryHost := Dom_Host webDomain\<rparr> in
                       if PTC_CertificateID named = []
                       then named \<lparr>PTC_CertificateID := Dom_CertificateID webDomain\<rparr> else named))
               else config)
        in Inr (item \<lparr>PX_Config := config'\<rparr>))))"

section \<open>Certificates and provider credentials\<close>

definition domainByCertificateID :: "Domain list \<Rightarrow> (string, Domain) gomap" where
  "domainByCertificateID domains =
     fold (\<lambda>webDomain m. if \<not> blank (Dom_CertificateID webDomain) then gm_put (Dom_CertificateID webDomain) webDomain m
                         else m) domains []"

definition certificate_items :: "QueryEnv \<Rightarrow> QueryService \<Rightarrow> ManagedCertificateSummary list" where
  "certificate_items env service =
     (let owners = domainByCertificateID (domains_List (QS_Store service)) in
      map (\<lambda>certificate. applyCertificateReferenceFields service (managedCertificateSummary env service certificate)
                          (gm_get owners (Cert_ID certificate))) (certs_List (QS_Store service)))"

definition query_ListManagedCertificates ::
    "QueryEnv \<Rightarrow> QueryService \<Rightarrow> CertificateFilter ListInput \<Rightarrow> (ManagedCertificateSummary, CertificateFilter) ListPage" where
  "query_ListManagedCertificates env service input =
     list_page env sortCertificates ''host'' ''asc'' input
       (filter (\<lambda>item. matchesCertificateFilter item (LI_Filter input)) (certificate_items env service))"

definition query_ListProviderCredentials ::
    "QueryEnv \<Rightarrow> QueryService \<Rightarrow> PageInput \<Rightarrow> ProviderCredentialSummary list \<times> int \<times> PageInfo" where
  "query_ListProviderCredentials env service input =
     (let items = map providerCredentialSummary (pcreds_List (QS_Store service));
          (paged, info) = pageSlice (sort_Slice env (\<lambda>l r. PCS_Name l < PCS_Name r) items) input
      in (paged, int (length items), info))"

definition query_ProviderCredential :: "QueryService \<Rightarrow> string \<Rightarrow> ProviderCredentialSummary result" where
  "query_ProviderCredential service i =
     rbind (pcreds_ByID (QS_Store service) i) (\<lambda>credential. Inr (providerCredentialSummary credential))"

section \<open>Audit events\<close>

definition auditActorType :: "string \<Rightarrow> string" where
  "auditActorType actorID = (if blank actorID \<or> actorID = ''system'' then ''system'' else ''admin'')"

definition audit_limit :: "PageInput \<Rightarrow> int" where
  "audit_limit input = max (wrap64 (PgIn_PageSize (normalizePage input) * PgIn_Page (normalizePage input))) 50"

definition audit_item :: "AuditEvent \<Rightarrow> AuditListItem" where
  "audit_item event =
     \<lparr>AI_ID = Audit_ID event, AI_ActorType = auditActorType (Audit_ActorUserID event),
      AI_ActorID = Audit_ActorUserID event, AI_ResourceType = Audit_ResourceType event,
      AI_ResourceID = Audit_ResourceID event, AI_Action = Audit_Action event, AI_Result = Audit_Result event,
      AI_CreatedAt = Audit_CreatedAt event\<rparr>"

definition query_ListRecentAuditEvents ::
    "QueryEnv \<Rightarrow> QueryService \<Rightarrow> AuditFilter ListInput \<Rightarrow> (AuditListItem, AuditFilter) ListPage" where
  "query_ListRecentAuditEvents env service input =
     list_page env sortAudit ''createdAt'' ''desc'' input
       (filter (\<lambda>item. matchesAuditFilter item (LI_Filter input))
          (map audit_item (audit_ListRecent (QS_Store service) (audit_limit (LI_Page input)))))"

section \<open>Domains\<close>

definition query_domainListItem :: "QueryEnv \<Rightarrow> QueryService \<Rightarrow> Domain \<Rightarrow> DomainListItem" where
  "query_domainListItem env service webDomain =
     (let db = QS_Store service;
          entries = domainEntries_ListByDomainID db (Dom_ID webDomain);
          count = (\<lambda>protocol. int (length (filter (\<lambda>entry. DEnt_Protocol entry = protocol) entries)))
      in \<lparr>DI_ID = Dom_ID webDomain, DI_UserID = Dom_UserID webDomain, DI_Host = Dom_Host webDomain,
          DI_CertificateID = Dom_CertificateID webDomain, DI_Status = Dom_Status webDomain,
          DI_ProxyCount = int (length (proxies_ByDomainID db (Dom_ID webDomain))),
          DI_HTTPEntryCount = count DomainEntryHTTP, DI_HTTPSEntryCount = count DomainEntryHTTPS,
          DI_Certificate =
            (if blank (Dom_CertificateID webDomain) then None
             else case certs_ByID db (Dom_CertificateID webDomain) of
                    Inl _ \<Rightarrow> None
                  | Inr certificate \<Rightarrow> Some (boundCertificateSummary env service certificate webDomain)),
          DI_CreatedAt = Dom_CreatedAt webDomain, DI_UpdatedAt = Dom_UpdatedAt webDomain\<rparr>)"

definition query_ListDomains ::
    "QueryEnv \<Rightarrow> QueryService \<Rightarrow> DomainFilter ListInput \<Rightarrow> (DomainListItem, DomainFilter) ListPage" where
  "query_ListDomains env service input =
     (let items = map (query_domainListItem env service)
            (filter (\<lambda>webDomain. matchesDomainFilter webDomain (LI_Filter input)) (domains_List (QS_Store service)));
          order = normalizeSort (LI_Sort input) ''host'' ''asc'';
          (paged, info) = pageSlice (sortDomains order items) (LI_Page input)
      in \<lparr>LP_Items = paged, LP_TotalCount = int (length items), LP_PageInfo = info, LP_Filter = LI_Filter input,
          LP_Sort = order\<rparr>)"

fun domain_proxy_items :: "QueryEnv \<Rightarrow> QueryService \<Rightarrow> Proxy list \<Rightarrow> ProxyListItem list result" where
  "domain_proxy_items env service [] = Inr []"
| "domain_proxy_items env service (proxy # proxies) =
     rbind (certificateByProxyID env service proxy) (\<lambda>certificate.
     rbind (domain_proxy_items env service proxies) (\<lambda>rest.
       Inr (proxyListItemFromDomain proxy (latest_of service (Proxy_ClientID proxy))
              (stats_at (statsByProxy service) (Proxy_ID proxy)) certificate # rest)))"

definition query_DomainDetail :: "QueryEnv \<Rightarrow> QueryService \<Rightarrow> string \<Rightarrow> DomainDetail result" where
  "query_DomainDetail env service domainID =
     rbind (domains_ByID (QS_Store service) domainID) (\<lambda>webDomain.
     rbind (domain_proxy_items env service (proxies_ByDomainID (QS_Store service) domainID)) (\<lambda>proxies.
       Inr \<lparr>DD_Item = query_domainListItem env service webDomain,
            DD_Entries = domainEntries_ListByDomainID (QS_Store service) domainID, DD_Proxies = proxies\<rparr>))"

end
