(* ===== verification/QueryProps.thy ===== *)
theory QueryProps
  imports QueryOps StoreInv "HOL-Library.Multiset"
begin

text \<open>
  What the queries of the administration promise: the pages of a list are the whole list, once and in
  its order; the exchange sort of the domains sorts; the totals of the dashboard are those of the list
  of proxies; and what the page limit of 100 does to the detail of a user and to the audit log.
\<close>

section \<open>The sort of the standard library\<close>

definition strict_weak :: "(nat \<Rightarrow> nat \<Rightarrow> bool) \<Rightarrow> nat \<Rightarrow> bool" where
  "strict_weak before n \<longleftrightarrow>
     (\<forall>i < n. \<not> before i i) \<and>
     (\<forall>i < n. \<forall>j < n. \<forall>k < n. before i j \<longrightarrow> before j k \<longrightarrow> before i k) \<and>
     (\<forall>i < n. \<forall>j < n. \<forall>k < n. \<not> before i j \<longrightarrow> \<not> before j k \<longrightarrow> \<not> before i k)"

text \<open>
  The documented contract of \<open>sort.Slice\<close>: the rows keep their number, and when the comparison is a
  strict weak order no row precedes one that is before it.
\<close>

definition sort_contract :: "QueryEnv \<Rightarrow> bool" where
  "sort_contract env \<longleftrightarrow>
     (\<forall>before n. mset (qe_Sort env before n) = mset [0..<n] \<and>
        (strict_weak before n \<longrightarrow> sorted_wrt (\<lambda>i j. \<not> before j i) (qe_Sort env before n)))"

text \<open>Insertion sort, which the library runs on short slices, keeps it.\<close>

fun insert_by :: "('a \<Rightarrow> 'a \<Rightarrow> bool) \<Rightarrow> 'a \<Rightarrow> 'a list \<Rightarrow> 'a list" where
  "insert_by before x [] = [x]"
| "insert_by before x (y # ys) = (if before x y then x # y # ys else y # insert_by before x ys)"

definition insertion_sort :: "(nat \<Rightarrow> nat \<Rightarrow> bool) \<Rightarrow> nat \<Rightarrow> nat list" where
  "insertion_sort before n = fold (insert_by before) [0..<n] []"

lemma mset_insert_by [simp]: "mset (insert_by before x ys) = add_mset x (mset ys)"
  by (induction ys) auto

lemma set_insert_by [simp]: "set (insert_by before x ys) = insert x (set ys)"
  by (induction ys) auto

lemma mset_fold_insert_by: "mset (fold (insert_by before) xs ys) = mset xs + mset ys"
  by (induction xs arbitrary: ys) auto

lemma sorted_insert_by:
  assumes "strict_weak before n" "x < n" "set ys \<subseteq> {..<n}" "sorted_wrt (\<lambda>i j. \<not> before j i) ys"
  shows "sorted_wrt (\<lambda>i j. \<not> before j i) (insert_by before x ys)"
  using assms(3,4)
proof (induction ys)
  case (Cons y ys)
  have irr: "\<not> before i i" if "i < n" for i using assms(1) that by (simp add: strict_weak_def)
  have trans: "before i k" if "before i j" "before j k" "i < n" "j < n" "k < n" for i j k
    using assms(1) that unfolding strict_weak_def by blast
  have neg: "\<not> before i k" if "\<not> before i j" "\<not> before j k" "i < n" "j < n" "k < n" for i j k
    using assms(1) that unfolding strict_weak_def by blast
  have y: "y < n" and ys: "\<And>z. z \<in> set ys \<Longrightarrow> z < n \<and> \<not> before z y" using Cons.prems by auto
  show ?case
  proof (cases "before x y")
    case True
    then have "\<not> before y x" using irr trans assms(2) y by blast
    moreover have "\<not> before z x" if "z \<in> set ys" for z
      using neg ys[OF that] calculation assms(2) y by blast
    ultimately show ?thesis using True Cons.prems(2) by auto
  next
    case False
    then show ?thesis using Cons by auto
  qed
qed simp

lemma sorted_fold_insert_by:
  assumes "strict_weak before n"
  shows "set xs \<subseteq> {..<n} \<Longrightarrow> set ys \<subseteq> {..<n} \<Longrightarrow> sorted_wrt (\<lambda>i j. \<not> before j i) ys \<Longrightarrow>
    sorted_wrt (\<lambda>i j. \<not> before j i) (fold (insert_by before) xs ys)"
  by (induction xs arbitrary: ys) (use sorted_insert_by[OF assms] in auto)

lemma insertion_sort_contract: "qe_Sort env = insertion_sort \<Longrightarrow> sort_contract env"
proof -
  assume a: "qe_Sort env = insertion_sort"
  have "sorted_wrt (\<lambda>i j. \<not> before j i) (insertion_sort before n)" if "strict_weak before n" for before n
    unfolding insertion_sort_def by (rule sorted_fold_insert_by[OF that]) auto
  then show ?thesis by (simp add: a sort_contract_def insertion_sort_def mset_fold_insert_by)
qed

lemma mset_sort_Slice:
  assumes "sort_contract env" shows "mset (sort_Slice env before items) = mset items"
proof -
  have "mset (qe_Sort env b n) = mset [0..<n]" for b n using assms by (simp add: sort_contract_def)
  then have "mset (sort_Slice env before items) = image_mset ((!) items) (mset [0..<length items])"
    by (simp add: sort_Slice_def)
  also have "\<dots> = mset (map ((!) items) [0..<length items])" by simp
  finally show ?thesis by (simp only: map_nth)
qed

lemma length_sort_Slice [simp]: "sort_contract env \<Longrightarrow> length (sort_Slice env before items) = length items"
  by (rule mset_eq_length[OF mset_sort_Slice])

lemma set_sort_Slice [simp]: "sort_contract env \<Longrightarrow> set (sort_Slice env before items) = set items"
  by (rule mset_eq_setD[OF mset_sort_Slice])

lemma sorted_sort_Slice:
  fixes key :: "'a \<Rightarrow> 'k::linorder"
  assumes "sort_contract env"
  shows "sorted (map key (sort_Slice env (\<lambda>x y. key x < key y) items))"
proof -
  let ?b = "\<lambda>i j. key (items ! i) < key (items ! j)"
  have "strict_weak ?b (length items)" by (auto simp: strict_weak_def)
  then have "sorted_wrt (\<lambda>i j. \<not> ?b j i) (qe_Sort env ?b (length items))" using assms by (simp add: sort_contract_def)
  then show ?thesis by (simp add: sort_Slice_def sorted_map sorted_wrt_map not_less)
qed

section \<open>Pages\<close>

definition page_count :: "int \<Rightarrow> nat \<Rightarrow> int" where
  "page_count len n = (let q = (if int n mod len \<noteq> 0 then int n div len + 1 else int n div len) in if q = 0 then 1 else q)"

lemma page_count_facts:
  assumes "0 < len"
  obtains q r where "int n = q * len + r" "0 \<le> q" "0 \<le> r" "r < len"
    "page_count len n = (if r \<noteq> 0 then q + 1 else if q = 0 then 1 else q)"
proof -
  have q: "0 \<le> int n div len" using assms by (simp add: pos_imp_zdiv_nonneg_iff)
  have "page_count len n = (if int n mod len \<noteq> 0 then int n div len + 1 else if int n div len = 0 then 1 else int n div len)"
    using q by (simp add: page_count_def Let_def)
  moreover have "int n = int n div len * len + int n mod len" by simp
  ultimately show ?thesis using that q assms by (meson pos_mod_bound pos_mod_sign)
qed

lemma page_count_pos: "0 < len \<Longrightarrow> 1 \<le> page_count len n"
  by (erule page_count_facts[of len n]) (simp split: if_splits)

lemma page_count_covers: "0 < len \<Longrightarrow> int n \<le> page_count len n * len"
  by (erule page_count_facts[of len n]) (simp add: distrib_right split: if_splits)

lemma start_within:
  assumes "0 < len" "page \<le> page_count len n"
  shows "(page - 1) * len \<le> int n"
proof -
  obtain q r where a: "int n = q * len + r" "0 \<le> q" "0 \<le> r"
    "page_count len n = (if r \<noteq> 0 then q + 1 else if q = 0 then 1 else q)" using page_count_facts[OF assms(1), of n] by metis
  have "page - 1 \<le> q" using a(2-4) assms(2) by (simp split: if_splits)
  then have "(page - 1) * len \<le> q * len" using assms(1) by (intro mult_right_mono) auto
  then show ?thesis using a(1,3) by linarith
qed

lemma take_min_drop:
  assumes "0 \<le> start" "start \<le> int (length items)" "0 \<le> len"
  shows "take (nat (min (start + len) (int (length items)) - start)) (drop (nat start) items) = take (nat len) (drop (nat start) items)"
proof (cases "start + len \<le> int (length items)")
  case False
  then have "length (drop (nat start) items) = nat (int (length items) - start)" "nat (int (length items) - start) \<le> nat len"
    using assms by auto
  then show ?thesis using False by (simp add: min_def)
qed simp

lemma pageSlice_page:
  assumes "1 \<le> len" "len \<le> 100" "1 \<le> page" "page \<le> page_count len (length items)"
  shows "fst (pageSlice items \<lparr>PgIn_Page = page, PgIn_PageSize = len\<rparr>) = take (nat len) (drop (nat ((page - 1) * len)) items)"
    and "snd (pageSlice items \<lparr>PgIn_Page = page, PgIn_PageSize = len\<rparr>) =
      \<lparr>PI_Page = page, PI_PageSize = len, PI_TotalCount = int (length items),
       PI_TotalPages = page_count len (length items), PI_HasNext = page < page_count len (length items), PI_HasPrev = page > 1\<rparr>"
proof -
  let ?n = "int (length items)"
  have pos: "0 < len" using assms(1) by simp
  have start: "0 \<le> (page - 1) * len" using assms by simp
  have "normalizePage \<lparr>PgIn_Page = page, PgIn_PageSize = len\<rparr> = \<lparr>PgIn_Page = page, PgIn_PageSize = len\<rparr>"
    using assms(1-3) by (simp add: normalizePage_def)
  moreover have "min ((page - 1) * len) ?n = (page - 1) * len" using start_within[OF pos assms(4)] by simp
  moreover have "\<not> page > page_count len (length items)" using assms(4) by simp
  ultimately have "pageSlice items \<lparr>PgIn_Page = page, PgIn_PageSize = len\<rparr> =
    (take (nat (min ((page - 1) * len + len) ?n - (page - 1) * len)) (drop (nat ((page - 1) * len)) items),
     \<lparr>PI_Page = page, PI_PageSize = len, PI_TotalCount = ?n,
      PI_TotalPages = page_count len (length items), PI_HasNext = page < page_count len (length items), PI_HasPrev = page > 1\<rparr>)"
    unfolding pageSlice_def Let_def page_count_def[unfolded Let_def, symmetric] by simp
  then show "fst (pageSlice items \<lparr>PgIn_Page = page, PgIn_PageSize = len\<rparr>) = take (nat len) (drop (nat ((page - 1) * len)) items)"
    and "snd (pageSlice items \<lparr>PgIn_Page = page, PgIn_PageSize = len\<rparr>) =
      \<lparr>PI_Page = page, PI_PageSize = len, PI_TotalCount = ?n,
       PI_TotalPages = page_count len (length items), PI_HasNext = page < page_count len (length items), PI_HasPrev = page > 1\<rparr>"
    using take_min_drop[OF start start_within[OF pos assms(4)]] pos by simp_all
qed

text \<open>The pages in order are the list.\<close>

lemma concat_pages: "concat (map (\<lambda>k. take len (drop (k * len) items)) [0..<m]) = take (m * len) items"
proof (induction m)
  case (Suc m)
  have "take (m * len) items @ take len (drop (m * len) items) = take (m * len + len) items" by (simp add: take_add)
  then show ?case using Suc by (simp add: add.commute)
qed simp

definition page_numbers :: "int \<Rightarrow> int list" where
  "page_numbers pages = map (\<lambda>k. int k + 1) [0..<nat pages]"

lemma pages_partition:
  assumes "1 \<le> len" "len \<le> 100"
  shows "concat (map (\<lambda>page. fst (pageSlice items \<lparr>PgIn_Page = page, PgIn_PageSize = len\<rparr>))
           (page_numbers (page_count len (length items)))) = items"
proof -
  let ?pages = "page_count len (length items)"
  have pos: "1 \<le> ?pages" using page_count_pos[of len] assms by simp
  have "concat (map (\<lambda>page. fst (pageSlice items \<lparr>PgIn_Page = page, PgIn_PageSize = len\<rparr>)) (page_numbers ?pages))
      = concat (map (\<lambda>k. take (nat len) (drop (k * nat len) items)) [0..<nat ?pages])"
  proof -
    have "fst (pageSlice items \<lparr>PgIn_Page = int k + 1, PgIn_PageSize = len\<rparr>) = take (nat len) (drop (k * nat len) items)"
      if "k < nat ?pages" for k
      using pageSlice_page(1)[of len "int k + 1" items] that assms by (simp add: nat_mult_distrib)
    then have "map (\<lambda>k. fst (pageSlice items \<lparr>PgIn_Page = int k + 1, PgIn_PageSize = len\<rparr>)) [0..<nat ?pages] =
        map (\<lambda>k. take (nat len) (drop (k * nat len) items)) [0..<nat ?pages]" by simp
    then show ?thesis by (simp only: page_numbers_def map_map comp_def)
  qed
  also have "\<dots> = take (nat ?pages * nat len) items" by (rule concat_pages)
  also have "\<dots> = items"
  proof -
    have "length items \<le> nat (?pages * len)" using page_count_covers[of len "length items"] assms by simp
    then show ?thesis using pos assms by (simp add: nat_mult_distrib)
  qed
  finally show ?thesis .
qed

section \<open>The exchange sort of the domains\<close>

definition ordered :: "('a \<Rightarrow> 'k::linorder) \<Rightarrow> bool \<Rightarrow> 'a \<Rightarrow> 'a \<Rightarrow> bool" where
  "ordered key asc x y = (if asc then key x \<le> key y else key y \<le> key x)"

lemma exchange_inner_keeps:
  "i < j \<Longrightarrow> mset (exchange_inner before asc i j items) = mset items \<and> take i (exchange_inner before asc i j items) = take i items"
proof (induction before asc i j items rule: exchange_inner.induct)
  case (1 before asc i j items)
  show ?case
  proof (cases "j < length items")
    case True
    let ?next = "if before (items ! j) (items ! i) = asc then items[i := items ! j, j := items ! i] else items"
    have "mset ?next = mset items" using mset_swap[of j items i] True 1(2) by simp
    moreover have "take i ?next = take i items" using 1(2) by simp
    ultimately show ?thesis using 1(1)[OF True] 1(2) True by (simp add: exchange_inner.simps[of before asc i j items])
  qed (simp add: exchange_inner.simps[of before asc i j items])
qed

lemma length_exchange_inner: "i < j \<Longrightarrow> length (exchange_inner before asc i j items) = length items"
  using exchange_inner_keeps[of i j before asc items] mset_eq_length by blast

lemma exchange_inner_selects:
  fixes key :: "'a \<Rightarrow> 'k::linorder"
  assumes "i < j" "\<forall>k. i < k \<and> k < j \<and> k < length items \<longrightarrow> ordered key asc (items ! i) (items ! k)"
  shows "\<forall>k. i < k \<and> k < length items \<longrightarrow>
    ordered key asc (exchange_inner (\<lambda>x y. key x < key y) asc i j items ! i)
      (exchange_inner (\<lambda>x y. key x < key y) asc i j items ! k)"
  using assms
proof (induction "\<lambda>x y. key x < key y" asc i j items rule: exchange_inner.induct)
  case (1 asc i j items)
  show ?case
  proof (cases "j < length items")
    case True
    let ?next = "if (key (items ! j) < key (items ! i)) = asc then items[i := items ! j, j := items ! i] else items"
    have "\<forall>k. i < k \<and> k < j + 1 \<and> k < length ?next \<longrightarrow> ordered key asc (?next ! i) (?next ! k)"
    proof (intro allI impI)
      fix k assume k: "i < k \<and> k < j + 1 \<and> k < length ?next"
      show "ordered key asc (?next ! i) (?next ! k)"
      proof (cases "k = j")
        case k_j: True
        then show ?thesis using True 1(2) by (cases asc) (auto simp: ordered_def nth_list_update)
      next
        case False
        then have "ordered key asc (items ! i) (items ! k)" using 1(3) k True by (auto split: if_splits)
        then show ?thesis using False k True 1(2) by (cases asc) (auto simp: ordered_def nth_list_update)
      qed
    qed
    then have "\<forall>k. i < k \<and> k < length ?next \<longrightarrow>
        ordered key asc (exchange_inner (\<lambda>x y. key x < key y) asc i (j + 1) ?next ! i)
          (exchange_inner (\<lambda>x y. key x < key y) asc i (j + 1) ?next ! k)"
      using 1(1)[OF True] 1(2) by simp
    moreover have "length ?next = length items" by simp
    ultimately show ?thesis using True by (simp add: exchange_inner.simps[of _ asc i j items])
  next
    case False
    then show ?thesis using 1(3) by (simp add: exchange_inner.simps[of _ asc i j items])
  qed
qed

lemma exchange_outer_sorts:
  fixes key :: "'a \<Rightarrow> 'k::linorder"
  assumes "m \<le> length items"
    and "\<forall>a b. a < m \<and> a < b \<and> b < length items \<longrightarrow> ordered key asc (items ! a) (items ! b)"
  shows "mset (exchange_outer (\<lambda>x y. key x < key y) asc [m..<length items] items) = mset items \<and>
    sorted_wrt (ordered key asc) (exchange_outer (\<lambda>x y. key x < key y) asc [m..<length items] items)"
  using assms
proof (induction "length items - m" arbitrary: m items)
  case 0
  then show ?case by (auto simp: sorted_wrt_iff_nth_less)
next
  case (Suc d)
  let ?n = "length items"
  let ?items = "exchange_inner (\<lambda>x y. key x < key y) asc m (m + 1) items"
  have m: "m < ?n" using Suc.hyps(2) by simp
  have keeps: "mset ?items = mset items" "take m ?items = take m items" using exchange_inner_keeps[of m "m + 1"] by auto
  have len: "length ?items = ?n" by (rule mset_eq_length[OF keeps(1)])
  have rest: "set (drop m ?items) = set (drop m items)"
  proof -
    have "mset (take m ?items) + mset (drop m ?items) = mset (take m items) + mset (drop m items)"
      using keeps(1) by (metis append_take_drop_id mset_append)
    then show ?thesis using keeps(2) mset_eq_setD by auto
  qed
  have "ordered key asc (?items ! a) (?items ! b)" if ab: "a < m + 1" "a < b" "b < ?n" for a b
  proof (cases "a = m")
    case True
    have "\<forall>k. m < k \<and> k < m + 1 \<and> k < length items \<longrightarrow> ordered key asc (items ! m) (items ! k)" by auto
    then show ?thesis using exchange_inner_selects[of m "m + 1" items key asc] ab True by simp
  next
    case False
    then have a: "a < m" "?items ! a = items ! a" using ab(1) keeps(2) by (auto dest!: arg_cong[where f = "\<lambda>xs. xs ! a"])
    show ?thesis
    proof (cases "b < m")
      case True
      then have "?items ! b = items ! b" using keeps(2) by (auto dest!: arg_cong[where f = "\<lambda>xs. xs ! b"])
      then show ?thesis using Suc.prems(2) a ab by simp
    next
      case False
      then have "?items ! b \<in> set (drop m items)" using rest ab len nth_mem[of "b - m" "drop m ?items"] by simp
      then obtain c where "c < length (drop m items)" "?items ! b = drop m items ! c" by (metis in_set_conv_nth)
      then show ?thesis using Suc.prems(2) a m by simp
    qed
  qed
  then have "mset (exchange_outer (\<lambda>x y. key x < key y) asc [m + 1..<length ?items] ?items) = mset ?items \<and>
      sorted_wrt (ordered key asc) (exchange_outer (\<lambda>x y. key x < key y) asc [m + 1..<length ?items] ?items)"
    using Suc.hyps m len by (intro Suc.hyps(1)) auto
  moreover have "[m..<?n] = m # [m + 1..<length ?items]" using m len by (simp add: upt_conv_Cons)
  ultimately show ?case using keeps(1) by simp
qed

text \<open>The key an order of the domains compares, written out per field.\<close>

definition domains_ordered :: "SortInput \<Rightarrow> DomainListItem \<Rightarrow> DomainListItem \<Rightarrow> bool" where
  "domains_ordered order l r =
     (let asc = Sort_Direction order \<noteq> ''desc'' in
      if Sort_Field order = ''status'' then ordered (\<lambda>d. (DI_Status d, DI_Host d)) asc l r
      else if Sort_Field order = ''createdAt'' then ordered (\<lambda>d. (DI_CreatedAt d, DI_Host d)) asc l r
      else ordered DI_Host asc l r)"

lemma sortDomains_sorts: "mset (sortDomains order items) = mset items \<and> sorted_wrt (domains_ordered order) (sortDomains order items)"
proof -
  let ?asc = "Sort_Direction order \<noteq> ''desc''"
  note sorts = exchange_outer_sorts[of 0 items _ ?asc, simplified]
  consider (status) "Sort_Field order = ''status''" | (created) "Sort_Field order = ''createdAt''"
    | (host) "Sort_Field order \<noteq> ''status''" "Sort_Field order \<noteq> ''createdAt''" by blast
  then show ?thesis
  proof cases
    case status
    then have "domainLess order = (\<lambda>x y. (DI_Status x, DI_Host x) < (DI_Status y, DI_Host y))"
      "domains_ordered order = ordered (\<lambda>d. (DI_Status d, DI_Host d)) ?asc"
      by (auto simp: domainLess_def domains_ordered_def fun_eq_iff)
    then show ?thesis using sorts[of "\<lambda>d. (DI_Status d, DI_Host d)"] by (simp add: sortDomains_def)
  next
    case created
    then have "domainLess order = (\<lambda>x y. (DI_CreatedAt x, DI_Host x) < (DI_CreatedAt y, DI_Host y))"
      "domains_ordered order = ordered (\<lambda>d. (DI_CreatedAt d, DI_Host d)) ?asc"
      by (auto simp: domainLess_def domains_ordered_def fun_eq_iff)
    then show ?thesis using sorts[of "\<lambda>d. (DI_CreatedAt d, DI_Host d)"] by (simp add: sortDomains_def)
  next
    case host
    then have "domainLess order = (\<lambda>x y. DI_Host x < DI_Host y)" "domains_ordered order = ordered DI_Host ?asc"
      by (auto simp: domainLess_def domains_ordered_def fun_eq_iff)
    then show ?thesis using sorts[of DI_Host] by (simp add: sortDomains_def)
  qed
qed

section \<open>Walking through a list\<close>

text \<open>What a reader sees who asks for the pages \<open>1, 2, \<dots>\<close> up to the number of pages the first answer names.\<close>

definition walk_pages :: "(PageInput \<Rightarrow> ('i, 'f) ListPage) \<Rightarrow> int \<Rightarrow> 'i list" where
  "walk_pages list_of len =
     concat (map (\<lambda>page. LP_Items (list_of \<lparr>PgIn_Page = page, PgIn_PageSize = len\<rparr>))
       (page_numbers (PI_TotalPages (LP_PageInfo (list_of \<lparr>PgIn_Page = 1, PgIn_PageSize = len\<rparr>)))))"

lemma walk_pages_slices:
  assumes "1 \<le> len" "len \<le> 100"
    and items: "\<And>page. LP_Items (list_of page) = fst (pageSlice items page)"
    and info: "\<And>page. LP_PageInfo (list_of page) = snd (pageSlice items page)"
  shows "walk_pages list_of len = items"
  using pages_partition[OF assms(1,2), of items] pageSlice_page(2)[of len 1 items] page_count_pos[of len] assms(1,2)
  by (simp add: walk_pages_def items info)

lemma list_page_slices:
  "LP_Items (list_page env before field direction input items) =
     fst (pageSlice (sort_Slice env (before (normalizeSort (LI_Sort input) field direction)) items) (LI_Page input))"
  "LP_PageInfo (list_page env before field direction input items) =
     snd (pageSlice (sort_Slice env (before (normalizeSort (LI_Sort input) field direction)) items) (LI_Page input))"
  by (simp_all add: list_page_def Let_def split_beta)

lemma normalizeSort_default:
  "normalizeSort \<lparr>Sort_Field = [], Sort_Direction = []\<rparr> ''name'' ''asc'' = \<lparr>Sort_Field = ''name'', Sort_Direction = ''asc''\<rparr>"
  by code_simp

lemma walk_proxies:
  assumes "1 \<le> len" "len \<le> 100"
  shows "walk_pages (\<lambda>page. query_ListProxies env service (input \<lparr>LI_Page := page\<rparr>)) len =
    sort_Slice env (sortProxies (normalizeSort (LI_Sort input) ''name'' ''asc''))
      (filter (\<lambda>item. matchesProxyFilter item (LI_Filter input)) (proxy_items env service))"
  by (rule walk_pages_slices[OF assms]) (simp_all add: query_ListProxies_def list_page_slices)

lemma walk_domains:
  assumes "1 \<le> len" "len \<le> 100"
  shows "walk_pages (\<lambda>page. query_ListDomains env service (input \<lparr>LI_Page := page\<rparr>)) len =
    sortDomains (normalizeSort (LI_Sort input) ''host'' ''asc'')
      (map (query_domainListItem env service)
        (filter (\<lambda>webDomain. matchesDomainFilter webDomain (LI_Filter input)) (domains_List (QS_Store service))))"
  by (rule walk_pages_slices[OF assms]) (simp_all add: query_ListDomains_def Let_def split_beta)

text \<open>
  C3: A list of the administration can be read page by page: for every page length up to the limit of 100
  and every filter, the pages up to the number the first answer names hold every matching proxy, and every
  matching domain, exactly once; the proxies come in the order of their names when no order is asked for,
  and the domains in the order asked for, in either direction.\<close>
theorem list_pages_complete:
  assumes "sort_contract env" "1 \<le> len" "len \<le> 100"
  shows "mset (walk_pages (\<lambda>page. query_ListProxies env service (proxies \<lparr>LI_Page := page\<rparr>)) len) =
      mset (filter (\<lambda>item. matchesProxyFilter item (LI_Filter proxies)) (proxy_items env service)) \<and>
    (LI_Sort proxies = \<lparr>Sort_Field = [], Sort_Direction = []\<rparr> \<longrightarrow>
      sorted (map PX_Name (walk_pages (\<lambda>page. query_ListProxies env service (proxies \<lparr>LI_Page := page\<rparr>)) len))) \<and>
    mset (walk_pages (\<lambda>page. query_ListDomains env service (domains \<lparr>LI_Page := page\<rparr>)) len) =
      mset (map (query_domainListItem env service)
        (filter (\<lambda>webDomain. matchesDomainFilter webDomain (LI_Filter domains)) (domains_List (QS_Store service)))) \<and>
    sorted_wrt (domains_ordered (normalizeSort (LI_Sort domains) ''host'' ''asc''))
      (walk_pages (\<lambda>page. query_ListDomains env service (domains \<lparr>LI_Page := page\<rparr>)) len)"
proof -
  have name: "sortProxies \<lparr>Sort_Field = ''name'', Sort_Direction = ''asc''\<rparr> = (\<lambda>l r. PX_Name l < PX_Name r)"
    by (simp add: sortProxies_def directed_def fun_eq_iff)
  show ?thesis unfolding walk_proxies[OF assms(2,3)] walk_domains[OF assms(2,3)]
    by (intro conjI impI) (simp_all del: mset_filter mset_map
      add: sortDomains_sorts mset_sort_Slice[OF assms(1)] sorted_sort_Slice[OF assms(1)] normalizeSort_default name)
qed

definition sample_env :: QueryEnv where
  "sample_env = \<lparr>qe_Cert = \<lparr>ce_fc = (\<lambda>_. None), ce_EvalSymlinks = id, ce_Abs = id, ce_X509KeyPair = (\<lambda>_ _. Inl ErrNotFound),
       ce_ParseCertificate = (\<lambda>_. Inl ErrNotFound), ce_VerifyHostname = (\<lambda>_ _. Inr ()), ce_SHA256 = (\<lambda>_. []),
       ce_temp = (\<lambda>a b. a @ b)\<rparr>,
     qe_Disk = [], qe_Now = 5, qe_Sort = insertion_sort\<rparr>"

definition sample_query :: QueryService where
  "sample_query = \<lparr>QS_Store = emptyDB
       \<lparr>db_proxies := [zeroProxy \<lparr>Proxy_ID := ''p1'', Proxy_Name := ''ssh''\<rparr>, zeroProxy \<lparr>Proxy_ID := ''p2'', Proxy_Name := ''db''\<rparr>],
        db_users := [\<lparr>User_ID = ''u1'', User_Username = ''ann'', User_PasswordHash = [], User_Role = RoleUser,
                      User_Status = UserEnabled, User_CreatedAt = 1, User_UpdatedAt = 1\<rparr>]\<rparr>,
     QS_Sessions = None, QS_Stats = None, QS_CertificateDir = [], QS_RenewalWindow = 0, QS_OriginCARotationWindow = 0\<rparr>"

definition all_proxies :: "ProxyFilter ListInput" where
  "all_proxies = \<lparr>LI_Page = \<lparr>PgIn_Page = 1, PgIn_PageSize = 1\<rparr>,
     LI_Filter = \<lparr>PF_Query = [], PF_UserID = [], PF_ClientID = [], PF_Type = [], PF_Status = []\<rparr>,
     LI_Sort = \<lparr>Sort_Field = [], Sort_Direction = []\<rparr>\<rparr>"

definition all_domains :: "DomainFilter ListInput" where
  "all_domains = \<lparr>LI_Page = \<lparr>PgIn_Page = 1, PgIn_PageSize = 1\<rparr>,
     LI_Filter = \<lparr>DF_Query = [], DF_UserID = [], DF_Status = []\<rparr>, LI_Sort = \<lparr>Sort_Field = [], Sort_Direction = []\<rparr>\<rparr>"

lemma sample_env_sorts: "sort_contract sample_env"
  by (rule insertion_sort_contract) (simp add: sample_env_def)

lemma sample_walk:
  "map PX_Name (walk_pages (\<lambda>page. query_ListProxies sample_env sample_query (all_proxies \<lparr>LI_Page := page\<rparr>)) 1) = [''db'', ''ssh'']"
  by code_simp

theorem list_pages_complete_witness:
  "map PX_Name (walk_pages (\<lambda>page. query_ListProxies sample_env sample_query (all_proxies \<lparr>LI_Page := page\<rparr>)) 1) = [''db'', ''ssh''] \<and>
   mset (walk_pages (\<lambda>page. query_ListDomains sample_env sample_query (all_domains \<lparr>LI_Page := page\<rparr>)) 1) =
     mset (map (query_domainListItem sample_env sample_query)
       (filter (\<lambda>webDomain. matchesDomainFilter webDomain (LI_Filter all_domains)) (domains_List (QS_Store sample_query))))"
  using list_pages_complete[OF sample_env_sorts, of 1 sample_query all_proxies all_domains] sample_walk by simp

section \<open>The page limit\<close>

lemma take_misses:
  assumes "distinct (map key xs)" "n < length xs"
  obtains x where "x \<in> set xs" "find (\<lambda>y. key y = key x) (take n xs) = None"
proof
  show "xs ! n \<in> set xs" using assms(2) by simp
  have "key (xs ! k) \<noteq> key (xs ! n)" if "k < n" for k
    using assms nth_eq_iff_index_eq[OF assms(1), of k n] that by simp
  then show "find (\<lambda>y. key y = key (xs ! n)) (take n xs) = None"
    by (auto simp: find_None_iff in_set_conv_nth)
qed

lemma first_page_of_users:
  "sort_contract env \<Longrightarrow> LP_Items (query_ListUsers env service allUsersInput) =
     take 100 (sort_Slice env (sortUsers \<lparr>Sort_Field = ''username'', Sort_Direction = ''asc''\<rparr>) (user_items service))"
proof -
  assume a: "sort_contract env"
  have order: "normalizeSort \<lparr>Sort_Field = [], Sort_Direction = []\<rparr> ''username'' ''asc'' = \<lparr>Sort_Field = ''username'', Sort_Direction = ''asc''\<rparr>"
    by code_simp
  have "to_lower (trim_space []) = []" by code_simp
  then have all: "filter (\<lambda>item. matchesUserFilter item (LI_Filter allUsersInput)) items = items" for items
    by (simp add: matchesUserFilter_def field_matches_def query_matches_def allUsersInput_def)
  have capped: "normalizePage \<lparr>PgIn_Page = 1, PgIn_PageSize = 1000000\<rparr> = \<lparr>PgIn_Page = 1, PgIn_PageSize = 100\<rparr>"
    "normalizePage \<lparr>PgIn_Page = 1, PgIn_PageSize = 100\<rparr> = \<lparr>PgIn_Page = 1, PgIn_PageSize = 100\<rparr>"
    by code_simp+
  have slice: "fst (pageSlice items \<lparr>PgIn_Page = 1, PgIn_PageSize = 1000000\<rparr>) = take 100 items" for items :: "UserListItem list"
  proof -
    have "pageSlice items \<lparr>PgIn_Page = 1, PgIn_PageSize = 1000000\<rparr> = pageSlice items \<lparr>PgIn_Page = 1, PgIn_PageSize = 100\<rparr>"
      by (simp only: pageSlice_def capped)
    then show ?thesis using pageSlice_page(1)[of 100 1 items] page_count_pos[of 100 "length items"] by simp
  qed
  have "LI_Page allUsersInput = \<lparr>PgIn_Page = 1, PgIn_PageSize = 1000000\<rparr>"
    "LI_Sort allUsersInput = \<lparr>Sort_Field = [], Sort_Direction = []\<rparr>" by (simp_all add: allUsersInput_def)
  then show ?thesis unfolding query_ListUsers_def all list_page_slices(1) by (simp only: order slice)
qed

lemma find_unique:
  assumes "distinct (map key xs)" "x \<in> set xs" shows "find (\<lambda>y. key y = key x) xs = Some x"
proof -
  obtain y where y: "find (\<lambda>y. key y = key x) xs = Some y" using assms(2)
    by (cases "find (\<lambda>y. key y = key x) xs") (auto simp: find_None_iff)
  then show ?thesis using find_SomeD[OF y] assms by (simp add: distinct_map inj_on_def)
qed

definition user_item :: "QueryService \<Rightarrow> User \<Rightarrow> UserListItem \<Rightarrow> bool" where
  "user_item service user item \<longleftrightarrow> UI_ID item = User_ID user \<and> UI_Username item = User_Username user \<and>
     UI_Role item = User_Role user \<and> UI_Status item = User_Status user"

lemma user_items_of:
  "map UI_ID (user_items service) = map User_ID (filter (\<lambda>user. \<not> IsSystemUserID (User_ID user)) (users_List (QS_Store service)))"
  "item \<in> set (user_items service) \<Longrightarrow>
     \<exists>user \<in> set (db_users (QS_Store service)). \<not> IsSystemUserID (User_ID user) \<and> user_item service user item"
  by (auto simp: user_items_def Let_def comp_def user_item_def users_List_def)

lemma distinct_user_items:
  assumes "distinct (map User_ID (db_users (QS_Store service)))"
  shows "distinct (map UI_ID (user_items service))"
proof -
  have "mset (map User_ID (users_List (QS_Store service))) = mset (map User_ID (db_users (QS_Store service)))"
    by (simp add: users_List_def sql_list_def)
  then have "distinct (map User_ID (users_List (QS_Store service)))"
    using assms by (metis mset_eq_imp_distinct_iff)
  then show ?thesis unfolding user_items_of(1) by (rule distinct_map_filter)
qed

lemma users_ByID_found:
  "distinct (map User_ID (db_users db)) \<Longrightarrow> user \<in> set (db_users db) \<Longrightarrow> users_ByID db (User_ID user) = Inr user"
  using find_unique[of User_ID "db_users db" user] by (simp add: users_ByID_def sql_one_def)

lemma detail_of:
  assumes "sort_contract env" "distinct (map User_ID (db_users (QS_Store service)))"
    "user \<in> set (db_users (QS_Store service))" "\<not> IsSystemUserID (User_ID user)"
  shows "query_UserDetail env service (User_ID user) =
    (case find (\<lambda>item. UI_ID item = User_ID user)
       (take 100 (sort_Slice env (sortUsers \<lparr>Sort_Field = ''username'', Sort_Direction = ''asc''\<rparr>) (user_items service))) of
       Some item \<Rightarrow> Inr (item \<lparr>UI_CreatedAt := User_CreatedAt user, UI_UpdatedAt := User_UpdatedAt user\<rparr>)
     | None \<Rightarrow> Inl ErrNotFound)"
  by (simp add: query_UserDetail_def assms(4) users_ByID_found[OF assms(2,3)] rbind_def first_page_of_users[OF assms(1)])

lemma distinct_sorted_users:
  assumes "sort_contract env" "distinct (map User_ID (db_users (QS_Store service)))"
  shows "distinct (map UI_ID (sort_Slice env before (user_items service)))"
proof -
  have "mset (map UI_ID (sort_Slice env before (user_items service))) = mset (map UI_ID (user_items service))"
    by (simp add: mset_sort_Slice[OF assms(1)])
  then show ?thesis using distinct_user_items[OF assms(2)] by (metis mset_eq_imp_distinct_iff)
qed

text \<open>
  C2: The detail of a user is read from the first page of the list of users, which holds 100: with at most
  100 users besides the reserved one every user has a detail and it is the user's own; with more there is a
  user in the database whose detail is answered with \<open>not found\<close>; and the detail of the reserved user or
  of an id the database does not have is always \<open>not found\<close>.\<close>
theorem user_detail_within_limit:
  assumes "sort_contract env" "distinct (map User_ID (db_users (QS_Store service)))"
  shows "(length (user_items service) \<le> 100 \<longrightarrow>
       (\<forall>user \<in> set (db_users (QS_Store service)). \<not> IsSystemUserID (User_ID user) \<longrightarrow>
          (\<exists>item. query_UserDetail env service (User_ID user) = Inr item \<and> user_item service user item))) \<and>
    (length (user_items service) > 100 \<longrightarrow>
       (\<exists>user \<in> set (db_users (QS_Store service)). \<not> IsSystemUserID (User_ID user) \<and>
          query_UserDetail env service (User_ID user) = Inl ErrNotFound)) \<and>
    (\<forall>userID. IsSystemUserID userID \<or> userID \<notin> User_ID ` set (db_users (QS_Store service)) \<longrightarrow>
       query_UserDetail env service userID = Inl ErrNotFound)"
proof (intro conjI impI ballI allI)
  let ?sorted = "sort_Slice env (sortUsers \<lparr>Sort_Field = ''username'', Sort_Direction = ''asc''\<rparr>) (user_items service)"
  note set_sorted = set_sort_Slice[OF assms(1), of _ "user_items service"]
  note distinct = distinct_sorted_users[OF assms]
  {
    fix user assume few: "length (user_items service) \<le> 100" and user: "user \<in> set (db_users (QS_Store service))" "\<not> IsSystemUserID (User_ID user)"
    have "User_ID user \<in> set (map UI_ID (user_items service))" using user unfolding user_items_of(1) by (simp add: users_List_def)
    then obtain item where item: "item \<in> set ?sorted" "UI_ID item = User_ID user" using set_sorted by auto
    then obtain user' where user': "user' \<in> set (db_users (QS_Store service))" "user_item service user' item"
      using user_items_of(2)[of item service] set_sorted by auto
    have "user' = user" using user' user(1) item(2) assms(2) by (auto simp: user_item_def distinct_map inj_on_def)
    moreover have "take 100 ?sorted = ?sorted" using few assms(1) by simp
    ultimately show "\<exists>item. query_UserDetail env service (User_ID user) = Inr item \<and> user_item service user item"
      using find_unique[OF distinct item(1)] item(2) user'(2) by (simp add: detail_of[OF assms user] user_item_def)
  next
    assume "length (user_items service) > 100"
    then obtain item where item: "item \<in> set ?sorted" "find (\<lambda>y. UI_ID y = UI_ID item) (take 100 ?sorted) = None"
      using take_misses[OF distinct, of 100] assms(1) by (metis length_sort_Slice)
    then obtain user where user: "user \<in> set (db_users (QS_Store service))" "\<not> IsSystemUserID (User_ID user)" "user_item service user item"
      using user_items_of(2)[of item service] set_sorted by auto
    then show "\<exists>user \<in> set (db_users (QS_Store service)). \<not> IsSystemUserID (User_ID user) \<and>
        query_UserDetail env service (User_ID user) = Inl ErrNotFound"
      using item(2) detail_of[OF assms user(1,2)] by (auto simp: user_item_def)
  next
    fix userID assume "IsSystemUserID userID \<or> userID \<notin> User_ID ` set (db_users (QS_Store service))"
    moreover have "users_ByID (QS_Store service) userID = Inl ErrNotFound" if "userID \<notin> User_ID ` set (db_users (QS_Store service))"
      using that by (auto simp: users_ByID_def sql_one_def find_None_iff image_iff split: option.splits dest: find_SomeD)
    ultimately show "query_UserDetail env service userID = Inl ErrNotFound" by (auto simp: query_UserDetail_def rbind_def)
  }
qed

theorem user_detail_within_limit_witness:
  "(\<exists>item. query_UserDetail sample_env sample_query ''u1'' = Inr item \<and> UI_Username item = ''ann'') \<and>
   query_UserDetail sample_env sample_query SystemUserID = Inl ErrNotFound"
proof -
  have unique: "distinct (map User_ID (db_users (QS_Store sample_query)))" by (simp add: sample_query_def)
  have few: "length (user_items sample_query) \<le> 100" by code_simp
  have users: "db_users (QS_Store sample_query) =
      [\<lparr>User_ID = ''u1'', User_Username = ''ann'', User_PasswordHash = [], User_Role = RoleUser,
        User_Status = UserEnabled, User_CreatedAt = 1, User_UpdatedAt = 1\<rparr>]" by (simp add: sample_query_def)
  have system: "\<not> IsSystemUserID ''u1''" "IsSystemUserID SystemUserID" by (simp_all add: IsSystemUserID_def)
  note all = user_detail_within_limit[OF sample_env_sorts unique]
  show ?thesis using all few system by (auto simp: users user_item_def)
qed

section \<open>The audit log\<close>

lemma has_next:
  assumes "1 \<le> page" "1 \<le> len" "len \<le> 100"
  shows "PI_HasNext (snd (pageSlice items \<lparr>PgIn_Page = page, PgIn_PageSize = len\<rparr>)) \<longleftrightarrow> page < page_count len (length items)"
proof -
  have "normalizePage \<lparr>PgIn_Page = page, PgIn_PageSize = len\<rparr> = \<lparr>PgIn_Page = page, PgIn_PageSize = len\<rparr>"
    using assms by (simp add: normalizePage_def)
  then show ?thesis unfolding pageSlice_def Let_def page_count_def[unfolded Let_def, symmetric] by simp
qed

lemma audit_pager_stops:
  assumes "sort_contract env" "1 \<le> page" "1 \<le> len" "len \<le> 100" "50 \<le> page * len" "page * len \<le> int64_max"
  shows "\<not> PI_HasNext (LP_PageInfo (query_ListRecentAuditEvents env service
           (input \<lparr>LI_Page := \<lparr>PgIn_Page = page, PgIn_PageSize = len\<rparr>\<rparr>)))"
proof -
  let ?page = "\<lparr>PgIn_Page = page, PgIn_PageSize = len\<rparr>"
  have norm: "normalizePage ?page = ?page" using assms(2-4) by (simp add: normalizePage_def)
  have "audit_limit ?page = page * len"
    using assms(5,6) by (simp add: audit_limit_def norm mult.commute is_int64_def int64_min_def int64_max_def)
  then have few: "int (length (filter P (map audit_item (audit_ListRecent db (audit_limit ?page))))) \<le> page * len" for P db
  proof -
    have "length (filter P (map audit_item (audit_ListRecent db (audit_limit ?page)))) \<le> length (audit_ListRecent db (audit_limit ?page))"
      by (rule order.trans[OF length_filter_le]) simp
    also have "\<dots> \<le> nat (page * len)" using \<open>audit_limit ?page = page * len\<close> assms(5) by (simp add: audit_ListRecent_def)
    finally show ?thesis using assms(5) by linarith
  qed
  have "\<not> PI_HasNext (snd (pageSlice items ?page))" if n: "int (length items) \<le> page * len" for items :: "AuditListItem list"
  proof -
    obtain q r where q: "int (length items) = q * len + r" "0 \<le> q" "0 \<le> r" "r < len"
      "page_count len (length items) = (if r \<noteq> 0 then q + 1 else if q = 0 then 1 else q)"
      using page_count_facts[of len "length items"] assms(3) by auto
    have "q * len \<le> page * len" using q n by linarith
    then have le: "q \<le> page" using assms(3) by simp
    have "q < page" if "r \<noteq> 0"
    proof (rule ccontr)
      assume "\<not> q < page"
      then have "q = page" using le by simp
      then show False using that q(1,3) n by simp
    qed
    then have "page_count len (length items) \<le> page" using q(5) le assms(2) by auto
    then show ?thesis using has_next[of page len items] assms(2-4) by simp
  qed
  then have "\<not> PI_HasNext (snd (pageSlice (sort_Slice env before (filter P (map audit_item (audit_ListRecent db (audit_limit ?page))))) ?page))"
    for before P db using few by (simp only: length_sort_Slice[OF assms(1)] not_False_eq_True)
  moreover have "LI_Page (input \<lparr>LI_Page := ?page\<rparr>) = ?page" by simp
  ultimately show ?thesis unfolding query_ListRecentAuditEvents_def list_page_slices(2) by (simp only: not_False_eq_True)
qed

section \<open>The dashboard and the list of proxies\<close>

lemma wrap64_add: "wrap64 (wrap64 a + b) = wrap64 (a + b)"
  unfolding wrap64_def by (simp add: algebra_simps mod_simps)

lemma fold_add64: "fold (\<lambda>x a. add64 a (f x)) xs (wrap64 c) = wrap64 (c + (\<Sum>x \<leftarrow> xs. f x))"
  by (induction xs arbitrary: c) (simp_all add: add64_def wrap64_add add.assoc)

lemma dashboard_agrees_with_list:
  "DS_CumulativeUploadBytes (query_DashboardSummary service) = wrap64 (\<Sum>item \<leftarrow> proxy_items env service. PX_UploadBytes item) \<and>
   DS_CumulativeDownloadBytes (query_DashboardSummary service) = wrap64 (\<Sum>item \<leftarrow> proxy_items env service. PX_DownloadBytes item) \<and>
   DS_ActiveTCPConnectionCount (query_DashboardSummary service) =
     wrap64 (\<Sum>item \<leftarrow> proxy_items env service. PX_ActiveTCPConnections item)"
proof -
  let ?stats = "statsByProxy service"
  have project: "get (fold (dashboard_add ?stats) proxies s) = fold (\<lambda>proxy a. add64 a (f (stats_at ?stats (Proxy_ID proxy)))) proxies (get s)"
    if "\<And>proxy s. get (dashboard_add ?stats proxy s) = add64 (get s) (f (stats_at ?stats (Proxy_ID proxy)))" for get f s proxies
    using that by (induction proxies arbitrary: s) auto
  have zero: "fold (\<lambda>x a. add64 a (f x)) xs 0 = wrap64 (\<Sum>x \<leftarrow> xs. f x)" for f :: "Proxy \<Rightarrow> int" and xs
    using fold_add64[of f xs 0] by (simp add: wrap64_def)
  note projects = project[of DS_CumulativeUploadBytes uploadBytes] project[of DS_CumulativeDownloadBytes downloadBytes]
    project[of DS_ActiveTCPConnectionCount PS_TCPCurrentConnections]
  show ?thesis
    by (simp add: query_DashboardSummary_def projects dashboard_add_def Let_def zero proxy_items_def proxyListItemFromDomain_def comp_def)
qed

text \<open>
  A web proxy whose domain binds no certificate, as one with HTTP entries only, is shown as in need of
  configuration in the detail of its client, and as online in the list of proxies.
\<close>

lemma runtime_status_disagrees:
  assumes "Proxy_Status proxy = ProxyEnabled" "proxyType_IsWeb (Proxy_Type proxy)" "Ses_ID s \<noteq> []"
  shows "PX_RuntimeStatus (proxyListItemFromDomain proxy s stats None) = ProxyOnline \<and>
    PSum_RuntimeStatus (proxySummaryFromDomain proxy s stats None) = ProxyNeedsConf"
  using assms by (simp add: proxyListItemFromDomain_def proxySummaryFromDomain_def list_runtime_status_def
      summary_runtime_status_def certificateInvalid_def)

text \<open>A certificate is marked for a strong confirmation exactly when a domain binds it and it can be served.\<close>

lemma deletion_risk_exact:
  "MS_DeletionRisk (applyCertificateReferenceFields service (managedCertificateSummary env service certificate) bound) =
     CertificateDeletionRiskRequiresStrongConfirmation \<longleftrightarrow>
   bound \<noteq> None \<and>
   ServesTLS (MS_ServingStatus (managedCertificateSummary env service certificate)) \<and>
   \<not> BlocksServing (MS_ProviderStatus (managedCertificateSummary env service certificate))"
  by (auto simp: applyCertificateReferenceFields_def Let_def certificateInvalid_def split: option.splits list.splits if_splits)

end
