(* ===== verification/AdminApi.thy ===== *)
theory AdminApi
  imports AdminClients QueryOps Protocol
begin

text \<open>
  The HTTP interface of the administration, internal/adminapi: the administrator's session as a signed
  token (session_manager.go), the handlers of server.go, and the inputs of the operations read from
  GraphQL arguments. HMAC, JSON and the GraphQL library are parameters; what a handler answers, and the
  document it hands to the GraphQL library, are the list of its effects. The schema, which maps the names
  of GraphQL fields to the operations of the services, is left out.
\<close>

section \<open>Sessions\<close>

record administratorSession =
  AS_ID :: string
  AS_Username :: string
  AS_CSRFToken :: string
  AS_CreatedAt :: time
  AS_ExpiresAt :: time

record sessionManager =
  sm_secret :: string
  sm_absoluteLifetime :: duration

record adminJWTHeader =
  JH_Algorithm :: string
  JH_Type :: string

record adminJWTClaims =
  JC_Type :: string
  JC_Version :: int
  JC_Subject :: string
  JC_IssuedAt :: int
  JC_ExpiresAt :: int
  JC_CSRFToken :: string

record JwtCodec =
  jw_MarshalHeader :: "adminJWTHeader \<Rightarrow> string result"
  jw_UnmarshalHeader :: "string \<Rightarrow> adminJWTHeader result"
  jw_MarshalClaims :: "adminJWTClaims \<Rightarrow> string result"
  jw_UnmarshalClaims :: "string \<Rightarrow> adminJWTClaims result"
  jw_HMAC :: "string \<Rightarrow> string \<Rightarrow> string"

definition defaultSessionAbsoluteLifetime :: duration where "defaultSessionAbsoluteLifetime = 7 * 24 * Hour"
definition adminJWTVersion :: int where "adminJWTVersion = 1"
abbreviation adminJWTType :: string where "adminJWTType \<equiv> ''admin''"
definition minAdminJWTSecretLength :: int where "minAdminJWTSecretLength = 32"
definition maxAdminJWTFutureIssuedSkew :: duration where "maxAdminJWTFutureIssuedSkew = Minute"

text \<open>\<open>t.Unix()\<close> and \<open>time.Unix(s, 0)\<close>.\<close>

definition time_Unix :: "time \<Rightarrow> int" where
  "time_Unix t = (t - unix_epoch) div Second"

definition from_Unix :: "int \<Rightarrow> time" where
  "from_Unix s = s * Second + unix_epoch"

definition newSessionManager :: "string \<Rightarrow> duration \<Rightarrow> sessionManager result" where
  "newSessionManager secret absoluteLifetime =
     (if int (length secret) < minAdminJWTSecretLength then Inl (New ''admin jwt secret must be at least 32 bytes'')
      else Inr \<lparr>sm_secret = secret,
                sm_absoluteLifetime = (if absoluteLifetime \<le> 0 then defaultSessionAbsoluteLifetime else absoluteLifetime)\<rparr>)"

text \<open>\<open>rand.Read\<close> fills the buffer or fails.\<close>

definition randomToken :: "string result \<Rightarrow> string result" where
  "randomToken buffer = rbind buffer (\<lambda>bytes. Inr (b64_encode bytes))"

definition jwt_signature :: "JwtCodec \<Rightarrow> sessionManager \<Rightarrow> string \<Rightarrow> string" where
  "jwt_signature codec manager unsignedPart = b64_encode (jw_HMAC codec (sm_secret manager) unsignedPart)"

definition jwt_sign :: "JwtCodec \<Rightarrow> sessionManager \<Rightarrow> adminJWTClaims \<Rightarrow> string result" where
  "jwt_sign codec manager claims =
     rbind (jw_MarshalHeader codec \<lparr>JH_Algorithm = ''HS256'', JH_Type = ''JWT''\<rparr>) (\<lambda>headerJSON.
     rbind (jw_MarshalClaims codec claims) (\<lambda>claimsJSON.
       (let unsignedPart = b64_encode headerJSON @ ''.'' @ b64_encode claimsJSON
        in Inr (unsignedPart @ ''.'' @ jwt_signature codec manager unsignedPart))))"

definition admin_validClaims :: "time \<Rightarrow> adminJWTClaims \<Rightarrow> bool" where
  "admin_validClaims now claims =
     (if JC_Type claims \<noteq> adminJWTType \<or> JC_Version claims \<noteq> adminJWTVersion then False
      else if blank (JC_Subject claims) \<or> blank (JC_CSRFToken claims) then False
      else if JC_IssuedAt claims \<le> 0 \<or> JC_ExpiresAt claims \<le> 0 \<or> JC_ExpiresAt claims \<le> JC_IssuedAt claims then False
      else if from_Unix (JC_IssuedAt claims) > now + maxAdminJWTFutureIssuedSkew then False
      else from_Unix (JC_ExpiresAt claims) > now)"

text \<open>The bytes are compared without an early exit.\<close>

definition subtleConstantTimeEquals :: "string \<Rightarrow> string \<Rightarrow> bool" where
  "subtleConstantTimeEquals left right =
     (if length left \<noteq> length right then False
      else fold (\<lambda>(l, r) res. or res (xor (of_char l) (of_char r))) (zip left right) (0 :: 8 word) = 0)"

definition jwt_verify :: "JwtCodec \<Rightarrow> sessionManager \<Rightarrow> time \<Rightarrow> string \<Rightarrow> adminJWTClaims option" where
  "jwt_verify codec manager now token =
     (case split_on CHR ''.'' (trim_space token) of
        [header, payload, signature] \<Rightarrow>
          (if header = [] \<or> payload = [] \<or> signature = [] then None
           else if \<not> subtleConstantTimeEquals signature (jwt_signature codec manager (header @ ''.'' @ payload)) then None
           else case rbind (b64_decode header) (jw_UnmarshalHeader codec) of
                  Inl _ \<Rightarrow> None
                | Inr h \<Rightarrow>
                    (if JH_Algorithm h \<noteq> ''HS256'' \<or> JH_Type h \<noteq> ''JWT'' then None
                     else case rbind (b64_decode payload) (jw_UnmarshalClaims codec) of
                            Inl _ \<Rightarrow> None
                          | Inr claims \<Rightarrow> (if admin_validClaims now claims then Some claims else None)))
      | _ \<Rightarrow> None)"

definition session_Create ::
    "JwtCodec \<Rightarrow> sessionManager \<Rightarrow> time \<Rightarrow> string result \<Rightarrow> string \<Rightarrow> administratorSession result" where
  "session_Create codec manager now random username =
     rbind (randomToken random) (\<lambda>csrfToken.
       (let expires = now + sm_absoluteLifetime manager in
        rbind (jwt_sign codec manager
                 \<lparr>JC_Type = adminJWTType, JC_Version = adminJWTVersion, JC_Subject = username,
                  JC_IssuedAt = time_Unix now, JC_ExpiresAt = time_Unix expires, JC_CSRFToken = csrfToken\<rparr>) (\<lambda>token.
          Inr \<lparr>AS_ID = token, AS_Username = username, AS_CSRFToken = csrfToken, AS_CreatedAt = now, AS_ExpiresAt = expires\<rparr>)))"

definition session_Get :: "JwtCodec \<Rightarrow> sessionManager \<Rightarrow> time \<Rightarrow> string \<Rightarrow> administratorSession option" where
  "session_Get codec manager now token =
     map_option (\<lambda>claims. \<lparr>AS_ID = token, AS_Username = JC_Subject claims, AS_CSRFToken = JC_CSRFToken claims,
                    AS_CreatedAt = from_Unix (JC_IssuedAt claims), AS_ExpiresAt = from_Unix (JC_ExpiresAt claims)\<rparr>)
       (jwt_verify codec manager now token)"

definition session_Invalidate :: "string \<Rightarrow> sessionManager \<Rightarrow> sessionManager" where
  "session_Invalidate token manager = manager"

section \<open>Requests and answers\<close>

abbreviation adminAPIPrefix :: string where "adminAPIPrefix \<equiv> ''/api/admin''"
abbreviation clientEnrollmentPrefix :: string where "clientEnrollmentPrefix \<equiv> ''/api/client''"
abbreviation adminSessionCookieName :: string where "adminSessionCookieName \<equiv> ''goginx_admin_session''"

record AdminRequest =
  AR_Method :: string
  AR_Path :: string
  AR_TLS :: bool
  AR_ForwardedProto :: string
  AR_RemoteAddr :: string
  AR_Cookies :: "string list"
  AR_CSRF :: string
  AR_Body :: string

record loginRequest =
  LRq_Username :: string
  LRq_Password :: string

record graphqlRequest =
  GR_Query :: string
  GR_OperationName :: string
  GR_Variables :: string

text \<open>A definition of a parsed document: an operation with its name and type, or something else.\<close>

datatype graphqlDefinition = OperationDefinition "string option" string | OtherDefinition

datatype ApiEffect =
    ApiError int string string
  | GraphqlError int string string
  | Bootstrap "administratorSession option"
  | SetSessionCookie string bool time int
  | ClearSessionCookie bool
  | GraphqlDo string graphqlRequest
  | FrontendFile string
  | FrontendIndex
  | NotFoundPage
  | MuxAnswers string

record ApiServer =
  api_Sessions :: sessionManager
  api_Creds :: "string \<Rightarrow> string \<Rightarrow> bool"

record ApiEnv =
  ae_Codec :: JwtCodec
  ae_Now :: time
  ae_Random :: "string result"
  ae_DecodeLogin :: "string \<Rightarrow> loginRequest result"
  ae_DecodeGraphql :: "string \<Rightarrow> graphqlRequest result"
  ae_Parse :: "string \<Rightarrow> graphqlDefinition list result"
  ae_File :: "string \<Rightarrow> bool"

section \<open>Credentials\<close>

type_synonym credentialSet = "(string, string) gomap"

record administratorCredential =
  AdmC_Username :: string
  AdmC_PasswordHash :: string

fun load_credentials_loop :: "administratorCredential list \<Rightarrow> credentialSet \<Rightarrow> credentialSet result" where
  "load_credentials_loop [] creds = Inr creds"
| "load_credentials_loop (c # cs) creds =
     (if blank (AdmC_Username c) \<or> blank (AdmC_PasswordHash c)
      then Inl (New ''administrator username and password_hash are required'')
      else load_credentials_loop cs (gm_put (AdmC_Username c) (AdmC_PasswordHash c) creds))"

definition loadCredentials :: "administratorCredential list result \<Rightarrow> credentialSet result" where
  "loadCredentials file =
     rbind file (\<lambda>administrators.
     rbind (load_credentials_loop administrators []) (\<lambda>creds.
       if creds = [] then Inl (New ''at least one administrator credential is required'') else Inr creds))"

definition credentialSet_Verify :: "(string \<Rightarrow> string \<Rightarrow> bool) \<Rightarrow> credentialSet \<Rightarrow> string \<Rightarrow> string \<Rightarrow> bool" where
  "credentialSet_Verify bcrypt creds username password =
     CheckPasswordHash bcrypt password (case gm_get creds username of None \<Rightarrow> [] | Some h \<Rightarrow> h)"

definition sqlite_Verify :: "(string \<Rightarrow> string \<Rightarrow> bool) \<Rightarrow> DB option \<Rightarrow> string \<Rightarrow> string \<Rightarrow> bool" where
  "sqlite_Verify bcrypt store username password =
     (case store of
        None \<Rightarrow> False
      | Some db \<Rightarrow>
          (case users_ByUsername db username of
             Inl _ \<Rightarrow> False
           | Inr user \<Rightarrow>
               (if User_Role user \<noteq> RoleAdmin \<or> User_Status user \<noteq> UserEnabled then False
                else CheckPasswordHash bcrypt password (User_PasswordHash user))))"

section \<open>Handlers\<close>

definition ip_IsLoopback :: "int list \<Rightarrow> bool" where
  "ip_IsLoopback fs \<longleftrightarrow> (if is_v4_mapped fs then fs ! 6 div 256 = 127 else fs = [0, 0, 0, 0, 0, 0, 0, 1])"

definition requestUsesProtectedTransport :: "AdminRequest \<Rightarrow> bool" where
  "requestUsesProtectedTransport r =
     (if AR_TLS r then True
      else if equal_fold (AR_ForwardedProto r) ''https'' then True
      else (let host = (case SplitHostPort (AR_RemoteAddr r) of None \<Rightarrow> AR_RemoteAddr r | Some (h, p) \<Rightarrow> h) in
            case ParseIP host of None \<Rightarrow> False | Some ip \<Rightarrow> ip_IsLoopback ip))"

definition requestHasTLSCookieContext :: "AdminRequest \<Rightarrow> bool" where
  "requestHasTLSCookieContext r \<longleftrightarrow> AR_TLS r \<or> equal_fold (AR_ForwardedProto r) ''https''"

definition sessionIDFromRequest :: "AdminRequest \<Rightarrow> string option" where
  "sessionIDFromRequest r =
     (case request_Cookie (AR_Cookies r) adminSessionCookieName of
        None \<Rightarrow> None
      | Some cookie \<Rightarrow> (if blank (snd cookie) then None else Some (snd cookie)))"

definition clearSessionCookie :: "AdminRequest \<Rightarrow> ApiEffect" where
  "clearSessionCookie r = ClearSessionCookie (requestHasTLSCookieContext r)"

definition authenticateSession ::
    "ApiEnv \<Rightarrow> ApiServer \<Rightarrow> AdminRequest \<Rightarrow> administratorSession option \<times> ApiEffect list" where
  "authenticateSession env server r =
     (case sessionIDFromRequest r of
        None \<Rightarrow> (None, [])
      | Some sessionID \<Rightarrow>
          (case session_Get (ae_Codec env) (api_Sessions server) (ae_Now env) sessionID of
             None \<Rightarrow> (None, [clearSessionCookie r])
           | Some session \<Rightarrow> (Some session, [])))"

definition hasValidCSRFToken :: "AdminRequest \<Rightarrow> administratorSession \<Rightarrow> bool" where
  "hasValidCSRFToken r session = subtleConstantTimeEquals (AR_CSRF r) (AS_CSRFToken session)"

definition writeSessionCookie :: "ApiEnv \<Rightarrow> AdminRequest \<Rightarrow> administratorSession \<Rightarrow> ApiEffect" where
  "writeSessionCookie env r session =
     (let expires = (if IsZero (AS_ExpiresAt session) then ae_Now env + defaultSessionAbsoluteLifetime else AS_ExpiresAt session);
          maxAge0 = time_Sub expires (AS_CreatedAt session) div Second;
          maxAge = (if maxAge0 \<le> 0 then defaultSessionAbsoluteLifetime div Second else maxAge0)
      in SetSessionCookie (AS_ID session) (requestHasTLSCookieContext r) expires maxAge)"

definition method_not_allowed :: "ApiEffect list" where
  "method_not_allowed = [ApiError 405 ''METHOD_NOT_ALLOWED'' ''method not allowed'']"

definition loginHandler :: "ApiEnv \<Rightarrow> ApiServer \<Rightarrow> AdminRequest \<Rightarrow> ApiEffect list" where
  "loginHandler env server r =
     (if AR_Method r \<noteq> ''POST'' then method_not_allowed
      else case ae_DecodeLogin env (AR_Body r) of
        Inl err \<Rightarrow> [ApiError 400 ''BAD_REQUEST'' (error_text err)]
      | Inr request \<Rightarrow>
          (if blank (LRq_Username request) \<or> blank (LRq_Password request)
           then [ApiError 400 ''VALIDATION_FAILED'' ''validation failed'']
           else if \<not> api_Creds server (LRq_Username request) (LRq_Password request)
           then [ApiError 401 ''UNAUTHENTICATED'' ''invalid administrator credentials'']
           else (let sessions = (case sessionIDFromRequest r of
                                   None \<Rightarrow> api_Sessions server
                                 | Some existingID \<Rightarrow> session_Invalidate existingID (api_Sessions server)) in
                 case session_Create (ae_Codec env) sessions (ae_Now env) (ae_Random env) (LRq_Username request) of
                   Inl _ \<Rightarrow> [ApiError 500 ''INTERNAL'' ''internal server error'']
                 | Inr session \<Rightarrow> [writeSessionCookie env r session, Bootstrap (Some session)])))"

definition sessionHandler :: "ApiEnv \<Rightarrow> ApiServer \<Rightarrow> AdminRequest \<Rightarrow> ApiEffect list" where
  "sessionHandler env server r =
     (if AR_Method r \<noteq> ''GET'' then method_not_allowed
      else case authenticateSession env server r of (session, effects) \<Rightarrow> effects @ [Bootstrap session])"

definition logoutHandler :: "ApiEnv \<Rightarrow> ApiServer \<Rightarrow> AdminRequest \<Rightarrow> ApiEffect list \<times> ApiServer" where
  "logoutHandler env server r =
     (if AR_Method r \<noteq> ''POST'' then (method_not_allowed, server)
      else case sessionIDFromRequest r of
        None \<Rightarrow> ([clearSessionCookie r, Bootstrap None], server)
      | Some sessionID \<Rightarrow>
          (if (case session_Get (ae_Codec env) (api_Sessions server) (ae_Now env) sessionID of
                 None \<Rightarrow> False | Some session \<Rightarrow> \<not> hasValidCSRFToken r session)
           then ([ApiError 403 ''INVALID_CSRF'' ''csrf token is invalid''], server)
           else ([clearSessionCookie r, Bootstrap None],
                 server \<lparr>api_Sessions := session_Invalidate sessionID (api_Sessions server)\<rparr>)))"

fun document_operations :: "graphqlDefinition list \<Rightarrow> (string option \<times> string) list" where
  "document_operations [] = []"
| "document_operations (OperationDefinition name operation # rest) = (name, operation) # document_operations rest"
| "document_operations (OtherDefinition # rest) = document_operations rest"

definition graphqlOperationType :: "ApiEnv \<Rightarrow> graphqlRequest \<Rightarrow> string result" where
  "graphqlOperationType env request =
     rbind (ae_Parse env (GR_Query request)) (\<lambda>document.
       (let operations = document_operations document in
        if operations = [] then Inl (New ''graphql document contains no operations'')
        else if \<not> blank (GR_OperationName request) then
          (case find (\<lambda>op. fst op = Some (GR_OperationName request)) operations of
             Some op \<Rightarrow> Inr (snd op)
           | None \<Rightarrow> Inl (New ''graphql operationName was not found''))
        else if length operations > 1
        then Inl (New ''graphql operationName is required when multiple operations are present'')
        else Inr (snd (hd operations))))"

definition graphqlHandler :: "ApiEnv \<Rightarrow> ApiServer \<Rightarrow> AdminRequest \<Rightarrow> ApiEffect list" where
  "graphqlHandler env server r =
     (if AR_Method r \<noteq> ''POST'' then method_not_allowed
      else case authenticateSession env server r of
        (None, effects) \<Rightarrow> effects @ [GraphqlError 401 ''UNAUTHENTICATED'' ''administrator session is required'']
      | (Some session, effects) \<Rightarrow>
          (case ae_DecodeGraphql env (AR_Body r) of
             Inl _ \<Rightarrow> effects @ [GraphqlError 400 ''VALIDATION_FAILED'' ''invalid graphql request'']
           | Inr request \<Rightarrow>
               (case graphqlOperationType env request of
                  Inl _ \<Rightarrow> effects @ [GraphqlError 400 ''VALIDATION_FAILED'' ''invalid graphql operation'']
                | Inr operationType \<Rightarrow>
                    (if operationType = ''mutation'' \<and> \<not> hasValidCSRFToken r session
                     then effects @ [GraphqlError 403 ''FORBIDDEN'' ''csrf token is invalid'']
                     else effects @ [GraphqlDo (AS_Username session) request]))))"

section \<open>The frontend\<close>

definition normalizeFrontendPath :: "string \<Rightarrow> string option" where
  "normalizeFrontendPath requestPath =
     (if requestPath = [] then Some []
      else let cleaned = filepath_Clean (''/'' @ requestPath) in
        if cleaned = ''/'' then Some []
        else let trimmed = trim_prefix cleaned ''/'' in
          if trimmed = [] \<or> trimmed = ''.'' \<or> has_prefix trimmed ''../'' \<or> trimmed = ''..'' then None else Some trimmed)"

definition path_base :: "string \<Rightarrow> string" where
  "path_base relativePath = (case rev (path_parts relativePath) of [] \<Rightarrow> (if relativePath = [] then ''.'' else ''/'') | b # _ \<Rightarrow> b)"

definition frontendPathLooksLikeAsset :: "string \<Rightarrow> bool" where
  "frontendPathLooksLikeAsset relativePath = contains_sub (path_base relativePath) ''.''"

text \<open>None: not handled, and routeHandler answers with not found.\<close>

definition serveFrontend :: "ApiEnv \<Rightarrow> AdminRequest \<Rightarrow> ApiEffect list option" where
  "serveFrontend env r =
     (if AR_Method r \<noteq> ''GET'' \<and> AR_Method r \<noteq> ''HEAD'' then None
      else case normalizeFrontendPath (AR_Path r) of
        None \<Rightarrow> Some [NotFoundPage]
      | Some cleanPath \<Rightarrow>
          (if cleanPath \<noteq> [] \<and> ae_File env cleanPath then Some [FrontendFile cleanPath]
           else if cleanPath \<noteq> [] \<and> frontendPathLooksLikeAsset cleanPath then Some [NotFoundPage]
           else Some [FrontendIndex]))"

definition api_mux :: "ApiEnv \<Rightarrow> ApiServer \<Rightarrow> AdminRequest \<Rightarrow> ApiEffect list" where
  "api_mux env server r =
     (if AR_Path r = adminAPIPrefix @ ''/login'' then loginHandler env server r
      else if AR_Path r = adminAPIPrefix @ ''/session'' then sessionHandler env server r
      else if AR_Path r = adminAPIPrefix @ ''/logout'' then fst (logoutHandler env server r)
      else if AR_Path r = adminAPIPrefix @ ''/graphql'' then graphqlHandler env server r
      else [MuxAnswers (AR_Path r)])"

definition routeHandler :: "ApiEnv \<Rightarrow> ApiServer \<Rightarrow> AdminRequest \<Rightarrow> ApiEffect list" where
  "routeHandler env server r =
     (if \<not> requestUsesProtectedTransport r
      then [ApiError 426 ''PROTECTED_TRANSPORT_REQUIRED'' ''management endpoint requires protected transport'']
      else if \<not> has_prefix (AR_Path r) adminAPIPrefix \<and> \<not> has_prefix (AR_Path r) clientEnrollmentPrefix
      then (case serveFrontend env r of Some effects \<Rightarrow> effects | None \<Rightarrow> [NotFoundPage])
      else api_mux env server r)"

section \<open>Errors\<close>

definition safeMessage :: "string \<Rightarrow> string" where
  "safeMessage code =
     (if code = ''UNAUTHENTICATED'' then ''authentication is required''
      else if code = ''FORBIDDEN'' then ''request is forbidden''
      else if code = ''VALIDATION_FAILED'' then ''validation failed''
      else if code = ''NOT_FOUND'' then ''resource was not found''
      else if code = ''CONFLICT'' then ''resource conflict''
      else if code = ''UNSUPPORTED'' then ''operation is not supported''
      else if code = ''ENTRY_CONFLICT'' then ''requested listener conflicts with an active listener''
      else ''internal server error'')"

text \<open>The code and the message of the first contract error in the chain, which errors.As finds.\<close>

fun contract_as :: "error \<Rightarrow> (string \<times> string) option" where
  "contract_as (Contract c m e) = Some (c, m)"
| "contract_as (Wrapf s e) = contract_as e"
| "contract_as (Sentinel s) = None"
| "contract_as (New s) = None"

text \<open>\<open>cloudflare\<close> answers whether the chain holds an error of the Cloudflare client, and with which text.\<close>

definition translateGraphQLError :: "(error \<Rightarrow> string option) \<Rightarrow> error \<Rightarrow> string \<times> string" where
  "translateGraphQLError cloudflare err =
     (case contract_as err of
        Some (code, message) \<Rightarrow> (code, if blank message then safeMessage code else message)
      | None \<Rightarrow>
          (if errors_is err ErrEntryConflict
           then (''ENTRY_CONFLICT'', ''requested listener conflicts with an active listener'')
           else if errors_is err ErrNotFound then (''NOT_FOUND'', ''resource was not found'')
           else if errors_is err ErrAlreadyExists \<or> errors_is err ErrConflict then (''CONFLICT'', ''resource conflict'')
           else case cloudflare err of
                  Some text \<Rightarrow> (''CONFLICT'', text)
                | None \<Rightarrow> (''INTERNAL'', safeMessage ''INTERNAL'')))"

section \<open>Inputs from arguments\<close>

datatype any = AnyString string | AnyInt int | AnyBool bool | AnyMap "(string \<times> any) list" | AnyList "any list" | AnyNull

type_synonym anymap = "(string, any) gomap"

text \<open>A nil map reads as an empty one.\<close>

definition mapValue :: "anymap \<Rightarrow> string \<Rightarrow> anymap" where
  "mapValue values key = (case gm_get values key of Some (AnyMap m) \<Rightarrow> m | _ \<Rightarrow> [])"

definition mapArg :: "anymap \<Rightarrow> string \<Rightarrow> anymap" where
  "mapArg args key = mapValue args key"

definition stringValue :: "anymap \<Rightarrow> string \<Rightarrow> string" where
  "stringValue values key = (case gm_get values key of Some (AnyString s) \<Rightarrow> s | _ \<Rightarrow> [])"

definition intValue :: "anymap \<Rightarrow> string \<Rightarrow> int" where
  "intValue values key = (case gm_get values key of Some (AnyInt n) \<Rightarrow> n | _ \<Rightarrow> 0)"

definition boolPointer :: "anymap \<Rightarrow> string \<Rightarrow> bool option" where
  "boolPointer values key = (case gm_get values key of Some (AnyBool b) \<Rightarrow> Some b | _ \<Rightarrow> None)"

definition boolValue :: "anymap \<Rightarrow> string \<Rightarrow> bool" where
  "boolValue values key = (case gm_get values key of Some (AnyBool b) \<Rightarrow> b | _ \<Rightarrow> False)"

definition key_set :: "anymap \<Rightarrow> string \<Rightarrow> bool" where
  "key_set values key \<longleftrightarrow> gm_get values key \<noteq> None"

definition createProxyInputFromArgs :: "anymap \<Rightarrow> string \<Rightarrow> CreateProxyInput" where
  "createProxyInputFromArgs args actor =
     (let config = mapValue args ''config'' in
      \<lparr>CPI_ID = [], CPI_UserID = stringValue args ''userId'', CPI_ClientID = stringValue args ''clientId'',
       CPI_Name = stringValue args ''name'', CPI_Type = stringValue args ''type'',
       CPI_DomainID = stringValue config ''domainId'', CPI_PathPrefix = stringValue config ''pathPrefix'',
       CPI_StripPrefix = boolValue config ''stripPrefix'', CPI_UpstreamPathPrefix = stringValue config ''upstreamPathPrefix'',
       CPI_EntryBindHost = stringValue config ''entryBindHost'', CPI_EntryHost = stringValue config ''entryHost'',
       CPI_EntryPort = intValue config ''entryPort'', CPI_TargetHost = stringValue config ''targetHost'',
       CPI_TargetPort = intValue config ''targetPort'', CPI_CertFile = stringValue config ''certFile'',
       CPI_KeyFile = stringValue config ''keyFile'', CPI_CertificateID = stringValue config ''certificateId'',
       CPI_Description = stringValue args ''description'', CPI_ActorID = actor\<rparr>)"

definition updateProxyInputFromArgs :: "anymap \<Rightarrow> string \<Rightarrow> UpdateProxyInput" where
  "updateProxyInputFromArgs args actor =
     (let config = mapValue args ''config'' in
      \<lparr>UPI_ID = stringValue args ''id'', UPI_Type = stringValue args ''type'', UPI_Name = stringValue args ''name'',
       UPI_DomainID = stringValue config ''domainId'', UPI_DomainIDSet = key_set config ''domainId'',
       UPI_PathPrefix = stringValue config ''pathPrefix'', UPI_PathPrefixSet = key_set config ''pathPrefix'',
       UPI_StripPrefix = boolValue config ''stripPrefix'', UPI_StripPrefixSet = key_set config ''stripPrefix'',
       UPI_UpstreamPathPrefix = stringValue config ''upstreamPathPrefix'',
       UPI_UpstreamPathPrefixSet = key_set config ''upstreamPathPrefix'',
       UPI_EntryBindHost = stringValue config ''entryBindHost'', UPI_EntryHost = stringValue config ''entryHost'',
       UPI_EntryPort = intValue config ''entryPort'', UPI_TargetHost = stringValue config ''targetHost'',
       UPI_TargetPort = intValue config ''targetPort'', UPI_CertFile = stringValue config ''certFile'',
       UPI_KeyFile = stringValue config ''keyFile'', UPI_CertificateID = stringValue config ''certificateId'',
       UPI_CertificateIDSet = key_set config ''certificateId'', UPI_Description = stringValue args ''description'',
       UPI_ActorID = actor\<rparr>)"

definition localAllowlistInputFromArgs :: "anymap \<Rightarrow> AllowlistEntry list" where
  "localAllowlistInputFromArgs args =
     map (\<lambda>value. let entry = (case value of AnyMap m \<Rightarrow> m | _ \<Rightarrow> []) in
            \<lparr>Allow_CIDR = stringValue entry ''cidr'', Allow_PortStart = intValue entry ''portStart'',
             Allow_PortEnd = intValue entry ''portEnd''\<rparr>)
       (case gm_get args ''entries'' of Some (AnyList values) \<Rightarrow> values | _ \<Rightarrow> [])"

definition localProxyInputFromArgs :: "anymap \<Rightarrow> LocalProxyInput" where
  "localProxyInputFromArgs args =
     \<lparr>LPI_ID = stringValue args ''id'', LPI_Name = stringValue args ''name'', LPI_Type = stringValue args ''type'',
      LPI_EntryBindHost = stringValue args ''entryBindHost'', LPI_EntryPort = intValue args ''entryPort'',
      LPI_TargetHost = stringValue args ''targetHost'', LPI_TargetPort = intValue args ''targetPort'',
      LPI_Description = stringValue args ''description''\<rparr>"

text \<open>\<open>deploypath.Resolve\<close>; \<open>root\<close> is the root of the deployment, None when it is unknown.\<close>

definition deploypath_Resolve :: "string \<Rightarrow> string \<Rightarrow> string" where
  "deploypath_Resolve root path =
     (if blank path \<or> filepath_IsAbs path \<or> path = '':memory:'' \<or> has_prefix path ''file:'' then path
      else filepath_Join [root, path])"

definition deploymentRelativePath :: "string option \<Rightarrow> string \<Rightarrow> string" where
  "deploymentRelativePath root path = (case root of None \<Rightarrow> path | Some r \<Rightarrow> deploypath_Resolve r path)"

definition createClientJoinInputFromArgs :: "string option \<Rightarrow> anymap \<Rightarrow> string \<Rightarrow> CreateClientJoinInput" where
  "createClientJoinInputFromArgs root args actor =
     (let caFile = stringValue args ''serverCAFile'';
          ttlSeconds = intValue args ''ttlSeconds'' in
      \<lparr>CJI_ID = stringValue args ''id'', CJI_UserID = stringValue args ''userId'', CJI_Name = stringValue args ''name'',
       CJI_ActorID = actor, CJI_EnrollmentURL = stringValue args ''enrollmentUrl'',
       CJI_ServerAddress = stringValue args ''serverAddress'', CJI_ServerTLSAddress = stringValue args ''serverTLSAddress'',
       CJI_ServerName = stringValue args ''serverName'',
       CJI_ServerCAFile = (if blank caFile then [] else deploymentRelativePath root caFile),
       CJI_AllowedProtocols = [], CJI_Reconnect = \<lparr>RC_InitialDelay = 0, RC_MaxDelay = 0\<rparr>,
       CJI_TTL = (if ttlSeconds > 0 then wrap64 (ttlSeconds * Second) else 0)\<rparr>)"

definition certificateMutationInputFromArgs :: "anymap \<Rightarrow> string \<Rightarrow> CertificateInput" where
  "certificateMutationInputFromArgs args actor =
     \<lparr>CIN_CertificateID = stringValue args ''certificateId'', CIN_ProxyID = stringValue args ''proxyId'',
      CIN_ProviderType = stringValue args ''providerType'', CIN_CredentialID = stringValue args ''credentialId'',
      CIN_RequestType = stringValue args ''requestType'', CIN_RequestedValidity = intValue args ''requestedValidity'',
      CIN_ActorID = actor\<rparr>"

definition createCertificateInputFromArgs :: "anymap \<Rightarrow> string \<Rightarrow> CreateCertificateInput" where
  "createCertificateInputFromArgs args actor =
     \<lparr>CCI_Host = stringValue args ''host'', CCI_ProviderType = stringValue args ''providerType'',
      CCI_CredentialID = stringValue args ''credentialId'', CCI_RequestType = stringValue args ''requestType'',
      CCI_RequestedValidity = intValue args ''requestedValidity'', CCI_CertFile = stringValue args ''certFile'',
      CCI_KeyFile = stringValue args ''keyFile'', CCI_ActorID = actor\<rparr>"

definition pageInput :: "anymap \<Rightarrow> PageInput" where
  "pageInput value = \<lparr>PgIn_Page = intValue value ''page'', PgIn_PageSize = intValue value ''pageSize''\<rparr>"

definition sortInput :: "anymap \<Rightarrow> SortInput" where
  "sortInput value = \<lparr>Sort_Field = stringValue value ''field'', Sort_Direction = stringValue value ''direction''\<rparr>"

definition listInput :: "(anymap \<Rightarrow> 'f) \<Rightarrow> anymap \<Rightarrow> 'f ListInput" where
  "listInput filterOf args =
     (let input = mapArg args ''input'' in
      \<lparr>LI_Page = pageInput (mapValue input ''page''), LI_Filter = filterOf (mapValue input ''filter''),
       LI_Sort = sortInput (mapValue input ''sort'')\<rparr>)"

definition userListInputFromArgs :: "anymap \<Rightarrow> UserFilter ListInput" where
  "userListInputFromArgs =
     listInput (\<lambda>f. \<lparr>UF_Query = stringValue f ''query'', UF_Role = stringValue f ''role'', UF_Status = stringValue f ''status''\<rparr>)"

definition clientListInputFromArgs :: "anymap \<Rightarrow> ClientFilter ListInput" where
  "clientListInputFromArgs =
     listInput (\<lambda>f. \<lparr>CF_Query = stringValue f ''query'', CF_UserID = stringValue f ''userId'',
       CF_Status = stringValue f ''status'', CF_Online = boolPointer f ''online''\<rparr>)"

definition proxyListInputFromArgs :: "anymap \<Rightarrow> ProxyFilter ListInput" where
  "proxyListInputFromArgs =
     listInput (\<lambda>f. \<lparr>PF_Query = stringValue f ''query'', PF_UserID = stringValue f ''userId'',
       PF_ClientID = stringValue f ''clientId'', PF_Type = stringValue f ''type'', PF_Status = stringValue f ''status''\<rparr>)"

definition certificateListInputFromArgs :: "anymap \<Rightarrow> CertificateFilter ListInput" where
  "certificateListInputFromArgs =
     listInput (\<lambda>f. \<lparr>CeF_Query = stringValue f ''query'', CeF_Status = stringValue f ''status''\<rparr>)"

definition auditListInputFromArgs :: "anymap \<Rightarrow> AuditFilter ListInput" where
  "auditListInputFromArgs =
     listInput (\<lambda>f. \<lparr>AF_Query = stringValue f ''query'', AF_ActorType = stringValue f ''actorType'',
       AF_ActorID = stringValue f ''actorId'', AF_ResourceType = stringValue f ''resourceType'',
       AF_Action = stringValue f ''action'', AF_Result = stringValue f ''result''\<rparr>)"

definition domainListInputFromArgs :: "anymap \<Rightarrow> DomainFilter ListInput" where
  "domainListInputFromArgs =
     listInput (\<lambda>f. \<lparr>DF_Query = stringValue f ''query'', DF_UserID = stringValue f ''userId'', DF_Status = stringValue f ''status''\<rparr>)"

section \<open>Listener hosts offered for a proxy\<close>

record proxyEntryHostOption =
  PEH_Value :: string
  PEH_Label :: string
  PEH_IsDefault :: bool

record proxyEntryOptions =
  PEO_TCPDefaultBindHost :: string
  PEO_HTTPDefaultBindHost :: string
  PEO_HTTPDefaultPort :: int
  PEO_HTTPSDefaultBindHost :: string
  PEO_HTTPSDefaultPort :: int
  PEO_Hosts :: "proxyEntryHostOption list"

definition add_host_option :: "string \<times> string \<times> bool \<Rightarrow> proxyEntryHostOption list \<Rightarrow> proxyEntryHostOption list" where
  "add_host_option = (\<lambda>(value0, label0, isDefault) hosts.
     (let value = NormalizeBindHost value0 in
      if list_ex (\<lambda>h. PEH_Value h = value) hosts then hosts
      else (let label1 = (if blank label0 then value else label0);
                label = (if value = [] then ''Default listener host'' else label1)
            in hosts @ [\<lparr>PEH_Value = value, PEH_Label = label, PEH_IsDefault = isDefault\<rparr>])))"

text \<open>\<open>local\<close>: the IPv4 addresses of the interfaces of the machine, which localIPv4Hosts reads.\<close>

definition api_proxyEntryOptions :: "ProxyEntryDefaults \<Rightarrow> string list \<Rightarrow> proxyEntryOptions" where
  "api_proxyEntryOptions defaults local =
     (let tcp = Def_TCPBindHost defaults; http = Def_HTTPBindHost defaults; https = Def_HTTPSBindHost defaults in
      \<lparr>PEO_TCPDefaultBindHost = tcp, PEO_HTTPDefaultBindHost = http, PEO_HTTPDefaultPort = Def_HTTPPort defaults,
       PEO_HTTPSDefaultBindHost = https, PEO_HTTPSDefaultPort = Def_HTTPSPort defaults,
       PEO_Hosts = fold add_host_option
         ([([], ''Default listener host'', True), (tcp, ''TCP/UDP default'', tcp \<noteq> []),
           (http, ''HTTP default'', http \<noteq> [] \<and> http \<noteq> tcp),
           (https, ''HTTPS default'', https \<noteq> [] \<and> https \<noteq> tcp \<and> https \<noteq> http),
           (''0.0.0.0'', ''All IPv4 interfaces'', False), (''127.0.0.1'', ''Loopback IPv4'', False)] @
          map (\<lambda>host. (host, host, False)) local) []\<rparr>)"

end
