(* ===== verification/ApiProps.thy ===== *)
theory ApiProps
  imports AdminApi Routing
begin

text \<open>
  What the HTTP interface of the administration guards: the comparison of secrets, the session token, and
  which requests reach the GraphQL library, and so a query or a command.
\<close>

section \<open>Comparing secrets\<close>

lemma of_char_word_inj: "(of_char c :: 8 word) = of_char d \<longleftrightarrow> c = d"
proof
  assume "(of_char c :: 8 word) = of_char d"
  then have "(of_nat (of_char c) :: 8 word) = of_nat (of_char d)" by (simp only: of_nat_of_char)
  moreover have "unat (of_nat (of_char x) :: 8 word) = of_char x" for x
    using nat_of_char_less_256[of x] by (simp add: unat_of_nat)
  ultimately have "(of_char c :: nat) = of_char d" by metis
  then show "c = d" by (metis char_of_char)
qed simp

lemma xor_eq_0: "xor (a :: 8 word) b = 0 \<longleftrightarrow> a = b"
  by (auto simp: bit_eq_iff bit_xor_iff)

lemma fold_differs: "fold (\<lambda>(l, r) res. or res (xor (of_char l) (of_char r))) ps (a :: 8 word) = 0 \<longleftrightarrow> a = 0 \<and> (\<forall>(l, r) \<in> set ps. l = r)"
proof (induction ps arbitrary: a)
  case (Cons p ps)
  obtain l r where p: "p = (l, r)" by fastforce
  have "or a (xor (of_char l) (of_char r)) = 0 \<longleftrightarrow> a = 0 \<and> l = r"
    by (simp add: or_eq_0_iff xor_eq_0 of_char_word_inj)
  then show ?case using Cons by (auto simp: p)
qed simp

lemma subtleConstantTimeEquals_iff: "subtleConstantTimeEquals left right \<longleftrightarrow> left = right"
proof (cases "length left = length right")
  case True
  then show ?thesis by (auto simp: subtleConstantTimeEquals_def fold_differs list_eq_iff_zip_eq)
qed (auto simp: subtleConstantTimeEquals_def)

section \<open>base64\<close>

text \<open>The digits of six bits of a string of bytes.\<close>

fun sextets :: "string \<Rightarrow> int list" where
  "sextets [] = []"
| "sextets [a] = [byte_of a div 4, byte_of a mod 4 * 16]"
| "sextets [a, b] = [byte_of a div 4, byte_of a mod 4 * 16 + byte_of b div 16, byte_of b mod 16 * 4]"
| "sextets (a # b # c # rest) =
     byte_of a div 4 # (byte_of a mod 4 * 16 + byte_of b div 16) # (byte_of b mod 16 * 4 + byte_of c div 64) #
     byte_of c mod 64 # sextets rest"

lemma byte_of_bounds: "0 \<le> byte_of c" "byte_of c < 256"
  using nat_of_char_less_256[of c] by (simp_all add: byte_of_def)

lemma b64_encode_sextets: "b64_encode s = map b64_char (sextets s)"
  by (induction s rule: sextets.induct) auto

lemma sextets_bounds: "d \<in> set (sextets s) \<Longrightarrow> 0 \<le> d \<and> d < 64"
proof (induction s rule: sextets.induct)
  case (2 a)
  then show ?case using byte_of_bounds[of a] by auto
next
  case (3 a b)
  then show ?case using byte_of_bounds[of a] byte_of_bounds[of b] by auto
next
  case (4 a b c rest)
  then show ?case using byte_of_bounds[of a] byte_of_bounds[of b] byte_of_bounds[of c] by auto
qed simp


lemma byte_of_of_byte [simp]: "char_of_byte (byte_of c) = c"
  by (simp add: char_of_byte_def byte_of_def)

lemma sextet_joins:
  assumes "0 \<le> a" "a < 256" "0 \<le> b" "b < 256" "0 \<le> c" "c < 256"
  shows "a div 4 * 4 + (a mod 4 * 16 + b div 16) div 16 = (a :: int)"
    "a div 4 * 4 + a mod 4 * 16 div 16 = a"
    "(a mod 4 * 16 + b div 16) mod 16 * 16 + (b mod 16 * 4 + c div 64) div 4 = b"
    "(a mod 4 * 16 + b div 16) mod 16 * 16 + b mod 16 * 4 div 4 = b"
    "(b mod 16 * 4 + c div 64) mod 4 * 64 + c mod 64 = c"
proof -
  have low: "b div 16 < 16" "0 \<le> b div 16" "c div 64 < 4" "0 \<le> c div 64" using assms by auto
  have small: "b div 16 mod 16 = b div 16" "c div 64 mod 4 = c div 64" using low by (auto intro: mod_pos_pos_trivial)
  have m: "(a mod 4 * 16 + b div 16) mod 16 = b div 16" "(b mod 16 * 4 + c div 64) mod 4 = c div 64"
    using low by (simp_all add: mod_add_eq[symmetric])
  have d: "(a mod 4 * 16 + b div 16) div 16 = a mod 4" "(b mod 16 * 4 + c div 64) div 4 = b mod 16"
    using low by simp_all
  show "a div 4 * 4 + (a mod 4 * 16 + b div 16) div 16 = a" "a div 4 * 4 + a mod 4 * 16 div 16 = a"
    "(a mod 4 * 16 + b div 16) mod 16 * 16 + (b mod 16 * 4 + c div 64) div 4 = b"
    "(a mod 4 * 16 + b div 16) mod 16 * 16 + b mod 16 * 4 div 4 = b"
    "(b mod 16 * 4 + c div 64) mod 4 * 64 + c mod 64 = c"
    by (simp_all add: m d small)
qed

lemma b64_bytes_sextets: "b64_bytes (sextets s) = Some s"
proof (induction s rule: sextets.induct)
  case (2 a)
  then show ?case using sextet_joins[of "byte_of a" 0 0] byte_of_bounds[of a] by simp
next
  case (3 a b)
  then show ?case using sextet_joins[of "byte_of a" "byte_of b" 0] byte_of_bounds[of a] byte_of_bounds[of b] by simp
next
  case (4 a b c rest)
  then show ?case
    using sextet_joins[of "byte_of a" "byte_of b" "byte_of c"] byte_of_bounds[of a] byte_of_bounds[of b] byte_of_bounds[of c]
    by simp
qed simp

text \<open>A digit is found again, and is no line end, no dot and no part of white space.\<close>

definition plain_char :: "char \<Rightarrow> bool" where
  "plain_char c \<longleftrightarrow> c \<noteq> CHR 0x0A \<and> c \<noteq> CHR 0x0D \<and> list_all (\<lambda>p. hd p \<noteq> c \<and> last p \<noteq> c) go_spaces"

lemma b64_digit_table: "list_all (\<lambda>n. b64_digit (b64_char n) = Some n \<and> plain_char (b64_char n) \<and> b64_char n \<noteq> CHR ''.'') [0..63]"
  by code_simp

lemma b64_digit_char:
  assumes "0 \<le> n" "n < 64"
  shows "b64_digit (b64_char n) = Some n" "plain_char (b64_char n)" "b64_char n \<noteq> CHR ''.''"
  using b64_digit_table assms unfolding list_all_iff by auto

lemma b64_digits_map: "(\<And>d. d \<in> set ds \<Longrightarrow> 0 \<le> d \<and> d < 64) \<Longrightarrow> b64_digits (map b64_char ds) = Some ds"
  by (induction ds) (auto simp: b64_digit_char)

lemma b64_plain: "c \<in> set (b64_encode s) \<Longrightarrow> plain_char c \<and> c \<noteq> CHR ''.''"
  using sextets_bounds b64_digit_char by (auto simp: b64_encode_sextets)

lemma b64_roundtrip: "b64_decode (b64_encode s) = Inr s"
proof -
  have "filter (\<lambda>c. c \<noteq> CHR 0x0A \<and> c \<noteq> CHR 0x0D) (b64_encode s) = b64_encode s"
    using b64_plain[of _ s] by (auto simp: filter_id_conv plain_char_def)
  moreover have "b64_digits (b64_encode s) = Some (sextets s)"
    unfolding b64_encode_sextets by (rule b64_digits_map) (rule sextets_bounds)
  ultimately show ?thesis by (simp add: b64_decode_def b64_bytes_sextets)
qed

lemma b64_encode_Nil: "b64_encode s = [] \<longleftrightarrow> s = []"
  by (cases s rule: b64_encode.cases) auto

lemma trim_plain: "(\<And>c. c \<in> set s \<Longrightarrow> plain_char c) \<Longrightarrow> trim_space s = s"
proof -
  assume plain: "\<And>c. c \<in> set s \<Longrightarrow> plain_char c"
  have start: "hd p \<in> set t" if "p \<noteq> []" "has_prefix t p" for p t
    using that by (metis has_prefix_def hd_in_set in_set_takeD)
  have "no_item go_spaces s"
    unfolding no_item_def using start plain by (fastforce simp: plain_char_def list_all_iff)
  moreover have "no_item (map rev go_spaces) (rev s)"
    unfolding no_item_def
  proof (intro ballI impI notI)
    fix p assume p: "p \<in> set (map rev go_spaces)" "p \<noteq> []" "has_prefix (rev s) p"
    then obtain q where q: "q \<in> set go_spaces" "p = rev q" by auto
    then have "last q \<in> set s" using start[OF p(2,3)] p(2) by (simp add: hd_rev)
    then show False using plain q(1) by (auto simp: plain_char_def list_all_iff)
  qed
  ultimately show ?thesis by (simp add: trim_space_def strip_no_item)
qed

section \<open>The token of a session\<close>

text \<open>What a token that is accepted consists of.\<close>

definition signed_token :: "JwtCodec \<Rightarrow> sessionManager \<Rightarrow> string \<Rightarrow> adminJWTClaims \<Rightarrow> bool" where
  "signed_token codec manager token claims \<longleftrightarrow>
     (\<exists>header payload. trim_space token =
          header @ ''.'' @ payload @ ''.'' @ jwt_signature codec manager (header @ ''.'' @ payload) \<and>
        rbind (b64_decode payload) (jw_UnmarshalClaims codec) = Inr claims)"

lemma jwt_verify_signed:
  assumes "jwt_verify codec manager now token = Some claims"
  shows "signed_token codec manager token claims \<and> admin_validClaims now claims"
proof -
  obtain header payload sgn where parts: "split_on CHR ''.'' (trim_space token) = [header, payload, sgn]"
    using assms by (auto simp: jwt_verify_def split: list.splits)
  have "Routing.join_with CHR ''.'' [header, payload, sgn] = trim_space token"
    using Routing.join_split[of "CHR ''.''" "trim_space token"] by (simp add: parts)
  moreover have "sgn = jwt_signature codec manager (header @ ''.'' @ payload)"
    "rbind (b64_decode payload) (jw_UnmarshalClaims codec) = Inr claims" "admin_validClaims now claims"
    using assms by (auto simp: jwt_verify_def parts subtleConstantTimeEquals_iff split: if_splits sum.splits)
  ultimately show ?thesis
    unfolding signed_token_def by (intro conjI exI[of _ header] exI[of _ payload]) simp_all
qed

lemma plain_not_blank: "s \<noteq> [] \<Longrightarrow> (\<And>c. c \<in> set s \<Longrightarrow> plain_char c) \<Longrightarrow> \<not> blank s"
  by (simp add: blank_def trim_plain)

lemma split_three:
  "CHR ''.'' \<notin> set a \<Longrightarrow> CHR ''.'' \<notin> set b \<Longrightarrow> CHR ''.'' \<notin> set c \<Longrightarrow>
   split_on CHR ''.'' (a @ ''.'' @ b @ ''.'' @ c) = [a, b, c]"
proof -
  assume n: "CHR ''.'' \<notin> set a" "CHR ''.'' \<notin> set b" "CHR ''.'' \<notin> set c"
  have single: "CHR ''.'' \<notin> set x \<Longrightarrow> split_on CHR ''.'' x = [x]" for x by (induction x) auto
  show ?thesis using n
    by (simp add: split_on_append[of "CHR ''.''" a "b @ CHR ''.'' # c", simplified] split_on_append[of "CHR ''.''" b c, simplified] single)
qed

text \<open>
  A session that was created is found again with its token as long as the second of its expiry has not
  come, with its times cut to seconds, provided that JSON reads back what it wrote.
\<close>

lemma admin_session_roundtrip:
  assumes created: "session_Create codec manager now random username = Inr session"
    and reads_header: "\<And>h text. jw_MarshalHeader codec h = Inr text \<Longrightarrow> jw_UnmarshalHeader codec text = Inr h \<and> text \<noteq> []"
    and reads_claims: "\<And>c text. jw_MarshalClaims codec c = Inr text \<Longrightarrow> jw_UnmarshalClaims codec text = Inr c \<and> text \<noteq> []"
    and hmac: "\<And>k m. jw_HMAC codec k m \<noteq> []"
    and vals: "\<not> blank username" "random \<noteq> Inr []" "Second \<le> sm_absoluteLifetime manager"
    and times: "unix_epoch + Second \<le> now" "now \<le> later" "later < from_Unix (time_Unix (AS_ExpiresAt session))"
  shows "session_Get codec manager later (AS_ID session) =
    Some (session \<lparr>AS_CreatedAt := from_Unix (time_Unix now), AS_ExpiresAt := from_Unix (time_Unix (AS_ExpiresAt session))\<rparr>)"
proof -
  obtain bytes where bytes: "random = Inr bytes" "bytes \<noteq> []" using created vals(2)
    by (cases random) (auto simp: session_Create_def randomToken_def rbind_def)
  let ?expires = "now + sm_absoluteLifetime manager"
  let ?claims = "\<lparr>JC_Type = adminJWTType, JC_Version = adminJWTVersion, JC_Subject = username,
      JC_IssuedAt = time_Unix now, JC_ExpiresAt = time_Unix ?expires, JC_CSRFToken = b64_encode bytes\<rparr>"
  obtain token where token: "jwt_sign codec manager ?claims = Inr token"
    and session: "session = \<lparr>AS_ID = token, AS_Username = username, AS_CSRFToken = b64_encode bytes, AS_CreatedAt = now,
        AS_ExpiresAt = ?expires\<rparr>"
    using created by (auto simp: session_Create_def randomToken_def rbind_def Let_def bytes(1) split: sum.splits)
  obtain h c where json: "jw_MarshalHeader codec \<lparr>JH_Algorithm = ''HS256'', JH_Type = ''JWT''\<rparr> = Inr h"
    "jw_MarshalClaims codec ?claims = Inr c"
    and parts: "token = b64_encode h @ ''.'' @ b64_encode c @ ''.'' @ jwt_signature codec manager (b64_encode h @ ''.'' @ b64_encode c)"
    using token by (auto simp: jwt_sign_def rbind_def Let_def split: sum.splits)
  have dots: "CHR ''.'' \<notin> set (b64_encode s)" for s using b64_plain by blast
  have "plain_char x" if "x \<in> set token" for x
    using that b64_plain unfolding parts jwt_signature_def by (auto, simp add: plain_char_def go_spaces_def)
  then have trimmed: "trim_space token = token" by (rule trim_plain)
  have valid: "admin_validClaims later ?claims"
  proof -
    have "time_Unix now < time_Unix ?expires" "0 < time_Unix now" "from_Unix (time_Unix now) \<le> now"
      using vals(3) times(1) by (auto simp: time_Unix_def from_Unix_def)
    moreover have "\<not> blank (b64_encode bytes)"
      using plain_not_blank[of "b64_encode bytes"] b64_plain bytes(2) by (simp add: b64_encode_Nil)
    ultimately show ?thesis using vals(1) times(2,3)
      by (simp add: admin_validClaims_def maxAdminJWTFutureIssuedSkew_def session)
  qed
  have "split_on CHR ''.'' (trim_space token) =
      [b64_encode h, b64_encode c, jwt_signature codec manager (b64_encode h @ ''.'' @ b64_encode c)]"
    unfolding trimmed unfolding parts by (rule split_three) (simp_all add: dots jwt_signature_def)
  then have "jwt_verify codec manager later token = Some ?claims"
    using reads_header[OF json(1)] reads_claims[OF json(2)] valid hmac
    by (simp add: jwt_verify_def subtleConstantTimeEquals_iff b64_roundtrip b64_encode_Nil jwt_signature_def rbind_def)
  then show ?thesis by (simp add: session_Get_def session)
qed

text \<open>Logging out answers with a cleared cookie; the token itself is as good as before.\<close>

lemma logout_leaves_token_valid:
  "session_Get codec (api_Sessions (snd (logoutHandler env server r))) now token = session_Get codec (api_Sessions server) now token"
  by (auto simp: logoutHandler_def session_Invalidate_def split: option.splits)

section \<open>What reaches a query or a command\<close>

lemma mem_login: "GraphqlDo actor request \<notin> set (loginHandler env server r)"
  by (auto simp: loginHandler_def method_not_allowed_def writeSessionCookie_def Let_def split: sum.splits)

lemma mem_session: "e \<in> set (sessionHandler env server r) \<Longrightarrow>
    (\<exists>s. e = Bootstrap s) \<or> (\<exists>b. e = ClearSessionCookie b) \<or> (\<exists>n c m. e = ApiError n c m)"
  by (auto simp: sessionHandler_def method_not_allowed_def authenticateSession_def clearSessionCookie_def
      split: option.splits if_splits)

lemma mem_logout: "e \<in> set (fst (logoutHandler env server r)) \<Longrightarrow>
    (\<exists>s. e = Bootstrap s) \<or> (\<exists>b. e = ClearSessionCookie b) \<or> (\<exists>n c m. e = ApiError n c m)"
  by (auto simp: logoutHandler_def method_not_allowed_def clearSessionCookie_def split: option.splits if_splits)

lemma mem_frontend: "serveFrontend env r = Some effects \<Longrightarrow> e \<in> set effects \<Longrightarrow>
    e = NotFoundPage \<or> e = FrontendIndex \<or> (\<exists>f. e = FrontendFile f)"
  by (auto simp: serveFrontend_def split: option.splits if_splits)

lemma mem_graphql:
  assumes "GraphqlDo actor request \<in> set (graphqlHandler env server r)"
  shows "AR_Method r = ''POST'' \<and> ae_DecodeGraphql env (AR_Body r) = Inr request \<and>
    (\<exists>sessionID claims. sessionIDFromRequest r = Some sessionID \<and>
       jwt_verify (ae_Codec env) (api_Sessions server) (ae_Now env) sessionID = Some claims \<and> JC_Subject claims = actor \<and>
       (graphqlOperationType env request = Inr ''mutation'' \<longrightarrow> AR_CSRF r = JC_CSRFToken claims))"
  using assms
  by (auto simp: graphqlHandler_def method_not_allowed_def authenticateSession_def clearSessionCookie_def session_Get_def
      hasValidCSRFToken_def subtleConstantTimeEquals_iff split: option.splits sum.splits if_splits)

lemma mem_cookie:
  assumes "SetSessionCookie token secure expires age \<in> set (loginHandler env server r)"
  shows "\<exists>request. ae_DecodeLogin env (AR_Body r) = Inr request \<and> api_Creds server (LRq_Username request) (LRq_Password request)"
  using assms by (auto simp: loginHandler_def method_not_allowed_def split: sum.splits if_splits)

text \<open>
  C1: The administration executes a GraphQL document only for a request over protected transport that posts
  to the GraphQL path with the cookie of a session: the cookie's token carries the signature of the server
  over its content, its claims are valid at that moment and not expired, and the actor of the operation is
  their subject; a mutation needs in addition the CSRF token of these claims in the request's header. And
  no answer sets a session cookie unless the credentials in the request were verified.\<close>
theorem admin_requests_guarded:
  assumes "GraphqlDo actor request \<in> set (routeHandler env server r)"
  shows "requestUsesProtectedTransport r \<and> AR_Method r = ''POST'' \<and> AR_Path r = ''/api/admin/graphql'' \<and>
    ae_DecodeGraphql env (AR_Body r) = Inr request \<and>
    (\<exists>token claims. sessionIDFromRequest r = Some token \<and> signed_token (ae_Codec env) (api_Sessions server) token claims \<and>
       JC_Subject claims = actor \<and> from_Unix (JC_ExpiresAt claims) > ae_Now env \<and> \<not> blank actor \<and>
       (graphqlOperationType env request = Inr ''mutation'' \<longrightarrow> AR_CSRF r = JC_CSRFToken claims \<and> AR_CSRF r \<noteq> [])) \<and>
    (\<forall>r' token secure expires age. SetSessionCookie token secure expires age \<in> set (routeHandler env server r') \<longrightarrow>
       (\<exists>login. ae_DecodeLogin env (AR_Body r') = Inr login \<and> api_Creds server (LRq_Username login) (LRq_Password login)))"
proof -
  have guarded: "requestUsesProtectedTransport r" "AR_Path r = ''/api/admin/graphql''"
    "GraphqlDo actor request \<in> set (graphqlHandler env server r)"
    using assms mem_login[of actor request env server r] mem_session[of _ env server r] mem_logout[of _ env server r]
      mem_frontend[of env r] by (auto simp: routeHandler_def api_mux_def split: if_splits option.splits)
  then obtain token claims where token: "sessionIDFromRequest r = Some token" "JC_Subject claims = actor"
      "jwt_verify (ae_Codec env) (api_Sessions server) (ae_Now env) token = Some claims"
      "graphqlOperationType env request = Inr ''mutation'' \<longrightarrow> AR_CSRF r = JC_CSRFToken claims"
    using mem_graphql by blast
  have valid: "admin_validClaims (ae_Now env) claims" using jwt_verify_signed[OF token(3)] by simp
  then have "from_Unix (JC_ExpiresAt claims) > ae_Now env" "\<not> blank actor" "JC_CSRFToken claims \<noteq> []"
    using token(2) by (auto simp: admin_validClaims_def split: if_splits)
  moreover have "\<exists>login. ae_DecodeLogin env (AR_Body r') = Inr login \<and> api_Creds server (LRq_Username login) (LRq_Password login)"
    if "SetSessionCookie token secure expires age \<in> set (routeHandler env server r')" for r' token secure expires age
  proof -
    have "SetSessionCookie token secure expires age \<notin> set (graphqlHandler env server r')"
      by (auto simp: graphqlHandler_def method_not_allowed_def authenticateSession_def clearSessionCookie_def
          split: option.splits sum.splits)
    then have "SetSessionCookie token secure expires age \<in> set (loginHandler env server r')"
      using that mem_session[of _ env server r'] mem_logout[of _ env server r'] mem_frontend[of env r']
      by (auto simp: routeHandler_def api_mux_def split: if_splits option.splits)
    then show ?thesis by (rule mem_cookie)
  qed
  ultimately show ?thesis using guarded token mem_graphql[OF guarded(3)] jwt_verify_signed[OF token(3)] by auto
qed

definition api_codec :: JwtCodec where
  "api_codec = \<lparr>jw_MarshalHeader = (\<lambda>h. Inr ''h''), jw_UnmarshalHeader = (\<lambda>t. Inr \<lparr>JH_Algorithm = ''HS256'', JH_Type = ''JWT''\<rparr>),
     jw_MarshalClaims = (\<lambda>c. Inr ''c''),
     jw_UnmarshalClaims = (\<lambda>t. Inr \<lparr>JC_Type = ''admin'', JC_Version = 1, JC_Subject = ''root'', JC_IssuedAt = 1000,
        JC_ExpiresAt = 2000, JC_CSRFToken = ''csrf''\<rparr>),
     jw_HMAC = (\<lambda>key m. ''sig'')\<rparr>"

definition sample_mutation :: graphqlRequest where
  "sample_mutation = \<lparr>GR_Query = ''mutation { createUser }'', GR_OperationName = [], GR_Variables = []\<rparr>"

definition api_env :: ApiEnv where
  "api_env = \<lparr>ae_Codec = api_codec, ae_Now = 1500 * Second + unix_epoch, ae_Random = Inr ''r'',
     ae_DecodeLogin = (\<lambda>b. Inl (New b)), ae_DecodeGraphql = (\<lambda>b. Inr sample_mutation),
     ae_Parse = (\<lambda>q. Inr [OtherDefinition, OperationDefinition None ''mutation'']), ae_File = (\<lambda>f. False)\<rparr>"

definition api_server :: ApiServer where
  "api_server = \<lparr>api_Sessions = \<lparr>sm_secret = replicate 32 CHR ''k'', sm_absoluteLifetime = Hour\<rparr>, api_Creds = (\<lambda>u p. False)\<rparr>"

definition mutation_request :: AdminRequest where
  "mutation_request = \<lparr>AR_Method = ''POST'', AR_Path = ''/api/admin/graphql'', AR_TLS = False, AR_ForwardedProto = [],
     AR_RemoteAddr = ''127.0.0.1:5000'', AR_Cookies = [''a=b; goginx_admin_session=aA.Yw.c2ln''], AR_CSRF = ''csrf'', AR_Body = []\<rparr>"

lemma mutation_runs: "routeHandler api_env api_server mutation_request = [GraphqlDo ''root'' sample_mutation]"
  by code_simp

lemma mutation_type: "graphqlOperationType api_env sample_mutation = Inr ''mutation''"
  by code_simp

theorem admin_requests_guarded_witness:
  "GraphqlDo ''root'' sample_mutation \<in> set (routeHandler api_env api_server mutation_request) \<and>
   (\<exists>token claims. sessionIDFromRequest mutation_request = Some token \<and>
      signed_token api_codec (api_Sessions api_server) token claims \<and> JC_Subject claims = ''root'' \<and>
      AR_CSRF mutation_request = JC_CSRFToken claims)"
proof -
  have runs: "GraphqlDo ''root'' sample_mutation \<in> set (routeHandler api_env api_server mutation_request)"
    by (simp add: mutation_runs)
  show ?thesis using admin_requests_guarded[OF runs] runs mutation_type by (auto simp: api_env_def)
qed

end
