(* ===== verification/Config.thy ===== *)
theory Config
  imports AdminApi SecretStore
begin

text \<open>
  The configuration of server and client, internal/config: defaults, validation, the listeners and the
  defaults of entries and joins a configuration stands for (config.go), and the managed start with its
  environment, paths and secrets (managed.go). The file system is the disk of CertDisk. JSON, the
  environment, random bytes, the generation of the control certificate, the addresses of the machine, and
  unicode.IsLetter and IsDigit on code points beyond ASCII are parameters. The disk has files only, so which
  paths are directories is a parameter, too. The text of an error of net.SplitHostPort and the quotation
  marks of the verb q are abbreviated: no code reads them.
\<close>

record ServerConfig =
  SC_AdminEnabled :: bool
  SC_AdminListen :: string
  SC_AdminCredentialsFile :: string
  SC_AdminFrontendDir :: string
  SC_AdminJWTSecretFile :: string
  SC_ClientEnrollmentListen :: string
  SC_ControlQUICListen :: string
  SC_ControlTLSListen :: string
  SC_ControlTLSServerName :: string
  SC_ControlTLSCAFile :: string
  SC_ControlTLSCertFile :: string
  SC_ControlTLSKeyFile :: string
  SC_JoinServiceHost :: string
  SC_TCPEntryHost :: string
  SC_HTTPEntryListen :: string
  SC_HTTPSEntryListen :: string
  SC_SQLitePath :: string
  SC_DataDir :: string
  SC_CertificateDir :: string
  SC_ACMEEnabled :: bool
  SC_ACMEDirectoryURL :: string
  SC_ACMEAccountEmail :: string
  SC_ACMETermsAccepted :: bool
  SC_ACMERenewalWindow :: duration
  SC_ACMECloudflareTokenEnv :: string
  SC_OriginCAEnabled :: bool
  SC_OriginCASecretStorePath :: string
  SC_OriginCADefaultRequestType :: string
  SC_OriginCARequestedValidity :: int
  SC_OriginCARotationWindow :: duration
  SC_OriginCAServiceKeyPath :: string
  SC_HeartbeatTimeout :: duration
  SC_LogMaxSizeMB :: int
  SC_LogMaxBackups :: int
  SC_LogRetentionDays :: int
  SC_LogCompress :: bool

record ConfigEnv =
  cf_fc :: "FsCall \<Rightarrow> error option"
  cf_isDir :: "string \<Rightarrow> bool"
  cf_now :: time
  cf_decodeServer :: "byte list \<Rightarrow> ServerConfig \<Rightarrow> ServerConfig result"
  cf_decodeClient :: "byte list \<Rightarrow> ClientConfig \<Rightarrow> ClientConfig result"
  cf_encodeClient :: "ClientConfig \<Rightarrow> byte list result"
  cf_getenv :: "string \<Rightarrow> string"
  cf_random :: "string result"
  cf_controlTLS :: "string \<Rightarrow> (byte list \<times> byte list \<times> byte list) result"
  cf_localIP :: string
  cf_unicodeLabel :: "string \<Rightarrow> bool"

definition DefaultServer :: ServerConfig where
  "DefaultServer =
     \<lparr>SC_AdminEnabled = False, SC_AdminListen = ''127.0.0.1:8080'', SC_AdminCredentialsFile = [],
      SC_AdminFrontendDir = [], SC_AdminJWTSecretFile = ''data/admin-jwt.key'',
      SC_ClientEnrollmentListen = '':8081'', SC_ControlQUICListen = '':8443'', SC_ControlTLSListen = '':9443'',
      SC_ControlTLSServerName = ''go-ginx-control.local'', SC_ControlTLSCAFile = ''data/certs/control-ca.crt'',
      SC_ControlTLSCertFile = ''data/certs/control.crt'', SC_ControlTLSKeyFile = ''data/certs/control.key'',
      SC_JoinServiceHost = [], SC_TCPEntryHost = ''0.0.0.0'', SC_HTTPEntryListen = '':80'',
      SC_HTTPSEntryListen = '':443'', SC_SQLitePath = ''data/go-ginx.db'', SC_DataDir = ''data'',
      SC_CertificateDir = ''data/certs'', SC_ACMEEnabled = False,
      SC_ACMEDirectoryURL = ''https://acme-v02.api.letsencrypt.org/directory'', SC_ACMEAccountEmail = [],
      SC_ACMETermsAccepted = False, SC_ACMERenewalWindow = 30 * 24 * Hour,
      SC_ACMECloudflareTokenEnv = ''CF_DNS_API_TOKEN'', SC_OriginCAEnabled = True,
      SC_OriginCASecretStorePath = ''data/secrets/provider-credentials'',
      SC_OriginCADefaultRequestType = ''origin-ecc'', SC_OriginCARequestedValidity = 5475,
      SC_OriginCARotationWindow = 30 * 24 * Hour, SC_OriginCAServiceKeyPath = [],
      SC_HeartbeatTimeout = 45 * Second, SC_LogMaxSizeMB = LR_MaxSizeMB DefaultLogRotation,
      SC_LogMaxBackups = LR_MaxBackups DefaultLogRotation, SC_LogRetentionDays = LR_RetentionDays DefaultLogRotation,
      SC_LogCompress = LR_Compress DefaultLogRotation\<rparr>"

section \<open>Log rotation\<close>

definition server_LogRotation :: "ServerConfig \<Rightarrow> LogRotation" where
  "server_LogRotation cfg =
     \<lparr>LR_MaxSizeMB = SC_LogMaxSizeMB cfg, LR_MaxBackups = SC_LogMaxBackups cfg,
      LR_RetentionDays = SC_LogRetentionDays cfg, LR_Compress = SC_LogCompress cfg\<rparr>"

definition client_LogRotation :: "ClientConfig \<Rightarrow> LogRotation" where
  "client_LogRotation cfg =
     \<lparr>LR_MaxSizeMB = CC_LogMaxSizeMB cfg, LR_MaxBackups = CC_LogMaxBackups cfg,
      LR_RetentionDays = CC_LogRetentionDays cfg, LR_Compress = CC_LogCompress cfg\<rparr>"

definition rotation_WithDefaults :: "LogRotation \<Rightarrow> LogRotation" where
  "rotation_WithDefaults rotation =
     (if LR_MaxSizeMB rotation = 0 \<and> LR_MaxBackups rotation = 0 \<and> LR_RetentionDays rotation = 0 \<and> \<not> LR_Compress rotation
      then DefaultLogRotation
      else (let r1 = (if LR_MaxSizeMB rotation = 0
                      then rotation \<lparr>LR_MaxSizeMB := LR_MaxSizeMB DefaultLogRotation\<rparr> else rotation)
            in if LR_RetentionDays r1 = 0 then r1 \<lparr>LR_RetentionDays := LR_RetentionDays DefaultLogRotation\<rparr> else r1))"

definition rotation_Validate :: "LogRotation \<Rightarrow> unit result" where
  "rotation_Validate rotation =
     (if LR_MaxSizeMB rotation \<le> 0 then Inl (New ''log_max_size_mb must be positive'')
      else if LR_MaxBackups rotation < 0 then Inl (New ''log_max_backups must be zero or positive'')
      else if LR_RetentionDays rotation \<le> 0 then Inl (New ''log_retention_days must be positive'')
      else Inr ())"

definition server_WithLogRotationDefaults :: "ServerConfig \<Rightarrow> ServerConfig" where
  "server_WithLogRotationDefaults cfg =
     (let rotation = rotation_WithDefaults (server_LogRotation cfg) in
      cfg \<lparr>SC_LogMaxSizeMB := LR_MaxSizeMB rotation, SC_LogMaxBackups := LR_MaxBackups rotation,
           SC_LogRetentionDays := LR_RetentionDays rotation, SC_LogCompress := LR_Compress rotation\<rparr>)"

definition client_WithLogRotationDefaults :: "ClientConfig \<Rightarrow> ClientConfig" where
  "client_WithLogRotationDefaults cfg =
     (let rotation = rotation_WithDefaults (client_LogRotation cfg) in
      cfg \<lparr>CC_LogMaxSizeMB := LR_MaxSizeMB rotation, CC_LogMaxBackups := LR_MaxBackups rotation,
           CC_LogRetentionDays := LR_RetentionDays rotation, CC_LogCompress := LR_Compress rotation\<rparr>)"

section \<open>Validation\<close>

definition split_error :: error where
  "split_error = New ''missing port in address''"

definition requireAddress :: "string \<Rightarrow> string \<Rightarrow> unit result" where
  "requireAddress name value =
     (if blank value then Inl (New (name @ '' is required''))
      else case SplitHostPort value of
             None \<Rightarrow> Inl (Wrapf (name @ '' must be host:port'') split_error)
           | Some _ \<Rightarrow> Inr ())"

definition ascii_label_char :: "char \<Rightarrow> bool" where
  "ascii_label_char c = (let n = of_char c :: int in
     97 \<le> n \<and> n \<le> 122 \<or> 65 \<le> n \<and> n \<le> 90 \<or> 48 \<le> n \<and> n \<le> 57 \<or> c = CHR ''-'')"

definition label_ok :: "ConfigEnv \<Rightarrow> string \<Rightarrow> bool" where
  "label_ok env label =
     (if label = [] \<or> has_prefix label ''-'' \<or> has_suffix label ''-'' then False
      else if list_all (\<lambda>c. (of_char c :: int) < 128) label then list_all ascii_label_char label
      else cf_unicodeLabel env label)"

definition validateOptionalServiceHost :: "ConfigEnv \<Rightarrow> string \<Rightarrow> string \<Rightarrow> unit result" where
  "validateOptionalServiceHost env name value0 =
     (let value = trim_space value0 in
      if value = [] then Inr ()
      else if contains_sub value ''://'' \<or> contains_sub value ''/''
      then Inl (New (name @ '' must be a domain name or IP address without scheme or path''))
      else if contains_sub value '':'' \<and> ParseIP value = None then Inl (New (name @ '' must not include a port''))
      else if ParseIP value \<noteq> None then Inr ()
      else if list_all (label_ok env) (split_on CHR ''.'' value) then Inr ()
      else Inl (New (name @ '' must be a valid domain name or IP address'')))"

definition acme_Validate :: "ServerConfig \<Rightarrow> unit result" where
  "acme_Validate cfg =
     (if \<not> SC_ACMEEnabled cfg then Inr ()
      else if blank (SC_ACMEDirectoryURL cfg) then Inl (New ''acme_directory_url is required when acme is enabled'')
      else if blank (SC_ACMEAccountEmail cfg) then Inl (New ''acme_account_email is required when acme is enabled'')
      else if \<not> SC_ACMETermsAccepted cfg then Inl (New ''acme_terms_accepted is required when acme is enabled'')
      else if SC_ACMERenewalWindow cfg \<le> 0 then Inl (New ''acme_renewal_window must be positive when acme is enabled'')
      else if blank (SC_ACMECloudflareTokenEnv cfg)
      then Inl (New ''acme_cloudflare_token_env is required when acme is enabled'')
      else Inr ())"

definition originCA_Validate :: "ServerConfig \<Rightarrow> unit result" where
  "originCA_Validate cfg =
     (if \<not> blank (SC_OriginCAServiceKeyPath cfg)
      then Inl (New ''origin_ca_service_key_path is not supported; use an admin-managed cloudflare api token credential'')
      else if \<not> SC_OriginCAEnabled cfg then Inr ()
      else if blank (SC_OriginCASecretStorePath cfg)
      then Inl (New ''origin_ca_secret_store_path is required when origin ca is enabled'')
      else if trim_space (SC_OriginCADefaultRequestType cfg) \<notin> set [[], ''origin-ecc'', ''origin-rsa'']
      then Inl (New ''origin_ca_default_request_type must be origin-ecc or origin-rsa'')
      else if SC_OriginCARequestedValidity cfg \<le> 0
      then Inl (New ''origin_ca_requested_validity must be positive when origin ca is enabled'')
      else if SC_OriginCARotationWindow cfg \<le> 0
      then Inl (New ''origin_ca_rotation_window must be positive when origin ca is enabled'')
      else Inr ())"

definition optionalAddress :: "string \<Rightarrow> string \<Rightarrow> unit result" where
  "optionalAddress name value = (if blank value then Inr () else requireAddress name value)"

definition requireText :: "string \<Rightarrow> string \<Rightarrow> unit result" where
  "requireText name value = reject_if (blank value) (New (name @ '' is required''))"

definition server_Validate :: "ConfigEnv \<Rightarrow> ServerConfig \<Rightarrow> unit result" where
  "server_Validate env cfg =
     rbind (requireAddress ''admin_listen'' (SC_AdminListen cfg)) (\<lambda>_.
     rbind (requireAddress ''client_enrollment_listen'' (SC_ClientEnrollmentListen cfg)) (\<lambda>_.
     rbind (requireAddress ''control_quic_listen'' (SC_ControlQUICListen cfg)) (\<lambda>_.
     rbind (optionalAddress ''control_tls_listen'' (SC_ControlTLSListen cfg)) (\<lambda>_.
     rbind (requireText ''control_tls_cert_file'' (SC_ControlTLSCertFile cfg)) (\<lambda>_.
     rbind (requireText ''control_tls_key_file'' (SC_ControlTLSKeyFile cfg)) (\<lambda>_.
     rbind (validateOptionalServiceHost env ''join_service_host'' (SC_JoinServiceHost cfg)) (\<lambda>_.
     rbind (requireText ''tcp_entry_host'' (SC_TCPEntryHost cfg)) (\<lambda>_.
     rbind (requireAddress ''http_entry_listen'' (SC_HTTPEntryListen cfg)) (\<lambda>_.
     rbind (optionalAddress ''https_entry_listen'' (SC_HTTPSEntryListen cfg)) (\<lambda>_.
     rbind (requireText ''sqlite_path'' (SC_SQLitePath cfg)) (\<lambda>_.
     rbind (requireText ''data_dir'' (SC_DataDir cfg)) (\<lambda>_.
     rbind (requireText ''certificate_dir'' (SC_CertificateDir cfg)) (\<lambda>_.
     rbind (reject_if ((SC_AdminEnabled cfg \<or> \<not> blank (SC_AdminCredentialsFile cfg)) \<and> blank (SC_AdminJWTSecretFile cfg))
              (New ''admin_jwt_secret_file is required when admin is enabled'')) (\<lambda>_.
     rbind (acme_Validate cfg) (\<lambda>_.
     rbind (originCA_Validate cfg) (\<lambda>_.
     rbind (reject_if (SC_HeartbeatTimeout cfg \<le> 0) (New ''heartbeat_timeout must be positive'')) (\<lambda>_.
     rotation_Validate (server_LogRotation cfg))))))))))))))))))"

definition client_config_Validate :: "ClientConfig \<Rightarrow> unit result" where
  "client_config_Validate cfg =
     rbind (requireAddress ''server_address'' (CC_ServerAddress cfg)) (\<lambda>_.
     rbind (optionalAddress ''server_tls_address'' (CC_ServerTLSAddress cfg)) (\<lambda>_.
     rbind (requireText ''server_name'' (CC_ServerName cfg)) (\<lambda>_.
     rbind (requireText ''server_ca_file'' (CC_ServerCAFile cfg)) (\<lambda>_.
     rbind (requireText ''client_id'' (CC_ClientID cfg)) (\<lambda>_.
     rbind (requireText ''credential'' (CC_Credential cfg)) (\<lambda>_.
     rbind (reject_if (CC_AllowedProtocols cfg = []) (New ''allowed_protocols is required'')) (\<lambda>_.
     rbind (case find (\<lambda>protocol. \<not> protocol_Valid protocol) (CC_AllowedProtocols cfg) of
              Some protocol \<Rightarrow> Inl (New (''unsupported protocol '' @ protocol))
            | None \<Rightarrow> Inr ()) (\<lambda>_.
     rbind (reject_if (RC_InitialDelay (CC_Reconnect cfg) \<le> 0) (New ''reconnect.initial_delay must be positive'')) (\<lambda>_.
     rbind (reject_if (RC_MaxDelay (CC_Reconnect cfg) < RC_InitialDelay (CC_Reconnect cfg))
              (New ''reconnect.max_delay must be greater than or equal to reconnect.initial_delay'')) (\<lambda>_.
     rotation_Validate (client_LogRotation cfg)))))))))))"

section \<open>Listeners\<close>

definition listenerClaimFromAddress :: "string \<Rightarrow> string \<Rightarrow> string \<Rightarrow> string \<Rightarrow> ListenerClaim list" where
  "listenerClaimFromAddress sourceName protocol network value0 =
     (let value = trim_space value0;
          broken = \<lparr>Claim_Protocol = protocol, Claim_Network = network, Claim_BindHost = [], Claim_Port = 0,
                    Claim_Source = sourceName, Claim_ResourceID = []\<rparr>
      in if value = [] then []
         else case SplitHostPort value of
                None \<Rightarrow> [broken]
              | Some (host, portText) \<Rightarrow>
                  (case atoi portText of
                     None \<Rightarrow> [broken]
                   | Some port \<Rightarrow> [broken \<lparr>Claim_BindHost := NormalizeBindHost host, Claim_Port := port,
                                          Claim_ResourceID := sourceName\<rparr>]))"

definition RuntimeListenerClaims :: "ServerConfig \<Rightarrow> bool \<Rightarrow> ListenerClaim list result" where
  "RuntimeListenerClaims cfg includeAdmin =
     (let claims =
        listenerClaimFromAddress ''control_quic_listen'' ''control_quic'' ListenerNetworkUDP (SC_ControlQUICListen cfg) @
        listenerClaimFromAddress ''control_tls_listen'' ''control_tls'' ListenerNetworkTCP (SC_ControlTLSListen cfg) @
        listenerClaimFromAddress ''client_enrollment_listen'' ''client_enrollment'' ListenerNetworkTCP
          (SC_ClientEnrollmentListen cfg) @
        (if includeAdmin then listenerClaimFromAddress ''admin_listen'' ''admin'' ListenerNetworkTCP (SC_AdminListen cfg)
         else []) @
        listenerClaimFromAddress ''http_entry_listen'' ListenerProtocolHTTP ListenerNetworkTCP (SC_HTTPEntryListen cfg) @
        listenerClaimFromAddress ''https_entry_listen'' ListenerProtocolHTTPS ListenerNetworkTCP (SC_HTTPSEntryListen cfg)
      in case find (\<lambda>claim. Claim_Port claim = 0) claims of
           Some claim \<Rightarrow> Inl (New (Claim_Source claim @ '' port is invalid''))
         | None \<Rightarrow> Inr claims)"

definition server_ProxyEntryDefaults :: "ServerConfig \<Rightarrow> ProxyEntryDefaults result" where
  "server_ProxyEntryDefaults cfg =
     (case ParseListenAddress (SC_HTTPEntryListen cfg) of
        Inl e \<Rightarrow> Inl (Wrapf ''http_entry_listen must be host:port'' e)
      | Inr (httpHost, httpPort) \<Rightarrow>
          (let defaults = \<lparr>Def_TCPBindHost = NormalizeBindHost (SC_TCPEntryHost cfg), Def_HTTPBindHost = httpHost,
                           Def_HTTPPort = httpPort, Def_HTTPSBindHost = [], Def_HTTPSPort = 0\<rparr>
           in if blank (SC_HTTPSEntryListen cfg) then Inr defaults
              else case ParseListenAddress (SC_HTTPSEntryListen cfg) of
                     Inl e \<Rightarrow> Inl (Wrapf ''https_entry_listen must be host:port'' e)
                   | Inr (httpsHost, httpsPort) \<Rightarrow>
                       Inr (defaults \<lparr>Def_HTTPSBindHost := httpsHost, Def_HTTPSPort := httpsPort\<rparr>)))"

section \<open>Defaults for a client that joins\<close>

definition config_trimIPv6Brackets :: "string \<Rightarrow> string" where
  "config_trimIPv6Brackets host = trim_suffix (trim_prefix (trim_space host) ''['') '']''"

definition isUnspecifiedHost :: "string \<Rightarrow> bool" where
  "isUnspecifiedHost host0 =
     (let host = trim_space (config_trimIPv6Brackets host0) in
      if host = [] then True
      else case ParseIP host of None \<Rightarrow> False | Some ip \<Rightarrow> ip_IsUnspecified ip)"

definition addressPort :: "string \<Rightarrow> string \<Rightarrow> string result" where
  "addressPort name value =
     (case SplitHostPort (trim_space value) of
        None \<Rightarrow> Inl (Wrapf (name @ '' must be host:port'') split_error)
      | Some (host, port) \<Rightarrow> (if port = [] then Inl (New (name @ '' port is invalid'')) else Inr port))"

text \<open>The first listen address with a host that names a machine.\<close>

fun candidate_host :: "(string \<times> string) list \<Rightarrow> (string \<times> string) option" where
  "candidate_host [] = None"
| "candidate_host ((src, address) # rest) =
     (case SplitHostPort (trim_space address) of
        None \<Rightarrow> candidate_host rest
      | Some (host, port) \<Rightarrow> (if isUnspecifiedHost host then candidate_host rest else Some (config_trimIPv6Brackets host, src)))"

definition confirmedJoinServiceHost :: "ConfigEnv \<Rightarrow> ServerConfig \<Rightarrow> (string \<times> string) result" where
  "confirmedJoinServiceHost env cfg =
     (let host = trim_space (SC_JoinServiceHost cfg) in
      if host \<noteq> [] then
        rbind (validateOptionalServiceHost env ''join_service_host'' host) (\<lambda>_. Inr (config_trimIPv6Brackets host, ''join_service_host''))
      else case candidate_host [(''control_quic_listen'', SC_ControlQUICListen cfg), (''control_tls_listen'', SC_ControlTLSListen cfg)] of
             Some found \<Rightarrow> Inr found
           | None \<Rightarrow> (if cf_localIP env \<noteq> [] then Inr (cf_localIP env, ''local_interface'')
                      else Inr (''127.0.0.1'', ''loopback_fallback'')))"

definition ConfirmJoinServiceDefaults :: "ConfigEnv \<Rightarrow> ServerConfig \<Rightarrow> JoinServiceDefaults result" where
  "ConfirmJoinServiceDefaults env cfg =
     rbind (server_Validate env cfg) (\<lambda>_.
     rbind (confirmedJoinServiceHost env cfg) (\<lambda>(host, src).
     rbind (addressPort ''control_quic_listen'' (SC_ControlQUICListen cfg)) (\<lambda>quicPort.
     rbind (if blank (SC_ControlTLSListen cfg) then Inr []
            else rbind (addressPort ''control_tls_listen'' (SC_ControlTLSListen cfg)) (\<lambda>tlsPort. Inr (JoinHostPort host tlsPort))) (\<lambda>tlsAddress.
     rbind (addressPort ''client_enrollment_listen'' (SC_ClientEnrollmentListen cfg)) (\<lambda>enrollmentPort.
     rbind (addressPort ''admin_listen'' (SC_AdminListen cfg)) (\<lambda>adminPort.
       Inr \<lparr>JD_Host = host, JD_Source = src, JD_ServerAddress = JoinHostPort host quicPort, JD_ServerTLSAddress = tlsAddress,
            JD_EnrollmentURL = ''http://'' @ JoinHostPort host enrollmentPort @ ''/api/client/enroll'',
            JD_LegacyAdminEnrollmentURL = ''http://'' @ JoinHostPort host adminPort @ ''/api/client/enroll'',
            JD_ServerName = SC_ControlTLSServerName cfg, JD_ServerCAFile = SC_ControlTLSCAFile cfg\<rparr>))))))"

section \<open>Files\<close>

definition LoadServer :: "ConfigEnv \<Rightarrow> string \<Rightarrow> (Disk, ServerConfig) op" where
  "LoadServer env path =
     sbind (os_ReadFile (cf_fc env) path) (\<lambda>content.
     sbind (slift (map_sum (Wrapf (''decode '' @ path)) id (cf_decodeServer env content DefaultServer))) (\<lambda>cfg.
     sbind (slift (server_Validate env cfg)) (\<lambda>_. sret cfg)))"

definition LoadClient :: "ConfigEnv \<Rightarrow> string \<Rightarrow> (Disk, ClientConfig) op" where
  "LoadClient env path =
     sbind (os_ReadFile (cf_fc env) path) (\<lambda>content.
     sbind (slift (map_sum (Wrapf (''decode '' @ path)) id (cf_decodeClient env content DefaultClient))) (\<lambda>cfg.
     sbind (slift (client_config_Validate cfg)) (\<lambda>_. sret cfg)))"

definition LoadDefaultServer :: "ConfigEnv \<Rightarrow> ServerConfig result" where
  "LoadDefaultServer env = rbind (server_Validate env DefaultServer) (\<lambda>_. Inr DefaultServer)"

text \<open>fileExists of managed.go: any error of Stat is no file.\<close>

definition managed_fileExists :: "ConfigEnv \<Rightarrow> string \<Rightarrow> (Disk, bool) op" where
  "managed_fileExists env path =
     (if path = [] then sret False
      else shandle (os_Stat (cf_fc env) path) (\<lambda>r. sret (case r of Inl _ \<Rightarrow> False | Inr _ \<Rightarrow> \<not> cf_isDir env path)))"

definition MinAdminJWTSecretBytes :: int where "MinAdminJWTSecretBytes = 32"

definition managed_dir :: "string \<Rightarrow> string" where
  "managed_dir path =
     (case rev (split_on CHR ''/'' path) of
        [] \<Rightarrow> ''.''
      | [_] \<Rightarrow> ''.''
      | _ # parents \<Rightarrow> filepath_Clean (if concat parents = [] then ''/'' else join_with ''/'' (rev parents)))"

definition LoadAdminJWTSecret :: "ConfigEnv \<Rightarrow> string \<Rightarrow> (Disk, string) op" where
  "LoadAdminJWTSecret env path =
     (if blank path then sfail (New ''admin_jwt_secret_file is required'')
      else shandle (os_ReadFile (cf_fc env) path) (\<lambda>r. case r of
        Inl e \<Rightarrow> sfail (Wrapf ''read admin jwt secret'' e)
      | Inr content \<Rightarrow>
          (case b64_decode (trim_space (string_of_bytes content)) of
             Inl e \<Rightarrow> sfail (Wrapf ''decode admin jwt secret'' e)
           | Inr secret \<Rightarrow>
               (if int (length secret) < MinAdminJWTSecretBytes then sfail (New ''admin jwt secret must be at least 32 bytes'')
                else sret secret))))"

definition EnsureAdminJWTSecret :: "ConfigEnv \<Rightarrow> ServerConfig \<Rightarrow> (Disk, unit) op" where
  "EnsureAdminJWTSecret env cfg =
     (if blank (SC_AdminJWTSecretFile cfg) then sfail (New ''admin_jwt_secret_file is required'')
      else sbind (managed_fileExists env (SC_AdminJWTSecretFile cfg)) (\<lambda>exists.
        if exists then sbind (LoadAdminJWTSecret env (SC_AdminJWTSecretFile cfg)) (\<lambda>_. sret ())
        else sbind (slift (map_sum (Wrapf ''generate admin jwt secret'') id (cf_random env))) (\<lambda>secret.
             sbind (fs_call (cf_fc env) (FsMkdirAll (managed_dir (SC_AdminJWTSecretFile cfg)))) (\<lambda>_.
             os_WriteFile (cf_fc env) (SC_AdminJWTSecretFile cfg) (bytes_of_string (b64_encode secret @ [CHR 0x0A])) (cf_now env)))))"

definition write_control_file :: "ConfigEnv \<Rightarrow> string \<times> byte list \<Rightarrow> (Disk, unit) op" where
  "write_control_file env = (\<lambda>(path, content).
     sbind (fs_call (cf_fc env) (FsMkdirAll (managed_dir path))) (\<lambda>_. os_WriteFile (cf_fc env) path content (cf_now env)))"

definition EnsureControlTLS :: "ConfigEnv \<Rightarrow> ServerConfig \<Rightarrow> (Disk, unit) op" where
  "EnsureControlTLS env cfg =
     sbind (managed_fileExists env (SC_ControlTLSCAFile cfg)) (\<lambda>ca.
     sbind (if ca then managed_fileExists env (SC_ControlTLSCertFile cfg) else sret False) (\<lambda>cert.
     sbind (if cert then managed_fileExists env (SC_ControlTLSKeyFile cfg) else sret False) (\<lambda>key.
       if key then sret ()
       else sbind (slift (cf_controlTLS env (SC_ControlTLSServerName cfg))) (\<lambda>(caPEM, certPEM, keyPEM).
            sfor (write_control_file env)
              [(SC_ControlTLSCAFile cfg, caPEM), (SC_ControlTLSCertFile cfg, certPEM), (SC_ControlTLSKeyFile cfg, keyPEM)]))))"

definition make_managed_dir :: "ConfigEnv \<Rightarrow> string \<Rightarrow> (Disk, unit) op" where
  "make_managed_dir env dir =
     shandle (fs_call (cf_fc env) (FsMkdirAll dir)) (\<lambda>r. case r of
       Inl e \<Rightarrow> sfail (Wrapf (''create managed directory '' @ dir) e) | Inr _ \<Rightarrow> sret ())"

definition PrepareManagedServer :: "ConfigEnv \<Rightarrow> ServerConfig \<Rightarrow> (Disk, unit) op" where
  "PrepareManagedServer env cfg =
     sbind (sfor (make_managed_dir env) [SC_DataDir cfg, SC_CertificateDir cfg]) (\<lambda>_.
     sbind (EnsureAdminJWTSecret env cfg) (\<lambda>_. EnsureControlTLS env cfg))"

section \<open>The managed start\<close>

definition ResolveServerPaths :: "string \<Rightarrow> ServerConfig \<Rightarrow> ServerConfig" where
  "ResolveServerPaths root cfg =
     cfg \<lparr>SC_AdminCredentialsFile := deploypath_Resolve root (SC_AdminCredentialsFile cfg),
          SC_AdminFrontendDir := deploypath_Resolve root (SC_AdminFrontendDir cfg),
          SC_AdminJWTSecretFile := deploypath_Resolve root (SC_AdminJWTSecretFile cfg),
          SC_ControlTLSCAFile := deploypath_Resolve root (SC_ControlTLSCAFile cfg),
          SC_ControlTLSCertFile := deploypath_Resolve root (SC_ControlTLSCertFile cfg),
          SC_ControlTLSKeyFile := deploypath_Resolve root (SC_ControlTLSKeyFile cfg),
          SC_SQLitePath := deploypath_Resolve root (SC_SQLitePath cfg),
          SC_DataDir := deploypath_Resolve root (SC_DataDir cfg),
          SC_CertificateDir := deploypath_Resolve root (SC_CertificateDir cfg),
          SC_OriginCASecretStorePath := deploypath_Resolve root (SC_OriginCASecretStorePath cfg)\<rparr>"

definition ResolveClientPaths :: "string \<Rightarrow> ClientConfig \<Rightarrow> ClientConfig" where
  "ResolveClientPaths root cfg = cfg \<lparr>CC_ServerCAFile := deploypath_Resolve root (CC_ServerCAFile cfg)\<rparr>"

definition envString :: "ConfigEnv \<Rightarrow> string \<Rightarrow> string \<Rightarrow> string" where
  "envString env name current = (if cf_getenv env name \<noteq> [] then cf_getenv env name else current)"

definition applyManagedServerEnv :: "ConfigEnv \<Rightarrow> ServerConfig \<Rightarrow> ServerConfig" where
  "applyManagedServerEnv env cfg =
     cfg \<lparr>SC_AdminListen := envString env ''GOGINX_ADMIN_LISTEN'' (SC_AdminListen cfg),
          SC_AdminJWTSecretFile := envString env ''GOGINX_ADMIN_JWT_SECRET_FILE'' (SC_AdminJWTSecretFile cfg),
          SC_ClientEnrollmentListen := envString env ''GOGINX_CLIENT_ENROLLMENT_LISTEN'' (SC_ClientEnrollmentListen cfg),
          SC_ControlQUICListen := envString env ''GOGINX_CONTROL_QUIC_LISTEN'' (SC_ControlQUICListen cfg),
          SC_ControlTLSListen := envString env ''GOGINX_CONTROL_TLS_LISTEN'' (SC_ControlTLSListen cfg),
          SC_ControlTLSServerName := envString env ''GOGINX_CONTROL_TLS_SERVER_NAME'' (SC_ControlTLSServerName cfg),
          SC_ControlTLSCAFile := envString env ''GOGINX_CONTROL_TLS_CA_FILE'' (SC_ControlTLSCAFile cfg),
          SC_ControlTLSCertFile := envString env ''GOGINX_CONTROL_TLS_CERT_FILE'' (SC_ControlTLSCertFile cfg),
          SC_ControlTLSKeyFile := envString env ''GOGINX_CONTROL_TLS_KEY_FILE'' (SC_ControlTLSKeyFile cfg),
          SC_JoinServiceHost := envString env ''GOGINX_JOIN_SERVICE_HOST'' (SC_JoinServiceHost cfg),
          SC_TCPEntryHost := envString env ''GOGINX_TCP_ENTRY_HOST'' (SC_TCPEntryHost cfg),
          SC_HTTPEntryListen := envString env ''GOGINX_HTTP_ENTRY_LISTEN'' (SC_HTTPEntryListen cfg),
          SC_HTTPSEntryListen := envString env ''GOGINX_HTTPS_ENTRY_LISTEN'' (SC_HTTPSEntryListen cfg),
          SC_SQLitePath := envString env ''GOGINX_SQLITE_PATH'' (SC_SQLitePath cfg),
          SC_DataDir := envString env ''GOGINX_DATA_DIR'' (SC_DataDir cfg),
          SC_CertificateDir := envString env ''GOGINX_CERTIFICATE_DIR'' (SC_CertificateDir cfg)\<rparr>"

abbreviation DefaultServerConfigPath :: string where "DefaultServerConfigPath \<equiv> ''config/server.json''"
abbreviation DefaultClientStatePath :: string where "DefaultClientStatePath \<equiv> ''data/client-state.json''"
abbreviation DefaultClientCAFile :: string where "DefaultClientCAFile \<equiv> ''data/certs/server-ca.crt''"

definition LoadManagedServerAtRoot :: "ConfigEnv \<Rightarrow> string \<Rightarrow> (Disk, ServerConfig) op" where
  "LoadManagedServerAtRoot env root =
     sbind (if root = [] then sret (DefaultServer \<lparr>SC_AdminEnabled := True\<rparr>)
            else let configPath = deploypath_Resolve root DefaultServerConfigPath in
              sbind (managed_fileExists env configPath) (\<lambda>exists.
                if exists then LoadServer env configPath else sret (DefaultServer \<lparr>SC_AdminEnabled := True\<rparr>))) (\<lambda>loaded.
     (let cfg = ResolveServerPaths root (applyManagedServerEnv env loaded) in
      sbind (PrepareManagedServer env cfg) (\<lambda>_.
      sbind (slift (server_Validate env cfg)) (\<lambda>_. sret cfg))))"

record JoinServiceDefaultsResult =
  JDR_Defaults :: JoinServiceDefaults
  JDR_Server :: ServerConfig
  JDR_ConfigPath :: string
  JDR_Source :: string

definition resolveServerConfigPath :: "ConfigEnv \<Rightarrow> string \<Rightarrow> string \<Rightarrow> (Disk, string) op" where
  "resolveServerConfigPath env root path =
     shandle (os_Stat (cf_fc env) path) (\<lambda>r. sret (case r of
       Inr _ \<Rightarrow> path
     | Inl _ \<Rightarrow> (if cf_isDir env path \<and> cf_fc env (FsStat path) = None then path else deploypath_Resolve root path)))"

definition LoadJoinServiceDefaults :: "ConfigEnv \<Rightarrow> string \<Rightarrow> string \<Rightarrow> (Disk, JoinServiceDefaultsResult) op" where
  "LoadJoinServiceDefaults env root serverConfigPath =
     (let managed = (DefaultServer \<lparr>SC_AdminEnabled := True\<rparr>, [], ''managed_defaults'') in
      sbind (if serverConfigPath \<noteq> [] then
               sbind (resolveServerConfigPath env root serverConfigPath) (\<lambda>path.
               sbind (LoadServer env path) (\<lambda>cfg. sret (cfg, path, ''server_config'')))
             else if root \<noteq> [] then
               (let path = deploypath_Resolve root DefaultServerConfigPath in
                sbind (managed_fileExists env path) (\<lambda>exists.
                  if exists then sbind (LoadServer env path) (\<lambda>cfg. sret (cfg, path, ''deployment_server_config''))
                  else sret managed))
             else sret managed) (\<lambda>(loaded, configPath, src).
      (let cfg = ResolveServerPaths root (if serverConfigPath = [] then applyManagedServerEnv env loaded else loaded) in
       sbind (slift (ConfirmJoinServiceDefaults env cfg)) (\<lambda>defaults.
         sret \<lparr>JDR_Defaults = defaults, JDR_Server = cfg, JDR_ConfigPath = configPath, JDR_Source = src\<rparr>))))"

definition SaveManagedClient :: "ConfigEnv \<Rightarrow> ClientConfig \<Rightarrow> string \<Rightarrow> (Disk, unit) op" where
  "SaveManagedClient env cfg path0 =
     (let path = (if path0 = [] then DefaultClientStatePath else path0) in
      sbind (slift (client_config_Validate cfg)) (\<lambda>_.
      sbind (fs_call (cf_fc env) (FsMkdirAll (managed_dir path))) (\<lambda>_.
      sbind (slift (cf_encodeClient env cfg)) (\<lambda>content.
      os_WriteFile (cf_fc env) path (content @ [10]) (cf_now env)))))"

definition WriteClientCA :: "ConfigEnv \<Rightarrow> byte list \<Rightarrow> string \<Rightarrow> (Disk, unit) op" where
  "WriteClientCA env caPEM path0 =
     (let path = (if path0 = [] then DefaultClientCAFile else path0) in
      if caPEM = [] then sfail (New ''ca pem is required'')
      else sbind (fs_call (cf_fc env) (FsMkdirAll (managed_dir path))) (\<lambda>_.
           os_WriteFile (cf_fc env) path caPEM (cf_now env)))"

end
