(* ===== verification/ConfigProps.thy ===== *)
theory ConfigProps
  imports Config ApiProps
begin

text \<open>
  What a configuration is good for: a managed start leaves a validated configuration and a signing secret
  that the administration accepts; defaults of the log rotation are valid.
\<close>

lemma trim_line_end:
  assumes "s \<noteq> []" "\<And>c. c \<in> set s \<Longrightarrow> plain_char c"
  shows "trim_space (s @ [CHR 0x0A]) = s"
proof -
  obtain a t where s: "s = a # t" using assms(1) by (cases s) auto
  have front: "no_item go_spaces (s @ [CHR 0x0A])"
    unfolding no_item_def
  proof (intro ballI impI notI)
    fix p assume p: "p \<in> set go_spaces" "p \<noteq> []" "has_prefix (s @ [CHR 0x0A]) p"
    obtain x q where xq: "p = x # q" using p(2) by (cases p) auto
    then have "hd p = a" using p(3) s by (simp add: has_prefix_def)
    then show False using assms(2)[of a] p(1) s by (auto simp: plain_char_def list_all_iff)
  qed
  have found: "find (\<lambda>p. p \<noteq> [] \<and> has_prefix (CHR 0x0A # rev s) p) (map rev go_spaces) = Some [CHR 0x0A]"
    by (simp add: go_spaces_def has_prefix_def)
  have "trim_space s = s" by (rule trim_plain[OF assms(2)])
  then have "strip_items (map rev go_spaces) (rev s) = rev s"
    unfolding trim_space_def using trim_plain[OF assms(2)] front
    by (metis no_item_prefix strip_no_item rev_rev_ident)
  then have "strip_items (map rev go_spaces) (CHR 0x0A # rev s) = rev s"
    by (simp add: strip_items.simps[of "map rev go_spaces" "CHR 0x0A # rev s"] found)
  then show ?thesis by (simp add: trim_space_def strip_no_item[OF front])
qed

definition secret_file :: "string \<Rightarrow> byte list" where
  "secret_file secret = bytes_of_string (b64_encode secret @ [CHR 0x0A])"

text \<open>A file that holds a usable secret.\<close>

definition holds_secret :: "string \<Rightarrow> Disk \<Rightarrow> bool" where
  "holds_secret path d \<longleftrightarrow>
     (\<exists>f secret. gm_get (dk_files d) path = Some f \<and>
        b64_decode (trim_space (string_of_bytes (file_content f))) = Inr secret \<and> 32 \<le> length secret)"

lemma holds_secret_loads:
  assumes "\<not> blank path" "cf_fc env (FsReadFile path) = None" "holds_secret path d"
  shows "\<exists>secret. LoadAdminJWTSecret env path d = (Inr secret, d) \<and> 32 \<le> length secret"
  using assms by (auto simp: holds_secret_def LoadAdminJWTSecret_def shandle_def os_ReadFile_def MinAdminJWTSecretBytes_def)

lemma loads_holds_secret:
  "LoadAdminJWTSecret env path d = (Inr secret, d') \<Longrightarrow> d' = d \<and> holds_secret path d"
  by (auto simp: holds_secret_def LoadAdminJWTSecret_def shandle_def os_ReadFile_def MinAdminJWTSecretBytes_def
      split: if_splits option.splits sum.splits)

lemma written_secret:
  assumes "length secret = 32"
  shows "b64_decode (trim_space (string_of_bytes (secret_file secret))) = Inr secret"
proof -
  have "b64_encode secret \<noteq> []" using assms by (auto simp: b64_encode_Nil)
  then have "trim_space (b64_encode secret @ [CHR 0x0A]) = b64_encode secret"
    by (rule trim_line_end) (simp add: b64_plain)
  then show ?thesis by (simp only: secret_file_def string_of_bytes_of_string b64_roundtrip)
qed

lemma exists_state: "managed_fileExists env path d = (r, d') \<Longrightarrow> d' = d"
  by (auto simp: managed_fileExists_def shandle_def os_Stat_def split: if_splits option.splits)

lemma ensured_secret:
  assumes "EnsureAdminJWTSecret env cfg d = (Inr (), d')" "\<And>s. cf_random env = Inr s \<Longrightarrow> length s = 32"
  shows "\<not> blank (SC_AdminJWTSecretFile cfg) \<and> holds_secret (SC_AdminJWTSecretFile cfg) d'"
proof -
  let ?path = "SC_AdminJWTSecretFile cfg"
  have path: "\<not> blank ?path" using assms(1) by (auto simp: EnsureAdminJWTSecret_def)
  obtain found d0 where found: "managed_fileExists env ?path d = (Inr found, d0)"
    and rest: "(if found then sbind (LoadAdminJWTSecret env ?path) (\<lambda>_. sret ())
        else sbind (slift (map_sum (Wrapf ''generate admin jwt secret'') id (cf_random env))) (\<lambda>secret.
             sbind (fs_call (cf_fc env) (FsMkdirAll (managed_dir ?path))) (\<lambda>_.
             os_WriteFile (cf_fc env) ?path (bytes_of_string (b64_encode secret @ [CHR 0x0A])) (cf_now env)))) d0 = (Inr (), d')"
    using assms(1) path by (auto simp: EnsureAdminJWTSecret_def sbind_eq_Inr)
  show ?thesis
  proof (cases found)
    case True
    then obtain secret where "LoadAdminJWTSecret env ?path d0 = (Inr secret, d')" using rest by (auto simp: sbind_eq_Inr)
    then show ?thesis using loads_holds_secret path by blast
  next
    case False
    then obtain secret d1 where "cf_random env = Inr secret"
      "os_WriteFile (cf_fc env) ?path (secret_file secret) (cf_now env) d1 = (Inr (), d')"
      using rest by (cases "cf_random env") (auto simp: sbind_eq_Inr secret_file_def)
    then show ?thesis using assms(2) path
      by (auto simp: holds_secret_def os_WriteFile_def sbind_eq_Inr fs_change_def written_secret)
  qed
qed

text \<open>Making the control certificate leaves other files alone.\<close>

lemma keeps_other_file:
  assumes "path \<notin> {SC_ControlTLSCAFile cfg, SC_ControlTLSCertFile cfg, SC_ControlTLSKeyFile cfg}"
  shows "keeps (holds_secret path) (EnsureControlTLS env cfg)"
proof -
  have call_keeps: "keeps (holds_secret path) (fs_call fc c)" for fc c by (auto simp: keeps_def fs_call_def split: option.splits)
  have exists_keeps: "keeps (holds_secret path) (managed_fileExists env p)" for p
    using exists_state[of env p] by (auto simp: keeps_def) (metis prod.collapse)
  have write_keeps: "keeps (holds_secret path) (write_control_file env (p, c))" if "p \<noteq> path" for p c
  proof -
    have "keeps (holds_secret path) (smodify (fs_change (gm_put p f)))" for f
      using that by (auto simp: keeps_def holds_secret_def fs_change_def)
    then show ?thesis unfolding write_control_file_def os_WriteFile_def by (simp add: keeps_sbind call_keeps)
  qed
  have writes_keeps: "keeps (holds_secret path) (sfor (write_control_file env)
      [(SC_ControlTLSCAFile cfg, a), (SC_ControlTLSCertFile cfg, b), (SC_ControlTLSKeyFile cfg, c)])" for a b c
    using assms by (simp only: sfor.simps) (intro keeps_sbind keeps_basic write_keeps; auto)
  show ?thesis unfolding EnsureControlTLS_def
    by (intro keeps_sbind keeps_if keeps_basic exists_keeps) (simp add: split_beta writes_keeps del: sfor.simps)
qed

text \<open>
  C40: When the managed start of a server succeeds, the configuration it returns is valid and the signing
  secret of the administration is on the disk: reading the file gives a secret of at least 32 bytes, with
  which the session manager is made, whether the file was there before or has just been written; provided
  that the control certificate is not stored over it and reading it does not fail.\<close>
theorem managed_start_ready:
  assumes "LoadManagedServerAtRoot env root d = (Inr cfg, d')"
    and "\<And>s. cf_random env = Inr s \<Longrightarrow> length s = 32"
    and "SC_AdminJWTSecretFile cfg \<notin> {SC_ControlTLSCAFile cfg, SC_ControlTLSCertFile cfg, SC_ControlTLSKeyFile cfg}"
    and "cf_fc env (FsReadFile (SC_AdminJWTSecretFile cfg)) = None"
  shows "server_Validate env cfg = Inr () \<and>
    (\<exists>secret. LoadAdminJWTSecret env (SC_AdminJWTSecretFile cfg) d' = (Inr secret, d') \<and> 32 \<le> length secret \<and>
       (\<exists>manager. newSessionManager secret lifetime = Inr manager \<and> sm_secret manager = secret \<and> sm_absoluteLifetime manager > 0))"
proof -
  obtain d0 where prepared: "PrepareManagedServer env cfg d0 = (Inr (), d')" and valid: "server_Validate env cfg = Inr ()"
    using assms(1) by (auto simp: LoadManagedServerAtRoot_def sbind_eq_Inr Let_def)
  obtain d1 d2 where secret: "EnsureAdminJWTSecret env cfg d1 = (Inr (), d2)" and tls: "EnsureControlTLS env cfg d2 = (Inr (), d')"
    using prepared by (auto simp: PrepareManagedServer_def sbind_eq_Inr)
  have held: "\<not> blank (SC_AdminJWTSecretFile cfg)" "holds_secret (SC_AdminJWTSecretFile cfg) d2"
    using ensured_secret[OF secret assms(2)] by auto
  have "holds_secret (SC_AdminJWTSecretFile cfg) d'"
    by (rule keepsD[OF keeps_other_file[OF assms(3)] held(2) tls])
  then obtain s where "LoadAdminJWTSecret env (SC_AdminJWTSecretFile cfg) d' = (Inr s, d')" "32 \<le> length s"
    using holds_secret_loads[OF held(1) assms(4)] by blast
  then show ?thesis using valid
    by (auto simp: newSessionManager_def minAdminJWTSecretLength_def defaultSessionAbsoluteLifetime_def)
qed

section \<open>A start on an empty disk\<close>

definition start_env :: ConfigEnv where
  "start_env = \<lparr>cf_fc = (\<lambda>_. None), cf_isDir = (\<lambda>_. False), cf_now = 0, cf_decodeServer = (\<lambda>_ cfg. Inr cfg), cf_decodeClient = (\<lambda>_ cfg. Inr cfg),
     cf_encodeClient = (\<lambda>_. Inr []), cf_getenv = (\<lambda>_. []), cf_random = Inr (replicate 32 CHR ''s''),
     cf_controlTLS = (\<lambda>_. Inr ([1], [2], [3])), cf_localIP = [], cf_unicodeLabel = (\<lambda>_. False)\<rparr>"

definition empty_disk :: Disk where "empty_disk = \<lparr>dk_files = [], dk_past = []\<rparr>"

definition start_config :: ServerConfig where "start_config = DefaultServer \<lparr>SC_AdminEnabled := True\<rparr>"

lemma start_config_resolved: "ResolveServerPaths [] (applyManagedServerEnv start_env start_config) = start_config"
  by code_simp

lemma start_config_valid: "server_Validate start_env start_config = Inr ()"
  by code_simp

lemma start_prepared: "fst (PrepareManagedServer start_env start_config empty_disk) = Inr ()"
  by code_simp

lemma start_run:
  "LoadManagedServerAtRoot start_env [] empty_disk =
     (Inr start_config, snd (PrepareManagedServer start_env start_config empty_disk))"
proof -
  obtain d where "PrepareManagedServer start_env start_config empty_disk = (Inr (), d)"
    using start_prepared by (cases "PrepareManagedServer start_env start_config empty_disk") simp
  then show ?thesis
    by (simp add: LoadManagedServerAtRoot_def start_config_def[symmetric] start_config_resolved start_config_valid
        sbind_def sret_def slift_def Let_def)
qed

theorem managed_start_ready_witness:
  "\<exists>secret. LoadAdminJWTSecret start_env ''data/admin-jwt.key'' (snd (LoadManagedServerAtRoot start_env [] empty_disk)) =
       (Inr secret, snd (LoadManagedServerAtRoot start_env [] empty_disk)) \<and> 32 \<le> length secret"
proof -
  have paths: "SC_AdminJWTSecretFile start_config = ''data/admin-jwt.key''"
      "SC_ControlTLSCAFile start_config = ''data/certs/control-ca.crt''"
      "SC_ControlTLSCertFile start_config = ''data/certs/control.crt''"
      "SC_ControlTLSKeyFile start_config = ''data/certs/control.key''"
    by (simp_all add: start_config_def DefaultServer_def)
  have env: "cf_fc start_env c = None" "cf_random start_env = Inr (replicate 32 CHR ''s'')" for c
    by (simp_all add: start_env_def)
  show ?thesis using managed_start_ready[OF start_run, of 0] by (auto simp: paths env start_run)
qed

text \<open>
  The control certificate is made as a set: one missing file of the three, and the other two are replaced
  as well, whatever they held.\<close>

lemma control_set_regenerated:
  assumes "\<And>call. cf_fc env call = None" "cf_controlTLS env (SC_ControlTLSServerName cfg) = Inr (ca, cert, key)"
    and "gm_get (dk_files d) (SC_ControlTLSCAFile cfg) = None"
    and "distinct [SC_ControlTLSCAFile cfg, SC_ControlTLSCertFile cfg, SC_ControlTLSKeyFile cfg]"
  shows "\<exists>d' f g. EnsureControlTLS env cfg d = (Inr (), d') \<and>
    gm_get (dk_files d') (SC_ControlTLSCertFile cfg) = Some f \<and> file_content f = cert \<and>
    gm_get (dk_files d') (SC_ControlTLSKeyFile cfg) = Some g \<and> file_content g = key"
  using assms by (simp add: EnsureControlTLS_def managed_fileExists_def os_Stat_def shandle_def sbind_def sret_def slift_def
      write_control_file_def fs_call_def os_WriteFile_def smodify_def fs_change_def)

text \<open>
  A client that joins is given a host to dial, never the empty one of a listen address like \<open>:8443\<close>.\<close>

lemma brackets_only: "trim_suffix (trim_prefix h ''['') '']'' = [] \<Longrightarrow> h \<in> {[], ''['', '']'', ''[]''}"
  by (cases h; cases "tl h") (auto simp: trim_prefix_def trim_suffix_def has_prefix_def has_suffix_def split: if_splits)

lemma trim_space_Nil [simp]: "trim_space [] = []"
  by code_simp

lemma bracket_hosts_invalid: "validateOptionalServiceHost env name h = Inr () \<Longrightarrow> h \<notin> {''['', '']'', ''[]''}"
proof -
  have "validateOptionalServiceHost env name h \<noteq> Inr ()" if "h \<in> {''['', '']'', ''[]''}"
  proof -
    have "ParseIP h = None" "trim_space h = h" "\<not> contains_sub h '':''" "\<not> contains_sub h ''/''" "\<not> contains_sub h ''://''"
        "list_all (\<lambda>c. (of_char c :: int) < 128) h" "\<not> list_all ascii_label_char h" "split_on CHR ''.'' h = [h]" "h \<noteq> []"
      using that by (elim insertE emptyE; hypsubst; code_simp)+
    then show ?thesis by (simp add: validateOptionalServiceHost_def label_ok_def Let_def)
  qed
  then show "validateOptionalServiceHost env name h = Inr () \<Longrightarrow> h \<notin> {''['', '']'', ''[]''}" by blast
qed

lemma candidate_host_names: "candidate_host cs = Some (host, src) \<Longrightarrow> host \<noteq> []"
proof (induction cs rule: candidate_host.induct)
  case (2 name address rest)
  then show ?case
    by (cases "SplitHostPort (trim_space address)")
      (auto simp: isUnspecifiedHost_def Let_def split: if_splits prod.splits)
qed simp

lemma join_host_named:
  assumes "ConfirmJoinServiceDefaults env cfg = Inr defaults"
  shows "JD_Host defaults \<noteq> []"
proof -
  obtain src where host: "confirmedJoinServiceHost env cfg = Inr (JD_Host defaults, src)"
    using assms by (auto simp: ConfirmJoinServiceDefaults_def rbind_eq_Inr split: prod.splits)
  let ?h = "trim_space (SC_JoinServiceHost cfg)"
  show ?thesis
  proof (cases "?h = []")
    case True
    then show ?thesis using host
      by (auto simp: confirmedJoinServiceHost_def simp del: candidate_host.simps dest: candidate_host_names
          split: option.splits if_splits)
  next
    case False
    then have valid: "validateOptionalServiceHost env ''join_service_host'' ?h = Inr ()"
      and "JD_Host defaults = config_trimIPv6Brackets ?h"
      using host by (auto simp: confirmedJoinServiceHost_def Let_def rbind_eq_Inr)
    then show ?thesis using brackets_only[of ?h] bracket_hosts_invalid[OF valid] False
      by (auto simp: config_trimIPv6Brackets_def)
  qed
qed

lemma rotation_defaults_valid:
  "0 \<le> LR_MaxSizeMB r \<Longrightarrow> 0 \<le> LR_MaxBackups r \<Longrightarrow> 0 \<le> LR_RetentionDays r \<Longrightarrow>
   rotation_Validate (rotation_WithDefaults r) = Inr ()"
  by (auto simp: rotation_Validate_def rotation_WithDefaults_def DefaultLogRotation_def Let_def)

end
