(* ===== verification/Spec2Isabelle.thy ===== *)
theory Spec2Isabelle
  imports Routing Listener SessionInv StoreProps ListenerProps Stats LocalProxy WebProps ControlProps MuxProps EndToEnd CertDiskProps CertManagerProps AdminSystem AdminClaims SecretStore MigrationProps QueryProps ApiProps ConfigProps
begin

text \<open>
  A verification library for go-ginx-2, a reverse proxy in Go.

  The program. A server accepts traffic on public listeners (TCP, UDP, HTTP, HTTPS) and hands every
  connection to a client behind a firewall, over a control connection the client keeps open; the client
  dials the configured target and the bytes flow through a stream of that connection. Consumers reach
  forward proxies through streams of their own control connection. The configuration (users, clients,
  domains with their entries and certificates, proxies) is in a SQLite store; an administration with
  commands and queries changes and shows it; the listeners are reconciled with it after every change; a
  certificate manager issues and renews the certificates of the domains.

  Conventions. A struct is a record, a string enumeration stays a string with one abbreviation per
  constant, a method that reads is a function, a method that may fail returns \<open>error + value\<close>
  (\<open>result\<close>), and a method that changes state is a function of the state that returns result and
  state (\<open>op\<close>), so that what an error leaves behind is part of the model. Strings are byte
  lists; counters and durations wrap at 64 bits where the code can overflow; bytes are 8-bit words; a
  slice expression that Go would refuse at run time is the value \<open>None\<close>. A mutex makes a method one
  atomic step; where goroutines interleave, the model is a step relation and the theorem is about every
  run of it. What is not the code of the repository is an argument: hashes, X.509, protobuf, JSON, the
  ACME and Origin CA services, sockets, file system calls, the order of a Go map, random values, the clock.

  Foundations. Prelude: strings, strconv, errors, results, Go maps, times, the operations with state.
  NetIP: the functions of net and net/netip the code calls. Tables: SQL statements on lists of rows.

  Data and routing (internal/domain). Domain: records, validation, path and prefix functions. Routing:
  which web proxy serves a path, and where normalisation is not idempotent. Listener: effective entries
  of proxies and when two listeners exclude each other.

  Store (internal/store/sqlite). Store, ProxyStore, AccessStore, CertStore: one definition per method of a
  repository. StoreInv and StoreProps: keys stay distinct and references valid under every method, a
  token is redeemed once, a revocation removes all access. DomainMigration and MigrationProps: the
  migration of older installations. Stats: counters (internal/stats) and their restart.

  Control plane (internal/control, internal/session). Session, SessionInv: the session manager, its
  invariant and its refinement to a map from clients to sessions. Protocol: messages and frames, with
  their round trip. Mux, MuxProps: the stream multiplexer under every interleaving. Control,
  ControlProps: authentication, the life of a connection, the streams of consumers. Target, Tunnel: the
  far end of a stream.

  Entries (internal/proxy, internal/daemon). TlsHello: the ClientHello reader. HttpMessages, WebEntry,
  WebProps: HTTP and HTTPS entries with the access gate. PortEntries, PortProps: TCP and UDP entries.
  ListenerRuntime, ListenerProps: the listeners of the server and their reconciliation. LocalProxy: the
  target policy of server-local proxies (internal/localproxy). EndToEnd composes entries, protocol,
  control connection and far end: what is dialled is the configured target of an enabled proxy.

  Certificates (internal/certmanager, internal/proxy/https). CertDisk, CertDiskProps: files of a pair and
  every state of the disk during a replacement. CertResolver: which pair serves a name. CertManager,
  CertOperations, CertManagerProps: lifecycle, issue, renewal and the pass of the controller. SecretStore:
  the secrets of the providers. Enrollment: join tokens (internal/enrollment).

  Administration (internal/admin, internal/adminquery, internal/adminapi). AdminPolicies to AdminClients: one
  definition per operation of a service, whole, with its audit event and its rollback. AdminCommands: the
  commands as a datatype and the states a sequence of them reaches. AdminKeeps, AdminLaws, AdminGuards
  carry a predicate on the database through every command, in locales that list the methods of the store
  the commands may call; AdminFrames says which methods touch which tables. AdminTypes, AdminSystem,
  AdminAdmission and AdminClaims interpret them: the database stays well typed, the identity of the
  server itself stays as it is, and no two enabled TCP or UDP proxies claim excluding listeners.
  AdminQuery, QueryOps, QueryProps: dashboard, lists, pages and details.
  AdminApi, ApiProps: the administrator's session, and which requests of the HTTP interface reach a
  query or a command.

  Configuration (internal/config). Config, ConfigProps: defaults, validation, what a configuration stands
  for, and the managed start, which leaves a secret the administration accepts.

  Bounds and fuel. No definition runs on fuel: the loops are structural or have a measure (the search for
  a free stream id, the back-off, the exchange sort); a method that may block is an option or a step of a
  relation. Sessions of commands, frames and packets are lists of any length.

  Not modelled, and why. The listeners of QUIC and TLS, net/http and the sockets are I/O of libraries, and
  the goroutines that only copy bytes between them are the effects of the handlers. The schema statements
  of the store create what the records of the model have by construction. controlpb is generated.
  The GraphQL schema of internal/adminapi maps names
  to the operations of the services; internal/admintui, admin-ui
  and cmd are user interfaces over the same services. internal/logging, deploy and winservice talk to
  the operating system. The ACME and Cloudflare clients of internal/certmanager speak the protocols of other services. sdk wraps the
  client of internal/control for other programs.
\<close>

end
